(* ===== verification/Srat_Prelude.thy ===== *)
theory Srat_Prelude
  imports Main "HOL-Library.AList" "HOL-Library.Word"
begin

text \<open>
  Shared vocabulary of the development: the outcome of a Go call, Go maps as association
  lists, the part of the Go package \<open>strings\<close> the modelled code uses, and the contract of a
  component that reacts to a sequence of inputs.

  A Go map is an association list whose order is the order in which one \<open>range\<close> loop visits
  the entries. Go leaves that order open, so a statement about all association lists is a
  statement about every order the runtime may choose. Strings are lists of bytes; the white
  space that \<open>strings.TrimSpace\<close> removes is the ASCII white space.
\<close>

named_theorems go_map \<open>laws of Go maps\<close>
named_theorems go_str \<open>evaluation of Go string functions\<close>

section \<open>Outcomes\<close>

text \<open>
  The sentinel errors of \<open>dto/error_code.go\<close>, and \<open>ErrorOther\<close> for an error that carries
  none of them. An error keeps the sentinel (what \<open>errors.Is\<close> tests) and its message detail.
\<close>

datatype sentinel =
    ErrorNotFound | ErrorMountFail | ErrorUnmountFail | ErrorDeviceNotFound
  | ErrorDeviceAccess | ErrorUnknownFilesystem | ErrorInvalidParameter | ErrorDatabaseError
  | ErrorShareNotFound | ErrorShareAlreadyExists | ErrorAlreadyMounted
  | ErrorUserAlreadyExists | ErrorUserNotFound | ErrorPasswordRequired
  | ErrorNoUpdateAvailable | ErrorSMARTNotSupported | ErrorHDIdleNotSupported
  | ErrorOperationNotPermittedInProtectedMode | ErrorInvalidStateForOperation
  | ErrorSMARTOperationFailed | ErrorSMARTTestInProgress | ErrorConflict
  | ErrorUnsupportedFilesystem | ErrorOperationNotPermitted | ErrorLabModeRequired
  | ErrorHDIdleNonRotational | ErrorOther

datatype err = E (err_kind: sentinel) (err_msg: string)

text \<open>
  A Go call returns a value, returns an error, or panics (nil map write, nil dereference).
\<close>

datatype 'a res = Ok (res_val: 'a) | Err (res_err: err) | Panic

definition is_ok :: "'a res \<Rightarrow> bool" where
  "is_ok r = (case r of Ok _ \<Rightarrow> True | _ \<Rightarrow> False)"

lemma is_ok_simps [simp]: "is_ok (Ok x)" "\<not> is_ok (Err e)" "\<not> is_ok Panic"
  by (simp_all add: is_ok_def)

lemma is_ok_iff: "is_ok r \<longleftrightarrow> (\<exists>x. r = Ok x)"
  by (cases r) auto

section \<open>Go maps\<close>

type_synonym ('k, 'v) gomap = "('k \<times> 'v) list"

abbreviation keys :: "('k \<times> 'v) list \<Rightarrow> 'k list" where
  "keys m \<equiv> map fst m"

lemma update_lookup [go_map]:
  "map_of (AList.update k v m) k' = (if k' = k then Some v else map_of m k')"
  by (simp add: update_conv')

lemma delete_lookup [go_map]:
  "map_of (AList.delete k m) k' = (if k' = k then None else map_of m k')"
  by (simp add: delete_conv')

lemma distinct_keys_update [go_map]: "distinct (keys m) \<Longrightarrow> distinct (keys (AList.update k v m))"
  by (rule distinct_update)

lemma distinct_keys_delete [go_map]: "distinct (keys m) \<Longrightarrow> distinct (keys (AList.delete k m))"
  by (rule distinct_delete)

lemma set_update_distinct:
  "distinct (keys m) \<Longrightarrow> set (AList.update k v m) = insert (k, v) {p \<in> set m. fst p \<noteq> k}"
proof (induction m)
  case Nil
  then show ?case by simp
next
  case (Cons p m)
  then show ?case by (cases p) (auto simp: image_iff)
qed

lemma set_delete: "set (AList.delete k m) = {p \<in> set m. fst p \<noteq> k}"
  by (induction m) auto

lemma ball_update [go_map]:
  "\<lbrakk>distinct (keys m); \<forall>p \<in> set m. P p; P (k, v)\<rbrakk> \<Longrightarrow> \<forall>p \<in> set (AList.update k v m). P p"
  by (auto simp: set_update_distinct)

lemma ball_delete [go_map]: "\<forall>p \<in> set m. P p \<Longrightarrow> \<forall>p \<in> set (AList.delete k m). P p"
  by (auto simp: set_delete)

lemma map_of_in_set [go_map]: "map_of m k = Some v \<Longrightarrow> (k, v) \<in> set m"
  by (rule map_of_SomeD)

lemma map_of_iff_set: "distinct (keys m) \<Longrightarrow> map_of m k = Some v \<longleftrightarrow> (k, v) \<in> set m"
  by (simp add: map_of_eq_Some_iff)

text \<open>The first entry a \<open>range\<close> loop stops at.\<close>

fun first_some :: "('a \<Rightarrow> 'b option) \<Rightarrow> 'a list \<Rightarrow> 'b option" where
  "first_some f [] = None"
| "first_some f (x # xs) = (case f x of Some y \<Rightarrow> Some y | None \<Rightarrow> first_some f xs)"

lemma first_some_Some: "first_some f xs = Some y \<Longrightarrow> \<exists>x \<in> set xs. f x = Some y"
  by (induction xs) (auto split: option.splits)

lemma first_some_None: "first_some f xs = None \<longleftrightarrow> (\<forall>x \<in> set xs. f x = None)"
  by (induction xs) (auto split: option.splits)

lemma first_some_exists: "x \<in> set xs \<Longrightarrow> f x = Some y \<Longrightarrow> \<exists>z. first_some f xs = Some z"
  by (metis first_some_None not_Some_eq)

text \<open>The zero value behind an optional field: Go's empty string, false.\<close>

definition str_or_empty :: "string option \<Rightarrow> string" where
  "str_or_empty s = (case s of None \<Rightarrow> [] | Some x \<Rightarrow> x)"

definition is_true :: "bool option \<Rightarrow> bool" where
  "is_true b = (b = Some True)"

definition non_empty :: "string option \<Rightarrow> bool" where
  "non_empty s = (case s of None \<Rightarrow> False | Some x \<Rightarrow> x \<noteq> [])"

lemma non_empty_iff: "non_empty s \<longleftrightarrow> (\<exists>x. s = Some x \<and> x \<noteq> [])"
  by (auto simp: non_empty_def split: option.splits)

section \<open>Go integers\<close>

text \<open>
  A Go \<open>int\<close> or \<open>time.Duration\<close> is 64 bits wide and wraps; division truncates toward zero.
\<close>

definition wrap64 :: "int \<Rightarrow> int" where
  "wrap64 i = (i + 2 ^ 63) mod 2 ^ 64 - 2 ^ 63"

definition go_div :: "int \<Rightarrow> int \<Rightarrow> int" where
  "go_div a b = sgn a * sgn b * (\<bar>a\<bar> div \<bar>b\<bar>)"

lemma wrap64_id: "- (2 ^ 63) \<le> i \<Longrightarrow> i < 2 ^ 63 \<Longrightarrow> wrap64 i = i"
  by (simp add: wrap64_def)

lemma go_div_nonneg: "0 \<le> a \<Longrightarrow> 0 < b \<Longrightarrow> go_div a b = a div b"
  by (cases "a = 0") (simp_all add: go_div_def)

section \<open>Go strings\<close>

definition is_space :: "char \<Rightarrow> bool" where
  "is_space c = (c \<in> {CHR '' '', CHR 0x09, CHR 0x0A, CHR 0x0B, CHR 0x0C, CHR 0x0D})"

definition TrimSpace :: "string \<Rightarrow> string" where
  "TrimSpace s = rev (dropWhile is_space (rev (dropWhile is_space s)))"

definition HasPrefix :: "string \<Rightarrow> string \<Rightarrow> bool" where
  "HasPrefix s p = (take (length p) s = p)"

definition TrimPrefix :: "string \<Rightarrow> string \<Rightarrow> string" where
  "TrimPrefix s p = (if HasPrefix s p then drop (length p) s else s)"

fun Contains :: "string \<Rightarrow> string \<Rightarrow> bool" where
  "Contains [] p = (p = [])"
| "Contains (c # s) p = (HasPrefix (c # s) p \<or> Contains s p)"

fun Index :: "string \<Rightarrow> string \<Rightarrow> nat option" where
  "Index [] p = (if p = [] then Some 0 else None)"
| "Index (c # s) p = (if HasPrefix (c # s) p then Some 0 else map_option Suc (Index s p))"

text \<open>\<open>strings.Split\<close> with a one-byte separator: never the empty list.\<close>

fun Split :: "string \<Rightarrow> char \<Rightarrow> string list" where
  "Split [] sep = [[]]"
| "Split (c # s) sep =
     (if c = sep then [] # Split s sep
      else (case Split s sep of [] \<Rightarrow> [[c]] | w # ws \<Rightarrow> (c # w) # ws))"

text \<open>\<open>strings.SplitN(s, sep, 2)\<close>: the part before the first separator and the rest.\<close>

fun SplitN2 :: "string \<Rightarrow> char \<Rightarrow> string list" where
  "SplitN2 [] sep = [[]]"
| "SplitN2 (c # s) sep =
     (if c = sep then [[], s]
      else (case SplitN2 s sep of [] \<Rightarrow> [[c]] | w # ws \<Rightarrow> (c # w) # ws))"

fun Join :: "string list \<Rightarrow> string \<Rightarrow> string" where
  "Join [] sep = []"
| "Join [x] sep = x"
| "Join (x # y # xs) sep = x @ sep @ Join (y # xs) sep"

definition lower_char :: "char \<Rightarrow> char" where
  "lower_char c =
     (let n = of_char c :: nat in if 65 \<le> n \<and> n \<le> 90 then char_of (n + 32) else c)"

definition ToLower :: "string \<Rightarrow> string" where
  "ToLower s = map lower_char s"

definition EqualFold :: "string \<Rightarrow> string \<Rightarrow> bool" where
  "EqualFold s t = (ToLower s = ToLower t)"

lemma Split_not_Nil [simp]: "Split s sep \<noteq> []"
  by (induction s) (auto split: list.splits)

lemma Split_Join:
  "\<lbrakk>ws \<noteq> []; \<forall>w \<in> set ws. sep \<notin> set w\<rbrakk> \<Longrightarrow> Split (Join ws [sep]) sep = ws"
proof (induction ws)
  case Nil
  then show ?case by simp
next
  case (Cons w ws)
  have single: "sep \<notin> set v \<Longrightarrow> Split v sep = [v]" for v
    by (induction v) auto
  have app: "sep \<notin> set v \<Longrightarrow> Split (v @ sep # r) sep = v # Split r sep" for v r
    by (induction v) auto
  show ?case
  proof (cases ws)
    case Nil
    with Cons.prems single show ?thesis by simp
  next
    case (Cons v vs)
    with Cons.prems Cons.IH app show ?thesis by simp
  qed
qed

lemma SplitN2_app: "sep \<notin> set v \<Longrightarrow> SplitN2 (v @ sep # r) sep = [v, r]"
  by (induction v) auto

lemma SplitN2_none: "sep \<notin> set v \<Longrightarrow> SplitN2 v sep = [v]"
  by (induction v) auto

lemma Contains_single: "Contains s [c] \<longleftrightarrow> c \<in> set s"
  by (induction s) (auto simp: HasPrefix_def)

lemma set_Join: "set (Join ws sep) \<subseteq> (\<Union>w \<in> set ws. set w) \<union> set sep"
  by (induction ws sep rule: Join.induct) auto

lemma Join_snoc: "ws \<noteq> [] \<Longrightarrow> Join (ws @ [w]) sep = Join ws sep @ sep @ w"
  by (induction ws sep rule: Join.induct) auto

lemma dropWhile_last: "dropWhile P xs \<noteq> [] \<Longrightarrow> last (dropWhile P xs) = last xs"
  by (induction xs) auto

lemma TrimSpace_hd: "TrimSpace s \<noteq> [] \<Longrightarrow> \<not> is_space (hd (TrimSpace s))"
proof -
  assume ne: "TrimSpace s \<noteq> []"
  let ?d = "dropWhile is_space s"
  have r: "dropWhile is_space (rev ?d) \<noteq> []" using ne unfolding TrimSpace_def by (metis rev.simps(1))
  then have d: "?d \<noteq> []" by (metis dropWhile.simps(1) rev.simps(1))
  have "hd (TrimSpace s) = last (dropWhile is_space (rev ?d))"
    using r by (simp add: TrimSpace_def hd_rev)
  also have "\<dots> = last (rev ?d)" using r by (rule dropWhile_last)
  also have "\<dots> = hd ?d" using d by (simp add: last_rev)
  finally show ?thesis using d by (simp add: hd_dropWhile)
qed

lemma TrimSpace_id:
  "s = [] \<or> (\<not> is_space (hd s) \<and> \<not> is_space (last s)) \<Longrightarrow> TrimSpace s = s"
proof (cases s)
  case Nil
  then show ?thesis by (simp add: TrimSpace_def)
next
  case (Cons c t)
  assume "s = [] \<or> (\<not> is_space (hd s) \<and> \<not> is_space (last s))"
  with Cons have h: "\<not> is_space (hd s)" and l: "\<not> is_space (last s)" by auto
  from h Cons have "dropWhile is_space s = s" by simp
  moreover have "dropWhile is_space (rev s) = rev s"
  proof (cases "rev s")
    case Nil
    then show ?thesis by simp
  next
    case (Cons d u)
    then have "d = last s" by (metis hd_rev list.sel(1))
    with l have "\<not> is_space d" by simp
    then show ?thesis unfolding Cons by simp
  qed
  ultimately show ?thesis by (simp add: TrimSpace_def)
qed

lemma TrimSpace_idem [simp]: "TrimSpace (TrimSpace s) = TrimSpace s"
proof (cases "TrimSpace s = []")
  case True
  have "TrimSpace [] = []" by (simp add: TrimSpace_def)
  with True show ?thesis by simp
next
  case False
  let ?r = "dropWhile is_space (rev (dropWhile is_space s))"
  have "?r \<noteq> []" using False unfolding TrimSpace_def by (metis rev.simps(1))
  then have "\<not> is_space (hd ?r)" by (simp add: hd_dropWhile)
  then have "\<not> is_space (last (TrimSpace s))" by (simp add: TrimSpace_def last_rev)
  with TrimSpace_hd [OF False] show ?thesis by (intro TrimSpace_id) simp
qed

section \<open>Components that react to a sequence of inputs\<close>

text \<open>
  Most components of the program are a state and a handler: an input arrives, the handler
  returns the next state. The contract is an invariant every step with a valid input keeps
  and, for facts that hold from the first state on, a relation between a state and a later one
  that every step respects. Both then hold for every sequence of valid inputs.
\<close>

locale invariant_steps =
  fixes step :: "'s \<Rightarrow> 'e \<Rightarrow> 's" and valid :: "'e \<Rightarrow> bool" and inv :: "'s \<Rightarrow> bool"
  assumes inv_step: "inv s \<Longrightarrow> valid e \<Longrightarrow> inv (step s e)"
begin

lemma inv_run: "inv s \<Longrightarrow> list_all valid es \<Longrightarrow> inv (foldl step s es)"
  by (induction es arbitrary: s) (auto intro: inv_step)

end

locale monotone_steps = invariant_steps +
  fixes later :: "'s \<Rightarrow> 's \<Rightarrow> bool"
  assumes later_refl: "later s s"
    and later_trans: "later s t \<Longrightarrow> later t u \<Longrightarrow> later s u"
    and later_step: "inv s \<Longrightarrow> valid e \<Longrightarrow> later s (step s e)"
begin

lemma later_run: "inv s \<Longrightarrow> list_all valid es \<Longrightarrow> later s (foldl step s es)"
proof (induction es arbitrary: s)
  case Nil
  show ?case by (simp add: later_refl)
next
  case (Cons e es)
  then have "later s (step s e)" by (simp add: later_step)
  moreover from Cons have "later (step s e) (foldl step (step s e) es)"
    by (simp add: inv_step)
  ultimately show ?case by (simp add: later_trans [of s "step s e"])
qed

end

end
