(* ===== verification/Srat_Types.thy ===== *)
theory Srat_Types
  imports Srat_Prelude
begin

text \<open>
  The data the services pass around: \<open>dto/disk.go\<close>, \<open>dto/mount_point_data.go\<close>,
  \<open>dto/shared_resource.go\<close>, \<open>dto/user.go\<close>, \<open>dto/hdidle.go\<close>, \<open>dto/smart.go\<close> and the parts of
  \<open>dto/filesystem.go\<close> and \<open>dto/filesystem_type.go\<close> they refer to.

  The Go types are cyclic: a mount point holds a pointer to its partition and to its share, and
  a share holds a pointer to its mount point. A mount point here holds the partition without
  its mount maps (\<open>part_ref\<close>) and the share without its mount point (\<open>share_ref\<close>); the full
  records extend them. \<open>None\<close> is the nil pointer or the nil map, \<open>RefreshVersion\<close> is the
  \<open>uint32\<close> it is in Go, and the \<open>zero_\<close> constants are Go's zero values, which a composite
  literal starts from.
\<close>

section \<open>Data\<close>

datatype TimeMachineSupport = UNSUPPORTED | SUPPORTED | EXPERIMENTAL | UNKNOWN
  | InvalidTimeMachineSupport

datatype HdidleEnabled = CUSTOMENABLED | NOENABLED | InvalidHdidleEnabled

datatype HdidleCommand = SCSICOMMAND | ATACOMMAND | InvalidHdidleCommand

record mount_flag =
  mf_Name :: string
  mf_Description :: string
  mf_NeedsValue :: bool
  mf_FlagValue :: string
  mf_ValueDescription :: string
  mf_ValueValidationRegex :: string

record fs_support =
  fs_CanMount :: bool
  fs_IsExportable :: bool
  fs_CanFormat :: bool
  fs_CanCheck :: bool
  fs_CanSetLabel :: bool
  fs_CanGetState :: bool
  fs_IsFormatReportProgress :: bool
  fs_IsCheckReportProgress :: bool
  fs_LabelRule :: string
  fs_AlpinePackage :: string
  fs_MissingTools :: "string list"

record fs_info =
  fi_Name :: string
  fi_Type :: string
  fi_Description :: string
  fi_CustomMountFlags :: "mount_flag list"
  fi_Support :: "fs_support option"

record user =
  u_Username :: string
  u_Password :: "string option"
  u_IsAdmin :: bool
  u_IsValid :: bool
  u_RwShares :: "string list"
  u_RoShares :: "string list"

record share_status =
  ss_IsValid :: bool
  ss_IsHAMounted :: bool

datatype HAMountUsage =
  UsageAsNone | UsageAsBackup | UsageAsMedia | UsageAsShare | UsageAsInternal
  | UsageOther string

record share_ref =
  sr_Name :: string
  sr_Disabled :: "bool option"
  sr_Users :: "user list"
  sr_RoUsers :: "user list"
  sr_TimeMachine :: "bool option"
  sr_RecycleBin :: "bool option"
  sr_GuestOk :: "bool option"
  sr_TimeMachineMaxSize :: "string option"
  sr_Usage :: HAMountUsage
  sr_VetoFiles :: "string list"
  sr_Status :: "share_status option"

record part_ref =
  p_LegacyDevicePath :: "string option"
  p_LegacyDeviceName :: "string option"
  p_DevicePath :: "string option"
  p_Id :: "string option"
  p_Uuid :: "string option"
  p_DiskId :: "string option"
  p_FsType :: "string option"
  p_FilesystemInfo :: "fs_info option"
  p_Name :: "string option"
  p_Size :: "int option"
  p_System :: "bool option"
  p_RefreshVersion :: "32 word"

record mount_point =
  mp_DiskLabel :: "string option"
  mp_DiskSerial :: "string option"
  mp_DiskSize :: "64 word option"
  mp_Path :: string
  mp_Root :: string
  mp_Type :: string
  mp_FSType :: "string option"
  mp_Flags :: "mount_flag list option"
  mp_CustomFlags :: "mount_flag list option"
  mp_DeviceId :: string
  mp_Partition :: "part_ref option"
  mp_IsMounted :: bool
  mp_IsInvalid :: bool
  mp_IsToMountAtStartup :: "bool option"
  mp_IsWriteSupported :: "bool option"
  mp_TimeMachineSupport :: "TimeMachineSupport option"
  mp_InvalidError :: "string option"
  mp_Warnings :: "string option"
  mp_Share :: "share_ref option"
  mp_RefreshVersion :: "32 word"

record partition = part_ref +
  p_HostMountPointData :: "(string, mount_point) gomap option"
  p_MountPointData :: "(string, mount_point) gomap option"

record shared_resource = share_ref +
  sr_MountPointData :: "mount_point option"

record hdidle_support =
  hs_Supported :: bool
  hs_SupportsSCSI :: bool
  hs_SupportsATA :: bool
  hs_RecommendedCommand :: "HdidleCommand option"
  hs_DevicePath :: string
  hs_ErrorMessage :: string

text \<open>Durations are Go's \<open>int64\<close> nanoseconds.\<close>

record hdidle_device = hdidle_support +
  hd_DiskId :: string
  hd_IdleTime :: int
  hd_CommandType :: HdidleCommand
  hd_PowerCondition :: "8 word"
  hd_Enabled :: HdidleEnabled
  hd_SuggestionIgnored :: bool
  hd_ForceEnabled :: bool

record smart_info =
  si_DiskId :: string
  si_Supported :: bool
  si_Enabled :: bool
  si_DiskType :: string
  si_ModelFamily :: string
  si_ModelName :: string
  si_SerialNumber :: string
  si_Firmware :: string
  si_RotationRate :: int

record disk =
  d_LegacyDeviceName :: "string option"
  d_LegacyDevicePath :: "string option"
  d_DevicePath :: "string option"
  d_ConnectionBus :: "string option"
  d_Ejectable :: "bool option"
  d_Partitions :: "(string, partition) gomap option"
  d_Id :: "string option"
  d_Model :: "string option"
  d_Removable :: "bool option"
  d_Revision :: "string option"
  d_Seat :: "string option"
  d_Serial :: "string option"
  d_Size :: "int option"
  d_Vendor :: "string option"
  d_SmartInfo :: "smart_info option"
  d_HDIdleDevice :: "hdidle_device option"
  d_IsRotational :: "bool option"
  d_RefreshVersion :: "32 word"

type_synonym mount_map = "(string, mount_point) gomap"
type_synonym part_map = "(string, partition) gomap"
type_synonym DiskMap = "(string, disk) gomap option"

text \<open>\<open>*part\<close> as the pointer stored in a mount point.\<close>

abbreviation ref_of :: "partition \<Rightarrow> part_ref" where
  "ref_of p \<equiv> part_ref.truncate p"

section \<open>Zero values\<close>

definition zero_mount_flag :: mount_flag where
  "zero_mount_flag = \<lparr>mf_Name = [], mf_Description = [], mf_NeedsValue = False,
     mf_FlagValue = [], mf_ValueDescription = [], mf_ValueValidationRegex = []\<rparr>"

definition zero_partition :: partition where
  "zero_partition = \<lparr>p_LegacyDevicePath = None, p_LegacyDeviceName = None,
     p_DevicePath = None, p_Id = None, p_Uuid = None, p_DiskId = None, p_FsType = None,
     p_FilesystemInfo = None, p_Name = None, p_Size = None, p_System = None,
     p_RefreshVersion = 0, p_HostMountPointData = None, p_MountPointData = None\<rparr>"

definition zero_mount_point :: mount_point where
  "zero_mount_point = \<lparr>mp_DiskLabel = None, mp_DiskSerial = None, mp_DiskSize = None,
     mp_Path = [], mp_Root = [], mp_Type = [], mp_FSType = None, mp_Flags = None,
     mp_CustomFlags = None, mp_DeviceId = [], mp_Partition = None, mp_IsMounted = False,
     mp_IsInvalid = False, mp_IsToMountAtStartup = None, mp_IsWriteSupported = None,
     mp_TimeMachineSupport = None, mp_InvalidError = None, mp_Warnings = None,
     mp_Share = None, mp_RefreshVersion = 0\<rparr>"

definition zero_share :: shared_resource where
  "zero_share = \<lparr>sr_Name = [], sr_Disabled = None, sr_Users = [], sr_RoUsers = [],
     sr_TimeMachine = None, sr_RecycleBin = None, sr_GuestOk = None,
     sr_TimeMachineMaxSize = None, sr_Usage = UsageOther [], sr_VetoFiles = [],
     sr_Status = None, sr_MountPointData = None\<rparr>"

definition zero_disk :: disk where
  "zero_disk = \<lparr>d_LegacyDeviceName = None, d_LegacyDevicePath = None, d_DevicePath = None,
     d_ConnectionBus = None, d_Ejectable = None, d_Partitions = None, d_Id = None,
     d_Model = None, d_Removable = None, d_Revision = None, d_Seat = None, d_Serial = None,
     d_Size = None, d_Vendor = None, d_SmartInfo = None, d_HDIdleDevice = None,
     d_IsRotational = None, d_RefreshVersion = 0\<rparr>"

lemmas zero_defs = zero_mount_flag_def zero_partition_def zero_mount_point_def
  zero_share_def zero_disk_def

end
