(* ===== verification/Disk_Map.thy ===== *)
theory Disk_Map
  imports Srat_Types
begin

text \<open>
  The in-memory disk cache (\<open>dto/disk_map.go\<close>): disks keyed by id, each with partitions
  keyed by id, each with mount points keyed by path, three levels of nil-able Go maps.

  A method that changes the map returns the new map; a method that returns an error leaves
  the map unchanged and the model returns no map. The laws of these operations are in
  \<open>Disk_Views\<close>.
\<close>

section \<open>Operations\<close>

definition AddOrUpdate :: "DiskMap \<Rightarrow> disk \<Rightarrow> DiskMap res" where
  "AddOrUpdate m d =
     (case d_Id d of
        None \<Rightarrow> Err (E ErrorInvalidParameter ''disk id is nil or empty'')
      | Some i \<Rightarrow>
          if i = [] then Err (E ErrorInvalidParameter ''disk id is nil or empty'')
          else (case m of
                  None \<Rightarrow> Panic
                | Some al \<Rightarrow> Ok (Some (AList.update i d al))))"

definition DiskMap_Remove :: "DiskMap \<Rightarrow> string \<Rightarrow> bool \<times> DiskMap" where
  "DiskMap_Remove m i =
     (case m of
        None \<Rightarrow> (False, m)
      | Some al \<Rightarrow>
          if i = [] then (False, m)
          else (case map_of al i of
                  None \<Rightarrow> (False, m)
                | Some _ \<Rightarrow> (True, Some (AList.delete i al))))"

definition DiskMap_Get :: "DiskMap \<Rightarrow> string \<Rightarrow> disk option" where
  "DiskMap_Get m i =
     (case m of None \<Rightarrow> None | Some al \<Rightarrow> if i = [] then None else map_of al i)"

text \<open>
  \<open>(*d.Partitions)[pid] = part; (*m)[did] = d\<close>, and the same one level down for a mount
  point: the write-back every mutating method ends with.
\<close>

definition put_partition ::
  "(string, disk) gomap \<Rightarrow> string \<Rightarrow> disk \<Rightarrow> part_map \<Rightarrow> string \<Rightarrow> partition \<Rightarrow> DiskMap" where
  "put_partition al did d ps pid part =
     Some (AList.update did (d\<lparr>d_Partitions := Some (AList.update pid part ps)\<rparr>) al)"

definition mounts_of :: "partition \<Rightarrow> mount_map" where
  "mounts_of part = (case p_MountPointData part of None \<Rightarrow> [] | Some mm \<Rightarrow> mm)"

definition parts_of :: "disk \<Rightarrow> part_map" where
  "parts_of d = (case d_Partitions d of None \<Rightarrow> [] | Some ps \<Rightarrow> ps)"

definition complete_mount_point :: "partition \<Rightarrow> mount_point \<Rightarrow> mount_point" where
  "complete_mount_point part mpd =
     (let mpd1 = (case p_Id part of
                    Some i \<Rightarrow> if mp_DeviceId mpd = [] then mpd\<lparr>mp_DeviceId := i\<rparr> else mpd
                  | None \<Rightarrow> mpd)
      in if mp_Partition mpd1 = None then mpd1\<lparr>mp_Partition := Some (ref_of part)\<rparr> else mpd1)"

definition AddOrUpdateMountPoint ::
  "DiskMap \<Rightarrow> string \<Rightarrow> string \<Rightarrow> mount_point \<Rightarrow> DiskMap res" where
  "AddOrUpdateMountPoint m did pid mpd =
     (case m of
        None \<Rightarrow> Err (E ErrorNotFound ''disk map is nil or empty'')
      | Some al \<Rightarrow>
          if did = [] then Err (E ErrorInvalidParameter ''disk id is empty'')
          else if pid = [] then Err (E ErrorInvalidParameter ''partition id is empty'')
          else if mp_Path mpd = [] then Err (E ErrorInvalidParameter ''mount point path is empty'')
          else (case map_of al did of
                  None \<Rightarrow> Err (E ErrorNotFound ''disk not found'')
                | Some d \<Rightarrow>
                    (case d_Partitions d of
                       None \<Rightarrow> Err (E ErrorNotFound ''disk has no partitions'')
                     | Some ps \<Rightarrow>
                         (case map_of ps pid of
                            None \<Rightarrow> Err (E ErrorNotFound ''partition not found'')
                          | Some part \<Rightarrow>
                              let mpd' = complete_mount_point part mpd;
                                  part' = part\<lparr>p_MountPointData :=
                                    Some (AList.update (mp_Path mpd') mpd' (mounts_of part))\<rparr>
                              in Ok (put_partition al did d ps pid part')))))"

definition RemoveMountPoint ::
  "DiskMap \<Rightarrow> string \<Rightarrow> string \<Rightarrow> string \<Rightarrow> bool \<times> DiskMap" where
  "RemoveMountPoint m did pid path =
     (case m of
        None \<Rightarrow> (False, m)
      | Some al \<Rightarrow>
          if did = [] \<or> pid = [] \<or> path = [] then (False, m)
          else (case map_of al did of
                  None \<Rightarrow> (False, m)
                | Some d \<Rightarrow>
                    (case d_Partitions d of
                       None \<Rightarrow> (False, m)
                     | Some ps \<Rightarrow>
                         (case map_of ps pid of
                            None \<Rightarrow> (False, m)
                          | Some part \<Rightarrow>
                              (case p_MountPointData part of
                                 None \<Rightarrow> (False, m)
                               | Some mm \<Rightarrow>
                                   (case map_of mm path of
                                      None \<Rightarrow> (False, m)
                                    | Some _ \<Rightarrow>
                                        (True, put_partition al did d ps pid
                                           (part\<lparr>p_MountPointData :=
                                              Some (AList.delete path mm)\<rparr>))))))))"

definition AddPartition :: "DiskMap \<Rightarrow> string \<Rightarrow> partition \<Rightarrow> DiskMap res" where
  "AddPartition m did p =
     (case m of
        None \<Rightarrow> Err (E ErrorNotFound ''disk map is nil or empty'')
      | Some al \<Rightarrow>
          if did = [] then Err (E ErrorInvalidParameter ''disk id is empty'')
          else (case p_Id p of
                  None \<Rightarrow> Err (E ErrorInvalidParameter ''partition id is nil or empty'')
                | Some pid \<Rightarrow>
                    if pid = [] then Err (E ErrorInvalidParameter ''partition id is nil or empty'')
                    else (case map_of al did of
                            None \<Rightarrow> Err (E ErrorNotFound ''disk not found'')
                          | Some d \<Rightarrow>
                              let p' = (if p_DiskId p = Some did then p
                                        else p\<lparr>p_DiskId := Some did\<rparr>)
                              in Ok (put_partition al did d (parts_of d) pid p'))))"

definition RemovePartition :: "DiskMap \<Rightarrow> string \<Rightarrow> string \<Rightarrow> bool \<times> DiskMap" where
  "RemovePartition m did pid =
     (case m of
        None \<Rightarrow> (False, m)
      | Some al \<Rightarrow>
          if did = [] \<or> pid = [] then (False, m)
          else (case map_of al did of
                  None \<Rightarrow> (False, m)
                | Some d \<Rightarrow>
                    (case d_Partitions d of
                       None \<Rightarrow> (False, m)
                     | Some ps \<Rightarrow>
                         (case map_of ps pid of
                            None \<Rightarrow> (False, m)
                          | Some _ \<Rightarrow>
                              (True, Some (AList.update did
                                 (d\<lparr>d_Partitions := Some (AList.delete pid ps)\<rparr>) al))))))"

definition GetPartition :: "DiskMap \<Rightarrow> string \<Rightarrow> string \<Rightarrow> partition option" where
  "GetPartition m did pid =
     (case m of
        None \<Rightarrow> None
      | Some al \<Rightarrow>
          if did = [] \<or> pid = [] then None
          else (case map_of al did of
                  None \<Rightarrow> None
                | Some d \<Rightarrow>
                    (case d_Partitions d of None \<Rightarrow> None | Some ps \<Rightarrow> map_of ps pid)))"

definition GetMountPoint ::
  "DiskMap \<Rightarrow> string \<Rightarrow> string \<Rightarrow> string \<Rightarrow> mount_point option" where
  "GetMountPoint m did pid path =
     (if path = [] then None
      else (case GetPartition m did pid of
              None \<Rightarrow> None
            | Some part \<Rightarrow>
                (case p_MountPointData part of None \<Rightarrow> None | Some mm \<Rightarrow> map_of mm path)))"

text \<open>
  A nested \<open>range\<close> over all partitions, and over all mount points, that stops at the first
  hit of \<open>f\<close>.
\<close>

definition search_partitions ::
  "(string, disk) gomap \<Rightarrow> (string \<Rightarrow> disk \<Rightarrow> string \<Rightarrow> partition \<Rightarrow> 'b option) \<Rightarrow> 'b option" where
  "search_partitions al f =
     first_some (\<lambda>(did, d).
       case d_Partitions d of
         None \<Rightarrow> None
       | Some ps \<Rightarrow> first_some (\<lambda>(pid, part). f did d pid part) ps) al"

definition GetMountPointByPath :: "DiskMap \<Rightarrow> string \<Rightarrow> mount_point option" where
  "GetMountPointByPath m path =
     (case m of
        None \<Rightarrow> None
      | Some al \<Rightarrow>
          if path = [] then None
          else search_partitions al (\<lambda>did d pid part.
                 case p_MountPointData part of None \<Rightarrow> None | Some mm \<Rightarrow> map_of mm path))"

definition GetAllMountPoints :: "DiskMap \<Rightarrow> mount_point list" where
  "GetAllMountPoints m =
     (case m of
        None \<Rightarrow> []
      | Some al \<Rightarrow>
          concat (map (\<lambda>(did, d).
            case d_Partitions d of
              None \<Rightarrow> []
            | Some ps \<Rightarrow>
                concat (map (\<lambda>(pid, part).
                  case p_MountPointData part of None \<Rightarrow> [] | Some mm \<Rightarrow> map snd mm) ps)) al))"

definition AddMountPointShare ::
  "DiskMap \<Rightarrow> shared_resource option \<Rightarrow> (disk \<times> DiskMap) res" where
  "AddMountPointShare m share =
     (case m of
        None \<Rightarrow> Err (E ErrorNotFound ''disk map is nil or empty'')
      | Some al \<Rightarrow>
       (case share of
          None \<Rightarrow> Err (E ErrorInvalidParameter ''share is nil'')
        | Some sh \<Rightarrow>
         (case sr_MountPointData sh of
            None \<Rightarrow> Err (E ErrorInvalidParameter ''share mount point data is nil'')
          | Some smp \<Rightarrow>
           if mp_Path smp = [] then Err (E ErrorInvalidParameter ''mount point path is empty'')
           else
            (let path = mp_Path smp;
                 target =
                   (case mp_Partition smp of
                      Some pr \<Rightarrow>
                        if \<not> non_empty (p_DiskId pr)
                        then Err (E ErrorInvalidParameter ''partition disk id is nil or empty'')
                        else if \<not> non_empty (p_Id pr)
                        then Err (E ErrorInvalidParameter ''partition id is nil or empty'')
                        else Ok (the (p_DiskId pr), the (p_Id pr))
                    | None \<Rightarrow>
                        (case search_partitions al (\<lambda>did d pid part.
                                case p_MountPointData part of
                                  None \<Rightarrow> None
                                | Some mm \<Rightarrow>
                                    if map_of mm path \<noteq> None then Some (did, pid) else None) of
                           None \<Rightarrow> Err (E ErrorNotFound ''mount point not found'')
                         | Some t \<Rightarrow> Ok t))
             in (case target of
                   Err e \<Rightarrow> Err e
                 | Panic \<Rightarrow> Panic
                 | Ok (did, pid) \<Rightarrow>
                    (case map_of al did of
                       None \<Rightarrow> Err (E ErrorNotFound ''disk not found'')
                     | Some d \<Rightarrow>
                        (case d_Partitions d of
                           None \<Rightarrow> Err (E ErrorNotFound ''disk has no partitions'')
                         | Some ps \<Rightarrow>
                            (case map_of ps pid of
                               None \<Rightarrow> Err (E ErrorNotFound ''partition not found'')
                             | Some part \<Rightarrow>
                                (case p_MountPointData part of
                                   None \<Rightarrow> Err (E ErrorNotFound ''partition has no mount points'')
                                 | Some mm \<Rightarrow>
                                    (case map_of mm path of
                                       None \<Rightarrow> Err (E ErrorNotFound ''mount point not found'')
                                     | Some mp \<Rightarrow>
                                         let part' = part\<lparr>p_MountPointData := Some (AList.update path
                                               (mp\<lparr>mp_Share := Some (share_ref.truncate sh)\<rparr>) mm)\<rparr>;
                                             d' = d\<lparr>d_Partitions := Some (AList.update pid part' ps)\<rparr>
                                         in Ok (d', put_partition al did d ps pid part')))))))))))"

definition share_hit ::
  "string \<Rightarrow> string \<Rightarrow> disk \<Rightarrow> string \<Rightarrow> partition \<Rightarrow>
     (string \<times> disk \<times> string \<times> partition \<times> mount_map \<times> string \<times> mount_point) option" where
  "share_hit shareName did d pid part =
     (case p_MountPointData part of
        None \<Rightarrow> None
      | Some mm \<Rightarrow>
          first_some (\<lambda>(mpPath, mp).
            case mp_Share mp of
              None \<Rightarrow> None
            | Some sh \<Rightarrow>
                if sr_Name sh = shareName then Some (did, d, pid, part, mm, mpPath, mp) else None) mm)"

definition RemoveMountPointShare :: "DiskMap \<Rightarrow> string \<Rightarrow> (bool \<times> disk option) \<times> DiskMap" where
  "RemoveMountPointShare m shareName =
     (case m of
        None \<Rightarrow> ((False, None), m)
      | Some al \<Rightarrow>
          if shareName = [] then ((False, None), m)
          else (case search_partitions al (share_hit shareName) of
                  None \<Rightarrow> ((False, None), m)
                | Some (did, d, pid, part, mm, mpPath, mp) \<Rightarrow>
                    let part' = part\<lparr>p_MountPointData :=
                          Some (AList.update mpPath (mp\<lparr>mp_Share := None\<rparr>) mm)\<rparr>;
                        ps = the (d_Partitions d);
                        d' = d\<lparr>d_Partitions := Some (AList.update pid part' ps)\<rparr>
                    in ((True, Some d'), put_partition al did d ps pid part')))"

definition AddHDIdleDevice :: "DiskMap \<Rightarrow> hdidle_device \<Rightarrow> DiskMap res" where
  "AddHDIdleDevice m dev =
     (case m of
        None \<Rightarrow> Err (E ErrorNotFound ''disk map is nil or empty'')
      | Some al \<Rightarrow>
          if hd_DiskId dev = [] then Err (E ErrorInvalidParameter ''disk id is empty'')
          else (case map_of al (hd_DiskId dev) of
                  None \<Rightarrow> Err (E ErrorNotFound ''disk not found'')
                | Some d \<Rightarrow>
                    Ok (Some (AList.update (hd_DiskId dev) (d\<lparr>d_HDIdleDevice := Some dev\<rparr>) al))))"

definition AddSmartInfo :: "DiskMap \<Rightarrow> smart_info \<Rightarrow> DiskMap res" where
  "AddSmartInfo m si =
     (case m of
        None \<Rightarrow> Err (E ErrorNotFound ''disk map is nil or empty'')
      | Some al \<Rightarrow>
          if si_DiskId si = [] then Err (E ErrorInvalidParameter ''disk id is empty'')
          else (case map_of al (si_DiskId si) of
                  None \<Rightarrow> Err (E ErrorNotFound ''disk not found'')
                | Some d \<Rightarrow>
                    Ok (Some (AList.update (si_DiskId si) (d\<lparr>d_SmartInfo := Some si\<rparr>) al))))"

definition GetPartitionDevicePath :: "('a part_ref_scheme) option \<Rightarrow> string" where
  "GetPartitionDevicePath part =
     (case part of
        None \<Rightarrow> []
      | Some p \<Rightarrow>
          if non_empty (p_DevicePath p) then the (p_DevicePath p)
          else if non_empty (p_LegacyDevicePath p) then the (p_LegacyDevicePath p)
          else if non_empty (p_LegacyDeviceName p) then the (p_LegacyDeviceName p)
          else [])"

definition GetPartitionByID :: "DiskMap \<Rightarrow> string \<Rightarrow> (partition \<times> string) option" where
  "GetPartitionByID m partitionID =
     (case m of
        None \<Rightarrow> None
      | Some al \<Rightarrow>
          if partitionID = [] then None
          else first_some (\<lambda>(did, d).
                 case d_Partitions d of
                   None \<Rightarrow> None
                 | Some ps \<Rightarrow>
                     map_option (\<lambda>p. (p, did)) (map_of ps partitionID)) al)"

end
