(* ===== verification/Disk_Views.thy ===== *)
theory Disk_Views
  imports Disk_Map
begin

text \<open>
  The laws of the disk cache. \<open>dm_wf\<close> is the invariant the keys obey (every disk, partition and
  mount point is stored under its own non-empty id or path); \<open>disk_at\<close>, \<open>part_at\<close> and
  \<open>mount_at\<close> are the abstract views a client reads: partial functions from a disk id, from
  (disk, partition) and from (disk, partition, path). Every operation is characterised by its
  effect on these views, and the contract \<open>mount_cache\<close> states what the volume services rely on.
\<close>

section \<open>Abstract views\<close>

definition disk_at :: "DiskMap \<Rightarrow> string \<Rightarrow> disk option" where
  "disk_at m did = (case m of None \<Rightarrow> None | Some al \<Rightarrow> map_of al did)"

definition part_in :: "disk option \<Rightarrow> string \<Rightarrow> partition option" where
  "part_in d pid =
     (case d of None \<Rightarrow> None
      | Some d \<Rightarrow> (case d_Partitions d of None \<Rightarrow> None | Some ps \<Rightarrow> map_of ps pid))"

definition part_at :: "DiskMap \<Rightarrow> string \<Rightarrow> string \<Rightarrow> partition option" where
  "part_at m did pid = part_in (disk_at m did) pid"

definition mount_in :: "partition option \<Rightarrow> string \<Rightarrow> mount_point option" where
  "mount_in p path = (case p of None \<Rightarrow> None | Some p \<Rightarrow> map_of (mounts_of p) path)"

definition mount_at :: "DiskMap \<Rightarrow> string \<Rightarrow> string \<Rightarrow> string \<Rightarrow> mount_point option" where
  "mount_at m did pid path = mount_in (part_at m did pid) path"

lemmas view_defs = disk_at_def part_in_def part_at_def mount_in_def mount_at_def

section \<open>The key invariant\<close>

definition mounts_wf :: "mount_map \<Rightarrow> bool" where
  "mounts_wf mm = (distinct (keys mm) \<and> (\<forall>(k, mp) \<in> set mm. mp_Path mp = k \<and> k \<noteq> []))"

definition part_wf :: "string \<times> partition \<Rightarrow> bool" where
  "part_wf e = (p_Id (snd e) = Some (fst e) \<and> fst e \<noteq> [] \<and> mounts_wf (mounts_of (snd e)))"

definition parts_wf :: "part_map \<Rightarrow> bool" where
  "parts_wf ps = (distinct (keys ps) \<and> (\<forall>e \<in> set ps. part_wf e))"

definition disk_wf :: "string \<times> disk \<Rightarrow> bool" where
  "disk_wf e = (d_Id (snd e) = Some (fst e) \<and> fst e \<noteq> []
     \<and> (case d_Partitions (snd e) of None \<Rightarrow> True | Some ps \<Rightarrow> parts_wf ps))"

definition dm_wf :: "DiskMap \<Rightarrow> bool" where
  "dm_wf m = (case m of None \<Rightarrow> True
     | Some al \<Rightarrow> distinct (keys al) \<and> (\<forall>e \<in> set al. disk_wf e))"

text \<open>
  The write-back keeps the invariant when the entry it writes does, and it changes the views
  at its own key only.
\<close>

lemma mounts_wf_update:
  "\<lbrakk>mounts_wf mm; mp_Path mp = path; path \<noteq> []\<rbrakk> \<Longrightarrow> mounts_wf (AList.update path mp mm)"
  unfolding mounts_wf_def by (auto simp: set_update_distinct distinct_keys_update)

lemma mounts_wf_delete: "mounts_wf mm \<Longrightarrow> mounts_wf (AList.delete path mm)"
  unfolding mounts_wf_def by (auto simp: set_delete distinct_keys_delete)

lemma mounts_wf_Nil [simp]: "mounts_wf []"
  by (simp add: mounts_wf_def)

lemma mounts_wf_lookup:
  "\<lbrakk>mounts_wf mm; map_of mm path = Some mp\<rbrakk> \<Longrightarrow> mp_Path mp = path \<and> path \<noteq> []"
  unfolding mounts_wf_def by (auto dest: map_of_in_set)

lemma mounts_of_simps [simp]:
  "mounts_of (p\<lparr>p_MountPointData := Some mm\<rparr>) = mm"
  "p_MountPointData p = Some mm \<Longrightarrow> mounts_of p = mm"
  "p_MountPointData p = None \<Longrightarrow> mounts_of p = []"
  "mounts_of (p\<lparr>p_DiskId := x\<rparr>) = mounts_of p"
  by (simp_all add: mounts_of_def)

lemma parts_wf_update:
  "\<lbrakk>parts_wf ps; part_wf (pid, part)\<rbrakk> \<Longrightarrow> parts_wf (AList.update pid part ps)"
  unfolding parts_wf_def by (auto simp: set_update_distinct distinct_keys_update)

lemma parts_wf_delete: "parts_wf ps \<Longrightarrow> parts_wf (AList.delete pid ps)"
  unfolding parts_wf_def by (auto simp: set_delete distinct_keys_delete)

lemma parts_wf_Nil [simp]: "parts_wf []"
  by (simp add: parts_wf_def)

lemma parts_wf_lookup: "\<lbrakk>parts_wf ps; map_of ps pid = Some part\<rbrakk> \<Longrightarrow> part_wf (pid, part)"
  unfolding parts_wf_def by (auto dest: map_of_in_set)

lemma dm_wf_update:
  "\<lbrakk>dm_wf (Some al); disk_wf (did, d)\<rbrakk> \<Longrightarrow> dm_wf (Some (AList.update did d al))"
  unfolding dm_wf_def by (auto simp: set_update_distinct distinct_keys_update)

lemma dm_wf_delete: "dm_wf (Some al) \<Longrightarrow> dm_wf (Some (AList.delete did al))"
  unfolding dm_wf_def by (auto simp: set_delete distinct_keys_delete)

lemma dm_wf_lookup: "\<lbrakk>dm_wf (Some al); map_of al did = Some d\<rbrakk> \<Longrightarrow> disk_wf (did, d)"
  unfolding dm_wf_def by (auto dest: map_of_in_set)

lemma disk_wf_parts:
  "\<lbrakk>disk_wf (did, d); d_Partitions d = Some ps\<rbrakk> \<Longrightarrow> parts_wf ps"
  by (simp add: disk_wf_def)

lemma disk_wf_set_parts:
  "\<lbrakk>disk_wf (did, d); parts_wf ps\<rbrakk> \<Longrightarrow> disk_wf (did, d\<lparr>d_Partitions := Some ps\<rparr>)"
  by (simp add: disk_wf_def)

lemma put_partition_wf:
  assumes "dm_wf (Some al)" "map_of al did = Some d"
    and "d_Partitions d = Some ps \<or> d_Partitions d = None \<and> ps = []"
    and "part_wf (pid, part)"
  shows "dm_wf (put_partition al did d ps pid part)"
proof -
  have d: "disk_wf (did, d)" using assms(1,2) by (rule dm_wf_lookup)
  then have "parts_wf ps" using assms(3) by (auto dest: disk_wf_parts)
  then have "parts_wf (AList.update pid part ps)" using assms(4) by (rule parts_wf_update)
  with d assms(1) show ?thesis
    unfolding put_partition_def by (intro dm_wf_update disk_wf_set_parts)
qed

lemma disk_at_put_partition:
  "disk_at (put_partition al did d ps pid part) did' =
     (if did' = did then Some (d\<lparr>d_Partitions := Some (AList.update pid part ps)\<rparr>)
      else map_of al did')"
  by (simp add: disk_at_def put_partition_def update_lookup)

lemma disk_at_Some [simp]: "disk_at (Some al) did = map_of al did"
  by (simp add: disk_at_def)

lemma disk_at_None [simp]: "disk_at None did = None"
  by (simp add: disk_at_def)

lemma part_in_simps [simp]:
  "part_in None pid = None"
  "part_in (Some (d\<lparr>d_Partitions := Some ps\<rparr>)) pid = map_of ps pid"
  "d_Partitions d = Some ps \<Longrightarrow> part_in (Some d) pid = map_of ps pid"
  "d_Partitions d = None \<Longrightarrow> part_in (Some d) pid = None"
  by (simp_all add: part_in_def)

lemma part_at_put_partition:
  assumes "map_of al did = Some d"
    and "d_Partitions d = Some ps \<or> d_Partitions d = None \<and> ps = []"
  shows "part_at (put_partition al did d ps pid part) did' pid' =
     (if did' = did \<and> pid' = pid then Some part else part_at (Some al) did' pid')"
  using assms by (auto simp: part_at_def disk_at_put_partition update_lookup)

section \<open>Laws of the operations\<close>

subsection \<open>Disks\<close>

lemma AddOrUpdate_Ok:
  "AddOrUpdate m d = Ok m' \<longleftrightarrow>
     (\<exists>al i. m = Some al \<and> d_Id d = Some i \<and> i \<noteq> [] \<and> m' = Some (AList.update i d al))"
  by (auto simp: AddOrUpdate_def split: option.splits if_splits)

lemma AddOrUpdate_wf:
  "\<lbrakk>dm_wf m; AddOrUpdate m d = Ok m'; d_Id d = Some i; disk_wf (i, d)\<rbrakk> \<Longrightarrow> dm_wf m'"
  by (auto simp: AddOrUpdate_Ok intro: dm_wf_update)

lemma disk_at_AddOrUpdate:
  "\<lbrakk>AddOrUpdate m d = Ok m'; d_Id d = Some i\<rbrakk> \<Longrightarrow>
     disk_at m' did = (if did = i then Some d else disk_at m did)"
  by (auto simp: AddOrUpdate_Ok update_lookup)

lemma DiskMap_Remove_wf: "dm_wf m \<Longrightarrow> dm_wf (snd (DiskMap_Remove m i))"
  by (auto simp: DiskMap_Remove_def intro: dm_wf_delete split: option.splits)

lemma wf_no_empty_disk: "dm_wf m \<Longrightarrow> disk_at m [] = None"
  by (cases m; cases "disk_at m []")
    (auto simp: disk_at_def dest!: dm_wf_lookup simp: disk_wf_def)

lemma wf_no_empty_part: "dm_wf m \<Longrightarrow> part_at m did [] = None"
proof (cases "part_at m did []")
  case (Some p)
  assume "dm_wf m"
  with Some show ?thesis
    by (auto simp: part_at_def disk_at_def part_in_def split: option.splits
        dest!: dm_wf_lookup disk_wf_parts parts_wf_lookup simp: part_wf_def)
qed

lemma wf_part_at: "\<lbrakk>dm_wf m; part_at m did pid = Some p\<rbrakk> \<Longrightarrow> part_wf (pid, p)"
  by (auto simp: part_at_def disk_at_def part_in_def split: option.splits
      dest!: dm_wf_lookup disk_wf_parts parts_wf_lookup)

lemma wf_mount_at:
  "\<lbrakk>dm_wf m; mount_at m did pid path = Some mp\<rbrakk> \<Longrightarrow> mp_Path mp = path \<and> path \<noteq> []"
  by (auto simp: mount_at_def mount_in_def part_wf_def split: option.splits
      dest!: wf_part_at dest: mounts_wf_lookup)

lemma disk_at_Remove:
  "dm_wf m \<Longrightarrow> disk_at (snd (DiskMap_Remove m i)) did = (if did = i then None else disk_at m did)"
  using wf_no_empty_disk [of m]
  by (auto simp: DiskMap_Remove_def disk_at_def delete_lookup split: option.splits)

lemma DiskMap_Remove_found:
  "dm_wf m \<Longrightarrow> fst (DiskMap_Remove m i) \<longleftrightarrow> disk_at m i \<noteq> None"
  using wf_no_empty_disk [of m]
  by (auto simp: DiskMap_Remove_def disk_at_def split: option.splits)

lemma DiskMap_Get_eq: "dm_wf m \<Longrightarrow> DiskMap_Get m i = disk_at m i"
  using wf_no_empty_disk [of m] by (auto simp: DiskMap_Get_def disk_at_def split: option.splits)

subsection \<open>Partitions\<close>

lemma parts_of_cases: "d_Partitions d = Some (parts_of d) \<or> d_Partitions d = None \<and> parts_of d = []"
  by (auto simp: parts_of_def split: option.splits)

lemma set_same_DiskId: "p_DiskId p = x \<Longrightarrow> p\<lparr>p_DiskId := x\<rparr> = p"
  by (cases p) simp

lemma AddPartition_Ok:
  "AddPartition m did p = Ok m' \<longleftrightarrow>
     (\<exists>al pid d. m = Some al \<and> did \<noteq> [] \<and> p_Id p = Some pid \<and> pid \<noteq> [] \<and> map_of al did = Some d
        \<and> m' = put_partition al did d (parts_of d) pid
                 (p\<lparr>p_DiskId := Some did\<rparr>))"
  by (auto simp: AddPartition_def Let_def set_same_DiskId split: option.splits if_splits)

lemma part_at_AddPartition:
  assumes "AddPartition m did p = Ok m'" "p_Id p = Some pid"
  shows "part_at m' did' pid' =
     (if did' = did \<and> pid' = pid then Some (p\<lparr>p_DiskId := Some did\<rparr>) else part_at m did' pid')"
  using assms parts_of_cases by (auto simp: AddPartition_Ok part_at_put_partition)

lemma AddPartition_wf:
  assumes "dm_wf m" "AddPartition m did p = Ok m'" "mounts_wf (mounts_of p)"
  shows "dm_wf m'"
  using assms parts_of_cases by (auto simp: AddPartition_Ok part_wf_def intro!: put_partition_wf)

lemma RemovePartition_wf: "dm_wf m \<Longrightarrow> dm_wf (snd (RemovePartition m did pid))"
  by (auto simp: RemovePartition_def split: option.splits
      intro!: dm_wf_update disk_wf_set_parts parts_wf_delete dest: dm_wf_lookup disk_wf_parts)

lemma part_at_RemovePartition:
  assumes "dm_wf m"
  shows "part_at (snd (RemovePartition m did pid)) did' pid' =
     (if did' = did \<and> pid' = pid then None else part_at m did' pid')"
  using wf_no_empty_part [OF assms, of did] wf_no_empty_disk [OF assms]
  by (auto simp: RemovePartition_def part_at_def disk_at_def update_lookup delete_lookup
      part_in_def split: option.splits)

lemma RemovePartition_found:
  "dm_wf m \<Longrightarrow> fst (RemovePartition m did pid) \<longleftrightarrow> part_at m did pid \<noteq> None"
  using wf_no_empty_part [of m did] wf_no_empty_disk [of m]
  by (auto simp: RemovePartition_def part_at_def disk_at_def part_in_def split: option.splits)

lemma GetPartition_eq: "dm_wf m \<Longrightarrow> GetPartition m did pid = part_at m did pid"
  using wf_no_empty_part [of m did] wf_no_empty_disk [of m]
  by (auto simp: GetPartition_def part_at_def disk_at_def part_in_def split: option.splits)

subsection \<open>Mount points\<close>

lemma complete_mount_point_simps [simp]:
  "mp_Path (complete_mount_point part mp) = mp_Path mp"
  "mp_Root (complete_mount_point part mp) = mp_Root mp"
  "mp_Type (complete_mount_point part mp) = mp_Type mp"
  "mp_IsMounted (complete_mount_point part mp) = mp_IsMounted mp"
  "mp_IsToMountAtStartup (complete_mount_point part mp) = mp_IsToMountAtStartup mp"
  "mp_RefreshVersion (complete_mount_point part mp) = mp_RefreshVersion mp"
  "mp_Share (complete_mount_point part mp) = mp_Share mp"
  by (simp_all add: complete_mount_point_def Let_def split: option.splits)

lemma complete_mount_point_partition:
  "mp_Partition (complete_mount_point part mp) \<noteq> None"
  by (simp add: complete_mount_point_def Let_def split: option.splits)

lemma AddOrUpdateMountPoint_Ok:
  "AddOrUpdateMountPoint m did pid mpd = Ok m' \<longleftrightarrow>
     (\<exists>al d ps part. m = Some al \<and> did \<noteq> [] \<and> pid \<noteq> [] \<and> mp_Path mpd \<noteq> []
        \<and> map_of al did = Some d \<and> d_Partitions d = Some ps \<and> map_of ps pid = Some part
        \<and> m' = put_partition al did d ps pid (part\<lparr>p_MountPointData :=
                 Some (AList.update (mp_Path mpd) (complete_mount_point part mpd)
                    (mounts_of part))\<rparr>))"
  by (auto simp: AddOrUpdateMountPoint_def Let_def split: option.splits if_splits)

lemma part_wf_set_mounts:
  "\<lbrakk>part_wf (pid, part); mounts_wf mm\<rbrakk> \<Longrightarrow> part_wf (pid, part\<lparr>p_MountPointData := Some mm\<rparr>)"
  by (simp add: part_wf_def)

lemma AddOrUpdateMountPoint_wf:
  assumes "dm_wf m" "AddOrUpdateMountPoint m did pid mpd = Ok m'"
  shows "dm_wf m'"
proof -
  from assms(2) obtain al d ps part where m: "m = Some al"
    and k: "mp_Path mpd \<noteq> []" "map_of al did = Some d" "d_Partitions d = Some ps"
      "map_of ps pid = Some part"
    and m': "m' = put_partition al did d ps pid (part\<lparr>p_MountPointData :=
                 Some (AList.update (mp_Path mpd) (complete_mount_point part mpd)
                    (mounts_of part))\<rparr>)"
    unfolding AddOrUpdateMountPoint_Ok by blast
  have "part_at m did pid = Some part" using m k by (simp add: part_at_def)
  with assms(1) have p: "part_wf (pid, part)" by (rule wf_part_at)
  then have "mounts_wf (AList.update (mp_Path mpd) (complete_mount_point part mpd)
                    (mounts_of part))"
    using k by (auto simp: part_wf_def intro: mounts_wf_update)
  with p k assms(1) m show ?thesis
    unfolding m' by (intro put_partition_wf part_wf_set_mounts) auto
qed

lemma part_at_AddOrUpdateMountPoint:
  assumes "AddOrUpdateMountPoint m did pid mpd = Ok m'"
  shows "\<exists>part. part_at m did pid = Some part \<and>
     (\<forall>did' pid'. part_at m' did' pid' =
       (if did' = did \<and> pid' = pid
        then Some (part\<lparr>p_MountPointData := Some (AList.update (mp_Path mpd)
               (complete_mount_point part mpd) (mounts_of part))\<rparr>)
        else part_at m did' pid'))"
  using assms unfolding AddOrUpdateMountPoint_Ok
  by (auto simp: part_at_put_partition) (auto simp: part_at_def)

lemma mount_in_simps [simp]:
  "mount_in None path = None"
  "mount_in (Some p) path = map_of (mounts_of p) path"
  by (simp_all add: mount_in_def)

lemma mount_at_AddOrUpdateMountPoint:
  assumes "AddOrUpdateMountPoint m did pid mpd = Ok m'"
  shows "\<exists>part. part_at m did pid = Some part \<and>
     (\<forall>did' pid' path. mount_at m' did' pid' path =
       (if did' = did \<and> pid' = pid \<and> path = mp_Path mpd
        then Some (complete_mount_point part mpd) else mount_at m did' pid' path))"
  using part_at_AddOrUpdateMountPoint [OF assms]
  by (auto simp: mount_at_def update_lookup)

lemma wf_no_empty_mount: "dm_wf m \<Longrightarrow> mount_at m did pid [] = None"
  by (cases "mount_at m did pid []") (auto dest: wf_mount_at)

lemma GetMountPoint_eq: "dm_wf m \<Longrightarrow> GetMountPoint m did pid path = mount_at m did pid path"
  using wf_no_empty_mount [of m did pid]
  by (auto simp: GetMountPoint_def GetPartition_eq mount_at_def mount_in_def mounts_of_def
      split: option.splits)

lemma RemoveMountPoint_True:
  "fst (RemoveMountPoint m did pid path) \<longleftrightarrow>
     (did \<noteq> [] \<and> pid \<noteq> [] \<and> path \<noteq> [] \<and> mount_at m did pid path \<noteq> None)"
  by (auto simp: RemoveMountPoint_def mount_at_def part_at_def part_in_def disk_at_def
      split: option.splits)

lemma RemoveMountPoint_cases:
  "(\<not> fst (RemoveMountPoint m did pid path) \<and> snd (RemoveMountPoint m did pid path) = m) \<or>
   (\<exists>al d ps part mm. m = Some al \<and> map_of al did = Some d \<and> d_Partitions d = Some ps
      \<and> map_of ps pid = Some part \<and> p_MountPointData part = Some mm \<and> map_of mm path \<noteq> None
      \<and> snd (RemoveMountPoint m did pid path) =
          put_partition al did d ps pid (part\<lparr>p_MountPointData := Some (AList.delete path mm)\<rparr>))"
  by (auto simp: RemoveMountPoint_def split: option.splits)

lemma RemoveMountPoint_wf: "dm_wf m \<Longrightarrow> dm_wf (snd (RemoveMountPoint m did pid path))"
proof -
  assume wf: "dm_wf m"
  from RemoveMountPoint_cases [of m did pid path] show ?thesis
  proof
    assume "\<exists>al d ps part mm. m = Some al \<and> map_of al did = Some d \<and> d_Partitions d = Some ps
      \<and> map_of ps pid = Some part \<and> p_MountPointData part = Some mm \<and> map_of mm path \<noteq> None
      \<and> snd (RemoveMountPoint m did pid path) =
          put_partition al did d ps pid (part\<lparr>p_MountPointData := Some (AList.delete path mm)\<rparr>)"
    then obtain al d ps part mm where m: "m = Some al" "map_of al did = Some d"
        "d_Partitions d = Some ps" "map_of ps pid = Some part" "p_MountPointData part = Some mm"
      and r: "snd (RemoveMountPoint m did pid path) =
          put_partition al did d ps pid (part\<lparr>p_MountPointData := Some (AList.delete path mm)\<rparr>)"
      by blast
    from m have "part_at m did pid = Some part" by (simp add: part_at_def)
    with wf have p: "part_wf (pid, part)" by (rule wf_part_at)
    with m have "mounts_wf (AList.delete path mm)"
      by (auto simp: part_wf_def intro: mounts_wf_delete)
    with p m wf show ?thesis unfolding r by (intro put_partition_wf part_wf_set_mounts) auto
  qed (simp add: wf)
qed

lemma mount_at_RemoveMountPoint:
  assumes "dm_wf m"
  shows "mount_at (snd (RemoveMountPoint m did pid path)) did' pid' path' =
     (if did' = did \<and> pid' = pid \<and> path' = path then None else mount_at m did' pid' path')"
proof (cases "fst (RemoveMountPoint m did pid path)")
  case True
  then have "did \<noteq> []" "pid \<noteq> []" "path \<noteq> []" by (auto simp: RemoveMountPoint_True)
  then show ?thesis
    by (auto simp: RemoveMountPoint_def mount_at_def part_at_put_partition delete_lookup
        split: option.splits) (auto simp: part_at_def)
next
  case False
  then have "mount_at m did pid path = None"
    using wf_no_empty_disk [OF assms] wf_no_empty_part [OF assms, of did]
      wf_no_empty_mount [OF assms, of did pid]
    by (auto simp: RemoveMountPoint_True mount_at_def part_at_def)
  moreover have "snd (RemoveMountPoint m did pid path) = m"
    using False RemoveMountPoint_cases [of m did pid path]
    by (auto simp: RemoveMountPoint_def split: option.splits)
  ultimately show ?thesis by auto
qed

subsection \<open>Searches\<close>

text \<open>
  A search that stops at the first hit returns a hit of some entry, whatever the order of the
  two \<open>range\<close> loops, and fails only when no entry is a hit.
\<close>

lemma search_partitions_Some:
  "search_partitions al f = Some y \<Longrightarrow>
     \<exists>did d ps pid part. (did, d) \<in> set al \<and> d_Partitions d = Some ps \<and> (pid, part) \<in> set ps
       \<and> f did d pid part = Some y"
  unfolding search_partitions_def
  by (auto dest!: first_some_Some split: option.splits) blast

lemma search_partitions_None:
  "search_partitions al f = None \<longleftrightarrow>
     (\<forall>did d ps pid part. (did, d) \<in> set al \<longrightarrow> d_Partitions d = Some ps \<longrightarrow>
        (pid, part) \<in> set ps \<longrightarrow> f did d pid part = None)"
  unfolding search_partitions_def by (fastforce simp: first_some_None split: option.splits)

lemma dm_wf_distinct: "dm_wf (Some al) \<Longrightarrow> distinct (keys al)"
  by (simp add: dm_wf_def)

lemma dm_wf_parts:
  "\<lbrakk>dm_wf (Some al); (did, d) \<in> set al; d_Partitions d = Some ps\<rbrakk> \<Longrightarrow> parts_wf ps"
  by (auto simp: dm_wf_def disk_wf_def)

text \<open>An entry met on the way is the one the views show at its keys.\<close>

lemma part_at_entry:
  assumes "dm_wf (Some al)" "(did, d) \<in> set al" "d_Partitions d = Some ps" "(pid, part) \<in> set ps"
  shows "part_at (Some al) did pid = Some part"
proof -
  have "map_of al did = Some d"
    using assms(1,2) by (simp add: map_of_iff_set dm_wf_distinct)
  moreover have "map_of ps pid = Some part"
    using dm_wf_parts [OF assms(1-3)] assms(4) by (simp add: map_of_iff_set parts_wf_def)
  ultimately show ?thesis using assms(3) by (simp add: part_at_def)
qed

lemma search_partitions_part_at:
  "\<lbrakk>dm_wf (Some al); search_partitions al f = Some y\<rbrakk> \<Longrightarrow>
     \<exists>did pid part d. map_of al did = Some d \<and> part_at (Some al) did pid = Some part
       \<and> f did d pid part = Some y"
proof -
  assume wf: "dm_wf (Some al)" and "search_partitions al f = Some y"
  then obtain did d ps pid part where e: "(did, d) \<in> set al" "d_Partitions d = Some ps"
      "(pid, part) \<in> set ps" and f: "f did d pid part = Some y"
    by (blast dest: search_partitions_Some)
  from wf e have "map_of al did = Some d" by (simp add: map_of_iff_set dm_wf_distinct)
  moreover from wf e have "part_at (Some al) did pid = Some part" by (rule part_at_entry)
  ultimately show ?thesis using f by blast
qed

lemma search_partitions_hit:
  assumes "part_at (Some al) did pid = Some part" "map_of al did = Some d"
    and "f did d pid part = Some y"
  shows "search_partitions al f \<noteq> None"
proof
  assume "search_partitions al f = None"
  with assms show False
    by (fastforce simp: search_partitions_None part_at_def part_in_def
        dest: map_of_in_set split: option.splits)
qed

lemma GetMountPointByPath_Some:
  assumes "dm_wf m" "GetMountPointByPath m path = Some mp"
  shows "\<exists>did pid. mount_at m did pid path = Some mp"
proof -
  from assms(2) obtain al where al: "m = Some al"
    and found: "search_partitions al (\<lambda>did d pid part.
           case p_MountPointData part of None \<Rightarrow> None | Some mm \<Rightarrow> map_of mm path) = Some mp"
    by (auto simp: GetMountPointByPath_def split: option.splits if_splits)
  from search_partitions_part_at [OF assms(1) [unfolded al] found] al
  obtain did pid part where "part_at m did pid = Some part"
      "(case p_MountPointData part of None \<Rightarrow> None | Some mm \<Rightarrow> map_of mm path) = Some mp"
    by auto
  then have "mount_at m did pid path = Some mp" by (auto simp: mount_at_def split: option.splits)
  then show ?thesis by blast
qed

lemma GetMountPointByPath_None:
  assumes wf: "dm_wf m" and none: "GetMountPointByPath m path = None"
  shows "mount_at m did pid path = None"
proof (rule ccontr)
  assume "mount_at m did pid path \<noteq> None"
  then obtain mp where mp: "mount_at m did pid path = Some mp" by blast
  with wf have path: "path \<noteq> []" by (auto dest: wf_mount_at)
  from mp obtain part where part: "part_at m did pid = Some part"
    and mm: "map_of (mounts_of part) path = Some mp"
    by (auto simp: mount_at_def mount_in_def split: option.splits)
  then obtain al where al: "m = Some al"
    by (cases m) (auto simp: part_at_def disk_at_def)
  obtain d where d: "map_of al did = Some d"
    using part al by (auto simp: part_at_def part_in_def split: option.splits)
  have "(case p_MountPointData part of None \<Rightarrow> None | Some mm \<Rightarrow> map_of mm path) = Some mp"
    using mm by (auto simp: mounts_of_def split: option.splits)
  with part d al none path show False
    by (auto simp: GetMountPointByPath_def dest: search_partitions_hit)
qed

lemma mount_at_SomeE:
  assumes "mount_at (Some al) did pid path = Some mp"
  obtains d ps part where "map_of al did = Some d" "d_Partitions d = Some ps"
    "map_of ps pid = Some part" "map_of (mounts_of part) path = Some mp"
  using assms by (auto simp: mount_at_def mount_in_def part_at_def part_in_def split: option.splits)

lemma GetAllMountPoints_mem:
  assumes "dm_wf m"
  shows "mp \<in> set (GetAllMountPoints m) \<longleftrightarrow> (\<exists>did pid path. mount_at m did pid path = Some mp)"
proof (cases m)
  case None
  then show ?thesis by (simp add: GetAllMountPoints_def mount_at_def part_at_def disk_at_def)
next
  case (Some al)
  show ?thesis
  proof
    assume "mp \<in> set (GetAllMountPoints m)"
    then obtain did d ps pid part mm path where e: "(did, d) \<in> set al"
        "d_Partitions d = Some ps" "(pid, part) \<in> set ps" "p_MountPointData part = Some mm"
        "(path, mp) \<in> set mm"
      using Some by (auto simp: GetAllMountPoints_def split: option.splits) metis
    then have p: "part_at m did pid = Some part" using Some assms by (simp add: part_at_entry)
    with assms have "mounts_wf (mounts_of part)" by (auto dest: wf_part_at simp: part_wf_def)
    then have "map_of mm path = Some mp"
      using e by (simp add: mounts_wf_def map_of_iff_set)
    then have "mount_at m did pid path = Some mp" using p e by (simp add: mount_at_def)
    then show "\<exists>did pid path. mount_at m did pid path = Some mp" by blast
  next
    assume "\<exists>did pid path. mount_at m did pid path = Some mp"
    then obtain did pid path where "mount_at (Some al) did pid path = Some mp"
      using Some by blast
    then obtain part d ps where "map_of al did = Some d" "d_Partitions d = Some ps"
        "map_of ps pid = Some part" "map_of (mounts_of part) path = Some mp"
      by (rule mount_at_SomeE)
    then obtain mm where e: "(did, d) \<in> set al" "d_Partitions d = Some ps"
        "(pid, part) \<in> set ps" "p_MountPointData part = Some mm" "(path, mp) \<in> set mm"
      by (auto dest!: map_of_in_set simp: mounts_of_def split: option.splits)
    let ?parts = "concat (map (\<lambda>(pid, part).
        case p_MountPointData part of None \<Rightarrow> [] | Some mm \<Rightarrow> map snd mm) ps)"
    have "mp = snd (path, mp)" by simp
    then have "mp \<in> snd ` set mm" using e(5) by (rule image_eqI)
    then have "mp \<in> set (case (pid, part) of (pid, part) \<Rightarrow>
        case p_MountPointData part of None \<Rightarrow> [] | Some mm \<Rightarrow> map snd mm)"
      using e(4) by simp
    then have "mp \<in> set ?parts" using e(3) unfolding set_concat set_map by blast
    then show "mp \<in> set (GetAllMountPoints m)"
      using Some e(1,2) unfolding GetAllMountPoints_def by (simp only: option.case set_concat set_map) (rule UN_I, rule imageI, assumption, simp)
  qed
qed

subsection \<open>Shares and device information\<close>

text \<open>Replacing one mount point of a partition by one with the same path.\<close>

lemma put_mount_wf:
  assumes "dm_wf (Some al)" "map_of al did = Some d" "d_Partitions d = Some ps"
    "map_of ps pid = Some part" "p_MountPointData part = Some mm" "mp_Path mp = path" "path \<noteq> []"
  shows "dm_wf (put_partition al did d ps pid
           (part\<lparr>p_MountPointData := Some (AList.update path mp mm)\<rparr>))"
proof -
  have "part_at (Some al) did pid = Some part" using assms by (simp add: part_at_def)
  with assms(1) have p: "part_wf (pid, part)" by (rule wf_part_at)
  with assms have "mounts_wf (AList.update path mp mm)"
    by (auto simp: part_wf_def intro: mounts_wf_update)
  with p assms show ?thesis by (intro put_partition_wf part_wf_set_mounts) auto
qed

lemma mount_at_put_mount:
  assumes "map_of al did = Some d" "d_Partitions d = Some ps"
    "map_of ps pid = Some part" "p_MountPointData part = Some mm"
  shows "mount_at (put_partition al did d ps pid
           (part\<lparr>p_MountPointData := Some (AList.update path mp mm)\<rparr>)) did' pid' path' =
     (if did' = did \<and> pid' = pid \<and> path' = path then Some mp
      else mount_at (Some al) did' pid' path')"
  using assms by (auto simp: mount_at_def part_at_put_partition update_lookup)
    (auto simp: part_at_def)

lemma AddMountPointShare_OkE:
  assumes "AddMountPointShare m share = Ok (d', m')"
  obtains al sh smp did pid d ps part mm mp where
    "m = Some al" "share = Some sh" "sr_MountPointData sh = Some smp" "mp_Path smp \<noteq> []"
    "map_of al did = Some d" "d_Partitions d = Some ps" "map_of ps pid = Some part"
    "p_MountPointData part = Some mm" "map_of mm (mp_Path smp) = Some mp"
    "m' = put_partition al did d ps pid (part\<lparr>p_MountPointData := Some (AList.update (mp_Path smp)
            (mp\<lparr>mp_Share := Some (share_ref.truncate sh)\<rparr>) mm)\<rparr>)"
    "disk_at m' did = Some d'"
    "\<forall>pr. mp_Partition smp = Some pr \<longrightarrow> p_DiskId pr = Some did \<and> p_Id pr = Some pid"
  using assms
  by (auto simp: AddMountPointShare_def Let_def non_empty_iff disk_at_put_partition
      split: option.splits if_splits res.splits)

lemma AddMountPointShare_wf:
  assumes wf: "dm_wf m" and ok: "AddMountPointShare m share = Ok (d', m')"
  shows "dm_wf m'"
  using ok
proof (rule AddMountPointShare_OkE)
  fix al sh smp did pid d ps part mm mp
  assume a: "m = Some al" "mp_Path smp \<noteq> []"
    "map_of al did = Some d" "d_Partitions d = Some ps" "map_of ps pid = Some part"
    "p_MountPointData part = Some mm" "map_of mm (mp_Path smp) = Some mp"
    "m' = put_partition al did d ps pid (part\<lparr>p_MountPointData := Some (AList.update (mp_Path smp)
            (mp\<lparr>mp_Share := Some (share_ref.truncate sh)\<rparr>) mm)\<rparr>)"
  then have "mount_at m did pid (mp_Path smp) = Some mp" by (simp add: mount_at_def part_at_def)
  with wf have "mp_Path mp = mp_Path smp" by (auto dest: wf_mount_at)
  with a wf show "dm_wf m'" by (auto intro!: put_mount_wf)
qed

lemma share_hit_SomeD:
  assumes "share_hit n did d pid part = Some y"
  shows "\<exists>mm path mp sh. p_MountPointData part = Some mm \<and> (path, mp) \<in> set mm
     \<and> y = (did, d, pid, part, mm, path, mp) \<and> mp_Share mp = Some sh \<and> sr_Name sh = n"
  using assms unfolding share_hit_def
  by (auto dest!: first_some_Some split: option.splits if_splits)

lemma RemoveMountPointShare_cases:
  "(fst (RemoveMountPointShare m n) = (False, None) \<and> snd (RemoveMountPointShare m n) = m) \<or>
   (\<exists>al did d ps pid part mm path mp sh d'. m = Some al \<and> (did, d) \<in> set al
      \<and> d_Partitions d = Some ps \<and> (pid, part) \<in> set ps \<and> p_MountPointData part = Some mm
      \<and> (path, mp) \<in> set mm \<and> mp_Share mp = Some sh \<and> sr_Name sh = n \<and> n \<noteq> []
      \<and> fst (RemoveMountPointShare m n) = (True, Some d')
      \<and> snd (RemoveMountPointShare m n) = put_partition al did d ps pid (part\<lparr>p_MountPointData :=
            Some (AList.update path (mp\<lparr>mp_Share := None\<rparr>) mm)\<rparr>))"
proof (cases m)
  case None
  then show ?thesis by (simp add: RemoveMountPointShare_def)
next
  case (Some al)
  show ?thesis
  proof (cases "n = [] \<or> search_partitions al (share_hit n) = None")
    case True
    with Some show ?thesis by (auto simp: RemoveMountPointShare_def)
  next
    case False
    then obtain y where hit: "search_partitions al (share_hit n) = Some y" and n: "n \<noteq> []" by auto
    from search_partitions_Some [OF hit] obtain did d ps pid part
      where e: "(did, d) \<in> set al" "d_Partitions d = Some ps" "(pid, part) \<in> set ps"
        and y: "share_hit n did d pid part = Some y" by auto
    from share_hit_SomeD [OF y] obtain mm path mp sh where
      f: "p_MountPointData part = Some mm" "(path, mp) \<in> set mm"
        "y = (did, d, pid, part, mm, path, mp)" "mp_Share mp = Some sh" "sr_Name sh = n"
      by auto
    with Some hit n e show ?thesis
      by (simp add: RemoveMountPointShare_def Let_def) blast
  qed
qed

text \<open>The entries the loop met are the ones the lookups of the map return.\<close>

lemma RemoveMountPointShare_found:
  assumes wf: "dm_wf m" and t: "fst (RemoveMountPointShare m n) \<noteq> (False, None)"
  shows "\<exists>al did d ps pid part mm path mp sh d'. m = Some al \<and> map_of al did = Some d
      \<and> d_Partitions d = Some ps \<and> map_of ps pid = Some part \<and> p_MountPointData part = Some mm
      \<and> map_of mm path = Some mp \<and> mp_Share mp = Some sh \<and> sr_Name sh = n \<and> n \<noteq> []
      \<and> fst (RemoveMountPointShare m n) = (True, Some d')
      \<and> snd (RemoveMountPointShare m n) = put_partition al did d ps pid (part\<lparr>p_MountPointData :=
            Some (AList.update path (mp\<lparr>mp_Share := None\<rparr>) mm)\<rparr>)"
proof -
  from RemoveMountPointShare_cases [of m n] t obtain al did d ps pid part mm path mp sh d' where
    m: "m = Some al" and e: "(did, d) \<in> set al" "d_Partitions d = Some ps" "(pid, part) \<in> set ps"
      "p_MountPointData part = Some mm" "(path, mp) \<in> set mm"
    and r: "mp_Share mp = Some sh" "sr_Name sh = n" "n \<noteq> []"
      "fst (RemoveMountPointShare m n) = (True, Some d')"
      "snd (RemoveMountPointShare m n) = put_partition al did d ps pid (part\<lparr>p_MountPointData :=
            Some (AList.update path (mp\<lparr>mp_Share := None\<rparr>) mm)\<rparr>)" by blast
  have d: "map_of al did = Some d" using wf m e by (simp add: map_of_iff_set dm_wf_distinct)
  have ps: "parts_wf ps" using wf m e by (auto intro: dm_wf_parts)
  then have p: "map_of ps pid = Some part" using e by (simp add: map_of_iff_set parts_wf_def)
  with ps e have "mounts_wf mm" by (auto dest: parts_wf_lookup simp: part_wf_def)
  then have "map_of mm path = Some mp" using e by (simp add: map_of_iff_set mounts_wf_def)
  with m d e p r show ?thesis by blast
qed

lemma RemoveMountPointShare_wf: "dm_wf m \<Longrightarrow> dm_wf (snd (RemoveMountPointShare m n))"
proof (cases "fst (RemoveMountPointShare m n) = (False, None)")
  case True
  then show ?thesis if "dm_wf m" using RemoveMountPointShare_cases [of m n] that by auto
next
  case False
  show ?thesis if wf: "dm_wf m"
  proof -
    from RemoveMountPointShare_found [OF wf False] obtain al did d ps pid part mm path mp where
      m: "m = Some al" "map_of al did = Some d" "d_Partitions d = Some ps"
        "map_of ps pid = Some part" "p_MountPointData part = Some mm" "map_of mm path = Some mp"
      and r: "snd (RemoveMountPointShare m n) = put_partition al did d ps pid
            (part\<lparr>p_MountPointData := Some (AList.update path (mp\<lparr>mp_Share := None\<rparr>) mm)\<rparr>)"
      by blast
    then have "mount_at m did pid path = Some mp" by (simp add: mount_at_def part_at_def)
    with wf have "mp_Path mp = path \<and> path \<noteq> []" by (rule wf_mount_at)
    with m r wf show ?thesis by (auto intro!: put_mount_wf)
  qed
qed

lemma AddHDIdleDevice_Ok:
  "AddHDIdleDevice m dev = Ok m' \<longleftrightarrow>
     (\<exists>al d. m = Some al \<and> hd_DiskId dev \<noteq> [] \<and> map_of al (hd_DiskId dev) = Some d
        \<and> m' = Some (AList.update (hd_DiskId dev) (d\<lparr>d_HDIdleDevice := Some dev\<rparr>) al))"
  by (auto simp: AddHDIdleDevice_def split: option.splits if_splits)

lemma AddSmartInfo_Ok:
  "AddSmartInfo m si = Ok m' \<longleftrightarrow>
     (\<exists>al d. m = Some al \<and> si_DiskId si \<noteq> [] \<and> map_of al (si_DiskId si) = Some d
        \<and> m' = Some (AList.update (si_DiskId si) (d\<lparr>d_SmartInfo := Some si\<rparr>) al))"
  by (auto simp: AddSmartInfo_def split: option.splits if_splits)

lemma AddHDIdleDevice_wf: "\<lbrakk>dm_wf m; AddHDIdleDevice m dev = Ok m'\<rbrakk> \<Longrightarrow> dm_wf m'"
  by (auto simp: AddHDIdleDevice_Ok disk_wf_def intro!: dm_wf_update dest: dm_wf_lookup)

lemma AddSmartInfo_wf: "\<lbrakk>dm_wf m; AddSmartInfo m si = Ok m'\<rbrakk> \<Longrightarrow> dm_wf m'"
  by (auto simp: AddSmartInfo_Ok disk_wf_def intro!: dm_wf_update dest: dm_wf_lookup)

section \<open>The cache as a component\<close>

text \<open>Every mutating method of \<open>DiskMap\<close> as one input of the cache.\<close>

datatype disk_op =
    OpAddOrUpdate disk | OpRemove string
  | OpAddPartition string partition | OpRemovePartition string string
  | OpAddMount string string mount_point | OpRemoveMount string string string
  | OpAddShare "shared_resource option" | OpRemoveShare string
  | OpHDIdle hdidle_device | OpSmart smart_info

definition ok_or :: "'a \<Rightarrow> 'a res \<Rightarrow> 'a" where
  "ok_or x r = (case r of Ok y \<Rightarrow> y | _ \<Rightarrow> x)"

lemma ok_or_simps [simp]: "ok_or x (Ok y) = y" "ok_or x (Err e) = x" "ok_or x Panic = x"
  by (simp_all add: ok_or_def)

fun disk_step :: "DiskMap \<Rightarrow> disk_op \<Rightarrow> DiskMap" where
  "disk_step m (OpAddOrUpdate d) = ok_or m (AddOrUpdate m d)"
| "disk_step m (OpRemove i) = snd (DiskMap_Remove m i)"
| "disk_step m (OpAddPartition did p) = ok_or m (AddPartition m did p)"
| "disk_step m (OpRemovePartition did pid) = snd (RemovePartition m did pid)"
| "disk_step m (OpAddMount did pid mp) = ok_or m (AddOrUpdateMountPoint m did pid mp)"
| "disk_step m (OpRemoveMount did pid path) = snd (RemoveMountPoint m did pid path)"
| "disk_step m (OpAddShare sh) =
     (case AddMountPointShare m sh of Ok (d, m') \<Rightarrow> m' | _ \<Rightarrow> m)"
| "disk_step m (OpRemoveShare n) = snd (RemoveMountPointShare m n)"
| "disk_step m (OpHDIdle dev) = ok_or m (AddHDIdleDevice m dev)"
| "disk_step m (OpSmart si) = ok_or m (AddSmartInfo m si)"

text \<open>
  What a caller owes the cache: a disk or a partition it hands over is stored under its ids
  inside, too. Every other argument is unrestricted.
\<close>

fun op_ok :: "disk_op \<Rightarrow> bool" where
  "op_ok (OpAddOrUpdate d) = (case d_Partitions d of None \<Rightarrow> True | Some ps \<Rightarrow> parts_wf ps)"
| "op_ok (OpAddPartition did p) = mounts_wf (mounts_of p)"
| "op_ok _ = True"

lemma disk_step_wf: "dm_wf m \<Longrightarrow> op_ok e \<Longrightarrow> dm_wf (disk_step m e)"
proof (cases e)
  case (OpAddOrUpdate d)
  assume wf: "dm_wf m" "op_ok e"
  show ?thesis
  proof (cases "AddOrUpdate m d")
    case (Ok m')
    then obtain i where "d_Id d = Some i" "i \<noteq> []" by (auto simp: AddOrUpdate_Ok)
    with wf(2) OpAddOrUpdate have "disk_wf (i, d)" by (simp add: disk_wf_def)
    with AddOrUpdate_wf [OF wf(1) Ok \<open>d_Id d = Some i\<close>] OpAddOrUpdate Ok
    show ?thesis by simp
  qed (use wf OpAddOrUpdate in simp_all)
next
  case (OpAddPartition did p)
  assume "dm_wf m" "op_ok e"
  with OpAddPartition show ?thesis
    by (cases "AddPartition m did p") (auto intro: AddPartition_wf)
next
  case (OpAddMount did pid mp)
  assume "dm_wf m"
  with OpAddMount show ?thesis
    by (cases "AddOrUpdateMountPoint m did pid mp") (auto intro: AddOrUpdateMountPoint_wf)
next
  case (OpAddShare sh)
  assume "dm_wf m"
  with OpAddShare show ?thesis
    by (cases "AddMountPointShare m sh") (auto intro: AddMountPointShare_wf)
next
  case (OpHDIdle dev)
  assume "dm_wf m"
  with OpHDIdle show ?thesis
    by (cases "AddHDIdleDevice m dev") (auto intro: AddHDIdleDevice_wf)
next
  case (OpSmart si)
  assume "dm_wf m"
  with OpSmart show ?thesis
    by (cases "AddSmartInfo m si") (auto intro: AddSmartInfo_wf)
qed (auto intro: DiskMap_Remove_wf RemovePartition_wf RemoveMountPoint_wf RemoveMountPointShare_wf)

interpretation disk_cache: invariant_steps disk_step op_ok dm_wf
  by unfold_locales (rule disk_step_wf)

section \<open>The contract the volume services use\<close>

text \<open>
  A mount cache stores a mount point at a (disk, partition, path) position. It may complete the
  value it is given, but keeps the state the services read and write: path, root, type,
  mounted flag, startup flag, refresh version.
\<close>

definition same_state :: "mount_point \<Rightarrow> mount_point \<Rightarrow> bool" where
  "same_state a b =
     (mp_Path a = mp_Path b \<and> mp_Root a = mp_Root b \<and> mp_Type a = mp_Type b
      \<and> mp_IsMounted a = mp_IsMounted b \<and> mp_IsToMountAtStartup a = mp_IsToMountAtStartup b
      \<and> mp_RefreshVersion a = mp_RefreshVersion b)"

locale mount_cache =
  fixes put :: "'c \<Rightarrow> string \<Rightarrow> string \<Rightarrow> mount_point \<Rightarrow> 'c res"
    and view :: "'c \<Rightarrow> string \<Rightarrow> string \<Rightarrow> string \<Rightarrow> mount_point option"
    and inv :: "'c \<Rightarrow> bool"
  assumes put_inv: "inv c \<Longrightarrow> put c did pid mp = Ok c' \<Longrightarrow> inv c'"
    and put_hit: "inv c \<Longrightarrow> put c did pid mp = Ok c' \<Longrightarrow>
      \<exists>mp'. view c' did pid (mp_Path mp) = Some mp' \<and> same_state mp mp'"
    and put_frame: "inv c \<Longrightarrow> put c did pid mp = Ok c' \<Longrightarrow>
      (did', pid', path) \<noteq> (did, pid, mp_Path mp) \<Longrightarrow> view c' did' pid' path = view c did' pid' path"
begin

text \<open>Storing a list of mount points of one partition, skipping the ones that are refused.\<close>

lemma put_list_inv:
  "inv c \<Longrightarrow> inv (foldl (\<lambda>c mp. ok_or c (put c did pid mp)) c ms)"
proof (induction ms arbitrary: c)
  case (Cons mp ms)
  then show ?case by (cases "put c did pid mp") (auto dest: put_inv)
qed simp

lemma put_list_frame:
  assumes "inv c" "(did', pid') \<noteq> (did, pid) \<or> path \<notin> mp_Path ` set ms"
  shows "view (foldl (\<lambda>c mp. ok_or c (put c did pid mp)) c ms) did' pid' path
         = view c did' pid' path"
  using assms
proof (induction ms arbitrary: c)
  case (Cons mp ms)
  show ?case
  proof (cases "put c did pid mp")
    case (Ok c')
    with Cons.prems have "inv c'" by (auto dest: put_inv)
    with Cons.prems Cons.IH [of c'] Ok have
      "view (foldl (\<lambda>c mp. ok_or c (put c did pid mp)) c (mp # ms)) did' pid' path
       = view c' did' pid' path" by auto
    also have "\<dots> = view c did' pid' path"
      using Cons.prems Ok by (intro put_frame) auto
    finally show ?thesis .
  qed (use Cons in auto)
qed simp

end

lemma same_state_complete: "same_state mp (complete_mount_point part mp)"
  by (simp add: same_state_def)

interpretation disk_mounts: mount_cache AddOrUpdateMountPoint mount_at dm_wf
proof
  fix c c' :: DiskMap and did pid did' pid' path mp
  assume wf: "dm_wf c" and ok: "AddOrUpdateMountPoint c did pid mp = Ok c'"
  show "dm_wf c'" using wf ok by (rule AddOrUpdateMountPoint_wf)
  from mount_at_AddOrUpdateMountPoint [OF ok]
  show "\<exists>mp'. mount_at c' did pid (mp_Path mp) = Some mp' \<and> same_state mp mp'"
    by (auto simp: same_state_complete)
  assume "(did', pid', path) \<noteq> (did, pid, mp_Path mp)"
  with mount_at_AddOrUpdateMountPoint [OF ok]
  show "mount_at c' did' pid' path = mount_at c did' pid' path" by auto
qed

end
