(* ===== verification/Disk_Cache.thy ===== *)
theory Disk_Cache
  imports Disk_Views
begin

text \<open>
  What the disk cache promises the services that share it: the keys stay consistent whatever
  sequence of methods runs, storing and removing a mount point are updates of the mount view,
  the search by path finds exactly what is stored, and attaching then detaching a share is a
  round trip.
\<close>

section \<open>A small cache, for the concrete checks\<close>

definition demo_partition :: partition where
  "demo_partition = zero_partition\<lparr>p_Id := Some ''p1'', p_DiskId := Some ''d1'',
     p_MountPointData := Some [(''/mnt/a'', zero_mount_point\<lparr>mp_Path := ''/mnt/a''\<rparr>)]\<rparr>"

definition demo_cache :: DiskMap where
  "demo_cache = Some [(''d1'', zero_disk\<lparr>d_Id := Some ''d1'',
     d_Partitions := Some [(''p1'', demo_partition)]\<rparr>)]"

definition demo_share :: shared_resource where
  "demo_share = zero_share\<lparr>sr_Name := ''media'',
     sr_MountPointData := Some (zero_mount_point\<lparr>mp_Path := ''/mnt/a''\<rparr>)\<rparr>"

lemmas demo_defs = demo_partition_def demo_cache_def demo_share_def zero_defs

lemmas wf_simps = dm_wf_def disk_wf_def parts_wf_def part_wf_def mounts_wf_def

lemma demo_cache_wf: "dm_wf demo_cache"
  by (simp add: demo_defs wf_simps)

section \<open>Properties\<close>

text \<open>The keys of the disks alone: every disk is stored once, under its own id, which is not empty.\<close>

definition disks_keyed :: "DiskMap \<Rightarrow> bool" where
  "disks_keyed m = (case m of None \<Rightarrow> True
     | Some al \<Rightarrow> distinct (keys al) \<and> (\<forall>(k, d) \<in> set al. d_Id d = Some k \<and> k \<noteq> []))"

lemma keyed_update:
  assumes "disks_keyed (Some al)" "d_Id d = Some i" "i \<noteq> []"
  shows "disks_keyed (Some (AList.update i d al))"
  using assms unfolding disks_keyed_def by (auto simp: set_update_distinct distinct_keys_update)

lemma keyed_entry: "disks_keyed (Some al) \<Longrightarrow> (i, d) \<in> set al \<Longrightarrow> d_Id d = Some i \<and> i \<noteq> []"
  by (auto simp: disks_keyed_def)

lemma keyed_rewrite:
  assumes "disks_keyed (Some al)" "map_of al i = Some d" "d_Id d' = d_Id d"
  shows "disks_keyed (Some (AList.update i d' al))"
  using assms keyed_entry [OF assms(1) map_of_SomeD [OF assms(2)]] by (intro keyed_update) auto

lemmas keyed_device = keyed_rewrite [where d' = "d\<lparr>d_HDIdleDevice := x\<rparr>" and d = d for d x, simplified]
  keyed_rewrite [where d' = "d\<lparr>d_SmartInfo := x\<rparr>" and d = d for d x, simplified]

lemma keyed_put:
  "disks_keyed (Some al) \<Longrightarrow> (i, d) \<in> set al \<Longrightarrow> disks_keyed (put_partition al i d ps pid part)"
  using keyed_entry [of al i d] by (auto simp: put_partition_def intro: keyed_update)

lemma keyed_delete: "disks_keyed (Some al) \<Longrightarrow> disks_keyed (Some (AList.delete i al))"
  unfolding disks_keyed_def by (auto simp: set_delete distinct_keys_delete)

lemma ok_or_keyed: "disks_keyed m \<Longrightarrow> (\<And>m'. r = Ok m' \<Longrightarrow> disks_keyed m') \<Longrightarrow> disks_keyed (ok_or m r)"
  by (cases r) simp_all

lemma disk_step_keyed:
  assumes "disks_keyed m" shows "disks_keyed (disk_step m e)"
proof (cases e)
  case (OpAddOrUpdate d)
  then show ?thesis using assms
    by (auto simp: AddOrUpdate_Ok intro!: ok_or_keyed intro: keyed_update)
next
  case (OpRemove i)
  then show ?thesis using assms by (auto simp: DiskMap_Remove_def keyed_delete split: option.split)
next
  case (OpAddPartition did p)
  then show ?thesis using assms
    by (auto simp: AddPartition_Ok intro!: ok_or_keyed keyed_put map_of_SomeD)
next
  case (OpRemovePartition did pid)
  then show ?thesis using assms
    by (auto simp: RemovePartition_def intro!: keyed_rewrite split: option.split)
next
  case (OpAddMount did pid mp)
  then show ?thesis using assms
    by (auto simp: AddOrUpdateMountPoint_Ok intro!: ok_or_keyed keyed_put map_of_SomeD)
next
  case (OpRemoveMount did pid path)
  then show ?thesis using assms
    by (auto simp: RemoveMountPoint_def intro!: keyed_put map_of_SomeD split: option.split)
next
  case (OpAddShare sh)
  then show ?thesis using assms
    by (cases "AddMountPointShare m sh") (auto elim!: AddMountPointShare_OkE intro!: keyed_put map_of_SomeD)
next
  case (OpRemoveShare n)
  then show ?thesis using assms RemoveMountPointShare_cases [of m n] by (auto intro: keyed_put)
next
  case (OpHDIdle dev)
  then show ?thesis using assms
    by (auto simp: AddHDIdleDevice_Ok intro!: ok_or_keyed keyed_device)
next
  case (OpSmart si)
  then show ?thesis using assms
    by (auto simp: AddSmartInfo_Ok intro!: ok_or_keyed keyed_device)
qed

interpretation disk_keys: invariant_steps disk_step "\<lambda>_. True" disks_keyed
  by unfold_locales (rule disk_step_keyed)

text \<open>C1: Whatever sequence of cache methods the services run, with whatever arguments, every disk stays
  stored once, under its own non-empty id. The cache does not look inside what it is handed: partitions
  and mount points stay stored once, under their own non-empty ids and paths, when each disk and each
  partition that is handed over is keyed in this way inside (\<open>op_ok\<close>).\<close>

theorem disk_cache_invariant:
  assumes "disks_keyed m"
  shows "disks_keyed (foldl disk_step m ops)
    \<and> (dm_wf m \<and> list_all op_ok ops \<longrightarrow> dm_wf (foldl disk_step m ops))"
proof -
  have "list_all (\<lambda>_. True) ops" by (simp add: list_all_iff)
  from disk_keys.inv_run [OF assms this] show ?thesis using disk_cache.inv_run [of m ops] by blast
qed

theorem disk_cache_invariant_witness:
  "disks_keyed (foldl disk_step demo_cache [OpAddOrUpdate (zero_disk\<lparr>d_Id := Some ''d2'',
      d_Partitions := Some [(''p9'', demo_partition)]\<rparr>), OpRemove ''d1''])
   \<and> dm_wf (foldl disk_step demo_cache
     [OpAddMount ''d1'' ''p1'' (zero_mount_point\<lparr>mp_Path := ''/mnt/b''\<rparr>), OpRemove ''d1'',
      OpAddOrUpdate zero_disk, OpAddShare (Some demo_share)])"
proof -
  have k: "disks_keyed demo_cache" by (simp add: disks_keyed_def demo_cache_def zero_disk_def)
  show ?thesis
    using disk_cache_invariant [OF k] demo_cache_wf by (simp add: zero_defs del: foldl.simps disk_step.simps)
qed

text \<open>What is handed over is stored as it is: a partition filed under another name stays there.\<close>

lemma inner_keys_unchecked:
  "\<not> dm_wf (disk_step demo_cache (OpAddOrUpdate (zero_disk\<lparr>d_Id := Some ''d2'',
      d_Partitions := Some [(''p9'', demo_partition)]\<rparr>)))"
  by (simp add: AddOrUpdate_def demo_defs wf_simps)

text \<open>C2: \<open>AddOrUpdateMountPoint\<close> succeeds exactly on a partition of the cache and a non-empty
  path, then stores the completed mount point at that position and leaves every other mount
  point as it was; the map stays consistent, so a lookup returns what was stored.\<close>

theorem AddOrUpdateMountPoint_refines:
  assumes "dm_wf m"
  shows "(is_ok (AddOrUpdateMountPoint m did pid mp) \<longleftrightarrow>
           part_at m did pid \<noteq> None \<and> mp_Path mp \<noteq> []) \<and>
    (\<forall>m'. AddOrUpdateMountPoint m did pid mp = Ok m' \<longrightarrow>
       (\<forall>did' pid' path. GetMountPoint m' did' pid' path =
         (if did' = did \<and> pid' = pid \<and> path = mp_Path mp
          then map_option (\<lambda>part. complete_mount_point part mp) (part_at m did pid)
          else GetMountPoint m did' pid' path)))"
proof (intro conjI allI impI)
  have "part_at m did pid \<noteq> None \<Longrightarrow> did \<noteq> [] \<and> pid \<noteq> []"
    using wf_no_empty_disk [OF assms] wf_no_empty_part [OF assms]
    by (auto simp: part_at_def)
  then show "is_ok (AddOrUpdateMountPoint m did pid mp) \<longleftrightarrow>
      part_at m did pid \<noteq> None \<and> mp_Path mp \<noteq> []"
    by (auto simp: is_ok_iff AddOrUpdateMountPoint_Ok part_at_def part_in_def disk_at_def
        split: option.splits)
next
  fix m' did' pid' path
  assume ok: "AddOrUpdateMountPoint m did pid mp = Ok m'"
  have "dm_wf m'" using assms ok by (rule AddOrUpdateMountPoint_wf)
  with mount_at_AddOrUpdateMountPoint [OF ok] assms
  show "GetMountPoint m' did' pid' path =
      (if did' = did \<and> pid' = pid \<and> path = mp_Path mp
       then map_option (\<lambda>part. complete_mount_point part mp) (part_at m did pid)
       else GetMountPoint m did' pid' path)"
    by (auto simp: GetMountPoint_eq)
qed

theorem AddOrUpdateMountPoint_refines_witness:
  "\<exists>m'. AddOrUpdateMountPoint demo_cache ''d1'' ''p1'' (zero_mount_point\<lparr>mp_Path := ''/b''\<rparr>) = Ok m'
     \<and> map_option mp_DeviceId (GetMountPoint m' ''d1'' ''p1'' ''/b'') = Some ''p1''"
proof -
  let ?mp = "zero_mount_point\<lparr>mp_Path := ''/b''\<rparr>"
  note r = AddOrUpdateMountPoint_refines [OF demo_cache_wf, of "''d1''" "''p1''" ?mp]
  have p: "part_at demo_cache ''d1'' ''p1'' = Some demo_partition"
    by (simp add: part_at_def demo_cache_def zero_disk_def)
  have path: "mp_Path ?mp = ''/b''" by simp
  from r p path have "is_ok (AddOrUpdateMountPoint demo_cache ''d1'' ''p1'' ?mp)" by simp
  then obtain m' where ok: "AddOrUpdateMountPoint demo_cache ''d1'' ''p1'' ?mp = Ok m'"
    unfolding is_ok_iff by blast
  from r ok have "GetMountPoint m' ''d1'' ''p1'' (mp_Path ?mp)
      = map_option (\<lambda>part. complete_mount_point part ?mp) (part_at demo_cache ''d1'' ''p1'')" by simp
  then have "map_option mp_DeviceId (GetMountPoint m' ''d1'' ''p1'' ''/b'') = Some ''p1''"
    by (simp add: p) (simp add: complete_mount_point_def demo_partition_def zero_defs)
  with ok show ?thesis by blast
qed

text \<open>\<open>RemoveMountPoint\<close> reports true exactly when a mount point is stored at the position;
  afterwards a lookup there finds nothing, every other lookup answers as before, and the map
  stays consistent.\<close>

theorem RemoveMountPoint_refines:
  assumes "dm_wf m"
  shows "(fst (RemoveMountPoint m did pid path) \<longleftrightarrow> GetMountPoint m did pid path \<noteq> None) \<and>
    (\<forall>did' pid' path'. GetMountPoint (snd (RemoveMountPoint m did pid path)) did' pid' path' =
       (if did' = did \<and> pid' = pid \<and> path' = path then None
        else GetMountPoint m did' pid' path'))"
proof (intro conjI allI)
  have "GetMountPoint m did pid path \<noteq> None \<Longrightarrow> did \<noteq> [] \<and> pid \<noteq> [] \<and> path \<noteq> []"
    by (auto simp: GetMountPoint_def GetPartition_def split: if_splits option.splits)
  then show "fst (RemoveMountPoint m did pid path) \<longleftrightarrow> GetMountPoint m did pid path \<noteq> None"
    by (auto simp: RemoveMountPoint_True GetMountPoint_eq [OF assms])
next
  fix did' pid' path'
  show "GetMountPoint (snd (RemoveMountPoint m did pid path)) did' pid' path' =
      (if did' = did \<and> pid' = pid \<and> path' = path then None
       else GetMountPoint m did' pid' path')"
    by (simp add: GetMountPoint_eq assms RemoveMountPoint_wf mount_at_RemoveMountPoint)
qed

theorem RemoveMountPoint_refines_witness:
  "fst (RemoveMountPoint demo_cache ''d1'' ''p1'' ''/mnt/a'')
   \<and> GetMountPoint (snd (RemoveMountPoint demo_cache ''d1'' ''p1'' ''/mnt/a''))
       ''d1'' ''p1'' ''/mnt/a'' = None"
proof -
  have "GetMountPoint demo_cache ''d1'' ''p1'' ''/mnt/a'' \<noteq> None"
    by (simp add: GetMountPoint_def GetPartition_def demo_defs)
  with RemoveMountPoint_refines [OF demo_cache_wf, of "''d1''" "''p1''" "''/mnt/a''"]
  show ?thesis by simp
qed

text \<open>The search by path is sound and complete whatever order the two map loops take: it
  returns a mount point stored at that path in some partition of some disk, and it returns
  nothing only when no partition has that path. \<open>GetAllMountPoints\<close> lists exactly the stored
  mount points.\<close>

theorem mount_search_correct:
  assumes "dm_wf m"
  shows "(\<forall>mp. GetMountPointByPath m path = Some mp \<longrightarrow>
            (\<exists>did pid. GetMountPoint m did pid path = Some mp)) \<and>
    (GetMountPointByPath m path = None \<longleftrightarrow> (\<forall>did pid. GetMountPoint m did pid path = None)) \<and>
    (\<forall>mp. mp \<in> set (GetAllMountPoints m) \<longleftrightarrow>
            (\<exists>did pid. GetMountPoint m did pid (mp_Path mp) = Some mp))"
proof -
  have some: "\<forall>mp. GetMountPointByPath m path = Some mp \<longrightarrow>
            (\<exists>did pid. GetMountPoint m did pid path = Some mp)"
    using GetMountPointByPath_Some [OF assms] by (simp add: GetMountPoint_eq assms)
  moreover have "GetMountPointByPath m path = None \<longleftrightarrow>
      (\<forall>did pid. GetMountPoint m did pid path = None)"
  proof
    assume "GetMountPointByPath m path = None"
    then show "\<forall>did pid. GetMountPoint m did pid path = None"
      using GetMountPointByPath_None [OF assms] by (simp add: GetMountPoint_eq assms)
  next
    assume "\<forall>did pid. GetMountPoint m did pid path = None"
    with some show "GetMountPointByPath m path = None"
      by (cases "GetMountPointByPath m path") auto
  qed
  moreover have "\<forall>mp. mp \<in> set (GetAllMountPoints m) \<longleftrightarrow>
      (\<exists>did pid. GetMountPoint m did pid (mp_Path mp) = Some mp)"
    using GetAllMountPoints_mem [OF assms] wf_mount_at [OF assms]
    by (auto simp: GetMountPoint_eq assms) blast+
  ultimately show ?thesis by blast
qed

theorem mount_search_correct_witness:
  "GetMountPointByPath demo_cache ''/nowhere'' = None"
proof -
  have "\<forall>did pid. GetMountPoint demo_cache did pid ''/nowhere'' = None"
    by (simp add: GetMountPoint_def GetPartition_def demo_defs)
  with mount_search_correct [OF demo_cache_wf, of "''/nowhere''"] show ?thesis by blast
qed

section \<open>Shares\<close>

definition has_share :: "string \<Rightarrow> mount_point \<Rightarrow> bool" where
  "has_share n mp = (case mp_Share mp of None \<Rightarrow> False | Some sh \<Rightarrow> sr_Name sh = n)"

lemma share_hit_None:
  "share_hit n did d pid part = None \<longleftrightarrow> (\<forall>(k, mp) \<in> set (mounts_of part). \<not> has_share n mp)"
  by (auto simp: share_hit_def mounts_of_def has_share_def first_some_None split: option.splits)

lemma RemoveMountPointShare_hit:
  assumes "n \<noteq> []" "mount_at m did pid path = Some mp" "has_share n mp"
  shows "fst (RemoveMountPointShare m n) \<noteq> (False, None)"
proof -
  obtain al where m: "m = Some al"
    using assms(2) by (cases m) (auto simp: mount_at_def part_at_def)
  with assms(2) obtain d ps part where e: "map_of al did = Some d" "d_Partitions d = Some ps"
      "map_of ps pid = Some part" "map_of (mounts_of part) path = Some mp"
    by (auto elim: mount_at_SomeE)
  then have "share_hit n did d pid part \<noteq> None"
    using assms(3) by (auto simp: share_hit_None dest: map_of_in_set)
  moreover have "part_at (Some al) did pid = Some part" using e by (simp add: part_at_def)
  ultimately have "search_partitions al (share_hit n) \<noteq> None"
    using search_partitions_hit [OF _ e(1), of pid part "share_hit n"] by blast
  with m assms(1) show ?thesis by (auto simp: RemoveMountPointShare_def Let_def)
qed

lemma RemoveMountPointShare_view:
  assumes wf: "dm_wf m" and found: "fst (RemoveMountPointShare m n) \<noteq> (False, None)"
  shows "\<exists>did pid path mp. mount_at m did pid path = Some mp \<and> has_share n mp
     \<and> (\<forall>did' pid' path'. mount_at (snd (RemoveMountPointShare m n)) did' pid' path' =
          (if did' = did \<and> pid' = pid \<and> path' = path then Some (mp\<lparr>mp_Share := None\<rparr>)
           else mount_at m did' pid' path'))"
proof -
  from RemoveMountPointShare_found [OF assms] obtain al did d ps pid part mm path mp sh where
    m: "m = Some al" and e: "map_of al did = Some d" "d_Partitions d = Some ps"
      "map_of ps pid = Some part" "p_MountPointData part = Some mm" "map_of mm path = Some mp"
    and s: "mp_Share mp = Some sh" "sr_Name sh = n"
    and r: "snd (RemoveMountPointShare m n) = put_partition al did d ps pid
        (part\<lparr>p_MountPointData := Some (AList.update path (mp\<lparr>mp_Share := None\<rparr>) mm)\<rparr>)"
    by blast
  have "mount_at m did pid path = Some mp" using m e by (simp add: mount_at_def part_at_def)
  moreover have "has_share n mp" using s by (simp add: has_share_def)
  ultimately show ?thesis
    unfolding r using mount_at_put_mount [OF e(1-4), of path "mp\<lparr>mp_Share := None\<rparr>"] m
    by blast
qed

lemma AddMountPointShare_view:
  assumes "AddMountPointShare m (Some sh) = Ok (d', m')"
  shows "\<exists>smp did pid mp. sr_MountPointData sh = Some smp
     \<and> mount_at m did pid (mp_Path smp) = Some mp
     \<and> (\<forall>pr. mp_Partition smp = Some pr \<longrightarrow> p_DiskId pr = Some did \<and> p_Id pr = Some pid)
     \<and> (\<forall>did' pid' path'. mount_at m' did' pid' path' =
          (if did' = did \<and> pid' = pid \<and> path' = mp_Path smp
           then Some (mp\<lparr>mp_Share := Some (share_ref.truncate sh)\<rparr>)
           else mount_at m did' pid' path'))"
  using assms
proof (rule AddMountPointShare_OkE)
  fix al sh0 smp did pid d ps part mm mp
  assume m: "m = Some al" and sh: "Some sh = Some sh0" "sr_MountPointData sh0 = Some smp"
    and e: "map_of al did = Some d" "d_Partitions d = Some ps" "map_of ps pid = Some part"
      "p_MountPointData part = Some mm" "map_of mm (mp_Path smp) = Some mp"
    and m': "m' = put_partition al did d ps pid (part\<lparr>p_MountPointData := Some (AList.update
            (mp_Path smp) (mp\<lparr>mp_Share := Some (share_ref.truncate sh0)\<rparr>) mm)\<rparr>)"
    and pr: "\<forall>pr. mp_Partition smp = Some pr \<longrightarrow> p_DiskId pr = Some did \<and> p_Id pr = Some pid"
  have "mount_at m did pid (mp_Path smp) = Some mp"
    using m e by (simp add: mount_at_def part_at_def)
  with sh pr show ?thesis unfolding m' m
    using mount_at_put_mount [OF e(1-4), of "mp_Path smp"
        "mp\<lparr>mp_Share := Some (share_ref.truncate sh)\<rparr>"] by blast
qed

text \<open>Attaching a share to a mount point sets the share of that mount point only, and when
  no other mount point carries the share's name, removing the share by name restores the mount
  view: the mount point is back without a share and every other one is untouched.\<close>

theorem share_attach_detach:
  assumes wf: "dm_wf m" and ok: "AddMountPointShare m (Some sh) = Ok (d', m')"
    and fresh: "\<forall>did pid path mp. mount_at m did pid path = Some mp \<longrightarrow> \<not> has_share (sr_Name sh) mp"
    and name: "sr_Name sh \<noteq> []"
  shows "dm_wf m' \<and> (\<exists>did pid path mp. mount_at m did pid path = Some mp
     \<and> mount_at m' did pid path = Some (mp\<lparr>mp_Share := Some (share_ref.truncate sh)\<rparr>)
     \<and> (\<forall>did' pid' path'. mount_at (snd (RemoveMountPointShare m' (sr_Name sh))) did' pid' path' =
          (if did' = did \<and> pid' = pid \<and> path' = path then Some (mp\<lparr>mp_Share := None\<rparr>)
           else mount_at m did' pid' path')))"
proof -
  have wf': "dm_wf m'" using wf ok by (rule AddMountPointShare_wf)
  from AddMountPointShare_view [OF ok] obtain smp :: mount_point and did pid mp where
    at: "mount_at m did pid (mp_Path smp) = Some mp" and
    add: "\<forall>did' pid' path'. mount_at m' did' pid' path' =
          (if did' = did \<and> pid' = pid \<and> path' = mp_Path smp
           then Some (mp\<lparr>mp_Share := Some (share_ref.truncate sh)\<rparr>)
           else mount_at m did' pid' path')" by blast
  have n: "sr_Name (share_ref.truncate sh) = sr_Name sh" by (simp add: share_ref.truncate_def)
  then have hit: "has_share (sr_Name sh) (mp\<lparr>mp_Share := Some (share_ref.truncate sh)\<rparr>)"
    by (simp add: has_share_def)
  have "fst (RemoveMountPointShare m' (sr_Name sh)) \<noteq> (False, None)"
    using RemoveMountPointShare_hit [OF name _ hit] add by (metis (mono_tags, lifting))
  from RemoveMountPointShare_view [OF wf' this] obtain did2 pid2 path2 mp2 where
    at2: "mount_at m' did2 pid2 path2 = Some mp2" "has_share (sr_Name sh) mp2" and
    rm: "\<forall>did' pid' path'. mount_at (snd (RemoveMountPointShare m' (sr_Name sh))) did' pid' path' =
          (if did' = did2 \<and> pid' = pid2 \<and> path' = path2 then Some (mp2\<lparr>mp_Share := None\<rparr>)
           else mount_at m' did' pid' path')" by blast
  have "did2 = did \<and> pid2 = pid \<and> path2 = mp_Path smp"
    using at2 fresh add by (metis (mono_tags, lifting))
  moreover from this at2 add have "mp2 = mp\<lparr>mp_Share := Some (share_ref.truncate sh)\<rparr>" by simp
  ultimately have "mount_at (snd (RemoveMountPointShare m' (sr_Name sh))) did' pid' path' =
          (if did' = did \<and> pid' = pid \<and> path' = mp_Path smp then Some (mp\<lparr>mp_Share := None\<rparr>)
           else mount_at m did' pid' path')" for did' pid' path'
    by (simp add: rm add)
  moreover have "mount_at m' did pid (mp_Path smp)
      = Some (mp\<lparr>mp_Share := Some (share_ref.truncate sh)\<rparr>)" by (simp add: add)
  ultimately show ?thesis using wf' at by blast
qed

lemma demo_mounts:
  "mount_at demo_cache did pid path = Some mp \<Longrightarrow> mp = zero_mount_point\<lparr>mp_Path := ''/mnt/a''\<rparr>"
  by (auto simp: view_defs mounts_of_def demo_cache_def demo_partition_def zero_disk_def
      zero_partition_def split: if_splits)

theorem share_attach_detach_witness:
  "\<exists>d' m'. AddMountPointShare demo_cache (Some demo_share) = Ok (d', m') \<and> dm_wf m'"
proof -
  have "\<exists>d' m'. AddMountPointShare demo_cache (Some demo_share) = Ok (d', m')"
    by (simp add: AddMountPointShare_def Let_def search_partitions_def demo_defs)
  then obtain d' m' where ok: "AddMountPointShare demo_cache (Some demo_share) = Ok (d', m')"
    by blast
  have fresh: "\<forall>did pid path mp. mount_at demo_cache did pid path = Some mp
      \<longrightarrow> \<not> has_share (sr_Name demo_share) mp"
    by (auto dest!: demo_mounts simp: has_share_def zero_mount_point_def)
  have "sr_Name demo_share \<noteq> []" by (simp add: demo_share_def)
  from share_attach_detach [OF demo_cache_wf ok fresh this] ok show ?thesis by blast
qed

text \<open>The comment of \<open>AddOrUpdate\<close> says the map is created when it is nil; the write panics.\<close>

lemma AddOrUpdate_nil_map: "AddOrUpdate None (zero_disk\<lparr>d_Id := Some ''d1''\<rparr>) = Panic"
  by (simp add: AddOrUpdate_def)

end
