(* ===== verification/Dirty_Data.thy ===== *)
theory Dirty_Data
  imports Srat_Prelude
begin

text \<open>
  The dirty-data service (\<open>service/dirty_data_service.go\<close>, \<open>dto/data_dirty_tracker.go\<close>): it
  marks which part of the configuration changed and debounces the restart of the Samba
  processes with a five-second timer.

  The Go runtime timer is modelled: a timer that is armed has a deadline; once the deadline has
  passed it may expire, and its callback then waits for \<open>timerMutex\<close> before it runs. \<open>Stop\<close>
  cancels a timer that has not expired and does nothing to one whose callback is waiting. The
  log records the emitted \<open>DirtyDataEvent\<close>s with the time they were emitted. The event bus is
  not nil.
\<close>

section \<open>The tracker\<close>

record tracker =
  dt_Shares :: bool
  dt_Users :: bool
  dt_Settings :: bool
  dt_AppConfig :: bool

definition zero_tracker :: tracker where
  "zero_tracker = \<lparr>dt_Shares = False, dt_Users = False, dt_Settings = False, dt_AppConfig = False\<rparr>"

definition IsDirty :: "tracker \<Rightarrow> bool" where
  "IsDirty d = (dt_Shares d \<or> dt_Users d \<or> dt_Settings d \<or> dt_AppConfig d)"

definition MarkAllClean :: "tracker \<Rightarrow> tracker" where
  "MarkAllClean d =
     d\<lparr>dt_Shares := False, dt_Users := False, dt_Settings := False, dt_AppConfig := False\<rparr>"

definition AndMask :: "tracker \<Rightarrow> tracker \<Rightarrow> bool" where
  "AndMask d tg =
     ((dt_Shares d \<and> dt_Shares tg) \<or> (dt_Users d \<and> dt_Users tg)
      \<or> (dt_Settings d \<and> dt_Settings tg) \<or> (dt_AppConfig d \<and> dt_AppConfig tg))"

section \<open>The service\<close>

datatype dirty_event = START tracker | RESTART tracker

record dirty_state =
  dirty :: tracker
  timer :: "nat option"
  armed :: "(nat \<times> nat) list"
  fired :: "nat list"
  next_timer :: nat
  now :: nat
  emitted :: "(nat \<times> dirty_event) list"

definition NewDirtyDataService :: "nat \<Rightarrow> dirty_state" where
  "NewDirtyDataService t0 =
     \<lparr>dirty = \<lparr>dt_Shares = True, dt_Users = True, dt_Settings = True, dt_AppConfig = False\<rparr>,
      timer = None, armed = [], fired = [], next_timer = 0, now = t0, emitted = []\<rparr>"

text \<open>\<open>timer.Stop()\<close>: an armed timer is cancelled, a waiting callback is not.\<close>

definition stop_runtime_timer :: "nat option \<Rightarrow> (nat \<times> nat) list \<Rightarrow> (nat \<times> nat) list" where
  "stop_runtime_timer t a = (case t of None \<Rightarrow> a | Some i \<Rightarrow> AList.delete i a)"

definition emit :: "dirty_event \<Rightarrow> dirty_state \<Rightarrow> dirty_state" where
  "emit e p = p\<lparr>emitted := emitted p @ [(now p, e)]\<rparr>"

definition startTimer :: "dirty_state \<Rightarrow> dirty_state" where
  "startTimer p =
     (let p1 = p\<lparr>armed := stop_runtime_timer (timer p) (armed p)\<rparr>;
          p2 = emit (START (dirty p1)) p1
      in p2\<lparr>timer := Some (next_timer p2), armed := armed p2 @ [(next_timer p2, now p2 + 5)],
            next_timer := Suc (next_timer p2)\<rparr>)"

definition timer_callback :: "nat \<Rightarrow> dirty_state \<Rightarrow> dirty_state" where
  "timer_callback t p =
     (emit (RESTART (dirty p)) p)\<lparr>timer := None, fired := remove1 t (fired p)\<rparr>"

definition stopTimer :: "dirty_state \<Rightarrow> dirty_state" where
  "stopTimer p =
     (if timer p \<noteq> None
      then p\<lparr>armed := stop_runtime_timer (timer p) (armed p), timer := None\<rparr> else p)"

definition setDirtyShares :: "dirty_state \<Rightarrow> dirty_state" where
  "setDirtyShares p = startTimer (p\<lparr>dirty := (dirty p)\<lparr>dt_Shares := True\<rparr>\<rparr>)"

definition setDirtyUsers :: "dirty_state \<Rightarrow> dirty_state" where
  "setDirtyUsers p = startTimer (p\<lparr>dirty := (dirty p)\<lparr>dt_Users := True\<rparr>\<rparr>)"

definition setDirtySettings :: "dirty_state \<Rightarrow> dirty_state" where
  "setDirtySettings p = startTimer (p\<lparr>dirty := (dirty p)\<lparr>dt_Settings := True\<rparr>\<rparr>)"

definition setDirtyAppConfig :: "dirty_state \<Rightarrow> dirty_state" where
  "setDirtyAppConfig p = p\<lparr>dirty := (dirty p)\<lparr>dt_AppConfig := True\<rparr>\<rparr>"

definition hasManagedDirtyData :: "dirty_state \<Rightarrow> bool" where
  "hasManagedDirtyData p = (dt_Shares (dirty p) \<or> dt_Users (dirty p) \<or> dt_Settings (dirty p))"

definition IsTimerRunning :: "dirty_state \<Rightarrow> bool" where
  "IsTimerRunning p = (timer p \<noteq> None)"

definition GetDirtyDataTracker :: "dirty_state \<Rightarrow> tracker \<times> dirty_state" where
  "GetDirtyDataTracker p =
     (let p' = (if hasManagedDirtyData p \<and> \<not> IsTimerRunning p then startTimer p else p)
      in (dirty p', p'))"

definition resetDirtyStatus :: "dirty_state \<Rightarrow> dirty_state" where
  "resetDirtyStatus p = stopTimer (p\<lparr>dirty := zero_tracker\<rparr>)"

definition ResetDirtyDataTracker :: "dirty_state \<Rightarrow> dirty_state" where
  "ResetDirtyDataTracker p = resetDirtyStatus p"

definition IsClean :: "dirty_state \<Rightarrow> bool" where
  "IsClean p =
     (\<not> dt_Shares (dirty p) \<and> \<not> dt_Users (dirty p) \<and> \<not> dt_Settings (dirty p)
      \<and> \<not> dt_AppConfig (dirty p) \<and> timer p = None)"

section \<open>The runs\<close>

text \<open>
  The inputs of the service: the five bus subscriptions, the two methods of the interface that
  change it, the clock, the expiry of a timer and its callback.
\<close>

datatype dirty_input =
    OnShare | OnUser | OnSetting | OnAppConfig | OnServerProcess bool
  | GetTracker | ResetTracker | Tick nat | Expire nat | Callback nat

inductive dirty_step :: "dirty_state \<Rightarrow> dirty_input \<Rightarrow> dirty_state \<Rightarrow> bool" where
  Share: "dirty_step p OnShare (setDirtyShares p)"
| User: "dirty_step p OnUser (setDirtyUsers p)"
| Setting: "dirty_step p OnSetting (setDirtySettings p)"
| AppConfig: "dirty_step p OnAppConfig (setDirtyAppConfig p)"
| ServerProcess: "dirty_step p (OnServerProcess clean) (if clean then resetDirtyStatus p else p)"
| Get: "dirty_step p GetTracker (snd (GetDirtyDataTracker p))"
| Reset: "dirty_step p ResetTracker (ResetDirtyDataTracker p)"
| Tick: "dirty_step p (Tick n) (p\<lparr>now := now p + n\<rparr>)"
| Expire: "\<lbrakk>(t, d) \<in> set (armed p); d \<le> now p\<rbrakk> \<Longrightarrow>
    dirty_step p (Expire t) (p\<lparr>armed := AList.delete t (armed p), fired := fired p @ [t]\<rparr>)"
| Callback: "t \<in> set (fired p) \<Longrightarrow> dirty_step p (Callback t) (timer_callback t p)"

inductive_cases dirty_stepE: "dirty_step p e p'"

inductive dirty_run :: "dirty_state \<Rightarrow> dirty_input list \<Rightarrow> dirty_state \<Rightarrow> bool" where
  Done: "dirty_run p [] p"
| Step: "\<lbrakk>dirty_run p es q; dirty_step q e r\<rbrakk> \<Longrightarrow> dirty_run p (es @ [e]) r"

text \<open>
  A prompt run: the callback of an expired timer gets the mutex before anything else happens.
\<close>

definition internal :: "dirty_input \<Rightarrow> bool" where
  "internal e = (case e of Expire _ \<Rightarrow> True | Callback _ \<Rightarrow> True | _ \<Rightarrow> False)"

inductive prompt_reach :: "dirty_state \<Rightarrow> bool" where
  Start: "prompt_reach (NewDirtyDataService t0)"
| Input: "\<lbrakk>prompt_reach p; dirty_step p e q; \<not> internal e\<rbrakk> \<Longrightarrow> prompt_reach q"
| Fire: "\<lbrakk>prompt_reach p; dirty_step p (Expire t) q; dirty_step q (Callback t) r\<rbrakk> \<Longrightarrow> prompt_reach r"

lemmas dirty_ops = setDirtyShares_def setDirtyUsers_def setDirtySettings_def
  setDirtyAppConfig_def GetDirtyDataTracker_def ResetDirtyDataTracker_def resetDirtyStatus_def

lemmas timer_ops = startTimer_def stopTimer_def timer_callback_def emit_def
  stop_runtime_timer_def Let_def

section \<open>Lemmas\<close>

subsection \<open>The timer the service holds\<close>

text \<open>Timer ids are fresh and unique, and the timer the service holds is armed or waiting.\<close>

definition live :: "dirty_state \<Rightarrow> nat set" where
  "live p = set (keys (armed p)) \<union> set (fired p)"

definition timer_ok :: "dirty_state \<Rightarrow> bool" where
  "timer_ok p =
     (distinct (keys (armed p)) \<and> distinct (fired p) \<and> set (keys (armed p)) \<inter> set (fired p) = {}
      \<and> (\<forall>t \<in> live p. t < next_timer p)
      \<and> (\<forall>t. timer p = Some t \<longrightarrow> t \<in> live p)
      \<and> (\<forall>(t, d) \<in> set (armed p). d \<le> now p + 5))"

lemma timer_okI:
  assumes "distinct (keys (armed p))" "distinct (fired p)"
    "set (keys (armed p)) \<inter> set (fired p) = {}" "\<And>t. t \<in> live p \<Longrightarrow> t < next_timer p"
    "\<And>t. timer p = Some t \<Longrightarrow> t \<in> live p" "\<And>t d. (t, d) \<in> set (armed p) \<Longrightarrow> d \<le> now p + 5"
  shows "timer_ok p"
  using assms unfolding timer_ok_def by blast

lemma stop_runtime_timer_sub: "set (stop_runtime_timer t a) \<subseteq> set a"
  by (auto simp: stop_runtime_timer_def set_delete split: option.splits)

lemma stop_runtime_timer_distinct:
  "distinct (keys a) \<Longrightarrow> distinct (keys (stop_runtime_timer t a))"
  by (auto simp: stop_runtime_timer_def distinct_keys_delete split: option.splits)

lemma timer_ok_start:
  assumes ok: "timer_ok p"
  shows "timer_ok (startTimer p)"
proof -
  let ?a = "stop_runtime_timer (timer p) (armed p)"
  have sub: "set ?a \<subseteq> set (armed p)" by (rule stop_runtime_timer_sub)
  have keys: "set (keys ?a) \<subseteq> set (keys (armed p))" using sub by auto
  have d: "distinct (keys ?a)"
    using ok by (simp add: timer_ok_def stop_runtime_timer_distinct)
  have lt: "\<And>t. t \<in> live p \<Longrightarrow> t < next_timer p" using ok by (simp add: timer_ok_def)
  have s: "armed (startTimer p) = ?a @ [(next_timer p, now p + 5)]" "fired (startTimer p) = fired p"
    "timer (startTimer p) = Some (next_timer p)" "next_timer (startTimer p) = Suc (next_timer p)"
    "now (startTimer p) = now p"
    by (simp_all add: startTimer_def emit_def Let_def)
  have l: "live (startTimer p) \<subseteq> insert (next_timer p) (live p)"
    using keys by (auto simp: live_def s)
  have fresh: "next_timer p \<notin> live p" using lt by blast
  show ?thesis
  proof (rule timer_okI)
    show "distinct (keys (armed (startTimer p)))"
      using d keys fresh by (auto simp: s live_def)
    show "distinct (fired (startTimer p))" using ok by (simp add: s timer_ok_def)
    show "set (keys (armed (startTimer p))) \<inter> set (fired (startTimer p)) = {}"
      using keys fresh ok by (auto simp: s live_def timer_ok_def)
    show "t < next_timer (startTimer p)" if "t \<in> live (startTimer p)" for t
      using that l lt by (force simp: s less_Suc_eq)
    show "t \<in> live (startTimer p)" if "timer (startTimer p) = Some t" for t
      using that by (simp add: s live_def)
    show "e \<le> now (startTimer p) + 5" if "(t, e) \<in> set (armed (startTimer p))" for t e
      using that sub ok by (auto simp: s timer_ok_def)
  qed
qed

lemma timer_ok_stop: "timer_ok p \<Longrightarrow> timer_ok (stopTimer p)"
  unfolding stopTimer_def timer_ok_def live_def stop_runtime_timer_def
  by (auto simp: set_delete distinct_keys_delete split: option.splits)

lemma timer_ok_dirty [simp]: "timer_ok (p\<lparr>dirty := d\<rparr>) = timer_ok p"
  by (simp add: timer_ok_def live_def)

lemma timer_ok_expire:
  assumes ok: "timer_ok p" and t: "(t, d) \<in> set (armed p)"
  shows "timer_ok (p\<lparr>armed := AList.delete t (armed p), fired := fired p @ [t]\<rparr>)" (is "timer_ok ?q")
proof -
  have k: "t \<in> set (keys (armed p))" using t by force
  have l: "live ?q = live p" using k by (auto simp: live_def set_delete)
  show ?thesis
  proof (rule timer_okI)
    show "t' \<in> live ?q" if "timer ?q = Some t'" for t'
      using that ok by (auto simp: l timer_ok_def)
    show "t' < next_timer ?q" if "t' \<in> live ?q" for t'
      using that ok by (auto simp: l timer_ok_def)
  qed (use ok k in \<open>auto simp: timer_ok_def set_delete distinct_keys_delete\<close>)
qed

lemma timer_ok_callback: "timer_ok p \<Longrightarrow> timer_ok (timer_callback t p)"
  unfolding timer_ok_def timer_callback_def emit_def live_def
  by (auto dest: notin_set_remove1 intro: distinct_remove1 set_remove1_subset [THEN subsetD])

lemma timer_ok_step: "dirty_step p e q \<Longrightarrow> timer_ok p \<Longrightarrow> timer_ok q"
proof (induction rule: dirty_step.induct)
  case (Tick p n)
  then show ?case by (fastforce simp: timer_ok_def live_def)
qed (auto simp: dirty_ops Let_def intro: timer_ok_start timer_ok_stop timer_ok_expire timer_ok_callback)

lemma timer_ok_run: "dirty_run p es q \<Longrightarrow> timer_ok p \<Longrightarrow> timer_ok q"
  by (induction rule: dirty_run.induct) (auto intro: timer_ok_step)

lemma timer_ok_new: "timer_ok (NewDirtyDataService t0)"
  by (simp add: timer_ok_def live_def NewDirtyDataService_def)

lemma startTimer_simps [simp]:
  "timer (startTimer p) = Some (next_timer p)"
  "dirty (startTimer p) = dirty p"
  "emitted (startTimer p) = emitted p @ [(now p, START (dirty p))]"
  "now (startTimer p) = now p" "fired (startTimer p) = fired p"
  "armed (startTimer p) = stop_runtime_timer (timer p) (armed p) @ [(next_timer p, now p + 5)]"
  by (simp_all add: startTimer_def emit_def Let_def)

lemma stopTimer_simps [simp]:
  "timer (stopTimer p) = None" "dirty (stopTimer p) = dirty p" "emitted (stopTimer p) = emitted p"
  "now (stopTimer p) = now p" "fired (stopTimer p) = fired p"
  "armed (stopTimer p) = stop_runtime_timer (timer p) (armed p)"
  by (auto simp: stopTimer_def stop_runtime_timer_def)

lemma timer_callback_simps [simp]:
  "timer (timer_callback t p) = None" "dirty (timer_callback t p) = dirty p"
  "emitted (timer_callback t p) = emitted p @ [(now p, RESTART (dirty p))]"
  "now (timer_callback t p) = now p" "fired (timer_callback t p) = remove1 t (fired p)"
  "armed (timer_callback t p) = armed p"
  by (simp_all add: timer_callback_def emit_def)

subsection \<open>No mark is lost\<close>

text \<open>The flag an input marks, and the inputs that clear the tracker.\<close>

definition marks :: "dirty_input \<Rightarrow> (tracker \<Rightarrow> bool) option" where
  "marks e = (case e of OnShare \<Rightarrow> Some dt_Shares | OnUser \<Rightarrow> Some dt_Users
     | OnSetting \<Rightarrow> Some dt_Settings | _ \<Rightarrow> None)"

definition clears :: "dirty_input \<Rightarrow> bool" where
  "clears e = (e = OnServerProcess True \<or> e = ResetTracker)"

text \<open>Since the log had \<open>n\<close> entries, the flag is set and a restart for it is due or was sent.\<close>

definition restart_due :: "(tracker \<Rightarrow> bool) \<Rightarrow> nat \<Rightarrow> dirty_state \<Rightarrow> bool" where
  "restart_due flag n p =
     (timer p \<noteq> None \<or> (\<exists>T tr. (T, RESTART tr) \<in> set (drop n (emitted p)) \<and> flag tr))"

lemma restart_due_step:
  assumes "dirty_step p e q" "\<not> clears e" "flag \<in> {dt_Shares, dt_Users, dt_Settings}"
    "flag (dirty p)" "n \<le> length (emitted p)" "restart_due flag n p"
  shows "flag (dirty q) \<and> n \<le> length (emitted q) \<and> restart_due flag n q"
  using assms
  by (induction rule: dirty_step.induct) (auto simp: restart_due_def dirty_ops Let_def clears_def)

lemma restart_due_run:
  "\<lbrakk>dirty_run p es q; list_all (\<lambda>e. \<not> clears e) es; flag \<in> {dt_Shares, dt_Users, dt_Settings};
    flag (dirty p); n \<le> length (emitted p); restart_due flag n p\<rbrakk> \<Longrightarrow>
   flag (dirty q) \<and> n \<le> length (emitted q) \<and> restart_due flag n q"
proof (induction rule: dirty_run.induct)
  case (Step p es q e r)
  from Step have "flag (dirty q) \<and> n \<le> length (emitted q) \<and> restart_due flag n q" by simp
  moreover from Step.prems have "\<not> clears e" by simp
  ultimately show ?case using restart_due_step [OF Step.hyps(2)] Step.prems(2) by blast
qed simp

lemma marks_due:
  assumes "dirty_step p e q" "marks e = Some flag"
  shows "flag \<in> {dt_Shares, dt_Users, dt_Settings} \<and> flag (dirty q)
     \<and> restart_due flag (length (emitted q)) q"
  using assms
  by (induction rule: dirty_step.induct) (auto simp: marks_def restart_due_def dirty_ops)

subsection \<open>Debouncing\<close>

definition debounced :: "(nat \<times> dirty_event) list \<Rightarrow> bool" where
  "debounced l = sorted_wrt (\<lambda>(u, a) (v, b).
     (\<exists>x. a = START x) \<and> (\<exists>y. b = RESTART y) \<longrightarrow> u + 5 \<le> v) l"

definition prompt_ok :: "dirty_state \<Rightarrow> bool" where
  "prompt_ok p =
     (fired p = [] \<and> keys (armed p) = (case timer p of None \<Rightarrow> [] | Some t \<Rightarrow> [t])
      \<and> (\<forall>(u, a) \<in> set (emitted p). u \<le> now p)
      \<and> (\<forall>(t, d) \<in> set (armed p). \<forall>(u, a) \<in> set (emitted p). (\<exists>x. a = START x) \<longrightarrow> u + 5 \<le> d)
      \<and> debounced (emitted p))"

lemma debounced_snoc:
  "debounced (l @ [(v, b)]) \<longleftrightarrow> debounced l \<and>
     (\<forall>(u, a) \<in> set l. (\<exists>x. a = START x) \<and> (\<exists>y. b = RESTART y) \<longrightarrow> u + 5 \<le> v)"
  by (auto simp: debounced_def sorted_wrt_append)

lemma prompt_stop:
  "prompt_ok p \<Longrightarrow> stop_runtime_timer (timer p) (armed p) = []"
proof (cases "timer p")
  case (Some t)
  assume "prompt_ok p"
  with Some have "keys (armed p) = [t]" by (simp add: prompt_ok_def)
  with Some show ?thesis by (auto simp: stop_runtime_timer_def map_eq_Cons_conv)
qed (simp add: stop_runtime_timer_def prompt_ok_def)

lemma prompt_ok_start: "prompt_ok p \<Longrightarrow> prompt_ok (startTimer p)"
proof -
  assume ok: "prompt_ok p"
  then show ?thesis using prompt_stop [OF ok]
    by (fastforce simp: prompt_ok_def debounced_snoc)
qed

lemma prompt_ok_stop: "prompt_ok p \<Longrightarrow> prompt_ok (stopTimer p)"
  using prompt_stop [of p] by (simp add: prompt_ok_def)

lemma prompt_ok_dirty [simp]: "prompt_ok (p\<lparr>dirty := d\<rparr>) = prompt_ok p"
  by (simp add: prompt_ok_def)

lemma prompt_ok_fire:
  assumes ok: "prompt_ok p" and t: "(t, d) \<in> set (armed p)" "d \<le> now p"
  shows "prompt_ok (timer_callback t
    (p\<lparr>armed := AList.delete t (armed p), fired := fired p @ [t]\<rparr>))"
proof -
  from ok t obtain x where "keys (armed p) = [x]" "timer p = Some x"
    by (cases "timer p") (auto simp: prompt_ok_def)
  with t have a: "armed p = [(t, d)]" by (auto simp: map_eq_Cons_conv)
  have "\<forall>(u, x) \<in> set (emitted p). (\<exists>y. x = START y) \<longrightarrow> u + 5 \<le> now p"
  proof (intro ballI, clarify)
    fix u y
    assume "(u, START y) \<in> set (emitted p)"
    with ok a have "u + 5 \<le> d" unfolding prompt_ok_def by force
    with t(2) show "u + 5 \<le> now p" by simp
  qed
  moreover have "timer p = Some t" using \<open>keys (armed p) = [x]\<close> \<open>timer p = Some x\<close> a by simp
  ultimately show ?thesis using ok a by (auto simp: prompt_ok_def debounced_snoc)
qed

lemma prompt_ok_input: "dirty_step p e q \<Longrightarrow> \<not> internal e \<Longrightarrow> prompt_ok p \<Longrightarrow> prompt_ok q"
proof (induction rule: dirty_step.induct)
  case (Tick p n)
  then show ?case by (fastforce simp: prompt_ok_def)
qed (auto simp: dirty_ops Let_def internal_def intro: prompt_ok_start prompt_ok_stop)

lemma prompt_reach_ok: "prompt_reach p \<Longrightarrow> prompt_ok p"
proof (induction rule: prompt_reach.induct)
  case (Start t0)
  show ?case by (simp add: prompt_ok_def NewDirtyDataService_def debounced_def)
next
  case (Input p e q)
  then show ?case by (blast intro: prompt_ok_input)
next
  case (Fire p t q r)
  from Fire(2) obtain d where d: "(t, d) \<in> set (armed p)" "d \<le> now p"
    and q: "q = p\<lparr>armed := AList.delete t (armed p), fired := fired p @ [t]\<rparr>"
    by (auto elim: dirty_step.cases)
  from Fire(3) have "r = timer_callback t q" by (auto elim: dirty_step.cases)
  with prompt_ok_fire [OF Fire(4) d] show ?case by (simp add: q)
qed

section \<open>Properties\<close>

text \<open>In every reachable state, whatever the interleaving of events, expiries and waiting
  callbacks, the timer the service holds is armed or its callback is waiting, and no timer is
  due more than five seconds from now.\<close>

theorem dirty_timer_invariant:
  assumes "dirty_run (NewDirtyDataService t0) es p"
  shows "(\<forall>t. timer p = Some t \<longrightarrow> t \<in> live p) \<and> (\<forall>(t, d) \<in> set (armed p). d \<le> now p + 5)
     \<and> distinct (keys (armed p) @ fired p)"
  using timer_ok_run [OF assms timer_ok_new] by (auto simp: timer_ok_def)

lemma run_step: "dirty_run p es q \<Longrightarrow> dirty_step q e r \<Longrightarrow> es' = es @ [e] \<Longrightarrow> dirty_run p es' r"
  by (auto intro: dirty_run.Step)

theorem dirty_timer_invariant_witness:
  "0 \<in> live (setDirtyShares (NewDirtyDataService 7))"
proof -
  have "dirty_run (NewDirtyDataService 7) [OnShare] (setDirtyShares (NewDirtyDataService 7))"
    by (rule run_step [OF dirty_run.Done dirty_step.Share]) simp
  note dirty_timer_invariant [OF this]
  moreover have "timer (setDirtyShares (NewDirtyDataService 7)) = Some 0"
    by (simp add: setDirtyShares_def NewDirtyDataService_def)
  ultimately show ?thesis by blast
qed

text \<open>C10: A change is never lost: after a share, user or setting event, as long as the tracker
  is not cleared, the flag stays set, and either a timer is pending (armed or waiting) or a
  RESTART event with the flag was emitted since; so when all timers have run the RESTART was
  sent.\<close>

theorem dirty_change_not_lost:
  assumes "dirty_run (NewDirtyDataService t0) es0 p" "dirty_step p e q" "marks e = Some flag"
    and "dirty_run q es r" "list_all (\<lambda>e. \<not> clears e) es"
  shows "flag (dirty r) \<and>
    ((\<exists>t. timer r = Some t \<and> t \<in> live r) \<or>
     (\<exists>T tr. (T, RESTART tr) \<in> set (drop (length (emitted q)) (emitted r)) \<and> flag tr))"
proof -
  have "timer_ok q" using timer_ok_step [OF assms(2) timer_ok_run [OF assms(1) timer_ok_new]] .
  then have "timer_ok r" by (rule timer_ok_run [OF assms(4)])
  then have "timer r = Some t \<Longrightarrow> t \<in> live r" for t by (simp add: timer_ok_def)
  moreover from marks_due [OF assms(2,3)] restart_due_run [OF assms(4,5)]
  have "flag (dirty r) \<and> restart_due flag (length (emitted q)) r" by blast
  ultimately show ?thesis by (auto simp: restart_due_def)
qed

theorem dirty_change_not_lost_witness:
  "\<exists>r :: dirty_state. dt_Users (dirty r) \<and> (\<exists>T tr. (T, RESTART tr) \<in> set (emitted r) \<and> dt_Users tr)"
proof -
  let ?p = "NewDirtyDataService 0"
  let ?q = "setDirtyUsers ?p"
  let ?a = "?q\<lparr>now := now ?q + 5\<rparr>"
  let ?b = "?a\<lparr>armed := AList.delete 0 (armed ?a), fired := fired ?a @ [0]\<rparr>"
  let ?r = "timer_callback 0 ?b"
  have e: "dirty_step ?a (Expire 0) ?b"
    by (rule dirty_step.Expire [where d = 5])
      (simp_all add: setDirtyUsers_def NewDirtyDataService_def stop_runtime_timer_def)
  have c: "dirty_step ?b (Callback 0) ?r" by (rule dirty_step.Callback) simp
  have run: "dirty_run ?q [Tick 5, Expire 0, Callback 0] ?r"
    by (rule run_step [OF run_step [OF run_step [OF dirty_run.Done dirty_step.Tick] e] c])
      simp_all
  have "timer ?r = None" by simp
  with run obtain r where r: "dirty_run ?q [Tick 5, Expire 0, Callback 0] r" "timer r = None"
    by blast
  have "dt_Users (dirty r) \<and> ((\<exists>t. timer r = Some t \<and> t \<in> live r) \<or>
     (\<exists>T tr. (T, RESTART tr) \<in> set (drop (length (emitted ?q)) (emitted r)) \<and> dt_Users tr))"
    by (rule dirty_change_not_lost [OF dirty_run.Done dirty_step.User _ r(1)])
      (simp_all add: marks_def clears_def)
  with r(2) show ?thesis by (auto dest: in_set_dropD)
qed

text \<open>When callbacks run promptly, restarts are debounced: a RESTART event follows every
  START event before it by at least five seconds, and a clean service has no timer left, so no
  expiry or callback can happen until the next change.\<close>

theorem dirty_restart_debounced:
  assumes "prompt_reach p"
  shows "debounced (emitted p) \<and>
    (IsClean p \<longrightarrow> (\<forall>e q. dirty_step p e q \<longrightarrow> \<not> internal e))"
proof -
  have ok: "prompt_ok p" using assms by (rule prompt_reach_ok)
  then have "IsClean p \<Longrightarrow> armed p = [] \<and> fired p = []"
    by (auto simp: prompt_ok_def IsClean_def)
  then have "IsClean p \<Longrightarrow> dirty_step p e q \<Longrightarrow> \<not> internal e" for e q
    by (auto elim!: dirty_stepE simp: internal_def)
  with ok show ?thesis by (auto simp: prompt_ok_def)
qed

theorem dirty_restart_debounced_witness:
  "\<not> (\<exists>e q. dirty_step (resetDirtyStatus (setDirtyShares (NewDirtyDataService 0))) e q \<and> internal e)"
proof -
  let ?p = "resetDirtyStatus (setDirtyShares (NewDirtyDataService 0))"
  have "prompt_reach (setDirtyShares (NewDirtyDataService 0))"
    by (rule prompt_reach.Input [OF prompt_reach.Start dirty_step.Share]) (simp add: internal_def)
  moreover have "dirty_step (setDirtyShares (NewDirtyDataService 0)) (OnServerProcess True) ?p"
    using dirty_step.ServerProcess [of _ True] by simp
  ultimately have "prompt_reach ?p" by (rule prompt_reach.Input) (simp add: internal_def)
  moreover have "IsClean ?p"
    by (simp add: IsClean_def resetDirtyStatus_def zero_tracker_def)
  ultimately show ?thesis using dirty_restart_debounced by blast
qed

text \<open>
  Without promptness a clean service can still hold an armed timer: a callback that waits for
  the mutex while a change arms a new timer drops the pointer to the new timer, and the CLEAN
  event that follows cannot stop it.
\<close>

lemma stale_callback_keeps_timer_armed:
  "\<exists>es p. dirty_run (NewDirtyDataService 0) es p \<and> IsClean p \<and> armed p \<noteq> []"
proof -
  let ?p0 = "setDirtyShares (NewDirtyDataService 0)"
  let ?p1 = "?p0\<lparr>now := now ?p0 + 5\<rparr>"
  let ?p2 = "?p1\<lparr>armed := AList.delete 0 (armed ?p1), fired := fired ?p1 @ [0]\<rparr>"
  let ?p3 = "setDirtyUsers ?p2"
  let ?p4 = "timer_callback 0 ?p3"
  let ?p5 = "ResetDirtyDataTracker ?p4"
  have e: "dirty_step ?p1 (Expire 0) ?p2"
    by (rule dirty_step.Expire [where d = 5])
      (simp_all add: setDirtyShares_def NewDirtyDataService_def stop_runtime_timer_def)
  have c: "dirty_step ?p3 (Callback 0) ?p4"
    by (rule dirty_step.Callback) (simp add: setDirtyUsers_def)
  have "dirty_run (NewDirtyDataService 0)
      [OnShare, Tick 5, Expire 0, OnUser, Callback 0, ResetTracker] ?p5"
    by (rule run_step [OF run_step [OF run_step [OF run_step [OF run_step [OF run_step
      [OF dirty_run.Done dirty_step.Share] dirty_step.Tick] e] dirty_step.User] c]
      dirty_step.Reset]) simp_all
  moreover have "IsClean ?p5" "armed ?p5 \<noteq> []"
    by (simp_all add: IsClean_def dirty_ops zero_tracker_def stop_runtime_timer_def)
  ultimately show ?thesis by blast
qed

end
