(* ===== verification/Go_Path.thy ===== *)
theory Go_Path
  imports Srat_Prelude
begin

text \<open>
  The part of Go's \<open>path/filepath\<close> the modelled code uses, on slash-separated paths: \<open>Clean\<close>,
  \<open>Join\<close>, \<open>Base\<close>, \<open>Dir\<close>, and where a cleaned path can lead.
\<close>

section \<open>Functions\<close>

definition slash :: char where "slash = CHR ''/''"

text \<open>One path element: empty and \<open>.\<close> vanish, \<open>..\<close> backs up where there is something to back up.\<close>

definition clean_step :: "bool \<Rightarrow> string list \<Rightarrow> string \<Rightarrow> string list" where
  "clean_step rooted acc w =
     (if w = [] \<or> w = ''.'' then acc
      else if w = ''..'' then
        (if acc \<noteq> [] \<and> last acc \<noteq> ''..'' then butlast acc
         else if rooted then acc else acc @ [w])
      else acc @ [w])"

definition Clean :: "string \<Rightarrow> string" where
  "Clean p =
     (if p = [] then ''.''
      else let rooted = (hd p = CHR ''/'');
               ws = foldl (clean_step rooted) [] (Split p CHR ''/'')
           in if rooted then CHR ''/'' # Join ws ''/''
              else if ws = [] then ''.'' else Join ws ''/'')"

text \<open>\<open>filepath.Join(a, b)\<close>.\<close>

definition path_Join :: "string \<Rightarrow> string \<Rightarrow> string" where
  "path_Join a b =
     (if a \<noteq> [] then Clean (a @ ''/'' @ b) else if b \<noteq> [] then Clean b else [])"

definition strip_slashes :: "string \<Rightarrow> string" where
  "strip_slashes p = rev (dropWhile (\<lambda>c. c = CHR ''/'') (rev p))"

definition after_slash :: "string \<Rightarrow> string" where
  "after_slash p = rev (takeWhile (\<lambda>c. c \<noteq> CHR ''/'') (rev p))"

definition Base :: "string \<Rightarrow> string" where
  "Base p = (if p = [] then ''.''
     else if strip_slashes p = [] then ''/'' else after_slash (strip_slashes p))"

definition Dir :: "string \<Rightarrow> string" where
  "Dir p = Clean (rev (dropWhile (\<lambda>c. c \<noteq> CHR ''/'') (rev p)))"

section \<open>Segments\<close>

lemma HasPrefix_Contains: "HasPrefix s w \<Longrightarrow> Contains s w"
  by (cases s) (auto simp: HasPrefix_def)

lemma Split_Cons_prefix: "Split s c = v # vs \<Longrightarrow> HasPrefix s v \<and> (\<forall>w \<in> set vs. Contains s w)"
proof (induction s arbitrary: v vs)
  case (Cons x s)
  obtain u us where u: "Split s c = u # us" by (cases "Split s c") auto
  with Cons.IH have ih: "HasPrefix s u" "\<forall>w \<in> set us. Contains s w" by auto
  show ?case
  proof (cases "x = c")
    case True
    with Cons.prems u have "v = []" "vs = u # us" by auto
    with ih show ?thesis by (auto simp: HasPrefix_def [of "x # s" "[]"] dest: HasPrefix_Contains)
  next
    case False
    with Cons.prems u have "v = x # u" "vs = us" by auto
    with ih show ?thesis by (auto simp: HasPrefix_def)
  qed
qed (simp add: HasPrefix_def)

lemma Split_Contains: "w \<in> set (Split s c) \<Longrightarrow> Contains s w"
  by (cases "Split s c") (auto dest: Split_Cons_prefix HasPrefix_Contains)

lemma Split_no_sep: "w \<in> set (Split s c) \<Longrightarrow> c \<notin> set w"
proof (induction s arbitrary: w)
  case (Cons x s)
  then show ?case by (cases "Split s c") (auto split: if_splits)
qed simp

lemma filter_step:
  "x \<in> set (if P then acc else if v = d then (if Q acc then butlast acc else acc) else acc @ [v]) \<Longrightarrow>
     x \<in> set acc \<or> x = v \<and> v \<noteq> d"
  by (auto dest: in_set_butlastD split: if_splits)

lemma clean_step_rooted:
  "x \<in> set (clean_step True acc v) \<Longrightarrow> x \<in> set acc \<or> x = v \<and> v \<noteq> ''..''"
  unfolding clean_step_def if_True
  by (rule filter_step [where Q = "\<lambda>acc. acc \<noteq> [] \<and> last acc \<noteq> ''..''"])

lemma clean_segments:
  assumes "\<forall>w \<in> set ws. c \<notin> set w" "\<forall>w \<in> set acc. c \<notin> set w \<and> w \<noteq> ''..''"
  shows "\<forall>w \<in> set (foldl (clean_step True) acc ws). c \<notin> set w \<and> w \<noteq> ''..''"
  using assms
proof (induction ws arbitrary: acc)
  case Nil
  then show ?case by (simp only: foldl_Nil)
next
  case (Cons v ws)
  have v: "c \<notin> set v" "\<forall>w \<in> set ws. c \<notin> set w" using Cons.prems(1) by simp_all
  have "\<forall>w \<in> set (clean_step True acc v). c \<notin> set w \<and> w \<noteq> ''..''"
  proof
    fix w assume "w \<in> set (clean_step True acc v)"
    then have "w \<in> set acc \<or> w = v \<and> v \<noteq> ''..''" by (rule clean_step_rooted)
    then show "c \<notin> set w \<and> w \<noteq> ''..''" using Cons.prems(2) v(1) by blast
  qed
  with v(2) show ?case unfolding foldl_Cons by (rule Cons.IH)
qed

text \<open>A cleaned absolute path has no parent segment.\<close>

lemma Clean_segments:
  assumes "hd p = CHR ''/''" "p \<noteq> []"
  shows "''..'' \<notin> set (Split (Clean p) CHR ''/'')"
proof -
  let ?ws = "foldl (clean_step True) [] (Split p CHR ''/'')"
  have c: "Clean p = CHR ''/'' # Join ?ws ''/''" using assms by (simp add: Clean_def)
  have "\<forall>w \<in> set (Split p CHR ''/''). CHR ''/'' \<notin> set w" using Split_no_sep by blast
  then have ws: "\<forall>w \<in> set ?ws. CHR ''/'' \<notin> set w \<and> w \<noteq> ''..''"
    by (rule clean_segments) simp
  show ?thesis
  proof (cases "?ws = []")
    case True
    then show ?thesis unfolding c by simp
  next
    case False
    with ws have "Split (Join ?ws [CHR ''/'']) CHR ''/'' = ?ws" by (intro Split_Join) auto
    moreover have "''..'' \<notin> set ?ws" using ws by blast
    ultimately show ?thesis unfolding c by simp
  qed
qed

lemma Clean_rooted: "hd p = CHR ''/'' \<Longrightarrow> p \<noteq> [] \<Longrightarrow> hd (Clean p) = CHR ''/''"
  by (simp add: Clean_def Let_def)

end
