(* ===== verification/Hd_Idle.thy ===== *)
theory Hd_Idle
  imports Srat_Types Go_Path
begin

text \<open>
  The disk spin-down service (\<open>service/hdidle_service.go\<close>, with \<open>dbom/hdidle_device_config.go\<close>
  and the HDIdle converters of \<open>converter/dto_to_dbom_conv_gen.go\<close>): device support checks, the
  per-device configuration, the monitor loop and the state it keeps per disk.

  Times and durations are nanoseconds (\<open>int\<close>), times count from the Unix epoch; \<open>zero_time\<close> is
  the zero \<open>time.Time\<close>. The device, the file system and the libraries \<open>hd-idle\<close> and \<open>sgio\<close> are
  the parameters of \<open>hd_env\<close>; the rows of the database are arguments. The commands sent to the
  disks and the power events are logs of the state.
\<close>

section \<open>Times\<close>

definition second :: int where "second = 1000000000"

definition zero_time :: int where "zero_time = - 62135596800 * second"

definition Unix :: "int \<Rightarrow> int" where "Unix t = t div second"

text \<open>\<open>Time.Sub\<close> saturates.\<close>

definition Sub :: "int \<Rightarrow> int \<Rightarrow> int" where
  "Sub t u = max (- (2 ^ 63)) (min (2 ^ 63 - 1) (t - u))"

definition durationToSeconds :: "int \<Rightarrow> int" where
  "durationToSeconds d = go_div d second"

definition secondsToDuration :: "int \<Rightarrow> int" where
  "secondsToDuration n = wrap64 (n * second)"

section \<open>Data\<close>

record hd_row =
  r_DiskId :: string
  r_DevicePath :: string
  r_IdleTime :: int
  r_CommandType :: "HdidleCommand option"
  r_PowerCondition :: "8 word"
  r_Enabled :: HdidleEnabled
  r_SuggestionIgnored :: bool
  r_ForceEnabled :: bool

record disk_status =
  st_Name :: string
  st_SpunDown :: bool
  st_LastIOAt :: int
  st_SpinDownAt :: int
  st_SpinUpAt :: int

record disk_state = disk_status +
  ds_Reads :: "64 word"
  ds_Writes :: "64 word"
  ds_IdleTime :: int
  ds_InternalCmdType :: HdidleCommand
  ds_PowerCondition :: "8 word"
  ds_LastEmittedSpunDown :: bool
  ds_IsInitialized :: bool

record hd_config =
  hc_Enabled :: bool
  hc_Devices :: "(string, hdidle_device) gomap"
  hc_DefaultIdle :: int
  hc_DefaultCommandType :: HdidleCommand
  hc_DefaultPowerCondition :: "8 word"
  hc_IgnoreSpinDown :: bool
  hc_SkewTime :: int

datatype spin_cmd = StartStopScsiDevice string "8 word" | StopAtaDevice string

text \<open>
  \<open>h_loops\<close> are the running monitor goroutines, named by the stop channel each was started
  with; every channel but the one in \<open>h_stopChan\<close> is closed.
\<close>

record hd_state =
  h_config :: hd_config
  h_stopChan :: "nat option"
  h_diskStats :: "disk_state list"
  h_lastNow :: int
  h_loops :: "nat list"
  h_next :: nat
  h_issued :: "spin_cmd list"
  h_events :: "disk_status list"

text \<open>The device file of a path: absent with the message of the error, or its mode bits.\<close>

datatype lstat = NoFile string | Mode (mode_device: bool) (mode_symlink: bool)

record hd_env =
  RealPath :: "string \<Rightarrow> string option"
  Lstat :: "string \<Rightarrow> lstat"
  StatOk :: "string \<Rightarrow> bool"
  OpenScsiDevice :: "string \<Rightarrow> bool"
  ataProbeFn :: "string \<Rightarrow> string option"

section \<open>Converters\<close>

definition HDIdleDeviceDTOToHDIdleDevice :: "hdidle_device \<Rightarrow> hd_row" where
  "HDIdleDeviceDTOToHDIdleDevice d =
     \<lparr>r_DiskId = hd_DiskId d, r_DevicePath = hs_DevicePath d,
      r_IdleTime = durationToSeconds (hd_IdleTime d), r_CommandType = Some (hd_CommandType d),
      r_PowerCondition = hd_PowerCondition d, r_Enabled = hd_Enabled d,
      r_SuggestionIgnored = hd_SuggestionIgnored d, r_ForceEnabled = hd_ForceEnabled d\<rparr>"

definition HDIdleDeviceToHDIdleDeviceSupportDTO :: "hd_row \<Rightarrow> hdidle_support" where
  "HDIdleDeviceToHDIdleDeviceSupportDTO r =
     \<lparr>hs_Supported = True, hs_SupportsSCSI = False, hs_SupportsATA = False,
      hs_RecommendedCommand = None, hs_DevicePath = r_DevicePath r, hs_ErrorMessage = []\<rparr>"

definition HDIdleDeviceToHDIdleDeviceDTO :: "hd_row \<Rightarrow> hdidle_device" where
  "HDIdleDeviceToHDIdleDeviceDTO r =
     hdidle_support.extend (HDIdleDeviceToHDIdleDeviceSupportDTO r)
       (hdidle_device.fields (r_DiskId r) (secondsToDuration (r_IdleTime r))
          (case r_CommandType r of None \<Rightarrow> SCSICOMMAND | Some c \<Rightarrow> c)
          (r_PowerCondition r) (r_Enabled r) (r_SuggestionIgnored r) (r_ForceEnabled r))"

section \<open>Paths\<close>

definition getRealPathNotSymlink :: "hd_env \<Rightarrow> string \<Rightarrow> string" where
  "getRealPathNotSymlink env path =
     (case RealPath env path of None \<Rightarrow> path | Some p \<Rightarrow> p)"

definition ResolveDevicePath :: "hd_env \<Rightarrow> string \<Rightarrow> string res" where
  "ResolveDevicePath env diskID =
     (if diskID = [] then Err (E ErrorNotFound ''empty disk identifier'')
      else if CHR 0x5C \<in> set diskID \<or> CHR 0x00 \<in> set diskID \<or> Contains diskID ''..''
      then Err (E ErrorNotFound (''invalid disk identifier: '' @ diskID))
      else if HasPrefix diskID ''/dev/'' then
        (let clean = Clean diskID in
         if \<not> HasPrefix clean ''/dev/''
         then Err (E ErrorNotFound (''invalid disk identifier: '' @ diskID))
         else if StatOk env clean then Ok clean
         else Err (E ErrorNotFound (''device path does not exist: '' @ diskID)))
      else if CHR ''/'' \<in> set diskID
      then Err (E ErrorNotFound (''invalid disk identifier: '' @ diskID))
      else if StatOk env (''/dev/disk/by-id/'' @ diskID) then Ok (''/dev/disk/by-id/'' @ diskID)
      else if StatOk env (''/dev/'' @ diskID) then Ok (''/dev/'' @ diskID)
      else Err (E ErrorNotFound (''no device found for: '' @ diskID)))"

section \<open>Device support\<close>

definition CheckSGSupport :: "hd_env \<Rightarrow> string \<Rightarrow> bool" where
  "CheckSGSupport env devicePath = OpenScsiDevice env devicePath"

definition TrimRightDigits :: "string \<Rightarrow> string" where
  "TrimRightDigits s = rev (dropWhile (\<lambda>c. c \<in> set ''0123456789'') (rev s))"

definition CheckATASupport :: "hd_env \<Rightarrow> string \<Rightarrow> bool" where
  "CheckATASupport env device =
     (let deviceName = TrimPrefix device ''/dev/'';
          in_sysfs = (StatOk env (''/sys/block/'' @ deviceName @ ''/device/vendor'')
            \<or> (deviceName \<noteq> [] \<and>
               StatOk env (''/sys/block/'' @ TrimRightDigits deviceName @ ''/device/vendor'')))
      in if \<not> in_sysfs then False
         else (case ataProbeFn env (''/dev/'' @ deviceName) of
                 Some e \<Rightarrow> False
               | None \<Rightarrow> True))"

definition CheckDeviceSupport :: "hd_env \<Rightarrow> string \<Rightarrow> hdidle_support" where
  "CheckDeviceSupport env blockPath =
     (let support = \<lparr>hs_Supported = False, hs_SupportsSCSI = False, hs_SupportsATA = False,
            hs_RecommendedCommand = None, hs_DevicePath = blockPath, hs_ErrorMessage = []\<rparr>
      in if blockPath = [] then support\<lparr>hs_ErrorMessage := ''device path cannot be empty''\<rparr>
         else (case Lstat env blockPath of
                 NoFile e \<Rightarrow> support\<lparr>hs_ErrorMessage := ''failed to stat device path: '' @ e\<rparr>
               | Mode isdev islink \<Rightarrow>
                   if \<not> isdev \<and> \<not> islink
                   then support\<lparr>hs_ErrorMessage := ''device path is not a block device or symlink''\<rparr>
                   else
                     let name = getRealPathNotSymlink env blockPath;
                         scsi = CheckSGSupport env blockPath;
                         ata = CheckATASupport env name;
                         s1 = support\<lparr>hs_SupportsSCSI := scsi, hs_SupportsATA := ata,
                                      hs_Supported := scsi\<rparr>
                     in if hs_Supported s1
                        then (if ata then s1\<lparr>hs_RecommendedCommand := Some ATACOMMAND\<rparr>
                              else if scsi then s1\<lparr>hs_RecommendedCommand := Some SCSICOMMAND\<rparr>
                              else s1)
                        else s1))"

section \<open>Configuration\<close>

definition hdidleDormantInterval :: int where "hdidleDormantInterval = 300 * second"

definition hdidleActiveInterval :: int where "hdidleActiveInterval = 60 * second"

definition new_config :: hd_config where
  "new_config = \<lparr>hc_Enabled = False, hc_Devices = [], hc_DefaultIdle = 0,
     hc_DefaultCommandType = SCSICOMMAND, hc_DefaultPowerCondition = 0,
     hc_IgnoreSpinDown = True, hc_SkewTime = 0\<rparr>"

definition default_config :: hd_config where
  "default_config = \<lparr>hc_Enabled = False, hc_Devices = [], hc_DefaultIdle = 60 * second,
     hc_DefaultCommandType = SCSICOMMAND, hc_DefaultPowerCondition = 0,
     hc_IgnoreSpinDown = False, hc_SkewTime = 0\<rparr>"

text \<open>One iteration of the loop over the rows of the database.\<close>

definition convert_row :: "hd_env \<Rightarrow> hd_config \<Rightarrow> hd_row \<Rightarrow> hd_config" where
  "convert_row env cfg dev =
     (if r_Enabled dev = CUSTOMENABLED \<and> r_DevicePath dev \<noteq> [] then
        let idle = (if r_IdleTime dev \<noteq> 0 then wrap64 (r_IdleTime dev * second)
                    else hc_DefaultIdle cfg);
            cmd = (case r_CommandType dev of None \<Rightarrow> hc_DefaultCommandType cfg | Some c \<Rightarrow> c);
            devConfig = HDIdleDeviceToHDIdleDeviceDTO dev;
            support = CheckDeviceSupport env (r_DevicePath dev);
            devConfig' = hdidle_support.extend support (hdidle_support.more devConfig);
            name = getRealPathNotSymlink env (r_DevicePath dev)
        in cfg\<lparr>hc_Devices := AList.update name
                 (devConfig'\<lparr>hd_IdleTime := idle, hd_CommandType := cmd\<rparr>) (hc_Devices cfg)\<rparr>
      else cfg)"

definition convertConfig :: "hd_env \<Rightarrow> err + hd_row list \<Rightarrow> hd_config res" where
  "convertConfig env rows =
     (case rows of
        Inl e \<Rightarrow> Err (E (err_kind e) ''failed to load HDIdle devices'')
      | Inr devices \<Rightarrow>
          let cfg = foldl (convert_row env) default_config devices
          in Ok (cfg\<lparr>hc_Enabled := hc_Devices cfg \<noteq> [],
                     hc_SkewTime := wrap64 (hdidleDormantInterval * 2)\<rparr>))"

text \<open>
  The lookup of a device's configuration: \<open>first\<close> is the row whose path is the argument,
  \<open>rows\<close> all rows.
\<close>

definition findDeviceByRealPath :: "hd_env \<Rightarrow> err + hd_row list \<Rightarrow> string \<Rightarrow> hd_row option" where
  "findDeviceByRealPath env rows path =
     (let real = getRealPathNotSymlink env path in
      if real = path then None
      else (case rows of
              Inl e \<Rightarrow> None
            | Inr devs \<Rightarrow>
                List.find (\<lambda>d. getRealPathNotSymlink env (r_DevicePath d) = real) devs))"

definition GetDeviceConfig ::
  "hd_env \<Rightarrow> hd_config \<Rightarrow> err + hd_row option \<Rightarrow> err + hd_row list \<Rightarrow> string
     \<Rightarrow> hdidle_device option \<times> err option" where
  "GetDeviceConfig env cfg first rows path =
     (case first of
        Inl e \<Rightarrow> (None, Some e)
      | Inr (Some r) \<Rightarrow> (Some (HDIdleDeviceToHDIdleDeviceDTO r), None)
      | Inr None \<Rightarrow>
          (case findDeviceByRealPath env rows path of
             Some r \<Rightarrow> (Some (HDIdleDeviceToHDIdleDeviceDTO r), None)
           | None \<Rightarrow>
               let support = CheckDeviceSupport env path in
               if \<not> hs_Supported support
               then (Some (hdidle_support.extend support
                       (hdidle_device.fields [] 0 SCSICOMMAND 0 CUSTOMENABLED False False)),
                     Some (E ErrorHDIdleNotSupported ''HDIdle not supported for this device''))
               else (Some (hdidle_support.extend support
                       (hdidle_device.fields [] (hc_DefaultIdle cfg)
                          (case hs_RecommendedCommand support of
                             Some c \<Rightarrow> c | None \<Rightarrow> hc_DefaultCommandType cfg)
                          (hc_DefaultPowerCondition cfg) NOENABLED False False)), None)))"

text \<open>\<open>SaveDeviceConfig\<close>: the row written, then a power event that carries the device.\<close>

definition SaveDeviceConfig ::
  "(hd_row \<Rightarrow> 'db \<Rightarrow> err + 'db) \<Rightarrow> hdidle_device \<Rightarrow> 'db
     \<Rightarrow> err option \<times> 'db \<times> hdidle_device list" where
  "SaveDeviceConfig save device db =
     (case save (HDIdleDeviceDTOToHDIdleDevice device) db of
        Inl e \<Rightarrow> (Some e, db, [])
      | Inr db' \<Rightarrow> (None, db', [device]))"

section \<open>Disk activity\<close>

fun findDiskStateIndex :: "disk_state list \<Rightarrow> string \<Rightarrow> nat option" where
  "findDiskStateIndex [] name = None"
| "findDiskStateIndex (d # ds) name =
     (if st_Name d = name then Some 0 else map_option Suc (findDiskStateIndex ds name))"

definition initDiskState ::
  "hd_config \<Rightarrow> string \<Rightarrow> 64 word \<Rightarrow> 64 word \<Rightarrow> int \<Rightarrow> disk_state" where
  "initDiskState cfg name reads writes t =
     (let (idle, command, powerCondition) =
        (case map_of (hc_Devices cfg) name of
           None \<Rightarrow> (hc_DefaultIdle cfg, hc_DefaultCommandType cfg, hc_DefaultPowerCondition cfg)
         | Some dev \<Rightarrow> (hd_IdleTime dev, hd_CommandType dev, hd_PowerCondition dev))
      in \<lparr>st_Name = name, st_SpunDown = False, st_LastIOAt = t, st_SpinDownAt = zero_time,
          st_SpinUpAt = t, ds_Reads = reads, ds_Writes = writes, ds_IdleTime = idle,
          ds_InternalCmdType = command, ds_PowerCondition = powerCondition,
          ds_LastEmittedSpunDown = False, ds_IsInitialized = False\<rparr>)"

text \<open>\<open>None\<close> is the error for an unknown command type; nothing is sent to the disk then.\<close>

definition spindownDisk :: "string \<Rightarrow> HdidleCommand \<Rightarrow> 8 word \<Rightarrow> spin_cmd option" where
  "spindownDisk device command powerCondition =
     (case command of
        SCSICOMMAND \<Rightarrow> Some (StartStopScsiDevice device powerCondition)
      | ATACOMMAND \<Rightarrow> Some (StopAtaDevice device)
      | InvalidHdidleCommand \<Rightarrow> None)"

text \<open>The reset after a suspend, the idle branch, the active branch and the status event.\<close>

definition wake_reset :: "hd_config \<Rightarrow> int \<Rightarrow> int \<Rightarrow> disk_state \<Rightarrow> disk_state" where
  "wake_reset cfg lastNow t ds =
     (if Unix t - Unix lastNow > go_div (go_div (hc_SkewTime cfg) 1000000) 1000
      then ds\<lparr>st_SpinUpAt := t, st_LastIOAt := t, st_SpunDown := False\<rparr> else ds)"

definition idle_branch :: "hd_config \<Rightarrow> int \<Rightarrow> disk_state \<Rightarrow> disk_state \<times> spin_cmd list" where
  "idle_branch cfg t ds =
     (if \<not> st_SpunDown ds \<or> hc_IgnoreSpinDown cfg then
        (if Sub t (st_LastIOAt ds) > ds_IdleTime ds \<and> Sub t (st_SpinDownAt ds) > ds_IdleTime ds
         then (ds\<lparr>st_SpinDownAt := t, st_SpunDown := True\<rparr>,
               case spindownDisk (''/dev/'' @ st_Name ds) (ds_InternalCmdType ds)
                      (ds_PowerCondition ds) of None \<Rightarrow> [] | Some c \<Rightarrow> [c])
         else (ds, []))
      else (ds, []))"

definition active_branch :: "64 word \<Rightarrow> 64 word \<Rightarrow> int \<Rightarrow> disk_state \<Rightarrow> disk_state" where
  "active_branch reads writes t ds =
     (let ds1 = (if st_SpunDown ds then ds\<lparr>st_SpinUpAt := t\<rparr> else ds)
      in ds1\<lparr>ds_Reads := reads, ds_Writes := writes, st_LastIOAt := t, st_SpunDown := False\<rparr>)"

definition update_disk ::
  "hd_config \<Rightarrow> int \<Rightarrow> 64 word \<Rightarrow> 64 word \<Rightarrow> int \<Rightarrow> disk_state
     \<Rightarrow> disk_state \<times> spin_cmd list \<times> disk_status list" where
  "update_disk cfg lastNow reads writes t ds0 =
     (let ds1 = wake_reset cfg lastNow t ds0;
          (ds2, cmds) = (if ds_Writes ds1 = writes \<and> ds_Reads ds1 = reads
                         then idle_branch cfg t ds1 else (active_branch reads writes t ds1, []));
          stateChanged = (\<not> ds_IsInitialized ds1 \<or> st_SpunDown ds2 \<noteq> ds_LastEmittedSpunDown ds2)
      in if stateChanged
         then let ds3 = ds2\<lparr>ds_LastEmittedSpunDown := st_SpunDown ds2, ds_IsInitialized := True\<rparr>
              in (ds3, cmds, [disk_status.truncate ds3])
         else (ds2, cmds, []))"

definition updateDiskState ::
  "string \<Rightarrow> 64 word \<Rightarrow> 64 word \<Rightarrow> int \<Rightarrow> hd_state \<Rightarrow> hd_state" where
  "updateDiskState name reads writes t s =
     (case map_of (hc_Devices (h_config s)) name of
        None \<Rightarrow> s
      | Some dv \<Rightarrow>
          if hd_Enabled dv = NOENABLED \<or> \<not> hs_Supported dv then s
          else (case findDiskStateIndex (h_diskStats s) name of
                  None \<Rightarrow> s\<lparr>h_diskStats :=
                    h_diskStats s @ [initDiskState (h_config s) name reads writes t]\<rparr>
                | Some i \<Rightarrow>
                    (let (ds, cmds, evs) = update_disk (h_config s) (h_lastNow s) reads writes t
                           (h_diskStats s ! i)
                     in s\<lparr>h_diskStats := (h_diskStats s)[i := ds],
                          h_issued := h_issued s @ cmds, h_events := h_events s @ evs\<rparr>)))"

type_synonym io_snapshot = "(string \<times> 64 word \<times> 64 word) list"

definition observeDiskActivity :: "io_snapshot \<Rightarrow> int \<Rightarrow> hd_state \<Rightarrow> hd_state" where
  "observeDiskActivity snap t s =
     (if h_stopChan s = None then s
      else (foldl (\<lambda>s (name, reads, writes). updateDiskState name reads writes t s) s snap)
             \<lparr>h_lastNow := t\<rparr>)"

definition nextPollInterval :: "hd_state \<Rightarrow> int" where
  "nextPollInterval s =
     (if h_diskStats s = [] then hdidleActiveInterval
      else if \<exists>ds \<in> set (h_diskStats s). \<not> st_SpunDown ds then hdidleActiveInterval
      else hdidleDormantInterval)"

section \<open>Life cycle\<close>

definition NewHDIdleService :: hd_state where
  "NewHDIdleService = \<lparr>h_config = new_config, h_stopChan = None, h_diskStats = [],
     h_lastNow = zero_time, h_loops = [], h_next = 0, h_issued = [], h_events = []\<rparr>"

text \<open>The part of \<open>Start\<close> under the write lock, with the configuration it computed before.\<close>

definition Start_commit :: "hd_config \<Rightarrow> int \<Rightarrow> hd_state \<Rightarrow> hd_state" where
  "Start_commit newConfig t s =
     (if h_stopChan s \<noteq> None then s
      else let s1 = s\<lparr>h_config := newConfig, h_diskStats := []\<rparr>
           in if \<not> hc_Enabled newConfig then s1
              else s1\<lparr>h_stopChan := Some (h_next s1), h_lastNow := t,
                      h_loops := h_loops s1 @ [h_next s1], h_next := Suc (h_next s1)\<rparr>)"

definition Start :: "hd_env \<Rightarrow> err + hd_row list \<Rightarrow> int \<Rightarrow> hd_state \<Rightarrow> err option \<times> hd_state" where
  "Start env rows t s =
     (if h_stopChan s \<noteq> None then (None, s)
      else (case convertConfig env rows of
              Err e \<Rightarrow> (Some e, s)
            | Panic \<Rightarrow> (None, s)
            | Ok newConfig \<Rightarrow> (None, Start_commit newConfig t s)))"

definition Stop :: "hd_state \<Rightarrow> hd_state" where
  "Stop s = (if h_stopChan s = None then s else s\<lparr>h_stopChan := None\<rparr>)"

definition IsRunning :: "hd_state \<Rightarrow> bool" where
  "IsRunning s = (h_stopChan s \<noteq> None)"

definition GetDeviceStatus ::
  "hd_env \<Rightarrow> hd_state \<Rightarrow> string \<Rightarrow> disk_status option res" where
  "GetDeviceStatus env s path =
     (if h_stopChan s = None then Ok None
      else let name = getRealPathNotSymlink env path in
        if h_diskStats s = [] then Ok None
        else (case List.find (\<lambda>ds. st_Name ds = name \<or> st_Name ds = TrimPrefix name ''/dev/'')
                     (h_diskStats s) of
                Some ds \<Rightarrow> Ok (Some (disk_status.truncate ds))
              | None \<Rightarrow> Err (E ErrorOther ''disk not found'')))"

record process_status =
  ps_Pid :: "32 word"
  ps_Name :: string
  ps_Connections :: nat
  ps_Status :: "string list"
  ps_IsRunning :: bool

definition hdidle_GetProcessStatus :: "hd_state \<Rightarrow> 32 word \<Rightarrow> process_status" where
  "hdidle_GetProcessStatus s parentPid =
     (let running = (h_stopChan s \<noteq> None) in
      \<lparr>ps_Pid = - parentPid, ps_Name = ''powersave-monitor'',
       ps_Connections = (if running then length (h_diskStats s) else 0),
       ps_Status = (if running then [''running''] else [''idle'']), ps_IsRunning = running\<rparr>)"

text \<open>
  The inputs: the locked part of a \<open>Start\<close> call (whatever configuration an earlier read
  produced), \<open>Stop\<close>, a timer tick of a monitor goroutine, and the exit of a goroutine whose
  channel is closed. A goroutine whose channel was closed may still take one more tick, since
  \<open>select\<close> picks among the ready cases.
\<close>

datatype hd_input = StartCommit hd_config int | StopCall | LoopTick nat io_snapshot int | LoopExit nat

fun hd_step :: "hd_state \<Rightarrow> hd_input \<Rightarrow> hd_state" where
  "hd_step s (StartCommit cfg t) = Start_commit cfg t s"
| "hd_step s StopCall = Stop s"
| "hd_step s (LoopTick k snap t) =
     (if k \<in> set (h_loops s) then observeDiskActivity snap t s else s)"
| "hd_step s (LoopExit k) =
     (if k \<in> set (h_loops s) \<and> h_stopChan s \<noteq> Some k
      then s\<lparr>h_loops := removeAll k (h_loops s)\<rparr> else s)"

end
