(* ===== verification/Hd_Idle_Laws.thy ===== *)
theory Hd_Idle_Laws
  imports Hd_Idle
begin

text \<open>
  What the spin-down service guarantees: resolved paths stay below /dev, a disk is stopped only
  under the documented conditions and an idle disk is stopped in time, the statuses it announces
  are the statuses it keeps, and a running service has its monitor goroutine.
\<close>

section \<open>The list of disk states\<close>

definition get_disk :: "hd_state \<Rightarrow> string \<Rightarrow> disk_state option" where
  "get_disk s name = map_option (\<lambda>i. h_diskStats s ! i) (findDiskStateIndex (h_diskStats s) name)"

lemma findDiskStateIndex_Some:
  "findDiskStateIndex l n = Some i \<Longrightarrow> i < length l \<and> st_Name (l ! i) = n"
  by (induction l arbitrary: i) (auto split: if_splits)

lemma findDiskStateIndex_None: "findDiskStateIndex l n = None \<longleftrightarrow> n \<notin> st_Name ` set l"
  by (induction l) auto

lemma findDiskStateIndex_cong:
  "map st_Name l = map st_Name l' \<Longrightarrow> findDiskStateIndex l n = findDiskStateIndex l' n"
proof (induction l arbitrary: l')
  case (Cons d l)
  then obtain d' m where "l' = d' # m" by (cases l') auto
  with Cons show ?case by auto
qed simp

lemma findDiskStateIndex_app:
  "findDiskStateIndex (l @ [d]) n =
     (case findDiskStateIndex l n of Some i \<Rightarrow> Some i
      | None \<Rightarrow> if st_Name d = n then Some (length l) else None)"
  by (induction l) (auto split: option.splits)

lemma update_disk_name [simp]: "st_Name (fst (update_disk cfg l r w t ds)) = st_Name ds"
  by (simp add: update_disk_def wake_reset_def idle_branch_def active_branch_def Let_def)

lemma get_disk_name: "get_disk s n = Some d \<Longrightarrow> st_Name d = n"
  by (auto simp: get_disk_def dest: findDiskStateIndex_Some)

text \<open>Whether the service watches a disk.\<close>

definition watched :: "hd_config \<Rightarrow> string \<Rightarrow> bool" where
  "watched cfg n = (case map_of (hc_Devices cfg) n of None \<Rightarrow> False
     | Some dv \<Rightarrow> hd_Enabled dv \<noteq> NOENABLED \<and> hs_Supported dv)"

lemma updateDiskState_cases:
  "updateDiskState n r w t s =
     (if \<not> watched (h_config s) n then s
      else (case get_disk s n of
              None \<Rightarrow> s\<lparr>h_diskStats := h_diskStats s @ [initDiskState (h_config s) n r w t]\<rparr>
            | Some ds \<Rightarrow> let (ds', cmds, evs) = update_disk (h_config s) (h_lastNow s) r w t ds in
                s\<lparr>h_diskStats := (h_diskStats s)[the (findDiskStateIndex (h_diskStats s) n) := ds'],
                  h_issued := h_issued s @ cmds, h_events := h_events s @ evs\<rparr>))"
  by (auto simp: updateDiskState_def watched_def get_disk_def split: option.splits prod.splits)

lemma initDiskState_simps [simp]:
  "st_Name (initDiskState cfg n r w t) = n" "st_SpunDown (initDiskState cfg n r w t) = False"
  "ds_LastEmittedSpunDown (initDiskState cfg n r w t) = False"
  "ds_IsInitialized (initDiskState cfg n r w t) = False"
  by (simp_all add: initDiskState_def Let_def split: option.splits prod.splits)

lemma updateDiskState_frame [simp]:
  "h_config (updateDiskState n r w t s) = h_config s"
  "h_stopChan (updateDiskState n r w t s) = h_stopChan s"
  "h_lastNow (updateDiskState n r w t s) = h_lastNow s"
  "h_loops (updateDiskState n r w t s) = h_loops s"
  "h_next (updateDiskState n r w t s) = h_next s"
  by (simp_all add: updateDiskState_cases split: option.splits prod.splits)

lemma get_disk_updateDiskState:
  "get_disk (updateDiskState n r w t s) m =
     (if m \<noteq> n \<or> \<not> watched (h_config s) n then get_disk s m
      else (case get_disk s n of
              None \<Rightarrow> Some (initDiskState (h_config s) n r w t)
            | Some ds \<Rightarrow> Some (fst (update_disk (h_config s) (h_lastNow s) r w t ds))))"
proof (cases "watched (h_config s) n")
  case False
  then show ?thesis by (simp add: updateDiskState_cases)
next
  case True
  show ?thesis
  proof (cases "findDiskStateIndex (h_diskStats s) n")
    case None
    then have "get_disk s n = None" by (simp add: get_disk_def)
    with True None show ?thesis
      by (auto simp: updateDiskState_cases get_disk_def findDiskStateIndex_app nth_append
          dest: findDiskStateIndex_Some split: option.splits)
  next
    case (Some i)
    let ?l = "h_diskStats s"
    obtain ds' cmds evs where u: "update_disk (h_config s) (h_lastNow s) r w t (?l ! i) = (ds', cmds, evs)"
      by (cases "update_disk (h_config s) (h_lastNow s) r w t (?l ! i)") auto
    have i: "i < length ?l" "st_Name (?l ! i) = n" using findDiskStateIndex_Some [OF Some] by auto
    have "st_Name ds' = n" using update_disk_name [of "h_config s" "h_lastNow s" r w t "?l ! i"] u i
      by simp
    then have "map st_Name (?l[i := ds']) = map st_Name ?l"
      using i by (metis list_update_id map_update)
    then have same: "findDiskStateIndex (?l[i := ds']) m = findDiskStateIndex ?l m" for m
      by (rule findDiskStateIndex_cong)
    have other: "findDiskStateIndex ?l m = Some j \<Longrightarrow> m \<noteq> n \<Longrightarrow> j \<noteq> i" for j m
      using i findDiskStateIndex_Some [of ?l m j] by auto
    show ?thesis using True Some u i other
      by (cases "findDiskStateIndex ?l m")
        (auto simp: updateDiskState_cases get_disk_def same nth_list_update Let_def
          split: option.splits)
  qed
qed

lemma updateDiskState_names:
  "map st_Name (h_diskStats (updateDiskState n r w t s)) =
     (if watched (h_config s) n \<and> get_disk s n = None
      then map st_Name (h_diskStats s) @ [n] else map st_Name (h_diskStats s))"
proof -
  have "map st_Name (l[i := d]) = map st_Name l" if "findDiskStateIndex l n = Some i" "st_Name d = n"
    for l :: "disk_state list" and i d
    using findDiskStateIndex_Some [OF that(1)] that(2) by (metis list_update_id map_update)
  then show ?thesis
    by (auto simp: updateDiskState_cases get_disk_def Let_def split: option.splits prod.splits
        dest: findDiskStateIndex_Some) (metis findDiskStateIndex_Some fst_conv update_disk_name)
qed

section \<open>One disk\<close>

text \<open>The documented condition for a spin-down, of a disk without a suspend in between.\<close>

definition due :: "hd_config \<Rightarrow> int \<Rightarrow> disk_state \<Rightarrow> bool" where
  "due cfg t ds = ((\<not> st_SpunDown ds \<or> hc_IgnoreSpinDown cfg)
     \<and> Sub t (st_LastIOAt ds) > ds_IdleTime ds \<and> Sub t (st_SpinDownAt ds) > ds_IdleTime ds)"

definition suspended :: "hd_config \<Rightarrow> int \<Rightarrow> int \<Rightarrow> bool" where
  "suspended cfg lastNow t = (Unix t - Unix lastNow > go_div (go_div (hc_SkewTime cfg) 1000000) 1000)"

definition quiet :: "64 word \<Rightarrow> 64 word \<Rightarrow> disk_state \<Rightarrow> bool" where
  "quiet r w ds = (ds_Reads ds = r \<and> ds_Writes ds = w)"

lemma update_disk_issued:
  assumes "0 \<le> ds_IdleTime ds"
  shows "fst (snd (update_disk cfg l r w t ds)) =
    (if quiet r w ds \<and> \<not> suspended cfg l t \<and> due cfg t ds
     then (case spindownDisk (''/dev/'' @ st_Name ds) (ds_InternalCmdType ds) (ds_PowerCondition ds)
             of None \<Rightarrow> [] | Some c \<Rightarrow> [c]) else [])"
proof -
  have "\<not> Sub t t > ds_IdleTime ds" using assms by (simp add: Sub_def)
  then show ?thesis
    by (auto simp: update_disk_def wake_reset_def idle_branch_def quiet_def suspended_def due_def
        Let_def)
qed

lemma update_disk_status:
  assumes "0 \<le> ds_IdleTime ds"
  shows "st_SpunDown (fst (update_disk cfg l r w t ds)) =
    (quiet r w ds \<and> \<not> suspended cfg l t \<and> (st_SpunDown ds \<or> due cfg t ds))"
proof -
  have "\<not> Sub t t > ds_IdleTime ds" using assms by (simp add: Sub_def)
  then show ?thesis
    by (auto simp: update_disk_def wake_reset_def idle_branch_def active_branch_def quiet_def
        suspended_def due_def Let_def)
qed

lemma update_disk_params [simp]:
  "ds_IdleTime (fst (update_disk cfg l r w t ds)) = ds_IdleTime ds"
  "ds_InternalCmdType (fst (update_disk cfg l r w t ds)) = ds_InternalCmdType ds"
  "ds_PowerCondition (fst (update_disk cfg l r w t ds)) = ds_PowerCondition ds"
  "ds_Reads (fst (update_disk cfg l r w t ds)) = r"
  "ds_Writes (fst (update_disk cfg l r w t ds)) = w"
  by (auto simp: update_disk_def wake_reset_def idle_branch_def active_branch_def Let_def)

lemma update_disk_quiet_times:
  assumes "quiet r w ds" "\<not> suspended cfg l t"
  shows "st_LastIOAt (fst (update_disk cfg l r w t ds)) = st_LastIOAt ds"
    "\<not> due cfg t ds \<Longrightarrow> st_SpinDownAt (fst (update_disk cfg l r w t ds)) = st_SpinDownAt ds"
  using assms
  by (auto simp: update_disk_def wake_reset_def idle_branch_def quiet_def suspended_def due_def
      Let_def)

lemma update_disk_emits:
  "let (ds', cmds, evs) = update_disk cfg l r w t ds in
   ds_LastEmittedSpunDown ds' = st_SpunDown ds' \<and> ds_IsInitialized ds' \<and>
   (evs = [disk_status.truncate ds'] \<or>
    evs = [] \<and> ds_IsInitialized ds \<and> ds_LastEmittedSpunDown ds = st_SpunDown ds')"
  by (auto simp: update_disk_def wake_reset_def idle_branch_def active_branch_def Let_def)

section \<open>The service\<close>

text \<open>The last status announced for a disk.\<close>

definition last_status :: "string \<Rightarrow> disk_status list \<Rightarrow> disk_status option" where
  "last_status n evs = List.find (\<lambda>e. st_Name e = n) (rev evs)"

definition announced :: "disk_status list \<Rightarrow> disk_state \<Rightarrow> bool" where
  "announced evs ds =
     (ds_LastEmittedSpunDown ds = st_SpunDown ds \<and>
      (if ds_IsInitialized ds
       then \<exists>e. last_status (st_Name ds) evs = Some e \<and> st_SpunDown e = st_SpunDown ds
       else \<not> st_SpunDown ds))"

definition loops_ok :: "hd_state \<Rightarrow> bool" where
  "loops_ok s = (distinct (h_loops s) \<and> (\<forall>k \<in> set (h_loops s). k < h_next s)
     \<and> (\<forall>k. h_stopChan s = Some k \<longrightarrow> k \<in> set (h_loops s) \<and> hc_Enabled (h_config s)))"

definition disks_ok :: "hd_state \<Rightarrow> bool" where
  "disks_ok s = (distinct (map st_Name (h_diskStats s))
     \<and> (\<forall>n ds. get_disk s n = Some ds \<longrightarrow> watched (h_config s) n \<and> announced (h_events s) ds))"

lemma last_status_snoc:
  "last_status n (evs @ [e]) = (if st_Name e = n then Some e else last_status n evs)"
  by (simp add: last_status_def)

lemma truncate_status [simp]:
  "st_Name (disk_status.truncate d) = st_Name d" "st_SpunDown (disk_status.truncate d) = st_SpunDown d"
  by (simp_all add: disk_status.truncate_def)

lemma h_events_update:
  "h_events (updateDiskState n r w t s) = h_events s @
     (if watched (h_config s) n then
        (case get_disk s n of None \<Rightarrow> []
         | Some ds \<Rightarrow> snd (snd (update_disk (h_config s) (h_lastNow s) r w t ds))) else [])"
  by (simp add: updateDiskState_cases split: option.splits prod.splits)

lemma announced_own:
  assumes "announced evs ds"
  shows "announced (evs @ snd (snd (update_disk cfg l r w t ds))) (fst (update_disk cfg l r w t ds))"
proof -
  obtain ds' cmds e where u: "update_disk cfg l r w t ds = (ds', cmds, e)"
    by (cases "update_disk cfg l r w t ds") auto
  have n: "st_Name ds' = st_Name ds" using update_disk_name [of cfg l r w t ds] u by simp
  from update_disk_emits [of cfg l r w t ds] u
  have d: "ds_LastEmittedSpunDown ds' = st_SpunDown ds'" "ds_IsInitialized ds'"
    and e: "e = [disk_status.truncate ds'] \<or>
      e = [] \<and> ds_IsInitialized ds \<and> ds_LastEmittedSpunDown ds = st_SpunDown ds'"
    by auto
  from e show ?thesis using assms d n u
    by (auto simp: announced_def last_status_snoc)
qed

lemma announced_other:
  assumes "announced evs ds" "\<forall>e \<in> set new. st_Name e \<noteq> st_Name ds"
  shows "announced (evs @ new) ds"
proof -
  have "List.find (\<lambda>e. st_Name e = st_Name ds) (rev new) = None"
    using assms(2) by (simp add: find_None_iff)
  moreover have "List.find P (xs @ ys) = (case List.find P xs of Some x \<Rightarrow> Some x | None \<Rightarrow> List.find P ys)"
    for P :: "disk_status \<Rightarrow> bool" and xs ys
    by (induction xs) auto
  ultimately have "last_status (st_Name ds) (evs @ new) = last_status (st_Name ds) evs"
    by (simp add: last_status_def)
  with assms(1) show ?thesis by (simp add: announced_def)
qed

lemma update_disk_event_name:
  "e \<in> set (snd (snd (update_disk cfg l r w t ds))) \<Longrightarrow> st_Name e = st_Name ds"
  using update_disk_name [of cfg l r w t ds]
  by (auto simp: update_disk_def wake_reset_def idle_branch_def active_branch_def Let_def
      split: prod.splits if_splits)

lemma disks_ok_update: "disks_ok s \<Longrightarrow> disks_ok (updateDiskState n r w t s)"
proof -
  assume ok: "disks_ok s"
  let ?s' = "updateDiskState n r w t s"
  have "get_disk s n = None \<Longrightarrow> n \<notin> st_Name ` set (h_diskStats s)"
    by (simp add: get_disk_def findDiskStateIndex_None)
  then have names: "distinct (map st_Name (h_diskStats ?s'))"
    using ok by (auto simp: updateDiskState_names disks_ok_def)
  have "watched (h_config s) m \<and> announced (h_events ?s') ds'"
    if g: "get_disk ?s' m = Some ds'" for m ds'
  proof (cases "m = n \<and> watched (h_config s) n")
    case True
    then show ?thesis
    proof (cases "get_disk s n")
      case None
      with True g show ?thesis
        by (auto simp: get_disk_updateDiskState announced_def)
    next
      case (Some ds)
      with ok have "announced (h_events s) ds" by (simp add: disks_ok_def)
      from announced_own [OF this] True g Some show ?thesis
        by (auto simp: get_disk_updateDiskState h_events_update)
    qed
  next
    case False
    with g have g': "get_disk s m = Some ds'" by (simp add: get_disk_updateDiskState split: if_splits)
    with ok have a: "watched (h_config s) m" "announced (h_events s) ds'" by (auto simp: disks_ok_def)
    have name: "st_Name ds' = m" using g' by (rule get_disk_name)
    have other: "st_Name e \<noteq> st_Name ds'"
      if "watched (h_config s) n" "get_disk s n = Some ds"
        "e \<in> set (snd (snd (update_disk (h_config s) (h_lastNow s) r w t ds)))" for ds e
      using update_disk_event_name [OF that(3)] get_disk_name [OF that(2)] name False that(1) by auto
    let ?new = "if watched (h_config s) n then
        (case get_disk s n of None \<Rightarrow> []
         | Some ds \<Rightarrow> snd (snd (update_disk (h_config s) (h_lastNow s) r w t ds))) else []"
    have "\<forall>e \<in> set ?new. st_Name e \<noteq> st_Name ds'"
    proof (cases "get_disk s n")
      case (Some d)
      have "watched (h_config s) n \<Longrightarrow>
          e \<in> set (snd (snd (update_disk (h_config s) (h_lastNow s) r w t d))) \<Longrightarrow>
          st_Name e \<noteq> st_Name ds'" for e using other [of d e] Some by blast
      then show ?thesis unfolding Some option.case by (cases "watched (h_config s) n") simp_all
    next
      case None
      show ?thesis unfolding None option.case by (cases "watched (h_config s) n") simp_all
    qed
    with a(2) have "announced (h_events ?s') ds'"
      unfolding h_events_update by (rule announced_other)
    with a(1) show ?thesis by simp
  qed
  with names show ?thesis by (simp add: disks_ok_def)
qed

abbreviation observe_all :: "int \<Rightarrow> io_snapshot \<Rightarrow> hd_state \<Rightarrow> hd_state" where
  "observe_all t snap s \<equiv> foldl (\<lambda>s (name, reads, writes). updateDiskState name reads writes t s) s snap"

lemma observe_all_inv: "disks_ok s \<Longrightarrow> disks_ok (observe_all t snap s)"
  by (induction snap arbitrary: s) (auto intro: disks_ok_update)

lemma observe_all_frame [simp]:
  "h_config (observe_all t snap s) = h_config s" "h_stopChan (observe_all t snap s) = h_stopChan s"
  "h_lastNow (observe_all t snap s) = h_lastNow s" "h_loops (observe_all t snap s) = h_loops s"
  "h_next (observe_all t snap s) = h_next s"
  by (induction snap arbitrary: s) auto

lemma get_disk_lastNow [simp]: "get_disk (s\<lparr>h_lastNow := t\<rparr>) n = get_disk s n"
  by (simp add: get_disk_def)

lemma disks_ok_observe: "disks_ok s \<Longrightarrow> disks_ok (observeDiskActivity snap t s)"
  using observe_all_inv [of s t snap] by (simp add: observeDiskActivity_def disks_ok_def)

definition hd_inv :: "hd_state \<Rightarrow> bool" where
  "hd_inv s = (loops_ok s \<and> disks_ok s)"

lemma hd_step_inv: "hd_inv s \<Longrightarrow> hd_inv (hd_step s e)"
proof (cases e)
  case (StartCommit cfg t)
  assume "hd_inv s"
  with StartCommit show ?thesis
    by (auto simp: hd_inv_def loops_ok_def disks_ok_def Start_commit_def Let_def get_disk_def)
next
  case StopCall
  assume "hd_inv s"
  with StopCall show ?thesis by (auto simp: hd_inv_def loops_ok_def disks_ok_def Stop_def get_disk_def)
next
  case (LoopTick k snap t)
  assume "hd_inv s"
  with LoopTick disks_ok_observe [of s snap t] show ?thesis
    by (auto simp: hd_inv_def loops_ok_def observeDiskActivity_def)
next
  case (LoopExit k)
  assume "hd_inv s"
  with LoopExit show ?thesis
    by (auto simp: hd_inv_def loops_ok_def disks_ok_def get_disk_def distinct_removeAll)
qed

lemma hd_inv_new: "hd_inv NewHDIdleService"
  by (simp add: hd_inv_def loops_ok_def disks_ok_def NewHDIdleService_def get_disk_def)

interpretation hd_service: invariant_steps hd_step "\<lambda>_. True" hd_inv
  by unfold_locales (simp add: hd_step_inv)

section \<open>Properties\<close>

text \<open>Whatever sequence of starts, stops, ticks and goroutine exits happens, a running
  service has exactly the monitor goroutine of its own channel that can keep running, its
  configuration enables some device, disk names are unique, only configured and supported disks
  are tracked, and for every disk the status last announced on the bus is the status kept.\<close>

theorem hdidle_service_invariant:
  assumes "s = foldl hd_step NewHDIdleService es"
  shows "(\<forall>k. h_stopChan s = Some k \<longrightarrow> k \<in> set (h_loops s) \<and> hc_Enabled (h_config s))
    \<and> distinct (h_loops s) \<and> distinct (map st_Name (h_diskStats s))
    \<and> (\<forall>n ds. get_disk s n = Some ds \<longrightarrow> watched (h_config s) n \<and> announced (h_events s) ds)"
proof -
  have "hd_inv s" unfolding assms
    by (rule hd_service.inv_run [OF hd_inv_new]) (simp add: list_all_iff)
  then show ?thesis by (simp add: hd_inv_def loops_ok_def disks_ok_def)
qed

text \<open>C32: A stop command is sent for a disk exactly when the disk is watched, its counters did
  not move since the last tick, no suspend happened in between, it is not already spun down
  (unless configured to ignore that), and both the last I/O and the last spin-down are longer
  ago than its idle time; it is the configured command for that disk's device file. A disk seen
  for the first time gets no command.\<close>

theorem spindown_exact:
  assumes "\<forall>ds. get_disk s n = Some ds \<longrightarrow> 0 \<le> ds_IdleTime ds"
  shows "h_issued (updateDiskState n r w t s) = h_issued s @
    (case get_disk s n of
       Some ds \<Rightarrow>
         if watched (h_config s) n \<and> quiet r w ds \<and> \<not> suspended (h_config s) (h_lastNow s) t
            \<and> due (h_config s) t ds
         then (case spindownDisk (''/dev/'' @ n) (ds_InternalCmdType ds) (ds_PowerCondition ds) of
                 None \<Rightarrow> [] | Some c \<Rightarrow> [c])
         else []
     | None \<Rightarrow> [])"
proof (cases "get_disk s n")
  case None
  then show ?thesis by (simp add: updateDiskState_cases)
next
  case (Some ds)
  obtain ds' cmds evs where u: "update_disk (h_config s) (h_lastNow s) r w t ds = (ds', cmds, evs)"
    by (cases "update_disk (h_config s) (h_lastNow s) r w t ds") auto
  from Some assms have "0 \<le> ds_IdleTime ds" by simp
  from update_disk_issued [OF this, of "h_config s" "h_lastNow s" r w t] u Some
    get_disk_name [OF Some]
  show ?thesis by (simp add: updateDiskState_cases)
qed

text \<open>A service with one idle disk, for the concrete checks.\<close>

definition demo_device :: hdidle_device where
  "demo_device = hdidle_support.extend
     \<lparr>hs_Supported = True, hs_SupportsSCSI = True, hs_SupportsATA = False,
      hs_RecommendedCommand = Some SCSICOMMAND, hs_DevicePath = ''/dev/sda'', hs_ErrorMessage = []\<rparr>
     (hdidle_device.fields ''d1'' (60 * second) SCSICOMMAND 0 CUSTOMENABLED False False)"

definition demo_hd_config :: hd_config where
  "demo_hd_config = default_config\<lparr>hc_Enabled := True, hc_Devices := [(''sda'', demo_device)],
     hc_SkewTime := wrap64 (hdidleDormantInterval * 2)\<rparr>"

definition demo_hd :: hd_state where
  "demo_hd = hd_step (hd_step NewHDIdleService (StartCommit demo_hd_config 0))
     (LoopTick 0 [(''sda'', 5, 5)] (60 * second))"

lemmas demo_hd_defs = demo_hd_def demo_hd_config_def demo_device_def default_config_def
  NewHDIdleService_def Start_commit_def observeDiskActivity_def updateDiskState_def
  initDiskState_def hdidle_support.extend_def hdidle_device.fields_def

lemma demo_disk:
  "get_disk demo_hd ''sda'' = Some (initDiskState demo_hd_config ''sda'' 5 5 (60 * second))"
  by (simp add: get_disk_def demo_hd_defs)

lemma demo_idle: "ds_IdleTime (initDiskState demo_hd_config ''sda'' 5 5 (60 * second)) = 60 * second"
  by (simp add: demo_hd_defs)

theorem hdidle_service_invariant_witness:
  "h_stopChan demo_hd = Some 0 \<and> 0 \<in> set (h_loops demo_hd)"
proof -
  have "demo_hd = foldl hd_step NewHDIdleService
      [StartCommit demo_hd_config 0, LoopTick 0 [(''sda'', 5, 5)] (60 * second)]"
    by (simp add: demo_hd_def)
  note hdidle_service_invariant [OF this]
  moreover have "h_stopChan demo_hd = Some 0" by (simp add: demo_hd_defs)
  ultimately show ?thesis by simp
qed

theorem spindown_exact_witness:
  "h_issued (updateDiskState ''sda'' 5 5 (121 * second) demo_hd)
     = [StartStopScsiDevice ''/dev/sda'' 0]"
proof -
  have h: "\<forall>ds. get_disk demo_hd ''sda'' = Some ds \<longrightarrow> 0 \<le> ds_IdleTime ds"
    by (simp add: demo_disk demo_idle) (simp add: second_def)
  have w: "watched (h_config demo_hd) ''sda''" "h_issued demo_hd = []"
    by (simp_all add: watched_def demo_hd_defs)
  have s: "\<not> suspended (h_config demo_hd) (h_lastNow demo_hd) (121 * second)"
    by (simp add: suspended_def demo_hd_defs second_def Unix_def go_div_def
        hdidleDormantInterval_def wrap64_def)
  have d: "due (h_config demo_hd) (121 * second) (initDiskState demo_hd_config ''sda'' 5 5 (60 * second))"
    by (simp add: due_def demo_hd_defs second_def Sub_def zero_time_def)
  have q: "quiet 5 5 (initDiskState demo_hd_config ''sda'' 5 5 (60 * second))"
    "spindownDisk ''/dev/sda''
       (ds_InternalCmdType (initDiskState demo_hd_config ''sda'' 5 5 (60 * second)))
       (ds_PowerCondition (initDiskState demo_hd_config ''sda'' 5 5 (60 * second)))
     = Some (StartStopScsiDevice ''/dev/sda'' 0)"
    by (simp_all add: quiet_def demo_hd_defs spindownDisk_def)
  show ?thesis using spindown_exact [OF h, of 5 5 "121 * second"] w s d q by (simp add: demo_disk)
qed

section \<open>Device paths\<close>

text \<open>\<open>ResolveDevicePath\<close> never leaves the device directory: a path it returns exists, starts
  with /dev/ and has no parent segment, whatever the identifier is.\<close>

theorem ResolveDevicePath_safe:
  assumes "ResolveDevicePath env diskID = Ok p"
  shows "StatOk env p \<and> HasPrefix p ''/dev/'' \<and> ''..'' \<notin> set (Split p CHR ''/'')"
proof -
  have ok: "\<not> Contains diskID ''..''" and cases:
    "p = Clean diskID \<and> HasPrefix diskID ''/dev/'' \<and> HasPrefix p ''/dev/'' \<and> StatOk env p \<or>
     p = ''/dev/disk/by-id/'' @ diskID \<and> StatOk env p \<or> p = ''/dev/'' @ diskID \<and> StatOk env p"
    using assms by (auto simp: ResolveDevicePath_def Let_def split: if_splits)
  have "''..'' \<notin> set (Split diskID CHR ''/'')" using ok Split_Contains by blast
  then have segs: "''..'' \<notin> set (Split (''/dev/'' @ diskID) CHR ''/'')"
    "''..'' \<notin> set (Split (''/dev/disk/by-id/'' @ diskID) CHR ''/'')" by simp_all
  have pre: "HasPrefix (''/dev/'' @ diskID) ''/dev/''"
    "HasPrefix (''/dev/disk/by-id/'' @ diskID) ''/dev/''" by (simp_all add: HasPrefix_def)
  have clean: "''..'' \<notin> set (Split (Clean diskID) CHR ''/'')" if "HasPrefix diskID ''/dev/''"
  proof (rule Clean_segments)
    show "diskID \<noteq> []" "hd diskID = CHR ''/''"
      using that by (cases diskID; simp add: HasPrefix_def)+
  qed
  from cases show ?thesis
  proof (elim disjE conjE)
    assume "p = Clean diskID" "HasPrefix diskID ''/dev/''" "HasPrefix p ''/dev/''" "StatOk env p"
    with clean show ?thesis by simp
  qed (use segs pre in \<open>simp_all only: simp_thms\<close>)
qed

theorem ResolveDevicePath_safe_witness:
  "HasPrefix ''/dev/sda'' ''/dev/'' \<and> ''..'' \<notin> set (Split ''/dev/sda'' CHR ''/'')"
proof -
  let ?env = "\<lparr>RealPath = \<lambda>_. None, Lstat = \<lambda>_. NoFile [], StatOk = \<lambda>p. p = ''/dev/sda'',
    OpenScsiDevice = \<lambda>_. False, ataProbeFn = \<lambda>_. None\<rparr>"
  have "ResolveDevicePath ?env ''/dev//sda'' = Ok ''/dev/sda''"
    by (simp add: ResolveDevicePath_def HasPrefix_def Clean_def clean_step_def Let_def)
  from ResolveDevicePath_safe [OF this] show ?thesis by simp
qed

section \<open>Idle disks\<close>

text \<open>The state of one disk over the ticks of a loop that sees the same counters every time.\<close>

lemma due_spun: "quiet r w ds \<Longrightarrow> 0 \<le> ds_IdleTime ds \<Longrightarrow> \<not> suspended cfg l t \<Longrightarrow>
    st_SpunDown (fst (update_disk cfg l r w t ds)) = (st_SpunDown ds \<or> due cfg t ds)"
  by (simp add: update_disk_status)

lemma get_disk_observe_one:
  "n \<notin> set (keys snap) \<Longrightarrow> get_disk (observe_all t snap s) n = get_disk s n"
  by (induction snap arbitrary: s) (auto simp: get_disk_updateDiskState)

lemma get_disk_observe:
  assumes "distinct (keys snap)" "(n, r, w) \<in> set snap" "watched (h_config s) n"
    "get_disk s n = Some ds"
  shows "get_disk (observe_all t snap s) n
       = Some (fst (update_disk (h_config s) (h_lastNow s) r w t ds))"
  using assms
proof (induction snap arbitrary: s)
  case (Cons e snap)
  obtain m a b where e: "e = (m, a, b)" by (cases e) auto
  show ?case
  proof (cases "m = n")
    case True
    then have "n \<notin> set (keys snap)" using Cons.prems(1) e by auto
    moreover have "(a, b) = (r, w)" using Cons.prems(1,2) e True by (force simp: image_iff)
    ultimately show ?thesis using Cons.prems e True
      by (simp add: get_disk_observe_one get_disk_updateDiskState)
  next
    case False
    with Cons.prems e have "get_disk (updateDiskState m a b t s) n = Some ds" "(n, r, w) \<in> set snap"
      by (auto simp: get_disk_updateDiskState)
    with Cons e show ?thesis by simp
  qed
qed simp

text \<open>No suspend is detected between consecutive ticks.\<close>

fun steady :: "hd_config \<Rightarrow> int \<Rightarrow> int list \<Rightarrow> bool" where
  "steady cfg l [] = True"
| "steady cfg l (t # ts) = (\<not> suspended cfg l t \<and> steady cfg t ts)"

definition ticks :: "io_snapshot \<Rightarrow> int list \<Rightarrow> hd_state \<Rightarrow> hd_state" where
  "ticks snap ts s = foldl (\<lambda>s t. observeDiskActivity snap t s) s ts"

lemma observeDiskActivity_frame [simp]:
  "h_config (observeDiskActivity snap t s) = h_config s"
  "h_stopChan (observeDiskActivity snap t s) = h_stopChan s"
  "h_stopChan s \<noteq> None \<Longrightarrow> h_lastNow (observeDiskActivity snap t s) = t"
  by (auto simp: observeDiskActivity_def)

lemma quiet_update [simp]: "quiet r w (fst (update_disk cfg l r w t ds))"
  by (simp add: quiet_def)

text \<open>
  An idle disk that is not spun down keeps its last-I/O time and its last spin-down time, so a
  tick after both are longer ago than the idle time spins it down; once it is down it stays.
\<close>

lemma idle_ticks:
  assumes "h_stopChan s \<noteq> None" "distinct (keys snap)" "(n, r, w) \<in> set snap"
    "watched (h_config s) n" "get_disk s n = Some ds" "quiet r w ds" "0 \<le> ds_IdleTime ds"
    "steady (h_config s) (h_lastNow s) ts"
  shows "\<exists>ds'. get_disk (ticks snap ts s) n = Some ds'
    \<and> (st_SpunDown ds' \<longleftrightarrow> st_SpunDown ds \<or>
         (\<exists>t \<in> set ts. Sub t (st_LastIOAt ds) > ds_IdleTime ds
                     \<and> Sub t (st_SpinDownAt ds) > ds_IdleTime ds))"
  using assms
proof (induction ts arbitrary: s ds)
  case Nil
  then show ?case by (simp add: ticks_def)
next
  case (Cons t ts)
  let ?s = "observeDiskActivity snap t s"
  let ?d = "fst (update_disk (h_config s) (h_lastNow s) r w t ds)"
  from Cons.prems have ns: "\<not> suspended (h_config s) (h_lastNow s) t" by simp
  have g: "get_disk ?s n = Some ?d"
    using get_disk_observe [OF Cons.prems(2-5), of t] Cons.prems(1)
    by (cases "h_stopChan s") (simp_all add: observeDiskActivity_def)
  have tk: "ticks snap (t # ts) s = ticks snap ts ?s" by (simp add: ticks_def)
  have "\<exists>ds'. get_disk (ticks snap ts ?s) n = Some ds'
    \<and> (st_SpunDown ds' \<longleftrightarrow> st_SpunDown ?d \<or>
         (\<exists>t \<in> set ts. Sub t (st_LastIOAt ?d) > ds_IdleTime ?d
                     \<and> Sub t (st_SpinDownAt ?d) > ds_IdleTime ?d))"
    using Cons.prems by (intro Cons.IH g) auto
  then obtain ds' where ds': "get_disk (ticks snap ts ?s) n = Some ds'"
    and sp: "st_SpunDown ds' \<longleftrightarrow> st_SpunDown ?d \<or>
         (\<exists>t \<in> set ts. Sub t (st_LastIOAt ?d) > ds_IdleTime ?d
                     \<and> Sub t (st_SpinDownAt ?d) > ds_IdleTime ?d)" by blast
  have d: "st_SpunDown ?d = (st_SpunDown ds \<or> due (h_config s) t ds)"
    using Cons.prems ns by (intro due_spun)
  show ?case
  proof (cases "st_SpunDown ?d")
    case True
    with sp d ds' tk show ?thesis by (auto simp: due_def)
  next
    case False
    with d have nd: "\<not> due (h_config s) t ds" "\<not> st_SpunDown ds" by auto
    note q = update_disk_quiet_times [OF Cons.prems(6) ns]
    from sp False q(1) q(2) [OF nd(1)] nd ds' tk show ?thesis by (auto simp: due_def)
  qed
qed

text \<open>An idle disk is spun down in time: while a running service ticks without a detected
  suspend and the disk's counters stay the same, the disk is spun down exactly when it already
  was or some tick came later than its idle time after its last I/O and its last spin-down.\<close>

theorem idle_disk_spins_down:
  assumes "h_stopChan s \<noteq> None" "distinct (keys snap)" "(n, r, w) \<in> set snap"
    "watched (h_config s) n" "get_disk s n = Some ds" "quiet r w ds" "0 \<le> ds_IdleTime ds"
    "steady (h_config s) (h_lastNow s) ts"
  shows "\<exists>ds'. get_disk (ticks snap ts s) n = Some ds'
    \<and> (st_SpunDown ds' \<longleftrightarrow> st_SpunDown ds \<or>
         (\<exists>t \<in> set ts. Sub t (st_LastIOAt ds) > ds_IdleTime ds
                     \<and> Sub t (st_SpinDownAt ds) > ds_IdleTime ds))"
  using assms by (rule idle_ticks)

theorem idle_disk_spins_down_witness:
  "\<exists>ds'. get_disk (ticks [(''sda'', 5, 5)] [120 * second, 180 * second] demo_hd) ''sda'' = Some ds'
     \<and> st_SpunDown ds'"
proof -
  let ?d = "initDiskState demo_hd_config ''sda'' 5 5 (60 * second)"
  have "\<exists>ds'. get_disk (ticks [(''sda'', 5, 5)] [120 * second, 180 * second] demo_hd) ''sda'' = Some ds'
    \<and> (st_SpunDown ds' \<longleftrightarrow> st_SpunDown ?d \<or>
         (\<exists>t \<in> set [120 * second, 180 * second]. Sub t (st_LastIOAt ?d) > ds_IdleTime ?d
                     \<and> Sub t (st_SpinDownAt ?d) > ds_IdleTime ?d))"
  proof (rule idle_disk_spins_down [where r = 5 and w = 5])
    show "h_stopChan demo_hd \<noteq> None" "watched (h_config demo_hd) ''sda''"
      by (simp_all add: watched_def demo_hd_defs)
    show "quiet 5 5 ?d" by (simp add: quiet_def demo_hd_defs)
    show "0 \<le> ds_IdleTime ?d" by (simp add: demo_idle) (simp add: second_def)
    show "steady (h_config demo_hd) (h_lastNow demo_hd) [120 * second, 180 * second]"
      by (simp add: suspended_def demo_hd_defs second_def Unix_def go_div_def
          hdidleDormantInterval_def wrap64_def)
  qed (simp_all add: demo_disk)
  moreover have "Sub (180 * second) (st_LastIOAt ?d) > ds_IdleTime ?d
      \<and> Sub (180 * second) (st_SpinDownAt ?d) > ds_IdleTime ?d"
    by (simp add: demo_hd_defs second_def Sub_def zero_time_def)
  ultimately show ?thesis by auto
qed

end
