(* ===== verification/Problem_Store.thy ===== *)
theory Problem_Store
  imports Srat_Prelude
begin

text \<open>
  The problem service (\<open>service/problem_service.go\<close>, \<open>dto/problem.go\<close>, \<open>dbom/problem.go\<close>,
  \<open>converter/problem_to_dto_conv_gen.go\<close>): problems stored in the database with a cache in
  front of it, and an event for every change.

  The database is a parameter: \<open>problem_db\<close> holds the queries the code makes, each of which may
  fail, and \<open>db_laws\<close> states what a table of rows answers to them. The free-form \<open>Data\<close> of a
  problem is its serialised text.
\<close>

section \<open>Data\<close>

datatype severity = SevInfo | SevWarning | SevError | SevCritical | InvalidSeverity

datatype lifecycle = StCreated | StUpdated | StIgnored | StFixed | StDismissed | StDeleted | StError
  | InvalidLifecycle

record problem_action =
  pa_Key :: string
  pa_Label :: string
  pa_URL :: "string option"
  pa_IsDefault :: bool

record problem_base =
  pb_ID :: nat
  pb_CreatedAt :: int
  pb_UpdatedAt :: int
  pb_ProblemKey :: string
  pb_Title :: string
  pb_Description :: string
  pb_Severity :: severity
  pb_Status :: lifecycle
  pb_Repeating :: "64 word"
  pb_Ignored :: bool
  pb_Actions :: "problem_action list"
  pb_TranslationKey :: string
  pb_TranslationPlaceholders :: "(string, string) gomap option"
  pb_Data :: "string option"
  pb_DetailLink :: string
  pb_ResolutionLink :: string
  pb_IsFixable :: bool
  pb_IsPersistent :: bool

record problem = problem_base +
  pb_LearnMoreURL :: "string option"
  pb_LastError :: "string option"

record problem_row = problem_base +
  row_LearnMoreURL :: string
  row_LastError :: string

definition ToDbom :: "problem \<Rightarrow> problem_row" where
  "ToDbom p = problem_base.extend (problem_base.truncate p)
     (problem_row.fields (str_or_empty (pb_LearnMoreURL p)) (str_or_empty (pb_LastError p)))"

definition ToDto :: "problem_row \<Rightarrow> problem" where
  "ToDto r = problem_base.extend (problem_base.truncate r)
     (problem.fields (Some (row_LearnMoreURL r)) (Some (row_LastError r)))"

definition ToDtoList :: "problem_row list option \<Rightarrow> problem list option" where
  "ToDtoList rs = map_option (map ToDto) rs"

section \<open>The database\<close>

record 'db problem_db =
  find_key :: "'db \<Rightarrow> string \<Rightarrow> err + problem_row option"
  find_title :: "'db \<Rightarrow> string \<Rightarrow> err + problem_row option"
  find_all :: "'db \<Rightarrow> err + problem_row list"
  find_recent :: "'db \<Rightarrow> err + problem_row list"
  save_row :: "problem_row \<Rightarrow> 'db \<Rightarrow> err + problem_row \<times> 'db"
  create_row :: "problem_row \<Rightarrow> 'db \<Rightarrow> err + problem_row \<times> 'db"
  delete_row :: "nat \<Rightarrow> 'db \<Rightarrow> err + 'db"

datatype event_type = EvAdd | EvUpdate | EvRemove

record 'db problem_service =
  ps_db :: 'db
  ps_cache :: "(string, problem) gomap"
  ps_events :: "(event_type \<times> problem) list"

definition not_found :: err where
  "not_found = E ErrorNotFound ''record not found''"

section \<open>Operations\<close>

definition cacheKey :: "string \<Rightarrow> string \<Rightarrow> string" where
  "cacheKey problemKey title =
     (if TrimSpace problemKey \<noteq> [] then ''key:'' @ TrimSpace problemKey
      else ''title:'' @ TrimSpace title)"

abbreviation row_key :: "('a problem_base_scheme) \<Rightarrow> string" where
  "row_key r \<equiv> cacheKey (pb_ProblemKey r) (pb_Title r)"

definition put_cache :: "problem \<Rightarrow> 'db problem_service \<Rightarrow> 'db problem_service" where
  "put_cache item s = s\<lparr>ps_cache := AList.update (row_key item) item (ps_cache s)\<rparr>"

definition emit_problem ::
  "event_type \<Rightarrow> problem \<Rightarrow> 'db problem_service \<Rightarrow> 'db problem_service" where
  "emit_problem t item s = s\<lparr>ps_events := ps_events s @ [(t, item)]\<rparr>"

definition loadCache :: "'db problem_db \<Rightarrow> 'db problem_service \<Rightarrow> 'db problem_service" where
  "loadCache db s =
     (case find_all db (ps_db s) of
        Inl e \<Rightarrow> s
      | Inr rows \<Rightarrow> foldl (\<lambda>s row. put_cache (ToDto row) s) s rows)"

definition NewProblemService :: "'db problem_db \<Rightarrow> 'db \<Rightarrow> 'db problem_service" where
  "NewProblemService db d = loadCache db \<lparr>ps_db = d, ps_cache = [], ps_events = []\<rparr>"

text \<open>The fields an upsert writes into the row it found.\<close>

definition merge_problem :: "problem \<Rightarrow> problem_row \<Rightarrow> problem_row" where
  "merge_problem p r = r\<lparr>
     pb_Title := pb_Title p, pb_Description := pb_Description p, pb_Severity := pb_Severity p,
     pb_Status := StUpdated, pb_Ignored := pb_Ignored p, pb_Actions := pb_Actions p,
     pb_TranslationKey := pb_TranslationKey p,
     pb_TranslationPlaceholders := pb_TranslationPlaceholders p, pb_Data := pb_Data p,
     pb_DetailLink := pb_DetailLink p, pb_ResolutionLink := pb_ResolutionLink p,
     pb_IsFixable := pb_IsFixable p, pb_IsPersistent := pb_IsPersistent p,
     pb_Repeating := pb_Repeating r + 1,
     row_LearnMoreURL := (case pb_LearnMoreURL p of Some u \<Rightarrow> u | None \<Rightarrow> row_LearnMoreURL r),
     row_LastError := str_or_empty (pb_LastError p)\<rparr>"

definition Upsert ::
  "'db problem_db \<Rightarrow> problem option \<Rightarrow> 'db problem_service \<Rightarrow> problem res \<times> 'db problem_service" where
  "Upsert db problem s =
     (case problem of
        None \<Rightarrow> (Err (E ErrorOther ''problem is required''), s)
      | Some p \<Rightarrow>
          if pb_ProblemKey p = [] \<and> TrimSpace (pb_Title p) = []
          then (Err (E ErrorOther ''problem_key or title is required''), s)
          else
            let key = TrimSpace (pb_ProblemKey p);
                title = TrimSpace (pb_Title p);
                found = (if key \<noteq> [] then find_key db (ps_db s) key
                         else find_title db (ps_db s) title)
            in (case found of
                  Inl e \<Rightarrow> (Err e, s)
                | Inr (Some existing) \<Rightarrow>
                    (case save_row db (merge_problem p existing) (ps_db s) of
                       Inl e \<Rightarrow> (Err e, s)
                     | Inr (r, d) \<Rightarrow>
                         let item = ToDto r
                         in (Ok item, emit_problem EvUpdate item (put_cache item (s\<lparr>ps_db := d\<rparr>))))
                | Inr None \<Rightarrow>
                    (let row = ToDbom p;
                         row1 = (if pb_Repeating row = 0 then row\<lparr>pb_Repeating := 1\<rparr> else row)
                     in (case create_row db row1 (ps_db s) of
                           Inl e \<Rightarrow> (Err e, s)
                         | Inr (r, d) \<Rightarrow>
                             let item = ToDto r
                             in (Ok item,
                                 emit_problem EvAdd item (put_cache item (s\<lparr>ps_db := d\<rparr>)))))))"

definition Dismiss ::
  "'db problem_db \<Rightarrow> string \<Rightarrow> 'db problem_service \<Rightarrow> unit res \<times> 'db problem_service" where
  "Dismiss db problemKey s =
     (if TrimSpace problemKey = [] then (Err (E ErrorOther ''problem_key is required''), s)
      else (case find_key db (ps_db s) problemKey of
              Inl e \<Rightarrow> (Err e, s)
            | Inr None \<Rightarrow> (Err not_found, s)
            | Inr (Some row) \<Rightarrow>
                (case delete_row db (pb_ID row) (ps_db s) of
                   Inl e \<Rightarrow> (Err e, s)
                 | Inr d \<Rightarrow>
                     let item = ToDto row
                     in (Ok (), emit_problem EvRemove item
                           (s\<lparr>ps_db := d, ps_cache := AList.delete (row_key item) (ps_cache s)\<rparr>)))))"

definition Get ::
  "'db problem_db \<Rightarrow> string \<Rightarrow> 'db problem_service \<Rightarrow> problem res \<times> 'db problem_service" where
  "Get db problemKey s =
     (if TrimSpace problemKey = [] then (Err (E ErrorOther ''problem_key is required''), s)
      else (case map_of (ps_cache s) (cacheKey problemKey []) of
              Some value \<Rightarrow> (Ok value, s)
            | None \<Rightarrow>
                (case find_key db (ps_db s) problemKey of
                   Inl e \<Rightarrow> (Err e, s)
                 | Inr None \<Rightarrow> (Err not_found, s)
                 | Inr (Some row) \<Rightarrow> (Ok (ToDto row), put_cache (ToDto row) s))))"

definition List_problems :: "'db problem_db \<Rightarrow> 'db problem_service \<Rightarrow> problem list res" where
  "List_problems db s =
     (if ps_cache s \<noteq> [] then Ok (sort_key (\<lambda>p. - pb_UpdatedAt p) (map snd (ps_cache s)))
      else (case find_recent db (ps_db s) of
              Inl e \<Rightarrow> Err e
            | Inr rows \<Rightarrow> Ok (map ToDto rows)))"

definition ApplyLifecycle ::
  "'db problem_db \<Rightarrow> string \<Rightarrow> lifecycle \<Rightarrow> string option \<Rightarrow> 'db problem_service
     \<Rightarrow> problem res \<times> 'db problem_service" where
  "ApplyLifecycle db problemKey status lastError s =
     (if TrimSpace problemKey = [] then (Err (E ErrorOther ''problem_key is required''), s)
      else (case find_key db (ps_db s) problemKey of
              Inl e \<Rightarrow> (Err e, s)
            | Inr None \<Rightarrow> (Err not_found, s)
            | Inr (Some row) \<Rightarrow>
                (case save_row db (row\<lparr>pb_Status := status,
                         row_LastError := str_or_empty lastError\<rparr>) (ps_db s) of
                   Inl e \<Rightarrow> (Err e, s)
                 | Inr (r, d) \<Rightarrow>
                     let item = ToDto r
                     in (Ok item,
                         emit_problem EvUpdate item (put_cache item (s\<lparr>ps_db := d\<rparr>))))))"

text \<open>\<open>ProblemLifecycleMessage.Validate\<close>: every status of the enum is accepted.\<close>

record lifecycle_message =
  lm_Type :: string
  lm_ProblemKey :: string
  lm_Status :: "lifecycle option"

definition Validate :: "lifecycle_message \<Rightarrow> err option" where
  "Validate msg =
     (if lm_Type msg \<noteq> ''problem_lifecycle'' then Some (E ErrorOther ''invalid lifecycle type'')
      else if lm_ProblemKey msg = [] then Some (E ErrorOther ''problem_key is required'')
      else (case lm_Status msg of
              Some st \<Rightarrow> None
            | None \<Rightarrow> Some (E ErrorOther ''invalid problem lifecycle status'')))"

text \<open>The operations as inputs of the service.\<close>

datatype problem_op =
    OpUpsert "problem option" | OpDismiss string | OpGet string
  | OpApply string lifecycle "string option"

fun problem_step :: "'db problem_db \<Rightarrow> 'db problem_service \<Rightarrow> problem_op \<Rightarrow> 'db problem_service" where
  "problem_step db s (OpUpsert p) = snd (Upsert db p s)"
| "problem_step db s (OpDismiss k) = snd (Dismiss db k s)"
| "problem_step db s (OpGet k) = snd (Get db k s)"
| "problem_step db s (OpApply k st e) = snd (ApplyLifecycle db k st e s)"

end
