(* ===== verification/Problem_Laws.thy ===== *)
theory Problem_Laws
  imports Problem_Store
begin

text \<open>
  What the problem service guarantees on a database that behaves like a table of rows: the
  cache never shows anything but current rows, problem keys stay unique as long as they are
  stored without surrounding white space, and an upsert is what the next lookup returns.
\<close>

section \<open>A table of rows\<close>

text \<open>
  The documented behaviour of the queries: a search by column returns a row with that value or
  none if there is none, saving replaces the row with the id and touches only its update time,
  creating appends a row with a fresh id, deleting removes the row with the id.
\<close>

definition same_content :: "problem_row \<Rightarrow> problem_row \<Rightarrow> bool" where
  "same_content r r' = (\<exists>i c u. r' = r\<lparr>pb_ID := i, pb_CreatedAt := c, pb_UpdatedAt := u\<rparr>)"

definition db_laws :: "'db problem_db \<Rightarrow> ('db \<Rightarrow> problem_row list) \<Rightarrow> bool" where
  "db_laws db rows \<longleftrightarrow>
     (\<forall>d k r. find_key db d k = Inr (Some r) \<longrightarrow> r \<in> set (rows d) \<and> pb_ProblemKey r = k) \<and>
     (\<forall>d k. find_key db d k = Inr None \<longrightarrow> (\<forall>r \<in> set (rows d). pb_ProblemKey r \<noteq> k)) \<and>
     (\<forall>d t r. find_title db d t = Inr (Some r) \<longrightarrow> r \<in> set (rows d) \<and> pb_Title r = t) \<and>
     (\<forall>d rs. find_all db d = Inr rs \<longrightarrow> set rs = set (rows d)) \<and>
     (\<forall>r d r' d'. save_row db r d = Inr (r', d') \<longrightarrow> (\<exists>u. r' = r\<lparr>pb_UpdatedAt := u\<rparr>)
        \<and> rows d' = map (\<lambda>x. if pb_ID x = pb_ID r then r' else x) (rows d)) \<and>
     (\<forall>r d r' d'. create_row db r d = Inr (r', d') \<longrightarrow> same_content r r'
        \<and> pb_ID r' \<notin> pb_ID ` set (rows d) \<and> rows d' = rows d @ [r']) \<and>
     (\<forall>i d d'. delete_row db i d = Inr d' \<longrightarrow> rows d' = filter (\<lambda>x. pb_ID x \<noteq> i) (rows d))"

lemma db_lawsD:
  assumes "db_laws db rows"
  shows "find_key db d k = Inr (Some r) \<Longrightarrow> r \<in> set (rows d) \<and> pb_ProblemKey r = k"
    "find_key db d k = Inr None \<Longrightarrow> x \<in> set (rows d) \<Longrightarrow> pb_ProblemKey x \<noteq> k"
    "find_title db d t = Inr (Some r) \<Longrightarrow> r \<in> set (rows d) \<and> pb_Title r = t"
    "find_all db d = Inr rs \<Longrightarrow> set rs = set (rows d)"
    "save_row db r d = Inr (r', d') \<Longrightarrow> (\<exists>u. r' = r\<lparr>pb_UpdatedAt := u\<rparr>)
        \<and> rows d' = map (\<lambda>x. if pb_ID x = pb_ID r then r' else x) (rows d)"
    "create_row db r d = Inr (r', d') \<Longrightarrow> same_content r r'
        \<and> pb_ID r' \<notin> pb_ID ` set (rows d) \<and> rows d' = rows d @ [r']"
    "delete_row db i d = Inr d' \<Longrightarrow> rows d' = filter (\<lambda>x. pb_ID x \<noteq> i) (rows d)"
  using assms by (simp_all add: db_laws_def)

section \<open>Lemmas\<close>

lemma base_extend [simp]:
  "pb_ID (problem_base.extend (problem_base.truncate r) m) = pb_ID r"
  "pb_ProblemKey (problem_base.extend (problem_base.truncate r) m) = pb_ProblemKey r"
  "pb_Title (problem_base.extend (problem_base.truncate r) m) = pb_Title r"
  "pb_Repeating (problem_base.extend (problem_base.truncate r) m) = pb_Repeating r"
  "pb_Status (problem_base.extend (problem_base.truncate r) m) = pb_Status r"
  "pb_Description (problem_base.extend (problem_base.truncate r) m) = pb_Description r"
  "pb_Severity (problem_base.extend (problem_base.truncate r) m) = pb_Severity r"
  by (simp_all add: problem_base.extend_def problem_base.truncate_def)

lemma ToDto_simps [simp]:
  "pb_ID (ToDto r) = pb_ID r" "pb_ProblemKey (ToDto r) = pb_ProblemKey r"
  "pb_Title (ToDto r) = pb_Title r" "pb_Repeating (ToDto r) = pb_Repeating r"
  "pb_Status (ToDto r) = pb_Status r" "pb_Description (ToDto r) = pb_Description r"
  "pb_Severity (ToDto r) = pb_Severity r"
  by (simp_all add: ToDto_def)

lemma ToDbom_simps [simp]:
  "pb_ProblemKey (ToDbom r) = pb_ProblemKey r" "pb_Title (ToDbom r) = pb_Title r"
  "pb_Repeating (ToDbom r) = pb_Repeating r" "pb_Description (ToDbom r) = pb_Description r"
  "pb_Severity (ToDbom r) = pb_Severity r" "pb_Status (ToDbom r) = pb_Status r"
  by (simp_all add: ToDbom_def)

lemma same_content_simps:
  "same_content r r' \<Longrightarrow> pb_ProblemKey r' = pb_ProblemKey r \<and> pb_Title r' = pb_Title r
     \<and> pb_Repeating r' = pb_Repeating r \<and> pb_Description r' = pb_Description r
     \<and> pb_Severity r' = pb_Severity r \<and> pb_Status r' = pb_Status r"
  by (auto simp: same_content_def)

lemma merge_simps [simp]:
  "pb_ID (merge_problem p r) = pb_ID r" "pb_ProblemKey (merge_problem p r) = pb_ProblemKey r"
  "pb_Title (merge_problem p r) = pb_Title p" "pb_Repeating (merge_problem p r) = pb_Repeating r + 1"
  "pb_Description (merge_problem p r) = pb_Description p"
  "pb_Severity (merge_problem p r) = pb_Severity p" "pb_Status (merge_problem p r) = StUpdated"
  by (simp_all add: merge_problem_def)

definition db_ok :: "problem_row list \<Rightarrow> bool" where
  "db_ok rs = distinct (map pb_ID rs)"

definition cache_sound :: "(string, problem) gomap \<Rightarrow> problem_row list \<Rightarrow> bool" where
  "cache_sound c rs = (distinct (keys c) \<and>
     (\<forall>(k, item) \<in> set c. \<exists>r \<in> set rs. item = ToDto r \<and> k = row_key r))"

definition problem_inv :: "('db \<Rightarrow> problem_row list) \<Rightarrow> 'db problem_service \<Rightarrow> bool" where
  "problem_inv rows s = (db_ok (rows (ps_db s)) \<and> cache_sound (ps_cache s) (rows (ps_db s)))"

lemma cache_sound_put:
  assumes "cache_sound c rs" "r \<in> set rs"
  shows "cache_sound (AList.update (row_key r) (ToDto r) c) rs"
  using assms by (auto simp: cache_sound_def set_update_distinct distinct_keys_update)

text \<open>Replacing a row keeps the cache sound when the row's cache key stays and is refreshed.\<close>

lemma cache_sound_replace:
  assumes c: "cache_sound c rs" and d: "db_ok rs" and r: "r \<in> set rs"
    and k: "row_key r' = row_key r" and i: "pb_ID r' = pb_ID r"
  shows "cache_sound (AList.update (row_key r') (ToDto r') c)
           (map (\<lambda>x. if pb_ID x = pb_ID r then r' else x) rs)"
proof -
  let ?rs = "map (\<lambda>x. if pb_ID x = pb_ID r then r' else x) rs"
  have own: "r' \<in> set ?rs" using r by force
  have other: "\<exists>x \<in> set ?rs. item = ToDto x \<and> l = row_key x"
    if e: "(l, item) \<in> set c" "l \<noteq> row_key r'" for l item
  proof -
    from c e obtain x where x: "x \<in> set rs" "item = ToDto x" "l = row_key x"
      by (auto simp: cache_sound_def)
    have "pb_ID x \<noteq> pb_ID r"
    proof
      assume "pb_ID x = pb_ID r"
      with d r x(1) have "x = r" by (auto simp: db_ok_def distinct_map inj_on_def)
      with e x k show False by simp
    qed
    with x have "x \<in> set ?rs" by force
    with x show ?thesis by blast
  qed
  have "distinct (keys c)" using c by (simp add: cache_sound_def)
  with own other show ?thesis
    unfolding cache_sound_def by (auto simp: set_update_distinct distinct_keys_update)
qed

lemma db_ok_replace:
  "db_ok rs \<Longrightarrow> pb_ID r' = i \<Longrightarrow> db_ok (map (\<lambda>x. if pb_ID x = i then r' else x) rs)"
  by (simp add: db_ok_def comp_def if_distrib cong: if_cong)

lemma cache_sound_mono: "cache_sound c rs \<Longrightarrow> set rs \<subseteq> set rs' \<Longrightarrow> cache_sound c rs'"
  unfolding cache_sound_def by fastforce

lemma put_cache_simps [simp]:
  "ps_db (put_cache i s) = ps_db s" "ps_events (put_cache i s) = ps_events s"
  "ps_cache (put_cache i s) = AList.update (row_key i) i (ps_cache s)"
  by (simp_all add: put_cache_def)

lemma emit_problem_simps [simp]:
  "ps_db (emit_problem t i s) = ps_db s" "ps_cache (emit_problem t i s) = ps_cache s"
  "ps_events (emit_problem t i s) = ps_events s @ [(t, i)]"
  by (simp_all add: emit_problem_def)

lemma problem_inv_emit [simp]: "problem_inv rows (emit_problem t i s) = problem_inv rows s"
  by (simp add: problem_inv_def)

lemma row_key_ToDto [simp]: "row_key (ToDto r) = row_key r"
  by simp

text \<open>The three ways a method changes the state.\<close>

lemma inv_save:
  assumes l: "db_laws db rows" and inv: "problem_inv rows s"
    and r: "r \<in> set (rows (ps_db s))" "pb_ID m = pb_ID r" "row_key m = row_key r"
    and sv: "save_row db m (ps_db s) = Inr (r', d)"
  shows "problem_inv rows (put_cache (ToDto r') (s\<lparr>ps_db := d\<rparr>))"
proof -
  from db_lawsD(5) [OF l sv] obtain u where r': "r' = m\<lparr>pb_UpdatedAt := u\<rparr>"
    and d: "rows d = map (\<lambda>x. if pb_ID x = pb_ID r then r' else x) (rows (ps_db s))"
    using r(2) by auto
  have "row_key r' = row_key r" "pb_ID r' = pb_ID r" using r' r by simp_all
  with inv r(1) show ?thesis
    using cache_sound_replace [of "ps_cache s" "rows (ps_db s)" r r']
      db_ok_replace [of "rows (ps_db s)" r' "pb_ID r"]
    by (simp add: problem_inv_def d)
qed

lemma inv_create:
  assumes l: "db_laws db rows" and inv: "problem_inv rows s"
    and cr: "create_row db m (ps_db s) = Inr (r', d)"
  shows "problem_inv rows (put_cache (ToDto r') (s\<lparr>ps_db := d\<rparr>))"
proof -
  from db_lawsD(6) [OF l cr] have d: "rows d = rows (ps_db s) @ [r']"
    and f: "pb_ID r' \<notin> pb_ID ` set (rows (ps_db s))" by auto
  have "cache_sound (ps_cache s) (rows d)"
    using inv by (auto simp: problem_inv_def d intro: cache_sound_mono)
  then have "cache_sound (AList.update (row_key r') (ToDto r') (ps_cache s)) (rows d)"
    by (rule cache_sound_put) (simp add: d)
  with inv f show ?thesis by (simp add: problem_inv_def db_ok_def d)
qed

lemma inv_delete:
  assumes l: "db_laws db rows" and inv: "problem_inv rows s" and r: "r \<in> set (rows (ps_db s))"
    and dl: "delete_row db (pb_ID r) (ps_db s) = Inr d"
  shows "problem_inv rows (s\<lparr>ps_db := d, ps_cache := AList.delete (row_key r) (ps_cache s)\<rparr>)"
proof -
  have d: "rows d = filter (\<lambda>x. pb_ID x \<noteq> pb_ID r) (rows (ps_db s))"
    using db_lawsD(7) [OF l dl] .
  have c: "cache_sound (ps_cache s) (rows (ps_db s))" and dk: "db_ok (rows (ps_db s))"
    using inv by (simp_all add: problem_inv_def)
  have keep: "\<exists>x \<in> set (rows d). item = ToDto x \<and> l = row_key x"
    if e: "(l, item) \<in> set (ps_cache s)" "l \<noteq> row_key r" for l item
  proof -
    from c e obtain x where x: "x \<in> set (rows (ps_db s))" "item = ToDto x" "l = row_key x"
      by (auto simp: cache_sound_def)
    have "pb_ID x \<noteq> pb_ID r"
      using dk r x e by (auto simp: db_ok_def distinct_map inj_on_def)
    with x show ?thesis by (auto simp: d)
  qed
  have "distinct (keys (ps_cache s))" using c by (simp add: cache_sound_def)
  then have "cache_sound (AList.delete (row_key r) (ps_cache s)) (rows d)"
    unfolding cache_sound_def using keep by (auto simp: set_delete distinct_keys_delete)
  with dk show ?thesis by (simp add: problem_inv_def d db_ok_def distinct_map_filter)
qed

text \<open>What an upsert did when it succeeded.\<close>

abbreviation lookup_problem :: "'db problem_db \<Rightarrow> problem \<Rightarrow> 'db \<Rightarrow> err + problem_row option" where
  "lookup_problem db p d \<equiv> (if TrimSpace (pb_ProblemKey p) \<noteq> []
     then find_key db d (TrimSpace (pb_ProblemKey p)) else find_title db d (TrimSpace (pb_Title p)))"

abbreviation new_row :: "problem \<Rightarrow> problem_row" where
  "new_row p \<equiv> (if pb_Repeating p = 0 then (ToDbom p)\<lparr>pb_Repeating := 1\<rparr> else ToDbom p)"

lemma Upsert_cases:
  assumes "Upsert db (Some p) s = (Ok item, s')"
  obtains (update) r0 r d where "lookup_problem db p (ps_db s) = Inr (Some r0)"
      "save_row db (merge_problem p r0) (ps_db s) = Inr (r, d)" "item = ToDto r"
      "s' = emit_problem EvUpdate item (put_cache item (s\<lparr>ps_db := d\<rparr>))"
  | (create) r d where "lookup_problem db p (ps_db s) = Inr None"
      "create_row db (new_row p) (ps_db s) = Inr (r, d)" "item = ToDto r"
      "s' = emit_problem EvAdd item (put_cache item (s\<lparr>ps_db := d\<rparr>))"
  using assms
  by (auto simp: Upsert_def Let_def split: sum.splits option.splits prod.splits if_splits)

lemma Upsert_not_Ok:
  "\<not> is_ok (fst (Upsert db p s)) \<Longrightarrow> snd (Upsert db p s) = s"
  by (auto simp: Upsert_def Let_def split: sum.splits option.splits prod.splits)

lemma Upsert_Ok_arg:
  assumes "is_ok (fst (Upsert db op s))"
  obtains p item s' where "op = Some p" "Upsert db (Some p) s = (Ok item, s')"
proof -
  from assms obtain p where "op = Some p" by (cases op) (simp_all add: Upsert_def)
  moreover from this assms obtain item s' where "Upsert db (Some p) s = (Ok item, s')"
    by (cases "Upsert db (Some p) s") (auto simp: is_ok_iff)
  ultimately show thesis by (rule that)
qed

text \<open>The row an upsert updates keeps its cache key.\<close>

lemma merge_row_key:
  assumes "db_laws db rows" "lookup_problem db p d = Inr (Some r)"
  shows "r \<in> set (rows d) \<and> row_key (merge_problem p r) = row_key r"
proof (cases "TrimSpace (pb_ProblemKey p) \<noteq> []")
  case True
  with assms db_lawsD(1) [OF assms(1)]
  have "r \<in> set (rows d)" "pb_ProblemKey r = TrimSpace (pb_ProblemKey p)" by auto
  with True show ?thesis by (simp add: cacheKey_def)
next
  case False
  with assms db_lawsD(3) [OF assms(1)]
  have "r \<in> set (rows d)" "pb_Title r = TrimSpace (pb_Title p)" by auto
  then show ?thesis by (simp add: cacheKey_def)
qed

lemma inv_Upsert:
  assumes l: "db_laws db rows" and inv: "problem_inv rows s"
  shows "problem_inv rows (snd (Upsert db op s))"
proof (cases "is_ok (fst (Upsert db op s))")
  case False
  with inv show ?thesis by (simp add: Upsert_not_Ok)
next
  case True
  then obtain p item s' where op: "op = Some p" and u: "Upsert db (Some p) s = (Ok item, s')"
    by (rule Upsert_Ok_arg)
  from u have "problem_inv rows s'"
  proof (cases rule: Upsert_cases)
    case (update r0 r d)
    with merge_row_key [OF l update(1)] inv_save [OF l inv _ _ _ update(2), of r0]
    show ?thesis by simp
  next
    case (create r d)
    with inv_create [OF l inv create(2)] show ?thesis by simp
  qed
  then show ?thesis by (simp add: op u)
qed

lemma inv_Dismiss:
  assumes l: "db_laws db rows" and inv: "problem_inv rows s"
  shows "problem_inv rows (snd (Dismiss db k s))"
proof -
  have "problem_inv rows (s\<lparr>ps_db := d, ps_cache := AList.delete (row_key r) (ps_cache s)\<rparr>)"
    if "find_key db (ps_db s) k = Inr (Some r)" "delete_row db (pb_ID r) (ps_db s) = Inr d" for r d
    using db_lawsD(1) [OF l that(1)] inv_delete [OF l inv _ that(2)] by blast
  with inv show ?thesis by (auto simp: Dismiss_def Let_def split: sum.splits option.splits)
qed

lemma inv_Get:
  assumes l: "db_laws db rows" and inv: "problem_inv rows s"
  shows "problem_inv rows (snd (Get db k s))"
proof -
  have "problem_inv rows (put_cache (ToDto r) s)" if "find_key db (ps_db s) k = Inr (Some r)" for r
  proof -
    from db_lawsD(1) [OF l that] have "r \<in> set (rows (ps_db s))" by blast
    with inv show ?thesis using cache_sound_put [of "ps_cache s" "rows (ps_db s)" r]
      by (simp add: problem_inv_def)
  qed
  with inv show ?thesis by (auto simp: Get_def split: sum.splits option.splits)
qed

lemma inv_Apply:
  assumes l: "db_laws db rows" and inv: "problem_inv rows s"
  shows "problem_inv rows (snd (ApplyLifecycle db k st e s))"
proof -
  have "problem_inv rows (put_cache (ToDto r') (s\<lparr>ps_db := d\<rparr>))"
    if f: "find_key db (ps_db s) k = Inr (Some r)"
      and sv: "save_row db (r\<lparr>pb_Status := st, row_LastError := str_or_empty e\<rparr>) (ps_db s) = Inr (r', d)"
    for r r' d
    using db_lawsD(1) [OF l f] by (intro inv_save [OF l inv _ _ _ sv, where r = r]) auto
  with inv show ?thesis
    by (auto simp: ApplyLifecycle_def Let_def split: sum.splits option.splits prod.splits)
qed

lemma problem_step_inv:
  assumes "db_laws db rows" "problem_inv rows s"
  shows "problem_inv rows (problem_step db s e)"
  by (cases e) (use assms in \<open>auto intro: inv_Upsert inv_Dismiss inv_Get inv_Apply\<close>)

lemma load_inv:
  assumes "set rs \<subseteq> set (rows (ps_db s))" "problem_inv rows s"
  shows "problem_inv rows (foldl (\<lambda>s row. put_cache (ToDto row) s) s rs)"
  using assms
proof (induction rs arbitrary: s)
  case (Cons r rs)
  have "problem_inv rows (put_cache (ToDto r) s)"
    using Cons.prems cache_sound_put [of "ps_cache s" "rows (ps_db s)" r]
    by (simp add: problem_inv_def)
  with Cons show ?case by simp
qed simp

lemma new_inv:
  assumes "db_laws db rows" "db_ok (rows d)"
  shows "problem_inv rows (NewProblemService db d)"
proof -
  have "problem_inv rows \<lparr>ps_db = d, ps_cache = [], ps_events = []\<rparr>"
    using assms(2) by (simp add: problem_inv_def cache_sound_def)
  then show ?thesis unfolding NewProblemService_def loadCache_def
    using db_lawsD(4) [OF assms(1)] by (auto split: sum.splits intro!: load_inv)
qed

section \<open>A database as a list of rows\<close>

definition fresh_id :: "problem_row list \<Rightarrow> nat" where
  "fresh_id rs = Suc (sum_list (map pb_ID rs))"

definition list_db :: "problem_row list problem_db" where
  "list_db = \<lparr>find_key = \<lambda>d k. Inr (List.find (\<lambda>r. pb_ProblemKey r = k) d),
     find_title = \<lambda>d t. Inr (List.find (\<lambda>r. pb_Title r = t) d),
     find_all = Inr, find_recent = Inr,
     save_row = \<lambda>r d. Inr (r, map (\<lambda>x. if pb_ID x = pb_ID r then r else x) d),
     create_row = \<lambda>r d. let r' = r\<lparr>pb_ID := fresh_id d\<rparr> in Inr (r', d @ [r']),
     delete_row = \<lambda>i d. Inr (filter (\<lambda>x. pb_ID x \<noteq> i) d)\<rparr>"

lemma list_db_laws: "db_laws list_db (\<lambda>d. d)"
proof -
  have find: "List.find P d = Some r \<Longrightarrow> r \<in> set d \<and> P r" for P and d :: "problem_row list" and r
    by (auto simp: find_Some_iff)
  have fresh: "fresh_id d \<notin> pb_ID ` set d" for d
  proof
    assume "fresh_id d \<in> pb_ID ` set d"
    then obtain r where "r \<in> set d" "fresh_id d = pb_ID r" by auto
    with member_le_sum_list [of "pb_ID r" "map pb_ID d"] show False by (simp add: fresh_id_def)
  qed
  have save: "\<exists>u. r = r\<lparr>pb_UpdatedAt := u\<rparr>" for r :: problem_row
    by (rule exI [of _ "pb_UpdatedAt r"]) simp
  have create: "same_content r (r\<lparr>pb_ID := i\<rparr>)" for r i
    unfolding same_content_def
    by (rule exI [of _ i], rule exI [of _ "pb_CreatedAt r"], rule exI [of _ "pb_UpdatedAt r"]) simp
  show ?thesis unfolding db_laws_def list_db_def
    using find fresh save create by (auto simp: find_None_iff Let_def dest!: find)
qed

definition demo_problem :: problem where
  "demo_problem = \<lparr>pb_ID = 0, pb_CreatedAt = 0, pb_UpdatedAt = 0, pb_ProblemKey = ''disk'',
     pb_Title = ''Disk'', pb_Description = [], pb_Severity = SevError, pb_Status = StCreated,
     pb_Repeating = 0, pb_Ignored = False, pb_Actions = [], pb_TranslationKey = [],
     pb_TranslationPlaceholders = None, pb_Data = None, pb_DetailLink = [], pb_ResolutionLink = [],
     pb_IsFixable = False, pb_IsPersistent = False, pb_LearnMoreURL = None, pb_LastError = None\<rparr>"

section \<open>Properties\<close>

text \<open>C34: On a database that behaves like a table, whatever sequence of upserts, dismissals,
  lookups and lifecycle changes runs and whichever of them fail, every problem the cache holds
  is a row the database holds now, under the key of that row, and there is one entry per key.\<close>

theorem problem_cache_sound:
  assumes "db_laws db rows" "distinct (map pb_ID (rows d))"
    and "s = foldl (problem_step db) (NewProblemService db d) ops"
  shows "distinct (keys (ps_cache s)) \<and>
    (\<forall>(k, item) \<in> set (ps_cache s). \<exists>r \<in> set (rows (ps_db s)). item = ToDto r \<and> k = row_key r)"
proof -
  have steps: "invariant_steps (problem_step db) (\<lambda>_. True) (problem_inv rows)"
    by unfold_locales (rule problem_step_inv [OF assms(1)])
  have "problem_inv rows (NewProblemService db d)"
    using new_inv [OF assms(1)] assms(2) by (simp add: db_ok_def)
  from invariant_steps.inv_run [OF steps this, of ops] assms(3)
  have "problem_inv rows s" by (simp add: list_all_iff)
  then show ?thesis by (simp add: problem_inv_def cache_sound_def)
qed

theorem problem_cache_sound_witness:
  "distinct (keys (ps_cache (foldl (problem_step list_db) (NewProblemService list_db [])
     [OpUpsert (Some demo_problem), OpUpsert None, OpDismiss ''disk'', OpGet ''disk''])))"
  using problem_cache_sound [OF list_db_laws _ refl, of "[]"
      "[OpUpsert (Some demo_problem), OpUpsert None, OpDismiss ''disk'', OpGet ''disk'']"] by simp

subsection \<open>Unique keys\<close>

definition clean_key :: "string \<Rightarrow> bool" where
  "clean_key k = (k \<noteq> [] \<and> TrimSpace k = k)"

definition keys_unique :: "problem_row list \<Rightarrow> bool" where
  "keys_unique rs = (distinct (map pb_ProblemKey rs) \<and> (\<forall>r \<in> set rs. clean_key (pb_ProblemKey r)))"

definition clean_op :: "problem_op \<Rightarrow> bool" where
  "clean_op e = (case e of OpUpsert (Some p) \<Rightarrow> clean_key (pb_ProblemKey p) | _ \<Rightarrow> True)"

lemma map_replace_key:
  assumes "db_ok rs" "r \<in> set rs" "pb_ProblemKey r' = pb_ProblemKey r"
  shows "map pb_ProblemKey (map (\<lambda>x. if pb_ID x = pb_ID r then r' else x) rs) = map pb_ProblemKey rs"
  using assms by (auto simp: db_ok_def distinct_map inj_on_def)

lemma keys_unique_save:
  assumes l: "db_laws db rows" and d: "db_ok (rows d)" "keys_unique (rows d)"
    and r: "r \<in> set (rows d)" "pb_ID m = pb_ID r" "pb_ProblemKey m = pb_ProblemKey r"
    and sv: "save_row db m d = Inr (r', d')"
  shows "keys_unique (rows d')"
proof -
  from db_lawsD(5) [OF l sv] r have r': "pb_ProblemKey r' = pb_ProblemKey r"
    and d': "rows d' = map (\<lambda>x. if pb_ID x = pb_ID r then r' else x) (rows d)" by auto
  have "map pb_ProblemKey (rows d') = map pb_ProblemKey (rows d)"
    unfolding d' by (rule map_replace_key [OF d(1) r(1) r'])
  moreover from this have "pb_ProblemKey ` set (rows d') = pb_ProblemKey ` set (rows d)"
    by (metis set_map)
  ultimately show ?thesis using d(2) unfolding keys_unique_def
    by (metis (no_types, lifting) imageE imageI)
qed

lemma keys_unique_step:
  assumes l: "db_laws db rows" and inv: "problem_inv rows s" and u: "keys_unique (rows (ps_db s))"
    and ok: "clean_op e"
  shows "keys_unique (rows (ps_db (problem_step db s e)))"
proof (cases e)
  case (OpUpsert op)
  show ?thesis
  proof (cases "is_ok (fst (Upsert db op s))")
    case False
    with u OpUpsert show ?thesis by (simp add: Upsert_not_Ok)
  next
    case True
    then obtain p item s' where op: "op = Some p" and up: "Upsert db (Some p) s = (Ok item, s')"
      by (rule Upsert_Ok_arg)
    from ok OpUpsert op have k: "clean_key (pb_ProblemKey p)" by (simp add: clean_op_def)
    then have t: "TrimSpace (pb_ProblemKey p) = pb_ProblemKey p" "pb_ProblemKey p \<noteq> []"
      by (simp_all add: clean_key_def)
    from up have "keys_unique (rows (ps_db s'))"
    proof (cases rule: Upsert_cases)
      case (update r0 r d)
      with merge_row_key [OF l update(1)] inv u keys_unique_save [OF l _ _ _ _ _ update(2), of r0]
      show ?thesis by (simp add: problem_inv_def)
    next
      case (create r d)
      from create(1) have f: "find_key db (ps_db s) (pb_ProblemKey p) = Inr None" by (simp add: t)
      from db_lawsD(6) [OF l create(2)] have r: "rows d = rows (ps_db s) @ [r]"
        "pb_ProblemKey r = pb_ProblemKey p" by (auto dest: same_content_simps)
      have "pb_ProblemKey p \<notin> pb_ProblemKey ` set (rows (ps_db s))"
        by (auto dest: db_lawsD(2) [OF l f])
      with u k r create show ?thesis by (auto simp: keys_unique_def)
    qed
    then show ?thesis by (simp add: OpUpsert op up)
  qed
next
  case (OpDismiss k)
  have "keys_unique (rows d)" if "delete_row db i (ps_db s) = Inr d" for i d
    using u db_lawsD(7) [OF l that] by (auto simp: keys_unique_def distinct_map_filter)
  with OpDismiss u show ?thesis
    by (auto simp: Dismiss_def Let_def split: sum.splits option.splits)
next
  case (OpGet k)
  with u show ?thesis by (auto simp: Get_def split: sum.splits option.splits)
next
  case (OpApply k st x)
  have "keys_unique (rows d)"
    if f: "find_key db (ps_db s) k = Inr (Some r)"
      and sv: "save_row db (r\<lparr>pb_Status := st, row_LastError := str_or_empty x\<rparr>) (ps_db s) = Inr (r', d)"
    for r r' d
    using db_lawsD(1) [OF l f] inv u
    by (intro keys_unique_save [OF l _ _ _ _ _ sv, where r = r]) (auto simp: problem_inv_def)
  with OpApply u show ?thesis
    by (auto simp: ApplyLifecycle_def Let_def split: sum.splits option.splits prod.splits)
qed

text \<open>As long as problems are raised with non-empty keys that carry no surrounding white
  space, no two rows ever share a problem key: a repeated problem updates the row it has.\<close>

theorem problem_keys_unique:
  assumes "db_laws db rows" "distinct (map pb_ID (rows d))" "keys_unique (rows d)"
    and "list_all clean_op ops"
    and "s = foldl (problem_step db) (NewProblemService db d) ops"
  shows "distinct (map pb_ProblemKey (rows (ps_db s)))"
proof -
  have steps: "invariant_steps (problem_step db) clean_op
      (\<lambda>s. problem_inv rows s \<and> keys_unique (rows (ps_db s)))"
    by unfold_locales (auto intro: problem_step_inv keys_unique_step assms(1))
  have "ps_db (NewProblemService db d) = d"
  proof -
    have "ps_db (foldl (\<lambda>s row. put_cache (ToDto row) s) s0 rs) = ps_db s0"
      for s0 :: "'a problem_service" and rs
      by (induction rs arbitrary: s0) auto
    then show ?thesis by (auto simp: NewProblemService_def loadCache_def split: sum.splits)
  qed
  with assms(2,3) new_inv [OF assms(1)]
  have "problem_inv rows (NewProblemService db d) \<and>
      keys_unique (rows (ps_db (NewProblemService db d)))" by (simp add: db_ok_def)
  from invariant_steps.inv_run [OF steps this assms(4)] assms(5)
  show ?thesis by (simp add: keys_unique_def)
qed

theorem problem_keys_unique_witness:
  "distinct (map pb_ProblemKey (ps_db (foldl (problem_step list_db) (NewProblemService list_db [])
     [OpUpsert (Some demo_problem), OpUpsert (Some demo_problem)])))"
  by (rule problem_keys_unique [OF list_db_laws _ _ _ refl])
    (simp_all add: keys_unique_def clean_op_def clean_key_def demo_problem_def TrimSpace_def is_space_def)

text \<open>A successful upsert announces the problem and is what the next lookup by its key returns:
  the title, description and severity are the caller's, an existing row keeps its id and counts
  one repetition more, a new row counts as given, at least once.\<close>

theorem problem_upsert_get:
  assumes "db_laws db rows" "Upsert db (Some p) s = (Ok item, s')"
    and "TrimSpace (pb_ProblemKey p) \<noteq> []"
  shows "Get db (pb_ProblemKey p) s' = (Ok item, s') \<and> pb_Title item = pb_Title p
    \<and> pb_Description item = pb_Description p \<and> pb_Severity item = pb_Severity p
    \<and> (\<exists>t. ps_events s' = ps_events s @ [(t, item)] \<and>
        (t = EvAdd \<and> pb_Repeating item = (if pb_Repeating p = 0 then 1 else pb_Repeating p) \<or>
         t = EvUpdate \<and> (\<exists>r \<in> set (rows (ps_db s)). pb_ID item = pb_ID r
            \<and> pb_Repeating item = pb_Repeating r + 1 \<and> pb_Status item = StUpdated)))"
proof -
  let ?k = "TrimSpace (pb_ProblemKey p)"
  note l = assms(1)
  have key: "cacheKey (pb_ProblemKey p) [] = ''key:'' @ ?k"
    "TrimSpace x = ?k \<Longrightarrow> cacheKey x y = ''key:'' @ ?k" for x y
    using assms(3) by (simp_all add: cacheKey_def)
  from assms(2) show ?thesis
  proof (cases rule: Upsert_cases)
    case (update r0 r d)
    from update(1) assms(3) have f: "find_key db (ps_db s) ?k = Inr (Some r0)" by simp
    from db_lawsD(5) [OF l update(2)] obtain u where r: "r = (merge_problem p r0)\<lparr>pb_UpdatedAt := u\<rparr>"
      by auto
    from db_lawsD(1) [OF l f] have r0: "r0 \<in> set (rows (ps_db s))" "pb_ProblemKey r0 = ?k" by auto
    with key(2) [of "pb_ProblemKey r"] r have "row_key r = ''key:'' @ ?k" by simp
    then show ?thesis using update r r0 key assms(3) by (auto simp: Get_def update_lookup)
  next
    case (create r d)
    from db_lawsD(6) [OF l create(2)] have "same_content (new_row p) r" by blast
    from same_content_simps [OF this] have r: "pb_ProblemKey r = pb_ProblemKey p" "pb_Title r = pb_Title p"
      "pb_Description r = pb_Description p" "pb_Severity r = pb_Severity p"
      "pb_Repeating r = (if pb_Repeating p = 0 then 1 else pb_Repeating p)" by auto
    with key(2) [of "pb_ProblemKey r"] have "row_key r = ''key:'' @ ?k" by simp
    then show ?thesis using create r key assms(3) by (auto simp: Get_def update_lookup)
  qed
qed

theorem problem_upsert_get_witness:
  "\<exists>item s'. Upsert list_db (Some demo_problem) (NewProblemService list_db []) = (Ok item, s')
     \<and> Get list_db ''disk'' s' = (Ok item, s')"
proof -
  have t: "TrimSpace (pb_ProblemKey demo_problem) = ''disk''" "pb_ProblemKey demo_problem = ''disk''"
    by (simp_all add: demo_problem_def TrimSpace_def is_space_def)
  obtain item s' where u: "Upsert list_db (Some demo_problem) (NewProblemService list_db []) = (Ok item, s')"
    using t by (simp add: Upsert_def list_db_def NewProblemService_def loadCache_def Let_def)
  from problem_upsert_get [OF list_db_laws u] t u show ?thesis by auto
qed

text \<open>
  A key with surrounding white space is looked up trimmed and stored as it is, so raising the
  same problem twice creates two rows.
\<close>

lemma untrimmed_key_duplicates:
  "length (ps_db (foldl (problem_step list_db) (NewProblemService list_db [])
     [OpUpsert (Some (demo_problem\<lparr>pb_ProblemKey := '' disk''\<rparr>)),
      OpUpsert (Some (demo_problem\<lparr>pb_ProblemKey := '' disk''\<rparr>))])) = 2"
  by (simp add: Upsert_def list_db_def NewProblemService_def loadCache_def Let_def demo_problem_def
      TrimSpace_def is_space_def ToDbom_def problem_base.extend_def problem_base.truncate_def
      problem_row.fields_def emit_problem_def put_cache_def)

end
