(* ===== verification/Upgrade.thy ===== *)
theory Upgrade
  imports Go_Path
begin

text \<open>
  The self-update service (\<open>service/upgrade_service.go\<close>, \<open>internal/urlutil/urlutil.go\<close>,
  \<open>converter/github_to_dto_conv_gen.go\<close>): the choice of a release, the download with its
  checksum, the extraction of the archive, the installation and the restart.

  Parameters: version parsing and comparison (the semver library), the network, the archive
  reader, SHA-256, the signature verifier and the \<open>selfupdate\<close> library, and the file system,
  which may answer differently after each thing the service did to it: its answers depend on
  the list of actions so far. Actions and status messages are logs. The progress messages of a
  running copy are left out; each of them repeats the downloading status.
\<close>

section \<open>Data\<close>

datatype UpdateChannel = NONE | DEVELOP | RELEASE | PRERELEASE | InvalidUpdateChannel

datatype UpdateState =
    UIdle | UChecking | UNoUpgrade | UUpgradeAvailable | UDownloading | UDownloadComplete
  | UExtracting | UExtractComplete | UInstalling | UInstallComplete | UError
  | ZeroUpdateState | InvalidUpdateState

record binary_asset =
  ba_Name :: string
  ba_Size :: int
  ba_ID :: int
  ba_BrowserDownloadURL :: string
  ba_Digest :: string

record gh_asset =
  gh_Name :: "string option"
  gh_Size :: "int option"
  gh_ID :: "int option"
  gh_BrowserDownloadURL :: "string option"
  gh_Digest :: "string option"

record gh_release =
  gr_TagName :: "string option"
  gr_Prerelease :: "bool option"
  gr_Assets :: "gh_asset list"

record release_asset =
  ra_LastRelease :: string
  ra_ArchAsset :: binary_asset

record update_file =
  uf_Path :: string
  uf_Signature :: "string option"
  uf_Size :: int

text \<open>A status message: state, percentage, error text.\<close>

datatype progress = Progress (pr_State: UpdateState) (pr_Percent: int) (pr_Message: string)

datatype up_action =
    MkSymlink (act_target: string) (act_path: string)
  | Truncated (act_path: string)
  | Extracted (act_path: string) (act_sig: string)
  | Installed (act_src: string) (act_path: string) (act_verified: "string option")
  | ServerLink (act_variant: string) (act_path: string)

record up_log =
  ul_actions :: "up_action list"
  ul_notes :: "progress list"

definition note_progress :: "progress \<Rightarrow> up_log \<Rightarrow> up_log" where
  "note_progress p l = l\<lparr>ul_notes := ul_notes l @ [p]\<rparr>"

definition act :: "up_action \<Rightarrow> up_log \<Rightarrow> up_log" where
  "act a l = l\<lparr>ul_actions := ul_actions l @ [a]\<rparr>"

definition fail :: "string \<Rightarrow> up_log \<Rightarrow> 'a res \<times> up_log" where
  "fail msg l = (Err (E ErrorOther msg), l)"

definition fail_notify :: "string \<Rightarrow> up_log \<Rightarrow> 'a res \<times> up_log" where
  "fail_notify msg l = (Err (E ErrorOther msg), note_progress (Progress UError 0 msg) l)"

section \<open>Choosing a release\<close>

definition ReleaseAssetToBinaryAsset :: "gh_asset \<Rightarrow> binary_asset" where
  "ReleaseAssetToBinaryAsset a =
     \<lparr>ba_Name = str_or_empty (gh_Name a), ba_Size = (case gh_Size a of Some n \<Rightarrow> n | None \<Rightarrow> 0),
      ba_ID = (case gh_ID a of Some n \<Rightarrow> n | None \<Rightarrow> 0),
      ba_BrowserDownloadURL = str_or_empty (gh_BrowserDownloadURL a),
      ba_Digest = str_or_empty (gh_Digest a)\<rparr>"

definition arch_name :: "string \<Rightarrow> string" where
  "arch_name arch = (if arch = ''arm64'' then ''aarch64''
     else if arch = ''amd64'' then ''x86_64'' else arch)"

definition asset_name :: "string \<Rightarrow> string" where
  "asset_name arch = ''srat_'' @ arch_name arch @ ''.zip''"

text \<open>
  The loop over the releases. Its state is the version to beat and the asset found so far. A
  release without a tag makes the dereference panic.
\<close>

fun scan_releases ::
  "(string \<Rightarrow> 'v option) \<Rightarrow> ('v \<Rightarrow> 'v \<Rightarrow> bool) \<Rightarrow> UpdateChannel \<Rightarrow> string \<Rightarrow> gh_release list
     \<Rightarrow> 'v \<Rightarrow> release_asset option \<Rightarrow> release_asset option res" where
  "scan_releases parse ge channel arch [] myversion ass = Ok ass"
| "scan_releases parse ge channel arch (r # rs) myversion ass =
     (if is_true (gr_Prerelease r) \<and> channel \<noteq> PRERELEASE
      then scan_releases parse ge channel arch rs myversion ass
      else (case gr_TagName r of
              None \<Rightarrow> Panic
            | Some tag \<Rightarrow>
                (case parse tag of
                   None \<Rightarrow> scan_releases parse ge channel arch rs myversion ass
                 | Some v \<Rightarrow>
                     if ge myversion v then scan_releases parse ge channel arch rs myversion ass
                     else (case List.find (\<lambda>a. str_or_empty (gh_Name a) = asset_name arch)
                                  (gr_Assets r) of
                             None \<Rightarrow> scan_releases parse ge channel arch rs myversion ass
                           | Some a \<Rightarrow>
                               scan_releases parse ge channel arch rs v
                                 (Some \<lparr>ra_LastRelease = tag,
                                        ra_ArchAsset = ReleaseAssetToBinaryAsset a\<rparr>)))))"

definition GetUpgradeReleaseAsset ::
  "(string \<Rightarrow> 'v option) \<Rightarrow> ('v \<Rightarrow> 'v \<Rightarrow> bool) \<Rightarrow> UpdateChannel \<Rightarrow> string \<Rightarrow> 'v option
     \<Rightarrow> gh_release list option \<Rightarrow> release_asset res" where
  "GetUpgradeReleaseAsset parse ge channel arch current releases =
     (if channel = NONE then Err (E ErrorNoUpdateAvailable ''No releases check'')
      else if channel = DEVELOP then Err (E ErrorNoUpdateAvailable ''No releases check'')
      else (case current of
              None \<Rightarrow> Err (E ErrorOther ''Current binary version is not set'')
            | Some myversion \<Rightarrow>
                (case releases of
                   None \<Rightarrow> Err (E ErrorNoUpdateAvailable ''No releases found'')
                 | Some [] \<Rightarrow> Err (E ErrorNoUpdateAvailable ''No releases found'')
                 | Some rs \<Rightarrow>
                     (case scan_releases parse ge channel arch rs myversion None of
                        Ok (Some ass) \<Rightarrow> Ok ass
                      | Ok None \<Rightarrow> Err (E ErrorNoUpdateAvailable ''No releases found'')
                      | Err e \<Rightarrow> Err e
                      | Panic \<Rightarrow> Panic))))"

section \<open>Download\<close>

text \<open>A parsed URL: scheme and host name; \<open>None\<close> when it does not parse.\<close>

definition ValidateURL ::
  "(string \<Rightarrow> (string \<times> string) option) \<Rightarrow> string \<Rightarrow> string list \<Rightarrow> err option" where
  "ValidateURL parse_url urlStr allowedHosts =
     (case parse_url urlStr of
        None \<Rightarrow> Some (E ErrorOther ''invalid URL'')
      | Some (scheme, host) \<Rightarrow>
          if scheme \<noteq> ''https'' then Some (E ErrorOther (''insecure URL scheme: '' @ scheme))
          else if host \<in> set allowedHosts then None
          else Some (E ErrorOther (''untrusted host: '' @ host)))"

datatype entry_kind = DirEntry | LinkEntry | FileEntry

record zip_entry =
  ze_Name :: string
  ze_Kind :: entry_kind
  ze_Comment :: string
  ze_Content :: string
  ze_Size :: int

text \<open>The world of a download: every step of it may fail.\<close>

record down_env =
  de_parse_url :: "string \<Rightarrow> (string \<times> string) option"
  de_http :: "string \<Rightarrow> err + (int \<times> string)"
  de_temp :: "err option"
  de_save :: "err option"
  de_seek :: "err option"
  de_reseek :: "err option"
  de_hash :: "err option"
  de_sha256 :: "string \<Rightarrow> string"
  de_unzip :: "string \<Rightarrow> err + zip_entry option list"
  de_io :: "up_action list \<Rightarrow> zip_entry \<Rightarrow> err option"
  de_verify :: "string \<Rightarrow> string \<Rightarrow> err option"

definition zip_slip :: "string \<Rightarrow> string \<Rightarrow> bool" where
  "zip_slip dest path = (\<not> HasPrefix path (Clean dest @ ''/'') \<and> dest \<noteq> ''.'')"

text \<open>The target file is opened with \<open>O_CREATE | O_TRUNC\<close> before the signature is checked.\<close>

definition extractFile ::
  "down_env \<Rightarrow> zip_entry option \<Rightarrow> string \<Rightarrow> up_log \<Rightarrow> update_file res \<times> up_log" where
  "extractFile env f dest l =
     (case f of
        None \<Rightarrow> fail ''file entry is nil'' l
      | Some f \<Rightarrow>
          if ze_Kind f = DirEntry
          then fail (''directories are not supported in update package: '' @ ze_Name f) l
          else if ze_Kind f = LinkEntry then
            (let path = path_Join dest (ze_Name f) in
             if zip_slip dest path then fail (''illegal file path: '' @ path) l
             else (case de_io env (ul_actions l) f of
                     Some e \<Rightarrow> (Err e, l)
                   | None \<Rightarrow>
                       (Ok \<lparr>uf_Path = path, uf_Signature = None, uf_Size = 0\<rparr>,
                        act (MkSymlink (TrimSpace (ze_Content f)) path) l)))
          else if ze_Comment f = [] then fail (''file has no signature in comment: '' @ ze_Name f) l
          else
            (let path = path_Join dest (ze_Name f) in
             if zip_slip dest path then fail (''illegal file path: '' @ path) l
             else (case de_io env (ul_actions l) f of
                     Some e \<Rightarrow> (Err e, l)
                   | None \<Rightarrow>
                       (let l1 = act (Truncated path) l in
                        case de_verify env (ze_Comment f) (ze_Content f) of
                          Some e \<Rightarrow> (Err e, l1)
                        | None \<Rightarrow>
                            (Ok \<lparr>uf_Path = path, uf_Signature = Some (ze_Comment f),
                                 uf_Size = ze_Size f\<rparr>,
                             act (Extracted path (ze_Comment f)) l1)))))"

text \<open>The loop over the archive entries, with the count for the percentage.\<close>

fun extract_all ::
  "down_env \<Rightarrow> string \<Rightarrow> nat \<Rightarrow> nat \<Rightarrow> zip_entry option list \<Rightarrow> up_log
     \<Rightarrow> update_file list res \<times> up_log" where
  "extract_all env dest totalFiles k [] l = (Ok [], l)"
| "extract_all env dest totalFiles k (f # fs) l =
     (case extractFile env f dest l of
        (Err e, l1) \<Rightarrow> fail_notify (''failed to extract file from zip'') l1
      | (Panic, l1) \<Rightarrow> (Panic, l1)
      | (Ok p, l1) \<Rightarrow>
          let l2 = note_progress (Progress UExtracting (int ((Suc k * 100) div totalFiles)) []) l1
          in (case extract_all env dest totalFiles (Suc k) fs l2 of
                (Ok ps, l3) \<Rightarrow> (Ok (p # ps), l3)
              | (Err e, l3) \<Rightarrow> (Err e, l3)
              | (Panic, l3) \<Rightarrow> (Panic, l3)))"

definition DownloadAndExtractBinaryAsset ::
  "down_env \<Rightarrow> string \<Rightarrow> binary_asset \<Rightarrow> up_log \<Rightarrow> update_file list res \<times> up_log" where
  "DownloadAndExtractBinaryAsset env dataDir asset l0 =
     (let l = note_progress (Progress UDownloading 0 []) l0;
          url = ba_BrowserDownloadURL asset
      in case ValidateURL (de_parse_url env) url [''github.com'', ''objects.githubusercontent.com''] of
        Some e \<Rightarrow> fail_notify (''untrusted download URL: '' @ url) l
      | None \<Rightarrow>
       (case de_http env url of
          Inl e \<Rightarrow> fail_notify (''failed to download asset from '' @ url) l
        | Inr (status, body) \<Rightarrow>
          if status \<noteq> 200 then fail_notify ''failed to download asset: received status code'' l
          else (case de_temp env of
            Some e \<Rightarrow> (Err e, l)
          | None \<Rightarrow>
           (case de_save env of
              Some e \<Rightarrow> (Err e, l)
            | None \<Rightarrow>
             let l1 = note_progress (Progress UDownloadComplete 100 []) l in
             if ba_Digest asset = []
             then fail_notify ''no expected digest provided, for checksum verification'' l1
             else (case de_seek env of
               Some e \<Rightarrow> fail_notify ''failed to reset downloaded file pointer'' l1
             | None \<Rightarrow>
               if \<not> HasPrefix (ba_Digest asset) ''sha256:''
               then fail_notify ''unsupported digest format for asset'' l1
               else (case de_hash env of
                 Some e \<Rightarrow> fail_notify ''failed to compute checksum for downloaded asset'' l1
               | None \<Rightarrow>
                 if ''sha256:'' @ de_sha256 env body \<noteq> ba_Digest asset
                 then fail_notify ''checksum mismatch for downloaded asset'' l1
                 else (case de_reseek env of
                   Some e \<Rightarrow> fail_notify ''failed to reset downloaded file pointer'' l1
                 | None \<Rightarrow>
                   let l2 = note_progress (Progress UExtracting 0 []) l1 in
                   (case de_unzip env body of
                      Inl e \<Rightarrow> fail_notify ''failed to open downloaded zip asset'' l2
                    | Inr entries \<Rightarrow>
                      if entries = [] then fail_notify ''downloaded zip asset is empty'' l2
                      else (case extract_all env dataDir (length entries) 0 entries l2 of
                        (Ok paths, l3) \<Rightarrow>
                          (Ok paths, note_progress (Progress UExtractComplete 100 []) l3)
                      | (Err e, l3) \<Rightarrow> (Err e, l3)
                      | (Panic, l3) \<Rightarrow> (Panic, l3))))))))))"

section \<open>Installation\<close>

datatype up_stat = Absent | StatFails | IsLink | IsFile

record 'v inst_env =
  ie_Lstat :: "up_action list \<Rightarrow> string \<Rightarrow> up_stat"
  ie_Stat :: "up_action list \<Rightarrow> string \<Rightarrow> bool"
  ie_Executable :: "err + string"
  ie_CurrentVersion :: "'v option"
  ie_BinaryVersion :: "up_action list \<Rightarrow> string \<Rightarrow> 'v option"
  ie_Less :: "'v \<Rightarrow> 'v \<Rightarrow> bool"
  ie_Equal :: "'v \<Rightarrow> 'v \<Rightarrow> bool"
  ie_Readlink :: "up_action list \<Rightarrow> string \<Rightarrow> string option"
  ie_Open :: "up_action list \<Rightarrow> string \<Rightarrow> err option"
  ie_LoadSignature :: "string \<Rightarrow> err option"
  ie_Apply :: "up_action list \<Rightarrow> string \<Rightarrow> string \<Rightarrow> string option \<Rightarrow> err option"
  ie_Relink :: "up_action list \<Rightarrow> string \<Rightarrow> err option"
  ie_Arch :: string

definition getCurrentExecutablePath :: "'v inst_env \<Rightarrow> up_log \<Rightarrow> (string \<times> string) res \<times> up_log" where
  "getCurrentExecutablePath env l =
     (case ie_Executable env of
        Inl e \<Rightarrow> fail_notify ''failed to get current executable path for in-place update'' l
      | Inr exe \<Rightarrow> (Ok (exe, Dir exe), l))"

definition server_variants :: "string list" where
  "server_variants = [''srat-server-musl'', ''srat-server-glib'', ''srat-server-static'']"

definition detectBestServerVariant ::
  "'v inst_env \<Rightarrow> up_action list \<Rightarrow> string \<Rightarrow> update_file list \<Rightarrow> string" where
  "detectBestServerVariant env h targetDir files =
     (let packaged = (\<lambda>v. v \<in> set server_variants \<and> (\<exists>f \<in> set files. Base (uf_Path f) = v));
          muslLinker = (if ie_Arch env = ''amd64'' then ''/lib/ld-musl-x86_64.so.1''
                        else if ie_Arch env = ''arm64'' then ''/lib/ld-musl-aarch64.so.1'' else [])
      in if packaged ''srat-server-musl'' \<and> ie_Stat env h (path_Join targetDir ''srat-server-musl'')
            \<and> muslLinker \<noteq> [] \<and> ie_Stat env h muslLinker
         then ''srat-server-musl''
         else if packaged ''srat-server-glib'' \<and> ie_Stat env h (path_Join targetDir ''srat-server-glib'')
            \<and> (\<exists>p \<in> {''/lib64/ld-linux-x86-64.so.2'', ''/lib/ld-linux-aarch64.so.1'',
                     ''/lib/x86_64-linux-gnu/libc.so.6'', ''/lib/aarch64-linux-gnu/libc.so.6''}.
                 ie_Stat env h p)
         then ''srat-server-glib''
         else ''srat-server-static'')"

definition updateServerSymlink ::
  "'v inst_env \<Rightarrow> string \<Rightarrow> update_file list \<Rightarrow> up_log \<Rightarrow> unit res \<times> up_log" where
  "updateServerSymlink env targetDir files l =
     (let variant = detectBestServerVariant env (ul_actions l) targetDir files;
          symlinkPath = path_Join targetDir ''srat-server''
      in case ie_Relink env (ul_actions l) symlinkPath of
           Some e \<Rightarrow> (Err e, l)
         | None \<Rightarrow> (Ok (), act (ServerLink variant symlinkPath) l))"

text \<open>The version the new file is compared with.\<close>

definition installed_version ::
  "'v inst_env \<Rightarrow> up_action list \<Rightarrow> string \<Rightarrow> string \<Rightarrow> string \<Rightarrow> string \<Rightarrow> 'v option" where
  "installed_version env h currentFile targetDir path targetPath =
     (if targetPath = currentFile then ie_CurrentVersion env
      else if HasPrefix (Base path) ''srat-server'' then
        (case ie_Readlink env h (path_Join targetDir ''srat-server'') of
           Some resolved \<Rightarrow> ie_BinaryVersion env h (path_Join targetDir resolved)
         | None \<Rightarrow> ie_BinaryVersion env h targetPath)
      else ie_BinaryVersion env h targetPath)"

definition too_old :: "'v inst_env \<Rightarrow> UpdateChannel \<Rightarrow> 'v option \<Rightarrow> 'v option \<Rightarrow> bool" where
  "too_old env channel current new =
     (case (current, new) of
        (Some c, Some n) \<Rightarrow> ie_Less env n c \<or> ie_Equal env n c \<and> channel \<noteq> DEVELOP
      | _ \<Rightarrow> False)"

definition install_file ::
  "'v inst_env \<Rightarrow> UpdateChannel \<Rightarrow> string \<Rightarrow> string \<Rightarrow> update_file \<Rightarrow> up_log \<Rightarrow> unit res \<times> up_log" where
  "install_file env channel currentFile targetDir f l =
     (let h = ul_actions l; path = uf_Path f in
      case ie_Lstat env h path of
        Absent \<Rightarrow> fail (''failed to stat update file: '' @ path) l
      | StatFails \<Rightarrow> fail (''failed to stat update file: '' @ path) l
      | IsLink \<Rightarrow> (Ok (), l)
      | IsFile \<Rightarrow>
         (let targetPath = path_Join targetDir (Base path);
              newVersion = ie_BinaryVersion env h path;
              currentVersion = installed_version env h currentFile targetDir path targetPath
          in if too_old env channel currentVersion newVersion
             then (Err (E ErrorOther ''binary version is same as current version''),
                   note_progress (Progress UNoUpgrade 0 ''Binary version is already installed'') l)
             else (case ie_Open env h path of
               Some e \<Rightarrow> (Err e, l)
             | None \<Rightarrow>
                (case uf_Signature f of
                   Some s \<Rightarrow>
                     (case ie_LoadSignature env s of
                        Some e \<Rightarrow> (Err e, l)
                      | None \<Rightarrow>
                         (case ie_Apply env h path targetPath (Some s) of
                            Some e \<Rightarrow> (Err e, l)
                          | None \<Rightarrow> (Ok (), act (Installed path targetPath (Some s)) l)))
                 | None \<Rightarrow>
                     if channel = DEVELOP then
                       (case ie_Apply env h path targetPath None of
                          Some e \<Rightarrow> (Err e, l)
                        | None \<Rightarrow> (Ok (), act (Installed path targetPath None) l))
                     else fail_notify (''missing signature for update file: '' @ path) l))))"

fun install_files ::
  "'v inst_env \<Rightarrow> UpdateChannel \<Rightarrow> string \<Rightarrow> string \<Rightarrow> update_file list \<Rightarrow> up_log \<Rightarrow> unit res \<times> up_log"
where
  "install_files env channel cf dir [] l = (Ok (), l)"
| "install_files env channel cf dir (f # fs) l =
     (case install_file env channel cf dir f l of
        (Ok u, l1) \<Rightarrow> install_files env channel cf dir fs l1
      | r \<Rightarrow> r)"

definition InstallUpdatePackage ::
  "'v inst_env \<Rightarrow> UpdateChannel \<Rightarrow> update_file list option \<Rightarrow> up_log \<Rightarrow> unit res \<times> up_log" where
  "InstallUpdatePackage env channel pkg l =
     (case pkg of
        None \<Rightarrow> fail ''invalid update package'' l
      | Some files \<Rightarrow>
          if files = [] then fail ''invalid update package'' l
          else if \<exists>f \<in> set files. ie_Lstat env (ul_actions l) (uf_Path f) = Absent
          then fail ''update package file does not exist'' l
          else (case getCurrentExecutablePath env l of
             (Err e, l1) \<Rightarrow> (Err e, l1)
           | (Panic, l1) \<Rightarrow> (Panic, l1)
           | (Ok (currentFile, targetDir), l1) \<Rightarrow>
               (case install_files env channel currentFile targetDir files l1 of
                  (Ok u, l2) \<Rightarrow> updateServerSymlink env targetDir files l2
                | r \<Rightarrow> r)))"

section \<open>Restart and status\<close>

record proc_env =
  pe_S6_VERSION :: string
  pe_Ppid :: int
  pe_Cmdline :: "string option"

definition isRunningUnderS6 :: "proc_env \<Rightarrow> bool" where
  "isRunningUnderS6 p =
     (if pe_S6_VERSION p \<noteq> [] then True
      else if pe_Ppid p \<le> 1 then False
      else (case pe_Cmdline p of
              None \<Rightarrow> False
            | Some c \<Rightarrow> Contains (map (\<lambda>x. if x = CHR 0x00 then CHR '' '' else x) c) ''s6-supervise''))"

text \<open>The flag tells that a shutdown was requested.\<close>

definition ApplyUpdateAndRestart ::
  "'v inst_env \<Rightarrow> proc_env \<Rightarrow> UpdateChannel \<Rightarrow> update_file list option \<Rightarrow> up_log
     \<Rightarrow> (unit res \<times> bool) \<times> up_log" where
  "ApplyUpdateAndRestart env p channel pkg l =
     (case InstallUpdatePackage env channel pkg l of
        (Ok u, l1) \<Rightarrow>
          let l2 = note_progress (Progress UInstallComplete 100 []) l1
          in if isRunningUnderS6 p
             then ((Ok (), True),
                   note_progress (Progress UInstallComplete 100 ''Update complete, restarting service...'') l2)
             else ((Ok (), False),
                   note_progress (Progress UInstallComplete 100
                     ''Update complete, please restart the service manually'') l2)
      | (r, l1) \<Rightarrow> ((r, False), l1))"

text \<open>One round of the update loop; the first component is \<open>UpdateAvailable\<close>.\<close>

definition updater_round ::
  "'v inst_env \<Rightarrow> down_env \<Rightarrow> proc_env \<Rightarrow> UpdateChannel \<Rightarrow> string \<Rightarrow> bool \<Rightarrow> release_asset res
     \<Rightarrow> up_log \<Rightarrow> (bool \<times> bool) \<times> up_log" where
  "updater_round ienv denv p channel dataDir autoUpdate checked l0 =
     (let l = note_progress (Progress UChecking 0 []) l0
      in case checked of
           Ok ass \<Rightarrow>
             (let l1 = note_progress (Progress UUpgradeAvailable 0 []) l
              in if autoUpdate
                 then (case DownloadAndExtractBinaryAsset denv dataDir (ra_ArchAsset ass) l1 of
                         (Ok files, l2) \<Rightarrow>
                           (case ApplyUpdateAndRestart ienv p channel (Some files) l2 of
                              ((r, shutdown), l3) \<Rightarrow> ((True, shutdown), l3))
                       | (_, l2) \<Rightarrow> ((True, False), l2))
                 else ((True, False), l1))
         | _ \<Rightarrow> ((False, False), note_progress (Progress UNoUpgrade 0 []) l))"

definition upgrade_process_name :: "UpdateChannel \<Rightarrow> string option" where
  "upgrade_process_name channel = (if channel \<noteq> NONE then None else Some ''updater_None'')"

section \<open>The watcher of the develop channel\<close>

text \<open>
  \<open>stat\<close> gives the modification time and the size of a file of the data directory; the zero
  time stands for a file not seen before. A pending set is a list without repetitions, in the
  order its map is ranged over when the debounce timer drains it.
\<close>

definition developWatchNames :: "string list" where
  "developWatchNames = [''srat-cli'', ''srat-server-static'', ''srat-server-musl'', ''srat-server-glib'']"

record watch_state =
  ws_seen :: "(string, int) gomap"
  ws_pending :: "string list"
  ws_timer :: bool

definition seen_at :: "watch_state \<Rightarrow> string \<Rightarrow> int" where
  "seen_at w name = (case map_of (ws_seen w) name of Some t \<Rightarrow> t | None \<Rightarrow> - 62135596800000000000)"

definition watch_start :: "(string \<Rightarrow> (int \<times> int) option) \<Rightarrow> watch_state" where
  "watch_start stat =
     \<lparr>ws_seen = concat (map (\<lambda>n. case stat n of None \<Rightarrow> [] | Some (t, sz) \<Rightarrow> [(n, t)])
                    developWatchNames),
      ws_pending = [], ws_timer = False\<rparr>"

definition watch_event ::
  "(string \<Rightarrow> (int \<times> int) option) \<Rightarrow> string \<Rightarrow> bool \<Rightarrow> watch_state \<Rightarrow> watch_state" where
  "watch_event stat eventName written w =
     (let baseName = Base eventName in
      if baseName \<notin> set developWatchNames then w
      else if \<not> written then w
      else (case stat baseName of
              None \<Rightarrow> w
            | Some (mtime, sz) \<Rightarrow>
                if \<not> mtime > seen_at w baseName \<or> sz = 0 then w
                else w\<lparr>ws_pending := List.insert baseName (ws_pending w), ws_timer := True\<rparr>))"

definition drain_file ::
  "(string \<Rightarrow> (int \<times> int) option) \<Rightarrow> string \<Rightarrow> update_file list \<times> watch_state \<Rightarrow> string
     \<Rightarrow> update_file list \<times> watch_state" where
  "drain_file stat dataDir acc name =
     (case acc of (files, w) \<Rightarrow>
        (case stat name of
           None \<Rightarrow> (files, w)
         | Some (mtime, sz) \<Rightarrow>
             (files @ [\<lparr>uf_Path = path_Join dataDir name, uf_Signature = None, uf_Size = sz\<rparr>],
              w\<lparr>ws_seen := AList.update name mtime (ws_seen w)\<rparr>)))"

text \<open>The debounce callback: the package to install, if any.\<close>

definition watch_debounce ::
  "(string \<Rightarrow> (int \<times> int) option) \<Rightarrow> string \<Rightarrow> watch_state \<Rightarrow> update_file list option \<times> watch_state" where
  "watch_debounce stat dataDir w =
     (let toInstall = ws_pending w;
          (files, w') = foldl (drain_file stat dataDir)
                          ([], w\<lparr>ws_pending := [], ws_timer := False\<rparr>) toInstall
      in (if files = [] then None else Some files, w'))"

end
