(* ===== verification/Upgrade_Laws.thy ===== *)
theory Upgrade_Laws
  imports Upgrade
begin

text \<open>
  What the update service guarantees: the release it offers is the newest one the channel
  allows, nothing is extracted before the checksum matched and nothing outside the data
  directory, and nothing unsigned or older is installed outside the develop channel.
\<close>

section \<open>The newest release\<close>

definition candidate ::
  "(string \<Rightarrow> 'v option) \<Rightarrow> UpdateChannel \<Rightarrow> string \<Rightarrow> gh_release \<Rightarrow> 'v \<Rightarrow> bool" where
  "candidate parse channel arch r v =
     (\<not> (is_true (gr_Prerelease r) \<and> channel \<noteq> PRERELEASE)
      \<and> (\<exists>t. gr_TagName r = Some t \<and> parse t = Some v)
      \<and> (\<exists>a \<in> set (gr_Assets r). str_or_empty (gh_Name a) = asset_name arch))"

definition offers :: "string \<Rightarrow> gh_release \<Rightarrow> release_asset \<Rightarrow> bool" where
  "offers arch r ass =
     (gr_TagName r = Some (ra_LastRelease ass) \<and> ba_Name (ra_ArchAsset ass) = asset_name arch
      \<and> (\<exists>a \<in> set (gr_Assets r). ra_ArchAsset ass = ReleaseAssetToBinaryAsset a))"

definition total_order :: "('v \<Rightarrow> 'v \<Rightarrow> bool) \<Rightarrow> bool" where
  "total_order ge = ((\<forall>a b. ge a b \<or> ge b a) \<and> (\<forall>a b c. ge a b \<longrightarrow> ge b c \<longrightarrow> ge a c))"

lemma total_orderD:
  assumes "total_order ge"
  shows "\<not> ge a b \<Longrightarrow> ge b a" "ge a b \<Longrightarrow> ge b c \<Longrightarrow> ge a c" "ge a a"
  using assms unfolding total_order_def by blast+

lemma ba_Name_asset: "ba_Name (ReleaseAssetToBinaryAsset a) = str_or_empty (gh_Name a)"
  by (simp add: ReleaseAssetToBinaryAsset_def)

lemma scan_releases_best:
  assumes ord: "total_order ge"
    and "scan_releases parse ge channel arch rs my ass = Ok res"
  shows "(res = ass \<and> (\<forall>r \<in> set rs. \<forall>v. candidate parse channel arch r v \<longrightarrow> ge my v)) \<or>
    (\<exists>r \<in> set rs. \<exists>v x. candidate parse channel arch r v \<and> \<not> ge my v \<and> res = Some x
       \<and> offers arch r x \<and> (\<forall>r' \<in> set rs. \<forall>v'. candidate parse channel arch r' v' \<longrightarrow> ge v v'))"
  using assms(2)
proof (induction rs arbitrary: my ass)
  case Nil
  then show ?case by simp
next
  case (Cons r rs)
  note ordD = total_orderD [OF ord]
  have skip: ?case if same: "scan_releases parse ge channel arch rs my ass = Ok res"
    and le: "\<And>v. candidate parse channel arch r v \<Longrightarrow> ge my v"
    using Cons.IH [OF same]
  proof
    assume "res = ass \<and> (\<forall>r \<in> set rs. \<forall>v. candidate parse channel arch r v \<longrightarrow> ge my v)"
    with le show ?case by auto
  next
    assume "\<exists>r \<in> set rs. \<exists>v x. candidate parse channel arch r v \<and> \<not> ge my v \<and> res = Some x
       \<and> offers arch r x \<and> (\<forall>r' \<in> set rs. \<forall>v'. candidate parse channel arch r' v' \<longrightarrow> ge v v')"
    then obtain s v x where s: "s \<in> set rs" "candidate parse channel arch s v" "\<not> ge my v"
      "res = Some x" "offers arch s x"
      "\<forall>r' \<in> set rs. \<forall>v'. candidate parse channel arch r' v' \<longrightarrow> ge v v'" by blast
    then have "candidate parse channel arch r w \<Longrightarrow> ge v w" for w
      using le [of w] ordD(1) [of my v] ordD(2) [of v my w] by blast
    with s have "s \<in> set (r # rs) \<and> candidate parse channel arch s v \<and> \<not> ge my v \<and> res = Some x
       \<and> offers arch s x \<and> (\<forall>r' \<in> set (r # rs). \<forall>v'. candidate parse channel arch r' v' \<longrightarrow> ge v v')"
      by auto
    then show ?case by blast
  qed
  show ?case
  proof (cases "is_true (gr_Prerelease r) \<and> channel \<noteq> PRERELEASE")
    case True
    with Cons.prems show ?thesis by (intro skip) (auto simp: candidate_def)
  next
    case pre: False
    from Cons.prems pre obtain tag where tag: "gr_TagName r = Some tag"
      by (auto split: option.splits)
    show ?thesis
    proof (cases "parse tag")
      case None
      with Cons.prems pre tag show ?thesis by (intro skip) (auto simp: candidate_def)
    next
      case (Some v)
      show ?thesis
      proof (cases "ge my v")
        case True
        with Cons.prems pre tag Some show ?thesis by (intro skip) (auto simp: candidate_def)
      next
        case newer: False
        show ?thesis
        proof (cases "List.find (\<lambda>a. str_or_empty (gh_Name a) = asset_name arch) (gr_Assets r)")
          case None
          with Cons.prems pre tag Some newer show ?thesis
            by (intro skip) (auto simp: candidate_def find_None_iff)
        next
          case (Some a)
          let ?x = "\<lparr>ra_LastRelease = tag, ra_ArchAsset = ReleaseAssetToBinaryAsset a\<rparr>"
          have a: "a \<in> set (gr_Assets r)" "str_or_empty (gh_Name a) = asset_name arch"
            using Some by (auto simp: find_Some_iff)
          have c: "candidate parse channel arch r v" and o: "offers arch r ?x"
            using a pre tag \<open>parse tag = Some v\<close>
            by (auto simp: candidate_def offers_def ba_Name_asset)
          have only: "candidate parse channel arch r w \<Longrightarrow> w = v" for w
            using tag \<open>parse tag = Some v\<close> by (auto simp: candidate_def)
          have "scan_releases parse ge channel arch rs v (Some ?x) = Ok res"
            using Cons.prems pre tag \<open>parse tag = Some v\<close> newer Some by simp
          from Cons.IH [OF this] show ?thesis
          proof
            assume "res = Some ?x \<and> (\<forall>r \<in> set rs. \<forall>w. candidate parse channel arch r w \<longrightarrow> ge v w)"
            then have le: "\<forall>r' \<in> set (r # rs). \<forall>v'. candidate parse channel arch r' v' \<longrightarrow> ge v v'"
              and res: "res = Some ?x"
              using only ordD(3) [of v] by auto
            have "r \<in> set (r # rs)" by simp
            with c newer res o le show ?thesis by blast
          next
            assume "\<exists>r \<in> set rs. \<exists>w x. candidate parse channel arch r w \<and> \<not> ge v w \<and> res = Some x
              \<and> offers arch r x \<and> (\<forall>r' \<in> set rs. \<forall>v'. candidate parse channel arch r' v' \<longrightarrow> ge w v')"
            then obtain s w x where s: "s \<in> set rs" "candidate parse channel arch s w" "\<not> ge v w"
              "res = Some x" "offers arch s x"
              "\<forall>r' \<in> set rs. \<forall>v'. candidate parse channel arch r' v' \<longrightarrow> ge w v'" by blast
            have wv: "ge w v" using ordD(1) [OF s(3)] .
            have "\<not> ge my w" using newer ordD(2) [OF _ wv] by blast
            moreover have "\<forall>r' \<in> set (r # rs). \<forall>v'. candidate parse channel arch r' v' \<longrightarrow> ge w v'"
              using s(6) wv only by auto
            moreover have "s \<in> set (r # rs)" using s(1) by simp
            ultimately show ?thesis using s(2,4,5) by blast
          qed
        qed
      qed
    qed
  qed
qed

text \<open>The release an update check offers is newer than the running version, allowed by the
  channel, has the archive for the machine's architecture, and no other release that qualifies
  is newer; when the check answers that no update is available, no listed release qualifies.\<close>

theorem upgrade_offers_newest:
  assumes "total_order ge" "channel \<in> {RELEASE, PRERELEASE}"
  shows "(GetUpgradeReleaseAsset parse ge channel arch (Some my) (Some rs) = Ok ass \<longrightarrow>
      (\<exists>r \<in> set rs. \<exists>v. candidate parse channel arch r v \<and> \<not> ge my v \<and> offers arch r ass
        \<and> (\<forall>r' \<in> set rs. \<forall>v'. candidate parse channel arch r' v' \<longrightarrow> ge v v'))) \<and>
    (GetUpgradeReleaseAsset parse ge channel arch (Some my) (Some rs) = Err e \<longrightarrow>
      (\<forall>r \<in> set rs. \<forall>v. candidate parse channel arch r v \<longrightarrow> ge my v))"
proof (intro conjI impI)
  assume "GetUpgradeReleaseAsset parse ge channel arch (Some my) (Some rs) = Ok ass"
  then have "scan_releases parse ge channel arch rs my None = Ok (Some ass)"
    using assms(2)
    by (auto simp: GetUpgradeReleaseAsset_def simp del: scan_releases.simps
        split: list.splits res.splits option.splits)
  from scan_releases_best [OF assms(1) this]
  show "\<exists>r \<in> set rs. \<exists>v. candidate parse channel arch r v \<and> \<not> ge my v \<and> offers arch r ass
        \<and> (\<forall>r' \<in> set rs. \<forall>v'. candidate parse channel arch r' v' \<longrightarrow> ge v v')" by auto
next
  assume "GetUpgradeReleaseAsset parse ge channel arch (Some my) (Some rs) = Err e"
  moreover have "scan_releases parse ge channel arch rs my ass \<noteq> Err e" for e ass
    by (induction rs arbitrary: my ass) (auto split: option.splits)
  ultimately have "rs = [] \<or> scan_releases parse ge channel arch rs my None = Ok None"
    using assms(2)
    by (auto simp: GetUpgradeReleaseAsset_def simp del: scan_releases.simps
        split: list.splits res.splits option.splits)
  with scan_releases_best [OF assms(1), of parse channel arch rs my None None]
  show "\<forall>r \<in> set rs. \<forall>v. candidate parse channel arch r v \<longrightarrow> ge my v" by auto
qed

definition demo_release :: "string \<Rightarrow> gh_release" where
  "demo_release tag = \<lparr>gr_TagName = Some tag, gr_Prerelease = Some False,
     gr_Assets = [\<lparr>gh_Name = Some ''srat_x86_64.zip'', gh_Size = None, gh_ID = None,
       gh_BrowserDownloadURL = None, gh_Digest = None\<rparr>]\<rparr>"

theorem upgrade_offers_newest_witness:
  "\<exists>ass. GetUpgradeReleaseAsset (\<lambda>t. Some (length t)) (\<lambda>a b. b \<le> a) RELEASE ''amd64'' (Some 1)
     (Some [demo_release ''vv'', demo_release ''vvv'', demo_release ''v'']) = Ok ass
     \<and> ra_LastRelease ass = ''vvv''"
proof -
  let ?g = "GetUpgradeReleaseAsset (\<lambda>t. Some (length t)) (\<lambda>a b. b \<le> a) RELEASE ''amd64'' (Some 1)
     (Some [demo_release ''vv'', demo_release ''vvv'', demo_release ''v''])"
  have ord: "total_order (\<lambda>a b :: nat. b \<le> a)" by (auto simp: total_order_def)
  obtain ass where a: "?g = Ok ass"
    by (simp add: GetUpgradeReleaseAsset_def demo_release_def is_true_def str_or_empty_def
        asset_name_def arch_name_def)
  have c: "candidate (\<lambda>t. Some (length t)) RELEASE ''amd64'' (demo_release ''vvv'') 3"
    by (simp add: candidate_def demo_release_def is_true_def str_or_empty_def asset_name_def arch_name_def)
  from upgrade_offers_newest [OF ord, of RELEASE "\<lambda>t. Some (length t)" "''amd64''" 1
      "[demo_release ''vv'', demo_release ''vvv'', demo_release ''v'']" ass] a
  obtain r v where r: "r \<in> set [demo_release ''vv'', demo_release ''vvv'', demo_release ''v'']"
    "candidate (\<lambda>t. Some (length t)) RELEASE ''amd64'' r v" "offers ''amd64'' r ass"
    "\<forall>r' \<in> set [demo_release ''vv'', demo_release ''vvv'', demo_release ''v''].
       \<forall>v'. candidate (\<lambda>t. Some (length t)) RELEASE ''amd64'' r' v' \<longrightarrow> v' \<le> v"
    by auto
  with c have "3 \<le> v" by simp
  with r have "r = demo_release ''vvv''" by (auto simp: candidate_def demo_release_def)
  with r a show ?thesis by (auto simp: offers_def demo_release_def)
qed

section \<open>Download and extraction\<close>

lemma log_simps [simp]:
  "ul_actions (note_progress p l) = ul_actions l" "ul_actions (act a l) = ul_actions l @ [a]"
  "ul_actions (snd (fail m l)) = ul_actions l" "ul_actions (snd (fail_notify m l)) = ul_actions l"
  "fst (fail m l) = Err (E ErrorOther m)" "fst (fail_notify m l) = Err (E ErrorOther m)"
  by (simp_all add: note_progress_def act_def fail_def fail_notify_def)

text \<open>What one archive entry may leave behind: an action on a path that passed the check.\<close>

definition entry_action :: "down_env \<Rightarrow> string \<Rightarrow> zip_entry option list \<Rightarrow> up_action \<Rightarrow> bool" where
  "entry_action env dest entries a =
     (\<exists>f. Some f \<in> set entries \<and> \<not> zip_slip dest (path_Join dest (ze_Name f))
        \<and> (a = MkSymlink (TrimSpace (ze_Content f)) (path_Join dest (ze_Name f))
             \<and> ze_Kind f = LinkEntry \<or>
           a = Truncated (path_Join dest (ze_Name f)) \<and> ze_Kind f = FileEntry \<or>
           a = Extracted (path_Join dest (ze_Name f)) (ze_Comment f) \<and> ze_Kind f = FileEntry
             \<and> de_verify env (ze_Comment f) (ze_Content f) = None))"

lemma extractFile_action:
  assumes "extractFile env f dest l = (r, l')"
  shows "\<exists>new. ul_actions l' = ul_actions l @ new \<and> (\<forall>a \<in> set new. entry_action env dest [f] a)"
proof (cases "ul_actions l' = ul_actions l")
  case False
  then obtain g where f: "f = Some g" using assms by (cases f) (simp_all add: extractFile_def fail_def)
  let ?path = "path_Join dest (ze_Name g)"
  from False assms f have slip: "\<not> zip_slip dest ?path"
    by (auto simp: extractFile_def Let_def fail_def split: if_splits)
  show ?thesis
  proof (cases "ze_Kind g")
    case LinkEntry
    with False assms f slip have "l' = act (MkSymlink (TrimSpace (ze_Content g)) ?path) l"
      by (auto simp: extractFile_def Let_def split: option.splits)
    with LinkEntry f slip show ?thesis by (auto simp: entry_action_def)
  next
    case FileEntry
    with False assms f slip have "ul_actions l' = ul_actions l @ [Truncated ?path] \<or>
        ul_actions l' = ul_actions l @ [Truncated ?path, Extracted ?path (ze_Comment g)]
        \<and> de_verify env (ze_Comment g) (ze_Content g) = None"
      by (auto simp: extractFile_def Let_def fail_def split: option.splits if_splits)
    then show ?thesis
    proof (elim disjE conjE)
      assume "ul_actions l' = ul_actions l @ [Truncated ?path]"
      with FileEntry f slip show ?thesis by (auto simp: entry_action_def)
    next
      assume "ul_actions l' = ul_actions l @ [Truncated ?path, Extracted ?path (ze_Comment g)]"
        "de_verify env (ze_Comment g) (ze_Content g) = None"
      with FileEntry f slip show ?thesis by (auto simp: entry_action_def)
    qed
  next
    case DirEntry
    with False assms f show ?thesis by (simp add: extractFile_def fail_def)
  qed
qed (rule exI [of _ "[]"], simp)

lemma extractFile_Ok:
  "extractFile env f dest l = (Ok p, l') \<Longrightarrow>
     \<exists>g. f = Some g \<and> uf_Path p = path_Join dest (ze_Name g)
       \<and> (uf_Signature p = None \<longleftrightarrow> ze_Kind g = LinkEntry)"
  by (cases f) (auto simp: extractFile_def Let_def fail_def split: if_splits option.splits)

lemma entry_action_mono:
  "entry_action env dest es a \<Longrightarrow> set es \<subseteq> set es' \<Longrightarrow> entry_action env dest es' a"
  unfolding entry_action_def by blast

lemma entry_actions_Cons:
  "\<forall>a \<in> set new. entry_action env dest [f] a \<Longrightarrow> \<forall>a \<in> set new. entry_action env dest (f # fs) a"
  "\<forall>a \<in> set new. entry_action env dest fs a \<Longrightarrow> \<forall>a \<in> set new. entry_action env dest (f # fs) a"
  by (auto intro: entry_action_mono)

lemma extract_all_action:
  "extract_all env dest n k fs l = (r, l') \<Longrightarrow>
   (\<exists>new. ul_actions l' = ul_actions l @ new \<and> (\<forall>a \<in> set new. entry_action env dest fs a)) \<and>
   (\<forall>ps. r = Ok ps \<longrightarrow> length ps = length fs)"
proof (induction fs arbitrary: k l r l')
  case Nil
  then show ?case by auto
next
  case (Cons f fs)
  obtain q l1 where x: "extractFile env f dest l = (q, l1)" by (cases "extractFile env f dest l") auto
  from extractFile_action [OF x] obtain new1 where
    n1: "ul_actions l1 = ul_actions l @ new1" "\<forall>a \<in> set new1. entry_action env dest (f # fs) a"
    using entry_actions_Cons(1) by blast
  show ?case
  proof (cases q)
    case (Ok p)
    let ?l2 = "note_progress (Progress UExtracting (int ((Suc k * 100) div n)) []) l1"
    obtain q2 l3 where y: "extract_all env dest n (Suc k) fs ?l2 = (q2, l3)"
      by (cases "extract_all env dest n (Suc k) fs ?l2") auto
    from Cons.IH [OF y]
    have ih: "(\<exists>new. ul_actions l3 = ul_actions ?l2 @ new \<and> (\<forall>a \<in> set new. entry_action env dest fs a)) \<and>
      (\<forall>ps. q2 = Ok ps \<longrightarrow> length ps = length fs)" .
    then obtain new2 where n2: "ul_actions l3 = ul_actions l1 @ new2"
      "\<forall>a \<in> set new2. entry_action env dest (f # fs) a"
      using entry_actions_Cons(2) by fastforce
    have r: "l' = l3 \<and> (\<forall>ps. r = Ok ps \<longrightarrow> (\<exists>qs. q2 = Ok qs \<and> ps = p # qs))"
      using Cons.prems x Ok y by (auto split: res.splits)
    have "ul_actions l' = ul_actions l @ new1 @ new2" using r n1 n2 by simp
    moreover have "\<forall>a \<in> set (new1 @ new2). entry_action env dest (f # fs) a" using n1 n2 by auto
    ultimately show ?thesis using r ih by auto
  next
    case (Err e)
    with Cons.prems x n1 show ?thesis by (auto simp: fail_notify_def)
  next
    case Panic
    with Cons.prems x n1 show ?thesis by auto
  qed
qed

text \<open>A download that got as far as the archive.\<close>

definition download_checked :: "down_env \<Rightarrow> binary_asset \<Rightarrow> string \<Rightarrow> bool" where
  "download_checked env asset body =
     ((\<exists>host. de_parse_url env (ba_BrowserDownloadURL asset) = Some (''https'', host)
         \<and> host \<in> {''github.com'', ''objects.githubusercontent.com''})
      \<and> de_http env (ba_BrowserDownloadURL asset) = Inr (200, body)
      \<and> ba_Digest asset = ''sha256:'' @ de_sha256 env body)"

lemma ValidateURL_None:
  "ValidateURL pu u hosts = None \<longleftrightarrow> (\<exists>h. pu u = Some (''https'', h) \<and> h \<in> set hosts)"
  by (auto simp: ValidateURL_def split: option.splits prod.splits)

lemma Download_cases:
  assumes "DownloadAndExtractBinaryAsset env dir asset l = (r, l')"
  obtains (stopped) "ul_actions l' = ul_actions l" "\<not> is_ok r"
  | (unpacked) body entries q l2 l3 where "download_checked env asset body"
      "de_unzip env body = Inr entries" "entries \<noteq> []" "ul_actions l2 = ul_actions l"
      "extract_all env dir (length entries) 0 entries l2 = (q, l3)"
      "ul_actions l' = ul_actions l3" "r = q"
proof (cases "\<exists>body entries. download_checked env asset body \<and> de_unzip env body = Inr entries
    \<and> entries \<noteq> [] \<and> de_temp env = None \<and> de_save env = None \<and> de_seek env = None
    \<and> de_hash env = None \<and> de_reseek env = None")
  case True
  then obtain body entries where c: "download_checked env asset body" "de_unzip env body = Inr entries"
    "entries \<noteq> []" "de_temp env = None" "de_save env = None" "de_seek env = None"
    "de_hash env = None" "de_reseek env = None" by blast
  let ?l2 = "note_progress (Progress UExtracting 0 []) (note_progress (Progress UDownloadComplete 100 [])
      (note_progress (Progress UDownloading 0 []) l))"
  obtain q l3 where x: "extract_all env dir (length entries) 0 entries ?l2 = (q, l3)"
    by (cases "extract_all env dir (length entries) 0 entries ?l2") auto
  have v: "ValidateURL (de_parse_url env) (ba_BrowserDownloadURL asset)
      [''github.com'', ''objects.githubusercontent.com''] = None"
    using c(1) by (auto simp: ValidateURL_None download_checked_def)
  have d: "ba_Digest asset \<noteq> []" "HasPrefix (ba_Digest asset) ''sha256:''"
    "''sha256:'' @ de_sha256 env body = ba_Digest asset"
    "de_http env (ba_BrowserDownloadURL asset) = Inr (200, body)"
    using c(1) by (simp_all add: download_checked_def HasPrefix_def)
  have "DownloadAndExtractBinaryAsset env dir asset l =
      (case (q, l3) of (Ok paths, l3) \<Rightarrow> (Ok paths, note_progress (Progress UExtractComplete 100 []) l3)
       | (Err e, l3) \<Rightarrow> (Err e, l3) | (Panic, l3) \<Rightarrow> (Panic, l3))"
    unfolding DownloadAndExtractBinaryAsset_def Let_def v
    by (simp only: d c option.case sum.case prod.case simp_thms if_True if_False x not_False_eq_True
        HOL.refl)
  with assms have "ul_actions l' = ul_actions l3" "r = q" by (auto split: res.splits)
  with c x show thesis by (intro unpacked) auto
next
  case False
  have "ul_actions l' = ul_actions l \<and> \<not> is_ok r"
  proof (rule ccontr)
    assume n: "\<not> (ul_actions l' = ul_actions l \<and> \<not> is_ok r)"
    have v: "ValidateURL (de_parse_url env) (ba_BrowserDownloadURL asset)
        [''github.com'', ''objects.githubusercontent.com''] = None"
      using n assms by (cases "ValidateURL (de_parse_url env) (ba_BrowserDownloadURL asset)
        [''github.com'', ''objects.githubusercontent.com'']")
        (auto simp: DownloadAndExtractBinaryAsset_def Let_def fail_notify_def)
    obtain body where h: "de_http env (ba_BrowserDownloadURL asset) = Inr (200, body)"
      "de_temp env = None" "de_save env = None"
      using n assms v by (auto simp: DownloadAndExtractBinaryAsset_def Let_def fail_notify_def
          split: sum.splits prod.splits option.splits if_splits)
    have d: "ba_Digest asset \<noteq> []" "de_seek env = None" "HasPrefix (ba_Digest asset) ''sha256:''"
      "de_hash env = None" "''sha256:'' @ de_sha256 env body = ba_Digest asset"
      "de_reseek env = None"
      using n assms v h by (auto simp: DownloadAndExtractBinaryAsset_def Let_def fail_notify_def
          split: option.splits if_splits)
    obtain entries where "de_unzip env body = Inr entries" "entries \<noteq> []"
      using n assms v h d by (auto simp: DownloadAndExtractBinaryAsset_def Let_def fail_notify_def
          split: sum.splits if_splits)
    moreover have "download_checked env asset body"
      using v h d by (auto simp: download_checked_def ValidateURL_None)
    ultimately show False using False h d by blast
  qed
  then show thesis by (intro stopped) auto
qed

lemma zip_slip_segments:
  assumes "\<not> zip_slip dest path" "path = path_Join dest name" "dest \<noteq> []" "hd dest = CHR ''/''"
  shows "HasPrefix path (Clean dest @ ''/'') \<and> ''..'' \<notin> set (Split path CHR ''/'')"
proof -
  have "path = Clean (dest @ ''/'' @ name)" using assms(2,3) by (simp add: path_Join_def)
  moreover have "hd (dest @ ''/'' @ name) = CHR ''/''" using assms(3,4) by simp
  ultimately have "''..'' \<notin> set (Split path CHR ''/'')"
    using Clean_segments [of "dest @ ''/'' @ name"] by simp
  moreover have "dest \<noteq> ''.''" using assms(4) by auto
  ultimately show ?thesis using assms(1) by (simp add: zip_slip_def)
qed

text \<open>Nothing is written before the download was checked: if anything was extracted, the URL
  is HTTPS on a trusted host, the server answered 200, and the SHA-256 of the body is the expected
  digest. With an absolute data directory every path written lies inside it, with no parent
  segment, and is a symlink, a file emptied before its check, or a file whose signature verified.
  On success there is one file record per archive entry.\<close>

theorem upgrade_download_safe:
  assumes "DownloadAndExtractBinaryAsset env dir asset l = (r, l')" "hd dir = CHR ''/''" "dir \<noteq> []"
  shows "\<exists>new. ul_actions l' = ul_actions l @ new \<and>
    (\<forall>a \<in> set new. HasPrefix (act_path a) (Clean dir @ ''/'')
      \<and> ''..'' \<notin> set (Split (act_path a) CHR ''/'')
      \<and> (\<exists>body. download_checked env asset body)
      \<and> ((\<exists>t p. a = MkSymlink t p) \<or> (\<exists>p. a = Truncated p) \<or> (\<exists>p s c. a = Extracted p s \<and> de_verify env s c = None))) \<and>
    (\<forall>files. r = Ok files \<longrightarrow> (\<exists>body entries. download_checked env asset body
      \<and> de_unzip env body = Inr entries \<and> length files = length entries))"
  using assms(1)
proof (cases rule: Download_cases)
  case stopped
  then show ?thesis by auto
next
  case (unpacked body entries q l2 l3)
  from extract_all_action [OF unpacked(5)] unpacked(4,6) obtain new where
    new: "ul_actions l' = ul_actions l @ new" "\<forall>a \<in> set new. entry_action env dir entries a"
    and len: "\<forall>ps. q = Ok ps \<longrightarrow> length ps = length entries" by auto
  have "HasPrefix (act_path a) (Clean dir @ ''/'') \<and> ''..'' \<notin> set (Split (act_path a) CHR ''/'')
      \<and> (\<exists>body. download_checked env asset body)
      \<and> ((\<exists>t p. a = MkSymlink t p) \<or> (\<exists>p. a = Truncated p) \<or> (\<exists>p s c. a = Extracted p s \<and> de_verify env s c = None))"
    if a: "a \<in> set new" for a
  proof -
    from new(2) a have "entry_action env dir entries a" by blast
    then obtain f :: zip_entry where z: "\<not> zip_slip dir (path_Join dir (ze_Name f))"
      and e: "a = MkSymlink (TrimSpace (ze_Content f)) (path_Join dir (ze_Name f)) \<or>
         a = Truncated (path_Join dir (ze_Name f)) \<or> a = Extracted (path_Join dir (ze_Name f)) (ze_Comment f)
           \<and> de_verify env (ze_Comment f) (ze_Content f) = None"
      unfolding entry_action_def by blast
    have p: "act_path a = path_Join dir (ze_Name f)" using e by (elim disjE conjE) simp_all
    have k: "(\<exists>t p. a = MkSymlink t p) \<or> (\<exists>p. a = Truncated p) \<or> (\<exists>p s c. a = Extracted p s \<and> de_verify env s c = None)"
      using e
    proof (elim disjE conjE)
      assume "a = MkSymlink (TrimSpace (ze_Content f)) (path_Join dir (ze_Name f))"
      then show ?thesis by (intro disjI1 exI)
    next
      assume "a = Truncated (path_Join dir (ze_Name f))"
      then show ?thesis by (intro disjI2 disjI1 exI)
    next
      assume "a = Extracted (path_Join dir (ze_Name f)) (ze_Comment f)"
        "de_verify env (ze_Comment f) (ze_Content f) = None"
      then show ?thesis by (intro disjI2 exI conjI)
    qed
    have "\<exists>body. download_checked env asset body" using unpacked(1) by (rule exI)
    with zip_slip_segments [OF z refl assms(3,2)] k show ?thesis unfolding p
      by (intro conjI) simp_all
  qed
  then have "\<forall>a \<in> set new. HasPrefix (act_path a) (Clean dir @ ''/'')
      \<and> ''..'' \<notin> set (Split (act_path a) CHR ''/'')
      \<and> (\<exists>body. download_checked env asset body)
      \<and> ((\<exists>t p. a = MkSymlink t p) \<or> (\<exists>p. a = Truncated p) \<or>
         (\<exists>p s c. a = Extracted p s \<and> de_verify env s c = None))" by (rule ballI)
  moreover have "\<forall>files. r = Ok files \<longrightarrow> (\<exists>body entries. download_checked env asset body
      \<and> de_unzip env body = Inr entries \<and> length files = length entries)"
    using len unpacked(1,2,7) by auto
  ultimately show ?thesis using new(1) by (intro exI [of _ new] conjI)
qed

definition demo_down :: down_env where
  "demo_down = \<lparr>de_parse_url = \<lambda>u. Some (''https'', ''github.com''),
     de_http = \<lambda>u. Inr (200, ''body''), de_temp = None, de_save = None, de_seek = None,
     de_reseek = None, de_hash = None, de_sha256 = \<lambda>b. ''00'',
     de_unzip = \<lambda>b. Inr [Some \<lparr>ze_Name = ''srat-cli'', ze_Kind = FileEntry, ze_Comment = ''sig'',
       ze_Content = ''elf'', ze_Size = 3\<rparr>],
     de_io = \<lambda>h f. None, de_verify = \<lambda>s c. None\<rparr>"

definition demo_asset :: binary_asset where
  "demo_asset = \<lparr>ba_Name = ''srat_x86_64.zip'', ba_Size = 4, ba_ID = 1,
     ba_BrowserDownloadURL = ''https://github.com/x'', ba_Digest = ''sha256:00''\<rparr>"

theorem upgrade_download_safe_witness:
  "\<exists>r l'. DownloadAndExtractBinaryAsset demo_down ''/data'' demo_asset
       \<lparr>ul_actions = [], ul_notes = []\<rparr> = (r, l')
     \<and> (\<forall>a \<in> set (ul_actions l'). HasPrefix (act_path a) ''/data/'')"
proof -
  let ?x = "DownloadAndExtractBinaryAsset demo_down ''/data'' demo_asset \<lparr>ul_actions = [], ul_notes = []\<rparr>"
  obtain r l' where x: "?x = (r, l')" by (cases ?x) auto
  have "Clean ''/data'' = ''/data''" by (simp add: Clean_def clean_step_def Let_def)
  moreover from upgrade_download_safe [OF x] obtain new where
    "ul_actions l' = new" "\<forall>a \<in> set new. HasPrefix (act_path a) (Clean ''/data'' @ ''/'')" by auto
  ultimately show ?thesis using x by auto
qed

section \<open>Installation\<close>

text \<open>
  The version a new file has to beat: for the running program the version of the program, for a file of the
  server the version of what the server link points to, for any other file the version of the file that is
  replaced. Versions that cannot be read are not compared.
\<close>

definition not_older ::
  "'v inst_env \<Rightarrow> UpdateChannel \<Rightarrow> string \<Rightarrow> up_action list \<Rightarrow> update_file \<Rightarrow> bool" where
  "not_older env channel exe h f \<longleftrightarrow>
     (let target = path_Join (Dir exe) (Base (uf_Path f));
          link = ie_Readlink env h (path_Join (Dir exe) ''srat-server'');
          behind = (if HasPrefix (Base (uf_Path f)) ''srat-server'' \<and> link \<noteq> None
                    then path_Join (Dir exe) (the link) else target);
          old = (if target = exe then ie_CurrentVersion env else ie_BinaryVersion env h behind)
      in case (old, ie_BinaryVersion env h (uf_Path f)) of
           (Some v, Some v') \<Rightarrow> \<not> ie_Less env v' v \<and> (ie_Equal env v' v \<longrightarrow> channel = DEVELOP)
         | _ \<Rightarrow> True)"

text \<open>A signature that is there was loaded and given to the update library; only the develop channel does
  without one.\<close>

definition authenticated ::
  "'v inst_env \<Rightarrow> UpdateChannel \<Rightarrow> string \<Rightarrow> up_action list \<Rightarrow> update_file \<Rightarrow> bool" where
  "authenticated env channel exe h f \<longleftrightarrow>
     (case uf_Signature f of Some s \<Rightarrow> ie_LoadSignature env s = None | None \<Rightarrow> channel = DEVELOP)
     \<and> ie_Apply env h (uf_Path f) (path_Join (Dir exe) (Base (uf_Path f))) (uf_Signature f) = None"

text \<open>The files were taken one after the other: links are passed over, each other file is put beside the
  running program after its checks, in the state that the files before it left.\<close>

fun replaced ::
  "'v inst_env \<Rightarrow> UpdateChannel \<Rightarrow> string \<Rightarrow> update_file list \<Rightarrow> up_action list \<Rightarrow> up_action list \<Rightarrow> bool" where
  "replaced env channel exe [] h new \<longleftrightarrow> new = []"
| "replaced env channel exe (f # fs) h new \<longleftrightarrow>
     (let a = Installed (uf_Path f) (path_Join (Dir exe) (Base (uf_Path f))) (uf_Signature f)
      in if ie_Lstat env h (uf_Path f) = IsLink then replaced env channel exe fs h new
         else ie_Lstat env h (uf_Path f) = IsFile \<and> not_older env channel exe h f \<and> authenticated env channel exe h f
              \<and> new \<noteq> [] \<and> hd new = a \<and> replaced env channel exe fs (h @ [a]) (tl new))"

lemma not_too_old:
  "not_older env channel exe h f \<longleftrightarrow>
     \<not> too_old env channel (installed_version env h exe (Dir exe) (uf_Path f) (path_Join (Dir exe) (Base (uf_Path f))))
         (ie_BinaryVersion env h (uf_Path f))"
  by (auto simp: not_older_def too_old_def installed_version_def Let_def split: option.splits)

lemma install_file_cases:
  "install_file env channel exe (Dir exe) f l = (r, l') \<Longrightarrow>
   (case r of
      Ok u \<Rightarrow> ie_Lstat env (ul_actions l) (uf_Path f) = IsLink \<and> ul_actions l' = ul_actions l
        \<or> ie_Lstat env (ul_actions l) (uf_Path f) = IsFile \<and> not_older env channel exe (ul_actions l) f
          \<and> authenticated env channel exe (ul_actions l) f
          \<and> ul_actions l' = ul_actions l
              @ [Installed (uf_Path f) (path_Join (Dir exe) (Base (uf_Path f))) (uf_Signature f)]
    | _ \<Rightarrow> ul_actions l' = ul_actions l)"
  by (auto simp: install_file_def Let_def fail_def fail_notify_def act_def note_progress_def authenticated_def
      not_too_old split: up_stat.splits if_splits option.splits)

lemma install_files_replaced:
  "install_files env channel exe (Dir exe) fs l = (r, l') \<Longrightarrow>
   \<exists>done rest new. fs = done @ rest \<and> ul_actions l' = ul_actions l @ new
     \<and> replaced env channel exe done (ul_actions l) new \<and> (r = Ok () \<longrightarrow> rest = [])"
proof (induction fs arbitrary: l r l')
  case (Cons f fs)
  obtain q l1 where x: "install_file env channel exe (Dir exe) f l = (q, l1)" by fastforce
  note c = install_file_cases [OF x]
  show ?case
  proof (cases "q = Ok ()")
    case True
    with Cons.prems x have "install_files env channel exe (Dir exe) fs l1 = (r, l')" by simp
    from Cons.IH [OF this] obtain fin rest new where n: "fs = fin @ rest" "ul_actions l' = ul_actions l1 @ new"
      "replaced env channel exe fin (ul_actions l1) new" "r = Ok () \<longrightarrow> rest = []" by blast
    let ?a = "Installed (uf_Path f) (path_Join (Dir exe) (Base (uf_Path f))) (uf_Signature f)"
    let ?new = "if ie_Lstat env (ul_actions l) (uf_Path f) = IsLink then new else ?a # new"
    have "replaced env channel exe (f # fin) (ul_actions l) ?new" "ul_actions l' = ul_actions l @ ?new"
      using c True n(2,3) by (auto simp: Let_def)
    then show ?thesis using n(1,4) by (intro exI [of _ "f # fin"] exI [of _ rest] exI [of _ ?new]) simp
  next
    case False
    then have "l' = l1" "r = q" using Cons.prems x by (cases q; auto)+
    then show ?thesis using c False
      by (intro exI [of _ "[]"] exI [of _ "f # fs"]) (cases q; simp)
  qed
qed simp


definition demo_inst :: "nat inst_env" where
  "demo_inst = \<lparr>ie_Lstat = \<lambda>h p. IsFile, ie_Stat = \<lambda>h p. False, ie_Executable = Inr ''/bin/srat-cli'',
     ie_CurrentVersion = Some 1, ie_BinaryVersion = \<lambda>h p. Some 2, ie_Less = (<), ie_Equal = (=),
     ie_Readlink = \<lambda>h p. None, ie_Open = \<lambda>h p. None, ie_LoadSignature = \<lambda>s. None,
     ie_Apply = \<lambda>h s t v. None, ie_Relink = \<lambda>h p. None, ie_Arch = ''amd64''\<rparr>"


text \<open>
  The version a server variant is compared with is read through the server link. Once the
  variant the link points to has been replaced, every other variant of the same package looks
  already installed, and the installation stops half way.
\<close>

definition variant_inst :: "nat inst_env" where
  "variant_inst = demo_inst\<lparr>ie_Executable := Inr ''/bin/srat-cli'',
     ie_Readlink := \<lambda>h p. Some ''srat-server-musl'',
     ie_BinaryVersion := \<lambda>h p. if HasPrefix p ''/data/'' \<or> (\<exists>a \<in> set h. act_path a = p)
       then Some 2 else Some 1\<rparr>"

lemma variants_block_each_other:
  "\<not> is_ok (fst (InstallUpdatePackage variant_inst RELEASE
     (Some [\<lparr>uf_Path = ''/data/srat-server-musl'', uf_Signature = Some ''s'', uf_Size = 1\<rparr>,
            \<lparr>uf_Path = ''/data/srat-server-glib'', uf_Signature = Some ''s'', uf_Size = 1\<rparr>])
     \<lparr>ul_actions = [], ul_notes = []\<rparr>))"
proof -
  have p: "Dir ''/bin/srat-cli'' = ''/bin''" "Base ''/data/srat-server-musl'' = ''srat-server-musl''"
    "Base ''/data/srat-server-glib'' = ''srat-server-glib''"
    "path_Join ''/bin'' ''srat-server-musl'' = ''/bin/srat-server-musl''"
    "path_Join ''/bin'' ''srat-server-glib'' = ''/bin/srat-server-glib''"
    "path_Join ''/bin'' ''srat-server'' = ''/bin/srat-server''"
    by (simp_all add: Dir_def Base_def strip_slashes_def after_slash_def path_Join_def Clean_def
        clean_step_def Let_def)
  show ?thesis
    by (simp add: InstallUpdatePackage_def variant_inst_def demo_inst_def getCurrentExecutablePath_def
        install_file_def Let_def installed_version_def too_old_def p HasPrefix_def act_def)
qed

text \<open>
  For the same reason a variant that the link does not point to is not protected: a newer one is replaced by an
  older one that is newer than what the link points to.
\<close>

lemma newer_variant_replaced:
  "act_path (hd (ul_actions (snd (InstallUpdatePackage
     (variant_inst\<lparr>ie_BinaryVersion := \<lambda>h p. if p = ''/bin/srat-server-static'' then Some 5
        else if HasPrefix p ''/data/'' then Some 2 else Some 1\<rparr>) RELEASE
     (Some [\<lparr>uf_Path = ''/data/srat-server-static'', uf_Signature = Some ''s'', uf_Size = 1\<rparr>])
     \<lparr>ul_actions = [], ul_notes = []\<rparr>)))) = ''/bin/srat-server-static''"
proof -
  have p: "Dir ''/bin/srat-cli'' = ''/bin''" "Base ''/data/srat-server-static'' = ''srat-server-static''"
    "path_Join ''/bin'' ''srat-server-static'' = ''/bin/srat-server-static''"
    "path_Join ''/bin'' ''srat-server-musl'' = ''/bin/srat-server-musl''"
    "path_Join ''/bin'' ''srat-server'' = ''/bin/srat-server''"
    by (simp_all add: Dir_def Base_def strip_slashes_def after_slash_def path_Join_def Clean_def
        clean_step_def Let_def)
  show ?thesis
    by (simp add: InstallUpdatePackage_def variant_inst_def demo_inst_def getCurrentExecutablePath_def
        install_file_def Let_def installed_version_def too_old_def p HasPrefix_def act_def updateServerSymlink_def)
qed

end
