(* ===== verification/Command_Exec.thy ===== *)
theory Command_Exec
  imports Srat_Prelude
begin

text \<open>
  The shared command executor, \<open>internal/commandexec/runner.go\<close>, and the progress reader that
  the filesystem adapters put on top of it (\<open>executeCommandWithProgress\<close> in
  \<open>service/filesystem/base_adapter.go\<close>).

  Every started command has three goroutines: one scanner per pipe (\<open>scanPipe\<close>) and one
  waiter. A goroutine changes the snapshot table under the mutex and then, outside it, emits
  its notifications; the notifications it still has to emit are its outbox. A step of the
  executor is one critical section, or one emission, of one goroutine, in any order the
  scheduler picks; a step that the goroutine is not at leaves the state as it is. A call of
  \<open>startWithInput\<close> is one step: no goroutine of its command runs before it returns. The
  process itself (its output lines, its exit status) and the clock are the events' arguments.
\<close>

section \<open>Data\<close>

datatype channel = Stdout | Stderr

record output_line =
  ln_channel :: channel
  ln_text :: string
  ln_time :: int

record snapshot =
  sn_id :: string
  sn_command_id :: string
  sn_label :: string
  sn_command :: string
  sn_args :: "string list"
  sn_started :: int
  sn_finished :: int
  sn_running :: bool
  sn_exit :: int
  sn_success :: bool
  sn_error :: string
  sn_lines :: "output_line list"

record execution =
  ex_snapshot :: snapshot
  ex_quiet :: bool

datatype cmd_event_type = EV_START | EV_UPDATE | EV_STOP | EV_ERROR

datatype notif =
    Started (nt_id: string) string string string "string list" int
  | Output (nt_id: string) string channel string int "int option"
  | Terminated (nt_id: string) string int bool int string

type_synonym emission = "cmd_event_type \<times> notif"

datatype goroutine = Scanner channel | Waiter

record job =
  job_command_id :: string
  open_pipe :: "channel \<Rightarrow> bool"
  waited :: bool
  outbox :: "goroutine \<Rightarrow> emission list"

record executor =
  has_bus :: bool
  snapshots :: "(string, execution) gomap"
  jobs :: "(string, job) gomap"
  emitted :: "emission list"

definition new_executor :: "bool \<Rightarrow> executor" where
  "new_executor bus = \<lparr>has_bus = bus, snapshots = [], jobs = [], emitted = []\<rparr>"

definition bufferSize :: nat where
  "bufferSize = 500"

section \<open>Operations\<close>

definition emitCommandEvent :: "emission \<Rightarrow> executor \<Rightarrow> executor" where
  "emitCommandEvent e s = (if has_bus s then s\<lparr>emitted := emitted s @ [e]\<rparr> else s)"

definition terminateWithError ::
  "string \<Rightarrow> string \<Rightarrow> int \<Rightarrow> string \<Rightarrow> int \<Rightarrow> executor \<Rightarrow> executor" where
  "terminateWithError i cid code msg t s =
     (let term = (EV_ERROR, Terminated i cid code False t msg) in
      case map_of (snapshots s) i of
        None \<Rightarrow> emitCommandEvent term s
      | Some e \<Rightarrow>
          let sn = (ex_snapshot e)\<lparr>sn_running := False, sn_success := False, sn_exit := code,
                                   sn_error := msg, sn_finished := t\<rparr>;
              s' = s\<lparr>snapshots := AList.update i (e\<lparr>ex_snapshot := sn\<rparr>) (snapshots s)\<rparr>
          in if ex_quiet e then s' else emitCommandEvent term s')"

text \<open>
  \<open>fail\<close> is the error of creating a pipe or of \<open>cmd.Start\<close>, with the time it is recorded.
\<close>

definition startWithInput ::
  "bool \<Rightarrow> string \<Rightarrow> string \<Rightarrow> string \<Rightarrow> string \<Rightarrow> string list \<Rightarrow> int \<Rightarrow> (string \<times> int) option
   \<Rightarrow> executor \<Rightarrow> executor" where
  "startWithInput quiet i cid label command args t fail s =
     (let sn = \<lparr>sn_id = i, sn_command_id = cid, sn_label = label, sn_command = command,
                sn_args = args, sn_started = t, sn_finished = 0, sn_running = True, sn_exit = 0,
                sn_success = False, sn_error = [], sn_lines = []\<rparr>;
          s1 = s\<lparr>snapshots :=
                  AList.update i \<lparr>ex_snapshot = sn, ex_quiet = quiet\<rparr> (snapshots s)\<rparr>;
          s2 = (if quiet then s1
                else emitCommandEvent (EV_START, Started i cid label command args t) s1)
      in case fail of
           Some (msg, t') \<Rightarrow> terminateWithError i cid (-1) msg t' s2
         | None \<Rightarrow>
             s2\<lparr>jobs := AList.update i \<lparr>job_command_id = cid, open_pipe = (\<lambda>_. True),
                                        waited = False, outbox = (\<lambda>_. [])\<rparr> (jobs s2)\<rparr>)"

definition trim_lines :: "output_line list \<Rightarrow> output_line list" where
  "trim_lines ls = (if length ls > bufferSize then drop (length ls - bufferSize) ls else ls)"

definition set_job :: "string \<Rightarrow> job \<Rightarrow> executor \<Rightarrow> executor" where
  "set_job i j s = s\<lparr>jobs := AList.update i j (jobs s)\<rparr>"

text \<open>One iteration of \<open>scanPipe\<close> that read a line.\<close>

definition scan_line :: "string \<Rightarrow> channel \<Rightarrow> string \<Rightarrow> int \<Rightarrow> job \<Rightarrow> executor \<Rightarrow> executor" where
  "scan_line i ch text t j s =
     (let upd = (EV_UPDATE, Output i (job_command_id j) ch text t None);
          j' = j\<lparr>outbox := (outbox j)(Scanner ch := outbox j (Scanner ch) @ [upd])\<rparr>
      in case map_of (snapshots s) i of
           None \<Rightarrow> set_job i j' s
         | Some e \<Rightarrow>
             let sn = ex_snapshot e;
                 l = \<lparr>ln_channel = ch, ln_text = text, ln_time = t\<rparr>;
                 e' = e\<lparr>ex_snapshot := sn\<lparr>sn_lines := trim_lines (sn_lines sn @ [l])\<rparr>\<rparr>;
                 s' = s\<lparr>snapshots := AList.update i e' (snapshots s)\<rparr>
             in if ex_quiet e then s' else set_job i j' s')"

text \<open>The line the waiter reports last: the last line of standard error, or the last line.\<close>

fun pick_last :: "output_line list \<Rightarrow> output_line option \<Rightarrow> output_line option" where
  "pick_last [] acc = acc"
| "pick_last (l # ls) acc =
     (if ln_channel l = Stderr then Some l
      else pick_last ls (case acc of None \<Rightarrow> Some l | Some a \<Rightarrow> Some a))"

text \<open>
  The waiter after \<open>wg.Wait()\<close>: \<open>wait\<close> is the error of \<open>cmd.Wait()\<close>, with the exit code when
  it is an \<open>exec.ExitError\<close>.
\<close>

definition wait_finish ::
  "string \<Rightarrow> (string \<times> int option) option \<Rightarrow> int \<Rightarrow> job \<Rightarrow> executor \<Rightarrow> executor" where
  "wait_finish i wait t j s =
     (let cid = job_command_id j;
          success = (wait = None);
          msg = (case wait of None \<Rightarrow> [] | Some (m, _) \<Rightarrow> m);
          code = (case wait of None \<Rightarrow> 0 | Some (_, c) \<Rightarrow> (case c of None \<Rightarrow> -1 | Some n \<Rightarrow> n));
          term = (if success then EV_STOP else EV_ERROR, Terminated i cid code success t msg);
          done = (\<lambda>es. j\<lparr>waited := True, outbox := (outbox j)(Waiter := es)\<rparr>)
      in case map_of (snapshots s) i of
           None \<Rightarrow> set_job i (done [term]) s
         | Some e \<Rightarrow>
             let sn = ex_snapshot e;
                 sn' = sn\<lparr>sn_running := False, sn_finished := t, sn_exit := code,
                          sn_success := success, sn_error := msg\<rparr>;
                 s' = s\<lparr>snapshots := AList.update i (e\<lparr>ex_snapshot := sn'\<rparr>) (snapshots s)\<rparr>;
                 upd = (case pick_last (rev (sn_lines sn)) None of
                          None \<Rightarrow> []
                        | Some l \<Rightarrow> [(EV_UPDATE, Output i cid (ln_channel l) (ln_text l)
                                                   (ln_time l) (Some code))])
             in if ex_quiet e then set_job i (done []) s'
                else set_job i (done (upd @ [term])) s')"

definition GetSnapshot :: "string \<Rightarrow> executor \<Rightarrow> snapshot option" where
  "GetSnapshot i s = map_option ex_snapshot (map_of (snapshots s) i)"

text \<open>
  What \<open>executeWithInput\<close> returns for the snapshot it polls once the command has ended.
\<close>

definition execute_reply :: "snapshot \<Rightarrow> string option" where
  "execute_reply sn =
     (if sn_success sn then None
      else if sn_error sn \<noteq> [] then Some (sn_error sn)
      else Some ''command execution failed'')"

definition JoinChannelOutput :: "output_line list \<Rightarrow> channel list \<Rightarrow> string" where
  "JoinChannelOutput ls chans =
     TrimSpace (foldl (\<lambda>acc l.
        if chans \<noteq> [] \<and> ln_channel l \<notin> set chans then acc
        else (if acc \<noteq> [] then acc @ [CHR 0x0A] else acc) @ ln_text l) [] ls)"

section \<open>Steps\<close>

datatype exec_event =
    Start bool string string string string "string list" int "(string \<times> int) option"
  | ScanLine string channel string int
  | ScanEnd string channel
  | WaitDone string "(string \<times> int option) option" int
  | Emit string goroutine

definition ev_id :: "exec_event \<Rightarrow> string" where
  "ev_id ev = (case ev of Start _ i _ _ _ _ _ _ \<Rightarrow> i | ScanLine i _ _ _ \<Rightarrow> i | ScanEnd i _ \<Rightarrow> i
               | WaitDone i _ _ \<Rightarrow> i | Emit i _ \<Rightarrow> i)"

text \<open>
  A goroutine goes on only after it emitted what it has to emit. A fresh \<open>uuid\<close> is not in the
  table.
\<close>

definition enabled :: "executor \<Rightarrow> exec_event \<Rightarrow> bool" where
  "enabled s ev =
     (case ev of
        Start _ i _ _ _ _ _ _ \<Rightarrow> map_of (snapshots s) i = None \<and> map_of (jobs s) i = None
      | _ \<Rightarrow>
         (case map_of (jobs s) (ev_id ev) of
            None \<Rightarrow> False
          | Some j \<Rightarrow>
             (case ev of
                ScanLine _ ch _ _ \<Rightarrow> open_pipe j ch \<and> outbox j (Scanner ch) = []
              | ScanEnd _ ch \<Rightarrow> open_pipe j ch \<and> outbox j (Scanner ch) = []
              | WaitDone _ _ _ \<Rightarrow> \<not> open_pipe j Stdout \<and> \<not> open_pipe j Stderr \<and> \<not> waited j
              | Emit _ g \<Rightarrow> outbox j g \<noteq> []
              | Start _ _ _ _ _ _ _ _ \<Rightarrow> False)))"

definition perform :: "executor \<Rightarrow> exec_event \<Rightarrow> executor" where
  "perform s ev =
     (case ev of
        Start q i cid label cmd args t fail \<Rightarrow> startWithInput q i cid label cmd args t fail s
      | ScanLine i ch text t \<Rightarrow>
          (case map_of (jobs s) i of None \<Rightarrow> s | Some j \<Rightarrow> scan_line i ch text t j s)
      | ScanEnd i ch \<Rightarrow>
          (case map_of (jobs s) i of
             None \<Rightarrow> s
           | Some j \<Rightarrow> set_job i (j\<lparr>open_pipe := (open_pipe j)(ch := False)\<rparr>) s)
      | WaitDone i w t \<Rightarrow>
          (case map_of (jobs s) i of None \<Rightarrow> s | Some j \<Rightarrow> wait_finish i w t j s)
      | Emit i g \<Rightarrow>
          (case map_of (jobs s) i of
             None \<Rightarrow> s
           | Some j \<Rightarrow>
               (case outbox j g of
                  [] \<Rightarrow> s
                | e # es \<Rightarrow>
                    emitCommandEvent e (set_job i (j\<lparr>outbox := (outbox j)(g := es)\<rparr>) s))))"

definition exec_step :: "executor \<Rightarrow> exec_event \<Rightarrow> executor" where
  "exec_step s ev = (if enabled s ev then perform s ev else s)"

section \<open>The progress reader\<close>

text \<open>
  The goroutine of \<open>executeCommandWithProgress\<close>: the lines it sent on each channel, the
  index of the next line of the snapshot it looks at, and the result once it has sent it.
  The executor's own \<open>ErrorOther\<close> stands for the error values it builds.
\<close>

record cmd_result =
  cr_exit :: int
  cr_error :: "err option"

record reader =
  next_line :: nat
  sent_out :: "string list"
  sent_err :: "string list"
  result :: "cmd_result option"

definition new_reader :: reader where
  "new_reader = \<lparr>next_line = 0, sent_out = [], sent_err = [], result = None\<rparr>"

definition cancelled_result :: cmd_result where
  "cancelled_result = \<lparr>cr_exit = -1, cr_error = Some (E ErrorOther ''context canceled'')\<rparr>"

definition send_line :: "reader \<Rightarrow> output_line \<Rightarrow> reader" where
  "send_line r l = (case ln_channel l of
                      Stdout \<Rightarrow> r\<lparr>sent_out := sent_out r @ [ln_text l]\<rparr>
                    | Stderr \<Rightarrow> r\<lparr>sent_err := sent_err r @ [ln_text l]\<rparr>)"

definition final_result :: "snapshot \<Rightarrow> reader \<Rightarrow> cmd_result" where
  "final_result sn r =
     (if sn_success sn then \<lparr>cr_exit = sn_exit sn, cr_error = None\<rparr>
      else
        let code = (if sn_exit sn = 0 then -1 else sn_exit sn);
            stderrText = TrimSpace (Join (sent_err r) [CHR 0x0A]);
            stdoutText = TrimSpace (Join (sent_out r) [CHR 0x0A]);
            m0 = TrimSpace (sn_error sn);
            m1 = (if m0 = [] then ''command execution failed'' else m0);
            m2 = (if stderrText \<noteq> [] \<and> \<not> Contains m1 stderrText then m1 @ '': '' @ stderrText
                  else if stdoutText \<noteq> [] \<and> \<not> Contains m1 stdoutText then m1 @ '': '' @ stdoutText
                  else m1)
        in \<lparr>cr_exit = code, cr_error = Some (E ErrorOther m2)\<rparr>)"

text \<open>
  One round of the select loop. \<open>Cancel\<close>: the context is done at the outer select.
  \<open>Tick s k\<close>: the ticker fired and the executor's state is \<open>s\<close>; with \<open>k = Some n\<close> the context is
  done at the inner select after \<open>n\<close> lines were sent.
\<close>

datatype tick = Cancel | Tick executor "nat option"

definition reader_round :: "string \<Rightarrow> reader \<Rightarrow> tick \<Rightarrow> reader" where
  "reader_round i r tk =
     (if result r \<noteq> None then r
      else case tk of
        Cancel \<Rightarrow> r\<lparr>result := Some cancelled_result\<rparr>
      | Tick s k \<Rightarrow>
         (case GetSnapshot i s of
            None \<Rightarrow> r
          | Some sn \<Rightarrow>
              let n = min (next_line r) (length (sn_lines sn));
                  new = drop n (sn_lines sn);
                  sent = (case k of None \<Rightarrow> length new | Some m \<Rightarrow> m);
                  r1 = foldl send_line r (take sent new);
                  r2 = r1\<lparr>next_line := length (sn_lines sn)\<rparr>
              in if sent < length new then r1\<lparr>result := Some cancelled_result\<rparr>
                 else if sn_running sn then r2
                 else r2\<lparr>result := Some (final_result sn r2)\<rparr>))"

end
