(* ===== verification/Command_Exec_Laws.thy ===== *)
theory Command_Exec_Laws
  imports Command_Exec
begin

text \<open>
  Laws of the command executor: what holds of every command in every reachable state, the order
  of its notifications, that a finished execution never changes, that the table keeps the last
  500 lines, and what the progress reader delivers.
\<close>

section \<open>The invariant of one command\<close>

definition events_of :: "string \<Rightarrow> executor \<Rightarrow> emission list" where
  "events_of i s = [e \<leftarrow> emitted s. nt_id (snd e) = i]"

definition is_update :: "string \<Rightarrow> emission \<Rightarrow> bool" where
  "is_update i e = (fst e = EV_UPDATE \<and> nt_id (snd e) = i)"

definition start_event :: "snapshot \<Rightarrow> emission" where
  "start_event sn = (EV_START, Started (sn_id sn) (sn_command_id sn) (sn_label sn)
                                (sn_command sn) (sn_args sn) (sn_started sn))"

definition end_event :: "snapshot \<Rightarrow> emission" where
  "end_event sn = (if sn_success sn then EV_STOP else EV_ERROR,
                   Terminated (sn_id sn) (sn_command_id sn) (sn_exit sn) (sn_success sn)
                     (sn_finished sn) (sn_error sn))"

definition snapshot_ok :: "string \<Rightarrow> snapshot \<Rightarrow> bool" where
  "snapshot_ok i sn \<longleftrightarrow>
     sn_id sn = i \<and> length (sn_lines sn) \<le> bufferSize \<and>
     (sn_running sn \<longrightarrow> \<not> sn_success sn \<and> sn_exit sn = 0 \<and> sn_error sn = [] \<and> sn_finished sn = 0) \<and>
     (sn_success sn \<longrightarrow> sn_exit sn = 0 \<and> sn_error sn = [])"

definition job_ok :: "string \<Rightarrow> execution \<Rightarrow> job \<Rightarrow> bool" where
  "job_ok i e j \<longleftrightarrow>
     job_command_id j = sn_command_id (ex_snapshot e) \<and>
     waited j = (\<not> sn_running (ex_snapshot e)) \<and>
     (waited j \<longrightarrow> (\<forall>ch. \<not> open_pipe j ch)) \<and>
     (\<forall>ch. \<not> open_pipe j ch \<longrightarrow> outbox j (Scanner ch) = []) \<and>
     (\<forall>ch. list_all (is_update i) (outbox j (Scanner ch)) \<and> length (outbox j (Scanner ch)) \<le> 1) \<and>
     (\<not> waited j \<longrightarrow> outbox j Waiter = []) \<and>
     (ex_quiet e \<longrightarrow> (\<forall>g. outbox j g = []))"

text \<open>
  The notifications of a command: its start, then updates, then its end. The waiter's outbox
  holds what is still missing of them.
\<close>

definition events_ok ::
  "bool \<Rightarrow> string \<Rightarrow> execution \<Rightarrow> job option \<Rightarrow> emission list \<Rightarrow> bool" where
  "events_ok bus i e jo evs \<longleftrightarrow>
     (if ex_quiet e \<or> \<not> bus then evs = []
      else case jo of
        None \<Rightarrow> evs = [start_event (ex_snapshot e), end_event (ex_snapshot e)]
      | Some j \<Rightarrow>
          \<exists>us. list_all (is_update i) us \<and>
            (if waited j
             then evs @ outbox j Waiter = start_event (ex_snapshot e) # us @ [end_event (ex_snapshot e)]
             else evs = start_event (ex_snapshot e) # us))"

definition waiter_ok :: "string \<Rightarrow> execution \<Rightarrow> job \<Rightarrow> bool" where
  "waiter_ok i e j \<longleftrightarrow>
     outbox j Waiter = [] \<or> outbox j Waiter = [end_event (ex_snapshot e)] \<or>
     (\<exists>u. is_update i u \<and> outbox j Waiter = [u, end_event (ex_snapshot e)])"

definition id_ok ::
  "bool \<Rightarrow> string \<Rightarrow> execution option \<Rightarrow> job option \<Rightarrow> emission list \<Rightarrow> bool" where
  "id_ok bus i eo jo evs \<longleftrightarrow>
     (case eo of
        None \<Rightarrow> jo = None \<and> evs = []
      | Some e \<Rightarrow>
          snapshot_ok i (ex_snapshot e) \<and> events_ok bus i e jo evs \<and>
          (case jo of
             None \<Rightarrow> \<not> sn_running (ex_snapshot e) \<and> \<not> sn_success (ex_snapshot e)
           | Some j \<Rightarrow> job_ok i e j \<and> waiter_ok i e j))"

definition exec_inv :: "executor \<Rightarrow> bool" where
  "exec_inv s \<longleftrightarrow> distinct (keys (snapshots s)) \<and> distinct (keys (jobs s)) \<and>
     (\<forall>i. id_ok (has_bus s) i (map_of (snapshots s) i) (map_of (jobs s) i) (events_of i s))"

section \<open>Projections of the steps\<close>

lemmas exec_proj = emitCommandEvent_def terminateWithError_def startWithInput_def set_job_def
  scan_line_def wait_finish_def

lemma has_bus_step [simp]: "has_bus (exec_step s ev) = has_bus s"
  by (auto simp: exec_step_def perform_def exec_proj Let_def split: exec_event.splits option.splits
      list.splits prod.splits)

lemma distinct_step:
  "distinct (keys (snapshots s)) \<Longrightarrow> distinct (keys (jobs s)) \<Longrightarrow>
   distinct (keys (snapshots (exec_step s ev))) \<and> distinct (keys (jobs (exec_step s ev)))"
  by (cases ev) (auto simp: exec_step_def perform_def exec_proj Let_def distinct_update
      split: option.splits list.splits prod.splits)

lemma emitted_emit [simp]:
  "emitted (emitCommandEvent e s) = (if has_bus s then emitted s @ [e] else emitted s)"
  "snapshots (emitCommandEvent e s) = snapshots s" "jobs (emitCommandEvent e s) = jobs s"
  "has_bus (emitCommandEvent e s) = has_bus s"
  by (simp_all add: emitCommandEvent_def)

lemma set_job_simps [simp]:
  "snapshots (set_job i j s) = snapshots s" "emitted (set_job i j s) = emitted s"
  "jobs (set_job i j s) = AList.update i j (jobs s)" "has_bus (set_job i j s) = has_bus s"
  by (simp_all add: set_job_def)


lemma events_of_emit:
  "events_of k (emitCommandEvent e s) =
     (if has_bus s \<and> nt_id (snd e) = k then events_of k s @ [e] else events_of k s)"
  by (auto simp: events_of_def)

lemma events_of_set_job [simp]: "events_of k (set_job i j s) = events_of k s"
  by (simp add: events_of_def)

lemma events_of_update [simp]:
  "events_of k (s\<lparr>snapshots := m\<rparr>) = events_of k s" "events_of k (s\<lparr>jobs := n\<rparr>) = events_of k s"
  by (simp_all add: events_of_def)

section \<open>Every step keeps the invariant\<close>

lemma exec_inv_idD:
  "exec_inv s \<Longrightarrow> id_ok (has_bus s) i (map_of (snapshots s) i) (map_of (jobs s) i) (events_of i s)"
  by (simp add: exec_inv_def)

lemma exec_inv_jobD:
  assumes "exec_inv s" and "map_of (jobs s) i = Some j"
  obtains e where "map_of (snapshots s) i = Some e" "snapshot_ok i (ex_snapshot e)" "job_ok i e j"
    "waiter_ok i e j" "events_ok (has_bus s) i e (Some j) (events_of i s)"
  using exec_inv_idD [OF assms(1), of i] assms(2)
  by (auto simp: id_ok_def split: option.splits)

lemma end_event_id [simp]: "nt_id (snd (end_event sn)) = sn_id sn"
  by (simp add: end_event_def)

lemma outbox_id:
  assumes "job_ok i e j" "waiter_ok i e j" "snapshot_ok i (ex_snapshot e)" "x \<in> set (outbox j g)"
  shows "nt_id (snd x) = i"
proof (cases g)
  case (Scanner ch)
  then have "list_all (is_update i) (outbox j g)" using assms(1) by (simp add: job_ok_def)
  with assms(4) show ?thesis by (auto simp: list_all_iff is_update_def)
next
  case Waiter
  with assms show ?thesis by (auto simp: waiter_ok_def is_update_def snapshot_ok_def)
qed

lemma option_pair_cases: "(x = None \<Longrightarrow> P) \<Longrightarrow> (\<And>a b. x = Some (a, b) \<Longrightarrow> P) \<Longrightarrow> P"
  by (cases x) auto

lemma terminate_frame:
  assumes "k \<noteq> i"
  shows "map_of (snapshots (terminateWithError i cid c m t s)) k = map_of (snapshots s) k"
    and "jobs (terminateWithError i cid c m t s) = jobs s"
    and "events_of k (terminateWithError i cid c m t s) = events_of k s"
  using assms
  by (cases "map_of (snapshots s) i"; simp add: terminateWithError_def Let_def go_map events_of_emit)+

lemma start_frame:
  assumes "k \<noteq> i"
  shows "map_of (snapshots (startWithInput q i cid label cmd args t fail s)) k = map_of (snapshots s) k"
    and "map_of (jobs (startWithInput q i cid label cmd args t fail s)) k = map_of (jobs s) k"
    and "events_of k (startWithInput q i cid label cmd args t fail s) = events_of k s"
  using assms
  by (cases fail rule: option_pair_cases;
      simp add: startWithInput_def terminate_frame Let_def go_map events_of_emit)+

lemma scan_frame:
  assumes "k \<noteq> i"
  shows "map_of (snapshots (scan_line i ch tx t j s)) k = map_of (snapshots s) k"
    and "map_of (jobs (scan_line i ch tx t j s)) k = map_of (jobs s) k"
    and "events_of k (scan_line i ch tx t j s) = events_of k s"
  using assms
  by (cases "map_of (snapshots s) i"; simp add: scan_line_def Let_def go_map)+

lemma wait_frame:
  assumes "k \<noteq> i"
  shows "map_of (snapshots (wait_finish i w t j s)) k = map_of (snapshots s) k"
    and "map_of (jobs (wait_finish i w t j s)) k = map_of (jobs s) k"
    and "events_of k (wait_finish i w t j s) = events_of k s"
  using assms
  by (cases "map_of (snapshots s) i"; simp add: wait_finish_def Let_def go_map)+

lemmas frame_ops = start_frame scan_frame wait_frame

lemma perform_simps [simp]:
  "perform s (Start q i cid label cmd args t fail) = startWithInput q i cid label cmd args t fail s"
  "map_of (jobs s) i = Some j \<Longrightarrow> perform s (ScanLine i ch text t) = scan_line i ch text t j s"
  "map_of (jobs s) i = Some j \<Longrightarrow>
     perform s (ScanEnd i ch) = set_job i (j\<lparr>open_pipe := (open_pipe j)(ch := False)\<rparr>) s"
  "map_of (jobs s) i = Some j \<Longrightarrow> perform s (WaitDone i w t) = wait_finish i w t j s"
  "map_of (jobs s) i = Some j \<Longrightarrow> outbox j g = x # xs \<Longrightarrow>
     perform s (Emit i g) = emitCommandEvent x (set_job i (j\<lparr>outbox := (outbox j)(g := xs)\<rparr>) s)"
  by (simp_all add: perform_def)

text \<open>What it takes for a step to change anything.\<close>

lemma enabled_jobE:
  assumes "enabled s ev" and "\<forall>q i cid label cmd args t fail. ev \<noteq> Start q i cid label cmd args t fail"
  obtains j where "map_of (jobs s) (ev_id ev) = Some j"
  using assms by (cases ev) (auto simp: enabled_def split: option.splits)

lemma frame_step:
  assumes inv: "exec_inv s" and "k \<noteq> ev_id ev"
  shows "map_of (snapshots (exec_step s ev)) k = map_of (snapshots s) k \<and>
         map_of (jobs (exec_step s ev)) k = map_of (jobs s) k \<and>
         events_of k (exec_step s ev) = events_of k s"
proof (cases "enabled s ev")
  case False
  then show ?thesis by (simp add: exec_step_def)
next
  case en: True
  show ?thesis
  proof (cases ev)
    case (Start q i cid label cmd args t fail)
    then show ?thesis using en assms(2) by (simp add: exec_step_def ev_id_def frame_ops)
  next
    case (ScanLine i ch tx t)
    moreover obtain j where "map_of (jobs s) i = Some j"
      using en ScanLine by (auto simp: ev_id_def elim: enabled_jobE)
    ultimately show ?thesis using en assms(2) by (simp add: exec_step_def ev_id_def frame_ops)
  next
    case (ScanEnd i ch)
    moreover obtain j where "map_of (jobs s) i = Some j"
      using en ScanEnd by (auto simp: ev_id_def elim: enabled_jobE)
    ultimately show ?thesis using en assms(2) by (simp add: exec_step_def ev_id_def go_map)
  next
    case (WaitDone i w t)
    moreover obtain j where "map_of (jobs s) i = Some j"
      using en WaitDone by (auto simp: ev_id_def elim: enabled_jobE)
    ultimately show ?thesis using en assms(2) by (simp add: exec_step_def ev_id_def frame_ops)
  next
    case (Emit i g)
    then obtain j where j: "map_of (jobs s) i = Some j"
      using en by (auto simp: ev_id_def elim: enabled_jobE)
    obtain x xs where x: "outbox j g = x # xs"
      using en Emit j by (cases "outbox j g") (auto simp: enabled_def ev_id_def)
    obtain e where e: "snapshot_ok i (ex_snapshot e)" "job_ok i e j" "waiter_ok i e j"
      using exec_inv_jobD [OF inv j] by metis
    have "nt_id (snd x) = i" using outbox_id [OF e(2,3,1), of x g] x by simp
    then show ?thesis using Emit en j x assms(2)
      by (simp add: exec_step_def events_of_emit go_map ev_id_def)
  qed
qed


lemma id_ok_job:
  assumes "snapshot_ok i (ex_snapshot e)" "job_ok i e j" "waiter_ok i e j"
    and "events_ok bus i e (Some j) evs"
  shows "id_ok bus i (Some e) (Some j) evs"
  using assms by (simp add: id_ok_def)

lemma start_ok:
  assumes none: "map_of (snapshots s) i = None" "map_of (jobs s) i = None" "events_of i s = []"
    and s': "s' = startWithInput q i cid label cmd args t fail s"
  shows "id_ok (has_bus s') i (map_of (snapshots s') i) (map_of (jobs s') i) (events_of i s')"
proof -
  define sn where "sn = \<lparr>sn_id = i, sn_command_id = cid, sn_label = label, sn_command = cmd,
    sn_args = args, sn_started = t, sn_finished = 0, sn_running = True, sn_exit = 0,
    sn_success = False, sn_error = [], sn_lines = []\<rparr>"
  define s2 where "s2 = (let s1 = s\<lparr>snapshots :=
      AList.update i \<lparr>ex_snapshot = sn, ex_quiet = q\<rparr> (snapshots s)\<rparr>
    in if q then s1 else emitCommandEvent (EV_START, Started i cid label cmd args t) s1)"
  have st: "start_event sn = (EV_START, Started i cid label cmd args t)"
    by (simp add: sn_def start_event_def)
  have s2: "map_of (snapshots s2) i = Some \<lparr>ex_snapshot = sn, ex_quiet = q\<rparr>"
    "map_of (jobs s2) i = None" "has_bus s2 = has_bus s"
    "events_of i s2 = (if q \<or> \<not> has_bus s then [] else [start_event sn])"
    using none by (simp_all add: s2_def Let_def go_map events_of_emit st)
  have sok: "snapshot_ok i sn" by (simp add: snapshot_ok_def sn_def bufferSize_def)
  show ?thesis
  proof (cases fail)
    case None
    define j where "j = \<lparr>job_command_id = cid, open_pipe = (\<lambda>_. True), waited = False,
      outbox = (\<lambda>_. [])\<rparr>"
    have s'_eq: "s' = s2\<lparr>jobs := AList.update i j (jobs s2)\<rparr>"
      unfolding s' startWithInput_def by (simp add: None s2_def sn_def j_def Let_def)
    have jo: "job_ok i \<lparr>ex_snapshot = sn, ex_quiet = q\<rparr> j" "waiter_ok i \<lparr>ex_snapshot = sn, ex_quiet = q\<rparr> j"
      by (simp_all add: job_ok_def waiter_ok_def j_def sn_def)
    have ev: "events_ok (has_bus s) i \<lparr>ex_snapshot = sn, ex_quiet = q\<rparr> (Some j)
        (if q \<or> \<not> has_bus s then [] else [start_event sn])"
      by (simp add: events_ok_def j_def)
    have sok': "snapshot_ok i (ex_snapshot \<lparr>ex_snapshot = sn, ex_quiet = q\<rparr>)" using sok by simp
    show ?thesis using id_ok_job [OF sok' jo ev] s2 unfolding s'_eq by (simp add: go_map)
  next
    case (Some f)
    obtain m u where f: "f = (m, u)" by fastforce
    define sn' where "sn' = sn\<lparr>sn_running := False, sn_success := False, sn_exit := -1,
      sn_error := m, sn_finished := u\<rparr>"
    have s'_eq: "s' = terminateWithError i cid (-1) m u s2"
      unfolding s' startWithInput_def by (simp add: Some f s2_def sn_def Let_def)
    have en: "end_event sn' = (EV_ERROR, Terminated i cid (-1) False u m)"
      by (simp add: end_event_def sn'_def sn_def)
    have st': "start_event sn' = start_event sn" by (simp add: start_event_def sn'_def)
    have t: "map_of (snapshots s') i = Some \<lparr>ex_snapshot = sn', ex_quiet = q\<rparr>"
      "map_of (jobs s') i = None" "has_bus s' = has_bus s"
      "events_of i s' = (if q \<or> \<not> has_bus s then [] else [start_event sn, end_event sn'])"
      using s2 unfolding s'_eq terminateWithError_def en [symmetric] sn'_def [symmetric]
      by (simp_all add: Let_def go_map events_of_emit en sn'_def sn_def)
    have "snapshot_ok i sn'" using sok by (simp add: snapshot_ok_def sn'_def)
    moreover have "\<not> sn_running sn'" "\<not> sn_success sn'" by (simp_all add: sn'_def)
    ultimately show ?thesis using t by (simp add: id_ok_def events_ok_def st')
  qed
qed

lemma trim_length: "length (trim_lines ls) \<le> bufferSize"
  by (simp add: trim_lines_def)

lemma line_ok:
  assumes j: "map_of (jobs s) i = Some j" and e: "map_of (snapshots s) i = Some e"
    and sn: "snapshot_ok i (ex_snapshot e)" and jo: "job_ok i e j" and wo: "waiter_ok i e j"
    and ev: "events_ok (has_bus s) i e (Some j) (events_of i s)"
    and op: "open_pipe j ch" "outbox j (Scanner ch) = []"
    and s': "s' = scan_line i ch tx t j s"
  shows "id_ok (has_bus s') i (map_of (snapshots s') i) (map_of (jobs s') i) (events_of i s')"
proof -
  define e' where "e' = e\<lparr>ex_snapshot := (ex_snapshot e)\<lparr>sn_lines :=
    trim_lines (sn_lines (ex_snapshot e) @ [\<lparr>ln_channel = ch, ln_text = tx, ln_time = t\<rparr>])\<rparr>\<rparr>"
  define j' where "j' = (if ex_quiet e then j else j\<lparr>outbox := (outbox j)(Scanner ch :=
    outbox j (Scanner ch) @ [(EV_UPDATE, Output i (job_command_id j) ch tx t None)])\<rparr>)"
  have run: "\<not> waited j" "sn_running (ex_snapshot e)" using jo op(1) by (auto simp: job_ok_def)
  then have "outbox j Waiter = []" using jo by (simp add: job_ok_def)
  then have w': "waiter_ok i e' j'" by (simp add: waiter_ok_def j'_def)
  have s1: "snapshot_ok i (ex_snapshot e')" using sn by (simp add: snapshot_ok_def e'_def trim_length)
  have j1: "job_ok i e' j'" using jo op run
    by (auto simp: job_ok_def e'_def j'_def is_update_def)
  have e1: "events_ok (has_bus s) i e' (Some j') (events_of i s)" using ev run
    by (auto simp: events_ok_def e'_def j'_def start_event_def)
  have "map_of (snapshots s') i = Some e'" "map_of (jobs s') i = Some j'"
    "events_of i s' = events_of i s" "has_bus s' = has_bus s"
    unfolding s' scan_line_def by (simp_all add: e j e'_def j'_def Let_def go_map)
  then show ?thesis using id_ok_job [OF s1 j1 w' e1] by simp
qed

lemma wait_ok:
  assumes j: "map_of (jobs s) i = Some j" and e: "map_of (snapshots s) i = Some e"
    and sn: "snapshot_ok i (ex_snapshot e)" and jo: "job_ok i e j" and wo: "waiter_ok i e j"
    and ev: "events_ok (has_bus s) i e (Some j) (events_of i s)"
    and op: "\<not> open_pipe j Stdout" "\<not> open_pipe j Stderr" "\<not> waited j"
    and s': "s' = wait_finish i w t j s"
  shows "id_ok (has_bus s') i (map_of (snapshots s') i) (map_of (jobs s') i) (events_of i s')"
proof -
  have closed: "\<not> open_pipe j ch" for ch using op by (cases ch) auto
  have boxes: "outbox j g = []" for g
    using jo closed op(3) by (cases g) (auto simp: job_ok_def)
  have run: "sn_running (ex_snapshot e)" using jo op(3) by (simp add: job_ok_def)
  define code where "code = (case w of None \<Rightarrow> 0 | Some (_, c) \<Rightarrow> (case c of None \<Rightarrow> -1 | Some n \<Rightarrow> n))"
  define msg where "msg = (case w of None \<Rightarrow> [] | Some (m, _) \<Rightarrow> m)"
  define e' where "e' = e\<lparr>ex_snapshot := (ex_snapshot e)\<lparr>sn_running := False, sn_finished := t,
    sn_exit := code, sn_success := w = None, sn_error := msg\<rparr>\<rparr>"
  define upd where "upd = (case pick_last (rev (sn_lines (ex_snapshot e))) None of None \<Rightarrow> []
     | Some l \<Rightarrow> [(EV_UPDATE, Output i (job_command_id j) (ln_channel l) (ln_text l) (ln_time l)
                               (Some code))])"
  have upd: "upd = [] \<or> (\<exists>u. is_update i u \<and> upd = [u])"
    by (auto simp: upd_def is_update_def split: option.splits)
  have fin: "(if w = None then EV_STOP else EV_ERROR,
      Terminated i (job_command_id j) code (w = None) t msg) = end_event (ex_snapshot e')"
    using sn jo by (simp add: end_event_def e'_def snapshot_ok_def job_ok_def)
  define j' where "j' = j\<lparr>waited := True, outbox := (outbox j)(Waiter :=
    if ex_quiet e then [] else upd @ [end_event (ex_snapshot e')])\<rparr>"
  have w': "waiter_ok i e' j'" using upd by (auto simp: waiter_ok_def j'_def)
  have s1: "snapshot_ok i (ex_snapshot e')" using sn
    by (simp add: snapshot_ok_def e'_def code_def msg_def)
  have j1: "job_ok i e' j'" using jo closed boxes
    by (auto simp: job_ok_def e'_def j'_def)
  have st: "start_event (ex_snapshot e') = start_event (ex_snapshot e)"
    by (simp add: start_event_def e'_def)
  have "list_all (is_update i) upd" using upd by auto
  then have e1: "events_ok (has_bus s) i e' (Some j') (events_of i s)" using ev op(3)
    by (auto simp: events_ok_def st j'_def e'_def [THEN arg_cong, of ex_quiet])
  have p1: "map_of (snapshots s') i = Some e'"
    unfolding s' wait_finish_def by (simp add: e e'_def code_def msg_def Let_def go_map)
  have p2: "map_of (jobs s') i = Some j'"
    unfolding s' wait_finish_def Let_def code_def [symmetric] msg_def [symmetric] fin
    by (simp add: e j'_def upd_def go_map)
  have "events_of i s' = events_of i s" "has_bus s' = has_bus s"
    unfolding s' wait_finish_def by (simp_all add: e Let_def)
  then show ?thesis using p1 p2 id_ok_job [OF s1 j1 w' e1] by simp
qed

lemma emit_ok:
  assumes j: "map_of (jobs s) i = Some j" and e: "map_of (snapshots s) i = Some e"
    and sn: "snapshot_ok i (ex_snapshot e)" and jo: "job_ok i e j" and wo: "waiter_ok i e j"
    and ev: "events_ok (has_bus s) i e (Some j) (events_of i s)"
    and x: "outbox j g = x # xs"
    and s': "s' = emitCommandEvent x (set_job i (j\<lparr>outbox := (outbox j)(g := xs)\<rparr>) s)"
  shows "id_ok (has_bus s') i (map_of (snapshots s') i) (map_of (jobs s') i) (events_of i s')"
proof -
  define j' where "j' = j\<lparr>outbox := (outbox j)(g := xs)\<rparr>"
  have xi: "nt_id (snd x) = i" using outbox_id [OF jo wo sn, of x g] x by simp
  have nq: "\<not> ex_quiet e" using jo x by (auto simp: job_ok_def)
  have w': "waiter_ok i e j'" using wo x
    by (cases g) (auto simp: waiter_ok_def j'_def)
  have j1: "job_ok i e j'"
  proof (cases g)
    case (Scanner ch)
    have "list_all (is_update i) (x # xs) \<and> length (x # xs) \<le> 1"
      using jo x Scanner by (metis job_ok_def)
    with jo x nq Scanner show ?thesis by (simp add: job_ok_def j'_def)
  next
    case Waiter
    with jo x nq show ?thesis by (auto simp: job_ok_def j'_def)
  qed
  have e1: "events_ok (has_bus s) i e (Some j') (events_of i s @ [x])" if bus: "has_bus s"
  proof (cases g)
    case (Scanner ch)
    have "list_all (is_update i) (x # xs)" using jo x Scanner by (metis job_ok_def)
    then have upd: "is_update i x" by simp
    from jo x Scanner have nw: "\<not> waited j" by (auto simp: job_ok_def)
    from ev nq nw bus obtain us where "list_all (is_update i) us"
      "events_of i s = start_event (ex_snapshot e) # us" by (auto simp: events_ok_def)
    with upd nw nq bus show ?thesis by (auto simp: events_ok_def j'_def intro!: exI [of _ "us @ [x]"])
  next
    case Waiter
    with jo x have w: "waited j" by (auto simp: job_ok_def)
    from ev nq w bus x Waiter obtain us where "list_all (is_update i) us"
      "events_of i s @ x # xs = start_event (ex_snapshot e) # us @ [end_event (ex_snapshot e)]"
      by (auto simp: events_ok_def)
    with w nq bus Waiter show ?thesis by (auto simp: events_ok_def j'_def intro!: exI [of _ us])
  qed
  have e2: "events_ok (has_bus s) i e (Some j') (events_of i s)" if "\<not> has_bus s"
    using ev that by (simp add: events_ok_def)
  have "map_of (snapshots s') i = Some e" "map_of (jobs s') i = Some j'" "has_bus s' = has_bus s"
    "events_of i s' = (if has_bus s then events_of i s @ [x] else events_of i s)"
    unfolding s' by (simp_all add: e j'_def go_map events_of_emit xi)
  then show ?thesis using id_ok_job [OF sn j1 w' e1] id_ok_job [OF sn j1 w' e2] by simp
qed


lemma scan_end_ok:
  assumes j: "map_of (jobs s) i = Some j" and e: "map_of (snapshots s) i = Some e"
    and sn: "snapshot_ok i (ex_snapshot e)" and jo: "job_ok i e j" and wo: "waiter_ok i e j"
    and ev: "events_ok (has_bus s) i e (Some j) (events_of i s)"
    and op: "open_pipe j ch" "outbox j (Scanner ch) = []"
    and s': "s' = set_job i (j\<lparr>open_pipe := (open_pipe j)(ch := False)\<rparr>) s"
  shows "id_ok (has_bus s') i (map_of (snapshots s') i) (map_of (jobs s') i) (events_of i s')"
proof -
  let ?j = "j\<lparr>open_pipe := (open_pipe j)(ch := False)\<rparr>"
  have j1: "job_ok i e ?j" using jo op by (auto simp: job_ok_def)
  have w1: "waiter_ok i e ?j" using wo by (simp add: waiter_ok_def)
  have e1: "events_ok (has_bus s) i e (Some ?j) (events_of i s)" using ev by (auto simp: events_ok_def)
  show ?thesis using id_ok_job [OF sn j1 w1 e1] by (simp add: s' e go_map)
qed

lemma own_step:
  assumes inv: "exec_inv s" and en: "enabled s ev" and s': "s' = perform s ev"
  shows "id_ok (has_bus s') (ev_id ev) (map_of (snapshots s') (ev_id ev))
           (map_of (jobs s') (ev_id ev)) (events_of (ev_id ev) s')"
proof (cases "\<exists>q i cid label cmd args t fail. ev = Start q i cid label cmd args t fail")
  case True
  then obtain q i cid label cmd args t fail where ev: "ev = Start q i cid label cmd args t fail"
    by blast
  with en have none: "map_of (snapshots s) i = None" "map_of (jobs s) i = None"
    by (auto simp: enabled_def)
  then have "events_of i s = []" using exec_inv_idD [OF inv, of i] by (simp add: id_ok_def)
  with none show ?thesis using start_ok [of s i s'] s' by (simp add: ev ev_id_def)
next
  case False
  then obtain j where j: "map_of (jobs s) (ev_id ev) = Some j" using en by (auto elim: enabled_jobE)
  obtain e where e: "map_of (snapshots s) (ev_id ev) = Some e" "snapshot_ok (ev_id ev) (ex_snapshot e)"
    "job_ok (ev_id ev) e j" "waiter_ok (ev_id ev) e j"
    "events_ok (has_bus s) (ev_id ev) e (Some j) (events_of (ev_id ev) s)"
    using exec_inv_jobD [OF inv j] .
  show ?thesis
  proof (cases ev)
    case (Start q i cid label cmd args t fail)
    with False show ?thesis by blast
  next
    case (ScanLine i ch tx t)
    have "open_pipe j ch" "outbox j (Scanner ch) = []"
      using en j by (simp_all add: ScanLine enabled_def ev_id_def)
    moreover have "s' = scan_line (ev_id ev) ch tx t j s"
      using s' j by (simp add: ScanLine ev_id_def)
    ultimately show ?thesis by (rule line_ok [OF j e])
  next
    case (ScanEnd i ch)
    have "open_pipe j ch" "outbox j (Scanner ch) = []"
      using en j by (simp_all add: ScanEnd enabled_def ev_id_def)
    moreover have "s' = set_job (ev_id ev) (j\<lparr>open_pipe := (open_pipe j)(ch := False)\<rparr>) s"
      using s' j by (simp add: ScanEnd ev_id_def)
    ultimately show ?thesis by (rule scan_end_ok [OF j e])
  next
    case (WaitDone i w t)
    have "\<not> open_pipe j Stdout" "\<not> open_pipe j Stderr" "\<not> waited j"
      using en j by (simp_all add: WaitDone enabled_def ev_id_def)
    moreover have "s' = wait_finish (ev_id ev) w t j s"
      using s' j by (simp add: WaitDone ev_id_def)
    ultimately show ?thesis by (rule wait_ok [OF j e])
  next
    case (Emit i g)
    obtain x xs where x: "outbox j g = x # xs"
      using en j by (cases "outbox j g") (simp_all add: Emit enabled_def ev_id_def)
    moreover have "s' = emitCommandEvent x (set_job (ev_id ev) (j\<lparr>outbox := (outbox j)(g := xs)\<rparr>) s)"
      using s' j x by (simp add: Emit ev_id_def)
    ultimately show ?thesis by (rule emit_ok [OF j e])
  qed
qed

lemma exec_inv_step: "exec_inv s \<Longrightarrow> exec_inv (exec_step s ev)"
proof -
  assume inv: "exec_inv s"
  have "id_ok (has_bus (exec_step s ev)) i (map_of (snapshots (exec_step s ev)) i)
          (map_of (jobs (exec_step s ev)) i) (events_of i (exec_step s ev))" for i
  proof (cases "i = ev_id ev \<and> enabled s ev")
    case True
    then show ?thesis using own_step [OF inv, of ev "exec_step s ev"]
      by (simp add: exec_step_def)
  next
    case False
    then have "exec_step s ev = s \<or> i \<noteq> ev_id ev" by (auto simp: exec_step_def)
    then show ?thesis using frame_step [OF inv, of i ev] exec_inv_idD [OF inv, of i] by auto
  qed
  then show ?thesis using inv distinct_step [of s ev] by (simp add: exec_inv_def)
qed

lemma exec_inv_new: "exec_inv (new_executor b)"
  by (simp add: exec_inv_def new_executor_def id_ok_def events_of_def)

section \<open>Finished executions\<close>

text \<open>What a later state of the table may differ in.\<close>

definition later_snapshot :: "execution \<Rightarrow> execution \<Rightarrow> bool" where
  "later_snapshot e f \<longleftrightarrow>
     ex_quiet f = ex_quiet e \<and> sn_command (ex_snapshot f) = sn_command (ex_snapshot e) \<and>
     sn_args (ex_snapshot f) = sn_args (ex_snapshot e) \<and>
     sn_started (ex_snapshot f) = sn_started (ex_snapshot e) \<and>
     (\<not> sn_running (ex_snapshot e) \<longrightarrow> f = e)"

definition later_executor :: "executor \<Rightarrow> executor \<Rightarrow> bool" where
  "later_executor s t \<longleftrightarrow>
     (\<forall>i e. map_of (snapshots s) i = Some e \<longrightarrow>
        (\<exists>f. map_of (snapshots t) i = Some f \<and> later_snapshot e f)) \<and>
     (\<exists>es. emitted t = emitted s @ es)"

lemma later_snapshot_refl [simp]: "later_snapshot e e"
  by (simp add: later_snapshot_def)

lemma later_snapshot_trans: "later_snapshot e f \<Longrightarrow> later_snapshot f g \<Longrightarrow> later_snapshot e g"
  by (auto simp: later_snapshot_def)

lemma later_executor_trans:
  assumes "later_executor s t" and "later_executor t u"
  shows "later_executor s u"
  unfolding later_executor_def
proof (intro conjI allI impI)
  fix i e
  assume "map_of (snapshots s) i = Some e"
  then obtain f where f: "map_of (snapshots t) i = Some f" "later_snapshot e f"
    using assms(1) unfolding later_executor_def by blast
  obtain g where "map_of (snapshots u) i = Some g" "later_snapshot f g"
    using assms(2) f(1) unfolding later_executor_def by blast
  with later_snapshot_trans [OF f(2)] show "\<exists>f. map_of (snapshots u) i = Some f \<and> later_snapshot e f"
    by blast
next
  show "\<exists>es. emitted u = emitted s @ es"
    using assms unfolding later_executor_def by (metis append_assoc)
qed

lemma emitted_terminate:
  "\<exists>es. emitted (terminateWithError i cid c m t s) = emitted s @ es"
  by (cases "map_of (snapshots s) i") (simp_all add: terminateWithError_def Let_def)

lemma emitted_start:
  "\<exists>es. emitted (startWithInput q i cid label cmd args t fail s) = emitted s @ es"
proof (cases fail rule: option_pair_cases)
  case 1
  then show ?thesis by (simp add: startWithInput_def Let_def)
next
  case (2 m u)
  then obtain s2 where "startWithInput q i cid label cmd args t fail s = terminateWithError i cid (-1) m u s2"
    and s2: "\<exists>es. emitted s2 = emitted s @ es"
    by (simp add: startWithInput_def Let_def)
  then show ?thesis using emitted_terminate [of i cid "-1" m u s2] by (metis append_assoc)
qed

lemma emitted_scan: "emitted (scan_line i ch tx t j s) = emitted s"
  by (cases "map_of (snapshots s) i") (simp_all add: scan_line_def Let_def)

lemma emitted_wait: "emitted (wait_finish i w t j s) = emitted s"
  by (cases "map_of (snapshots s) i") (simp_all add: wait_finish_def Let_def)

lemmas emitted_ops = emitted_terminate emitted_start emitted_scan emitted_wait

lemma emitted_step: "\<exists>es. emitted (exec_step s ev) = emitted s @ es"
  by (cases ev) (auto simp: exec_step_def perform_def emitted_ops split: option.split list.split)

lemma own_later:
  assumes inv: "exec_inv s" and en: "enabled s ev" and e: "map_of (snapshots s) (ev_id ev) = Some e"
  shows "\<exists>f. map_of (snapshots (perform s ev)) (ev_id ev) = Some f \<and> later_snapshot e f"
proof (cases ev)
  case (Start q i cid label cmd args t fail)
  then show ?thesis using en e by (simp add: enabled_def ev_id_def)
next
  case (ScanLine i ch tx t)
  then obtain j where j: "map_of (jobs s) i = Some j" "open_pipe j ch"
    using en by (auto simp: enabled_def ev_id_def split: option.splits)
  obtain e' where "map_of (snapshots s) i = Some e'" "job_ok i e' j"
    using exec_inv_jobD [OF inv j(1)] by metis
  then have "sn_running (ex_snapshot e)" using e j by (auto simp: ScanLine ev_id_def job_ok_def)
  then show ?thesis using e j by (simp add: ScanLine ev_id_def scan_line_def Let_def go_map later_snapshot_def)
next
  case (ScanEnd i ch)
  then obtain j where "map_of (jobs s) i = Some j"
    using en by (auto simp: enabled_def ev_id_def split: option.splits)
  then show ?thesis using e by (simp add: ScanEnd ev_id_def)
next
  case (WaitDone i w t)
  then obtain j where j: "map_of (jobs s) i = Some j" "\<not> waited j"
    using en by (auto simp: enabled_def ev_id_def split: option.splits)
  obtain e' where "map_of (snapshots s) i = Some e'" "job_ok i e' j"
    using exec_inv_jobD [OF inv j(1)] by metis
  then have "sn_running (ex_snapshot e)" using e j by (auto simp: WaitDone ev_id_def job_ok_def)
  then show ?thesis using e j
    by (simp add: WaitDone ev_id_def wait_finish_def Let_def go_map later_snapshot_def)
next
  case (Emit i g)
  then obtain j where "map_of (jobs s) i = Some j" "outbox j g \<noteq> []"
    using en by (auto simp: enabled_def ev_id_def split: option.splits)
  then show ?thesis using e by (cases "outbox j g") (simp_all add: Emit ev_id_def)
qed

lemma later_executor_step: "exec_inv s \<Longrightarrow> later_executor s (exec_step s ev)"
proof -
  assume inv: "exec_inv s"
  have "\<exists>f. map_of (snapshots (exec_step s ev)) i = Some f \<and> later_snapshot e f"
    if e: "map_of (snapshots s) i = Some e" for i e
  proof (cases "i = ev_id ev \<and> enabled s ev")
    case True
    then show ?thesis using own_later [OF inv, of ev e] e by (simp add: exec_step_def)
  next
    case False
    then have "exec_step s ev = s \<or> i \<noteq> ev_id ev" by (auto simp: exec_step_def)
    then show ?thesis using frame_step [OF inv, of i ev] e by auto
  qed
  then show ?thesis using emitted_step [of s ev] by (simp add: later_executor_def)
qed

interpretation executor: monotone_steps exec_step "\<lambda>_. True" exec_inv later_executor
proof unfold_locales
  show "exec_inv s \<Longrightarrow> exec_inv (exec_step s e)" for s e by (rule exec_inv_step)
  show "later_executor s s" for s by (auto simp: later_executor_def)
  show "later_executor s t \<Longrightarrow> later_executor t u \<Longrightarrow> later_executor s u" for s t u
    by (rule later_executor_trans)
  show "exec_inv s \<Longrightarrow> later_executor s (exec_step s e)" for s e by (rule later_executor_step)
qed

lemma list_all_True [simp]: "list_all (\<lambda>_. True) xs"
  by (induction xs) simp_all

lemmas exec_inv_run = executor.inv_run [OF _ list_all_True]
lemmas exec_later_run = executor.later_run [OF _ list_all_True]

end
