(* ===== verification/Command_Progress.thy ===== *)
theory Command_Progress
  imports Command_Exec_Laws
begin

text \<open>
  The command executor and the progress reader together: what the notifications, the stored
  output and the progress channels of one command are, for every interleaving.
\<close>

section \<open>Stored lines\<close>

fun accepted :: "string \<Rightarrow> executor \<Rightarrow> exec_event list \<Rightarrow> output_line list" where
  "accepted i s [] = []"
| "accepted i s (ev # evs) =
     (case ev of
        ScanLine k ch tx t \<Rightarrow>
          if k = i \<and> enabled s ev then [\<lparr>ln_channel = ch, ln_text = tx, ln_time = t\<rparr>] else []
      | _ \<Rightarrow> []) @ accepted i (exec_step s ev) evs"

lemma trim_trim: "trim_lines (trim_lines xs @ ys) = trim_lines (xs @ ys)"
  by (simp add: trim_lines_def add.commute)

lemma trim_id: "length xs \<le> bufferSize \<Longrightarrow> trim_lines xs = xs"
  by (simp add: trim_lines_def)

lemma stored_step:
  assumes inv: "exec_inv s" and e: "map_of (snapshots s) i = Some e"
  shows "\<exists>f. map_of (snapshots (exec_step s ev)) i = Some f \<and>
    sn_lines (ex_snapshot f) = trim_lines (sn_lines (ex_snapshot e) @ accepted i s [ev])"
proof -
  have len: "trim_lines (sn_lines (ex_snapshot e)) = sn_lines (ex_snapshot e)"
    using exec_inv_idD [OF inv, of i] e by (simp add: id_ok_def snapshot_ok_def trim_id)
  show ?thesis
  proof (cases "i = ev_id ev \<and> enabled s ev")
    case False
    then have "accepted i s [ev] = []" by (cases ev) (auto simp: ev_id_def)
    moreover have "exec_step s ev = s \<or> i \<noteq> ev_id ev" using False by (auto simp: exec_step_def)
    ultimately show ?thesis using frame_step [OF inv, of i ev] e len by auto
  next
    case True
    then have en: "enabled s ev" and i: "ev_id ev = i" by simp_all
    show ?thesis
    proof (cases ev)
      case (Start q k cid label cmd args t fail)
      then show ?thesis using en e i by (simp add: enabled_def ev_id_def)
    next
      case (ScanLine k ch tx t)
      then obtain j where "map_of (jobs s) i = Some j"
        using en i by (auto simp: ev_id_def elim: enabled_jobE)
      then show ?thesis using en e i ScanLine
        by (simp add: exec_step_def ev_id_def scan_line_def Let_def go_map)
    next
      case (ScanEnd k ch)
      then obtain j where "map_of (jobs s) i = Some j"
        using en i by (auto simp: ev_id_def elim: enabled_jobE)
      then show ?thesis using en e i ScanEnd len by (simp add: exec_step_def ev_id_def)
    next
      case (WaitDone k w t)
      then obtain j where "map_of (jobs s) i = Some j"
        using en i by (auto simp: ev_id_def elim: enabled_jobE)
      then show ?thesis using en e i WaitDone len
        by (simp add: exec_step_def ev_id_def wait_finish_def Let_def go_map)
    next
      case (Emit k g)
      then obtain j where j: "map_of (jobs s) i = Some j"
        using en i by (auto simp: ev_id_def elim: enabled_jobE)
      then obtain x xs where "outbox j g = x # xs"
        using en i Emit by (cases "outbox j g") (auto simp: enabled_def ev_id_def)
      then show ?thesis using en e i j Emit len by (simp add: exec_step_def ev_id_def)
    qed
  qed
qed

lemma accepted_append:
  "accepted i s (xs @ ys) = accepted i s xs @ accepted i (foldl exec_step s xs) ys"
  by (induction xs arbitrary: s) auto

lemma stored_run:
  assumes inv: "exec_inv s" and e: "map_of (snapshots s) i = Some e"
  shows "\<exists>f. map_of (snapshots (foldl exec_step s es)) i = Some f \<and>
    sn_lines (ex_snapshot f) = trim_lines (sn_lines (ex_snapshot e) @ accepted i s es)"
proof (induction es rule: rev_induct)
  case Nil
  have "length (sn_lines (ex_snapshot e)) \<le> bufferSize"
    using exec_inv_idD [OF inv, of i] e by (simp add: id_ok_def snapshot_ok_def)
  then show ?case using e by (simp add: trim_id)
next
  case (snoc ev es)
  then obtain f where f: "map_of (snapshots (foldl exec_step s es)) i = Some f"
    "sn_lines (ex_snapshot f) = trim_lines (sn_lines (ex_snapshot e) @ accepted i s es)" by blast
  obtain g where "map_of (snapshots (exec_step (foldl exec_step s es) ev)) i = Some g"
    "sn_lines (ex_snapshot g) =
       trim_lines (sn_lines (ex_snapshot f) @ accepted i (foldl exec_step s es) [ev])"
    using stored_step [OF exec_inv_run [OF inv] f(1)] by blast
  then show ?case unfolding foldl_append accepted_append f(2) trim_trim by simp
qed

lemma started_snapshot:
  "map_of (snapshots (startWithInput q i cid label cmd args t None s)) i =
     Some \<lparr>ex_snapshot = \<lparr>sn_id = i, sn_command_id = cid, sn_label = label, sn_command = cmd,
       sn_args = args, sn_started = t, sn_finished = 0, sn_running = True, sn_exit = 0,
       sn_success = False, sn_error = [], sn_lines = []\<rparr>, ex_quiet = q\<rparr>"
  by (cases q) (simp_all add: startWithInput_def Let_def go_map)

section \<open>The executor's promises\<close>

lemma run_inv: "exec_inv (foldl exec_step (new_executor b) es)"
  by (rule exec_inv_run [OF exec_inv_new])

definition nothing_to_emit :: "string \<Rightarrow> executor \<Rightarrow> bool" where
  "nothing_to_emit i s = (\<forall>j. map_of (jobs s) i = Some j \<longrightarrow> (\<forall>g. outbox j g = []))"

lemma has_bus_run: "has_bus (foldl exec_step s es) = has_bus s"
  by (induction es rule: rev_induct) simp_all

lemma protocol_of_inv:
  assumes inv: "exec_inv s" and bus: "has_bus s" and e: "map_of (snapshots s) i = Some e"
    and nq: "\<not> ex_quiet e" and sn_def: "sn = ex_snapshot e"
  shows "\<exists>us. list_all (is_update i) us \<and>
     (events_of i s = start_event sn # us \<or>
      (\<not> sn_running sn \<and> events_of i s = start_event sn # us @ [end_event sn])) \<and>
     (\<not> sn_running sn \<and> nothing_to_emit i s \<longrightarrow>
        events_of i s = start_event sn # us @ [end_event sn])"
proof -
  have ok: "id_ok True i (Some e) (map_of (jobs s) i) (events_of i s)"
    using exec_inv_idD [OF inv, of i] e bus by simp
  show ?thesis
  proof (cases "map_of (jobs s) i")
    case None
    then have "\<not> sn_running sn" "events_of i s = start_event sn # [] @ [end_event sn]"
      using ok nq by (simp_all add: id_ok_def events_ok_def sn_def)
    then show ?thesis by (intro exI [of _ "[]"]) simp
  next
    case (Some j)
    then have jo: "job_ok i e j" and wo: "waiter_ok i e j"
      and ev: "events_ok True i e (Some j) (events_of i s)"
      using ok by (simp_all add: id_ok_def)
    show ?thesis
    proof (cases "waited j")
      case False
      then show ?thesis using ev nq jo Some
        by (auto simp: events_ok_def job_ok_def sn_def)
    next
      case True
      then obtain us where us: "list_all (is_update i) us"
        "events_of i s @ outbox j Waiter = start_event sn # us @ [end_event sn]"
        using ev nq by (auto simp: events_ok_def sn_def)
      have run: "\<not> sn_running sn" using jo True by (simp add: job_ok_def sn_def)
      consider "outbox j Waiter = []" | "outbox j Waiter = [end_event sn]"
        | u where "is_update i u" "outbox j Waiter = [u, end_event sn]"
        using wo by (auto simp: waiter_ok_def sn_def)
      then show ?thesis
      proof cases
        case 1
        then show ?thesis using us run by (intro exI [of _ us]) simp
      next
        case 2
        then have "events_of i s = start_event sn # us" using us(2)
          by (metis append_Cons append_same_eq)
        then show ?thesis using us run 2 Some by (intro exI [of _ us]) (fastforce simp: nothing_to_emit_def)
      next
        case 3
        then have eq: "(events_of i s @ [u]) @ [end_event sn] = (start_event sn # us) @ [end_event sn]"
          using us(2) by simp
        then have eq': "events_of i s @ [u] = start_event sn # us" by (metis append_same_eq)
        show ?thesis
        proof (cases us rule: rev_cases)
          case Nil
          then have "u = start_event sn" using eq' by (cases "events_of i s") auto
          then show ?thesis using 3(1) by (simp add: is_update_def start_event_def)
        next
          case (snoc vs v)
          then have "events_of i s = start_event sn # vs" using eq' by simp
          moreover have "list_all (is_update i) vs" using us(1) snoc by simp
          ultimately show ?thesis using run 3 Some by (intro exI [of _ vs]) (fastforce simp: nothing_to_emit_def)
        qed
      qed
    qed
  qed
qed

text \<open>A run of one command that prints a line on each pipe and ends well.\<close>

definition demo_start :: exec_event where
  "demo_start = Start False ''x'' ''filesystem:fsck'' ''fsck'' ''fsck.ext4'' [''/dev/sda1''] 1 None"

definition demo_events :: "exec_event list" where
  "demo_events =
     [ScanLine ''x'' Stdout ''clean'' 2, ScanLine ''x'' Stderr ''e2fsck'' 3, Emit ''x'' (Scanner Stderr),
      Emit ''x'' (Scanner Stdout), ScanEnd ''x'' Stdout, ScanEnd ''x'' Stderr, WaitDone ''x'' None 4,
      Emit ''x'' Waiter, Emit ''x'' Waiter]"

lemma demo_run:
  "map_option (\<lambda>e. (ex_quiet e, sn_running (ex_snapshot e)))
     (map_of (snapshots (foldl exec_step (new_executor True) (demo_start # demo_events))) ''x'') =
   Some (False, False)"
  by code_simp

lemma demo_enabled: "enabled (foldl exec_step (new_executor b) []) demo_start"
  by (simp add: demo_start_def enabled_def new_executor_def)

text \<open>C37: For every schedule, the notifications of a command that is not quiet are its START
  notification, then only UPDATE notifications, and at most one final STOP or ERROR, which comes
  last, only after the command has ended, with the exit code, error and success flag of the
  stored snapshot (STOP exactly on success). Once the command has ended and no goroutine has
  anything left to emit, the final notification has been emitted.\<close>

theorem executor_event_protocol:
  assumes "map_of (snapshots (foldl exec_step (new_executor True) es)) i = Some e"
    and "\<not> ex_quiet e"
  shows "\<exists>us. list_all (is_update i) us \<and>
     (let s = foldl exec_step (new_executor True) es; sn = ex_snapshot e in
      (events_of i s = start_event sn # us \<or>
       (\<not> sn_running sn \<and> events_of i s = start_event sn # us @ [end_event sn])) \<and>
      (\<not> sn_running sn \<and> nothing_to_emit i s \<longrightarrow>
         events_of i s = start_event sn # us @ [end_event sn]))"
proof -
  define s where "s = foldl exec_step (new_executor True) es"
  define sn where "sn = ex_snapshot e"
  have goal: "\<exists>us. list_all (is_update i) us \<and>
     (events_of i s = start_event sn # us \<or>
      (\<not> sn_running sn \<and> events_of i s = start_event sn # us @ [end_event sn])) \<and>
     (\<not> sn_running sn \<and> nothing_to_emit i s \<longrightarrow>
        events_of i s = start_event sn # us @ [end_event sn])"
    by (rule protocol_of_inv) (use run_inv [of True es] assms in \<open>simp_all add: s_def sn_def has_bus_run new_executor_def\<close>)
  then show ?thesis by (simp add: s_def sn_def Let_def)
qed

lemma executor_event_protocol_witness:
  "\<exists>e. map_of (snapshots (foldl exec_step (new_executor True) (demo_start # demo_events))) ''x'' = Some e \<and>
     (\<exists>us. list_all (is_update ''x'') us \<and>
        (let s = foldl exec_step (new_executor True) (demo_start # demo_events) in
         events_of ''x'' s = start_event (ex_snapshot e) # us \<or>
         events_of ''x'' s = start_event (ex_snapshot e) # us @ [end_event (ex_snapshot e)]))"
proof -
  obtain e where e: "map_of (snapshots (foldl exec_step (new_executor True) (demo_start # demo_events))) ''x'' = Some e"
    and q: "\<not> ex_quiet e" using demo_run by auto
  show ?thesis using executor_event_protocol [OF e q] e unfolding Let_def by blast
qed

text \<open>An execution is never forgotten and never restarted, and its command, arguments and
  start time never change; once it is finished, no later step of any goroutine, on this or any
  other command, changes its snapshot.\<close>

theorem executor_finished_stable:
  assumes "map_of (snapshots (foldl exec_step (new_executor b) es)) i = Some e"
  shows "\<exists>f. map_of (snapshots (foldl exec_step (new_executor b) (es @ es'))) i = Some f \<and>
     later_snapshot e f"
  using exec_later_run [OF run_inv [of b es], of es'] assms by (auto simp: later_executor_def)

lemma executor_finished_stable_witness:
  "\<exists>e f. map_of (snapshots (foldl exec_step (new_executor True) (demo_start # demo_events))) ''x'' = Some e \<and>
     map_of (snapshots (foldl exec_step (new_executor True)
        ((demo_start # demo_events) @ [ScanLine ''x'' Stdout ''late'' 9]))) ''x'' = Some f \<and>
     later_snapshot e f"
proof -
  obtain e where e: "map_of (snapshots (foldl exec_step (new_executor True) (demo_start # demo_events))) ''x'' = Some e"
    using demo_run by auto
  show ?thesis using executor_finished_stable [OF e, of "[ScanLine ''x'' Stdout ''late'' 9]"] e by blast
qed

text \<open>The table keeps exactly the last 500 lines that the scanners of a command read, in the
  order they were stored, whatever else runs.\<close>

theorem executor_keeps_last_lines:
  assumes "enabled (foldl exec_step (new_executor b) es) (Start q i cid label cmd args t None)"
  shows "\<exists>sn. let s = exec_step (foldl exec_step (new_executor b) es)
                     (Start q i cid label cmd args t None) in
     GetSnapshot i (foldl exec_step s es') = Some sn \<and>
     sn_lines sn = drop (length (accepted i s es') - 500) (accepted i s es')"
proof -
  define s where "s = exec_step (foldl exec_step (new_executor b) es)
    (Start q i cid label cmd args t None)"
  define s0 where "s0 = foldl exec_step (new_executor b) es"
  have inv: "exec_inv s" unfolding s_def by (rule exec_inv_step [OF run_inv])
  have "map_of (snapshots s) i = map_of (snapshots
      (startWithInput q i cid label cmd args t None s0)) i"
    using assms(1) by (simp add: s_def s0_def [symmetric] exec_step_def)
  then obtain e where e: "map_of (snapshots s) i = Some e" "sn_lines (ex_snapshot e) = []"
    by (simp add: started_snapshot)
  obtain f where "map_of (snapshots (foldl exec_step s es')) i = Some f"
    "sn_lines (ex_snapshot f) = trim_lines (accepted i s es')"
    using stored_run [OF inv e(1), of es'] e(2) by auto
  then have "GetSnapshot i (foldl exec_step s es') = Some (ex_snapshot f) \<and>
     sn_lines (ex_snapshot f) = drop (length (accepted i s es') - 500) (accepted i s es')"
    by (simp add: GetSnapshot_def trim_lines_def bufferSize_def)
  then show ?thesis unfolding Let_def s_def [symmetric] by blast
qed

lemma executor_keeps_last_lines_witness:
  "\<exists>sn. let s = exec_step (foldl exec_step (new_executor True) []) demo_start in
     GetSnapshot ''x'' (foldl exec_step s demo_events) = Some sn \<and>
     sn_lines sn = drop (length (accepted ''x'' s demo_events) - 500) (accepted ''x'' s demo_events)"
  unfolding demo_start_def
  by (rule executor_keeps_last_lines) (use demo_enabled in \<open>simp add: demo_start_def\<close>)

section \<open>The progress channels\<close>

text \<open>
  The executor and one reader of command \<open>i\<close>: a step of the executor, or a round of the reader
  on the executor's current state.
\<close>

datatype sys_event = Ex exec_event | Rd "nat option" | Cn

definition sys_step :: "string \<Rightarrow> executor \<times> reader \<Rightarrow> sys_event \<Rightarrow> executor \<times> reader" where
  "sys_step i p ev =
     (case ev of
        Ex x \<Rightarrow> (exec_step (fst p) x, snd p)
      | Rd k \<Rightarrow> (fst p, reader_round i (snd p) (Tick (fst p) k))
      | Cn \<Rightarrow> (fst p, reader_round i (snd p) Cancel))"

lemma sys_step_simps [simp]:
  "sys_step i p (Ex x) = (exec_step (fst p) x, snd p)"
  "sys_step i p (Rd k) = (fst p, reader_round i (snd p) (Tick (fst p) k))"
  "sys_step i p Cn = (fst p, reader_round i (snd p) Cancel)"
  by (simp_all add: sys_step_def)

definition ex_events :: "sys_event list \<Rightarrow> exec_event list" where
  "ex_events evs = concat (map (\<lambda>ev. case ev of Ex x \<Rightarrow> [x] | _ \<Rightarrow> []) evs)"

definition texts :: "channel \<Rightarrow> output_line list \<Rightarrow> string list" where
  "texts ch ls = map ln_text (filter (\<lambda>l. ln_channel l = ch) ls)"

lemma texts_append [simp]: "texts ch (xs @ ys) = texts ch xs @ texts ch ys"
  by (simp add: texts_def)

lemma texts_Nil [simp]: "texts ch [] = []"
  by (simp add: texts_def)

lemma send_lines:
  "sent_out (foldl send_line r ls) = sent_out r @ texts Stdout ls \<and>
   sent_err (foldl send_line r ls) = sent_err r @ texts Stderr ls \<and>
   next_line (foldl send_line r ls) = next_line r \<and> result (foldl send_line r ls) = result r"
proof (induction ls arbitrary: r)
  case Nil
  then show ?case by simp
next
  case (Cons l ls)
  then show ?case by (cases "ln_channel l") (simp_all add: send_line_def texts_def)
qed

lemma fst_sys_run: "fst (foldl (sys_step i) p evs) = foldl exec_step (fst p) (ex_events evs)"
  by (induction evs arbitrary: p) (auto simp: sys_step_def ex_events_def split: sys_event.split)

text \<open>
  What the reader has sent, for the lines stored so far: while the table has not dropped any
  line, the first \<open>next_line\<close> of them; after a cancellation possibly a few more.
\<close>

definition reader_ok :: "output_line list \<Rightarrow> bool \<Rightarrow> reader \<Rightarrow> bool" where
  "reader_ok ls running r \<longleftrightarrow>
     (\<exists>n. n \<le> length ls \<and> next_line r \<le> n \<and>
        sent_out r = texts Stdout (take n ls) \<and> sent_err r = texts Stderr (take n ls) \<and>
        (case result r of
           None \<Rightarrow> n = next_line r
         | Some res \<Rightarrow> res = cancelled_result \<or> (\<not> running \<and> n = length ls)))"

lemma reader_ok_more:
  assumes ok: "reader_ok ls running r" and run: "running' \<or> ls' = []" "running' \<longrightarrow> running"
    and fin: "\<not> running \<longrightarrow> ls' = [] \<and> \<not> running'"
  shows "reader_ok (ls @ ls') running' r"
proof -
  obtain n where n: "n \<le> length ls" "next_line r \<le> n" "sent_out r = texts Stdout (take n ls)"
    "sent_err r = texts Stderr (take n ls)"
    "case result r of None \<Rightarrow> n = next_line r
     | Some res \<Rightarrow> res = cancelled_result \<or> (\<not> running \<and> n = length ls)"
    using ok by (auto simp: reader_ok_def)
  then show ?thesis using fin by (auto simp: reader_ok_def split: option.splits intro!: exI [of _ n])
qed

lemma reader_ok_round:
  assumes ok: "reader_ok ls running r" and sn: "GetSnapshot i s = Some sn"
    and ls: "sn_lines sn = ls" and run: "sn_running sn = running"
  shows "reader_ok ls running (reader_round i r (Tick s k))"
proof (cases "result r")
  case (Some res)
  then show ?thesis using ok by (simp add: reader_round_def)
next
  case None
  define n where "n = next_line r"
  have n: "n \<le> length ls" "sent_out r = texts Stdout (take n ls)" "sent_err r = texts Stderr (take n ls)"
    using ok None by (auto simp: reader_ok_def n_def)
  define sent where "sent = (case k of None \<Rightarrow> length (drop n ls) | Some m \<Rightarrow> m)"
  define r1 where "r1 = foldl send_line r (take sent (drop n ls))"
  have r1: "sent_out r1 = texts Stdout (take (n + sent) ls)"
    "sent_err r1 = texts Stderr (take (n + sent) ls)" "next_line r1 = n" "result r1 = None"
    using send_lines [of r "take sent (drop n ls)"] n None
    by (simp_all add: r1_def n_def take_add)
  have rr: "reader_round i r (Tick s k) =
      (if sent < length (drop n ls) then r1\<lparr>result := Some cancelled_result\<rparr>
       else if running then r1\<lparr>next_line := length ls\<rparr>
       else r1\<lparr>next_line := length ls,
               result := Some (final_result sn (r1\<lparr>next_line := length ls\<rparr>))\<rparr>)"
    using sn ls run None n(1)
    by (simp add: reader_round_def Let_def n_def [symmetric] sent_def r1_def min_absorb1)
  show ?thesis
  proof (cases "sent < length (drop n ls)")
    case True
    then show ?thesis unfolding rr reader_ok_def using r1 n(1)
      by (intro exI [of _ "n + sent"]) auto
  next
    case False
    then have "take (n + sent) ls = take (length ls) ls" using n(1) by simp
    then show ?thesis unfolding rr reader_ok_def using r1 False
      by (intro exI [of _ "length ls"]) auto
  qed
qed

lemma reader_ok_cancel:
  "reader_ok ls running r \<Longrightarrow> reader_ok ls running (reader_round i r Cancel)"
  by (cases "result r") (auto simp: reader_round_def reader_ok_def)

lemma scan_snapshot:
  "map_of (snapshots s) i = Some e \<Longrightarrow> \<exists>f. map_of (snapshots (scan_line i ch tx t j s)) i = Some f \<and>
     sn_running (ex_snapshot f) = sn_running (ex_snapshot e)"
  by (cases "ex_quiet e") (simp_all add: scan_line_def Let_def go_map)

lemma accepted_running:
  assumes inv: "exec_inv s" and e: "map_of (snapshots s) i = Some e" and a: "accepted i s [ev] \<noteq> []"
  shows "sn_running (ex_snapshot e)"
    and "\<And>f. map_of (snapshots (exec_step s ev)) i = Some f \<Longrightarrow> sn_running (ex_snapshot f)"
proof -
  obtain ch tx t where ev: "ev = ScanLine i ch tx t" and en: "enabled s ev"
    using a by (cases ev) (auto split: if_splits)
  then obtain j where j: "map_of (jobs s) i = Some j" "open_pipe j ch"
    by (auto simp: enabled_def ev_id_def split: option.splits)
  obtain e' where "map_of (snapshots s) i = Some e'" "job_ok i e' j"
    using exec_inv_jobD [OF inv j(1)] by metis
  then show run: "sn_running (ex_snapshot e)" using e j by (auto simp: job_ok_def)
  show "sn_running (ex_snapshot f)" if "map_of (snapshots (exec_step s ev)) i = Some f" for f
    using that run j(1) en scan_snapshot [OF e, of ch tx t j] by (auto simp: ev exec_step_def)
qed

lemma later_executorD:
  "later_executor s t \<Longrightarrow> map_of (snapshots s) i = Some e \<Longrightarrow> map_of (snapshots t) i = Some f \<Longrightarrow>
   later_snapshot e f"
  unfolding later_executor_def by (metis option.inject)

lemma reader_sys:
  assumes inv: "exec_inv s" and e: "map_of (snapshots s) i = Some e" "sn_lines (ex_snapshot e) = []"
    and len: "length (accepted i s (ex_events evs)) \<le> bufferSize"
  shows "\<exists>f. map_of (snapshots (fst (foldl (sys_step i) (s, new_reader) evs))) i = Some f \<and>
     sn_lines (ex_snapshot f) = accepted i s (ex_events evs) \<and>
     reader_ok (accepted i s (ex_events evs)) (sn_running (ex_snapshot f))
       (snd (foldl (sys_step i) (s, new_reader) evs))"
  using len
proof (induction evs rule: rev_induct)
  case Nil
  then show ?case using e by (auto simp: ex_events_def reader_ok_def new_reader_def)
next
  case (snoc ev evs)
  let ?p = "foldl (sys_step i) (s, new_reader) evs"
  let ?ls = "accepted i s (ex_events evs)"
  have exs: "ex_events (evs @ [ev]) = ex_events evs @ ex_events [ev]" by (simp add: ex_events_def)
  have inv': "exec_inv (fst ?p)" unfolding fst_sys_run by (rule exec_inv_run) (use inv in simp)
  have split: "accepted i s (ex_events (evs @ [ev])) = ?ls @ accepted i (fst ?p) (ex_events [ev])"
    unfolding exs accepted_append fst_sys_run by simp
  obtain f where f: "map_of (snapshots (fst ?p)) i = Some f" "sn_lines (ex_snapshot f) = ?ls"
    "reader_ok ?ls (sn_running (ex_snapshot f)) (snd ?p)"
    using snoc.IH snoc.prems unfolding split by fastforce
  then have sn: "GetSnapshot i (fst ?p) = Some (ex_snapshot f)" by (simp add: GetSnapshot_def)
  show ?case
  proof (cases ev)
    case (Rd k)
    have "accepted i s (ex_events (evs @ [ev])) = ?ls" unfolding split by (simp add: Rd ex_events_def)
    then show ?thesis using f reader_ok_round [OF f(3) sn f(2) refl, of k]
      by (simp add: Rd)
  next
    case Cn
    have "accepted i s (ex_events (evs @ [ev])) = ?ls" unfolding split by (simp add: Cn ex_events_def)
    then show ?thesis using f reader_ok_cancel [OF f(3), of i] by (simp add: Cn)
  next
    case (Ex x)
    let ?new = "accepted i (fst ?p) [x]"
    have acc: "accepted i s (ex_events (evs @ [ev])) = ?ls @ ?new"
      unfolding split by (simp add: Ex ex_events_def)
    obtain g where g: "map_of (snapshots (exec_step (fst ?p) x)) i = Some g"
      "sn_lines (ex_snapshot g) = trim_lines (?ls @ ?new)"
      using stored_step [OF inv' f(1), of x] f(2) by auto
    have lines: "sn_lines (ex_snapshot g) = ?ls @ ?new"
      using g(2) snoc.prems unfolding acc by (simp add: trim_id)
    have "later_snapshot f g" by (rule later_executorD [OF later_executor_step [OF inv'] f(1) g(1)])
    then have same: "\<not> sn_running (ex_snapshot f) \<Longrightarrow> g = f" by (simp add: later_snapshot_def)
    have new: "sn_running (ex_snapshot g) \<or> ?new = []"
      using accepted_running(2) [OF inv' f(1) _ g(1)] by blast
    have fin: "\<not> sn_running (ex_snapshot f) \<Longrightarrow> ?new = [] \<and> \<not> sn_running (ex_snapshot g)"
      using same accepted_running(1) [OF inv' f(1)] by blast
    have "reader_ok (?ls @ ?new) (sn_running (ex_snapshot g)) (snd ?p)"
      by (rule reader_ok_more [OF f(3) new]) (use fin in blast)+
    then show ?thesis using g(1) lines unfolding acc by (simp add: Ex)
  qed
qed

lemma executor_start_run:
  assumes "enabled (foldl exec_step (new_executor b) es) (Start q i cid label cmd args t None)"
    and s: "s = exec_step (foldl exec_step (new_executor b) es) (Start q i cid label cmd args t None)"
  shows "exec_inv s \<and> (\<exists>e. map_of (snapshots s) i = Some e \<and> sn_lines (ex_snapshot e) = [])"
proof
  show "exec_inv s" unfolding s by (rule exec_inv_step [OF run_inv])
  show "\<exists>e. map_of (snapshots s) i = Some e \<and> sn_lines (ex_snapshot e) = []"
    using assms(1) by (simp add: s exec_step_def started_snapshot)
qed

text \<open>As long as a command has printed at most 500 lines, its progress reader has sent, on each
  channel, a prefix of the lines of that channel, in order; and when it delivers a result that is
  not the cancellation result, the command has ended and every line was sent before the result.\<close>

theorem progress_delivers_all:
  assumes "enabled (foldl exec_step (new_executor b) es) (Start q i cid label cmd args t None)"
    and "length (accepted i (exec_step (foldl exec_step (new_executor b) es)
                  (Start q i cid label cmd args t None)) (ex_events evs)) \<le> 500"
  shows "\<exists>n. let s = exec_step (foldl exec_step (new_executor b) es) (Start q i cid label cmd args t None);
                 (s', r) = foldl (sys_step i) (s, new_reader) evs;
                 ls = accepted i s (ex_events evs)
     in sent_out r = texts Stdout (take n ls) \<and> sent_err r = texts Stderr (take n ls) \<and>
        (result r = None \<or> result r = Some cancelled_result \<or>
         (n = length ls \<and> (\<exists>sn. GetSnapshot i s' = Some sn \<and> \<not> sn_running sn)))"
proof -
  define s where "s = exec_step (foldl exec_step (new_executor b) es)
    (Start q i cid label cmd args t None)"
  define ls where "ls = accepted i s (ex_events evs)"
  define p where "p = foldl (sys_step i) (s, new_reader) evs"
  obtain e where e: "exec_inv s" "map_of (snapshots s) i = Some e" "sn_lines (ex_snapshot e) = []"
    using executor_start_run [OF assms(1) s_def] by blast
  have "length (accepted i s (ex_events evs)) \<le> bufferSize"
    using assms(2) by (simp add: s_def bufferSize_def)
  from reader_sys [OF e this] obtain f where f: "map_of (snapshots (fst p)) i = Some f"
    "reader_ok ls (sn_running (ex_snapshot f)) (snd p)" by (auto simp: p_def ls_def)
  then obtain n where "sent_out (snd p) = texts Stdout (take n ls)"
    "sent_err (snd p) = texts Stderr (take n ls)"
    "case result (snd p) of None \<Rightarrow> n = next_line (snd p)
     | Some res \<Rightarrow> res = cancelled_result \<or> (\<not> sn_running (ex_snapshot f) \<and> n = length ls)"
    by (auto simp: reader_ok_def)
  then have "sent_out (snd p) = texts Stdout (take n ls) \<and>
    sent_err (snd p) = texts Stderr (take n ls) \<and>
    (result (snd p) = None \<or> result (snd p) = Some cancelled_result \<or>
     (n = length ls \<and> (\<exists>sn. GetSnapshot i (fst p) = Some sn \<and> \<not> sn_running sn)))"
    using f(1) by (auto simp: GetSnapshot_def split: option.splits)
  then show ?thesis
    unfolding Let_def s_def [symmetric] p_def [symmetric] ls_def [symmetric]
    by (intro exI [of _ n]) (simp add: case_prod_beta)
qed

lemma progress_delivers_all_witness:
  "\<exists>n. let s = exec_step (foldl exec_step (new_executor True) []) demo_start;
           (s', r) = foldl (sys_step ''x'') (s, new_reader) (map Ex demo_events @ [Rd None]);
           ls = accepted ''x'' s (ex_events (map Ex demo_events @ [Rd None]))
     in sent_out r = texts Stdout (take n ls) \<and> sent_err r = texts Stderr (take n ls) \<and>
        (result r = None \<or> result r = Some cancelled_result \<or>
         (n = length ls \<and> (\<exists>sn. GetSnapshot ''x'' s' = Some sn \<and> \<not> sn_running sn)))"
proof -
  have "length (accepted ''x'' (exec_step (foldl exec_step (new_executor True) []) demo_start)
      (ex_events (map Ex demo_events @ [Rd None]))) \<le> 500" by code_simp
  then show ?thesis
    unfolding demo_start_def
    by (intro progress_delivers_all) (use demo_enabled in \<open>simp_all add: demo_start_def\<close>)
qed

section \<open>When the buffer is full\<close>

definition stalled :: "string \<Rightarrow> executor \<times> reader \<Rightarrow> bool" where
  "stalled i p \<longleftrightarrow> exec_inv (fst p) \<and> bufferSize \<le> next_line (snd p) \<and>
     (\<exists>e. map_of (snapshots (fst p)) i = Some e \<and> length (sn_lines (ex_snapshot e)) = bufferSize)"

lemma trim_full: "length xs = bufferSize \<Longrightarrow> length (trim_lines (xs @ ys)) = bufferSize"
  by (simp add: trim_lines_def del: drop_append)

lemma stalled_step:
  assumes st: "stalled i p"
  shows "stalled i (sys_step i p ev) \<and> sent_out (snd (sys_step i p ev)) = sent_out (snd p) \<and>
     sent_err (snd (sys_step i p ev)) = sent_err (snd p)"
proof -
  obtain e where e: "exec_inv (fst p)" "bufferSize \<le> next_line (snd p)"
    "map_of (snapshots (fst p)) i = Some e" "length (sn_lines (ex_snapshot e)) = bufferSize"
    using st by (auto simp: stalled_def)
  show ?thesis
  proof (cases ev)
    case (Ex x)
    obtain f where "map_of (snapshots (exec_step (fst p) x)) i = Some f"
      "sn_lines (ex_snapshot f) = trim_lines (sn_lines (ex_snapshot e) @ accepted i (fst p) [x])"
      using stored_step [OF e(1,3)] by blast
    moreover from this e(4) have "length (sn_lines (ex_snapshot f)) = bufferSize"
      by (simp only: trim_full)
    ultimately show ?thesis using e exec_inv_step by (simp add: Ex stalled_def)
  next
    case (Rd k)
    let ?r = "reader_round i (snd p) (Tick (fst p) k)"
    have "bufferSize \<le> next_line ?r \<and> sent_out ?r = sent_out (snd p) \<and> sent_err ?r = sent_err (snd p)"
      using e by (cases "result (snd p)") (simp_all add: reader_round_def GetSnapshot_def Let_def)
    then show ?thesis using e by (auto simp: Rd stalled_def)
  next
    case Cn
    then show ?thesis using e by (simp add: stalled_def reader_round_def)
  qed
qed

text \<open>Once the progress reader has caught up with a full buffer of 500 lines, nothing the
  command prints afterwards is ever sent: the reader indexes a buffer that drops its oldest
  line for each new one.\<close>

theorem progress_stalls_after_full_buffer:
  assumes "exec_inv s" and "map_of (snapshots s) i = Some e"
    and "length (sn_lines (ex_snapshot e)) = 500" and "next_line r = 500"
  shows "let (s', r') = foldl (sys_step i) (s, r) evs in
     sent_out r' = sent_out r \<and> sent_err r' = sent_err r"
proof -
  have "stalled i (s, r)" using assms by (simp add: stalled_def bufferSize_def)
  then have "stalled i (foldl (sys_step i) (s, r) evs) \<and>
      sent_out (snd (foldl (sys_step i) (s, r) evs)) = sent_out r \<and>
      sent_err (snd (foldl (sys_step i) (s, r) evs)) = sent_err r"
    by (induction evs rule: rev_induct) (auto dest: stalled_step)
  then show ?thesis by (simp add: case_prod_beta)
qed

definition full_snapshot :: snapshot where
  "full_snapshot = \<lparr>sn_id = ''x'', sn_command_id = ''c'', sn_label = ''l'', sn_command = ''mkfs.ext4'',
     sn_args = [], sn_started = 1, sn_finished = 9, sn_running = False, sn_exit = -1,
     sn_success = False, sn_error = ''killed'',
     sn_lines = replicate 500 \<lparr>ln_channel = Stdout, ln_text = ''block'', ln_time = 2\<rparr>\<rparr>"

definition full_executor :: executor where
  "full_executor = (new_executor False)\<lparr>snapshots :=
     [(''x'', \<lparr>ex_snapshot = full_snapshot, ex_quiet = True\<rparr>)]\<rparr>"

lemma full_executor_inv: "exec_inv full_executor"
  by (simp add: exec_inv_def full_executor_def full_snapshot_def new_executor_def id_ok_def
      snapshot_ok_def events_ok_def events_of_def bufferSize_def)

lemma progress_stalls_after_full_buffer_witness:
  "let (s', r') = foldl (sys_step ''x'') (full_executor, new_reader\<lparr>next_line := 500\<rparr>) [Rd None]
   in sent_out r' = [] \<and> sent_err r' = []"
  using progress_stalls_after_full_buffer [OF full_executor_inv, of "''x''"
      "\<lparr>ex_snapshot = full_snapshot, ex_quiet = True\<rparr>" "new_reader\<lparr>next_line := 500\<rparr>" "[Rd None]"]
  by (simp add: full_executor_def full_snapshot_def new_reader_def)

end
