(* ===== verification/Fs_Base.thy ===== *)
theory Fs_Base
  imports Command_Exec Srat_Types
begin

text \<open>
  The part all filesystem adapters share: \<open>service/filesystem/base_adapter.go\<close>,
  \<open>detection.go\<close> and the data types of \<open>dto/filesystem.go\<close>. The adapters run commands through
  the shared executor and keep the results of read-only queries in one process-wide cache
  (\<open>github.com/patrickmn/go-cache\<close>, whose \<open>Get\<close>, \<open>Set\<close> and \<open>Flush\<close> are written out from the
  vendored source). The world threads the cache, the clock, the log of executed commands, the
  log of progress reports and the last known states of NTFS devices; what the operating system
  answers is the environment.
\<close>

section \<open>Data\<close>

record magic =
  mg_Offset :: int
  mg_Magic :: string

datatype fs_kind =
    Ext4 | Vfat | Ntfs | Btrfs | Xfs | Exfat | F2fs | Gfs2 | Hfsplus | Reiserfs | Zfs | Apfs

record adapter =
  ad_kind :: fs_kind
  ad_name :: string
  linuxFsModule :: string
  aliasNames :: "string list"
  ad_description :: string
  exportable :: bool
  labelRule :: string
  isFormatReportProgress :: bool
  isCheckReportProgress :: bool
  alpinePackage :: string
  mkfsCommand :: string
  fsckCommand :: string
  labelCommand :: string
  stateCommand :: string
  signatures :: "magic list"

definition newBaseAdapter ::
  "fs_kind \<Rightarrow> string \<Rightarrow> string \<Rightarrow> bool \<Rightarrow> string \<Rightarrow> string \<Rightarrow> string \<Rightarrow> string \<Rightarrow> string \<Rightarrow> string
   \<Rightarrow> magic list \<Rightarrow> string list \<Rightarrow> adapter" where
  "newBaseAdapter kind name desc export alpine mkfs fsck labelc state rule sigs aliases =
     \<lparr>ad_kind = kind, ad_name = name, linuxFsModule = [], aliasNames = aliases,
      ad_description = desc, exportable = export, labelRule = rule,
      isFormatReportProgress = False, isCheckReportProgress = False, alpinePackage = alpine,
      mkfsCommand = mkfs, fsckCommand = fsck, labelCommand = labelc, stateCommand = state,
      signatures = sigs\<rparr>"

record format_options =
  fo_Label :: string
  fo_Force :: bool
  fo_Verbose :: bool
  fo_AdditionalOptions :: "(string, string) gomap"

record check_options =
  co_AutoFix :: bool
  co_Force :: bool
  co_Verbose :: bool

record check_result =
  ck_Success :: bool
  ck_ErrorsFound :: bool
  ck_ErrorsFixed :: bool
  ck_Message :: string
  ck_ExitCode :: int

datatype info = InfoStr string | InfoBool bool

record fs_state =
  IsClean :: bool
  IsMounted :: bool
  HasErrors :: bool
  StateDescription :: string
  AdditionalInfo :: "(string, info) gomap"

definition empty_state :: fs_state where
  "empty_state = \<lparr>IsClean = False, IsMounted = False, HasErrors = False, StateDescription = [],
                  AdditionalInfo = []\<rparr>"

definition add_info :: "string \<Rightarrow> info \<Rightarrow> fs_state \<Rightarrow> fs_state" where
  "add_info k v st = st\<lparr>AdditionalInfo := AList.update k v (AdditionalInfo st)\<rparr>"

type_synonym progress_report = "string \<times> int \<times> string list"

text \<open>A cached object is a \<open>cachedCommandResult\<close> or, as far as its type tells, something else.\<close>

datatype cache_obj = CachedResult string int "err option" | OtherObject

record fs_world =
  cmd_cache :: "(string, cache_obj \<times> int) gomap"
  clock :: int
  executed :: "(string \<times> string list) list"
  reports :: "progress_report list"
  lastUnmountedState :: "(string, fs_state) gomap"

text \<open>
  The error of a run: whether it is the context's error, and its text. The environment answers
  the \<open>n\<close>-th command of the world; the last component of an answer is the time it took.
\<close>

record exec_error =
  xe_context :: bool
  xe_text :: string

record fs_env =
  en_exec :: "nat \<Rightarrow> string \<Rightarrow> string list \<Rightarrow> output_line list \<times> int \<times> exec_error option \<times> int"
  en_progress :: "nat \<Rightarrow> string \<Rightarrow> string list \<Rightarrow> output_line list \<times> cmd_result \<times> int"
  en_path :: "string \<Rightarrow> bool"
  en_filesystems :: "string list option"
  en_mounts :: "string list option"
  en_device :: "string \<Rightarrow> string res"

section \<open>Numbers as text\<close>

definition digit :: "nat \<Rightarrow> char" where
  "digit n = char_of (48 + n)"

fun Itoa :: "nat \<Rightarrow> string" where
  "Itoa n = (if n < 10 then [digit n] else Itoa (n div 10) @ [digit (n mod 10)])"

declare Itoa.simps [simp del]

definition Itoa_int :: "int \<Rightarrow> string" where
  "Itoa_int i = (if i < 0 then CHR ''-'' # Itoa (nat (- i)) else Itoa (nat i))"

section \<open>Running commands\<close>

definition fatal_exec :: "exec_error \<Rightarrow> bool" where
  "fatal_exec e \<longleftrightarrow>
     xe_context e \<or>
     Contains (xe_text e) ''permission denied'' \<or>
     Contains (xe_text e) ''executable file not found'' \<or>
     Contains (xe_text e) ''no such file or directory'' \<or>
     Contains (xe_text e) ''cannot find the file'' \<or>
     Contains (xe_text e) ''command not found'' \<or>
     Contains (xe_text e) ''not configured''"

definition runCommand ::
  "fs_env \<Rightarrow> string \<Rightarrow> string list \<Rightarrow> fs_world \<Rightarrow> (string \<times> int \<times> err option) \<times> fs_world" where
  "runCommand env name args w =
     (case en_exec env (length (executed w)) name args of
        (ls, code, e, dt) \<Rightarrow>
          let output = JoinChannelOutput ls [];
              w' = w\<lparr>executed := executed w @ [(name, args)], clock := clock w + dt\<rparr>
          in case e of
               None \<Rightarrow> ((output, code, None), w')
             | Some x \<Rightarrow>
                 let code' = (if code = 0 then -1 else code)
                 in if fatal_exec x then ((output, code', Some (E ErrorOther (xe_text x))), w')
                    else ((output, code', None), w'))"

definition commandResultCacheTTL :: int where
  "commandResultCacheTTL = 1800000000000"

definition cache_get :: "string \<Rightarrow> fs_world \<Rightarrow> cache_obj option" where
  "cache_get k w =
     (case map_of (cmd_cache w) k of
        None \<Rightarrow> None
      | Some (x, exp) \<Rightarrow> if exp > 0 \<and> clock w > exp then None else Some x)"

definition cache_set :: "string \<Rightarrow> cache_obj \<Rightarrow> fs_world \<Rightarrow> fs_world" where
  "cache_set k x w =
     w\<lparr>cmd_cache := AList.update k (x, clock w + commandResultCacheTTL) (cmd_cache w)\<rparr>"

definition invalidateCommandResultCache :: "fs_world \<Rightarrow> fs_world" where
  "invalidateCommandResultCache w = w\<lparr>cmd_cache := []\<rparr>"

definition key_part :: "string \<Rightarrow> string" where
  "key_part s = Itoa (length s) @ CHR '':'' # s @ [CHR ''|'']"

definition commandCacheKey :: "string \<Rightarrow> string list \<Rightarrow> string" where
  "commandCacheKey name args = concat (map key_part (name # args))"

definition runCommandCached ::
  "fs_env \<Rightarrow> string \<Rightarrow> string list \<Rightarrow> fs_world \<Rightarrow> (string \<times> int \<times> err option) \<times> fs_world" where
  "runCommandCached env name args w =
     (let key = commandCacheKey name args;
          run = (\<lambda>w0. case runCommand env name args w0 of
                   ((output, code, e), w1) \<Rightarrow>
                     ((output, code, e), cache_set key (CachedResult output code e) w1))
      in case cache_get key w of
           Some (CachedResult output code e) \<Rightarrow> ((output, code, e), w)
         | Some OtherObject \<Rightarrow> run (w\<lparr>cmd_cache := AList.delete key (cmd_cache w)\<rparr>)
         | None \<Rightarrow> run w)"

definition isDeviceMounted :: "fs_env \<Rightarrow> string \<Rightarrow> bool" where
  "isDeviceMounted env device =
     (case en_mounts env of None \<Rightarrow> False | Some sources \<Rightarrow> device \<in> set sources)"

section \<open>Support\<close>

definition commandExists :: "fs_env \<Rightarrow> string \<Rightarrow> bool" where
  "commandExists env command =
     (let c = TrimSpace command in c \<noteq> [] \<and> en_path env c)"

definition GetLinuxFsModule :: "adapter \<Rightarrow> string" where
  "GetLinuxFsModule a = (if linuxFsModule a \<noteq> [] then linuxFsModule a else ad_name a)"

definition GetAliasNames :: "adapter \<Rightarrow> string list" where
  "GetAliasNames a =
     (let m = GetLinuxFsModule a in
      if m \<noteq> [] \<and> m \<noteq> ad_name a \<and> m \<notin> set (aliasNames a) then aliasNames a @ [m]
      else aliasNames a)"

text \<open>One optional tool: nothing when the adapter names none.\<close>

definition tool_ok :: "fs_env \<Rightarrow> string \<Rightarrow> bool" where
  "tool_ok env c = (c \<noteq> [] \<and> commandExists env c)"

definition tool_missing :: "fs_env \<Rightarrow> string \<Rightarrow> string list" where
  "tool_missing env c = (if c \<noteq> [] \<and> \<not> commandExists env c then [c] else [])"

definition checkCommandAvailability :: "fs_env \<Rightarrow> adapter \<Rightarrow> fs_support" where
  "checkCommandAvailability env a =
     (let base = \<lparr>fs_CanMount = False, fs_IsExportable = exportable a, fs_CanFormat = False,
                  fs_CanCheck = False, fs_CanSetLabel = False, fs_CanGetState = False,
                  fs_IsFormatReportProgress = isFormatReportProgress a,
                  fs_IsCheckReportProgress = isCheckReportProgress a, fs_LabelRule = labelRule a,
                  fs_AlpinePackage = alpinePackage a, fs_MissingTools = []\<rparr>;
          tools = [mkfsCommand a, fsckCommand a, labelCommand a, stateCommand a]
      in case en_filesystems env of
           Some fs \<Rightarrow>
             if GetLinuxFsModule a \<notin> set fs then base\<lparr>fs_MissingTools := tools\<rparr>
             else base\<lparr>fs_CanMount := True, fs_CanFormat := tool_ok env (mkfsCommand a),
                       fs_CanCheck := tool_ok env (fsckCommand a),
                       fs_CanSetLabel := tool_ok env (labelCommand a),
                       fs_CanGetState := tool_ok env (stateCommand a),
                       fs_MissingTools := concat (map (tool_missing env) tools)\<rparr>
         | None \<Rightarrow>
             base\<lparr>fs_CanMount := True, fs_CanFormat := tool_ok env (mkfsCommand a),
                  fs_CanCheck := tool_ok env (fsckCommand a),
                  fs_CanSetLabel := tool_ok env (labelCommand a),
                  fs_CanGetState := tool_ok env (stateCommand a),
                  fs_MissingTools := concat (map (tool_missing env) tools)\<rparr>)"

section \<open>Signature detection\<close>

definition maxDeviceReadLength :: nat where
  "maxDeviceReadLength = 65608"

definition signature_matches :: "string \<Rightarrow> magic \<Rightarrow> bool" where
  "signature_matches buf sig =
     (let last = mg_Offset sig + int (length (mg_Magic sig)) in
      0 \<le> mg_Offset sig \<and> last \<le> int (length buf) \<and>
      take (length (mg_Magic sig)) (drop (nat (mg_Offset sig)) buf) = mg_Magic sig)"

text \<open>
  \<open>en_device\<close> is what opening and reading the device gives: its bytes or the error of \<open>Open\<close> or
  \<open>ReadAt\<close>.
\<close>

definition checkDeviceMatchesSignatures :: "fs_env \<Rightarrow> adapter \<Rightarrow> string \<Rightarrow> bool res" where
  "checkDeviceMatchesSignatures env a path =
     (if signatures a = [] then Ok False
      else case en_device env path of
             Err e \<Rightarrow> Err e
           | Panic \<Rightarrow> Panic
           | Ok bytes \<Rightarrow>
               let buf = take maxDeviceReadLength bytes in
               if buf = [] then Ok False
               else Ok (\<exists>sig \<in> set (signatures a). signature_matches buf sig))"

section \<open>Long-running commands\<close>

definition report :: "bool \<Rightarrow> progress_report \<Rightarrow> fs_world \<Rightarrow> fs_world" where
  "report progress r w = (if progress then w\<lparr>reports := reports w @ [r]\<rparr> else w)"

text \<open>
  The two readers of \<open>drainCommandOutput\<close> on the lines in the order they take them.
\<close>

fun drainCommandOutput ::
  "bool \<Rightarrow> int \<Rightarrow> string list option \<Rightarrow> output_line list \<Rightarrow> fs_world
   \<Rightarrow> (string list \<times> string list \<times> string list option) \<times> fs_world" where
  "drainCommandOutput progress pct notes [] w = (([], [], notes), w)"
| "drainCommandOutput progress pct notes (l # ls) w =
     (let txt' = (case ln_channel l of Stdout \<Rightarrow> ln_text l | Stderr \<Rightarrow> ''ERROR: '' @ ln_text l);
          notes' = (if progress then map_option (\<lambda>n. n @ [txt']) notes else notes);
          shown = (case notes' of None \<Rightarrow> [txt'] | Some n \<Rightarrow> n);
          w' = report progress (''running'', pct, shown) w
      in case drainCommandOutput progress pct notes' ls w' of
           ((outs, errs, n), w2) \<Rightarrow>
             (case ln_channel l of
                Stdout \<Rightarrow> ((ln_text l # outs, errs, n), w2)
              | Stderr \<Rightarrow> ((outs, ln_text l # errs, n), w2)))"

definition run_progress ::
  "fs_env \<Rightarrow> string \<Rightarrow> string list \<Rightarrow> fs_world \<Rightarrow> (output_line list \<times> cmd_result) \<times> fs_world" where
  "run_progress env command args w =
     (case en_progress env (length (executed w)) command args of
        (ls, r, dt) \<Rightarrow>
          ((ls, r), w\<lparr>executed := executed w @ [(command, args)], clock := clock w + dt\<rparr>))"

end
