(* ===== verification/Fs_Adapters.thy ===== *)
theory Fs_Adapters
  imports Fs_Base
begin

text \<open>
  The twelve filesystem adapters (\<open>service/filesystem/*_adapter.go\<close>) and the registry that finds
  them (\<open>registry.go\<close>). Every adapter has the operations of the \<open>FilesystemAdapter\<close> interface:
  support, format, check, label and state. Nine of the formatters and of the checkers have the same
  body around their own arguments and their own reading of the exit code; \<open>simple_format\<close> and
  \<open>simple_check\<close> are that body.
\<close>

section \<open>The adapters\<close>

definition NewExt4Adapter :: adapter where
  "NewExt4Adapter =
     newBaseAdapter Ext4 ''ext4'' ''EXT4 Filesystem'' True ''e2fsprogs'' ''mkfs.ext4'' ''fsck.ext4''
       ''tune2fs'' ''tune2fs'' (''^[^'' @ CHR 0x5C # ''x00/]{1,16}$'')
       [\<lparr>mg_Offset = 1080, mg_Magic = [CHR 0x53, CHR 0xEF]\<rparr>]
       []"

definition NewVfatAdapter :: adapter where
  "NewVfatAdapter =
     newBaseAdapter Vfat ''vfat'' ''FAT32 Filesystem'' False ''dosfstools'' ''mkfs.vfat'' ''fsck.vfat''
       ''fatlabel'' ''fsck.vfat'' ''^[A-Za-z0-9 ]{1,11}$''
       [\<lparr>mg_Offset = 82, mg_Magic = ''FAT32   ''\<rparr>, \<lparr>mg_Offset = 54, mg_Magic = ''FAT16   ''\<rparr>, \<lparr>mg_Offset = 54, mg_Magic = ''FAT12   ''\<rparr>]
       [''fat'', ''fat32'', ''msdos'']"

definition NewNtfsAdapter :: adapter where
  "NewNtfsAdapter =
     (newBaseAdapter Ntfs ''ntfs'' ''NTFS Filesystem'' False ''ntfs-3g-progs'' ''mkfs.ntfs'' ''ntfsfix''
       ''ntfslabel'' ''ntfsfix'' (''^[^'' @ CHR 0x5C # ''x00/]{1,32}$'')
       [\<lparr>mg_Offset = 3, mg_Magic = ''NTFS    ''\<rparr>]
       [''ntfs3'', ''ntfs-3g'', ''fuseblk''])\<lparr>linuxFsModule := ''ntfs3''\<rparr>"

definition NewBtrfsAdapter :: adapter where
  "NewBtrfsAdapter =
     newBaseAdapter Btrfs ''btrfs'' ''BTRFS Filesystem'' True ''btrfs-progs'' ''mkfs.btrfs'' ''btrfs''
       ''btrfs'' ''btrfs'' (''^[^'' @ CHR 0x5C # ''x00/]{1,255}$'')
       [\<lparr>mg_Offset = 65600, mg_Magic = ''_BHRfS_M''\<rparr>]
       []"

definition NewXfsAdapter :: adapter where
  "NewXfsAdapter =
     newBaseAdapter Xfs ''xfs'' ''XFS Filesystem'' True ''xfsprogs-extra'' ''mkfs.xfs'' ''xfs_repair''
       ''xfs_admin'' ''xfs_repair'' (''^[^'' @ CHR 0x5C # ''x00/]{1,12}$'')
       [\<lparr>mg_Offset = 0, mg_Magic = ''XFSB''\<rparr>]
       []"

definition NewExfatAdapter :: adapter where
  "NewExfatAdapter =
     newBaseAdapter Exfat ''exfat'' ''Extended File Allocation Table'' False ''exfatprogs'' ''mkfs.exfat'' ''fsck.exfat''
       ''exfatlabel'' ''fsck.exfat'' (''^[^'' @ CHR 0x5C # ''x00/]{1,15}$'')
       [\<lparr>mg_Offset = 3, mg_Magic = ''EXFAT   ''\<rparr>]
       []"

definition NewF2fsAdapter :: adapter where
  "NewF2fsAdapter =
     newBaseAdapter F2fs ''f2fs'' ''Flash-Friendly File System'' True ''f2fs-tools'' ''mkfs.f2fs'' ''fsck.f2fs''
       [] ''fsck.f2fs'' (''^[^'' @ CHR 0x5C # ''x00/]{1,512}$'')
       [\<lparr>mg_Offset = 1024, mg_Magic = [CHR 0x10, CHR 0x20, CHR 0xF5, CHR 0xF2]\<rparr>]
       []"

definition NewGfs2Adapter :: adapter where
  "NewGfs2Adapter =
     newBaseAdapter Gfs2 ''gfs2'' ''Global File System 2'' True ''gfs2-utils'' ''mkfs.gfs2'' ''fsck.gfs2''
       [] ''fsck.gfs2'' []
       [\<lparr>mg_Offset = 16, mg_Magic = [CHR 0x01, CHR 0x16, CHR 0x19, CHR 0x70]\<rparr>]
       []"

definition NewHfsplusAdapter :: adapter where
  "NewHfsplusAdapter =
     newBaseAdapter Hfsplus ''hfsplus'' ''Hierarchical File System Plus'' False ''hfsprogs'' ''mkfs.hfsplus'' ''fsck.hfsplus''
       [] ''fsck.hfsplus'' (''^[^'' @ CHR 0x5C # ''x00/]{1,255}$'')
       [\<lparr>mg_Offset = 1024, mg_Magic = ''H+''\<rparr>, \<lparr>mg_Offset = 1024, mg_Magic = ''HX''\<rparr>]
       [''hfs+'']"

definition NewReiserfsAdapter :: adapter where
  "NewReiserfsAdapter =
     newBaseAdapter Reiserfs ''reiserfs'' ''Reiser File System'' True ''reiserfsprogs'' ''mkfs.reiserfs'' ''fsck.reiserfs''
       ''reiserfstune'' ''fsck.reiserfs'' (''^[^'' @ CHR 0x5C # ''x00/]{1,16}$'')
       [\<lparr>mg_Offset = 65588, mg_Magic = ''ReIsErFs''\<rparr>, \<lparr>mg_Offset = 65588, mg_Magic = ''ReIsEr2Fs''\<rparr>, \<lparr>mg_Offset = 65588, mg_Magic = ''ReIsEr3Fs''\<rparr>]
       []"

definition NewZfsAdapter :: adapter where
  "NewZfsAdapter =
     newBaseAdapter Zfs ''zfs'' ''ZFS Filesystem'' True ''zfs'' [] []
       [] [] []
       []
       []"

definition NewApfsAdapter :: adapter where
  "NewApfsAdapter =
     newBaseAdapter Apfs ''apfs'' ''Apple File System (read-only)'' False ''apfs-fuse'' [] []
       [] ''apfsutil'' []
       [\<lparr>mg_Offset = 32, mg_Magic = ''NXSB''\<rparr>, \<lparr>mg_Offset = 20512, mg_Magic = ''NXSB''\<rparr>, \<lparr>mg_Offset = 32, mg_Magic = ''APSB''\<rparr>]
       []"

lemmas adapter_defs = newBaseAdapter_def NewExt4Adapter_def NewVfatAdapter_def NewNtfsAdapter_def NewBtrfsAdapter_def NewXfsAdapter_def NewExfatAdapter_def NewF2fsAdapter_def NewGfs2Adapter_def NewHfsplusAdapter_def NewReiserfsAdapter_def NewZfsAdapter_def NewApfsAdapter_def

lemma ad_kind_adapters [simp]:
  "ad_kind NewExt4Adapter = Ext4"
  "ad_kind NewVfatAdapter = Vfat"
  "ad_kind NewNtfsAdapter = Ntfs"
  "ad_kind NewBtrfsAdapter = Btrfs"
  "ad_kind NewXfsAdapter = Xfs"
  "ad_kind NewExfatAdapter = Exfat"
  "ad_kind NewF2fsAdapter = F2fs"
  "ad_kind NewGfs2Adapter = Gfs2"
  "ad_kind NewHfsplusAdapter = Hfsplus"
  "ad_kind NewReiserfsAdapter = Reiserfs"
  "ad_kind NewZfsAdapter = Zfs"
  "ad_kind NewApfsAdapter = Apfs"
  by (simp_all add: adapter_defs)

lemma ad_name_adapters [simp]:
  "ad_name NewExt4Adapter = ''ext4''"
  "ad_name NewVfatAdapter = ''vfat''"
  "ad_name NewNtfsAdapter = ''ntfs''"
  "ad_name NewBtrfsAdapter = ''btrfs''"
  "ad_name NewXfsAdapter = ''xfs''"
  "ad_name NewExfatAdapter = ''exfat''"
  "ad_name NewF2fsAdapter = ''f2fs''"
  "ad_name NewGfs2Adapter = ''gfs2''"
  "ad_name NewHfsplusAdapter = ''hfsplus''"
  "ad_name NewReiserfsAdapter = ''reiserfs''"
  "ad_name NewZfsAdapter = ''zfs''"
  "ad_name NewApfsAdapter = ''apfs''"
  by (simp_all add: adapter_defs)

lemma mkfsCommand_adapters [simp]:
  "mkfsCommand NewExt4Adapter = ''mkfs.ext4''"
  "mkfsCommand NewVfatAdapter = ''mkfs.vfat''"
  "mkfsCommand NewNtfsAdapter = ''mkfs.ntfs''"
  "mkfsCommand NewBtrfsAdapter = ''mkfs.btrfs''"
  "mkfsCommand NewXfsAdapter = ''mkfs.xfs''"
  "mkfsCommand NewExfatAdapter = ''mkfs.exfat''"
  "mkfsCommand NewF2fsAdapter = ''mkfs.f2fs''"
  "mkfsCommand NewGfs2Adapter = ''mkfs.gfs2''"
  "mkfsCommand NewHfsplusAdapter = ''mkfs.hfsplus''"
  "mkfsCommand NewReiserfsAdapter = ''mkfs.reiserfs''"
  "mkfsCommand NewZfsAdapter = []"
  "mkfsCommand NewApfsAdapter = []"
  by (simp_all add: adapter_defs)

lemma fsckCommand_adapters [simp]:
  "fsckCommand NewExt4Adapter = ''fsck.ext4''"
  "fsckCommand NewVfatAdapter = ''fsck.vfat''"
  "fsckCommand NewNtfsAdapter = ''ntfsfix''"
  "fsckCommand NewBtrfsAdapter = ''btrfs''"
  "fsckCommand NewXfsAdapter = ''xfs_repair''"
  "fsckCommand NewExfatAdapter = ''fsck.exfat''"
  "fsckCommand NewF2fsAdapter = ''fsck.f2fs''"
  "fsckCommand NewGfs2Adapter = ''fsck.gfs2''"
  "fsckCommand NewHfsplusAdapter = ''fsck.hfsplus''"
  "fsckCommand NewReiserfsAdapter = ''fsck.reiserfs''"
  "fsckCommand NewZfsAdapter = []"
  "fsckCommand NewApfsAdapter = []"
  by (simp_all add: adapter_defs)

lemma labelCommand_adapters [simp]:
  "labelCommand NewExt4Adapter = ''tune2fs''"
  "labelCommand NewVfatAdapter = ''fatlabel''"
  "labelCommand NewNtfsAdapter = ''ntfslabel''"
  "labelCommand NewBtrfsAdapter = ''btrfs''"
  "labelCommand NewXfsAdapter = ''xfs_admin''"
  "labelCommand NewExfatAdapter = ''exfatlabel''"
  "labelCommand NewF2fsAdapter = []"
  "labelCommand NewGfs2Adapter = []"
  "labelCommand NewHfsplusAdapter = []"
  "labelCommand NewReiserfsAdapter = ''reiserfstune''"
  "labelCommand NewZfsAdapter = []"
  "labelCommand NewApfsAdapter = []"
  by (simp_all add: adapter_defs)

lemma stateCommand_adapters [simp]:
  "stateCommand NewExt4Adapter = ''tune2fs''"
  "stateCommand NewVfatAdapter = ''fsck.vfat''"
  "stateCommand NewNtfsAdapter = ''ntfsfix''"
  "stateCommand NewBtrfsAdapter = ''btrfs''"
  "stateCommand NewXfsAdapter = ''xfs_repair''"
  "stateCommand NewExfatAdapter = ''fsck.exfat''"
  "stateCommand NewF2fsAdapter = ''fsck.f2fs''"
  "stateCommand NewGfs2Adapter = ''fsck.gfs2''"
  "stateCommand NewHfsplusAdapter = ''fsck.hfsplus''"
  "stateCommand NewReiserfsAdapter = ''fsck.reiserfs''"
  "stateCommand NewZfsAdapter = []"
  "stateCommand NewApfsAdapter = ''apfsutil''"
  by (simp_all add: adapter_defs)

section \<open>The registry\<close>

type_synonym registry = "(string, adapter) gomap"

definition Register :: "adapter \<Rightarrow> registry \<Rightarrow> registry" where
  "Register a r = AList.update (ad_name a) a r"

definition NewRegistry :: registry where
  "NewRegistry = foldl (\<lambda>r a. Register a r) []
     [NewExt4Adapter, NewVfatAdapter, NewNtfsAdapter, NewBtrfsAdapter,
      NewXfsAdapter, NewExfatAdapter, NewF2fsAdapter, NewGfs2Adapter,
      NewHfsplusAdapter, NewReiserfsAdapter, NewZfsAdapter, NewApfsAdapter]"

definition canonicalizeFilesystemType :: "string \<Rightarrow> string" where
  "canonicalizeFilesystemType t = ToLower (TrimSpace t)"

definition adapterMatchesFilesystemType :: "adapter \<Rightarrow> string \<Rightarrow> bool" where
  "adapterMatchesFilesystemType a normalized \<longleftrightarrow>
     canonicalizeFilesystemType (ad_name a) = normalized \<or>
     (\<exists>x \<in> set (GetAliasNames a). canonicalizeFilesystemType x = normalized)"

definition registry_Get :: "registry \<Rightarrow> string \<Rightarrow> adapter res" where
  "registry_Get r fsType =
     (let normalized = canonicalizeFilesystemType fsType;
          unsupported = Err (E ErrorOther (''unsupported filesystem type: '' @ fsType))
      in if normalized = [] then unsupported
         else case map_of r normalized of
                Some a \<Rightarrow> Ok a
              | None \<Rightarrow>
                  (case first_some (\<lambda>p. if adapterMatchesFilesystemType (snd p) normalized
                                        then Some (snd p) else None) r of
                     Some a \<Rightarrow> Ok a
                   | None \<Rightarrow> unsupported))"

definition GetAll :: "registry \<Rightarrow> adapter list" where
  "GetAll r = map snd r"

definition ListSupportedTypes :: "registry \<Rightarrow> string list" where
  "ListSupportedTypes r = map fst r"

definition IsSupported :: "fs_env \<Rightarrow> adapter \<Rightarrow> fs_support" where
  "IsSupported env a =
     (let su = checkCommandAvailability env a in
      if ad_kind a = Apfs then
        let can = commandExists env ''apfs-fuse'' in
        su\<lparr>fs_CanMount := can,
           fs_MissingTools := (if can then fs_MissingTools su else fs_MissingTools su @ [''apfs-fuse'']),
           fs_CanFormat := False, fs_CanCheck := False, fs_CanSetLabel := False\<rparr>
      else su)"

definition GetSupportedFilesystems :: "fs_env \<Rightarrow> registry \<Rightarrow> (string, fs_support) gomap" where
  "GetSupportedFilesystems env r = map (\<lambda>p. (fst p, IsSupported env (snd p))) r"

section \<open>Formatting\<close>

text \<open>
  The body of the formatters around their tool, arguments and texts. \<open>notes0\<close> is what the
  adapter has collected (ext4 collects its notes, the others report each line alone).
\<close>

definition simple_format ::
  "fs_env \<Rightarrow> string \<Rightarrow> string \<Rightarrow> string \<Rightarrow> string \<Rightarrow> string list \<Rightarrow> bool \<Rightarrow> fs_world
   \<Rightarrow> err option \<times> fs_world" where
  "simple_format env title tool fail_note command args progress w =
     (let w1 = report progress (''start'', 0, [''Starting '' @ title @ '' format'']) w;
          w2 = report progress (''running'', 999, [''Progress Status Not Supported'']) w1
      in case run_progress env command args w2 of
           ((ls, r), w3) \<Rightarrow>
             (case drainCommandOutput progress 999 None ls w3 of
                ((outs, _, _), w4) \<Rightarrow>
                  (case cr_error r of
                     Some e \<Rightarrow>
                       (Some e, invalidateCommandResultCache
                          (report progress (''failure'', 0, [''Format failed: '' @ err_msg e]) w4))
                   | None \<Rightarrow>
                       if cr_exit r \<noteq> 0 then
                         (Some (E ErrorOther (tool @ '' failed with exit code '' @ Itoa_int (cr_exit r)
                                  @ '': '' @ Join outs [CHR 0x0A])),
                          invalidateCommandResultCache (report progress (''failure'', 0, [fail_note]) w4))
                       else
                         (None, invalidateCommandResultCache
                            (report progress (''success'', 100, [''Format completed successfully'']) w4)))))"

definition label_args :: "string \<Rightarrow> format_options \<Rightarrow> string list" where
  "label_args flag o' = (if fo_Label o' \<noteq> [] then [flag, fo_Label o'] else [])"

definition opt_arg :: "bool \<Rightarrow> string \<Rightarrow> string list" where
  "opt_arg b flag = (if b then [flag] else [])"

definition Vfat_Format :: "fs_env \<Rightarrow> adapter \<Rightarrow> string \<Rightarrow> format_options \<Rightarrow> bool \<Rightarrow> fs_world \<Rightarrow> err option \<times> fs_world" where
  "Vfat_Format env a device o' progress w =
     simple_format env ''vfat'' ''mkfs.vfat'' ''Format failed: mkfs.vfat failed with exit code''
       (mkfsCommand a) ([''-F'', ''32''] @ label_args ''-n'' o' @ [device]) progress w"

definition Ntfs_Format :: "fs_env \<Rightarrow> adapter \<Rightarrow> string \<Rightarrow> format_options \<Rightarrow> bool \<Rightarrow> fs_world \<Rightarrow> err option \<times> fs_world" where
  "Ntfs_Format env a device o' progress w =
     simple_format env ''ntfs'' ''mkfs.ntfs'' ''Format failed: mkfs.ntfs failed''
       (mkfsCommand a) ([''-Q''] @ opt_arg (fo_Force o') ''-F'' @ label_args ''-L'' o' @ [device]) progress w"

definition Btrfs_Format :: "fs_env \<Rightarrow> adapter \<Rightarrow> string \<Rightarrow> format_options \<Rightarrow> bool \<Rightarrow> fs_world \<Rightarrow> err option \<times> fs_world" where
  "Btrfs_Format env a device o' progress w =
     simple_format env ''btrfs'' ''mkfs.btrfs'' ''Format failed: mkfs.btrfs failed with exit code''
       (mkfsCommand a) (opt_arg (fo_Force o') ''-f'' @ label_args ''-L'' o' @ [device]) progress w"

definition Xfs_Format :: "fs_env \<Rightarrow> adapter \<Rightarrow> string \<Rightarrow> format_options \<Rightarrow> bool \<Rightarrow> fs_world \<Rightarrow> err option \<times> fs_world" where
  "Xfs_Format env a device o' progress w =
     simple_format env ''xfs'' ''mkfs.xfs'' ''Format failed: mkfs.xfs failed with exit code''
       (mkfsCommand a) (opt_arg (fo_Force o') ''-f'' @ label_args ''-L'' o' @ [device]) progress w"

definition Exfat_Format :: "fs_env \<Rightarrow> adapter \<Rightarrow> string \<Rightarrow> format_options \<Rightarrow> bool \<Rightarrow> fs_world \<Rightarrow> err option \<times> fs_world" where
  "Exfat_Format env a device o' progress w =
     simple_format env ''exfat'' ''mkfs.exfat'' ''Format failed: mkfs.exfat failed with exit code''
       (mkfsCommand a) (label_args ''-n'' o' @ [device]) progress w"

definition F2fs_Format :: "fs_env \<Rightarrow> adapter \<Rightarrow> string \<Rightarrow> format_options \<Rightarrow> bool \<Rightarrow> fs_world \<Rightarrow> err option \<times> fs_world" where
  "F2fs_Format env a device o' progress w =
     simple_format env ''f2fs'' ''mkfs.f2fs'' ''Format failed: mkfs.f2fs failed with exit code''
       (mkfsCommand a) (opt_arg (fo_Force o') ''-f'' @ label_args ''-l'' o' @ [device]) progress w"

definition Gfs2_Format :: "fs_env \<Rightarrow> adapter \<Rightarrow> string \<Rightarrow> format_options \<Rightarrow> bool \<Rightarrow> fs_world \<Rightarrow> err option \<times> fs_world" where
  "Gfs2_Format env a device o' progress w =
     simple_format env ''gfs2'' ''mkfs.gfs2'' ''Format failed: mkfs.gfs2 failed with exit code''
       (mkfsCommand a) ([''-p'', ''lock_nolock''] @ opt_arg (fo_Force o') ''-O'' @ [''-t'', ''local:gfs2''] @ [device]) progress w"

definition Hfsplus_Format :: "fs_env \<Rightarrow> adapter \<Rightarrow> string \<Rightarrow> format_options \<Rightarrow> bool \<Rightarrow> fs_world \<Rightarrow> err option \<times> fs_world" where
  "Hfsplus_Format env a device o' progress w =
     simple_format env ''hfsplus'' ''mkfs.hfsplus'' ''Format failed: mkfs.hfsplus failed with exit code''
       (mkfsCommand a) (label_args ''-v'' o' @ [device]) progress w"

definition Reiserfs_Format :: "fs_env \<Rightarrow> adapter \<Rightarrow> string \<Rightarrow> format_options \<Rightarrow> bool \<Rightarrow> fs_world \<Rightarrow> err option \<times> fs_world" where
  "Reiserfs_Format env a device o' progress w =
     simple_format env ''reiserfs'' ''mkfs.reiserfs'' ''Format failed: mkfs.reiserfs failed with exit code''
       (mkfsCommand a) (opt_arg (fo_Force o') ''-f'' @ label_args ''-l'' o' @ [device]) progress w"

definition Ext4_Format :: "fs_env \<Rightarrow> adapter \<Rightarrow> string \<Rightarrow> format_options \<Rightarrow> bool \<Rightarrow> fs_world \<Rightarrow> err option \<times> fs_world" where
  "Ext4_Format env a device o' progress w =
     (let notes = [''Starting ext4 format''];
          w1 = report progress (''start'', 0, notes) w;
          args = opt_arg (fo_Force o') ''-F'' @ label_args ''-L'' o' @ [device];
          notes1 = (if progress then notes @ [''Progress status not supported for mkfs.ext4'']
                    else notes);
          w2 = report progress (''running'', 999, notes1) w1
      in case run_progress env (mkfsCommand a) args w2 of
           ((ls, r), w3) \<Rightarrow>
             (case drainCommandOutput progress 999 (Some notes1) ls w3 of
                ((outs, _, n), w4) \<Rightarrow>
                  let notes2 = (case n of None \<Rightarrow> [] | Some x \<Rightarrow> x) in
                  (case cr_error r of
                     Some e \<Rightarrow>
                       (Some e, invalidateCommandResultCache
                          (report progress (''failure'', 0, [''Format failed: '' @ err_msg e]) w4))
                   | None \<Rightarrow>
                       if cr_exit r \<noteq> 0 then
                         (Some (E ErrorOther (''mkfs.ext4 failed with exit code '' @ Itoa_int (cr_exit r)
                                  @ '': '' @ Join outs [CHR 0x0A])),
                          invalidateCommandResultCache
                            (report progress (''failure'', 0,
                               notes2 @ [''mkfs.ext4 failed with exit code'']) w4))
                       else
                         (None, invalidateCommandResultCache
                            (report progress (''success'', 100,
                               notes2 @ [''Format completed successfully'']) w4)))))"

definition Zfs_Format :: "fs_env \<Rightarrow> adapter \<Rightarrow> string \<Rightarrow> format_options \<Rightarrow> bool \<Rightarrow> fs_world \<Rightarrow> err option \<times> fs_world" where
  "Zfs_Format env a device o' progress w =
     (Some (E ErrorOther (''ZFS format is not supported by SRAT. ZFS provisioning is pool-level and ''
              @ ''managed outside partition format operations'')),
      invalidateCommandResultCache
        (report progress (''failure'', 0, [''ZFS format is not supported by SRAT'']) w))"

definition Apfs_Format :: "fs_env \<Rightarrow> adapter \<Rightarrow> string \<Rightarrow> format_options \<Rightarrow> bool \<Rightarrow> fs_world \<Rightarrow> err option \<times> fs_world" where
  "Apfs_Format env a device o' progress w =
     (Some (E ErrorOther (''APFS formatting is not supported on Linux. APFS is read-only on this ''
              @ ''system'')),
      invalidateCommandResultCache
        (report progress (''failure'', 0, [''APFS formatting is not supported on Linux'']) w))"

definition Format :: "fs_env \<Rightarrow> adapter \<Rightarrow> string \<Rightarrow> format_options \<Rightarrow> bool \<Rightarrow> fs_world \<Rightarrow> err option \<times> fs_world" where
  "Format env a = (case ad_kind a of
     Ext4 \<Rightarrow> Ext4_Format env a | Vfat \<Rightarrow> Vfat_Format env a | Ntfs \<Rightarrow> Ntfs_Format env a
   | Btrfs \<Rightarrow> Btrfs_Format env a | Xfs \<Rightarrow> Xfs_Format env a | Exfat \<Rightarrow> Exfat_Format env a
   | F2fs \<Rightarrow> F2fs_Format env a | Gfs2 \<Rightarrow> Gfs2_Format env a | Hfsplus \<Rightarrow> Hfsplus_Format env a
   | Reiserfs \<Rightarrow> Reiserfs_Format env a | Zfs \<Rightarrow> Zfs_Format env a | Apfs \<Rightarrow> Apfs_Format env a)"

section \<open>Checking\<close>

text \<open>
  What an adapter makes of the exit code and the output of its checker: success, errors found,
  errors fixed, and whether the \<open>default\<close> branch decided, which is the one that passes on the
  error of the command.
\<close>

type_synonym verdict = "bool \<times> bool \<times> bool \<times> bool"

definition simple_check ::
  "fs_env \<Rightarrow> string \<Rightarrow> string \<Rightarrow> string list \<Rightarrow> (int \<Rightarrow> string \<Rightarrow> verdict) \<Rightarrow> bool \<Rightarrow> fs_world
   \<Rightarrow> (check_result \<times> err option) \<times> fs_world" where
  "simple_check env title command args classify progress w =
     (let w1 = report progress (''start'', 0, [''Starting '' @ title @ '' check'']) w;
          w2 = report progress (''running'', 999, [''Progress Status Not Supported'']) w1
      in case run_progress env command args w2 of
           ((ls, r), w3) \<Rightarrow>
             (case drainCommandOutput progress 999 None ls w3 of
                ((outs, _, _), w4) \<Rightarrow>
                  let output = Join outs [CHR 0x0A] in
                  (case classify (cr_exit r) output of
                     (success, found, fixed, dflt) \<Rightarrow>
                       let res = \<lparr>ck_Success = success, ck_ErrorsFound = found,
                                  ck_ErrorsFixed = fixed, ck_Message = output,
                                  ck_ExitCode = cr_exit r\<rparr>;
                           failed = (case cr_error r of
                                       Some e \<Rightarrow> if dflt then Some e else None
                                     | None \<Rightarrow> None)
                       in case failed of
                            Some e \<Rightarrow>
                              ((res, Some e), invalidateCommandResultCache
                                 (report progress (''failure'', 0, [''Check failed: '' @ err_msg e]) w4))
                          | None \<Rightarrow>
                              ((res, None), invalidateCommandResultCache
                                 (report progress
                                    (if success then (''success'', 100, [''Check completed successfully''])
                                     else (''failure'', 0, [''Check failed with errors''])) w4)))))"

definition clean_verdict :: verdict where "clean_verdict = (True, False, False, False)"
definition fixed_verdict :: verdict where "fixed_verdict = (True, True, True, False)"
definition uncorrected_verdict :: verdict where "uncorrected_verdict = (False, True, False, False)"
definition failed_verdict :: verdict where "failed_verdict = (False, True, False, True)"

lemmas verdict_defs = clean_verdict_def fixed_verdict_def uncorrected_verdict_def failed_verdict_def

definition says :: "string \<Rightarrow> string \<Rightarrow> bool" where
  "says output word = Contains (ToLower output) word"

definition Vfat_verdict :: "int \<Rightarrow> string \<Rightarrow> verdict" where
  "Vfat_verdict code output =
     (if code = 0 then clean_verdict else if code = 1 \<or> code = 2 then fixed_verdict
      else if code = 4 then uncorrected_verdict else failed_verdict)"

definition Xfs_verdict :: "check_options \<Rightarrow> int \<Rightarrow> string \<Rightarrow> verdict" where
  "Xfs_verdict o' code output =
     (if code = 0 then clean_verdict else if code = 1 then (True, True, co_AutoFix o', False)
      else if code = 2 then uncorrected_verdict else failed_verdict)"

definition Ntfs_verdict :: "int \<Rightarrow> string \<Rightarrow> verdict" where
  "Ntfs_verdict code output =
     (if code = 0 then
        (if says output ''repaired'' \<or> says output ''fixed'' then fixed_verdict else clean_verdict)
      else failed_verdict)"

definition Btrfs_verdict :: "check_options \<Rightarrow> int \<Rightarrow> string \<Rightarrow> verdict" where
  "Btrfs_verdict o' code output =
     (if code = 0 then
        (if says output ''error'' then (True, True, co_AutoFix o', False) else clean_verdict)
      else failed_verdict)"

definition Exfat_verdict :: "int \<Rightarrow> string \<Rightarrow> verdict" where
  "Exfat_verdict code output =
     (if code = 0 then clean_verdict else if code = 1 then fixed_verdict
      else if code = 4 then uncorrected_verdict else failed_verdict)"

definition F2fs_verdict :: "int \<Rightarrow> string \<Rightarrow> verdict" where
  "F2fs_verdict code output =
     (if code = 0 then (if says output ''fixed'' then fixed_verdict else clean_verdict)
      else failed_verdict)"

definition Gfs2_verdict :: "int \<Rightarrow> string \<Rightarrow> verdict" where
  "Gfs2_verdict code output =
     (if code = 0 then clean_verdict else if code = 1 \<or> code = 2 then fixed_verdict
      else if code = 4 then uncorrected_verdict else failed_verdict)"

definition Hfsplus_verdict :: "int \<Rightarrow> string \<Rightarrow> verdict" where
  "Hfsplus_verdict code output =
     (let repaired = says output ''repaired'' \<or> says output ''fixed'' in
      if code = 0 then (if repaired then fixed_verdict else clean_verdict)
      else (False, True, repaired, True))"

definition Reiserfs_verdict :: "int \<Rightarrow> string \<Rightarrow> verdict" where
  "Reiserfs_verdict code output =
     (if code = 0 then clean_verdict else if code = 1 \<or> code = 2 then fixed_verdict
      else if code = 4 \<or> code = 6 then uncorrected_verdict else failed_verdict)"

definition Vfat_Check ::
  "fs_env \<Rightarrow> adapter \<Rightarrow> string \<Rightarrow> check_options \<Rightarrow> bool \<Rightarrow> fs_world
   \<Rightarrow> (check_result \<times> err option) \<times> fs_world" where
  "Vfat_Check env a device o' progress w =
     simple_check env ''vfat'' (fsckCommand a)
       ([if co_AutoFix o' then ''-a'' else ''-n''] @ opt_arg (co_Verbose o') ''-v'' @ [device]) Vfat_verdict progress w"

definition Ntfs_Check ::
  "fs_env \<Rightarrow> adapter \<Rightarrow> string \<Rightarrow> check_options \<Rightarrow> bool \<Rightarrow> fs_world
   \<Rightarrow> (check_result \<times> err option) \<times> fs_world" where
  "Ntfs_Check env a device o' progress w =
     simple_check env ''ntfs'' (fsckCommand a)
       (opt_arg (\<not> co_AutoFix o') ''-n'' @ [device]) Ntfs_verdict progress w"

definition Btrfs_Check ::
  "fs_env \<Rightarrow> adapter \<Rightarrow> string \<Rightarrow> check_options \<Rightarrow> bool \<Rightarrow> fs_world
   \<Rightarrow> (check_result \<times> err option) \<times> fs_world" where
  "Btrfs_Check env a device o' progress w =
     simple_check env ''btrfs'' ''btrfs''
       ([''check''] @ [if co_AutoFix o' then ''--repair'' else ''--readonly''] @ opt_arg (co_Force o') ''--force'' @ [device]) (Btrfs_verdict o') progress w"

definition Xfs_Check ::
  "fs_env \<Rightarrow> adapter \<Rightarrow> string \<Rightarrow> check_options \<Rightarrow> bool \<Rightarrow> fs_world
   \<Rightarrow> (check_result \<times> err option) \<times> fs_world" where
  "Xfs_Check env a device o' progress w =
     simple_check env ''xfs'' (fsckCommand a)
       (opt_arg (\<not> co_AutoFix o') ''-n'' @ opt_arg (co_Verbose o') ''-v'' @ [device]) (Xfs_verdict o') progress w"

definition Exfat_Check ::
  "fs_env \<Rightarrow> adapter \<Rightarrow> string \<Rightarrow> check_options \<Rightarrow> bool \<Rightarrow> fs_world
   \<Rightarrow> (check_result \<times> err option) \<times> fs_world" where
  "Exfat_Check env a device o' progress w =
     simple_check env ''exfat'' (fsckCommand a)
       ([if co_AutoFix o' then ''-y'' else ''-n''] @ opt_arg (co_Verbose o') ''-v'' @ [device]) Exfat_verdict progress w"

definition F2fs_Check ::
  "fs_env \<Rightarrow> adapter \<Rightarrow> string \<Rightarrow> check_options \<Rightarrow> bool \<Rightarrow> fs_world
   \<Rightarrow> (check_result \<times> err option) \<times> fs_world" where
  "F2fs_Check env a device o' progress w =
     simple_check env ''f2fs'' (fsckCommand a)
       (opt_arg (co_AutoFix o') ''-a'' @ opt_arg (co_Force o') ''-f'' @ [device]) F2fs_verdict progress w"

definition Gfs2_Check ::
  "fs_env \<Rightarrow> adapter \<Rightarrow> string \<Rightarrow> check_options \<Rightarrow> bool \<Rightarrow> fs_world
   \<Rightarrow> (check_result \<times> err option) \<times> fs_world" where
  "Gfs2_Check env a device o' progress w =
     simple_check env ''gfs2'' (fsckCommand a)
       ([if co_AutoFix o' then ''-y'' else ''-n''] @ [device]) Gfs2_verdict progress w"

definition Hfsplus_Check ::
  "fs_env \<Rightarrow> adapter \<Rightarrow> string \<Rightarrow> check_options \<Rightarrow> bool \<Rightarrow> fs_world
   \<Rightarrow> (check_result \<times> err option) \<times> fs_world" where
  "Hfsplus_Check env a device o' progress w =
     simple_check env ''hfsplus'' (fsckCommand a)
       (opt_arg (co_Force o') ''-f'' @ [device]) Hfsplus_verdict progress w"

definition Reiserfs_Check ::
  "fs_env \<Rightarrow> adapter \<Rightarrow> string \<Rightarrow> check_options \<Rightarrow> bool \<Rightarrow> fs_world
   \<Rightarrow> (check_result \<times> err option) \<times> fs_world" where
  "Reiserfs_Check env a device o' progress w =
     simple_check env ''reiserfs'' (fsckCommand a)
       ([if co_AutoFix o' then ''--fix-fixable'' else ''--check''] @ [device]) Reiserfs_verdict progress w"

text \<open>
  ext4: the notes of the running report shadow the collected ones, and only the
  \<open>default\<close> branch appends to them.
\<close>

definition Ext4_Check ::
  "fs_env \<Rightarrow> adapter \<Rightarrow> string \<Rightarrow> check_options \<Rightarrow> bool \<Rightarrow> fs_world
   \<Rightarrow> (check_result \<times> err option) \<times> fs_world" where
  "Ext4_Check env a device o' progress w =
     (let notes = [''Starting ext4 filesystem check''];
          w1 = report progress (''start'', 0, notes) w;
          args = [if co_AutoFix o' then ''-y'' else ''-n''] @ opt_arg (co_Force o') ''-f'' @
                 opt_arg (co_Verbose o') ''-v'' @ [device];
          w2 = report progress (''running'', 999, [''Progress status not supported for fsck.ext4'']) w1
      in case run_progress env (fsckCommand a) args w2 of
           ((ls, r), w3) \<Rightarrow>
             (case drainCommandOutput progress 999 (Some notes) ls w3 of
                ((outs, _, n), w4) \<Rightarrow>
                  let res = (\<lambda>s f x. \<lparr>ck_Success = s, ck_ErrorsFound = f, ck_ErrorsFixed = x,
                                      ck_Message = Join outs [CHR 0x0A],
                                      ck_ExitCode = cr_exit r\<rparr>);
                      done = (\<lambda>rep. invalidateCommandResultCache (report progress rep w4))
                  in if cr_exit r = 0 then
                       ((res True False False, None),
                        done (''success'', 100, [''Check completed: no errors found'']))
                     else if cr_exit r = 1 \<or> cr_exit r = 2 then
                       ((res True True True, None),
                        done (''success'', 100, [''Check completed: errors corrected'']))
                     else if cr_exit r = 4 then
                       ((res False True False, None),
                        done (''failure'', 0, [''Check failed: errors left uncorrected'']))
                     else
                       ((res False True False, cr_error r),
                        done (''failure'', 0, (case n of None \<Rightarrow> [] | Some x \<Rightarrow> x) @
                                             [''Check failed with exit code'']))))"

definition unsupported_check ::
  "string \<Rightarrow> string \<Rightarrow> bool \<Rightarrow> fs_world \<Rightarrow> (check_result \<times> err option) \<times> fs_world" where
  "unsupported_check msg detail progress w =
     ((\<lparr>ck_Success = False, ck_ErrorsFound = False, ck_ErrorsFixed = False, ck_Message = msg,
        ck_ExitCode = 1\<rparr>, Some (E ErrorOther detail)),
      invalidateCommandResultCache (report progress (''failure'', 0, [msg]) w))"

definition Zfs_Check ::
  "fs_env \<Rightarrow> adapter \<Rightarrow> string \<Rightarrow> check_options \<Rightarrow> bool \<Rightarrow> fs_world
   \<Rightarrow> (check_result \<times> err option) \<times> fs_world" where
  "Zfs_Check env a device o' =
     unsupported_check ''ZFS check is not supported by SRAT''
       (''ZFS check is not supported by SRAT. ZFS health checks are pool-level and not available ''
        @ ''via partition check API'')"

definition Apfs_Check ::
  "fs_env \<Rightarrow> adapter \<Rightarrow> string \<Rightarrow> check_options \<Rightarrow> bool \<Rightarrow> fs_world
   \<Rightarrow> (check_result \<times> err option) \<times> fs_world" where
  "Apfs_Check env a device o' =
     unsupported_check ''APFS filesystem checking is not supported on Linux''
       (''APFS filesystem checking is not supported on Linux. APFS is read-only on this system'')"

definition Check ::
  "fs_env \<Rightarrow> adapter \<Rightarrow> string \<Rightarrow> check_options \<Rightarrow> bool \<Rightarrow> fs_world
   \<Rightarrow> (check_result \<times> err option) \<times> fs_world" where
  "Check env a = (case ad_kind a of
     Ext4 \<Rightarrow> Ext4_Check env a | Vfat \<Rightarrow> Vfat_Check env a | Ntfs \<Rightarrow> Ntfs_Check env a
   | Btrfs \<Rightarrow> Btrfs_Check env a | Xfs \<Rightarrow> Xfs_Check env a | Exfat \<Rightarrow> Exfat_Check env a
   | F2fs \<Rightarrow> F2fs_Check env a | Gfs2 \<Rightarrow> Gfs2_Check env a | Hfsplus \<Rightarrow> Hfsplus_Check env a
   | Reiserfs \<Rightarrow> Reiserfs_Check env a | Zfs \<Rightarrow> Zfs_Check env a | Apfs \<Rightarrow> Apfs_Check env a)"

section \<open>Labels\<close>

text \<open>
  A query or a change runs one command, cached or not; a failed run is an error, a non-zero exit
  code too, and otherwise the output is read.
\<close>

type_synonym runner = "fs_world \<Rightarrow> (string \<times> int \<times> err option) \<times> fs_world"

definition tool_error :: "string \<Rightarrow> int \<Rightarrow> string \<Rightarrow> err" where
  "tool_error tool code output =
     E ErrorOther (tool @ '' failed with exit code '' @ Itoa_int code @ '': '' @ output)"

definition query :: "string \<Rightarrow> runner \<Rightarrow> (string \<Rightarrow> string) \<Rightarrow> fs_world \<Rightarrow> string res \<times> fs_world" where
  "query tool run parse w =
     (case run w of
        ((output, code, e), w') \<Rightarrow>
          (case e of
             Some x \<Rightarrow> (Err x, w')
           | None \<Rightarrow> if code \<noteq> 0 then (Err (tool_error tool code output), w')
                     else (Ok (parse output), w')))"

definition change :: "string \<Rightarrow> runner \<Rightarrow> fs_world \<Rightarrow> err option \<times> fs_world" where
  "change tool run w =
     (case run w of
        ((output, code, e), w') \<Rightarrow>
          (case e of
             Some x \<Rightarrow> (Some x, invalidateCommandResultCache w')
           | None \<Rightarrow> (if code \<noteq> 0 then Some (tool_error tool code output) else None,
                      invalidateCommandResultCache w')))"

definition lines :: "string \<Rightarrow> string list" where
  "lines output = Split output (CHR 0x0A)"

definition after_colon :: "string \<Rightarrow> string option" where
  "after_colon line = (case SplitN2 line (CHR '':'') of [_, v] \<Rightarrow> Some (TrimSpace v) | _ \<Rightarrow> None)"

definition or_empty :: "string option \<Rightarrow> string" where
  "or_empty x = (case x of None \<Rightarrow> [] | Some v \<Rightarrow> v)"

definition Ext4_label :: "string \<Rightarrow> string" where
  "Ext4_label output =
     or_empty (first_some (\<lambda>line.
        if HasPrefix line ''Filesystem volume name:'' then
          (case after_colon line of
             Some v \<Rightarrow> Some (if v = ''<none>'' then [] else v)
           | None \<Rightarrow> None)
        else None) (lines output))"

definition TrimChar :: "char \<Rightarrow> string \<Rightarrow> string" where
  "TrimChar c s = rev (dropWhile (\<lambda>x. x = c) (rev (dropWhile (\<lambda>x. x = c) s)))"

definition Xfs_label :: "string \<Rightarrow> string" where
  "Xfs_label output =
     or_empty (first_some (\<lambda>line.
        if Contains line ''label = '' then
          (case SplitN2 line (CHR ''='') of
             [_, v] \<Rightarrow> Some (TrimChar (CHR 0x22) (TrimSpace v)) | _ \<Rightarrow> None)
        else None) (lines output))"

definition Btrfs_label :: "string \<Rightarrow> string" where
  "Btrfs_label output =
     or_empty (first_some (\<lambda>line.
        case Index line ''Label:'' of
          None \<Rightarrow> None
        | Some idx \<Rightarrow>
            let part = TrimSpace (drop (idx + 6) line) in
            if HasPrefix part [CHR 0x27] then
              (case Index (drop 1 part) [CHR 0x27] of
                 Some e \<Rightarrow> Some (take e (drop 1 part)) | None \<Rightarrow> None)
            else if HasPrefix part ''none'' then Some [] else None) (lines output))"

definition Exfat_label :: "string \<Rightarrow> string" where
  "Exfat_label output =
     or_empty (first_some (\<lambda>line.
        if HasPrefix line ''label:'' then Some (TrimSpace (TrimPrefix line ''label:'')) else None)
        (lines output))"

definition line_label :: "string \<Rightarrow> string \<Rightarrow> string" where
  "line_label key output =
     or_empty (first_some (\<lambda>line. if Contains line key then after_colon line else None) (lines output))"

definition Ext4_GetLabel :: "fs_env \<Rightarrow> adapter \<Rightarrow> string \<Rightarrow> fs_world \<Rightarrow> string res \<times> fs_world" where
  "Ext4_GetLabel env a device =
     query ''tune2fs'' (runCommand env (labelCommand a) [''-l'', device]) Ext4_label"

definition Vfat_GetLabel :: "fs_env \<Rightarrow> adapter \<Rightarrow> string \<Rightarrow> fs_world \<Rightarrow> string res \<times> fs_world" where
  "Vfat_GetLabel env a device =
     query ''fatlabel'' (runCommandCached env (labelCommand a) [device]) TrimSpace"

definition Ntfs_GetLabel :: "fs_env \<Rightarrow> adapter \<Rightarrow> string \<Rightarrow> fs_world \<Rightarrow> string res \<times> fs_world" where
  "Ntfs_GetLabel env a device =
     query ''ntfslabel'' (runCommandCached env (labelCommand a) [device]) TrimSpace"

definition Btrfs_GetLabel :: "fs_env \<Rightarrow> adapter \<Rightarrow> string \<Rightarrow> fs_world \<Rightarrow> string res \<times> fs_world" where
  "Btrfs_GetLabel env a device =
     query ''btrfs filesystem show'' (runCommand env ''btrfs'' [''filesystem'', ''show'', device])
       Btrfs_label"

definition Xfs_GetLabel :: "fs_env \<Rightarrow> adapter \<Rightarrow> string \<Rightarrow> fs_world \<Rightarrow> string res \<times> fs_world" where
  "Xfs_GetLabel env a device =
     query ''xfs_admin'' (runCommandCached env (labelCommand a) [''-l'', device]) Xfs_label"

definition Exfat_GetLabel :: "fs_env \<Rightarrow> adapter \<Rightarrow> string \<Rightarrow> fs_world \<Rightarrow> string res \<times> fs_world" where
  "Exfat_GetLabel env a device =
     query ''exfatlabel'' (runCommand env (labelCommand a) [device]) Exfat_label"

definition F2fs_GetLabel :: "fs_env \<Rightarrow> adapter \<Rightarrow> string \<Rightarrow> fs_world \<Rightarrow> string res \<times> fs_world" where
  "F2fs_GetLabel env a device =
     query ''fsck.f2fs'' (runCommand env (fsckCommand a) [''-d'', ''1'', device])
       (line_label ''volume_name'')"

definition Reiserfs_GetLabel :: "fs_env \<Rightarrow> adapter \<Rightarrow> string \<Rightarrow> fs_world \<Rightarrow> string res \<times> fs_world" where
  "Reiserfs_GetLabel env a device =
     query ''reiserfstune'' (runCommandCached env (labelCommand a) [device]) (line_label ''LABEL:'')"

definition Gfs2_GetLabel :: "fs_env \<Rightarrow> adapter \<Rightarrow> string \<Rightarrow> fs_world \<Rightarrow> string res \<times> fs_world" where
  "Gfs2_GetLabel env a device =
     Pair (Err (E ErrorOther ''GFS2 does not support filesystem labels''))"

definition Hfsplus_GetLabel :: "fs_env \<Rightarrow> adapter \<Rightarrow> string \<Rightarrow> fs_world \<Rightarrow> string res \<times> fs_world" where
  "Hfsplus_GetLabel env a device =
     Pair (Err (E ErrorOther ''HFS+ label retrieval not supported via command line tools''))"

definition Zfs_GetLabel :: "fs_env \<Rightarrow> adapter \<Rightarrow> string \<Rightarrow> fs_world \<Rightarrow> string res \<times> fs_world" where
  "Zfs_GetLabel env a device =
     Pair (Err (E ErrorOther (''ZFS label retrieval is not supported by SRAT. ''
       @ ''ZFS naming is dataset/pool-level'')))"

definition Apfs_GetLabel :: "fs_env \<Rightarrow> adapter \<Rightarrow> string \<Rightarrow> fs_world \<Rightarrow> string res \<times> fs_world" where
  "Apfs_GetLabel env a device =
     Pair (Err (E ErrorOther (''APFS label retrieval is not supported on Linux. ''
       @ ''APFS is read-only on this system'')))"

definition unsupported_label :: "string \<Rightarrow> fs_world \<Rightarrow> err option \<times> fs_world" where
  "unsupported_label msg w = (Some (E ErrorOther msg), invalidateCommandResultCache w)"

definition Ext4_SetLabel :: "fs_env \<Rightarrow> adapter \<Rightarrow> string \<Rightarrow> string \<Rightarrow> fs_world \<Rightarrow> err option \<times> fs_world" where
  "Ext4_SetLabel env a device l =
     change ''tune2fs'' (runCommand env (labelCommand a) [''-L'', l, device])"

definition Vfat_SetLabel :: "fs_env \<Rightarrow> adapter \<Rightarrow> string \<Rightarrow> string \<Rightarrow> fs_world \<Rightarrow> err option \<times> fs_world" where
  "Vfat_SetLabel env a device l =
     change ''fatlabel'' (runCommandCached env (labelCommand a) [device, l])"

definition Ntfs_SetLabel :: "fs_env \<Rightarrow> adapter \<Rightarrow> string \<Rightarrow> string \<Rightarrow> fs_world \<Rightarrow> err option \<times> fs_world" where
  "Ntfs_SetLabel env a device l =
     change ''ntfslabel'' (runCommandCached env (labelCommand a) [device, l])"

definition Btrfs_SetLabel :: "fs_env \<Rightarrow> adapter \<Rightarrow> string \<Rightarrow> string \<Rightarrow> fs_world \<Rightarrow> err option \<times> fs_world" where
  "Btrfs_SetLabel env a device l =
     change ''btrfs filesystem label''
       (runCommand env ''btrfs'' [''filesystem'', ''label'', device, l])"

definition Xfs_SetLabel :: "fs_env \<Rightarrow> adapter \<Rightarrow> string \<Rightarrow> string \<Rightarrow> fs_world \<Rightarrow> err option \<times> fs_world" where
  "Xfs_SetLabel env a device l =
     change ''xfs_admin'' (runCommandCached env (labelCommand a) [''-L'', l, device])"

definition Exfat_SetLabel :: "fs_env \<Rightarrow> adapter \<Rightarrow> string \<Rightarrow> string \<Rightarrow> fs_world \<Rightarrow> err option \<times> fs_world" where
  "Exfat_SetLabel env a device l =
     change ''exfatlabel'' (runCommand env (labelCommand a) [device, l])"

definition Reiserfs_SetLabel :: "fs_env \<Rightarrow> adapter \<Rightarrow> string \<Rightarrow> string \<Rightarrow> fs_world \<Rightarrow> err option \<times> fs_world" where
  "Reiserfs_SetLabel env a device l =
     change ''reiserfstune'' (runCommandCached env (labelCommand a) [''-l'', l, device])"

definition F2fs_SetLabel :: "fs_env \<Rightarrow> adapter \<Rightarrow> string \<Rightarrow> string \<Rightarrow> fs_world \<Rightarrow> err option \<times> fs_world" where
  "F2fs_SetLabel env a device l =
     unsupported_label (''F2FS does not support changing labels after format. Label must ''
       @ ''be set during mkfs.f2fs with -l option'')"

definition Gfs2_SetLabel :: "fs_env \<Rightarrow> adapter \<Rightarrow> string \<Rightarrow> string \<Rightarrow> fs_world \<Rightarrow> err option \<times> fs_world" where
  "Gfs2_SetLabel env a device l =
     unsupported_label (''GFS2 does not support filesystem labels'')"

definition Hfsplus_SetLabel :: "fs_env \<Rightarrow> adapter \<Rightarrow> string \<Rightarrow> string \<Rightarrow> fs_world \<Rightarrow> err option \<times> fs_world" where
  "Hfsplus_SetLabel env a device l =
     unsupported_label (''HFS+ does not support changing labels after format. Label must ''
       @ ''be set during mkfs.hfsplus with -v option'')"

definition Zfs_SetLabel :: "fs_env \<Rightarrow> adapter \<Rightarrow> string \<Rightarrow> string \<Rightarrow> fs_world \<Rightarrow> err option \<times> fs_world" where
  "Zfs_SetLabel env a device l =
     unsupported_label (''ZFS label modification is not supported by SRAT. ZFS naming is ''
       @ ''dataset/pool-level'')"

definition Apfs_SetLabel :: "fs_env \<Rightarrow> adapter \<Rightarrow> string \<Rightarrow> string \<Rightarrow> fs_world \<Rightarrow> err option \<times> fs_world" where
  "Apfs_SetLabel env a device l =
     unsupported_label (''APFS label modification is not supported on Linux. APFS is ''
       @ ''read-only on this system'')"

definition GetLabel :: "fs_env \<Rightarrow> adapter \<Rightarrow> string \<Rightarrow> fs_world \<Rightarrow> string res \<times> fs_world" where
  "GetLabel env a = (case ad_kind a of
     Ext4 \<Rightarrow> Ext4_GetLabel env a | Vfat \<Rightarrow> Vfat_GetLabel env a
   | Ntfs \<Rightarrow> Ntfs_GetLabel env a | Btrfs \<Rightarrow> Btrfs_GetLabel env a
   | Xfs \<Rightarrow> Xfs_GetLabel env a | Exfat \<Rightarrow> Exfat_GetLabel env a
   | F2fs \<Rightarrow> F2fs_GetLabel env a | Gfs2 \<Rightarrow> Gfs2_GetLabel env a
   | Hfsplus \<Rightarrow> Hfsplus_GetLabel env a | Reiserfs \<Rightarrow> Reiserfs_GetLabel env a
   | Zfs \<Rightarrow> Zfs_GetLabel env a | Apfs \<Rightarrow> Apfs_GetLabel env a)"

definition SetLabel :: "fs_env \<Rightarrow> adapter \<Rightarrow> string \<Rightarrow> string \<Rightarrow> fs_world \<Rightarrow> err option \<times> fs_world" where
  "SetLabel env a = (case ad_kind a of
     Ext4 \<Rightarrow> Ext4_SetLabel env a | Vfat \<Rightarrow> Vfat_SetLabel env a
   | Ntfs \<Rightarrow> Ntfs_SetLabel env a | Btrfs \<Rightarrow> Btrfs_SetLabel env a
   | Xfs \<Rightarrow> Xfs_SetLabel env a | Exfat \<Rightarrow> Exfat_SetLabel env a
   | F2fs \<Rightarrow> F2fs_SetLabel env a | Gfs2 \<Rightarrow> Gfs2_SetLabel env a
   | Hfsplus \<Rightarrow> Hfsplus_SetLabel env a | Reiserfs \<Rightarrow> Reiserfs_SetLabel env a
   | Zfs \<Rightarrow> Zfs_SetLabel env a | Apfs \<Rightarrow> Apfs_SetLabel env a)"

section \<open>State\<close>

definition Ext4_state_line :: "fs_state \<Rightarrow> string \<Rightarrow> fs_state" where
  "Ext4_state_line st line =
     (case after_colon line of
        None \<Rightarrow> st
      | Some v \<Rightarrow>
          if HasPrefix line ''Filesystem state:'' then
            st\<lparr>IsClean := says v ''clean'', HasErrors := says v ''error'', StateDescription := v\<rparr>
          else if HasPrefix line ''Mount count:'' then add_info ''mountCount'' (InfoStr v) st
          else if HasPrefix line ''Maximum mount count:'' then add_info ''maxMountCount'' (InfoStr v) st
          else st)"

definition Ext4_GetState :: "fs_env \<Rightarrow> adapter \<Rightarrow> string \<Rightarrow> fs_world \<Rightarrow> fs_state res \<times> fs_world" where
  "Ext4_GetState env a device w =
     (case runCommandCached env (stateCommand a) [''-l'', device] w of
        ((output, code, e), w') \<Rightarrow>
          (case e of
             Some x \<Rightarrow> (Err x, w')
           | None \<Rightarrow>
               if code \<noteq> 0 then (Err (tool_error ''tune2fs'' code output), w')
               else
                 let st = foldl Ext4_state_line empty_state (lines output);
                     st1 = st\<lparr>IsMounted := isDeviceMounted env device\<rparr>
                 in (Ok (if StateDescription st1 = [] then st1\<lparr>StateDescription := ''Unknown''\<rparr>
                         else st1), w')))"

definition Vfat_GetState :: "fs_env \<Rightarrow> adapter \<Rightarrow> string \<Rightarrow> fs_world \<Rightarrow> fs_state res \<times> fs_world" where
  "Vfat_GetState env a device w =
     (case runCommandCached env (stateCommand a) [''-n'', device] w of
        ((output, code, e), w') \<Rightarrow>
          (case e of
             Some x \<Rightarrow> (Err x, w')
           | None \<Rightarrow>
               (Ok (add_info ''fsckOutput'' (InfoStr output)
                  (empty_state\<lparr>IsClean := code = 0, HasErrors := code \<noteq> 0,
                     StateDescription := (if code = 0 then ''Clean'' else ''Has errors''),
                     IsMounted := isDeviceMounted env device\<rparr>)), w')))"

definition Xfs_GetState :: "fs_env \<Rightarrow> adapter \<Rightarrow> string \<Rightarrow> fs_world \<Rightarrow> fs_state res \<times> fs_world" where
  "Xfs_GetState env a device w =
     (case runCommandCached env (stateCommand a) [''-n'', device] w of
        ((output, code, e), w') \<Rightarrow>
          (case e of
             Some x \<Rightarrow> (Err x, w')
           | None \<Rightarrow>
               (Ok (add_info ''repairOutput'' (InfoStr output)
                  (empty_state\<lparr>IsClean := code = 0, HasErrors := code \<noteq> 0,
                     StateDescription := (if code = 0 then ''Clean''
                                          else if code = 1 then ''Has correctable errors''
                                          else ''Has errors''),
                     IsMounted := isDeviceMounted env device\<rparr>)), w')))"

definition faulty_text :: string where
  "faulty_text = ''Has errors or inconsistencies''"

definition Btrfs_GetState :: "fs_env \<Rightarrow> adapter \<Rightarrow> string \<Rightarrow> fs_world \<Rightarrow> fs_state res \<times> fs_world" where
  "Btrfs_GetState env a device w =
     (let describe = (\<lambda>st. st\<lparr>StateDescription := (if IsClean st then ''Clean'' else faulty_text),
                              IsMounted := isDeviceMounted env device\<rparr>)
      in case runCommandCached env (stateCommand a) [''device'', ''stats'', device] w of
        ((output, code, e), w1) \<Rightarrow>
          if e = None \<and> code = 0 then
            let bad = says output ''error'' in
            (Ok (describe ((add_info ''deviceStats'' (InfoStr output) empty_state)
                   \<lparr>HasErrors := bad, IsClean := \<not> bad\<rparr>)), w1)
          else
            (case runCommandCached env (stateCommand a) [''check'', ''--readonly'', device] w1 of
               ((out2, code2, e2), w2) \<Rightarrow>
                 (case e2 of
                    Some x \<Rightarrow> (Err x, w2)
                  | None \<Rightarrow>
                      (Ok (describe (add_info ''checkOutput'' (InfoStr out2)
                         (empty_state\<lparr>IsClean := code2 = 0, HasErrors := code2 \<noteq> 0\<rparr>))), w2))))"

text \<open>
  The states of the remaining checkers: by the exit code, with the output kept when it is not
  empty; exFAT passes on the error of the command, F2FS, GFS2, HFS+ and ReiserFS ignore it.
\<close>

definition coded_state ::
  "(int \<Rightarrow> (bool \<times> bool \<times> string)) \<Rightarrow> fs_env \<Rightarrow> string \<Rightarrow> string \<Rightarrow> int \<Rightarrow> fs_state" where
  "coded_state decode env device output code =
     (case decode code of
        (clean, bad, desc) \<Rightarrow>
          let st = empty_state\<lparr>IsClean := clean, HasErrors := bad, StateDescription := desc,
                               IsMounted := isDeviceMounted env device\<rparr>
          in if output \<noteq> [] then add_info ''checkOutput'' (InfoStr output) st else st)"

definition state_codes :: "int list \<Rightarrow> int \<Rightarrow> bool \<times> bool \<times> string" where
  "state_codes bad code =
     (if code = 0 then (True, False, ''Clean'')
      else if code \<in> set bad then (False, True, ''Has errors'')
      else (False, False, ''Unknown''))"

definition zero_is_clean :: "int \<Rightarrow> bool \<times> bool \<times> string" where
  "zero_is_clean code =
     (if code = 0 then (True, False, ''Clean'') else (False, True, ''Has errors''))"

definition Exfat_GetState :: "fs_env \<Rightarrow> adapter \<Rightarrow> string \<Rightarrow> fs_world \<Rightarrow> fs_state res \<times> fs_world" where
  "Exfat_GetState env a device w =
     (case runCommandCached env (stateCommand a) [''-n'', device] w of
        ((output, code, e), w') \<Rightarrow>
          (case e of
             Some x \<Rightarrow> (Err x, w')
           | None \<Rightarrow> (Ok (coded_state (state_codes [1, 4]) env device output code), w')))"

definition F2fs_GetState :: "fs_env \<Rightarrow> adapter \<Rightarrow> string \<Rightarrow> fs_world \<Rightarrow> fs_state res \<times> fs_world" where
  "F2fs_GetState env a device w =
     (case runCommandCached env (stateCommand a) [device] w of
        ((output, code, _), w') \<Rightarrow> (Ok (coded_state zero_is_clean env device output code), w'))"

definition Gfs2_GetState :: "fs_env \<Rightarrow> adapter \<Rightarrow> string \<Rightarrow> fs_world \<Rightarrow> fs_state res \<times> fs_world" where
  "Gfs2_GetState env a device w =
     (case runCommandCached env (stateCommand a) [''-n'', device] w of
        ((output, code, _), w') \<Rightarrow> (Ok (coded_state (state_codes [1, 2, 4]) env device output code), w'))"

definition Hfsplus_GetState :: "fs_env \<Rightarrow> adapter \<Rightarrow> string \<Rightarrow> fs_world \<Rightarrow> fs_state res \<times> fs_world" where
  "Hfsplus_GetState env a device w =
     (case runCommandCached env (stateCommand a) [device] w of
        ((output, code, _), w') \<Rightarrow> (Ok (coded_state zero_is_clean env device output code), w'))"

definition Reiserfs_GetState :: "fs_env \<Rightarrow> adapter \<Rightarrow> string \<Rightarrow> fs_world \<Rightarrow> fs_state res \<times> fs_world" where
  "Reiserfs_GetState env a device w =
     (case runCommandCached env (stateCommand a) [''--check'', device] w of
        ((output, code, _), w') \<Rightarrow> (Ok (coded_state (state_codes [1, 2, 4, 6]) env device output code), w'))"

definition getLastUnmountedState :: "string \<Rightarrow> fs_world \<Rightarrow> fs_state option" where
  "getLastUnmountedState device w = map_of (lastUnmountedState w) device"

definition setLastUnmountedState :: "string \<Rightarrow> fs_state \<Rightarrow> fs_world \<Rightarrow> fs_world" where
  "setLastUnmountedState device st w =
     w\<lparr>lastUnmountedState :=
         AList.update device (st\<lparr>IsMounted := False\<rparr>) (lastUnmountedState w)\<rparr>"

definition Ntfs_GetState :: "fs_env \<Rightarrow> adapter \<Rightarrow> string \<Rightarrow> fs_world \<Rightarrow> fs_state res \<times> fs_world" where
  "Ntfs_GetState env a device w =
     (if isDeviceMounted env device then
        (case getLastUnmountedState device w of
           Some st \<Rightarrow>
             (Ok (add_info ''stateSource'' (InfoStr ''cached_unmounted_state'')
                (st\<lparr>IsMounted := True,
                    StateDescription :=
                      (if StateDescription st \<noteq> []
                       then ''Mounted (last known: '' @ StateDescription st @ '')''
                       else ''Mounted (last known state)'')\<rparr>)), w)
         | None \<Rightarrow>
             (Ok (add_info ''stateSource'' (InfoStr ''assumed_clean_mounted'')
                (empty_state\<lparr>IsMounted := True, IsClean := True,
                    StateDescription :=
                      ''Mounted (no previous unmounted state; assuming clean)''\<rparr>)), w))
      else
        (case runCommandCached env (stateCommand a) [''-n'', device] w of
           ((output, code, e), w') \<Rightarrow>
             (case e of
                Some x \<Rightarrow> (Err x, w')
              | None \<Rightarrow>
                  let clean = (code = 0 \<and> \<not> says output ''error'');
                      st = add_info ''ntfsfixOutput'' (InfoStr output)
                        (empty_state\<lparr>IsClean := clean,
                           HasErrors := code \<noteq> 0 \<or> says output ''error'',
                           StateDescription := (if clean then ''Clean'' else faulty_text)\<rparr>)
                  in (Ok st, setLastUnmountedState device st w'))))"

definition Zfs_GetState :: "fs_env \<Rightarrow> adapter \<Rightarrow> string \<Rightarrow> fs_world \<Rightarrow> fs_state res \<times> fs_world" where
  "Zfs_GetState env a device w =
     (Ok (add_info ''note''
            (InfoStr (''ZFS health and repair are pool-level operations and are not exposed through ''
                      @ ''SRAT partition state APIs''))
            (empty_state\<lparr>StateDescription := ''Unknown (pool-level checks required)'',
                         IsMounted := isDeviceMounted env device\<rparr>)), w)"

definition Apfs_GetState :: "fs_env \<Rightarrow> adapter \<Rightarrow> string \<Rightarrow> fs_world \<Rightarrow> fs_state res \<times> fs_world" where
  "Apfs_GetState env a device w =
     (Ok (add_info ''note''
            (InfoStr (''APFS is read-only on Linux. No format/check tools available.''))
            (add_info ''readOnly'' (InfoBool True)
            (empty_state\<lparr>IsClean := True, StateDescription := ''Read-only (no Linux tools)'',
                         IsMounted := isDeviceMounted env device\<rparr>))), w)"

definition GetState :: "fs_env \<Rightarrow> adapter \<Rightarrow> string \<Rightarrow> fs_world \<Rightarrow> fs_state res \<times> fs_world" where
  "GetState env a = (case ad_kind a of
     Ext4 \<Rightarrow> Ext4_GetState env a | Vfat \<Rightarrow> Vfat_GetState env a
   | Ntfs \<Rightarrow> Ntfs_GetState env a | Btrfs \<Rightarrow> Btrfs_GetState env a
   | Xfs \<Rightarrow> Xfs_GetState env a | Exfat \<Rightarrow> Exfat_GetState env a
   | F2fs \<Rightarrow> F2fs_GetState env a | Gfs2 \<Rightarrow> Gfs2_GetState env a
   | Hfsplus \<Rightarrow> Hfsplus_GetState env a | Reiserfs \<Rightarrow> Reiserfs_GetState env a
   | Zfs \<Rightarrow> Zfs_GetState env a | Apfs \<Rightarrow> Apfs_GetState env a)"

end
