(* ===== verification/Mount_Flags.thy ===== *)
theory Mount_Flags
  imports Fs_Adapters "HOL-Library.Char_ord" "HOL-Library.List_Lexorder"
begin

unbundle bit_operations_syntax

text \<open>
  Mount flags: the tables of the adapters (\<open>GetMountFlags\<close>), the kernel flags
  (\<open>dto/filesystem_mount_flags_linux.go\<close>), the conversions of the filesystem service between a
  list of flags and the two arguments of \<open>mount(2)\<close>, a bit mask and a data string
  (\<open>service/filesystem_service.go\<close>), and the two stored forms of the flags
  (\<open>dto/filesystem_type.go\<close>, \<open>dbom/mount_data_flag.go\<close>). A \<open>uintptr\<close> is a 64-bit word. The
  regular expressions that guard values are matched by Go's \<open>regexp\<close>; matching is a parameter
  \<open>re\<close>, which gives \<open>None\<close> for a pattern that does not compile.
\<close>

section \<open>Tables\<close>

definition switch_flag :: "string \<Rightarrow> string \<Rightarrow> mount_flag" where
  "switch_flag name desc =
     \<lparr>mf_Name = name, mf_Description = desc, mf_NeedsValue = False, mf_FlagValue = [],
      mf_ValueDescription = [], mf_ValueValidationRegex = []\<rparr>"

definition valued_flag :: "string \<Rightarrow> string \<Rightarrow> string \<Rightarrow> string \<Rightarrow> mount_flag" where
  "valued_flag name desc vdesc re =
     \<lparr>mf_Name = name, mf_Description = desc, mf_NeedsValue = True, mf_FlagValue = [],
      mf_ValueDescription = vdesc, mf_ValueValidationRegex = re\<rparr>"

definition Ext4_GetMountFlags :: "mount_flag list" where
  "Ext4_GetMountFlags =
     [valued_flag ''data'' ''Data journaling mode (ordered, writeback, journal)''
        ''One of: journal, ordered, writeback'' ''^(journal|ordered|writeback)$'',
      valued_flag ''errors'' ''Behavior on error (remount-ro, continue, panic)''
        ''One of: continue, remount-ro, panic'' ''^(continue|remount-ro|panic)$'',
      switch_flag ''discard'' ''Enable discard/TRIM support'',
      valued_flag ''barrier'' ''Enable/disable write barriers (0, 1)''
        ''0 or 1'' ''^[01]$'',
      switch_flag ''noauto_da_alloc'' ''Disable delayed allocation'',
      switch_flag ''journal_checksum'' ''Enable journal checksumming'',
      switch_flag ''journal_async_commit'' ''Commit data blocks asynchronously'']"

definition Vfat_GetMountFlags :: "mount_flag list" where
  "Vfat_GetMountFlags =
     [valued_flag ''uid'' ''Set owner of all files to user ID''
        ''User ID (numeric)'' ''^[0-9]+$'',
      valued_flag ''gid'' ''Set group of all files to group ID''
        ''Group ID (numeric)'' ''^[0-9]+$'',
      valued_flag ''fmask'' ''Set file permissions mask (octal)''
        ''Octal permission mask (e.g., 0022)'' ''^[0-7]{3,4}$'',
      valued_flag ''dmask'' ''Set directory permissions mask (octal)''
        ''Octal permission mask (e.g., 0022)'' ''^[0-7]{3,4}$'',
      valued_flag ''umask'' ''Set umask (octal) - overrides fmask/dmask''
        ''Octal permission mask (e.g., 0022)'' ''^[0-7]{3,4}$'',
      valued_flag ''iocharset'' ''I/O character set (e.g., utf8)''
        ''Character set name (e.g., utf8)'' ''^[a-zA-Z0-9_-]+$'',
      valued_flag ''codepage'' ''Codepage for short filenames (e.g., 437)''
        ''Codepage number (e.g., 437)'' ''^[0-9]+$'',
      valued_flag ''shortname'' ''Shortname case (lower, win95, winnt, mixed)''
        ''One of: lower, win95, winnt, mixed'' ''^(lower|win95|winnt|mixed)$'',
      valued_flag ''errors'' ''Behavior on error (remount-ro, continue, panic)''
        ''One of: continue, remount-ro, panic'' ''^(continue|remount-ro|panic)$'']"

definition Ntfs_GetMountFlags :: "mount_flag list" where
  "Ntfs_GetMountFlags =
     [valued_flag ''uid'' ''Set owner of all files to user ID''
        ''User ID (numeric)'' ''^[0-9]+$'',
      valued_flag ''gid'' ''Set group of all files to group ID''
        ''Group ID (numeric)'' ''^[0-9]+$'',
      valued_flag ''fmask'' ''Set file permissions mask (octal)''
        ''Octal permission mask (e.g., 0022)'' ''^[0-7]{3,4}$'',
      valued_flag ''dmask'' ''Set directory permissions mask (octal)''
        ''Octal permission mask (e.g., 0022)'' ''^[0-7]{3,4}$'',
      switch_flag ''permissions'' ''Respect NTFS permissions'',
      switch_flag ''acl'' ''Enable POSIX Access Control Lists support'',
      switch_flag ''exec'' ''Allow executing files (use with caution)'',
      valued_flag ''iocharset'' ''I/O character set (e.g., utf8)''
        ''Character set name (e.g., utf8)'' ''^[a-zA-Z0-9_-]+$'']"

definition Btrfs_GetMountFlags :: "mount_flag list" where
  "Btrfs_GetMountFlags =
     [valued_flag ''compress'' ''Enable compression''
        ''One of: zlib, lzo, zstd, or none'' ''^(zlib|lzo|zstd|none)$'',
      valued_flag ''compress-force'' ''Force compression on all files''
        ''One of: zlib, lzo, zstd'' ''^(zlib|lzo|zstd)$'',
      switch_flag ''autodefrag'' ''Enable automatic defragmentation'',
      switch_flag ''discard'' ''Enable discard/TRIM support'',
      switch_flag ''ssd'' ''Enable SSD-specific optimizations'',
      switch_flag ''nossd'' ''Disable SSD-specific optimizations'',
      valued_flag ''space_cache'' ''Enable space cache''
        ''One of: v1, v2'' ''^(v1|v2)$'',
      valued_flag ''subvol'' ''Mount specific subvolume''
        ''Subvolume path'' ''^[a-zA-Z0-9/_-]+$'',
      valued_flag ''subvolid'' ''Mount specific subvolume by ID''
        ''Subvolume ID (numeric)'' ''^[0-9]+$'']"

definition Xfs_GetMountFlags :: "mount_flag list" where
  "Xfs_GetMountFlags =
     [switch_flag ''inode64'' ''Enable 64-bit inode allocation for large filesystems'',
      switch_flag ''noquota'' ''Disable quota enforcement'',
      switch_flag ''usrquota'' ''Enable user quota enforcement'',
      switch_flag ''grpquota'' ''Enable group quota enforcement'',
      switch_flag ''prjquota'' ''Enable project quota enforcement'',
      switch_flag ''discard'' ''Enable discard/TRIM support'',
      switch_flag ''nouuid'' ''Ignore filesystem UUID to allow mounting duplicates'',
      valued_flag ''allocsize'' ''Set preferred allocation size''
        ''Size in bytes optionally with K, M, or G suffix (e.g., 1G)'' ''^[0-9]+([kKmMgG])?$'',
      valued_flag ''sunit'' ''Set stripe unit size (in 512-byte blocks)''
        ''Stripe unit in 512-byte blocks'' ''^[0-9]+$'',
      valued_flag ''swidth'' ''Set stripe width size (in 512-byte blocks)''
        ''Stripe width in 512-byte blocks'' ''^[0-9]+$'',
      valued_flag ''logbufs'' ''Number of log buffers''
        ''Integer between 2 and 8'' ''^[2-8]$'',
      valued_flag ''logbsize'' ''Log buffer size in bytes''
        ''One of: 16384, 32768, 65536, 131072, 262144'' ''^(16384|32768|65536|131072|262144)$'']"

definition Exfat_GetMountFlags :: "mount_flag list" where
  "Exfat_GetMountFlags =
     [valued_flag ''uid'' ''User ID for files''
        ''User ID'' (''^'' @ [CHR 0x5C] @ ''d+$''),
      valued_flag ''gid'' ''Group ID for files''
        ''Group ID'' (''^'' @ [CHR 0x5C] @ ''d+$''),
      valued_flag ''umask'' ''File mode creation mask''
        ''Octal mask (e.g., 022)'' ''^[0-7]{3,4}$'',
      valued_flag ''dmask'' ''Directory mode creation mask''
        ''Octal mask (e.g., 022)'' ''^[0-7]{3,4}$'',
      valued_flag ''fmask'' ''File mode creation mask (alternative to umask)''
        ''Octal mask (e.g., 022)'' ''^[0-7]{3,4}$'',
      valued_flag ''iocharset'' ''Character set for filename conversion''
        ''Charset name (e.g., utf8)'' ''^[a-zA-Z0-9_-]+$'',
      valued_flag ''errors'' ''Behavior on error (remount-ro, continue, panic)''
        ''One of: continue, remount-ro, panic'' ''^(continue|remount-ro|panic)$'']"

definition F2fs_GetMountFlags :: "mount_flag list" where
  "F2fs_GetMountFlags =
     [valued_flag ''background_gc'' ''Background garbage collection mode''
        ''One of: on, off, sync'' ''^(on|off|sync)$'',
      switch_flag ''disable_roll_forward'' ''Disable roll-forward recovery'',
      switch_flag ''discard'' ''Enable discard/TRIM support'',
      switch_flag ''no_heap'' ''Disable heap-style segment allocation'',
      switch_flag ''nouser_xattr'' ''Disable user extended attributes'',
      switch_flag ''noacl'' ''Disable POSIX Access Control Lists'',
      valued_flag ''active_logs'' ''Number of active logs''
        ''2, 4, or 6'' ''^[246]$'',
      switch_flag ''inline_data'' ''Enable inline data'',
      switch_flag ''inline_dentry'' ''Enable inline directory entries'']"

definition Gfs2_GetMountFlags :: "mount_flag list" where
  "Gfs2_GetMountFlags =
     [valued_flag ''lockproto'' ''Lock protocol name''
        ''Protocol name (e.g., lock_dlm, lock_nolock)'' ''^lock_[a-z]+$'',
      valued_flag ''locktable'' ''Lock table name''
        ''Table name'' ''^[a-zA-Z0-9_:.-]+$'',
      valued_flag ''hostdata'' ''Host-specific data''
        ''Host data string'' [],
      switch_flag ''spectator'' ''Mount as a spectator (read-only)'',
      switch_flag ''norecovery'' (''Don'' @ [CHR 0x27] @ ''t recover the journal''),
      valued_flag ''quota'' ''Quota enforcement mode''
        ''One of: off, account, on'' ''^(off|account|on)$'',
      valued_flag ''data'' ''Data journaling mode''
        ''One of: writeback, ordered'' ''^(writeback|ordered)$'']"

definition Hfsplus_GetMountFlags :: "mount_flag list" where
  "Hfsplus_GetMountFlags =
     [valued_flag ''uid'' ''User ID for files''
        ''User ID'' (''^'' @ [CHR 0x5C] @ ''d+$''),
      valued_flag ''gid'' ''Group ID for files''
        ''Group ID'' (''^'' @ [CHR 0x5C] @ ''d+$''),
      valued_flag ''umask'' ''File mode creation mask''
        ''Octal mask (e.g., 022)'' ''^[0-7]{3,4}$'',
      switch_flag ''force'' ''Force mount even with errors'',
      valued_flag ''nls'' ''Character set for filename conversion''
        ''Charset name (e.g., utf8)'' ''^[a-zA-Z0-9_-]+$'',
      switch_flag ''decompose'' ''Decompose Unicode filenames'']"

definition Reiserfs_GetMountFlags :: "mount_flag list" where
  "Reiserfs_GetMountFlags =
     [switch_flag ''conv'' ''Convert old format to new'',
      valued_flag ''hash'' ''Hash function to use''
        ''One of: rupasov, tea, r5, detect'' ''^(rupasov|tea|r5|detect)$'',
      switch_flag ''hashed_relocation'' ''Use hashed relocation'',
      switch_flag ''no_unhashed_relocation'' ''Disable unhashed relocation'',
      switch_flag ''noborder'' ''Disable border allocator'',
      switch_flag ''nolog'' ''Disable journaling'',
      switch_flag ''notail'' ''Disable tail packing'',
      switch_flag ''replayonly'' ''Replay journal only'',
      valued_flag ''resize'' ''Resize filesystem''
        ''New size in blocks'' (''^'' @ [CHR 0x5C] @ ''d+$'')]"

definition Zfs_GetMountFlags :: "mount_flag list" where
  "Zfs_GetMountFlags =
     [switch_flag ''zfsutil'' ''Enable Linux ZFS mount helper integration'',
      switch_flag ''xattr'' ''Enable extended attributes'',
      switch_flag ''noxattr'' ''Disable extended attributes'',
      switch_flag ''atime'' ''Update inode access times'',
      switch_flag ''noatime'' ''Do not update inode access times'']"

definition Apfs_GetMountFlags :: "mount_flag list" where
  "Apfs_GetMountFlags =
     [valued_flag ''uid'' ''User ID for files''
        ''User ID'' (''^'' @ [CHR 0x5C] @ ''d+$''),
      valued_flag ''gid'' ''Group ID for files''
        ''Group ID'' (''^'' @ [CHR 0x5C] @ ''d+$''),
      valued_flag ''vol'' ''Volume index to mount''
        ''Volume index (0-based)'' (''^'' @ [CHR 0x5C] @ ''d+$'')]"

definition GetMountFlags :: "adapter \<Rightarrow> mount_flag list" where
  "GetMountFlags a = (case ad_kind a of
     Ext4 \<Rightarrow> Ext4_GetMountFlags | Vfat \<Rightarrow> Vfat_GetMountFlags | Ntfs \<Rightarrow> Ntfs_GetMountFlags
   | Btrfs \<Rightarrow> Btrfs_GetMountFlags | Xfs \<Rightarrow> Xfs_GetMountFlags | Exfat \<Rightarrow> Exfat_GetMountFlags
   | F2fs \<Rightarrow> F2fs_GetMountFlags | Gfs2 \<Rightarrow> Gfs2_GetMountFlags | Hfsplus \<Rightarrow> Hfsplus_GetMountFlags
   | Reiserfs \<Rightarrow> Reiserfs_GetMountFlags | Zfs \<Rightarrow> Zfs_GetMountFlags | Apfs \<Rightarrow> Apfs_GetMountFlags)"

text \<open>The kernel flags with their bits, in the order of the source.\<close>

definition mount_flag_bits :: "(string \<times> nat) list" where
  "mount_flag_bits =
     [(''ro'', 0), (''nosuid'', 1), (''nodev'', 2), (''noexec'', 3), (''sync'', 4), (''remount'', 5),
      (''mand'', 6), (''dirsync'', 7), (''noatime'', 10), (''nodiratime'', 11), (''bind'', 12),
      (''rec'', 14), (''silent'', 15), (''posixacl'', 16), (''acl'', 16), (''unbindable'', 17),
      (''private'', 18), (''slave'', 19), (''shared'', 20), (''relatime'', 21), (''strictatime'', 24)]"

definition MountFlagsMap :: "(string \<times> 64 word) list" where
  "MountFlagsMap = map (\<lambda>(n, k). (n, push_bit k 1)) mount_flag_bits"

definition defaultStandardMountFlags :: "mount_flag list" where
  "defaultStandardMountFlags =
     [switch_flag ''ro'' ''Mount read-only'',
      switch_flag ''rw'' ''Mount read-write (default)'',
      switch_flag ''sync'' ''All I/O to the filesystem should be done synchronously.'',
      switch_flag ''async'' ''All I/O to the filesystem should be done asynchronously.'',
      switch_flag ''atime'' ''Do not use noatime feature (default)'',
      switch_flag ''noatime'' ''Do not update inode access times on this filesystem.'',
      switch_flag ''diratime'' ''Update directory inode access times on this filesystem.'',
      switch_flag ''nodiratime'' ''Do not update directory inode access times on this filesystem.'',
      switch_flag ''dev'' ''Interpret character or block special devices on the filesystem.'',
      switch_flag ''nodev'' ''Do not interpret character or block special devices on the filesystem.'',
      switch_flag ''exec'' ''Permit execution of binaries.'',
      switch_flag ''noexec'' ''Do not permit execution of binaries.'',
      switch_flag ''suid'' ''Permit set-user-id or set-group-id bits to take effect.'',
      switch_flag ''nosuid'' ''Do not permit set-user-id or set-group-id bits to take effect.'',
      switch_flag ''remount'' ''Attempt to remount an already-mounted filesystem.'',
      switch_flag ''defaults'' ''Use default options: rw, suid, dev, exec, auto, nouser, async.'',
      switch_flag ''relatime'' ''Update inode access times relative to modify or change time.'']"

definition ignoredSyscallFlags :: "string list" where
  "ignoredSyscallFlags =
     [''rw'', ''async'', ''atime'', ''diratime'', ''dev'', ''exec'', ''suid'', ''defaults'', ''auto'',
      ''nouser'', ''user'', ''_netdev'', ''nofail'']"

section \<open>The service's tables\<close>

definition preferredMountFlagSources :: "string list" where
  "preferredMountFlagSources = [''ntfs'', ''vfat'']"

definition orderedFilesystemTypesForMountFlags :: "registry \<Rightarrow> string list" where
  "orderedFilesystemTypesForMountFlags r =
     (let types = sort (ListSupportedTypes r);
          front = filter (\<lambda>p. p \<in> set types) preferredMountFlagSources
      in front @ filter (\<lambda>t. t \<notin> set front) types)"

text \<open>The lookup tables of \<open>NewFilesystemService\<close>.\<close>

record flag_tables =
  ft_registry :: registry
  fsSpecificMountFlags :: "(string, mount_flag list) gomap"
  standardMountFlagsByName :: "(string, mount_flag) gomap"
  allKnownMountFlagsByName :: "(string, mount_flag) gomap"

definition add_missing :: "(string, mount_flag) gomap \<Rightarrow> mount_flag \<Rightarrow> (string, mount_flag) gomap" where
  "add_missing m f =
     (let k = ToLower (mf_Name f) in
      case map_of m k of None \<Rightarrow> AList.update k f m | Some _ \<Rightarrow> m)"

definition NewFilesystemService :: "registry \<Rightarrow> flag_tables" where
  "NewFilesystemService r =
     (let std = foldl (\<lambda>m f. AList.update (ToLower (mf_Name f)) f m) [] defaultStandardMountFlags;
          types = orderedFilesystemTypesForMountFlags r;
          specific = foldl (\<lambda>m t. case registry_Get r t of
                                    Ok a \<Rightarrow> AList.update t (GetMountFlags a) m
                                  | _ \<Rightarrow> m) [] types;
          known = foldl (\<lambda>m t. foldl add_missing m
                     (case map_of specific t of None \<Rightarrow> [] | Some fs \<Rightarrow> fs)) std types
      in \<lparr>ft_registry = r, fsSpecificMountFlags = specific, standardMountFlagsByName = std,
          allKnownMountFlagsByName = known\<rparr>)"

definition GetStandardMountFlags :: "mount_flag list" where
  "GetStandardMountFlags =
     filter (\<lambda>f. ToLower (mf_Name f) \<notin> set ignoredSyscallFlags) defaultStandardMountFlags"

definition GetFilesystemSpecificMountFlags :: "flag_tables \<Rightarrow> string \<Rightarrow> mount_flag list" where
  "GetFilesystemSpecificMountFlags s fsType =
     (let t = (case registry_Get (ft_registry s) fsType of Ok a \<Rightarrow> ad_name a | _ \<Rightarrow> fsType) in
      case map_of (fsSpecificMountFlags s) t of None \<Rightarrow> [] | Some fs \<Rightarrow> fs)"

definition ResolveLinuxFsModule :: "registry \<Rightarrow> string \<Rightarrow> string" where
  "ResolveLinuxFsModule r fsType =
     (if fsType = [] then []
      else case registry_Get r fsType of
             Ok a \<Rightarrow> (if GetLinuxFsModule a = [] then fsType else GetLinuxFsModule a)
           | _ \<Rightarrow> fsType)"

section \<open>Flags to mount arguments and back\<close>

type_synonym regexp = "string \<Rightarrow> string \<Rightarrow> bool option"

fun convert_flags ::
  "regexp \<Rightarrow> mount_flag list \<Rightarrow> 64 word \<Rightarrow> string list \<Rightarrow> (64 word \<times> string) res" where
  "convert_flags re [] acc dat = Ok (acc, Join dat '','')"
| "convert_flags re (mf # mfs) acc dat =
     (let raw = TrimSpace (mf_Name mf);
          lower = ToLower raw
      in if \<not> mf_NeedsValue mf \<and> mf_FlagValue mf \<noteq> [] then
           Err (E ErrorInvalidParameter ''Boolean/switch flag was provided with a value'')
         else if mf_FlagValue mf \<noteq> [] then
           (case (if mf_NeedsValue mf \<and> mf_ValueValidationRegex mf \<noteq> []
                  then re (mf_ValueValidationRegex mf) (mf_FlagValue mf) else Some True) of
              None \<Rightarrow> Err (E ErrorOther ''Invalid validation regex'')
            | Some False \<Rightarrow>
                Err (E ErrorInvalidParameter (''Value for flag '' @ [CHR 0x27] @ mf_Name mf @ [CHR 0x27]
                       @ '' does not match expected format. '' @ mf_ValueDescription mf))
            | Some True \<Rightarrow> convert_flags re mfs acc (dat @ [raw @ ''='' @ mf_FlagValue mf]))
         else
           (case map_of MountFlagsMap lower of
              Some v \<Rightarrow> convert_flags re mfs (acc OR v) dat
            | None \<Rightarrow> convert_flags re mfs acc dat))"

definition MountFlagsToSyscallFlagAndData ::
  "regexp \<Rightarrow> mount_flag list \<Rightarrow> (64 word \<times> string) res" where
  "MountFlagsToSyscallFlagAndData re fs = convert_flags re fs 0 []"

text \<open>\<open>fm\<close> is the flag map in the order Go happens to visit it.\<close>

definition SyscallFlagToMountFlag ::
  "flag_tables \<Rightarrow> (string \<times> 64 word) list \<Rightarrow> 64 word \<Rightarrow> mount_flag list" where
  "SyscallFlagToMountFlag s fm m =
     concat (map (\<lambda>(name, v).
        if v = 0 \<or> m AND v \<noteq> v then []
        else case map_of (standardMountFlagsByName s) (ToLower name) of
               Some d \<Rightarrow> [switch_flag (mf_Name d) (mf_Description d)]
             | None \<Rightarrow> [switch_flag name []]) fm)"

definition data_option :: "flag_tables \<Rightarrow> string \<Rightarrow> mount_flag" where
  "data_option s opt =
     (let base = (case SplitN2 opt (CHR ''='') of
            [n, v] \<Rightarrow> (switch_flag (TrimSpace n) [])\<lparr>mf_FlagValue := TrimSpace v, mf_NeedsValue := True\<rparr>
          | n # _ \<Rightarrow> switch_flag (TrimSpace n) []
          | [] \<Rightarrow> switch_flag [] [])
      in case map_of (allKnownMountFlagsByName s) (ToLower (mf_Name base)) of
           None \<Rightarrow> base
         | Some d \<Rightarrow> base\<lparr>mf_Description := mf_Description d,
                         mf_ValueDescription := mf_ValueDescription d,
                         mf_ValueValidationRegex := mf_ValueValidationRegex d\<rparr>)"

definition SyscallDataToMountFlag :: "flag_tables \<Rightarrow> string \<Rightarrow> mount_flag list" where
  "SyscallDataToMountFlag s dat =
     (if dat = [] then []
      else map (data_option s)
             (filter (\<lambda>o'. o' \<noteq> []) (map TrimSpace (Split dat (CHR '','')))))"

section \<open>The stored forms\<close>

text \<open>\<open>dto.MountFlags\<close>: \<open>Scan\<close> of a list of options, of a string and of a bit mask.\<close>

definition scan_option :: "string \<Rightarrow> mount_flag" where
  "scan_option flag =
     (case SplitN2 flag (CHR ''='') of
        [n, v] \<Rightarrow> (switch_flag n [])\<lparr>mf_NeedsValue := True, mf_FlagValue := v\<rparr>
      | _ \<Rightarrow> switch_flag flag [])"

definition Scan_strings :: "mount_flag list \<Rightarrow> string list \<Rightarrow> mount_flag list" where
  "Scan_strings self xs = self @ map scan_option xs"

definition Scan_string :: "mount_flag list \<Rightarrow> string \<Rightarrow> mount_flag list" where
  "Scan_string self s = Scan_strings self (Split s (CHR '',''))"

definition Scan_mask ::
  "(string \<times> 64 word) list \<Rightarrow> mount_flag list \<Rightarrow> 64 word \<Rightarrow> mount_flag list" where
  "Scan_mask fm self m =
     self @ concat (map (\<lambda>(n, v). if m AND v \<noteq> 0 then [switch_flag n []] else []) fm)"

fun UintPtrValue :: "mount_flag list \<Rightarrow> 64 word \<Rightarrow> 64 word res" where
  "UintPtrValue [] acc = Ok acc"
| "UintPtrValue (f # fs) acc =
     (case map_of MountFlagsMap (mf_Name f) of
        Some v \<Rightarrow> UintPtrValue fs (acc OR v)
      | None \<Rightarrow> Err (E ErrorOther (''unknown flag: '' @ mf_Name f)))"

definition flag_text :: "mount_flag \<Rightarrow> string" where
  "flag_text f = (if mf_NeedsValue f then mf_Name f @ ''='' @ mf_FlagValue f else mf_Name f)"

definition StringValue :: "mount_flag list \<Rightarrow> string" where
  "StringValue fs = Join (map flag_text fs) '',''"

text \<open>\<open>dbom.MounDataFlags\<close>, the column of the mount point table.\<close>

record data_flag =
  df_Name :: string
  df_NeedsValue :: bool
  df_FlagValue :: string

fun Add :: "data_flag \<Rightarrow> data_flag list \<Rightarrow> data_flag list" where
  "Add v [] = [v]"
| "Add v (f # fs) = (if df_Name f = df_Name v then v # fs else f # Add v fs)"

definition scan_data_flag :: "data_flag list \<Rightarrow> string \<Rightarrow> data_flag list" where
  "scan_data_flag self flag =
     (if Contains flag ''='' then
        (case SplitN2 flag (CHR ''='') of
           [n, v] \<Rightarrow> Add \<lparr>df_Name = n, df_NeedsValue = True, df_FlagValue = v\<rparr> self
         | _ \<Rightarrow> self)
      else if flag \<noteq> [] then Add \<lparr>df_Name = flag, df_NeedsValue = False, df_FlagValue = []\<rparr> self
      else self)"

definition MounDataFlags_Scan :: "data_flag list \<Rightarrow> string \<Rightarrow> data_flag list" where
  "MounDataFlags_Scan self s = foldl scan_data_flag self (Split s (CHR '',''))"

definition data_flag_text :: "data_flag \<Rightarrow> string" where
  "data_flag_text f = (if df_NeedsValue f then df_Name f @ ''='' @ df_FlagValue f else df_Name f)"

definition MounDataFlags_Value :: "data_flag list \<Rightarrow> string" where
  "MounDataFlags_Value fs = Join (map data_flag_text (sort_key df_Name fs)) '',''"

end
