(* ===== verification/Mount_Laws.thy ===== *)
theory Mount_Laws
  imports Mount_Flags
begin

text \<open>
  Round trips of the mount flags: between a bit mask and its flags, between valued flags and the
  data string, and between the stored column and its flags. The last lemma shows what the
  conversion lets through when a request brings no validation pattern.
\<close>

section \<open>Masks\<close>

definition or_all :: "64 word list \<Rightarrow> 64 word" where
  "or_all vs = foldr (OR) vs 0"

definition known_mask :: "64 word" where
  "known_mask = or_all (map snd MountFlagsMap)"

lemma or_all_simps [simp]: "or_all [] = 0" "or_all (v # vs) = v OR or_all vs"
  by (simp_all add: or_all_def)

lemma bit_or_all: "bit (or_all vs) n \<longleftrightarrow> (\<exists>v \<in> set vs. bit v n)"
  by (induction vs) (auto simp: bit_simps)

lemma or_all_set: "set vs = set ws \<Longrightarrow> or_all vs = or_all ws"
  by (rule bit_eqI) (simp add: bit_or_all)

lemma map_bits:
  "p \<in> set (map (\<lambda>(n, k). (n, push_bit k (1 :: 64 word))) xs) \<Longrightarrow> \<exists>k. snd p = push_bit k 1"
  by auto

lemma MountFlagsMap_bits: "p \<in> set MountFlagsMap \<Longrightarrow> \<exists>k. snd p = push_bit k 1"
  unfolding MountFlagsMap_def by (rule map_bits)

lemma and_single: "m AND push_bit k 1 = push_bit k 1 \<or> m AND push_bit k (1 :: 64 word) = 0"
proof (cases "bit m k")
  case True
  have "m AND push_bit k 1 = push_bit k 1" by (rule bit_eqI) (use True in \<open>auto simp: bit_simps\<close>)
  then show ?thesis ..
next
  case False
  have "m AND push_bit k 1 = 0" by (rule bit_eqI) (use False in \<open>auto simp: bit_simps\<close>)
  then show ?thesis ..
qed

definition std_flags :: "(string, mount_flag) gomap" where
  "std_flags = foldl (\<lambda>m f. AList.update (ToLower (mf_Name f)) f m) [] defaultStandardMountFlags"

lemma standard_names: "standardMountFlagsByName (NewFilesystemService r) = std_flags"
  by (simp add: NewFilesystemService_def std_flags_def Let_def)

text \<open>The flag that is shown for a kernel flag converts back to that kernel flag.\<close>

definition shown_flag :: "string \<Rightarrow> mount_flag" where
  "shown_flag name =
     (case map_of std_flags (ToLower name) of
        Some d \<Rightarrow> switch_flag (mf_Name d) (mf_Description d) | None \<Rightarrow> switch_flag name [])"

lemma default_names: "\<forall>f \<in> set defaultStandardMountFlags. ToLower (mf_Name f) = mf_Name f"
  by code_simp

lemma bit_names:
  "\<forall>p \<in> set mount_flag_bits. ToLower (fst p) = fst p \<and> TrimSpace (fst p) = fst p"
  by code_simp

lemma bit_names_distinct: "distinct (keys mount_flag_bits)"
  by code_simp

lemma keyed_by_name:
  fixes m :: "(string, mount_flag) gomap" and fs :: "mount_flag list"
  assumes "\<forall>p \<in> set m. mf_Name (snd p) = fst p" and "\<forall>f \<in> set fs. ToLower (mf_Name f) = mf_Name f"
  shows "\<forall>p \<in> set (foldl (\<lambda>m f. AList.update (ToLower (mf_Name f)) f m) m fs). mf_Name (snd p) = fst p"
  using assms
proof (induction fs arbitrary: m)
  case Nil
  then show ?case by simp
next
  case (Cons f fs)
  have upd: "set (AList.update k v m) \<subseteq> insert (k, v) (set m)" for k v and m :: "(string, mount_flag) gomap"
    by (induction m) auto
  then have "\<forall>p \<in> set (AList.update (ToLower (mf_Name f)) f m). mf_Name (snd p) = fst p"
    using Cons.prems upd [of "ToLower (mf_Name f)" f m] by fastforce
  then show ?case using Cons.IH Cons.prems(2) by simp
qed

lemma shown_flag_bits:
  assumes "p \<in> set mount_flag_bits"
  shows "map_of mount_flag_bits (ToLower (TrimSpace (mf_Name (shown_flag (fst p))))) = Some (snd p) \<and>
     mf_FlagValue (shown_flag (fst p)) = []"
proof -
  have n: "ToLower (fst p) = fst p" "TrimSpace (fst p) = fst p" using bit_names assms by auto
  have std: "\<forall>q \<in> set std_flags. mf_Name (snd q) = fst q"
    unfolding std_flags_def by (rule keyed_by_name [OF _ default_names]) simp
  have "mf_Name (shown_flag (fst p)) = fst p"
  proof (cases "map_of std_flags (fst p)")
    case None
    then show ?thesis by (simp add: shown_flag_def n switch_flag_def)
  next
    case (Some d)
    from map_of_SomeD [OF this] std have "mf_Name d = fst p" by fastforce
    then show ?thesis using Some by (simp add: shown_flag_def n switch_flag_def)
  qed
  moreover have "map_of mount_flag_bits (fst p) = Some (snd p)"
    using map_of_is_SomeI [OF bit_names_distinct, of "fst p" "snd p"] assms by simp
  moreover have "mf_FlagValue (shown_flag (fst p)) = []"
    by (simp add: shown_flag_def switch_flag_def split: option.split)
  ultimately show ?thesis by (simp add: n)
qed

lemma map_of_values: "map_of (map (\<lambda>(n, k). (n, f k)) xs) x = map_option f (map_of xs x)"
  by (induction xs) auto

lemma shown_flag_name:
  assumes "p \<in> set MountFlagsMap"
  shows "map_of MountFlagsMap (ToLower (TrimSpace (mf_Name (shown_flag (fst p))))) = Some (snd p)"
    and "mf_FlagValue (shown_flag (fst p)) = []"
proof -
  obtain n k where nk: "(n, k) \<in> set mount_flag_bits" "p = (n, push_bit k 1)"
    using assms by (auto simp: MountFlagsMap_def)
  note b = shown_flag_bits [OF nk(1)]
  show "map_of MountFlagsMap (ToLower (TrimSpace (mf_Name (shown_flag (fst p))))) = Some (snd p)"
    using b unfolding MountFlagsMap_def map_of_values by (simp add: nk(2))
  show "mf_FlagValue (shown_flag (fst p)) = []" using b by (simp add: nk(2))
qed

lemma SyscallFlagToMountFlag_eq:
  "SyscallFlagToMountFlag (NewFilesystemService r) fm m =
     map (\<lambda>p. shown_flag (fst p)) (filter (\<lambda>p. snd p \<noteq> 0 \<and> m AND snd p = snd p) fm)"
  by (induction fm) (auto simp: SyscallFlagToMountFlag_def shown_flag_def standard_names
      split: option.split)

lemma convert_shown:
  assumes "set ps \<subseteq> set MountFlagsMap"
  shows "convert_flags re (map (\<lambda>p. shown_flag (fst p)) ps) acc dat =
    Ok (acc OR or_all (map snd ps), Join dat '','')"
  using assms
proof (induction ps arbitrary: acc)
  case Nil
  then show ?case by simp
next
  case (Cons p ps)
  then have "p \<in> set MountFlagsMap" by simp
  from shown_flag_name [OF this] Cons show ?case by (simp add: Let_def or.assoc)
qed

lemma or_all_selected:
  assumes "\<forall>v \<in> set vs. \<exists>k. v = push_bit k 1"
  shows "or_all (filter (\<lambda>v. v \<noteq> 0 \<and> m AND v = v) vs) = m AND or_all vs"
  using assms
proof (induction vs)
  case Nil
  then show ?case by simp
next
  case (Cons v vs)
  then obtain k where "v = push_bit k 1" by auto
  then have "m AND v = v \<or> m AND v = 0" using and_single by blast
  then show ?case using Cons by (auto simp: bit.conj_disj_distrib)
qed

text \<open>C36: Turning a mask into flags and the flags back into mount arguments gives the mask again,
  restricted to the kernel flags the program knows, and an empty data string, in whatever order
  Go visits the flag map.\<close>

theorem mount_mask_roundtrip:
  assumes "set fm = set MountFlagsMap"
  shows "MountFlagsToSyscallFlagAndData re (SyscallFlagToMountFlag (NewFilesystemService r) fm m) =
     Ok (m AND known_mask, [])"
proof -
  let ?ps = "filter (\<lambda>p. snd p \<noteq> 0 \<and> m AND snd p = snd p) fm"
  have "\<forall>v \<in> set (map snd fm). \<exists>k. v = push_bit k (1 :: 64 word)"
    using MountFlagsMap_bits assms by auto
  from or_all_selected [OF this, of m] have "or_all (map snd ?ps) = m AND or_all (map snd fm)"
    by (simp add: filter_map o_def)
  also have "or_all (map snd fm) = known_mask"
    unfolding known_mask_def by (rule or_all_set) (simp add: assms)
  finally show ?thesis using convert_shown [of ?ps re 0 "[]"] assms
    by (auto simp: MountFlagsToSyscallFlagAndData_def SyscallFlagToMountFlag_eq)
qed

lemma mount_mask_roundtrip_witness:
  "MountFlagsToSyscallFlagAndData (\<lambda>_ _. None)
     (SyscallFlagToMountFlag (NewFilesystemService NewRegistry) (rev MountFlagsMap) 0x40000001) =
   Ok (0x40000001 AND known_mask, [])"
  by (rule mount_mask_roundtrip) simp

section \<open>Data strings\<close>

lemma TrimSpace_last: "TrimSpace s \<noteq> [] \<Longrightarrow> \<not> is_space (last (TrimSpace s))"
proof -
  let ?r = "dropWhile is_space (rev (dropWhile is_space s))"
  assume "TrimSpace s \<noteq> []"
  then have "?r \<noteq> []" unfolding TrimSpace_def by (metis rev.simps(1))
  then show ?thesis by (simp add: TrimSpace_def last_rev hd_dropWhile)
qed

text \<open>A name or value that needs no quoting.\<close>

definition plain :: "string \<Rightarrow> bool" where
  "plain s \<longleftrightarrow> s \<noteq> [] \<and> TrimSpace s = s \<and> CHR '','' \<notin> set s"

definition plain_flag :: "regexp \<Rightarrow> mount_flag \<Rightarrow> bool" where
  "plain_flag re f \<longleftrightarrow>
     mf_NeedsValue f \<and> plain (mf_Name f) \<and> CHR ''='' \<notin> set (mf_Name f) \<and> plain (mf_FlagValue f) \<and>
     (mf_ValueValidationRegex f = [] \<or> re (mf_ValueValidationRegex f) (mf_FlagValue f) = Some True)"

definition option_text :: "mount_flag \<Rightarrow> string" where
  "option_text f = mf_Name f @ ''='' @ mf_FlagValue f"

lemma plain_trim:
  assumes "plain s" "plain t"
  shows "TrimSpace (s @ c # t) = s @ c # t"
proof (rule TrimSpace_id)
  have "\<not> is_space (hd s)" using TrimSpace_hd [of s] assms(1) by (simp add: plain_def)
  moreover have "\<not> is_space (last t)" using TrimSpace_last [of t] assms(2) by (simp add: plain_def)
  ultimately show "s @ c # t = [] \<or> \<not> is_space (hd (s @ c # t)) \<and> \<not> is_space (last (s @ c # t))"
    using assms by (simp add: plain_def hd_append)
qed

lemma convert_plain:
  "\<forall>f \<in> set fs. plain_flag re f \<Longrightarrow>
   convert_flags re fs acc dat = Ok (acc, Join (dat @ map option_text fs) '','')"
proof (induction fs arbitrary: dat)
  case Nil
  then show ?case by simp
next
  case (Cons f fs)
  then have "plain_flag re f" by simp
  then show ?case using Cons by (auto simp: plain_flag_def plain_def option_text_def Let_def)
qed

definition core :: "mount_flag \<Rightarrow> string \<times> bool \<times> string" where
  "core f = (mf_Name f, mf_NeedsValue f, mf_FlagValue f)"

lemma core_data_option:
  assumes "plain_flag re f"
  shows "core (data_option s (option_text f)) = core f"
proof -
  have "SplitN2 (option_text f) (CHR ''='') = [mf_Name f, mf_FlagValue f]"
    using assms SplitN2_app by (simp add: plain_flag_def option_text_def)
  then show ?thesis using assms
    by (auto simp: data_option_def core_def plain_flag_def plain_def switch_flag_def Let_def
        split: option.split)
qed

text \<open>A list of valued flags whose names and values hold no comma, no surrounding white space and,
  in the names, no equals sign, and that pass their patterns, survives the data string of a mount:
  parsing what was generated gives the same names and values in the same order.\<close>

theorem mount_data_roundtrip:
  assumes "\<forall>f \<in> set fs. plain_flag re f"
  shows "\<exists>d. MountFlagsToSyscallFlagAndData re fs = Ok (0, d) \<and>
     map core (SyscallDataToMountFlag s d) = map core fs"
proof -
  let ?d = "Join (map option_text fs) '',''"
  have conv: "MountFlagsToSyscallFlagAndData re fs = Ok (0, ?d)"
    using convert_plain [OF assms, of 0 "[]"] by (simp add: MountFlagsToSyscallFlagAndData_def)
  have trims: "\<forall>f \<in> set fs. TrimSpace (option_text f) = option_text f \<and> option_text f \<noteq> [] \<and>
      CHR '','' \<notin> set (option_text f)"
  proof
    fix f assume "f \<in> set fs"
    then have f: "plain_flag re f" using assms by blast
    then have "TrimSpace (option_text f) = option_text f"
      using plain_trim [of "mf_Name f" "mf_FlagValue f" "CHR ''=''"]
      by (simp add: plain_flag_def option_text_def)
    then show "TrimSpace (option_text f) = option_text f \<and> option_text f \<noteq> [] \<and>
      CHR '','' \<notin> set (option_text f)"
      using f by (auto simp: plain_flag_def plain_def option_text_def)
  qed
  show ?thesis
  proof (cases fs)
    case Nil
    then show ?thesis using conv by (simp add: SyscallDataToMountFlag_def)
  next
    case (Cons f fs')
    then have split: "Split ?d (CHR '','') = map option_text fs"
      using trims by (intro Split_Join) auto
    have ne: "?d \<noteq> []"
    proof
      assume "?d = []"
      then have "Split ?d (CHR '','') = [[]]" by simp
      then show False using split Cons trims by auto
    qed
    have "map TrimSpace (map option_text fs) = map option_text fs" using trims by simp
    then have "filter (\<lambda>o'. o' \<noteq> []) (map TrimSpace (map option_text fs)) =
        filter (\<lambda>o'. o' \<noteq> []) (map option_text fs)" by (rule arg_cong)
    moreover have "filter (\<lambda>o'. o' \<noteq> []) (map option_text fs) = map option_text fs"
      using trims by (simp add: filter_id_conv)
    ultimately have "SyscallDataToMountFlag s ?d = map (data_option s) (map option_text fs)"
      using ne unfolding SyscallDataToMountFlag_def split by (simp only: if_False)
    then have "map core (SyscallDataToMountFlag s ?d) = map core fs"
      using assms by (auto intro: core_data_option)
    then show ?thesis using conv by blast
  qed
qed

definition demo_flags :: "mount_flag list" where
  "demo_flags = [(valued_flag ''uid'' [] [] ''^[0-9]+$'')\<lparr>mf_FlagValue := ''1000''\<rparr>,
                 (valued_flag ''iocharset'' [] [] [])\<lparr>mf_FlagValue := ''utf8''\<rparr>]"

lemma mount_data_roundtrip_witness:
  "\<exists>d. MountFlagsToSyscallFlagAndData (\<lambda>_ _. Some True) demo_flags = Ok (0, d) \<and>
     map core (SyscallDataToMountFlag (NewFilesystemService NewRegistry) d) = map core demo_flags"
proof -
  have "\<forall>f \<in> set demo_flags. plain_flag (\<lambda>_ _. Some True) f" by code_simp
  then show ?thesis by (rule mount_data_roundtrip)
qed

text \<open>
  The pattern is taken from the request, not from the adapter's table: without one a value can
  carry further options into the data string.
\<close>

lemma value_injects_option:
  "MountFlagsToSyscallFlagAndData re
     [(valued_flag ''uid'' [] [] [])\<lparr>mf_FlagValue := ''0,umask=000''\<rparr>] = Ok (0, ''uid=0,umask=000'')"
  by (simp add: MountFlagsToSyscallFlagAndData_def valued_flag_def Let_def TrimSpace_def is_space_def)

section \<open>The stored column\<close>

definition storable :: "data_flag \<Rightarrow> bool" where
  "storable f \<longleftrightarrow>
     df_Name f \<noteq> [] \<and> CHR '','' \<notin> set (df_Name f) \<and> CHR ''='' \<notin> set (df_Name f) \<and>
     CHR '','' \<notin> set (df_FlagValue f) \<and> (\<not> df_NeedsValue f \<longrightarrow> df_FlagValue f = [])"

lemma Add_new: "df_Name v \<notin> df_Name ` set fs \<Longrightarrow> Add v fs = fs @ [v]"
  by (induction fs) auto

lemma scan_stored:
  assumes "storable f" "df_Name f \<notin> df_Name ` set self"
  shows "scan_data_flag self (data_flag_text f) = self @ [f]"
proof (cases "df_NeedsValue f")
  case True
  have has: "Contains (df_Name f @ ''='' @ df_FlagValue f) ''=''" by (simp add: Contains_single)
  have split: "SplitN2 (df_Name f @ ''='' @ df_FlagValue f) (CHR ''='') = [df_Name f, df_FlagValue f]"
    using assms(1) SplitN2_app by (simp add: storable_def)
  have same: "\<lparr>df_Name = df_Name f, df_NeedsValue = True, df_FlagValue = df_FlagValue f\<rparr> = f"
    using True by simp
  have "scan_data_flag self (data_flag_text f) =
          Add \<lparr>df_Name = df_Name f, df_NeedsValue = True, df_FlagValue = df_FlagValue f\<rparr> self"
    using has split True by (simp add: scan_data_flag_def data_flag_text_def)
  then have "scan_data_flag self (data_flag_text f) = Add f self" by (simp only: same)
  then show ?thesis using Add_new [OF assms(2)] by simp
next
  case False
  then have same: "\<lparr>df_Name = df_Name f, df_NeedsValue = False, df_FlagValue = []\<rparr> = f"
    using assms(1) by (simp add: storable_def)
  have "\<not> Contains (df_Name f) ''=''" using assms(1) by (simp add: storable_def Contains_single)
  then have "scan_data_flag self (data_flag_text f) =
          Add \<lparr>df_Name = df_Name f, df_NeedsValue = False, df_FlagValue = []\<rparr> self"
    using False assms(1) by (simp add: scan_data_flag_def data_flag_text_def storable_def)
  then have "scan_data_flag self (data_flag_text f) = Add f self" by (simp only: same)
  then show ?thesis using Add_new [OF assms(2)] by simp
qed

lemma scan_all_stored:
  assumes "\<forall>f \<in> set fs. storable f" "distinct (map df_Name (self @ fs))"
  shows "foldl scan_data_flag self (map data_flag_text fs) = self @ fs"
  using assms
proof (induction fs arbitrary: self)
  case Nil
  then show ?case by simp
next
  case (Cons f fs)
  have "scan_data_flag self (data_flag_text f) = self @ [f]"
    by (rule scan_stored) (use Cons.prems in auto)
  then show ?case using Cons.IH [of "self @ [f]"] Cons.prems by simp
qed

text \<open>The flags of a mount point survive the database column: writing flags with distinct names
  without commas and equals signs and reading the column back gives the same flags, sorted by
  name.\<close>

theorem data_flags_column_roundtrip:
  assumes "distinct (map df_Name fs)" and "\<forall>f \<in> set fs. storable f"
  shows "MounDataFlags_Scan [] (MounDataFlags_Value fs) = sort_key df_Name fs"
proof (cases "sort_key df_Name fs = []")
  case True
  then show ?thesis
    by (simp add: MounDataFlags_Scan_def MounDataFlags_Value_def scan_data_flag_def)
next
  case False
  let ?gs = "sort_key df_Name fs"
  have ok: "\<forall>f \<in> set ?gs. storable f" using assms(2) by simp
  have dist: "distinct (map df_Name ?gs)"
    using assms(1) by (simp add: distinct_map)
  have "Split (MounDataFlags_Value fs) (CHR '','') = map data_flag_text ?gs"
    unfolding MounDataFlags_Value_def
  proof (rule Split_Join)
    show "map data_flag_text ?gs \<noteq> []" using False by simp
    show "\<forall>w \<in> set (map data_flag_text ?gs). CHR '','' \<notin> set w"
      using ok by (auto simp: data_flag_text_def storable_def)
  qed
  then show ?thesis using scan_all_stored [of ?gs "[]"] ok dist
    by (simp add: MounDataFlags_Scan_def)
qed

lemma data_flags_column_roundtrip_witness:
  "MounDataFlags_Scan [] (MounDataFlags_Value
      [\<lparr>df_Name = ''uid'', df_NeedsValue = True, df_FlagValue = ''0''\<rparr>,
       \<lparr>df_Name = ''noatime'', df_NeedsValue = False, df_FlagValue = []\<rparr>]) =
   sort_key df_Name
      [\<lparr>df_Name = ''uid'', df_NeedsValue = True, df_FlagValue = ''0''\<rparr>,
       \<lparr>df_Name = ''noatime'', df_NeedsValue = False, df_FlagValue = []\<rparr>]"
  by (rule data_flags_column_roundtrip) (simp_all add: storable_def)

end
