(* ===== verification/Fs_Cache.thy ===== *)
theory Fs_Cache
  imports Fs_Adapters
begin

text \<open>
  The command cache of the filesystem adapters: its key tells commands apart, a read-only command
  runs at most once in the life of an entry, and a command that changes a device is never
  answered from the cache.
\<close>

section \<open>Keys\<close>

definition undigit :: "char \<Rightarrow> nat" where
  "undigit c = of_char c - 48"

definition undigits :: "string \<Rightarrow> nat" where
  "undigits s = foldl (\<lambda>a c. a * 10 + undigit c) 0 s"

lemma of_char_digit: "n < 10 \<Longrightarrow> (of_char (digit n) :: nat) = 48 + n"
  by (simp add: digit_def)

lemma undigits_snoc: "undigits (s @ [c]) = undigits s * 10 + undigit c"
  by (simp add: undigits_def)

lemma undigits_Itoa: "undigits (Itoa n) = n"
proof (induction n rule: Itoa.induct)
  case (1 n)
  show ?case
  proof (cases "n < 10")
    case True
    then show ?thesis by (simp add: Itoa.simps [of n] undigits_def undigit_def of_char_digit)
  next
    case False
    then have "undigits (Itoa n) = undigits (Itoa (n div 10)) * 10 + undigit (digit (n mod 10))"
      by (simp add: Itoa.simps [of n] undigits_snoc)
    then show ?thesis using 1 False by (simp add: undigit_def of_char_digit)
  qed
qed

lemma colon_Itoa: "CHR '':'' \<notin> set (Itoa n)"
proof (induction n rule: Itoa.induct)
  case (1 n)
  have d: "CHR '':'' \<noteq> digit k" if "k < 10" for k
  proof
    assume "CHR '':'' = digit k"
    then have "(of_char (CHR '':'') :: nat) = 48 + k" using of_char_digit [OF that] by simp
    then show False using that by simp
  qed
  show ?case using 1 d by (auto simp: Itoa.simps [of n])
qed

lemma append_sep_eq:
  assumes "c \<notin> set xs" "c \<notin> set ys" "xs @ c # us = ys @ c # vs"
  shows "xs = ys \<and> us = vs"
  using assms
proof (induction xs arbitrary: ys)
  case Nil
  then show ?case by (cases ys) auto
next
  case (Cons x xs)
  then show ?case by (cases ys) auto
qed

lemma key_part_inj:
  assumes "key_part s @ us = key_part t @ vs"
  shows "s = t \<and> us = vs"
proof -
  have eq: "Itoa (length s) @ CHR '':'' # (s @ CHR ''|'' # us) =
      Itoa (length t) @ CHR '':'' # (t @ CHR ''|'' # vs)"
    using assms by (simp add: key_part_def)
  have "Itoa (length s) = Itoa (length t) \<and> s @ CHR ''|'' # us = t @ CHR ''|'' # vs"
    by (rule append_sep_eq [OF colon_Itoa colon_Itoa eq])
  moreover from this have "length s = length t" using undigits_Itoa by metis
  ultimately show ?thesis by simp
qed

lemma key_parts_inj: "concat (map key_part xs) = concat (map key_part ys) \<Longrightarrow> xs = ys"
proof (induction xs arbitrary: ys)
  case Nil
  then show ?case by (cases ys) (auto simp: key_part_def)
next
  case (Cons x xs)
  show ?case
  proof (cases ys)
    case Nil
    with Cons.prems show ?thesis by (simp add: key_part_def)
  next
    case (Cons y ys')
    with Cons.prems have "key_part x @ concat (map key_part xs) = key_part y @ concat (map key_part ys')"
      by simp
    from key_part_inj [OF this] show ?thesis using Cons.IH Cons by simp
  qed
qed

text \<open>The cache key tells every two commands apart: two commands with the same key have the
  same name and the same argument list, whatever bytes they contain.\<close>

theorem commandCacheKey_injective:
  "commandCacheKey c as = commandCacheKey d bs \<longleftrightarrow> c = d \<and> as = bs"
  unfolding commandCacheKey_def using key_parts_inj [of "c # as" "d # bs"] by auto

lemma cache_key_eq: "commandCacheKey c as = commandCacheKey d bs \<Longrightarrow> c = d \<and> as = bs"
  unfolding commandCacheKey_def using key_parts_inj [of "c # as" "d # bs"] by auto

section \<open>At most one run\<close>

definition cached_call :: "fs_env \<Rightarrow> fs_world \<Rightarrow> string \<times> string list \<Rightarrow> fs_world" where
  "cached_call env w q = snd (runCommandCached env (fst q) (snd q) w)"

definition elapsed_ok :: "fs_env \<Rightarrow> bool" where
  "elapsed_ok env = (\<forall>n c as ls code e dt. en_exec env n c as = (ls, code, e, dt) \<longrightarrow> 0 \<le> dt)"

text \<open>
  Between a flush and the time \<open>b\<close>: the cache holds an entry for exactly the commands \<open>new\<close> that
  were run since, none of which is stale before \<open>b\<close>.
\<close>

definition run_once :: "(string \<times> string list) list \<Rightarrow> int \<Rightarrow> (string \<times> string list) list \<Rightarrow> fs_world \<Rightarrow> bool"
where
  "run_once old b new w \<longleftrightarrow>
     executed w = old @ new \<and> distinct new \<and> b \<le> clock w + commandResultCacheTTL \<and>
     (\<forall>c as. map_of (cmd_cache w) (commandCacheKey c as) = None \<longleftrightarrow> (c, as) \<notin> set new) \<and>
     (\<forall>k x exp. map_of (cmd_cache w) k = Some (x, exp) \<longrightarrow> x \<noteq> OtherObject \<and> b \<le> exp)"

lemma runCommand_frame:
  assumes "runCommand env c as w = (r, w')" and "elapsed_ok env"
  shows "executed w' = executed w @ [(c, as)] \<and> cmd_cache w' = cmd_cache w \<and> clock w \<le> clock w' \<and>
    lastUnmountedState w' = lastUnmountedState w \<and> reports w' = reports w"
proof -
  obtain ls code e dt where x: "en_exec env (length (executed w)) c as = (ls, code, e, dt)"
    by (metis prod_cases4)
  then have "0 \<le> dt" using assms(2) by (auto simp: elapsed_ok_def)
  then show ?thesis using assms(1) x
    by (auto simp: runCommand_def Let_def split: option.splits if_splits)
qed

lemma run_once_step:
  assumes ok: "run_once old b new w" and el: "elapsed_ok env" and now: "clock w \<le> b"
  shows "\<exists>new'. run_once old b new' (cached_call env w q) \<and> set new' = insert q (set new) \<and>
    clock w \<le> clock (cached_call env w q)"
proof -
  obtain c as where q: "q = (c, as)" by (cases q)
  let ?k = "commandCacheKey c as"
  show ?thesis
  proof (cases "map_of (cmd_cache w) ?k")
    case (Some p)
    obtain x exp where p: "p = (x, exp)" by (cases p)
    have x: "x \<noteq> OtherObject" "b \<le> exp"
      using ok Some p unfolding run_once_def by blast+
    have mem: "(c, as) \<in> set new" using ok Some unfolding run_once_def by (metis option.distinct(1))
    from x(1) obtain out code e where x': "x = CachedResult out code e" by (cases x) auto
    have "cache_get ?k w = Some (CachedResult out code e)"
      using Some p x x' now by (simp add: cache_get_def)
    then have "cached_call env w q = w" by (simp add: cached_call_def q runCommandCached_def Let_def)
    then show ?thesis using ok mem q by (intro exI [of _ new]) auto
  next
    case None
    then have get: "cache_get ?k w = None" by (simp add: cache_get_def)
    have fresh: "(c, as) \<notin> set new" using ok None by (simp add: run_once_def)
    obtain out code e w1 where run: "runCommand env c as w = ((out, code, e), w1)"
      by (metis prod_cases4 prod.collapse)
    note fr = runCommand_frame [OF run el]
    let ?w = "cache_set ?k (CachedResult out code e) w1"
    have w: "cached_call env w q = ?w"
      by (simp add: cached_call_def q runCommandCached_def Let_def get run)
    have keys: "map_of (cmd_cache ?w) k =
        (if k = ?k then Some (CachedResult out code e, clock w1 + commandResultCacheTTL)
         else map_of (cmd_cache w) k)" for k
      by (simp add: cache_set_def go_map fr)
    have "run_once old b (new @ [(c, as)]) ?w"
      unfolding run_once_def
    proof (intro conjI allI impI)
      show "executed ?w = old @ new @ [(c, as)]" using ok fr by (simp add: run_once_def cache_set_def)
      show "distinct (new @ [(c, as)])" using ok fresh by (simp add: run_once_def)
      show "b \<le> clock ?w + commandResultCacheTTL" using ok fr by (simp add: run_once_def cache_set_def)
      show "(map_of (cmd_cache ?w) (commandCacheKey d bs) = None) =
          ((d, bs) \<notin> set (new @ [(c, as)]))" for d bs
        using ok cache_key_eq [of d bs c as] unfolding keys run_once_def by auto
      fix k x exp
      assume "map_of (cmd_cache ?w) k = Some (x, exp)"
      then show "x \<noteq> OtherObject" "b \<le> exp"
        using ok fr unfolding keys run_once_def by (auto split: if_splits)
    qed
    then show ?thesis unfolding w using q fr
      by (intro exI [of _ "new @ [(c, as)]"]) (auto simp: cache_set_def)
  qed
qed

lemma cached_clock_mono:
  assumes "elapsed_ok env"
  shows "clock w \<le> clock (cached_call env w q)"
proof -
  let ?k = "commandCacheKey (fst q) (snd q)"
  have run: "clock v \<le> clock v'" if "runCommand env c as v = (r, v')" for c as v r v'
    using runCommand_frame [OF that assms] by blast
  show ?thesis
  proof (cases "cache_get ?k w = Some OtherObject")
    case True
    obtain r v where "runCommand env (fst q) (snd q)
        (w\<lparr>cmd_cache := AList.delete ?k (cmd_cache w)\<rparr>) = (r, v)" by fastforce
    with run [OF this] True show ?thesis
      by (cases r) (simp add: cached_call_def runCommandCached_def Let_def cache_set_def)
  next
    case False
    obtain r v where "runCommand env (fst q) (snd q) w = (r, v)" by fastforce
    with run [OF this] False show ?thesis
      by (cases r) (auto simp: cached_call_def runCommandCached_def Let_def cache_set_def
          split: option.split cache_obj.split)
  qed
qed

lemma cached_calls_clock: "elapsed_ok env \<Longrightarrow> clock w \<le> clock (foldl (cached_call env) w qs)"
  by (induction qs arbitrary: w) (auto intro: order_trans cached_clock_mono)

lemma run_once_all:
  assumes "run_once old b new w" "elapsed_ok env" "clock (foldl (cached_call env) w qs) \<le> b"
  shows "\<exists>new'. run_once old b new' (foldl (cached_call env) w qs) \<and> set new' = set qs \<union> set new"
  using assms
proof (induction qs arbitrary: w new)
  case Nil
  then show ?case by auto
next
  case (Cons q qs)
  have "clock w \<le> b"
    using cached_calls_clock [OF Cons.prems(2), of w "q # qs"] Cons.prems(3) by simp
  then obtain new1 where new1: "run_once old b new1 (cached_call env w q)" "set new1 = insert q (set new)"
    using run_once_step [OF Cons.prems(1,2)] by blast
  obtain new2 where "run_once old b new2 (foldl (cached_call env) (cached_call env w q) qs)"
    "set new2 = set qs \<union> set new1"
    using Cons.IH [OF new1(1) Cons.prems(2)] Cons.prems(3) by auto
  then show ?case using new1(2) by auto
qed

text \<open>From a flush on, and for as long as the 30 minutes of the first entry last, any sequence of
  cached queries runs each different command exactly once, however often it is asked for.\<close>

theorem cached_commands_run_once:
  assumes "cmd_cache w = []" and "elapsed_ok env"
    and "clock (foldl (cached_call env) w qs) \<le> clock w + commandResultCacheTTL"
  shows "\<exists>new. executed (foldl (cached_call env) w qs) = executed w @ new \<and> distinct new \<and> set new = set qs"
proof -
  have "run_once (executed w) (clock w + commandResultCacheTTL) [] w"
    using assms(1) by (simp add: run_once_def)
  from run_once_all [OF this assms(2,3)] show ?thesis by (auto simp: run_once_def)
qed


definition new_world :: "int \<Rightarrow> fs_world" where
  "new_world t = \<lparr>cmd_cache = [], clock = t, executed = [], reports = [], lastUnmountedState = []\<rparr>"

definition demo_env :: fs_env where
  "demo_env = \<lparr>en_exec = (\<lambda>n c as. ([\<lparr>ln_channel = Stdout, ln_text = ''DATA'', ln_time = 1\<rparr>], 0, None, 7)),
     en_progress = (\<lambda>n c as. ([], \<lparr>cr_exit = 0, cr_error = None\<rparr>, 9)),
     en_path = (\<lambda>_. True), en_filesystems = Some [''ext4'', ''vfat''], en_mounts = Some [''/dev/sda1''],
     en_device = (\<lambda>_. Ok ''XFSB'')\<rparr>"

lemma demo_elapsed: "elapsed_ok demo_env"
  by (simp add: elapsed_ok_def demo_env_def)

lemma cached_commands_run_once_witness:
  "\<exists>new. executed (foldl (cached_call demo_env) (new_world 0)
              [(''fatlabel'', [''/dev/sdb1'']), (''fatlabel'', [''/dev/sdb1'']), (''ntfslabel'', [''/dev/sdb1''])]) = new \<and>
     distinct new \<and> set new = {(''fatlabel'', [''/dev/sdb1'']), (''ntfslabel'', [''/dev/sdb1''])}"
proof -
  let ?qs = "[(''fatlabel'', [''/dev/sdb1'']), (''fatlabel'', [''/dev/sdb1'']), (''ntfslabel'', [''/dev/sdb1''])]"
  have t: "clock (foldl (cached_call demo_env) (new_world 0) ?qs) \<le> clock (new_world 0) + commandResultCacheTTL"
    by code_simp
  have c: "cmd_cache (new_world 0) = []" and r: "executed (new_world 0) = []" by (simp_all add: new_world_def)
  from cached_commands_run_once [OF c demo_elapsed t] r show ?thesis by auto
qed

section \<open>Changes are never answered from the cache\<close>

datatype fs_op =
    DoFormat format_options bool | DoCheck check_options bool | DoGetLabel | DoSetLabel string
  | DoGetState

definition fs_call :: "fs_world \<Rightarrow> fs_env \<times> adapter \<times> string \<times> fs_op \<Rightarrow> fs_world" where
  "fs_call w call =
     (case call of (env, a, device, op) \<Rightarrow>
        (case op of
           DoFormat o' p \<Rightarrow> snd (Format env a device o' p w)
         | DoCheck o' p \<Rightarrow> snd (Check env a device o' p w)
         | DoGetLabel \<Rightarrow> snd (GetLabel env a device w)
         | DoSetLabel l \<Rightarrow> snd (SetLabel env a device l w)
         | DoGetState \<Rightarrow> snd (GetState env a device w)))"

text \<open>The command that writes the label, for the adapters that can.\<close>

definition label_command :: "adapter \<Rightarrow> string \<Rightarrow> string \<Rightarrow> (string \<times> string list) option" where
  "label_command a device l =
     (case ad_kind a of
        Ext4 \<Rightarrow> Some (''tune2fs'', [''-L'', l, device])
      | Vfat \<Rightarrow> Some (''fatlabel'', [device, l])
      | Ntfs \<Rightarrow> Some (''ntfslabel'', [device, l])
      | Btrfs \<Rightarrow> Some (''btrfs'', [''filesystem'', ''label'', device, l])
      | Xfs \<Rightarrow> Some (''xfs_admin'', [''-L'', l, device])
      | Exfat \<Rightarrow> Some (''exfatlabel'', [device, l])
      | Reiserfs \<Rightarrow> Some (''reiserfstune'', [''-l'', l, device])
      | _ \<Rightarrow> None)"

text \<open>No command that writes a label looks like this.\<close>

definition read_command :: "string \<Rightarrow> string list \<Rightarrow> bool" where
  "read_command c as \<longleftrightarrow>
     (c \<in> {''fatlabel'', ''ntfslabel'', ''reiserfstune''} \<longrightarrow> length as = 1) \<and>
     (c = ''xfs_admin'' \<longrightarrow> length as = 2)"

definition reads_only :: "fs_world \<Rightarrow> bool" where
  "reads_only w \<longleftrightarrow>
     (\<forall>k \<in> set (keys (cmd_cache w)). \<exists>c as. k = commandCacheKey c as \<and> read_command c as)"

lemma reads_only_empty: "cmd_cache w = [] \<Longrightarrow> reads_only w"
  by (simp add: reads_only_def)

lemma runCommand_cache: "cmd_cache (snd (runCommand env c as w)) = cmd_cache w"
  by (auto simp: runCommand_def Let_def split: prod.split option.split)

lemma runCommand_executed: "executed (snd (runCommand env c as w)) = executed w @ [(c, as)]"
  by (auto simp: runCommand_def Let_def split: prod.split option.split)

lemma reads_only_runCommand: "reads_only w \<Longrightarrow> reads_only (snd (runCommand env c as w))"
  by (simp add: reads_only_def runCommand_cache)

lemma reads_only_set:
  "reads_only w \<Longrightarrow> read_command c as \<Longrightarrow> reads_only (cache_set (commandCacheKey c as) x w)"
  by (auto simp: reads_only_def cache_set_def dom_update)

lemma reads_only_delete:
  "reads_only w \<Longrightarrow> reads_only (w\<lparr>cmd_cache := AList.delete k (cmd_cache w)\<rparr>)"
  by (auto simp: reads_only_def delete_keys)

lemma reads_only_cached:
  assumes "reads_only w" and "read_command c as"
  shows "reads_only (snd (runCommandCached env c as w))"
proof -
  have run: "reads_only (snd (case runCommand env c as v of ((out, code, e), w1) \<Rightarrow>
      ((out, code, e), cache_set (commandCacheKey c as) (CachedResult out code e) w1)))"
    if "reads_only v" for v
    using reads_only_set [OF reads_only_runCommand [OF that, of env c as] assms(2)]
    by (auto split: prod.split)
  show ?thesis
    using run [OF assms(1)] run [OF reads_only_delete [OF assms(1)]] assms(1)
    by (auto simp: runCommandCached_def Let_def split: option.split cache_obj.split)
qed

text \<open>A command whose key is not cached runs.\<close>

lemma runCommandCached_runs:
  assumes "reads_only w" and "\<not> read_command c as"
  shows "executed (snd (runCommandCached env c as w)) = executed w @ [(c, as)]"
proof -
  have "commandCacheKey c as \<notin> set (keys (cmd_cache w))"
    using assms cache_key_eq unfolding reads_only_def by blast
  then have "map_of (cmd_cache w) (commandCacheKey c as) = None" by (simp add: map_of_eq_None_iff)
  then show ?thesis using runCommand_executed [of env c as w]
    by (auto simp: runCommandCached_def cache_get_def Let_def cache_set_def split: prod.split)
qed

lemma invalidate_simps [simp]:
  "cmd_cache (invalidateCommandResultCache w) = []"
  "executed (invalidateCommandResultCache w) = executed w"
  by (simp_all add: invalidateCommandResultCache_def)

lemma query_world: "snd (query tool run parse w) = snd (run w)"
  by (auto simp: query_def split: prod.split option.split)

lemma change_world: "snd (change tool run w) = invalidateCommandResultCache (snd (run w))"
  by (auto simp: change_def split: prod.split option.split)

lemma simple_format_cache:
  "cmd_cache (snd (simple_format env title tool note c as p w)) = []"
  by (auto simp: simple_format_def Let_def split: prod.split option.split)

lemma simple_check_cache: "cmd_cache (snd (simple_check env title c as classify p w)) = []"
  by (auto simp: simple_check_def Let_def split: prod.split option.split)

lemmas format_defs = Ext4_Format_def Vfat_Format_def Ntfs_Format_def Btrfs_Format_def Xfs_Format_def
  Exfat_Format_def F2fs_Format_def Gfs2_Format_def Hfsplus_Format_def Reiserfs_Format_def
  Zfs_Format_def Apfs_Format_def

lemmas check_defs = Vfat_Check_def Ntfs_Check_def Btrfs_Check_def Xfs_Check_def Exfat_Check_def
  F2fs_Check_def Gfs2_Check_def Hfsplus_Check_def Reiserfs_Check_def

lemma Format_cache: "cmd_cache (snd (Format env a device o' p w)) = []"
  by (cases "ad_kind a") (auto simp: Format_def format_defs simple_format_cache Let_def
      split: prod.split option.split)

lemma Ext4_Check_cache: "cmd_cache (snd (Ext4_Check env a device o' p w)) = []"
  by (auto simp: Ext4_Check_def Let_def split: prod.split)

lemma Check_cache: "cmd_cache (snd (Check env a device o' p w)) = []"
  by (cases "ad_kind a") (simp_all add: Check_def check_defs simple_check_cache Ext4_Check_cache
      Zfs_Check_def Apfs_Check_def unsupported_check_def)

lemma SetLabel_cache: "cmd_cache (snd (SetLabel env a device l w)) = []"
  by (cases "ad_kind a") (simp_all add: SetLabel_def Ext4_SetLabel_def Vfat_SetLabel_def
      Ntfs_SetLabel_def Btrfs_SetLabel_def Xfs_SetLabel_def Exfat_SetLabel_def F2fs_SetLabel_def
      Gfs2_SetLabel_def Hfsplus_SetLabel_def Reiserfs_SetLabel_def Zfs_SetLabel_def
      Apfs_SetLabel_def change_world unsupported_label_def)

lemma registry_cases:
  assumes "a \<in> set (GetAll NewRegistry)"
  shows "a = NewExt4Adapter \<or> a = NewVfatAdapter \<or> a = NewNtfsAdapter \<or> a = NewBtrfsAdapter \<or>
    a = NewXfsAdapter \<or> a = NewExfatAdapter \<or> a = NewF2fsAdapter \<or> a = NewGfs2Adapter \<or>
    a = NewHfsplusAdapter \<or> a = NewReiserfsAdapter \<or> a = NewZfsAdapter \<or> a = NewApfsAdapter"
proof -
  have one: "set (map snd (Register a r)) \<subseteq> insert a (set (map snd r))" for a and r :: registry
    unfolding Register_def by (induction r) auto
  have all: "set (map snd (foldl (\<lambda>r a. Register a r) r as)) \<subseteq> set (map snd r) \<union> set as"
    for as and r :: registry
  proof (induction as arbitrary: r)
    case (Cons b bs)
    then show ?case using one [of b r] by (simp, blast)
  qed simp
  show ?thesis using assms all [of "[]"] unfolding GetAll_def NewRegistry_def by fastforce
qed

lemma state_command_reads:
  "a \<in> set (GetAll NewRegistry) \<Longrightarrow> read_command (stateCommand a) as"
  by (drule registry_cases) (auto simp: read_command_def)

lemma reads_only_cong: "cmd_cache v = cmd_cache w \<Longrightarrow> reads_only v = reads_only w"
  by (simp add: reads_only_def)

lemma Btrfs_GetState_reads:
  assumes "reads_only w" and st: "\<And>as. read_command (stateCommand a) as"
  shows "reads_only (snd (Btrfs_GetState env a device w))"
proof -
  obtain out code e w1 where r1: "runCommandCached env (stateCommand a) [''device'', ''stats'', device] w
      = ((out, code, e), w1)" by (metis prod_cases4 prod.collapse)
  obtain out2 code2 e2 w2 where r2: "runCommandCached env (stateCommand a)
      [''check'', ''--readonly'', device] w1 = ((out2, code2, e2), w2)"
    by (metis prod_cases4 prod.collapse)
  have "reads_only w1" using reads_only_cached [OF assms(1) st, of env "[''device'', ''stats'', device]"] r1 by simp
  moreover from reads_only_cached [OF this st, of env "[''check'', ''--readonly'', device]"]
  have "reads_only w2" using r2 by simp
  ultimately show ?thesis
    by (simp add: Btrfs_GetState_def r1 r2 Let_def split: option.split)
qed

lemma Ntfs_GetState_reads:
  assumes "reads_only w" and st: "\<And>as. read_command (stateCommand a) as"
  shows "reads_only (snd (Ntfs_GetState env a device w))"
proof -
  obtain out code e w1 where r1: "runCommandCached env (stateCommand a) [''-n'', device] w
      = ((out, code, e), w1)" by (metis prod_cases4 prod.collapse)
  have "reads_only w1" using reads_only_cached [OF assms(1) st, of env "[''-n'', device]"] r1 by simp
  then have "reads_only (setLastUnmountedState device s w1)" for s
    by (simp add: reads_only_def setLastUnmountedState_def)
  then show ?thesis using assms(1) \<open>reads_only w1\<close>
    by (simp add: Ntfs_GetState_def r1 Let_def split: option.split)
qed

lemma one_query_state:
  assumes "runCommandCached env c as w = ((out, code, e), w1)" and "reads_only w" "read_command c as"
  shows "reads_only w1"
  using reads_only_cached [OF assms(2,3), of env] assms(1) by simp

lemma GetState_reads:
  assumes a: "a \<in> set (GetAll NewRegistry)" and w: "reads_only w"
  shows "reads_only (snd (GetState env a device w))"
proof -
  note rd = state_command_reads [OF a]
  note one = one_query_state [OF _ w rd]
  show ?thesis
    by (cases "ad_kind a"; simp add: GetState_def Btrfs_GetState_reads [OF w rd]
        Ntfs_GetState_reads [OF w rd] Zfs_GetState_def Apfs_GetState_def w;
        auto simp: Ext4_GetState_def Vfat_GetState_def Xfs_GetState_def Exfat_GetState_def
          F2fs_GetState_def Gfs2_GetState_def Hfsplus_GetState_def Reiserfs_GetState_def Let_def
          split: prod.split option.split dest: one)
qed

lemma GetLabel_reads:
  assumes a: "a \<in> set (GetAll NewRegistry)" and w: "reads_only w"
  shows "reads_only (snd (GetLabel env a device w))"
  using registry_cases [OF a]
  by (auto simp: GetLabel_def query_world Ext4_GetLabel_def Vfat_GetLabel_def
      Ntfs_GetLabel_def Btrfs_GetLabel_def Xfs_GetLabel_def Exfat_GetLabel_def F2fs_GetLabel_def
      Gfs2_GetLabel_def Hfsplus_GetLabel_def Reiserfs_GetLabel_def Zfs_GetLabel_def
      Apfs_GetLabel_def w read_command_def intro!: reads_only_runCommand reads_only_cached)

lemma fs_call_reads:
  assumes "a \<in> set (GetAll NewRegistry)" and "reads_only w"
  shows "reads_only (fs_call w (env, a, device, op))"
  by (cases op) (simp_all add: fs_call_def reads_only_empty Format_cache Check_cache SetLabel_cache
      GetLabel_reads [OF assms] GetState_reads [OF assms])

definition registered_call :: "fs_env \<times> adapter \<times> string \<times> fs_op \<Rightarrow> bool" where
  "registered_call c = (fst (snd c) \<in> set (GetAll NewRegistry))"

interpretation adapters: invariant_steps fs_call registered_call reads_only
proof unfold_locales
  fix w c
  assume "reads_only w" and "registered_call c"
  then show "reads_only (fs_call w c)"
    by (cases c) (auto simp: registered_call_def intro: fs_call_reads)
qed

lemma SetLabel_worlds:
  "executed (snd (SetLabel env NewExt4Adapter d l w)) = executed (snd (runCommand env ''tune2fs'' [''-L'', l, d] w))"
  "executed (snd (SetLabel env NewVfatAdapter d l w)) = executed (snd (runCommandCached env ''fatlabel'' [d, l] w))"
  "executed (snd (SetLabel env NewNtfsAdapter d l w)) = executed (snd (runCommandCached env ''ntfslabel'' [d, l] w))"
  "executed (snd (SetLabel env NewBtrfsAdapter d l w)) =
     executed (snd (runCommand env ''btrfs'' [''filesystem'', ''label'', d, l] w))"
  "executed (snd (SetLabel env NewXfsAdapter d l w)) = executed (snd (runCommandCached env ''xfs_admin'' [''-L'', l, d] w))"
  "executed (snd (SetLabel env NewExfatAdapter d l w)) = executed (snd (runCommand env ''exfatlabel'' [d, l] w))"
  "executed (snd (SetLabel env NewReiserfsAdapter d l w)) =
     executed (snd (runCommandCached env ''reiserfstune'' [''-l'', l, d] w))"
  by (simp_all add: SetLabel_def Ext4_SetLabel_def Vfat_SetLabel_def Ntfs_SetLabel_def
      Btrfs_SetLabel_def Xfs_SetLabel_def Exfat_SetLabel_def Reiserfs_SetLabel_def change_world)

lemma SetLabel_runs:
  assumes a: "a \<in> set (GetAll NewRegistry)" and w: "reads_only w"
    and c: "label_command a device l = Some (c, as)"
  shows "executed (snd (SetLabel env a device l w)) = executed w @ [(c, as)]"
proof -
  have writes: "\<not> read_command ''fatlabel'' [x, y]" "\<not> read_command ''ntfslabel'' [x, y]"
    "\<not> read_command ''xfs_admin'' [x, y, z]" "\<not> read_command ''reiserfstune'' [x, y, z]" for x y z
    by (simp_all add: read_command_def)
  show ?thesis
    using registry_cases [OF a] c
    by (elim disjE; simp only: label_command_def ad_kind_adapters fs_kind.case option.inject
        prod.inject option.distinct;
        elim conjE; hypsubst; simp only: SetLabel_worlds runCommand_executed
        runCommandCached_runs [OF w writes(1)] runCommandCached_runs [OF w writes(2)]
        runCommandCached_runs [OF w writes(3)] runCommandCached_runs [OF w writes(4)])
qed

text \<open>After any history of formats, checks, label and state calls on the registered adapters,
  setting a label really runs the adapter's label command, exactly once and last, and leaves no
  cached result behind, so that the next read of the label runs again.\<close>

theorem set_label_never_cached:
  assumes "list_all registered_call calls"
    and "a \<in> set (GetAll NewRegistry)" and "label_command a device l = Some (c, as)"
  shows "let w = foldl fs_call (new_world t) calls; w' = snd (SetLabel env a device l w)
     in executed w' = executed w @ [(c, as)] \<and> cmd_cache w' = []"
proof -
  have "reads_only (new_world t)" by (simp add: reads_only_def new_world_def)
  from adapters.inv_run [OF this assms(1)] have "reads_only (foldl fs_call (new_world t) calls)" .
  from SetLabel_runs [OF assms(2) this assms(3)] show ?thesis
    by (simp add: Let_def SetLabel_cache)
qed

lemma registry_has: "NewNtfsAdapter \<in> set (GetAll NewRegistry)" "NewVfatAdapter \<in> set (GetAll NewRegistry)"
  by (simp_all add: GetAll_def NewRegistry_def Register_def adapter_defs)

lemma set_label_never_cached_witness:
  "let calls = [(demo_env, NewNtfsAdapter, ''/dev/sdb1'', DoSetLabel ''DATA''),
                (demo_env, NewNtfsAdapter, ''/dev/sdb1'', DoGetLabel),
                (demo_env, NewVfatAdapter, ''/dev/sdb2'', DoGetState)];
       w = foldl fs_call (new_world 0) calls;
       w' = snd (SetLabel demo_env NewNtfsAdapter ''/dev/sdb1'' ''DATA'' w)
   in executed w' = executed w @ [(''ntfslabel'', [''/dev/sdb1'', ''DATA''])] \<and> cmd_cache w' = []"
  unfolding Let_def [of "[(_, _, _, _), _, _]"]
  by (rule set_label_never_cached) (simp_all add: registered_call_def registry_has label_command_def)

end
