(* ===== verification/Fs_Laws.thy ===== *)
theory Fs_Laws
  imports Fs_Cache
begin

text \<open>
  Laws of the filesystem adapters: the registry resolves every name and alias independently of
  the order Go visits the map in, detection finds a signature exactly when the device carries
  it, and what formats, checks and states say agrees with the commands that ran.
\<close>

section \<open>The registry\<close>

definition canonical_names :: "adapter \<Rightarrow> string list" where
  "canonical_names a = map canonicalizeFilesystemType (ad_name a # GetAliasNames a)"

text \<open>The names each registered adapter answers to, in registration order.\<close>

lemma registry_names:
  "map (\<lambda>p. (fst p, canonical_names (snd p))) NewRegistry =
     [(''ext4'', [''ext4'']), (''vfat'', [''vfat'', ''fat'', ''fat32'', ''msdos'']),
      (''ntfs'', [''ntfs'', ''ntfs3'', ''ntfs-3g'', ''fuseblk'']), (''btrfs'', [''btrfs'']),
      (''xfs'', [''xfs'']), (''exfat'', [''exfat'']), (''f2fs'', [''f2fs'']), (''gfs2'', [''gfs2'']),
      (''hfsplus'', [''hfsplus'', ''hfs+'']), (''reiserfs'', [''reiserfs'']), (''zfs'', [''zfs'']),
      (''apfs'', [''apfs''])]"
  by code_simp

lemma matches_names:
  "adapterMatchesFilesystemType a t \<longleftrightarrow> t \<in> set (canonical_names a)"
  by (auto simp: adapterMatchesFilesystemType_def canonical_names_def)

lemma registry_keys: "distinct (keys NewRegistry)"
proof -
  have "keys NewRegistry = map fst (map (\<lambda>p. (fst p, canonical_names (snd p))) NewRegistry)"
    by simp
  then show ?thesis by (simp add: registry_names)
qed

lemma registry_name_key:
  assumes "(k, a) \<in> set NewRegistry"
  shows "k \<in> set (canonical_names a)"
proof -
  have "\<forall>p \<in> set (map (\<lambda>p. (fst p, canonical_names (snd p))) NewRegistry). fst p \<in> set (snd p)"
    unfolding registry_names by simp
  then show ?thesis using assms by fastforce
qed

lemma concat_unique:
  "distinct (concat (map snd m)) \<Longrightarrow> (k, ns) \<in> set m \<Longrightarrow> (k', ns') \<in> set m \<Longrightarrow> t \<in> set ns \<Longrightarrow>
   t \<in> set ns' \<Longrightarrow> k = k'"
  by (induction m) (auto, (metis IntI UN_I empty_iff snd_conv)+)

lemma registry_unique:
  assumes "(k, a) \<in> set NewRegistry" "(k', a') \<in> set NewRegistry"
    and "t \<in> set (canonical_names a)" "t \<in> set (canonical_names a')"
  shows "k = k' \<and> a = a'"
proof -
  let ?m = "map (\<lambda>p. (fst p, canonical_names (snd p))) NewRegistry"
  have d: "distinct (concat (map snd ?m))" by (simp add: registry_names)
  have mem: "(k, canonical_names a) \<in> set ?m" "(k', canonical_names a') \<in> set ?m"
    using assms(1,2) by (force intro: image_eqI)+
  then have "k = k'" using concat_unique [OF d mem] assms(3,4) by blast
  moreover have "map_of NewRegistry k = Some a" "map_of NewRegistry k' = Some a'"
    using map_of_is_SomeI [OF registry_keys assms(1)] map_of_is_SomeI [OF registry_keys assms(2)] by simp_all
  ultimately show ?thesis by simp
qed

text \<open>
  Any association list with these entries, in any order, is a way the runtime may visit the map.
\<close>

lemma Get_resolves:
  assumes r: "set r = set NewRegistry" "distinct (keys r)"
    and a: "(k, a) \<in> set NewRegistry" and t: "canonicalizeFilesystemType t \<in> set (canonical_names a)"
    and ne: "canonicalizeFilesystemType t \<noteq> []"
  shows "registry_Get r t = Ok a"
proof -
  let ?t = "canonicalizeFilesystemType t"
  show ?thesis
  proof (cases "map_of r ?t")
    case (Some b)
    then have b: "(?t, b) \<in> set NewRegistry" using r(1) map_of_SomeD by fastforce
    then have "b = a" using registry_unique [OF b a registry_name_key [OF b] t] by simp
    then show ?thesis using Some ne by (simp add: registry_Get_def Let_def)
  next
    case None
    let ?f = "\<lambda>p. if adapterMatchesFilesystemType (snd p) ?t then Some (snd p) else None"
    obtain b where b: "first_some ?f r = Some b"
      using first_some_exists [of "(k, a)" r ?f a] a r(1) t by (auto simp: matches_names)
    from first_some_Some [OF this] obtain p where p: "p \<in> set r" "?f p = Some b" by blast
    from p(2) have m: "adapterMatchesFilesystemType (snd p) ?t" and b': "snd p = b"
      by (simp_all split: if_split_asm)
    have "(fst p, b) \<in> set NewRegistry" using p(1) b' unfolding r(1) by (metis prod.collapse)
    moreover have "?t \<in> set (canonical_names b)" using m b' unfolding matches_names by simp
    ultimately have "b = a" using registry_unique [OF _ a _ t] by blast
    then show ?thesis using None b ne by (simp add: registry_Get_def Let_def)
  qed
qed

text \<open>Whatever order Go visits the registry in, a filesystem type resolves, up to case and
  surrounding white space, to the one adapter that has it as its name, one of its aliases or its
  kernel module; every other type is an error.\<close>

theorem registry_Get_correct:
  assumes "set r = set NewRegistry" and "distinct (keys r)"
  shows "registry_Get r t =
     (case filter (\<lambda>a. canonicalizeFilesystemType t \<in> set (canonical_names a)) (GetAll NewRegistry) of
        [] \<Rightarrow> Err (E ErrorOther (''unsupported filesystem type: '' @ t))
      | a # _ \<Rightarrow> Ok a)"
proof -
  let ?t = "canonicalizeFilesystemType t"
  let ?hits = "filter (\<lambda>a. ?t \<in> set (canonical_names a)) (GetAll NewRegistry)"
  have nonempty: "?t \<noteq> []" if "?t \<in> set (canonical_names a)" "(k, a) \<in> set NewRegistry" for k a
  proof -
    have "\<forall>p \<in> set (map (\<lambda>p. (fst p, canonical_names (snd p))) NewRegistry). [] \<notin> set (snd p)"
      unfolding registry_names by simp
    then show ?thesis using that by fastforce
  qed
  show ?thesis
  proof (cases ?hits)
    case (Cons a as)
    then have "a \<in> set ?hits" by (metis list.set_intros(1))
    then obtain k where a: "(k, a) \<in> set NewRegistry" "?t \<in> set (canonical_names a)"
      by (auto simp: GetAll_def)
    show ?thesis using Get_resolves [OF assms a nonempty [OF a(2,1)]] Cons by simp
  next
    case Nil
    then have none: "?t \<notin> set (canonical_names a)" if "(k, a) \<in> set NewRegistry" for k a
      using that by (force simp: GetAll_def filter_empty_conv)
    have "map_of r ?t = None"
    proof (cases "map_of r ?t")
      case (Some b)
      then have "(?t, b) \<in> set NewRegistry" using assms(1) map_of_SomeD by fastforce
      then show ?thesis using none registry_name_key by blast
    qed simp
    moreover have "first_some (\<lambda>p. if adapterMatchesFilesystemType (snd p) ?t then Some (snd p) else None) r = None"
      unfolding first_some_None using none assms(1) by (auto simp: matches_names)
    ultimately show ?thesis using Nil by (simp add: registry_Get_def Let_def)
  qed
qed

lemma registry_Get_correct_witness:
  "registry_Get (rev NewRegistry) '' FAT32'' = Ok NewVfatAdapter"
proof -
  have hits: "filter (\<lambda>a. canonicalizeFilesystemType '' FAT32'' \<in> set (canonical_names a)) (GetAll NewRegistry)
      = [NewVfatAdapter]"
    by code_simp
  have "distinct (keys (rev NewRegistry))" using registry_keys by (simp add: rev_map [symmetric])
  from registry_Get_correct [OF _ this, of "'' FAT32''"] show ?thesis by (simp add: hits)
qed

section \<open>Detection\<close>

lemma registry_signatures:
  "\<forall>a \<in> set (GetAll NewRegistry). \<forall>sig \<in> set (signatures a).
     0 \<le> mg_Offset sig \<and> mg_Magic sig \<noteq> [] \<and>
     nat (mg_Offset sig) + length (mg_Magic sig) \<le> maxDeviceReadLength"
  by (auto dest!: registry_cases simp: adapter_defs maxDeviceReadLength_def)

definition carries :: "string \<Rightarrow> magic \<Rightarrow> bool" where
  "carries bytes sig =
     (\<exists>front rest. bytes = front @ mg_Magic sig @ rest \<and> int (length front) = mg_Offset sig)"

lemma signature_matches_carries:
  assumes "0 \<le> mg_Offset sig" "nat (mg_Offset sig) + length (mg_Magic sig) \<le> n"
  shows "signature_matches (take n bytes) sig \<longleftrightarrow> carries bytes sig"
proof
  let ?k = "nat (mg_Offset sig)" and ?m = "mg_Magic sig"
  assume "signature_matches (take n bytes) sig"
  then have le: "?k + length ?m \<le> length bytes" and eq: "take (length ?m) (drop ?k bytes) = ?m"
    using assms by (auto simp: signature_matches_def Let_def drop_take min_absorb1)
  have "bytes = take ?k bytes @ take (length ?m) (drop ?k bytes) @ drop (?k + length ?m) bytes"
    by (metis append_take_drop_id drop_drop add.commute)
  with eq le assms(1) show "carries bytes sig"
    unfolding carries_def by (intro exI [of _ "take ?k bytes"] exI [of _ "drop (?k + length ?m) bytes"]) auto
next
  assume "carries bytes sig"
  then obtain front rest where b: "bytes = front @ mg_Magic sig @ rest"
    "int (length front) = mg_Offset sig" by (auto simp: carries_def)
  then have l: "nat (mg_Offset sig) = length front" by simp
  with assms(2) have n: "length front + length (mg_Magic sig) \<le> n" by simp
  then have "take n bytes = front @ mg_Magic sig @ take (n - length front - length (mg_Magic sig)) rest"
    using b(1) by simp
  then show "signature_matches (take n bytes) sig"
    using b(2) l by (simp add: signature_matches_def Let_def)
qed

text \<open>A registered adapter supports a readable device exactly when one of its signatures stands
  at its offset anywhere on the device: the 65608 bytes that are read are enough for every
  signature of every adapter, and a short device is no error.\<close>

theorem detection_exact:
  assumes "a \<in> set (GetAll NewRegistry)" and "en_device env path = Ok bytes"
  shows "checkDeviceMatchesSignatures env a path = Ok (\<exists>sig \<in> set (signatures a). carries bytes sig)"
proof (cases "bytes = []")
  case True
  then have "\<not> carries bytes sig" if "sig \<in> set (signatures a)" for sig
    using registry_signatures assms(1) that by (auto simp: carries_def)
  then show ?thesis using True assms(2) by (auto simp: checkDeviceMatchesSignatures_def)
next
  case False
  then have ne: "take maxDeviceReadLength bytes \<noteq> []" by (simp add: maxDeviceReadLength_def)
  have "signature_matches (take maxDeviceReadLength bytes) sig = carries bytes sig"
    if "sig \<in> set (signatures a)" for sig
    using registry_signatures assms(1) that by (intro signature_matches_carries) auto
  then show ?thesis using ne assms(2) by (auto simp: checkDeviceMatchesSignatures_def)
qed

lemma registry_xfs: "NewXfsAdapter \<in> set (GetAll NewRegistry)"
  by (simp add: GetAll_def NewRegistry_def Register_def adapter_defs)

lemma detection_exact_witness:
  "checkDeviceMatchesSignatures demo_env NewXfsAdapter ''/dev/sdc1'' = Ok True"
proof -
  have "carries ''XFSB'' \<lparr>mg_Offset = 0, mg_Magic = ''XFSB''\<rparr>"
    unfolding carries_def by (intro exI [of _ "[]"]) simp
  then have "\<exists>sig \<in> set (signatures NewXfsAdapter). carries ''XFSB'' sig" by (simp add: adapter_defs)
  then show ?thesis using detection_exact [OF registry_xfs, of demo_env "''/dev/sdc1''" "''XFSB''"]
    by (simp add: demo_env_def)
qed

end
