(* ===== verification/Fs_Results.thy ===== *)
theory Fs_Results
  imports Fs_Laws
begin

text \<open>
  What the adapters report: the result of a check or a format is the truth about the one
  command that ran, the last progress report agrees with it, and a mounted NTFS device is
  described without touching it.
\<close>

lemma report_simps [simp]:
  "executed (report p r w) = executed w" "cmd_cache (report p r w) = cmd_cache w"
  "clock (report p r w) = clock w" "lastUnmountedState (report p r w) = lastUnmountedState w"
  "reports (report True r w) = reports w @ [r]"
  by (simp_all add: report_def)

lemma invalidate_reports [simp]:
  "reports (invalidateCommandResultCache w) = reports w"
  "lastUnmountedState (invalidateCommandResultCache w) = lastUnmountedState w"
  by (simp_all add: invalidateCommandResultCache_def)

lemma drain_world:
  "drainCommandOutput p pct nts ls w = (r, w') \<Longrightarrow> executed w' = executed w \<and> cmd_cache w' = cmd_cache w"
proof (induction ls arbitrary: nts w r w')
  case (Cons l ls)
  then show ?case by (fastforce simp: Let_def split: prod.splits channel.splits)
qed simp

lemma run_progress_world:
  "run_progress env c as w = ((ls, r), w') \<Longrightarrow>
   (\<exists>dt. en_progress env (length (executed w)) c as = (ls, r, dt)) \<and> executed w' = executed w @ [(c, as)]"
  by (auto simp: run_progress_def split: prod.splits)

text \<open>The outcome of one long-running command, in the terms of the environment.\<close>

definition ran_one :: "fs_env \<Rightarrow> fs_world \<Rightarrow> fs_world \<Rightarrow> string \<Rightarrow> string list \<Rightarrow> cmd_result \<Rightarrow> bool" where
  "ran_one env w w' c as r \<longleftrightarrow>
     executed w' = executed w @ [(c, as)] \<and>
     (\<exists>ls dt. en_progress env (length (executed w)) c as = (ls, r, dt))"

definition final_status :: "fs_world \<Rightarrow> string" where
  "final_status w = fst (last (reports w))"

section \<open>Checks\<close>

text \<open>
  What the exit code of a checker says, as tables: the codes that an adapter knows, and the words in the
  output that turn a clean exit into a corrected one. A code that is not in the table is a failure.
\<close>

datatype checker_says = SaysClean | SaysCorrected | SaysUncorrected | SaysFailed

fun exit_table :: "fs_kind \<Rightarrow> (int \<times> checker_says) list" where
  "exit_table Ext4 = [(0, SaysClean), (1, SaysCorrected), (2, SaysCorrected), (4, SaysUncorrected)]"
| "exit_table Vfat = [(0, SaysClean), (1, SaysCorrected), (2, SaysCorrected), (4, SaysUncorrected)]"
| "exit_table Gfs2 = [(0, SaysClean), (1, SaysCorrected), (2, SaysCorrected), (4, SaysUncorrected)]"
| "exit_table Reiserfs =
     [(0, SaysClean), (1, SaysCorrected), (2, SaysCorrected), (4, SaysUncorrected), (6, SaysUncorrected)]"
| "exit_table Exfat = [(0, SaysClean), (1, SaysCorrected), (4, SaysUncorrected)]"
| "exit_table Xfs = [(0, SaysClean), (1, SaysCorrected), (2, SaysUncorrected)]"
| "exit_table _ = [(0, SaysClean)]"

fun correction_words :: "fs_kind \<Rightarrow> string list" where
  "correction_words Ntfs = [''repaired'', ''fixed'']"
| "correction_words Hfsplus = [''repaired'', ''fixed'']"
| "correction_words F2fs = [''fixed'']"
| "correction_words Btrfs = [''error'']"
| "correction_words _ = []"

definition mentions_correction :: "fs_kind \<Rightarrow> string \<Rightarrow> bool" where
  "mentions_correction k output \<longleftrightarrow> list_ex (says output) (correction_words k)"

definition checker_outcome :: "fs_kind \<Rightarrow> int \<Rightarrow> string \<Rightarrow> checker_says" where
  "checker_outcome k code output =
     (case map_of (exit_table k) code of
        None \<Rightarrow> SaysFailed
      | Some SaysClean \<Rightarrow> if mentions_correction k output then SaysCorrected else SaysClean
      | Some oc \<Rightarrow> oc)"

text \<open>
  Corrected errors count as fixed, for XFS and Btrfs only when a repair was asked for; a failed check of HFS+
  says fixed when its output does.
\<close>

definition counts_as_fixed :: "fs_kind \<Rightarrow> bool \<Rightarrow> checker_says \<Rightarrow> string \<Rightarrow> bool" where
  "counts_as_fixed k repair oc output \<longleftrightarrow>
     oc = SaysCorrected \<and> (k = Xfs \<or> k = Btrfs \<longrightarrow> repair)
     \<or> k = Hfsplus \<and> oc = SaysFailed \<and> mentions_correction k output"

text \<open>The tool that is asked not to change anything, where it can be asked.\<close>

fun read_only_flag :: "fs_kind \<Rightarrow> string option" where
  "read_only_flag Btrfs = Some ''--readonly''"
| "read_only_flag Reiserfs = Some ''--check''"
| "read_only_flag F2fs = None"
| "read_only_flag Hfsplus = None"
| "read_only_flag _ = Some ''-n''"

definition asks_read_only :: "fs_kind \<Rightarrow> bool \<Rightarrow> string list \<Rightarrow> bool" where
  "asks_read_only k repair options \<longleftrightarrow>
     repair \<or> (case read_only_flag k of Some flag \<Rightarrow> flag \<in> set options | None \<Rightarrow> True)"

definition check_tool :: "adapter \<Rightarrow> string" where
  "check_tool a = (if ad_kind a = Btrfs then ''btrfs'' else fsckCommand a)"

definition stdout_text :: "output_line list \<Rightarrow> string" where
  "stdout_text ls = Join (map ln_text (filter (\<lambda>l. ln_channel l = Stdout) ls)) [CHR 0x0A]"

definition verdict_of :: "fs_kind \<Rightarrow> bool \<Rightarrow> int \<Rightarrow> string \<Rightarrow> verdict" where
  "verdict_of k repair code output =
     (let oc = checker_outcome k code output in
      (oc = SaysClean \<or> oc = SaysCorrected, oc \<noteq> SaysClean, counts_as_fixed k repair oc output, oc = SaysFailed))"

lemmas verdict_tables = verdict_of_def checker_outcome_def counts_as_fixed_def mentions_correction_def verdict_defs

lemma verdicts_tabled:
  "Vfat_verdict code output = verdict_of Vfat repair code output"
  "Ntfs_verdict code output = verdict_of Ntfs repair code output"
  "Btrfs_verdict o' code output = verdict_of Btrfs (co_AutoFix o') code output"
  "Xfs_verdict o' code output = verdict_of Xfs (co_AutoFix o') code output"
  "Exfat_verdict code output = verdict_of Exfat repair code output"
  "F2fs_verdict code output = verdict_of F2fs repair code output"
  "Gfs2_verdict code output = verdict_of Gfs2 repair code output"
  "Hfsplus_verdict code output = verdict_of Hfsplus repair code output"
  "Reiserfs_verdict code output = verdict_of Reiserfs repair code output"
  by (auto simp: verdict_tables Let_def Vfat_verdict_def Ntfs_verdict_def Btrfs_verdict_def Xfs_verdict_def
      Exfat_verdict_def F2fs_verdict_def Gfs2_verdict_def Hfsplus_verdict_def Reiserfs_verdict_def)

definition check_sound ::
  "fs_env \<Rightarrow> adapter \<Rightarrow> string \<Rightarrow> bool \<Rightarrow> bool \<Rightarrow> fs_world \<Rightarrow> check_result \<Rightarrow> err option \<Rightarrow> fs_world \<Rightarrow> bool" where
  "check_sound env a device repair p w res e w' \<longleftrightarrow>
     (\<exists>options ls r dt.
        executed w' = executed w @ [(check_tool a, options @ [device])]
        \<and> en_progress env (length (executed w)) (check_tool a) (options @ [device]) = (ls, r, dt)
        \<and> asks_read_only (ad_kind a) repair options
        \<and> ck_ExitCode res = cr_exit r \<and> ck_Message res = stdout_text ls
        \<and> (case checker_outcome (ad_kind a) (cr_exit r) (stdout_text ls) of oc \<Rightarrow>
             ck_Success res = (oc = SaysClean \<or> oc = SaysCorrected)
             \<and> ck_ErrorsFound res = (oc \<noteq> SaysClean)
             \<and> ck_ErrorsFixed res = counts_as_fixed (ad_kind a) repair oc (stdout_text ls)
             \<and> e = (if oc = SaysFailed then cr_error r else None)))
     \<and> (p \<longrightarrow> final_status w' = (if ck_Success res then ''success'' else ''failure''))"

lemma check_soundI:
  assumes "executed w' = executed w @ [(check_tool a, options @ [device])]"
    and "\<exists>dt. en_progress env (length (executed w)) (check_tool a) (options @ [device]) = (ls, r, dt)"
    and "asks_read_only (ad_kind a) repair options"
    and "ck_ExitCode res = cr_exit r" "ck_Message res = stdout_text ls"
    and "oc = checker_outcome (ad_kind a) (cr_exit r) (stdout_text ls)"
    and "ck_Success res = (oc = SaysClean \<or> oc = SaysCorrected)" "ck_ErrorsFound res = (oc \<noteq> SaysClean)"
    and "ck_ErrorsFixed res = counts_as_fixed (ad_kind a) repair oc (stdout_text ls)"
    and "e = (if oc = SaysFailed then cr_error r else None)"
    and "p \<longrightarrow> final_status w' = (if ck_Success res then ''success'' else ''failure'')"
  shows "check_sound env a device repair p w res e w'"
proof -
  obtain dt where "en_progress env (length (executed w)) (check_tool a) (options @ [device]) = (ls, r, dt)"
    using assms(2) by blast
  then show ?thesis unfolding check_sound_def assms(6) [symmetric]
    by (intro conjI exI [of _ options] exI [of _ ls] exI [of _ r] exI [of _ dt])
      (use assms in \<open>simp_all\<close>)
qed

lemma drain_stdout:
  "drainCommandOutput p pct nts ls w = ((outs, errs, n), w') \<Longrightarrow> Join outs [CHR 0x0A] = stdout_text ls"
proof -
  have "drainCommandOutput p pct nts ls w = ((outs, errs, n), w')
      \<Longrightarrow> outs = map ln_text (filter (\<lambda>l. ln_channel l = Stdout) ls)"
  proof (induction ls arbitrary: nts w outs errs n w')
    case (Cons l ls)
    then show ?case by (fastforce simp: Let_def split: prod.splits channel.splits)
  qed simp
  then show "drainCommandOutput p pct nts ls w = ((outs, errs, n), w') \<Longrightarrow> Join outs [CHR 0x0A] = stdout_text ls"
    by (simp add: stdout_text_def)
qed

lemma simple_check_sound:
  assumes cl: "\<And>code output. classify code output = verdict_of (ad_kind a) (co_AutoFix o') code output"
    and eq: "simple_check env title c as classify p w = ((res, e), w')"
    and c: "c = check_tool a" and la: "as = options @ [device]"
    and ro: "asks_read_only (ad_kind a) (co_AutoFix o') options"
  shows "check_sound env a device (co_AutoFix o') p w res e w'"
proof -
  define w2 where "w2 = report p (''running'', 999, [''Progress Status Not Supported''])
    (report p (''start'', 0, [''Starting '' @ title @ '' check'']) w)"
  obtain ls r w3 where run: "run_progress env c as w2 = ((ls, r), w3)"
    by (metis prod.collapse)
  obtain outs errs n w4 where dr: "drainCommandOutput p 999 None ls w3 = ((outs, errs, n), w4)"
    by (metis prod.collapse)
  let ?oc = "checker_outcome (ad_kind a) (cr_exit r) (stdout_text ls)"
  have ex: "executed w2 = executed w" by (simp add: w2_def)
  have w4: "executed w4 = executed w @ [(check_tool a, options @ [device])]"
    "\<exists>dt. en_progress env (length (executed w)) (check_tool a) (options @ [device]) = (ls, r, dt)"
    using run_progress_world [OF run] drain_world [OF dr] ex by (auto simp: c la)
  have out: "ck_ExitCode res = cr_exit r" "ck_Message res = stdout_text ls"
    "ck_Success res = (?oc = SaysClean \<or> ?oc = SaysCorrected)" "ck_ErrorsFound res = (?oc \<noteq> SaysClean)"
    "ck_ErrorsFixed res = counts_as_fixed (ad_kind a) (co_AutoFix o') ?oc (stdout_text ls)"
    "e = (if ?oc = SaysFailed then cr_error r else None)"
    "\<exists>rep. w' = invalidateCommandResultCache (report p rep w4)
       \<and> fst rep = (if ck_Success res then ''success'' else ''failure'')"
    using eq unfolding simple_check_def Let_def w2_def [symmetric] run prod.case dr cl drain_stdout [OF dr] verdict_of_def
    by (cases "cr_error r"; cases ?oc; auto)+
  from out(7) obtain rep where "w' = invalidateCommandResultCache (report p rep w4)"
    "fst rep = (if ck_Success res then ''success'' else ''failure'')" by blast
  then show ?thesis using w4 ro out(1-6)
    by (intro check_soundI [of w' w a options device env ls r]) (simp_all add: final_status_def)
qed

lemma Ext4_Check_sound:
  assumes eq: "Ext4_Check env a device o' p w = ((res, e), w')" and k: "ad_kind a = Ext4"
  shows "check_sound env a device (co_AutoFix o') p w res e w'"
proof -
  define nts where "nts = [''Starting ext4 filesystem check'']"
  define as where "as = [if co_AutoFix o' then ''-y'' else ''-n''] @ opt_arg (co_Force o') ''-f'' @
    opt_arg (co_Verbose o') ''-v''"
  define w2 where "w2 = report p (''running'', 999, [''Progress status not supported for fsck.ext4''])
    (report p (''start'', 0, nts) w)"
  obtain ls r w3 where run: "run_progress env (fsckCommand a) (as @ [device]) w2 = ((ls, r), w3)"
    by (metis prod.collapse)
  obtain outs errs n w4 where dr: "drainCommandOutput p 999 (Some nts) ls w3 = ((outs, errs, n), w4)"
    by (metis prod.collapse)
  let ?oc = "checker_outcome (ad_kind a) (cr_exit r) (stdout_text ls)"
  have ex: "executed w2 = executed w" by (simp add: w2_def)
  have w4: "executed w4 = executed w @ [(check_tool a, as @ [device])]"
    "\<exists>dt. en_progress env (length (executed w)) (check_tool a) (as @ [device]) = (ls, r, dt)"
    using run_progress_world [OF run] drain_world [OF dr] ex by (auto simp: check_tool_def k)
  have ro: "asks_read_only (ad_kind a) (co_AutoFix o') as" by (simp add: asks_read_only_def k as_def)
  have run': "run_progress env (fsckCommand a) ([if co_AutoFix o' then ''-y'' else ''-n''] @
      opt_arg (co_Force o') ''-f'' @ opt_arg (co_Verbose o') ''-v'' @ [device]) w2 = ((ls, r), w3)"
    using run by (simp add: as_def)
  have out: "ck_ExitCode res = cr_exit r" "ck_Message res = stdout_text ls"
    "ck_Success res = (?oc = SaysClean \<or> ?oc = SaysCorrected)" "ck_ErrorsFound res = (?oc \<noteq> SaysClean)"
    "ck_ErrorsFixed res = counts_as_fixed (ad_kind a) (co_AutoFix o') ?oc (stdout_text ls)"
    "e = (if ?oc = SaysFailed then cr_error r else None)"
    "\<exists>rep. w' = invalidateCommandResultCache (report p rep w4)
       \<and> fst rep = (if ck_Success res then ''success'' else ''failure'')"
    using eq unfolding Ext4_Check_def Let_def nts_def [symmetric] w2_def [symmetric] run'
      prod.case dr drain_stdout [OF dr]
    by (auto simp: k verdict_tables split: if_splits)
  from out(7) obtain rep where "w' = invalidateCommandResultCache (report p rep w4)"
    "fst rep = (if ck_Success res then ''success'' else ''failure'')" by blast
  then show ?thesis using w4 ro out(1-6)
    by (intro check_soundI [of w' w a as device env ls r]) (simp_all add: final_status_def)
qed

lemma simple_checks_sound:
  assumes "Check env a device o' p w = ((res, e), w')" "ad_kind a \<notin> {Ext4, Zfs, Apfs}"
  shows "check_sound env a device (co_AutoFix o') p w res e w'"
proof (cases "ad_kind a")
  case Vfat
  with assms(1) show ?thesis unfolding Check_def Vfat_Check_def
    by (intro simple_check_sound [where classify = Vfat_verdict and
          options = "[if co_AutoFix o' then ''-a'' else ''-n''] @ opt_arg (co_Verbose o') ''-v''"])
      (simp_all add: verdicts_tabled(1,2,5-9) [where repair = "co_AutoFix o'"] check_tool_def asks_read_only_def)
next
  case Ntfs
  with assms(1) show ?thesis unfolding Check_def Ntfs_Check_def
    by (intro simple_check_sound [where classify = Ntfs_verdict and options = "opt_arg (\<not> co_AutoFix o') ''-n''"])
      (simp_all add: verdicts_tabled(1,2,5-9) [where repair = "co_AutoFix o'"] check_tool_def asks_read_only_def opt_arg_def)
next
  case Btrfs
  with assms(1) show ?thesis unfolding Check_def Btrfs_Check_def
    by (intro simple_check_sound [where classify = "Btrfs_verdict o'" and options = "[''check''] @
          [if co_AutoFix o' then ''--repair'' else ''--readonly''] @ opt_arg (co_Force o') ''--force''"])
      (simp_all add: verdicts_tabled(3,4) check_tool_def asks_read_only_def)
next
  case Xfs
  with assms(1) show ?thesis unfolding Check_def Xfs_Check_def
    by (intro simple_check_sound [where classify = "Xfs_verdict o'" and
          options = "opt_arg (\<not> co_AutoFix o') ''-n'' @ opt_arg (co_Verbose o') ''-v''"])
      (simp_all add: verdicts_tabled(3,4) check_tool_def asks_read_only_def opt_arg_def)
next
  case Exfat
  with assms(1) show ?thesis unfolding Check_def Exfat_Check_def
    by (intro simple_check_sound [where classify = Exfat_verdict and
          options = "[if co_AutoFix o' then ''-y'' else ''-n''] @ opt_arg (co_Verbose o') ''-v''"])
      (simp_all add: verdicts_tabled(1,2,5-9) [where repair = "co_AutoFix o'"] check_tool_def asks_read_only_def)
next
  case F2fs
  with assms(1) show ?thesis unfolding Check_def F2fs_Check_def
    by (intro simple_check_sound [where classify = F2fs_verdict and
          options = "opt_arg (co_AutoFix o') ''-a'' @ opt_arg (co_Force o') ''-f''"])
      (simp_all add: verdicts_tabled(1,2,5-9) [where repair = "co_AutoFix o'"] check_tool_def asks_read_only_def)
next
  case Gfs2
  with assms(1) show ?thesis unfolding Check_def Gfs2_Check_def
    by (intro simple_check_sound [where classify = Gfs2_verdict and
          options = "[if co_AutoFix o' then ''-y'' else ''-n'']"])
      (simp_all add: verdicts_tabled(1,2,5-9) [where repair = "co_AutoFix o'"] check_tool_def asks_read_only_def)
next
  case Hfsplus
  with assms(1) show ?thesis unfolding Check_def Hfsplus_Check_def
    by (intro simple_check_sound [where classify = Hfsplus_verdict and options = "opt_arg (co_Force o') ''-f''"])
      (simp_all add: verdicts_tabled(1,2,5-9) [where repair = "co_AutoFix o'"] check_tool_def asks_read_only_def)
next
  case Reiserfs
  with assms(1) show ?thesis unfolding Check_def Reiserfs_Check_def
    by (intro simple_check_sound [where classify = Reiserfs_verdict and
          options = "[if co_AutoFix o' then ''--fix-fixable'' else ''--check'']"])
      (simp_all add: verdicts_tabled(1,2,5-9) [where repair = "co_AutoFix o'"] check_tool_def asks_read_only_def)
qed (use assms(2) in simp_all)



section \<open>Formats\<close>

definition format_sound ::
  "fs_env \<Rightarrow> string \<Rightarrow> string \<Rightarrow> bool \<Rightarrow> fs_world \<Rightarrow> err option \<Rightarrow> fs_world \<Rightarrow> bool" where
  "format_sound env c device p w e w' \<longleftrightarrow>
     (\<exists>as r. ran_one env w w' c as r \<and> last as = device \<and>
        ((e = None) = (cr_error r = None \<and> cr_exit r = 0)) \<and>
        (cr_error r \<noteq> None \<longrightarrow> e = cr_error r)) \<and>
     (p \<longrightarrow> (final_status w' = ''success'') = (e = None))"

lemma simple_format_sound:
  assumes eq: "simple_format env title tool note c as p w = (e, w')" and la: "last as = device"
  shows "format_sound env c device p w e w'"
proof -
  define w2 where "w2 = report p (''running'', 999, [''Progress Status Not Supported''])
    (report p (''start'', 0, [''Starting '' @ title @ '' format'']) w)"
  obtain ls r w3 where run: "run_progress env c as w2 = ((ls, r), w3)" by (metis prod.collapse)
  obtain outs errs n w4 where dr: "drainCommandOutput p 999 None ls w3 = ((outs, errs, n), w4)"
    by (metis prod.collapse)
  have ex: "executed w2 = executed w" by (simp add: w2_def)
  have w4: "ran_one env w w4 c as r"
    using run_progress_world [OF run] drain_world [OF dr] ex by (auto simp: ran_one_def)
  obtain rep where "w' = invalidateCommandResultCache (report p rep w4)"
    "(e = None) = (cr_error r = None \<and> cr_exit r = 0)" "cr_error r \<noteq> None \<longrightarrow> e = cr_error r"
    "(fst rep = ''success'') = (e = None)"
    using eq unfolding simple_format_def Let_def w2_def [symmetric] run prod.case dr
    by (cases "cr_error r") (auto split: if_splits)
  then show ?thesis using w4 la by (auto simp: format_sound_def ran_one_def final_status_def)
qed

lemma Ext4_Format_sound:
  assumes eq: "Ext4_Format env a device o' p w = (e, w')"
  shows "format_sound env (mkfsCommand a) device p w e w'"
proof -
  define nts where "nts = [''Starting ext4 format'']"
  define nts1 where "nts1 = (if p then nts @ [''Progress status not supported for mkfs.ext4''] else nts)"
  define as where "as = opt_arg (fo_Force o') ''-F'' @ label_args ''-L'' o' @ [device]"
  define w2 where "w2 = report p (''running'', 999, nts1) (report p (''start'', 0, nts) w)"
  obtain ls r w3 where run: "run_progress env (mkfsCommand a) as w2 = ((ls, r), w3)"
    by (metis prod.collapse)
  obtain outs errs n w4 where dr: "drainCommandOutput p 999 (Some nts1) ls w3 = ((outs, errs, n), w4)"
    by (metis prod.collapse)
  have ex: "executed w2 = executed w" by (simp add: w2_def)
  have w4: "ran_one env w w4 (mkfsCommand a) as r"
    using run_progress_world [OF run] drain_world [OF dr] ex by (auto simp: ran_one_def)
  obtain rep where "w' = invalidateCommandResultCache (report p rep w4)"
    "(e = None) = (cr_error r = None \<and> cr_exit r = 0)" "cr_error r \<noteq> None \<longrightarrow> e = cr_error r"
    "(fst rep = ''success'') = (e = None)"
    using eq unfolding Ext4_Format_def Let_def nts_def [symmetric] as_def [symmetric]
      nts1_def [symmetric] w2_def [symmetric] run prod.case dr
    by (cases "cr_error r") (auto split: if_splits)
  moreover have "last as = device" by (simp add: as_def)
  ultimately show ?thesis using w4 by (auto simp: format_sound_def ran_one_def final_status_def)
qed

lemma simple_formats_sound:
  "Vfat_Format env a device o' p w = (e, w') \<Longrightarrow> format_sound env (mkfsCommand a) device p w e w'"
  "Ntfs_Format env a device o' p w = (e, w') \<Longrightarrow> format_sound env (mkfsCommand a) device p w e w'"
  "Btrfs_Format env a device o' p w = (e, w') \<Longrightarrow> format_sound env (mkfsCommand a) device p w e w'"
  "Xfs_Format env a device o' p w = (e, w') \<Longrightarrow> format_sound env (mkfsCommand a) device p w e w'"
  "Exfat_Format env a device o' p w = (e, w') \<Longrightarrow> format_sound env (mkfsCommand a) device p w e w'"
  "F2fs_Format env a device o' p w = (e, w') \<Longrightarrow> format_sound env (mkfsCommand a) device p w e w'"
  "Gfs2_Format env a device o' p w = (e, w') \<Longrightarrow> format_sound env (mkfsCommand a) device p w e w'"
  "Hfsplus_Format env a device o' p w = (e, w') \<Longrightarrow> format_sound env (mkfsCommand a) device p w e w'"
  "Reiserfs_Format env a device o' p w = (e, w') \<Longrightarrow> format_sound env (mkfsCommand a) device p w e w'"
proof -
  show "Vfat_Format env a device o' p w = (e, w') \<Longrightarrow> format_sound env (mkfsCommand a) device p w e w'"
    unfolding Vfat_Format_def by (erule simple_format_sound) simp
  show "Ntfs_Format env a device o' p w = (e, w') \<Longrightarrow> format_sound env (mkfsCommand a) device p w e w'"
    unfolding Ntfs_Format_def by (erule simple_format_sound) simp
  show "Btrfs_Format env a device o' p w = (e, w') \<Longrightarrow> format_sound env (mkfsCommand a) device p w e w'"
    unfolding Btrfs_Format_def by (erule simple_format_sound) simp
  show "Xfs_Format env a device o' p w = (e, w') \<Longrightarrow> format_sound env (mkfsCommand a) device p w e w'"
    unfolding Xfs_Format_def by (erule simple_format_sound) simp
  show "Exfat_Format env a device o' p w = (e, w') \<Longrightarrow> format_sound env (mkfsCommand a) device p w e w'"
    unfolding Exfat_Format_def by (erule simple_format_sound) simp
  show "F2fs_Format env a device o' p w = (e, w') \<Longrightarrow> format_sound env (mkfsCommand a) device p w e w'"
    unfolding F2fs_Format_def by (erule simple_format_sound) simp
  show "Gfs2_Format env a device o' p w = (e, w') \<Longrightarrow> format_sound env (mkfsCommand a) device p w e w'"
    unfolding Gfs2_Format_def by (erule simple_format_sound) simp
  show "Hfsplus_Format env a device o' p w = (e, w') \<Longrightarrow> format_sound env (mkfsCommand a) device p w e w'"
    unfolding Hfsplus_Format_def by (erule simple_format_sound) simp
  show "Reiserfs_Format env a device o' p w = (e, w') \<Longrightarrow> format_sound env (mkfsCommand a) device p w e w'"
    unfolding Reiserfs_Format_def by (erule simple_format_sound) simp
qed

lemma format_sound_other:
  assumes "Format env a device o' p w = (e, w')" and "ad_kind a \<notin> {Zfs, Apfs}"
  shows "format_sound env (mkfsCommand a) device p w e w'"
  using assms Ext4_Format_sound simple_formats_sound by (cases "ad_kind a") (auto simp: Format_def)

text \<open>Whatever the adapter, a format runs its mkfs tool exactly once, with the device as the last
  argument, and succeeds exactly when the tool ended with exit code 0 and no error; an error of the
  command is passed on, and the last progress report says success exactly then. ZFS and APFS run
  nothing and return an error.\<close>

theorem format_result_sound:
  assumes "Format env a device o' p w = (e, w')"
  shows "if ad_kind a \<in> {Zfs, Apfs} then e \<noteq> None \<and> executed w' = executed w
         else format_sound env (mkfsCommand a) device p w e w'"
  using assms format_sound_other [OF assms]
  by (cases "ad_kind a") (auto simp: Format_def Zfs_Format_def Apfs_Format_def)

definition usb_options :: format_options where
  "usb_options = \<lparr>fo_Label = ''USB'', fo_Force = True, fo_Verbose = False, fo_AdditionalOptions = []\<rparr>"

lemma format_result_sound_witness:
  "\<exists>e w'. Format demo_env NewVfatAdapter ''/dev/sdc1'' usb_options True
       (new_world 0) = (e, w') \<and>
     format_sound demo_env ''mkfs.vfat'' ''/dev/sdc1'' True (new_world 0) e w'"
proof -
  obtain e w' where c: "Format demo_env NewVfatAdapter ''/dev/sdc1'' usb_options
      True (new_world 0) = (e, w')" by (metis prod.collapse)
  show ?thesis using format_result_sound [OF c] c by simp
qed

section \<open>NTFS\<close>

lemma runCommandCached_last: "lastUnmountedState (snd (runCommandCached env c as w)) = lastUnmountedState w"
proof -
  have r: "lastUnmountedState (snd (runCommand env c as v)) = lastUnmountedState v" for v
    by (auto simp: runCommand_def Let_def split: prod.split option.split)
  have "lastUnmountedState v' = lastUnmountedState v" if "runCommand env c as v = (x, v')" for v v' x
    using r [of v] that by simp
  then show ?thesis
    by (auto simp: runCommandCached_def Let_def cache_set_def split: option.split cache_obj.split
        prod.split)
qed

text \<open>The state of a mounted NTFS device is answered without running any command and without
  changing anything: with the verdict of the last successful check of that device while it was
  unmounted, if there was one, and as clean otherwise.\<close>

theorem ntfs_mounted_not_probed:
  assumes "Ntfs_GetState env1 a device w1 = (Ok st1, w2)" and "\<not> isDeviceMounted env1 device"
    and "lastUnmountedState w3 = lastUnmountedState w2" and "isDeviceMounted env2 device"
  shows "\<exists>st2. Ntfs_GetState env2 a device w3 = (Ok st2, w3) \<and> IsMounted st2 \<and>
     IsClean st2 = IsClean st1 \<and> HasErrors st2 = HasErrors st1 \<and>
     StateDescription st2 = ''Mounted (last known: '' @ StateDescription st1 @ '')''"
proof -
  obtain out code e w' where run: "runCommandCached env1 (stateCommand a) [''-n'', device] w1 = ((out, code, e), w')"
    by (metis prod.collapse)
  have e: "e = None" using assms(1,2) by (auto simp: Ntfs_GetState_def run split: option.splits)
  define clean where "clean = (code = 0 \<and> \<not> says out ''error'')"
  have st1: "st1 = add_info ''ntfsfixOutput'' (InfoStr out)
      (empty_state\<lparr>IsClean := clean, HasErrors := code \<noteq> 0 \<or> says out ''error'',
         StateDescription := (if clean then ''Clean'' else faulty_text)\<rparr>)"
    and w2: "w2 = setLastUnmountedState device st1 w'"
    using assms(1,2) unfolding Ntfs_GetState_def run prod.case e clean_def by (auto simp: Let_def)
  have "lastUnmountedState w3 = AList.update device (st1\<lparr>IsMounted := False\<rparr>) (lastUnmountedState w')"
    using assms(3) by (simp add: w2 setLastUnmountedState_def)
  then have "getLastUnmountedState device w3 = Some (st1\<lparr>IsMounted := False\<rparr>)"
    by (simp add: getLastUnmountedState_def go_map)
  moreover have "StateDescription st1 \<noteq> []" by (simp add: st1 add_info_def faulty_text_def)
  ultimately show ?thesis using assms(4) by (simp add: Ntfs_GetState_def add_info_def)
qed

lemma ntfs_mounted_not_probed_witness:
  "\<exists>st1 w2 st2.
     Ntfs_GetState (demo_env\<lparr>en_mounts := None\<rparr>) NewNtfsAdapter ''/dev/sda1'' (new_world 0) = (Ok st1, w2) \<and>
     Ntfs_GetState demo_env NewNtfsAdapter ''/dev/sda1'' w2 = (Ok st2, w2) \<and>
     IsMounted st2 \<and> IsClean st2 = IsClean st1"
proof -
  let ?env = "demo_env\<lparr>en_mounts := None\<rparr>"
  have um: "\<not> isDeviceMounted ?env ''/dev/sda1''" by (simp add: isDeviceMounted_def)
  have mo: "isDeviceMounted demo_env ''/dev/sda1''" by (simp add: isDeviceMounted_def demo_env_def)
  obtain st1 w2 where s: "Ntfs_GetState ?env NewNtfsAdapter ''/dev/sda1'' (new_world 0) = (Ok st1, w2)"
    using um by (auto simp: Ntfs_GetState_def runCommandCached_def runCommand_def cache_get_def
        new_world_def demo_env_def Let_def)
  show ?thesis using ntfs_mounted_not_probed [OF s um refl mo] s by blast
qed

section \<open>Where the reports mislead\<close>

text \<open>
  The error counters of \<open>btrfs device stats\<close> are named \<open>write_io_errs\<close> and so on; the state
  looks for the word error in them.
\<close>

lemma btrfs_error_counters_missed:
  "\<not> says ''[/dev/sda1].write_io_errs    7'' ''error''"
  by code_simp

text \<open>A read-only check of a FAT volume that finds errors reports them as fixed.\<close>

lemma vfat_readonly_check_fixed: "Vfat_verdict 1 out = (True, True, True, False)"
  by (simp add: Vfat_verdict_def fixed_verdict_def)

text \<open>A missing checker makes an F2FS device read as damaged.\<close>

lemma f2fs_missing_tool_is_damage:
  assumes "runCommandCached env (stateCommand a) [device] w = ((out, -1, e), w')"
  shows "\<exists>st. fst (F2fs_GetState env a device w) = Ok st \<and> HasErrors st"
  using assms
  by (auto simp: F2fs_GetState_def coded_state_def zero_is_clean_def Let_def add_info_def empty_state_def)

text \<open>The error of a cancelled run is cached like a result: the next caller gets it too.\<close>

lemma cancelled_run_is_cached:
  assumes "cmd_cache w = []" "elapsed_ok env" "0 \<le> clock w"
    and "runCommandCached env c as w = ((out, code, Some e), w')"
  shows "runCommandCached env c as w' = ((out, code, Some e), w')"
proof -
  obtain o1 c1 e1 w1 where r: "runCommand env c as w = ((o1, c1, e1), w1)" by (metis prod.collapse)
  have w': "w' = cache_set (commandCacheKey c as) (CachedResult out code (Some e)) w1"
    using assms(1,4) r by (auto simp: runCommandCached_def cache_get_def Let_def)
  then have "cache_get (commandCacheKey c as) w' = Some (CachedResult out code (Some e))"
    by (simp add: cache_get_def cache_set_def go_map commandResultCacheTTL_def)
  then show ?thesis by (simp add: runCommandCached_def Let_def)
qed

end
