(* ===== verification/Fs_Service.thy ===== *)
theory Fs_Service
  imports Fs_Results Mount_Flags
begin

text \<open>
  The operations of \<open>service/filesystem_service.go\<close>: formatting and checking a partition in the
  background, aborting a check, state and label. A call registers the device as active and starts
  a goroutine; the goroutine announces the start, calls the adapter, forwards the reports of the
  adapter's callback, announces the outcome and frees the device. Calls and goroutines interleave:
  \<open>fs_step\<close> makes one call or lets one goroutine take its next step. The adapter's call itself is
  one step on the world of \<open>Fs_Base\<close>, and its reports are handed to the callback one by one.
\<close>

section \<open>State\<close>

datatype op_request = FormatRequest format_options | CheckRequest check_options

definition op_name :: "op_request \<Rightarrow> string" where
  "op_name r = (case r of FormatRequest _ \<Rightarrow> ''format'' | CheckRequest _ \<Rightarrow> ''check'')"

datatype op_outcome = FormatDone "err option" | CheckDone check_result "err option"

text \<open>
  \<open>Queued\<close>: not yet announced. \<open>Announced\<close>: about to call the adapter. \<open>Reporting rs out\<close>: the
  reports the callback still has to forward, and what the adapter returns after them. \<open>Leaving\<close>: the
  outcome is announced, the deferred \<open>finishOperation\<close> is still to run.
\<close>

datatype op_phase = Queued | Announced | Reporting "progress_report list" op_outcome | Leaving

record operation =
  o_device :: string
  o_request :: op_request
  o_fsType :: string
  o_adapter :: adapter
  o_phase :: op_phase
  o_notes :: "string list"

datatype task_event_type = EtStart | EtStop | EtError

record fs_task =
  t_Device :: string
  t_Operation :: string
  t_FilesystemType :: string
  t_Status :: string
  t_Message :: string
  t_Error :: string
  t_Progress :: int
  t_Notes :: "string list"
  t_Result :: "check_result option"

text \<open>
  \<open>op_ids\<close> numbers the operations in the order they start; the number stands for the operation's
  own context, which \<open>activeOperationInfo\<close> can cancel. \<open>serviceDone\<close> is the end of the service's
  context, the parent of all of them. \<open>task_events\<close> is what the bus received, with the number of
  the operation that emitted it.
\<close>

record fs_service =
  s_registry :: registry
  s_hasBus :: bool
  activeOperations :: "(string, bool) gomap"
  activeOperationInfo :: "(string, string \<times> nat) gomap"
  op_ids :: nat
  cancelledOps :: "nat list"
  serviceDone :: bool
  s_running :: "(nat, operation) gomap"
  s_world :: fs_world
  task_events :: "(nat \<times> task_event_type \<times> fs_task) list"

definition new_service :: "bool \<Rightarrow> fs_world \<Rightarrow> fs_service" where
  "new_service bus w =
     \<lparr>s_registry = NewRegistry, s_hasBus = bus, activeOperations = [], activeOperationInfo = [],
      op_ids = 0, cancelledOps = [], serviceDone = False, s_running = [], s_world = w,
      task_events = []\<rparr>"

section \<open>Starting and finishing\<close>

definition is_active :: "string \<Rightarrow> fs_service \<Rightarrow> bool" where
  "is_active device s = (map_of (activeOperations s) device = Some True)"

definition startOperation :: "string \<Rightarrow> string \<Rightarrow> fs_service \<Rightarrow> nat res \<times> fs_service" where
  "startOperation device op s =
     (if is_active device s then
        (Err (E ErrorConflict (op @ '' operation already in progress'')), s)
      else
        (Ok (op_ids s),
         s\<lparr>activeOperations := AList.update device True (activeOperations s),
           activeOperationInfo := AList.update device (op, op_ids s) (activeOperationInfo s),
           op_ids := Suc (op_ids s)\<rparr>))"

definition finishOperation :: "string \<Rightarrow> fs_service \<Rightarrow> fs_service" where
  "finishOperation device s =
     s\<lparr>activeOperations := AList.delete device (activeOperations s),
       activeOperationInfo := AList.delete device (activeOperationInfo s)\<rparr>"

definition emitTask :: "nat \<Rightarrow> task_event_type \<Rightarrow> fs_task \<Rightarrow> fs_service \<Rightarrow> fs_service" where
  "emitTask i ty t s =
     (if s_hasBus s then s\<lparr>task_events := task_events s @ [(i, ty, t)]\<rparr> else s)"

definition opCanceled :: "nat \<Rightarrow> fs_service \<Rightarrow> bool" where
  "opCanceled i s \<longleftrightarrow> serviceDone s \<or> i \<in> set (cancelledOps s)"

definition missing_tools_text :: "fs_support \<Rightarrow> string" where
  "missing_tools_text su =
     (if fs_MissingTools su = [] then []
      else ''. Missing tools: ['' @ Join (fs_MissingTools su) '' '' @ '']. Install package: ''
           @ fs_AlpinePackage su)"

definition supports :: "op_request \<Rightarrow> fs_support \<Rightarrow> bool" where
  "supports r su = (case r of FormatRequest _ \<Rightarrow> fs_CanFormat su | CheckRequest _ \<Rightarrow> fs_CanCheck su)"

definition refused_text :: "op_request \<Rightarrow> string \<Rightarrow> string" where
  "refused_text r fsType =
     ''Filesystem '' @ fsType @ '' cannot be '' @
     (case r of FormatRequest _ \<Rightarrow> ''formatted'' | CheckRequest _ \<Rightarrow> ''checked'') @ '' on this system''"

definition started_text :: "op_request \<Rightarrow> string \<Rightarrow> string \<Rightarrow> string" where
  "started_text r device fsType =
     (case r of FormatRequest _ \<Rightarrow> ''Format operation started for '' @ device @ '' as '' @ fsType
      | CheckRequest _ \<Rightarrow> ''Check operation started for '' @ device)"

text \<open>The part of a format and a check that runs before the goroutine is started.\<close>

definition begin_operation ::
  "fs_env \<Rightarrow> string \<Rightarrow> string \<Rightarrow> op_request \<Rightarrow> fs_service \<Rightarrow> check_result res \<times> fs_service" where
  "begin_operation env device fsType r s =
     (case registry_Get (s_registry s) fsType of
        Err e \<Rightarrow> (Err (E (err_kind e) ''unsupported filesystem type''), s)
      | Panic \<Rightarrow> (Panic, s)
      | Ok a \<Rightarrow>
          let su = IsSupported env a in
          if \<not> supports r su then
            (Err (E ErrorOther (refused_text r fsType @ missing_tools_text su)), s)
          else
            (case startOperation device (op_name r) s of
               (Ok i, s') \<Rightarrow>
                 (Ok \<lparr>ck_Success = True, ck_ErrorsFound = False, ck_ErrorsFixed = False,
                      ck_Message = started_text r device fsType, ck_ExitCode = 0\<rparr>,
                  s'\<lparr>s_running := AList.update i
                       \<lparr>o_device = device, o_request = r, o_fsType = fsType, o_adapter = a,
                        o_phase = Queued, o_notes = []\<rparr> (s_running s')\<rparr>)
             | (Err e, s') \<Rightarrow> (Err e, s')
             | (Panic, s') \<Rightarrow> (Panic, s')))"

definition FormatPartition ::
  "fs_env \<Rightarrow> string \<Rightarrow> string \<Rightarrow> format_options \<Rightarrow> fs_service \<Rightarrow> check_result res \<times> fs_service" where
  "FormatPartition env device fsType o' = begin_operation env device fsType (FormatRequest o')"

definition CheckPartition ::
  "fs_env \<Rightarrow> string \<Rightarrow> string \<Rightarrow> check_options \<Rightarrow> fs_service \<Rightarrow> check_result res \<times> fs_service" where
  "CheckPartition env device fsType o' = begin_operation env device fsType (CheckRequest o')"

definition AbortCheckPartition :: "string \<Rightarrow> fs_service \<Rightarrow> unit res \<times> fs_service" where
  "AbortCheckPartition device s =
     (case map_of (activeOperationInfo s) device of
        None \<Rightarrow> (Err (E ErrorNotFound ''check operation not running''), s)
      | Some (op, i) \<Rightarrow>
          if \<not> is_active device s then
            (Err (E ErrorNotFound ''check operation not running''), s)
          else if op \<noteq> ''check'' then
            (Err (E ErrorConflict ''operation running is not a check''), s)
          else (Ok (), s\<lparr>cancelledOps := cancelledOps s @ [i]\<rparr>))"

section \<open>The goroutine\<close>

definition task_of :: "operation \<Rightarrow> string \<Rightarrow> string \<Rightarrow> fs_task" where
  "task_of p status msg =
     \<lparr>t_Device = o_device p, t_Operation = op_name (o_request p), t_FilesystemType = o_fsType p,
      t_Status = status, t_Message = msg, t_Error = [], t_Progress = 0, t_Notes = [],
      t_Result = None\<rparr>"

definition title :: "operation \<Rightarrow> string" where
  "title p = (case o_request p of FormatRequest _ \<Rightarrow> ''Format'' | CheckRequest _ \<Rightarrow> ''Check'')"

definition start_text :: "operation \<Rightarrow> string" where
  "start_text p = (case o_request p of
       FormatRequest _ \<Rightarrow> ''Starting format operation for '' @ o_device p @ '' as '' @ o_fsType p
     | CheckRequest _ \<Rightarrow> ''Starting check operation for '' @ o_device p)"

definition status_type :: "string \<Rightarrow> task_event_type" where
  "status_type status =
     (if status = ''success'' then EtStop else if status = ''failure'' then EtError else EtStart)"

text \<open>The progress callback; without a bus it does nothing.\<close>

definition progressCallback :: "nat \<Rightarrow> operation \<Rightarrow> progress_report \<Rightarrow> fs_service \<Rightarrow> operation \<times> fs_service" where
  "progressCallback i p r s =
     (case r of (status, percentual, nts) \<Rightarrow>
        if \<not> s_hasBus s then (p, s)
        else
          let p' = p\<lparr>o_notes := o_notes p @ nts\<rparr>;
              msg = title p @ '' '' @ o_device p @ '': '' @ status
                    @ (if nts \<noteq> [] then '' - '' @ Join nts '', '' else [])
          in (p', emitTask i (status_type status)
                    ((task_of p status msg)\<lparr>t_Progress := percentual, t_Notes := o_notes p'\<rparr>) s))"

definition error_note :: "err \<Rightarrow> string list" where
  "error_note e = (if TrimSpace (err_msg e) \<noteq> [] then [TrimSpace (err_msg e)] else [])"

definition is_canceled :: "err \<Rightarrow> bool" where
  "is_canceled e \<longleftrightarrow> Some e = cr_error cancelled_result"

text \<open>The event that ends an operation.\<close>

definition outcome_event :: "bool \<Rightarrow> operation \<Rightarrow> op_outcome \<Rightarrow> task_event_type \<times> fs_task" where
  "outcome_event canceled p out = (case out of
       FormatDone (Some e) \<Rightarrow>
         (EtError, (task_of p ''failure'' (''Format operation failed for '' @ o_device p))
                     \<lparr>t_Error := err_msg e, t_Notes := error_note e\<rparr>)
     | FormatDone None \<Rightarrow>
         (EtStop, (task_of p ''success'' (''Format operation completed successfully for '' @ o_device p))
                     \<lparr>t_Progress := 100, t_Notes := o_notes p\<rparr>)
     | CheckDone res (Some e) \<Rightarrow>
         if is_canceled e \<or> canceled then
           (EtStop, task_of p ''canceled'' (''Check operation canceled for '' @ o_device p))
         else
           (EtError, (task_of p ''failure'' (''Check operation failed for '' @ o_device p))
                       \<lparr>t_Error := err_msg e, t_Notes := o_notes p @ error_note e\<rparr>)
     | CheckDone res None \<Rightarrow>
         (EtStop, (task_of p ''success'' (''Check operation completed successfully for '' @ o_device p))
                     \<lparr>t_Progress := 100, t_Notes := o_notes p, t_Result := Some res\<rparr>))"

definition call_adapter :: "fs_env \<Rightarrow> operation \<Rightarrow> fs_world \<Rightarrow> op_outcome \<times> fs_world" where
  "call_adapter env p w = (case o_request p of
       FormatRequest o' \<Rightarrow>
         (case Format env (o_adapter p) (o_device p) o' True w of (e, w') \<Rightarrow> (FormatDone e, w'))
     | CheckRequest o' \<Rightarrow>
         (case Check env (o_adapter p) (o_device p) o' True w of
            ((res, e), w') \<Rightarrow> (CheckDone res e, w')))"

definition store_op :: "nat \<Rightarrow> operation \<Rightarrow> fs_service \<Rightarrow> fs_service" where
  "store_op i p s = s\<lparr>s_running := AList.update i p (s_running s)\<rparr>"

definition advance :: "fs_env \<Rightarrow> nat \<Rightarrow> operation \<Rightarrow> fs_service \<Rightarrow> fs_service" where
  "advance env i p s = (case o_phase p of
       Queued \<Rightarrow>
         store_op i (p\<lparr>o_phase := Announced\<rparr>) (emitTask i EtStart (task_of p ''start'' (start_text p)) s)
     | Announced \<Rightarrow>
         (case call_adapter env p (s_world s) of (out, w') \<Rightarrow>
            store_op i (p\<lparr>o_phase := Reporting (drop (length (reports (s_world s))) (reports w')) out\<rparr>)
              (s\<lparr>s_world := w'\<rparr>))
     | Reporting (r # rs) out \<Rightarrow>
         (case progressCallback i p r s of (p', s') \<Rightarrow>
            store_op i (p'\<lparr>o_phase := Reporting rs out\<rparr>) s')
     | Reporting [] out \<Rightarrow>
         (case outcome_event (opCanceled i s) p out of (ty, t) \<Rightarrow>
            store_op i (p\<lparr>o_phase := Leaving\<rparr>) (emitTask i ty t s))
     | Leaving \<Rightarrow>
         (finishOperation (o_device p) s)\<lparr>s_running := AList.delete i (s_running s)\<rparr>)"

definition run_operation :: "fs_env \<Rightarrow> nat \<Rightarrow> fs_service \<Rightarrow> fs_service" where
  "run_operation env i s =
     (case map_of (s_running s) i of None \<Rightarrow> s | Some p \<Rightarrow> advance env i p s)"

section \<open>State, label and information\<close>

definition GetPartitionState ::
  "fs_env \<Rightarrow> string \<Rightarrow> string \<Rightarrow> fs_service \<Rightarrow> fs_state res \<times> fs_service" where
  "GetPartitionState env device fsType s =
     (case registry_Get (s_registry s) fsType of
        Ok a \<Rightarrow>
          (case GetState env a device (s_world s) of
             (Ok st, w') \<Rightarrow> (Ok st, s\<lparr>s_world := w'\<rparr>)
           | (Err e, w') \<Rightarrow> (Err (E (err_kind e) (''failed to get partition state for device: '' @ device)),
                             s\<lparr>s_world := w'\<rparr>)
           | (Panic, w') \<Rightarrow> (Panic, s\<lparr>s_world := w'\<rparr>))
      | _ \<Rightarrow> (Err (E ErrorUnsupportedFilesystem (''unsupported filesystem type: '' @ fsType)), s))"

definition GetPartitionLabel ::
  "fs_env \<Rightarrow> string \<Rightarrow> string \<Rightarrow> fs_service \<Rightarrow> string res \<times> fs_service" where
  "GetPartitionLabel env device fsType s =
     (case registry_Get (s_registry s) fsType of
        Ok a \<Rightarrow>
          (case GetLabel env a device (s_world s) of
             (Ok l, w') \<Rightarrow> (Ok l, s\<lparr>s_world := w'\<rparr>)
           | (Err e, w') \<Rightarrow> (Err (E (err_kind e) (''failed to get partition label for device: '' @ device)),
                             s\<lparr>s_world := w'\<rparr>)
           | (Panic, w') \<Rightarrow> (Panic, s\<lparr>s_world := w'\<rparr>))
      | _ \<Rightarrow> (Err (E ErrorUnsupportedFilesystem (''unsupported filesystem type: '' @ fsType)), s))"

definition SetPartitionLabel ::
  "fs_env \<Rightarrow> string \<Rightarrow> string \<Rightarrow> string \<Rightarrow> fs_service \<Rightarrow> unit res \<times> fs_service" where
  "SetPartitionLabel env device fsType label s =
     (case registry_Get (s_registry s) fsType of
        Ok a \<Rightarrow>
          let su = IsSupported env a in
          if \<not> fs_CanSetLabel su then
            (Err (E ErrorOther (''Filesystem '' @ fsType @ '' cannot set labels on this system''
                    @ missing_tools_text su)), s)
          else
            (case SetLabel env a device label (s_world s) of
               (None, w') \<Rightarrow> (Ok (), s\<lparr>s_world := w'\<rparr>)
             | (Some e, w') \<Rightarrow>
                 (Err (E (err_kind e) (''failed to set partition label for device: '' @ device)),
                  s\<lparr>s_world := w'\<rparr>))
      | _ \<Rightarrow> (Err (E ErrorUnsupportedFilesystem (''unsupported filesystem type: '' @ fsType)), s))"

definition GetSupportAndInfo :: "fs_env \<Rightarrow> flag_tables \<Rightarrow> string \<Rightarrow> fs_info res" where
  "GetSupportAndInfo env ft fsType =
     (case registry_Get (ft_registry ft) fsType of
        Err e \<Rightarrow> Err e
      | Panic \<Rightarrow> Panic
      | Ok a \<Rightarrow> Ok \<lparr>fi_Name = ad_name a, fi_Type = GetLinuxFsModule a, fi_Description = ad_description a,
                     fi_CustomMountFlags = GetFilesystemSpecificMountFlags ft (ad_name a),
                     fi_Support = Some (IsSupported env a)\<rparr>)"

text \<open>\<open>r\<close> lists the adapters in the order Go happens to visit the registry's map.\<close>

definition FsTypeFromDevice :: "fs_env \<Rightarrow> registry \<Rightarrow> string \<Rightarrow> string res" where
  "FsTypeFromDevice env r device =
     (case first_some (\<lambda>a. case checkDeviceMatchesSignatures env a device of
                              Ok True \<Rightarrow> Some (ad_name a) | _ \<Rightarrow> None) (GetAll r) of
        Some n \<Rightarrow> Ok n
      | None \<Rightarrow> Err (E ErrorUnknownFilesystem ''Unknown filesystem type''))"

section \<open>Steps\<close>

datatype fs_event =
    CallFormat fs_env string string format_options
  | CallCheck fs_env string string check_options
  | CallAbort string
  | CallGetState fs_env string string
  | CallGetLabel fs_env string string
  | CallSetLabel fs_env string string string
  | Advance fs_env nat
  | EndService

definition fs_step :: "fs_service \<Rightarrow> fs_event \<Rightarrow> fs_service" where
  "fs_step s ev = (case ev of
       CallFormat env device fsType o' \<Rightarrow> snd (FormatPartition env device fsType o' s)
     | CallCheck env device fsType o' \<Rightarrow> snd (CheckPartition env device fsType o' s)
     | CallAbort device \<Rightarrow> snd (AbortCheckPartition device s)
     | CallGetState env device fsType \<Rightarrow> snd (GetPartitionState env device fsType s)
     | CallGetLabel env device fsType \<Rightarrow> snd (GetPartitionLabel env device fsType s)
     | CallSetLabel env device fsType label \<Rightarrow> snd (SetPartitionLabel env device fsType label s)
     | Advance env i \<Rightarrow> run_operation env i s
     | EndService \<Rightarrow> s\<lparr>serviceDone := True\<rparr>)"

end
