(* ===== verification/Fs_Service_Laws.thy ===== *)
theory Fs_Service_Laws
  imports Fs_Service Fs_Laws
begin

text \<open>
  The laws of the background operations: at most one per device, what a finished one has announced,
  what an abort cancels, and that every operation frees its device.
\<close>

section \<open>Frames\<close>

lemma emitTask_simps [simp]:
  "s_registry (emitTask i ty t s) = s_registry s" "s_hasBus (emitTask i ty t s) = s_hasBus s"
  "activeOperations (emitTask i ty t s) = activeOperations s"
  "activeOperationInfo (emitTask i ty t s) = activeOperationInfo s"
  "op_ids (emitTask i ty t s) = op_ids s" "cancelledOps (emitTask i ty t s) = cancelledOps s"
  "serviceDone (emitTask i ty t s) = serviceDone s" "s_running (emitTask i ty t s) = s_running s"
  "s_world (emitTask i ty t s) = s_world s"
  by (simp_all add: emitTask_def)

lemma store_op_simps [simp]:
  "s_registry (store_op i p s) = s_registry s" "s_hasBus (store_op i p s) = s_hasBus s"
  "activeOperations (store_op i p s) = activeOperations s"
  "activeOperationInfo (store_op i p s) = activeOperationInfo s"
  "op_ids (store_op i p s) = op_ids s" "cancelledOps (store_op i p s) = cancelledOps s"
  "serviceDone (store_op i p s) = serviceDone s" "task_events (store_op i p s) = task_events s"
  "s_world (store_op i p s) = s_world s"
  "map_of (s_running (store_op i p s)) = (map_of (s_running s))(i \<mapsto> p)"
  by (simp_all add: store_op_def AList.update_conv')

lemma finishOperation_simps [simp]:
  "s_registry (finishOperation d s) = s_registry s" "s_hasBus (finishOperation d s) = s_hasBus s"
  "op_ids (finishOperation d s) = op_ids s" "cancelledOps (finishOperation d s) = cancelledOps s"
  "serviceDone (finishOperation d s) = serviceDone s"
  "task_events (finishOperation d s) = task_events s" "s_running (finishOperation d s) = s_running s"
  "s_world (finishOperation d s) = s_world s"
  "map_of (activeOperations (finishOperation d s)) = (map_of (activeOperations s))(d := None)"
  "map_of (activeOperationInfo (finishOperation d s)) = (map_of (activeOperationInfo s))(d := None)"
  by (simp_all add: finishOperation_def AList.delete_conv')

text \<open>The part of an operation that never changes.\<close>

definition same_op :: "operation \<Rightarrow> operation \<Rightarrow> bool" where
  "same_op p q \<longleftrightarrow> o_device p = o_device q \<and> o_request p = o_request q \<and> o_fsType p = o_fsType q \<and>
     o_adapter p = o_adapter q"

text \<open>What no step of a goroutine but its last one touches.\<close>

definition same_service :: "fs_service \<Rightarrow> fs_service \<Rightarrow> bool" where
  "same_service s t \<longleftrightarrow>
     s_registry t = s_registry s \<and> s_hasBus t = s_hasBus s \<and>
     activeOperations t = activeOperations s \<and> activeOperationInfo t = activeOperationInfo s \<and>
     op_ids t = op_ids s \<and> cancelledOps t = cancelledOps s \<and> serviceDone t = serviceDone s"

lemma same_op_phase [simp]: "same_op p (p\<lparr>o_phase := x\<rparr>)"
  by (simp add: same_op_def)

lemma same_service_simps [simp]:
  "same_service s s" "same_service s (store_op i p s)" "same_service s (s\<lparr>s_world := w\<rparr>)"
  "same_service s (emitTask i ty t s)" "same_service s (store_op i p (emitTask i ty t s))"
  "same_service s (store_op i p (s\<lparr>s_world := w\<rparr>))"
  by (simp_all add: same_service_def)

lemma progressCallback_frame:
  assumes "progressCallback i p r s = (p', s')"
  shows "same_op p p'" "same_service s s'" "s_running s' = s_running s"
  using assms
  by (auto simp: progressCallback_def same_op_def same_service_def Let_def split: prod.splits if_splits)

lemma advance_leaving:
  "o_phase p = Leaving \<Longrightarrow>
   advance env i p s = (finishOperation (o_device p) s)\<lparr>s_running := AList.delete i (s_running s)\<rparr>"
  by (simp add: advance_def)

lemma advance_frame:
  assumes "o_phase p \<noteq> Leaving"
  shows "\<exists>p'. same_op p p' \<and> same_service s (advance env i p s) \<and>
    map_of (s_running (advance env i p s)) = (map_of (s_running s))(i \<mapsto> p')"
proof (cases "o_phase p")
  case Queued
  then show ?thesis
    by (intro exI [of _ "p\<lparr>o_phase := Announced\<rparr>"]) (simp add: advance_def)
next
  case Announced
  obtain out w' where c: "call_adapter env p (s_world s) = (out, w')" by (metis prod.collapse)
  let ?ph = "Reporting (drop (length (reports (s_world s))) (reports w')) out"
  from Announced show ?thesis
    by (intro exI [of _ "p\<lparr>o_phase := ?ph\<rparr>"]) (simp add: advance_def c)
next
  case (Reporting rs out)
  show ?thesis
  proof (cases rs)
    case Nil
    obtain ty t where c: "outcome_event (opCanceled i s) p out = (ty, t)" by (metis prod.collapse)
    from Reporting Nil show ?thesis
      by (intro exI [of _ "p\<lparr>o_phase := Leaving\<rparr>"]) (simp add: advance_def c)
  next
    case (Cons r rs')
    obtain p' s' where c: "progressCallback i p r s = (p', s')" by (metis prod.collapse)
    note f = progressCallback_frame [OF c]
    have "same_op p (p'\<lparr>o_phase := Reporting rs' out\<rparr>)" using f(1) by (simp add: same_op_def)
    moreover have "same_service s (store_op i (p'\<lparr>o_phase := Reporting rs' out\<rparr>) s')"
      using f(2) by (simp add: same_service_def)
    ultimately show ?thesis using Reporting Cons f(3)
      by (intro exI [of _ "p'\<lparr>o_phase := Reporting rs' out\<rparr>"]) (simp add: advance_def c)
  qed
next
  case Leaving
  then show ?thesis using assms by simp
qed

section \<open>One operation per device\<close>

definition is_check :: "operation \<Rightarrow> bool" where
  "is_check p \<longleftrightarrow> op_name (o_request p) = ''check''"

lemma is_check_iff: "is_check p \<longleftrightarrow> (\<exists>o'. o_request p = CheckRequest o')"
  by (cases "o_request p") (auto simp: is_check_def op_name_def)

text \<open>
  A running operation has its own entries in both maps, and every entry belongs to one. Only checks
  are cancelled.
\<close>

definition run_ok :: "fs_service \<Rightarrow> nat \<Rightarrow> operation \<Rightarrow> bool" where
  "run_ok s i p \<longleftrightarrow>
     i < op_ids s \<and> map_of (activeOperations s) (o_device p) = Some True \<and>
     map_of (activeOperationInfo s) (o_device p) = Some (op_name (o_request p), i) \<and>
     registry_Get NewRegistry (o_fsType p) = Ok (o_adapter p) \<and>
     (\<exists>env. supports (o_request p) (IsSupported env (o_adapter p))) \<and>
     (i \<in> set (cancelledOps s) \<longrightarrow> is_check p)"

definition ops_inv :: "fs_service \<Rightarrow> bool" where
  "ops_inv s \<longleftrightarrow>
     s_registry s = NewRegistry \<and>
     (\<forall>i p. map_of (s_running s) i = Some p \<longrightarrow> run_ok s i p) \<and>
     (\<forall>d. map_of (activeOperations s) d \<noteq> None \<or> map_of (activeOperationInfo s) d \<noteq> None \<longrightarrow>
        (\<exists>i p. map_of (s_running s) i = Some p \<and> o_device p = d)) \<and>
     (\<forall>i \<in> set (cancelledOps s). i < op_ids s)"

lemma ops_invD:
  assumes "ops_inv s"
  shows "s_registry s = NewRegistry" "map_of (s_running s) i = Some p \<Longrightarrow> run_ok s i p"
    "map_of (activeOperations s) d \<noteq> None \<Longrightarrow> \<exists>i p. map_of (s_running s) i = Some p \<and> o_device p = d"
    "map_of (activeOperationInfo s) d \<noteq> None \<Longrightarrow> \<exists>i p. map_of (s_running s) i = Some p \<and> o_device p = d"
    "i \<in> set (cancelledOps s) \<Longrightarrow> i < op_ids s"
  using assms unfolding ops_inv_def by blast+

lemma ops_inv_new: "ops_inv (new_service b w)"
  by (simp add: ops_inv_def new_service_def)

lemma ops_unique:
  assumes "ops_inv s" "map_of (s_running s) i = Some p" "map_of (s_running s) j = Some q"
    "o_device p = o_device q"
  shows "i = j"
  using ops_invD(2) [OF assms(1,2)] ops_invD(2) [OF assms(1,3)] assms(4) by (simp add: run_ok_def)

lemma ops_active:
  assumes "ops_inv s"
  shows "is_active d s \<longleftrightarrow> (\<exists>i p. map_of (s_running s) i = Some p \<and> o_device p = d)"
  using ops_invD(2) [OF assms] ops_invD(3) [OF assms, of d] by (auto simp: is_active_def run_ok_def)

lemma ops_inv_same:
  assumes inv: "ops_inv s" and at: "map_of (s_running s) i = Some p" and p: "same_op p p'"
    and t: "same_service s t" "map_of (s_running t) = (map_of (s_running s))(i \<mapsto> p')"
  shows "ops_inv t"
proof -
  have "run_ok s i p" by (rule ops_invD(2) [OF inv at])
  then have "run_ok t i p'"
    using p t(1) by (simp add: run_ok_def same_op_def same_service_def is_check_def)
  moreover have "run_ok t j q" if "map_of (s_running s) j = Some q" for j q
    using ops_invD(2) [OF inv that] t(1) by (simp add: run_ok_def same_service_def)
  moreover have "\<exists>j q. map_of (s_running t) j = Some q \<and> o_device q = d"
    if "\<exists>j q. map_of (s_running s) j = Some q \<and> o_device q = d" for d
  proof -
    from that obtain j q where q: "map_of (s_running s) j = Some q" "o_device q = d" by blast
    show ?thesis
    proof (cases "j = i")
      case True
      then have "o_device p' = d" using q at p by (simp add: same_op_def)
      moreover have "map_of (s_running t) i = Some p'" by (simp add: t(2))
      ultimately show ?thesis by blast
    next
      case False
      then have "map_of (s_running t) j = Some q" using q t(2) by simp
      then show ?thesis using q by blast
    qed
  qed
  ultimately show ?thesis using ops_invD [OF inv] t unfolding ops_inv_def same_service_def
    by (auto split: if_splits)
qed

lemma ops_inv_leave:
  assumes inv: "ops_inv s" and at: "map_of (s_running s) i = Some p"
  shows "ops_inv ((finishOperation (o_device p) s)\<lparr>s_running := AList.delete i (s_running s)\<rparr>)"
    (is "ops_inv ?t")
proof -
  have run: "map_of (s_running ?t) = (map_of (s_running s))(i := None)"
    by (simp add: AList.delete_conv')
  have other: "o_device q \<noteq> o_device p" if "map_of (s_running s) j = Some q" "j \<noteq> i" for j q
    using ops_unique [OF inv that(1) at] that(2) by blast
  have "run_ok ?t j q" if "map_of (s_running ?t) j = Some q" for j q
  proof -
    from that have q: "map_of (s_running s) j = Some q" "j \<noteq> i" unfolding run by (auto split: if_splits)
    show ?thesis using ops_invD(2) [OF inv q(1)] other [OF q] by (simp add: run_ok_def)
  qed
  moreover have "\<exists>j q. map_of (s_running ?t) j = Some q \<and> o_device q = d"
    if ne: "d \<noteq> o_device p" and ent: "map_of (activeOperations s) d \<noteq> None \<or> map_of (activeOperationInfo s) d \<noteq> None" for d
  proof -
    obtain j q where q: "map_of (s_running s) j = Some q" "o_device q = d"
      using ops_invD(3,4) [OF inv, of d] ent by blast
    then have "j \<noteq> i" using at ne by auto
    then show ?thesis using q run by auto
  qed
  ultimately show ?thesis using ops_invD(1,5) [OF inv] unfolding ops_inv_def by (auto split: if_splits)
qed

lemma ops_inv_run: "ops_inv s \<Longrightarrow> ops_inv (run_operation env i s)"
proof (cases "map_of (s_running s) i")
  case None
  then show "ops_inv s \<Longrightarrow> ?thesis" by (simp add: run_operation_def)
next
  case (Some p)
  assume inv: "ops_inv s"
  show ?thesis
  proof (cases "o_phase p = Leaving")
    case True
    then show ?thesis using ops_inv_leave [OF inv Some] Some
      by (simp add: run_operation_def advance_leaving)
  next
    case False
    from advance_frame [OF False] obtain p' where "same_op p p'"
      "same_service s (advance env i p s)"
      "map_of (s_running (advance env i p s)) = (map_of (s_running s))(i \<mapsto> p')" by blast
    then have "ops_inv (advance env i p s)" by (rule ops_inv_same [OF inv Some])
    then show ?thesis using Some by (simp add: run_operation_def)
  qed
qed

text \<open>What a call to start an operation does: nothing, or it starts one with a new number.\<close>

definition launched :: "string \<Rightarrow> string \<Rightarrow> op_request \<Rightarrow> adapter \<Rightarrow> fs_service \<Rightarrow> fs_service" where
  "launched device fsType r a s =
     s\<lparr>activeOperations := AList.update device True (activeOperations s),
       activeOperationInfo := AList.update device (op_name r, op_ids s) (activeOperationInfo s),
       op_ids := Suc (op_ids s),
       s_running := AList.update (op_ids s)
         \<lparr>o_device = device, o_request = r, o_fsType = fsType, o_adapter = a,
          o_phase = Queued, o_notes = []\<rparr> (s_running s)\<rparr>"

lemma launched_simps [simp]:
  "s_hasBus (launched device fsType r a s) = s_hasBus s"
  "op_ids (launched device fsType r a s) = Suc (op_ids s)"
  "cancelledOps (launched device fsType r a s) = cancelledOps s"
  "serviceDone (launched device fsType r a s) = serviceDone s"
  by (simp_all add: launched_def)

lemma begin_operation_cases:
  assumes "begin_operation env device fsType r s = (reply, t)"
  obtains (refused) "t = s" "\<not> is_ok reply"
  | (started) a where "t = launched device fsType r a s" "is_ok reply" "\<not> is_active device s"
      "registry_Get (s_registry s) fsType = Ok a" "supports r (IsSupported env a)"
  using assms
  by (auto simp: begin_operation_def startOperation_def launched_def Let_def
      split: res.splits if_splits)

lemma ops_inv_launched:
  assumes inv: "ops_inv s" and free: "\<not> is_active device s"
    and a: "registry_Get (s_registry s) fsType = Ok a" "supports r (IsSupported env a)"
  shows "ops_inv (launched device fsType r a s)" (is "ops_inv ?t")
proof -
  let ?p = "\<lparr>o_device = device, o_request = r, o_fsType = fsType, o_adapter = a,
             o_phase = Queued, o_notes = []\<rparr>"
  have run: "map_of (s_running ?t) = (map_of (s_running s))(op_ids s \<mapsto> ?p)"
    by (simp add: launched_def AList.update_conv')
  have old: "run_ok ?t j q" if "map_of (s_running s) j = Some q" for j q
  proof -
    have "run_ok s j q" by (rule ops_invD(2) [OF inv that])
    moreover from this have "o_device q \<noteq> device" using free by (auto simp: run_ok_def is_active_def)
    ultimately show ?thesis by (auto simp: run_ok_def launched_def AList.update_conv')
  qed
  have new: "run_ok ?t (op_ids s) ?p"
    using ops_invD(1) [OF inv] ops_invD(5) [OF inv, of "op_ids s"] a
    by (auto simp: run_ok_def launched_def AList.update_conv')
  have entry: "\<exists>j q. map_of (s_running ?t) j = Some q \<and> o_device q = d"
    if "d = device \<or> (\<exists>j q. map_of (s_running s) j = Some q \<and> o_device q = d)" for d
  proof (cases "d = device")
    case True
    then have "map_of (s_running ?t) (op_ids s) = Some ?p \<and> o_device ?p = d" by (simp add: run)
    then show ?thesis by blast
  next
    case False
    with that obtain j q where q: "map_of (s_running s) j = Some q" "o_device q = d" by blast
    then have "j \<noteq> op_ids s" using ops_invD(2) [OF inv q(1)] by (auto simp: run_ok_def)
    then have "map_of (s_running ?t) j = Some q" using q run by simp
    then show ?thesis using q(2) by blast
  qed
  have entries: "\<exists>j q. map_of (s_running ?t) j = Some q \<and> o_device q = d"
    if "map_of (activeOperations ?t) d \<noteq> None \<or> map_of (activeOperationInfo ?t) d \<noteq> None" for d
    by (rule entry) (use that ops_invD(3,4) [OF inv, of d] in
      \<open>auto simp: launched_def AList.update_conv' split: if_splits\<close>)
  have "s_registry ?t = NewRegistry" "cancelledOps ?t = cancelledOps s" "op_ids ?t = Suc (op_ids s)"
    using ops_invD(1) [OF inv] by (simp_all add: launched_def)
  moreover have "run_ok ?t j q" if "map_of (s_running ?t) j = Some q" for j q
    using that old new unfolding run by (auto split: if_splits)
  ultimately show ?thesis using entries ops_invD(5) [OF inv] unfolding ops_inv_def
    by (auto intro: less_SucI)
qed

lemma ops_inv_begin: "ops_inv s \<Longrightarrow> ops_inv (snd (begin_operation env device fsType r s))"
proof -
  assume inv: "ops_inv s"
  obtain reply t where b: "begin_operation env device fsType r s = (reply, t)" by (metis prod.collapse)
  show ?thesis
    using b by (cases rule: begin_operation_cases) (use inv b ops_inv_launched in auto)
qed

lemma AbortCheckPartition_cases:
  assumes "AbortCheckPartition device s = (reply, t)"
  obtains (refused) "t = s" "\<not> is_ok reply"
    "\<not> is_active device s \<or> (\<forall>i. map_of (activeOperationInfo s) device \<noteq> Some (''check'', i))"
  | (cancelled) i where "reply = Ok ()" "is_active device s"
      "map_of (activeOperationInfo s) device = Some (''check'', i)"
      "t = s\<lparr>cancelledOps := cancelledOps s @ [i]\<rparr>"
  using assms by (auto simp: AbortCheckPartition_def split: option.splits if_splits prod.splits)

lemma ops_inv_cancel:
  assumes inv: "ops_inv s" and i: "map_of (activeOperationInfo s) device = Some (''check'', i)"
  shows "ops_inv (s\<lparr>cancelledOps := cancelledOps s @ [i]\<rparr>)" (is "ops_inv ?t")
proof -
  obtain j p where p: "map_of (s_running s) j = Some p" "o_device p = device"
    using ops_invD(4) [OF inv, of device] i by auto
  have ok: "run_ok s j p" by (rule ops_invD(2) [OF inv p(1)])
  then have ji: "j = i" "is_check p" using i p(2) by (auto simp: run_ok_def is_check_def)
  have "run_ok ?t k q" if "map_of (s_running s) k = Some q" for k q
  proof -
    have "run_ok s k q" by (rule ops_invD(2) [OF inv that])
    moreover have "k = i \<Longrightarrow> q = p" using that p(1) ji(1) by simp
    ultimately show ?thesis using ji by (auto simp: run_ok_def)
  qed
  then show ?thesis using ops_invD [OF inv] ok ji unfolding ops_inv_def by (auto simp: run_ok_def)
qed

lemma ops_inv_abort: "ops_inv s \<Longrightarrow> ops_inv (snd (AbortCheckPartition device s))"
proof -
  assume inv: "ops_inv s"
  obtain reply t where b: "AbortCheckPartition device s = (reply, t)" by (metis prod.collapse)
  show ?thesis using b
    by (cases rule: AbortCheckPartition_cases) (use inv b ops_inv_cancel in auto)
qed

text \<open>State and label calls change the world only.\<close>

lemma query_frame:
  "\<exists>w'. snd (GetPartitionState env device fsType s) = s\<lparr>s_world := w'\<rparr>"
  "\<exists>w'. snd (GetPartitionLabel env device fsType s) = s\<lparr>s_world := w'\<rparr>"
  "\<exists>w'. snd (SetPartitionLabel env device fsType label s) = s\<lparr>s_world := w'\<rparr>"
proof -
  have self: "\<exists>w'. s = s\<lparr>s_world := w'\<rparr>" by (rule exI [of _ "s_world s"]) simp
  show "\<exists>w'. snd (GetPartitionState env device fsType s) = s\<lparr>s_world := w'\<rparr>"
    using self by (auto simp: GetPartitionState_def split: res.split prod.split)
  show "\<exists>w'. snd (GetPartitionLabel env device fsType s) = s\<lparr>s_world := w'\<rparr>"
    using self by (auto simp: GetPartitionLabel_def split: res.split prod.split)
  show "\<exists>w'. snd (SetPartitionLabel env device fsType label s) = s\<lparr>s_world := w'\<rparr>"
    using self by (auto simp: SetPartitionLabel_def Let_def split: res.split prod.split option.split)
qed

lemma ops_inv_world [simp]: "ops_inv (s\<lparr>s_world := w\<rparr>) = ops_inv s"
  by (simp add: ops_inv_def run_ok_def)

lemma ops_inv_done [simp]: "ops_inv (s\<lparr>serviceDone := b\<rparr>) = ops_inv s"
  by (simp add: ops_inv_def run_ok_def)

lemma ops_inv_step: "ops_inv s \<Longrightarrow> ops_inv (fs_step s ev)"
proof (cases ev)
  case (CallGetState env device fsType)
  then show "ops_inv s \<Longrightarrow> ?thesis" using query_frame(1) [of env device fsType s]
    by (auto simp: fs_step_def)
next
  case (CallGetLabel env device fsType)
  then show "ops_inv s \<Longrightarrow> ?thesis" using query_frame(2) [of env device fsType s]
    by (auto simp: fs_step_def)
next
  case (CallSetLabel env device fsType label)
  then show "ops_inv s \<Longrightarrow> ?thesis" using query_frame(3) [of env device fsType label s]
    by (auto simp: fs_step_def)
qed (simp_all add: fs_step_def FormatPartition_def CheckPartition_def ops_inv_begin ops_inv_abort
  ops_inv_run)

interpretation fs_ops: invariant_steps fs_step "\<lambda>_. True" ops_inv
  by unfold_locales (rule ops_inv_step)

lemma list_all_any [simp]: "list_all (\<lambda>_. True) xs"
  by (induction xs) simp_all

lemmas ops_inv_reached = fs_ops.inv_run [OF ops_inv_new list_all_any]

text \<open>C3: Whatever calls and goroutines interleave, no device ever has two operations running, a
  device is marked active exactly while one runs on it, and starting another format or check there is
  refused and changes nothing.\<close>

theorem one_operation_per_device:
  fixes es :: "fs_event list"
  assumes "s = foldl fs_step (new_service bus w) es" and "map_of (s_running s) i = Some p"
  shows "(\<forall>j q. map_of (s_running s) j = Some q \<longrightarrow> o_device q = o_device p \<longrightarrow> j = i) \<and>
    (\<forall>d. is_active d s \<longleftrightarrow> (\<exists>j q. map_of (s_running s) j = Some q \<and> o_device q = d)) \<and>
    (\<exists>e. FormatPartition env (o_device p) fsType fo s = (Err e, s)) \<and>
    (\<exists>e. CheckPartition env (o_device p) fsType co s = (Err e, s))"
proof -
  have inv: "ops_inv s" unfolding assms(1) by (rule ops_inv_reached)
  have act: "is_active (o_device p) s" using ops_active [OF inv] assms(2) by blast
  have no: "\<exists>e. begin_operation env (o_device p) fsType r s = (Err e, s)" for r
  proof -
    obtain reply t where b: "begin_operation env (o_device p) fsType r s = (reply, t)"
      by (metis prod.collapse)
    have "registry_Get (s_registry s) fsType \<noteq> Panic" by (simp add: registry_Get_def Let_def split: option.split)
    then have "reply \<noteq> Panic"
      using b act by (auto simp: begin_operation_def startOperation_def Let_def split: res.splits if_splits)
    moreover have "t = s \<and> \<not> is_ok reply"
      using b by (cases rule: begin_operation_cases) (use act in auto)
    ultimately show ?thesis using b by (cases reply) auto
  qed
  show ?thesis using ops_unique [OF inv _ assms(2)] ops_active [OF inv] no
    unfolding FormatPartition_def CheckPartition_def by blast
qed

definition demo_check :: check_options where
  "demo_check = \<lparr>co_AutoFix = True, co_Force = False, co_Verbose = False\<rparr>"

definition demo_operation :: "op_request \<Rightarrow> operation" where
  "demo_operation r = \<lparr>o_device = ''/dev/sdb1'', o_request = r, o_fsType = ''ext4'',
     o_adapter = NewExt4Adapter, o_phase = Queued, o_notes = []\<rparr>"

lemma demo_ext4: "registry_Get NewRegistry ''ext4'' = Ok NewExt4Adapter"
proof -
  have hits: "filter (\<lambda>a. canonicalizeFilesystemType ''ext4'' \<in> set (canonical_names a)) (GetAll NewRegistry)
      = [NewExt4Adapter]"
    by code_simp
  from registry_Get_correct [OF _ registry_keys, of "''ext4''"] show ?thesis by (simp add: hits)
qed

lemma demo_supported: "supports r (IsSupported demo_env NewExt4Adapter)"
proof -
  have "GetLinuxFsModule NewExt4Adapter = ''ext4''" by (simp add: GetLinuxFsModule_def adapter_defs)
  then have "fs_CanFormat (IsSupported demo_env NewExt4Adapter)" "fs_CanCheck (IsSupported demo_env NewExt4Adapter)"
    by (simp_all add: IsSupported_def checkCommandAvailability_def demo_env_def tool_ok_def
        commandExists_def TrimSpace_def is_space_def)
  then show ?thesis by (simp add: supports_def split: op_request.split)
qed

lemma demo_begin:
  "is_ok (fst (begin_operation demo_env ''/dev/sdb1'' ''ext4'' r (new_service bus w)))"
  "snd (begin_operation demo_env ''/dev/sdb1'' ''ext4'' r (new_service bus w)) =
     launched ''/dev/sdb1'' ''ext4'' r NewExt4Adapter (new_service bus w)"
  by (simp_all add: begin_operation_def startOperation_def is_active_def new_service_def demo_ext4
      demo_supported launched_def)

lemma demo_running:
  "map_of (s_running (foldl fs_step (new_service bus w)
     [CallCheck demo_env ''/dev/sdb1'' ''ext4'' demo_check])) 0 = Some (demo_operation (CheckRequest demo_check))"
  by (simp add: fs_step_def CheckPartition_def demo_begin)
    (simp add: launched_def new_service_def demo_operation_def)

lemma one_operation_per_device_witness:
  "let s = foldl fs_step (new_service True (new_world 0)) [CallCheck demo_env ''/dev/sdb1'' ''ext4'' demo_check]
   in \<exists>e. FormatPartition demo_env ''/dev/sdb1'' ''ext4'' usb_options s = (Err e, s)"
  using one_operation_per_device [OF refl demo_running] by (simp add: Let_def demo_operation_def)

section \<open>What an operation announces\<close>

definition events_of_op :: "nat \<Rightarrow> fs_service \<Rightarrow> (task_event_type \<times> fs_task) list" where
  "events_of_op i s = map snd (filter (\<lambda>e. fst e = i) (task_events s))"

definition callback_event :: "operation \<Rightarrow> string list \<Rightarrow> progress_report \<Rightarrow> task_event_type \<times> fs_task" where
  "callback_event p nts r = (case r of (status, percentual, new) \<Rightarrow>
     (status_type status,
      (task_of p status (title p @ '' '' @ o_device p @ '': '' @ status
          @ (if new \<noteq> [] then '' - '' @ Join new '', '' else [])))
        \<lparr>t_Progress := percentual, t_Notes := nts @ new\<rparr>))"

fun callback_events :: "operation \<Rightarrow> string list \<Rightarrow> progress_report list \<Rightarrow> (task_event_type \<times> fs_task) list" where
  "callback_events p nts [] = []"
| "callback_events p nts (r # rs) = callback_event p nts r # callback_events p (nts @ snd (snd r)) rs"

definition notes_of :: "progress_report list \<Rightarrow> string list" where
  "notes_of rs = concat (map (\<lambda>r. snd (snd r)) rs)"

lemma callback_events_app:
  "callback_events p nts (rs @ qs) = callback_events p nts rs @ callback_events p (nts @ notes_of rs) qs"
  by (induction rs arbitrary: nts) (simp_all add: notes_of_def)

lemma same_op_texts:
  assumes "same_op p q"
  shows "task_of q = task_of p" "title q = title p" "start_text q = start_text p"
    "callback_event q = callback_event p" "call_adapter env q = call_adapter env p"
proof -
  show t: "task_of q = task_of p" and n: "title q = title p" and "start_text q = start_text p"
    using assms by (auto simp: same_op_def task_of_def title_def start_text_def fun_eq_iff
        split: op_request.split)
  then show "callback_event q = callback_event p"
    using assms by (auto simp: same_op_def callback_event_def fun_eq_iff)
  show "call_adapter env q = call_adapter env p"
    using assms by (auto simp: same_op_def call_adapter_def fun_eq_iff split: op_request.split)
qed

lemma same_op_events: "same_op p q \<Longrightarrow> callback_events q nts rs = callback_events p nts rs"
  by (induction rs arbitrary: nts) (simp_all add: same_op_texts(4) [of p q])

lemma same_op_outcome:
  assumes "same_op p q" shows "outcome_event c (q\<lparr>o_notes := n\<rparr>) out = outcome_event c (p\<lparr>o_notes := n\<rparr>) out"
proof -
  have "same_op (p\<lparr>o_notes := n\<rparr>) (q\<lparr>o_notes := n\<rparr>)" using assms by (simp add: same_op_def)
  from same_op_texts(1) [OF this] assms show ?thesis
    by (simp add: outcome_event_def same_op_def split: op_outcome.split option.split)
qed

definition start_event' :: "operation \<Rightarrow> task_event_type \<times> fs_task" where
  "start_event' p = (EtStart, task_of p ''start'' (start_text p))"

text \<open>
  The whole announcement of an operation: the start, what the adapter reported, the outcome.
\<close>

definition announced_all :: "fs_service \<Rightarrow> nat \<Rightarrow> operation \<Rightarrow> (task_event_type \<times> fs_task) list \<Rightarrow> bool" where
  "announced_all s i p evs \<longleftrightarrow>
     (\<exists>env v v' out c. call_adapter env p v = (out, v') \<and> (c \<longrightarrow> opCanceled i s) \<and>
        (let rs = drop (length (reports v)) (reports v') in
         evs = start_event' p # callback_events p [] rs
               @ [outcome_event c (p\<lparr>o_notes := notes_of rs\<rparr>) out]))"

definition announced_sofar :: "fs_service \<Rightarrow> nat \<Rightarrow> operation \<Rightarrow> (task_event_type \<times> fs_task) list \<Rightarrow> bool" where
  "announced_sofar s i p evs = (case o_phase p of
       Queued \<Rightarrow> evs = [] \<and> o_notes p = []
     | Announced \<Rightarrow> evs = [start_event' p] \<and> o_notes p = []
     | Reporting rs out \<Rightarrow>
         (\<exists>env v v' past. call_adapter env p v = (out, v') \<and>
            drop (length (reports v)) (reports v') = past @ rs \<and> o_notes p = notes_of past \<and>
            evs = start_event' p # callback_events p [] past)
     | Leaving \<Rightarrow> announced_all s i p evs)"

definition requested :: "operation \<Rightarrow> bool" where
  "requested p \<longleftrightarrow> registry_Get NewRegistry (o_fsType p) = Ok (o_adapter p) \<and>
     (\<exists>env. supports (o_request p) (IsSupported env (o_adapter p)))"

definition history_ok :: "fs_service \<Rightarrow> nat \<Rightarrow> bool" where
  "history_ok s i = (case map_of (s_running s) i of
       Some p \<Rightarrow> announced_sofar s i p (events_of_op i s)
     | None \<Rightarrow> if i < op_ids s
               then \<exists>p. requested p \<and> announced_all s i p (events_of_op i s)
               else events_of_op i s = [])"

definition service_inv :: "fs_service \<Rightarrow> bool" where
  "service_inv s \<longleftrightarrow> ops_inv s \<and> s_hasBus s \<and> (\<forall>i. history_ok s i)"

lemma service_invD:
  assumes "service_inv s" shows "ops_inv s" "s_hasBus s" "history_ok s i"
  using assms unfolding service_inv_def by blast+

lemma events_of_emit_task [simp]:
  "events_of_op i (emitTask j ty t s) =
     (if s_hasBus s \<and> i = j then events_of_op i s @ [(ty, t)] else events_of_op i s)"
  by (simp add: events_of_op_def emitTask_def)

lemma events_of_op_frame [simp]:
  "events_of_op i (store_op j p s) = events_of_op i s"
  "events_of_op i (s\<lparr>s_world := w\<rparr>) = events_of_op i s"
  "events_of_op i (s\<lparr>serviceDone := b\<rparr>) = events_of_op i s"
  "events_of_op i (s\<lparr>cancelledOps := cs\<rparr>) = events_of_op i s"
  "events_of_op i (finishOperation d s) = events_of_op i s"
  "events_of_op i (s\<lparr>s_running := r\<rparr>) = events_of_op i s"
  "events_of_op i (launched device fsType rq a s) = events_of_op i s"
  by (simp_all add: events_of_op_def launched_def)

text \<open>A history stays good when nothing of its operation changes and contexts only get cancelled.\<close>

lemma announced_all_mono:
  "announced_all s i p evs \<Longrightarrow> (opCanceled i s \<Longrightarrow> opCanceled i t) \<Longrightarrow> announced_all t i p evs"
  unfolding announced_all_def by blast

lemma history_mono:
  assumes "history_ok s i" and "map_of (s_running t) i = map_of (s_running s) i"
    and "i < op_ids t \<longleftrightarrow> i < op_ids s" and "events_of_op i t = events_of_op i s"
    and "opCanceled i s \<Longrightarrow> opCanceled i t"
  shows "history_ok t i"
  using assms announced_all_mono [OF _ assms(5)]
  by (auto simp: history_ok_def announced_sofar_def split: option.splits op_phase.splits if_splits)

lemma announced_all_same:
  assumes "same_op p q" shows "announced_all s i q evs = announced_all s i p evs"
  unfolding announced_all_def Let_def start_event'_def same_op_texts [OF assms] same_op_events [OF assms]
    same_op_outcome [OF assms] ..

lemma progressCallback_eq:
  assumes "s_hasBus s"
  shows "progressCallback i p r s =
    (p\<lparr>o_notes := o_notes p @ snd (snd r)\<rparr>,
     emitTask i (fst (callback_event p (o_notes p) r)) (snd (callback_event p (o_notes p) r)) s)"
  using assms by (cases r) (simp add: progressCallback_def callback_event_def Let_def)

text \<open>One step of a goroutine extends its own history.\<close>

lemma advance_history:
  assumes bus: "s_hasBus s" and so: "announced_sofar s i p (events_of_op i s)"
    and ph: "o_phase p \<noteq> Leaving"
  shows "\<exists>q. map_of (s_running (advance env i p s)) i = Some q \<and>
    announced_sofar (advance env i p s) i q (events_of_op i (advance env i p s))"
proof (cases "o_phase p")
  case Queued
  have "start_event' (p\<lparr>o_phase := Announced\<rparr>) = start_event' p"
    by (simp add: start_event'_def same_op_texts [OF same_op_phase])
  then show ?thesis using Queued so bus by (simp add: advance_def announced_sofar_def start_event'_def)
next
  case Announced
  obtain out w' where c: "call_adapter env p (s_world s) = (out, w')" by (metis prod.collapse)
  define q where "q = p\<lparr>o_phase := Reporting (drop (length (reports (s_world s))) (reports w')) out\<rparr>"
  have pq: "same_op p q" by (simp add: q_def)
  have "advance env i p s = store_op i q (s\<lparr>s_world := w'\<rparr>)" using Announced by (simp add: advance_def c q_def)
  moreover have "announced_sofar t i q [start_event' p]" for t
  proof -
    have "call_adapter env q (s_world s) = (out, w')" by (simp add: same_op_texts [OF pq] c)
    moreover have "start_event' q = start_event' p" by (simp add: start_event'_def same_op_texts [OF pq])
    moreover have "o_notes q = notes_of []" "o_phase q = Reporting (drop (length (reports (s_world s))) (reports w')) out"
      using so Announced by (simp_all add: q_def announced_sofar_def notes_of_def)
    ultimately show ?thesis unfolding announced_sofar_def
      by (simp only: op_phase.case) (rule exI [of _ env], rule exI [of _ "s_world s"],
        rule exI [of _ w'], rule exI [of _ "[]"], simp)
  qed
  ultimately show ?thesis using so Announced by (simp add: announced_sofar_def)
next
  case (Reporting rs out)
  with so obtain env' v v' past where h: "call_adapter env' p v = (out, v')"
    "drop (length (reports v)) (reports v') = past @ rs" "o_notes p = notes_of past"
    "events_of_op i s = start_event' p # callback_events p [] past"
    by (auto simp: announced_sofar_def)
  show ?thesis
  proof (cases rs)
    case Nil
    define ev where "ev = outcome_event (opCanceled i s) p out"
    define t where "t = store_op i (p\<lparr>o_phase := Leaving\<rparr>) (emitTask i (fst ev) (snd ev) s)"
    have adv: "advance env i p s = t" using Reporting Nil by (simp add: advance_def t_def ev_def split: prod.split)
    have canc: "opCanceled i t = opCanceled i s" by (simp add: t_def opCanceled_def)
    have ev: "ev = outcome_event (opCanceled i s) (p\<lparr>o_notes := notes_of past\<rparr>) out"
      using h(3) unfolding ev_def by (metis operation.surjective operation.update_convs(6))
    have "announced_all t i p (events_of_op i s @ [ev])"
      unfolding announced_all_def
      by (intro exI [of _ env'] exI [of _ v] exI [of _ v'] exI [of _ out] exI [of _ "opCanceled i s"])
        (use h Nil ev canc in simp)
    then have "announced_all t i (p\<lparr>o_phase := Leaving\<rparr>) (events_of_op i s @ [ev])"
      by (simp add: announced_all_same [OF same_op_phase])
    then show ?thesis unfolding adv by (simp add: t_def bus announced_sofar_def)
  next
    case (Cons r rs')
    define q where "q = p\<lparr>o_notes := o_notes p @ snd (snd r), o_phase := Reporting rs' out\<rparr>"
    define ev where "ev = callback_event p (o_notes p) r"
    have pq: "same_op p q" by (simp add: q_def same_op_def)
    have adv: "advance env i p s = store_op i q (emitTask i (fst ev) (snd ev) s)"
      using Reporting Cons bus by (simp add: advance_def progressCallback_eq ev_def q_def)
    have "callback_events q [] (past @ [r]) = callback_events p [] past @ [ev]"
      by (simp add: same_op_events [OF pq] same_op_texts(4) [OF pq] callback_events_app ev_def h(3))
    moreover have "o_notes q = notes_of (past @ [r])" by (simp add: q_def h(3) notes_of_def)
    moreover have "start_event' q = start_event' p" by (simp add: start_event'_def same_op_texts [OF pq])
    moreover have "call_adapter env' q v = (out, v')" by (simp add: same_op_texts [OF pq] h(1))
    moreover have "drop (length (reports v)) (reports v') = (past @ [r]) @ rs'" using h(2) Cons by simp
    moreover have "o_phase q = Reporting rs' out" by (simp add: q_def)
    ultimately have "announced_sofar t i q (events_of_op i s @ [ev])" for t
      using h(4) unfolding announced_sofar_def
      by (simp only: op_phase.case) (rule exI [of _ env'], rule exI [of _ v], rule exI [of _ v'],
        rule exI [of _ "past @ [r]"], simp)
    then show ?thesis unfolding adv by (simp add: bus)
  qed
next
  case Leaving
  then show ?thesis using ph by simp
qed

lemma advance_others:
  assumes "map_of (s_running s) i = Some p" and "j \<noteq> i"
  shows "map_of (s_running (advance env i p s)) j = map_of (s_running s) j"
    "events_of_op j (advance env i p s) = events_of_op j s"
proof -
  show "map_of (s_running (advance env i p s)) j = map_of (s_running s) j"
    using advance_frame [of p s env i] assms
    by (cases "o_phase p = Leaving") (auto simp: advance_leaving AList.delete_conv')
  have cb: "events_of_op j s' = events_of_op j s" if "progressCallback i p r s = (p', s')" for r p' s'
    using that assms(2) by (auto simp: progressCallback_def Let_def split: prod.splits if_splits)
  show "events_of_op j (advance env i p s) = events_of_op j s"
    using assms(2) by (auto simp: advance_def cb split: op_phase.split list.split prod.split)
qed

lemma advance_global:
  "s_hasBus (advance env i p s) = s_hasBus s" "op_ids (advance env i p s) = op_ids s"
  "opCanceled j (advance env i p s) = opCanceled j s"
proof -
  have "s_hasBus (advance env i p s) = s_hasBus s \<and> op_ids (advance env i p s) = op_ids s \<and>
      opCanceled j (advance env i p s) = opCanceled j s"
    using advance_frame [of p s env i]
    by (cases "o_phase p = Leaving") (auto simp: advance_leaving same_service_def opCanceled_def)
  then show "s_hasBus (advance env i p s) = s_hasBus s" "op_ids (advance env i p s) = op_ids s"
    "opCanceled j (advance env i p s) = opCanceled j s" by blast+
qed

lemma run_ok_requested: "run_ok s i p \<Longrightarrow> requested p"
  by (auto simp: run_ok_def requested_def)

lemma service_inv_run:
  assumes inv: "service_inv s" shows "service_inv (run_operation env i s)"
proof (cases "map_of (s_running s) i")
  case None
  then show ?thesis using inv by (simp add: run_operation_def)
next
  case (Some p)
  let ?t = "advance env i p s"
  have t: "run_operation env i s = ?t" using Some by (simp add: run_operation_def)
  have so: "announced_sofar s i p (events_of_op i s)"
    using service_invD(3) [OF inv, of i] Some by (simp add: history_ok_def)
  have ok: "run_ok s i p" by (rule ops_invD(2) [OF service_invD(1) [OF inv] Some])
  have own: "history_ok ?t i"
  proof (cases "o_phase p = Leaving")
    case True
    have "map_of (s_running ?t) i = None" using True by (simp add: advance_leaving AList.delete_conv')
    moreover have "i < op_ids ?t" using ok by (simp add: advance_global run_ok_def)
    moreover have "announced_all ?t i p (events_of_op i ?t)"
      using so True announced_all_mono [of s i p _ ?t] advance_global(3) [of i env i p s]
      by (simp add: announced_sofar_def advance_leaving)
    ultimately show ?thesis using run_ok_requested [OF ok] by (auto simp: history_ok_def)
  next
    case False
    from advance_history [OF service_invD(2) [OF inv] so False, of env]
    show ?thesis by (auto simp: history_ok_def)
  qed
  have "history_ok ?t j" for j
  proof (cases "j = i")
    case True
    with own show ?thesis by simp
  next
    case False
    show ?thesis by (rule history_mono [OF service_invD(3) [OF inv]])
      (simp_all add: advance_others [OF Some False] advance_global)
  qed
  moreover have "ops_inv ?t" using ops_inv_run [OF service_invD(1) [OF inv], of env i] t by simp
  ultimately show ?thesis using service_invD(2) [OF inv] unfolding t service_inv_def
    by (auto simp: advance_global)
qed

lemma service_inv_launched:
  assumes inv: "service_inv s" and ops: "ops_inv (launched device fsType r a s)" (is "ops_inv ?t")
  shows "service_inv ?t"
proof -
  have run: "map_of (s_running ?t) = (map_of (s_running s))(op_ids s \<mapsto>
      \<lparr>o_device = device, o_request = r, o_fsType = fsType, o_adapter = a, o_phase = Queued, o_notes = []\<rparr>)"
    by (simp add: launched_def AList.update_conv')
  have none: "map_of (s_running s) (op_ids s) = None"
  proof (rule ccontr)
    assume "map_of (s_running s) (op_ids s) \<noteq> None"
    then obtain q where "map_of (s_running s) (op_ids s) = Some q" by auto
    from ops_invD(2) [OF service_invD(1) [OF inv] this] show False by (simp add: run_ok_def)
  qed
  have "events_of_op (op_ids s) s = []"
    using service_invD(3) [OF inv, of "op_ids s"] none by (simp add: history_ok_def)
  then have new: "history_ok ?t (op_ids s)" by (simp add: history_ok_def run announced_sofar_def)
  have "history_ok ?t j" if "j \<noteq> op_ids s" for j
    by (rule history_mono [OF service_invD(3) [OF inv]])
      (use that run in \<open>auto simp: opCanceled_def\<close>)
  then show ?thesis using new ops service_invD(2) [OF inv] unfolding service_inv_def
    by (metis launched_simps(1))
qed

lemma service_inv_begin:
  assumes inv: "service_inv s" shows "service_inv (snd (begin_operation env device fsType r s))"
proof -
  obtain reply t where b: "begin_operation env device fsType r s = (reply, t)" by (metis prod.collapse)
  show ?thesis using b
  proof (cases rule: begin_operation_cases)
    case refused
    then show ?thesis using inv b by simp
  next
    case (started a)
    have "ops_inv (launched device fsType r a s)"
      using ops_inv_begin [OF service_invD(1) [OF inv], of env device fsType r] b started(1) by simp
    then show ?thesis using service_inv_launched [OF inv] b started(1) by simp
  qed
qed

lemma service_inv_calm:
  assumes "service_inv s" "ops_inv t" "s_hasBus t = s_hasBus s" "s_running t = s_running s"
    "op_ids t = op_ids s" "task_events t = task_events s" "\<And>i. opCanceled i s \<Longrightarrow> opCanceled i t"
  shows "service_inv t"
proof -
  have "history_ok t i" for i
    by (rule history_mono [OF service_invD(3) [OF assms(1)]]) (use assms in \<open>simp_all add: events_of_op_def\<close>)
  then show ?thesis using assms service_invD(2) [OF assms(1)] unfolding service_inv_def by blast
qed

lemma service_inv_abort:
  assumes inv: "service_inv s" shows "service_inv (snd (AbortCheckPartition device s))"
proof -
  obtain reply t where b: "AbortCheckPartition device s = (reply, t)" by (metis prod.collapse)
  have ops: "ops_inv t" using ops_inv_abort [OF service_invD(1) [OF inv], of device] b by simp
  show ?thesis using b
  proof (cases rule: AbortCheckPartition_cases)
    case refused
    then show ?thesis using inv b by simp
  next
    case (cancelled i)
    have "service_inv t" by (rule service_inv_calm [OF inv ops])
      (auto simp: cancelled opCanceled_def)
    then show ?thesis using b by simp
  qed
qed

lemma service_inv_step:
  assumes inv: "service_inv s" shows "service_inv (fs_step s ev)"
proof -
  have ops: "ops_inv (fs_step s ev)" by (rule ops_inv_step [OF service_invD(1) [OF inv]])
  have world: "service_inv (s\<lparr>s_world := w\<rparr>)" for w
    by (rule service_inv_calm [OF inv]) (simp_all add: service_invD(1) [OF inv] opCanceled_def)
  show ?thesis
  proof (cases ev)
    case (CallGetState env device fsType)
    then show ?thesis using query_frame(1) [of env device fsType s] world by (auto simp: fs_step_def)
  next
    case (CallGetLabel env device fsType)
    then show ?thesis using query_frame(2) [of env device fsType s] world by (auto simp: fs_step_def)
  next
    case (CallSetLabel env device fsType label)
    then show ?thesis using query_frame(3) [of env device fsType label s] world
      by (auto simp: fs_step_def)
  next
    case EndService
    show ?thesis by (rule service_inv_calm [OF inv ops]) (simp_all add: EndService fs_step_def opCanceled_def)
  qed (simp_all add: fs_step_def FormatPartition_def CheckPartition_def service_inv_begin [OF inv]
      service_inv_abort [OF inv] service_inv_run [OF inv])
qed

lemma service_inv_new: "service_inv (new_service True w)"
  using ops_inv_new [of True w]
  by (simp add: service_inv_def history_ok_def events_of_op_def new_service_def)

interpretation fs_history: invariant_steps fs_step "\<lambda>_. True" service_inv
  by unfold_locales (rule service_inv_step)

lemmas service_inv_reached = fs_history.inv_run [OF service_inv_new list_all_any]

lemma formatted_adapter:
  assumes "registry_Get NewRegistry t = Ok a" and "supports (FormatRequest o') (IsSupported env a)"
  shows "ad_kind a \<notin> {Zfs, Apfs}"
proof -
  have "a \<in> set (GetAll NewRegistry)"
    using assms(1) by (auto simp: registry_Get_def Let_def GetAll_def dest!: map_of_SomeD first_some_Some
        intro: rev_image_eqI split: if_splits option.splits)
  then show ?thesis using assms(2)
    by (drule_tac registry_cases) (auto simp: supports_def IsSupported_def checkCommandAvailability_def
        tool_ok_def Let_def split: option.splits if_splits)
qed

text \<open>When a format is over, its events are the start, what the adapter reported and the outcome,
  and the last event says success exactly when the mkfs tool of the requested file system ran on that
  device and ended with exit code 0 and no error; otherwise it says failure. A check ends with success,
  failure or canceled, and canceled only if its context was cancelled or the command said so.\<close>

theorem operation_announced_truthfully:
  fixes es :: "fs_event list"
  assumes "s = foldl fs_step (new_service True w) es"
    and "i < op_ids s" and "map_of (s_running s) i = None"
  shows "\<exists>p mid ty t. events_of_op i s = start_event' p # mid @ [(ty, t)] \<and>
     t_Device t = o_device p \<and> registry_Get NewRegistry (o_fsType p) = Ok (o_adapter p) \<and>
     (case o_request p of
        FormatRequest o' \<Rightarrow>
          \<exists>env v v' as r. ran_one env v v' (mkfsCommand (o_adapter p)) as r \<and> last as = o_device p \<and>
            t_Status t = (if cr_exit r = 0 \<and> cr_error r = None then ''success'' else ''failure'')
      | CheckRequest o' \<Rightarrow>
          \<exists>env v v' res e. Check env (o_adapter p) (o_device p) o' True v = ((res, e), v') \<and>
            (t_Status t = ''success'') = (e = None) \<and>
            (t_Status t = ''canceled'' \<longrightarrow> opCanceled i s \<or> (\<exists>x. e = Some x \<and> is_canceled x)))"
proof -
  have "service_inv s" unfolding assms(1) by (rule service_inv_reached)
  from service_invD(3) [OF this, of i] obtain p where
    p: "requested p" "announced_all s i p (events_of_op i s)"
    using assms(2,3) by (auto simp: history_ok_def)
  then obtain env v v' out c where h: "call_adapter env p v = (out, v')" "c \<longrightarrow> opCanceled i s"
    "events_of_op i s = start_event' p # callback_events p [] (drop (length (reports v)) (reports v'))
       @ [outcome_event c (p\<lparr>o_notes := notes_of (drop (length (reports v)) (reports v'))\<rparr>) out]"
    unfolding announced_all_def Let_def by blast
  define q where "q = p\<lparr>o_notes := notes_of (drop (length (reports v)) (reports v'))\<rparr>"
  obtain ty t where ev: "outcome_event c q out = (ty, t)" by (metis prod.collapse)
  have dev: "t_Device t = o_device p"
    using ev by (auto simp: outcome_event_def task_of_def q_def split: op_outcome.splits option.splits if_splits)
  have reg: "registry_Get NewRegistry (o_fsType p) = Ok (o_adapter p)" using p(1) by (simp add: requested_def)
  show ?thesis
  proof (cases "o_request p")
    case (FormatRequest o')
    obtain e where f: "Format env (o_adapter p) (o_device p) o' True v = (e, v')" "out = FormatDone e"
      using h(1) FormatRequest by (auto simp: call_adapter_def split: prod.splits)
    have "ad_kind (o_adapter p) \<notin> {Zfs, Apfs}"
      using p(1) FormatRequest formatted_adapter by (auto simp: requested_def)
    then have "format_sound env (mkfsCommand (o_adapter p)) (o_device p) True v e v'"
      using format_sound_other [OF f(1)] by simp
    then obtain as r where r: "ran_one env v v' (mkfsCommand (o_adapter p)) as r" "last as = o_device p"
      "(e = None) = (cr_error r = None \<and> cr_exit r = 0)"
      unfolding format_sound_def by blast
    have "t_Status t = (if cr_exit r = 0 \<and> cr_error r = None then ''success'' else ''failure'')"
      using ev f(2) r(3) by (auto simp: outcome_event_def task_of_def split: option.splits)
    then show ?thesis using h(3) ev dev reg r FormatRequest
      unfolding q_def [symmetric] by fastforce
  next
    case (CheckRequest o')
    obtain res e where f: "Check env (o_adapter p) (o_device p) o' True v = ((res, e), v')"
      "out = CheckDone res e"
      using h(1) CheckRequest by (auto simp: call_adapter_def split: prod.splits)
    have "(t_Status t = ''success'') = (e = None)"
      "t_Status t = ''canceled'' \<longrightarrow> c \<or> (\<exists>x. e = Some x \<and> is_canceled x)"
      using ev f(2) by (auto simp: outcome_event_def task_of_def split: option.splits if_splits)
    then show ?thesis using h(2,3) ev dev reg f CheckRequest
      unfolding q_def [symmetric] by fastforce
  qed
qed

section \<open>Operations end\<close>

definition over :: "nat \<Rightarrow> fs_service \<Rightarrow> bool" where
  "over i s \<longleftrightarrow> map_of (s_running s) i = None"

lemma over_stays: "over i s \<Longrightarrow> (run_operation env i ^^ n) s = s"
  by (induction n) (simp_all add: over_def run_operation_def)

lemma over_later:
  assumes "over i ((run_operation env i ^^ n) s)" and "n \<le> m"
  shows "over i ((run_operation env i ^^ m) s)"
proof -
  have "(run_operation env i ^^ m) s = (run_operation env i ^^ (m - n)) ((run_operation env i ^^ n) s)"
    using assms(2) by (metis comp_apply funpow_add le_add_diff_inverse2)
  then show ?thesis using assms(1) over_stays [OF assms(1)] by simp
qed

lemma one_more:
  "over i ((run_operation env i ^^ n) (run_operation env i s)) \<Longrightarrow> over i ((run_operation env i ^^ Suc n) s)"
  by (simp add: funpow_swap1)

lemma leaving_ends:
  "map_of (s_running s) i = Some p \<Longrightarrow> o_phase p = Leaving \<Longrightarrow> over i (run_operation env i s)"
  by (simp add: over_def run_operation_def advance_leaving AList.delete_conv')

lemma reporting_ends:
  "map_of (s_running s) i = Some p \<Longrightarrow> o_phase p = Reporting rs out \<Longrightarrow>
   over i ((run_operation env i ^^ (length rs + 2)) s)"
proof (induction rs arbitrary: s p)
  case Nil
  obtain ty t where "outcome_event (opCanceled i s) p out = (ty, t)" by (metis prod.collapse)
  then have "map_of (s_running (run_operation env i s)) i = Some (p\<lparr>o_phase := Leaving\<rparr>)"
    using Nil by (simp add: run_operation_def advance_def)
  from leaving_ends [OF this] have "over i (run_operation env i (run_operation env i s))" by simp
  then show ?case by (simp add: numeral_2_eq_2)
next
  case (Cons r rs)
  obtain p' s' where c: "progressCallback i p r s = (p', s')" by (metis prod.collapse)
  have "map_of (s_running (run_operation env i s)) i = Some (p'\<lparr>o_phase := Reporting rs out\<rparr>)"
    using Cons.prems by (simp add: run_operation_def advance_def c)
  from Cons.IH [OF this] have "over i ((run_operation env i ^^ (length rs + 2)) (run_operation env i s))"
    by simp
  from one_more [OF this] show ?case by simp
qed

lemma operation_ends: "\<exists>n. over i ((run_operation env i ^^ n) s)"
proof (cases "map_of (s_running s) i")
  case None
  then have "over i ((run_operation env i ^^ 0) s)" by (simp add: over_def)
  then show ?thesis ..
next
  case (Some p)
  have announced: "\<exists>n. over i ((run_operation env i ^^ n) t)"
    if "map_of (s_running t) i = Some q" "o_phase q = Announced" for t q
  proof -
    obtain out w' where "call_adapter env q (s_world t) = (out, w')" by (metis prod.collapse)
    then have "map_of (s_running (run_operation env i t)) i =
        Some (q\<lparr>o_phase := Reporting (drop (length (reports (s_world t))) (reports w')) out\<rparr>)"
      using that by (simp add: run_operation_def advance_def)
    note at = this
    have "o_phase (q\<lparr>o_phase := Reporting (drop (length (reports (s_world t))) (reports w')) out\<rparr>) =
        Reporting (drop (length (reports (s_world t))) (reports w')) out" by simp
    from one_more [OF reporting_ends [OF at this]] show ?thesis by blast
  qed
  show ?thesis
  proof (cases "o_phase p")
    case Queued
    then have "map_of (s_running (run_operation env i s)) i = Some (p\<lparr>o_phase := Announced\<rparr>)"
      using Some by (simp add: run_operation_def advance_def)
    note at = this
    have "o_phase (p\<lparr>o_phase := Announced\<rparr>) = Announced" by simp
    from announced [OF at this] show ?thesis using one_more by blast
  next
    case Announced
    then show ?thesis using announced [OF Some] by simp
  next
    case (Reporting rs out)
    then show ?thesis using reporting_ends [OF Some] by blast
  next
    case Leaving
    then have "over i ((run_operation env i ^^ 1) s)" using leaving_ends [OF Some] by simp
    then show ?thesis ..
  qed
qed

lemma advances: "foldl fs_step s (replicate n (Advance env i)) = (run_operation env i ^^ n) s"
  by (induction n arbitrary: s) (simp_all add: fs_step_def funpow_swap1)

lemma run_others:
  "j \<noteq> i \<Longrightarrow> map_of (s_running (run_operation env i s)) j = map_of (s_running s) j"
  by (cases "map_of (s_running s) i") (simp_all add: run_operation_def advance_others(1))

lemma advances_others:
  "j \<noteq> i \<Longrightarrow> map_of (s_running ((run_operation env i ^^ n) s)) j = map_of (s_running s) j"
  by (induction n) (simp_all add: run_others)

text \<open>Every started operation ends: once its goroutine has made enough steps, whatever the
  adapter answered, it no longer runs and its device is free for the next one.\<close>

theorem operation_frees_device:
  fixes es :: "fs_event list"
  assumes "s = foldl fs_step (new_service bus w) es" and "map_of (s_running s) i = Some p"
  shows "\<exists>n. \<forall>m \<ge> n. let t = foldl fs_step s (replicate m (Advance env i)) in
     map_of (s_running t) i = None \<and> \<not> is_active (o_device p) t"
proof -
  obtain n where n: "over i ((run_operation env i ^^ n) s)" using operation_ends by blast
  have "map_of (s_running ((run_operation env i ^^ m) s)) i = None \<and>
      \<not> is_active (o_device p) ((run_operation env i ^^ m) s)" if "n \<le> m" for m
  proof -
    let ?t = "(run_operation env i ^^ m) s"
    have o: "map_of (s_running ?t) i = None" using over_later [OF n that] by (simp add: over_def)
    have inv: "ops_inv s" unfolding assms(1) by (rule ops_inv_reached)
    have invt: "ops_inv ?t"
      unfolding advances [symmetric] by (rule fs_ops.inv_run [OF inv list_all_any])
    have "o_device q \<noteq> o_device p" if q: "map_of (s_running ?t) j = Some q" for j q
    proof -
      have "j \<noteq> i" using q o by auto
      then have "map_of (s_running s) j = Some q" using q advances_others by metis
      then show ?thesis using ops_unique [OF inv _ assms(2)] \<open>j \<noteq> i\<close> by blast
    qed
    then show ?thesis using o ops_active [OF invt] by blast
  qed
  then show ?thesis unfolding advances Let_def by blast
qed

lemma operation_frees_device_witness:
  "\<exists>n. let t = foldl fs_step (foldl fs_step (new_service True (new_world 0))
          [CallCheck demo_env ''/dev/sdb1'' ''ext4'' demo_check]) (replicate n (Advance demo_env 0))
     in \<not> is_active ''/dev/sdb1'' t"
  using operation_frees_device [OF refl demo_running, of True "new_world 0" demo_env]
  by (auto simp: demo_operation_def Let_def)

lemma demo_format_over:
  "\<exists>n. let s = foldl fs_step (new_service True (new_world 0))
          (CallFormat demo_env ''/dev/sdb1'' ''ext4'' usb_options # replicate n (Advance demo_env 0))
     in 0 < op_ids s \<and> map_of (s_running s) 0 = None"
proof -
  let ?s = "launched ''/dev/sdb1'' ''ext4'' (FormatRequest usb_options) NewExt4Adapter (new_service True (new_world 0))"
  obtain n where n: "over 0 ((run_operation demo_env 0 ^^ n) ?s)" using operation_ends by blast
  have "op_ids ((run_operation demo_env 0 ^^ m) ?s) = 1" for m
  proof (induction m)
    case (Suc m)
    then show ?case by (simp add: run_operation_def advance_global split: option.split)
  qed (simp add: new_service_def)
  then show ?thesis using n
    by (intro exI [of _ n])
      (simp add: Let_def advances fs_step_def [of "new_service True (new_world 0)"] FormatPartition_def
        demo_begin over_def)
qed

lemma operation_announced_truthfully_witness:
  "\<exists>n p mid e. events_of_op 0 (foldl fs_step (new_service True (new_world 0))
      (CallFormat demo_env ''/dev/sdb1'' ''ext4'' usb_options # replicate n (Advance demo_env 0)))
    = start_event' p # mid @ [e]"
proof -
  obtain n where n: "let s = foldl fs_step (new_service True (new_world 0))
          (CallFormat demo_env ''/dev/sdb1'' ''ext4'' usb_options # replicate n (Advance demo_env 0))
     in 0 < op_ids s \<and> map_of (s_running s) 0 = None"
    using demo_format_over by blast
  show ?thesis
    using operation_announced_truthfully [OF refl, of 0 "new_world 0"
      "CallFormat demo_env ''/dev/sdb1'' ''ext4'' usb_options # replicate n (Advance demo_env 0)"] n
    unfolding Let_def by metis
qed

section \<open>Aborting\<close>

text \<open>Aborting succeeds exactly when a check runs on that device, and then cancels the context of
  that check and of no other running operation; a format is never cancelled by an abort, nor is the
  next operation to start.\<close>

theorem abort_cancels_that_check:
  fixes es :: "fs_event list"
  assumes "s = foldl fs_step (new_service bus w) es" and "AbortCheckPartition device s = (r, t)"
  shows "(is_ok r \<longleftrightarrow> (\<exists>i p. map_of (s_running s) i = Some p \<and> o_device p = device \<and> is_check p)) \<and>
    (\<forall>i p. map_of (s_running s) i = Some p \<longrightarrow>
       (opCanceled i t \<longleftrightarrow> opCanceled i s \<or> o_device p = device \<and> is_check p)) \<and>
    (\<forall>i p. map_of (s_running t) i = Some p \<longrightarrow> \<not> is_check p \<longrightarrow> i \<notin> set (cancelledOps t)) \<and>
    op_ids t \<notin> set (cancelledOps t) \<and> s_running t = s_running s \<and> task_events t = task_events s"
proof -
  have inv: "ops_inv s" unfolding assms(1) by (rule ops_inv_reached)
  have invt: "ops_inv t" using ops_inv_abort [OF inv, of device] assms(2) by simp
  have never: "(\<forall>i p. map_of (s_running t) i = Some p \<longrightarrow> \<not> is_check p \<longrightarrow> i \<notin> set (cancelledOps t)) \<and>
      op_ids t \<notin> set (cancelledOps t)"
    using ops_invD(2,5) [OF invt] by (auto simp: run_ok_def)
  from assms(2) show ?thesis
  proof (cases rule: AbortCheckPartition_cases)
    case refused
    have "\<not> (o_device p = device \<and> is_check p)" if "map_of (s_running s) i = Some p" for i p
      using ops_invD(2) [OF inv that] refused(3) by (auto simp: run_ok_def is_active_def is_check_def)
    then show ?thesis using refused never by auto
  next
    case (cancelled i)
    obtain j p where p: "map_of (s_running s) j = Some p" "o_device p = device"
      using ops_active [OF inv] cancelled(2) by blast
    have ji: "j = i" "is_check p"
      using ops_invD(2) [OF inv p(1)] p(2) cancelled(3) by (auto simp: run_ok_def is_check_def)
    have "opCanceled k t \<longleftrightarrow> opCanceled k s \<or> o_device q = device \<and> is_check q"
      if "map_of (s_running s) k = Some q" for k q
    proof (cases "k = i")
      case True
      then have "q = p" using that p(1) ji(1) by simp
      then show ?thesis using True ji p(2) cancelled(4) by (simp add: opCanceled_def)
    next
      case False
      then have "o_device q \<noteq> device" using ops_unique [OF inv that p(1)] p(2) ji(1) by auto
      then show ?thesis using False cancelled(4) by (simp add: opCanceled_def)
    qed
    then show ?thesis using never cancelled(1,4) p ji by auto
  qed
qed

lemma abort_cancels_that_check_witness:
  "let s = foldl fs_step (new_service True (new_world 0)) [CallCheck demo_env ''/dev/sdb1'' ''ext4'' demo_check]
   in opCanceled 0 (snd (AbortCheckPartition ''/dev/sdb1'' s))"
proof -
  let ?s = "foldl fs_step (new_service True (new_world 0)) [CallCheck demo_env ''/dev/sdb1'' ''ext4'' demo_check]"
  obtain r t where rt: "AbortCheckPartition ''/dev/sdb1'' ?s = (r, t)" by (metis prod.collapse)
  from abort_cancels_that_check [OF refl rt] have "opCanceled 0 t"
    using demo_running [of True "new_world 0"]
    by (simp add: demo_operation_def is_check_def op_name_def)
  then show ?thesis unfolding Let_def rt by simp
qed

end
