(* ===== verification/Volume_Mount.thy ===== *)
theory Volume_Mount
  imports Fs_Service Disk_Views Go_Path
begin

text \<open>
  Mounting and unmounting: the mount and unmount of the adapters
  (\<open>service/filesystem/base_adapter.go\<close>, \<open>apfs_adapter.go\<close>), their choice in
  \<open>service/filesystem_service.go\<close>, the conversions between mounts, rows of the mount point table
  and mount point data (\<open>converter/\<close>) and the mount manager (\<open>service/volume_mount_manager.go\<close>).

  The kernel, the file system tree, the database and Home Assistant are one outside world of type
  \<open>'o\<close>; the environment says what their calls answer and how they change it.
\<close>

section \<open>State and environment\<close>

record mount_info =
  mi_MountPoint :: string
  mi_Root :: string
  mi_Source :: string
  mi_FSType :: string
  mi_Options :: "(string, string) gomap"
  mi_SuperOptions :: "(string, string) gomap"

record mount_result =
  mr_Path :: string
  mr_Device :: string
  mr_FSType :: string
  mr_Flags :: "64 word"
  mr_Data :: string

datatype stat_answer = StatDir | StatFile | StatMissing | StatDenied string | StatFails string

text \<open>A row of the mount point table; the share is kept as the converter reads it back.\<close>

record mount_row =
  r_Path :: string
  r_Root :: "string option"
  r_Type :: string
  r_DeviceId :: string
  r_FSType :: string
  r_Flags :: "data_flag list option"
  r_Data :: "data_flag list option"
  r_IsToMountAtStartup :: "bool option"
  r_ExportedShare :: "share_ref option"

definition empty_row :: mount_row where
  "empty_row = \<lparr>r_Path = [], r_Root = None, r_Type = [], r_DeviceId = [], r_FSType = [],
     r_Flags = None, r_Data = None, r_IsToMountAtStartup = None, r_ExportedShare = None\<rparr>"

text \<open>The hook of the row before it is written: absolute, and only these characters.\<close>

definition path_char :: "char \<Rightarrow> bool" where
  "path_char c \<longleftrightarrow>
     (let n = of_char c :: nat in
      (97 \<le> n \<and> n \<le> 122) \<or> (65 \<le> n \<and> n \<le> 90) \<or> (48 \<le> n \<and> n \<le> 57)
      \<or> c \<in> set ''/._-'')"

definition BeforeSave :: "mount_row \<Rightarrow> err option" where
  "BeforeSave row =
     (if r_Path row = [] then Some (E ErrorOther ''path cannot be empty'')
      else if \<not> HasPrefix (r_Path row) ''/'' then Some (E ErrorOther ''path must start with /'')
      else if CHR 0x00 \<in> set (r_Path row) then Some (E ErrorOther ''path cannot contain null characters'')
      else if \<not> list_all path_char (r_Path row) then Some (E ErrorOther ''path contains invalid characters'')
      else None)"

datatype mp_change = MpAdd | MpUpdate | MpRemove

datatype vol_event =
    VePartition mp_change partition disk
  | VeMountPoint mp_change mount_point
  | VeDisk disk
  | VeShareRemoved share_ref
  | VeStuck

record 'o vol =
  v_disks :: DiskMap
  v_refresh :: "32 word"
  v_events :: "vol_event list"
  v_fs :: fs_world
  v_out :: 'o

record 'o vol_env =
  ve_protected :: bool
  ve_tables :: flag_tables
  ve_regexp :: regexp
  ve_flagMap :: "(string \<times> 64 word) list"
  ve_fsenv :: fs_env
  ve_mountInfos :: "'o \<Rightarrow> mount_info list res"
  ve_stat :: "'o \<Rightarrow> string \<Rightarrow> stat_answer"
  ve_writable :: "'o \<Rightarrow> string \<Rightarrow> bool"
  ve_byId :: "'o \<Rightarrow> (string \<times> string option) list option"
  ve_label :: "'o \<Rightarrow> string \<Rightarrow> string option"
  ve_serial :: "'o \<Rightarrow> string \<Rightarrow> string option"
  ve_size :: "'o \<Rightarrow> string \<Rightarrow> 64 word option"
  ve_mkdirAll :: "string \<Rightarrow> 'o \<Rightarrow> err option \<times> 'o"
  ve_remove :: "string \<Rightarrow> 'o \<Rightarrow> err option \<times> 'o"
  ve_tryMount :: "string \<Rightarrow> string \<Rightarrow> string \<Rightarrow> 64 word \<Rightarrow> ('o \<Rightarrow> err option \<times> 'o) \<Rightarrow> 'o \<Rightarrow> mount_result res \<times> 'o"
  ve_doMount :: "string \<Rightarrow> string \<Rightarrow> string \<Rightarrow> string \<Rightarrow> 64 word \<Rightarrow> ('o \<Rightarrow> err option \<times> 'o) \<Rightarrow> 'o \<Rightarrow> mount_result res \<times> 'o"
  ve_unmount :: "string \<Rightarrow> bool \<Rightarrow> bool \<Rightarrow> 'o \<Rightarrow> err option \<times> 'o"
  ve_persist :: "mount_row \<Rightarrow> 'o \<Rightarrow> err option \<times> 'o"
  ve_rows :: "'o \<Rightarrow> string \<Rightarrow> mount_row list res"
  ve_findRow :: "'o \<Rightarrow> string \<Rightarrow> string \<Rightarrow> mount_row option"
  ve_updateRow :: "string \<Rightarrow> string \<Rightarrow> mount_row \<Rightarrow> 'o \<Rightarrow> int res \<times> 'o"
  ve_hasHardware :: bool
  ve_hardware :: "'o \<Rightarrow> disk list option res \<times> 'o"
  ve_invalidate :: "'o \<Rightarrow> 'o"
  ve_hasHA :: bool
  ve_notify :: "string \<Rightarrow> string \<Rightarrow> string \<Rightarrow> 'o \<Rightarrow> err option \<times> 'o"
  ve_dismiss :: "string \<Rightarrow> 'o \<Rightarrow> err option \<times> 'o"
  ve_sha1 :: "string \<Rightarrow> string"

section \<open>The mount table\<close>

definition osutil_IsMounted :: "'o vol_env \<Rightarrow> 'o \<Rightarrow> string \<Rightarrow> bool res" where
  "osutil_IsMounted ve w path =
     (case ve_mountInfos ve w of
        Ok ms \<Rightarrow> Ok (\<exists>m \<in> set ms. Clean (mi_MountPoint m) = Clean path)
      | Err e \<Rightarrow> Err e
      | Panic \<Rightarrow> Panic)"

section \<open>The adapters\<close>

text \<open>
  A mount asks the kernel; without a type it lets the kernel's helper try the known ones. \<open>prepare\<close>
  is run by the mount call itself.
\<close>

definition base_Mount ::
  "'o vol_env \<Rightarrow> string \<Rightarrow> string \<Rightarrow> string \<Rightarrow> string \<Rightarrow> 64 word \<Rightarrow> ('o \<Rightarrow> err option \<times> 'o) \<Rightarrow> 'o vol
   \<Rightarrow> mount_result res \<times> 'o vol" where
  "base_Mount ve source target fsType dat flags prepare s =
     (case (if fsType = [] then ve_tryMount ve source target dat flags prepare (v_out s)
            else ve_doMount ve source target fsType dat flags prepare (v_out s)) of
        (r, w) \<Rightarrow> (r, s\<lparr>v_out := w\<rparr>))"

definition base_Unmount ::
  "'o vol_env \<Rightarrow> string \<Rightarrow> bool \<Rightarrow> bool \<Rightarrow> 'o vol \<Rightarrow> err option \<times> 'o vol" where
  "base_Unmount ve target force lazy s =
     (case ve_unmount ve target force lazy (v_out s) of (e, w) \<Rightarrow> (e, s\<lparr>v_out := w\<rparr>))"

definition Apfs_Mount ::
  "'o vol_env \<Rightarrow> string \<Rightarrow> string \<Rightarrow> string \<Rightarrow> 64 word \<Rightarrow> ('o \<Rightarrow> err option \<times> 'o) \<Rightarrow> 'o vol
   \<Rightarrow> mount_result res \<times> 'o vol" where
  "Apfs_Mount ve source target dat flags prepare s =
     (case prepare (v_out s) of
        (Some e, w) \<Rightarrow> (Err e, s\<lparr>v_out := w\<rparr>)
      | (None, w) \<Rightarrow>
          (case runCommand (ve_fsenv ve) ''apfs-fuse''
                  ((if TrimSpace dat \<noteq> [] then [''-o'', dat] else []) @ [source, target]) (v_fs s) of
             ((output, code, e), w') \<Rightarrow>
               let s' = s\<lparr>v_out := w, v_fs := w'\<rparr> in
               (case e of
                  Some x \<Rightarrow> (Err x, s')
                | None \<Rightarrow>
                    if code \<noteq> 0 then (Err (E ErrorOther ''apfs-fuse mount failed''), s')
                    else (Ok \<lparr>mr_Path = target, mr_Device = source, mr_FSType = ''apfs'',
                             mr_Flags = flags, mr_Data = dat\<rparr>, s'))))"

definition Apfs_Unmount ::
  "'o vol_env \<Rightarrow> string \<Rightarrow> bool \<Rightarrow> bool \<Rightarrow> 'o vol \<Rightarrow> err option \<times> 'o vol" where
  "Apfs_Unmount ve target force lazy s =
     (if commandExists (ve_fsenv ve) ''fusermount3'' then
        (case runCommand (ve_fsenv ve) ''fusermount3'' [''-u'', target] (v_fs s) of
           ((output, code, e), w') \<Rightarrow>
             let s' = s\<lparr>v_fs := w'\<rparr> in
             if e = None \<and> code = 0 then (None, s') else base_Unmount ve target force lazy s')
      else base_Unmount ve target force lazy s)"

definition adapterForMountOps :: "registry \<Rightarrow> string \<Rightarrow> adapter \<times> string" where
  "adapterForMountOps r fsType =
     (if TrimSpace fsType = [] then (NewExt4Adapter, [])
      else case registry_Get r fsType of
             Ok a \<Rightarrow> (a, if GetLinuxFsModule a = [] then fsType else GetLinuxFsModule a)
           | _ \<Rightarrow> (NewExt4Adapter, fsType))"

definition MountPartition ::
  "'o vol_env \<Rightarrow> string \<Rightarrow> string \<Rightarrow> string \<Rightarrow> string \<Rightarrow> 64 word \<Rightarrow> ('o \<Rightarrow> err option \<times> 'o) \<Rightarrow> 'o vol
   \<Rightarrow> mount_result res \<times> 'o vol" where
  "MountPartition ve source target fsType dat flags prepare s =
     (case adapterForMountOps (ft_registry (ve_tables ve)) fsType of
        (a, mountFsType) \<Rightarrow>
          if ad_kind a = Apfs then Apfs_Mount ve source target dat flags prepare s
          else base_Mount ve source target mountFsType dat flags prepare s)"

definition UnmountPartition ::
  "'o vol_env \<Rightarrow> string \<Rightarrow> string \<Rightarrow> bool \<Rightarrow> bool \<Rightarrow> 'o vol \<Rightarrow> err option \<times> 'o vol" where
  "UnmountPartition ve target fsType force lazy s =
     (case adapterForMountOps (ft_registry (ve_tables ve)) fsType of
        (a, _) \<Rightarrow>
          if ad_kind a = Apfs then Apfs_Unmount ve target force lazy s
          else base_Unmount ve target force lazy s)"

section \<open>Conversions\<close>

definition pathToType :: "string \<Rightarrow> string" where
  "pathToType path = (if path = ''/mnt'' \<or> HasPrefix path ''/mnt/'' then ''ADDON'' else ''HOST'')"

definition TimeMachineSupportFromFS :: "string \<Rightarrow> TimeMachineSupport" where
  "TimeMachineSupportFromFS fsType =
     (if fsType \<in> {''ext2'', ''ext3'', ''ext4'', ''jfs'', ''squashfs'', ''xfs'', ''btrfs'', ''zfs'',
                   ''ubifs'', ''yaffs2'', ''reiserfs'', ''reiserfs4'', ''orangefs'', ''lustre'', ''ocfs2''}
      then SUPPORTED
      else if fsType \<in> {''ntfs3'', ''ntfs''} then EXPERIMENTAL
      else if fsType \<in> {''vfat'', ''msdos'', ''iso9660'', ''erofs'', ''exfat''} then UNSUPPORTED
      else UNKNOWN)"

definition rootFromPath :: "string \<Rightarrow> DiskMap \<Rightarrow> string" where
  "rootFromPath path disks =
     (case GetMountPointByPath disks path of
        None \<Rightarrow> ''/''
      | Some mp \<Rightarrow> if mp_Root mp \<noteq> [] then mp_Root mp else ''/'')"

text \<open>\<open>range *d.Partitions\<close> panics on a disk without a partition map.\<close>

fun partitionFromDevice :: "string \<Rightarrow> (string, disk) gomap \<Rightarrow> part_ref option res" where
  "partitionFromDevice device [] = Ok None"
| "partitionFromDevice device ((did, d) # ds) =
     (case d_Partitions d of
        None \<Rightarrow> Panic
      | Some ps \<Rightarrow>
          (case first_some (\<lambda>(pid, p). if p_DevicePath p = Some device then Some (ref_of p) else None) ps of
             Some r \<Rightarrow> Ok (Some r)
           | None \<Rightarrow> partitionFromDevice device ds))"

definition deviceToDeviceId :: "'o vol_env \<Rightarrow> 'o \<Rightarrow> string \<Rightarrow> string" where
  "deviceToDeviceId ve w source =
     (case ve_byId ve w of
        None \<Rightarrow> source
      | Some entries \<Rightarrow>
          (case first_some (\<lambda>(name, resolved). case resolved of
                   None \<Rightarrow> None
                 | Some r \<Rightarrow>
                     if r = source \<or> path_Join ''/dev/disk/by-id/'' name = source then Some name
                     else None) entries of
             Some name \<Rightarrow> name
           | None \<Rightarrow> source))"

definition isPathDirNotExists :: "'o vol_env \<Rightarrow> 'o \<Rightarrow> string \<Rightarrow> bool res" where
  "isPathDirNotExists ve w path =
     (case ve_stat ve w path of
        StatDir \<Rightarrow> Ok False
      | StatFile \<Rightarrow> Ok True
      | StatMissing \<Rightarrow> Ok True
      | StatDenied t \<Rightarrow> Err (E ErrorOther (''error stating path '' @ path @ '': '' @ t))
      | StatFails t \<Rightarrow> Err (E ErrorOther (''error stating path '' @ path @ '': '' @ t)))"

text \<open>The conversion writes into its target; what it wrote before an error stays.\<close>

definition MountToMountPointData ::
  "'o vol_env \<Rightarrow> 'o \<Rightarrow> DiskMap \<Rightarrow> mount_result \<Rightarrow> mount_point \<Rightarrow> unit res \<times> mount_point" where
  "MountToMountPointData ve w disks mr md =
     (let path = mr_Path mr;
          md1 = (if path \<noteq> [] then
                   md\<lparr>mp_DiskLabel := ve_label ve w path, mp_DiskSerial := ve_serial ve w path,
                      mp_DiskSize := ve_size ve w path, mp_Path := path,
                      mp_Root := rootFromPath path disks, mp_Type := pathToType path\<rparr> else md);
          md2 = (if mr_FSType mr \<noteq> [] then md1\<lparr>mp_FSType := Some (mr_FSType mr)\<rparr> else md1);
          md3 = (if mr_Flags mr \<noteq> 0
                 then md2\<lparr>mp_Flags := Some (Scan_mask (ve_flagMap ve) [] (mr_Flags mr))\<rparr> else md2);
          md4 = (if mr_Data mr \<noteq> [] then md3\<lparr>mp_CustomFlags := Some (Scan_string [] (mr_Data mr))\<rparr>
                 else md3);
          finish = (\<lambda>md5. if mr_FSType mr \<noteq> []
                     then md5\<lparr>mp_TimeMachineSupport := Some (TimeMachineSupportFromFS (mr_FSType mr))\<rparr>
                     else md5);
          paths = (\<lambda>md5. if path = [] then (Ok (), finish md5)
                     else case osutil_IsMounted ve w path of
                            Err e \<Rightarrow> (Err e, md5)
                          | Panic \<Rightarrow> (Panic, md5)
                          | Ok b \<Rightarrow>
                              let md6 = md5\<lparr>mp_IsMounted := b\<rparr> in
                              (case isPathDirNotExists ve w path of
                                 Err e \<Rightarrow> (Err e, md6)
                               | Panic \<Rightarrow> (Panic, md6)
                               | Ok bad \<Rightarrow>
                                   (Ok (), finish (md6\<lparr>mp_IsInvalid := bad,
                                             mp_IsWriteSupported := Some (ve_writable ve w path)\<rparr>))))
      in if mr_Device mr = [] then paths md4
         else
           let md5 = md4\<lparr>mp_DeviceId := deviceToDeviceId ve w (mr_Device mr)\<rparr> in
           (case partitionFromDevice (mr_Device mr) (case disks of None \<Rightarrow> [] | Some al \<Rightarrow> al) of
              Ok p \<Rightarrow> paths (md5\<lparr>mp_Partition := p\<rparr>)
            | Err e \<Rightarrow> (Err e, md5)
            | Panic \<Rightarrow> (Panic, md5)))"

definition to_data_flag :: "mount_flag \<Rightarrow> data_flag" where
  "to_data_flag f =
     \<lparr>df_Name = mf_Name f, df_NeedsValue = mf_NeedsValue f, df_FlagValue = mf_FlagValue f\<rparr>"

definition from_data_flag :: "data_flag \<Rightarrow> mount_flag" where
  "from_data_flag f = (switch_flag (df_Name f) [])
     \<lparr>mf_NeedsValue := df_NeedsValue f, mf_FlagValue := df_FlagValue f\<rparr>"

definition MountPointDataToMountPointPath :: "mount_point \<Rightarrow> mount_row \<Rightarrow> mount_row" where
  "MountPointDataToMountPointPath md row =
     \<lparr>r_Path = (if mp_Path md \<noteq> [] then mp_Path md else r_Path row),
      r_Root = (if mp_Root md \<noteq> [] then Some (mp_Root md) else r_Root row),
      r_Type = (if mp_Type md \<noteq> [] then mp_Type md else r_Type row),
      r_DeviceId = (if mp_DeviceId md \<noteq> [] then mp_DeviceId md else r_DeviceId row),
      r_FSType = (case mp_FSType md of Some t \<Rightarrow> t | None \<Rightarrow> r_FSType row),
      r_Flags = map_option (map to_data_flag) (mp_Flags md),
      r_Data = map_option (map to_data_flag) (mp_CustomFlags md),
      r_IsToMountAtStartup = (case mp_IsToMountAtStartup md of
                                Some b \<Rightarrow> Some b | None \<Rightarrow> r_IsToMountAtStartup row),
      r_ExportedShare = mp_Share md\<rparr>"

definition partitionFromDeviceId :: "string \<Rightarrow> disk list \<Rightarrow> part_ref option" where
  "partitionFromDeviceId source ds =
     first_some (\<lambda>d. first_some (\<lambda>(pid, p).
         if p_Id p = Some source \<or> p_DevicePath p = Some source then Some (ref_of p) else None)
       (parts_of d)) ds"

text \<open>An error leaves a target nobody reads; only the error is returned.\<close>

definition MountPointPathToMountPointData ::
  "'o vol_env \<Rightarrow> 'o \<Rightarrow> mount_row \<Rightarrow> mount_point \<Rightarrow> disk list \<Rightarrow> mount_point res" where
  "MountPointPathToMountPointData ve w row md ds =
     (let path = r_Path row;
          md1 = (if path \<noteq> [] then
                   md\<lparr>mp_DiskLabel := ve_label ve w path, mp_DiskSerial := ve_serial ve w path,
                      mp_DiskSize := ve_size ve w path, mp_Path := path\<rparr> else md);
          md2 = md1\<lparr>mp_Root := (case r_Root row of Some r \<Rightarrow> r | None \<Rightarrow> mp_Root md1),
                    mp_Type := (if r_Type row \<noteq> [] then r_Type row else mp_Type md1),
                    mp_FSType := (if r_FSType row \<noteq> [] then Some (r_FSType row) else mp_FSType md1),
                    mp_Flags := map_option (map from_data_flag) (r_Flags row),
                    mp_CustomFlags := map_option (map from_data_flag) (r_Data row)\<rparr>;
          md3 = (if r_DeviceId row \<noteq> [] then
                   md2\<lparr>mp_DeviceId := r_DeviceId row,
                       mp_Partition := partitionFromDeviceId (r_DeviceId row) ds\<rparr> else md2);
          finish = (\<lambda>m. m\<lparr>mp_IsToMountAtStartup := (case r_IsToMountAtStartup row of
                              Some b \<Rightarrow> Some b | None \<Rightarrow> mp_IsToMountAtStartup m),
                          mp_TimeMachineSupport := (if r_FSType row \<noteq> []
                              then Some (TimeMachineSupportFromFS (r_FSType row))
                              else mp_TimeMachineSupport m),
                          mp_Share := r_ExportedShare row\<rparr>)
      in if path = [] then Ok (finish md3)
         else case osutil_IsMounted ve w path of
                Err e \<Rightarrow> Err e
              | Panic \<Rightarrow> Panic
              | Ok b \<Rightarrow>
                  (case isPathDirNotExists ve w path of
                     Err e \<Rightarrow> Err e
                   | Panic \<Rightarrow> Panic
                   | Ok bad \<Rightarrow>
                       Ok (finish (md3\<lparr>mp_IsMounted := b, mp_IsInvalid := bad,
                                       mp_IsWriteSupported := Some (ve_writable ve w path)\<rparr>))))"

text \<open>The rows of a device as a map by path; a later row of the same path wins.\<close>

fun MountPointPathsToMountPointDataMap ::
  "'o vol_env \<Rightarrow> 'o \<Rightarrow> mount_row list \<Rightarrow> (string, mount_point) gomap \<Rightarrow> (string, mount_point) gomap res" where
  "MountPointPathsToMountPointDataMap ve w [] m = Ok m"
| "MountPointPathsToMountPointDataMap ve w (row # rows) m =
     (case MountPointPathToMountPointData ve w row zero_mount_point [] of
        Ok md \<Rightarrow> MountPointPathsToMountPointDataMap ve w rows (AList.update (r_Path row) md m)
      | Err e \<Rightarrow> Err e
      | Panic \<Rightarrow> Panic)"

text \<open>\<open>MountFlags.Scan\<close> of an option map.\<close>

definition Scan_map :: "mount_flag list \<Rightarrow> (string, string) gomap \<Rightarrow> mount_flag list" where
  "Scan_map self m = self @ map (\<lambda>(k, v).
     if v = [] then switch_flag k []
     else (switch_flag k [])\<lparr>mf_NeedsValue := True, mf_FlagValue := v\<rparr>) m"

section \<open>The mount manager\<close>

text \<open>
  Emitting a mount point event runs its handlers before it returns, and they may write into the
  mount point they get a pointer to: \<open>emit\<close> returns it.
\<close>

type_synonym 'o mp_emit = "mp_change \<times> mount_point \<Rightarrow> 'o vol \<Rightarrow> mount_point \<times> 'o vol"

definition path_exists :: "stat_answer \<Rightarrow> bool" where
  "path_exists a \<longleftrightarrow> a = StatDir \<or> a = StatFile"

definition mount_fail :: "string \<Rightarrow> err" where
  "mount_fail detail = E ErrorMountFail detail"

definition mounter_Mount ::
  "'o mp_emit \<Rightarrow> 'o vol_env \<Rightarrow> mount_point \<Rightarrow> 64 word \<Rightarrow> string \<Rightarrow> string \<Rightarrow> 'o vol
   \<Rightarrow> (unit res \<times> mount_point) \<times> 'o vol" where
  "mounter_Mount emit ve md flags dat mountFsType s =
     (case mp_Partition md of
        None \<Rightarrow> ((Panic, md), s)
      | Some p \<Rightarrow>
        (case p_DevicePath p of
           None \<Rightarrow> ((Panic, md), s)
         | Some dev \<Rightarrow>
           (case MountPartition ve dev (mp_Path md) mountFsType dat flags (ve_mkdirAll ve (mp_Path md)) s of
              (Err e, s1) \<Rightarrow>
                let s2 = (if path_exists (ve_stat ve (v_out s1) (mp_Path md))
                          then s1\<lparr>v_out := snd (ve_remove ve (mp_Path md) (v_out s1))\<rparr> else s1)
                in ((Err (mount_fail (''Mount command failed: '' @ err_msg e)), md), s2)
            | (Panic, s1) \<Rightarrow> ((Panic, md), s1)
            | (Ok mr, s1) \<Rightarrow>
                (case MountToMountPointData ve (v_out s1) (v_disks s1) mr md of
                   (Err e, md1) \<Rightarrow>
                     ((Err (mount_fail ''Failed to convert mount details back to DTO after successful mount''), md1), s1)
                 | (Panic, md1) \<Rightarrow> ((Panic, md1), s1)
                 | (Ok _, md1) \<Rightarrow>
                     let md2 = md1\<lparr>mp_IsMounted := True\<rparr> in
                     (case mp_Partition md2 of
                        None \<Rightarrow> ((Panic, md2), s1)
                      | Some q \<Rightarrow>
                        (case (p_DiskId q, p_Id q) of
                           (Some did, Some pid) \<Rightarrow>
                             (case AddOrUpdateMountPoint (v_disks s1) did pid md2 of
                                Err e \<Rightarrow>
                                  ((Err (mount_fail ''Failed to add mount point to in-memory cache after successful mount''), md2), s1)
                              | Panic \<Rightarrow> ((Panic, md2), s1)
                              | Ok m' \<Rightarrow>
                                  (case emit (MpUpdate, md2) (s1\<lparr>v_disks := m'\<rparr>) of
                                     (md3, s3) \<Rightarrow> ((Ok (), md3), s3)))
                         | _ \<Rightarrow> ((Panic, md2), s1)))))))"

definition mounter_Unmount ::
  "'o mp_emit \<Rightarrow> 'o vol_env \<Rightarrow> mount_point \<Rightarrow> bool \<Rightarrow> 'o vol \<Rightarrow> unit res \<times> 'o vol" where
  "mounter_Unmount emit ve md force s =
     (case UnmountPartition ve (mp_Path md) (case mp_FSType md of Some t \<Rightarrow> t | None \<Rightarrow> []) force (\<not> force) s of
        (Some e, s1) \<Rightarrow> (Err (E ErrorUnmountFail (err_msg e)), s1)
      | (None, s1) \<Rightarrow>
          let s2 = s1\<lparr>v_out := snd (ve_remove ve (mp_Path md) (v_out s1))\<rparr> in
          (case mp_Partition md of
             None \<Rightarrow> (Ok (), s2)
           | Some q \<Rightarrow>
             (case (p_DiskId q, p_Id q) of
                (Some did, Some pid) \<Rightarrow>
                  (case emit (MpUpdate, md\<lparr>mp_IsMounted := False\<rparr>) s2 of
                     (md3, s3) \<Rightarrow>
                       (case mp_Partition md3 of
                          Some q3 \<Rightarrow>
                            (case (p_DiskId q3, p_Id q3) of
                               (Some did3, Some pid3) \<Rightarrow>
                                 (case AddOrUpdateMountPoint (v_disks s3) did3 pid3 md3 of
                                    Ok m' \<Rightarrow> (Ok (), s3\<lparr>v_disks := m'\<rparr>)
                                  | Err e \<Rightarrow> (Ok (), s3)
                                  | Panic \<Rightarrow> (Panic, s3))
                             | _ \<Rightarrow> (Panic, s3))
                        | None \<Rightarrow> (Panic, s3)))
              | _ \<Rightarrow> (Ok (), s2))))"

end
