(* ===== verification/Volume.thy ===== *)
theory Volume
  imports Volume_Mount
begin

text \<open>
  The volume service (\<open>service/volume_service.go\<close>, \<open>mount_intelligence.go\<close>,
  \<open>volume_service_udev_linux.go\<close>): mounting and unmounting on request, the refresh of the disk
  cache from the hardware, the synchronisation of a partition with the kernel's mount table, the
  automatic mounts and the udev events.

  Mount point events run their handlers at once, and the handler of the service may mount, which
  emits the next event. \<open>on_mount_event n\<close> runs at most \<open>n\<close> nested handlers and leaves the mark
  \<open>VeStuck\<close> beyond; \<open>event_depth\<close> is enough (\<open>Volume_Laws\<close>).
\<close>

section \<open>Where a partition is used\<close>

definition disks_of_map :: "DiskMap \<Rightarrow> (string, disk) gomap" where
  "disks_of_map m = (case m of None \<Rightarrow> [] | Some al \<Rightarrow> al)"

definition full_device_name :: "string \<Rightarrow> string" where
  "full_device_name devName =
     (if HasPrefix devName ''/dev/'' then devName else path_Join ''/dev'' devName)"

definition candidates :: "('a part_ref_scheme) \<Rightarrow> string list" where
  "candidates p =
     concat (map (\<lambda>x. case x of None \<Rightarrow> [] | Some s \<Rightarrow> [s])
       [p_DevicePath p, p_LegacyDevicePath p, p_LegacyDeviceName p, p_Id p])"

definition matchPartitionWithDevName :: "('a part_ref_scheme) option \<Rightarrow> string \<Rightarrow> bool" where
  "matchPartitionWithDevName part devName =
     (case part of
        None \<Rightarrow> False
      | Some p \<Rightarrow>
          devName \<noteq> [] \<and>
          (\<exists>c \<in> set (candidates p).
             let t = TrimSpace c in
             t \<noteq> [] \<and> (t = devName \<or> t = full_device_name devName \<or> Base t = devName)))"

definition findPartitionByDevName :: "DiskMap \<Rightarrow> string \<Rightarrow> (partition \<times> string) option" where
  "findPartitionByDevName m devName =
     (case m of
        None \<Rightarrow> None
      | Some al \<Rightarrow>
          if devName = [] then None
          else search_partitions al (\<lambda>did d pid part.
                 if matchPartitionWithDevName (Some part) devName then Some (part, did) else None))"

definition enrichSharePartitionFromCache :: "shared_resource \<Rightarrow> DiskMap \<Rightarrow> shared_resource" where
  "enrichSharePartitionFromCache share m =
     (case sr_MountPointData share of
        None \<Rightarrow> share
      | Some md \<Rightarrow>
          let known = (case mp_Partition md of None \<Rightarrow> None
                       | Some p \<Rightarrow> if non_empty (p_FsType p) then p_FsType p else None);
              with_type = (\<lambda>md t. if non_empty (mp_FSType md) then md else md\<lparr>mp_FSType := t\<rparr>)
          in if known \<noteq> None then share\<lparr>sr_MountPointData := Some (with_type md known)\<rparr>
             else case GetPartitionByID m (TrimSpace (mp_DeviceId md)) of
                    None \<Rightarrow> share
                  | Some (part, _) \<Rightarrow>
                      share\<lparr>sr_MountPointData :=
                        Some (with_type (md\<lparr>mp_Partition := Some (ref_of part)\<rparr>) (p_FsType part))\<rparr>)"

definition isShareNFSExportable :: "shared_resource \<Rightarrow> bool" where
  "isShareNFSExportable share =
     (case sr_MountPointData share of
        None \<Rightarrow> False
      | Some md \<Rightarrow>
          (case mp_Partition md of
             None \<Rightarrow> False
           | Some p \<Rightarrow>
               let fallback = (case p_FilesystemInfo p of
                     Some fi \<Rightarrow> (case fi_Support fi of Some su \<Rightarrow> fs_IsExportable su | None \<Rightarrow> False)
                   | None \<Rightarrow> False)
               in if non_empty (p_FsType p) then
                    (case registry_Get NewRegistry (the (p_FsType p)) of
                       Ok a \<Rightarrow> exportable a
                     | _ \<Rightarrow> fallback)
                  else fallback))"

text \<open>The partition of a share's mount point, with its mounts (nil or a map).\<close>

definition resolveActualMountPointPath :: "mount_point option \<Rightarrow> partition option \<Rightarrow> string" where
  "resolveActualMountPointPath md part =
     (case md of
        None \<Rightarrow> []
      | Some m \<Rightarrow>
          if mp_Path m \<noteq> [] then mp_Path m
          else case part of
                 None \<Rightarrow> []
               | Some p \<Rightarrow>
                   (case p_MountPointData p of
                      None \<Rightarrow> []
                    | Some mm \<Rightarrow>
                        (case first_some (\<lambda>(k, x). if mp_Path x \<noteq> [] \<and> mp_IsMounted x
                                                   then Some (mp_Path x) else None) mm of
                           Some path \<Rightarrow> path
                         | None \<Rightarrow>
                             (case first_some (\<lambda>(k, x). if mp_Path x \<noteq> [] then Some (mp_Path x) else None) mm of
                                Some path \<Rightarrow> path
                              | None \<Rightarrow> []))))"

section \<open>Notifications\<close>

definition quoted :: "string \<Rightarrow> string" where
  "quoted t = CHR 0x27 # t @ [CHR 0x27]"

definition automount_message :: "string \<Rightarrow> string \<Rightarrow> err \<Rightarrow> string" where
  "automount_message mountPath device e =
     (if err_kind e = ErrorDeviceNotFound then
        ''Device '' @ quoted device @ '' for mount point '' @ quoted mountPath
        @ '' not found during startup. The device may have been removed or disconnected.''
      else if err_kind e = ErrorMountFail then
        ''Failed to mount device '' @ quoted device @ '' to '' @ quoted mountPath
        @ '' during startup. Check device filesystem and permissions.''
      else ''Automount failed for device '' @ quoted device @ '' to '' @ quoted mountPath @ '': '' @ err_msg e)"

definition createAutomountFailureNotification ::
  "'o vol_env \<Rightarrow> string \<Rightarrow> string \<Rightarrow> err \<Rightarrow> 'o vol \<Rightarrow> 'o vol" where
  "createAutomountFailureNotification ve mountPath device e s =
     (if \<not> ve_hasHA ve then s
      else s\<lparr>v_out := snd (ve_notify ve (''srat_automount_failure_'' @ ve_sha1 ve mountPath)
               ''Automount Failed'' (automount_message mountPath device e) (v_out s))\<rparr>)"

definition dismissAutomountNotification ::
  "'o vol_env \<Rightarrow> string \<Rightarrow> string \<Rightarrow> 'o vol \<Rightarrow> 'o vol" where
  "dismissAutomountNotification ve deviceId notificationType s =
     (if \<not> ve_hasHA ve then s
      else s\<lparr>v_out := snd (ve_dismiss ve
               (''srat_'' @ notificationType @ ''_'' @ ve_sha1 ve deviceId) (v_out s))\<rparr>)"

section \<open>Mounting\<close>

text \<open>
  The search of a request's partition: a nil partition map or id panics, and the search goes on
  after a hit with the next disk.
\<close>

fun partition_with_id :: "string \<Rightarrow> part_map \<Rightarrow> part_ref option \<Rightarrow> part_ref option res" where
  "partition_with_id device [] found = Ok found"
| "partition_with_id device ((pid, p) # ps) found =
     (case p_Id p of
        None \<Rightarrow> Panic
      | Some i \<Rightarrow> if i = device then Ok (Some (ref_of p)) else partition_with_id device ps found)"

fun find_request_partition ::
  "string \<Rightarrow> (string, disk) gomap \<Rightarrow> part_ref option \<Rightarrow> part_ref option res" where
  "find_request_partition device [] found = Ok found"
| "find_request_partition device ((did, d) # ds) found =
     (case d_Partitions d of
        None \<Rightarrow> Panic
      | Some ps \<Rightarrow>
          (case partition_with_id device ps found of
             Ok f \<Rightarrow> find_request_partition device ds f
           | Err e \<Rightarrow> Err e
           | Panic \<Rightarrow> Panic))"

definition has_partition_id :: "mount_point \<Rightarrow> bool" where
  "has_partition_id md \<longleftrightarrow>
     (case mp_Partition md of None \<Rightarrow> False | Some p \<Rightarrow> non_empty (p_Id p))"

definition resolve_request :: "DiskMap \<Rightarrow> mount_point \<Rightarrow> part_ref option res" where
  "resolve_request m md =
     (if has_partition_id md then Ok (mp_Partition md)
      else find_request_partition (mp_DeviceId md) (case m of None \<Rightarrow> [] | Some al \<Rightarrow> al) (mp_Partition md))"

definition MountVolume ::
  "'o mp_emit \<Rightarrow> 'o vol_env \<Rightarrow> mount_point \<Rightarrow> 'o vol \<Rightarrow> (unit res \<times> mount_point) \<times> 'o vol" where
  "MountVolume emit ve md s =
     (if ve_protected ve then
        ((Err (E ErrorOperationNotPermittedInProtectedMode
            ''Mount operation is not permitted when ProtectedMode is enabled.''), md), s)
      else if mp_Path md = [] then ((Err (E ErrorInvalidParameter ''Mount point path is empty''), md), s)
      else if mp_Root md = [] then ((Err (E ErrorInvalidParameter ''Mount point root is empty''), md), s)
      else if mp_DeviceId md = [] then
        ((Err (E ErrorInvalidParameter ''Source device name is empty in request''), md), s)
      else
       (case resolve_request (v_disks s) md of
          Err e \<Rightarrow> ((Err e, md), s)
        | Panic \<Rightarrow> ((Panic, md), s)
        | Ok part \<Rightarrow>
           let md1 = md\<lparr>mp_Partition := part\<rparr>;
               dev = (case part of None \<Rightarrow> None | Some p \<Rightarrow> p_DevicePath p)
           in if \<not> non_empty dev then
                ((Err (E ErrorDeviceNotFound ''Source device does not exist on the system''), md1), s)
              else if osutil_IsMounted ve (v_out s) (mp_Path md1) = Ok True then
                ((Err (E ErrorAlreadyMounted ''Volume is already mounted''), md1), s)
              else
                let md2 = (if mp_Flags md1 = None then md1\<lparr>mp_Flags := Some []\<rparr> else md1) in
                (case MountFlagsToSyscallFlagAndData (ve_regexp ve) (the (mp_Flags md2)) of
                   Err e \<Rightarrow> ((Err (E ErrorInvalidParameter ''Invalid Flags''), md2), s)
                 | Panic \<Rightarrow> ((Panic, md2), s)
                 | Ok (flags, dat) \<Rightarrow>
                    (case ve_stat ve (v_out s) (the dev) of
                       StatDenied t \<Rightarrow>
                         ((Err (E ErrorOperationNotPermitted ''Permission denied to access device''), md2), s)
                     | StatMissing \<Rightarrow>
                         ((Err (E ErrorDeviceNotFound ''Device path does not exist''), md2), s)
                     | StatFails t \<Rightarrow>
                         ((Err (E ErrorDeviceNotFound ''Device path does not exist''), md2), s)
                     | _ \<Rightarrow>
                        (case mounter_Mount emit ve md2 flags dat
                                (case mp_FSType md2 of Some t \<Rightarrow> t | None \<Rightarrow> []) s of
                           ((Ok _, md3), s1) \<Rightarrow>
                             ((Ok (), md3),
                              dismissAutomountNotification ve (mp_DeviceId md3) ''unmounted_partition''
                                (dismissAutomountNotification ve (mp_DeviceId md3) ''automount_failure'' s1))
                         | other \<Rightarrow> other)))))"

text \<open>The argument is a pointer; \<open>MountVolume\<close> above is the call with one that is not nil.\<close>

definition MountVolume_pointer ::
  "'o mp_emit \<Rightarrow> 'o vol_env \<Rightarrow> mount_point option \<Rightarrow> 'o vol \<Rightarrow> (unit res \<times> mount_point option) \<times> 'o vol" where
  "MountVolume_pointer emit ve md s =
     (case md of
        Some d \<Rightarrow> (case MountVolume emit ve d s of ((r, d'), s') \<Rightarrow> ((r, Some d'), s'))
      | None \<Rightarrow>
          if ve_protected ve then
            ((Err (E ErrorOperationNotPermittedInProtectedMode
                ''Mount operation is not permitted when ProtectedMode is enabled.''), None), s)
          else ((Err (E ErrorInvalidParameter ''MountPointData is nil''), None), s))"

section \<open>Mount point events\<close>

definition inferMountPointType :: "mount_point \<Rightarrow> string" where
  "inferMountPointType md =
     (let path = (if mp_Path md = [] then mp_Root md else mp_Path md) in
      if path = [] \<or> HasPrefix path ''/mnt'' then ''ADDON'' else ''HOST'')"

definition persistMountPoint :: "'o vol_env \<Rightarrow> mount_point \<Rightarrow> 'o vol \<Rightarrow> err option \<times> 'o vol" where
  "persistMountPoint ve md s =
     (let row = MountPointDataToMountPointPath md empty_row in
      case BeforeSave row of
        Some e \<Rightarrow> (Some e, s)
      | None \<Rightarrow> (case ve_persist ve row (v_out s) of (e, w) \<Rightarrow> (e, s\<lparr>v_out := w\<rparr>)))"

definition wants_mount :: "mp_change \<Rightarrow> mount_point \<Rightarrow> bool" where
  "wants_mount ty md \<longleftrightarrow>
     ty \<in> {MpAdd, MpUpdate} \<and> \<not> mp_IsMounted md \<and> mp_IsToMountAtStartup md = Some True"

text \<open>
  Only the mount point and the state matter to the emitter; a panic of the handler is recovered by
  the bus and keeps what was written before.
\<close>

definition handleMountPointEvent ::
  "'o mp_emit \<Rightarrow> 'o vol_env \<Rightarrow> mp_change \<times> mount_point \<Rightarrow> 'o vol \<Rightarrow> mount_point \<times> 'o vol" where
  "handleMountPointEvent emit ve ev s =
     (case ev of (ty, md) \<Rightarrow>
        let md1 = (if mp_Type md = [] then md\<lparr>mp_Type := inferMountPointType md\<rparr> else md) in
        (case persistMountPoint ve md1 s of
           (Some e, s1) \<Rightarrow> (md1, s1)
         | (None, s1) \<Rightarrow>
             if \<not> wants_mount ty md1 then (md1, s1)
             else (case MountVolume emit ve md1 s1 of
                     ((Err e, md2), s2) \<Rightarrow>
                       if err_kind e = ErrorAlreadyMounted then (md2, s2)
                       else (md2, createAutomountFailureNotification ve (mp_Path md2) (mp_DeviceId md2) e s2)
                   | ((_, md2), s2) \<Rightarrow> (md2, s2))))"

definition log_event :: "vol_event \<Rightarrow> 'o vol \<Rightarrow> 'o vol" where
  "log_event e s = s\<lparr>v_events := v_events s @ [e]\<rparr>"

fun on_mount_event :: "nat \<Rightarrow> 'o vol_env \<Rightarrow> 'o mp_emit" where
  "on_mount_event 0 ve ev s = (snd ev, log_event VeStuck s)"
| "on_mount_event (Suc n) ve ev s =
     handleMountPointEvent (on_mount_event n ve) ve ev (log_event (VeMountPoint (fst ev) (snd ev)) s)"

definition event_depth :: nat where
  "event_depth = 3"

definition emitMountPoint :: "'o vol_env \<Rightarrow> 'o mp_emit" where
  "emitMountPoint ve = on_mount_event event_depth ve"

section \<open>Unmounting\<close>

definition on_share_removed :: "share_ref \<Rightarrow> 'o vol \<Rightarrow> 'o vol" where
  "on_share_removed sh s =
     (case RemoveMountPointShare (v_disks s) (sr_Name sh) of
        ((False, _), _) \<Rightarrow> s
      | ((True, d), m') \<Rightarrow>
          (case d of
             Some x \<Rightarrow> log_event (VeDisk x) (s\<lparr>v_disks := m'\<rparr>)
           | None \<Rightarrow> s\<lparr>v_disks := m'\<rparr>))"

definition on_share_changed :: "shared_resource option \<Rightarrow> 'o vol \<Rightarrow> 'o vol" where
  "on_share_changed sh s =
     (case AddMountPointShare (v_disks s) sh of
        Ok (d, m') \<Rightarrow> log_event (VeDisk d) (s\<lparr>v_disks := m'\<rparr>)
      | _ \<Rightarrow> s)"

definition UnmountVolume :: "'o vol_env \<Rightarrow> string \<Rightarrow> bool \<Rightarrow> 'o vol \<Rightarrow> unit res \<times> 'o vol" where
  "UnmountVolume ve path force s =
     (case GetMountPointByPath (v_disks s) path of
        None \<Rightarrow> mounter_Unmount (emitMountPoint ve) ve (zero_mount_point\<lparr>mp_Path := path\<rparr>) force s
      | Some md \<Rightarrow>
          (case mp_Share md of
             None \<Rightarrow> mounter_Unmount (emitMountPoint ve) ve md force s
           | Some sh \<Rightarrow>
               (case sr_Status sh of
                  None \<Rightarrow> (Panic, s)
                | Some st \<Rightarrow>
                    if ss_IsHAMounted st then
                      mounter_Unmount (emitMountPoint ve) ve (md\<lparr>mp_IsInvalid := True\<rparr>) force
                        (on_share_removed sh (log_event (VeShareRemoved sh) s))
                    else mounter_Unmount (emitMountPoint ve) ve md force s)))"

section \<open>Partition events\<close>

definition loadMountPointFromDB ::
  "'o vol_env \<Rightarrow> partition \<Rightarrow> 'o vol \<Rightarrow> (string, mount_point) gomap res" where
  "loadMountPointFromDB ve part s =
     (if \<not> non_empty (p_Id part) then Ok []
      else case ve_rows ve (v_out s) (the (p_Id part)) of
             Ok rows \<Rightarrow> MountPointPathsToMountPointDataMap ve (v_out s) rows []
           | Err e \<Rightarrow> Err e
           | Panic \<Rightarrow> Panic)"

definition store_mount :: "string \<Rightarrow> string \<Rightarrow> mount_point \<Rightarrow> 'o vol \<Rightarrow> bool \<times> 'o vol" where
  "store_mount did pid md s =
     (case AddOrUpdateMountPoint (v_disks s) did pid md of
        Ok m' \<Rightarrow> (True, s\<lparr>v_disks := m'\<rparr>)
      | _ \<Rightarrow> (False, s))"

definition scan_into :: "mount_flag list option \<Rightarrow> (string, string) gomap \<Rightarrow> mount_flag list option res" where
  "scan_into fs m = (case fs of
     Some l \<Rightarrow> Ok (Some (Scan_map l m))
   | None \<Rightarrow> if m = [] then Ok None else Panic)"

text \<open>One entry of the mount table against one partition.\<close>

definition sync_mount ::
  "'o vol_env \<Rightarrow> partition \<Rightarrow> string \<Rightarrow> string \<Rightarrow> string \<Rightarrow> mount_info \<Rightarrow> 'o vol \<Rightarrow> unit res \<times> 'o vol" where
  "sync_mount ve part did pid dev mi s =
     (let iw = ve_writable ve (v_out s) (mi_MountPoint mi) in
      case GetMountPoint (v_disks s) did pid (mi_MountPoint mi) of
        Some mp \<Rightarrow>
          (case (scan_into (mp_Flags mp) (mi_Options mi), scan_into (mp_CustomFlags mp) (mi_SuperOptions mi)) of
             (Ok fs, Ok cs) \<Rightarrow>
               let mp' = mp\<lparr>mp_IsMounted := True, mp_Path := mi_MountPoint mi, mp_Root := mi_Root mi,
                            mp_RefreshVersion := v_refresh s, mp_IsWriteSupported := Some iw,
                            mp_Flags := fs, mp_CustomFlags := cs, mp_FSType := Some (mi_FSType mi),
                            mp_Type := ''ADDON''\<rparr>
               in (case store_mount did pid mp' s of
                     (False, s1) \<Rightarrow> (Ok (), s1)
                   | (True, s1) \<Rightarrow>
                       if mp_IsMounted mp then (Ok (), s1)
                       else (Ok (), snd (emitMountPoint ve (MpUpdate, mp') s1)))
           | _ \<Rightarrow> (Panic, s))
      | None \<Rightarrow>
          if mi_Source mi = dev \<or> p_LegacyDevicePath part = Some (mi_Source mi) then
            let mp' = zero_mount_point\<lparr>mp_Path := mi_MountPoint mi, mp_Root := mi_Root mi,
                        mp_DeviceId := pid, mp_IsWriteSupported := Some iw, mp_IsMounted := True,
                        mp_Flags := Some (Scan_map [] (mi_Options mi)),
                        mp_CustomFlags := Some (Scan_map [] (mi_SuperOptions mi)),
                        mp_FSType := Some (mi_FSType mi), mp_Type := ''ADDON'',
                        mp_Partition := Some (ref_of (part\<lparr>p_DiskId := Some did\<rparr>)),
                        mp_RefreshVersion := v_refresh s\<rparr>
            in (case store_mount did pid mp' s of
                  (False, s1) \<Rightarrow> (Ok (), s1)
                | (True, s1) \<Rightarrow> (Ok (), snd (emitMountPoint ve (MpAdd, mp') s1)))
          else (Ok (), s))"

fun sync_mounts ::
  "'o vol_env \<Rightarrow> partition \<Rightarrow> string \<Rightarrow> string \<Rightarrow> string \<Rightarrow> mount_info list \<Rightarrow> 'o vol \<Rightarrow> unit res \<times> 'o vol" where
  "sync_mounts ve part did pid dev [] s = (Ok (), s)"
| "sync_mounts ve part did pid dev (mi # mis) s =
     (case sync_mount ve part did pid dev mi s of
        (Ok _, s1) \<Rightarrow> sync_mounts ve part did pid dev mis s1
      | other \<Rightarrow> other)"

definition startup_mount :: "mount_point \<Rightarrow> bool" where
  "startup_mount mp \<longleftrightarrow> mp_IsToMountAtStartup mp = Some True"

text \<open>One mount point of the cache in the sweep for stale ones.\<close>

definition sweep_mount ::
  "'o vol_env \<Rightarrow> string \<Rightarrow> string \<Rightarrow> mount_point \<Rightarrow> 'o vol \<Rightarrow> 'o vol" where
  "sweep_mount ve did pid mp s =
     (if mp_RefreshVersion mp \<noteq> v_refresh s \<and> (mp_IsMounted mp \<or> startup_mount mp) then
        let mp' = mp\<lparr>mp_IsMounted := False, mp_RefreshVersion := v_refresh s\<rparr> in
        (case store_mount did pid mp' s of
           (False, s1) \<Rightarrow> s1
         | (True, s1) \<Rightarrow>
             if mp_IsMounted mp \<or> startup_mount mp then snd (emitMountPoint ve (MpUpdate, mp') s1)
             else s1)
      else s)"

definition handlePartitionEvent ::
  "'o vol_env \<Rightarrow> partition \<Rightarrow> disk \<Rightarrow> 'o vol \<Rightarrow> unit res \<times> 'o vol" where
  "handlePartitionEvent ve part d s =
     (case (d_Id d, p_Id part) of
        (Some diskId, Some pid) \<Rightarrow>
          if \<not> non_empty (p_DevicePath part) then (Ok (), s)
          else
            let did = (if non_empty (p_DiskId part) then the (p_DiskId part) else diskId) in
            (case loadMountPointFromDB ve part s of
               Err e \<Rightarrow> (Err e, s)
             | Panic \<Rightarrow> (Panic, s)
             | Ok mounts \<Rightarrow>
                 let s1 = foldl (\<lambda>s p. snd (store_mount did pid (snd p) s)) s mounts in
                 (case ve_mountInfos ve (v_out s1) of
                    Err e \<Rightarrow> (Err e, s1)
                  | Panic \<Rightarrow> (Panic, s1)
                  | Ok mis \<Rightarrow>
                      (case sync_mounts ve part did pid (the (p_DevicePath part)) mis s1 of
                         (Ok _, s2) \<Rightarrow>
                           (Ok (), foldl (\<lambda>s mp. sweep_mount ve did pid mp s) s2
                                     (GetAllMountPoints (v_disks s2)))
                       | other \<Rightarrow> other)))
      | _ \<Rightarrow> (Panic, s))"

definition emitPartition :: "'o vol_env \<Rightarrow> mp_change \<Rightarrow> partition \<Rightarrow> disk \<Rightarrow> 'o vol \<Rightarrow> 'o vol" where
  "emitPartition ve ty part d s = snd (handlePartitionEvent ve part d (log_event (VePartition ty part d) s))"

section \<open>Refreshing the cache\<close>

definition no_info :: fs_info where
  "no_info = \<lparr>fi_Name = [], fi_Type = [], fi_Description = [], fi_CustomMountFlags = [], fi_Support = None\<rparr>"

definition with_info :: "'o vol_env \<Rightarrow> partition \<Rightarrow> partition" where
  "with_info ve part =
     (if \<not> non_empty (p_FsType part) then part
      else part\<lparr>p_FilesystemInfo :=
             Some (case GetSupportAndInfo (ve_fsenv ve) (ve_tables ve) (the (p_FsType part)) of
                     Ok i \<Rightarrow> if fi_Support i = None then no_info else i
                   | _ \<Rightarrow> no_info)\<rparr>)"

text \<open>
  The cached disk shares its partition map with the one being processed: a partition is read from
  the cache where the disk is there, and written back to it.
\<close>

definition refresh_partition ::
  "'o vol_env \<Rightarrow> mp_change \<Rightarrow> disk \<Rightarrow> 'o vol \<Rightarrow> string \<times> partition \<Rightarrow> 'o vol" where
  "refresh_partition ve ty d s entry =
     (case entry of (pid, part0) \<Rightarrow>
        let did = the (d_Id d);
            cached = (case v_disks s of None \<Rightarrow> None | Some al \<Rightarrow> map_of al did);
            part = with_info ve (case cached of
                     Some c \<Rightarrow> (case map_of (parts_of c) pid of Some p \<Rightarrow> p | None \<Rightarrow> part0)
                   | None \<Rightarrow> part0);
            s1 = (case (v_disks s, cached) of
                    (Some al, Some c) \<Rightarrow> s\<lparr>v_disks := put_partition al did c (parts_of c) pid part\<rparr>
                  | _ \<Rightarrow> s)
        in emitPartition ve ty part d s1)"

definition refresh_disk :: "'o vol_env \<Rightarrow> disk \<Rightarrow> 'o vol \<Rightarrow> unit res \<times> 'o vol" where
  "refresh_disk ve d0 s =
     (case d_Partitions d0 of
        None \<Rightarrow> (Ok (), s)
      | Some ps \<Rightarrow>
          (case d_Id d0 of
             None \<Rightarrow> (Panic, s)
           | Some did \<Rightarrow>
               let d = d0\<lparr>d_RefreshVersion := v_refresh s\<rparr>;
                   ty = (if DiskMap_Get (v_disks s) did \<noteq> None then MpUpdate else MpAdd)
               in (case AddOrUpdate (v_disks s) d of
                     Panic \<Rightarrow> (Panic, s)
                   | Ok m' \<Rightarrow> (Ok (), foldl (refresh_partition ve ty d) (s\<lparr>v_disks := m'\<rparr>) ps)
                   | Err e \<Rightarrow> (Ok (), foldl (refresh_partition ve ty d) s ps))))"

fun refresh_disks :: "'o vol_env \<Rightarrow> disk list \<Rightarrow> 'o vol \<Rightarrow> unit res \<times> 'o vol" where
  "refresh_disks ve [] s = (Ok (), s)"
| "refresh_disks ve (d # ds) s =
     (case refresh_disk ve d s of
        (Ok _, s1) \<Rightarrow> refresh_disks ve ds s1
      | other \<Rightarrow> other)"

definition getVolumesData :: "'o vol_env \<Rightarrow> 'o vol \<Rightarrow> unit res \<times> 'o vol" where
  "getVolumesData ve s0 =
     (let s = s0\<lparr>v_refresh := v_refresh s0 + 1\<rparr> in
      if \<not> ve_hasHardware ve then (Ok (), s)
      else (case ve_hardware ve (v_out s) of
              (Err e, w) \<Rightarrow> (Err e, s\<lparr>v_out := w\<rparr>)
            | (Panic, w) \<Rightarrow> (Panic, s\<lparr>v_out := w\<rparr>)
            | (Ok None, w) \<Rightarrow> (Ok (), s\<lparr>v_out := w\<rparr>)
            | (Ok (Some ds), w) \<Rightarrow> refresh_disks ve ds (s\<lparr>v_out := w\<rparr>)))"

definition GetVolumesData :: "'o vol_env \<Rightarrow> 'o vol \<Rightarrow> disk list res \<times> 'o vol" where
  "GetVolumesData ve s =
     (if disks_of_map (v_disks s) = [] then
        (case getVolumesData ve s of
           (Ok _, s1) \<Rightarrow> (Ok (map snd (disks_of_map (v_disks s1))), s1)
         | (Err e, s1) \<Rightarrow> (Ok [], s1)
         | (Panic, s1) \<Rightarrow> (Panic, s1))
      else (Ok (map snd (disks_of_map (v_disks s))), s))"

definition invalidate_hardware :: "'o vol_env \<Rightarrow> 'o vol \<Rightarrow> 'o vol" where
  "invalidate_hardware ve s =
     (if ve_hasHardware ve then s\<lparr>v_out := ve_invalidate ve (v_out s)\<rparr> else s)"

definition findDiskForDevicePath :: "DiskMap \<Rightarrow> string \<Rightarrow> disk option" where
  "findDiskForDevicePath m devicePath =
     (case m of
        None \<Rightarrow> None
      | Some al \<Rightarrow>
          (case search_partitions al (\<lambda>did d pid part.
                  if TrimSpace (GetPartitionDevicePath (Some part)) = TrimSpace devicePath
                  then Some d else None) of
             Some d \<Rightarrow> Some d
           | None \<Rightarrow> (case al of [] \<Rightarrow> None | p # _ \<Rightarrow> Some (snd p))))"

definition handleFilesystemTaskEvent :: "'o vol_env \<Rightarrow> fs_task option \<Rightarrow> 'o vol \<Rightarrow> unit res \<times> 'o vol" where
  "handleFilesystemTaskEvent ve task s =
     (case task of
        None \<Rightarrow> (Ok (), s)
      | Some t \<Rightarrow>
          if ToLower (t_Operation t) \<noteq> ''format'' \<or> ToLower (t_Status t) \<noteq> ''success'' then (Ok (), s)
          else (case getVolumesData ve (invalidate_hardware ve s) of
                  (Ok _, s1) \<Rightarrow>
                    (case findDiskForDevicePath (v_disks s1) (t_Device t) of
                       None \<Rightarrow> (Ok (), s1)
                     | Some d \<Rightarrow> (Ok (), log_event (VeDisk d) s1))
                | other \<Rightarrow> other))"

section \<open>Udev events\<close>

definition automount_one ::
  "'o vol_env \<Rightarrow> partition \<Rightarrow> bool \<times> 'o vol \<Rightarrow> mount_point \<Rightarrow> bool \<times> 'o vol" where
  "automount_one ve part acc mp =
     (case acc of (handled, s) \<Rightarrow>
        if \<not> startup_mount mp \<or> mp_IsMounted mp \<or> mp_Path mp = [] then (handled, s)
        else (case MountVolume (emitMountPoint ve) ve
                     (mp\<lparr>mp_Partition := Some (ref_of part), mp_DeviceId := the (p_Id part)\<rparr>) s of
                ((Ok _, _), s1) \<Rightarrow> (True, s1)
              | (_, s1) \<Rightarrow> (handled, s1)))"

definition handlePartitionUdevAddEvent :: "'o vol_env \<Rightarrow> string \<Rightarrow> 'o vol \<Rightarrow> bool \<times> 'o vol" where
  "handlePartitionUdevAddEvent ve devName s =
     (case findPartitionByDevName (v_disks s) devName of
        None \<Rightarrow> (False, s)
      | Some (part, _) \<Rightarrow>
          if \<not> non_empty (p_Id part) then (False, s)
          else foldl (automount_one ve part) (False, s) (map snd (mounts_of part)))"

definition unmount_one :: "'o vol_env \<Rightarrow> 'o vol \<Rightarrow> mount_point \<Rightarrow> 'o vol" where
  "unmount_one ve s mp =
     (if mp_Path mp = [] \<or> \<not> mp_IsMounted mp then s
      else snd (mounter_Unmount (emitMountPoint ve) ve mp True s))"

definition handlePartitionUdevRemoveEvent :: "'o vol_env \<Rightarrow> string \<Rightarrow> 'o vol \<Rightarrow> 'o vol" where
  "handlePartitionUdevRemoveEvent ve devName s =
     (let refresh = (\<lambda>s. snd (getVolumesData ve (invalidate_hardware ve s))) in
      case findPartitionByDevName (v_disks s) devName of
        None \<Rightarrow> refresh s
      | Some (part, did) \<Rightarrow>
          if \<not> non_empty (p_Id part) then refresh s
          else
            let s1 = foldl (unmount_one ve) s (map snd (mounts_of part));
                s2 = s1\<lparr>v_disks := snd (RemovePartition (v_disks s1) did (the (p_Id part)))\<rparr>
            in refresh s2)"

record udev_event =
  ue_subsystem :: "string option"
  ue_action :: string
  ue_devname :: string
  ue_devtype :: string
  ue_bus :: string
  ue_suffix :: string
  ue_serial :: string

definition udevEventHandler :: "'o vol_env \<Rightarrow> udev_event \<Rightarrow> 'o vol \<Rightarrow> 'o vol" where
  "udevEventHandler ve ue s =
     (if ue_subsystem ue \<noteq> Some ''block'' then s
      else if ue_devtype ue \<noteq> ''disk'' \<and> ue_devtype ue \<noteq> ''partition'' then s
      else if ue_action ue = ''remove'' \<and> ue_devtype ue = ''disk'' then
        s\<lparr>v_disks := snd (DiskMap_Remove (v_disks s) (ue_bus ue @ ''-'' @ ue_serial ue @ ue_suffix ue))\<rparr>
      else if ue_devtype ue = ''disk'' \<and> ue_action ue = ''add'' then
        snd (getVolumesData ve (invalidate_hardware ve s))
      else if ue_devtype ue = ''partition'' \<and> ue_action ue = ''add'' then
        (case handlePartitionUdevAddEvent ve (ue_devname ue) s of
           (True, s1) \<Rightarrow> s1
         | (False, s1) \<Rightarrow> snd (getVolumesData ve (invalidate_hardware ve s1)))
      else if ue_devtype ue = ''partition'' \<and> ue_action ue = ''remove'' then
        handlePartitionUdevRemoveEvent ve (ue_devname ue) s
      else s)"

section \<open>Settings\<close>

text \<open>
  The update of the cache after a patch: by the partition of the mount point, or, when that is not
  known, by the path alone, and then only the startup setting.
\<close>

definition patch_by_path :: "string \<Rightarrow> bool option \<Rightarrow> 'o vol \<Rightarrow> 'o vol" where
  "patch_by_path path startup s =
     (let direct = (case GetMountPointByPath (v_disks s) path of
            None \<Rightarrow> None
          | Some mp \<Rightarrow>
              (case mp_Partition mp of
                 None \<Rightarrow> None
               | Some q \<Rightarrow>
                   (case (p_DiskId q, p_Id q) of
                      (Some did, Some pid) \<Rightarrow>
                        Some (snd (store_mount did pid (mp\<lparr>mp_IsToMountAtStartup := startup\<rparr>) s))
                    | _ \<Rightarrow> None)))
      in case direct of
           Some s1 \<Rightarrow> s1
         | None \<Rightarrow>
             (case search_partitions (disks_of_map (v_disks s)) (\<lambda>did d pid part.
                     case p_MountPointData part of
                       None \<Rightarrow> None
                     | Some mm \<Rightarrow> map_option (\<lambda>mp. (did, pid, mp)) (map_of mm path)) of
                None \<Rightarrow> s
              | Some (did, pid, mp) \<Rightarrow>
                  snd (store_mount did pid (mp\<lparr>mp_IsToMountAtStartup := startup\<rparr>) s)))"

definition PatchMountPointSettings ::
  "'o vol_env \<Rightarrow> string \<Rightarrow> string \<Rightarrow> mount_point \<Rightarrow> 'o vol \<Rightarrow> mount_point res \<times> 'o vol" where
  "PatchMountPointSettings ve root path patchData s =
     (let missing = E ErrorNotFound (''mount configuration with root '' @ root @ '' and path '' @ path
                                     @ '' not found'')
      in case ve_findRow ve (v_out s) root path of
           None \<Rightarrow> (Err missing, s)
         | Some row0 \<Rightarrow>
             let row = MountPointDataToMountPointPath patchData row0 in
             (case ve_updateRow ve root path row (v_out s) of
                (Err e, w) \<Rightarrow> (Err e, s\<lparr>v_out := w\<rparr>)
              | (Panic, w) \<Rightarrow> (Panic, s\<lparr>v_out := w\<rparr>)
              | (Ok affected, w) \<Rightarrow>
                  if affected = 0 then (Err missing, s\<lparr>v_out := w\<rparr>)
                  else
                    (case GetVolumesData ve (s\<lparr>v_out := w\<rparr>) of
                       (Ok ds, s1) \<Rightarrow>
                         (case MountPointPathToMountPointData ve (v_out s1) row zero_mount_point ds of
                            Err e \<Rightarrow> (Err e, s1)
                          | Panic \<Rightarrow> (Panic, s1)
                          | Ok cur \<Rightarrow>
                              let s2 = (case mp_Partition cur of
                                    None \<Rightarrow> patch_by_path path (mp_IsToMountAtStartup cur) s1
                                  | Some q \<Rightarrow>
                                      (case (p_DiskId q, p_Id q) of
                                         (Some did, Some pid) \<Rightarrow> snd (store_mount did pid cur s1)
                                       | _ \<Rightarrow> patch_by_path path (mp_IsToMountAtStartup cur) s1))
                              in (case emitMountPoint ve (MpUpdate, cur) s2 of
                                    (cur', s3) \<Rightarrow> (Ok cur', s3)))
                     | (Err e, s1) \<Rightarrow> (Err e, s1)
                     | (Panic, s1) \<Rightarrow> (Panic, s1))))"

definition GetDevicePathByDeviceID :: "DiskMap \<Rightarrow> string \<Rightarrow> string res" where
  "GetDevicePathByDeviceID m deviceID =
     (case DiskMap_Get m deviceID of
        None \<Rightarrow> Err (E ErrorNotFound ''mount point not found'')
      | Some d \<Rightarrow> (case d_DevicePath d of None \<Rightarrow> Panic | Some p \<Rightarrow> Ok p))"

section \<open>The service's inputs\<close>

datatype vol_input =
    InMount mount_point
  | InUnmount string bool
  | InPatch string string mount_point
  | InVolumes
  | InStarted
  | InTask "fs_task option"
  | InUdev udev_event
  | InShareRemoved share_ref
  | InShareChanged "shared_resource option"
  | InSmart smart_info
  | InPower hdidle_device

definition vol_step :: "'o vol_env \<Rightarrow> 'o vol \<Rightarrow> vol_input \<Rightarrow> 'o vol" where
  "vol_step ve s i = (case i of
       InMount md \<Rightarrow> snd (MountVolume (emitMountPoint ve) ve md s)
     | InUnmount path force \<Rightarrow> snd (UnmountVolume ve path force s)
     | InPatch root path md \<Rightarrow> snd (PatchMountPointSettings ve root path md s)
     | InVolumes \<Rightarrow> snd (GetVolumesData ve s)
     | InStarted \<Rightarrow> snd (getVolumesData ve s)
     | InTask t \<Rightarrow> snd (handleFilesystemTaskEvent ve t s)
     | InUdev ue \<Rightarrow> udevEventHandler ve ue s
     | InShareRemoved sh \<Rightarrow> on_share_removed sh s
     | InShareChanged sh \<Rightarrow> on_share_changed sh s
     | InSmart si \<Rightarrow>
         if si_DiskId si = [] then s else s\<lparr>v_disks := ok_or (v_disks s) (AddSmartInfo (v_disks s) si)\<rparr>
     | InPower d \<Rightarrow> s\<lparr>v_disks := ok_or (v_disks s) (AddHDIdleDevice (v_disks s) d)\<rparr>)"

end
