(* ===== verification/Volume_Laws.thy ===== *)
theory Volume_Laws
  imports Volume Disk_Cache
begin

text \<open>
  The laws of the volume service: nested mount point events end, a mount asks the kernel only after
  every check of the request, a successful mount is in the cache, and every input keeps the cache
  well formed.
\<close>

section \<open>What the mount calls leave alone\<close>

definition same_memory :: "'o vol \<Rightarrow> 'o vol \<Rightarrow> bool" where
  "same_memory s t \<longleftrightarrow> v_disks t = v_disks s \<and> v_refresh t = v_refresh s \<and> v_events t = v_events s"

lemma same_memory_refl [simp]: "same_memory s s"
  by (simp add: same_memory_def)

lemma same_memory_out [simp]:
  "same_memory s (t\<lparr>v_out := w\<rparr>) = same_memory s t" "same_memory s (t\<lparr>v_fs := f\<rparr>) = same_memory s t"
  by (simp_all add: same_memory_def)

lemma same_memory_trans: "same_memory s t \<Longrightarrow> same_memory t u \<Longrightarrow> same_memory s u"
  by (simp add: same_memory_def)

lemma MountPartition_memory: "MountPartition ve source target t dat flags prep s = (r, s') \<Longrightarrow> same_memory s s'"
  by (auto simp: MountPartition_def base_Mount_def Apfs_Mount_def Let_def
      split: prod.splits option.splits if_splits)

lemma UnmountPartition_memory: "UnmountPartition ve target t force lazy s = (r, s') \<Longrightarrow> same_memory s s'"
  by (auto simp: UnmountPartition_def base_Unmount_def Apfs_Unmount_def Let_def
      split: prod.splits option.splits if_splits)

section \<open>The mount manager\<close>

lemma mounter_Mount_cases:
  assumes "mounter_Mount emit ve md flags dat t s = ((r, md'), s')"
  obtains (failed) "r \<noteq> Ok ()" "same_memory s s'"
  | (mounted) s1 mr md1 q did pid m' where "r = Ok ()" "same_memory s s1"
      "MountToMountPointData ve (v_out s1) (v_disks s1) mr md = (Ok (), md1)"
      "mp_Partition md1 = Some q" "p_DiskId q = Some did" "p_Id q = Some pid"
      "AddOrUpdateMountPoint (v_disks s1) did pid (md1\<lparr>mp_IsMounted := True\<rparr>) = Ok m'"
      "emit (MpUpdate, md1\<lparr>mp_IsMounted := True\<rparr>) (s1\<lparr>v_disks := m'\<rparr>) = (md', s')"
proof (cases "mp_Partition md")
  case None
  then show thesis using assms failed by (simp add: mounter_Mount_def)
next
  case (Some p)
  note p = this
  show thesis
  proof (cases "p_DevicePath p")
    case None
    then show thesis using assms failed p by (simp add: mounter_Mount_def)
  next
    case (Some dev)
    obtain mres s1 where mp: "MountPartition ve dev (mp_Path md) t dat flags (ve_mkdirAll ve (mp_Path md)) s = (mres, s1)"
      by (metis prod.collapse)
    note mem = MountPartition_memory [OF mp]
    show thesis
    proof (cases mres)
      case (Err e)
      then show thesis using assms failed p Some mp mem by (auto simp: mounter_Mount_def Let_def split: if_splits)
    next
      case Panic
      then show thesis using assms failed p Some mp mem by (auto simp: mounter_Mount_def)
    next
      case (Ok mr)
      obtain cr md1 where cv: "MountToMountPointData ve (v_out s1) (v_disks s1) mr md = (cr, md1)"
        by (metis prod.collapse)
      note head = p Some mp Ok cv
      show thesis
      proof (cases cr)
        case (Err e)
        then show thesis using assms failed head mem by (auto simp: mounter_Mount_def)
      next
        case Panic
        then show thesis using assms failed head mem by (auto simp: mounter_Mount_def)
      next
        case (Ok u)
        note head2 = head Ok
        show thesis
        proof (cases "\<exists>q did pid. mp_Partition md1 = Some q \<and> p_DiskId q = Some did \<and> p_Id q = Some pid")
          case False
          then show thesis using assms failed head2 mem
            by (auto simp: mounter_Mount_def Let_def split: option.splits)
        next
          case True
          then obtain q did pid where q: "mp_Partition md1 = Some q" "p_DiskId q = Some did" "p_Id q = Some pid"
            by blast
          show thesis
          proof (cases "AddOrUpdateMountPoint (v_disks s1) did pid (md1\<lparr>mp_IsMounted := True\<rparr>)")
            case (Ok m')
            obtain md3 s3 where em: "emit (MpUpdate, md1\<lparr>mp_IsMounted := True\<rparr>) (s1\<lparr>v_disks := m'\<rparr>) = (md3, s3)"
              by (metis prod.collapse)
            have "r = Ok ()" "md' = md3" "s' = s3"
              using assms head2 q Ok em by (auto simp: mounter_Mount_def Let_def)
            then show thesis using mounted [of s1 mr md1 q did pid m'] mem cv head2 q Ok em by simp
          qed (use assms failed head2 mem q in \<open>auto simp: mounter_Mount_def Let_def\<close>)
        qed
      qed
    qed
  qed
qed

text \<open>The manager emits only mount points that are marked mounted.\<close>

lemma mounter_Mount_cong:
  assumes "\<And>md s. mp_IsMounted md \<Longrightarrow> emit (MpUpdate, md) s = emit' (MpUpdate, md) s"
  shows "mounter_Mount emit ve = mounter_Mount emit' ve"
proof -
  have "emit (MpUpdate, x\<lparr>mp_IsMounted := True\<rparr>) y = emit' (MpUpdate, x\<lparr>mp_IsMounted := True\<rparr>) y" for x y
    by (rule assms) simp
  then have eq: "emit (MpUpdate, x\<lparr>mp_IsMounted := True\<rparr>) = emit' (MpUpdate, x\<lparr>mp_IsMounted := True\<rparr>)" for x
    by blast
  show ?thesis by (intro ext) (unfold mounter_Mount_def Let_def eq, rule refl)
qed

lemma MountVolume_cong:
  assumes "\<And>md s. mp_IsMounted md \<Longrightarrow> emit (MpUpdate, md) s = emit' (MpUpdate, md) s"
  shows "MountVolume emit ve = MountVolume emit' ve"
proof -
  have "mounter_Mount emit ve = mounter_Mount emit' ve" by (rule mounter_Mount_cong) (rule assms)
  then show ?thesis by (intro ext) (simp only: MountVolume_def)
qed

section \<open>Events end\<close>

lemma persist_memory: "persistMountPoint ve md s = (e, s') \<Longrightarrow> same_memory s s'"
  by (auto simp: persistMountPoint_def Let_def split: prod.splits option.splits)

lemma wants_mount_type [simp]: "wants_mount ty (md\<lparr>mp_Type := x\<rparr>) = wants_mount ty md"
  by (simp add: wants_mount_def)

text \<open>The handler of a mounted mount point only persists it.\<close>

lemma handle_settled:
  assumes "\<not> wants_mount ty md"
  shows "handleMountPointEvent emit ve (ty, md) s = handleMountPointEvent emit' ve (ty, md) s"
    "same_memory s (snd (handleMountPointEvent emit ve (ty, md) s))"
proof -
  define md1 where "md1 = (if mp_Type md = [] then md\<lparr>mp_Type := inferMountPointType md\<rparr> else md)"
  have w: "\<not> wants_mount ty md1" using assms by (simp add: md1_def)
  obtain e s1 where pe: "persistMountPoint ve md1 s = (e, s1)" by (metis prod.collapse)
  have eq: "handleMountPointEvent f ve (ty, md) s = (md1, s1)" for f
    using w pe by (cases e) (simp_all add: handleMountPointEvent_def Let_def md1_def)
  show "handleMountPointEvent emit ve (ty, md) s = handleMountPointEvent emit' ve (ty, md) s"
    by (simp add: eq)
  show "same_memory s (snd (handleMountPointEvent emit ve (ty, md) s))"
    using persist_memory [OF pe] by (simp add: eq)
qed

lemma settled_event:
  assumes "mp_IsMounted md"
  shows "on_mount_event (Suc n) ve (ty, md) s = on_mount_event (Suc m) ve (ty, md) s"
proof -
  have "\<not> wants_mount ty md" using assms by (simp add: wants_mount_def)
  then show ?thesis using handle_settled(1) by simp
qed

lemma settled_event_log:
  assumes "mp_IsMounted md"
  shows "v_events (snd (on_mount_event (Suc n) ve (ty, md) s)) = v_events s @ [VeMountPoint ty md]"
    "v_disks (snd (on_mount_event (Suc n) ve (ty, md) s)) = v_disks s"
proof -
  have "\<not> wants_mount ty md" using assms by (simp add: wants_mount_def)
  from handle_settled(2) [OF this, of "log_event (VeMountPoint ty md) s" "on_mount_event n ve" ve]
  show "v_events (snd (on_mount_event (Suc n) ve (ty, md) s)) = v_events s @ [VeMountPoint ty md]"
    "v_disks (snd (on_mount_event (Suc n) ve (ty, md) s)) = v_disks s"
    by (simp_all add: same_memory_def log_event_def)
qed

lemma settled_result:
  assumes "mp_IsMounted md"
  shows "mp_Path (fst (on_mount_event (Suc n) ve (ty, md) s)) = mp_Path md \<and>
    mp_IsMounted (fst (on_mount_event (Suc n) ve (ty, md) s))"
  using assms by (auto simp: handleMountPointEvent_def wants_mount_def Let_def split: prod.split option.split)

lemma handle_cong:
  assumes "\<And>md s. mp_IsMounted md \<Longrightarrow> emit (MpUpdate, md) s = emit' (MpUpdate, md) s"
  shows "handleMountPointEvent emit ve ev s = handleMountPointEvent emit' ve ev s"
proof -
  have "MountVolume emit ve = MountVolume emit' ve" by (rule MountVolume_cong) (rule assms)
  then show ?thesis by (simp only: handleMountPointEvent_def)
qed

lemma notifications_memory [simp]:
  "same_memory s (dismissAutomountNotification ve d n t) = same_memory s t"
  "same_memory s (createAutomountFailureNotification ve p d e t) = same_memory s t"
  by (simp_all add: dismissAutomountNotification_def createAutomountFailureNotification_def)

section \<open>Requests\<close>

definition mountable ::
  "'o vol_env \<Rightarrow> 'o vol \<Rightarrow> mount_point \<Rightarrow> part_ref \<Rightarrow> string \<Rightarrow> 64 word \<Rightarrow> string \<Rightarrow> bool" where
  "mountable ve s md p dev flags dat \<longleftrightarrow>
     \<not> ve_protected ve \<and> mp_Path md \<noteq> [] \<and> mp_Root md \<noteq> [] \<and> mp_DeviceId md \<noteq> [] \<and>
     resolve_request (v_disks s) md = Ok (Some p) \<and> p_DevicePath p = Some dev \<and> dev \<noteq> [] \<and>
     osutil_IsMounted ve (v_out s) (mp_Path md) \<noteq> Ok True \<and>
     MountFlagsToSyscallFlagAndData (ve_regexp ve) (case mp_Flags md of None \<Rightarrow> [] | Some fs \<Rightarrow> fs)
       = Ok (flags, dat) \<and>
     path_exists (ve_stat ve (v_out s) dev)"

definition checked_request :: "mount_point \<Rightarrow> part_ref \<Rightarrow> mount_point" where
  "checked_request md p =
     md\<lparr>mp_Partition := Some p, mp_Flags := Some (case mp_Flags md of None \<Rightarrow> [] | Some fs \<Rightarrow> fs)\<rparr>"

definition type_of :: "mount_point \<Rightarrow> string" where
  "type_of md = (case mp_FSType md of Some t \<Rightarrow> t | None \<Rightarrow> [])"

definition dismissed :: "'o vol_env \<Rightarrow> unit res \<Rightarrow> mount_point \<Rightarrow> 'o vol \<Rightarrow> 'o vol" where
  "dismissed ve r md s =
     (if r = Ok () then dismissAutomountNotification ve (mp_DeviceId md) ''unmounted_partition''
        (dismissAutomountNotification ve (mp_DeviceId md) ''automount_failure'' s) else s)"

lemma nil_request_refused:
  "snd (MountVolume_pointer emit ve None s) = s \<and> fst (fst (MountVolume_pointer emit ve None s)) \<noteq> Ok ()"
  by (simp add: MountVolume_pointer_def)

lemma MountVolume_cases:
  assumes "MountVolume emit ve md s = ((r, md'), s')"
  obtains (refused) "s' = s" "r \<noteq> Ok ()"
  | (asked) p dev flags dat s1 where "mountable ve s md p dev flags dat"
      "mounter_Mount emit ve (checked_request md p) flags dat (type_of md) s = ((r, md'), s1)"
      "s' = dismissed ve r md' s1"
proof (cases "ve_protected ve \<or> mp_Path md = [] \<or> mp_Root md = [] \<or> mp_DeviceId md = []")
  case True
  then show thesis using assms refused by (auto simp: MountVolume_def split: if_splits)
next
  case False
  note f1 = this
  show thesis
  proof (cases "\<exists>p dev. resolve_request (v_disks s) md = Ok (Some p) \<and> p_DevicePath p = Some dev \<and> dev \<noteq> []")
    case False
    then have "s' = s \<and> r \<noteq> Ok ()"
      using assms f1
      by (auto simp: MountVolume_def Let_def non_empty_iff split: res.splits option.splits if_splits)
    then show thesis using refused by blast
  next
    case True
    then obtain p dev where p: "resolve_request (v_disks s) md = Ok (Some p)" "p_DevicePath p = Some dev" "dev \<noteq> []"
      by blast
    show thesis
    proof (cases "osutil_IsMounted ve (v_out s) (mp_Path md) = Ok True")
      case True
      then show thesis using assms refused f1 p by (auto simp: MountVolume_def Let_def non_empty_iff)
    next
      case False
      note f2 = this
      define md2 where "md2 = checked_request md p"
      have md2: "(if mp_Flags (md\<lparr>mp_Partition := Some p\<rparr>) = None then (md\<lparr>mp_Partition := Some p\<rparr>)\<lparr>mp_Flags := Some []\<rparr>
          else md\<lparr>mp_Partition := Some p\<rparr>) = md2"
        by (cases "mp_Flags md") (auto simp: md2_def checked_request_def)
      have fl: "the (mp_Flags md2) = (case mp_Flags md of None \<Rightarrow> [] | Some fs \<Rightarrow> fs)"
        and ty: "(case mp_FSType md2 of Some t \<Rightarrow> t | None \<Rightarrow> []) = type_of md"
        by (simp_all add: md2_def checked_request_def type_of_def)
      have head: "MountVolume emit ve md s =
         (case MountFlagsToSyscallFlagAndData (ve_regexp ve) (the (mp_Flags md2)) of
                   Err e \<Rightarrow> ((Err (E ErrorInvalidParameter ''Invalid Flags''), md2), s)
                 | Panic \<Rightarrow> ((Panic, md2), s)
                 | Ok (flags, dat) \<Rightarrow>
                    (case ve_stat ve (v_out s) dev of
                       StatDenied t \<Rightarrow>
                         ((Err (E ErrorOperationNotPermitted ''Permission denied to access device''), md2), s)
                     | StatMissing \<Rightarrow>
                         ((Err (E ErrorDeviceNotFound ''Device path does not exist''), md2), s)
                     | StatFails t \<Rightarrow>
                         ((Err (E ErrorDeviceNotFound ''Device path does not exist''), md2), s)
                     | _ \<Rightarrow>
                        (case mounter_Mount emit ve md2 flags dat (type_of md) s of
                           ((Ok _, md3), s1) \<Rightarrow>
                             ((Ok (), md3),
                              dismissAutomountNotification ve (mp_DeviceId md3) ''unmounted_partition''
                                (dismissAutomountNotification ve (mp_DeviceId md3) ''automount_failure'' s1))
                         | other \<Rightarrow> other)))"
        unfolding MountVolume_def Let_def using f1 f2 p
        by (simp only: md2 fl ty res.case option.case option.sel non_empty_iff if_False simp_thms)
          (simp add: non_empty_iff)
      show thesis
      proof (cases "MountFlagsToSyscallFlagAndData (ve_regexp ve) (the (mp_Flags md2))")
        case (Ok fd)
        obtain flags dat where fd: "fd = (flags, dat)" by (metis prod.collapse)
        show thesis
        proof (cases "path_exists (ve_stat ve (v_out s) dev)")
          case False
          then have "s' = s \<and> r \<noteq> Ok ()" using assms unfolding head Ok fd
            by (auto simp: path_exists_def split: stat_answer.splits)
          then show thesis using refused by blast
        next
          case True
          obtain r3 md3 s1 where mm: "mounter_Mount emit ve md2 flags dat (type_of md) s = ((r3, md3), s1)"
            by (metis prod.collapse)
          have "r = r3 \<and> md' = md3 \<and> s' = dismissed ve r md' s1" using assms True unfolding head Ok fd
            by (cases r3) (auto simp: mm path_exists_def dismissed_def)
          moreover have "mountable ve s md p dev flags dat"
            using f1 f2 p Ok fd fl True by (simp add: mountable_def)
          ultimately show thesis using asked mm by (simp add: md2_def)
        qed
      next
        case (Err e)
        then show thesis using assms refused unfolding head by auto
      next
        case Panic
        then show thesis using assms refused unfolding head by auto
      qed
    qed
  qed
qed

text \<open>C4: A mount request reaches the kernel, and changes anything at all, only when the service is not
  protected, path, root and device are given, the partition is known and its device exists, the path is
  not mounted and every flag is valid; the kernel is then asked once, with the mask and the data string
  of those flags. Otherwise the request is refused and nothing changes.\<close>

theorem mount_only_when_checked:
  assumes "MountVolume emit ve md s = ((r, md'), s')"
  shows "(s' = s \<and> r \<noteq> Ok ()) \<or>
    (\<exists>p dev flags dat s1. mountable ve s md p dev flags dat \<and>
       mounter_Mount emit ve (checked_request md p) flags dat (type_of md) s = ((r, md'), s1) \<and>
       s' = dismissed ve r md' s1)"
  using assms by (cases rule: MountVolume_cases) blast+

lemma dismissed_memory [simp]: "same_memory s (dismissed ve r md t) = same_memory s t"
  by (simp add: dismissed_def)

text \<open>The cache and the log after a request: as before, or with the mount that was made.\<close>

lemma MountVolume_memory:
  assumes eq: "MountVolume (on_mount_event (Suc n) ve) ve md s = ((r, md'), s')"
  obtains (none) "same_memory s s'" "r \<noteq> Ok ()"
  | (mounted) md2 q did pid where "r = Ok ()" "mp_IsMounted md2" "mp_Partition md2 = Some q"
      "p_DiskId q = Some did" "p_Id q = Some pid"
      "AddOrUpdateMountPoint (v_disks s) did pid md2 = Ok (v_disks s')"
      "v_events s' = v_events s @ [VeMountPoint MpUpdate md2]" "mp_Path md' = mp_Path md2" "mp_IsMounted md'"
  using eq
proof (cases rule: MountVolume_cases)
  case refused
  then show thesis using none by simp
next
  case (asked p dev flags dat s1)
  from asked(2) show thesis
  proof (cases rule: mounter_Mount_cases)
    case failed
    then show thesis using none asked(3) by simp
  next
    case (mounted t mr md1 q did pid m')
    let ?md2 = "md1\<lparr>mp_IsMounted := True\<rparr>"
    have e: "on_mount_event (Suc n) ve (MpUpdate, ?md2) (t\<lparr>v_disks := m'\<rparr>) = (md', s1)" by (rule mounted(8))
    have "v_disks s1 = m'" "v_events s1 = v_events s @ [VeMountPoint MpUpdate ?md2]"
      using settled_event_log [of ?md2 n ve MpUpdate "t\<lparr>v_disks := m'\<rparr>"] e mounted(2)
      by (simp_all add: same_memory_def)
    moreover have "mp_Path md' = mp_Path ?md2 \<and> mp_IsMounted md'"
      using settled_result [of ?md2 n ve MpUpdate "t\<lparr>v_disks := m'\<rparr>"] e by simp
    moreover have "v_disks s' = v_disks s1" "v_events s' = v_events s1"
      using asked(3) dismissed_memory [of s1 ve r md' s1] by (simp_all add: same_memory_def)
    ultimately show thesis using that(2) [of ?md2 q did pid] mounted by (simp add: same_memory_def)
  qed
qed

text \<open>A successful mount is recorded: the cache has a mount point marked mounted at the path the
  kernel reported, under the disk and partition of the mounted device, every other entry of the cache is
  as before, and one update of that mount point is announced.\<close>

theorem mount_recorded:
  assumes "MountVolume (emitMountPoint ve) ve md s = ((Ok (), md'), s')"
  shows "\<exists>did pid mp ev. mount_at (v_disks s') did pid (mp_Path md') = Some mp \<and> mp_IsMounted mp \<and>
     mp_IsMounted md' \<and> v_events s' = v_events s @ [VeMountPoint MpUpdate ev] \<and> mp_Path ev = mp_Path md' \<and>
     (\<forall>did' pid' path. (did', pid', path) \<noteq> (did, pid, mp_Path md') \<longrightarrow>
        mount_at (v_disks s') did' pid' path = mount_at (v_disks s) did' pid' path)"
proof -
  have "MountVolume (on_mount_event (Suc 2) ve) ve md s = ((Ok (), md'), s')"
    using assms by (simp add: emitMountPoint_def event_depth_def numeral_3_eq_3 numeral_2_eq_2)
  then show ?thesis
  proof (cases rule: MountVolume_memory)
    case none
    then show ?thesis by simp
  next
    case (mounted md2 q did pid)
    from mount_at_AddOrUpdateMountPoint [OF mounted(6)] obtain part where
      v: "\<forall>did' pid' path. mount_at (v_disks s') did' pid' path =
        (if did' = did \<and> pid' = pid \<and> path = mp_Path md2
         then Some (complete_mount_point part md2) else mount_at (v_disks s) did' pid' path)" by blast
    show ?thesis
      by (rule exI [of _ did], rule exI [of _ pid], rule exI [of _ "complete_mount_point part md2"],
          rule exI [of _ md2]) (use v mounted in auto)
  qed
qed

lemma emit_unfold:
  "emitMountPoint ve ev s =
     handleMountPointEvent (on_mount_event (Suc 1) ve) ve ev (log_event (VeMountPoint (fst ev) (snd ev)) s)"
  by (simp add: emitMountPoint_def event_depth_def numeral_3_eq_3)

lemma handle_events:
  "\<exists>es. v_events (snd (handleMountPointEvent (on_mount_event (Suc n) ve) ve ev s)) = v_events s @ es \<and>
     VeStuck \<notin> set es \<and> length es \<le> 1"
proof -
  obtain ty md where ev: "ev = (ty, md)" by (metis prod.collapse)
  define md1 where "md1 = (if mp_Type md = [] then md\<lparr>mp_Type := inferMountPointType md\<rparr> else md)"
  obtain e s1 where pe: "persistMountPoint ve md1 s = (e, s1)" by (metis prod.collapse)
  have v: "v_events s1 = v_events s" using persist_memory [OF pe] by (simp add: same_memory_def)
  show ?thesis
  proof (cases "e = None \<and> wants_mount ty md1")
    case False
    then have "v_events (snd (handleMountPointEvent (on_mount_event (Suc n) ve) ve ev s)) = v_events s"
      using pe v by (cases e) (simp_all add: ev handleMountPointEvent_def md1_def [symmetric])
    then show ?thesis by simp
  next
    case True
    obtain r md2 s2 where mv: "MountVolume (on_mount_event (Suc n) ve) ve md1 s1 = ((r, md2), s2)"
      by (metis prod.collapse)
    have "v_events (snd (handleMountPointEvent (on_mount_event (Suc n) ve) ve ev s)) = v_events s2"
      using pe True mv notifications_memory(2) [of s2 ve "mp_Path md2" "mp_DeviceId md2" _ s2]
      by (cases r) (simp_all add: ev handleMountPointEvent_def md1_def [symmetric] same_memory_def)
    moreover from mv have "\<exists>es. v_events s2 = v_events s1 @ es \<and> VeStuck \<notin> set es \<and> length es \<le> 1"
      by (cases rule: MountVolume_memory) (auto simp: same_memory_def)
    ultimately show ?thesis by (simp add: v)
  qed
qed

text \<open>One mount point event causes at most one more: the handler may mount the volume, and the
  event of that mount only stores it. Allowing deeper nesting than two changes nothing.\<close>

theorem mount_events_end:
  assumes "2 \<le> n"
  shows "on_mount_event n ve ev s = emitMountPoint ve ev s \<and>
    (\<exists>es. v_events (snd (emitMountPoint ve ev s)) = v_events s @ VeMountPoint (fst ev) (snd ev) # es \<and>
       VeStuck \<notin> set es \<and> length es \<le> 1)"
proof -
  obtain k where n: "n = Suc (Suc k)" using assms by (metis Suc_le_D add_2_eq_Suc le_Suc_ex)
  let ?t = "log_event (VeMountPoint (fst ev) (snd ev)) s"
  note depth = emit_unfold [of ve ev s]
  have "handleMountPointEvent (on_mount_event (Suc k) ve) ve ev ?t =
      handleMountPointEvent (on_mount_event (Suc 1) ve) ve ev ?t"
    by (rule handle_cong) (rule settled_event)
  then have same: "on_mount_event n ve ev s = emitMountPoint ve ev s" by (simp add: n depth)
  have "\<exists>es. v_events (snd (handleMountPointEvent (on_mount_event (Suc 1) ve) ve ev ?t)) =
      v_events ?t @ es \<and> VeStuck \<notin> set es \<and> length es \<le> 1"
    by (rule handle_events)
  then show ?thesis using same by (simp add: depth log_event_def)
qed

section \<open>The cache stays well formed\<close>

definition cache_wf :: "'o vol \<Rightarrow> bool" where
  "cache_wf s \<longleftrightarrow> dm_wf (v_disks s)"

lemma cache_wf_simps [simp]:
  "cache_wf (s\<lparr>v_out := w\<rparr>) = cache_wf s" "cache_wf (log_event e s) = cache_wf s"
  "cache_wf (s\<lparr>v_refresh := r\<rparr>) = cache_wf s" "cache_wf (s\<lparr>v_disks := m\<rparr>) = dm_wf m"
  by (simp_all add: cache_wf_def log_event_def)

lemma same_memory_wf: "same_memory s t \<Longrightarrow> cache_wf t = cache_wf s"
  by (simp add: same_memory_def cache_wf_def)

lemma MountVolume_wf:
  assumes "cache_wf s" shows "cache_wf (snd (MountVolume (on_mount_event (Suc n) ve) ve md s))"
proof -
  obtain r md' s' where eq: "MountVolume (on_mount_event (Suc n) ve) ve md s = ((r, md'), s')"
    by (metis prod.collapse)
  then have "cache_wf s'"
  proof (cases rule: MountVolume_memory)
    case none
    then show ?thesis using assms same_memory_wf by blast
  next
    case (mounted md2 q did pid)
    then show ?thesis using assms unfolding cache_wf_def by (blast intro: AddOrUpdateMountPoint_wf)
  qed
  then show ?thesis by (simp add: eq)
qed

lemma handle_wf:
  assumes "cache_wf s" shows "cache_wf (snd (handleMountPointEvent (on_mount_event (Suc n) ve) ve ev s))"
proof -
  obtain ty md where ev: "ev = (ty, md)" by (metis prod.collapse)
  define md1 where "md1 = (if mp_Type md = [] then md\<lparr>mp_Type := inferMountPointType md\<rparr> else md)"
  obtain e s1 where pe: "persistMountPoint ve md1 s = (e, s1)" by (metis prod.collapse)
  have s1: "cache_wf s1" using persist_memory [OF pe] assms by (simp add: same_memory_wf)
  obtain r md2 s2 where mv: "MountVolume (on_mount_event (Suc n) ve) ve md1 s1 = ((r, md2), s2)"
    by (metis prod.collapse)
  have s2: "cache_wf s2" using MountVolume_wf [OF s1, of n ve md1] mv by simp
  have failed: "cache_wf (createAutomountFailureNotification ve p d x s2)" for p d x
    using s2 by (simp add: createAutomountFailureNotification_def)
  show ?thesis
  proof (cases "e = None \<and> wants_mount ty md1")
    case False
    then show ?thesis
      using pe s1 by (cases e) (simp_all add: ev handleMountPointEvent_def md1_def [symmetric])
  next
    case True
    then show ?thesis
      using pe mv s2 failed
      by (cases r) (simp_all add: ev handleMountPointEvent_def md1_def [symmetric] del: on_mount_event.simps)
  qed
qed

lemma emit_wf: "cache_wf s \<Longrightarrow> cache_wf (snd (emitMountPoint ve ev s))"
  unfolding emit_unfold by (rule handle_wf) simp

lemma store_mount_wf: "cache_wf s \<Longrightarrow> cache_wf (snd (store_mount did pid md s))"
  by (auto simp: store_mount_def cache_wf_def intro: AddOrUpdateMountPoint_wf split: res.split)

lemma request_wf: "cache_wf s \<Longrightarrow> cache_wf (snd (MountVolume (emitMountPoint ve) ve md s))"
  using MountVolume_wf [of s 2 ve md] by (simp add: emitMountPoint_def event_depth_def numeral_3_eq_3 numeral_2_eq_2)

lemma mounter_Unmount_wf:
  assumes "cache_wf s" shows "cache_wf (snd (mounter_Unmount (emitMountPoint ve) ve md force s))"
proof -
  obtain e s1 where un: "UnmountPartition ve (mp_Path md) (case mp_FSType md of Some t \<Rightarrow> t | None \<Rightarrow> [])
      force (\<not> force) s = (e, s1)" by (metis prod.collapse)
  have s1: "cache_wf s1" using UnmountPartition_memory [OF un] assms by (simp add: same_memory_wf)
  define s2 where "s2 = s1\<lparr>v_out := snd (ve_remove ve (mp_Path md) (v_out s1))\<rparr>"
  have s2: "cache_wf s2" using s1 by (simp add: s2_def)
  obtain md3 s3 where em: "emitMountPoint ve (MpUpdate, md\<lparr>mp_IsMounted := False\<rparr>) s2 = (md3, s3)"
    by (metis prod.collapse)
  have s3: "cache_wf s3" using emit_wf [OF s2, of ve "(MpUpdate, md\<lparr>mp_IsMounted := False\<rparr>)"] em by simp
  have add: "AddOrUpdateMountPoint (v_disks s3) d p md3 = Ok m \<Longrightarrow> dm_wf m" for d p m
    using s3 by (auto simp: cache_wf_def intro: AddOrUpdateMountPoint_wf)
  have last: "cache_wf (snd (case mp_Partition md3 of
        Some q3 \<Rightarrow> (case (p_DiskId q3, p_Id q3) of
            (Some did3, Some pid3) \<Rightarrow>
              (case AddOrUpdateMountPoint (v_disks s3) did3 pid3 md3 of
                 Ok m' \<Rightarrow> (Ok (), s3\<lparr>v_disks := m'\<rparr>) | Err e \<Rightarrow> (Ok (), s3) | Panic \<Rightarrow> (Panic, s3))
          | _ \<Rightarrow> (Panic, s3))
      | None \<Rightarrow> (Panic, s3)))"
    by (simp add: s3 add split: option.split res.split)
  show ?thesis
  proof (cases e)
    case None
    show ?thesis
    proof (cases "mp_Partition md")
      case (Some q)
      then show ?thesis using un None s2 last
        by (cases "p_DiskId q"; cases "p_Id q")
          (simp_all add: mounter_Unmount_def Let_def s2_def [symmetric] em)
    qed (use un None s2 in \<open>simp add: mounter_Unmount_def Let_def s2_def [symmetric]\<close>)
  qed (use un s1 in \<open>simp add: mounter_Unmount_def\<close>)
qed

lemma on_share_removed_wf: "cache_wf s \<Longrightarrow> cache_wf (on_share_removed sh s)"
  using RemoveMountPointShare_wf [of "v_disks s" "sr_Name sh"]
  by (auto simp: on_share_removed_def cache_wf_def log_event_def split: prod.splits bool.splits option.splits)

lemma on_share_changed_wf: "cache_wf s \<Longrightarrow> cache_wf (on_share_changed sh s)"
  by (auto simp: on_share_changed_def cache_wf_def log_event_def intro: AddMountPointShare_wf
      split: res.splits prod.splits)

lemma UnmountVolume_wf: "cache_wf s \<Longrightarrow> cache_wf (snd (UnmountVolume ve path force s))"
  by (simp add: UnmountVolume_def mounter_Unmount_wf on_share_removed_wf split: option.split)

lemma sync_mount_wf:
  assumes "cache_wf s" shows "cache_wf (snd (sync_mount ve part did pid dev mi s))"
proof -
  have step: "cache_wf (snd (case store_mount did pid mp s of
      (False, s1) \<Rightarrow> (Ok (), s1)
    | (True, s1) \<Rightarrow> if b then (Ok (), s1) else (Ok (), snd (emitMountPoint ve (ty, mp) s1))))"
    for mp b ty
  proof -
    obtain b1 s1 where st: "store_mount did pid mp s = (b1, s1)" by (metis prod.collapse)
    have "cache_wf s1" using store_mount_wf [OF assms, of did pid mp] st by simp
    then show ?thesis by (simp add: st emit_wf split: bool.split)
  qed
  have step2: "cache_wf (snd (case store_mount did pid mp s of
      (False, s1) \<Rightarrow> (Ok (), s1) | (True, s1) \<Rightarrow> (Ok (), snd (emitMountPoint ve (ty, mp) s1))))" for mp ty
    using step [where b = False] unfolding if_False .
  show ?thesis
  proof (cases "GetMountPoint (v_disks s) did pid (mi_MountPoint mi)")
    case None
    then show ?thesis unfolding sync_mount_def Let_def
      by (simp only: option.case split: if_split) (simp only: snd_conv assms step2 simp_thms)
  next
    case (Some mp)
    show ?thesis
      unfolding sync_mount_def Let_def Some option.case
      by (cases "scan_into (mp_Flags mp) (mi_Options mi)"; cases "scan_into (mp_CustomFlags mp) (mi_SuperOptions mi)")
        (simp_all only: prod.case res.case snd_conv assms step)
  qed
qed

lemma sync_mounts_wf: "cache_wf s \<Longrightarrow> cache_wf (snd (sync_mounts ve part did pid dev mis s))"
proof (induction mis arbitrary: s)
  case (Cons mi mis)
  obtain r s1 where st: "sync_mount ve part did pid dev mi s = (r, s1)" by (metis prod.collapse)
  have "cache_wf s1" using sync_mount_wf [OF Cons.prems, of ve part did pid dev mi] st by simp
  then show ?case using Cons.IH by (cases r) (simp_all add: st)
qed simp

lemma sweep_mount_wf: "cache_wf s \<Longrightarrow> cache_wf (sweep_mount ve did pid mp s)"
proof -
  assume wf: "cache_wf s"
  obtain b s1 where st: "store_mount did pid (mp\<lparr>mp_IsMounted := False, mp_RefreshVersion := v_refresh s\<rparr>) s = (b, s1)"
    by (metis prod.collapse)
  have "cache_wf s1" using store_mount_wf [OF wf] st by (metis snd_conv)
  then show ?thesis using wf by (cases b) (simp_all add: sweep_mount_def st emit_wf)
qed

lemma foldl_wf: "(\<And>s x. cache_wf s \<Longrightarrow> x \<in> set xs \<Longrightarrow> cache_wf (f s x)) \<Longrightarrow> cache_wf s \<Longrightarrow> cache_wf (foldl f s xs)"
  by (induction xs arbitrary: s) auto

lemma handlePartitionEvent_wf:
  assumes wf: "cache_wf s" shows "cache_wf (snd (handlePartitionEvent ve part d s))"
proof (cases "\<exists>diskId pid. d_Id d = Some diskId \<and> p_Id part = Some pid \<and> non_empty (p_DevicePath part)")
  case False
  then show ?thesis using wf by (auto simp: handlePartitionEvent_def split: option.split)
next
  case True
  then obtain diskId pid where ids: "d_Id d = Some diskId" "p_Id part = Some pid" "non_empty (p_DevicePath part)"
    by blast
  define did where "did = (if non_empty (p_DiskId part) then the (p_DiskId part) else diskId)"
  define dev where "dev = the (p_DevicePath part)"
  have s1: "cache_wf (foldl (\<lambda>s p. snd (store_mount did pid (snd p) s)) s mounts)" for mounts
    by (rule foldl_wf [OF _ wf]) (rule store_mount_wf)
  have sweep: "cache_wf t \<Longrightarrow> cache_wf (foldl (\<lambda>s mp. sweep_mount ve did pid mp s) t mps)" for t mps
    by (rule foldl_wf) (rule sweep_mount_wf)
  have sync: "cache_wf t \<Longrightarrow> cache_wf (snd (case sync_mounts ve part did pid dev mis t of
      (Ok _, s2) \<Rightarrow> (Ok (), foldl (\<lambda>s mp. sweep_mount ve did pid mp s) s2 (GetAllMountPoints (v_disks s2)))
    | other \<Rightarrow> other))" for t mis
  proof -
    assume t: "cache_wf t"
    obtain r s2 where st: "sync_mounts ve part did pid dev mis t = (r, s2)" by (metis prod.collapse)
    have "cache_wf s2" using sync_mounts_wf [OF t, of ve part did pid dev mis] st by simp
    then show ?thesis by (cases r) (simp_all add: st sweep)
  qed
  show ?thesis
    unfolding handlePartitionEvent_def
    using ids wf by (simp add: Let_def did_def [symmetric] dev_def [symmetric] s1 sync split: res.split)
qed

lemma emitPartition_wf: "cache_wf s \<Longrightarrow> cache_wf (emitPartition ve ty part d s)"
  by (simp add: emitPartition_def handlePartitionEvent_wf)

lemma with_info_wf: "part_wf (pid, part) \<Longrightarrow> part_wf (pid, with_info ve part)"
  by (simp add: with_info_def part_wf_def mounts_of_def)

lemma refresh_partition_wf:
  assumes wf: "cache_wf s" and e: "part_wf (pid, part0)"
  shows "cache_wf (refresh_partition ve ty d s (pid, part0))"
proof (cases "v_disks s")
  case None
  then show ?thesis using wf by (simp add: refresh_partition_def Let_def emitPartition_wf)
next
  case (Some al)
  have m: "dm_wf (Some al)" using wf Some by (simp add: cache_wf_def)
  show ?thesis
  proof (cases "map_of al (the (d_Id d))")
    case None
    then show ?thesis using wf Some by (simp add: refresh_partition_def Let_def emitPartition_wf)
  next
    case c: (Some c)
    define part where "part = (case map_of (parts_of c) pid of Some p \<Rightarrow> p | None \<Rightarrow> part0)"
    have "disk_wf (the (d_Id d), c)" by (rule dm_wf_lookup [OF m c])
    then have "parts_wf (parts_of c)"
      using parts_of_cases [of c] by (auto dest: disk_wf_parts)
    then have "part_wf (pid, part)"
      using e parts_wf_lookup by (auto simp: part_def split: option.split)
    then have "part_wf (pid, with_info ve part)" by (rule with_info_wf)
    then have "dm_wf (put_partition al (the (d_Id d)) c (parts_of c) pid (with_info ve part))"
      using m c parts_of_cases [of c] by (intro put_partition_wf) auto
    then show ?thesis
      using Some c by (simp add: refresh_partition_def Let_def part_def [symmetric] emitPartition_wf)
  qed
qed

lemma refresh_disk_wf:
  fixes s :: "'o vol" and ve :: "'o vol_env"
  assumes wf: "cache_wf s" and ok: "op_ok (OpAddOrUpdate d0)"
  shows "cache_wf (snd (refresh_disk ve d0 s))"
proof (cases "\<exists>ps did. d_Partitions d0 = Some ps \<and> d_Id d0 = Some did")
  case False
  then show ?thesis using wf by (auto simp: refresh_disk_def split: option.split)
next
  case True
  then obtain ps did where d: "d_Partitions d0 = Some ps" "d_Id d0 = Some did" by blast
  define d1 where "d1 = d0\<lparr>d_RefreshVersion := v_refresh s\<rparr>"
  have ps: "parts_wf ps" using ok d by simp
  have fold: "cache_wf t \<Longrightarrow> cache_wf (foldl (refresh_partition ve ty d1) t ps)" for t :: "'o vol" and ty
  proof (rule foldl_wf)
    fix t' :: "'o vol" and x assume "cache_wf t'" and "x \<in> set ps"
    then show "cache_wf (refresh_partition ve ty d1 t' x)"
      using ps by (cases x) (auto simp: parts_wf_def intro: refresh_partition_wf)
  qed
  have "dm_wf m'" if "AddOrUpdate (v_disks s) d1 = Ok m'" for m'
  proof -
    from that have "did \<noteq> []" using d by (auto simp: AddOrUpdate_Ok d1_def)
    then have "disk_wf (did, d1)" using d ps by (simp add: disk_wf_def d1_def)
    then show ?thesis using AddOrUpdate_wf [OF _ that, of did] wf d by (simp add: cache_wf_def d1_def)
  qed
  then show ?thesis using d wf fold
    by (simp add: refresh_disk_def Let_def d1_def [symmetric] split: res.split)
qed

lemma refresh_disks_wf:
  "cache_wf s \<Longrightarrow> \<forall>d \<in> set ds. op_ok (OpAddOrUpdate d) \<Longrightarrow> cache_wf (snd (refresh_disks ve ds s))"
proof (induction ds arbitrary: s)
  case (Cons d ds)
  obtain r s1 where st: "refresh_disk ve d s = (r, s1)" by (metis prod.collapse)
  have "cache_wf s1" using refresh_disk_wf [of s d ve] Cons.prems st by simp
  then show ?case using Cons by (cases r) (simp_all add: st)
qed simp

text \<open>What the service relies on: the hardware names every partition by its own id, once.\<close>

definition hardware_ok :: "'o vol_env \<Rightarrow> bool" where
  "hardware_ok ve \<longleftrightarrow>
     (\<forall>w ds w'. ve_hardware ve w = (Ok (Some ds), w') \<longrightarrow> (\<forall>d \<in> set ds. op_ok (OpAddOrUpdate d)))"

lemma getVolumesData_wf:
  assumes "hardware_ok ve" "cache_wf s" shows "cache_wf (snd (getVolumesData ve s))"
proof -
  obtain r w where hw: "ve_hardware ve (v_out s) = (r, w)" by (metis prod.collapse)
  show ?thesis
  proof (cases r)
    case (Ok x)
    have "\<forall>d \<in> set ds. op_ok (OpAddOrUpdate d)" if "x = Some ds" for ds
      using assms(1) hw Ok that unfolding hardware_ok_def by blast
    then show ?thesis using assms(2) hw Ok
      by (cases x) (simp_all add: getVolumesData_def Let_def refresh_disks_wf del: op_ok.simps)
  qed (use assms hw in \<open>auto simp: getVolumesData_def Let_def\<close>)
qed

lemma refresh_wf: "hardware_ok ve \<Longrightarrow> cache_wf s \<Longrightarrow> cache_wf (snd (getVolumesData ve (invalidate_hardware ve s)))"
  by (rule getVolumesData_wf) (simp_all add: invalidate_hardware_def)

lemma GetVolumesData_wf:
  assumes "hardware_ok ve" "cache_wf s" shows "cache_wf (snd (GetVolumesData ve s))"
  using getVolumesData_wf [OF assms] assms(2)
  by (auto simp: GetVolumesData_def split: prod.split res.split)

lemma handleFilesystemTaskEvent_wf:
  assumes "hardware_ok ve" "cache_wf s" shows "cache_wf (snd (handleFilesystemTaskEvent ve t s))"
  using refresh_wf [OF assms] assms(2)
  by (auto simp: handleFilesystemTaskEvent_def split: prod.split res.split option.split)

lemma automount_wf: "cache_wf (snd acc) \<Longrightarrow> cache_wf (snd (foldl (automount_one ve part) acc mps))"
proof (induction mps arbitrary: acc)
  case (Cons mp mps)
  obtain h s where a: "acc = (h, s)" by (metis prod.collapse)
  obtain r md' s1 where mv: "MountVolume (emitMountPoint ve) ve
      (mp\<lparr>mp_Partition := Some (ref_of part), mp_DeviceId := the (p_Id part)\<rparr>) s = ((r, md'), s1)"
    by (metis prod.collapse)
  have "cache_wf s1"
    using request_wf [of s ve "mp\<lparr>mp_Partition := Some (ref_of part), mp_DeviceId := the (p_Id part)\<rparr>"] mv Cons.prems a
    by simp
  then have "cache_wf (snd (automount_one ve part acc mp))"
    using Cons.prems a mv by (cases r) (simp_all add: automount_one_def)
  then show ?case using Cons.IH by simp
qed simp

lemma udev_wf:
  assumes hw: "hardware_ok ve" and wf: "cache_wf s" shows "cache_wf (udevEventHandler ve ue s)"
proof -
  have add: "cache_wf (snd (handlePartitionUdevAddEvent ve n s))" for n
    using wf automount_wf [of "(False, s)" ve]
    by (auto simp: handlePartitionUdevAddEvent_def split: option.split)
  have un: "cache_wf (foldl (unmount_one ve) s mps)" for mps
    by (rule foldl_wf [OF _ wf]) (simp add: unmount_one_def mounter_Unmount_wf)
  have remove: "cache_wf (handlePartitionUdevRemoveEvent ve n s)" for n
    using un wf by (auto simp: handlePartitionUdevRemoveEvent_def Let_def cache_wf_def
        intro!: refresh_wf [OF hw, unfolded cache_wf_def] RemovePartition_wf split: option.split)
  have disk: "dm_wf (snd (DiskMap_Remove (v_disks s) i))" for i
    using wf by (simp add: cache_wf_def DiskMap_Remove_wf)
  have "cache_wf (case handlePartitionUdevAddEvent ve n s of
      (True, s1) \<Rightarrow> s1 | (False, s1) \<Rightarrow> snd (getVolumesData ve (invalidate_hardware ve s1)))" for n
    using add [of n] by (auto simp: refresh_wf [OF hw] split: prod.split bool.split)
  then show ?thesis using wf remove disk refresh_wf [OF hw wf]
    by (simp add: udevEventHandler_def)
qed

lemma patch_by_path_wf: "cache_wf s \<Longrightarrow> cache_wf (patch_by_path path b s)"
  by (auto simp: patch_by_path_def Let_def store_mount_wf split: option.split)

lemma PatchMountPointSettings_wf:
  assumes hw: "hardware_ok ve" and wf: "cache_wf s"
  shows "cache_wf (snd (PatchMountPointSettings ve root path md s))"
proof -
  have vol: "GetVolumesData ve (s\<lparr>v_out := w\<rparr>) = (r, t) \<Longrightarrow> cache_wf t" for w r t
    using GetVolumesData_wf [OF hw, of "s\<lparr>v_out := w\<rparr>"] wf by simp
  have fin: "emitMountPoint ve ev t = (c, u) \<Longrightarrow> cache_wf t \<Longrightarrow> cache_wf u" for t ev c u
    using emit_wf [of t ve ev] by simp
  show ?thesis using wf
    by (auto simp: PatchMountPointSettings_def Let_def patch_by_path_wf store_mount_wf vol
        intro: fin split: option.split res.split prod.split)
qed

text \<open>One input of the service, in the environment that answers while it runs.\<close>

definition volume_input :: "'o vol \<Rightarrow> 'o vol_env \<times> vol_input \<Rightarrow> 'o vol" where
  "volume_input s i = vol_step (fst i) s (snd i)"

definition input_ok :: "'o vol_env \<times> vol_input \<Rightarrow> bool" where
  "input_ok i \<longleftrightarrow> hardware_ok (fst i)"

lemma volume_input_wf:
  assumes "cache_wf s" "input_ok i" shows "cache_wf (volume_input s i)"
proof -
  have hw: "hardware_ok (fst i)" using assms(2) by (simp add: input_ok_def)
  have upd: "dm_wf (ok_or (v_disks s) (AddSmartInfo (v_disks s) si))"
    "dm_wf (ok_or (v_disks s) (AddHDIdleDevice (v_disks s) dv))" for si dv
    using assms(1) by (auto simp: cache_wf_def ok_or_def intro: AddSmartInfo_wf AddHDIdleDevice_wf split: res.split)
  show ?thesis using assms(1)
    by (cases "snd i") (simp_all add: volume_input_def vol_step_def request_wf UnmountVolume_wf
        PatchMountPointSettings_wf [OF hw] GetVolumesData_wf [OF hw] getVolumesData_wf [OF hw]
        handleFilesystemTaskEvent_wf [OF hw] udev_wf [OF hw] on_share_removed_wf on_share_changed_wf upd)
qed

interpretation volume: invariant_steps volume_input input_ok cache_wf
  by unfold_locales (rule volume_input_wf)

text \<open>The volume service keeps the keys of the disk cache as long as the hardware names every partition by its
  own id; the theory \<open>Volume_Hardware\<close> shows that the hardware service does.\<close>

lemma volume_cache_kept:
  assumes "dm_wf (v_disks s)" and "list_all input_ok inputs"
  shows "dm_wf (v_disks (foldl volume_input s inputs))"
  using volume.inv_run assms by (simp add: cache_wf_def)

section \<open>A small volume service\<close>

text \<open>One disk with one partition, a kernel that mounts what it is asked and a database that accepts
  every row.\<close>

definition sample_env :: "string list vol_env" where
  "sample_env = \<lparr>ve_protected = False,
     ve_tables = \<lparr>ft_registry = NewRegistry, fsSpecificMountFlags = [], standardMountFlagsByName = [],
       allKnownMountFlagsByName = []\<rparr>,
     ve_regexp = (\<lambda>p t. Some True), ve_flagMap = [], ve_fsenv = demo_env,
     ve_mountInfos = (\<lambda>w. Ok []),
     ve_stat = (\<lambda>w p. if p = ''/dev/sdb1'' then StatFile else if p \<in> set w then StatDir else StatMissing),
     ve_writable = (\<lambda>w p. True), ve_byId = (\<lambda>w. None), ve_label = (\<lambda>w p. None),
     ve_serial = (\<lambda>w p. None), ve_size = (\<lambda>w p. None),
     ve_mkdirAll = (\<lambda>p w. (None, p # w)), ve_remove = (\<lambda>p w. (None, removeAll p w)),
     ve_tryMount = (\<lambda>src target dat flags prepare w.
        (Ok \<lparr>mr_Path = target, mr_Device = src, mr_FSType = ''ext4'', mr_Flags = flags, mr_Data = dat\<rparr>,
         snd (prepare w))),
     ve_doMount = (\<lambda>src target ty dat flags prepare w.
        (Ok \<lparr>mr_Path = target, mr_Device = src, mr_FSType = ty, mr_Flags = flags, mr_Data = dat\<rparr>,
         snd (prepare w))),
     ve_unmount = (\<lambda>p force lazy w. (None, removeAll p w)),
     ve_persist = (\<lambda>row w. (None, w)), ve_rows = (\<lambda>w i. Ok []), ve_findRow = (\<lambda>w r p. None),
     ve_updateRow = (\<lambda>r p row w. (Ok 0, w)), ve_hasHardware = False, ve_hardware = (\<lambda>w. (Ok None, w)),
     ve_invalidate = (\<lambda>w. w), ve_hasHA = False, ve_notify = (\<lambda>i t m w. (None, w)),
     ve_dismiss = (\<lambda>i w. (None, w)), ve_sha1 = (\<lambda>t. t)\<rparr>"

definition sample_partition :: partition where
  "sample_partition = zero_partition\<lparr>p_Id := Some ''p1'', p_DiskId := Some ''d1'',
     p_DevicePath := Some ''/dev/sdb1'', p_MountPointData := Some []\<rparr>"

definition sample_state :: "string list vol" where
  "sample_state = \<lparr>v_disks = Some [(''d1'', zero_disk\<lparr>d_Id := Some ''d1'',
     d_Partitions := Some [(''p1'', sample_partition)]\<rparr>)],
     v_refresh = 0, v_events = [], v_fs = new_world 0, v_out = []\<rparr>"

definition sample_request :: mount_point where
  "sample_request = zero_mount_point\<lparr>mp_Path := ''/mnt/usb'', mp_Root := ''/'', mp_DeviceId := ''p1''\<rparr>"

lemma sample_mount:
  "\<exists>md' s'. MountVolume (emitMountPoint sample_env) sample_env sample_request sample_state = ((Ok (), md'), s')"
proof -
  have "is_ok (fst (fst (MountVolume (emitMountPoint sample_env) sample_env sample_request sample_state)))"
    by code_simp
  then show ?thesis by (metis is_ok_iff old.unit.exhaust prod.collapse)
qed

lemma mount_recorded_witness:
  "\<exists>md' s' did pid mp ev.
     MountVolume (emitMountPoint sample_env) sample_env sample_request sample_state = ((Ok (), md'), s') \<and>
     mount_at (v_disks s') did pid (mp_Path md') = Some mp \<and> mp_IsMounted mp \<and>
     v_events s' = [VeMountPoint MpUpdate ev]"
proof -
  obtain md' s' where m: "MountVolume (emitMountPoint sample_env) sample_env sample_request sample_state
      = ((Ok (), md'), s')" using sample_mount by blast
  from mount_recorded [OF m] m show ?thesis by (fastforce simp: sample_state_def)
qed

lemma mount_only_when_checked_witness:
  "\<exists>md' s' p dev flags dat s1.
     MountVolume (emitMountPoint sample_env) sample_env sample_request sample_state = ((Ok (), md'), s') \<and>
     mountable sample_env sample_state sample_request p dev flags dat \<and>
     mounter_Mount (emitMountPoint sample_env) sample_env (checked_request sample_request p) flags dat
       (type_of sample_request) sample_state = ((Ok (), md'), s1) \<and>
     s' = dismissed sample_env (Ok ()) md' s1"
proof -
  obtain md' s' where m: "MountVolume (emitMountPoint sample_env) sample_env sample_request sample_state
      = ((Ok (), md'), s')" using sample_mount by blast
  from mount_only_when_checked [OF m] m show ?thesis by blast
qed

lemma mount_events_end_witness:
  "on_mount_event 7 sample_env (MpAdd, sample_request) sample_state =
     emitMountPoint sample_env (MpAdd, sample_request) sample_state"
  using mount_events_end [of 7 sample_env "(MpAdd, sample_request)" sample_state] by simp

text \<open>
  Unmounting a volume that is set to be mounted at startup announces it as unmounted, and the handler
  of that event mounts it again.
\<close>

lemma startup_unmount_mounts_again:
  assumes "mp_IsToMountAtStartup md = Some True" "mp_Type md \<noteq> []" "\<not> mp_IsMounted md"
    and "persistMountPoint ve md s = (None, s1)"
  shows "handleMountPointEvent emit ve (MpUpdate, md) s =
     (case MountVolume emit ve md s1 of
        ((Err e, md2), s2) \<Rightarrow>
          if err_kind e = ErrorAlreadyMounted then (md2, s2)
          else (md2, createAutomountFailureNotification ve (mp_Path md2) (mp_DeviceId md2) e s2)
      | ((_, md2), s2) \<Rightarrow> (md2, s2))"
  using assms by (simp add: handleMountPointEvent_def wants_mount_def)

text \<open>
  The sweep for stale mounts looks at every mount point of the cache and stores a stale one under the
  partition of the event: here the mount of partition \<open>p9\<close> gets a second entry under \<open>p1\<close>.
\<close>

definition swept_state :: "string list vol" where
  "swept_state = sample_state\<lparr>v_refresh := 5, v_disks := Some [(''d1'', zero_disk\<lparr>d_Id := Some ''d1'',
     d_Partitions := Some [(''p1'', sample_partition),
       (''p9'', sample_partition\<lparr>p_Id := Some ''p9'', p_DevicePath := Some ''/dev/sdb9'',
          p_MountPointData := Some [(''/mnt/nine'', zero_mount_point\<lparr>mp_Path := ''/mnt/nine'',
            mp_Type := ''ADDON'', mp_DeviceId := ''p9'', mp_IsMounted := True\<rparr>)]\<rparr>)]\<rparr>)]\<rparr>"

lemma sweep_crosses_partitions:
  "GetMountPoint (v_disks (snd (handlePartitionEvent sample_env sample_partition
       (zero_disk\<lparr>d_Id := Some ''d1''\<rparr>) swept_state))) ''d1'' ''p1'' ''/mnt/nine'' \<noteq> None"
  by code_simp

end
