(* ===== verification/Go_Strings.thy ===== *)
theory Go_Strings
  imports Srat_Prelude
begin

text \<open>
  More of the Go standard library on strings: \<open>strings.Fields\<close>, \<open>SplitN\<close>, \<open>ReplaceAll\<close> and
  \<open>ToUpper\<close>, \<open>strconv.Atoi\<close>, the lines of a \<open>bufio.Scanner\<close> and the runes of a string.
\<close>

section \<open>Splitting\<close>

definition ToUpper :: "string \<Rightarrow> string" where
  "ToUpper s = map (\<lambda>c. let n = of_char c :: nat in if 97 \<le> n \<and> n \<le> 122 then char_of (n - 32) else c) s"

definition HasSuffix :: "string \<Rightarrow> string \<Rightarrow> bool" where
  "HasSuffix s p = HasPrefix (rev s) (rev p)"

definition TrimSuffix :: "string \<Rightarrow> string \<Rightarrow> string" where
  "TrimSuffix s p = (if HasSuffix s p then take (length s - length p) s else s)"

definition ContainsAny :: "string \<Rightarrow> string \<Rightarrow> bool" where
  "ContainsAny s chars = (\<exists>c \<in> set s. c \<in> set chars)"

text \<open>The words of a string between runs of white space.\<close>

definition Fields :: "string \<Rightarrow> string list" where
  "Fields s = filter (\<lambda>w. w \<noteq> []) (Split (map (\<lambda>c. if is_space c then CHR '' '' else c) s) CHR '' '')"

text \<open>\<open>strings.SplitN\<close> with a positive count.\<close>

fun SplitN :: "string \<Rightarrow> char \<Rightarrow> nat \<Rightarrow> string list" where
  "SplitN s sep 0 = []"
| "SplitN s sep (Suc 0) = [s]"
| "SplitN s sep (Suc (Suc n)) =
     (case SplitN2 s sep of [w, r] \<Rightarrow> w # SplitN r sep (Suc n) | ws \<Rightarrow> ws)"

definition remove_char :: "char \<Rightarrow> string \<Rightarrow> string" where
  "remove_char c s = filter (\<lambda>x. x \<noteq> c) s"

text \<open>
  The lines a scanner yields: without the newline and one carriage return before it; a line of
  64 KiB or more stops it, an empty rest yields no line.
\<close>

definition drop_cr :: "string \<Rightarrow> string" where
  "drop_cr l = (if l \<noteq> [] \<and> last l = CHR 0x0D then butlast l else l)"

fun scan_lines :: "string list \<Rightarrow> string list" where
  "scan_lines [] = []"
| "scan_lines [l] = (if l = [] \<or> 65536 \<le> length l then [] else [drop_cr l])"
| "scan_lines (l # m # ls) = (if 65536 \<le> length l then [] else drop_cr l # scan_lines (m # ls))"

definition Scanner_Lines :: "string \<Rightarrow> string list" where
  "Scanner_Lines s = scan_lines (Split s CHR 0x0A)"

section \<open>Numbers\<close>

definition digit_val :: "char \<Rightarrow> nat option" where
  "digit_val c = (let n = of_char c :: nat in if 48 \<le> n \<and> n \<le> 57 then Some (n - 48) else None)"

fun digits_val :: "nat \<Rightarrow> string \<Rightarrow> nat option" where
  "digits_val acc [] = Some acc"
| "digits_val acc (c # s) =
     (case digit_val c of None \<Rightarrow> None | Some d \<Rightarrow> digits_val (10 * acc + d) s)"

text \<open>\<open>strconv.Atoi\<close>: an optional sign and digits that fit 64 bits.\<close>

definition Atoi :: "string \<Rightarrow> int option" where
  "Atoi s =
     (let (neg, ds) = (case s of
            [] \<Rightarrow> (False, [])
          | c # r \<Rightarrow> if c = CHR ''-'' then (True, r) else if c = CHR ''+'' then (False, r) else (False, s))
      in if ds = [] then None
         else case digits_val 0 ds of
                None \<Rightarrow> None
              | Some n \<Rightarrow>
                  let v = (if neg then - int n else int n) in
                  if - (2 ^ 63) \<le> v \<and> v < 2 ^ 63 then Some v else None)"

section \<open>Runes\<close>

text \<open>
  \<open>[]rune(s)\<close>: the code points of UTF-8; a byte that starts no valid sequence is U+FFFD.
\<close>

definition cont_byte :: "nat \<Rightarrow> nat \<Rightarrow> nat \<Rightarrow> bool" where
  "cont_byte lo hi b \<longleftrightarrow> lo \<le> b \<and> b \<le> hi"

definition rune_error :: nat where
  "rune_error = 0xFFFD"

definition decode_rune :: "nat list \<Rightarrow> nat \<times> nat" where
  "decode_rune bs = (case bs of
       [] \<Rightarrow> (rune_error, 0)
     | b # r \<Rightarrow>
         if b < 0x80 then (b, 1)
         else if cont_byte 0xC2 0xDF b then
           (case r of b1 # _ \<Rightarrow>
              if cont_byte 0x80 0xBF b1 then ((b mod 32) * 64 + b1 mod 64, 2) else (rune_error, 1)
            | _ \<Rightarrow> (rune_error, 1))
         else if cont_byte 0xE0 0xEF b then
           (case r of b1 # b2 # _ \<Rightarrow>
              if cont_byte (if b = 0xE0 then 0xA0 else 0x80) (if b = 0xED then 0x9F else 0xBF) b1
                 \<and> cont_byte 0x80 0xBF b2
              then ((b mod 16) * 4096 + (b1 mod 64) * 64 + b2 mod 64, 3) else (rune_error, 1)
            | _ \<Rightarrow> (rune_error, 1))
         else if cont_byte 0xF0 0xF4 b then
           (case r of b1 # b2 # b3 # _ \<Rightarrow>
              if cont_byte (if b = 0xF0 then 0x90 else 0x80) (if b = 0xF4 then 0x8F else 0xBF) b1
                 \<and> cont_byte 0x80 0xBF b2 \<and> cont_byte 0x80 0xBF b3
              then ((b mod 8) * 262144 + (b1 mod 64) * 4096 + (b2 mod 64) * 64 + b3 mod 64, 4)
              else (rune_error, 1)
            | _ \<Rightarrow> (rune_error, 1))
         else (rune_error, 1))"

text \<open>Each step takes at least one byte, so the length of the input is fuel enough.\<close>

fun runes_from :: "nat \<Rightarrow> nat list \<Rightarrow> nat list" where
  "runes_from 0 bs = []"
| "runes_from (Suc n) bs =
     (if bs = [] then []
      else (case decode_rune bs of (r, k) \<Rightarrow> r # runes_from n (drop k bs)))"

definition bytes_of :: "string \<Rightarrow> nat list" where
  "bytes_of s = map of_char s"

definition runes :: "string \<Rightarrow> nat list" where
  "runes s = runes_from (length s) (bytes_of s)"

lemma runes_ascii:
  assumes "\<forall>c \<in> set s. (of_char c :: nat) < 128" shows "runes s = bytes_of s"
proof -
  have "\<forall>b \<in> set bs. b < 128 \<Longrightarrow> runes_from (length bs) bs = bs" for bs
    by (induction bs) (simp_all add: decode_rune_def)
  from this [of "bytes_of s"] assms show ?thesis by (simp add: runes_def bytes_of_def)
qed

end
