(* ===== verification/Hardware_Service.thy ===== *)
theory Hardware_Service
  imports Disk_Views Hd_Idle Go_Path Go_Strings
begin

text \<open>
  The hardware service (\<open>service/hardware_service.go\<close> with \<open>converter/ha_hardware_to_dto.go\<close> and
  \<open>converter/ha_hardware_to_dto_conv_gen.go\<close>): the disks the supervisor reports, with what S.M.A.R.T.,
  HDIdle and sysfs know about them, behind a cache.

  The supervisor, the two other services and the file system are parameters (\<open>hw_env\<close>); the expiry
  of the cache is an invalidation.
\<close>

section \<open>What the supervisor reports\<close>

record hw_filesystem =
  hf_Device :: "string option"
  hf_Id :: "string option"
  hf_MountPoints :: "string list option"
  hf_Name :: "string option"
  hf_Size :: "int option"
  hf_System :: "bool option"

record hw_attributes =
  ha_IDFSLABEL :: "string option"
  ha_IDPARTENTRYNAME :: "string option"
  ha_IDFSTYPE :: "string option"

record hw_device =
  hv_Attributes :: "hw_attributes option"
  hv_ById :: "string option"
  hv_DevPath :: "string option"
  hv_Name :: "string option"

record hw_drive =
  dr_ConnectionBus :: "string option"
  dr_Ejectable :: "bool option"
  dr_Filesystems :: "hw_filesystem list option"
  dr_Id :: "string option"
  dr_Model :: "string option"
  dr_Removable :: "bool option"
  dr_Revision :: "string option"
  dr_Seat :: "string option"
  dr_Serial :: "string option"
  dr_Size :: "int option"
  dr_Vendor :: "string option"

definition zero_drive :: hw_drive where
  "zero_drive = \<lparr>dr_ConnectionBus = None, dr_Ejectable = None, dr_Filesystems = None, dr_Id = None, dr_Model = None,
     dr_Removable = None, dr_Revision = None, dr_Seat = None, dr_Serial = None, dr_Size = None, dr_Vendor = None\<rparr>"

text \<open>An answer; the drives are \<open>None\<close> when any pointer on the way to them is nil.\<close>

record hw_response =
  hr_Code :: int
  hr_Drives :: "hw_drive list option"
  hr_Devices :: "hw_device list option"

record hw_env =
  hw_answer :: "hw_response option \<times> err option"
  hw_smart :: "string \<Rightarrow> smart_info option res"
  hw_hdidle :: "string \<Rightarrow> hdidle_device option \<times> err option"
  hw_readFile :: "string \<Rightarrow> string option"
  hw_symlink :: "string \<Rightarrow> string option"
  hw_readDir :: "string \<Rightarrow> (string \<times> bool) list option"
  hw_fsFromBlock :: "string \<Rightarrow> string"

section \<open>Drives as disks\<close>

text \<open>The regular expression \<open>p?\<close> followed by digits at the end of the text.\<close>

definition strip_partition :: "string \<Rightarrow> string" where
  "strip_partition s =
     (let d = takeWhile (\<lambda>c. digit_val c \<noteq> None) (rev s); rest = drop (length d) (rev s)
      in if d = [] then s
         else (case rest of c # cs \<Rightarrow> (if c = CHR ''p'' then rev cs else rev rest) | [] \<Rightarrow> []))"

definition extractDevice :: "hw_drive \<Rightarrow> string option" where
  "extractDevice source =
     (case dr_Filesystems source of
        None \<Rightarrow> None
      | Some [] \<Rightarrow> None
      | Some (f # fs) \<Rightarrow> map_option (\<lambda>dev. TrimPrefix (strip_partition dev) ''/dev/'') (hf_Device f))"

definition trimDevPrefix :: "string option \<Rightarrow> string option" where
  "trimDevPrefix source = map_option (\<lambda>s. TrimPrefix s ''/dev/'') source"

definition not_resolved :: err where
  "not_resolved = E ErrorOther ''cannot resolve''"

text \<open>The first symbolic link of a directory that resolves to the device.\<close>

definition same_device :: "hw_env \<Rightarrow> string \<Rightarrow> string \<Rightarrow> (string \<times> bool) list \<Rightarrow> string option" where
  "same_device env dir device entries =
     map_option fst (List.find (\<lambda>e. snd e \<and> hw_symlink env (path_Join dir (fst e)) = Some device) entries)"

definition filesystemUUIDToPartitionID :: "hw_env \<Rightarrow> string \<Rightarrow> string \<times> err option" where
  "filesystemUUIDToPartitionID env uuid0 =
     (if HasPrefix uuid0 ''by-id-'' then (TrimPrefix uuid0 ''by-id-'', None)
      else
        let uuid = (if HasPrefix uuid0 ''by-uuid-'' then TrimPrefix uuid0 ''by-uuid-'' else uuid0);
            fallback = ''by-uuid-'' @ uuid
        in case hw_symlink env (path_Join ''/dev/disk/by-uuid/'' uuid) of
             None \<Rightarrow> (fallback, Some not_resolved)
           | Some device \<Rightarrow>
               (case hw_readDir env ''/dev/disk/by-id/'' of
                  None \<Rightarrow> (fallback, Some not_resolved)
                | Some entries \<Rightarrow>
                    (case same_device env ''/dev/disk/by-id/'' device entries of
                       Some name \<Rightarrow> (name, None)
                     | None \<Rightarrow> (fallback, Some not_resolved))))"

definition partitionIDToFilesystemUUID :: "hw_env \<Rightarrow> string \<Rightarrow> string \<times> err option" where
  "partitionIDToFilesystemUUID env id0 =
     (if HasPrefix id0 ''by-uuid-'' then (TrimPrefix id0 ''by-uuid-'', None)
      else
        let i = (if HasPrefix id0 ''by-id-'' then TrimPrefix id0 ''by-id-'' else id0);
            fallback = ''by-id-'' @ i
        in case hw_symlink env (path_Join ''/dev/disk/by-id/'' i) of
             None \<Rightarrow> (fallback, Some not_resolved)
           | Some device \<Rightarrow>
               (case hw_readDir env ''/dev/disk/by-uuid/'' of
                  None \<Rightarrow> (fallback, Some not_resolved)
                | Some entries \<Rightarrow>
                    (case same_device env ''/dev/disk/by-uuid/'' device entries of
                       Some name \<Rightarrow> (name, None)
                     | None \<Rightarrow> (''by-uuid-'' @ i, Some not_resolved))))"

text \<open>The mount points of the host; a file system that is mounted must have a device and an identifier.\<close>

definition mountPointsToMountPointDatas :: "hw_env \<Rightarrow> hw_filesystem \<Rightarrow> mount_map res" where
  "mountPointsToMountPointDatas env source =
     (case hf_MountPoints source of
        None \<Rightarrow> Ok []
      | Some [] \<Rightarrow> Ok []
      | Some (m # ms) \<Rightarrow>
          (case (hf_Device source, hf_Id source) of
             (Some dev, Some i) \<Rightarrow>
               Ok (fold (\<lambda>s. AList.update s (zero_mount_point\<lparr>mp_Path := s, mp_DeviceId := i,
                     mp_FSType := Some (hw_fsFromBlock env dev), mp_IsMounted := True, mp_Type := ''HOST''\<rparr>))
                   (m # ms) [])
           | _ \<Rightarrow> Panic))"

definition hw_partition :: "hw_env \<Rightarrow> hw_filesystem \<Rightarrow> partition res" where
  "hw_partition env f =
     (let p = zero_partition\<lparr>p_LegacyDevicePath := hf_Device f, p_LegacyDeviceName := trimDevPrefix (hf_Device f),
            p_Uuid := hf_Id f, p_Name := hf_Name f, p_Size := hf_Size f, p_System := hf_System f\<rparr>
      in case (case hf_Id f of
                 None \<Rightarrow> Ok p
               | Some i \<Rightarrow> (case filesystemUUIDToPartitionID env i of
                              (x, None) \<Rightarrow> Ok (p\<lparr>p_Id := Some x\<rparr>)
                            | (x, Some e) \<Rightarrow> Err e)) of
           Ok p1 \<Rightarrow>
             (case mountPointsToMountPointDatas env f of
                Ok m \<Rightarrow> Ok (p1\<lparr>p_HostMountPointData := Some m\<rparr>)
              | Err e \<Rightarrow> Err e
              | Panic \<Rightarrow> Panic)
         | Err e \<Rightarrow> Err e
         | Panic \<Rightarrow> Panic)"

text \<open>The first file system that cannot be identified fails the whole drive.\<close>

fun partitions_map :: "hw_env \<Rightarrow> hw_filesystem list \<Rightarrow> part_map \<Rightarrow> part_map res" where
  "partitions_map env [] m = Ok m"
| "partitions_map env (f # fs) m =
     (case hw_partition env f of
        Ok p \<Rightarrow> partitions_map env fs
           (case p_Id p of Some i \<Rightarrow> (if i \<noteq> [] then AList.update i p m else m) | None \<Rightarrow> m)
      | Err e \<Rightarrow> Err e
      | Panic \<Rightarrow> Panic)"

definition filesystemsToPartitionsMap :: "hw_env \<Rightarrow> hw_filesystem list option \<Rightarrow> part_map res" where
  "filesystemsToPartitionsMap env source =
     (case source of None \<Rightarrow> Ok [] | Some fs \<Rightarrow> partitions_map env fs [])"

definition or_target :: "'a option \<Rightarrow> 'a option \<Rightarrow> 'a option" where
  "or_target s t = (if s \<noteq> None then s else t)"

definition DriveToDisk :: "hw_env \<Rightarrow> hw_drive \<Rightarrow> disk \<Rightarrow> disk res" where
  "DriveToDisk env source target =
     (let copy = (\<lambda>parts. target\<lparr>d_LegacyDeviceName := (if source \<noteq> zero_drive then extractDevice source else d_LegacyDeviceName target),
            d_ConnectionBus := or_target (dr_ConnectionBus source) (d_ConnectionBus target),
            d_Ejectable := or_target (dr_Ejectable source) (d_Ejectable target),
            d_Partitions := parts,
            d_Id := or_target (dr_Id source) (d_Id target), d_Model := or_target (dr_Model source) (d_Model target),
            d_Removable := or_target (dr_Removable source) (d_Removable target),
            d_Revision := or_target (dr_Revision source) (d_Revision target),
            d_Seat := or_target (dr_Seat source) (d_Seat target),
            d_Serial := or_target (dr_Serial source) (d_Serial target),
            d_Size := or_target (dr_Size source) (d_Size target),
            d_Vendor := or_target (dr_Vendor source) (d_Vendor target)\<rparr>)
      in case dr_Filesystems source of
           None \<Rightarrow> Ok (copy (d_Partitions target))
         | Some fs \<Rightarrow> (case filesystemsToPartitionsMap env (Some fs) of
                         Ok m \<Rightarrow> Ok (copy (Some m))
                       | Err e \<Rightarrow> Err e
                       | Panic \<Rightarrow> Panic))"

section \<open>Rotation\<close>

definition rotationalFromSmart :: "smart_info option \<Rightarrow> bool option" where
  "rotationalFromSmart smart =
     (case smart of
        None \<Rightarrow> None
      | Some si \<Rightarrow> if \<not> si_Supported si then None else Some (0 < si_RotationRate si))"

definition sysBlockBasePath :: string where
  "sysBlockBasePath = ''/sys/block''"

definition detectRotational :: "hw_env \<Rightarrow> string \<Rightarrow> smart_info option \<Rightarrow> bool option" where
  "detectRotational env devName smart =
     (if devName = [] \<or> ContainsAny devName [CHR ''/'', CHR 0x5C] \<or> Contains devName ''..'' then rotationalFromSmart smart
      else case hw_readFile env (path_Join (path_Join sysBlockBasePath devName) ''queue/rotational'') of
             Some text0 \<Rightarrow>
               if TrimSpace text0 = ''1'' then Some True
               else if TrimSpace text0 = ''0'' then Some False
               else rotationalFromSmart smart
           | None \<Rightarrow> rotationalFromSmart smart)"

text \<open>A USB bridge is not believed without a rotation rate from S.M.A.R.T.\<close>

definition rotation :: "hw_env \<Rightarrow> string \<Rightarrow> disk \<Rightarrow> bool option" where
  "rotation env name d =
     (let r = detectRotational env name (d_SmartInfo d)
      in if r = Some True \<and> (case d_ConnectionBus d of Some bus \<Rightarrow> EqualFold bus ''usb'' | None \<Rightarrow> False)
            \<and> (case d_SmartInfo d of None \<Rightarrow> True | Some si \<Rightarrow> \<not> si_Supported si \<or> si_RotationRate si = 0)
         then None else r)"

section \<open>Devices\<close>

definition unsupported_smart :: smart_info where
  "unsupported_smart = \<lparr>si_DiskId = [], si_Supported = False, si_Enabled = False, si_DiskType = [], si_ModelFamily = [],
     si_ModelName = [], si_SerialNumber = [], si_Firmware = [], si_RotationRate = 0\<rparr>"

definition with_smart :: "hw_env \<Rightarrow> string \<Rightarrow> disk \<Rightarrow> disk res" where
  "with_smart env i d =
     (case hw_smart env i of
        Ok (Some si) \<Rightarrow> Ok (d\<lparr>d_SmartInfo := Some si\<rparr>)
      | Ok None \<Rightarrow> Ok d
      | Err e \<Rightarrow> Ok (if err_kind e = ErrorSMARTNotSupported then d\<lparr>d_SmartInfo := Some unsupported_smart\<rparr> else d)
      | Panic \<Rightarrow> Panic)"

definition with_hdidle :: "hw_env \<Rightarrow> string \<Rightarrow> disk \<Rightarrow> disk" where
  "with_hdidle env path d =
     (case hw_hdidle env path of
        (dev, Some e) \<Rightarrow> if err_kind e = ErrorHDIdleNotSupported then d\<lparr>d_HDIdleDevice := dev\<rparr> else d
      | (Some dev, None) \<Rightarrow> d\<lparr>d_HDIdleDevice := Some dev\<rparr>
      | (None, None) \<Rightarrow> d)"

definition match_disk :: "hw_env \<Rightarrow> string \<Rightarrow> hw_device \<Rightarrow> disk \<Rightarrow> disk res" where
  "match_disk env name device d =
     (case hv_ById device of
        None \<Rightarrow> Panic
      | Some byId \<Rightarrow>
          let i = TrimPrefix byId ''/dev/disk/by-id/'' in
          (case with_smart env i (d\<lparr>d_LegacyDevicePath := hv_DevPath device, d_DevicePath := Some byId, d_Id := Some i\<rparr>) of
             Ok d1 \<Rightarrow> (let d2 = with_hdidle env byId d1 in Ok (d2\<lparr>d_IsRotational := rotation env name d2\<rparr>))
           | Err e \<Rightarrow> Err e
           | Panic \<Rightarrow> Panic))"

definition match_partition :: "string option \<Rightarrow> hw_device \<Rightarrow> partition \<Rightarrow> partition res" where
  "match_partition diskId device p =
     (case p_LegacyDeviceName p of
        None \<Rightarrow> Ok p
      | Some name \<Rightarrow>
          if name = [] then Ok p
          else case hv_Name device of
                 None \<Rightarrow> Panic
               | Some n \<Rightarrow>
                   if n \<noteq> name then Ok p
                   else
                     let label = (case hv_Attributes device of
                                    None \<Rightarrow> p_Name p
                                  | Some a \<Rightarrow> if ha_IDFSLABEL a \<noteq> None then ha_IDFSLABEL a
                                              else if ha_IDPARTENTRYNAME a \<noteq> None then ha_IDPARTENTRYNAME a
                                              else p_Name p);
                         fsType = (case hv_Attributes device of
                                     None \<Rightarrow> p_FsType p
                                   | Some a \<Rightarrow> or_target (ha_IDFSTYPE a) (p_FsType p))
                     in Ok (p\<lparr>p_DiskId := diskId, p_LegacyDevicePath := hv_DevPath device, p_DevicePath := hv_ById device,
                              p_Name := label, p_FsType := fsType,
                              p_System := Some (case label of Some l \<Rightarrow> HasPrefix l ''hassos-'' | None \<Rightarrow> False)\<rparr>))"

fun match_partitions :: "string option \<Rightarrow> hw_device \<Rightarrow> part_map \<Rightarrow> part_map res" where
  "match_partitions diskId device [] = Ok []"
| "match_partitions diskId device ((i, p) # ps) =
     (case match_partition diskId device p of
        Ok p1 \<Rightarrow> (case match_partitions diskId device ps of
                    Ok ps1 \<Rightarrow> Ok ((i, p1) # ps1) | Err e \<Rightarrow> Err e | Panic \<Rightarrow> Panic)
      | Err e \<Rightarrow> Err e
      | Panic \<Rightarrow> Panic)"

definition match_device :: "hw_env \<Rightarrow> hw_device \<Rightarrow> disk \<Rightarrow> disk res" where
  "match_device env device d =
     (if hv_DevPath device = None \<or> hv_DevPath device = Some [] then Ok d
      else
        let parts = (case d_Partitions d of
                       None \<Rightarrow> Ok d
                     | Some ps \<Rightarrow> (case match_partitions (d_Id d) device ps of
                                     Ok ps1 \<Rightarrow> Ok (d\<lparr>d_Partitions := Some ps1\<rparr>) | Err e \<Rightarrow> Err e | Panic \<Rightarrow> Panic))
        in case d_LegacyDeviceName d of
             None \<Rightarrow> parts
           | Some name \<Rightarrow>
               if name = [] then parts
               else (case hv_Name device of
                       None \<Rightarrow> Panic
                     | Some n \<Rightarrow> if n = name then match_disk env name device d else parts))"

fun match_devices :: "hw_env \<Rightarrow> hw_device list \<Rightarrow> disk \<Rightarrow> disk res" where
  "match_devices env [] d = Ok d"
| "match_devices env (v # vs) d =
     (case match_device env v d of Ok d1 \<Rightarrow> match_devices env vs d1 | Err e \<Rightarrow> Err e | Panic \<Rightarrow> Panic)"

section \<open>The service\<close>

definition file_disk :: "hw_drive \<Rightarrow> disk \<Rightarrow> (string, disk) gomap \<Rightarrow> (string, disk) gomap" where
  "file_disk drive d ret =
     (let i = (if non_empty (d_Id d) then d_Id d else if non_empty (dr_Id drive) then dr_Id drive else d_Id d)
      in case i of
           Some k \<Rightarrow> (if k \<noteq> [] then AList.update k (d\<lparr>d_Id := i\<rparr>) ret else ret)
         | None \<Rightarrow> ret)"

definition add_drive ::
  "hw_env \<Rightarrow> hw_device list option \<Rightarrow> hw_drive \<Rightarrow> (string, disk) gomap \<Rightarrow> (string, disk) gomap res" where
  "add_drive env devices drive ret =
     (if dr_Filesystems drive = None \<or> dr_Filesystems drive = Some [] then Ok ret
      else case DriveToDisk env drive zero_disk of
             Panic \<Rightarrow> Panic
           | Err e \<Rightarrow> Ok ret
           | Ok d \<Rightarrow>
               if d_Partitions d = None \<or> d_Partitions d = Some [] then Ok ret
               else (case match_devices env (case devices of None \<Rightarrow> [] | Some vs \<Rightarrow> vs) d of
                       Ok d1 \<Rightarrow> Ok (file_disk drive d1 ret)
                     | Err e \<Rightarrow> Err e
                     | Panic \<Rightarrow> Panic))"

fun add_drives ::
  "hw_env \<Rightarrow> hw_device list option \<Rightarrow> hw_drive list \<Rightarrow> (string, disk) gomap \<Rightarrow> (string, disk) gomap res" where
  "add_drives env devices [] ret = Ok ret"
| "add_drives env devices (x # xs) ret =
     (case add_drive env devices x ret of Ok r \<Rightarrow> add_drives env devices xs r | Err e \<Rightarrow> Err e | Panic \<Rightarrow> Panic)"

text \<open>The state is the cache; an error of the supervisor that is not "not found" is the answer.\<close>

definition GetHardwareInfo ::
  "hw_env \<Rightarrow> bool \<Rightarrow> (string, disk) gomap option \<Rightarrow> (string, disk) gomap res \<times> (string, disk) gomap option" where
  "GetHardwareInfo env ready cache =
     (case cache of
        Some disks \<Rightarrow> (Ok disks, cache)
      | None \<Rightarrow>
          if \<not> ready then (Ok [], cache)
          else case hw_answer env of
                 (resp, e) \<Rightarrow>
                   if (e \<noteq> None \<or> resp = None) \<and> \<not> (\<exists>x. e = Some x \<and> err_kind x = ErrorNotFound)
                   then (case e of Some x \<Rightarrow> Err x | None \<Rightarrow> Ok [], cache)
                   else (case resp of
                           None \<Rightarrow> (Panic, cache)
                         | Some r \<Rightarrow>
                             (case (hr_Code r = 200, hr_Drives r) of
                                (True, Some drives) \<Rightarrow>
                                  (case add_drives env (hr_Devices r) drives [] of
                                     Ok ret \<Rightarrow> (Ok ret, Some ret)
                                   | Err x \<Rightarrow> (Err x, cache)
                                   | Panic \<Rightarrow> (Panic, cache))
                              | _ \<Rightarrow> (Err (E ErrorOther ''invalid hardware info''), cache))))"

definition InvalidateHardwareInfo :: "(string, disk) gomap option \<Rightarrow> (string, disk) gomap option" where
  "InvalidateHardwareInfo cache = None"

text \<open>The start of Home Assistant invalidates the cache.\<close>

definition hardware_on_home_assistant :: "bool \<Rightarrow> (string, disk) gomap option \<Rightarrow> (string, disk) gomap option" where
  "hardware_on_home_assistant start cache = (if start then InvalidateHardwareInfo cache else cache)"

end
