(* ===== verification/Hardware_Laws.thy ===== *)
theory Hardware_Laws
  imports Hardware_Service
begin

text \<open>
  What the hardware service guarantees: the disks it answers obey the key invariant of the disk cache, a
  disk takes its identity from its device, and the name of a disk is read off the name of its partition.
\<close>

section \<open>The key invariant\<close>

lemma device_parts_wf_update: "parts_wf m \<Longrightarrow> part_wf (i, p) \<Longrightarrow> parts_wf (AList.update i p m)"
  by (auto simp: parts_wf_def distinct_keys_update set_update_distinct)

lemma hw_partition_fresh: "hw_partition env f = Ok p \<Longrightarrow> p_MountPointData p = None"
  by (auto simp: hw_partition_def Let_def zero_partition_def split: option.splits prod.splits res.splits)

lemma partitions_map_wf:
  "partitions_map env fs m = Ok m' \<Longrightarrow> parts_wf m \<Longrightarrow> parts_wf m'"
proof (induction fs arbitrary: m)
  case (Cons f fs)
  obtain p where p: "hw_partition env f = Ok p" using Cons.prems(1) by (cases "hw_partition env f") auto
  have "part_wf (i, p)" if "p_Id p = Some i" "i \<noteq> []" for i
    using that hw_partition_fresh [OF p] by (simp add: part_wf_def mounts_of_def mounts_wf_def)
  then have "parts_wf (case p_Id p of Some i \<Rightarrow> (if i \<noteq> [] then AList.update i p m else m) | None \<Rightarrow> m)"
    using Cons.prems(2) by (auto intro: device_parts_wf_update split: option.split)
  with Cons.IH Cons.prems(1) p show ?case by simp
qed simp

lemma DriveToDisk_wf:
  assumes "DriveToDisk env drive zero_disk = Ok d" "d_Partitions d = Some ps"
  shows "parts_wf ps"
proof -
  have e: "parts_wf []" by (simp add: parts_wf_def)
  have "d_Partitions zero_disk = None" by (simp add: zero_disk_def)
  with assms show ?thesis
    by (auto simp: DriveToDisk_def Let_def filesystemsToPartitionsMap_def
        intro: partitions_map_wf [OF _ e] split: option.splits res.splits)
qed

lemma match_partition_keeps:
  "match_partition i v p = Ok p1 \<Longrightarrow> p_Id p1 = p_Id p \<and> p_MountPointData p1 = p_MountPointData p"
  by (auto simp: match_partition_def Let_def split: option.splits if_splits)

lemma match_partitions_keys: "match_partitions i v ps = Ok ps1 \<Longrightarrow> keys ps1 = keys ps"
  by (induction ps arbitrary: ps1) (auto split: res.splits)

lemma match_partitions_part_wf:
  "match_partitions i v ps = Ok ps1 \<Longrightarrow> \<forall>e \<in> set ps. part_wf e \<Longrightarrow> \<forall>e \<in> set ps1. part_wf e"
proof (induction ps arbitrary: ps1)
  case (Cons e ps)
  obtain k p where e: "e = (k, p)" by fastforce
  obtain p1 ps2 where s: "match_partition i v p = Ok p1" "match_partitions i v ps = Ok ps2" "ps1 = (k, p1) # ps2"
    using Cons.prems(1) e by (auto split: res.splits)
  have "part_wf (k, p1)"
    using match_partition_keeps [OF s(1)] Cons.prems(2) e by (simp add: part_wf_def mounts_of_def)
  with Cons.IH [OF s(2)] Cons.prems(2) s(3) show ?case by simp
qed simp

lemma match_partitions_wf: "match_partitions i v ps = Ok ps1 \<Longrightarrow> parts_wf ps \<Longrightarrow> parts_wf ps1"
  using match_partitions_keys match_partitions_part_wf by (metis parts_wf_def)

definition disk_parts_wf :: "disk \<Rightarrow> bool" where
  "disk_parts_wf d \<longleftrightarrow> (case d_Partitions d of None \<Rightarrow> True | Some ps \<Rightarrow> parts_wf ps)"

lemma match_disk_keeps:
  assumes "match_disk env name v d = Ok d1"
  shows "d_Partitions d1 = d_Partitions d" "d_LegacyDeviceName d1 = d_LegacyDeviceName d"
    "\<exists>b. hv_ById v = Some b \<and> d_Id d1 = Some (TrimPrefix b ''/dev/disk/by-id/'') \<and> d_DevicePath d1 = Some b"
  using assms
  by (auto simp: match_disk_def with_smart_def with_hdidle_def Let_def
      split: option.splits res.splits prod.splits if_splits)

lemma match_device_wf:
  assumes "match_device env v d = Ok d1" "disk_parts_wf d"
  shows "disk_parts_wf d1"
proof -
  have "disk_parts_wf d1" if "match_disk env name v d = Ok d1" for name
    using match_disk_keeps(1) [OF that] assms(2) by (simp add: disk_parts_wf_def)
  moreover have "parts_wf ps1" if "match_partitions (d_Id d) v ps = Ok ps1" "d_Partitions d = Some ps" for ps ps1
    using match_partitions_wf [OF that(1)] that(2) assms(2) by (simp add: disk_parts_wf_def)
  ultimately show ?thesis using assms
    by (auto simp: match_device_def Let_def disk_parts_wf_def split: if_splits option.splits res.splits)
qed

lemma match_devices_wf: "match_devices env vs d = Ok d1 \<Longrightarrow> disk_parts_wf d \<Longrightarrow> disk_parts_wf d1"
  by (induction vs arbitrary: d) (auto split: res.splits dest: match_device_wf)

lemma file_disk_wf:
  assumes "dm_wf (Some ret)" "disk_parts_wf d"
  shows "dm_wf (Some (file_disk drive d ret))"
proof -
  have "disk_wf (k, d\<lparr>d_Id := Some k\<rparr>)" if "k \<noteq> []" for k
    using that assms(2) by (simp add: disk_wf_def disk_parts_wf_def)
  then show ?thesis using assms(1)
    by (auto simp: file_disk_def Let_def dm_wf_def distinct_keys_update set_update_distinct split: option.split)
qed

lemma add_drive_wf:
  assumes "add_drive env devices drive ret = Ok ret1" "dm_wf (Some ret)"
  shows "dm_wf (Some ret1)"
proof (cases "ret1 = ret")
  case False
  then obtain d d1 where d: "DriveToDisk env drive zero_disk = Ok d"
    "match_devices env (case devices of None \<Rightarrow> [] | Some vs \<Rightarrow> vs) d = Ok d1" "ret1 = file_disk drive d1 ret"
    using assms(1) by (auto simp: add_drive_def split: if_splits res.splits)
  have "disk_parts_wf d" using DriveToDisk_wf [OF d(1)] by (simp add: disk_parts_wf_def split: option.split)
  from file_disk_wf [OF assms(2) match_devices_wf [OF d(2) this]] d(3) show ?thesis by simp
qed (use assms in simp)

lemma add_drives_wf: "add_drives env devices xs ret = Ok ret1 \<Longrightarrow> dm_wf (Some ret) \<Longrightarrow> dm_wf (Some ret1)"
  by (induction xs arbitrary: ret) (auto split: res.splits dest: add_drive_wf)

lemma dm_wf_empty: "dm_wf None" "dm_wf (Some [])"
  by (simp_all add: dm_wf_def)

lemma Get_wf:
  assumes "dm_wf cache"
  shows "dm_wf (snd (GetHardwareInfo env ready cache))"
    "fst (GetHardwareInfo env ready cache) = Ok disks \<Longrightarrow> dm_wf (Some disks)"
proof -
  have add: "dm_wf (Some ret)" if "add_drives env v xs [] = Ok ret" for v xs ret
    using add_drives_wf [OF that dm_wf_empty(2)] .
  show "dm_wf (snd (GetHardwareInfo env ready cache))"
    using assms add dm_wf_empty
    by (auto simp: GetHardwareInfo_def split: option.split res.split prod.split bool.split)
  show "fst (GetHardwareInfo env ready cache) = Ok disks \<Longrightarrow> dm_wf (Some disks)"
    using assms add dm_wf_empty
    by (auto simp: GetHardwareInfo_def split: option.splits res.splits prod.splits if_splits bool.splits)
qed

text \<open>What happens to the cache: a lookup in some state of the world, an invalidation, the start of Home
  Assistant.\<close>

datatype hardware_input = HwGet hw_env bool | HwInvalidate | HwHomeAssistant bool

fun hardware_step :: "hardware_input \<Rightarrow> DiskMap \<Rightarrow> DiskMap" where
  "hardware_step (HwGet env ready) cache = snd (GetHardwareInfo env ready cache)"
| "hardware_step HwInvalidate cache = InvalidateHardwareInfo cache"
| "hardware_step (HwHomeAssistant start) cache = hardware_on_home_assistant start cache"

lemma hardware_steps_wf: "dm_wf cache \<Longrightarrow> dm_wf (fold hardware_step is cache)"
proof (induction "is" arbitrary: cache)
  case (Cons i "is")
  have "dm_wf (hardware_step i cache)"
    using Get_wf(1) [OF Cons.prems] Cons.prems dm_wf_empty
    by (cases i) (simp_all add: InvalidateHardwareInfo_def hardware_on_home_assistant_def)
  with Cons.IH show ?case by simp
qed simp

text \<open>C14: Whatever the supervisor, S.M.A.R.T., HDIdle and the file system answered before, the disks the
  hardware service answers and those it caches obey the key invariant of the disk cache: disks and
  partitions are filed under their own identifiers, which are not empty and occur once.\<close>

theorem hardware_disks_wf:
  "case GetHardwareInfo env ready (fold hardware_step is None) of (r, cache) \<Rightarrow>
     dm_wf cache \<and> (case r of Ok disks \<Rightarrow> dm_wf (Some disks) | _ \<Rightarrow> True)"
  using Get_wf [OF hardware_steps_wf [OF dm_wf_empty(1)]]
  by (simp add: case_prod_beta split: res.split)

section \<open>The identity of a disk\<close>

definition device_of :: "string \<Rightarrow> hw_device \<Rightarrow> bool" where
  "device_of name v \<longleftrightarrow> hv_Name v = Some name \<and> hv_DevPath v \<noteq> None \<and> hv_DevPath v \<noteq> Some []"

lemma match_device_other:
  assumes "match_device env v d = Ok d1" "d_LegacyDeviceName d = Some name" "name \<noteq> []"
  shows "d_LegacyDeviceName d1 = Some name"
    "\<not> device_of name v \<Longrightarrow> d_Id d1 = d_Id d \<and> d_DevicePath d1 = d_DevicePath d"
    "device_of name v \<Longrightarrow> \<exists>b. hv_ById v = Some b \<and> d_Id d1 = Some (TrimPrefix b ''/dev/disk/by-id/'')
       \<and> d_DevicePath d1 = Some b"
  using assms match_disk_keeps [of env name v d d1]
  by (auto simp: match_device_def device_of_def Let_def split: if_splits option.splits res.splits)

text \<open>A disk takes its identifier and its path from the last device the supervisor lists under the name
  of the disk, and keeps its own when there is none.\<close>

theorem disk_identity:
  assumes "match_devices env vs d = Ok d1" and "d_LegacyDeviceName d = Some name" and "name \<noteq> []"
  shows "if filter (device_of name) vs = [] then d_Id d1 = d_Id d \<and> d_DevicePath d1 = d_DevicePath d
    else \<exists>b. hv_ById (last (filter (device_of name) vs)) = Some b
      \<and> d_Id d1 = Some (TrimPrefix b ''/dev/disk/by-id/'') \<and> d_DevicePath d1 = Some b"
  using assms(1,2)
proof (induction vs arbitrary: d)
  case (Cons v vs)
  obtain d2 where s: "match_device env v d = Ok d2" "match_devices env vs d2 = Ok d1"
    using Cons.prems(1) by (auto split: res.splits)
  note m = match_device_other [OF s(1) Cons.prems(2) assms(3)]
  from Cons.IH [OF s(2) m(1)] m(2,3) show ?case by (cases "device_of name v") (auto split: if_splits)
qed simp

definition sample_hw_env :: hw_env where
  "sample_hw_env = \<lparr>hw_answer = (None, None), hw_smart = (\<lambda>i. Ok None), hw_hdidle = (\<lambda>p. (None, None)),
     hw_readFile = (\<lambda>p. None), hw_symlink = (\<lambda>p. None), hw_readDir = (\<lambda>p. None), hw_fsFromBlock = (\<lambda>p. [])\<rparr>"

definition sample_hw_device :: hw_device where
  "sample_hw_device = \<lparr>hv_Attributes = None, hv_ById = Some ''/dev/disk/by-id/usb-1'', hv_DevPath = Some ''/dev/sda'',
     hv_Name = Some ''sda''\<rparr>"

theorem disk_identity_witness:
  "\<exists>d1. match_devices sample_hw_env [sample_hw_device] (zero_disk\<lparr>d_LegacyDeviceName := Some ''sda''\<rparr>) = Ok d1
    \<and> (if filter (device_of ''sda'') [sample_hw_device] = [] then d_Id d1 = d_Id (zero_disk\<lparr>d_LegacyDeviceName := Some ''sda''\<rparr>)
         \<and> d_DevicePath d1 = d_DevicePath (zero_disk\<lparr>d_LegacyDeviceName := Some ''sda''\<rparr>)
       else \<exists>b. hv_ById (last (filter (device_of ''sda'') [sample_hw_device])) = Some b
         \<and> d_Id d1 = Some (TrimPrefix b ''/dev/disk/by-id/'') \<and> d_DevicePath d1 = Some b)"
proof -
  let ?d = "zero_disk\<lparr>d_LegacyDeviceName := Some ''sda''\<rparr>"
  obtain d1 where d: "match_devices sample_hw_env [sample_hw_device] ?d = Ok d1"
    by (simp add: match_device_def sample_hw_device_def match_disk_def with_smart_def with_hdidle_def sample_hw_env_def Let_def)
  from disk_identity [OF d, of "''sda''"] d show ?thesis by auto
qed

section \<open>The name of a disk\<close>

lemma strip_digits:
  assumes "\<forall>c \<in> set ds. digit_val c \<noteq> None" "ds \<noteq> []" "s \<noteq> []" "digit_val (last s) = None"
  shows "strip_partition (s @ ds) = (if last s = CHR ''p'' then butlast s else s)"
proof -
  obtain c cs where s: "rev s = c # cs" using assms(3) by (cases "rev s") auto
  have c: "last s = c" "butlast s = rev cs" "s = rev cs @ [c]"
    using s by (metis last_snoc rev.simps(2) rev_rev_ident, metis butlast_snoc rev.simps(2) rev_rev_ident,
      metis rev.simps(2) rev_rev_ident)
  have "takeWhile (\<lambda>c. digit_val c \<noteq> None) (rev (s @ ds)) = rev ds"
    using assms(1,4) c(1) unfolding s rev_append by (subst takeWhile_append2) auto
  then show ?thesis using assms(2) s c by (simp add: strip_partition_def Let_def)
qed

lemma strip_nothing: "s \<noteq> [] \<Longrightarrow> digit_val (last s) = None \<Longrightarrow> strip_partition s = s"
  by (cases s rule: rev_cases) (simp_all add: strip_partition_def Let_def)

text \<open>A partition is a disk with a number, after a \<open>p\<close> if the name of the disk ends with a digit; the
  name of the disk is read off that of its first partition, when the disk's own name ends neither with a
  \<open>p\<close> nor, for a file system on the whole disk, with a digit.\<close>

theorem disk_name_of_partition:
  assumes "\<forall>c \<in> set ds. digit_val c \<noteq> None" and "ds \<noteq> []" and "name \<noteq> []" and "\<not> HasPrefix name ''/dev/''"
  shows "dr_Filesystems drive = Some (f # fs) \<Longrightarrow>
    hf_Device f = Some (''/dev/'' @ name @ (if digit_val (last name) = None then ds else ''p'' @ ds)) \<Longrightarrow>
    last name \<noteq> CHR ''p'' \<Longrightarrow> extractDevice drive = Some name"
proof -
  assume d: "dr_Filesystems drive = Some (f # fs)" "last name \<noteq> CHR ''p''"
    "hf_Device f = Some (''/dev/'' @ name @ (if digit_val (last name) = None then ds else ''p'' @ ds))"
  have "strip_partition (''/dev/'' @ name @ (if digit_val (last name) = None then ds else ''p'' @ ds)) = ''/dev/'' @ name"
  proof (cases "digit_val (last name) = None")
    case True
    with strip_digits [OF assms(1,2), of "''/dev/'' @ name"] assms(3) d(2) show ?thesis by simp
  next
    case False
    have "digit_val CHR ''p'' = None" by code_simp
    with False strip_digits [OF assms(1,2), of "''/dev/'' @ name @ ''p''"] show ?thesis
      by (auto simp: butlast_append)
  qed
  then show ?thesis using d by (simp add: extractDevice_def TrimPrefix_def HasPrefix_def)
qed

theorem disk_name_of_partition_witness:
  "extractDevice (zero_drive\<lparr>dr_Filesystems := Some [\<lparr>hf_Device = Some ''/dev/nvme0n1p2'', hf_Id = None,
     hf_MountPoints = None, hf_Name = None, hf_Size = None, hf_System = None\<rparr>]\<rparr>) = Some ''nvme0n1''"
  by (rule disk_name_of_partition [of "''2''" "''nvme0n1''" _ "\<lparr>hf_Device = Some ''/dev/nvme0n1p2'', hf_Id = None,
     hf_MountPoints = None, hf_Name = None, hf_Size = None, hf_System = None\<rparr>" "[]"])
    (simp_all add: digit_val_def HasPrefix_def)

lemma sdp_misnamed: "strip_partition ''/dev/sdp1'' = ''/dev/sd''"
  by code_simp

lemma whole_nvme_misnamed: "strip_partition ''/dev/nvme0n1'' = ''/dev/nvme0n''"
  by code_simp

section \<open>Answers that go wrong\<close>

lemma partitions_map_unresolved:
  assumes "f \<in> set fs" "hf_Id f = Some i" "filesystemUUIDToPartitionID env i = (x, Some e)"
  shows "\<not> is_ok (partitions_map env fs m)"
  using assms(1)
proof (induction fs arbitrary: m)
  case (Cons g gs)
  show ?case
  proof (cases "g = f")
    case True
    then have "hw_partition env g = Err e" using assms(2,3) by (simp add: hw_partition_def Let_def)
    then show ?thesis by simp
  next
    case False
    then show ?thesis using Cons by (cases "hw_partition env g") auto
  qed
qed simp

text \<open>One file system without a link under \<open>by-id\<close> drops its drive, although the lookup has a fallback.\<close>

lemma unresolved_drops_drive:
  assumes "dr_Filesystems drive = Some fs" "f \<in> set fs" "hf_Id f = Some i"
    "filesystemUUIDToPartitionID env i = (x, Some e)"
  shows "add_drive env devices drive ret \<in> {Ok ret, Panic}"
proof -
  have "\<not> is_ok (filesystemsToPartitionsMap env (Some fs))"
    using partitions_map_unresolved [OF assms(2,3,4)] by (simp add: filesystemsToPartitionsMap_def)
  then show ?thesis
    by (cases "filesystemsToPartitionsMap env (Some fs)") (simp_all add: add_drive_def DriveToDisk_def assms(1) Let_def)
qed

lemma not_found_answer_panics:
  "hw_answer env = (None, Some (E ErrorNotFound m)) \<Longrightarrow> GetHardwareInfo env True None = (Panic, None)"
  by (simp add: GetHardwareInfo_def)

end
