(* ===== verification/Volume_Hardware.thy ===== *)
theory Volume_Hardware
  imports Volume_Laws Hardware_Laws
begin

text \<open>
  The volume service on the hardware service: what \<open>getVolumesData\<close> of \<open>service/volume_service.go\<close> asks
  \<open>GetHardwareInfo\<close> of \<open>service/hardware_service.go\<close> is what the model of that service answers.

  Between two calls anything may have happened to the hardware service: it is given by a history of its steps
  that depends on the state of the outside. The disks that it answers share their maps of partitions with its
  cache, so a change of a partition or a mount point in the disk cache may show there, too.
\<close>

section \<open>The hardware service behind the volume service\<close>

fun through_partitions :: "disk_op \<Rightarrow> bool" where
  "through_partitions (OpRemovePartition did pid) = True"
| "through_partitions (OpAddMount did pid mp) = True"
| "through_partitions (OpRemoveMount did pid path) = True"
| "through_partitions (OpAddShare sh) = True"
| "through_partitions (OpRemoveShare n) = True"
| "through_partitions _ = False"

definition cache_step :: "DiskMap \<Rightarrow> hardware_input + disk_op \<Rightarrow> DiskMap" where
  "cache_step c i = (case i of
       Inl h \<Rightarrow> hardware_step h c
     | Inr op \<Rightarrow> if through_partitions op then disk_step c op else c)"

text \<open>The loop of \<open>getVolumesData\<close> visits the disks in any order.\<close>

definition visited_disks :: "nat list \<Rightarrow> (string, disk) gomap res \<Rightarrow> disk list option res" where
  "visited_disks visit r = (case r of
       Ok disks \<Rightarrow> Ok (Some (map (\<lambda>i. snd (disks ! i)) (filter (\<lambda>i. i < length disks) visit)))
     | Err e \<Rightarrow> Err e
     | Panic \<Rightarrow> Panic)"

definition with_hardware_service ::
  "('o \<Rightarrow> nat list \<times> hw_env \<times> bool \<times> (hardware_input + disk_op) list) \<Rightarrow> 'o vol_env \<Rightarrow> 'o vol_env" where
  "with_hardware_service hw ve = ve\<lparr>ve_hardware := (\<lambda>w. case hw w of
       (visit, env, ready, history) \<Rightarrow>
         (visited_disks visit (fst (GetHardwareInfo env ready (foldl cache_step None history))),
          snd (ve_hardware ve w)))\<rparr>"

section \<open>The keys of the disk cache\<close>

lemma cache_step_wf: "dm_wf c \<Longrightarrow> dm_wf (cache_step c i)"
proof (cases i)
  case (Inl h)
  assume "dm_wf c"
  then have "dm_wf (fold hardware_step [h] c)" by (rule hardware_steps_wf)
  then show ?thesis by (simp add: Inl cache_step_def)
next
  case (Inr op)
  assume "dm_wf c"
  moreover have "through_partitions op \<Longrightarrow> op_ok op" by (cases op) simp_all
  ultimately show ?thesis using disk_step_wf [of c op] by (simp add: Inr cache_step_def)
qed

interpretation hardware_cache: invariant_steps cache_step "\<lambda>_. True" dm_wf
  by unfold_locales (rule cache_step_wf)

lemma hardware_history_wf: "dm_wf (foldl cache_step None is)"
  by (rule hardware_cache.inv_run) (simp_all add: dm_wf_def list_all_iff)

lemma served_hardware_ok: "hardware_ok (with_hardware_service hw ve)"
  unfolding hardware_ok_def
proof (intro allI impI ballI)
  fix w ds w' d
  assume a: "ve_hardware (with_hardware_service hw ve) w = (Ok (Some ds), w')" and d: "d \<in> set ds"
  obtain visit env ready history where h: "hw w = (visit, env, ready, history)" by (metis prod_cases4)
  from a h obtain disks where g: "fst (GetHardwareInfo env ready (foldl cache_step None history)) = Ok disks"
    and ds: "ds = map (\<lambda>i. snd (disks ! i)) (filter (\<lambda>i. i < length disks) visit)"
    by (auto simp: with_hardware_service_def visited_disks_def split: res.splits)
  have wf: "dm_wf (Some disks)" using Get_wf(2) [OF hardware_history_wf g] .
  obtain k where "k < length disks" "d = snd (disks ! k)" using d ds by auto
  then obtain e where "e \<in> set disks" "d = snd e" using nth_mem by blast
  then have "disk_wf e" using wf by (auto simp: dm_wf_def)
  then show "op_ok (OpAddOrUpdate d)" using \<open>d = snd e\<close> by (simp add: disk_wf_def)
qed

text \<open>C13: Whatever requests, refreshes, udev, share, SMART and power events the volume service handles on top of
  the hardware service, whatever happened to the hardware service in between, and whatever the kernel, the
  database, the file system and the supervisor answer, a disk cache that is keyed well stays so: it keeps
  every disk, partition and mount point once, under its own id or path.\<close>

theorem volume_cache_invariant:
  assumes "dm_wf (v_disks s)"
  shows "dm_wf (v_disks (foldl volume_input s
     (map (\<lambda>(hw, ve, i). (with_hardware_service hw ve, i)) inputs)))"
proof (rule volume_cache_kept [OF assms])
  show "list_all input_ok (map (\<lambda>(hw, ve, i). (with_hardware_service hw ve, i)) inputs)"
    by (auto simp: list_all_iff input_ok_def served_hardware_ok)
qed

definition usb_answer :: hw_env where
  "usb_answer = sample_hw_env\<lparr>hw_answer := (Some \<lparr>hr_Code = 200, hr_Drives = Some [zero_drive\<lparr>dr_Id := Some ''usb-1'',
     dr_Filesystems := Some [\<lparr>hf_Device = Some ''/dev/sda1'', hf_Id = Some ''by-uuid-1'', hf_MountPoints = Some [''/mnt/usb''],
       hf_Name = Some ''usb'', hf_Size = Some 1, hf_System = Some False\<rparr>]\<rparr>], hr_Devices = Some [sample_hw_device]\<rparr>, None)\<rparr>"

theorem volume_cache_invariant_witness:
  "dm_wf (v_disks (foldl volume_input (sample_state\<lparr>v_disks := Some []\<rparr>)
     (map (\<lambda>(hw, ve, i). (with_hardware_service hw ve, i))
       [(\<lambda>w. ([0], usb_answer, True, [Inl (HwGet usb_answer True), Inl HwInvalidate]), Volume_Laws.sample_env, InStarted),
        (\<lambda>w. ([0], usb_answer, True, [Inl (HwGet usb_answer True)]), Volume_Laws.sample_env, InMount sample_request)])))"
  by (rule volume_cache_invariant) (simp add: dm_wf_def)

end
