(* ===== verification/Go_Enum.thy ===== *)
theory Go_Enum
  imports Go_Strings Complex_Main
begin

text \<open>
  The enumerations of the program. Every \<open>*_enums.go\<close> file holds the same operations on one
  enumeration: tables of the values and their names, parsing from any Go value, and the text,
  JSON, YAML, binary and database forms. The operations are stated here once over a record of
  the tables; \<open>Enums\<close> gives the tables of each enumeration.

  A number that is parsed is converted to \<open>float64\<close>; \<open>AnyNumber\<close> is its value, \<open>AnyNaN\<close> the one
  float that equals no number. Values that are not finite are left out.
\<close>

section \<open>Tables\<close>

record 'e enum =
  en_all :: "'e list"
  en_name_map :: "(string \<times> 'e) list"
  en_ignore_case :: bool
  en_valid :: "'e list"
  en_names :: "('e \<times> string) list"
  en_invalid :: 'e
  en_number :: "'e \<Rightarrow> string"
  en_type :: string

datatype 'e any_value =
    AnyEnum 'e | AnyString string | AnyStringer string | AnyBytes string
  | AnyNumber rat | AnyNaN | AnyOther

section \<open>Operations\<close>

definition enum_IsValid :: "'e enum \<Rightarrow> 'e \<Rightarrow> bool" where
  "enum_IsValid T v = (v \<in> set (en_valid T))"

definition name_key :: "bool \<Rightarrow> string \<Rightarrow> string" where
  "name_key ignore_case s = (if ignore_case then ToLower s else s)"

definition stringTo :: "'e enum \<Rightarrow> string \<Rightarrow> 'e option" where
  "stringTo T s = map_of (en_name_map T) (name_key (en_ignore_case T) s)"

definition numberTo :: "'e enum \<Rightarrow> rat \<Rightarrow> 'e option" where
  "numberTo T f =
     (if rat_of_int \<lfloor>f\<rfloor> \<noteq> f then None
      else let i = \<lfloor>f\<rfloor> in
           if i \<le> 0 \<or> i > int (length (en_all T)) then None
           else let result = en_all T ! nat (i - 1) in
                if \<not> enum_IsValid T result then None else Some result)"

definition or_invalid :: "'e enum \<Rightarrow> 'e option \<Rightarrow> 'e res" where
  "or_invalid T r = Ok (case r of Some v \<Rightarrow> v | None \<Rightarrow> en_invalid T)"

definition enum_Parse :: "'e enum \<Rightarrow> 'e any_value \<Rightarrow> 'e res" where
  "enum_Parse T input =
     (case input of
        AnyEnum v \<Rightarrow> Ok v
      | AnyString s \<Rightarrow> or_invalid T (stringTo T s)
      | AnyStringer s \<Rightarrow> or_invalid T (stringTo T s)
      | AnyBytes s \<Rightarrow> or_invalid T (stringTo T s)
      | AnyNumber f \<Rightarrow> or_invalid T (numberTo T f)
      | AnyNaN \<Rightarrow> or_invalid T None
      | AnyOther \<Rightarrow> Err (E ErrorOther ''invalid type''))"

definition enum_String :: "'e enum \<Rightarrow> 'e \<Rightarrow> string" where
  "enum_String T v =
     (case map_of (en_names T) v of
        Some n \<Rightarrow> n
      | None \<Rightarrow> en_type T @ ''('' @ en_number T v @ '')'')"

definition quote :: char where "quote = CHR 0x22"

definition enum_MarshalJSON :: "'e enum \<Rightarrow> 'e \<Rightarrow> string" where
  "enum_MarshalJSON T v = [quote] @ enum_String T v @ [quote]"

definition Trim_quotes :: "string \<Rightarrow> string" where
  "Trim_quotes s = rev (dropWhile (\<lambda>c. c = quote) (rev (dropWhile (\<lambda>c. c = quote) s)))"

definition enum_UnmarshalJSON :: "'e enum \<Rightarrow> string \<Rightarrow> 'e res" where
  "enum_UnmarshalJSON T by' = enum_Parse T (AnyBytes (Trim_quotes (Trim_quotes by')))"

definition enum_MarshalText :: "'e enum \<Rightarrow> 'e \<Rightarrow> string" where
  "enum_MarshalText T v = [quote] @ enum_String T v @ [quote]"

definition enum_UnmarshalText :: "'e enum \<Rightarrow> string \<Rightarrow> 'e res" where
  "enum_UnmarshalText T by' = enum_Parse T (AnyBytes by')"

definition enum_MarshalYAML :: "'e enum \<Rightarrow> 'e \<Rightarrow> string" where
  "enum_MarshalYAML T v = enum_String T v"

definition enum_Match :: "'e enum \<Rightarrow> 'e \<Rightarrow> ('e \<Rightarrow> 'r) option \<Rightarrow> 'r res" where
  "enum_Match T en matcher =
     (case matcher of
        None \<Rightarrow> Err (E ErrorOther (''nil '' @ en_type T @ '' matcher''))
      | Some f \<Rightarrow> if en \<in> set (en_all T) then Ok (f en)
                  else Err (E ErrorOther (''unhandled '' @ enum_String T en)))"

definition enum_MustMatch :: "'e enum \<Rightarrow> 'e \<Rightarrow> ('e \<Rightarrow> 'r) option \<Rightarrow> 'r res" where
  "enum_MustMatch T en matcher =
     (case enum_Match T en matcher of Err e \<Rightarrow> Panic | r \<Rightarrow> r)"

text \<open>The method set of an enumeration: what it hands to the JSON, YAML and database libraries.\<close>

record 'e enum_methods =
  m_IsValid :: "'e \<Rightarrow> bool"
  m_String :: "'e \<Rightarrow> string"
  m_MarshalJSON :: "'e \<Rightarrow> string"
  m_UnmarshalJSON :: "string \<Rightarrow> 'e res"
  m_MarshalText :: "'e \<Rightarrow> string"
  m_UnmarshalText :: "string \<Rightarrow> 'e res"
  m_Value :: "'e \<Rightarrow> string"
  m_Scan :: "'e any_value \<Rightarrow> 'e res"
  m_MarshalBinary :: "'e \<Rightarrow> string"
  m_UnmarshalBinary :: "string \<Rightarrow> 'e res"
  m_MarshalYAML :: "'e \<Rightarrow> string"
  m_UnmarshalYAML :: "string \<Rightarrow> 'e res"

definition methods_of :: "'e enum \<Rightarrow> 'e enum_methods" where
  "methods_of T =
     \<lparr>m_IsValid = enum_IsValid T, m_String = enum_String T,
      m_MarshalJSON = enum_MarshalJSON T, m_UnmarshalJSON = enum_UnmarshalJSON T,
      m_MarshalText = enum_MarshalText T, m_UnmarshalText = enum_UnmarshalText T,
      m_Value = enum_String T, m_Scan = enum_Parse T,
      m_MarshalBinary = enum_MarshalText T, m_UnmarshalBinary = enum_UnmarshalText T,
      m_MarshalYAML = enum_MarshalYAML T, m_UnmarshalYAML = enum_UnmarshalText T\<rparr>"

section \<open>Tables that agree\<close>

text \<open>
  What the generator must get right: the tables list the same values, under names whose keys are
  distinct and found again, and which no quote changes.
\<close>

definition plain_name :: "string \<Rightarrow> bool" where
  "plain_name n = (n \<noteq> [] \<and> quote \<notin> set n)"

definition enum_ok :: "'e enum \<Rightarrow> bool" where
  "enum_ok T =
     (distinct (en_all T) \<and> en_valid T = en_all T \<and> map fst (en_names T) = en_all T \<and>
      map (\<lambda>(v, n). (name_key (en_ignore_case T) n, v)) (en_names T) = en_name_map T \<and>
      distinct (map fst (en_name_map T)) \<and>
      list_all plain_name (map snd (en_names T)) \<and> list_all plain_name (map fst (en_name_map T)) \<and>
      en_invalid T \<notin> set (en_all T))"

definition text_faithful :: "bool \<Rightarrow> 'e enum_methods \<Rightarrow> bool" where
  "text_faithful ignore_case m =
     ((\<forall>v. m_IsValid m v \<longrightarrow>
         m_UnmarshalJSON m (m_MarshalJSON m v) = Ok v \<and>
         m_UnmarshalYAML m (m_MarshalYAML m v) = Ok v \<and>
         m_Scan m (AnyString (m_Value m v)) = Ok v \<and> m_Scan m (AnyBytes (m_Value m v)) = Ok v) \<and>
      (\<forall>v s. m_IsValid m v \<longrightarrow>
         (m_Scan m (AnyString s) = Ok v \<longleftrightarrow> name_key ignore_case s = name_key ignore_case (m_Value m v))))"

lemma enum_okD:
  assumes "enum_ok T"
  shows "distinct (en_all T)" "en_valid T = en_all T" "map fst (en_names T) = en_all T"
    "distinct (map fst (en_name_map T))" "en_invalid T \<notin> set (en_all T)"
    "(v, n) \<in> set (en_names T) \<Longrightarrow> (name_key (en_ignore_case T) n, v) \<in> set (en_name_map T) \<and> plain_name n"
    "(k, v) \<in> set (en_name_map T) \<Longrightarrow>
       plain_name k \<and> (\<exists>n. (v, n) \<in> set (en_names T) \<and> k = name_key (en_ignore_case T) n)"
proof -
  have table: "en_name_map T = map (\<lambda>(v, n). (name_key (en_ignore_case T) n, v)) (en_names T)"
    using assms unfolding enum_ok_def by metis
  have plain: "\<forall>n \<in> snd ` set (en_names T). plain_name n" "\<forall>k \<in> fst ` set (en_name_map T). plain_name k"
    using assms by (simp_all add: enum_ok_def list_all_iff)
  show "(v, n) \<in> set (en_names T) \<Longrightarrow> (name_key (en_ignore_case T) n, v) \<in> set (en_name_map T) \<and> plain_name n"
    using plain(1) unfolding table by force
  show "(k, v) \<in> set (en_name_map T) \<Longrightarrow>
       plain_name k \<and> (\<exists>n. (v, n) \<in> set (en_names T) \<and> k = name_key (en_ignore_case T) n)"
    using plain(2) unfolding table by force
qed (use assms in \<open>simp_all add: enum_ok_def\<close>)

lemma name_of_value:
  assumes "enum_ok T" "v \<in> set (en_all T)"
  obtains n where "map_of (en_names T) v = Some n" "stringTo T n = Some v" "plain_name n"
proof -
  note ok = enum_okD [OF assms(1)]
  have "v \<in> fst ` set (en_names T)" using assms(2) ok(3) by (metis list.set_map)
  then obtain n where n: "(v, n) \<in> set (en_names T)" by auto
  have "map_of (en_names T) v = Some n" using n ok(1,3) by (simp add: map_of_eq_Some_iff)
  moreover have "stringTo T n = Some v"
    using ok(6) [OF n] ok(4) by (simp add: stringTo_def map_of_eq_Some_iff)
  ultimately show ?thesis using that ok(6) [OF n] by blast
qed

lemma dropWhile_id: "n = [] \<or> \<not> P (hd n) \<Longrightarrow> dropWhile P n = n"
  by (cases n) auto

lemma Trim_quotes_id: "quote \<notin> set n \<Longrightarrow> Trim_quotes n = n"
proof -
  assume q: "quote \<notin> set n"
  have "dropWhile (\<lambda>c. c = quote) n = n" by (rule dropWhile_id) (use q in \<open>cases n; auto\<close>)
  moreover have "dropWhile (\<lambda>c. c = quote) (rev n) = rev n"
    by (rule dropWhile_id) (use q in \<open>cases n rule: rev_cases; auto\<close>)
  ultimately show "Trim_quotes n = n" by (simp add: Trim_quotes_def)
qed

lemma Trim_quotes_plain: "n \<noteq> [] \<Longrightarrow> quote \<notin> set n \<Longrightarrow> Trim_quotes ([quote] @ n @ [quote]) = n"
proof -
  assume n: "n \<noteq> []" and q: "quote \<notin> set n"
  have "dropWhile (\<lambda>c. c = quote) (n @ [quote]) = n @ [quote]"
    by (rule dropWhile_id) (use n q in \<open>cases n; auto\<close>)
  moreover have "dropWhile (\<lambda>c. c = quote) (rev n) = rev n"
    by (rule dropWhile_id) (use n q in \<open>cases n rule: rev_cases; auto\<close>)
  ultimately show ?thesis by (simp add: Trim_quotes_def)
qed

lemma text_faithful_methods:
  assumes ok: "enum_ok T"
  shows "text_faithful (en_ignore_case T) (methods_of T)"
  unfolding text_faithful_def
proof (intro conjI allI impI)
  fix v assume "m_IsValid (methods_of T) v"
  then have "v \<in> set (en_all T)" using enum_okD(2) [OF ok] by (simp add: methods_of_def enum_IsValid_def)
  then obtain n where n: "map_of (en_names T) v = Some n" "stringTo T n = Some v" "plain_name n"
    using ok name_of_value by metis
  note eval = methods_of_def enum_UnmarshalJSON_def enum_MarshalJSON_def enum_String_def enum_Parse_def
    or_invalid_def enum_UnmarshalText_def enum_MarshalYAML_def n(1,2)
  have q: "n \<noteq> []" "quote \<notin> set n" using n(3) by (simp_all add: plain_name_def)
  show "m_UnmarshalJSON (methods_of T) (m_MarshalJSON (methods_of T) v) = Ok v"
    using Trim_quotes_plain [OF q] Trim_quotes_id [OF q(2)] by (simp add: eval)
  show "m_UnmarshalYAML (methods_of T) (m_MarshalYAML (methods_of T) v) = Ok v"
    "m_Scan (methods_of T) (AnyString (m_Value (methods_of T) v)) = Ok v"
    "m_Scan (methods_of T) (AnyBytes (m_Value (methods_of T) v)) = Ok v" by (simp_all add: eval)
next
  fix v s assume "m_IsValid (methods_of T) v"
  then have v: "v \<in> set (en_all T)" using enum_okD(2) [OF ok] by (simp add: methods_of_def enum_IsValid_def)
  obtain n where n: "map_of (en_names T) v = Some n" "stringTo T n = Some v" using ok v name_of_value by metis
  let ?key = "name_key (en_ignore_case T)"
  have "m_Scan (methods_of T) (AnyString s) = Ok v \<longleftrightarrow> stringTo T s = Some v"
    using v enum_okD(5) [OF ok] by (auto simp: methods_of_def enum_Parse_def or_invalid_def split: option.split)
  also have "\<dots> \<longleftrightarrow> ?key s = ?key n"
  proof
    assume "stringTo T s = Some v"
    then have "(?key s, v) \<in> set (en_name_map T)" unfolding stringTo_def by (rule map_of_SomeD)
    then obtain n' where "(v, n') \<in> set (en_names T)" "?key s = ?key n'" using enum_okD(7) [OF ok] by blast
    then show "?key s = ?key n" using n(1) enum_okD(1,3) [OF ok] by (simp add: map_of_eq_Some_iff)
  qed (use n(2) in \<open>simp add: stringTo_def\<close>)
  finally show "m_Scan (methods_of T) (AnyString s) = Ok v \<longleftrightarrow> ?key s = ?key (m_Value (methods_of T) v)"
    by (simp add: methods_of_def enum_String_def n(1))
qed

text \<open>A text of the database that names no value is not reported: it becomes the invalid value.\<close>

lemma unknown_text_stored:
  assumes "enum_ok T" "\<And>v. v \<in> set (en_all T)
     \<Longrightarrow> name_key (en_ignore_case T) s \<noteq> name_key (en_ignore_case T) (enum_String T v)"
  shows "m_Scan (methods_of T) (AnyString s) = Ok (en_invalid T)"
proof -
  have "stringTo T s = None"
  proof (rule ccontr)
    assume "stringTo T s \<noteq> None"
    then obtain v where v: "stringTo T s = Some v" by blast
    then have "(name_key (en_ignore_case T) s, v) \<in> set (en_name_map T)" unfolding stringTo_def by (rule map_of_SomeD)
    then obtain n where n: "(v, n) \<in> set (en_names T)" "name_key (en_ignore_case T) s = name_key (en_ignore_case T) n"
      using enum_okD(7) [OF assms(1)] by blast
    have "v \<in> set (en_all T)" using n(1) enum_okD(3) [OF assms(1)] by (metis fst_conv image_eqI list.set_map)
    moreover have "enum_String T v = n"
      using n(1) enum_okD(1,3) [OF assms(1)] by (simp add: enum_String_def map_of_eq_Some_iff)
    ultimately show False using assms(2) n(2) by blast
  qed
  then show ?thesis by (simp add: methods_of_def enum_Parse_def or_invalid_def)
qed

text \<open>The text form keeps the quotes, so it is not read back: the result is the invalid value.\<close>

lemma text_form_lost:
  assumes "enum_ok T" "v \<in> set (en_all T)"
  shows "enum_UnmarshalText T (enum_MarshalText T v) = Ok (en_invalid T)"
proof -
  have "stringTo T (enum_MarshalText T v) = None"
  proof (rule ccontr)
    assume "stringTo T (enum_MarshalText T v) \<noteq> None"
    then obtain w where "(name_key (en_ignore_case T) (enum_MarshalText T v), w) \<in> set (en_name_map T)"
      unfolding stringTo_def using map_of_SomeD by fastforce
    then have "quote \<notin> set (name_key (en_ignore_case T) (enum_MarshalText T v))"
      using enum_okD(7) [OF assms(1)] by (simp add: plain_name_def)
    then show False
      by (simp add: name_key_def enum_MarshalText_def ToLower_def lower_char_def quote_def split: if_splits)
  qed
  then show ?thesis by (simp add: enum_UnmarshalText_def enum_Parse_def or_invalid_def)
qed

text \<open>Numbers count the values from one, while the constants count from zero.\<close>

lemma number_off_by_one:
  assumes "enum_ok T" "i < length (en_all T)"
  shows "numberTo T (rat_of_int (int i + 1)) = Some (en_all T ! i)" "numberTo T 0 = None"
  using assms by (simp_all add: numberTo_def Let_def enum_IsValid_def enum_ok_def flip: of_int_add)

end
