(* ===== verification/Enums.thy ===== *)
theory Enums
  imports Go_Enum Srat_Types Problem_Store Upgrade
begin

text \<open>
  The enumerations of \<open>dto/*_enums.go\<close> and \<open>events/eventtypes_enums.go\<close>: for each one its values,
  its tables as the file has them and its operations, which are those of \<open>Go_Enum\<close> on the tables.
  The values of an enumeration are its constants, the invalid sentinel \<open>-1\<close> and, where the
  structure has further fields, the zero structure, which is none of the constants.
\<close>

definition slice :: "string \<Rightarrow> nat \<Rightarrow> nat \<Rightarrow> string" where
  "slice s a b = take (b - a) (drop a s)"

lemmas enum_tables = enum_ok_def name_key_def slice_def plain_name_def quote_def ToLower_def lower_char_def
  char_of_def bit_Suc_0_iff

section \<open>The enumerations\<close>

definition all_TimeMachineSupport :: "TimeMachineSupport list" where
  "all_TimeMachineSupport =
     [UNSUPPORTED, SUPPORTED, EXPERIMENTAL, UNKNOWN]"

definition TimeMachineSupportNameMap :: "(string \<times> TimeMachineSupport) list" where
  "TimeMachineSupportNameMap =
     [(''unsupported'', UNSUPPORTED), (''supported'', SUPPORTED),
      (''experimental'', EXPERIMENTAL), (''unknown'', UNKNOWN)]"

definition validTimeMachineSupport :: "TimeMachineSupport list" where
  "validTimeMachineSupport =
     [UNSUPPORTED, SUPPORTED, EXPERIMENTAL, UNKNOWN]"

definition namesTimeMachineSupport :: "string" where
  "namesTimeMachineSupport =
     ''unsupportedsupportedexperimentalunknown''"

definition TimeMachineSupportNamesMap :: "(TimeMachineSupport \<times> string) list" where
  "TimeMachineSupportNamesMap =
     [(UNSUPPORTED, slice namesTimeMachineSupport 0 11),
      (SUPPORTED, slice namesTimeMachineSupport 11 20),
      (EXPERIMENTAL, slice namesTimeMachineSupport 20 32),
      (UNKNOWN, slice namesTimeMachineSupport 32 39)]"

definition TimeMachineSupport_enum :: "TimeMachineSupport enum" where
  "TimeMachineSupport_enum =
     \<lparr>en_all = all_TimeMachineSupport, en_name_map = TimeMachineSupportNameMap, en_ignore_case = False,
      en_valid = validTimeMachineSupport, en_names = TimeMachineSupportNamesMap, en_invalid = InvalidTimeMachineSupport,
      en_number = (\<lambda>v. ''-1''), en_type = ''timemachinesupport''\<rparr>"

definition ParseTimeMachineSupport :: "TimeMachineSupport any_value \<Rightarrow> TimeMachineSupport res" where
  "ParseTimeMachineSupport input = enum_Parse TimeMachineSupport_enum input"

definition TimeMachineSupport_of_number :: "rat \<Rightarrow> TimeMachineSupport option" where
  "TimeMachineSupport_of_number num = numberTo TimeMachineSupport_enum num"

definition TimeMachineSupport_of_string :: "string \<Rightarrow> TimeMachineSupport option" where
  "TimeMachineSupport_of_string s = stringTo TimeMachineSupport_enum s"

definition TimeMachineSupport_methods :: "TimeMachineSupport enum_methods" where
  "TimeMachineSupport_methods = methods_of TimeMachineSupport_enum"

definition MatchTimeMachineSupport :: "TimeMachineSupport \<Rightarrow> (TimeMachineSupport \<Rightarrow> 'r) option \<Rightarrow> 'r res" where
  "MatchTimeMachineSupport en matcher = enum_Match TimeMachineSupport_enum en matcher"

definition MustMatchTimeMachineSupport :: "TimeMachineSupport \<Rightarrow> (TimeMachineSupport \<Rightarrow> 'r) option \<Rightarrow> 'r res" where
  "MustMatchTimeMachineSupport en matcher = enum_MustMatch TimeMachineSupport_enum en matcher"

lemma TimeMachineSupport_ok: "enum_ok TimeMachineSupport_enum"
  by (simp add: enum_tables TimeMachineSupport_enum_def all_TimeMachineSupport_def TimeMachineSupportNameMap_def validTimeMachineSupport_def namesTimeMachineSupport_def TimeMachineSupportNamesMap_def)

definition all_HdidleEnabled :: "HdidleEnabled list" where
  "all_HdidleEnabled =
     [CUSTOMENABLED, NOENABLED]"

definition HdidleEnabledNameMap :: "(string \<times> HdidleEnabled) list" where
  "HdidleEnabledNameMap =
     [(''custom'', CUSTOMENABLED), (''no'', NOENABLED)]"

definition validHdidleEnabled :: "HdidleEnabled list" where
  "validHdidleEnabled =
     [CUSTOMENABLED, NOENABLED]"

definition namesHdidleEnabled :: "string" where
  "namesHdidleEnabled =
     ''customno''"

definition HdidleEnabledNamesMap :: "(HdidleEnabled \<times> string) list" where
  "HdidleEnabledNamesMap =
     [(CUSTOMENABLED, slice namesHdidleEnabled 0 6), (NOENABLED, slice namesHdidleEnabled 6 8)]"

definition HdidleEnabled_enum :: "HdidleEnabled enum" where
  "HdidleEnabled_enum =
     \<lparr>en_all = all_HdidleEnabled, en_name_map = HdidleEnabledNameMap, en_ignore_case = False,
      en_valid = validHdidleEnabled, en_names = HdidleEnabledNamesMap, en_invalid = InvalidHdidleEnabled,
      en_number = (\<lambda>v. ''-1''), en_type = ''hdidleenabled''\<rparr>"

definition ParseHdidleEnabled :: "HdidleEnabled any_value \<Rightarrow> HdidleEnabled res" where
  "ParseHdidleEnabled input = enum_Parse HdidleEnabled_enum input"

definition HdidleEnabled_of_number :: "rat \<Rightarrow> HdidleEnabled option" where
  "HdidleEnabled_of_number num = numberTo HdidleEnabled_enum num"

definition HdidleEnabled_of_string :: "string \<Rightarrow> HdidleEnabled option" where
  "HdidleEnabled_of_string s = stringTo HdidleEnabled_enum s"

definition HdidleEnabled_methods :: "HdidleEnabled enum_methods" where
  "HdidleEnabled_methods = methods_of HdidleEnabled_enum"

definition MatchHdidleEnabled :: "HdidleEnabled \<Rightarrow> (HdidleEnabled \<Rightarrow> 'r) option \<Rightarrow> 'r res" where
  "MatchHdidleEnabled en matcher = enum_Match HdidleEnabled_enum en matcher"

definition MustMatchHdidleEnabled :: "HdidleEnabled \<Rightarrow> (HdidleEnabled \<Rightarrow> 'r) option \<Rightarrow> 'r res" where
  "MustMatchHdidleEnabled en matcher = enum_MustMatch HdidleEnabled_enum en matcher"

lemma HdidleEnabled_ok: "enum_ok HdidleEnabled_enum"
  by (simp add: enum_tables HdidleEnabled_enum_def all_HdidleEnabled_def HdidleEnabledNameMap_def validHdidleEnabled_def namesHdidleEnabled_def HdidleEnabledNamesMap_def)

definition all_HdidleCommand :: "HdidleCommand list" where
  "all_HdidleCommand =
     [SCSICOMMAND, ATACOMMAND]"

definition HdidleCommandNameMap :: "(string \<times> HdidleCommand) list" where
  "HdidleCommandNameMap =
     [(''scsi'', SCSICOMMAND), (''ata'', ATACOMMAND)]"

definition validHdidleCommand :: "HdidleCommand list" where
  "validHdidleCommand =
     [SCSICOMMAND, ATACOMMAND]"

definition namesHdidleCommand :: "string" where
  "namesHdidleCommand =
     ''scsiata''"

definition HdidleCommandNamesMap :: "(HdidleCommand \<times> string) list" where
  "HdidleCommandNamesMap =
     [(SCSICOMMAND, slice namesHdidleCommand 0 4), (ATACOMMAND, slice namesHdidleCommand 4 7)]"

definition HdidleCommand_enum :: "HdidleCommand enum" where
  "HdidleCommand_enum =
     \<lparr>en_all = all_HdidleCommand, en_name_map = HdidleCommandNameMap, en_ignore_case = False,
      en_valid = validHdidleCommand, en_names = HdidleCommandNamesMap, en_invalid = InvalidHdidleCommand,
      en_number = (\<lambda>v. ''-1''), en_type = ''hdidlecommand''\<rparr>"

definition ParseHdidleCommand :: "HdidleCommand any_value \<Rightarrow> HdidleCommand res" where
  "ParseHdidleCommand input = enum_Parse HdidleCommand_enum input"

definition HdidleCommand_of_number :: "rat \<Rightarrow> HdidleCommand option" where
  "HdidleCommand_of_number num = numberTo HdidleCommand_enum num"

definition HdidleCommand_of_string :: "string \<Rightarrow> HdidleCommand option" where
  "HdidleCommand_of_string s = stringTo HdidleCommand_enum s"

definition HdidleCommand_methods :: "HdidleCommand enum_methods" where
  "HdidleCommand_methods = methods_of HdidleCommand_enum"

definition MatchHdidleCommand :: "HdidleCommand \<Rightarrow> (HdidleCommand \<Rightarrow> 'r) option \<Rightarrow> 'r res" where
  "MatchHdidleCommand en matcher = enum_Match HdidleCommand_enum en matcher"

definition MustMatchHdidleCommand :: "HdidleCommand \<Rightarrow> (HdidleCommand \<Rightarrow> 'r) option \<Rightarrow> 'r res" where
  "MustMatchHdidleCommand en matcher = enum_MustMatch HdidleCommand_enum en matcher"

lemma HdidleCommand_ok: "enum_ok HdidleCommand_enum"
  by (simp add: enum_tables HdidleCommand_enum_def all_HdidleCommand_def HdidleCommandNameMap_def validHdidleCommand_def namesHdidleCommand_def HdidleCommandNamesMap_def)

definition all_ProblemSeverity :: "severity list" where
  "all_ProblemSeverity =
     [SevInfo, SevWarning, SevError, SevCritical]"

definition ProblemSeverityNameMap :: "(string \<times> severity) list" where
  "ProblemSeverityNameMap =
     [(''info'', SevInfo), (''warning'', SevWarning), (''error'', SevError),
      (''critical'', SevCritical)]"

definition validProblemSeverity :: "severity list" where
  "validProblemSeverity =
     [SevInfo, SevWarning, SevError, SevCritical]"

definition namesProblemSeverity :: "string" where
  "namesProblemSeverity =
     ''infowarningerrorcritical''"

definition ProblemSeverityNamesMap :: "(severity \<times> string) list" where
  "ProblemSeverityNamesMap =
     [(SevInfo, slice namesProblemSeverity 0 4), (SevWarning, slice namesProblemSeverity 4 11),
      (SevError, slice namesProblemSeverity 11 16),
      (SevCritical, slice namesProblemSeverity 16 24)]"

definition ProblemSeverity_enum :: "severity enum" where
  "ProblemSeverity_enum =
     \<lparr>en_all = all_ProblemSeverity, en_name_map = ProblemSeverityNameMap, en_ignore_case = False,
      en_valid = validProblemSeverity, en_names = ProblemSeverityNamesMap, en_invalid = InvalidSeverity,
      en_number = (\<lambda>v. ''-1''), en_type = ''problemseverity''\<rparr>"

definition ParseProblemSeverity :: "severity any_value \<Rightarrow> severity res" where
  "ParseProblemSeverity input = enum_Parse ProblemSeverity_enum input"

definition ProblemSeverity_of_number :: "rat \<Rightarrow> severity option" where
  "ProblemSeverity_of_number num = numberTo ProblemSeverity_enum num"

definition ProblemSeverity_of_string :: "string \<Rightarrow> severity option" where
  "ProblemSeverity_of_string s = stringTo ProblemSeverity_enum s"

definition ProblemSeverity_methods :: "severity enum_methods" where
  "ProblemSeverity_methods = methods_of ProblemSeverity_enum"

definition MatchProblemSeverity :: "severity \<Rightarrow> (severity \<Rightarrow> 'r) option \<Rightarrow> 'r res" where
  "MatchProblemSeverity en matcher = enum_Match ProblemSeverity_enum en matcher"

definition MustMatchProblemSeverity :: "severity \<Rightarrow> (severity \<Rightarrow> 'r) option \<Rightarrow> 'r res" where
  "MustMatchProblemSeverity en matcher = enum_MustMatch ProblemSeverity_enum en matcher"

lemma ProblemSeverity_ok: "enum_ok ProblemSeverity_enum"
  by (simp add: enum_tables ProblemSeverity_enum_def all_ProblemSeverity_def ProblemSeverityNameMap_def validProblemSeverity_def namesProblemSeverity_def ProblemSeverityNamesMap_def)

definition all_ProblemLifecycleStatus :: "lifecycle list" where
  "all_ProblemLifecycleStatus =
     [StCreated, StUpdated, StIgnored, StFixed, StDismissed, StDeleted, StError]"

definition ProblemLifecycleStatusNameMap :: "(string \<times> lifecycle) list" where
  "ProblemLifecycleStatusNameMap =
     [(''created'', StCreated), (''updated'', StUpdated), (''ignored'', StIgnored),
      (''fixed'', StFixed), (''dismissed'', StDismissed), (''deleted'', StDeleted),
      (''error'', StError)]"

definition validProblemLifecycleStatus :: "lifecycle list" where
  "validProblemLifecycleStatus =
     [StCreated, StUpdated, StIgnored, StFixed, StDismissed, StDeleted, StError]"

definition namesProblemLifecycleStatus :: "string" where
  "namesProblemLifecycleStatus =
     ''createdupdatedignoredfixeddismisseddeletederror''"

definition ProblemLifecycleStatusNamesMap :: "(lifecycle \<times> string) list" where
  "ProblemLifecycleStatusNamesMap =
     [(StCreated, slice namesProblemLifecycleStatus 0 7),
      (StUpdated, slice namesProblemLifecycleStatus 7 14),
      (StIgnored, slice namesProblemLifecycleStatus 14 21),
      (StFixed, slice namesProblemLifecycleStatus 21 26),
      (StDismissed, slice namesProblemLifecycleStatus 26 35),
      (StDeleted, slice namesProblemLifecycleStatus 35 42),
      (StError, slice namesProblemLifecycleStatus 42 47)]"

definition ProblemLifecycleStatus_enum :: "lifecycle enum" where
  "ProblemLifecycleStatus_enum =
     \<lparr>en_all = all_ProblemLifecycleStatus, en_name_map = ProblemLifecycleStatusNameMap, en_ignore_case = False,
      en_valid = validProblemLifecycleStatus, en_names = ProblemLifecycleStatusNamesMap, en_invalid = InvalidLifecycle,
      en_number = (\<lambda>v. ''-1''), en_type = ''problemlifecyclestatus''\<rparr>"

definition ParseProblemLifecycleStatus :: "lifecycle any_value \<Rightarrow> lifecycle res" where
  "ParseProblemLifecycleStatus input = enum_Parse ProblemLifecycleStatus_enum input"

definition ProblemLifecycleStatus_of_number :: "rat \<Rightarrow> lifecycle option" where
  "ProblemLifecycleStatus_of_number num = numberTo ProblemLifecycleStatus_enum num"

definition ProblemLifecycleStatus_of_string :: "string \<Rightarrow> lifecycle option" where
  "ProblemLifecycleStatus_of_string s = stringTo ProblemLifecycleStatus_enum s"

definition ProblemLifecycleStatus_methods :: "lifecycle enum_methods" where
  "ProblemLifecycleStatus_methods = methods_of ProblemLifecycleStatus_enum"

definition MatchProblemLifecycleStatus :: "lifecycle \<Rightarrow> (lifecycle \<Rightarrow> 'r) option \<Rightarrow> 'r res" where
  "MatchProblemLifecycleStatus en matcher = enum_Match ProblemLifecycleStatus_enum en matcher"

definition MustMatchProblemLifecycleStatus :: "lifecycle \<Rightarrow> (lifecycle \<Rightarrow> 'r) option \<Rightarrow> 'r res" where
  "MustMatchProblemLifecycleStatus en matcher = enum_MustMatch ProblemLifecycleStatus_enum en matcher"

lemma ProblemLifecycleStatus_ok: "enum_ok ProblemLifecycleStatus_enum"
  by (simp add: enum_tables ProblemLifecycleStatus_enum_def all_ProblemLifecycleStatus_def ProblemLifecycleStatusNameMap_def validProblemLifecycleStatus_def namesProblemLifecycleStatus_def ProblemLifecycleStatusNamesMap_def)

definition all_UpdateChannel :: "UpdateChannel list" where
  "all_UpdateChannel =
     [NONE, DEVELOP, RELEASE, PRERELEASE]"

definition UpdateChannelNameMap :: "(string \<times> UpdateChannel) list" where
  "UpdateChannelNameMap =
     [(''none'', NONE), (''develop'', DEVELOP), (''release'', RELEASE),
      (''prerelease'', PRERELEASE)]"

definition validUpdateChannel :: "UpdateChannel list" where
  "validUpdateChannel =
     [NONE, DEVELOP, RELEASE, PRERELEASE]"

definition namesUpdateChannel :: "string" where
  "namesUpdateChannel =
     ''NoneDevelopReleasePrerelease''"

definition UpdateChannelNamesMap :: "(UpdateChannel \<times> string) list" where
  "UpdateChannelNamesMap =
     [(NONE, slice namesUpdateChannel 0 4), (DEVELOP, slice namesUpdateChannel 4 11),
      (RELEASE, slice namesUpdateChannel 11 18), (PRERELEASE, slice namesUpdateChannel 18 28)]"

definition UpdateChannel_enum :: "UpdateChannel enum" where
  "UpdateChannel_enum =
     \<lparr>en_all = all_UpdateChannel, en_name_map = UpdateChannelNameMap, en_ignore_case = True,
      en_valid = validUpdateChannel, en_names = UpdateChannelNamesMap, en_invalid = InvalidUpdateChannel,
      en_number = (\<lambda>v. ''-1''), en_type = ''updatechannel''\<rparr>"

definition ParseUpdateChannel :: "UpdateChannel any_value \<Rightarrow> UpdateChannel res" where
  "ParseUpdateChannel input = enum_Parse UpdateChannel_enum input"

definition UpdateChannel_of_number :: "rat \<Rightarrow> UpdateChannel option" where
  "UpdateChannel_of_number num = numberTo UpdateChannel_enum num"

definition UpdateChannel_of_string :: "string \<Rightarrow> UpdateChannel option" where
  "UpdateChannel_of_string s = stringTo UpdateChannel_enum s"

definition UpdateChannel_methods :: "UpdateChannel enum_methods" where
  "UpdateChannel_methods = methods_of UpdateChannel_enum"

lemma UpdateChannel_ok: "enum_ok UpdateChannel_enum"
  by (simp add: enum_tables UpdateChannel_enum_def all_UpdateChannel_def UpdateChannelNameMap_def validUpdateChannel_def namesUpdateChannel_def UpdateChannelNamesMap_def)

definition all_UpdateProcessState :: "UpdateState list" where
  "all_UpdateProcessState =
     [UIdle, UChecking, UNoUpgrade, UUpgradeAvailable, UDownloading, UDownloadComplete,
      UExtracting, UExtractComplete, UInstalling, UInstallComplete, UError]"

definition UpdateProcessStateNameMap :: "(string \<times> UpdateState) list" where
  "UpdateProcessStateNameMap =
     [(''UpdateStatusIdle'', UIdle), (''UpdateStatusChecking'', UChecking),
      (''UpdateStatusNoUpgrade'', UNoUpgrade),
      (''UpdateStatusUpgradeAvailable'', UUpgradeAvailable),
      (''UpdateStatusDownloading'', UDownloading),
      (''UpdateStatusDownloadComplete'', UDownloadComplete),
      (''UpdateStatusExtracting'', UExtracting),
      (''UpdateStatusExtractComplete'', UExtractComplete),
      (''UpdateStatusInstalling'', UInstalling), (''NeedRestart'', UInstallComplete),
      (''UpdateStatusError'', UError)]"

definition validUpdateProcessState :: "UpdateState list" where
  "validUpdateProcessState =
     [UIdle, UChecking, UNoUpgrade, UUpgradeAvailable, UDownloading, UDownloadComplete,
      UExtracting, UExtractComplete, UInstalling, UInstallComplete, UError]"

definition namesUpdateProcessState :: "string" where
  "namesUpdateProcessState =
     ''UpdateStatusIdleUpdateStatusCheckingUpdateStatusNoUpgradeUpdateStatusUpgradeAvailableUpdateStatusDownloadingUpdateStatusDownloadCompleteUpdateStatusExtractingUpdateStatusExtractCompleteUpdateStatusInstallingNeedRestartUpdateStatusError''"

definition UpdateProcessStateNamesMap :: "(UpdateState \<times> string) list" where
  "UpdateProcessStateNamesMap =
     [(UIdle, slice namesUpdateProcessState 0 16),
      (UChecking, slice namesUpdateProcessState 16 36),
      (UNoUpgrade, slice namesUpdateProcessState 36 57),
      (UUpgradeAvailable, slice namesUpdateProcessState 57 85),
      (UDownloading, slice namesUpdateProcessState 85 108),
      (UDownloadComplete, slice namesUpdateProcessState 108 136),
      (UExtracting, slice namesUpdateProcessState 136 158),
      (UExtractComplete, slice namesUpdateProcessState 158 185),
      (UInstalling, slice namesUpdateProcessState 185 207),
      (UInstallComplete, slice namesUpdateProcessState 207 218),
      (UError, slice namesUpdateProcessState 218 235)]"

definition UpdateProcessState_enum :: "UpdateState enum" where
  "UpdateProcessState_enum =
     \<lparr>en_all = all_UpdateProcessState, en_name_map = UpdateProcessStateNameMap, en_ignore_case = False,
      en_valid = validUpdateProcessState, en_names = UpdateProcessStateNamesMap, en_invalid = InvalidUpdateState,
      en_number = (\<lambda>v. if v = ZeroUpdateState then ''0'' else ''-1''), en_type = ''updateprocessstate''\<rparr>"

definition ParseUpdateProcessState :: "UpdateState any_value \<Rightarrow> UpdateState res" where
  "ParseUpdateProcessState input = enum_Parse UpdateProcessState_enum input"

definition UpdateProcessState_of_number :: "rat \<Rightarrow> UpdateState option" where
  "UpdateProcessState_of_number num = numberTo UpdateProcessState_enum num"

definition UpdateProcessState_of_string :: "string \<Rightarrow> UpdateState option" where
  "UpdateProcessState_of_string s = stringTo UpdateProcessState_enum s"

definition UpdateProcessState_methods :: "UpdateState enum_methods" where
  "UpdateProcessState_methods = methods_of UpdateProcessState_enum"

definition MatchUpdateProcessState :: "UpdateState \<Rightarrow> (UpdateState \<Rightarrow> 'r) option \<Rightarrow> 'r res" where
  "MatchUpdateProcessState en matcher = enum_Match UpdateProcessState_enum en matcher"

definition MustMatchUpdateProcessState :: "UpdateState \<Rightarrow> (UpdateState \<Rightarrow> 'r) option \<Rightarrow> 'r res" where
  "MustMatchUpdateProcessState en matcher = enum_MustMatch UpdateProcessState_enum en matcher"

lemma UpdateProcessState_ok: "enum_ok UpdateProcessState_enum"
  by (simp add: enum_tables UpdateProcessState_enum_def all_UpdateProcessState_def UpdateProcessStateNameMap_def validUpdateProcessState_def namesUpdateProcessState_def UpdateProcessStateNamesMap_def)

datatype TelemetryMode =
    TELEMETRYMODEASK | TELEMETRYMODEALL | TELEMETRYMODEERRORS | TELEMETRYMODEDISABLED
  | InvalidTelemetryMode

definition all_TelemetryMode :: "TelemetryMode list" where
  "all_TelemetryMode =
     [TELEMETRYMODEASK, TELEMETRYMODEALL, TELEMETRYMODEERRORS, TELEMETRYMODEDISABLED]"

definition TelemetryModeNameMap :: "(string \<times> TelemetryMode) list" where
  "TelemetryModeNameMap =
     [(''Ask'', TELEMETRYMODEASK), (''All'', TELEMETRYMODEALL),
      (''Errors'', TELEMETRYMODEERRORS), (''Disabled'', TELEMETRYMODEDISABLED)]"

definition validTelemetryMode :: "TelemetryMode list" where
  "validTelemetryMode =
     [TELEMETRYMODEASK, TELEMETRYMODEALL, TELEMETRYMODEERRORS, TELEMETRYMODEDISABLED]"

definition namesTelemetryMode :: "string" where
  "namesTelemetryMode =
     ''AskAllErrorsDisabled''"

definition TelemetryModeNamesMap :: "(TelemetryMode \<times> string) list" where
  "TelemetryModeNamesMap =
     [(TELEMETRYMODEASK, slice namesTelemetryMode 0 3),
      (TELEMETRYMODEALL, slice namesTelemetryMode 3 6),
      (TELEMETRYMODEERRORS, slice namesTelemetryMode 6 12),
      (TELEMETRYMODEDISABLED, slice namesTelemetryMode 12 20)]"

definition TelemetryMode_enum :: "TelemetryMode enum" where
  "TelemetryMode_enum =
     \<lparr>en_all = all_TelemetryMode, en_name_map = TelemetryModeNameMap, en_ignore_case = False,
      en_valid = validTelemetryMode, en_names = TelemetryModeNamesMap, en_invalid = InvalidTelemetryMode,
      en_number = (\<lambda>v. ''-1''), en_type = ''telemetrymode''\<rparr>"

definition ParseTelemetryMode :: "TelemetryMode any_value \<Rightarrow> TelemetryMode res" where
  "ParseTelemetryMode input = enum_Parse TelemetryMode_enum input"

definition TelemetryMode_of_number :: "rat \<Rightarrow> TelemetryMode option" where
  "TelemetryMode_of_number num = numberTo TelemetryMode_enum num"

definition TelemetryMode_of_string :: "string \<Rightarrow> TelemetryMode option" where
  "TelemetryMode_of_string s = stringTo TelemetryMode_enum s"

definition TelemetryMode_methods :: "TelemetryMode enum_methods" where
  "TelemetryMode_methods = methods_of TelemetryMode_enum"

definition MatchTelemetryMode :: "TelemetryMode \<Rightarrow> (TelemetryMode \<Rightarrow> 'r) option \<Rightarrow> 'r res" where
  "MatchTelemetryMode en matcher = enum_Match TelemetryMode_enum en matcher"

definition MustMatchTelemetryMode :: "TelemetryMode \<Rightarrow> (TelemetryMode \<Rightarrow> 'r) option \<Rightarrow> 'r res" where
  "MustMatchTelemetryMode en matcher = enum_MustMatch TelemetryMode_enum en matcher"

lemma TelemetryMode_ok: "enum_ok TelemetryMode_enum"
  by (simp add: enum_tables TelemetryMode_enum_def all_TelemetryMode_def TelemetryModeNameMap_def validTelemetryMode_def namesTelemetryMode_def TelemetryModeNamesMap_def)

datatype SmartMode =
    SMARTMODENONE | SMARTMODELEGACY | SMARTMODEDIRECT | InvalidSmartMode

definition all_SmartMode :: "SmartMode list" where
  "all_SmartMode =
     [SMARTMODENONE, SMARTMODELEGACY, SMARTMODEDIRECT]"

definition SmartModeNameMap :: "(string \<times> SmartMode) list" where
  "SmartModeNameMap =
     [(''none'', SMARTMODENONE), (''legacy'', SMARTMODELEGACY), (''direct'', SMARTMODEDIRECT)]"

definition validSmartMode :: "SmartMode list" where
  "validSmartMode =
     [SMARTMODENONE, SMARTMODELEGACY, SMARTMODEDIRECT]"

definition namesSmartMode :: "string" where
  "namesSmartMode =
     ''nonelegacydirect''"

definition SmartModeNamesMap :: "(SmartMode \<times> string) list" where
  "SmartModeNamesMap =
     [(SMARTMODENONE, slice namesSmartMode 0 4), (SMARTMODELEGACY, slice namesSmartMode 4 10),
      (SMARTMODEDIRECT, slice namesSmartMode 10 16)]"

definition SmartMode_enum :: "SmartMode enum" where
  "SmartMode_enum =
     \<lparr>en_all = all_SmartMode, en_name_map = SmartModeNameMap, en_ignore_case = False,
      en_valid = validSmartMode, en_names = SmartModeNamesMap, en_invalid = InvalidSmartMode,
      en_number = (\<lambda>v. ''-1''), en_type = ''smartmode''\<rparr>"

definition ParseSmartMode :: "SmartMode any_value \<Rightarrow> SmartMode res" where
  "ParseSmartMode input = enum_Parse SmartMode_enum input"

definition SmartMode_of_number :: "rat \<Rightarrow> SmartMode option" where
  "SmartMode_of_number num = numberTo SmartMode_enum num"

definition SmartMode_of_string :: "string \<Rightarrow> SmartMode option" where
  "SmartMode_of_string s = stringTo SmartMode_enum s"

definition SmartMode_methods :: "SmartMode enum_methods" where
  "SmartMode_methods = methods_of SmartMode_enum"

definition MatchSmartMode :: "SmartMode \<Rightarrow> (SmartMode \<Rightarrow> 'r) option \<Rightarrow> 'r res" where
  "MatchSmartMode en matcher = enum_Match SmartMode_enum en matcher"

definition MustMatchSmartMode :: "SmartMode \<Rightarrow> (SmartMode \<Rightarrow> 'r) option \<Rightarrow> 'r res" where
  "MustMatchSmartMode en matcher = enum_MustMatch SmartMode_enum en matcher"

lemma SmartMode_ok: "enum_ok SmartMode_enum"
  by (simp add: enum_tables SmartMode_enum_def all_SmartMode_def SmartModeNameMap_def validSmartMode_def namesSmartMode_def SmartModeNamesMap_def)

datatype SmartTestType =
    SMARTTESTTYPESHORT | SMARTTESTTYPELONG | SMARTTESTTYPECONVEYANCE | InvalidSmartTestType

definition all_SmartTestType :: "SmartTestType list" where
  "all_SmartTestType =
     [SMARTTESTTYPESHORT, SMARTTESTTYPELONG, SMARTTESTTYPECONVEYANCE]"

definition SmartTestTypeNameMap :: "(string \<times> SmartTestType) list" where
  "SmartTestTypeNameMap =
     [(''short'', SMARTTESTTYPESHORT), (''long'', SMARTTESTTYPELONG),
      (''conveyance'', SMARTTESTTYPECONVEYANCE)]"

definition validSmartTestType :: "SmartTestType list" where
  "validSmartTestType =
     [SMARTTESTTYPESHORT, SMARTTESTTYPELONG, SMARTTESTTYPECONVEYANCE]"

definition namesSmartTestType :: "string" where
  "namesSmartTestType =
     ''shortlongconveyance''"

definition SmartTestTypeNamesMap :: "(SmartTestType \<times> string) list" where
  "SmartTestTypeNamesMap =
     [(SMARTTESTTYPESHORT, slice namesSmartTestType 0 5),
      (SMARTTESTTYPELONG, slice namesSmartTestType 5 9),
      (SMARTTESTTYPECONVEYANCE, slice namesSmartTestType 9 19)]"

definition SmartTestType_enum :: "SmartTestType enum" where
  "SmartTestType_enum =
     \<lparr>en_all = all_SmartTestType, en_name_map = SmartTestTypeNameMap, en_ignore_case = False,
      en_valid = validSmartTestType, en_names = SmartTestTypeNamesMap, en_invalid = InvalidSmartTestType,
      en_number = (\<lambda>v. ''-1''), en_type = ''smarttesttype''\<rparr>"

definition ParseSmartTestType :: "SmartTestType any_value \<Rightarrow> SmartTestType res" where
  "ParseSmartTestType input = enum_Parse SmartTestType_enum input"

definition SmartTestType_of_number :: "rat \<Rightarrow> SmartTestType option" where
  "SmartTestType_of_number num = numberTo SmartTestType_enum num"

definition SmartTestType_of_string :: "string \<Rightarrow> SmartTestType option" where
  "SmartTestType_of_string s = stringTo SmartTestType_enum s"

definition SmartTestType_methods :: "SmartTestType enum_methods" where
  "SmartTestType_methods = methods_of SmartTestType_enum"

definition MatchSmartTestType :: "SmartTestType \<Rightarrow> (SmartTestType \<Rightarrow> 'r) option \<Rightarrow> 'r res" where
  "MatchSmartTestType en matcher = enum_Match SmartTestType_enum en matcher"

definition MustMatchSmartTestType :: "SmartTestType \<Rightarrow> (SmartTestType \<Rightarrow> 'r) option \<Rightarrow> 'r res" where
  "MustMatchSmartTestType en matcher = enum_MustMatch SmartTestType_enum en matcher"

lemma SmartTestType_ok: "enum_ok SmartTestType_enum"
  by (simp add: enum_tables SmartTestType_enum_def all_SmartTestType_def SmartTestTypeNameMap_def validSmartTestType_def namesSmartTestType_def SmartTestTypeNamesMap_def)

datatype SmartAttributeCode =
    SMARTATTRIBUTEUNDEFINED | SMARTATTRTEMPERATURECELSIUS | SMARTATTRPOWERONHOURS
  | SMARTATTRPOWERCYCLECOUNT | ZeroSmartAttributeCode | InvalidSmartAttributeCode

definition all_SmartAttributeCode :: "SmartAttributeCode list" where
  "all_SmartAttributeCode =
     [SMARTATTRIBUTEUNDEFINED, SMARTATTRTEMPERATURECELSIUS, SMARTATTRPOWERONHOURS,
      SMARTATTRPOWERCYCLECOUNT]"

definition SmartAttributeCodeNameMap :: "(string \<times> SmartAttributeCode) list" where
  "SmartAttributeCodeNameMap =
     [(''Undefined'', SMARTATTRIBUTEUNDEFINED), (''Temperature'', SMARTATTRTEMPERATURECELSIUS),
      (''PowerOnHours'', SMARTATTRPOWERONHOURS), (''PowerCycleCount'', SMARTATTRPOWERCYCLECOUNT)]"

definition validSmartAttributeCode :: "SmartAttributeCode list" where
  "validSmartAttributeCode =
     [SMARTATTRIBUTEUNDEFINED, SMARTATTRTEMPERATURECELSIUS, SMARTATTRPOWERONHOURS,
      SMARTATTRPOWERCYCLECOUNT]"

definition namesSmartAttributeCode :: "string" where
  "namesSmartAttributeCode =
     ''UndefinedTemperaturePowerOnHoursPowerCycleCount''"

definition SmartAttributeCodeNamesMap :: "(SmartAttributeCode \<times> string) list" where
  "SmartAttributeCodeNamesMap =
     [(SMARTATTRIBUTEUNDEFINED, slice namesSmartAttributeCode 0 9),
      (SMARTATTRTEMPERATURECELSIUS, slice namesSmartAttributeCode 9 20),
      (SMARTATTRPOWERONHOURS, slice namesSmartAttributeCode 20 32),
      (SMARTATTRPOWERCYCLECOUNT, slice namesSmartAttributeCode 32 47)]"

definition SmartAttributeCode_enum :: "SmartAttributeCode enum" where
  "SmartAttributeCode_enum =
     \<lparr>en_all = all_SmartAttributeCode, en_name_map = SmartAttributeCodeNameMap, en_ignore_case = False,
      en_valid = validSmartAttributeCode, en_names = SmartAttributeCodeNamesMap, en_invalid = InvalidSmartAttributeCode,
      en_number = (\<lambda>v. if v = ZeroSmartAttributeCode then ''0'' else ''-1''), en_type = ''smartattributecode''\<rparr>"

definition ParseSmartAttributeCode :: "SmartAttributeCode any_value \<Rightarrow> SmartAttributeCode res" where
  "ParseSmartAttributeCode input = enum_Parse SmartAttributeCode_enum input"

definition SmartAttributeCode_of_number :: "rat \<Rightarrow> SmartAttributeCode option" where
  "SmartAttributeCode_of_number num = numberTo SmartAttributeCode_enum num"

definition SmartAttributeCode_of_string :: "string \<Rightarrow> SmartAttributeCode option" where
  "SmartAttributeCode_of_string s = stringTo SmartAttributeCode_enum s"

definition SmartAttributeCode_methods :: "SmartAttributeCode enum_methods" where
  "SmartAttributeCode_methods = methods_of SmartAttributeCode_enum"

definition MatchSmartAttributeCode :: "SmartAttributeCode \<Rightarrow> (SmartAttributeCode \<Rightarrow> 'r) option \<Rightarrow> 'r res" where
  "MatchSmartAttributeCode en matcher = enum_Match SmartAttributeCode_enum en matcher"

definition MustMatchSmartAttributeCode :: "SmartAttributeCode \<Rightarrow> (SmartAttributeCode \<Rightarrow> 'r) option \<Rightarrow> 'r res" where
  "MustMatchSmartAttributeCode en matcher = enum_MustMatch SmartAttributeCode_enum en matcher"

lemma SmartAttributeCode_ok: "enum_ok SmartAttributeCode_enum"
  by (simp add: enum_tables SmartAttributeCode_enum_def all_SmartAttributeCode_def SmartAttributeCodeNameMap_def validSmartAttributeCode_def namesSmartAttributeCode_def SmartAttributeCodeNamesMap_def)

datatype IssueSeverity =
    ISSUESEVERITYERROR | ISSUESEVERITYWARNING | ISSUESEVERITYINFO | ISSUESEVERITYSUCCESS
  | InvalidIssueSeverity

definition all_IssueSeverity :: "IssueSeverity list" where
  "all_IssueSeverity =
     [ISSUESEVERITYERROR, ISSUESEVERITYWARNING, ISSUESEVERITYINFO, ISSUESEVERITYSUCCESS]"

definition IssueSeverityNameMap :: "(string \<times> IssueSeverity) list" where
  "IssueSeverityNameMap =
     [(''error'', ISSUESEVERITYERROR), (''warning'', ISSUESEVERITYWARNING),
      (''info'', ISSUESEVERITYINFO), (''success'', ISSUESEVERITYSUCCESS)]"

definition validIssueSeverity :: "IssueSeverity list" where
  "validIssueSeverity =
     [ISSUESEVERITYERROR, ISSUESEVERITYWARNING, ISSUESEVERITYINFO, ISSUESEVERITYSUCCESS]"

definition namesIssueSeverity :: "string" where
  "namesIssueSeverity =
     ''errorwarninginfosuccess''"

definition IssueSeverityNamesMap :: "(IssueSeverity \<times> string) list" where
  "IssueSeverityNamesMap =
     [(ISSUESEVERITYERROR, slice namesIssueSeverity 0 5),
      (ISSUESEVERITYWARNING, slice namesIssueSeverity 5 12),
      (ISSUESEVERITYINFO, slice namesIssueSeverity 12 16),
      (ISSUESEVERITYSUCCESS, slice namesIssueSeverity 16 23)]"

definition IssueSeverity_enum :: "IssueSeverity enum" where
  "IssueSeverity_enum =
     \<lparr>en_all = all_IssueSeverity, en_name_map = IssueSeverityNameMap, en_ignore_case = False,
      en_valid = validIssueSeverity, en_names = IssueSeverityNamesMap, en_invalid = InvalidIssueSeverity,
      en_number = (\<lambda>v. ''-1''), en_type = ''issueseverity''\<rparr>"

definition ParseIssueSeverity :: "IssueSeverity any_value \<Rightarrow> IssueSeverity res" where
  "ParseIssueSeverity input = enum_Parse IssueSeverity_enum input"

definition IssueSeverity_of_number :: "rat \<Rightarrow> IssueSeverity option" where
  "IssueSeverity_of_number num = numberTo IssueSeverity_enum num"

definition IssueSeverity_of_string :: "string \<Rightarrow> IssueSeverity option" where
  "IssueSeverity_of_string s = stringTo IssueSeverity_enum s"

definition IssueSeverity_methods :: "IssueSeverity enum_methods" where
  "IssueSeverity_methods = methods_of IssueSeverity_enum"

definition MatchIssueSeverity :: "IssueSeverity \<Rightarrow> (IssueSeverity \<Rightarrow> 'r) option \<Rightarrow> 'r res" where
  "MatchIssueSeverity en matcher = enum_Match IssueSeverity_enum en matcher"

definition MustMatchIssueSeverity :: "IssueSeverity \<Rightarrow> (IssueSeverity \<Rightarrow> 'r) option \<Rightarrow> 'r res" where
  "MustMatchIssueSeverity en matcher = enum_MustMatch IssueSeverity_enum en matcher"

lemma IssueSeverity_ok: "enum_ok IssueSeverity_enum"
  by (simp add: enum_tables IssueSeverity_enum_def all_IssueSeverity_def IssueSeverityNameMap_def validIssueSeverity_def namesIssueSeverity_def IssueSeverityNamesMap_def)

datatype ProblemType =
    PROBLEMTYPEFRONTENDUI | PROBLEMTYPEHAINTEGRATION | PROBLEMTYPEADDONCRASH
  | PROBLEMTYPEADDONUPDATE | PROBLEMTYPEADDONSTARTUP | PROBLEMTYPEADDONFUNCTIONALITY
  | PROBLEMTYPEINSTALLATION | PROBLEMTYPEPERFORMANCE | PROBLEMTYPESECURITY
  | PROBLEMTYPEINTEGRATION | PROBLEMTYPEDOCUMENTATION | PROBLEMTYPESAMBA | PROBLEMTYPEOTHER
  | ZeroProblemType | InvalidProblemType

definition all_ProblemType :: "ProblemType list" where
  "all_ProblemType =
     [PROBLEMTYPEFRONTENDUI, PROBLEMTYPEHAINTEGRATION, PROBLEMTYPEADDONCRASH,
      PROBLEMTYPEADDONUPDATE, PROBLEMTYPEADDONSTARTUP, PROBLEMTYPEADDONFUNCTIONALITY,
      PROBLEMTYPEINSTALLATION, PROBLEMTYPEPERFORMANCE, PROBLEMTYPESECURITY,
      PROBLEMTYPEINTEGRATION, PROBLEMTYPEDOCUMENTATION, PROBLEMTYPESAMBA, PROBLEMTYPEOTHER]"

definition ProblemTypeNameMap :: "(string \<times> ProblemType) list" where
  "ProblemTypeNameMap =
     [(''frontend_ui'', PROBLEMTYPEFRONTENDUI), (''ha_integration'', PROBLEMTYPEHAINTEGRATION),
      (''addon_crash'', PROBLEMTYPEADDONCRASH), (''addon_update'', PROBLEMTYPEADDONUPDATE),
      (''addon_startup'', PROBLEMTYPEADDONSTARTUP),
      (''addon_functionality'', PROBLEMTYPEADDONFUNCTIONALITY),
      (''installation'', PROBLEMTYPEINSTALLATION), (''performance'', PROBLEMTYPEPERFORMANCE),
      (''security'', PROBLEMTYPESECURITY), (''integration'', PROBLEMTYPEINTEGRATION),
      (''documentation'', PROBLEMTYPEDOCUMENTATION), (''samba'', PROBLEMTYPESAMBA),
      (''other'', PROBLEMTYPEOTHER)]"

definition validProblemType :: "ProblemType list" where
  "validProblemType =
     [PROBLEMTYPEFRONTENDUI, PROBLEMTYPEHAINTEGRATION, PROBLEMTYPEADDONCRASH,
      PROBLEMTYPEADDONUPDATE, PROBLEMTYPEADDONSTARTUP, PROBLEMTYPEADDONFUNCTIONALITY,
      PROBLEMTYPEINSTALLATION, PROBLEMTYPEPERFORMANCE, PROBLEMTYPESECURITY,
      PROBLEMTYPEINTEGRATION, PROBLEMTYPEDOCUMENTATION, PROBLEMTYPESAMBA, PROBLEMTYPEOTHER]"

definition namesProblemType :: "string" where
  "namesProblemType =
     ''frontend_uiha_integrationaddon_crashaddon_updateaddon_startupaddon_functionalityinstallationperformancesecurityintegrationdocumentationsambaother''"

definition ProblemTypeNamesMap :: "(ProblemType \<times> string) list" where
  "ProblemTypeNamesMap =
     [(PROBLEMTYPEFRONTENDUI, slice namesProblemType 0 11),
      (PROBLEMTYPEHAINTEGRATION, slice namesProblemType 11 25),
      (PROBLEMTYPEADDONCRASH, slice namesProblemType 25 36),
      (PROBLEMTYPEADDONUPDATE, slice namesProblemType 36 48),
      (PROBLEMTYPEADDONSTARTUP, slice namesProblemType 48 61),
      (PROBLEMTYPEADDONFUNCTIONALITY, slice namesProblemType 61 80),
      (PROBLEMTYPEINSTALLATION, slice namesProblemType 80 92),
      (PROBLEMTYPEPERFORMANCE, slice namesProblemType 92 103),
      (PROBLEMTYPESECURITY, slice namesProblemType 103 111),
      (PROBLEMTYPEINTEGRATION, slice namesProblemType 111 122),
      (PROBLEMTYPEDOCUMENTATION, slice namesProblemType 122 135),
      (PROBLEMTYPESAMBA, slice namesProblemType 135 140),
      (PROBLEMTYPEOTHER, slice namesProblemType 140 145)]"

definition ProblemType_enum :: "ProblemType enum" where
  "ProblemType_enum =
     \<lparr>en_all = all_ProblemType, en_name_map = ProblemTypeNameMap, en_ignore_case = False,
      en_valid = validProblemType, en_names = ProblemTypeNamesMap, en_invalid = InvalidProblemType,
      en_number = (\<lambda>v. if v = ZeroProblemType then ''0'' else ''-1''), en_type = ''problemtype''\<rparr>"

definition ParseProblemType :: "ProblemType any_value \<Rightarrow> ProblemType res" where
  "ParseProblemType input = enum_Parse ProblemType_enum input"

definition ProblemType_of_number :: "rat \<Rightarrow> ProblemType option" where
  "ProblemType_of_number num = numberTo ProblemType_enum num"

definition ProblemType_of_string :: "string \<Rightarrow> ProblemType option" where
  "ProblemType_of_string s = stringTo ProblemType_enum s"

definition ProblemType_methods :: "ProblemType enum_methods" where
  "ProblemType_methods = methods_of ProblemType_enum"

definition MatchProblemType :: "ProblemType \<Rightarrow> (ProblemType \<Rightarrow> 'r) option \<Rightarrow> 'r res" where
  "MatchProblemType en matcher = enum_Match ProblemType_enum en matcher"

definition MustMatchProblemType :: "ProblemType \<Rightarrow> (ProblemType \<Rightarrow> 'r) option \<Rightarrow> 'r res" where
  "MustMatchProblemType en matcher = enum_MustMatch ProblemType_enum en matcher"

lemma ProblemType_ok: "enum_ok ProblemType_enum"
  by (simp add: enum_tables ProblemType_enum_def all_ProblemType_def ProblemTypeNameMap_def validProblemType_def namesProblemType_def ProblemTypeNamesMap_def)

datatype RepairCommandAction =
    REPAIRCOMMANDACTIONUPSERT | REPAIRCOMMANDACTIONDELETE | REPAIRCOMMANDACTIONRECONCILE
  | InvalidRepairCommandAction

definition all_RepairCommandAction :: "RepairCommandAction list" where
  "all_RepairCommandAction =
     [REPAIRCOMMANDACTIONUPSERT, REPAIRCOMMANDACTIONDELETE, REPAIRCOMMANDACTIONRECONCILE]"

definition RepairCommandActionNameMap :: "(string \<times> RepairCommandAction) list" where
  "RepairCommandActionNameMap =
     [(''upsert'', REPAIRCOMMANDACTIONUPSERT), (''delete'', REPAIRCOMMANDACTIONDELETE),
      (''reconcile'', REPAIRCOMMANDACTIONRECONCILE)]"

definition validRepairCommandAction :: "RepairCommandAction list" where
  "validRepairCommandAction =
     [REPAIRCOMMANDACTIONUPSERT, REPAIRCOMMANDACTIONDELETE, REPAIRCOMMANDACTIONRECONCILE]"

definition namesRepairCommandAction :: "string" where
  "namesRepairCommandAction =
     ''upsertdeletereconcile''"

definition RepairCommandActionNamesMap :: "(RepairCommandAction \<times> string) list" where
  "RepairCommandActionNamesMap =
     [(REPAIRCOMMANDACTIONUPSERT, slice namesRepairCommandAction 0 6),
      (REPAIRCOMMANDACTIONDELETE, slice namesRepairCommandAction 6 12),
      (REPAIRCOMMANDACTIONRECONCILE, slice namesRepairCommandAction 12 21)]"

definition RepairCommandAction_enum :: "RepairCommandAction enum" where
  "RepairCommandAction_enum =
     \<lparr>en_all = all_RepairCommandAction, en_name_map = RepairCommandActionNameMap, en_ignore_case = False,
      en_valid = validRepairCommandAction, en_names = RepairCommandActionNamesMap, en_invalid = InvalidRepairCommandAction,
      en_number = (\<lambda>v. ''-1''), en_type = ''repaircommandaction''\<rparr>"

definition ParseRepairCommandAction :: "RepairCommandAction any_value \<Rightarrow> RepairCommandAction res" where
  "ParseRepairCommandAction input = enum_Parse RepairCommandAction_enum input"

definition RepairCommandAction_of_number :: "rat \<Rightarrow> RepairCommandAction option" where
  "RepairCommandAction_of_number num = numberTo RepairCommandAction_enum num"

definition RepairCommandAction_of_string :: "string \<Rightarrow> RepairCommandAction option" where
  "RepairCommandAction_of_string s = stringTo RepairCommandAction_enum s"

definition RepairCommandAction_methods :: "RepairCommandAction enum_methods" where
  "RepairCommandAction_methods = methods_of RepairCommandAction_enum"

definition MatchRepairCommandAction :: "RepairCommandAction \<Rightarrow> (RepairCommandAction \<Rightarrow> 'r) option \<Rightarrow> 'r res" where
  "MatchRepairCommandAction en matcher = enum_Match RepairCommandAction_enum en matcher"

definition MustMatchRepairCommandAction :: "RepairCommandAction \<Rightarrow> (RepairCommandAction \<Rightarrow> 'r) option \<Rightarrow> 'r res" where
  "MustMatchRepairCommandAction en matcher = enum_MustMatch RepairCommandAction_enum en matcher"

lemma RepairCommandAction_ok: "enum_ok RepairCommandAction_enum"
  by (simp add: enum_tables RepairCommandAction_enum_def all_RepairCommandAction_def RepairCommandActionNameMap_def validRepairCommandAction_def namesRepairCommandAction_def RepairCommandActionNamesMap_def)

datatype RepairIssueSeverity =
    REPAIRISSUESEVERITYWARNING | REPAIRISSUESEVERITYERROR | REPAIRISSUESEVERITYCRITICAL
  | InvalidRepairIssueSeverity

definition all_RepairIssueSeverity :: "RepairIssueSeverity list" where
  "all_RepairIssueSeverity =
     [REPAIRISSUESEVERITYWARNING, REPAIRISSUESEVERITYERROR, REPAIRISSUESEVERITYCRITICAL]"

definition RepairIssueSeverityNameMap :: "(string \<times> RepairIssueSeverity) list" where
  "RepairIssueSeverityNameMap =
     [(''warning'', REPAIRISSUESEVERITYWARNING), (''error'', REPAIRISSUESEVERITYERROR),
      (''critical'', REPAIRISSUESEVERITYCRITICAL)]"

definition validRepairIssueSeverity :: "RepairIssueSeverity list" where
  "validRepairIssueSeverity =
     [REPAIRISSUESEVERITYWARNING, REPAIRISSUESEVERITYERROR, REPAIRISSUESEVERITYCRITICAL]"

definition namesRepairIssueSeverity :: "string" where
  "namesRepairIssueSeverity =
     ''warningerrorcritical''"

definition RepairIssueSeverityNamesMap :: "(RepairIssueSeverity \<times> string) list" where
  "RepairIssueSeverityNamesMap =
     [(REPAIRISSUESEVERITYWARNING, slice namesRepairIssueSeverity 0 7),
      (REPAIRISSUESEVERITYERROR, slice namesRepairIssueSeverity 7 12),
      (REPAIRISSUESEVERITYCRITICAL, slice namesRepairIssueSeverity 12 20)]"

definition RepairIssueSeverity_enum :: "RepairIssueSeverity enum" where
  "RepairIssueSeverity_enum =
     \<lparr>en_all = all_RepairIssueSeverity, en_name_map = RepairIssueSeverityNameMap, en_ignore_case = False,
      en_valid = validRepairIssueSeverity, en_names = RepairIssueSeverityNamesMap, en_invalid = InvalidRepairIssueSeverity,
      en_number = (\<lambda>v. ''-1''), en_type = ''repairissueseverity''\<rparr>"

definition ParseRepairIssueSeverity :: "RepairIssueSeverity any_value \<Rightarrow> RepairIssueSeverity res" where
  "ParseRepairIssueSeverity input = enum_Parse RepairIssueSeverity_enum input"

definition RepairIssueSeverity_of_number :: "rat \<Rightarrow> RepairIssueSeverity option" where
  "RepairIssueSeverity_of_number num = numberTo RepairIssueSeverity_enum num"

definition RepairIssueSeverity_of_string :: "string \<Rightarrow> RepairIssueSeverity option" where
  "RepairIssueSeverity_of_string s = stringTo RepairIssueSeverity_enum s"

definition RepairIssueSeverity_methods :: "RepairIssueSeverity enum_methods" where
  "RepairIssueSeverity_methods = methods_of RepairIssueSeverity_enum"

definition MatchRepairIssueSeverity :: "RepairIssueSeverity \<Rightarrow> (RepairIssueSeverity \<Rightarrow> 'r) option \<Rightarrow> 'r res" where
  "MatchRepairIssueSeverity en matcher = enum_Match RepairIssueSeverity_enum en matcher"

definition MustMatchRepairIssueSeverity :: "RepairIssueSeverity \<Rightarrow> (RepairIssueSeverity \<Rightarrow> 'r) option \<Rightarrow> 'r res" where
  "MustMatchRepairIssueSeverity en matcher = enum_MustMatch RepairIssueSeverity_enum en matcher"

lemma RepairIssueSeverity_ok: "enum_ok RepairIssueSeverity_enum"
  by (simp add: enum_tables RepairIssueSeverity_enum_def all_RepairIssueSeverity_def RepairIssueSeverityNameMap_def validRepairIssueSeverity_def namesRepairIssueSeverity_def RepairIssueSeverityNamesMap_def)

datatype RepairLifecycleStatus =
    REPAIRLIFECYCLESTATUSCREATED | REPAIRLIFECYCLESTATUSUPDATED
  | REPAIRLIFECYCLESTATUSIGNORED | REPAIRLIFECYCLESTATUSFIXED
  | REPAIRLIFECYCLESTATUSDISMISSED | REPAIRLIFECYCLESTATUSDELETED
  | REPAIRLIFECYCLESTATUSERROR | InvalidRepairLifecycleStatus

definition all_RepairLifecycleStatus :: "RepairLifecycleStatus list" where
  "all_RepairLifecycleStatus =
     [REPAIRLIFECYCLESTATUSCREATED, REPAIRLIFECYCLESTATUSUPDATED, REPAIRLIFECYCLESTATUSIGNORED,
      REPAIRLIFECYCLESTATUSFIXED, REPAIRLIFECYCLESTATUSDISMISSED, REPAIRLIFECYCLESTATUSDELETED,
      REPAIRLIFECYCLESTATUSERROR]"

definition RepairLifecycleStatusNameMap :: "(string \<times> RepairLifecycleStatus) list" where
  "RepairLifecycleStatusNameMap =
     [(''created'', REPAIRLIFECYCLESTATUSCREATED), (''updated'', REPAIRLIFECYCLESTATUSUPDATED),
      (''ignored'', REPAIRLIFECYCLESTATUSIGNORED), (''fixed'', REPAIRLIFECYCLESTATUSFIXED),
      (''dismissed'', REPAIRLIFECYCLESTATUSDISMISSED),
      (''deleted'', REPAIRLIFECYCLESTATUSDELETED), (''error'', REPAIRLIFECYCLESTATUSERROR)]"

definition validRepairLifecycleStatus :: "RepairLifecycleStatus list" where
  "validRepairLifecycleStatus =
     [REPAIRLIFECYCLESTATUSCREATED, REPAIRLIFECYCLESTATUSUPDATED, REPAIRLIFECYCLESTATUSIGNORED,
      REPAIRLIFECYCLESTATUSFIXED, REPAIRLIFECYCLESTATUSDISMISSED, REPAIRLIFECYCLESTATUSDELETED,
      REPAIRLIFECYCLESTATUSERROR]"

definition namesRepairLifecycleStatus :: "string" where
  "namesRepairLifecycleStatus =
     ''createdupdatedignoredfixeddismisseddeletederror''"

definition RepairLifecycleStatusNamesMap :: "(RepairLifecycleStatus \<times> string) list" where
  "RepairLifecycleStatusNamesMap =
     [(REPAIRLIFECYCLESTATUSCREATED, slice namesRepairLifecycleStatus 0 7),
      (REPAIRLIFECYCLESTATUSUPDATED, slice namesRepairLifecycleStatus 7 14),
      (REPAIRLIFECYCLESTATUSIGNORED, slice namesRepairLifecycleStatus 14 21),
      (REPAIRLIFECYCLESTATUSFIXED, slice namesRepairLifecycleStatus 21 26),
      (REPAIRLIFECYCLESTATUSDISMISSED, slice namesRepairLifecycleStatus 26 35),
      (REPAIRLIFECYCLESTATUSDELETED, slice namesRepairLifecycleStatus 35 42),
      (REPAIRLIFECYCLESTATUSERROR, slice namesRepairLifecycleStatus 42 47)]"

definition RepairLifecycleStatus_enum :: "RepairLifecycleStatus enum" where
  "RepairLifecycleStatus_enum =
     \<lparr>en_all = all_RepairLifecycleStatus, en_name_map = RepairLifecycleStatusNameMap, en_ignore_case = False,
      en_valid = validRepairLifecycleStatus, en_names = RepairLifecycleStatusNamesMap, en_invalid = InvalidRepairLifecycleStatus,
      en_number = (\<lambda>v. ''-1''), en_type = ''repairlifecyclestatus''\<rparr>"

definition ParseRepairLifecycleStatus :: "RepairLifecycleStatus any_value \<Rightarrow> RepairLifecycleStatus res" where
  "ParseRepairLifecycleStatus input = enum_Parse RepairLifecycleStatus_enum input"

definition RepairLifecycleStatus_of_number :: "rat \<Rightarrow> RepairLifecycleStatus option" where
  "RepairLifecycleStatus_of_number num = numberTo RepairLifecycleStatus_enum num"

definition RepairLifecycleStatus_of_string :: "string \<Rightarrow> RepairLifecycleStatus option" where
  "RepairLifecycleStatus_of_string s = stringTo RepairLifecycleStatus_enum s"

definition RepairLifecycleStatus_methods :: "RepairLifecycleStatus enum_methods" where
  "RepairLifecycleStatus_methods = methods_of RepairLifecycleStatus_enum"

definition MatchRepairLifecycleStatus :: "RepairLifecycleStatus \<Rightarrow> (RepairLifecycleStatus \<Rightarrow> 'r) option \<Rightarrow> 'r res" where
  "MatchRepairLifecycleStatus en matcher = enum_Match RepairLifecycleStatus_enum en matcher"

definition MustMatchRepairLifecycleStatus :: "RepairLifecycleStatus \<Rightarrow> (RepairLifecycleStatus \<Rightarrow> 'r) option \<Rightarrow> 'r res" where
  "MustMatchRepairLifecycleStatus en matcher = enum_MustMatch RepairLifecycleStatus_enum en matcher"

lemma RepairLifecycleStatus_ok: "enum_ok RepairLifecycleStatus_enum"
  by (simp add: enum_tables RepairLifecycleStatus_enum_def all_RepairLifecycleStatus_def RepairLifecycleStatusNameMap_def validRepairLifecycleStatus_def namesRepairLifecycleStatus_def RepairLifecycleStatusNamesMap_def)

datatype ClientEventType =
    CLIENTEVENTTYPEHELO | CLIENTEVENTTYPEREPAIRLIFECYCLE | CLIENTEVENTTYPEPROBLEMLIFECYCLE
  | InvalidClientEventType

definition all_ClientEventType :: "ClientEventType list" where
  "all_ClientEventType =
     [CLIENTEVENTTYPEHELO, CLIENTEVENTTYPEREPAIRLIFECYCLE, CLIENTEVENTTYPEPROBLEMLIFECYCLE]"

definition ClientEventTypeNameMap :: "(string \<times> ClientEventType) list" where
  "ClientEventTypeNameMap =
     [(''helo'', CLIENTEVENTTYPEHELO), (''repair_lifecycle'', CLIENTEVENTTYPEREPAIRLIFECYCLE),
      (''problem_lifecycle'', CLIENTEVENTTYPEPROBLEMLIFECYCLE)]"

definition validClientEventType :: "ClientEventType list" where
  "validClientEventType =
     [CLIENTEVENTTYPEHELO, CLIENTEVENTTYPEREPAIRLIFECYCLE, CLIENTEVENTTYPEPROBLEMLIFECYCLE]"

definition namesClientEventType :: "string" where
  "namesClientEventType =
     ''helorepair_lifecycleproblem_lifecycle''"

definition ClientEventTypeNamesMap :: "(ClientEventType \<times> string) list" where
  "ClientEventTypeNamesMap =
     [(CLIENTEVENTTYPEHELO, slice namesClientEventType 0 4),
      (CLIENTEVENTTYPEREPAIRLIFECYCLE, slice namesClientEventType 4 20),
      (CLIENTEVENTTYPEPROBLEMLIFECYCLE, slice namesClientEventType 20 37)]"

definition ClientEventType_enum :: "ClientEventType enum" where
  "ClientEventType_enum =
     \<lparr>en_all = all_ClientEventType, en_name_map = ClientEventTypeNameMap, en_ignore_case = False,
      en_valid = validClientEventType, en_names = ClientEventTypeNamesMap, en_invalid = InvalidClientEventType,
      en_number = (\<lambda>v. ''-1''), en_type = ''clienteventtype''\<rparr>"

definition ParseClientEventType :: "ClientEventType any_value \<Rightarrow> ClientEventType res" where
  "ParseClientEventType input = enum_Parse ClientEventType_enum input"

definition ClientEventType_of_number :: "rat \<Rightarrow> ClientEventType option" where
  "ClientEventType_of_number num = numberTo ClientEventType_enum num"

definition ClientEventType_of_string :: "string \<Rightarrow> ClientEventType option" where
  "ClientEventType_of_string s = stringTo ClientEventType_enum s"

definition ClientEventType_methods :: "ClientEventType enum_methods" where
  "ClientEventType_methods = methods_of ClientEventType_enum"

lemma ClientEventType_ok: "enum_ok ClientEventType_enum"
  by (simp add: enum_tables ClientEventType_enum_def all_ClientEventType_def ClientEventTypeNameMap_def validClientEventType_def namesClientEventType_def ClientEventTypeNamesMap_def)

datatype WebEventType =
    EVENTHELLO | EVENTUPDATING | EVENTVOLUMES | EVENTHEARTBEAT | EVENTSHARES
  | EVENTDIRTYTRACKER | EVENTSMARTTESTSTATUS | EVENTFILESYSTEMTASK | EVENTERROR
  | EVENTREPAIRCOMMAND | EVENTPROBLEM | EVENTAPPCONFIGCHANGED | EVENTMDNSREGISTER
  | EVENTCOMMANDSTARTED | EVENTCOMMANDOUTPUT | EVENTCOMMANDTERMINATED | InvalidWebEventType

definition all_WebEventType :: "WebEventType list" where
  "all_WebEventType =
     [EVENTHELLO, EVENTUPDATING, EVENTVOLUMES, EVENTHEARTBEAT, EVENTSHARES, EVENTDIRTYTRACKER,
      EVENTSMARTTESTSTATUS, EVENTFILESYSTEMTASK, EVENTERROR, EVENTREPAIRCOMMAND, EVENTPROBLEM,
      EVENTAPPCONFIGCHANGED, EVENTMDNSREGISTER, EVENTCOMMANDSTARTED, EVENTCOMMANDOUTPUT,
      EVENTCOMMANDTERMINATED]"

definition WebEventTypeNameMap :: "(string \<times> WebEventType) list" where
  "WebEventTypeNameMap =
     [(''hello'', EVENTHELLO), (''updating'', EVENTUPDATING), (''volumes'', EVENTVOLUMES),
      (''heartbeat'', EVENTHEARTBEAT), (''shares'', EVENTSHARES),
      (''dirty_data_tracker'', EVENTDIRTYTRACKER),
      (''smart_test_status'', EVENTSMARTTESTSTATUS), (''filesystem_task'', EVENTFILESYSTEMTASK),
      (''error'', EVENTERROR), (''repair_command'', EVENTREPAIRCOMMAND),
      (''problem'', EVENTPROBLEM), (''app_config_changed'', EVENTAPPCONFIGCHANGED),
      (''mdns_register'', EVENTMDNSREGISTER), (''command_started'', EVENTCOMMANDSTARTED),
      (''command_output'', EVENTCOMMANDOUTPUT), (''command_terminated'', EVENTCOMMANDTERMINATED)]"

definition validWebEventType :: "WebEventType list" where
  "validWebEventType =
     [EVENTHELLO, EVENTUPDATING, EVENTVOLUMES, EVENTHEARTBEAT, EVENTSHARES, EVENTDIRTYTRACKER,
      EVENTSMARTTESTSTATUS, EVENTFILESYSTEMTASK, EVENTERROR, EVENTREPAIRCOMMAND, EVENTPROBLEM,
      EVENTAPPCONFIGCHANGED, EVENTMDNSREGISTER, EVENTCOMMANDSTARTED, EVENTCOMMANDOUTPUT,
      EVENTCOMMANDTERMINATED]"

definition namesWebEventType :: "string" where
  "namesWebEventType =
     ''helloupdatingvolumesheartbeatsharesdirty_data_trackersmart_test_statusfilesystem_taskerrorrepair_commandproblemapp_config_changedmdns_registercommand_startedcommand_outputcommand_terminated''"

definition WebEventTypeNamesMap :: "(WebEventType \<times> string) list" where
  "WebEventTypeNamesMap =
     [(EVENTHELLO, slice namesWebEventType 0 5), (EVENTUPDATING, slice namesWebEventType 5 13),
      (EVENTVOLUMES, slice namesWebEventType 13 20),
      (EVENTHEARTBEAT, slice namesWebEventType 20 29),
      (EVENTSHARES, slice namesWebEventType 29 35),
      (EVENTDIRTYTRACKER, slice namesWebEventType 35 53),
      (EVENTSMARTTESTSTATUS, slice namesWebEventType 53 70),
      (EVENTFILESYSTEMTASK, slice namesWebEventType 70 85),
      (EVENTERROR, slice namesWebEventType 85 90),
      (EVENTREPAIRCOMMAND, slice namesWebEventType 90 104),
      (EVENTPROBLEM, slice namesWebEventType 104 111),
      (EVENTAPPCONFIGCHANGED, slice namesWebEventType 111 129),
      (EVENTMDNSREGISTER, slice namesWebEventType 129 142),
      (EVENTCOMMANDSTARTED, slice namesWebEventType 142 157),
      (EVENTCOMMANDOUTPUT, slice namesWebEventType 157 171),
      (EVENTCOMMANDTERMINATED, slice namesWebEventType 171 189)]"

definition WebEventType_enum :: "WebEventType enum" where
  "WebEventType_enum =
     \<lparr>en_all = all_WebEventType, en_name_map = WebEventTypeNameMap, en_ignore_case = False,
      en_valid = validWebEventType, en_names = WebEventTypeNamesMap, en_invalid = InvalidWebEventType,
      en_number = (\<lambda>v. ''-1''), en_type = ''webeventtype''\<rparr>"

definition ParseWebEventType :: "WebEventType any_value \<Rightarrow> WebEventType res" where
  "ParseWebEventType input = enum_Parse WebEventType_enum input"

definition WebEventType_of_number :: "rat \<Rightarrow> WebEventType option" where
  "WebEventType_of_number num = numberTo WebEventType_enum num"

definition WebEventType_of_string :: "string \<Rightarrow> WebEventType option" where
  "WebEventType_of_string s = stringTo WebEventType_enum s"

definition WebEventType_methods :: "WebEventType enum_methods" where
  "WebEventType_methods = methods_of WebEventType_enum"

lemma WebEventType_ok: "enum_ok WebEventType_enum"
  by (simp add: enum_tables WebEventType_enum_def all_WebEventType_def WebEventTypeNameMap_def validWebEventType_def namesWebEventType_def WebEventTypeNamesMap_def)

datatype EventType =
    EVENTTYPEADD | EVENTTYPEREMOVE | EVENTTYPEUPDATE | EVENTTYPERESTART | EVENTTYPEERROR
  | EVENTTYPECLEAN | EVENTTYPESTART | EVENTTYPESTOP | EVENTTYPECONNECTED
  | EVENTTYPEDISCONNECTED | InvalidEventType

definition all_EventType :: "EventType list" where
  "all_EventType =
     [EVENTTYPEADD, EVENTTYPEREMOVE, EVENTTYPEUPDATE, EVENTTYPERESTART, EVENTTYPEERROR,
      EVENTTYPECLEAN, EVENTTYPESTART, EVENTTYPESTOP, EVENTTYPECONNECTED, EVENTTYPEDISCONNECTED]"

definition EventTypeNameMap :: "(string \<times> EventType) list" where
  "EventTypeNameMap =
     [(''add'', EVENTTYPEADD), (''remove'', EVENTTYPEREMOVE), (''update'', EVENTTYPEUPDATE),
      (''restart'', EVENTTYPERESTART), (''error'', EVENTTYPEERROR), (''clean'', EVENTTYPECLEAN),
      (''start'', EVENTTYPESTART), (''stop'', EVENTTYPESTOP),
      (''connected'', EVENTTYPECONNECTED), (''disconnected'', EVENTTYPEDISCONNECTED)]"

definition validEventType :: "EventType list" where
  "validEventType =
     [EVENTTYPEADD, EVENTTYPEREMOVE, EVENTTYPEUPDATE, EVENTTYPERESTART, EVENTTYPEERROR,
      EVENTTYPECLEAN, EVENTTYPESTART, EVENTTYPESTOP, EVENTTYPECONNECTED, EVENTTYPEDISCONNECTED]"

definition namesEventType :: "string" where
  "namesEventType =
     ''addremoveupdaterestarterrorcleanstartstopconnecteddisconnected''"

definition EventTypeNamesMap :: "(EventType \<times> string) list" where
  "EventTypeNamesMap =
     [(EVENTTYPEADD, slice namesEventType 0 3), (EVENTTYPEREMOVE, slice namesEventType 3 9),
      (EVENTTYPEUPDATE, slice namesEventType 9 15),
      (EVENTTYPERESTART, slice namesEventType 15 22),
      (EVENTTYPEERROR, slice namesEventType 22 27),
      (EVENTTYPECLEAN, slice namesEventType 27 32),
      (EVENTTYPESTART, slice namesEventType 32 37), (EVENTTYPESTOP, slice namesEventType 37 41),
      (EVENTTYPECONNECTED, slice namesEventType 41 50),
      (EVENTTYPEDISCONNECTED, slice namesEventType 50 62)]"

definition EventType_enum :: "EventType enum" where
  "EventType_enum =
     \<lparr>en_all = all_EventType, en_name_map = EventTypeNameMap, en_ignore_case = False,
      en_valid = validEventType, en_names = EventTypeNamesMap, en_invalid = InvalidEventType,
      en_number = (\<lambda>v. ''-1''), en_type = ''eventtype''\<rparr>"

definition ParseEventType :: "EventType any_value \<Rightarrow> EventType res" where
  "ParseEventType input = enum_Parse EventType_enum input"

definition EventType_of_number :: "rat \<Rightarrow> EventType option" where
  "EventType_of_number num = numberTo EventType_enum num"

definition EventType_of_string :: "string \<Rightarrow> EventType option" where
  "EventType_of_string s = stringTo EventType_enum s"

definition EventType_methods :: "EventType enum_methods" where
  "EventType_methods = methods_of EventType_enum"

lemma EventType_ok: "enum_ok EventType_enum"
  by (simp add: enum_tables EventType_enum_def all_EventType_def EventTypeNameMap_def validEventType_def namesEventType_def EventTypeNamesMap_def)

section \<open>Fields of the values\<close>

definition ProblemType_Description :: "(ProblemType \<times> string) list" where
  "ProblemType_Description =
     [(PROBLEMTYPEFRONTENDUI, ''Frontend UI''), (PROBLEMTYPEHAINTEGRATION, ''HA Integration''),
      (PROBLEMTYPEADDONCRASH, ''Addon Crash''), (PROBLEMTYPEADDONUPDATE, ''Addon Update''),
      (PROBLEMTYPEADDONSTARTUP, ''Addon Startup''),
      (PROBLEMTYPEADDONFUNCTIONALITY, ''Addon Functionality''),
      (PROBLEMTYPEINSTALLATION, ''Installation''), (PROBLEMTYPEPERFORMANCE, ''Performance''),
      (PROBLEMTYPESECURITY, ''Security''), (PROBLEMTYPEINTEGRATION, ''Integration''),
      (PROBLEMTYPEDOCUMENTATION, ''Documentation''), (PROBLEMTYPESAMBA, ''Samba''),
      (PROBLEMTYPEOTHER, ''Other'')]"

definition ProblemType_IssueTitle :: "(ProblemType \<times> string) list" where
  "ProblemType_IssueTitle =
     [(PROBLEMTYPEFRONTENDUI, ''[UI]''), (PROBLEMTYPEHAINTEGRATION, ''[HA Integration]''),
      (PROBLEMTYPEADDONCRASH, ''[SambaNas2]''), (PROBLEMTYPEADDONUPDATE, ''[SambaNas2]''),
      (PROBLEMTYPEADDONSTARTUP, ''[SambaNas2]''),
      (PROBLEMTYPEADDONFUNCTIONALITY, ''[SambaNas2]''),
      (PROBLEMTYPEINSTALLATION, ''[Installation]''),
      (PROBLEMTYPEPERFORMANCE, ''[Performance]''), (PROBLEMTYPESECURITY, ''[Security]''),
      (PROBLEMTYPEINTEGRATION, ''[Integration]''),
      (PROBLEMTYPEDOCUMENTATION, ''[Documentation]''), (PROBLEMTYPESAMBA, ''[Samba]''),
      (PROBLEMTYPEOTHER, ''[Other]'')]"

definition ProblemType_RepositoryUrl :: "(ProblemType \<times> string) list" where
  "ProblemType_RepositoryUrl =
     [(PROBLEMTYPEFRONTENDUI, ''https://github.com/dianlight/srat''),
      (PROBLEMTYPEHAINTEGRATION, ''https://github.com/dianlight/srat''),
      (PROBLEMTYPEADDONCRASH, ''https://github.com/dianlight/hassio-addons''),
      (PROBLEMTYPEADDONUPDATE, ''https://github.com/dianlight/hassio-addons''),
      (PROBLEMTYPEADDONSTARTUP, ''https://github.com/dianlight/hassio-addons''),
      (PROBLEMTYPEADDONFUNCTIONALITY, ''https://github.com/dianlight/hassio-addons''),
      (PROBLEMTYPEINSTALLATION, ''https://github.com/dianlight/srat''),
      (PROBLEMTYPEPERFORMANCE, ''https://github.com/dianlight/srat''),
      (PROBLEMTYPESECURITY, ''https://github.com/dianlight/srat''),
      (PROBLEMTYPEINTEGRATION, ''https://github.com/dianlight/srat''),
      (PROBLEMTYPEDOCUMENTATION, ''https://github.com/dianlight/srat''),
      (PROBLEMTYPESAMBA, ''https://github.com/dianlight/srat''),
      (PROBLEMTYPEOTHER, ''https://github.com/dianlight/srat'')]"

definition ProblemType_Template :: "(ProblemType \<times> string) list" where
  "ProblemType_Template =
     [(PROBLEMTYPEFRONTENDUI, ''bug_report.yaml''),
      (PROBLEMTYPEHAINTEGRATION, ''bug_report.yaml''),
      (PROBLEMTYPEADDONCRASH, ''BUG-REPORT.yml''), (PROBLEMTYPEADDONUPDATE, ''BUG-REPORT.yml''),
      (PROBLEMTYPEADDONSTARTUP, ''BUG-REPORT.yml''),
      (PROBLEMTYPEADDONFUNCTIONALITY, ''BUG-REPORT.yml''),
      (PROBLEMTYPEINSTALLATION, ''bug_report.yaml''),
      (PROBLEMTYPEPERFORMANCE, ''bug_report.yaml''), (PROBLEMTYPESECURITY, ''bug_report.yaml''),
      (PROBLEMTYPEINTEGRATION, ''bug_report.yaml''),
      (PROBLEMTYPEDOCUMENTATION, ''bug_report.yaml''), (PROBLEMTYPESAMBA, ''bug_report.yaml''),
      (PROBLEMTYPEOTHER, ''bug_report.yaml'')]"

definition SmartAttribute_Code :: "(SmartAttributeCode \<times> int) list" where
  "SmartAttribute_Code =
     [(SMARTATTRIBUTEUNDEFINED, 0), (SMARTATTRTEMPERATURECELSIUS, 194),
      (SMARTATTRPOWERONHOURS, 9), (SMARTATTRPOWERCYCLECOUNT, 12)]"

definition SmartAttribute_Type :: "(SmartAttributeCode \<times> string) list" where
  "SmartAttribute_Type =
     [(SMARTATTRIBUTEUNDEFINED, ''Unknown''), (SMARTATTRTEMPERATURECELSIUS, ''Old_age''),
      (SMARTATTRPOWERONHOURS, ''Old_age''), (SMARTATTRPOWERCYCLECOUNT, ''Old_age'')]"

definition UpdateProcessState_Name :: "(UpdateState \<times> string) list" where
  "UpdateProcessState_Name =
     [(UIdle, ''Idle''), (UChecking, ''Checking''), (UNoUpgrade, ''NoUpgrade''),
      (UUpgradeAvailable, ''Available''), (UDownloading, ''Downloading''),
      (UDownloadComplete, ''Downloaded''), (UExtracting, ''Extractiong''),
      (UExtractComplete, ''Extracted''), (UInstalling, ''Installing''),
      (UInstallComplete, ''(Ready for restart)''), (UError, ''Error'')]"

section \<open>Text forms\<close>

text \<open>C35: In every enumeration each valid value is read back from its JSON, YAML and database form, and a
  text from the database is read as that value exactly when it is the name of that value, with the case ignored
  for the update channel.\<close>

theorem enum_text_roundtrip:
  "text_faithful False TimeMachineSupport_methods \<and>
   text_faithful False HdidleEnabled_methods \<and>
   text_faithful False HdidleCommand_methods \<and>
   text_faithful False ProblemSeverity_methods \<and>
   text_faithful False ProblemLifecycleStatus_methods \<and>
   text_faithful True UpdateChannel_methods \<and>
   text_faithful False UpdateProcessState_methods \<and>
   text_faithful False TelemetryMode_methods \<and>
   text_faithful False SmartMode_methods \<and>
   text_faithful False SmartTestType_methods \<and>
   text_faithful False SmartAttributeCode_methods \<and>
   text_faithful False IssueSeverity_methods \<and>
   text_faithful False ProblemType_methods \<and>
   text_faithful False RepairCommandAction_methods \<and>
   text_faithful False RepairIssueSeverity_methods \<and>
   text_faithful False RepairLifecycleStatus_methods \<and>
   text_faithful False ClientEventType_methods \<and>
   text_faithful False WebEventType_methods \<and>
   text_faithful False EventType_methods"
proof (intro conjI)
  show "text_faithful False TimeMachineSupport_methods"
    using text_faithful_methods [OF TimeMachineSupport_ok] by (simp add: TimeMachineSupport_methods_def TimeMachineSupport_enum_def)
  show "text_faithful False HdidleEnabled_methods"
    using text_faithful_methods [OF HdidleEnabled_ok] by (simp add: HdidleEnabled_methods_def HdidleEnabled_enum_def)
  show "text_faithful False HdidleCommand_methods"
    using text_faithful_methods [OF HdidleCommand_ok] by (simp add: HdidleCommand_methods_def HdidleCommand_enum_def)
  show "text_faithful False ProblemSeverity_methods"
    using text_faithful_methods [OF ProblemSeverity_ok] by (simp add: ProblemSeverity_methods_def ProblemSeverity_enum_def)
  show "text_faithful False ProblemLifecycleStatus_methods"
    using text_faithful_methods [OF ProblemLifecycleStatus_ok] by (simp add: ProblemLifecycleStatus_methods_def ProblemLifecycleStatus_enum_def)
  show "text_faithful True UpdateChannel_methods"
    using text_faithful_methods [OF UpdateChannel_ok] by (simp add: UpdateChannel_methods_def UpdateChannel_enum_def)
  show "text_faithful False UpdateProcessState_methods"
    using text_faithful_methods [OF UpdateProcessState_ok] by (simp add: UpdateProcessState_methods_def UpdateProcessState_enum_def)
  show "text_faithful False TelemetryMode_methods"
    using text_faithful_methods [OF TelemetryMode_ok] by (simp add: TelemetryMode_methods_def TelemetryMode_enum_def)
  show "text_faithful False SmartMode_methods"
    using text_faithful_methods [OF SmartMode_ok] by (simp add: SmartMode_methods_def SmartMode_enum_def)
  show "text_faithful False SmartTestType_methods"
    using text_faithful_methods [OF SmartTestType_ok] by (simp add: SmartTestType_methods_def SmartTestType_enum_def)
  show "text_faithful False SmartAttributeCode_methods"
    using text_faithful_methods [OF SmartAttributeCode_ok] by (simp add: SmartAttributeCode_methods_def SmartAttributeCode_enum_def)
  show "text_faithful False IssueSeverity_methods"
    using text_faithful_methods [OF IssueSeverity_ok] by (simp add: IssueSeverity_methods_def IssueSeverity_enum_def)
  show "text_faithful False ProblemType_methods"
    using text_faithful_methods [OF ProblemType_ok] by (simp add: ProblemType_methods_def ProblemType_enum_def)
  show "text_faithful False RepairCommandAction_methods"
    using text_faithful_methods [OF RepairCommandAction_ok] by (simp add: RepairCommandAction_methods_def RepairCommandAction_enum_def)
  show "text_faithful False RepairIssueSeverity_methods"
    using text_faithful_methods [OF RepairIssueSeverity_ok] by (simp add: RepairIssueSeverity_methods_def RepairIssueSeverity_enum_def)
  show "text_faithful False RepairLifecycleStatus_methods"
    using text_faithful_methods [OF RepairLifecycleStatus_ok] by (simp add: RepairLifecycleStatus_methods_def RepairLifecycleStatus_enum_def)
  show "text_faithful False ClientEventType_methods"
    using text_faithful_methods [OF ClientEventType_ok] by (simp add: ClientEventType_methods_def ClientEventType_enum_def)
  show "text_faithful False WebEventType_methods"
    using text_faithful_methods [OF WebEventType_ok] by (simp add: WebEventType_methods_def WebEventType_enum_def)
  show "text_faithful False EventType_methods"
    using text_faithful_methods [OF EventType_ok] by (simp add: EventType_methods_def EventType_enum_def)
qed

text \<open>The text form does not come back, and numbers are off by one.\<close>

lemma telemetry_text_lost:
  "m_UnmarshalText TelemetryMode_methods (m_MarshalText TelemetryMode_methods TELEMETRYMODEERRORS) = Ok InvalidTelemetryMode"
  using text_form_lost [OF TelemetryMode_ok, of TELEMETRYMODEERRORS]
  by (simp add: TelemetryMode_methods_def methods_of_def TelemetryMode_enum_def all_TelemetryMode_def)

lemma smart_mode_number: "SmartMode_of_number 1 = Some SMARTMODENONE" "SmartMode_of_number 0 = None"
  using number_off_by_one [OF SmartMode_ok, of 0]
  by (simp_all add: SmartMode_of_number_def SmartMode_enum_def all_SmartMode_def)

end
