(* ===== verification/Settings.thy ===== *)
theory Settings
  imports Enums
begin

text \<open>
  The settings (\<open>service/setting_service.go\<close>, \<open>dto/settings.go\<close>, \<open>dbom/property.go\<close> and the two
  conversions of \<open>converter/dto_to_dbom_conv.go\<close>): a record that is stored as one row per field.

  The table of properties, the lookup of system commands, the library that fills in the defaults
  of the structure tags and the environment of the program are parameters. A property value is
  the JSON value the table holds; \<open>None\<close> is a nil slice or a nil pointer.
\<close>

section \<open>Data\<close>

record settings =
  sg_Hostname :: string
  sg_Workgroup :: string
  sg_AllowHost :: "string list option"
  sg_CompatibilityMode :: bool
  sg_Interfaces :: "string list option"
  sg_BindAllInterfaces :: bool
  sg_MultiChannel :: bool
  sg_AllowGuest :: "bool option"
  sg_TelemetryMode :: TelemetryMode
  sg_LocalMaster :: "bool option"
  sg_ExportStatsToHA :: "bool option"
  sg_HAUseNFS :: "bool option"
  sg_HASmbPassword :: string
  sg_SMBoverQUIC :: "bool option"
  sg_SmartMode :: SmartMode
  sg_ExperimentalLabMode :: bool
  sg_MDNSRegistration :: "bool option"

definition zero_settings :: settings where
  "zero_settings =
     \<lparr>sg_Hostname = [], sg_Workgroup = [], sg_AllowHost = None, sg_CompatibilityMode = False,
      sg_Interfaces = None, sg_BindAllInterfaces = False, sg_MultiChannel = False,
      sg_AllowGuest = None, sg_TelemetryMode = TELEMETRYMODEASK, sg_LocalMaster = None,
      sg_ExportStatsToHA = None, sg_HAUseNFS = None, sg_HASmbPassword = [], sg_SMBoverQUIC = None,
      sg_SmartMode = SMARTMODENONE, sg_ExperimentalLabMode = False, sg_MDNSRegistration = None\<rparr>"

datatype prop_value =
  PNull | PBool bool | PStr string | PNum rat | PList "prop_value list" | PObject

type_synonym properties = "(string, prop_value) gomap"

text \<open>The table: each query may fail.\<close>

record 'd prop_db =
  pd_Find :: "'d \<Rightarrow> (string \<times> prop_value) list res"
  pd_Updates :: "string \<times> prop_value \<Rightarrow> 'd \<Rightarrow> nat res \<times> 'd"
  pd_Create :: "string \<times> prop_value \<Rightarrow> 'd \<Rightarrow> unit res \<times> 'd"

record 'd setting_env =
  se_db :: "'d prop_db"
  se_commandExists :: "string list \<Rightarrow> bool"
  se_defaults_Set :: "settings \<Rightarrow> settings res"
  se_Environment :: string

record 'd setting_service =
  st_db :: 'd
  st_events :: "settings list"

section \<open>Settings to properties\<close>

definition list_value :: "string list option \<Rightarrow> prop_value" where
  "list_value xs = (case xs of None \<Rightarrow> PNull | Some ys \<Rightarrow> PList (map PStr ys))"

definition ptr_value :: "bool option \<Rightarrow> prop_value" where
  "ptr_value b = (case b of None \<Rightarrow> PNull | Some v \<Rightarrow> PBool v)"

definition field_values :: "settings \<Rightarrow> properties" where
  "field_values s =
     [(''Hostname'', PStr (sg_Hostname s)),
      (''Workgroup'', PStr (sg_Workgroup s)),
      (''AllowHost'', list_value (sg_AllowHost s)),
      (''CompatibilityMode'', PBool (sg_CompatibilityMode s)),
      (''Interfaces'', list_value (sg_Interfaces s)),
      (''BindAllInterfaces'', PBool (sg_BindAllInterfaces s)),
      (''MultiChannel'', PBool (sg_MultiChannel s)),
      (''AllowGuest'', ptr_value (sg_AllowGuest s)),
      (''TelemetryMode'', PStr (m_Value TelemetryMode_methods (sg_TelemetryMode s))),
      (''LocalMaster'', ptr_value (sg_LocalMaster s)),
      (''ExportStatsToHA'', ptr_value (sg_ExportStatsToHA s)),
      (''HAUseNFS'', ptr_value (sg_HAUseNFS s)),
      (''HASmbPassword'', PStr (sg_HASmbPassword s)),
      (''SMBoverQUIC'', ptr_value (sg_SMBoverQUIC s)),
      (''SmartMode'', PStr (m_Value SmartMode_methods (sg_SmartMode s))),
      (''ExperimentalLabMode'', PBool (sg_ExperimentalLabMode s)),
      (''MDNSRegistration'', ptr_value (sg_MDNSRegistration s))]"

definition SettingsToProperties :: "settings \<Rightarrow> properties \<Rightarrow> properties" where
  "SettingsToProperties source target = foldl (\<lambda>t (k, v). AList.update k v t) target (field_values source)"

section \<open>Properties to settings\<close>

definition type_mismatch :: "string \<Rightarrow> 'a res" where
  "type_mismatch key = Err (E ErrorOther (''Type mismatch for field: '' @ key))"

definition read_string :: "string \<Rightarrow> prop_value \<Rightarrow> string res" where
  "read_string key v = (case v of PNull \<Rightarrow> Ok [] | PStr s \<Rightarrow> Ok s | _ \<Rightarrow> type_mismatch key)"

definition read_bool :: "string \<Rightarrow> prop_value \<Rightarrow> bool res" where
  "read_bool key v = (case v of PNull \<Rightarrow> Ok False | PBool b \<Rightarrow> Ok b | _ \<Rightarrow> type_mismatch key)"

definition read_ptr :: "string \<Rightarrow> prop_value \<Rightarrow> bool option res" where
  "read_ptr key v = (case v of PNull \<Rightarrow> Ok None | PBool b \<Rightarrow> Ok (Some b) | _ \<Rightarrow> type_mismatch key)"

text \<open>Elements are appended to the value the field has; one that is no string panics.\<close>

fun append_strings :: "string list option \<Rightarrow> prop_value list \<Rightarrow> string list option res" where
  "append_strings old [] = Ok old"
| "append_strings old (PStr s # vs) = append_strings (Some (case old of None \<Rightarrow> [s] | Some xs \<Rightarrow> xs @ [s])) vs"
| "append_strings old (v # vs) = Panic"

definition read_list :: "string list option \<Rightarrow> prop_value \<Rightarrow> string list option res" where
  "read_list old v = (case v of PNull \<Rightarrow> Ok None | PList vs \<Rightarrow> append_strings old vs | _ \<Rightarrow> Panic)"

definition any_of_prop :: "prop_value \<Rightarrow> 'e any_value" where
  "any_of_prop v = (case v of PStr s \<Rightarrow> AnyString s | PNum n \<Rightarrow> AnyNumber n | _ \<Rightarrow> AnyOther)"

definition read_enum :: "'e \<Rightarrow> 'e enum_methods \<Rightarrow> prop_value \<Rightarrow> 'e res" where
  "read_enum zero m v = (if v = PNull then Ok zero else m_Scan m (any_of_prop v))"

definition read_secret :: "prop_value \<Rightarrow> string res" where
  "read_secret v = (case v of PNull \<Rightarrow> Ok [] | PStr s \<Rightarrow> Ok s | _ \<Rightarrow> Panic)"

definition map_res :: "('a \<Rightarrow> 'b) \<Rightarrow> 'a res \<Rightarrow> 'b res" where
  "map_res f r = (case r of Ok x \<Rightarrow> Ok (f x) | Err e \<Rightarrow> Err e | Panic \<Rightarrow> Panic)"

definition set_field :: "string \<Rightarrow> prop_value \<Rightarrow> settings \<Rightarrow> settings res" where
  "set_field key v s =
     (if key = ''Hostname'' then map_res (\<lambda>x. s\<lparr>sg_Hostname := x\<rparr>) (read_string key v)
      else if key = ''Workgroup'' then map_res (\<lambda>x. s\<lparr>sg_Workgroup := x\<rparr>) (read_string key v)
      else if key = ''AllowHost'' then map_res (\<lambda>x. s\<lparr>sg_AllowHost := x\<rparr>) (read_list (sg_AllowHost s) v)
      else if key = ''CompatibilityMode'' then map_res (\<lambda>x. s\<lparr>sg_CompatibilityMode := x\<rparr>) (read_bool key v)
      else if key = ''Interfaces'' then map_res (\<lambda>x. s\<lparr>sg_Interfaces := x\<rparr>) (read_list (sg_Interfaces s) v)
      else if key = ''BindAllInterfaces'' then map_res (\<lambda>x. s\<lparr>sg_BindAllInterfaces := x\<rparr>) (read_bool key v)
      else if key = ''MultiChannel'' then map_res (\<lambda>x. s\<lparr>sg_MultiChannel := x\<rparr>) (read_bool key v)
      else if key = ''AllowGuest'' then map_res (\<lambda>x. s\<lparr>sg_AllowGuest := x\<rparr>) (read_ptr key v)
      else if key = ''TelemetryMode'' then
        map_res (\<lambda>x. s\<lparr>sg_TelemetryMode := x\<rparr>) (read_enum TELEMETRYMODEASK TelemetryMode_methods v)
      else if key = ''LocalMaster'' then map_res (\<lambda>x. s\<lparr>sg_LocalMaster := x\<rparr>) (read_ptr key v)
      else if key = ''ExportStatsToHA'' then map_res (\<lambda>x. s\<lparr>sg_ExportStatsToHA := x\<rparr>) (read_ptr key v)
      else if key = ''HAUseNFS'' then map_res (\<lambda>x. s\<lparr>sg_HAUseNFS := x\<rparr>) (read_ptr key v)
      else if key = ''HASmbPassword'' then map_res (\<lambda>x. s\<lparr>sg_HASmbPassword := x\<rparr>) (read_secret v)
      else if key = ''SMBoverQUIC'' then map_res (\<lambda>x. s\<lparr>sg_SMBoverQUIC := x\<rparr>) (read_ptr key v)
      else if key = ''SmartMode'' then
        map_res (\<lambda>x. s\<lparr>sg_SmartMode := x\<rparr>) (read_enum SMARTMODENONE SmartMode_methods v)
      else if key = ''ExperimentalLabMode'' then
        map_res (\<lambda>x. s\<lparr>sg_ExperimentalLabMode := x\<rparr>) (read_bool key v)
      else if key = ''MDNSRegistration'' then map_res (\<lambda>x. s\<lparr>sg_MDNSRegistration := x\<rparr>) (read_ptr key v)
      else Ok s)"

text \<open>The fields set before a failure stay set.\<close>

fun PropertiesToSettings :: "properties \<Rightarrow> settings \<Rightarrow> settings \<times> unit res" where
  "PropertiesToSettings [] s = (s, Ok ())"
| "PropertiesToSettings ((k, v) # ps) s =
     (case set_field k v s of
        Ok s1 \<Rightarrow> PropertiesToSettings ps s1
      | Err e \<Rightarrow> (s, Err e)
      | Panic \<Rightarrow> (s, Panic))"

section \<open>Loading\<close>

definition Populate :: "properties \<Rightarrow> (string \<times> prop_value) list \<Rightarrow> properties" where
  "Populate props rows = foldl (\<lambda>t (k, v). AList.update k v t) props rows"

definition defaultExperimentalLabMode :: "'d setting_env \<Rightarrow> bool" where
  "defaultExperimentalLabMode env = (se_Environment env \<noteq> ''production'')"

definition Load :: "'d setting_env \<Rightarrow> 'd \<Rightarrow> settings \<times> unit res" where
  "Load env d =
     (case pd_Find (se_db env) d of
        Err e \<Rightarrow> (zero_settings, Err e)
      | Panic \<Rightarrow> (zero_settings, Panic)
      | Ok rows \<Rightarrow>
          let props = Populate [] rows in
          case PropertiesToSettings props zero_settings of
            (s, Ok _) \<Rightarrow>
              (case se_defaults_Set env s of
                 Ok s1 \<Rightarrow>
                   let s2 = (if map_of props ''ExperimentalLabMode'' = None
                             then s1\<lparr>sg_ExperimentalLabMode := defaultExperimentalLabMode env\<rparr> else s1);
                       s3 = (if map_of props ''SmartMode'' = None
                             then s2\<lparr>sg_SmartMode := SMARTMODELEGACY\<rparr> else s2)
                   in (s3, Ok ())
               | Err e \<Rightarrow> (s, Err e)
               | Panic \<Rightarrow> (s, Panic))
          | (s, r) \<Rightarrow> (s, r))"

section \<open>Updating\<close>

definition ValidateSettings :: "'d setting_env \<Rightarrow> settings \<Rightarrow> settings" where
  "ValidateSettings env s =
     (if sg_HAUseNFS s = Some True \<and> \<not> se_commandExists env [''exportfs'']
      then s\<lparr>sg_HAUseNFS := Some False\<rparr> else s)"

text \<open>The hook the database runs before a row is written.\<close>

definition Property_BeforeSave :: "string \<times> prop_value \<Rightarrow> err option" where
  "Property_BeforeSave prop =
     (if fst prop = ''HASmbPassword'' \<and> snd prop = PStr [quote, quote]
      then Some (E ErrorOther ''invalid data'') else None)"

definition save_property :: "'d setting_env \<Rightarrow> string \<times> prop_value \<Rightarrow> 'd \<Rightarrow> unit res \<times> 'd" where
  "save_property env prop d =
     (case Property_BeforeSave prop of
        Some e \<Rightarrow> (Err e, d)
      | None \<Rightarrow>
          (case pd_Updates (se_db env) prop d of
             (Err e, d1) \<Rightarrow> (Err e, d1)
           | (Panic, d1) \<Rightarrow> (Panic, d1)
           | (Ok n, d1) \<Rightarrow> if n = 0 then pd_Create (se_db env) prop d1 else (Ok (), d1)))"

fun save_properties :: "'d setting_env \<Rightarrow> properties \<Rightarrow> 'd \<Rightarrow> unit res \<times> 'd" where
  "save_properties env [] d = (Ok (), d)"
| "save_properties env (p # ps) d =
     (case save_property env p d of
        (Ok _, d1) \<Rightarrow> save_properties env ps d1
      | (r, d1) \<Rightarrow> (r, d1))"

definition keep_password :: "'d setting_env \<Rightarrow> 'd \<Rightarrow> settings \<Rightarrow> settings" where
  "keep_password env d s =
     (if sg_HASmbPassword s = [] then
        case Load env d of
          (existing, Ok _) \<Rightarrow>
            if sg_HASmbPassword existing \<noteq> [] then s\<lparr>sg_HASmbPassword := sg_HASmbPassword existing\<rparr> else s
        | _ \<Rightarrow> s
      else s)"

text \<open>
  The caller's record is changed in place, so it is returned; the transaction gives back the table
  as it was unless it succeeds. Loading comes first and panics on a value it cannot read.
\<close>

definition UpdateSettings ::
  "'d setting_env \<Rightarrow> settings \<Rightarrow> 'd setting_service \<Rightarrow> (unit res \<times> settings) \<times> 'd setting_service" where
  "UpdateSettings env setting s =
     (if sg_HASmbPassword setting = [] \<and> snd (Load env (st_db s)) = Panic then ((Panic, setting), s)
      else
        let s1 = ValidateSettings env (keep_password env (st_db s) setting) in
        case save_properties env (SettingsToProperties s1 []) (st_db s) of
          (Ok _, d) \<Rightarrow> ((Ok (), s1), s\<lparr>st_db := d, st_events := st_events s @ [s1]\<rparr>)
        | (r, d) \<Rightarrow> ((r, s1), s))"

text \<open>At start the settings, with their defaults, are written back.\<close>

definition NewSettingService :: "'d setting_env \<Rightarrow> 'd \<Rightarrow> unit res \<times> 'd setting_service" where
  "NewSettingService env d =
     (let s = \<lparr>st_db = d, st_events = []\<rparr> in
      case Load env d of
        (setting, Ok _) \<Rightarrow>
          (case UpdateSettings env setting s of ((Panic, _), s1) \<Rightarrow> (Panic, s1) | (_, s1) \<Rightarrow> (Ok (), s1))
      | (setting, Err e) \<Rightarrow> (Ok (), s)
      | (setting, Panic) \<Rightarrow> (Panic, s))"

end
