(* ===== verification/Nt_Hash.thy ===== *)
theory Nt_Hash
  imports Go_Strings
begin

unbundle bit_operations_syntax

text \<open>
  The NT password hash (\<open>internal/osutil/nthash.go\<close>): MD4 of the password in UTF-16, little
  endian, as upper case hexadecimal digits.
\<close>

section \<open>The block function\<close>

definition md4RotL :: "32 word \<Rightarrow> nat \<Rightarrow> 32 word" where
  "md4RotL x n = push_bit n x OR drop_bit (32 - n) x"

definition md4F :: "32 word \<Rightarrow> 32 word \<Rightarrow> 32 word \<Rightarrow> 32 word" where
  "md4F x y z = (x AND y) OR (NOT x AND z)"

definition md4G :: "32 word \<Rightarrow> 32 word \<Rightarrow> 32 word \<Rightarrow> 32 word" where
  "md4G x y z = (x AND y) OR (x AND z) OR (y AND z)"

definition md4H :: "32 word \<Rightarrow> 32 word \<Rightarrow> 32 word \<Rightarrow> 32 word" where
  "md4H x y z = x XOR y XOR z"

type_synonym md4_state = "32 word \<times> 32 word \<times> 32 word \<times> 32 word"

text \<open>Four lines of a round: \<open>a\<close>, \<open>d\<close>, \<open>c\<close>, \<open>b\<close> in turn, with words \<open>i\<close>, \<open>j\<close>, \<open>k\<close>, \<open>l\<close>.\<close>

definition md4_lines ::
  "(32 word \<Rightarrow> 32 word \<Rightarrow> 32 word \<Rightarrow> 32 word) \<Rightarrow> 32 word \<Rightarrow> nat \<Rightarrow> nat \<Rightarrow> nat \<Rightarrow> nat
   \<Rightarrow> 32 word list \<Rightarrow> nat \<Rightarrow> nat \<Rightarrow> nat \<Rightarrow> nat \<Rightarrow> md4_state \<Rightarrow> md4_state" where
  "md4_lines f k s1 s2 s3 s4 m i1 i2 i3 i4 = (\<lambda>(a, b, c, d).
     let a = md4RotL (a + f b c d + m ! i1 + k) s1;
         d = md4RotL (d + f a b c + m ! i2 + k) s2;
         c = md4RotL (c + f d a b + m ! i3 + k) s3;
         b = md4RotL (b + f c d a + m ! i4 + k) s4
     in (a, b, c, d))"

definition md4_c1 :: "32 word" where "md4_c1 = 0x5A827999"

definition md4_c2 :: "32 word" where "md4_c2 = 0x6ED9EBA1"

definition md4Block :: "md4_state \<Rightarrow> 32 word list \<Rightarrow> md4_state" where
  "md4Block s m =
     (let r1 = md4_lines md4F 0 3 7 11 19 m;
          r2 = md4_lines md4G md4_c1 3 5 9 13 m;
          r3 = md4_lines md4H md4_c2 3 9 11 15 m;
          s1 = r1 12 13 14 15 (r1 8 9 10 11 (r1 4 5 6 7 (r1 0 1 2 3 s)));
          s2 = r2 3 7 11 15 (r2 2 6 10 14 (r2 1 5 9 13 (r2 0 4 8 12 s1)));
          s3 = r3 3 11 7 15 (r3 1 9 5 13 (r3 2 10 6 14 (r3 0 8 4 12 s2)))
      in case (s, s3) of ((aa, bb, cc, dd), (a, b, c, d)) \<Rightarrow> (aa + a, bb + b, cc + c, dd + d))"

section \<open>The digest\<close>

type_synonym byte = "8 word"

text \<open>\<open>for len(data) % 64 != 56\<close>\<close>

function md4_pad :: "byte list \<Rightarrow> byte list" where
  "md4_pad dat = (if length dat mod 64 = 56 then dat else md4_pad (dat @ [0]))"
  by auto

definition pad_missing :: "nat \<Rightarrow> nat" where
  "pad_missing r = (if r \<le> 56 then 56 - r else 120 - r)"

termination md4_pad
proof (relation "measure (\<lambda>dat. pad_missing (length dat mod 64))", simp)
  fix dat :: "byte list"
  assume no: "length dat mod 64 \<noteq> 56"
  define r where "r = length dat mod 64"
  have r: "r < 64" "r \<noteq> 56" using no by (simp_all add: r_def)
  have l: "length (dat @ [0 :: byte]) mod 64 = (if r = 63 then 0 else r + 1)"
    by (simp add: r_def mod_Suc)
  have "pad_missing (if r = 63 then 0 else r + 1) < pad_missing r"
    using r by (auto simp: pad_missing_def)
  then show "(dat @ [0], dat) \<in> measure (\<lambda>dat. pad_missing (length dat mod 64))"
    unfolding in_measure l r_def .
qed

declare md4_pad.simps [simp del]

text \<open>\<open>binary.LittleEndian\<close>\<close>

definition put_le :: "nat \<Rightarrow> 'a :: len word \<Rightarrow> byte list" where
  "put_le n v = map (\<lambda>i. ucast (drop_bit (8 * i) v)) [0..<n]"

definition get_le32 :: "byte list \<Rightarrow> 32 word" where
  "get_le32 bs = ucast (bs ! 0) OR push_bit 8 (ucast (bs ! 1)) OR push_bit 16 (ucast (bs ! 2))
     OR push_bit 24 (ucast (bs ! 3))"

definition block_words :: "byte list \<Rightarrow> nat \<Rightarrow> 32 word list" where
  "block_words dat i = map (\<lambda>j. get_le32 (drop (i + j * 4) dat)) [0..<16]"

function md4_blocks :: "byte list \<Rightarrow> nat \<Rightarrow> md4_state \<Rightarrow> md4_state" where
  "md4_blocks dat i s =
     (if i < length dat then md4_blocks dat (i + 64) (md4Block s (block_words dat i)) else s)"
  by auto

termination md4_blocks
  by (relation "measure (\<lambda>(dat, i, s). length dat - i)") auto

declare md4_blocks.simps [simp del]

definition md4_init :: md4_state where
  "md4_init = (0x67452301, 0xEFCDAB89, 0x98BADCFE, 0x10325476)"

definition md4Sum :: "byte list \<Rightarrow> byte list" where
  "md4Sum dat =
     (let msgLen = (of_nat (length dat) :: 64 word);
          padded = md4_pad (dat @ [0x80]) @ put_le 8 (msgLen * 8)
      in case md4_blocks padded 0 md4_init of
           (a, b, c, d) \<Rightarrow> put_le 4 a @ put_le 4 b @ put_le 4 c @ put_le 4 d)"

section \<open>The hash of a password\<close>

definition utf16_encode :: "nat list \<Rightarrow> nat list" where
  "utf16_encode rs = concat (map (\<lambda>r.
     if r < 0x10000 then [r]
     else [0xD800 + (r - 0x10000) div 1024, 0xDC00 + (r - 0x10000) mod 1024]) rs)"

definition hex_digits :: "string" where
  "hex_digits = ''0123456789abcdef''"

definition hex_EncodeToString :: "byte list \<Rightarrow> string" where
  "hex_EncodeToString bs =
     concat (map (\<lambda>b. [hex_digits ! (unat b div 16), hex_digits ! (unat b mod 16)]) bs)"

definition NTHash :: "string \<Rightarrow> string" where
  "NTHash password =
     (let u16 = utf16_encode (runes password);
          buf = concat (map (\<lambda>c. put_le 2 (of_nat c :: 16 word)) u16)
      in ToUpper (hex_EncodeToString (md4Sum buf)))"

section \<open>The algorithm of RFC 1320\<close>

text \<open>
  The document writes one operation with rotating roles of the four registers; operation \<open>n\<close> of
  a round uses a word and a shift of that round's schedule.
\<close>

definition rfc_operation ::
  "(32 word \<Rightarrow> 32 word \<Rightarrow> 32 word \<Rightarrow> 32 word) \<Rightarrow> 32 word \<Rightarrow> 32 word list \<Rightarrow> md4_state \<Rightarrow> nat \<times> nat \<Rightarrow> md4_state"
  where
  "rfc_operation f t x reg ks = (case (reg, ks) of ((a, b, c, d), (k, s)) \<Rightarrow>
     (d, word_rotl s (a + f b c d + x ! k + t), b, c))"

definition bit_reverse4 :: "nat \<Rightarrow> nat" where
  "bit_reverse4 n = 8 * (n mod 2) + 4 * (n div 2 mod 2) + 2 * (n div 4 mod 2) + n div 8"

definition rfc_round ::
  "(32 word \<Rightarrow> 32 word \<Rightarrow> 32 word \<Rightarrow> 32 word) \<Rightarrow> 32 word \<Rightarrow> (nat \<Rightarrow> nat) \<Rightarrow> nat list \<Rightarrow> 32 word list
   \<Rightarrow> md4_state \<Rightarrow> md4_state" where
  "rfc_round f t word_of shifts x reg =
     foldl (rfc_operation f t x) reg (map (\<lambda>n. (word_of n, shifts ! (n mod 4))) [0..<16])"

definition rfc_block :: "md4_state \<Rightarrow> 32 word list \<Rightarrow> md4_state" where
  "rfc_block reg x =
     (let reg1 = rfc_round (\<lambda>x y z. (x AND y) OR (NOT x AND z)) 0 (\<lambda>n. n) [3, 7, 11, 19] x reg;
          reg2 = rfc_round (\<lambda>x y z. (x AND y) OR (x AND z) OR (y AND z)) 0x5A827999
                   (\<lambda>n. 4 * (n mod 4) + n div 4) [3, 5, 9, 13] x reg1;
          reg3 = rfc_round (\<lambda>x y z. x XOR y XOR z) 0x6ED9EBA1 bit_reverse4 [3, 9, 11, 15] x reg2
      in case (reg, reg3) of ((a, b, c, d), (a', b', c', d')) \<Rightarrow> (a + a', b + b', c + c', d + d'))"

definition rfc_padded :: "byte list \<Rightarrow> byte list" where
  "rfc_padded dat = dat @ 0x80 # replicate ((119 - length dat mod 64) mod 64) 0 @
     put_le 8 (of_nat (8 * length dat) :: 64 word)"

definition rfc_md4 :: "byte list \<Rightarrow> byte list" where
  "rfc_md4 dat =
     (let p = rfc_padded dat;
          blocks = map (\<lambda>i. block_words p (64 * i)) [0..<length p div 64]
      in case foldl rfc_block (0x67452301, 0xEFCDAB89, 0x98BADCFE, 0x10325476) blocks of
           (a, b, c, d) \<Rightarrow> concat (map (put_le 4) [a, b, c, d]))"

section \<open>The code computes the algorithm\<close>

lemma md4RotL_rotl: "0 < n \<Longrightarrow> n < 32 \<Longrightarrow> md4RotL x n = word_rotl n x"
proof (rule bit_word_eqI)
  fix i assume n: "0 < n" "n < 32" and "i < LENGTH(32)"
  then have i: "i < 32" by simp
  have r: "(i + (32 - n mod 32)) mod 32 = (if n \<le> i then i - n else i + (32 - n))"
    using n i by (auto simp: mod_if)
  have out: "\<not> bit x k" if "32 \<le> k" for k using that bit_imp_le_length [of x k] by auto
  have L: "LENGTH(32) = 32" by simp
  have "bit (word_rotl n x) i = bit x (if n \<le> i then i - n else i + (32 - n))"
    using i unfolding bit_word_rotl_iff L r by simp
  moreover have "bit (md4RotL x n) i = (n \<le> i \<and> bit x (i - n) \<or> bit x (i + (32 - n)))"
    using i by (simp add: md4RotL_def bit_or_iff bit_push_bit_iff bit_drop_bit_eq add.commute)
  ultimately show "bit (md4RotL x n) i = bit (word_rotl n x) i"
    using out [of "i + (32 - n)"] i n by auto
qed

lemma rfc_four:
  assumes "list_all (\<lambda>s. 0 < s \<and> s < 32) [s1, s2, s3, s4]"
  shows "foldl (rfc_operation f t x) reg [(i1, s1), (i2, s2), (i3, s3), (i4, s4)] =
    md4_lines f t s1 s2 s3 s4 x i1 i2 i3 i4 reg"
proof -
  obtain a b c d where "reg = (a, b, c, d)" by (metis prod.collapse)
  then show ?thesis using assms
    by (simp add: rfc_operation_def md4_lines_def md4RotL_rotl Let_def add.assoc)
qed

lemma upt16: "[0..<16] = [0, 1, 2, 3] @ [4, 5, 6, 7] @ [8, 9, 10, 11] @ [12, 13, 14, 15 :: nat]"
  by (simp add: upt_rec)

lemma bit_reverse4_values:
  "bit_reverse4 0 = 0" "bit_reverse4 1 = 8" "bit_reverse4 2 = 4" "bit_reverse4 3 = 12"
  "bit_reverse4 4 = 2" "bit_reverse4 5 = 10" "bit_reverse4 6 = 6" "bit_reverse4 7 = 14"
  "bit_reverse4 8 = 1" "bit_reverse4 9 = 9" "bit_reverse4 10 = 5" "bit_reverse4 11 = 13"
  "bit_reverse4 12 = 3" "bit_reverse4 13 = 11" "bit_reverse4 14 = 7" "bit_reverse4 15 = 15"
  by (simp_all add: bit_reverse4_def)

lemma rfc_round_lines:
  assumes "list_all (\<lambda>s. 0 < s \<and> s < 32) [s1, s2, s3, s4]"
  shows "rfc_round f t w [s1, s2, s3, s4] x reg =
    (let r = md4_lines f t s1 s2 s3 s4 x in
     r (w 12) (w 13) (w 14) (w 15) (r (w 8) (w 9) (w 10) (w 11)
       (r (w 4) (w 5) (w 6) (w 7) (r (w 0) (w 1) (w 2) (w 3) reg))))"
  unfolding rfc_round_def upt16 map_append foldl_append Let_def
  by (simp only: list.map rfc_four [OF assms, symmetric]) simp

lemma md4Block_rfc: "md4Block = rfc_block"
proof (intro ext)
  fix s m
  have r: "md4F = (\<lambda>x y z. (x AND y) OR (NOT x AND z))"
    "md4G = (\<lambda>x y z. (x AND y) OR (x AND z) OR (y AND z))"
    "md4H = (\<lambda>x y z. x XOR y XOR z)"
    by (simp_all add: fun_eq_iff md4F_def md4G_def md4H_def)
  have "rfc_round md4F 0 (\<lambda>n. n) [3, 7, 11, 19] m reg =
      (let r1 = md4_lines md4F 0 3 7 11 19 m in r1 12 13 14 15 (r1 8 9 10 11 (r1 4 5 6 7 (r1 0 1 2 3 reg))))" for reg
    by (subst rfc_round_lines) simp_all
  moreover have "rfc_round md4G md4_c1 (\<lambda>n. 4 * (n mod 4) + n div 4) [3, 5, 9, 13] m reg =
      (let r2 = md4_lines md4G md4_c1 3 5 9 13 m in r2 3 7 11 15 (r2 2 6 10 14 (r2 1 5 9 13 (r2 0 4 8 12 reg))))" for reg
    by (subst rfc_round_lines) (simp_all add: numeral_2_eq_2)
  moreover have "rfc_round md4H md4_c2 bit_reverse4 [3, 9, 11, 15] m reg =
      (let r3 = md4_lines md4H md4_c2 3 9 11 15 m in r3 3 11 7 15 (r3 1 9 5 13 (r3 2 10 6 14 (r3 0 8 4 12 reg))))" for reg
    by (subst rfc_round_lines, simp) (simp only: bit_reverse4_values)
  ultimately show "md4Block s m = rfc_block s m"
    unfolding md4Block_def rfc_block_def Let_def r [symmetric] md4_c1_def [symmetric] md4_c2_def [symmetric]
    by simp
qed

lemma md4_pad_zeros:
  "md4_pad dat = dat @ replicate (pad_missing (length dat mod 64)) 0"
proof (induction dat rule: md4_pad.induct)
  case (1 dat)
  show ?case
  proof (cases "length dat mod 64 = 56")
    case True
    then show ?thesis by (simp add: md4_pad.simps pad_missing_def)
  next
    case False
    define r where "r = length dat mod 64"
    have r: "r < 64" "r \<noteq> 56" using False by (simp_all add: r_def)
    have l: "length (dat @ [0 :: byte]) mod 64 = (if r = 63 then 0 else r + 1)"
      by (simp add: r_def mod_Suc)
    have "pad_missing r = Suc (pad_missing (if r = 63 then 0 else r + 1))"
      using r by (auto simp: pad_missing_def)
    then show ?thesis
      using 1 [OF False, unfolded l] r by (subst md4_pad.simps) (simp add: r_def [symmetric])
  qed
qed

lemma padded_rfc:
  "md4_pad (dat @ [0x80]) @ put_le 8 ((of_nat (length dat) :: 64 word) * 8) = rfc_padded dat"
proof -
  define r where "r = length dat mod 64"
  have r: "r < 64" by (simp add: r_def)
  have "length (dat @ [0x80 :: byte]) mod 64 = (if r = 63 then 0 else r + 1)"
    by (simp add: r_def mod_Suc)
  moreover have "pad_missing (if r = 63 then 0 else r + 1) = (119 - r) mod 64"
    using r by (auto simp: pad_missing_def mod_if)
  moreover have "put_le 8 ((of_nat (length dat) :: 64 word) * 8) = put_le 8 (of_nat (8 * length dat) :: 64 word)"
    by (simp add: mult.commute)
  ultimately show ?thesis by (simp only: md4_pad_zeros rfc_padded_def r_def [symmetric]) simp
qed

lemma rfc_padded_length: "64 dvd length (rfc_padded dat)"
proof -
  define r q where "r = length dat mod 64" and "q = length dat div 64"
  have "length dat = 64 * q + r" "r < 64" by (simp_all add: r_def q_def)
  moreover have "length (rfc_padded dat) = length dat + 1 + (119 - r) mod 64 + 8"
    by (simp add: rfc_padded_def r_def put_le_def)
  moreover have "(119 - r) mod 64 = (if r \<le> 55 then 55 - r else 119 - r)"
    using \<open>r < 64\<close> by (auto simp: mod_if)
  ultimately have "length (rfc_padded dat) = 64 * q + (if r \<le> 55 then 64 else 128)"
    by auto
  then show ?thesis by (auto simp: dvd_add)
qed

lemma md4_blocks_fold:
  "length p = 64 * n \<Longrightarrow> k \<le> n \<Longrightarrow>
   md4_blocks p (64 * k) s = foldl md4Block s (map (\<lambda>i. block_words p (64 * i)) [k..<n])"
proof (induction "n - k" arbitrary: k s)
  case 0
  then show ?case by (simp add: md4_blocks.simps)
next
  case (Suc d)
  then have k: "k < n" by simp
  have "md4_blocks p (64 * k) s = md4_blocks p (64 * Suc k) (md4Block s (block_words p (64 * k)))"
    using Suc.prems k by (subst md4_blocks.simps) (simp add: add.commute)
  also have "\<dots> = foldl md4Block (md4Block s (block_words p (64 * k)))
      (map (\<lambda>i. block_words p (64 * i)) [Suc k..<n])"
    using Suc.hyps(1) [of "Suc k"] Suc.hyps(2) Suc.prems k by simp
  finally show ?case using k by (simp add: upt_conv_Cons)
qed

lemma md4Sum_rfc: "md4Sum dat = rfc_md4 dat"
proof -
  obtain n where n: "length (rfc_padded dat) = 64 * n" using rfc_padded_length by (auto elim: dvdE)
  from md4_blocks_fold [OF n, of 0 md4_init]
  have "md4_blocks (rfc_padded dat) 0 md4_init =
      foldl rfc_block md4_init (map (\<lambda>i. block_words (rfc_padded dat) (64 * i)) [0..<n])"
    by (simp add: md4Block_rfc)
  then show ?thesis
    by (simp add: md4Sum_def rfc_md4_def Let_def padded_rfc n md4_init_def split: prod.split)
qed

text \<open>C31: The password hash is the digest of RFC 1320, with its rotating registers, word schedules and
  padding, of the password's code points in UTF-16, least significant byte first, in upper case
  hexadecimal digits. The padding loop ends for every length.\<close>

theorem nt_hash_is_md4:
  "NTHash password =
     ToUpper (hex_EncodeToString (rfc_md4 (concat (map (\<lambda>c. put_le 2 (of_nat c :: 16 word)) (utf16_encode (runes password))))))"
  by (simp add: NTHash_def Let_def md4Sum_rfc)

end
