(* ===== verification/Unix_Samba.thy ===== *)
theory Unix_Samba
  imports Nt_Hash Command_Exec
begin

text \<open>
  The accounts of the operating system and of Samba (\<open>unixsamba/unixsamba.go\<close>): every change and
  every question is a command of the Samba or shadow tools, run by the command executor.

  The executor and the account database of the system are the environment; \<open>us_log\<close> keeps the
  commands that were handed to the executor, with their standard input.
\<close>

section \<open>State and environment\<close>

record os_user =
  ou_Uid :: string
  ou_Gid :: string
  ou_Username :: string
  ou_Name :: string
  ou_HomeDir :: string

text \<open>An error of a command carries the standard error output, unless it was refused before.\<close>

record cmd_error =
  ce_stderr :: "string option"
  ce_text :: string

record 'o us =
  us_log :: "(string \<times> string \<times> string list) list"
  us_version :: string
  us_out :: 'o

record 'o us_env =
  us_exec :: "string \<Rightarrow> string \<Rightarrow> string list \<Rightarrow> 'o \<Rightarrow> (output_line list \<times> string option) \<times> 'o"
  us_lookup :: "'o \<Rightarrow> string \<Rightarrow> os_user option"

record UserInfo =
  ui_UID :: string
  ui_GID :: string
  ui_Username :: string
  ui_Name :: string
  ui_HomeDir :: string
  ui_Shell :: string
  ui_IsSambaUser :: bool
  ui_SambaSID :: string
  ui_SambaPrimaryNT :: string
  ui_SambaPasswordSet :: bool
  ui_LastLogon :: "int option"

record UserOptions =
  uo_HomeDir :: string
  uo_Shell :: string
  uo_PrimaryGroup :: string
  uo_GECOS :: "string list"
  uo_CreateHome :: bool
  uo_SystemAccount :: bool
  uo_UID :: string
  uo_GID :: string

section \<open>Running commands\<close>

definition allowedUnixSambaCommands :: "string list" where
  "allowedUnixSambaCommands = [''pdbedit'', ''useradd'', ''smbpasswd'', ''deluser'', ''usermod'', ''smbd'']"

definition newline :: char where "newline = CHR 0x0A"

definition validateUnixSambaCommand :: "string \<Rightarrow> string list \<Rightarrow> string option" where
  "validateUnixSambaCommand command args =
     (if TrimSpace command = [] then Some ''command cannot be empty''
      else if command \<notin> set allowedUnixSambaCommands then Some ''command is not allowed''
      else if \<exists>a \<in> set args. ContainsAny a [CHR 0x0D, newline]
      then Some ''command argument contains invalid newline characters''
      else None)"

definition executeUnixSambaCommand ::
  "'o us_env \<Rightarrow> string \<Rightarrow> string \<Rightarrow> string list \<Rightarrow> 'o us \<Rightarrow> (string \<times> cmd_error option) \<times> 'o us" where
  "executeUnixSambaCommand env stdin command args s =
     (case validateUnixSambaCommand command args of
        Some t \<Rightarrow> (([], Some \<lparr>ce_stderr = None, ce_text = t\<rparr>), s)
      | None \<Rightarrow>
          (case us_exec env stdin command args (us_out s) of
             ((lines, e), w) \<Rightarrow>
               ((JoinChannelOutput lines [Stdout],
                 map_option (\<lambda>t. \<lparr>ce_stderr = Some (JoinChannelOutput lines [Stderr]), ce_text = t\<rparr>) e),
                s\<lparr>us_log := us_log s @ [(stdin, command, args)], us_out := w\<rparr>)))"

definition RunCommand ::
  "'o us_env \<Rightarrow> string \<Rightarrow> string list \<Rightarrow> 'o us \<Rightarrow> (string \<times> cmd_error option) \<times> 'o us" where
  "RunCommand env command args s = executeUnixSambaCommand env [] command args s"

definition RunCommandWithInput ::
  "'o us_env \<Rightarrow> string \<Rightarrow> string \<Rightarrow> string list \<Rightarrow> 'o us \<Rightarrow> (string \<times> cmd_error option) \<times> 'o us" where
  "RunCommandWithInput env stdin command args s = executeUnixSambaCommand env stdin command args s"

definition NormalizeUsernameForUnixSamba :: "string \<Rightarrow> string" where
  "NormalizeUsernameForUnixSamba username = remove_char CHR '' '' (TrimSpace username)"

text \<open>What the tools say about an unknown account.\<close>

definition no_such_user :: "string \<Rightarrow> bool" where
  "no_such_user stderr =
     (let l = ToLower stderr in
      Contains l ''no such user'' \<or> Contains l ''does not exist'' \<or>
      Contains l ''username not found'' \<or> Contains l ''user not found'')"

definition key_value :: "string \<Rightarrow> (string \<times> string) option" where
  "key_value line =
     (case SplitN2 (TrimSpace line) CHR '':'' of
        [k, v] \<Rightarrow> Some (TrimSpace k, TrimSpace v)
      | _ \<Rightarrow> None)"

section \<open>The version of Samba\<close>

definition GetSambaVersion :: "'o us_env \<Rightarrow> 'o us \<Rightarrow> string res \<times> 'o us" where
  "GetSambaVersion env s =
     (if us_version s \<noteq> [] then (Ok (us_version s), s)
      else case RunCommand env ''smbd'' [''--version''] s of
             ((out, Some e), s1) \<Rightarrow> (Err (E ErrorOther (ce_text e)), s1)
           | ((out, None), s1) \<Rightarrow>
               (case Fields (TrimSpace out) of
                  p # v # ps \<Rightarrow>
                    if ToLower p = ''version'' then (Ok v, s1\<lparr>us_version := v\<rparr>) else (Ok [], s1)
                | _ \<Rightarrow> (Ok [], s1)))"

definition version_at_least :: "string \<Rightarrow> int \<Rightarrow> int \<Rightarrow> bool res" where
  "version_at_least version majorRequired minorRequired =
     (case Split version CHR ''.'' of
        p # q # ps \<Rightarrow>
          (case Atoi p of
             None \<Rightarrow> Err (E ErrorOther ''invalid major version'')
           | Some major \<Rightarrow>
               (case Atoi q of
                  None \<Rightarrow> Err (E ErrorOther ''invalid minor version'')
                | Some minor \<Rightarrow>
                    Ok (major > majorRequired \<or> (major = majorRequired \<and> minor \<ge> minorRequired))))
      | _ \<Rightarrow> Ok False)"

definition IsSambaVersionAtLeast :: "'o us_env \<Rightarrow> int \<Rightarrow> int \<Rightarrow> 'o us \<Rightarrow> bool res \<times> 'o us" where
  "IsSambaVersionAtLeast env majorRequired minorRequired s =
     (case GetSambaVersion env s of
        (Ok v, s1) \<Rightarrow> if v = [] then (Ok False, s1) else (version_at_least v majorRequired minorRequired, s1)
      | (Err e, s1) \<Rightarrow> (Err e, s1)
      | (Panic, s1) \<Rightarrow> (Panic, s1))"

definition IsSambaVersionSufficient :: "'o us_env \<Rightarrow> 'o us \<Rightarrow> bool res \<times> 'o us" where
  "IsSambaVersionSufficient env s = IsSambaVersionAtLeast env 4 23 s"

section \<open>Reading accounts\<close>

definition read_field :: "UserInfo \<Rightarrow> string \<Rightarrow> UserInfo" where
  "read_field info line =
     (case key_value line of
        None \<Rightarrow> info
      | Some (key, value) \<Rightarrow>
          if key = ''User SID'' then info\<lparr>ui_SambaSID := value\<rparr>
          else if key = ''Primary Group SID'' then info\<lparr>ui_SambaPrimaryNT := value\<rparr>
          else if key = ''Password last set'' then
            (if value \<noteq> ''0'' \<and> \<not> Contains (ToLower value) ''never'' \<and> value \<noteq> []
             then info\<lparr>ui_SambaPasswordSet := True\<rparr> else info)
          else if key = ''Last logon'' then
            (case Atoi value of
               Some t \<Rightarrow> if t > 0 then info\<lparr>ui_LastLogon := Some t\<rparr> else info
             | None \<Rightarrow> info)
          else info)"

definition GetByUsername ::
  "'o us_env \<Rightarrow> string \<Rightarrow> 'o us \<Rightarrow> (UserInfo option \<times> err option) \<times> 'o us" where
  "GetByUsername env username s =
     (case us_lookup env (us_out s) username of
        None \<Rightarrow> ((None, Some (E ErrorOther (''failed to lookup system user '' @ username))), s)
      | Some u \<Rightarrow>
          let info = \<lparr>ui_UID = ou_Uid u, ui_GID = ou_Gid u, ui_Username = ou_Username u,
                      ui_Name = ou_Name u, ui_HomeDir = ou_HomeDir u, ui_Shell = [], ui_IsSambaUser = False,
                      ui_SambaSID = [], ui_SambaPrimaryNT = [], ui_SambaPasswordSet = False,
                      ui_LastLogon = None\<rparr>;
              failed = Some (E ErrorOther (''pdbedit check for samba user '' @ username @ '' failed''))
          in (case RunCommand env ''pdbedit'' [''-L'', ''-v'', ''-u'', NormalizeUsernameForUnixSamba username] s of
                ((out, None), s1) \<Rightarrow>
                  ((Some (foldl read_field (info\<lparr>ui_IsSambaUser := True\<rparr>) (Scanner_Lines out)), None), s1)
              | ((out, Some e), s1) \<Rightarrow>
                  (case ce_stderr e of
                     Some t \<Rightarrow> if no_such_user t then ((Some info, None), s1) else ((Some info, failed), s1)
                   | None \<Rightarrow> ((Some info, failed), s1))))"

definition account_flags :: "string \<Rightarrow> string" where
  "account_flags out =
     (case first_some (\<lambda>line. case key_value line of
              Some (k, v) \<Rightarrow> if k = ''Account Flags'' then Some v else None
            | None \<Rightarrow> None) (Scanner_Lines out) of
        Some v \<Rightarrow> v
      | None \<Rightarrow> [])"

fun parse_hash_lines :: "string \<Rightarrow> string list \<Rightarrow> string res" where
  "parse_hash_lines username [] = Err (E ErrorOther ''NT hash line not found in pdbedit smbpasswd output'')"
| "parse_hash_lines username (l # ls) =
     (let line = TrimSpace l in
      if \<not> HasPrefix line (username @ '':'') then parse_hash_lines username ls
      else let parts = SplitN line CHR '':'' 5 in
           if length parts < 4 then parse_hash_lines username ls
           else let nt = ToUpper (parts ! 3) in
                if length nt \<noteq> 32
                then Err (E ErrorOther ''unexpected NT hash length in pdbedit smbpasswd output'')
                else Ok nt)"

definition parseSmbPasswdNTHash :: "string \<Rightarrow> string \<Rightarrow> string res" where
  "parseSmbPasswdNTHash username out = parse_hash_lines username (Split (TrimSpace out) newline)"

definition isSmbDisabledHash :: "string \<Rightarrow> bool" where
  "isSmbDisabledHash hash = (length hash = 32 \<and> list_all (\<lambda>c. c = CHR ''X'') hash)"

definition samba_err :: "string \<Rightarrow> string \<Rightarrow> err option" where
  "samba_err username t = Some (E ErrorOther (''samba user '' @ username @ '' '' @ t))"

definition CheckSambaUser :: "'o us_env \<Rightarrow> string \<Rightarrow> string \<Rightarrow> 'o us \<Rightarrow> err option \<times> 'o us" where
  "CheckSambaUser env name password s =
     (let username = NormalizeUsernameForUnixSamba name in
      case RunCommand env ''pdbedit'' [''-L'', ''-v'', ''-u'', username] s of
        ((out, Some e), s1) \<Rightarrow>
          (case ce_stderr e of
             Some t \<Rightarrow> if no_such_user t then (samba_err username ''not found'', s1)
                       else (samba_err username ''pdbedit check failed'', s1)
           | None \<Rightarrow> (samba_err username ''pdbedit check failed'', s1))
      | ((out, None), s1) \<Rightarrow>
          let flags = account_flags out in
          if \<not> Contains flags ''U'' then (samba_err username ''account is not active'', s1)
          else if Contains flags ''D'' \<or> Contains flags ''L'' then
            (samba_err username ''account is disabled or locked'', s1)
          else
            (case RunCommand env ''pdbedit'' [''-L'', ''-w'', ''-u'', username] s1 of
               ((out2, Some e), s2) \<Rightarrow> (samba_err username ''failed to read samba password hash'', s2)
             | ((out2, None), s2) \<Rightarrow>
                 (case parseSmbPasswdNTHash username out2 of
                    Ok stored \<Rightarrow>
                      if isSmbDisabledHash stored then (samba_err username ''has no password set'', s2)
                      else if \<not> EqualFold (NTHash password) stored then
                        (samba_err username ''invalid password'', s2)
                      else (None, s2)
                  | _ \<Rightarrow> (samba_err username ''failed to parse samba password hash'', s2))))"

definition ListSambaUsers :: "'o us_env \<Rightarrow> 'o us \<Rightarrow> (string list \<times> err option) \<times> 'o us" where
  "ListSambaUsers env s =
     (case RunCommand env ''pdbedit'' [''-L''] s of
        ((out, Some e), s1) \<Rightarrow> (([], Some (E ErrorOther ''failed to list samba users with pdbedit -L'')), s1)
      | ((out, None), s1) \<Rightarrow>
          let names = filter (\<lambda>n. n \<noteq> []) (map (\<lambda>l. hd (SplitN2 (TrimSpace l) CHR '':''))
                        (filter (\<lambda>l. TrimSpace l \<noteq> []) (Scanner_Lines out)))
          in if \<exists>l \<in> set (Split out newline). 65536 \<le> length l
             then ((names, Some (E ErrorOther ''failed to scan pdbedit output'')), s1)
             else ((names, None), s1))"

section \<open>Changing accounts\<close>

definition useradd_args :: "string \<Rightarrow> UserOptions \<Rightarrow> string list" where
  "useradd_args username opts =
     (if \<not> uo_CreateHome opts then [''-M''] else [])
     @ (if uo_SystemAccount opts then [''-r''] else [])
     @ (if uo_HomeDir opts \<noteq> [] then [''-d'', uo_HomeDir opts] else [])
     @ (if uo_Shell opts \<noteq> [] then [''-s'', uo_Shell opts] else [])
     @ (if uo_PrimaryGroup opts \<noteq> [] then [''-G'', uo_PrimaryGroup opts] else [])
     @ (if uo_GECOS opts \<noteq> [] then [''-g'', Join (uo_GECOS opts) '',''] else [])
     @ (if uo_UID opts \<noteq> [] then [''-u'', uo_UID opts] else [])
     @ [''--badname'', NormalizeUsernameForUnixSamba username]"

definition password_input :: "string \<Rightarrow> string" where
  "password_input password = password @ [newline] @ password @ [newline]"

definition CreateSambaUser ::
  "'o us_env \<Rightarrow> string \<Rightarrow> string \<Rightarrow> UserOptions \<Rightarrow> 'o us \<Rightarrow> err option \<times> 'o us" where
  "CreateSambaUser env username password opts s =
     (let name = NormalizeUsernameForUnixSamba username;
          add = (\<lambda>s1. case RunCommandWithInput env (password_input password) ''smbpasswd''
                            [''-a'', ''-s'', name] s1 of
                   ((out, Some e), s2) \<Rightarrow> (samba_err username ''failed to add user to Samba'', s2)
                 | ((out, None), s2) \<Rightarrow>
                     (case CheckSambaUser env username password s2 of
                        (Some e, s3) \<Rightarrow> (samba_err username ''verification failed after creation'', s3)
                      | (None, s3) \<Rightarrow> (None, s3)))
      in case RunCommand env ''useradd'' (useradd_args username opts) s of
           ((out, None), s1) \<Rightarrow> add s1
         | ((out, Some e), s1) \<Rightarrow>
             let said = (case ce_stderr e of
                     Some t \<Rightarrow> Contains (ToLower t) (''useradd: user '' @ ToLower name @ '' already exists'')
                   | None \<Rightarrow> False)
             in if said \<or> us_lookup env (us_out s1) name \<noteq> None then add s1
                else (samba_err username ''failed to create system user'', s1))"

definition DeleteSambaUser :: "'o us_env \<Rightarrow> string \<Rightarrow> 'o us \<Rightarrow> err option \<times> 'o us" where
  "DeleteSambaUser env username s =
     (let name = NormalizeUsernameForUnixSamba username;
          remove = (\<lambda>s1. case RunCommand env ''deluser'' [''--remove-home'', name] s1 of
                     ((out, Some e), s2) \<Rightarrow> (samba_err username ''failed to delete system user'', s2)
                   | ((out, None), s2) \<Rightarrow>
                       (None, snd (CheckSambaUser env username ''invalidpasswordforsure'' s2)))
      in case RunCommand env ''smbpasswd'' [''-x'', name] s of
           ((out, None), s1) \<Rightarrow> remove s1
         | ((out, Some e), s1) \<Rightarrow>
             let unknown = (case ce_stderr e of
                   Some t \<Rightarrow> Contains (ToLower t) ''failed to find entry for user''
                             \<or> Contains (ToLower t) ''no such user''
                 | None \<Rightarrow> False)
             in if unknown then remove s1
                else (samba_err username ''failed to delete user from Samba'', s1))"

definition ChangePassword :: "'o us_env \<Rightarrow> string \<Rightarrow> string \<Rightarrow> 'o us \<Rightarrow> err option \<times> 'o us" where
  "ChangePassword env username newPassword s =
     (case RunCommandWithInput env (password_input newPassword) ''smbpasswd''
             [''-s'', NormalizeUsernameForUnixSamba username] s of
        ((out, Some e), s1) \<Rightarrow> (samba_err username ''failed to change Samba password'', s1)
      | ((out, None), s1) \<Rightarrow>
          (case CheckSambaUser env username newPassword s1 of
             (Some e, s2) \<Rightarrow> (samba_err username ''verification failed after password change'', s2)
           | (None, s2) \<Rightarrow> (None, s2)))"

text \<open>The part of a rename after the checks; it starts by removing the old Samba account.\<close>

definition rename_account ::
  "'o us_env \<Rightarrow> string \<Rightarrow> string \<Rightarrow> string \<Rightarrow> 'o us \<Rightarrow> err option \<times> 'o us" where
  "rename_account env oldUsername newUsername password s =
     (let old = NormalizeUsernameForUnixSamba oldUsername;
          new = NormalizeUsernameForUnixSamba newUsername;
          add = (\<lambda>s3. case RunCommandWithInput env (password_input password) ''smbpasswd''
                            [''-a'', ''-s'', new] s3 of
                   ((out, Some e), s4) \<Rightarrow> (samba_err new ''failed to add after renaming'', s4)
                 | ((out, None), s4) \<Rightarrow>
                     (case CheckSambaUser env newUsername password s4 of
                        (Some e, s5) \<Rightarrow> (samba_err newUsername ''verification failed after renaming'', s5)
                      | (None, s5) \<Rightarrow> (None, s5)));
          s1 = snd (RunCommand env ''smbpasswd'' [''-x'', old] s)
      in case RunCommand env ''usermod'' [''-l'', new, old] s1 of
           ((out, Some e), s2) \<Rightarrow> (samba_err newUsername ''failed to rename system user login'', s2)
         | ((out, None), s2) \<Rightarrow>
             (case us_lookup env (us_out s2) new of
                Some u \<Rightarrow>
                  if ou_HomeDir u = ''/home/'' @ old then
                    (case RunCommand env ''usermod'' [''-d'', ''/home/'' @ new, ''-m'', new] s2 of
                       ((out', Some e), s3) \<Rightarrow>
                         (samba_err newUsername ''failed to move/rename home directory'', s3)
                     | ((out', None), s3) \<Rightarrow> add s3)
                  else add s2
              | None \<Rightarrow> add s2))"

definition RenameUsername ::
  "'o us_env \<Rightarrow> string \<Rightarrow> string \<Rightarrow> string \<Rightarrow> 'o us \<Rightarrow> err option \<times> 'o us" where
  "RenameUsername env oldUsername newUsername password s =
     (let new = NormalizeUsernameForUnixSamba newUsername in
      if password = [] then
        (Some (E ErrorOther ''a new password must be provided to re-add user to Samba after renaming''), s)
      else if us_lookup env (us_out s) new \<noteq> None then
        (samba_err newUsername ''already exists on the system'', s)
      else
        (case RunCommand env ''pdbedit'' [''-L'', ''-v'', ''-u'', new] s of
           ((out, None), s1) \<Rightarrow> (samba_err newUsername ''already appears to be a Samba user'', s1)
         | ((out, Some e), s1) \<Rightarrow>
             if \<not> no_such_user (str_or_empty (ce_stderr e)) then
               (samba_err newUsername ''failed to verify Samba status'', s1)
             else rename_account env oldUsername newUsername password s1))"

end
