(* ===== verification/User_Service.thy ===== *)
theory User_Service
  imports Settings Unix_Samba
begin

text \<open>
  The user service (\<open>service/user_service.go\<close>): users are rows of the database and accounts of
  the system and of Samba. Each operation changes both and announces the change.

  The queries on the table of users are a parameter; a query that finds no row answers \<open>None\<close>.
  A transaction gives back the table of its start when it fails; what was done to the accounts of
  the system stays done.
\<close>

section \<open>Data\<close>

record samba_row =
  su_Username :: string
  su_Password :: string
  su_IsAdmin :: bool
  su_RwShares :: "string list"
  su_RoShares :: "string list"

definition zero_row :: samba_row where
  "zero_row = \<lparr>su_Username = [], su_Password = [], su_IsAdmin = False, su_RwShares = [], su_RoShares = []\<rparr>"

datatype create_answer = Created | DuplicatedKey | CreateFails err

record 'd user_db =
  ud_Find :: "'d \<Rightarrow> samba_row list res"
  ud_First :: "string \<Rightarrow> 'd \<Rightarrow> samba_row option res"
  ud_GetAdmin :: "'d \<Rightarrow> samba_row option res"
  ud_Restore :: "string \<Rightarrow> string \<Rightarrow> 'd \<Rightarrow> nat res \<times> 'd"
  ud_Updates :: "string \<Rightarrow> samba_row \<Rightarrow> 'd \<Rightarrow> nat res \<times> 'd"
  ud_Create :: "samba_row \<Rightarrow> 'd \<Rightarrow> create_answer \<times> 'd"
  ud_Rename :: "string \<Rightarrow> string \<Rightarrow> 'd \<Rightarrow> unit res \<times> 'd"
  ud_DeleteByName :: "string \<Rightarrow> 'd \<Rightarrow> nat res \<times> 'd"

record ('d, 'o) user_env =
  ue_db :: "'d user_db"
  ue_os :: "'o us_env"
  ue_settings :: "'d setting_env"
  ue_mock :: bool
  ue_GenerateSecurePassword :: "string res"

record ('d, 'o) user_state =
  uv_db :: 'd
  uv_os :: "'o us"
  uv_events :: "(event_type \<times> user) list"
  uv_setting_events :: "settings list"

section \<open>Conversion\<close>

definition UserToSambaUser :: "user \<Rightarrow> samba_row \<Rightarrow> samba_row" where
  "UserToSambaUser source target =
     \<lparr>su_Username = (if u_Username source \<noteq> [] then u_Username source else su_Username target),
      su_Password = str_or_empty (u_Password source),
      su_IsAdmin = (if u_IsAdmin source then True else su_IsAdmin target),
      su_RwShares = (if u_RwShares source \<noteq> [] then u_RwShares source else su_RwShares target),
      su_RoShares = (if u_RoShares source \<noteq> [] then u_RoShares source else su_RoShares target)\<rparr>"

definition checkUserValid :: "'o us_env \<Rightarrow> samba_row \<Rightarrow> 'o us \<Rightarrow> bool \<times> 'o us" where
  "checkUserValid env dbUser s =
     (if su_Username dbUser = [] \<or> su_Password dbUser = [] then (False, s)
      else case CheckSambaUser env (su_Username dbUser) (su_Password dbUser) s of (e, s1) \<Rightarrow> (e = None, s1))"

definition SambaUserToUser :: "'o us_env \<Rightarrow> samba_row \<Rightarrow> 'o us \<Rightarrow> user \<times> 'o us" where
  "SambaUserToUser env source s =
     (case checkUserValid env source s of
        (valid, s1) \<Rightarrow>
          (\<lparr>u_Username = su_Username source, u_Password = Some (su_Password source),
            u_IsAdmin = su_IsAdmin source, u_IsValid = valid,
            u_RwShares = su_RwShares source, u_RoShares = su_RoShares source\<rparr>, s1))"

fun SambaUsersToUsers :: "'o us_env \<Rightarrow> samba_row list \<Rightarrow> 'o us \<Rightarrow> user list \<times> 'o us" where
  "SambaUsersToUsers env [] s = ([], s)"
| "SambaUsersToUsers env (r # rs) s =
     (case SambaUserToUser env r s of
        (u, s1) \<Rightarrow> case SambaUsersToUsers env rs s1 of (us, s2) \<Rightarrow> (u # us, s2))"

section \<open>Reading\<close>

definition ListUsers :: "('d, 'o) user_env \<Rightarrow> ('d, 'o) user_state \<Rightarrow> user list res \<times> ('d, 'o) user_state" where
  "ListUsers env s =
     (case ud_Find (ue_db env) (uv_db s) of
        Ok rows \<Rightarrow> (case SambaUsersToUsers (ue_os env) rows (uv_os s) of
                      (us, w) \<Rightarrow> (Ok us, s\<lparr>uv_os := w\<rparr>))
      | Err e \<Rightarrow> (Err e, s)
      | Panic \<Rightarrow> (Panic, s))"

definition user_not_found :: "'a res" where
  "user_not_found = Err (E ErrorUserNotFound [])"

definition GetAdmin :: "('d, 'o) user_env \<Rightarrow> ('d, 'o) user_state \<Rightarrow> user res \<times> ('d, 'o) user_state" where
  "GetAdmin env s =
     (case ud_GetAdmin (ue_db env) (uv_db s) of
        Ok (Some row) \<Rightarrow> (case SambaUserToUser (ue_os env) row (uv_os s) of
                            (u, w) \<Rightarrow> (Ok u, s\<lparr>uv_os := w\<rparr>))
      | Ok None \<Rightarrow> (user_not_found, s)
      | Err e \<Rightarrow> (Err e, s)
      | Panic \<Rightarrow> (Panic, s))"

section \<open>Creating\<close>

definition plain_options :: UserOptions where
  "plain_options = \<lparr>uo_HomeDir = [], uo_Shell = ''/sbin/nologin'', uo_PrimaryGroup = [], uo_GECOS = [],
     uo_CreateHome = False, uo_SystemAccount = False, uo_UID = [], uo_GID = []\<rparr>"

text \<open>Read the row back as a user and announce it.\<close>

definition announce ::
  "('d, 'o) user_env \<Rightarrow> event_type \<Rightarrow> samba_row \<Rightarrow> ('d, 'o) user_state \<Rightarrow> user res \<times> ('d, 'o) user_state" where
  "announce env ty row s =
     (case SambaUserToUser (ue_os env) row (uv_os s) of
        (u, w) \<Rightarrow> (Ok u, s\<lparr>uv_os := w, uv_events := uv_events s @ [(ty, u)]\<rparr>))"

definition store_user :: "'d user_db \<Rightarrow> samba_row \<Rightarrow> 'd \<Rightarrow> unit res \<times> 'd" where
  "store_user db dbUser d =
     (case ud_Restore db (su_Username dbUser) (su_Password dbUser) d of
        (Err e, d1) \<Rightarrow> (Err e, d1)
      | (Panic, d1) \<Rightarrow> (Panic, d1)
      | (Ok upd, d1) \<Rightarrow>
          if upd > 0 then
            (case ud_Updates db (su_Username dbUser) dbUser d1 of
               (Err e, d2) \<Rightarrow> (Err e, d2)
             | (Panic, d2) \<Rightarrow> (Panic, d2)
             | (Ok n, d2) \<Rightarrow> (Ok (), d2))
          else
            (case ud_Create db dbUser d1 of
               (Created, d2) \<Rightarrow> (Ok (), d2)
             | (DuplicatedKey, d2) \<Rightarrow> (Err (E ErrorUserAlreadyExists []), d2)
             | (CreateFails e, d2) \<Rightarrow> (Err e, d2)))"

definition CreateUser ::
  "('d, 'o) user_env \<Rightarrow> user \<Rightarrow> ('d, 'o) user_state \<Rightarrow> user res \<times> ('d, 'o) user_state" where
  "CreateUser env userDto s =
     (if \<not> non_empty (u_Password userDto) then (Err (E ErrorPasswordRequired []), s)
      else
        let dbUser = UserToSambaUser userDto zero_row in
        case store_user (ue_db env) dbUser (uv_db s) of
          (Err e, d) \<Rightarrow> (Err e, s\<lparr>uv_db := d\<rparr>)
        | (Panic, d) \<Rightarrow> (Panic, s\<lparr>uv_db := d\<rparr>)
        | (Ok _, d) \<Rightarrow>
            (case CreateSambaUser (ue_os env) (su_Username dbUser) (su_Password dbUser) plain_options (uv_os s) of
               (Some e, w) \<Rightarrow> (Err e, s\<lparr>uv_db := d, uv_os := w\<rparr>)
             | (None, w) \<Rightarrow> announce env EvAdd dbUser (s\<lparr>uv_db := d, uv_os := w\<rparr>)))"

section \<open>Changing\<close>

text \<open>The rename of a transaction: the name of the row to change then, and the table.\<close>

definition rename_step ::
  "('d, 'o) user_env \<Rightarrow> string \<Rightarrow> samba_row \<Rightarrow> 'd \<Rightarrow> 'o us \<Rightarrow> string res \<times> 'd \<times> 'o us" where
  "rename_step env currentUsername dbUser d w =
     (if su_Username dbUser = [] \<or> su_Username dbUser = currentUsername then (Ok currentUsername, d, w)
      else
        (case ud_First (ue_db env) (su_Username dbUser) d of
           Ok (Some _) \<Rightarrow> (Err (E ErrorUserAlreadyExists (''cannot rename to '' @ su_Username dbUser)), d, w)
         | Err e \<Rightarrow> (Err e, d, w)
         | Panic \<Rightarrow> (Panic, d, w)
         | Ok None \<Rightarrow>
             (case RenameUsername (ue_os env) currentUsername (su_Username dbUser) (su_Password dbUser) w of
                (Some e, w1) \<Rightarrow> (Err e, d, w1)
              | (None, w1) \<Rightarrow>
                  (case ud_Rename (ue_db env) currentUsername (su_Username dbUser) d of
                     (Err e, d1) \<Rightarrow> (Err e, d1, w1)
                   | (Panic, d1) \<Rightarrow> (Panic, d1, w1)
                   | (Ok _, d1) \<Rightarrow> (Ok (su_Username dbUser), d1, w1)))))"

definition password_step ::
  "('d, 'o) user_env \<Rightarrow> string \<Rightarrow> samba_row \<Rightarrow> 'o us \<Rightarrow> err option \<times> 'o us" where
  "password_step env currentPassword dbUser w =
     (if su_Password dbUser \<noteq> [] \<and> su_Password dbUser \<noteq> currentPassword
      then ChangePassword (ue_os env) (su_Username dbUser) (su_Password dbUser) w
      else (None, w))"

definition updateUser ::
  "('d, 'o) user_env \<Rightarrow> string \<Rightarrow> string \<Rightarrow> samba_row \<Rightarrow> ('d, 'o) user_state \<Rightarrow> unit res \<times> ('d, 'o) user_state" where
  "updateUser env currentUsername currentPassword dbUser s =
     (case rename_step env currentUsername dbUser (uv_db s) (uv_os s) of
        (Err e, d1, w1) \<Rightarrow> (Err e, s\<lparr>uv_os := w1\<rparr>)
      | (Panic, d1, w1) \<Rightarrow> (Panic, s\<lparr>uv_os := w1\<rparr>)
      | (Ok name, d1, w1) \<Rightarrow>
          (case password_step env currentPassword dbUser w1 of
             (Some e, w2) \<Rightarrow> (Err e, s\<lparr>uv_os := w2\<rparr>)
           | (None, w2) \<Rightarrow>
               (case ud_Updates (ue_db env) name dbUser d1 of
                  (Err e, d2) \<Rightarrow> (Err e, s\<lparr>uv_os := w2\<rparr>)
                | (Panic, d2) \<Rightarrow> (Panic, s\<lparr>uv_os := w2\<rparr>)
                | (Ok n, d2) \<Rightarrow> (Ok (), s\<lparr>uv_db := d2, uv_os := w2\<rparr>))))"

definition save_user ::
  "('d, 'o) user_env \<Rightarrow> string \<Rightarrow> string \<Rightarrow> samba_row \<Rightarrow> ('d, 'o) user_state \<Rightarrow> user res \<times> ('d, 'o) user_state" where
  "save_user env currentUsername currentPassword dbUser s =
     (case updateUser env currentUsername currentPassword dbUser s of
        (Ok _, s1) \<Rightarrow> announce env EvUpdate dbUser s1
      | (Err e, s1) \<Rightarrow> (Err e, s1)
      | (Panic, s1) \<Rightarrow> (Panic, s1))"

definition UpdateUser ::
  "('d, 'o) user_env \<Rightarrow> string \<Rightarrow> user \<Rightarrow> ('d, 'o) user_state \<Rightarrow> user res \<times> ('d, 'o) user_state" where
  "UpdateUser env currentUsername userDto s =
     (if u_Password userDto = Some [] then (Err (E ErrorPasswordRequired []), s)
      else
        (case ud_First (ue_db env) currentUsername (uv_db s) of
           Ok None \<Rightarrow> (user_not_found, s)
         | Err e \<Rightarrow> (Err e, s)
         | Panic \<Rightarrow> (Panic, s)
         | Ok (Some row) \<Rightarrow>
             save_user env currentUsername (su_Password row) (UserToSambaUser userDto row) s))"

definition UpdateAdminUser ::
  "('d, 'o) user_env \<Rightarrow> user \<Rightarrow> ('d, 'o) user_state \<Rightarrow> user res \<times> ('d, 'o) user_state" where
  "UpdateAdminUser env userDto s =
     (if u_Password userDto = Some [] then (Err (E ErrorPasswordRequired []), s)
      else
        (case ud_GetAdmin (ue_db env) (uv_db s) of
           Ok None \<Rightarrow> (Err (E ErrorOther ''failed to get admin user''), s)
         | Err e \<Rightarrow> (Err e, s)
         | Panic \<Rightarrow> (Panic, s)
         | Ok (Some row) \<Rightarrow>
             save_user env (su_Username row) (su_Password row)
               ((UserToSambaUser userDto row)\<lparr>su_IsAdmin := True\<rparr>) s))"

section \<open>Deleting\<close>

definition DeleteUser ::
  "('d, 'o) user_env \<Rightarrow> string \<Rightarrow> ('d, 'o) user_state \<Rightarrow> unit res \<times> ('d, 'o) user_state" where
  "DeleteUser env username s =
     (case ud_DeleteByName (ue_db env) username (uv_db s) of
        (Err e, d) \<Rightarrow> (user_not_found, s\<lparr>uv_db := d\<rparr>)
      | (Panic, d) \<Rightarrow> (Panic, s\<lparr>uv_db := d\<rparr>)
      | (Ok found, d) \<Rightarrow>
          if found = 0 then (user_not_found, s\<lparr>uv_db := d\<rparr>)
          else
            (case DeleteSambaUser (ue_os env) username (uv_os s) of
               (Some e, w) \<Rightarrow> (Err e, s\<lparr>uv_db := d, uv_os := w\<rparr>)
             | (None, w) \<Rightarrow>
                 (Ok (), s\<lparr>uv_db := d, uv_os := w,
                    uv_events := uv_events s @ [(EvRemove,
                      \<lparr>u_Username = username, u_Password = None, u_IsAdmin = False, u_IsValid = False,
                       u_RwShares = [], u_RoShares = []\<rparr>)]\<rparr>)))"

section \<open>Start\<close>

definition default_admin :: samba_row where
  "default_admin = zero_row\<lparr>su_Username := ''admin'', su_Password := ''changeme!'', su_IsAdmin := True\<rparr>"

text \<open>The password of the account Home Assistant mounts with; a missing one is made up and stored.\<close>

definition ha_password ::
  "('d, 'o) user_env \<Rightarrow> ('d, 'o) user_state \<Rightarrow> string res \<times> ('d, 'o) user_state" where
  "ha_password env s =
     (case Load (ue_settings env) (uv_db s) of
        (setting, Panic) \<Rightarrow> (Panic, s)
      | (setting, r) \<Rightarrow>
          if sg_HASmbPassword setting \<noteq> [] then (Ok (sg_HASmbPassword setting), s)
          else
            let password = (case ue_GenerateSecurePassword env of Ok p \<Rightarrow> p | _ \<Rightarrow> ''changeme!'') in
            case UpdateSettings (ue_settings env) (setting\<lparr>sg_HASmbPassword := password\<rparr>)
                   \<lparr>st_db = uv_db s, st_events = uv_setting_events s\<rparr> of
              ((Panic, _), st) \<Rightarrow> (Panic, s)
            | ((r', _), st) \<Rightarrow>
                (Ok password, s\<lparr>uv_db := st_db st, uv_setting_events := st_events st\<rparr>))"

definition create_account :: "'o us_env \<Rightarrow> 'o us \<Rightarrow> samba_row \<Rightarrow> 'o us" where
  "create_account env w row = snd (CreateSambaUser env (su_Username row) (su_Password row) plain_options w)"

definition OnStart :: "('d, 'o) user_env \<Rightarrow> ('d, 'o) user_state \<Rightarrow> unit res \<times> ('d, 'o) user_state" where
  "OnStart env s =
     (if ue_mock env then (Ok (), s)
      else
        (case ha_password env s of
           (Ok password, s1) \<Rightarrow>
             let w1 = create_account (ue_os env) (uv_os s1)
                        (zero_row\<lparr>su_Username := ''_ha_mount_user_'', su_Password := password\<rparr>);
                 found = (case ud_Find (ue_db env) (uv_db s1) of Ok rows \<Rightarrow> rows | _ \<Rightarrow> []);
                 rows = (if found = [] then [default_admin] else found);
                 d = (if found = [] then snd (ud_Create (ue_db env) default_admin (uv_db s1)) else uv_db s1)
             in (Ok (), s1\<lparr>uv_db := d, uv_os := foldl (create_account (ue_os env)) w1 rows\<rparr>)
         | (Err e, s1) \<Rightarrow> (Err e, s1)
         | (Panic, s1) \<Rightarrow> (Panic, s1)))"

datatype user_call =
    StartCall | ListCall | AdminCall | CreateCall user | UpdateCall string user
  | UpdateAdminCall user | DeleteCall string

definition user_step :: "('d, 'o) user_env \<Rightarrow> ('d, 'o) user_state \<Rightarrow> user_call \<Rightarrow> ('d, 'o) user_state" where
  "user_step env s call =
     (case call of
        StartCall \<Rightarrow> snd (OnStart env s)
      | ListCall \<Rightarrow> snd (ListUsers env s)
      | AdminCall \<Rightarrow> snd (GetAdmin env s)
      | CreateCall u \<Rightarrow> snd (CreateUser env u s)
      | UpdateCall name u \<Rightarrow> snd (UpdateUser env name u s)
      | UpdateAdminCall u \<Rightarrow> snd (UpdateAdminUser env u s)
      | DeleteCall name \<Rightarrow> snd (DeleteUser env name s))"

end
