(* ===== verification/User_Table.thy ===== *)
theory User_Table
  imports User_Service
begin

text \<open>
  The table of users (\<open>dbom/samba_user.go\<close>): the queries of \<open>dbom/query/samba_user_query.go\<close>, whose text is SQL,
  and those that \<open>service/user_service.go\<close> builds, over rows by name with their deletion mark.

  The name is the primary key, also of the rows that are marked as deleted. A statement may fail, for a reason
  that depends on anything; it then changes nothing. The properties are a table beside this one.
\<close>

section \<open>Rows\<close>

type_synonym user_rows = "(string \<times> samba_row \<times> bool) list"

text \<open>A row that is not marked as deleted; the shares come only with a query that preloads them.\<close>

definition live_row :: "user_rows \<Rightarrow> string \<Rightarrow> samba_row option" where
  "live_row d n = (case map_of d n of Some (row, False) \<Rightarrow> Some row | _ \<Rightarrow> None)"

definition without_shares :: "samba_row \<Rightarrow> samba_row" where
  "without_shares row = row\<lparr>su_RwShares := [], su_RoShares := []\<rparr>"

section \<open>Queries\<close>

text \<open>A raw query that finds nothing leaves the zero value and reports no error.\<close>

definition select_admin :: "user_rows \<Rightarrow> samba_row" where
  "select_admin d =
     (case first_some (\<lambda>(n, row, gone). if su_IsAdmin row \<and> \<not> gone then Some row else None) d of
        Some row \<Rightarrow> without_shares row
      | None \<Rightarrow> zero_row)"

definition delete_by_name :: "string \<Rightarrow> user_rows \<Rightarrow> nat \<times> user_rows" where
  "delete_by_name n d =
     (case map_of d n of
        Some (row, gone) \<Rightarrow>
          if \<not> su_IsAdmin row \<and> \<not> gone then (1, AList.update n (row, True) d) else (0, d)
      | None \<Rightarrow> (0, d))"

definition restore_deleted :: "string \<Rightarrow> string \<Rightarrow> user_rows \<Rightarrow> nat \<times> user_rows" where
  "restore_deleted n password d =
     (case map_of d n of
        Some (row, True) \<Rightarrow> (1, AList.update n (row\<lparr>su_Password := password\<rparr>, False) d)
      | _ \<Rightarrow> (0, d))"

text \<open>An update from a struct writes the fields that are not zero and adds the links to shares.\<close>

definition written_over :: "samba_row \<Rightarrow> samba_row \<Rightarrow> samba_row" where
  "written_over row old = old
     \<lparr>su_Password := (if su_Password row \<noteq> [] then su_Password row else su_Password old),
      su_IsAdmin := (su_IsAdmin row \<or> su_IsAdmin old),
      su_RwShares := su_RwShares old @ filter (\<lambda>x. x \<notin> set (su_RwShares old)) (su_RwShares row),
      su_RoShares := su_RoShares old @ filter (\<lambda>x. x \<notin> set (su_RoShares old)) (su_RoShares row)\<rparr>"

definition update_row :: "string \<Rightarrow> samba_row \<Rightarrow> user_rows \<Rightarrow> nat \<times> user_rows" where
  "update_row n row d =
     (case live_row d n of
        Some old \<Rightarrow> (1, AList.update n (written_over row old, False) d)
      | None \<Rightarrow> (0, d))"

definition create_row :: "samba_row \<Rightarrow> user_rows \<Rightarrow> create_answer \<times> user_rows" where
  "create_row row d =
     (if map_of d (su_Username row) = None then (Created, AList.update (su_Username row) (row, False) d)
      else (DuplicatedKey, d))"

definition rename_row :: "string \<Rightarrow> string \<Rightarrow> user_rows \<Rightarrow> unit res \<times> user_rows" where
  "rename_row old new d =
     (case live_row d old of
        None \<Rightarrow> (Ok (), d)
      | Some row \<Rightarrow>
          if new \<noteq> old \<and> map_of d new \<noteq> None then (Err (E ErrorOther ''UNIQUE constraint failed''), d)
          else (Ok (), AList.update new (row\<lparr>su_Username := new\<rparr>, False) (AList.delete old d)))"

section \<open>The database\<close>

datatype user_query =
    QueryFind | QueryFirst string | QueryAdmin | QueryRestore string | QueryUpdates string
  | QueryCreate string | QueryRename string string | QueryDelete string

definition reading :: "err option \<Rightarrow> 'a \<Rightarrow> 'a res" where
  "reading fault x = (case fault of Some e \<Rightarrow> Err e | None \<Rightarrow> Ok x)"

definition writing :: "err option \<Rightarrow> nat \<times> user_rows \<Rightarrow> user_rows \<times> 'p \<Rightarrow> nat res \<times> user_rows \<times> 'p" where
  "writing fault answer d =
     (case fault of Some e \<Rightarrow> (Err e, d) | None \<Rightarrow> (Ok (fst answer), snd answer, snd d))"

definition user_table :: "(user_query \<Rightarrow> user_rows \<times> 'p \<Rightarrow> err option) \<Rightarrow> (user_rows \<times> 'p) user_db" where
  "user_table fault =
     \<lparr>ud_Find = (\<lambda>d. reading (fault QueryFind d) (map (fst \<circ> snd) (filter (\<lambda>x. \<not> snd (snd x)) (fst d)))),
      ud_First = (\<lambda>n d. reading (fault (QueryFirst n) d) (map_option without_shares (live_row (fst d) n))),
      ud_GetAdmin = (\<lambda>d. reading (fault QueryAdmin d) (Some (select_admin (fst d)))),
      ud_Restore = (\<lambda>n p d. writing (fault (QueryRestore n) d) (restore_deleted n p (fst d)) d),
      ud_Updates = (\<lambda>n row d. writing (fault (QueryUpdates n) d) (update_row n row (fst d)) d),
      ud_Create = (\<lambda>row d. case fault (QueryCreate (su_Username row)) d of
          Some e \<Rightarrow> (CreateFails e, d)
        | None \<Rightarrow> (case create_row row (fst d) of (a, d1) \<Rightarrow> (a, d1, snd d))),
      ud_Rename = (\<lambda>old new d. case fault (QueryRename old new) d of
          Some e \<Rightarrow> (Err e, d)
        | None \<Rightarrow> (case rename_row old new (fst d) of (r, d1) \<Rightarrow> (r, d1, snd d))),
      ud_DeleteByName = (\<lambda>n d. writing (fault (QueryDelete n) d) (delete_by_name n (fst d)) d)\<rparr>"

text \<open>The table of the properties, beside the users.\<close>

definition beside_users :: "'p prop_db \<Rightarrow> (user_rows \<times> 'p) prop_db" where
  "beside_users pdb =
     \<lparr>pd_Find = (\<lambda>d. pd_Find pdb (snd d)),
      pd_Updates = (\<lambda>q d. case pd_Updates pdb q (snd d) of (r, p) \<Rightarrow> (r, fst d, p)),
      pd_Create = (\<lambda>q d. case pd_Create pdb q (snd d) of (r, p) \<Rightarrow> (r, fst d, p))\<rparr>"

definition on_tables ::
  "(user_query \<Rightarrow> user_rows \<times> 'p \<Rightarrow> err option) \<Rightarrow> 'p prop_db \<Rightarrow> (user_rows \<times> 'p, 'o) user_env
   \<Rightarrow> (user_rows \<times> 'p, 'o) user_env" where
  "on_tables fault pdb env =
     env\<lparr>ue_db := user_table fault, ue_settings := (ue_settings env)\<lparr>se_db := beside_users pdb\<rparr>\<rparr>"

end
