(* ===== verification/Unix_Samba_Laws.thy ===== *)
theory Unix_Samba_Laws
  imports Unix_Samba
begin

text \<open>
  What the account module promises: it hands only its own tools to the executor, with arguments that
  cannot break out of a line; the check of an account answers what the Samba database says; a rename
  touches nothing before it knows that the new name is free.
\<close>

section \<open>The commands that are run\<close>

datatype samba_call =
    CallCreate string string UserOptions
  | CallDelete string
  | CallPassword string string
  | CallRename string string string
  | CallCheck string string
  | CallGet string
  | CallList
  | CallVersion

definition us_step :: "'o us \<Rightarrow> 'o us_env \<times> samba_call \<Rightarrow> 'o us" where
  "us_step s c = (case c of (env, call) \<Rightarrow> (case call of
       CallCreate u p opts \<Rightarrow> snd (CreateSambaUser env u p opts s)
     | CallDelete u \<Rightarrow> snd (DeleteSambaUser env u s)
     | CallPassword u p \<Rightarrow> snd (ChangePassword env u p s)
     | CallRename old new p \<Rightarrow> snd (RenameUsername env old new p s)
     | CallCheck u p \<Rightarrow> snd (CheckSambaUser env u p s)
     | CallGet u \<Rightarrow> snd (GetByUsername env u s)
     | CallList \<Rightarrow> snd (ListSambaUsers env s)
     | CallVersion \<Rightarrow> snd (IsSambaVersionSufficient env s)))"

definition command_ok :: "string \<times> string \<times> string list \<Rightarrow> bool" where
  "command_ok c = (case c of (stdin, command, args) \<Rightarrow>
     command \<in> {''pdbedit'', ''useradd'', ''smbpasswd'', ''deluser'', ''usermod'', ''smbd''} \<and>
     (\<forall>a \<in> set args. newline \<notin> set a \<and> CHR 0x0D \<notin> set a) \<and>
     args \<noteq> [] \<and> CHR '' '' \<notin> set (last args))"

definition log_ok :: "'o us \<Rightarrow> bool" where
  "log_ok s = list_all command_ok (us_log s)"

lemma normalized_no_space: "CHR '' '' \<notin> set (NormalizeUsernameForUnixSamba u)"
  by (simp add: NormalizeUsernameForUnixSamba_def remove_char_def)

lemma execute_log_ok:
  assumes "log_ok s" "args \<noteq> []" "CHR '' '' \<notin> set (last args)"
    and "executeUnixSambaCommand env stdin command args s = (r, s')"
  shows "log_ok s'"
proof (cases "validateUnixSambaCommand command args")
  case None
  have "command_ok (stdin, command, args)"
    using None assms(2,3)
    by (auto simp: validateUnixSambaCommand_def command_ok_def allowedUnixSambaCommands_def ContainsAny_def
        split: if_splits)
  then show ?thesis using assms None
    by (auto simp: executeUnixSambaCommand_def log_ok_def split: prod.splits)
next
  case (Some t)
  then show ?thesis using assms by (simp add: executeUnixSambaCommand_def)
qed

lemma run_log_ok:
  "\<lbrakk>log_ok s; args \<noteq> []; CHR '' '' \<notin> set (last args); RunCommand env command args s = (r, s')\<rbrakk> \<Longrightarrow> log_ok s'"
  "\<lbrakk>log_ok s; args \<noteq> []; CHR '' '' \<notin> set (last args); RunCommandWithInput env i command args s = (r, s')\<rbrakk>
   \<Longrightarrow> log_ok s'"
  by (auto simp: RunCommand_def RunCommandWithInput_def intro: execute_log_ok)

lemma run_log_ok_snd:
  assumes "log_ok s" "args \<noteq> []" "CHR '' '' \<notin> set (last args)"
  shows "log_ok (snd (RunCommand env command args s))" "log_ok (snd (RunCommandWithInput env i command args s))"
  using assms by (metis run_log_ok prod.collapse)+

lemma run_obtain:
  assumes "log_ok s" "args \<noteq> []" "CHR '' '' \<notin> set (last args)"
  obtains out e s' where "RunCommand env command args s = ((out, e), s')" "log_ok s'"
  using assms run_log_ok(1) by (metis prod.collapse)

lemma run_input_obtain:
  assumes "log_ok s" "args \<noteq> []" "CHR '' '' \<notin> set (last args)"
  obtains out e s' where "RunCommandWithInput env i command args s = ((out, e), s')" "log_ok s'"
  using assms run_log_ok(2) by (metis prod.collapse)

lemma CheckSambaUser_log_ok:
  assumes "log_ok s" shows "log_ok (snd (CheckSambaUser env u p s))"
proof -
  let ?n = "NormalizeUsernameForUnixSamba u"
  obtain out e s1 where r1: "RunCommand env ''pdbedit'' [''-L'', ''-v'', ''-u'', ?n] s = ((out, e), s1)" "log_ok s1"
    by (rule run_obtain [OF assms, of "[''-L'', ''-v'', ''-u'', ?n]"]) (simp_all add: normalized_no_space)
  obtain out2 e2 s2 where r2: "RunCommand env ''pdbedit'' [''-L'', ''-w'', ''-u'', ?n] s1 = ((out2, e2), s2)" "log_ok s2"
    by (rule run_obtain [OF r1(2), of "[''-L'', ''-w'', ''-u'', ?n]"]) (simp_all add: normalized_no_space)
  show ?thesis
  proof (cases e)
    case None
    then show ?thesis using r1 r2 by (cases e2) (simp_all add: CheckSambaUser_def Let_def split: res.split)
  next
    case (Some x)
    then show ?thesis using r1 by (simp add: CheckSambaUser_def Let_def split: option.split)
  qed
qed

lemma check_obtain:
  assumes "log_ok s"
  obtains r s' where "CheckSambaUser env u p s = (r, s')" "log_ok s'"
  using CheckSambaUser_log_ok [OF assms] by (metis prod.collapse)

lemma add_account_log_ok:
  assumes "log_ok s"
  shows "log_ok (snd (case RunCommandWithInput env i ''smbpasswd'' [''-a'', ''-s'', NormalizeUsernameForUnixSamba u] s of
     ((out, Some e), s2) \<Rightarrow> (x, s2)
   | ((out, None), s2) \<Rightarrow> (case CheckSambaUser env v p s2 of (Some e, s3) \<Rightarrow> (y, s3) | (None, s3) \<Rightarrow> (None, s3))))"
proof -
  obtain out e s2 where r: "RunCommandWithInput env i ''smbpasswd'' [''-a'', ''-s'', NormalizeUsernameForUnixSamba u] s
      = ((out, e), s2)" "log_ok s2"
    by (rule run_input_obtain [OF assms, of "[''-a'', ''-s'', NormalizeUsernameForUnixSamba u]"])
      (simp_all add: normalized_no_space)
  obtain c s3 where "CheckSambaUser env v p s2 = (c, s3)" "log_ok s3" by (rule check_obtain [OF r(2)])
  then show ?thesis using r by (cases e; cases c) simp_all
qed

lemma CreateSambaUser_log_ok:
  assumes "log_ok s" shows "log_ok (snd (CreateSambaUser env u p opts s))"
proof -
  obtain out e s1 where r: "RunCommand env ''useradd'' (useradd_args u opts) s = ((out, e), s1)" "log_ok s1"
    by (rule run_obtain [OF assms, of "useradd_args u opts"]) (simp_all add: normalized_no_space useradd_args_def)
  show ?thesis using r
    by (cases e) (simp_all add: CreateSambaUser_def Let_def add_account_log_ok split: if_split)
qed

lemma DeleteSambaUser_log_ok:
  assumes "log_ok s" shows "log_ok (snd (DeleteSambaUser env u s))"
proof -
  let ?n = "NormalizeUsernameForUnixSamba u"
  obtain out e s1 where r1: "RunCommand env ''smbpasswd'' [''-x'', ?n] s = ((out, e), s1)" "log_ok s1"
    by (rule run_obtain [OF assms, of "[''-x'', ?n]"]) (simp_all add: normalized_no_space)
  obtain out2 e2 s2 where r2: "RunCommand env ''deluser'' [''--remove-home'', ?n] s1 = ((out2, e2), s2)" "log_ok s2"
    by (rule run_obtain [OF r1(2), of "[''--remove-home'', ?n]"]) (simp_all add: normalized_no_space)
  have "log_ok (snd (CheckSambaUser env u ''invalidpasswordforsure'' s2))" using r2(2) by (rule CheckSambaUser_log_ok)
  then show ?thesis using r1 r2
    by (cases e; cases e2) (simp_all add: DeleteSambaUser_def Let_def split: if_split)
qed

lemma ChangePassword_log_ok:
  assumes "log_ok s" shows "log_ok (snd (ChangePassword env u p s))"
proof -
  let ?a = "[''-s'', NormalizeUsernameForUnixSamba u]"
  obtain out e s1 where r1: "RunCommandWithInput env (password_input p) ''smbpasswd'' ?a s = ((out, e), s1)" "log_ok s1"
    by (rule run_input_obtain [OF assms, of ?a]) (simp_all add: normalized_no_space)
  obtain c s2 where "CheckSambaUser env u p s1 = (c, s2)" "log_ok s2" by (rule check_obtain [OF r1(2)])
  then show ?thesis using r1 by (cases e; cases c) (simp_all add: ChangePassword_def)
qed

lemma rename_account_log_ok:
  assumes "log_ok s" shows "log_ok (snd (rename_account env old new p s))"
proof -
  let ?old = "NormalizeUsernameForUnixSamba old" and ?new = "NormalizeUsernameForUnixSamba new"
  obtain r0 s1 where r0: "RunCommand env ''smbpasswd'' [''-x'', ?old] s = (r0, s1)" "log_ok s1"
    by (rule run_obtain [OF assms, of "[''-x'', ?old]"]) (simp_all add: normalized_no_space)
  obtain out e s2 where r1: "RunCommand env ''usermod'' [''-l'', ?new, ?old] s1 = ((out, e), s2)" "log_ok s2"
    by (rule run_obtain [OF r0(2), of "[''-l'', ?new, ?old]"]) (simp_all add: normalized_no_space)
  obtain out2 e2 s3 where r2:
    "RunCommand env ''usermod'' [''-d'', ''/home/'' @ ?new, ''-m'', ?new] s2 = ((out2, e2), s3)" "log_ok s3"
    by (rule run_obtain [OF r1(2), of "[''-d'', ''/home/'' @ ?new, ''-m'', ?new]"])
      (simp_all add: normalized_no_space)
  show ?thesis
  proof (cases e)
    case None
    show ?thesis
    proof (cases "us_lookup env (us_out s2) ?new")
      case None
      then show ?thesis using r0 r1 \<open>e = None\<close>
        by (simp add: rename_account_def Let_def add_account_log_ok)
    next
      case (Some v)
      then show ?thesis using r0 r1 r2 \<open>e = None\<close>
        by (cases e2) (simp_all add: rename_account_def Let_def add_account_log_ok)
    qed
  next
    case (Some x)
    then show ?thesis using r0 r1 by (simp add: rename_account_def Let_def)
  qed
qed

lemma RenameUsername_log_ok:
  assumes "log_ok s" shows "log_ok (snd (RenameUsername env old new p s))"
proof -
  let ?a = "[''-L'', ''-v'', ''-u'', NormalizeUsernameForUnixSamba new]"
  obtain out e s1 where r: "RunCommand env ''pdbedit'' ?a s = ((out, e), s1)" "log_ok s1"
    by (rule run_obtain [OF assms, of ?a]) (simp_all add: normalized_no_space)
  then show ?thesis using assms rename_account_log_ok [OF r(2)]
    by (cases e) (simp_all add: RenameUsername_def Let_def)
qed

lemma GetByUsername_log_ok:
  assumes "log_ok s" shows "log_ok (snd (GetByUsername env u s))"
proof -
  let ?a = "[''-L'', ''-v'', ''-u'', NormalizeUsernameForUnixSamba u]"
  obtain out e s1 where r: "RunCommand env ''pdbedit'' ?a s = ((out, e), s1)" "log_ok s1"
    by (rule run_obtain [OF assms, of ?a]) (simp_all add: normalized_no_space)
  then show ?thesis using assms
    by (cases e) (simp_all add: GetByUsername_def Let_def split: option.split)
qed

lemma ListSambaUsers_log_ok:
  assumes "log_ok s" shows "log_ok (snd (ListSambaUsers env s))"
proof -
  obtain out e s1 where r: "RunCommand env ''pdbedit'' [''-L''] s = ((out, e), s1)" "log_ok s1"
    by (rule run_obtain [OF assms, of "[''-L'']"]) simp_all
  then show ?thesis by (cases e) (simp_all add: ListSambaUsers_def Let_def)
qed

lemma GetSambaVersion_log_ok:
  assumes "log_ok s" shows "log_ok (snd (GetSambaVersion env s))"
proof -
  obtain out e s1 where r: "RunCommand env ''smbd'' [''--version''] s = ((out, e), s1)" "log_ok s1"
    by (rule run_obtain [OF assms, of "[''--version'']"]) simp_all
  then show ?thesis using assms
    by (cases e) (simp_all add: GetSambaVersion_def log_ok_def split: list.split)
qed

lemma us_step_log_ok: "log_ok s \<Longrightarrow> log_ok (us_step s c)"
proof -
  assume s: "log_ok s"
  obtain env call where c: "c = (env, call)" by (metis prod.collapse)
  have version: "log_ok (snd (IsSambaVersionSufficient env s))"
    using GetSambaVersion_log_ok [OF s, of env]
    by (auto simp: IsSambaVersionSufficient_def IsSambaVersionAtLeast_def split: prod.split res.split)
  show ?thesis using s version
    by (cases call) (simp_all add: c us_step_def CreateSambaUser_log_ok DeleteSambaUser_log_ok
        ChangePassword_log_ok RenameUsername_log_ok CheckSambaUser_log_ok GetByUsername_log_ok ListSambaUsers_log_ok)
qed

interpretation samba_log: invariant_steps us_step "\<lambda>_. True" log_ok
  by unfold_locales (rule us_step_log_ok)

definition new_us :: "'o \<Rightarrow> 'o us" where
  "new_us w = \<lparr>us_log = [], us_version = [], us_out = w\<rparr>"

text \<open>C25: Whatever accounts are created, changed, renamed, deleted, checked or listed, with whatever
  names, passwords and options, the executor is only ever given one of the six account tools; no
  argument contains a line break, and the last one, the account, contains no blank.\<close>

theorem samba_commands_validated:
  fixes calls :: "('o us_env \<times> samba_call) list"
  shows "list_all command_ok (us_log (foldl us_step (new_us w) calls))"
proof -
  have "log_ok (new_us w)" by (simp add: log_ok_def new_us_def)
  then have "log_ok (foldl us_step (new_us w) calls)"
    by (rule samba_log.inv_run) (simp add: list_all_iff)
  then show ?thesis by (simp add: log_ok_def)
qed

section \<open>Checking an account\<close>

text \<open>
  An account as \<open>pdbedit\<close> prints it: with \<open>-v\<close> one attribute per line, with \<open>-w\<close> one line in the
  format of an \<open>smbpasswd\<close> file.
\<close>

record samba_account =
  sa_before :: "string list"
  sa_flags :: string
  sa_after :: "string list"
  sa_uid :: string
  sa_lm :: string
  sa_nt :: string
  sa_rest :: string

definition attribute_line :: "string \<Rightarrow> bool" where
  "attribute_line l \<longleftrightarrow> newline \<notin> set l \<and> length l < 65536"

definition nt_chars :: string where
  "nt_chars = ''0123456789ABCDEFX''"

definition account_ok :: "samba_account \<Rightarrow> bool" where
  "account_ok a \<longleftrightarrow>
     list_all attribute_line (sa_before a @ sa_after a) \<and>
     list_all (\<lambda>l. case key_value (drop_cr l) of Some (k, v) \<Rightarrow> k \<noteq> ''Account Flags'' | None \<Rightarrow> True) (sa_before a) \<and>
     newline \<notin> set (sa_flags a) \<and> length (sa_flags a) < 65000 \<and>
     sa_flags a \<noteq> [] \<and> \<not> is_space (hd (sa_flags a)) \<and> \<not> is_space (last (sa_flags a)) \<and>
     list_all (\<lambda>f. CHR '':'' \<notin> set f \<and> newline \<notin> set f) [sa_uid a, sa_lm a, sa_nt a] \<and>
     length (sa_nt a) = 32 \<and> set (sa_nt a) \<subseteq> set nt_chars \<and>
     newline \<notin> set (sa_rest a) \<and> sa_rest a \<noteq> [] \<and> \<not> is_space (last (sa_rest a))"

definition verbose_output :: "samba_account \<Rightarrow> string" where
  "verbose_output a =
     Join (sa_before a @ [''Account Flags:        '' @ sa_flags a] @ sa_after a) [newline]"

definition smbpasswd_output :: "string \<Rightarrow> samba_account \<Rightarrow> string" where
  "smbpasswd_output n a =
     Join [n, sa_uid a, sa_lm a, sa_nt a, sa_rest a] '':''"

definition pdbedit_prints :: "'o us_env \<Rightarrow> ('o \<Rightarrow> string \<Rightarrow> samba_account option) \<Rightarrow> bool" where
  "pdbedit_prints env db \<longleftrightarrow>
     (\<forall>w n. case db w n of
        None \<Rightarrow> snd (fst (us_exec env [] ''pdbedit'' [''-L'', ''-v'', ''-u'', n] w)) \<noteq> None
      | Some a \<Rightarrow>
          account_ok a \<and>
          (\<exists>ls w'. us_exec env [] ''pdbedit'' [''-L'', ''-v'', ''-u'', n] w = ((ls, None), w') \<and>
             JoinChannelOutput ls [Stdout] = verbose_output a \<and> db w' = db w) \<and>
          (\<exists>ls w'. us_exec env [] ''pdbedit'' [''-L'', ''-w'', ''-u'', n] w = ((ls, None), w') \<and>
             JoinChannelOutput ls [Stdout] = smbpasswd_output n a \<and> db w' = db w))"

definition account_name :: "string \<Rightarrow> bool" where
  "account_name n \<longleftrightarrow> n \<noteq> [] \<and> (\<forall>c \<in> set n. \<not> is_space c \<and> c \<noteq> CHR '':'')"

lemma scan_lines_upto:
  "\<lbrakk>\<forall>l \<in> set xs. length l < 65536; y \<noteq> []; length y < 65536\<rbrakk> \<Longrightarrow>
   \<exists>r. scan_lines (xs @ y # zs) = map drop_cr xs @ drop_cr y # r"
proof (induction xs)
  case Nil
  then show ?case by (cases zs) simp_all
next
  case (Cons x xs)
  then obtain r where "scan_lines (xs @ y # zs) = map drop_cr xs @ drop_cr y # r" by auto
  then show ?case using Cons.prems by (cases xs) simp_all
qed

lemma first_some_append:
  "\<forall>x \<in> set xs. f x = None \<Longrightarrow> first_some f (xs @ ys) = first_some f ys"
  by (induction xs) auto

lemma TrimSpace_ends: "s \<noteq> [] \<Longrightarrow> \<not> is_space (hd s) \<Longrightarrow> \<not> is_space (last s) \<Longrightarrow> TrimSpace s = s"
  by (rule TrimSpace_id) auto

lemma flags_key:
  assumes "f \<noteq> []" "\<not> is_space (hd f)" "\<not> is_space (last f)"
  shows "key_value (drop_cr (''Account Flags:        '' @ f)) = Some (''Account Flags'', f)"
proof -
  have "last f \<noteq> CHR 0x0D" using assms(3) by (auto simp: is_space_def)
  then have cr: "drop_cr (''Account Flags:        '' @ f) = ''Account Flags:        '' @ f"
    using assms(1) by (simp add: drop_cr_def)
  have t: "TrimSpace (''Account Flags:        '' @ f) = ''Account Flags:        '' @ f"
    by (rule TrimSpace_ends) (use assms in \<open>simp_all add: is_space_def\<close>)
  have v: "TrimSpace (''        '' @ f) = f"
    using assms TrimSpace_ends [of f] by (simp add: TrimSpace_def is_space_def)
  have k: "TrimSpace ''Account Flags'' = ''Account Flags''" by (simp add: TrimSpace_def is_space_def)
  have "SplitN2 (''Account Flags:        '' @ f) CHR '':'' = [''Account Flags'', ''        '' @ f]"
    by simp
  then show ?thesis unfolding cr key_value_def t using k v by simp
qed

lemma account_flags_verbose:
  assumes ok: "account_ok a" shows "account_flags (verbose_output a) = sa_flags a"
proof -
  let ?fl = "''Account Flags:        '' @ sa_flags a"
  have lines: "Split (verbose_output a) newline = sa_before a @ ?fl # sa_after a"
    unfolding verbose_output_def
    using ok by (subst Split_Join) (auto simp: account_ok_def attribute_line_def list_all_iff newline_def)
  obtain r where "scan_lines (sa_before a @ ?fl # sa_after a) = map drop_cr (sa_before a) @ drop_cr ?fl # r"
    using scan_lines_upto [of "sa_before a" ?fl "sa_after a"] ok
    by (auto simp: account_ok_def attribute_line_def list_all_iff)
  then have sl: "Scanner_Lines (verbose_output a) = map drop_cr (sa_before a) @ drop_cr ?fl # r"
    using lines by (simp add: Scanner_Lines_def newline_def)
  have key: "key_value (drop_cr ?fl) = Some (''Account Flags'', sa_flags a)"
    by (rule flags_key) (use ok in \<open>simp_all add: account_ok_def\<close>)
  let ?f = "\<lambda>line. case key_value line of
      Some (k, v) \<Rightarrow> if k = ''Account Flags'' then Some v else None | None \<Rightarrow> None"
  have "first_some ?f (map drop_cr (sa_before a) @ drop_cr ?fl # r) = first_some ?f (drop_cr ?fl # r)"
    by (rule first_some_append) (use ok in \<open>auto simp: account_ok_def list_all_iff split: option.splits\<close>)
  then have "first_some ?f (Scanner_Lines (verbose_output a)) = Some (sa_flags a)"
    unfolding sl by (simp only: first_some.simps key option.case prod.case if_True simp_thms)
  then show ?thesis by (simp add: account_flags_def)
qed

definition upper_hex :: string where
  "upper_hex = ''0123456789ABCDEF''"

lemma nth_upper_hex: "n < 16 \<Longrightarrow> ToUpper [hex_digits ! n] = [upper_hex ! n]"
proof -
  have "map (\<lambda>n. ToUpper [hex_digits ! n]) [0..<16] = map (\<lambda>n. [upper_hex ! n]) [0..<16]"
    by (simp add: ToUpper_def hex_digits_def upper_hex_def char_of_def bit_Suc_0_iff upt_rec)
  then show "n < 16 \<Longrightarrow> ?thesis" unfolding map_eq_conv by simp
qed

lemma NTHash_hex: "length (NTHash p) = 32" "set (NTHash p) \<subseteq> set upper_hex"
proof -
  have len: "length (md4Sum d) = 16" for d
    by (simp add: md4Sum_def Let_def put_le_def split: prod.split)
  have hl: "length (hex_EncodeToString bs) = 2 * length bs" for bs
    by (induction bs) (simp_all add: hex_EncodeToString_def)
  show "length (NTHash p) = 32" by (simp add: NTHash_def Let_def ToUpper_def hl len)
  have small: "unat (b :: 8 word) div 16 < 16" for b
  proof -
    have "unat b < 256" by (rule order_less_le_trans [OF unsigned_less]) simp
    then show ?thesis by simp
  qed
  have "set (ToUpper (hex_EncodeToString bs)) \<subseteq> set upper_hex" for bs
  proof (induction bs)
    case (Cons b bs)
    have "set (ToUpper [hex_digits ! n]) \<subseteq> set upper_hex" if "n < 16" for n
      using nth_mem [of n upper_hex] that nth_upper_hex [OF that] by (simp add: upper_hex_def [THEN arg_cong, of length])
    from this [OF small [of b]] this [of "unat b mod 16"] Cons show ?case
      by (simp add: hex_EncodeToString_def ToUpper_def)
  qed (simp add: hex_EncodeToString_def ToUpper_def)
  then show "set (NTHash p) \<subseteq> set upper_hex" by (simp add: NTHash_def Let_def)
qed

lemma nt_chars_lower: "map lower_char nt_chars = ''0123456789abcdefx''"
  by (simp add: nt_chars_def lower_char_def char_of_def bit_Suc_0_iff)

lemma upper_hex_nt: "set upper_hex \<subseteq> set nt_chars"
  by (simp add: upper_hex_def nt_chars_def)

lemma nt_chars_upper: "\<forall>c \<in> set nt_chars. ToUpper [c] = [c]"
  by (simp add: nt_chars_def ToUpper_def)

lemma EqualFold_nt:
  assumes "set s \<subseteq> set nt_chars" "set t \<subseteq> set nt_chars" shows "EqualFold s t \<longleftrightarrow> s = t"
proof -
  have "distinct (map lower_char nt_chars)" unfolding nt_chars_lower by simp
  then have "inj_on lower_char (set nt_chars)" by (simp add: distinct_map)
  then have "inj_on lower_char (set s \<union> set t)" using assms by (auto intro: inj_on_subset)
  then show ?thesis by (auto simp: EqualFold_def ToLower_def dest: map_inj_on)
qed

lemma parse_smbpasswd_output:
  assumes ok: "account_ok a" and n: "account_name n"
  shows "parseSmbPasswdNTHash n (smbpasswd_output n a) = Ok (sa_nt a)"
proof -
  let ?o = "smbpasswd_output n a"
  have out: "?o = n @ CHR '':'' # sa_uid a @ CHR '':'' # sa_lm a @ CHR '':'' # sa_nt a @ CHR '':'' # sa_rest a"
    by (simp add: smbpasswd_output_def)
  have trim: "TrimSpace ?o = ?o"
    by (rule TrimSpace_ends) (use ok n in \<open>auto simp: out account_ok_def account_name_def\<close>)
  have "newline \<notin> set ?o"
    using ok n by (auto simp: out account_ok_def account_name_def newline_def is_space_def)
  then have split: "Split ?o newline = [?o]" using Split_Join [of "[?o]" newline] by simp
  have prefix: "HasPrefix ?o (n @ '':'')" by (simp add: HasPrefix_def out)
  have c: "CHR '':'' \<notin> set n" "CHR '':'' \<notin> set (sa_uid a)" "CHR '':'' \<notin> set (sa_lm a)" "CHR '':'' \<notin> set (sa_nt a)"
    using ok n by (auto simp: account_ok_def account_name_def)
  have parts: "SplitN ?o CHR '':'' 5 = [n, sa_uid a, sa_lm a, sa_nt a, sa_rest a]"
    unfolding out by (simp add: eval_nat_numeral SplitN2_app c)
  have "ToUpper (sa_nt a) = sa_nt a"
  proof -
    have "set t \<subseteq> set nt_chars \<Longrightarrow> ToUpper t = t" for t
      using nt_chars_upper by (induction t) (auto simp: ToUpper_def)
    then show ?thesis using ok by (simp add: account_ok_def)
  qed
  then show ?thesis using ok
    by (simp add: parseSmbPasswdNTHash_def trim split prefix parts account_ok_def Let_def)
qed

text \<open>C23: The check of an account succeeds exactly when the Samba database has the account, it is an
  active user, neither disabled nor locked, and the stored hash is the NT hash of the given password,
  provided that \<open>pdbedit\<close> prints its database; and it changes nothing in it.\<close>

theorem CheckSambaUser_exact:
  assumes pdb: "pdbedit_prints env db" and name: "account_name (NormalizeUsernameForUnixSamba user)"
    and check: "CheckSambaUser env user password s = (r, s')"
  shows "(r = None \<longleftrightarrow> (\<exists>a. db (us_out s) (NormalizeUsernameForUnixSamba user) = Some a \<and>
      Contains (sa_flags a) ''U'' \<and> \<not> Contains (sa_flags a) ''D'' \<and> \<not> Contains (sa_flags a) ''L'' \<and>
      sa_nt a = NTHash password)) \<and> (r = None \<longrightarrow> db (us_out s') = db (us_out s))"
proof -
  let ?n = "NormalizeUsernameForUnixSamba user"
  have nl: "newline \<notin> set ?n \<and> CHR 0x0D \<notin> set ?n"
    using name by (auto simp: account_name_def newline_def is_space_def)
  have valid: "validateUnixSambaCommand ''pdbedit'' [''-L'', x, ''-u'', ?n] = None" if "x \<in> {''-v'', ''-w''}" for x
    using nl that by (auto simp: validateUnixSambaCommand_def allowedUnixSambaCommands_def ContainsAny_def
        TrimSpace_def is_space_def newline_def)
  have run: "RunCommand env ''pdbedit'' [''-L'', x, ''-u'', ?n] t =
      (case us_exec env [] ''pdbedit'' [''-L'', x, ''-u'', ?n] (us_out t) of
         ((lines, e), w) \<Rightarrow> ((JoinChannelOutput lines [Stdout],
             map_option (\<lambda>m. \<lparr>ce_stderr = Some (JoinChannelOutput lines [Stderr]), ce_text = m\<rparr>) e),
           t\<lparr>us_log := us_log t @ [([], ''pdbedit'', [''-L'', x, ''-u'', ?n])], us_out := w\<rparr>))"
    if "x \<in> {''-v'', ''-w''}" for x t
    using valid [OF that] by (simp add: RunCommand_def executeUnixSambaCommand_def)
  note answers = pdb [unfolded pdbedit_prints_def, rule_format]
  show ?thesis
  proof (cases "db (us_out s) ?n")
    case None
    then have "snd (fst (us_exec env [] ''pdbedit'' [''-L'', ''-v'', ''-u'', ?n] (us_out s))) \<noteq> None"
      using answers [where w = "us_out s" and n = ?n] unfolding None option.case by blast
    then obtain ls e w where "us_exec env [] ''pdbedit'' [''-L'', ''-v'', ''-u'', ?n] (us_out s) = ((ls, Some e), w)"
      by (metis fst_conv option.exhaust prod.collapse snd_conv)
    then have "r \<noteq> None" using check
      by (auto simp: CheckSambaUser_def Let_def run samba_err_def split: if_splits)
    then show ?thesis using None by (cases r) simp_all
  next
    case (Some a)
    then have p: "account_ok a"
      "\<exists>ls w'. us_exec env [] ''pdbedit'' [''-L'', ''-v'', ''-u'', ?n] (us_out s) = ((ls, None), w') \<and>
         JoinChannelOutput ls [Stdout] = verbose_output a \<and> db w' = db (us_out s)"
      using answers [where w = "us_out s" and n = ?n] unfolding Some option.case by blast+
    then obtain ls w where v: "us_exec env [] ''pdbedit'' [''-L'', ''-v'', ''-u'', ?n] (us_out s) = ((ls, None), w)"
      "JoinChannelOutput ls [Stdout] = verbose_output a" "db w = db (us_out s)" by blast
    have "db w ?n = Some a" using v(3) Some by simp
    then have "\<exists>ls w'. us_exec env [] ''pdbedit'' [''-L'', ''-w'', ''-u'', ?n] w = ((ls, None), w') \<and>
         JoinChannelOutput ls [Stdout] = smbpasswd_output ?n a \<and> db w' = db w"
      using answers [where w = w and n = ?n] unfolding \<open>db w ?n = Some a\<close> option.case by blast
    then obtain ls2 w2 where w: "us_exec env [] ''pdbedit'' [''-L'', ''-w'', ''-u'', ?n] w = ((ls2, None), w2)"
      "JoinChannelOutput ls2 [Stdout] = smbpasswd_output ?n a" "db w2 = db w" by blast
    have nt: "set (sa_nt a) \<subseteq> set nt_chars" "length (sa_nt a) = 32" using p(1) by (simp_all add: account_ok_def)
    have hex: "set (NTHash password) \<subseteq> set nt_chars"
      using NTHash_hex(2) upper_hex_nt by (rule subset_trans)
    have fold: "EqualFold (NTHash password) (sa_nt a) \<longleftrightarrow> NTHash password = sa_nt a"
      by (rule EqualFold_nt [OF hex nt(1)])
    have unset: "isSmbDisabledHash (sa_nt a) \<Longrightarrow> sa_nt a \<noteq> NTHash password"
    proof
      assume d: "isSmbDisabledHash (sa_nt a)" and eq: "sa_nt a = NTHash password"
      then have "hd (NTHash password) = CHR ''X''" using nt(2) by (cases "NTHash password") (auto simp: isSmbDisabledHash_def)
      moreover have "hd (NTHash password) \<in> set upper_hex"
        using NTHash_hex [of password] by (cases "NTHash password") auto
      ultimately show False by (simp add: upper_hex_def)
    qed
    define s1 where "s1 = s\<lparr>us_log := us_log s @ [([], ''pdbedit'', [''-L'', ''-v'', ''-u'', ?n])], us_out := w\<rparr>"
    define s2 where "s2 = s1\<lparr>us_log := us_log s1 @ [([], ''pdbedit'', [''-L'', ''-w'', ''-u'', ?n])], us_out := w2\<rparr>"
    have rv: "RunCommand env ''pdbedit'' [''-L'', ''-v'', ''-u'', ?n] s = ((verbose_output a, None), s1)"
      by (simp add: run v(1,2) s1_def)
    have rw: "RunCommand env ''pdbedit'' [''-L'', ''-w'', ''-u'', ?n] s1 = ((smbpasswd_output ?n a, None), s2)"
      by (simp add: run w(1,2) s1_def s2_def)
    have "(r, s') = (if \<not> Contains (sa_flags a) ''U'' then (samba_err ?n ''account is not active'', s1)
        else if Contains (sa_flags a) ''D'' \<or> Contains (sa_flags a) ''L'' then
          (samba_err ?n ''account is disabled or locked'', s1)
        else if isSmbDisabledHash (sa_nt a) then (samba_err ?n ''has no password set'', s2)
        else if NTHash password \<noteq> sa_nt a then (samba_err ?n ''invalid password'', s2)
        else (None, s2))"
      unfolding check [symmetric] CheckSambaUser_def Let_def rv rw prod.case option.case
        account_flags_verbose [OF p(1)] parse_smbpasswd_output [OF p(1) name] res.case fold ..
    moreover have "db (us_out s2) = db (us_out s)" using v(3) w(3) by (simp add: s2_def)
    ultimately show ?thesis using Some unset by (auto simp: samba_err_def split: if_splits)
  qed
qed

section \<open>Renaming\<close>

lemma run_no_error:
  assumes "RunCommandWithInput env i command args s = ((out, None), s')"
  shows "us_log s' = us_log s @ [(i, command, args)] \<and> validateUnixSambaCommand command args = None"
  using assms
  by (auto simp: RunCommandWithInput_def executeUnixSambaCommand_def split: option.splits prod.splits)

lemma run_plain: "RunCommand env command args s = RunCommandWithInput env [] command args s"
  by (simp add: RunCommand_def RunCommandWithInput_def)

lemma run_log:
  "us_log (snd (RunCommandWithInput env i command args s)) =
     us_log s @ (if validateUnixSambaCommand command args = None then [(i, command, args)] else [])"
  by (auto simp: RunCommandWithInput_def executeUnixSambaCommand_def split: option.split prod.split)

lemma CheckSambaUser_ok_log:
  assumes "CheckSambaUser env u p s = (None, s')"
  shows "us_log s' = us_log s @ [([], ''pdbedit'', [''-L'', ''-v'', ''-u'', NormalizeUsernameForUnixSamba u]),
      ([], ''pdbedit'', [''-L'', ''-w'', ''-u'', NormalizeUsernameForUnixSamba u])]"
proof -
  let ?n = "NormalizeUsernameForUnixSamba u"
  obtain out e s1 where r1: "RunCommand env ''pdbedit'' [''-L'', ''-v'', ''-u'', ?n] s = ((out, e), s1)"
    by (metis prod.collapse)
  obtain out2 e2 s2 where r2: "RunCommand env ''pdbedit'' [''-L'', ''-w'', ''-u'', ?n] s1 = ((out2, e2), s2)"
    by (metis prod.collapse)
  have "e = None" using assms r1
    by (cases e) (auto simp: CheckSambaUser_def Let_def samba_err_def split: option.splits if_splits)
  moreover from this have "e2 = None" using assms r1 r2
    by (cases e2) (auto simp: CheckSambaUser_def Let_def samba_err_def split: if_splits)
  moreover from calculation have "s' = s2" using assms r1 r2
    by (auto simp: CheckSambaUser_def Let_def samba_err_def split: if_splits res.splits)
  ultimately show ?thesis
    using run_no_error [OF r1 [unfolded run_plain, unfolded \<open>e = None\<close>]]
      run_no_error [OF r2 [unfolded run_plain, unfolded \<open>e2 = None\<close>]] by simp
qed

definition renaming_commands :: "string \<Rightarrow> string \<Rightarrow> string \<Rightarrow> bool \<Rightarrow> (string \<times> string \<times> string list) list" where
  "renaming_commands old new password home =
     [([], ''smbpasswd'', [''-x'', old]), ([], ''usermod'', [''-l'', new, old])]
     @ (if home then [([], ''usermod'', [''-d'', ''/home/'' @ new, ''-m'', new])] else [])
     @ [(password_input password, ''smbpasswd'', [''-a'', ''-s'', new]),
        ([], ''pdbedit'', [''-L'', ''-v'', ''-u'', new]), ([], ''pdbedit'', [''-L'', ''-w'', ''-u'', new])]"

lemma add_account_ok:
  assumes "(case RunCommandWithInput env i ''smbpasswd'' [''-a'', ''-s'', NormalizeUsernameForUnixSamba u] s of
     ((out, Some e), s2) \<Rightarrow> (samba_err x1 x2, s2)
   | ((out, None), s2) \<Rightarrow>
       (case CheckSambaUser env u p s2 of (Some e, s3) \<Rightarrow> (samba_err y1 y2, s3) | (None, s3) \<Rightarrow> (None, s3)))
     = (None, s')"
  shows "us_log s' = us_log s @ [(i, ''smbpasswd'', [''-a'', ''-s'', NormalizeUsernameForUnixSamba u]),
      ([], ''pdbedit'', [''-L'', ''-v'', ''-u'', NormalizeUsernameForUnixSamba u]),
      ([], ''pdbedit'', [''-L'', ''-w'', ''-u'', NormalizeUsernameForUnixSamba u])]"
proof -
  obtain out e s2 where r: "RunCommandWithInput env i ''smbpasswd'' [''-a'', ''-s'', NormalizeUsernameForUnixSamba u] s
      = ((out, e), s2)" by (metis prod.collapse)
  obtain c s3 where ch: "CheckSambaUser env u p s2 = (c, s3)" by (metis prod.collapse)
  have "e = None" "c = None" "s3 = s'" using assms r ch
    by (cases e; cases c; simp add: samba_err_def)+
  then show ?thesis using run_no_error [of env i _ _ s out s2] r CheckSambaUser_ok_log [of env u p s2 s'] ch by simp
qed

lemma rename_account_ok:
  assumes "rename_account env old new p s = (None, s')"
  shows "\<exists>home. us_log s' = us_log s @
      renaming_commands (NormalizeUsernameForUnixSamba old) (NormalizeUsernameForUnixSamba new) p home"
proof -
  let ?old = "NormalizeUsernameForUnixSamba old" and ?new = "NormalizeUsernameForUnixSamba new"
  obtain r0 s1 where r0: "RunCommand env ''smbpasswd'' [''-x'', ?old] s = (r0, s1)" by (metis prod.collapse)
  obtain out e s2 where r1: "RunCommand env ''usermod'' [''-l'', ?new, ?old] s1 = ((out, e), s2)"
    by (metis prod.collapse)
  have "e = None" using assms r0 r1 by (cases e) (simp_all add: rename_account_def Let_def samba_err_def)
  then have l2: "us_log s2 = us_log s1 @ [([], ''usermod'', [''-l'', ?new, ?old])]"
    and v: "validateUnixSambaCommand ''usermod'' [''-l'', ?new, ?old] = None"
    using run_no_error [of env "[]" _ _ s1 out s2] r1 by (simp_all add: run_plain)
  have "validateUnixSambaCommand ''smbpasswd'' [''-x'', ?old] = None"
    using v by (auto simp: validateUnixSambaCommand_def allowedUnixSambaCommands_def ContainsAny_def TrimSpace_def
        is_space_def newline_def split: if_splits)
  then have l1: "us_log s1 = us_log s @ [([], ''smbpasswd'', [''-x'', ?old])]"
    using run_log [of env "[]" "''smbpasswd''" "[''-x'', ?old]" s] r0 by (simp add: run_plain)
  show ?thesis
  proof (cases "us_lookup env (us_out s2) ?new")
    case None
    then have "us_log s' = us_log s2 @ [(password_input p, ''smbpasswd'', [''-a'', ''-s'', ?new]),
        ([], ''pdbedit'', [''-L'', ''-v'', ''-u'', ?new]), ([], ''pdbedit'', [''-L'', ''-w'', ''-u'', ?new])]"
      using assms r0 r1 \<open>e = None\<close>
      by (intro add_account_ok [where p = p]) (simp add: rename_account_def Let_def)
    then show ?thesis by (intro exI [of _ False]) (simp add: renaming_commands_def l1 l2)
  next
    case (Some v)
    show ?thesis
    proof (cases "ou_HomeDir v = ''/home/'' @ ?old")
      case False
      then have "us_log s' = us_log s2 @ [(password_input p, ''smbpasswd'', [''-a'', ''-s'', ?new]),
          ([], ''pdbedit'', [''-L'', ''-v'', ''-u'', ?new]), ([], ''pdbedit'', [''-L'', ''-w'', ''-u'', ?new])]"
        using assms r0 r1 \<open>e = None\<close> Some
        by (intro add_account_ok [where p = p]) (simp add: rename_account_def Let_def)
      then show ?thesis by (intro exI [of _ False]) (simp add: renaming_commands_def l1 l2)
    next
      case True
      obtain out2 e2 s3 where r2:
        "RunCommand env ''usermod'' [''-d'', ''/home/'' @ ?new, ''-m'', ?new] s2 = ((out2, e2), s3)"
        by (metis prod.collapse)
      have "e2 = None" using assms r0 r1 r2 \<open>e = None\<close> Some True
        by (cases e2) (simp_all add: rename_account_def Let_def samba_err_def)
      then have l3: "us_log s3 = us_log s2 @ [([], ''usermod'', [''-d'', ''/home/'' @ ?new, ''-m'', ?new])]"
        using run_no_error [of env "[]" _ _ s2 out2 s3] r2 by (simp add: run_plain)
      have "us_log s' = us_log s3 @ [(password_input p, ''smbpasswd'', [''-a'', ''-s'', ?new]),
          ([], ''pdbedit'', [''-L'', ''-v'', ''-u'', ?new]), ([], ''pdbedit'', [''-L'', ''-w'', ''-u'', ?new])]"
        using assms r0 r1 r2 \<open>e = None\<close> \<open>e2 = None\<close> Some True
        by (intro add_account_ok [where p = p]) (simp add: rename_account_def Let_def)
      then show ?thesis by (intro exI [of _ True]) (simp add: renaming_commands_def l1 l2 l3)
    qed
  qed
qed

text \<open>C30: A rename needs a password and a free name. When the system or Samba knows the new name, or Samba
  cannot tell, it is refused and no command but one question was run. When it succeeds, that question
  was answered with an unknown account, and then exactly the old Samba account was removed, the login
  renamed, its home moved if it was the standard one, and the new Samba account added with the given
  password and checked.\<close>

theorem rename_needs_free_name:
  assumes "RenameUsername env old new password s = (r, s')"
  defines "n \<equiv> NormalizeUsernameForUnixSamba new" and "o' \<equiv> NormalizeUsernameForUnixSamba old"
  defines "question \<equiv> RunCommand env ''pdbedit'' [''-L'', ''-v'', ''-u'', n] s"
  defines "free \<equiv> password \<noteq> [] \<and> us_lookup env (us_out s) n = None \<and>
     (\<exists>e. snd (fst question) = Some e \<and> no_such_user (str_or_empty (ce_stderr e)))"
  shows "(if free then r = None \<longrightarrow> (\<exists>home. us_log s' = us_log (snd question) @ renaming_commands o' n password home)
          else r \<noteq> None \<and> s' \<in> {s, snd question})"
proof -
  obtain out e s1 where q: "question = ((out, e), s1)" by (metis prod.collapse)
  note start = q [unfolded question_def n_def]
  show ?thesis
  proof (cases free)
    case True
    then have "rename_account env old new password s1 = (r, s')"
      using assms(1) q start by (auto simp: RenameUsername_def Let_def free_def n_def)
    then show ?thesis using True q rename_account_ok [of env old new password s1 s']
      by (auto simp: n_def o'_def)
  next
    case False
    then have "r \<noteq> None \<and> s' \<in> {s, s1}"
      using assms(1) q start
      by (cases e) (auto simp: RenameUsername_def Let_def free_def n_def samba_err_def split: if_splits)
    then show ?thesis using False q by simp
  qed
qed

text \<open>Names that differ in blanks only are one account: creating the second takes over the first.\<close>

lemma blank_names_collide:
  "NormalizeUsernameForUnixSamba ''john doe'' = NormalizeUsernameForUnixSamba ''johndoe''"
  by (simp add: NormalizeUsernameForUnixSamba_def TrimSpace_def is_space_def remove_char_def)

text \<open>When the login cannot be renamed, the Samba account of the old name is gone already.\<close>

lemma failed_rename_removes_account:
  assumes "validateUnixSambaCommand ''smbpasswd'' [''-x'', NormalizeUsernameForUnixSamba old] = None"
    and "RunCommand env ''smbpasswd'' [''-x'', NormalizeUsernameForUnixSamba old] s = (r0, s1)"
    and "RunCommand env ''usermod'' [''-l'', NormalizeUsernameForUnixSamba new, NormalizeUsernameForUnixSamba old] s1
           = ((out, Some e), s2)"
  shows "fst (rename_account env old new p s) \<noteq> None \<and>
     us_log s1 = us_log s @ [([], ''smbpasswd'', [''-x'', NormalizeUsernameForUnixSamba old])]"
  using assms run_log [of env "[]" "''smbpasswd''" "[''-x'', NormalizeUsernameForUnixSamba old]" s]
  by (simp add: rename_account_def Let_def samba_err_def run_plain)

section \<open>A small account database\<close>

definition sample_account :: samba_account where
  "sample_account = \<lparr>sa_before = [''Unix username:        alice''], sa_flags = ''[U          ]'',
     sa_after = [], sa_uid = ''1000'', sa_lm = ''XX'', sa_nt = NTHash ''secret'',
     sa_rest = ''[U          ]:LCT-00000000:''\<rparr>"

definition sample_us_env :: "unit us_env" where
  "sample_us_env = \<lparr>us_exec = (\<lambda>stdin command args w.
      if command = ''pdbedit'' \<and> args = [''-L'', ''-v'', ''-u'', ''alice''] then
        (([\<lparr>ln_channel = Stdout, ln_text = verbose_output sample_account, ln_time = 0\<rparr>], None), w)
      else if command = ''pdbedit'' \<and> args = [''-L'', ''-w'', ''-u'', ''alice''] then
        (([\<lparr>ln_channel = Stdout, ln_text = smbpasswd_output ''alice'' sample_account, ln_time = 0\<rparr>], None), w)
      else (([\<lparr>ln_channel = Stderr, ln_text = ''no such user'', ln_time = 0\<rparr>], Some ''exit status 1''), w)),
     us_lookup = (\<lambda>w n. None)\<rparr>"

definition sample_db :: "unit \<Rightarrow> string \<Rightarrow> samba_account option" where
  "sample_db w n = (if n = ''alice'' then Some sample_account else None)"

lemma sample_account_ok: "account_ok sample_account"
proof -
  have nt: "set (NTHash ''secret'') \<subseteq> set nt_chars" using NTHash_hex(2) upper_hex_nt by (rule subset_trans)
  moreover have "CHR '':'' \<notin> set nt_chars" "newline \<notin> set nt_chars" by (simp_all add: nt_chars_def newline_def)
  ultimately have "CHR '':'' \<notin> set (NTHash ''secret'')" "newline \<notin> set (NTHash ''secret'')" by blast+
  moreover have "key_value (drop_cr ''Unix username:        alice'') = Some (''Unix username'', ''alice'')"
    by (simp add: key_value_def drop_cr_def TrimSpace_def is_space_def)
  ultimately show ?thesis using nt NTHash_hex(1)
    by (simp add: account_ok_def sample_account_def attribute_line_def newline_def is_space_def)
qed

lemma sample_prints: "pdbedit_prints sample_us_env sample_db"
proof -
  have one: "JoinChannelOutput [\<lparr>ln_channel = Stdout, ln_text = t, ln_time = 0\<rparr>] [Stdout] = TrimSpace t" for t
    by (simp add: JoinChannelOutput_def)
  have v: "TrimSpace (verbose_output sample_account) = verbose_output sample_account"
    by (rule TrimSpace_ends) (simp_all add: verbose_output_def sample_account_def is_space_def newline_def)
  have w: "TrimSpace (smbpasswd_output ''alice'' sample_account) = smbpasswd_output ''alice'' sample_account"
    by (rule TrimSpace_ends) (simp_all add: smbpasswd_output_def sample_account_def is_space_def)
  show ?thesis
    by (auto simp: pdbedit_prints_def sample_db_def sample_us_env_def sample_account_ok one v w split: option.split)
qed

lemma CheckSambaUser_exact_witness:
  "\<exists>s'. CheckSambaUser sample_us_env ''alice'' ''secret'' (new_us ()) = (None, s')"
proof -
  have n: "NormalizeUsernameForUnixSamba ''alice'' = ''alice''"
    by (simp add: NormalizeUsernameForUnixSamba_def TrimSpace_def is_space_def remove_char_def)
  obtain r s' where c: "CheckSambaUser sample_us_env ''alice'' ''secret'' (new_us ()) = (r, s')"
    by (metis prod.collapse)
  have "account_name (NormalizeUsernameForUnixSamba ''alice'')"
    unfolding n by (simp add: account_name_def is_space_def)
  from CheckSambaUser_exact [OF sample_prints this c] have "r = None"
    by (auto simp: n sample_db_def sample_account_def HasPrefix_def)
  then show ?thesis using c by blast
qed

lemma rename_needs_free_name_witness:
  "\<exists>r s'. RenameUsername sample_us_env ''bob'' ''alice'' ''secret'' (new_us ()) = (r, s') \<and> r \<noteq> None"
proof -
  have n: "NormalizeUsernameForUnixSamba ''alice'' = ''alice''"
    by (simp add: NormalizeUsernameForUnixSamba_def TrimSpace_def is_space_def remove_char_def)
  obtain r s' where c: "RenameUsername sample_us_env ''bob'' ''alice'' ''secret'' (new_us ()) = (r, s')"
    by (metis prod.collapse)
  have "validateUnixSambaCommand ''pdbedit'' [''-L'', ''-v'', ''-u'', ''alice''] = None"
    by (simp add: validateUnixSambaCommand_def allowedUnixSambaCommands_def ContainsAny_def TrimSpace_def
        is_space_def newline_def)
  then have "snd (fst (RunCommand sample_us_env ''pdbedit'' [''-L'', ''-v'', ''-u'', ''alice''] (new_us ()))) = None"
    by (simp add: RunCommand_def executeUnixSambaCommand_def sample_us_env_def)
  with rename_needs_free_name [OF c] have "r \<noteq> None" by (simp add: n)
  then show ?thesis using c by blast
qed

end
