(* ===== verification/User_Service_Laws.thy ===== *)
theory User_Service_Laws
  imports User_Service Unix_Samba_Laws
begin

text \<open>
  What the user service promises: every success is announced once with the user it returns, no
  failure is; a change that fails leaves the table as it was; an administrator remains whatever is
  done; and only the account tools are run.
\<close>

section \<open>Announcements\<close>

definition announced ::
  "event_type \<Rightarrow> ('d, 'o) user_state \<Rightarrow> user res \<times> ('d, 'o) user_state \<Rightarrow> bool" where
  "announced ty s out =
     (uv_events (snd out) = uv_events s @ (case fst out of Ok u \<Rightarrow> [(ty, u)] | _ \<Rightarrow> []))"

lemma announce_announced: "uv_events s1 = uv_events s \<Longrightarrow> announced ty s (announce env ty row s1)"
  by (simp add: announced_def announce_def split: prod.split)

lemma announce_db: "uv_db (snd (announce env ty row s)) = uv_db s"
  "is_ok (fst (announce env ty row s))"
  by (simp_all add: announce_def split: prod.split)

lemma updateUser_frame:
  "uv_events (snd (updateUser env n p row s)) = uv_events s"
  "is_ok (fst (updateUser env n p row s)) \<or> uv_db (snd (updateUser env n p row s)) = uv_db s"
  by (auto simp: updateUser_def split: prod.splits res.splits option.splits)

lemma save_user_frame:
  "announced EvUpdate s (save_user env n p row s)"
  "is_ok (fst (save_user env n p row s)) \<or> uv_db (snd (save_user env n p row s)) = uv_db s"
proof -
  obtain r s1 where u: "updateUser env n p row s = (r, s1)" by fastforce
  then have ev: "uv_events s1 = uv_events s" and db: "is_ok r \<or> uv_db s1 = uv_db s"
    using updateUser_frame [of env n p row s] by simp_all
  show "announced EvUpdate s (save_user env n p row s)"
    using announce_announced [OF ev] ev by (cases r) (simp_all add: save_user_def u announced_def)
  show "is_ok (fst (save_user env n p row s)) \<or> uv_db (snd (save_user env n p row s)) = uv_db s"
    using db by (cases r) (simp_all add: save_user_def u announce_db)
qed

lemma CreateUser_announced: "announced EvAdd s (CreateUser env u s)"
proof (cases "non_empty (u_Password u)")
  case False
  then show ?thesis by (simp add: CreateUser_def announced_def)
next
  case True
  let ?row = "UserToSambaUser u zero_row"
  obtain r d where st: "store_user (ue_db env) ?row (uv_db s) = (r, d)" by fastforce
  obtain e w where cs: "CreateSambaUser (ue_os env) (su_Username ?row) (su_Password ?row) plain_options (uv_os s) = (e, w)"
    by fastforce
  show ?thesis
    using True announce_announced [of "s\<lparr>uv_db := d, uv_os := w\<rparr>" s]
    by (cases r; cases e) (simp_all add: CreateUser_def Let_def st cs announced_def)
qed

text \<open>Every operation that succeeds is announced once, with the user it returns, and no failing
  one is; a change of a user or of the administrator that fails leaves the table as it was; creating
  one without a password, or changing one to an empty password, fails and does nothing at all.\<close>

theorem user_events_truthful:
  "announced EvAdd s (CreateUser env u s) \<and>
   announced EvUpdate s (UpdateUser env name u s) \<and>
   announced EvUpdate s (UpdateAdminUser env u s) \<and>
   (is_ok (fst (UpdateUser env name u s)) \<or> uv_db (snd (UpdateUser env name u s)) = uv_db s) \<and>
   (is_ok (fst (UpdateAdminUser env u s)) \<or> uv_db (snd (UpdateAdminUser env u s)) = uv_db s) \<and>
   (non_empty (u_Password u) \<or> CreateUser env u s = (Err (E ErrorPasswordRequired []), s)) \<and>
   UpdateUser env name (u\<lparr>u_Password := Some []\<rparr>) s = (Err (E ErrorPasswordRequired []), s) \<and>
   UpdateAdminUser env (u\<lparr>u_Password := Some []\<rparr>) s = (Err (E ErrorPasswordRequired []), s) \<and>
   (is_ok (fst (DeleteUser env name s)) =
      (uv_events (snd (DeleteUser env name s)) \<noteq> uv_events s)) \<and>
   (is_ok (fst (DeleteUser env name s)) \<or> uv_events (snd (DeleteUser env name s)) = uv_events s)"
proof -
  have update: "announced EvUpdate s (UpdateUser env name u s) \<and>
     (is_ok (fst (UpdateUser env name u s)) \<or> uv_db (snd (UpdateUser env name u s)) = uv_db s)"
  proof (cases "ud_First (ue_db env) name (uv_db s)")
    case (Ok o')
    then show ?thesis using save_user_frame [where env = env and s = s and n = name]
      by (cases o'; cases "u_Password u = Some []") (simp_all add: UpdateUser_def user_not_found_def announced_def)
  qed (simp_all add: UpdateUser_def announced_def)
  have admin: "announced EvUpdate s (UpdateAdminUser env u s) \<and>
     (is_ok (fst (UpdateAdminUser env u s)) \<or> uv_db (snd (UpdateAdminUser env u s)) = uv_db s)"
  proof (cases "ud_GetAdmin (ue_db env) (uv_db s)")
    case (Ok o')
    then show ?thesis using save_user_frame [where env = env and s = s]
      by (cases o'; cases "u_Password u = Some []") (simp_all add: UpdateAdminUser_def announced_def)
  qed (simp_all add: UpdateAdminUser_def announced_def)
  have delete: "is_ok (fst (DeleteUser env name s)) =
      (uv_events (snd (DeleteUser env name s)) \<noteq> uv_events s)"
    by (simp add: DeleteUser_def user_not_found_def split: prod.split res.split option.split)
  have refused: "non_empty (u_Password u) \<or> CreateUser env u s = (Err (E ErrorPasswordRequired []), s)"
    "UpdateUser env name (u\<lparr>u_Password := Some []\<rparr>) s = (Err (E ErrorPasswordRequired []), s)"
    "UpdateAdminUser env (u\<lparr>u_Password := Some []\<rparr>) s = (Err (E ErrorPasswordRequired []), s)"
    by (simp_all add: CreateUser_def UpdateUser_def UpdateAdminUser_def)
  show ?thesis using update admin delete refused CreateUser_announced [of s env u] by blast
qed

section \<open>The administrator\<close>

text \<open>
  What the table of users promises: restoring and creating bring rows without touching the live
  ones, an update does not take the administrator flag away (its false is a zero value, which is
  not written), a rename moves the row, and the query that deletes spares administrators.
\<close>

definition keeps_admins :: "('d \<Rightarrow> string \<Rightarrow> samba_row option) \<Rightarrow> 'd \<Rightarrow> 'd \<Rightarrow> bool" where
  "keeps_admins tab d d' =
     (\<forall>n row. tab d n = Some row \<and> su_IsAdmin row \<longrightarrow> (\<exists>row'. tab d' n = Some row' \<and> su_IsAdmin row'))"

definition user_laws :: "('d, 'o) user_env \<Rightarrow> ('d \<Rightarrow> string \<Rightarrow> samba_row option) \<Rightarrow> bool" where
  "user_laws env tab =
     ((\<forall>n d. ud_First (ue_db env) n d = Ok None \<longrightarrow> tab d n = None) \<and>
      (\<forall>n p d. keeps_admins tab d (snd (ud_Restore (ue_db env) n p d))) \<and>
      (\<forall>n row d. keeps_admins tab d (snd (ud_Updates (ue_db env) n row d))) \<and>
      (\<forall>row d. keeps_admins tab d (snd (ud_Create (ue_db env) row d))) \<and>
      (\<forall>n d. keeps_admins tab d (snd (ud_DeleteByName (ue_db env) n d))) \<and>
      (\<forall>old new d u d'. tab d new = None \<and> ud_Rename (ue_db env) old new d = (Ok u, d') \<longrightarrow>
         map_option su_IsAdmin (tab d' new) = map_option su_IsAdmin (tab d old) \<and> (\<forall>n. n \<noteq> old \<and> n \<noteq> new \<longrightarrow> tab d' n = tab d n)) \<and>
      (\<forall>p d. keeps_admins tab d (snd (pd_Updates (se_db (ue_settings env)) p d))) \<and>
      (\<forall>p d. keeps_admins tab d (snd (pd_Create (se_db (ue_settings env)) p d))))"

lemma user_lawsD:
  assumes "user_laws env tab"
  shows "ud_First (ue_db env) n d = Ok None \<Longrightarrow> tab d n = None"
    "ud_Restore (ue_db env) n p d = (r1, d') \<Longrightarrow> keeps_admins tab d d'"
    "ud_Updates (ue_db env) n row d = (r2, d') \<Longrightarrow> keeps_admins tab d d'"
    "ud_Create (ue_db env) row d = (r3, d') \<Longrightarrow> keeps_admins tab d d'"
    "ud_DeleteByName (ue_db env) n d = (r4, d') \<Longrightarrow> keeps_admins tab d d'"
    "tab d new = None \<Longrightarrow> ud_Rename (ue_db env) old new d = (Ok u, d') \<Longrightarrow>
       map_option su_IsAdmin (tab d' new) = map_option su_IsAdmin (tab d old) \<and> (\<forall>n. n \<noteq> old \<and> n \<noteq> new \<longrightarrow> tab d' n = tab d n)"
    "pd_Updates (se_db (ue_settings env)) q d = (r5, d') \<Longrightarrow> keeps_admins tab d d'"
    "pd_Create (se_db (ue_settings env)) q d = (r6, d') \<Longrightarrow> keeps_admins tab d d'"
proof -
  note laws = assms [unfolded user_laws_def]
  show "ud_First (ue_db env) n d = Ok None \<Longrightarrow> tab d n = None" using laws by simp
  show "ud_Restore (ue_db env) n p d = (r1, d') \<Longrightarrow> keeps_admins tab d d'" using laws by (metis snd_conv)
  show "ud_Updates (ue_db env) n row d = (r2, d') \<Longrightarrow> keeps_admins tab d d'" using laws by (metis snd_conv)
  show "ud_Create (ue_db env) row d = (r3, d') \<Longrightarrow> keeps_admins tab d d'" using laws by (metis snd_conv)
  show "ud_DeleteByName (ue_db env) n d = (r4, d') \<Longrightarrow> keeps_admins tab d d'" using laws by (metis snd_conv)
  show "tab d new = None \<Longrightarrow> ud_Rename (ue_db env) old new d = (Ok u, d') \<Longrightarrow>
       map_option su_IsAdmin (tab d' new) = map_option su_IsAdmin (tab d old) \<and> (\<forall>n. n \<noteq> old \<and> n \<noteq> new \<longrightarrow> tab d' n = tab d n)" using laws by metis
  show "pd_Updates (se_db (ue_settings env)) q d = (r5, d') \<Longrightarrow> keeps_admins tab d d'" using laws by (metis snd_conv)
  show "pd_Create (se_db (ue_settings env)) q d = (r6, d') \<Longrightarrow> keeps_admins tab d d'" using laws by (metis snd_conv)
qed

definition has_admin :: "('d \<Rightarrow> string \<Rightarrow> samba_row option) \<Rightarrow> 'd \<Rightarrow> bool" where
  "has_admin tab d = (\<exists>n row. tab d n = Some row \<and> su_IsAdmin row)"

lemma keeps_refl: "keeps_admins tab d d"
  by (simp add: keeps_admins_def)

lemma keeps_trans: "keeps_admins tab d d1 \<Longrightarrow> keeps_admins tab d1 d2 \<Longrightarrow> keeps_admins tab d d2"
  by (fastforce simp: keeps_admins_def)

lemma keeps_has_admin: "keeps_admins tab d d' \<Longrightarrow> has_admin tab d \<Longrightarrow> has_admin tab d'"
  by (fastforce simp: keeps_admins_def has_admin_def)

lemma save_property_keeps:
  assumes "user_laws env tab" "save_property (ue_settings env) p d = (r, d')"
  shows "keeps_admins tab d d'"
proof (cases "Property_BeforeSave p")
  case (Some e)
  then show ?thesis using assms(2) by (simp add: save_property_def keeps_refl)
next
  case None
  obtain r1 d1 where u: "pd_Updates (se_db (ue_settings env)) p d = (r1, d1)" by fastforce
  obtain r2 d2 where c: "pd_Create (se_db (ue_settings env)) p d1 = (r2, d2)" by fastforce
  have "keeps_admins tab d d1" "keeps_admins tab d1 d2"
    using user_lawsD(7) [OF assms(1) u] user_lawsD(8) [OF assms(1) c] .
  then show ?thesis using assms(2) None keeps_trans
    by (cases r1) (auto simp: save_property_def u c split: if_splits)
qed

lemma save_properties_keeps:
  assumes "user_laws env tab"
  shows "save_properties (ue_settings env) ps d = (r, d') \<Longrightarrow> keeps_admins tab d d'"
proof (induction ps arbitrary: d)
  case Nil
  then show ?case by (simp add: keeps_refl)
next
  case (Cons p ps)
  obtain r1 d1 where s: "save_property (ue_settings env) p d = (r1, d1)" by fastforce
  note first = save_property_keeps [OF assms s]
  show ?case
  proof (cases r1)
    case (Ok u)
    then have "keeps_admins tab d1 d'" using Cons s by simp
    then show ?thesis by (rule keeps_trans [OF first])
  qed (use Cons.prems s first in simp_all)
qed

lemma ha_password_keeps:
  assumes "user_laws env tab" "ha_password env s = (r, s')"
  shows "keeps_admins tab (uv_db s) (uv_db s')"
proof -
  have update: "keeps_admins tab (st_db st) (st_db st')"
    if "UpdateSettings (ue_settings env) g st = (x, st')" for g st x st'
    using that save_properties_keeps [OF assms(1)]
    by (auto simp: UpdateSettings_def Let_def keeps_refl split: if_splits prod.splits res.splits)
  obtain setting l where ld: "Load (ue_settings env) (uv_db s) = (setting, l)" by fastforce
  let ?p = "case ue_GenerateSecurePassword env of Ok p \<Rightarrow> p | _ \<Rightarrow> ''changeme!''"
  obtain x g st where u: "UpdateSettings (ue_settings env) (setting\<lparr>sg_HASmbPassword := ?p\<rparr>)
      \<lparr>st_db = uv_db s, st_events = uv_setting_events s\<rparr> = ((x, g), st)" by (metis prod.collapse)
  have "keeps_admins tab (uv_db s) (st_db st)" using update [OF u] by simp
  then show ?thesis using assms(2)
    by (cases l; cases x) (auto simp: ha_password_def ld u Let_def keeps_refl split: if_splits)
qed

lemma OnStart_keeps:
  assumes laws: "user_laws env tab" shows "keeps_admins tab (uv_db s) (uv_db (snd (OnStart env s)))"
proof -
  obtain r s1 where p: "ha_password env s = (r, s1)" by fastforce
  note k = ha_password_keeps [OF laws p]
  obtain c d where cr: "ud_Create (ue_db env) default_admin (uv_db s1) = (c, d)" by fastforce
  have "keeps_admins tab (uv_db s) d" using keeps_trans [OF k user_lawsD(4) [OF laws cr]] .
  then show ?thesis using k by (cases r) (simp_all add: OnStart_def Let_def p cr keeps_refl)
qed

lemma store_user_keeps:
  assumes laws: "user_laws env tab" and st: "store_user (ue_db env) row d = (r, d')"
  shows "keeps_admins tab d d'"
proof -
  obtain r1 d1 where rs: "ud_Restore (ue_db env) (su_Username row) (su_Password row) d = (r1, d1)" by fastforce
  obtain r2 d2 where up: "ud_Updates (ue_db env) (su_Username row) row d1 = (r2, d2)" by fastforce
  obtain r3 d3 where cr: "ud_Create (ue_db env) row d1 = (r3, d3)" by fastforce
  note k = user_lawsD(2) [OF laws rs]
  have "keeps_admins tab d d2" "keeps_admins tab d d3"
    using keeps_trans [OF k user_lawsD(3) [OF laws up]] keeps_trans [OF k user_lawsD(4) [OF laws cr]] .
  then show ?thesis using st k
    by (cases r1; cases r2; cases r3) (auto simp: store_user_def rs up cr split: if_splits)
qed

lemma CreateUser_keeps:
  assumes laws: "user_laws env tab" shows "keeps_admins tab (uv_db s) (uv_db (snd (CreateUser env u s)))"
proof -
  obtain r d where st: "store_user (ue_db env) (UserToSambaUser u zero_row) (uv_db s) = (r, d)" by fastforce
  show ?thesis using store_user_keeps [OF laws st]
    by (cases r) (auto simp: CreateUser_def Let_def st keeps_refl announce_db split: prod.split option.split)
qed

lemma rename_keeps_admin:
  assumes laws: "user_laws env tab" and rn: "rename_step env n row d w = (Ok m, d1, w1)" and a: "has_admin tab d"
  shows "has_admin tab d1"
proof (cases "su_Username row = [] \<or> su_Username row = n")
  case True
  then show ?thesis using rn a by (simp add: rename_step_def)
next
  case False
  obtain f where f: "ud_First (ue_db env) (su_Username row) d = Ok f" and "f = None"
    using rn False by (simp add: rename_step_def split: res.splits option.splits)
  obtain e w' where r: "RenameUsername (ue_os env) n (su_Username row) (su_Password row) w = (e, w')" by fastforce
  obtain x d' where u: "ud_Rename (ue_db env) n (su_Username row) d = (x, d')" by fastforce
  have "e = None" "\<exists>v. x = Ok v" "d1 = d'"
    using rn False f \<open>f = None\<close> r u by (auto simp: rename_step_def split: option.splits res.splits)
  then obtain v where "ud_Rename (ue_db env) n (su_Username row) d = (Ok v, d1)" using u by auto
  moreover have free: "tab d (su_Username row) = None" using user_lawsD(1) [OF laws] f \<open>f = None\<close> by simp
  ultimately have moved: "map_option su_IsAdmin (tab d1 (su_Username row)) = map_option su_IsAdmin (tab d n)"
    "\<forall>k. k \<noteq> n \<and> k \<noteq> su_Username row \<longrightarrow> tab d1 k = tab d k" using user_lawsD(6) [OF laws] by blast+
  obtain k arow where k: "tab d k = Some arow" "su_IsAdmin arow" using a by (auto simp: has_admin_def)
  then have "k \<noteq> su_Username row" using free by auto
  have "\<exists>row'. tab d1 (if k = n then su_Username row else k) = Some row' \<and> su_IsAdmin row'"
    using k moved \<open>k \<noteq> su_Username row\<close> by (cases "k = n") (auto simp: map_option_case split: option.splits)
  then show ?thesis unfolding has_admin_def by blast
qed

lemma save_user_admin:
  assumes laws: "user_laws env tab" and a: "has_admin tab (uv_db s)"
  shows "has_admin tab (uv_db (snd (save_user env n p row s)))"
proof -
  obtain r d1 w1 where rn: "rename_step env n row (uv_db s) (uv_os s) = (r, d1, w1)" by (metis prod.collapse)
  have "has_admin tab (uv_db (snd (updateUser env n p row s)))"
  proof (cases r)
    case (Ok m)
    obtain e w2 where pw: "password_step env p row w1 = (e, w2)" by fastforce
    obtain x d2 where up: "ud_Updates (ue_db env) m row d1 = (x, d2)" by fastforce
    have "has_admin tab d2"
      using rename_keeps_admin [OF laws _ a] rn Ok keeps_has_admin [OF user_lawsD(3) [OF laws up]] by blast
    then show ?thesis using a Ok by (cases e; cases x) (simp_all add: updateUser_def rn pw up)
  qed (use a in \<open>simp_all add: updateUser_def rn\<close>)
  then show ?thesis
    by (cases "updateUser env n p row s"; cases "fst (updateUser env n p row s)") (auto simp: save_user_def announce_db)
qed

lemma DeleteUser_keeps:
  assumes laws: "user_laws env tab" shows "keeps_admins tab (uv_db s) (uv_db (snd (DeleteUser env n s)))"
proof -
  obtain r d where d: "ud_DeleteByName (ue_db env) n (uv_db s) = (r, d)" by fastforce
  show ?thesis using user_lawsD(5) [OF laws d]
    by (cases r) (auto simp: DeleteUser_def d split: prod.split option.split)
qed

lemma user_step_admin:
  assumes a: "has_admin tab (uv_db s)" and laws: "user_laws env tab"
  shows "has_admin tab (uv_db (user_step env s call))"
proof (cases call)
  case ListCall
  then show ?thesis using a by (simp add: user_step_def ListUsers_def split: res.split prod.split)
next
  case AdminCall
  then show ?thesis using a by (simp add: user_step_def GetAdmin_def user_not_found_def split: res.split prod.split option.split)
next
  case (UpdateCall name u)
  then show ?thesis using a save_user_admin [OF laws a]
    by (simp add: user_step_def UpdateUser_def user_not_found_def split: res.split option.split)
next
  case (UpdateAdminCall u)
  then show ?thesis using a save_user_admin [OF laws a]
    by (simp add: user_step_def UpdateAdminUser_def split: res.split option.split)
qed (use keeps_has_admin [OF _ a] OnStart_keeps [OF laws] CreateUser_keeps [OF laws] DeleteUser_keeps [OF laws]
     in \<open>simp_all add: user_step_def\<close>)

interpretation user_admin: invariant_steps "user_step env" "\<lambda>_. user_laws env tab" "\<lambda>s. has_admin tab (uv_db s)"
  for env :: "('d, 'o) user_env" and tab
  by unfold_locales (rule user_step_admin)


text \<open>On a table with these laws an administrator remains.\<close>

lemma admin_kept:
  assumes laws: "user_laws env tab" and a: "tab (uv_db s) name = Some row" "su_IsAdmin row"
  shows "\<exists>name' row'. tab (uv_db (foldl (user_step env) s calls)) name' = Some row' \<and> su_IsAdmin row'"
proof -
  have "has_admin tab (uv_db s)" using a by (auto simp: has_admin_def)
  then have "has_admin tab (uv_db (foldl (user_step env) s calls))"
    by (rule user_admin.inv_run) (simp add: laws list_all_iff)
  then show ?thesis by (simp add: has_admin_def)
qed

section \<open>Commands\<close>

lemma checkUserValid_log: "log_ok w \<Longrightarrow> log_ok (snd (checkUserValid env row w))"
  using CheckSambaUser_log_ok [of w env "su_Username row" "su_Password row"]
  by (auto simp: checkUserValid_def split: prod.split)

lemma SambaUserToUser_log: "log_ok w \<Longrightarrow> log_ok (snd (SambaUserToUser env row w))"
  using checkUserValid_log [of w env row] by (auto simp: SambaUserToUser_def split: prod.splits)

lemma SambaUsersToUsers_log: "log_ok w \<Longrightarrow> log_ok (snd (SambaUsersToUsers env rows w))"
proof (induction rows arbitrary: w)
  case Nil
  then show ?case by simp
next
  case (Cons r rows)
  obtain u w1 where u: "SambaUserToUser env r w = (u, w1)" by fastforce
  then have "log_ok w1" using SambaUserToUser_log [OF Cons.prems, of env r] by simp
  from Cons.IH [OF this] show ?case by (auto simp: u split: prod.splits)
qed

lemma announce_log: "log_ok (uv_os s) \<Longrightarrow> log_ok (uv_os (snd (announce env ty row s)))"
  using SambaUserToUser_log [of "uv_os s" "ue_os env" row] by (auto simp: announce_def split: prod.splits)

lemma rename_step_log:
  assumes "log_ok w" "rename_step env n row d w = (r, d1, w1)" shows "log_ok w1"
proof -
  obtain e w2 where r: "RenameUsername (ue_os env) n (su_Username row) (su_Password row) w = (e, w2)" by fastforce
  have "log_ok w2" using RenameUsername_log_ok [OF assms(1)] r by (metis snd_conv)
  then show ?thesis using assms r
    by (auto simp: rename_step_def split: if_splits res.splits option.splits prod.splits)
qed

lemma password_step_log:
  assumes "log_ok w" "password_step env p row w = (e, w1)" shows "log_ok w1"
  using assms ChangePassword_log_ok [of w "ue_os env" "su_Username row" "su_Password row"]
  by (auto simp: password_step_def split: if_splits)

lemma save_user_log:
  assumes "log_ok (uv_os s)" shows "log_ok (uv_os (snd (save_user env n p row s)))"
proof -
  obtain r d1 w1 where rn: "rename_step env n row (uv_db s) (uv_os s) = (r, d1, w1)" by (metis prod.collapse)
  obtain e w2 where pw: "password_step env p row w1 = (e, w2)" by fastforce
  have ok: "log_ok w1" "log_ok w2"
    using rename_step_log [OF assms rn] password_step_log [OF _ pw] by blast+
  obtain x s1 where u: "updateUser env n p row s = (x, s1)" by fastforce
  then have "log_ok (uv_os s1)" using ok
    by (cases r; cases e) (auto simp: updateUser_def rn pw split: prod.splits res.splits)
  then show ?thesis using announce_log [of s1 env EvUpdate row] by (cases x) (simp_all add: save_user_def u)
qed

lemma OnStart_log:
  assumes "log_ok (uv_os s)" shows "log_ok (uv_os (snd (OnStart env s)))"
proof -
  obtain r s1 where p: "ha_password env s = (r, s1)" by fastforce
  then have s1: "uv_os s1 = uv_os s"
    by (auto simp: ha_password_def Let_def split: prod.splits res.splits if_splits)
  have step: "log_ok (create_account (ue_os env) w row)" if "log_ok w" for w row
    using CreateSambaUser_log_ok [OF that] by (simp add: create_account_def)
  have "log_ok (foldl (create_account (ue_os env)) w rows)" if "log_ok w" for w rows
    using that by (induction rows arbitrary: w) (simp_all add: step)
  then show ?thesis using assms s1 step by (cases r) (simp_all add: OnStart_def Let_def p)
qed

lemma user_step_log:
  assumes "log_ok (uv_os s)" shows "log_ok (uv_os (user_step env s call))"
proof (cases call)
  case StartCall
  then show ?thesis using OnStart_log [OF assms] by (simp add: user_step_def)
next
  case ListCall
  then show ?thesis using assms SambaUsersToUsers_log [OF assms]
    by (auto simp: user_step_def ListUsers_def split: res.split prod.splits) (metis snd_conv)
next
  case AdminCall
  then show ?thesis using assms SambaUserToUser_log [OF assms]
    by (auto simp: user_step_def GetAdmin_def user_not_found_def split: res.split option.split prod.splits) (metis snd_conv)
next
  case (CreateCall u)
  let ?row = "UserToSambaUser u zero_row"
  obtain r d where st: "store_user (ue_db env) ?row (uv_db s) = (r, d)" by fastforce
  obtain e w where cs: "CreateSambaUser (ue_os env) (su_Username ?row) (su_Password ?row) plain_options (uv_os s) = (e, w)"
    by fastforce
  have "log_ok w" using CreateSambaUser_log_ok [OF assms] cs by (metis snd_conv)
  then show ?thesis using assms CreateCall announce_log [of "s\<lparr>uv_db := d, uv_os := w\<rparr>"]
    by (cases r; cases e) (simp_all add: user_step_def CreateUser_def Let_def st cs)
next
  case (UpdateCall name u)
  then show ?thesis using assms save_user_log [OF assms]
    by (simp add: user_step_def UpdateUser_def user_not_found_def split: res.split option.split)
next
  case (UpdateAdminCall u)
  then show ?thesis using assms save_user_log [OF assms]
    by (simp add: user_step_def UpdateAdminUser_def split: res.split option.split)
next
  case (DeleteCall n)
  obtain e w where d: "DeleteSambaUser (ue_os env) n (uv_os s) = (e, w)" by fastforce
  have "log_ok w" using DeleteSambaUser_log_ok [OF assms] d by (metis snd_conv)
  then show ?thesis using assms DeleteCall
    by (cases e) (simp_all add: user_step_def DeleteUser_def d split: res.split prod.split)
qed

interpretation user_commands: invariant_steps "user_step env" "\<lambda>_. True" "\<lambda>s. log_ok (uv_os s)"
  for env :: "('d, 'o) user_env"
  by unfold_locales (rule user_step_log)

text \<open>The service as a whole keeps what the account module promises for each operation.\<close>

lemma user_service_commands:
  "log_ok (uv_os s) \<Longrightarrow> log_ok (uv_os (foldl (user_step env) s calls))"
  by (rule user_commands.inv_run) (simp_all add: list_all_iff)

section \<open>What goes wrong\<close>

text \<open>A change that leaves the password out stores none, so it cannot rename.\<close>

lemma rename_without_password_fails:
  assumes "u_Password u = None" "u_Username u \<noteq> []" "u_Username u \<noteq> name"
    and "ud_First (ue_db env) name (uv_db s) = Ok (Some row)"
    and "ud_First (ue_db env) (u_Username u) (uv_db s) = Ok None"
  shows "\<not> is_ok (fst (UpdateUser env name u s))"
  using assms by (simp add: UpdateUser_def save_user_def updateUser_def rename_step_def UserToSambaUser_def
      str_or_empty_def RenameUsername_def Let_def)

text \<open>When the query of the users fails at start, the account \<open>admin\<close> gets the default password.\<close>

lemma failed_query_resets_admin:
  assumes "\<not> ue_mock env" "ha_password env s = (Ok p, s1)" "ud_Find (ue_db env) (uv_db s1) = Err e"
  shows "\<exists>w1. uv_os (snd (OnStart env s)) = snd (CreateSambaUser (ue_os env) ''admin'' ''changeme!'' plain_options w1)"
  using assms by (auto simp: OnStart_def Let_def create_account_def default_admin_def)

section \<open>A table in memory\<close>

text \<open>Rows by name with their deletion mark; the settings are a table beside it.\<close>

definition live :: "(string \<times> samba_row \<times> bool) list \<Rightarrow> string \<Rightarrow> samba_row option" where
  "live d n = (case map_of d n of Some (row, False) \<Rightarrow> Some row | _ \<Rightarrow> None)"

definition overlay :: "samba_row \<Rightarrow> samba_row \<Rightarrow> samba_row" where
  "overlay row old = old
     \<lparr>su_Password := (if su_Password row \<noteq> [] then su_Password row else su_Password old),
      su_IsAdmin := (su_IsAdmin row \<or> su_IsAdmin old)\<rparr>"

definition list_users :: "(string \<times> samba_row \<times> bool) list user_db" where
  "list_users = \<lparr>ud_Find = (\<lambda>d. Ok (map (fst \<circ> snd) (filter (\<lambda>x. \<not> snd (snd x)) d))),
     ud_First = (\<lambda>n d. Ok (live d n)),
     ud_GetAdmin = (\<lambda>d. Ok (first_some (\<lambda>(n, row, gone). if su_IsAdmin row \<and> \<not> gone then Some row else None) d)),
     ud_Restore = (\<lambda>n p d. case map_of d n of
        Some (row, True) \<Rightarrow> (Ok 1, AList.update n (row\<lparr>su_Password := p\<rparr>, False) d) | _ \<Rightarrow> (Ok 0, d)),
     ud_Updates = (\<lambda>n row d. case live d n of
        Some old \<Rightarrow> (Ok 1, AList.update n (overlay row old, False) d) | None \<Rightarrow> (Ok 0, d)),
     ud_Create = (\<lambda>row d. if map_of d (su_Username row) = None
        then (Created, AList.update (su_Username row) (row, False) d) else (DuplicatedKey, d)),
     ud_Rename = (\<lambda>old new d. case map_of d new of
        Some x \<Rightarrow> (Err (E ErrorOther ''constraint failed''), d)
      | None \<Rightarrow> (case live d old of
           Some row \<Rightarrow> (Ok (), AList.update new (row\<lparr>su_Username := new\<rparr>, False) (AList.delete old d))
         | None \<Rightarrow> (Ok (), d))),
     ud_DeleteByName = (\<lambda>n d. case live d n of
        Some row \<Rightarrow> if su_IsAdmin row then (Ok 0, d) else (Ok 1, AList.update n (row, True) d)
      | None \<Rightarrow> (Ok 0, d))\<rparr>"

definition no_props :: "'d prop_db" where
  "no_props = \<lparr>pd_Find = (\<lambda>d. Ok []), pd_Updates = (\<lambda>p d. (Ok 1, d)), pd_Create = (\<lambda>p d. (Ok (), d))\<rparr>"

definition sample_user_env :: "((string \<times> samba_row \<times> bool) list, unit) user_env" where
  "sample_user_env = \<lparr>ue_db = list_users, ue_os = sample_us_env,
     ue_settings = \<lparr>se_db = no_props, se_commandExists = (\<lambda>_. False),
       se_defaults_Set = Ok, se_Environment = ''production''\<rparr>,
     ue_mock = False, ue_GenerateSecurePassword = Ok ''generated''\<rparr>"

lemma sample_user_laws: "user_laws sample_user_env live"
  unfolding user_laws_def
proof (intro conjI allI impI)
  show "keeps_admins live d (snd (ud_Restore (ue_db sample_user_env) n p d))" for n p d
    by (auto simp: sample_user_env_def list_users_def keeps_admins_def live_def update_conv' split: option.splits bool.splits)
  show "keeps_admins live d (snd (ud_Updates (ue_db sample_user_env) n row d))" for n row d
    by (auto simp: sample_user_env_def list_users_def keeps_admins_def live_def update_conv' overlay_def split: option.splits bool.splits)
  show "keeps_admins live d (snd (ud_Create (ue_db sample_user_env) row d))" for row d
    by (auto simp: sample_user_env_def list_users_def keeps_admins_def live_def update_conv' split: option.splits bool.splits)
  show "keeps_admins live d (snd (ud_DeleteByName (ue_db sample_user_env) n d))" for n d
    by (auto simp: sample_user_env_def list_users_def keeps_admins_def live_def update_conv' split: option.splits bool.splits)
  show "keeps_admins live d (snd (pd_Updates (se_db (ue_settings sample_user_env)) p d))"
    "keeps_admins live d (snd (pd_Create (se_db (ue_settings sample_user_env)) p d))" for p d
    by (simp_all add: sample_user_env_def no_props_def keeps_refl)
  show "live d n = None" if "ud_First (ue_db sample_user_env) n d = Ok None" for n d
    using that by (simp add: sample_user_env_def list_users_def)
  show "map_option su_IsAdmin (live d' new) = map_option su_IsAdmin (live d old)" if "live d new = None \<and> ud_Rename (ue_db sample_user_env) old new d = (Ok u, d')" for old new d u d'
    using that by (auto simp: sample_user_env_def list_users_def live_def update_conv' delete_conv' split: option.splits bool.splits)
  show "live d' n = live d n" if "live d new = None \<and> ud_Rename (ue_db sample_user_env) old new d = (Ok u, d')" "n \<noteq> old \<and> n \<noteq> new"
    for old new d u d' n
    using that by (auto simp: sample_user_env_def list_users_def live_def update_conv' delete_conv' split: option.splits bool.splits)
qed

definition sample_user_state :: "((string \<times> samba_row \<times> bool) list, unit) user_state" where
  "sample_user_state = \<lparr>uv_db = [(''admin'', default_admin, False)], uv_os = new_us (), uv_events = [],
     uv_setting_events = []\<rparr>"

end
