(* ===== verification/User_Table_Laws.thy ===== *)
theory User_Table_Laws
  imports User_Table User_Service_Laws
begin

text \<open>
  The user service on its table: no operation takes the last administrator away, because the queries spare
  administrators; and what the table answers when there is none.
\<close>

section \<open>The administrator\<close>

lemma table_laws: "user_laws (on_tables fault pdb env) (\<lambda>d. live_row (fst d))"
  unfolding user_laws_def
proof (intro conjI allI impI)
  let ?tab = "\<lambda>d. live_row (fst d)" and ?env = "on_tables fault pdb env"
  show "?tab d n = None" if "ud_First (ue_db ?env) n d = Ok None" for n d
    using that by (auto simp: on_tables_def user_table_def reading_def split: option.splits)
  show "keeps_admins ?tab d (snd (ud_Restore (ue_db ?env) n p d))" for n p d
    by (auto simp: on_tables_def user_table_def writing_def restore_deleted_def keeps_admins_def live_row_def
        update_conv' split: option.splits bool.splits)
  show "keeps_admins ?tab d (snd (ud_Updates (ue_db ?env) n row d))" for n row d
    by (auto simp: on_tables_def user_table_def writing_def update_row_def written_over_def keeps_admins_def live_row_def
        update_conv' split: option.splits bool.splits)
  show "keeps_admins ?tab d (snd (ud_Create (ue_db ?env) row d))" for row d
    by (auto simp: on_tables_def user_table_def create_row_def keeps_admins_def live_row_def
        update_conv' split: option.splits bool.splits)
  show "keeps_admins ?tab d (snd (ud_DeleteByName (ue_db ?env) n d))" for n d
    by (auto simp: on_tables_def user_table_def writing_def delete_by_name_def keeps_admins_def live_row_def
        update_conv' split: option.splits bool.splits)
  show "keeps_admins ?tab d (snd (pd_Updates (se_db (ue_settings ?env)) p d))"
    "keeps_admins ?tab d (snd (pd_Create (se_db (ue_settings ?env)) p d))" for p d
    by (auto simp: on_tables_def beside_users_def keeps_admins_def split: prod.split)
  show "map_option su_IsAdmin (?tab d' new) = map_option su_IsAdmin (?tab d old)"
    if "?tab d new = None \<and> ud_Rename (ue_db ?env) old new d = (Ok u, d')" for old new d u d'
    using that by (auto simp: on_tables_def user_table_def rename_row_def live_row_def update_conv' delete_conv'
        split: option.splits bool.splits if_splits)
  show "?tab d' n = ?tab d n"
    if "?tab d new = None \<and> ud_Rename (ue_db ?env) old new d = (Ok u, d')" "n \<noteq> old \<and> n \<noteq> new" for old new d u d' n
    using that by (auto simp: on_tables_def user_table_def rename_row_def live_row_def update_conv' delete_conv'
        split: option.splits bool.splits if_splits)
qed

text \<open>C18: Whatever sequence of operations the service performs, starts included, whatever the system and Samba
  answer and whichever statement of the database fails, a table of users that had an administrator still has
  one; and deleting an administrator is refused and does nothing at all.\<close>

theorem admin_never_lost:
  assumes "live_row (fst (uv_db s)) name = Some row" and "su_IsAdmin row"
  shows "(\<exists>name' row'. live_row (fst (uv_db (foldl (user_step (on_tables fault pdb env)) s calls))) name' = Some row'
      \<and> su_IsAdmin row')
    \<and> DeleteUser (on_tables fault pdb env) name s = (Err (E ErrorUserNotFound []), s)"
proof
  show "\<exists>name' row'. live_row (fst (uv_db (foldl (user_step (on_tables fault pdb env)) s calls))) name' = Some row'
      \<and> su_IsAdmin row'"
    using admin_kept [OF table_laws assms] .
  have "delete_by_name name (fst (uv_db s)) = (0, fst (uv_db s))"
    using assms by (auto simp: delete_by_name_def live_row_def split: option.splits bool.splits)
  then show "DeleteUser (on_tables fault pdb env) name s = (Err (E ErrorUserNotFound []), s)"
    by (auto simp: DeleteUser_def on_tables_def user_table_def writing_def user_not_found_def split: option.split)
qed

definition table_state :: "(user_rows \<times> unit, unit) user_state" where
  "table_state = \<lparr>uv_db = ([(''admin'', default_admin, False)], ()), uv_os = new_us (), uv_events = [],
     uv_setting_events = []\<rparr>"

definition table_env :: "(user_rows \<times> unit, unit) user_env" where
  "table_env = \<lparr>ue_db = user_table (\<lambda>q d. None), ue_os = sample_us_env,
     ue_settings = \<lparr>se_db = no_props, se_commandExists = (\<lambda>_. False), se_defaults_Set = Ok,
       se_Environment = ''production''\<rparr>,
     ue_mock = False, ue_GenerateSecurePassword = Ok ''generated''\<rparr>"

theorem admin_never_lost_witness:
  "(\<exists>name row. live_row (fst (uv_db (foldl (user_step (on_tables (\<lambda>q d. None) no_props table_env)) table_state
      [StartCall, DeleteCall ''admin'', AdminCall]))) name = Some row \<and> su_IsAdmin row)
   \<and> DeleteUser (on_tables (\<lambda>q d. None) no_props table_env) ''admin'' table_state
       = (Err (E ErrorUserNotFound []), table_state)"
proof -
  have a: "live_row (fst (uv_db table_state)) ''admin'' = Some default_admin" "su_IsAdmin default_admin"
    by (simp_all add: table_state_def live_row_def default_admin_def)
  from admin_never_lost [OF a] show ?thesis by blast
qed

text \<open>The query of the administrator reports no error when there is none: the service answers a user without
  a name.\<close>

lemma missing_admin_unnoticed:
  assumes "first_some (\<lambda>(n, row, gone). if su_IsAdmin row \<and> \<not> gone then Some row else None) (fst (uv_db s)) = None"
    and "fault QueryAdmin (uv_db s) = None"
  shows "\<exists>u. fst (GetAdmin (on_tables fault pdb env) s) = Ok u \<and> u_Username u = []"
  using assms by (auto simp: GetAdmin_def on_tables_def user_table_def reading_def select_admin_def
      SambaUserToUser_def checkUserValid_def zero_row_def)

end
