(* ===== verification/Settings_Laws.thy ===== *)
theory Settings_Laws
  imports Settings
begin

text \<open>
  What is kept of the settings: after a successful update the settings that are loaded are the
  ones that were stored, except where a zero value is taken for a missing one, and the password
  of the Home Assistant account is not lost to an update that leaves it out.
\<close>

section \<open>The table of properties\<close>

text \<open>
  What the database promises: a query gives the rows, an update changes the row of the key and
  says how many there were, and a creation adds a row.
\<close>

definition prop_db_laws :: "'d prop_db \<Rightarrow> ('d \<Rightarrow> string \<Rightarrow> prop_value option) \<Rightarrow> bool" where
  "prop_db_laws P tab =
     ((\<forall>d rows. pd_Find P d = Ok rows \<longrightarrow> distinct (keys rows) \<and> map_of rows = tab d) \<and>
      (\<forall>k v d n d'. pd_Updates P (k, v) d = (Ok n, d') \<longrightarrow>
         (if tab d k = None then n = 0 \<and> tab d' = tab d else n = 1 \<and> tab d' = (tab d)(k \<mapsto> v))) \<and>
      (\<forall>k v d d'. pd_Create P (k, v) d = (Ok (), d') \<longrightarrow> tab d' = (tab d)(k \<mapsto> v)))"

lemma prop_db_lawsD:
  assumes "prop_db_laws P tab"
  shows "pd_Find P d = Ok rows \<Longrightarrow> distinct (keys rows) \<and> map_of rows = tab d"
    "pd_Updates P (k, v) d = (Ok n, d') \<Longrightarrow>
       (if tab d k = None then n = 0 \<and> tab d' = tab d else n = 1 \<and> tab d' = (tab d)(k \<mapsto> v))"
    "pd_Create P (k, v) d = (Ok (), d') \<Longrightarrow> tab d' = (tab d)(k \<mapsto> v)"
  using assms unfolding prop_db_laws_def by blast+

lemma save_property_table:
  assumes "prop_db_laws (se_db env) tab" "save_property env (k, v) d = (Ok u, d')"
  shows "tab d' = (tab d)(k \<mapsto> v)"
proof (cases "pd_Updates (se_db env) (k, v) d")
  case (Pair r d1)
  have "Property_BeforeSave (k, v) = None" using assms(2) by (auto simp: save_property_def split: option.splits)
  then show ?thesis
    using assms(2) Pair prop_db_lawsD(2) [OF assms(1), of k v d] prop_db_lawsD(3) [OF assms(1), of k v d1 d']
    by (cases r) (auto simp: save_property_def split: if_splits)
qed

lemma save_properties_table:
  assumes "prop_db_laws (se_db env) tab"
  shows "save_properties env ps d = (Ok u, d') \<Longrightarrow> distinct (keys ps) \<Longrightarrow>
    tab d' k = (case map_of ps k of Some v \<Rightarrow> Some v | None \<Rightarrow> tab d k)"
proof (induction ps arbitrary: d)
  case Nil
  then show ?case by simp
next
  case (Cons p ps)
  obtain j v where p: "p = (j, v)" by (cases p)
  obtain r d1 where s: "save_property env (j, v) d = (r, d1)" by fastforce
  then obtain w where r: "r = Ok w" using Cons.prems(1) p by (cases r) auto
  have rest: "save_properties env ps d1 = (Ok u, d')" using Cons.prems(1) p s r by simp
  have "j \<notin> set (keys ps)" using Cons.prems(2) p by simp
  then have "map_of ps j = None" by (simp add: map_of_eq_None_iff)
  then show ?case
    using Cons.IH [OF rest] Cons.prems(2) p save_property_table [OF assms s [unfolded r]]
    by (simp split: option.splits)
qed

section \<open>Fields one by one\<close>

definition copy_field :: "string \<Rightarrow> settings \<Rightarrow> settings \<Rightarrow> settings" where
  "copy_field key g s =
     (if key = ''Hostname'' then s\<lparr>sg_Hostname := sg_Hostname g\<rparr>
      else if key = ''Workgroup'' then s\<lparr>sg_Workgroup := sg_Workgroup g\<rparr>
      else if key = ''AllowHost'' then s\<lparr>sg_AllowHost := sg_AllowHost g\<rparr>
      else if key = ''CompatibilityMode'' then s\<lparr>sg_CompatibilityMode := sg_CompatibilityMode g\<rparr>
      else if key = ''Interfaces'' then s\<lparr>sg_Interfaces := sg_Interfaces g\<rparr>
      else if key = ''BindAllInterfaces'' then s\<lparr>sg_BindAllInterfaces := sg_BindAllInterfaces g\<rparr>
      else if key = ''MultiChannel'' then s\<lparr>sg_MultiChannel := sg_MultiChannel g\<rparr>
      else if key = ''AllowGuest'' then s\<lparr>sg_AllowGuest := sg_AllowGuest g\<rparr>
      else if key = ''TelemetryMode'' then s\<lparr>sg_TelemetryMode := sg_TelemetryMode g\<rparr>
      else if key = ''LocalMaster'' then s\<lparr>sg_LocalMaster := sg_LocalMaster g\<rparr>
      else if key = ''ExportStatsToHA'' then s\<lparr>sg_ExportStatsToHA := sg_ExportStatsToHA g\<rparr>
      else if key = ''HAUseNFS'' then s\<lparr>sg_HAUseNFS := sg_HAUseNFS g\<rparr>
      else if key = ''HASmbPassword'' then s\<lparr>sg_HASmbPassword := sg_HASmbPassword g\<rparr>
      else if key = ''SMBoverQUIC'' then s\<lparr>sg_SMBoverQUIC := sg_SMBoverQUIC g\<rparr>
      else if key = ''SmartMode'' then s\<lparr>sg_SmartMode := sg_SmartMode g\<rparr>
      else if key = ''ExperimentalLabMode'' then s\<lparr>sg_ExperimentalLabMode := sg_ExperimentalLabMode g\<rparr>
      else if key = ''MDNSRegistration'' then s\<lparr>sg_MDNSRegistration := sg_MDNSRegistration g\<rparr>
      else s)"

lemma copy_field_select:
  "sg_Hostname (copy_field k g s) = sg_Hostname (if k = ''Hostname'' then g else s)"
  "sg_Workgroup (copy_field k g s) = sg_Workgroup (if k = ''Workgroup'' then g else s)"
  "sg_AllowHost (copy_field k g s) = sg_AllowHost (if k = ''AllowHost'' then g else s)"
  "sg_CompatibilityMode (copy_field k g s) = sg_CompatibilityMode (if k = ''CompatibilityMode'' then g else s)"
  "sg_Interfaces (copy_field k g s) = sg_Interfaces (if k = ''Interfaces'' then g else s)"
  "sg_BindAllInterfaces (copy_field k g s) = sg_BindAllInterfaces (if k = ''BindAllInterfaces'' then g else s)"
  "sg_MultiChannel (copy_field k g s) = sg_MultiChannel (if k = ''MultiChannel'' then g else s)"
  "sg_AllowGuest (copy_field k g s) = sg_AllowGuest (if k = ''AllowGuest'' then g else s)"
  "sg_TelemetryMode (copy_field k g s) = sg_TelemetryMode (if k = ''TelemetryMode'' then g else s)"
  "sg_LocalMaster (copy_field k g s) = sg_LocalMaster (if k = ''LocalMaster'' then g else s)"
  "sg_ExportStatsToHA (copy_field k g s) = sg_ExportStatsToHA (if k = ''ExportStatsToHA'' then g else s)"
  "sg_HAUseNFS (copy_field k g s) = sg_HAUseNFS (if k = ''HAUseNFS'' then g else s)"
  "sg_HASmbPassword (copy_field k g s) = sg_HASmbPassword (if k = ''HASmbPassword'' then g else s)"
  "sg_SMBoverQUIC (copy_field k g s) = sg_SMBoverQUIC (if k = ''SMBoverQUIC'' then g else s)"
  "sg_SmartMode (copy_field k g s) = sg_SmartMode (if k = ''SmartMode'' then g else s)"
  "sg_ExperimentalLabMode (copy_field k g s) = sg_ExperimentalLabMode (if k = ''ExperimentalLabMode'' then g else s)"
  "sg_MDNSRegistration (copy_field k g s) = sg_MDNSRegistration (if k = ''MDNSRegistration'' then g else s)"
  unfolding copy_field_def by simp_all

definition setting_keys :: "string list" where
  "setting_keys = keys (field_values zero_settings)"

lemma setting_keys_eq:
  "setting_keys = [''Hostname'', ''Workgroup'', ''AllowHost'', ''CompatibilityMode'', ''Interfaces'',
     ''BindAllInterfaces'', ''MultiChannel'', ''AllowGuest'', ''TelemetryMode'', ''LocalMaster'',
     ''ExportStatsToHA'', ''HAUseNFS'', ''HASmbPassword'', ''SMBoverQUIC'', ''SmartMode'',
     ''ExperimentalLabMode'', ''MDNSRegistration'']"
  by (simp add: setting_keys_def field_values_def)

lemma keys_field_values: "keys (field_values s) = setting_keys"
  by (simp add: setting_keys_eq field_values_def)

lemma distinct_setting_keys: "distinct setting_keys"
  by (simp add: setting_keys_eq)

text \<open>Copying every field in some order copies the record.\<close>

lemma copied_fields:
  "set setting_keys \<subseteq> set ks \<Longrightarrow> foldl (\<lambda>s k. copy_field k g s) s ks = g"
proof -
  have field: "f (foldl (\<lambda>s k. copy_field k g s) s ks) = (if key \<in> set ks then f g else f s)"
    if "\<And>k g s. f (copy_field k g s) = f (if k = key then g else s)" for f :: "settings \<Rightarrow> 'x" and key
    by (induction ks arbitrary: s) (auto simp: that)
  assume "set setting_keys \<subseteq> set ks"
  then show ?thesis
    by (intro settings.equality) (simp_all add: setting_keys_eq field [OF copy_field_select(1)] field [OF copy_field_select(2)]
      field [OF copy_field_select(3)] field [OF copy_field_select(4)] field [OF copy_field_select(5)]
      field [OF copy_field_select(6)] field [OF copy_field_select(7)] field [OF copy_field_select(8)]
      field [OF copy_field_select(9)] field [OF copy_field_select(10)] field [OF copy_field_select(11)]
      field [OF copy_field_select(12)] field [OF copy_field_select(13)] field [OF copy_field_select(14)]
      field [OF copy_field_select(15)] field [OF copy_field_select(16)] field [OF copy_field_select(17)])
qed

section \<open>Reading back what was written\<close>

text \<open>An empty list is not told from a missing one.\<close>

definition as_stored :: "settings \<Rightarrow> settings" where
  "as_stored s = s\<lparr>sg_AllowHost := (if sg_AllowHost s = Some [] then None else sg_AllowHost s),
                   sg_Interfaces := (if sg_Interfaces s = Some [] then None else sg_Interfaces s)\<rparr>"

lemma append_strings_PStr:
  "append_strings (Some xs) (map PStr ys) = Ok (Some (xs @ ys))"
  by (induction ys arbitrary: xs) simp_all

lemma read_list_value: "read_list None (list_value xs) = Ok (if xs = Some [] then None else xs)"
proof (cases xs)
  case None
  then show ?thesis by (simp add: read_list_def list_value_def)
next
  case (Some ys)
  then show ?thesis
    by (cases ys) (simp_all add: read_list_def list_value_def append_strings_PStr)
qed

lemma read_ptr_value: "read_ptr k (ptr_value b) = Ok b"
  by (cases b) (simp_all add: read_ptr_def ptr_value_def)

lemma read_telemetry: "read_enum z TelemetryMode_methods (PStr (m_Value TelemetryMode_methods v)) = Ok v"
  by (cases v) (simp_all add: read_enum_def any_of_prop_def TelemetryMode_methods_def methods_of_def
    enum_Parse_def enum_String_def or_invalid_def stringTo_def name_key_def TelemetryMode_enum_def
    TelemetryModeNameMap_def TelemetryModeNamesMap_def namesTelemetryMode_def slice_def)

lemma read_smart: "read_enum z SmartMode_methods (PStr (m_Value SmartMode_methods v)) = Ok v"
  by (cases v) (simp_all add: read_enum_def any_of_prop_def SmartMode_methods_def methods_of_def
    enum_Parse_def enum_String_def or_invalid_def stringTo_def name_key_def SmartMode_enum_def
    SmartModeNameMap_def SmartModeNamesMap_def namesSmartMode_def slice_def)

lemma read_field_value:
  assumes "k \<in> set setting_keys" "map_of (field_values g) k = Some v"
    "sg_AllowHost s = None \<or> k \<noteq> ''AllowHost''" "sg_Interfaces s = None \<or> k \<noteq> ''Interfaces''"
  shows "set_field k v s = Ok (copy_field k (as_stored g) s)"
proof -
  note eval = set_field_def copy_field_def map_res_def field_values_def as_stored_def read_string_def
    read_bool_def read_secret_def read_list_value read_ptr_value read_telemetry read_smart
  have "k = ''Hostname'' \<or> k = ''Workgroup'' \<or> k = ''AllowHost'' \<or> k = ''CompatibilityMode'' \<or>
    k = ''Interfaces'' \<or> k = ''BindAllInterfaces'' \<or> k = ''MultiChannel'' \<or> k = ''AllowGuest'' \<or>
    k = ''TelemetryMode'' \<or> k = ''LocalMaster'' \<or> k = ''ExportStatsToHA'' \<or> k = ''HAUseNFS'' \<or>
    k = ''HASmbPassword'' \<or> k = ''SMBoverQUIC'' \<or> k = ''SmartMode'' \<or> k = ''ExperimentalLabMode'' \<or>
    k = ''MDNSRegistration''"
    using assms(1) by (simp add: setting_keys_eq)
  then show ?thesis using assms(2-4) by (elim disjE) (auto simp: eval)
qed

lemma set_field_unknown: "k \<notin> set setting_keys \<Longrightarrow> set_field k v s = Ok (copy_field k g s)"
  by (simp add: setting_keys_eq set_field_def copy_field_def)

lemma PropertiesToSettings_stored:
  assumes "\<forall>k \<in> set setting_keys. \<forall>v. map_of ps k = Some v \<longrightarrow> map_of (field_values g) k = Some v"
  shows "distinct (keys ps) \<Longrightarrow> (''AllowHost'' \<in> set (keys ps) \<longrightarrow> sg_AllowHost s = None) \<Longrightarrow>
     (''Interfaces'' \<in> set (keys ps) \<longrightarrow> sg_Interfaces s = None) \<Longrightarrow>
     PropertiesToSettings ps s = (foldl (\<lambda>s k. copy_field k (as_stored g) s) s (keys ps), Ok ())"
  using assms
proof (induction ps arbitrary: s)
  case Nil
  then show ?case by simp
next
  case (Cons p ps)
  obtain k v where p: "p = (k, v)" by (cases p)
  have fresh: "map_of ps k = None" using Cons.prems(1) p by (simp add: map_of_eq_None_iff)
  have step: "set_field k v s = Ok (copy_field k (as_stored g) s)"
  proof (cases "k \<in> set setting_keys")
    case True
    have "map_of (field_values g) k = Some v" using Cons.prems(4) True p by simp
    then show ?thesis using True Cons.prems(2,3) p by (intro read_field_value) auto
  next
    case False
    then show ?thesis by (rule set_field_unknown)
  qed
  have rest: "\<forall>j \<in> set setting_keys. \<forall>w. map_of ps j = Some w \<longrightarrow> map_of (field_values g) j = Some w"
    using Cons.prems(4) p fresh by (metis map_of_Cons_code(2) option.distinct(1))
  have "PropertiesToSettings ps (copy_field k (as_stored g) s) =
     (foldl (\<lambda>s k. copy_field k (as_stored g) s) (copy_field k (as_stored g) s) (keys ps), Ok ())"
    by (rule Cons.IH) (use Cons.prems p rest in \<open>auto simp: copy_field_select\<close>)
  then show ?case using step p by simp
qed

lemma Populate_rows:
  "distinct (keys rows) \<Longrightarrow> set (keys rows) \<inter> set (keys props) = {} \<Longrightarrow> Populate props rows = props @ rows"
proof (induction rows arbitrary: props)
  case Nil
  then show ?case by (simp add: Populate_def)
next
  case (Cons p rows)
  obtain k v where p: "p = (k, v)" by (cases p)
  have "AList.update k v props = props @ [(k, v)]"
    using Cons.prems(2) p by (induction props) auto
  then show ?case using Cons.IH [of "props @ [(k, v)]"] Cons.prems p by (simp add: Populate_def)
qed

section \<open>Updates\<close>

text \<open>
  The defaults in the structure tags, as the documentation of the library has it: a field that
  holds its zero value gets the default of its tag, a nil pointer a pointer to it.
\<close>

definition default_hosts :: "string list" where
  "default_hosts = [''10.0.0.0/8'', ''100.0.0.0/8'', ''172.16.0.0/12'', ''192.168.0.0/16'',
     ''169.254.0.0/16'', ''fe80::/10'', ''fc00::/7'']"

definition or_default :: "'a \<Rightarrow> 'a option \<Rightarrow> 'a option" where
  "or_default d x = (case x of None \<Rightarrow> Some d | Some v \<Rightarrow> Some v)"

definition with_default_tags :: "settings \<Rightarrow> settings" where
  "with_default_tags s = s
     \<lparr>sg_AllowHost := or_default default_hosts (sg_AllowHost s),
      sg_Interfaces := or_default [] (sg_Interfaces s),
      sg_BindAllInterfaces := True,
      sg_MultiChannel := True,
      sg_AllowGuest := or_default False (sg_AllowGuest s),
      sg_LocalMaster := or_default True (sg_LocalMaster s),
      sg_ExportStatsToHA := or_default False (sg_ExportStatsToHA s),
      sg_HAUseNFS := or_default False (sg_HAUseNFS s),
      sg_SMBoverQUIC := or_default False (sg_SMBoverQUIC s),
      sg_MDNSRegistration := or_default False (sg_MDNSRegistration s)\<rparr>"

definition defaults_documented :: "'d setting_env \<Rightarrow> bool" where
  "defaults_documented env = (\<forall>s. se_defaults_Set env s = Ok (with_default_tags s))"

lemma load_stored:
  assumes laws: "prop_db_laws (se_db env) tab" and dflt: "defaults_documented env"
    and rows: "pd_Find (se_db env) d = Ok rows"
    and tab: "\<forall>k \<in> set setting_keys. tab d k = map_of (field_values g) k"
  shows "Load env d = (with_default_tags (as_stored g), Ok ())"
proof -
  have dist: "distinct (keys rows)" and lookup: "map_of rows = tab d"
    using prop_db_lawsD(1) [OF laws rows] by blast+
  have found: "map_of rows k \<noteq> None" if "k \<in> set setting_keys" for k
    using that tab keys_field_values [of g] by (simp add: lookup map_of_eq_None_iff flip: list.set_map)
  then have all: "set setting_keys \<subseteq> set (keys rows)" by (auto simp: map_of_eq_None_iff)
  have props: "Populate [] rows = rows" using Populate_rows [OF dist, of "[]"] by simp
  have "PropertiesToSettings rows zero_settings =
     (foldl (\<lambda>s k. copy_field k (as_stored g) s) zero_settings (keys rows), Ok ())"
    by (rule PropertiesToSettings_stored) (use tab dist in \<open>simp_all add: lookup zero_settings_def\<close>)
  then have "PropertiesToSettings rows zero_settings = (as_stored g, Ok ())"
    using copied_fields [OF all] by simp
  moreover have "map_of rows ''ExperimentalLabMode'' \<noteq> None" "map_of rows ''SmartMode'' \<noteq> None"
    by (rule found, simp add: setting_keys_eq)+
  moreover have "se_defaults_Set env (as_stored g) = Ok (with_default_tags (as_stored g))"
    using dflt unfolding defaults_documented_def by (rule spec)
  ultimately show ?thesis unfolding Load_def rows by (simp only: res.case Let_def props prod.case if_False)
qed

lemma UpdateSettings_OkE:
  assumes "UpdateSettings env given s = ((Ok u, stored), s')"
  shows "stored = ValidateSettings env (keep_password env (st_db s) given)"
    "save_properties env (SettingsToProperties stored []) (st_db s) = (Ok (), st_db s')"
    "st_events s' = st_events s @ [stored]"
  using assms by (auto simp: UpdateSettings_def Let_def split: if_splits prod.splits res.splits)

lemma update_then_load:
  assumes laws: "prop_db_laws (se_db env) tab" and dflt: "defaults_documented env"
    and upd: "UpdateSettings env given s = ((Ok u, stored), s')"
    and rows: "pd_Find (se_db env) (st_db s') = Ok rows"
  shows "Load env (st_db s') = (with_default_tags (as_stored stored), Ok ())"
proof (rule load_stored [OF laws dflt rows], rule ballI)
  fix k assume k: "k \<in> set setting_keys"
  have "SettingsToProperties stored [] = field_values stored"
    using Populate_rows [of "field_values stored" "[]"] keys_field_values [of stored] distinct_setting_keys
    by (simp add: Populate_def SettingsToProperties_def)
  then have "tab (st_db s') k =
      (case map_of (field_values stored) k of Some v \<Rightarrow> Some v | None \<Rightarrow> tab (st_db s) k)"
    using save_properties_table [OF laws] UpdateSettings_OkE(2) [OF upd] keys_field_values [of stored]
      distinct_setting_keys by simp
  moreover have "map_of (field_values stored) k \<noteq> None"
    using k keys_field_values [of stored] by (simp add: map_of_eq_None_iff flip: list.set_map)
  ultimately show "tab (st_db s') k = map_of (field_values stored) k" by auto
qed

text \<open>C26: After a successful update, whatever the table held before, the settings that are loaded are
  the ones that were announced, up to the defaults of empty lists, missing pointers and false
  switches; these are the given ones, with NFS only if the system exports it and, when the given
  password is empty, with the password the table had, if it could be loaded.\<close>

theorem settings_update_load:
  assumes laws: "prop_db_laws (se_db env) tab" and dflt: "defaults_documented env"
    and upd: "UpdateSettings env given s = ((Ok u, stored), s')"
    and rows: "pd_Find (se_db env) (st_db s') = Ok rows"
  shows "Load env (st_db s') = (with_default_tags (as_stored stored), Ok ()) \<and>
     st_events s' = st_events s @ [stored] \<and>
     stored = given
       \<lparr>sg_HAUseNFS := (if sg_HAUseNFS given = Some True \<and> \<not> se_commandExists env [''exportfs'']
                       then Some False else sg_HAUseNFS given),
        sg_HASmbPassword := (if sg_HASmbPassword given = [] \<and> snd (Load env (st_db s)) = Ok ()
                       then sg_HASmbPassword (fst (Load env (st_db s))) else sg_HASmbPassword given)\<rparr>"
proof -
  have kept: "keep_password env (st_db s) given = given
     \<lparr>sg_HASmbPassword := (if sg_HASmbPassword given = [] \<and> snd (Load env (st_db s)) = Ok ()
        then sg_HASmbPassword (fst (Load env (st_db s))) else sg_HASmbPassword given)\<rparr>"
    by (cases "Load env (st_db s)"; cases "snd (Load env (st_db s))") (auto simp: keep_password_def)
  show ?thesis
    using update_then_load [OF laws dflt upd rows] UpdateSettings_OkE(1,3) [OF upd]
    by (simp add: ValidateSettings_def kept)
qed

text \<open>Two switches cannot be turned off: the next load takes the stored false for a missing value.\<close>

lemma switches_stay_on:
  assumes "prop_db_laws (se_db env) tab" "defaults_documented env"
    "UpdateSettings env given s = ((Ok u, stored), s')" "pd_Find (se_db env) (st_db s') = Ok rows"
  shows "sg_MultiChannel (fst (Load env (st_db s'))) \<and> sg_BindAllInterfaces (fst (Load env (st_db s'))) \<and>
    (sg_AllowHost stored = Some [] \<longrightarrow> sg_AllowHost (fst (Load env (st_db s'))) = Some default_hosts)"
  using update_then_load [OF assms] by (simp add: with_default_tags_def as_stored_def or_default_def)

text \<open>When the settings cannot be loaded, an update that leaves the password out stores an empty one.\<close>

lemma password_lost_after_failed_load:
  assumes "prop_db_laws (se_db env) tab" "UpdateSettings env given s = ((Ok u, stored), s')"
    "sg_HASmbPassword given = []" "snd (Load env (st_db s)) = Err e"
  shows "tab (st_db s') ''HASmbPassword'' = Some (PStr [])"
proof -
  have "SettingsToProperties stored [] = field_values stored"
    using Populate_rows [of "field_values stored" "[]"] keys_field_values [of stored] distinct_setting_keys
    by (simp add: Populate_def SettingsToProperties_def)
  then have "tab (st_db s') ''HASmbPassword'' = (case map_of (field_values stored) ''HASmbPassword'' of
      Some v \<Rightarrow> Some v | None \<Rightarrow> tab (st_db s) ''HASmbPassword'')"
    using save_properties_table [OF assms(1)] UpdateSettings_OkE(2) [OF assms(2)] keys_field_values [of stored]
      distinct_setting_keys by simp
  moreover have "sg_HASmbPassword stored = []"
    using UpdateSettings_OkE(1) [OF assms(2)] assms(3,4)
    by (auto simp: ValidateSettings_def keep_password_def split: prod.splits res.splits)
  ultimately show ?thesis by (simp add: field_values_def)
qed

section \<open>A table in memory\<close>

definition list_props :: "properties prop_db" where
  "list_props = \<lparr>pd_Find = (\<lambda>d. Ok (AList.clearjunk d)),
     pd_Updates = (\<lambda>(k, v) d. if map_of d k = None then (Ok 0, d) else (Ok 1, AList.update k v d)),
     pd_Create = (\<lambda>(k, v) d. (Ok (), AList.update k v d))\<rparr>"

lemma list_props_laws: "prop_db_laws list_props map_of"
  by (auto simp: prop_db_laws_def list_props_def distinct_clearjunk map_of_clearjunk update_conv' split: if_splits)

definition sample_env :: "properties setting_env" where
  "sample_env = \<lparr>se_db = list_props, se_commandExists = (\<lambda>_. False),
     se_defaults_Set = (\<lambda>s. Ok (with_default_tags s)), se_Environment = ''production''\<rparr>"

definition sample_given :: settings where
  "sample_given = zero_settings\<lparr>sg_Hostname := ''nas'', sg_HAUseNFS := Some True, sg_HASmbPassword := ''pw''\<rparr>"

lemma list_props_saves:
  "list_all (\<lambda>p. Property_BeforeSave p = None) ps \<Longrightarrow> \<exists>d'. save_properties sample_env ps d = (Ok (), d')"
proof (induction ps arbitrary: d)
  case Nil
  then show ?case by simp
next
  case (Cons p ps)
  obtain d1 where "save_property sample_env p d = (Ok (), d1)"
    using Cons.prems
    by (cases p; cases "map_of d (fst p) = None") (auto simp: save_property_def sample_env_def list_props_def)
  then show ?case using Cons.IH [of d1] Cons.prems by auto
qed

lemma settings_update_load_witness:
  "\<exists>s'. UpdateSettings sample_env sample_given \<lparr>st_db = [], st_events = []\<rparr>
       = ((Ok (), sample_given\<lparr>sg_HAUseNFS := Some False\<rparr>), s') \<and>
     Load sample_env (st_db s') =
       (with_default_tags (as_stored (sample_given\<lparr>sg_HAUseNFS := Some False\<rparr>)), Ok ())"
proof -
  let ?s = "\<lparr>st_db = [], st_events = []\<rparr> :: properties setting_service"
  let ?g = "sample_given\<lparr>sg_HAUseNFS := Some False\<rparr>"
  have v: "ValidateSettings sample_env (keep_password sample_env [] sample_given) = ?g"
    by (simp add: ValidateSettings_def keep_password_def sample_env_def sample_given_def)
  have "SettingsToProperties ?g [] = field_values ?g"
    using Populate_rows [of "field_values ?g" "[]"] keys_field_values [of ?g] distinct_setting_keys
    by (simp add: Populate_def SettingsToProperties_def)
  moreover have "list_all (\<lambda>p. Property_BeforeSave p = None) (field_values ?g)"
    by (simp add: field_values_def Property_BeforeSave_def sample_given_def quote_def)
  ultimately obtain d where "save_properties sample_env (SettingsToProperties ?g []) [] = (Ok (), d)"
    using list_props_saves by metis
  then obtain s' where u: "UpdateSettings sample_env sample_given ?s = ((Ok (), ?g), s')"
    using v by (simp add: UpdateSettings_def Let_def sample_given_def)
  have laws: "prop_db_laws (se_db sample_env) map_of" "defaults_documented sample_env"
    using list_props_laws by (simp_all add: sample_env_def defaults_documented_def)
  have rows: "pd_Find (se_db sample_env) (st_db s') = Ok (AList.clearjunk (st_db s'))"
    by (simp add: sample_env_def list_props_def)
  from settings_update_load [OF laws u rows] u show ?thesis by blast
qed

end
