(* ===== verification/Share_Service.thy ===== *)
theory Share_Service
  imports User_Service Volume_Mount
begin

text \<open>
  The share service (\<open>service/share_service.go\<close>, with its conversions in
  \<open>converter/dto_to_dbom_conv_gen.go\<close>): shares are rows of the database that name their users and
  the mount point they export; every change is announced.

  The queries on the table of shares and the Home Assistant supervisor are parameters. The users of
  a share are converted by the user service, its mount point is looked up as the volume service does.
\<close>

section \<open>Data\<close>

record share_row =
  es_Name :: string
  es_Disabled :: "bool option"
  es_Users :: "samba_row list"
  es_RoUsers :: "samba_row list"
  es_VetoFiles :: "string list"
  es_TimeMachine :: bool
  es_RecycleBin :: bool
  es_GuestOk :: bool
  es_TimeMachineMaxSize :: string
  es_Usage :: HAMountUsage
  es_MountPointDataPath :: "string option"
  es_MountPointDataRoot :: "string option"
  es_MountPointData :: mount_row

definition zero_share_row :: share_row where
  "zero_share_row = \<lparr>es_Name = [], es_Disabled = None, es_Users = [], es_RoUsers = [], es_VetoFiles = [],
     es_TimeMachine = False, es_RecycleBin = False, es_GuestOk = False, es_TimeMachineMaxSize = [],
     es_Usage = UsageOther [], es_MountPointDataPath = None, es_MountPointDataRoot = None,
     es_MountPointData = empty_row\<rparr>"

record 'd share_db =
  sd_Find :: "'d \<Rightarrow> share_row list res"
  sd_First :: "string \<Rightarrow> 'd \<Rightarrow> share_row option res"
  sd_FirstByPath :: "string \<Rightarrow> 'd \<Rightarrow> share_row option res"
  sd_Restore :: "string \<Rightarrow> 'd \<Rightarrow> nat res \<times> 'd"
  sd_Create :: "share_row \<Rightarrow> 'd \<Rightarrow> unit res \<times> 'd"
  sd_Count :: "string \<Rightarrow> 'd \<Rightarrow> nat res"
  sd_ClearUsers :: "string \<Rightarrow> 'd \<Rightarrow> unit res \<times> 'd"
  sd_ClearRoUsers :: "string \<Rightarrow> 'd \<Rightarrow> unit res \<times> 'd"
  sd_Updates :: "string \<Rightarrow> share_row \<Rightarrow> 'd \<Rightarrow> unit res \<times> 'd"
  sd_ReplaceUsers :: "string \<Rightarrow> samba_row list \<Rightarrow> 'd \<Rightarrow> unit res \<times> 'd"
  sd_ReplaceRoUsers :: "string \<Rightarrow> samba_row list \<Rightarrow> 'd \<Rightarrow> unit res \<times> 'd"
  sd_Save :: "share_row \<Rightarrow> 'd \<Rightarrow> unit res \<times> 'd"
  sd_Delete :: "string \<Rightarrow> 'd \<Rightarrow> unit res \<times> 'd"

record ('d, 'o, 'v) share_env =
  sh_db :: "'d share_db"
  sh_users :: "('d, 'o) user_env"
  sh_volumes :: "'v vol_env"
  sh_mock :: bool
  sh_NetworkUnmountShare :: "string \<Rightarrow> 'v \<Rightarrow> err option \<times> 'v"

record ('d, 'o, 'v) share_state =
  sv_user :: "('d, 'o) user_state"
  sv_out :: 'v
  sv_events :: "(event_type \<times> shared_resource) list"

abbreviation sv_db :: "('d, 'o, 'v) share_state \<Rightarrow> 'd" where
  "sv_db s \<equiv> uv_db (sv_user s)"

definition set_db :: "'d \<Rightarrow> ('d, 'o, 'v) share_state \<Rightarrow> ('d, 'o, 'v) share_state" where
  "set_db d s = s\<lparr>sv_user := (sv_user s)\<lparr>uv_db := d\<rparr>\<rparr>"

section \<open>Conversion\<close>

definition mountPointPathToMountPointData :: "'v vol_env \<Rightarrow> 'v \<Rightarrow> mount_row \<Rightarrow> mount_point res" where
  "mountPointPathToMountPointData ve w row =
     (case osutil_IsMounted ve w (r_Path row) of
        Err e \<Rightarrow> Err e
      | Panic \<Rightarrow> Panic
      | Ok mounted \<Rightarrow>
          (case isPathDirNotExists ve w (r_Path row) of
             Err e \<Rightarrow> Err e
           | Panic \<Rightarrow> Panic
           | Ok missing \<Rightarrow> Ok (zero_mount_point
               \<lparr>mp_DiskLabel := ve_label ve w (r_Path row), mp_DiskSerial := ve_serial ve w (r_Path row),
                mp_DiskSize := ve_size ve w (r_Path row), mp_Path := r_Path row,
                mp_Root := (case r_Root row of Some r \<Rightarrow> r | None \<Rightarrow> []), mp_Type := r_Type row,
                mp_FSType := Some (r_FSType row),
                mp_Flags := map_option (map from_data_flag) (r_Flags row),
                mp_CustomFlags := map_option (map from_data_flag) (r_Data row),
                mp_DeviceId := r_DeviceId row, mp_IsMounted := mounted, mp_IsInvalid := missing,
                mp_IsToMountAtStartup := r_IsToMountAtStartup row,
                mp_IsWriteSupported := Some (ve_writable ve w (r_Path row)),
                mp_TimeMachineSupport := Some (TimeMachineSupportFromFS (r_FSType row)),
                mp_Share := r_ExportedShare row\<rparr>)))"

text \<open>The users are checked one after the other, which runs commands.\<close>

definition ExportedShareToSharedResource ::
  "('d, 'o, 'v) share_env \<Rightarrow> share_row \<Rightarrow> ('d, 'o, 'v) share_state
   \<Rightarrow> shared_resource res \<times> ('d, 'o, 'v) share_state" where
  "ExportedShareToSharedResource env row s =
     (case SambaUsersToUsers (ue_os (sh_users env)) (es_Users row) (uv_os (sv_user s)) of
        (users, w1) \<Rightarrow>
          (case SambaUsersToUsers (ue_os (sh_users env)) (es_RoUsers row) w1 of
             (ro, w2) \<Rightarrow>
               (map_res (\<lambda>md. \<lparr>sr_Name = es_Name row, sr_Disabled = es_Disabled row, sr_Users = users,
                    sr_RoUsers = ro, sr_TimeMachine = Some (es_TimeMachine row),
                    sr_RecycleBin = Some (es_RecycleBin row), sr_GuestOk = Some (es_GuestOk row),
                    sr_TimeMachineMaxSize = Some (es_TimeMachineMaxSize row), sr_Usage = es_Usage row,
                    sr_VetoFiles = es_VetoFiles row, sr_Status = None, sr_MountPointData = Some md\<rparr>)
                  (mountPointPathToMountPointData (sh_volumes env) (sv_out s) (es_MountPointData row)),
                s\<lparr>sv_user := (sv_user s)\<lparr>uv_os := w2\<rparr>\<rparr>)))"

definition or_keep :: "'a option \<Rightarrow> 'a \<Rightarrow> 'a" where
  "or_keep x old = (case x of Some v \<Rightarrow> v | None \<Rightarrow> old)"

definition SharedResourceToExportedShareNoUsersNoMountPointPath ::
  "shared_resource \<Rightarrow> share_row \<Rightarrow> share_row" where
  "SharedResourceToExportedShareNoUsersNoMountPointPath source target = target
     \<lparr>es_Name := (if sr_Name source \<noteq> [] then sr_Name source else es_Name target),
      es_Disabled := (if sr_Disabled source \<noteq> None then sr_Disabled source else es_Disabled target),
      es_VetoFiles := sr_VetoFiles source,
      es_TimeMachine := or_keep (sr_TimeMachine source) (es_TimeMachine target),
      es_RecycleBin := or_keep (sr_RecycleBin source) (es_RecycleBin target),
      es_GuestOk := or_keep (sr_GuestOk source) (es_GuestOk target),
      es_TimeMachineMaxSize := or_keep (sr_TimeMachineMaxSize source) (es_TimeMachineMaxSize target),
      es_Usage := (if sr_Usage source \<noteq> UsageOther [] then sr_Usage source else es_Usage target),
      es_MountPointDataPath := (case sr_MountPointData source of
          Some md \<Rightarrow> Some (mp_Path md) | None \<Rightarrow> es_MountPointDataPath target),
      es_MountPointDataRoot := (case sr_MountPointData source of
          Some md \<Rightarrow> Some (mp_Root md) | None \<Rightarrow> es_MountPointDataRoot target)\<rparr>"

definition SharedResourceToExportedShare :: "shared_resource \<Rightarrow> share_row \<Rightarrow> share_row" where
  "SharedResourceToExportedShare source target =
     (let t = SharedResourceToExportedShareNoUsersNoMountPointPath source target
      in t\<lparr>es_Users := map (\<lambda>u. UserToSambaUser u zero_row) (sr_Users source),
           es_RoUsers := map (\<lambda>u. UserToSambaUser u zero_row) (sr_RoUsers source),
           es_MountPointData := (case sr_MountPointData source of
               Some md \<Rightarrow> MountPointDataToMountPointPath md empty_row
             | None \<Rightarrow> es_MountPointData t)\<rparr>)"

section \<open>Verification\<close>

definition set_valid :: "shared_resource \<Rightarrow> bool \<Rightarrow> shared_resource" where
  "set_valid share v = share
     \<lparr>sr_Status := Some ((case sr_Status share of
          Some st \<Rightarrow> st | None \<Rightarrow> \<lparr>ss_IsValid = False, ss_IsHAMounted = False\<rparr>)\<lparr>ss_IsValid := v\<rparr>)\<rparr>"

definition drop_rw_share :: "string \<Rightarrow> user \<Rightarrow> user" where
  "drop_rw_share name u = u\<lparr>u_RwShares := filter (\<lambda>x. x \<noteq> name) (u_RwShares u)\<rparr>"

definition VerifyShare :: "shared_resource option \<Rightarrow> shared_resource res" where
  "VerifyShare share =
     (case share of
        None \<Rightarrow> Err (E ErrorOther ''share cannot be nil'')
      | Some sr \<Rightarrow>
          Ok (case sr_MountPointData sr of
                None \<Rightarrow> set_valid sr False
              | Some md \<Rightarrow>
                  if mp_Path md = [] \<or> mp_IsInvalid md \<or> \<not> mp_IsMounted md then set_valid sr False
                  else
                    let sr1 = (if mp_IsWriteSupported md = Some False
                               then sr\<lparr>sr_Users := map (drop_rw_share (sr_Name sr)) (sr_Users sr)\<rparr> else sr)
                    in set_valid sr1 True))"

definition verified :: "shared_resource \<Rightarrow> shared_resource" where
  "verified share = (case VerifyShare (Some share) of Ok sr \<Rightarrow> sr | _ \<Rightarrow> share)"

text \<open>A row as the service shows it.\<close>

definition show_share ::
  "('d, 'o, 'v) share_env \<Rightarrow> share_row \<Rightarrow> ('d, 'o, 'v) share_state
   \<Rightarrow> shared_resource res \<times> ('d, 'o, 'v) share_state" where
  "show_share env row s =
     (case ExportedShareToSharedResource env row s of (r, s1) \<Rightarrow> (map_res verified r, s1))"

section \<open>Reading\<close>

fun show_shares ::
  "('d, 'o, 'v) share_env \<Rightarrow> share_row list \<Rightarrow> ('d, 'o, 'v) share_state
   \<Rightarrow> shared_resource list res \<times> ('d, 'o, 'v) share_state" where
  "show_shares env [] s = (Ok [], s)"
| "show_shares env (r # rs) s =
     (case show_share env r s of
        (Ok sr, s1) \<Rightarrow> (case show_shares env rs s1 of (rest, s2) \<Rightarrow> (map_res (\<lambda>l. sr # l) rest, s2))
      | (Err e, s1) \<Rightarrow> (Err e, s1)
      | (Panic, s1) \<Rightarrow> (Panic, s1))"

definition ListShares ::
  "('d, 'o, 'v) share_env \<Rightarrow> ('d, 'o, 'v) share_state \<Rightarrow> shared_resource list res \<times> ('d, 'o, 'v) share_state" where
  "ListShares env s =
     (case sd_Find (sh_db env) (sv_db s) of
        Ok rows \<Rightarrow> show_shares env rows s
      | Err e \<Rightarrow> (Err e, s)
      | Panic \<Rightarrow> (Panic, s))"

definition share_not_found :: "'a res" where
  "share_not_found = Err (E ErrorShareNotFound [])"

definition show_found ::
  "('d, 'o, 'v) share_env \<Rightarrow> share_row option res \<Rightarrow> ('d, 'o, 'v) share_state
   \<Rightarrow> shared_resource res \<times> ('d, 'o, 'v) share_state" where
  "show_found env found s =
     (case found of
        Ok (Some row) \<Rightarrow> show_share env row s
      | Ok None \<Rightarrow> (share_not_found, s)
      | Err e \<Rightarrow> (Err e, s)
      | Panic \<Rightarrow> (Panic, s))"

definition GetShare ::
  "('d, 'o, 'v) share_env \<Rightarrow> string \<Rightarrow> ('d, 'o, 'v) share_state \<Rightarrow> shared_resource res \<times> ('d, 'o, 'v) share_state" where
  "GetShare env name s = show_found env (sd_First (sh_db env) name (sv_db s)) s"

definition GetShareFromPath ::
  "('d, 'o, 'v) share_env \<Rightarrow> string \<Rightarrow> ('d, 'o, 'v) share_state \<Rightarrow> shared_resource res \<times> ('d, 'o, 'v) share_state" where
  "GetShareFromPath env path s = show_found env (sd_FirstByPath (sh_db env) path (sv_db s)) s"

section \<open>Changing\<close>

definition emit_share ::
  "event_type \<Rightarrow> shared_resource res \<times> ('d, 'o, 'v) share_state \<Rightarrow> shared_resource res \<times> ('d, 'o, 'v) share_state" where
  "emit_share ty out =
     (case out of
        (Ok sr, s) \<Rightarrow> (Ok sr, s\<lparr>sv_events := sv_events s @ [(ty, sr)]\<rparr>)
      | (r, s) \<Rightarrow> (r, s))"

text \<open>A share without users gets the administrator.\<close>

definition with_users ::
  "('d, 'o, 'v) share_env \<Rightarrow> share_row \<Rightarrow> ('d, 'o, 'v) share_state \<Rightarrow> share_row res \<times> ('d, 'o, 'v) share_state" where
  "with_users env row s =
     (if es_Users row \<noteq> [] then (Ok row, s)
      else case GetAdmin (sh_users env) (sv_user s) of
             (Ok admin, u) \<Rightarrow> (Ok (row\<lparr>es_Users := [UserToSambaUser admin zero_row]\<rparr>), s\<lparr>sv_user := u\<rparr>)
           | (Err e, u) \<Rightarrow> (Err e, s\<lparr>sv_user := u\<rparr>)
           | (Panic, u) \<Rightarrow> (Panic, s\<lparr>sv_user := u\<rparr>))"

text \<open>Statements one after the other, up to the first that fails.\<close>

definition and_then :: "unit res \<times> 'd \<Rightarrow> ('d \<Rightarrow> unit res \<times> 'd) \<Rightarrow> unit res \<times> 'd" where
  "and_then out f = (case out of (Ok _, d) \<Rightarrow> f d | (Err e, d) \<Rightarrow> (Err e, d) | (Panic, d) \<Rightarrow> (Panic, d))"

definition row_exists :: "share_row option res \<Rightarrow> unit res" where
  "row_exists r = (case r of Ok (Some _) \<Rightarrow> Ok () | Ok None \<Rightarrow> Err (E ErrorOther ''record not found'')
     | Err e \<Rightarrow> Err e | Panic \<Rightarrow> Panic)"

definition update_tx :: "'d share_db \<Rightarrow> string \<Rightarrow> share_row \<Rightarrow> 'd \<Rightarrow> unit res \<times> 'd" where
  "update_tx db originalName row d =
     (let updatedName = es_Name row;
          free = (if originalName \<noteq> updatedName then
                    (case sd_Count db updatedName d of
                       Ok n \<Rightarrow> if n > 0 then Err (E ErrorOther (''share '' @ updatedName @ '' already exists'')) else Ok ()
                     | Err e \<Rightarrow> Err e
                     | Panic \<Rightarrow> Panic)
                  else Ok ())
      in and_then (free, d) (\<lambda>d0.
         and_then (row_exists (sd_First db originalName d0), d0) (\<lambda>d1.
         and_then (sd_ClearUsers db originalName d1) (\<lambda>d2.
         and_then (sd_ClearRoUsers db originalName d2) (\<lambda>d3.
         and_then (sd_Updates db originalName row d3) (\<lambda>d4.
         and_then (row_exists (sd_First db updatedName d4), d4) (\<lambda>d5.
         and_then (sd_ReplaceUsers db updatedName (es_Users row) d5) (\<lambda>d6.
         sd_ReplaceRoUsers db updatedName (es_RoUsers row) d6))))))))"

definition clear_empty_root :: "share_row \<Rightarrow> share_row" where
  "clear_empty_root row =
     (if es_MountPointDataRoot row = Some [] then row\<lparr>es_MountPointDataRoot := None\<rparr> else row)"

definition UpdateShare ::
  "('d, 'o, 'v) share_env \<Rightarrow> string \<Rightarrow> shared_resource \<Rightarrow> ('d, 'o, 'v) share_state
   \<Rightarrow> shared_resource res \<times> ('d, 'o, 'v) share_state" where
  "UpdateShare env name share s =
     (case sd_First (sh_db env) name (sv_db s) of
        Ok None \<Rightarrow> (share_not_found, s)
      | Err e \<Rightarrow> (Err e, s)
      | Panic \<Rightarrow> (Panic, s)
      | Ok (Some old) \<Rightarrow>
          (case with_users env (clear_empty_root (SharedResourceToExportedShare share old)) s of
             (Err e, s1) \<Rightarrow> (Err e, s1)
           | (Panic, s1) \<Rightarrow> (Panic, s1)
           | (Ok row, s1) \<Rightarrow>
               (case update_tx (sh_db env) (es_Name old) row (sv_db s1) of
                  (Err e, d) \<Rightarrow> (Err e, s1)
                | (Panic, d) \<Rightarrow> (Panic, s1)
                | (Ok _, d) \<Rightarrow>
                    let s2 = set_db d s1 in
                    (case sd_First (sh_db env) (es_Name row) d of
                       Ok (Some new) \<Rightarrow> emit_share EvUpdate (show_share env new s2)
                     | Ok None \<Rightarrow> (Err (E ErrorOther (''failed to load updated share '' @ es_Name row)), s2)
                     | Err e \<Rightarrow> (Err e, s2)
                     | Panic \<Rightarrow> (Panic, s2)))))"

definition CreateShare ::
  "('d, 'o, 'v) share_env \<Rightarrow> shared_resource \<Rightarrow> ('d, 'o, 'v) share_state
   \<Rightarrow> shared_resource res \<times> ('d, 'o, 'v) share_state" where
  "CreateShare env share s =
     (case sd_Restore (sh_db env) (sr_Name share) (sv_db s) of
        (Err e, d) \<Rightarrow> (Err e, set_db d s)
      | (Panic, d) \<Rightarrow> (Panic, set_db d s)
      | (Ok check, d) \<Rightarrow>
          let s0 = set_db d s in
          if check > 0 then UpdateShare env (sr_Name share) share s0
          else
            (case with_users env (SharedResourceToExportedShare share zero_share_row) s0 of
               (Err e, s1) \<Rightarrow> (Err e, s1)
             | (Panic, s1) \<Rightarrow> (Panic, s1)
             | (Ok row, s1) \<Rightarrow>
                 (case sd_Create (sh_db env) row (sv_db s1) of
                    (Err e, d1) \<Rightarrow> (Err e, set_db d1 s1)
                  | (Panic, d1) \<Rightarrow> (Panic, set_db d1 s1)
                  | (Ok _, d1) \<Rightarrow> emit_share EvAdd (show_share env row (set_db d1 s1)))))"

definition DeleteShare ::
  "('d, 'o, 'v) share_env \<Rightarrow> string \<Rightarrow> ('d, 'o, 'v) share_state \<Rightarrow> unit res \<times> ('d, 'o, 'v) share_state" where
  "DeleteShare env name s =
     (case emit_share EvRemove (GetShare env name s) of
        (Err e, s1) \<Rightarrow> (Err e, s1)
      | (Panic, s1) \<Rightarrow> (Panic, s1)
      | (Ok _, s1) \<Rightarrow>
          (case and_then (row_exists (sd_First (sh_db env) name (sv_db s1)), sv_db s1) (\<lambda>d1.
                and_then (sd_ClearUsers (sh_db env) name d1) (\<lambda>d2.
                and_then (sd_ClearRoUsers (sh_db env) name d2) (\<lambda>d3.
                sd_Delete (sh_db env) name d3))) of
             (r, d) \<Rightarrow> (r, set_db d s1)))"

definition is_ha_usage :: "HAMountUsage \<Rightarrow> bool" where
  "is_ha_usage u = (u \<in> {UsageAsMedia, UsageAsBackup, UsageAsShare})"

definition SetShareFromPathEnabled ::
  "('d, 'o, 'v) share_env \<Rightarrow> string \<Rightarrow> bool \<Rightarrow> ('d, 'o, 'v) share_state
   \<Rightarrow> shared_resource res \<times> ('d, 'o, 'v) share_state" where
  "SetShareFromPathEnabled env path on s =
     (case sd_FirstByPath (sh_db env) path (sv_db s) of
        Ok None \<Rightarrow> (share_not_found, s)
      | Err e \<Rightarrow> (Err e, s)
      | Panic \<Rightarrow> (Panic, s)
      | Ok (Some share) \<Rightarrow>
          if es_Disabled share = Some (\<not> on) then ExportedShareToSharedResource env share s
          else
            let row = share\<lparr>es_Disabled := Some (\<not> on)\<rparr> in
            (case sd_Save (sh_db env) row (sv_db s) of
               (Err e, d) \<Rightarrow> (Err e, set_db d s)
             | (Panic, d) \<Rightarrow> (Panic, set_db d s)
             | (Ok _, d) \<Rightarrow>
                 let s1 = set_db d s;
                     s2 = (if \<not> on \<and> is_ha_usage (es_Usage row)
                           then s1\<lparr>sv_out := snd (sh_NetworkUnmountShare env (es_Name row) (sv_out s1))\<rparr> else s1)
                 in emit_share EvUpdate (ExportedShareToSharedResource env row s2)))"

definition setShareEnabled ::
  "('d, 'o, 'v) share_env \<Rightarrow> string \<Rightarrow> bool \<Rightarrow> ('d, 'o, 'v) share_state
   \<Rightarrow> shared_resource res \<times> ('d, 'o, 'v) share_state" where
  "setShareEnabled env name on s =
     (case sd_First (sh_db env) name (sv_db s) of
        Ok None \<Rightarrow> (share_not_found, s)
      | Err e \<Rightarrow> (Err e, s)
      | Panic \<Rightarrow> (Panic, s)
      | Ok (Some share) \<Rightarrow>
          let row = share\<lparr>es_Disabled := Some (\<not> on)\<rparr> in
          (case sd_Save (sh_db env) row (sv_db s) of
             (Err e, d) \<Rightarrow> (Err e, set_db d s)
           | (Panic, d) \<Rightarrow> (Panic, set_db d s)
           | (Ok _, d) \<Rightarrow> emit_share EvUpdate (ExportedShareToSharedResource env row (set_db d s))))"

definition DisableShare ::
  "('d, 'o, 'v) share_env \<Rightarrow> string \<Rightarrow> ('d, 'o, 'v) share_state \<Rightarrow> shared_resource res \<times> ('d, 'o, 'v) share_state" where
  "DisableShare env name s = setShareEnabled env name False s"

definition EnableShare ::
  "('d, 'o, 'v) share_env \<Rightarrow> string \<Rightarrow> ('d, 'o, 'v) share_state \<Rightarrow> shared_resource res \<times> ('d, 'o, 'v) share_state" where
  "EnableShare env name s = setShareEnabled env name True s"

section \<open>Internal shares\<close>

definition internalShares :: "(string, string) gomap" where
  "internalShares =
     [(''/config'', ''config''), (''/addons'', ''addons''), (''/ssl'', ''ssl''), (''/share'', ''share''),
      (''/backup'', ''backup''), (''/media'', ''media''), (''/addon_configs'', ''addon_configs'')]"

definition ensureInternalShare ::
  "('d, 'o, 'v) share_env \<Rightarrow> string \<Rightarrow> mount_point option \<Rightarrow> ('d, 'o, 'v) share_state
   \<Rightarrow> unit res \<times> ('d, 'o, 'v) share_state" where
  "ensureInternalShare env path mountPoint s =
     (case map_of internalShares path of
        None \<Rightarrow> (Ok (), s)
      | Some name \<Rightarrow>
          (case GetShareFromPath env path s of
             (Ok _, s1) \<Rightarrow> (Ok (), s1)
           | (Panic, s1) \<Rightarrow> (Panic, s1)
           | (Err e, s1) \<Rightarrow>
               if err_kind e \<noteq> ErrorShareNotFound then (Err e, s1)
               else
                 let md = (case mountPoint of
                       Some m \<Rightarrow> m
                     | None \<Rightarrow> zero_mount_point\<lparr>mp_Path := path, mp_Type := ''ADDON'',
                                 mp_DeviceId := ''internal:'' @ name, mp_IsMounted := True\<rparr>)
                 in (case GetAdmin (sh_users env) (sv_user s1) of
                       (Err e', u) \<Rightarrow> (Err e', s1\<lparr>sv_user := u\<rparr>)
                     | (Panic, u) \<Rightarrow> (Panic, s1\<lparr>sv_user := u\<rparr>)
                     | (Ok admin, u) \<Rightarrow>
                         (case CreateShare env (zero_share\<lparr>sr_Name := name, sr_Usage := UsageAsInternal,
                                 sr_MountPointData := Some md, sr_Users := [admin]\<rparr>) (s1\<lparr>sv_user := u\<rparr>) of
                            (r, s2) \<Rightarrow> (map_res (\<lambda>_. ()) r, s2)))))"

fun ensure_all ::
  "('d, 'o, 'v) share_env \<Rightarrow> string list \<Rightarrow> ('d, 'o, 'v) share_state \<Rightarrow> unit res \<times> ('d, 'o, 'v) share_state" where
  "ensure_all env [] s = (Ok (), s)"
| "ensure_all env (p # ps) s =
     (case ensureInternalShare env p None s of
        (Ok _, s1) \<Rightarrow> ensure_all env ps s1
      | (r, s1) \<Rightarrow> (r, s1))"

definition share_OnStart ::
  "('d, 'o, 'v) share_env \<Rightarrow> ('d, 'o, 'v) share_state \<Rightarrow> unit res \<times> ('d, 'o, 'v) share_state" where
  "share_OnStart env s = (if sh_mock env then (Ok (), s) else ensure_all env (keys internalShares) s)"

text \<open>What the service does when a mount point changes.\<close>

definition on_mount_point ::
  "('d, 'o, 'v) share_env \<Rightarrow> mount_point \<Rightarrow> ('d, 'o, 'v) share_state \<Rightarrow> unit res \<times> ('d, 'o, 'v) share_state" where
  "on_mount_point env md s =
     (case GetShareFromPath env (mp_Path md) s of
        (Err e, s1) \<Rightarrow>
          if err_kind e = ErrorShareNotFound then ensureInternalShare env (mp_Path md) (Some md) s1
          else (Err e, s1)
      | (Panic, s1) \<Rightarrow> (Panic, s1)
      | (Ok sr, s1) \<Rightarrow> (Ok (), snd (emit_share EvUpdate (Ok sr, s1))))"

end
