(* ===== verification/Samba_Config.thy ===== *)
theory Samba_Config
  imports Share_Service Volume "HOL-Library.Char_ord" "HOL-Library.List_Lexorder"
begin

text \<open>
  The configuration that Samba is given (\<open>config/addon_json_config.go\<close>,
  \<open>converter/config_to_dbom_conv.go\<close> and its generated part, \<open>tempio/template.go\<close> and the
  functions of \<open>service/server_process_service.go\<close> that compute text): the settings, the users and
  the shares are put together in one record, from which a template is rendered.

  The library that fills in the defaults of the structure tags and the one that renders
  \<open>templates/smb.gtpl\<close> are parameters. Network addresses are lists of bytes, as \<open>net.IP\<close> is.
\<close>

section \<open>Data\<close>

record config_share =
  cs_Name :: string
  cs_Path :: string
  cs_FS :: string
  cs_Disabled :: bool
  cs_Users :: "string list"
  cs_RoUsers :: "string list"
  cs_TimeMachine :: bool
  cs_RecycleBin :: "bool option"
  cs_GuestOk :: "bool option"
  cs_TimeMachineMaxSize :: "string option"
  cs_Usage :: string
  cs_VetoFiles :: "string list"

definition zero_config_share :: config_share where
  "zero_config_share = \<lparr>cs_Name = [], cs_Path = [], cs_FS = [], cs_Disabled = False, cs_Users = [],
     cs_RoUsers = [], cs_TimeMachine = False, cs_RecycleBin = None, cs_GuestOk = None,
     cs_TimeMachineMaxSize = None, cs_Usage = [], cs_VetoFiles = []\<rparr>"

record options_acl =
  oa_Share :: string
  oa_Disabled :: bool
  oa_Users :: "string list"
  oa_RoUsers :: "string list"
  oa_TimeMachine :: bool
  oa_Usage :: string

record config_user =
  cu_Username :: string

record config =
  cf_CurrentFile :: string
  cf_ConfigSpecVersion :: int
  cf_Hostname :: string
  cf_Workgroup :: string
  cf_LocalMaster :: bool
  cf_Username :: string
  cf_Automount :: bool
  cf_Moredisks :: "string list option"
  cf_Mountoptions :: "string list option"
  cf_AvailableDiskLog :: bool
  cf_Medialibrary_Enable :: bool
  cf_Medialibrary_SSHKEY :: string
  cf_AllowHost :: "string list option"
  cf_VetoFiles :: "string list option"
  cf_CompatibilityMode :: bool
  cf_HDDIdle :: int
  cf_Smart :: bool
  cf_DisableSmart :: "bool option"
  cf_SmartMode :: string
  cf_DisableDiscovery :: bool
  cf_DisablePersistent :: bool
  cf_DisableAutoremove :: bool
  cf_OtherUsers :: "config_user list"
  cf_ACL :: "options_acl list"
  cf_Interfaces :: "string list option"
  cf_BindAllInterfaces :: bool
  cf_LogLevel :: string
  cf_MOF :: int
  cf_MultiChannel :: bool
  cf_AllowGuest :: bool
  cf_Shares :: "(string, config_share) gomap option"
  cf_DockerInterface :: string
  cf_DockerNet :: string
  cf_UpdateChannel :: string
  cf_TelemetryMode :: string
  cf_HAUseNFS :: "bool option"
  cf_ExportStatsToHA :: bool
  cf_SMBoverQUIC :: bool
  cf_MDNSRegistration :: bool

definition zero_config :: config where
  "zero_config = \<lparr>cf_CurrentFile = [], cf_ConfigSpecVersion = 0, cf_Hostname = [], cf_Workgroup = [],
     cf_LocalMaster = False, cf_Username = [], cf_Automount = False, cf_Moredisks = None,
     cf_Mountoptions = None, cf_AvailableDiskLog = False, cf_Medialibrary_Enable = False,
     cf_Medialibrary_SSHKEY = [], cf_AllowHost = None, cf_VetoFiles = None,
     cf_CompatibilityMode = False, cf_HDDIdle = 0, cf_Smart = False, cf_DisableSmart = None,
     cf_SmartMode = [], cf_DisableDiscovery = False, cf_DisablePersistent = False,
     cf_DisableAutoremove = False, cf_OtherUsers = [], cf_ACL = [], cf_Interfaces = None,
     cf_BindAllInterfaces = False, cf_LogLevel = [], cf_MOF = 0, cf_MultiChannel = False,
     cf_AllowGuest = False, cf_Shares = None, cf_DockerInterface = [], cf_DockerNet = [],
     cf_UpdateChannel = [], cf_TelemetryMode = [], cf_HAUseNFS = None, cf_ExportStatsToHA = False,
     cf_SMBoverQUIC = False, cf_MDNSRegistration = False\<rparr>"

section \<open>Settings in memory\<close>

text \<open>
  The value of a property that was not read from the table: the field of the settings as it is in
  memory, for an enumeration its database value and for the secret its content.
\<close>

datatype live_value =
    LStr string | LBool bool | LBoolPtr "bool option" | LStrs "string list option"

definition live_values :: "settings \<Rightarrow> (string, live_value) gomap" where
  "live_values s =
     [(''Hostname'', LStr (sg_Hostname s)),
      (''Workgroup'', LStr (sg_Workgroup s)),
      (''AllowHost'', LStrs (sg_AllowHost s)),
      (''CompatibilityMode'', LBool (sg_CompatibilityMode s)),
      (''Interfaces'', LStrs (sg_Interfaces s)),
      (''BindAllInterfaces'', LBool (sg_BindAllInterfaces s)),
      (''MultiChannel'', LBool (sg_MultiChannel s)),
      (''AllowGuest'', LBoolPtr (sg_AllowGuest s)),
      (''TelemetryMode'', LStr (m_Value TelemetryMode_methods (sg_TelemetryMode s))),
      (''LocalMaster'', LBoolPtr (sg_LocalMaster s)),
      (''ExportStatsToHA'', LBoolPtr (sg_ExportStatsToHA s)),
      (''HAUseNFS'', LBoolPtr (sg_HAUseNFS s)),
      (''HASmbPassword'', LStr (sg_HASmbPassword s)),
      (''SMBoverQUIC'', LBoolPtr (sg_SMBoverQUIC s)),
      (''SmartMode'', LStr (m_Value SmartMode_methods (sg_SmartMode s))),
      (''ExperimentalLabMode'', LBool (sg_ExperimentalLabMode s)),
      (''MDNSRegistration'', LBoolPtr (sg_MDNSRegistration s))]"

section \<open>Properties to configuration\<close>

definition config_mismatch :: "string \<Rightarrow> 'a res" where
  "config_mismatch key = Err (E ErrorOther (''P->C Type mismatch for field: '' @ key))"

text \<open>Words that count as true in a string that is put in a Boolean field.\<close>

definition truth_word :: "string \<Rightarrow> string \<Rightarrow> bool" where
  "truth_word key s =
     (ToLower s \<in> {''true'', ''t'', ''yes'', ''y'', ''on'', ''enabled'', ''1''} \<or> EqualFold s key)"

definition to_string_field :: "string \<Rightarrow> live_value \<Rightarrow> string res" where
  "to_string_field key v =
     (case v of LStr s \<Rightarrow> Ok s | LBoolPtr None \<Rightarrow> Ok [] | _ \<Rightarrow> config_mismatch key)"

definition to_bool_field :: "string \<Rightarrow> live_value \<Rightarrow> bool res" where
  "to_bool_field key v =
     (case v of LBool b \<Rightarrow> Ok b | LBoolPtr None \<Rightarrow> Ok False | LBoolPtr (Some b) \<Rightarrow> Ok b
      | LStr s \<Rightarrow> Ok (truth_word key s) | LStrs _ \<Rightarrow> config_mismatch key)"

definition to_ptr_field :: "string \<Rightarrow> live_value \<Rightarrow> bool option res" where
  "to_ptr_field key v =
     (case v of LBoolPtr p \<Rightarrow> Ok p | LBool b \<Rightarrow> Ok (Some b) | _ \<Rightarrow> config_mismatch key)"

text \<open>Anything but a list of strings fails the type assertion on the way to a slice.\<close>

definition to_list_field :: "live_value \<Rightarrow> string list option res" where
  "to_list_field v = (case v of LStrs xs \<Rightarrow> Ok xs | LBoolPtr None \<Rightarrow> Ok None | _ \<Rightarrow> Panic)"

text \<open>
  The fields of the configuration that are called like a field of the settings; a property of
  another name is passed over.
\<close>

definition set_config :: "string \<Rightarrow> live_value \<Rightarrow> config \<Rightarrow> config res" where
  "set_config key v c =
     (if key = ''Hostname'' then map_res (\<lambda>x. c\<lparr>cf_Hostname := x\<rparr>) (to_string_field key v)
      else if key = ''Workgroup'' then map_res (\<lambda>x. c\<lparr>cf_Workgroup := x\<rparr>) (to_string_field key v)
      else if key = ''AllowHost'' then map_res (\<lambda>x. c\<lparr>cf_AllowHost := x\<rparr>) (to_list_field v)
      else if key = ''CompatibilityMode'' then
        map_res (\<lambda>x. c\<lparr>cf_CompatibilityMode := x\<rparr>) (to_bool_field key v)
      else if key = ''Interfaces'' then map_res (\<lambda>x. c\<lparr>cf_Interfaces := x\<rparr>) (to_list_field v)
      else if key = ''BindAllInterfaces'' then
        map_res (\<lambda>x. c\<lparr>cf_BindAllInterfaces := x\<rparr>) (to_bool_field key v)
      else if key = ''MultiChannel'' then map_res (\<lambda>x. c\<lparr>cf_MultiChannel := x\<rparr>) (to_bool_field key v)
      else if key = ''AllowGuest'' then map_res (\<lambda>x. c\<lparr>cf_AllowGuest := x\<rparr>) (to_bool_field key v)
      else if key = ''TelemetryMode'' then
        map_res (\<lambda>x. c\<lparr>cf_TelemetryMode := x\<rparr>) (to_string_field key v)
      else if key = ''LocalMaster'' then map_res (\<lambda>x. c\<lparr>cf_LocalMaster := x\<rparr>) (to_bool_field key v)
      else if key = ''ExportStatsToHA'' then
        map_res (\<lambda>x. c\<lparr>cf_ExportStatsToHA := x\<rparr>) (to_bool_field key v)
      else if key = ''HAUseNFS'' then map_res (\<lambda>x. c\<lparr>cf_HAUseNFS := x\<rparr>) (to_ptr_field key v)
      else if key = ''SMBoverQUIC'' then map_res (\<lambda>x. c\<lparr>cf_SMBoverQUIC := x\<rparr>) (to_bool_field key v)
      else if key = ''SmartMode'' then map_res (\<lambda>x. c\<lparr>cf_SmartMode := x\<rparr>) (to_string_field key v)
      else if key = ''MDNSRegistration'' then
        map_res (\<lambda>x. c\<lparr>cf_MDNSRegistration := x\<rparr>) (to_bool_field key v)
      else Ok c)"

fun PropertiesToConfig :: "(string, live_value) gomap \<Rightarrow> config \<Rightarrow> config res" where
  "PropertiesToConfig [] c = Ok c"
| "PropertiesToConfig ((k, v) # ps) c =
     (case set_config k v c of
        Ok c1 \<Rightarrow> PropertiesToConfig ps c1
      | Err e \<Rightarrow> Err e
      | Panic \<Rightarrow> Panic)"

section \<open>Users and shares\<close>

definition usage_string :: "HAMountUsage \<Rightarrow> string" where
  "usage_string u = (case u of UsageAsNone \<Rightarrow> ''none'' | UsageAsBackup \<Rightarrow> ''backup''
     | UsageAsMedia \<Rightarrow> ''media'' | UsageAsShare \<Rightarrow> ''share'' | UsageAsInternal \<Rightarrow> ''internal''
     | UsageOther s \<Rightarrow> s)"

definition userToSambaUser :: "user \<Rightarrow> samba_row" where
  "userToSambaUser source =
     \<lparr>su_Username = u_Username source, su_Password = str_or_empty (u_Password source),
      su_IsAdmin = u_IsAdmin source, su_RwShares = u_RwShares source, su_RoShares = u_RoShares source\<rparr>"

definition UsersToSambaUsers :: "user list \<Rightarrow> samba_row list" where
  "UsersToSambaUsers source = map userToSambaUser source"

definition or_zero :: "bool \<Rightarrow> bool option \<Rightarrow> bool option" where
  "or_zero b old = (if b then Some b else old)"

definition ExportedShareToShare :: "share_row \<Rightarrow> config_share \<Rightarrow> config_share" where
  "ExportedShareToShare source target = target
     \<lparr>cs_Name := (if es_Name source \<noteq> [] then es_Name source else cs_Name target),
      cs_Path := (if r_Path (es_MountPointData source) \<noteq> [] then r_Path (es_MountPointData source)
                  else cs_Path target),
      cs_FS := (if r_FSType (es_MountPointData source) \<noteq> [] then r_FSType (es_MountPointData source)
                else cs_FS target),
      cs_Disabled := or_keep (es_Disabled source) (cs_Disabled target),
      cs_Users := map su_Username (es_Users source),
      cs_RoUsers := map su_Username (es_RoUsers source),
      cs_TimeMachine := (es_TimeMachine source \<or> cs_TimeMachine target),
      cs_RecycleBin := or_zero (es_RecycleBin source) (cs_RecycleBin target),
      cs_GuestOk := or_zero (es_GuestOk source) (cs_GuestOk target),
      cs_TimeMachineMaxSize := (if es_TimeMachineMaxSize source \<noteq> [] then Some (es_TimeMachineMaxSize source)
                                else cs_TimeMachineMaxSize target),
      cs_Usage := (if es_Usage source \<noteq> UsageOther [] then usage_string (es_Usage source) else cs_Usage target),
      cs_VetoFiles := es_VetoFiles source\<rparr>"

definition add_user :: "samba_row \<Rightarrow> config \<Rightarrow> config" where
  "add_user u c =
     (if su_IsAdmin u then c\<lparr>cf_Username := su_Username u\<rparr>
      else c\<lparr>cf_OtherUsers := cf_OtherUsers c @ [\<lparr>cu_Username = su_Username u\<rparr>]\<rparr>)"

definition add_share :: "share_row \<Rightarrow> (string, config_share) gomap \<Rightarrow> (string, config_share) gomap" where
  "add_share row m = AList.update (es_Name row) (ExportedShareToShare row zero_config_share) m"

definition DbomObjectsToConfig ::
  "(string, live_value) gomap \<Rightarrow> samba_row list \<Rightarrow> share_row list \<Rightarrow> config \<Rightarrow> config res" where
  "DbomObjectsToConfig props users shares c =
     map_res (\<lambda>c1. let c2 = fold add_user users c1;
                       m = (case cf_Shares c2 of None \<Rightarrow> [] | Some m \<Rightarrow> m)
                   in c2\<lparr>cf_Shares := Some (fold add_share shares m)\<rparr>)
       (PropertiesToConfig props c)"

text \<open>The shares that are left out of the configuration.\<close>

definition share_active :: "shared_resource \<Rightarrow> bool" where
  "share_active share \<longleftrightarrow>
     sr_Disabled share \<noteq> Some True
     \<and> (case sr_Status share of Some st \<Rightarrow> ss_IsValid st | None \<Rightarrow> True)
     \<and> (case sr_MountPointData share of Some md \<Rightarrow> \<not> mp_IsInvalid md | None \<Rightarrow> True)"

definition with_media :: "config \<Rightarrow> config" where
  "with_media c =
     (if \<exists>s \<in> set (case cf_Shares c of None \<Rightarrow> [] | Some m \<Rightarrow> map snd m). cs_Usage s = ''media''
      then c\<lparr>cf_Medialibrary_Enable := True\<rparr> else c)"

definition jSONFromDatabase ::
  "('d, 'o, 'v) share_env \<Rightarrow> (config \<Rightarrow> config) \<Rightarrow> ('d, 'o, 'v) share_state
   \<Rightarrow> config res \<times> ('d, 'o, 'v) share_state" where
  "jSONFromDatabase env setDefaults s =
     (case Load (ue_settings (sh_users env)) (sv_db s) of
        (_, Err e) \<Rightarrow> (Err e, s)
      | (_, Panic) \<Rightarrow> (Panic, s)
      | (settings, Ok _) \<Rightarrow>
          (case ListUsers (sh_users env) (sv_user s) of
             (Err e, u) \<Rightarrow> (Err e, s\<lparr>sv_user := u\<rparr>)
           | (Panic, u) \<Rightarrow> (Panic, s\<lparr>sv_user := u\<rparr>)
           | (Ok users, u) \<Rightarrow>
               (case ListShares env (s\<lparr>sv_user := u\<rparr>) of
                  (Err e, s1) \<Rightarrow> (Err e, s1)
                | (Panic, s1) \<Rightarrow> (Panic, s1)
                | (Ok sr, s1) \<Rightarrow>
                    let rows = map (\<lambda>x. SharedResourceToExportedShare x zero_share_row) (filter share_active sr)
                    in (map_res with_media
                          (DbomObjectsToConfig (live_values settings) (UsersToSambaUsers users) rows
                             (setDefaults zero_config)), s1))))"

section \<open>Network addresses\<close>

type_synonym ip = "nat list"

definition v4_in_v6 :: ip where
  "v4_in_v6 = replicate 10 0 @ [255, 255]"

definition To4 :: "ip \<Rightarrow> ip option" where
  "To4 a = (if length a = 4 then Some a
            else if length a = 16 \<and> take 12 a = v4_in_v6 then Some (drop 12 a) else None)"

definition IsLinkLocalUnicast :: "ip \<Rightarrow> bool" where
  "IsLinkLocalUnicast a =
     (case To4 a of
        Some b \<Rightarrow> b ! 0 = 169 \<and> b ! 1 = 254
      | None \<Rightarrow> length a = 16 \<and> a ! 0 = 254 \<and> a ! 1 div 64 = 2)"

fun decimal :: "nat \<Rightarrow> string" where
  "decimal n = (if n < 10 then [char_of (48 + n)] else decimal (n div 10) @ [char_of (48 + n mod 10)])"

declare decimal.simps [simp del]

definition ip_String :: "ip \<Rightarrow> string" where
  "ip_String b = Join (map decimal b) ''.''"

text \<open>
  The addresses of an interface: an address may hold no IP. The names that cannot be resolved are
  passed over.
\<close>

record net_env =
  ne_addrs :: "string \<Rightarrow> ip option list res"

definition usable :: "ip option \<Rightarrow> string option" where
  "usable addr =
     (case addr of
        None \<Rightarrow> None
      | Some a \<Rightarrow> if IsLinkLocalUnicast a then None
                  else (case To4 a of None \<Rightarrow> None | Some b \<Rightarrow> Some (ip_String b)))"

definition add_ip :: "ip option \<Rightarrow> string list \<Rightarrow> string list" where
  "add_ip addr ips =
     (case usable addr of
        None \<Rightarrow> ips
      | Some t \<Rightarrow> if t \<in> set ips then ips else ips @ [t])"

definition add_interface :: "net_env \<Rightarrow> string \<Rightarrow> string list \<Rightarrow> string list" where
  "add_interface ne name ips =
     (case ne_addrs ne name of Ok addrs \<Rightarrow> fold add_ip addrs ips | _ \<Rightarrow> ips)"

definition ResolveInterfaceIPv4s :: "net_env \<Rightarrow> string list \<Rightarrow> string list" where
  "ResolveInterfaceIPv4s ne names = fold (add_interface ne) names []"

section \<open>Functions of the template\<close>

definition versionAtLeast :: "string \<Rightarrow> int \<Rightarrow> int \<Rightarrow> bool" where
  "versionAtLeast v majorRequired minorRequired =
     (if v = [] then False
      else let parts = Split v CHR ''.'' in
        if length parts < 2 then False
        else (case (Atoi (parts ! 0), Atoi (parts ! 1)) of
                (Some major, Some minor) \<Rightarrow>
                  major > majorRequired \<or> (major = majorRequired \<and> minor \<ge> minorRequired)
              | _ \<Rightarrow> False))"

definition versionBetween :: "string \<Rightarrow> int \<Rightarrow> int \<Rightarrow> int \<Rightarrow> int \<Rightarrow> bool" where
  "versionBetween v minMajor minMinor maxMajor maxMinor =
     ((versionAtLeast v minMajor minMinor \<and> \<not> versionAtLeast v (wrap64 (maxMajor + 1)) 0)
      \<or> (versionAtLeast v maxMajor 0 \<and> \<not> versionAtLeast v maxMajor (wrap64 (maxMinor + 1))))"

definition printable :: "char \<Rightarrow> bool" where
  "printable c = (let n = of_char c :: nat in 32 \<le> n \<and> n \<le> 126)"

definition cleanAscii :: "string \<Rightarrow> string" where
  "cleanAscii s = filter printable s"

section \<open>The map of user names\<close>

definition add_alias :: "user \<Rightarrow> (string, string list) gomap \<Rightarrow> (string, string list) gomap" where
  "add_alias u m =
     (let n = NormalizeUsernameForUnixSamba (u_Username u) in
      if n = [] \<or> n = u_Username u then m
      else AList.update n ((case map_of m n of None \<Rightarrow> [] | Some l \<Rightarrow> l) @ [u_Username u]) m)"

definition users_map :: "user list \<Rightarrow> (string \<times> string list) list" where
  "users_map users =
     (let m = fold add_alias users [] in
      map (\<lambda>k. (k, sort (case map_of m k of None \<Rightarrow> [] | Some l \<Rightarrow> l))) (sort (keys m)))"

text \<open>\<open>templates/smbusers.gtpl\<close>.\<close>

definition render_mapping :: "string \<times> string list \<Rightarrow> string" where
  "render_mapping p =
     [newline] @ fst p @ '' ='' @ concat (map (\<lambda>a. '' '' @ [quote] @ a @ [quote]) (snd p))"

definition render_users_map :: "(string \<times> string list) list \<Rightarrow> string" where
  "render_users_map ms =
     ''# Samba username mappings generated by SRAT'' @ [newline]
     @ ''# Only usernames requiring Unix normalization are listed.'' @ concat (map render_mapping ms)"

definition CreateSambaUsersMapStream ::
  "('d, 'o) user_env \<Rightarrow> ('d, 'o) user_state \<Rightarrow> string res \<times> ('d, 'o) user_state" where
  "CreateSambaUsersMapStream env s =
     (case ListUsers env s of (r, s1) \<Rightarrow> (map_res (\<lambda>us. render_users_map (users_map us)) r, s1))"

section \<open>The exports of NFS\<close>

definition nfs_header :: "string \<Rightarrow> string" where
  "nfs_header hostname =
     ''# NFS exports generated by SRAT'' @ [newline]
     @ ''# Do not edit this file manually - changes will be overwritten'' @ [newline, newline]
     @ ''/mnt '' @ hostname @ ''(ro,sync,no_subtree_check,no_root_squash,fsid=0)'' @ [newline]"

definition nfs_share :: "DiskMap \<Rightarrow> shared_resource \<Rightarrow> string option" where
  "nfs_share disks share =
     (if \<not> share_active share then None
      else case sr_MountPointData share of
             None \<Rightarrow> None
           | Some md \<Rightarrow>
               if usage_string (sr_Usage share) \<notin> {''media'', ''share'', ''backup''} then None
               else if mp_Path md = [] then None
               else
                 let share1 = (if mp_Partition md = None then enrichSharePartitionFromCache share disks else share)
                 in if isShareNFSExportable share1 then Some (mp_Path md) else None)"

definition nfs_line :: "string \<Rightarrow> string \<Rightarrow> string" where
  "nfs_line hostname path =
     path @ '' '' @ hostname @ ''(rw,sync,no_subtree_check,no_root_squash)'' @ [newline]"

definition nfs_exports :: "DiskMap \<Rightarrow> string \<Rightarrow> shared_resource list \<Rightarrow> string" where
  "nfs_exports disks hostname shares =
     nfs_header hostname @ concat (map (nfs_line hostname) (List.map_filter (nfs_share disks) shares))"

end
