(* ===== verification/Server_Process.thy ===== *)
theory Server_Process
  imports Samba_Config Dirty_Data Command_Exec
begin

text \<open>
  The server process service (\<open>service/server_process_service.go\<close>, with \<open>service/host_service.go\<close>):
  it writes the configuration of Samba and NFS, has it tested, and restarts, reloads or starts the
  processes that serve the shares.

  The file system, the process table and the command executor are part of the outside world of the
  volume service; the environment says what a call answers and how it changes that world. What the
  service does to the world is kept in a log. A \<open>range\<close> loop over \<open>serviceConfigMap\<close> visits the
  entries in the order of the association list. Time limits of commands are part of the answer of
  the executor. A \<open>log.Fatal\<close> ends the program, which is the outcome of a panic.
\<close>

section \<open>Data\<close>

record context_state =
  ct_AddonIpAddress :: string
  ct_ProtectedMode :: bool
  ct_HACoreReady :: bool
  ct_DisableIPv6 :: bool
  ct_SambaConfigFile :: string
  ct_Template :: string
  ct_DockerInterface :: string
  ct_DockerNet :: string
  ct_SupervisorURL :: string

record serviceConfig =
  sc_SoftResetServiceMask :: tracker
  sc_HardResetServiceMask :: tracker
  sc_Managed :: bool
  sc_StartCommand :: "string list"
  sc_SoftResetCommand :: "string list"
  sc_HardResetCommand :: "string list"
  sc_StopCommand :: "string list"

definition mask :: "bool \<Rightarrow> bool \<Rightarrow> bool \<Rightarrow> tracker" where
  "mask users settings shares =
     \<lparr>dt_Shares = shares, dt_Users = users, dt_Settings = settings, dt_AppConfig = False\<rparr>"

definition serviceConfigMap :: "(string, serviceConfig) gomap" where
  "serviceConfigMap =
     [(''smbd'', \<lparr>sc_SoftResetServiceMask = mask True False True, sc_HardResetServiceMask = mask False True False,
         sc_Managed = True,
         sc_StartCommand = [''s6-svc'', ''-uwU'', ''/run/s6-rc/servicedirs/smbd''],
         sc_SoftResetCommand = [''smbcontrol'', ''smbd'', ''reload-config''],
         sc_HardResetCommand = [''s6-svc'', ''-rwR'', ''/run/s6-rc/servicedirs/smbd''],
         sc_StopCommand = [''s6-svc'', ''-dwd'', ''/run/s6-rc/servicedirs/smbd'']\<rparr>),
      (''nmbd'', \<lparr>sc_SoftResetServiceMask = mask True False True, sc_HardResetServiceMask = mask False True False,
         sc_Managed = True,
         sc_StartCommand = [''s6-svc'', ''-uwU'', ''/run/s6-rc/servicedirs/nmbd''],
         sc_SoftResetCommand = [''smbcontrol'', ''nmbd'', ''reload-config''],
         sc_HardResetCommand = [''s6-svc'', ''-rwR'', ''/run/s6-rc/servicedirs/nmbd''],
         sc_StopCommand = [''s6-svc'', ''-dwd'', ''/run/s6-rc/servicedirs/nmbd'']\<rparr>),
      (''wsddn'', \<lparr>sc_SoftResetServiceMask = mask False False False, sc_HardResetServiceMask = mask False True False,
         sc_Managed = True,
         sc_StartCommand = [''s6-svc'', ''-u'', ''/run/s6-rc/servicedirs/wsddn''],
         sc_SoftResetCommand = [''s6-svc'', ''-r'', ''/run/s6-rc/servicedirs/wsddn''],
         sc_HardResetCommand = [''s6-svc'', ''-r'', ''/run/s6-rc/servicedirs/wsddn''],
         sc_StopCommand = [''s6-svc'', ''-d'', ''/run/s6-rc/servicedirs/wsddn'']\<rparr>),
      (''nfsd'', \<lparr>sc_SoftResetServiceMask = mask False False True, sc_HardResetServiceMask = mask False True False,
         sc_Managed = False,
         sc_StartCommand = [''s6-svc'', ''-uwu'', ''/run/s6-rc/servicedirs/nfsd''],
         sc_SoftResetCommand = [''exportfs'', ''-rav''],
         sc_HardResetCommand = [''s6-svc'', ''-rwr'', ''/run/s6-rc/servicedirs/nfsd''],
         sc_StopCommand = [''s6-svc'', ''-dwd'', ''/run/s6-rc/servicedirs/nfsd'']\<rparr>),
      (''srat-server'', \<lparr>sc_SoftResetServiceMask = mask False False False,
         sc_HardResetServiceMask = mask False False False,
         sc_Managed = False,
         sc_StartCommand = [''s6-svc'', ''-u'', ''/run/s6-rc/servicedirs/srat-server''],
         sc_SoftResetCommand = [''s6-svc'', ''-r'', ''/run/s6-rc/servicedirs/srat-server''],
         sc_HardResetCommand = [''s6-svc'', ''-r'', ''/run/s6-rc/servicedirs/srat-server''],
         sc_StopCommand = [''true'']\<rparr>)]"

definition defaultDirtyMask :: tracker where
  "defaultDirtyMask = \<lparr>dt_Shares = True, dt_Users = True, dt_Settings = True, dt_AppConfig = False\<rparr>"

text \<open>The status of a process; the load figures are rational numbers.\<close>

datatype process_status =
  ProcessStatus (ps_Pid: int) (ps_Name: string) (ps_CreateTime: int) (ps_CPUPercent: rat)
    (ps_MemoryPercent: rat) (ps_OpenFiles: int) (ps_Connections: int) (ps_Status: "string list")
    (ps_IsRunning: bool) (ps_Children: "process_status list")

definition zero_process_status :: process_status where
  "zero_process_status = ProcessStatus 0 [] 0 0 0 0 0 [] False []"

definition with_children :: "process_status list \<Rightarrow> process_status \<Rightarrow> process_status" where
  "with_children cs p = ProcessStatus (ps_Pid p) (ps_Name p) (ps_CreateTime p) (ps_CPUPercent p)
     (ps_MemoryPercent p) (ps_OpenFiles p) (ps_Connections p) (ps_Status p) (ps_IsRunning p) cs"

text \<open>What the process library tells of a process; each question may fail.\<close>

datatype os_process =
  OsProcess (op_Pid: int) (op_Name: "string option") (op_Parent: "string option")
    (op_CreateTime: "int res") (op_CPUPercent: "rat res") (op_MemoryPercent: "rat res")
    (op_OpenFiles: "nat res") (op_Connections: "nat res") (op_Status: "string list res")
    (op_IsRunning: "bool res") (op_Children: "os_process list res")

text \<open>\<open>smbstatus -j\<close>.\<close>

record samba_server_id =
  id_PID :: string
  id_TaskID :: string
  id_VNN :: string
  id_UniqueID :: string

record samba_channel =
  ch_ChannelID :: string
  ch_CreationTime :: int
  ch_LocalAddress :: string
  ch_RemoteAddress :: string
  ch_Transport :: string

record samba_session =
  ses_SessionID :: string
  ses_ServerID :: samba_server_id
  ses_UserID :: "64 word"
  ses_GroupID :: "64 word"
  ses_Username :: string
  ses_Groupname :: string
  ses_CreationTime :: int
  ses_AuthTime :: int
  ses_RemoteMachine :: string
  ses_Hostname :: string
  ses_SessionDialect :: string
  ses_Encryption :: "string \<times> string"
  ses_Signing :: "string \<times> string"
  ses_Channels :: "(string, samba_channel) gomap"

record samba_tcon =
  tc_TconID :: string
  tc_SessionID :: string
  tc_Share :: string
  tc_Device :: string
  tc_Service :: string
  tc_ServerID :: samba_server_id
  tc_Machine :: string
  tc_ConnectedAt :: int
  tc_Encryption :: "string \<times> string"
  tc_Signing :: "string \<times> string"

record SambaStatus =
  sm_Timestamp :: int
  sm_Version :: string
  sm_SmbConf :: string
  sm_Sessions :: "(string, samba_session) gomap"
  sm_Tcons :: "(string, samba_tcon) gomap"

section \<open>State and environment\<close>

datatype server_effect = Wrote string string | Ran "string list" | Announced

datatype file_answer = NoFile | Symlink string | UnreadableLink | OtherFile | LstatFails

record ('d, 'o, 'v) server_env =
  sp_shares :: "('d, 'o, 'v) share_env"
  sp_SetDefaults :: "config \<Rightarrow> config"
  sp_Render :: "config \<Rightarrow> string \<Rightarrow> bool \<Rightarrow> string \<Rightarrow> string res"
  sp_net :: net_env
  sp_disks :: DiskMap
  sp_WriteFile :: "string \<Rightarrow> string \<Rightarrow> 'v \<Rightarrow> err option \<times> 'v"
  sp_MkdirAll :: "string \<Rightarrow> 'v \<Rightarrow> err option \<times> 'v"
  sp_Stat :: "string \<Rightarrow> 'v \<Rightarrow> bool"
  sp_Lstat :: "string \<Rightarrow> 'v \<Rightarrow> file_answer"
  sp_Remove :: "string \<Rightarrow> 'v \<Rightarrow> err option \<times> 'v"
  sp_Symlink :: "string \<Rightarrow> string \<Rightarrow> 'v \<Rightarrow> err option \<times> 'v"
  sp_Execute :: "(string \<Rightarrow> string \<Rightarrow> string list \<Rightarrow> 'v \<Rightarrow> (snapshot \<times> err option) \<times> 'v) option"
  sp_CommandExists :: "string list \<Rightarrow> 'v \<Rightarrow> bool"
  sp_Processes :: "'v \<Rightarrow> os_process list res"
  sp_Pid :: int
  sp_internal :: "(int \<Rightarrow> process_status option) list"
  sp_HostInfo :: "('v \<Rightarrow> string res \<times> 'v) option"
  sp_Unmarshal :: "string \<Rightarrow> SambaStatus res"
  sp_now :: "'v \<Rightarrow> int"

record ('d, 'o, 'v) server_state =
  pv_shares :: "('d, 'o, 'v) share_state"
  pv_context :: "context_state option"
  pv_services :: "(string, serviceConfig) gomap"
  pv_status :: "(string, process_status) gomap"
  pv_hostname :: "(string \<times> int) option"
  pv_samba_status :: "(SambaStatus \<times> int) option"
  pv_log :: "server_effect list"

abbreviation pv_out :: "('d, 'o, 'v) server_state \<Rightarrow> 'v" where
  "pv_out s \<equiv> sv_out (pv_shares s)"

definition set_out :: "'v \<Rightarrow> ('d, 'o, 'v) server_state \<Rightarrow> ('d, 'o, 'v) server_state" where
  "set_out w s = s\<lparr>pv_shares := (pv_shares s)\<lparr>sv_out := w\<rparr>\<rparr>"

definition logged :: "server_effect \<Rightarrow> ('d, 'o, 'v) server_state \<Rightarrow> ('d, 'o, 'v) server_state" where
  "logged e s = s\<lparr>pv_log := pv_log s @ [e]\<rparr>"

definition SetState :: "context_state option \<Rightarrow> ('d, 'o, 'v) server_state \<Rightarrow> ('d, 'o, 'v) server_state" where
  "SetState c s = s\<lparr>pv_context := c\<rparr>"

section \<open>Commands and files\<close>

definition commandOutputFromSnapshot :: "snapshot \<Rightarrow> string" where
  "commandOutputFromSnapshot sn = Join (map ln_text (sn_lines sn)) [newline]"

definition runCommandWithRunner ::
  "('d, 'o, 'v) server_env \<Rightarrow> string \<Rightarrow> string \<Rightarrow> string list \<Rightarrow> ('d, 'o, 'v) server_state
   \<Rightarrow> (string \<times> err option) \<times> ('d, 'o, 'v) server_state" where
  "runCommandWithRunner env commandID label args s =
     (if args = [] then (([], Some (E ErrorOther ''missing command'')), s)
      else case sp_Execute env of
             None \<Rightarrow> (([], Some (E ErrorOther ''command runner is not configured'')), s)
           | Some exec \<Rightarrow>
               (case exec commandID label args (pv_out s) of
                  ((sn, e), w) \<Rightarrow> ((commandOutputFromSnapshot sn, e), logged (Ran args) (set_out w s))))"

definition write_file ::
  "('d, 'o, 'v) server_env \<Rightarrow> string \<Rightarrow> string \<Rightarrow> ('d, 'o, 'v) server_state
   \<Rightarrow> err option \<times> ('d, 'o, 'v) server_state" where
  "write_file env path content s =
     (case sp_WriteFile env path content (pv_out s) of
        (None, w) \<Rightarrow> (None, logged (Wrote path content) (set_out w s))
      | (Some e, w) \<Rightarrow> (Some e, set_out w s))"

section \<open>The status of Samba\<close>

definition minute :: int where
  "minute = 60 * 10 ^ 9"

definition GetSambaStatus ::
  "('d, 'o, 'v) server_env \<Rightarrow> ('d, 'o, 'v) server_state \<Rightarrow> SambaStatus res \<times> ('d, 'o, 'v) server_state" where
  "GetSambaStatus env s =
     (case (case pv_samba_status s of Some (st, till) \<Rightarrow> if sp_now env (pv_out s) \<le> till then Some st else None
              | None \<Rightarrow> None) of
        Some st \<Rightarrow> (Ok st, s)
      | None \<Rightarrow>
          (case runCommandWithRunner env ''samba-status'' ''Samba status'' [''smbstatus'', ''-j''] s of
             ((out, Some e), s1) \<Rightarrow> (Err e, s1)
           | ((out, None), s1) \<Rightarrow>
               let t = TrimSpace out in
               if t = [] then (Err (E ErrorOther ''smbstatus returned empty output''), s1)
               else if hd t \<noteq> CHR ''{'' \<and> hd t \<noteq> CHR ''['' then
                 (Err (E ErrorOther (''smbstatus returned non-JSON output: '' @ t)), s1)
               else (case sp_Unmarshal env out of
                       Ok st \<Rightarrow> (Ok st, s1\<lparr>pv_samba_status := Some (st, sp_now env (pv_out s1) + minute)\<rparr>)
                     | Err e \<Rightarrow> (Err e, s1)
                     | Panic \<Rightarrow> (Panic, s1))))"

section \<open>The files\<close>

definition with_loopback :: "config \<Rightarrow> config" where
  "with_loopback c =
     (let is = (case cf_Interfaces c of None \<Rightarrow> [] | Some l \<Rightarrow> l) in
      if ''lo'' \<in> set is then c else c\<lparr>cf_Interfaces := Some (''lo'' # is)\<rparr>)"

definition with_addresses :: "net_env \<Rightarrow> context_state \<Rightarrow> config \<Rightarrow> config res" where
  "with_addresses ne ctx c =
     (if \<not> ct_DisableIPv6 ctx then Ok c
      else case ResolveInterfaceIPv4s ne [ct_DockerInterface ctx] of
             [] \<Rightarrow> Panic
           | a # _ \<Rightarrow>
               Ok (c\<lparr>cf_Interfaces := Some (ResolveInterfaceIPv4s ne
                       (case cf_Interfaces c of None \<Rightarrow> [] | Some l \<Rightarrow> l)),
                     cf_DockerInterface := a\<rparr>))"

definition CreateSambaConfigStream ::
  "('d, 'o, 'v) server_env \<Rightarrow> ('d, 'o, 'v) server_state \<Rightarrow> string res \<times> ('d, 'o, 'v) server_state" where
  "CreateSambaConfigStream env s =
     (case jSONFromDatabase (sp_shares env) (sp_SetDefaults env) (pv_shares s) of
        (Err e, h) \<Rightarrow> (Err e, s\<lparr>pv_shares := h\<rparr>)
      | (Panic, h) \<Rightarrow> (Panic, s\<lparr>pv_shares := h\<rparr>)
      | (Ok c, h) \<Rightarrow>
          (case pv_context s of
             None \<Rightarrow> (Panic, s\<lparr>pv_shares := h\<rparr>)
           | Some ctx \<Rightarrow>
               let c1 = with_loopback (c\<lparr>cf_DockerInterface := ct_DockerInterface ctx,
                                          cf_DockerNet := ct_DockerNet ctx\<rparr>) in
               (case with_addresses (sp_net env) ctx c1 of
                  Err e \<Rightarrow> (Err e, s\<lparr>pv_shares := h\<rparr>)
                | Panic \<Rightarrow> (Panic, s\<lparr>pv_shares := h\<rparr>)
                | Ok c2 \<Rightarrow>
                    (case GetSambaVersion (ue_os (sh_users (sp_shares env))) (uv_os (sv_user h)) of
                       (version, w1) \<Rightarrow>
                         (case IsSambaVersionSufficient (ue_os (sh_users (sp_shares env))) w1 of
                            (sufficient, w2) \<Rightarrow>
                              (sp_Render env c2 (case version of Ok v \<Rightarrow> v | _ \<Rightarrow> [])
                                 (case sufficient of Ok b \<Rightarrow> b | _ \<Rightarrow> False) (ct_Template ctx),
                               s\<lparr>pv_shares := h\<lparr>sv_user := (sv_user h)\<lparr>uv_os := w2\<rparr>\<rparr>\<rparr>))))))"

definition sambaUsersMapFile :: string where
  "sambaUsersMapFile = ''/etc/samba/smbusers''"

definition unit_of :: "err option \<times> 's \<Rightarrow> unit res \<times> 's" where
  "unit_of out = (case out of (None, s) \<Rightarrow> (Ok (), s) | (Some e, s) \<Rightarrow> (Err e, s))"

definition writeSambaConfig ::
  "('d, 'o, 'v) server_env \<Rightarrow> ('d, 'o, 'v) server_state \<Rightarrow> unit res \<times> ('d, 'o, 'v) server_state" where
  "writeSambaConfig env s =
     (case pv_context s of
        None \<Rightarrow> (Panic, s)
      | Some ctx \<Rightarrow>
          (case CreateSambaConfigStream env s of
             (Err e, s1) \<Rightarrow> (Err e, s1)
           | (Panic, s1) \<Rightarrow> (Panic, s1)
           | (Ok stream, s1) \<Rightarrow> unit_of (write_file env (ct_SambaConfigFile ctx) stream s1)))"

definition writeSambaUsersMapConfig ::
  "('d, 'o, 'v) server_env \<Rightarrow> ('d, 'o, 'v) server_state \<Rightarrow> unit res \<times> ('d, 'o, 'v) server_state" where
  "writeSambaUsersMapConfig env s =
     (if (case pv_context s of Some ctx \<Rightarrow> ct_ProtectedMode ctx | None \<Rightarrow> False) then (Ok (), s)
      else case sp_MkdirAll env (Dir sambaUsersMapFile) (pv_out s) of
             (Some e, w) \<Rightarrow> (Err e, set_out w s)
           | (None, w) \<Rightarrow>
               (case CreateSambaUsersMapStream (sh_users (sp_shares env)) (sv_user (pv_shares (set_out w s))) of
                  (r, u) \<Rightarrow>
                    let s1 = (set_out w s)\<lparr>pv_shares := (pv_shares (set_out w s))\<lparr>sv_user := u\<rparr>\<rparr> in
                    (case r of
                       Err e \<Rightarrow> (Err e, s1)
                     | Panic \<Rightarrow> (Panic, s1)
                     | Ok stream \<Rightarrow> unit_of (write_file env sambaUsersMapFile stream s1))))"

definition testSambaConfig ::
  "('d, 'o, 'v) server_env \<Rightarrow> ('d, 'o, 'v) server_state \<Rightarrow> unit res \<times> ('d, 'o, 'v) server_state" where
  "testSambaConfig env s =
     (case pv_context s of
        None \<Rightarrow> (Panic, s)
      | Some ctx \<Rightarrow>
          (case runCommandWithRunner env ''samba-testparm'' ''Validate samba config''
                  [''testparm'', ''-s'', ct_SambaConfigFile ctx] s of
             ((out, Some e), s1) \<Rightarrow> (Err e, s1)
           | ((out, None), s1) \<Rightarrow> (Ok (), s1)))"

definition GetHostName ::
  "('d, 'o, 'v) server_env \<Rightarrow> ('d, 'o, 'v) server_state \<Rightarrow> string res \<times> ('d, 'o, 'v) server_state" where
  "GetHostName env s =
     (case pv_context s of
        None \<Rightarrow> (Panic, s)
      | Some ctx \<Rightarrow>
          if \<not> ct_HACoreReady ctx then (Err (E ErrorOther ''Home Assistant core is not ready''), s)
          else case (case pv_hostname s of Some (n, till) \<Rightarrow> if sp_now env (pv_out s) \<le> till then Some n else None
                       | None \<Rightarrow> None) of
                 Some n \<Rightarrow> (Ok n, s)
               | None \<Rightarrow>
                   if ct_SupervisorURL ctx = ''demo'' then (Ok ''demo'', s)
                   else (case sp_HostInfo env of
                           None \<Rightarrow> (Err (E ErrorOther ''Host client is not initialized''), s)
                         | Some info \<Rightarrow>
                             (case info (pv_out s) of
                                (Ok n, w) \<Rightarrow>
                                  (Ok n, (set_out w s)\<lparr>pv_hostname := Some (n, sp_now env w + 60 * minute)\<rparr>)
                              | (Err e, w) \<Rightarrow> (Err e, set_out w s)
                              | (Panic, w) \<Rightarrow> (Panic, set_out w s))))"

definition writeNFSConfig ::
  "('d, 'o, 'v) server_env \<Rightarrow> ('d, 'o, 'v) server_state \<Rightarrow> unit res \<times> ('d, 'o, 'v) server_state" where
  "writeNFSConfig env s =
     (case GetHostName env s of
        (Err e, s1) \<Rightarrow> (Err e, s1)
      | (Panic, s1) \<Rightarrow> (Panic, s1)
      | (Ok hostname, s1) \<Rightarrow>
          (case ListShares (sp_shares env) (pv_shares s1) of
             (r, h) \<Rightarrow>
               let s2 = s1\<lparr>pv_shares := h\<rparr> in
               (case r of
                  Err e \<Rightarrow> (Err e, s2)
                | Panic \<Rightarrow> (Panic, s2)
                | Ok shares \<Rightarrow>
                    unit_of (write_file env ''/etc/exports'' (nfs_exports (sp_disks env) hostname shares) s2))))"

section \<open>The processes\<close>

text \<open>Every question is asked in this order, the first that fails ends the conversion.\<close>

definition ask :: "'a res \<Rightarrow> ('a \<Rightarrow> 'b res) \<Rightarrow> 'b res" where
  "ask r f = (case r of Ok x \<Rightarrow> f x | Err e \<Rightarrow> Err e | Panic \<Rightarrow> Panic)"

fun collect :: "'a res list \<Rightarrow> 'a list res" where
  "collect [] = Ok []"
| "collect (r # rs) = ask r (\<lambda>x. map_res (\<lambda>xs. x # xs) (collect rs))"

lemma ask_cong [fundef_cong]:
  "r = r' \<Longrightarrow> (\<And>x. r' = Ok x \<Longrightarrow> f x = f' x) \<Longrightarrow> ask r f = ask r' f'"
  by (cases r') (simp_all add: ask_def)

fun ProcessToProcessStatus :: "os_process \<Rightarrow> process_status res" where
  "ProcessToProcessStatus (OsProcess pid name parent created cpu mem files conns status running children) =
     ask (case name of None \<Rightarrow> Err (E ErrorOther ''no name'') | Some n \<Rightarrow> Ok n) (\<lambda>n.
     ask created (\<lambda>cr.
     ask cpu (\<lambda>cp.
     ask mem (\<lambda>me.
     ask files (\<lambda>fi.
     ask conns (\<lambda>co.
     ask status (\<lambda>st.
     ask running (\<lambda>ru.
     ask children (\<lambda>ch.
     ask (collect (map ProcessToProcessStatus ch)) (\<lambda>cs.
       Ok (ProcessStatus pid n (go_div cr 1000) cp me (int fi) (int co) st ru cs)))))))))))"

text \<open>The services of the program itself that run; a negative number marks them.\<close>

definition findChildProcesses :: "('d, 'o, 'v) server_env \<Rightarrow> int \<Rightarrow> process_status list" where
  "findChildProcesses env parentPid =
     List.map_filter (\<lambda>f. case f parentPid of Some st \<Rightarrow> if ps_IsRunning st then Some st else None
                          | None \<Rightarrow> None) (sp_internal env)"

definition note_process ::
  "('d, 'o, 'v) server_env \<Rightarrow> (string, serviceConfig) gomap \<Rightarrow> os_process
   \<Rightarrow> (string, process_status) gomap \<Rightarrow> (string, process_status) gomap" where
  "note_process env services p status =
     (case op_Name p of
        None \<Rightarrow> status
      | Some name \<Rightarrow>
          if map_of services name = None then status
          else
            let status1 = (if map_of status name = None
                           then AList.update name zero_process_status status else status) in
            if op_Parent p = Some name then status1
            else (case ProcessToProcessStatus p of
                    Ok st \<Rightarrow>
                      AList.update name (if ps_Pid st = sp_Pid env
                                         then with_children (findChildProcesses env (sp_Pid env)) st else st) status1
                  | _ \<Rightarrow> status1))"

definition GetServerProcesses ::
  "('d, 'o, 'v) server_env \<Rightarrow> ('d, 'o, 'v) server_state
   \<Rightarrow> (string, process_status) gomap res \<times> ('d, 'o, 'v) server_state" where
  "GetServerProcesses env s =
     (case sp_Processes env (pv_out s) of
        Ok ps \<Rightarrow>
          let st = fold (note_process env (pv_services s)) ps (pv_status s)
          in (Ok st, s\<lparr>pv_status := st\<rparr>)
      | _ \<Rightarrow> (Panic, s))"

section \<open>Restarting\<close>

datatype service_action = HardReset | SoftReset | Start | Leave

definition choose_action ::
  "('d, 'o, 'v) server_env \<Rightarrow> tracker \<Rightarrow> (string, process_status) gomap \<Rightarrow> string \<Rightarrow> serviceConfig \<Rightarrow> 'v
   \<Rightarrow> service_action" where
  "choose_action env dirt process name cfg w =
     (if \<not> sc_Managed cfg then Leave
      else case map_of process name of
             Some st \<Rightarrow>
               if ps_Pid st \<le> 0 \<or> AndMask dirt (sc_HardResetServiceMask cfg) then HardReset
               else if AndMask dirt (sc_SoftResetServiceMask cfg) then SoftReset
               else Leave
           | None \<Rightarrow>
               if sc_StartCommand cfg \<noteq> [] \<and> sp_CommandExists env (sc_StartCommand cfg) w then Start else Leave)"

definition action_command :: "serviceConfig \<Rightarrow> service_action \<Rightarrow> string list" where
  "action_command cfg a =
     (case a of HardReset \<Rightarrow> sc_HardResetCommand cfg | SoftReset \<Rightarrow> sc_SoftResetCommand cfg
      | Start \<Rightarrow> sc_StartCommand cfg | Leave \<Rightarrow> [])"

definition action_id :: "service_action \<Rightarrow> string" where
  "action_id a = (case a of HardReset \<Rightarrow> ''service-hard-restart-'' | SoftReset \<Rightarrow> ''service-soft-restart-''
     | Start \<Rightarrow> ''service-start-'' | Leave \<Rightarrow> [])"

definition action_label :: "service_action \<Rightarrow> string" where
  "action_label a = (case a of HardReset \<Rightarrow> ''Hard restart '' | SoftReset \<Rightarrow> ''Soft restart ''
     | Start \<Rightarrow> ''Start '' | Leave \<Rightarrow> [])"

fun restart_all ::
  "('d, 'o, 'v) server_env \<Rightarrow> tracker \<Rightarrow> (string, process_status) gomap \<Rightarrow> (string, serviceConfig) gomap
   \<Rightarrow> ('d, 'o, 'v) server_state \<Rightarrow> unit res \<times> ('d, 'o, 'v) server_state" where
  "restart_all env dirt process [] s = (Ok (), s)"
| "restart_all env dirt process ((name, cfg) # rest) s =
     (let a = choose_action env dirt process name cfg (pv_out s) in
      if a = Leave then restart_all env dirt process rest s
      else case runCommandWithRunner env (action_id a @ name) (action_label a @ name) (action_command cfg a) s of
             ((out, Some e), s1) \<Rightarrow> (Err e, s1)
           | ((out, None), s1) \<Rightarrow> restart_all env dirt process rest s1)"

definition restartServerServices ::
  "('d, 'o, 'v) server_env \<Rightarrow> tracker \<Rightarrow> ('d, 'o, 'v) server_state \<Rightarrow> unit res \<times> ('d, 'o, 'v) server_state" where
  "restartServerServices env dirt s =
     (case GetServerProcesses env s of
        (Err e, s1) \<Rightarrow> (Err e, s1)
      | (Panic, s1) \<Rightarrow> (Panic, s1)
      | (Ok process, s1) \<Rightarrow>
          (case restart_all env dirt process (pv_services s1) s1 of
             (Ok _, s2) \<Rightarrow> (Ok (), logged Announced s2)
           | (r, s2) \<Rightarrow> (r, s2)))"

definition then_run ::
  "unit res \<times> 's \<Rightarrow> ('s \<Rightarrow> unit res \<times> 's) \<Rightarrow> unit res \<times> 's" where
  "then_run out f = (case out of (Ok _, s) \<Rightarrow> f s | (r, s) \<Rightarrow> (r, s))"

definition nfs_wanted :: "('d, 'o, 'v) server_env \<Rightarrow> ('d, 'o, 'v) server_state \<Rightarrow> bool" where
  "nfs_wanted env s =
     (case Load (ue_settings (sh_users (sp_shares env))) (sv_db (pv_shares s)) of
        (setting, Ok _) \<Rightarrow> sg_HAUseNFS setting = Some True
      | _ \<Rightarrow> False)"

definition load_panics :: "('d, 'o, 'v) server_env \<Rightarrow> ('d, 'o, 'v) server_state \<Rightarrow> bool" where
  "load_panics env s = (snd (Load (ue_settings (sh_users (sp_shares env))) (sv_db (pv_shares s))) = Panic)"

definition maybe_nfs ::
  "('d, 'o, 'v) server_env \<Rightarrow> ('d, 'o, 'v) server_state \<Rightarrow> unit res \<times> ('d, 'o, 'v) server_state" where
  "maybe_nfs env s =
     (if load_panics env s then (Panic, s)
      else if nfs_wanted env s then writeNFSConfig env s else (Ok (), s))"

definition writeConfigsAndRestartServers ::
  "('d, 'o, 'v) server_env \<Rightarrow> tracker \<Rightarrow> ('d, 'o, 'v) server_state \<Rightarrow> unit res \<times> ('d, 'o, 'v) server_state" where
  "writeConfigsAndRestartServers env dirt s =
     then_run (writeSambaConfig env s) (\<lambda>s1.
     then_run (writeSambaUsersMapConfig env s1) (\<lambda>s2.
     then_run (testSambaConfig env s2) (\<lambda>s3.
     then_run (maybe_nfs env s3) (restartServerServices env dirt))))"

definition WriteConfigsAndRestartProcesses ::
  "('d, 'o, 'v) server_env \<Rightarrow> ('d, 'o, 'v) server_state \<Rightarrow> unit res \<times> ('d, 'o, 'v) server_state" where
  "WriteConfigsAndRestartProcesses env s = writeConfigsAndRestartServers env defaultDirtyMask s"

text \<open>What the service does when the debounced restart is announced.\<close>

definition manage_nfsd ::
  "('d, 'o, 'v) server_env \<Rightarrow> ('d, 'o, 'v) server_state \<Rightarrow> unit res \<times> ('d, 'o, 'v) server_state" where
  "manage_nfsd env s =
     (case Load (ue_settings (sh_users (sp_shares env))) (sv_db (pv_shares s)) of
        (_, Err e) \<Rightarrow> (Err e, s)
      | (_, Panic) \<Rightarrow> (Panic, s)
      | (setting, Ok _) \<Rightarrow>
          (case map_of (pv_services s) ''nfsd'' of
             None \<Rightarrow> (Err (E ErrorOther ''nfsd service config not found''), s)
           | Some cfg \<Rightarrow>
               (case sg_HAUseNFS setting of
                  None \<Rightarrow> (Panic, s)
                | Some b \<Rightarrow>
                    (Ok (), s\<lparr>pv_services := AList.update ''nfsd'' (cfg\<lparr>sc_Managed := b\<rparr>) (pv_services s)\<rparr>))))"

definition on_dirty_data ::
  "('d, 'o, 'v) server_env \<Rightarrow> dirty_event \<Rightarrow> ('d, 'o, 'v) server_state \<Rightarrow> unit res \<times> ('d, 'o, 'v) server_state" where
  "on_dirty_data env ev s =
     (case ev of
        START _ \<Rightarrow> (Ok (), s)
      | RESTART dirt \<Rightarrow>
          then_run (if dt_Settings dirt then manage_nfsd env s else (Ok (), s))
            (writeConfigsAndRestartServers env dirt))"

section \<open>Start and stop\<close>

definition recover_link ::
  "('d, 'o, 'v) server_env \<Rightarrow> string \<Rightarrow> shared_resource \<Rightarrow> 'v \<Rightarrow> 'v" where
  "recover_link env linkRoot share w =
     (case sr_MountPointData share of
        None \<Rightarrow> w
      | Some md \<Rightarrow>
          if sr_Usage share \<noteq> UsageAsMedia \<or> sr_Disabled share = Some True \<or> mp_Path md = []
             \<or> (case sr_Status share of Some st \<Rightarrow> \<not> ss_IsValid st | None \<Rightarrow> False)
             \<or> \<not> HasPrefix (mp_Path md) ''/'' \<or> \<not> sp_Stat env (mp_Path md) w then w
          else
            let target = mp_Path md; link = path_Join linkRoot (sr_Name share) in
            (case sp_Lstat env link w of
               OtherFile \<Rightarrow> w
             | LstatFails \<Rightarrow> w
             | NoFile \<Rightarrow> snd (sp_Symlink env target link w)
             | Symlink current \<Rightarrow>
                 if current = target then w
                 else (case sp_Remove env link w of
                         (Some e, w1) \<Rightarrow> w1
                       | (None, w1) \<Rightarrow> snd (sp_Symlink env target link w1))
             | UnreadableLink \<Rightarrow>
                 (case sp_Remove env link w of
                    (Some e, w1) \<Rightarrow> w1
                  | (None, w1) \<Rightarrow> snd (sp_Symlink env target link w1))))"

definition recoverMediaUsageSymlinks ::
  "('d, 'o, 'v) server_env \<Rightarrow> string \<Rightarrow> ('d, 'o, 'v) server_state \<Rightarrow> unit res \<times> ('d, 'o, 'v) server_state" where
  "recoverMediaUsageSymlinks env linkRoot s =
     (if TrimSpace linkRoot = [] then (Ok (), s)
      else case ListShares (sp_shares env) (pv_shares s) of
             (Err e, h) \<Rightarrow> (Err e, s\<lparr>pv_shares := h\<rparr>)
           | (Panic, h) \<Rightarrow> (Panic, s\<lparr>pv_shares := h\<rparr>)
           | (Ok shares, h) \<Rightarrow>
               (case sp_MkdirAll env linkRoot (sv_out h) of
                  (Some e, w) \<Rightarrow> (Err e, s\<lparr>pv_shares := h\<lparr>sv_out := w\<rparr>\<rparr>)
                | (None, w) \<Rightarrow> (Ok (), s\<lparr>pv_shares := h\<lparr>sv_out := fold (recover_link env linkRoot) shares w\<rparr>\<rparr>)))"

definition server_OnStart ::
  "('d, 'o, 'v) server_env \<Rightarrow> ('d, 'o, 'v) server_state \<Rightarrow> unit res \<times> ('d, 'o, 'v) server_state" where
  "server_OnStart env s =
     then_run (writeSambaUsersMapConfig env s) (\<lambda>s1.
       case recoverMediaUsageSymlinks env ''/media'' s1 of
         (Panic, s2) \<Rightarrow> (Panic, s2)
       | (_, s2) \<Rightarrow> (Ok (), s2))"

fun stop_all ::
  "('d, 'o, 'v) server_env \<Rightarrow> (string, serviceConfig) gomap \<Rightarrow> ('d, 'o, 'v) server_state \<Rightarrow> ('d, 'o, 'v) server_state" where
  "stop_all env [] s = s"
| "stop_all env ((name, cfg) # rest) s =
     stop_all env rest
       (if map_of (pv_status s) name = None \<or> \<not> sc_Managed cfg then s
        else snd (runCommandWithRunner env (''service-stop-'' @ name) (''Stop '' @ name) (sc_StopCommand cfg) s))"

definition server_OnStop ::
  "('d, 'o, 'v) server_env \<Rightarrow> ('d, 'o, 'v) server_state \<Rightarrow> ('d, 'o, 'v) server_state" where
  "server_OnStop env s = stop_all env (pv_services s) s"

end
