(* ===== verification/Share_Service_Laws.thy ===== *)
theory Share_Service_Laws
  imports Share_Service User_Service_Laws Volume_Laws
begin

text \<open>
  What the share service promises: a share is shown as valid exactly when its directory is mounted,
  every change that succeeds is announced once with the share that is returned, and a share never
  takes the name of another.
\<close>

section \<open>Validity\<close>

definition really_mounted :: "'v vol_env \<Rightarrow> 'v \<Rightarrow> string \<Rightarrow> bool" where
  "really_mounted ve w path =
     (path \<noteq> [] \<and> ve_stat ve w path = StatDir \<and>
      (\<exists>ms. ve_mountInfos ve w = Ok ms \<and> (\<exists>m \<in> set ms. Clean (mi_MountPoint m) = Clean path)))"

definition shown_valid :: "shared_resource \<Rightarrow> bool" where
  "shown_valid sr = (case sr_Status sr of Some st \<Rightarrow> ss_IsValid st | None \<Rightarrow> False)"

lemma shown_mount_point:
  assumes "mountPointPathToMountPointData ve w row = Ok md"
  shows "mp_Path md = r_Path row" "mp_IsWriteSupported md = Some (ve_writable ve w (r_Path row))"
    "mp_Path md \<noteq> [] \<and> \<not> mp_IsInvalid md \<and> mp_IsMounted md \<longleftrightarrow> really_mounted ve w (r_Path row)"
  using assms
  by (auto simp: mountPointPathToMountPointData_def really_mounted_def osutil_IsMounted_def
      isPathDirNotExists_def split: res.splits stat_answer.splits)

lemma verified_fields:
  "sr_Name (verified sr) = sr_Name sr" "sr_MountPointData (verified sr) = sr_MountPointData sr"
  "sr_RoUsers (verified sr) = sr_RoUsers sr" "map u_Username (sr_Users (verified sr)) = map u_Username (sr_Users sr)"
  by (simp_all add: verified_def VerifyShare_def set_valid_def drop_rw_share_def Let_def o_def split: option.split)

lemma verified_valid:
  "shown_valid (verified sr) = (case sr_MountPointData sr of
      None \<Rightarrow> False | Some md \<Rightarrow> mp_Path md \<noteq> [] \<and> \<not> mp_IsInvalid md \<and> mp_IsMounted md)"
  by (simp add: shown_valid_def verified_def VerifyShare_def set_valid_def Let_def split: option.split)

lemma verified_read_only:
  assumes "sr_MountPointData sr = Some md" "shown_valid (verified sr)" "mp_IsWriteSupported md = Some False"
    "u \<in> set (sr_Users (verified sr))"
  shows "sr_Name sr \<notin> set (u_RwShares u)"
proof -
  have "mp_Path md \<noteq> [] \<and> \<not> mp_IsInvalid md \<and> mp_IsMounted md"
    using assms(1,2) by (simp add: verified_valid)
  then show ?thesis using assms
    by (auto simp: verified_def VerifyShare_def set_valid_def drop_rw_share_def Let_def)
qed

lemma convert_share:
  assumes "ExportedShareToSharedResource env row s = (Ok sr, s1)"
  shows "\<exists>md. mountPointPathToMountPointData (sh_volumes env) (sv_out s) (es_MountPointData row) = Ok md \<and>
     sr_MountPointData sr = Some md" "sr_Name sr = es_Name row" "sv_events s1 = sv_events s" "sv_db s1 = sv_db s"
  using assms by (auto simp: ExportedShareToSharedResource_def map_res_def split: prod.splits res.splits)


section \<open>Announcements\<close>

definition share_announced ::
  "event_type \<Rightarrow> ('d, 'o, 'v) share_state \<Rightarrow> shared_resource res \<times> ('d, 'o, 'v) share_state \<Rightarrow> bool" where
  "share_announced ty s out =
     (sv_events (snd out) = sv_events s @ (case fst out of Ok sr \<Rightarrow> [(ty, sr)] | _ \<Rightarrow> []))"

lemma convert_frame:
  "sv_events (snd (ExportedShareToSharedResource env row s)) = sv_events s"
  "sv_db (snd (ExportedShareToSharedResource env row s)) = sv_db s"
  by (auto simp: ExportedShareToSharedResource_def split: prod.splits)

lemma show_frame:
  "sv_events (snd (show_share env row s)) = sv_events s"
  "sv_db (snd (show_share env row s)) = sv_db s"
  using convert_frame [of env row s] by (auto simp: show_share_def split: prod.splits)

lemma emit_announced:
  "sv_events (snd out) = sv_events s \<Longrightarrow> share_announced ty s (emit_share ty out)"
  "sv_db (snd (emit_share ty out)) = sv_db (snd out)"
  by (auto simp: share_announced_def emit_share_def split: prod.splits res.splits)

lemma set_db_simps [simp]:
  "sv_events (set_db d s) = sv_events s" "sv_db (set_db d s) = d"
  by (simp_all add: set_db_def)

lemma GetAdmin_db: "uv_db (snd (GetAdmin env u)) = uv_db u"
  by (auto simp: GetAdmin_def user_not_found_def split: res.splits option.splits prod.splits)

lemma with_users_frame:
  assumes "with_users env row s = (r, s1)"
  shows "sv_events s1 = sv_events s" "sv_db s1 = sv_db s"
    "r = Ok row' \<Longrightarrow> es_Users row' \<noteq> [] \<and> es_Name row' = es_Name row"
  using assms GetAdmin_db [of "sh_users env" "sv_user s"]
  by (auto simp: with_users_def split: if_splits prod.splits res.splits)

lemma not_announced: "sv_events s1 = sv_events s \<Longrightarrow> share_announced ty s (Err e, s1) \<and> share_announced ty s (Panic, s1)"
  by (simp add: share_announced_def)

lemma UpdateShare_announced: "share_announced EvUpdate s (UpdateShare env name share s)"
proof (cases "sd_First (sh_db env) name (sv_db s)")
  case (Ok found)
  show ?thesis
  proof (cases found)
    case None
    then show ?thesis using Ok by (simp add: UpdateShare_def share_not_found_def share_announced_def)
  next
    case (Some old)
    let ?row = "clear_empty_root (SharedResourceToExportedShare share old)"
    obtain r s1 where w: "with_users env ?row s = (r, s1)" by fastforce
    note ev = with_users_frame(1) [OF w]
    show ?thesis
    proof (cases r)
      case (Ok row)
      obtain x d where tx: "update_tx (sh_db env) (es_Name old) row (sv_db s1) = (x, d)" by fastforce
      show ?thesis
      proof (cases x)
        case (Ok u)
        obtain new where new: "sd_First (sh_db env) (es_Name row) d = new" by simp
        have "share_announced EvUpdate s (emit_share EvUpdate (show_share env n (set_db d s1)))" for n
          by (rule emit_announced(1)) (simp add: show_frame ev)
        then show ?thesis
          using \<open>sd_First (sh_db env) name (sv_db s) = Ok found\<close> Some w \<open>r = Ok row\<close> tx Ok new
            not_announced [of "set_db d s1" s EvUpdate] ev
          by (cases new; cases "res_val new") (simp_all add: UpdateShare_def Let_def)
      qed (use \<open>sd_First (sh_db env) name (sv_db s) = Ok found\<close> Some w \<open>r = Ok row\<close> tx
            not_announced [of s1 s EvUpdate] ev in \<open>simp_all add: UpdateShare_def\<close>)
    qed (use \<open>sd_First (sh_db env) name (sv_db s) = Ok found\<close> Some w not_announced [of s1 s EvUpdate] ev
         in \<open>simp_all add: UpdateShare_def\<close>)
  qed
qed (simp_all add: UpdateShare_def share_announced_def)

lemma CreateShare_announced:
  "share_announced EvAdd s (CreateShare env share s) \<or> share_announced EvUpdate s (CreateShare env share s)"
proof -
  obtain c d where rs: "sd_Restore (sh_db env) (sr_Name share) (sv_db s) = (c, d)" by fastforce
  let ?s0 = "set_db d s"
  obtain r s1 where w: "with_users env (SharedResourceToExportedShare share zero_share_row) ?s0 = (r, s1)" by fastforce
  have ev: "sv_events s1 = sv_events s" using with_users_frame(1) [OF w] by simp
  show ?thesis
  proof (cases c)
    case (Ok n)
    show ?thesis
    proof (cases "n > 0")
      case True
      have "share_announced EvUpdate s (UpdateShare env (sr_Name share) share ?s0)"
        using UpdateShare_announced [of ?s0 env "sr_Name share" share] by (simp add: share_announced_def)
      then show ?thesis using True Ok rs by (simp add: CreateShare_def Let_def)
    next
      case False
      show ?thesis
      proof (cases r)
        case (Ok row)
        obtain x d1 where cr: "sd_Create (sh_db env) row (sv_db s1) = (x, d1)" by fastforce
        have "share_announced EvAdd s (emit_share EvAdd (show_share env row (set_db d1 s1)))"
          by (rule emit_announced(1)) (simp add: show_frame ev)
        then show ?thesis using False \<open>c = Ok n\<close> rs w Ok cr not_announced [of "set_db d1 s1" s EvAdd] ev
          by (cases x) (simp_all add: CreateShare_def Let_def)
      qed (use False \<open>c = Ok n\<close> rs w not_announced [of s1 s EvAdd] ev in \<open>simp_all add: CreateShare_def Let_def\<close>)
    qed
  qed (use rs in \<open>simp_all add: CreateShare_def share_announced_def\<close>)
qed

lemma setShareEnabled_announced: "share_announced EvUpdate s (setShareEnabled env name on s)"
proof (cases "sd_First (sh_db env) name (sv_db s)")
  case (Ok found)
  show ?thesis
  proof (cases found)
    case None
    then show ?thesis using Ok by (simp add: setShareEnabled_def share_not_found_def share_announced_def)
  next
    case (Some share)
    let ?row = "share\<lparr>es_Disabled := Some (\<not> on)\<rparr>"
    obtain x d where sv: "sd_Save (sh_db env) ?row (sv_db s) = (x, d)" by fastforce
    have "share_announced EvUpdate s (emit_share EvUpdate (ExportedShareToSharedResource env ?row (set_db d s)))"
      by (rule emit_announced(1)) (simp add: convert_frame)
    then show ?thesis using Ok Some sv not_announced [of "set_db d s" s EvUpdate]
      by (cases x) (simp_all add: setShareEnabled_def Let_def)
  qed
qed (simp_all add: setShareEnabled_def share_announced_def)

lemma taken_name_refused:
  assumes "sd_First (sh_db env) name (sv_db s) = Ok (Some old)" "sr_Name share \<noteq> []" "sr_Name share \<noteq> es_Name old"
    and "sd_Count (sh_db env) (sr_Name share) (sv_db s) = Ok n" "n > 0"
  shows "\<not> is_ok (fst (UpdateShare env name share s)) \<and> sv_db (snd (UpdateShare env name share s)) = sv_db s"
proof -
  let ?row = "clear_empty_root (SharedResourceToExportedShare share old)"
  obtain r s1 where w: "with_users env ?row s = (r, s1)" by fastforce
  have name: "es_Name ?row = sr_Name share"
    using assms(2) by (simp add: clear_empty_root_def SharedResourceToExportedShare_def Let_def
        SharedResourceToExportedShareNoUsersNoMountPointPath_def)
  note frame = with_users_frame [OF w]
  show ?thesis
  proof (cases r)
    case (Ok row)
    then have n: "es_Name row = sr_Name share" using frame(3) name by simp
    have "\<exists>e. update_tx (sh_db env) (es_Name old) row (sv_db s1) = (Err e, sv_db s1)"
      using assms(3-5) frame(2) by (simp add: update_tx_def Let_def n and_then_def)
    then show ?thesis using assms(1) w Ok frame(2) by (auto simp: UpdateShare_def)
  qed (use assms(1) w frame(2) in \<open>simp_all add: UpdateShare_def\<close>)
qed

text \<open>C17: Creating, changing, enabling and disabling a share announces it once, with the share that is
  returned, when it succeeds, and nothing when it fails; deleting announces the removal of the share as
  soon as it is found and read, before it touches the table, so also when it then fails, and nothing otherwise; and a
  share is not renamed to a name that is taken: that fails and leaves the table alone.\<close>

theorem share_events_truthful:
  "(share_announced EvAdd s (CreateShare env share s) \<or> share_announced EvUpdate s (CreateShare env share s)) \<and>
   share_announced EvUpdate s (UpdateShare env name share s) \<and>
   share_announced EvUpdate s (setShareEnabled env name on s) \<and>
   sv_events (snd (DeleteShare env name s)) =
     sv_events s @ (case fst (GetShare env name s) of Ok sr \<Rightarrow> [(EvRemove, sr)] | _ \<Rightarrow> []) \<and>
   (sd_First (sh_db env) name (sv_db s) = Ok (Some old) \<and> sr_Name share \<noteq> [] \<and> sr_Name share \<noteq> es_Name old \<and>
    sd_Count (sh_db env) (sr_Name share) (sv_db s) = Ok n \<and> n > 0 \<longrightarrow>
      \<not> is_ok (fst (UpdateShare env name share s)) \<and> sv_db (snd (UpdateShare env name share s)) = sv_db s)"
proof -
  have "sv_events (snd (GetShare env name s)) = sv_events s"
    using show_frame(1) [of env _ s]
    by (simp add: GetShare_def show_found_def share_not_found_def split: res.split option.split)
  then have "sv_events (snd (DeleteShare env name s)) =
     sv_events s @ (case fst (GetShare env name s) of Ok sr \<Rightarrow> [(EvRemove, sr)] | _ \<Rightarrow> [])"
    by (cases "GetShare env name s"; cases "fst (GetShare env name s)")
      (auto simp: DeleteShare_def emit_share_def split: prod.split)
  then show ?thesis
    using CreateShare_announced UpdateShare_announced setShareEnabled_announced taken_name_refused by blast
qed

section \<open>What goes wrong\<close>

text \<open>A share that is switched on or off is announced without a status.\<close>

lemma switched_share_without_status:
  assumes "setShareEnabled env name on s = (Ok sr, s1)"
  shows "sr_Status sr = None"
proof -
  obtain share where f: "sd_First (sh_db env) name (sv_db s) = Ok (Some share)"
    using assms by (auto simp: setShareEnabled_def share_not_found_def split: res.splits option.splits)
  let ?row = "share\<lparr>es_Disabled := Some (\<not> on)\<rparr>"
  obtain x d where sv: "sd_Save (sh_db env) ?row (sv_db s) = (x, d)" by fastforce
  obtain r s2 where c: "ExportedShareToSharedResource env ?row (set_db d s) = (r, s2)" by fastforce
  then have "r = Ok sr" using assms f sv by (cases x; cases r) (simp_all add: setShareEnabled_def Let_def emit_share_def)
  then show ?thesis using c by (auto simp: ExportedShareToSharedResource_def map_res_def split: prod.splits res.splits)
qed

text \<open>A share whose deletion fails has been announced as removed.\<close>

lemma failed_deletion_announced:
  assumes "GetShare env name s = (Ok sr, s1)" "sd_First (sh_db env) name (sv_db s1) = Err e"
  shows "fst (DeleteShare env name s) = Err e \<and> (EvRemove, sr) \<in> set (sv_events (snd (DeleteShare env name s)))"
  using assms by (simp add: DeleteShare_def emit_share_def and_then_def row_exists_def set_db_def)

text \<open>Creating a share whose name was deleted brings the old one back before anything can fail.\<close>

lemma failed_creation_restores:
  assumes "sd_Restore (sh_db env) (sr_Name share) (sv_db s) = (Ok n, d)" "n > 0"
    and "sd_First (sh_db env) (sr_Name share) d = Err e"
  shows "fst (CreateShare env share s) = Err e \<and> sv_db (snd (CreateShare env share s)) = d"
  using assms by (simp add: CreateShare_def UpdateShare_def)


text \<open>
  The volume service keeps the announced share with its mount point, and unmounting reads the status
  without looking whether there is one: after a share is switched, its volume cannot be unmounted.
\<close>

lemma switched_share_breaks_unmount:
  assumes "setShareEnabled env name on s = (Ok sr, s1)"
    and "GetMountPointByPath (v_disks (on_share_changed (Some sr) v)) path = Some md"
    and "mp_Share md = Some (share_ref.truncate sr)"
  shows "fst (UnmountVolume ve path force (on_share_changed (Some sr) v)) = Panic"
  using assms switched_share_without_status [OF assms(1)]
  by (simp add: UnmountVolume_def share_ref.truncate_def)

section \<open>A small share service\<close>

definition sample_share_row :: share_row where
  "sample_share_row = zero_share_row\<lparr>es_Name := ''disk'',
     es_Users := [zero_row\<lparr>su_Username := ''ann'', su_RwShares := [''disk'', ''music'']\<rparr>],
     es_MountPointData := empty_row\<lparr>r_Path := ''/mnt/usb''\<rparr>\<rparr>"

definition sample_share_env ::
  "((string \<times> samba_row \<times> bool) list, unit, string list) share_env" where
  "sample_share_env = \<lparr>sh_db = \<lparr>sd_Find = (\<lambda>d. Ok [sample_share_row]),
       sd_First = (\<lambda>n d. Ok (if n = ''disk'' then Some sample_share_row else None)),
       sd_FirstByPath = (\<lambda>p d. Ok None), sd_Restore = (\<lambda>n d. (Ok 0, d)), sd_Create = (\<lambda>r d. (Ok (), d)),
       sd_Count = (\<lambda>n d. Ok 1), sd_ClearUsers = (\<lambda>n d. (Ok (), d)), sd_ClearRoUsers = (\<lambda>n d. (Ok (), d)),
       sd_Updates = (\<lambda>n r d. (Ok (), d)), sd_ReplaceUsers = (\<lambda>n us d. (Ok (), d)),
       sd_ReplaceRoUsers = (\<lambda>n us d. (Ok (), d)), sd_Save = (\<lambda>r d. (Ok (), d)), sd_Delete = (\<lambda>n d. (Ok (), d))\<rparr>,
     sh_users = sample_user_env,
     sh_volumes = Volume_Laws.sample_env\<lparr>ve_writable := (\<lambda>w p. False),
       ve_mountInfos := (\<lambda>w. Ok [\<lparr>mi_MountPoint = ''/mnt/usb'', mi_Root = ''/'', mi_Source = ''/dev/sdb1'',
         mi_FSType = ''ext4'', mi_Options = [], mi_SuperOptions = []\<rparr>])\<rparr>,
     sh_mock = False, sh_NetworkUnmountShare = (\<lambda>n w. (None, w))\<rparr>"

definition sample_share_state ::
  "((string \<times> samba_row \<times> bool) list, unit, string list) share_state" where
  "sample_share_state = \<lparr>sv_user = sample_user_state, sv_out = [''/mnt/usb''], sv_events = []\<rparr>"


lemma share_events_truthful_witness:
  "\<not> is_ok (fst (UpdateShare sample_share_env ''disk'' (zero_share\<lparr>sr_Name := ''music''\<rparr>) sample_share_state)) \<and>
   sv_db (snd (UpdateShare sample_share_env ''disk'' (zero_share\<lparr>sr_Name := ''music''\<rparr>) sample_share_state))
     = sv_db sample_share_state"
proof -
  have "sd_First (sh_db sample_share_env) ''disk'' (sv_db sample_share_state) = Ok (Some sample_share_row)"
    "sr_Name (zero_share\<lparr>sr_Name := ''music''\<rparr>) \<noteq> []" "sr_Name (zero_share\<lparr>sr_Name := ''music''\<rparr>) \<noteq> es_Name sample_share_row"
    "sd_Count (sh_db sample_share_env) (sr_Name (zero_share\<lparr>sr_Name := ''music''\<rparr>)) (sv_db sample_share_state) = Ok 1" "(1::nat) > 0"
    by (simp_all add: sample_share_env_def sample_share_row_def zero_share_def)
  then show ?thesis
    using share_events_truthful [of sample_share_state sample_share_env "zero_share\<lparr>sr_Name := ''music''\<rparr>" "''disk''" True
        sample_share_row 1] by blast
qed

end
