(* ===== verification/Samba_Config_Laws.thy ===== *)
theory Samba_Config_Laws
  imports Samba_Config Share_Service_Laws "HOL-Library.Multiset"
begin

text \<open>
  What the configuration holds: the settings, whatever the order in which their properties are
  visited; the shares that are enabled and mounted, and no others; each user name that needs a
  mapping once; and the usable addresses of the interfaces, each once.
\<close>

section \<open>Settings\<close>

text \<open>The value that is stored in the table is the JSON form of the value in memory.\<close>

fun json_of :: "live_value \<Rightarrow> prop_value" where
  "json_of (LStr s) = PStr s"
| "json_of (LBool b) = PBool b"
| "json_of (LBoolPtr p) = ptr_value p"
| "json_of (LStrs l) = list_value l"

lemma stored_values: "field_values s = map (\<lambda>(k, v). (k, json_of v)) (live_values s)"
  by (simp add: field_values_def live_values_def)

definition config_of :: "settings \<Rightarrow> config \<Rightarrow> config" where
  "config_of s c = c
     \<lparr>cf_Hostname := sg_Hostname s, cf_Workgroup := sg_Workgroup s, cf_AllowHost := sg_AllowHost s,
      cf_CompatibilityMode := sg_CompatibilityMode s, cf_Interfaces := sg_Interfaces s,
      cf_BindAllInterfaces := sg_BindAllInterfaces s, cf_MultiChannel := sg_MultiChannel s,
      cf_AllowGuest := is_true (sg_AllowGuest s),
      cf_TelemetryMode := m_Value TelemetryMode_methods (sg_TelemetryMode s),
      cf_LocalMaster := is_true (sg_LocalMaster s),
      cf_ExportStatsToHA := is_true (sg_ExportStatsToHA s), cf_HAUseNFS := sg_HAUseNFS s,
      cf_SMBoverQUIC := is_true (sg_SMBoverQUIC s),
      cf_SmartMode := m_Value SmartMode_methods (sg_SmartMode s),
      cf_MDNSRegistration := is_true (sg_MDNSRegistration s)\<rparr>"

lemma to_fields:
  "to_bool_field k (LBoolPtr p) = Ok (is_true p)" "to_bool_field k (LBool b) = Ok b"
  "to_string_field k (LStr t) = Ok t" "to_ptr_field k (LBoolPtr p) = Ok p" "to_list_field (LStrs l) = Ok l"
  by (cases p) (simp_all add: to_bool_field_def to_string_field_def to_ptr_field_def to_list_field_def is_true_def)

text \<open>What each property of the settings does to the configuration.\<close>

fun live_update :: "string \<times> live_value \<Rightarrow> config \<Rightarrow> config" where
  "live_update (k, v) c = (case set_config k v c of Ok c1 \<Rightarrow> c1 | _ \<Rightarrow> c)"

lemmas live_fields = to_fields map_res_def

lemma live_set:
  "list_all (\<lambda>(k, v). set_config k v c = Ok (live_update (k, v) c)) (live_values s)"
  by (simp add: live_values_def set_config_def live_fields)

lemma properties_fold:
  assumes "set ps \<subseteq> set (live_values s)"
  shows "PropertiesToConfig ps c = Ok (fold live_update ps c)"
  using assms
proof (induction ps arbitrary: c)
  case (Cons p ps)
  obtain k v where p: "p = (k, v)" by fastforce
  then have "set_config k v c = Ok (live_update (k, v) c)"
    using Cons.prems live_set [of c s] by (auto simp: list_all_iff simp del: live_update.simps)
  then show ?case using Cons p by (simp del: live_update.simps)
qed simp

lemma live_updates:
  "map live_update (live_values s) =
     [\<lambda>c. c\<lparr>cf_Hostname := sg_Hostname s\<rparr>, \<lambda>c. c\<lparr>cf_Workgroup := sg_Workgroup s\<rparr>,
      \<lambda>c. c\<lparr>cf_AllowHost := sg_AllowHost s\<rparr>, \<lambda>c. c\<lparr>cf_CompatibilityMode := sg_CompatibilityMode s\<rparr>,
      \<lambda>c. c\<lparr>cf_Interfaces := sg_Interfaces s\<rparr>, \<lambda>c. c\<lparr>cf_BindAllInterfaces := sg_BindAllInterfaces s\<rparr>,
      \<lambda>c. c\<lparr>cf_MultiChannel := sg_MultiChannel s\<rparr>, \<lambda>c. c\<lparr>cf_AllowGuest := is_true (sg_AllowGuest s)\<rparr>,
      \<lambda>c. c\<lparr>cf_TelemetryMode := m_Value TelemetryMode_methods (sg_TelemetryMode s)\<rparr>,
      \<lambda>c. c\<lparr>cf_LocalMaster := is_true (sg_LocalMaster s)\<rparr>,
      \<lambda>c. c\<lparr>cf_ExportStatsToHA := is_true (sg_ExportStatsToHA s)\<rparr>,
      \<lambda>c. c\<lparr>cf_HAUseNFS := sg_HAUseNFS s\<rparr>, \<lambda>c. c, \<lambda>c. c\<lparr>cf_SMBoverQUIC := is_true (sg_SMBoverQUIC s)\<rparr>,
      \<lambda>c. c\<lparr>cf_SmartMode := m_Value SmartMode_methods (sg_SmartMode s)\<rparr>, \<lambda>c. c,
      \<lambda>c. c\<lparr>cf_MDNSRegistration := is_true (sg_MDNSRegistration s)\<rparr>]"
  by (simp add: live_values_def set_config_def live_fields fun_eq_iff)

lemma live_commute:
  assumes "p \<in> set (live_values s)" "q \<in> set (live_values s)"
  shows "live_update p \<circ> live_update q = live_update q \<circ> live_update p"
proof -
  have "live_update p \<in> set (map live_update (live_values s))"
    "live_update q \<in> set (map live_update (live_values s))" using assms by simp_all
  then show ?thesis unfolding live_updates by (auto simp: fun_eq_iff)
qed

lemma fold_values: "fold live_update (live_values s) c = config_of s c"
proof -
  have "fold live_update (live_values s) c = fold (\<lambda>f. f) (map live_update (live_values s)) c"
    by (simp add: fold_map o_def)
  also have "\<dots> = config_of s c" unfolding live_updates by (simp add: config_of_def)
  finally show ?thesis .
qed

lemma props_config: "PropertiesToConfig (live_values s) c = Ok (config_of s c)"
  by (simp add: properties_fold [OF subset_refl] fold_values)

text \<open>C27: Whatever the order in which the map of properties is visited, no property of the settings is
  refused, and the configuration has every setting it names, a flag that is not set counting as
  false; the rest stays as it was. What the table stores is the JSON form of the same values.\<close>

theorem settings_configured:
  assumes "mset ps = mset (live_values s)"
  shows "PropertiesToConfig ps c = Ok (config_of s c) \<and>
     field_values s = map (\<lambda>(k, v). (k, json_of v)) (live_values s)"
proof -
  have "set ps = set (live_values s)" using assms by (rule mset_eq_setD)
  moreover have "fold live_update ps = fold live_update (live_values s)"
  proof (rule fold_multiset_equiv [OF _ assms])
    fix p q
    assume "p \<in> set ps" "q \<in> set ps"
    then show "live_update p \<circ> live_update q = live_update q \<circ> live_update p"
      using live_commute calculation by blast
  qed
  ultimately show ?thesis using properties_fold [of ps s c] by (simp add: fold_values stored_values)
qed

section \<open>The shares that are listed\<close>

definition shown_as ::
  "('d, 'o, 'v) share_env \<Rightarrow> 'v \<Rightarrow> share_row \<Rightarrow> shared_resource \<Rightarrow> bool" where
  "shown_as env w row sr \<longleftrightarrow>
     sr_Name sr = es_Name row \<and> sr_Disabled sr = es_Disabled row \<and> sr_Usage sr = es_Usage row
     \<and> map u_Username (sr_Users sr) = map su_Username (es_Users row) \<and> sr_Status sr \<noteq> None
     \<and> (\<exists>md. sr_MountPointData sr = Some md \<and> mp_Path md = r_Path (es_MountPointData row)
          \<and> (shown_valid sr \<longrightarrow> \<not> mp_IsInvalid md))
     \<and> shown_valid sr = really_mounted (sh_volumes env) w (r_Path (es_MountPointData row))"

lemma SambaUserToUser_name: "u_Username (fst (SambaUserToUser e r w)) = su_Username r"
  by (simp add: SambaUserToUser_def split: prod.split)

lemma SambaUsersToUsers_names: "map u_Username (fst (SambaUsersToUsers e rs w)) = map su_Username rs"
proof (induction rs arbitrary: w)
  case (Cons r rs)
  then show ?case using SambaUserToUser_name [of e r w] by (simp add: split_beta)
qed simp

lemma convert_fields:
  assumes "ExportedShareToSharedResource env row s = (Ok sr, s1)"
  shows "sr_Disabled sr = es_Disabled row" "sr_Usage sr = es_Usage row"
    "map u_Username (sr_Users sr) = map su_Username (es_Users row)"
  using assms by (auto simp: ExportedShareToSharedResource_def map_res_def split_beta SambaUsersToUsers_names
      split: res.splits)

lemma verified_status: "sr_Status (verified sr) \<noteq> None"
  "sr_Disabled (verified sr) = sr_Disabled sr" "sr_Usage (verified sr) = sr_Usage sr"
  by (auto simp: verified_def VerifyShare_def set_valid_def Let_def split: option.split)

lemma show_share_shown:
  assumes "show_share env row s = (Ok sr, s1)"
  shows "shown_as env (sv_out s) row sr"
proof -
  obtain sr0 where c: "ExportedShareToSharedResource env row s = (Ok sr0, s1)" and sr: "sr = verified sr0"
    using assms by (cases "ExportedShareToSharedResource env row s")
      (auto simp: show_share_def map_res_def split: res.splits)
  obtain md where md: "mountPointPathToMountPointData (sh_volumes env) (sv_out s) (es_MountPointData row) = Ok md"
    "sr_MountPointData sr0 = Some md" using convert_share(1) [OF c] by blast
  show ?thesis
    using shown_mount_point [OF md(1)] md(2) convert_share(2) [OF c] convert_fields [OF c]
    by (auto simp: shown_as_def sr verified_fields verified_valid verified_status)
qed

lemma show_out: "sv_out (snd (show_share env row s)) = sv_out s"
  by (auto simp: show_share_def ExportedShareToSharedResource_def split: prod.splits)

lemma show_shares_shown:
  "show_shares env rows s = (Ok srs, s1) \<Longrightarrow> list_all2 (shown_as env (sv_out s)) rows srs \<and> sv_out s1 = sv_out s"
proof (induction rows arbitrary: s srs s1)
  case (Cons row rows)
  obtain r s2 where r: "show_share env row s = (r, s2)" by fastforce
  with Cons.prems obtain sr where sr: "r = Ok sr" by (cases r) auto
  obtain rs s3 where rs: "show_shares env rows s2 = (rs, s3)" by fastforce
  with Cons.prems r sr obtain l where l: "rs = Ok l" "srs = sr # l" "s1 = s3"
    by (cases rs) (auto simp: map_res_def)
  have "sv_out s2 = sv_out s" using show_out [of env row s] r by simp
  then show ?case using Cons.IH [OF rs [unfolded l]] show_share_shown [OF r [unfolded sr]] l by simp
qed simp

lemma ListShares_shown:
  assumes "ListShares env s = (Ok srs, s1)" "sd_Find (sh_db env) (sv_db s) = Ok rows"
  shows "list_all2 (shown_as env (sv_out s)) rows srs" "sv_out s1 = sv_out s"
  using assms show_shares_shown [of env rows s srs s1] by (simp_all add: ListShares_def)

definition serves :: "('d, 'o, 'v) share_env \<Rightarrow> 'v \<Rightarrow> share_row \<Rightarrow> bool" where
  "serves env w row \<longleftrightarrow>
     es_Disabled row \<noteq> Some True \<and> really_mounted (sh_volumes env) w (r_Path (es_MountPointData row))"

lemma shown_active: "shown_as env w row sr \<Longrightarrow> share_active sr = serves env w row"
  by (auto simp: shown_as_def share_active_def serves_def shown_valid_def split: option.splits)

lemma shown_name: "shown_as env w row sr \<Longrightarrow> sr_Name sr = es_Name row"
  by (simp add: shown_as_def)

section \<open>The shares of the configuration\<close>

lemma add_share_lookup:
  "map_of (add_share r m) k =
     (if k = es_Name r then Some (ExportedShareToShare r zero_config_share) else map_of m k)"
  by (simp add: add_share_def go_map)

lemma fold_add_other: "k \<notin> es_Name ` set rows \<Longrightarrow> map_of (fold add_share rows m) k = map_of m k"
  by (induction rows arbitrary: m) (simp_all add: add_share_lookup)

lemma fold_add_share:
  "\<lbrakk>row \<in> set rows; distinct (map es_Name rows)\<rbrakk> \<Longrightarrow>
   map_of (fold add_share rows m) (es_Name row) = Some (ExportedShareToShare row zero_config_share)"
proof (induction rows arbitrary: m)
  case (Cons r rows)
  then show ?case
    using fold_add_other [of "es_Name r" rows] by (auto simp: add_share_lookup)
qed simp

lemma fold_add_user: "cf_Shares (fold add_user us c) = cf_Shares c"
  by (induction us arbitrary: c) (simp_all add: add_user_def)

lemma config_of_shares: "cf_Shares (config_of s c) = cf_Shares c"
  by (simp add: config_of_def)

lemma back_to_row:
  "es_Name (SharedResourceToExportedShare sr zero_share_row) = sr_Name sr"
  "map su_Username (es_Users (SharedResourceToExportedShare sr zero_share_row)) = map u_Username (sr_Users sr)"
  "sr_MountPointData sr = Some md \<Longrightarrow>
     r_Path (es_MountPointData (SharedResourceToExportedShare sr zero_share_row)) = mp_Path md"
  by (auto simp: SharedResourceToExportedShare_def SharedResourceToExportedShareNoUsersNoMountPointPath_def
      Let_def zero_share_row_def UserToSambaUser_def zero_row_def MountPointDataToMountPointPath_def
      empty_row_def split: option.split)

lemma configured_share:
  "cs_Users (ExportedShareToShare row zero_config_share) = map su_Username (es_Users row)"
  "cs_Path (ExportedShareToShare row zero_config_share) = r_Path (es_MountPointData row)"
  by (simp_all add: ExportedShareToShare_def zero_config_share_def)

lemma ListUsers_frame: "uv_db (snd (ListUsers env u)) = uv_db u"
  by (auto simp: ListUsers_def split: res.splits prod.splits)

lemma jSONFromDatabase_shares:
  assumes "jSONFromDatabase env sd s = (Ok c, s1)" "cf_Shares (sd zero_config) = None"
  shows "\<exists>srs u. fst (ListShares env (s\<lparr>sv_user := u\<rparr>)) = Ok srs \<and> uv_db u = sv_db s \<and>
     cf_Shares c = Some (fold add_share
       (map (\<lambda>x. SharedResourceToExportedShare x zero_share_row) (filter share_active srs)) [])"
proof -
  obtain st x where l: "Load (ue_settings (sh_users env)) (sv_db s) = (st, x)" by fastforce
  with assms(1) have x: "\<exists>y. x = Ok y" by (cases x) (auto simp: jSONFromDatabase_def)
  obtain us u where u: "ListUsers (sh_users env) (sv_user s) = (us, u)" by fastforce
  with assms(1) l x obtain users where us: "us = Ok users" by (cases us) (auto simp: jSONFromDatabase_def)
  obtain r h where r: "ListShares env (s\<lparr>sv_user := u\<rparr>) = (r, h)" by fastforce
  with assms(1) l x u us obtain srs where srs: "r = Ok srs" by (cases r) (auto simp: jSONFromDatabase_def)
  have "uv_db u = sv_db s" using ListUsers_frame [of "sh_users env" "sv_user s"] u by simp
  moreover have "cf_Shares c = Some (fold add_share
       (map (\<lambda>x. SharedResourceToExportedShare x zero_share_row) (filter share_active srs)) [])"
    using assms l x u us r srs
    by (auto simp: jSONFromDatabase_def DbomObjectsToConfig_def map_res_def with_media_def Let_def
        fold_add_user props_config config_of_shares)
  ultimately show ?thesis using r srs by (metis fst_conv)
qed


section \<open>The exports\<close>

lemma nfs_share_facts:
  assumes "shown_as env w row sr" "nfs_share disks sr = Some path"
  shows "path = r_Path (es_MountPointData row) \<and> serves env w row
     \<and> usage_string (es_Usage row) \<in> {''media'', ''share'', ''backup''}"
  using assms shown_active [OF assms(1)]
  by (auto simp: nfs_share_def shown_as_def Let_def split: if_splits option.splits)

lemma nfs_paths_mounted:
  assumes "list_all2 (shown_as env w) rows srs" "path \<in> set (List.map_filter (nfs_share disks) srs)"
  shows "\<exists>row \<in> set rows. path = r_Path (es_MountPointData row) \<and> serves env w row
     \<and> usage_string (es_Usage row) \<in> {''media'', ''share'', ''backup''}"
  using assms
proof (induction rule: list_all2_induct)
  case (Cons row rows sr srs)
  then show ?case using nfs_share_facts [OF Cons.hyps(1), of disks]
    by (auto simp: List.map_filter_simps split: option.splits)
qed (simp add: List.map_filter_simps)

section \<open>Addresses\<close>

lemma add_ips:
  "distinct ips \<Longrightarrow> distinct (fold add_ip addrs ips)
     \<and> set (fold add_ip addrs ips) = set ips \<union> {t. \<exists>a \<in> set addrs. usable a = Some t}"
proof (induction addrs arbitrary: ips)
  case (Cons a addrs)
  have "distinct (add_ip a ips)" using Cons.prems by (simp add: add_ip_def split: option.split)
  moreover have "set (add_ip a ips) = set ips \<union> {t. usable a = Some t}"
    by (auto simp: add_ip_def split: option.split)
  ultimately show ?case using Cons.IH [of "add_ip a ips"] by auto
qed simp

definition usable_of :: "net_env \<Rightarrow> string \<Rightarrow> string set" where
  "usable_of ne name = {t. \<exists>addrs. ne_addrs ne name = Ok addrs \<and> (\<exists>a \<in> set addrs. usable a = Some t)}"

lemma add_interfaces:
  "distinct ips \<Longrightarrow> distinct (fold (add_interface ne) names ips)
     \<and> set (fold (add_interface ne) names ips) = set ips \<union> \<Union> (usable_of ne ` set names)"
proof (induction names arbitrary: ips)
  case (Cons n names)
  have "distinct (add_interface ne n ips) \<and> set (add_interface ne n ips) = set ips \<union> usable_of ne n"
    using add_ips [OF Cons.prems] Cons.prems by (auto simp: add_interface_def usable_of_def split: res.split)
  then show ?case using Cons.IH [of "add_interface ne n ips"] by auto
qed simp

lemma usable_iff:
  "usable addr = Some t \<longleftrightarrow>
     (\<exists>a b. addr = Some a \<and> To4 a = Some b \<and> \<not> (b ! 0 = 169 \<and> b ! 1 = 254) \<and> t = ip_String b)"
  by (auto simp: usable_def IsLinkLocalUnicast_def split: option.splits)

text \<open>The names of interfaces are resolved to exactly the IPv4 addresses of the interfaces that can be
  resolved which are not link-local, each once; an interface that fails hides no other.\<close>

theorem interfaces_resolved:
  "distinct (ResolveInterfaceIPv4s ne names) \<and>
   (t \<in> set (ResolveInterfaceIPv4s ne names) \<longleftrightarrow>
     (\<exists>name \<in> set names. \<exists>addrs a b. ne_addrs ne name = Ok addrs \<and> Some a \<in> set addrs \<and> To4 a = Some b
        \<and> \<not> (b ! 0 = 169 \<and> b ! 1 = 254) \<and> t = ip_String b))"
proof -
  have "t \<in> \<Union> (usable_of ne ` set names) \<longleftrightarrow>
     (\<exists>name \<in> set names. \<exists>addrs a b. ne_addrs ne name = Ok addrs \<and> Some a \<in> set addrs \<and> To4 a = Some b
        \<and> \<not> (b ! 0 = 169 \<and> b ! 1 = 254) \<and> t = ip_String b)" (is "?l = ?r")
    unfolding usable_of_def UN_iff mem_Collect_eq
    by (intro bex_cong refl iffI; elim exE conjE bexE) (metis usable_iff)+
  then show ?thesis using add_interfaces [of "[]" ne names] by (simp add: ResolveInterfaceIPv4s_def)
qed

section \<open>User names\<close>

definition needs_mapping :: "string \<Rightarrow> user \<Rightarrow> bool" where
  "needs_mapping k u \<longleftrightarrow>
     (let n = NormalizeUsernameForUnixSamba (u_Username u) in n = k \<and> n \<noteq> [] \<and> n \<noteq> u_Username u)"

lemma add_alias_lookup:
  "map_of (add_alias u m) k =
     (if needs_mapping k u then Some ((case map_of m k of None \<Rightarrow> [] | Some l \<Rightarrow> l) @ [u_Username u])
      else map_of m k)"
proof -
  obtain n where n: "NormalizeUsernameForUnixSamba (u_Username u) = n" by simp
  show ?thesis
  proof (cases "n = [] \<or> n = u_Username u")
    case True
    then show ?thesis unfolding add_alias_def needs_mapping_def Let_def n by auto
  next
    case False
    have "map_of (AList.update n l m) k = (if k = n then Some l else map_of m k)" for l
      by (rule update_lookup)
    then show ?thesis using False unfolding add_alias_def needs_mapping_def Let_def n
      by (cases "k = n") simp_all
  qed
qed

lemma add_alias_distinct: "distinct (keys m) \<Longrightarrow> distinct (keys (add_alias u m))"
  unfolding add_alias_def Let_def by (auto intro: distinct_update)

lemma fold_alias:
  "distinct (keys m) \<Longrightarrow> distinct (keys (fold add_alias us m)) \<and>
   (case map_of (fold add_alias us m) k of None \<Rightarrow> [] | Some l \<Rightarrow> l) =
     (case map_of m k of None \<Rightarrow> [] | Some l \<Rightarrow> l) @ map u_Username (filter (needs_mapping k) us) \<and>
   (map_of (fold add_alias us m) k \<noteq> None) = (map_of m k \<noteq> None \<or> (\<exists>u \<in> set us. needs_mapping k u))"
proof (induction us arbitrary: m)
  case (Cons u us)
  then show ?case using Cons.IH [OF add_alias_distinct [OF Cons.prems, of u]]
    by (auto simp: add_alias_lookup)
qed simp

text \<open>The map of user names lists, in the order of their names, exactly the Unix accounts some user
  name is normalised to from another spelling, and with each account exactly those spellings, sorted.\<close>

theorem users_map_exact:
  "sorted (map fst (users_map users)) \<and> distinct (map fst (users_map users)) \<and>
   ((k, l) \<in> set (users_map users) \<longleftrightarrow>
      (\<exists>u \<in> set users. needs_mapping k u) \<and> l = sort (map u_Username (filter (needs_mapping k) users)))"
proof -
  let ?m = "fold add_alias users []"
  note f = fold_alias [of "[]" users, simplified]
  have "map fst (users_map users) = sort (keys ?m)" by (simp add: users_map_def Let_def o_def)
  moreover have "distinct (sort (keys ?m))" using f by simp
  moreover have "(k, l) \<in> set (users_map users) \<longleftrightarrow> k \<in> set (keys ?m) \<and>
      l = sort (case map_of ?m k of None \<Rightarrow> [] | Some l \<Rightarrow> l)"
    unfolding users_map_def Let_def by force
  moreover have "k \<in> set (keys ?m) \<longleftrightarrow> (\<exists>u \<in> set users. needs_mapping k u)"
    using f [of k] map_of_eq_None_iff [of ?m k] by auto
  ultimately show ?thesis using f [of k] by (simp only:) simp
qed

section \<open>A small configuration\<close>

lemma settings_configured_witness:
  "PropertiesToConfig (rev (live_values zero_settings)) zero_config = Ok (config_of zero_settings zero_config)"
  using settings_configured [of "rev (live_values zero_settings)" zero_settings zero_config] by simp

lemma sample_listed: "is_ok (fst (ListShares sample_share_env (sample_share_state\<lparr>sv_user := u\<rparr>)))"
proof -
  have "is_ok (fst (show_share sample_share_env sample_share_row (sample_share_state\<lparr>sv_user := u\<rparr>)))"
    by (simp add: show_share_def ExportedShareToSharedResource_def sample_share_row_def zero_share_row_def
        SambaUserToUser_def checkUserValid_def zero_row_def map_res_def mountPointPathToMountPointData_def
        osutil_IsMounted_def isPathDirNotExists_def sample_share_env_def Volume_Laws.sample_env_def
        empty_row_def sample_share_state_def)
  then obtain sr s1 where "show_share sample_share_env sample_share_row (sample_share_state\<lparr>sv_user := u\<rparr>) = (Ok sr, s1)"
    by (metis is_ok_iff prod.collapse)
  moreover have "sd_Find (sh_db sample_share_env) d = Ok [sample_share_row]" for d by (simp add: sample_share_env_def)
  ultimately show ?thesis by (simp add: ListShares_def map_res_def)
qed


end
