(* ===== verification/Server_Process_Laws.thy ===== *)
theory Server_Process_Laws
  imports Server_Process Samba_Config_Laws
begin

text \<open>
  What a restart does: no process of a service is touched before the configuration is written and has
  passed its test; the commands are exactly those the marks of the tracker call for; a restart that
  succeeds cleans the tracker of the dirty data service and one that fails leaves every mark.
\<close>

section \<open>What each step logs\<close>

lemma set_out_simps [simp]:
  "pv_log (set_out w s) = pv_log s" "pv_context (set_out w s) = pv_context s"
  "pv_services (set_out w s) = pv_services s" "pv_status (set_out w s) = pv_status s"
  "pv_out (set_out w s) = w"
  by (simp_all add: set_out_def)

lemma logged_simps [simp]:
  "pv_log (logged e s) = pv_log s @ [e]" "pv_context (logged e s) = pv_context s"
  "pv_services (logged e s) = pv_services s" "pv_status (logged e s) = pv_status s"
  by (simp_all add: logged_def)

text \<open>The parts of the state the writing steps leave alone.\<close>

definition same_services :: "('d, 'o, 'v) server_state \<Rightarrow> ('d, 'o, 'v) server_state \<Rightarrow> bool" where
  "same_services s s' \<longleftrightarrow> pv_context s' = pv_context s \<and> pv_services s' = pv_services s \<and> pv_status s' = pv_status s"

lemma same_services_refl [simp]: "same_services s s"
  by (simp add: same_services_def)

lemma same_services_trans: "same_services s t \<Longrightarrow> same_services t u \<Longrightarrow> same_services s u"
  by (simp add: same_services_def)

lemma same_services_simps [simp]:
  "same_services s (set_out w t) = same_services s t" "same_services s (logged e t) = same_services s t"
  "same_services s (t\<lparr>pv_shares := h\<rparr>) = same_services s t"
  "same_services s (t\<lparr>pv_hostname := n\<rparr>) = same_services s t"
  by (simp_all add: same_services_def)

lemma run_command_log:
  assumes "runCommandWithRunner env i l args s = ((out, e), s1)"
  shows "same_services s s1" "pv_log s1 = pv_log s \<or> pv_log s1 = pv_log s @ [Ran args]"
    "e = None \<Longrightarrow> pv_log s1 = pv_log s @ [Ran args]"
  using assms by (auto simp: runCommandWithRunner_def split: if_splits option.splits prod.splits)

lemma write_file_log:
  assumes "write_file env path content s = (e, s1)"
  shows "same_services s s1" "pv_log s1 = pv_log s @ (if e = None then [Wrote path content] else [])"
  using assms by (auto simp: write_file_def split: prod.splits option.splits)

lemma config_stream_log:
  assumes "CreateSambaConfigStream env s = (r, s1)"
  shows "same_services s s1" "pv_log s1 = pv_log s"
  using assms by (auto simp: CreateSambaConfigStream_def Let_def split: prod.splits res.splits option.splits)

lemma samba_config_log:
  assumes "writeSambaConfig env s = (r, s1)"
  shows "same_services s s1 \<and> (if is_ok r then \<exists>ctx content. pv_context s = Some ctx \<and>
       pv_log s1 = pv_log s @ [Wrote (ct_SambaConfigFile ctx) content] else pv_log s1 = pv_log s)"
proof (cases "pv_context s")
  case (Some ctx)
  obtain q t where c: "CreateSambaConfigStream env s = (q, t)" by fastforce
  note log = config_stream_log [OF c]
  show ?thesis
  proof (cases q)
    case (Ok stream)
    obtain e u where w: "write_file env (ct_SambaConfigFile ctx) stream t = (e, u)" by fastforce
    note wl = write_file_log [OF w]
    show ?thesis
      using assms Some c Ok w wl log same_services_trans [of s t u]
      by (cases e) (auto simp: writeSambaConfig_def unit_of_def)
  qed (use assms Some c log in \<open>auto simp: writeSambaConfig_def\<close>)
qed (use assms in \<open>auto simp: writeSambaConfig_def\<close>)

lemma users_map_log:
  assumes "writeSambaUsersMapConfig env s = (r, s1)"
  shows "same_services s s1 \<and> (pv_log s1 = pv_log s \<or> (\<exists>content. pv_log s1 = pv_log s @ [Wrote sambaUsersMapFile content]))"
proof (cases "case pv_context s of Some ctx \<Rightarrow> ct_ProtectedMode ctx | None \<Rightarrow> False")
  case False
  obtain e w where m: "sp_MkdirAll env (Dir sambaUsersMapFile) (pv_out s) = (e, w)" by fastforce
  obtain q u where c: "CreateSambaUsersMapStream (sh_users (sp_shares env)) (sv_user (pv_shares (set_out w s))) = (q, u)"
    by fastforce
  let ?t = "(set_out w s)\<lparr>pv_shares := (pv_shares (set_out w s))\<lparr>sv_user := u\<rparr>\<rparr>"
  show ?thesis
  proof (cases e)
    case None
    show ?thesis
    proof (cases q)
      case (Ok stream)
      obtain x v where wr: "write_file env sambaUsersMapFile stream ?t = (x, v)" by fastforce
      note wl = write_file_log [OF wr]
      have "s1 = v" using assms False m c None Ok wr
        by (cases x) (simp_all add: writeSambaUsersMapConfig_def unit_of_def)
      then show ?thesis using wl by (auto simp: same_services_def)
    qed (use assms False m c None in \<open>auto simp: writeSambaUsersMapConfig_def\<close>)
  qed (use assms False m in \<open>auto simp: writeSambaUsersMapConfig_def\<close>)
qed (use assms in \<open>simp add: writeSambaUsersMapConfig_def\<close>)

lemma test_log:
  assumes "testSambaConfig env s = (r, s1)"
  shows "same_services s s1 \<and> (pv_log s1 = pv_log s \<or> (\<exists>ctx. pv_context s = Some ctx \<and>
       pv_log s1 = pv_log s @ [Ran [''testparm'', ''-s'', ct_SambaConfigFile ctx]]))"
    "is_ok r \<Longrightarrow> \<exists>ctx. pv_context s = Some ctx \<and>
       pv_log s1 = pv_log s @ [Ran [''testparm'', ''-s'', ct_SambaConfigFile ctx]]"
proof -
  have "same_services s s1 \<and> (if is_ok r then \<exists>ctx. pv_context s = Some ctx \<and>
       pv_log s1 = pv_log s @ [Ran [''testparm'', ''-s'', ct_SambaConfigFile ctx]]
     else pv_log s1 = pv_log s \<or> (\<exists>ctx. pv_context s = Some ctx \<and>
       pv_log s1 = pv_log s @ [Ran [''testparm'', ''-s'', ct_SambaConfigFile ctx]]))"
  proof (cases "pv_context s")
    case (Some ctx)
    obtain out e t where c: "runCommandWithRunner env ''samba-testparm'' ''Validate samba config''
        [''testparm'', ''-s'', ct_SambaConfigFile ctx] s = ((out, e), t)" by (metis prod.collapse)
    show ?thesis using assms Some c run_command_log [OF c] by (cases e) (auto simp: testSambaConfig_def)
  qed (use assms in \<open>simp add: testSambaConfig_def\<close>)
  then show "same_services s s1 \<and> (pv_log s1 = pv_log s \<or> (\<exists>ctx. pv_context s = Some ctx \<and>
       pv_log s1 = pv_log s @ [Ran [''testparm'', ''-s'', ct_SambaConfigFile ctx]]))"
    "is_ok r \<Longrightarrow> \<exists>ctx. pv_context s = Some ctx \<and>
       pv_log s1 = pv_log s @ [Ran [''testparm'', ''-s'', ct_SambaConfigFile ctx]]"
    by (auto split: if_splits)
qed

lemma hostname_log: "same_services s (snd (GetHostName env s)) \<and> pv_log (snd (GetHostName env s)) = pv_log s"
  by (auto simp: GetHostName_def Let_def split: option.split res.split prod.split)

lemma nfs_log:
  assumes "writeNFSConfig env s = (r, s1)"
  shows "same_services s s1 \<and> (pv_log s1 = pv_log s \<or> (\<exists>content. pv_log s1 = pv_log s @ [Wrote ''/etc/exports'' content]))"
proof -
  obtain q t where h: "GetHostName env s = (q, t)" by fastforce
  have hl: "same_services s t" "pv_log t = pv_log s" using hostname_log [of s env] h by simp_all
  obtain l g where ls: "ListShares (sp_shares env) (pv_shares t) = (l, g)" by fastforce
  show ?thesis
  proof (cases q)
    case (Ok hostname)
    show ?thesis
    proof (cases l)
      case (Ok shares)
      obtain e u where w: "write_file env ''/etc/exports'' (nfs_exports (sp_disks env) hostname shares)
          (t\<lparr>pv_shares := g\<rparr>) = (e, u)" by fastforce
      have "s1 = u" using assms h \<open>q = Ok hostname\<close> ls Ok w
        by (cases e) (simp_all add: writeNFSConfig_def unit_of_def)
      then show ?thesis using write_file_log [OF w] hl by (auto simp: same_services_def)
    qed (use assms h Ok ls hl in \<open>auto simp: writeNFSConfig_def\<close>)
  qed (use assms h hl in \<open>auto simp: writeNFSConfig_def\<close>)
qed

lemma maybe_nfs_log:
  assumes "maybe_nfs env s = (r, s1)"
  shows "same_services s s1 \<and> (pv_log s1 = pv_log s \<or> (\<exists>content. pv_log s1 = pv_log s @ [Wrote ''/etc/exports'' content]))"
  using assms nfs_log [of env s r s1] by (auto simp: maybe_nfs_def split: if_splits)

section \<open>The commands of a restart\<close>

lemma restart_all_log:
  "\<exists>cmds. pv_log (snd (restart_all env dirt process services s)) = pv_log s @ map Ran cmds"
proof (induction services arbitrary: s)
  case (Cons p rest)
  obtain name cfg where p: "p = (name, cfg)" by fastforce
  let ?a = "choose_action env dirt process name cfg (pv_out s)"
  obtain out e s1 where r: "runCommandWithRunner env (action_id ?a @ name) (action_label ?a @ name)
      (action_command cfg ?a) s = ((out, e), s1)" by (metis prod.collapse)
  obtain cmds where c: "pv_log (snd (restart_all env dirt process rest s1)) = pv_log s1 @ map Ran cmds"
    using Cons.IH by blast
  show ?case
  proof (cases "?a = Leave")
    case True
    then show ?thesis using Cons.IH [of s] by (simp add: p)
  next
    case False
    have "pv_log s1 = pv_log s @ map Ran [] \<or> pv_log s1 = pv_log s @ map Ran [action_command cfg ?a]"
      using run_command_log(2) [OF r] by simp
    moreover have "snd (restart_all env dirt process (p # rest) s) =
        (if e = None then snd (restart_all env dirt process rest s1) else s1)"
      using False r by (cases e) (simp_all add: p Let_def)
    ultimately show ?thesis using c by (metis append.assoc map_append)
  qed
qed (simp add: exI [of _ "[]"])

text \<open>
  The services that are known, with NFS switched on or off. The command that a service is due, written
  out: \<open>pid\<close> is its entry in the process table and \<open>found\<close> tells which commands can be found.
\<close>

definition nfs_services :: "bool \<Rightarrow> (string, serviceConfig) gomap" where
  "nfs_services nfs = map (\<lambda>(name, cfg). (name, if name = ''nfsd'' then cfg\<lparr>sc_Managed := nfs\<rparr> else cfg)) serviceConfigMap"

definition s6 :: "string \<Rightarrow> string \<Rightarrow> string list" where
  "s6 option name = [''s6-svc'', option, ''/run/s6-rc/servicedirs/'' @ name]"

definition due_command ::
  "bool \<Rightarrow> tracker \<Rightarrow> (string \<Rightarrow> int option) \<Rightarrow> (string list \<Rightarrow> bool) \<Rightarrow> string \<Rightarrow> string list option" where
  "due_command nfs dirt pid found name =
     (let start = (\<lambda>c. if found c then Some c else None);
          shares_users = dt_Shares dirt \<or> dt_Users dirt
      in if name = ''smbd'' \<or> name = ''nmbd'' then
           (case pid name of
              None \<Rightarrow> start (s6 ''-uwU'' name)
            | Some p \<Rightarrow> if p \<le> 0 \<or> dt_Settings dirt then Some (s6 ''-rwR'' name)
                      else if shares_users then Some [''smbcontrol'', name, ''reload-config''] else None)
         else if name = ''wsddn'' then
           (case pid name of
              None \<Rightarrow> start (s6 ''-u'' name)
            | Some p \<Rightarrow> if p \<le> 0 \<or> dt_Settings dirt then Some (s6 ''-r'' name) else None)
         else if name = ''nfsd'' \<and> nfs then
           (case pid name of
              None \<Rightarrow> start (s6 ''-uwu'' name)
            | Some p \<Rightarrow> if p \<le> 0 \<or> dt_Settings dirt then Some (s6 ''-rwr'' name)
                      else if dt_Shares dirt then Some [''exportfs'', ''-rav''] else None)
         else None)"

lemma due_action:
  assumes "(name, cfg) \<in> set (nfs_services nfs)"
  shows "due_command nfs dirt (\<lambda>n. map_option ps_Pid (map_of process n)) (\<lambda>c. sp_CommandExists env c w) name =
     (case choose_action env dirt process name cfg w of Leave \<Rightarrow> None | a \<Rightarrow> Some (action_command cfg a))"
  using assms unfolding nfs_services_def serviceConfigMap_def list.map prod.case set_simps insert_iff empty_iff prod.inject
  by (elim disjE conjE FalseE; cases "map_of process name")
    (simp_all add: due_command_def choose_action_def action_command_def AndMask_def mask_def s6_def Let_def)

text \<open>The commands that are due, each look-up in the world of its time.\<close>

definition due_commands ::
  "('d, 'o, 'v) server_env \<Rightarrow> bool \<Rightarrow> tracker \<Rightarrow> (string \<Rightarrow> int option) \<Rightarrow> string list \<Rightarrow> 'v list \<Rightarrow> string list list" where
  "due_commands env nfs dirt pid names ws =
     List.map_filter (\<lambda>(name, w). due_command nfs dirt pid (\<lambda>c. sp_CommandExists env c w) name) (zip names ws)"

lemma restart_all_due:
  assumes "set services \<subseteq> set (nfs_services nfs)" "is_ok (fst (restart_all env dirt process services s))"
  shows "\<exists>ws. length ws = length services \<and> (services \<noteq> [] \<longrightarrow> hd ws = pv_out s)
    \<and> pv_log (snd (restart_all env dirt process services s)) = pv_log s
        @ map Ran (due_commands env nfs dirt (\<lambda>n. map_option ps_Pid (map_of process n)) (map fst services) ws)"
  using assms
proof (induction services arbitrary: s)
  case (Cons p rest)
  obtain name cfg where p: "p = (name, cfg)" by fastforce
  let ?a = "choose_action env dirt process name cfg (pv_out s)"
  have due: "due_command nfs dirt (\<lambda>n. map_option ps_Pid (map_of process n)) (\<lambda>c. sp_CommandExists env c (pv_out s)) name =
     (case ?a of Leave \<Rightarrow> None | a \<Rightarrow> Some (action_command cfg a))"
    using Cons.prems(1) p by (intro due_action) auto
  obtain out e s1 where r: "runCommandWithRunner env (action_id ?a @ name) (action_label ?a @ name)
      (action_command cfg ?a) s = ((out, e), s1)" by (metis prod.collapse)
  show ?case
  proof (cases "?a = Leave")
    case True
    then obtain ws where "length ws = length rest"
      "pv_log (snd (restart_all env dirt process rest s)) = pv_log s
        @ map Ran (due_commands env nfs dirt (\<lambda>n. map_option ps_Pid (map_of process n)) (map fst rest) ws)"
      using Cons.IH [of s] Cons.prems by (auto simp: p)
    then show ?thesis
      using True due by (intro exI [of _ "pv_out s # ws"]) (simp add: p due_commands_def List.map_filter_simps Let_def)
  next
    case False
    then have e: "e = None" using Cons.prems r by (cases e) (simp_all add: p Let_def)
    then obtain ws where "length ws = length rest"
      "pv_log (snd (restart_all env dirt process rest s1)) = pv_log s1
        @ map Ran (due_commands env nfs dirt (\<lambda>n. map_option ps_Pid (map_of process n)) (map fst rest) ws)"
      using Cons.IH [of s1] Cons.prems False r by (auto simp: p Let_def)
    then show ?thesis
      using False e due r run_command_log(3) [OF r]
      by (intro exI [of _ "pv_out s # ws"]; cases ?a) (simp_all add: p due_commands_def List.map_filter_simps Let_def)
  qed
qed (simp add: due_commands_def List.map_filter_simps)

text \<open>The services are the known ones from the start on; NFS is managed as the settings say.\<close>

lemma update_present:
  "distinct (map fst xs) \<Longrightarrow> k \<in> set (map fst xs)
   \<Longrightarrow> AList.update k v xs = map (\<lambda>(n, c). (n, if n = k then v else c)) xs"
proof (induction xs)
  case (Cons x xs)
  have "k \<notin> set (map fst xs) \<Longrightarrow> map (\<lambda>(n, c). (n, if n = k then v else c)) xs = xs"
    by (rule map_idI) (force simp: image_iff)
  then show ?case using Cons by (cases x) auto
qed simp

lemma services_from_start: "mset serviceConfigMap = mset (nfs_services False)"
  by (simp add: nfs_services_def serviceConfigMap_def)

lemma manage_nfsd_services:
  assumes "mset (pv_services s) = mset (nfs_services nfs)" "manage_nfsd env s = (Ok (), s1)"
  shows "\<exists>b. sg_HAUseNFS (fst (Load (ue_settings (sh_users (sp_shares env))) (sv_db (pv_shares s)))) = Some b
    \<and> mset (pv_services s1) = mset (nfs_services b)"
proof -
  have m: "mset (map fst (pv_services s)) = mset (map fst (nfs_services nfs))" using assms(1) by simp
  have d: "distinct (map fst (pv_services s))" "''nfsd'' \<in> set (map fst (pv_services s))"
    using mset_eq_imp_distinct_iff [OF m] mset_eq_setD [OF m] by (simp_all add: nfs_services_def serviceConfigMap_def)
  obtain cfg b where c: "map_of (pv_services s) ''nfsd'' = Some cfg"
    "sg_HAUseNFS (fst (Load (ue_settings (sh_users (sp_shares env))) (sv_db (pv_shares s)))) = Some b"
    "pv_services s1 = AList.update ''nfsd'' (cfg\<lparr>sc_Managed := b\<rparr>) (pv_services s)"
    using assms(2) by (auto simp: manage_nfsd_def split: prod.splits res.splits option.splits)
  have "(''nfsd'', cfg) \<in> set (nfs_services nfs)" using map_of_SomeD [OF c(1)] mset_eq_setD [OF assms(1)] by simp
  then have n: "map (\<lambda>(n, x). (n, if n = ''nfsd'' then cfg\<lparr>sc_Managed := b\<rparr> else x)) (nfs_services nfs) = nfs_services b"
    by (auto simp: nfs_services_def serviceConfigMap_def)
  have "mset (pv_services s1) = image_mset (\<lambda>(n, x). (n, if n = ''nfsd'' then cfg\<lparr>sc_Managed := b\<rparr> else x)) (mset (pv_services s))"
    by (simp add: c(3) update_present [OF d])
  also have "\<dots> = mset (nfs_services b)" unfolding assms(1) n [symmetric] by simp
  finally show ?thesis using c(2) by blast
qed

section \<open>A restart\<close>

definition testparm :: "string \<Rightarrow> server_effect" where
  "testparm conf = Ran [''testparm'', ''-s'', conf]"

text \<open>The files that are written before the test, and the test.\<close>

definition prepared ::
  "('d, 'o, 'v) server_env \<Rightarrow> ('d, 'o, 'v) server_state \<Rightarrow> unit res \<times> ('d, 'o, 'v) server_state" where
  "prepared env s = then_run (writeSambaConfig env s) (\<lambda>s1.
     then_run (writeSambaUsersMapConfig env s1) (testSambaConfig env))"

lemma then_run_assoc: "then_run (then_run out f) g = then_run out (\<lambda>s. then_run (f s) g)"
  by (simp add: then_run_def split: prod.split res.split)

lemma restart_as_prepared:
  "writeConfigsAndRestartServers env dirt s =
     then_run (prepared env s) (\<lambda>s3. then_run (maybe_nfs env s3) (restartServerServices env dirt))"
  by (simp add: writeConfigsAndRestartServers_def prepared_def then_run_assoc)

lemma then_run_ok: "is_ok r \<Longrightarrow> then_run (r, s) f = f s"
  by (cases r) (simp_all add: then_run_def)

lemma then_run_fail: "\<not> is_ok r \<Longrightarrow> then_run (r, s) f = (r, s)"
  by (cases r) (simp_all add: then_run_def)

lemmas then_run_simps = then_run_ok then_run_fail

definition quiet_effect :: "server_effect \<Rightarrow> bool" where
  "quiet_effect e \<longleftrightarrow> (\<exists>p c. e = Wrote p c) \<or> (\<exists>conf. e = testparm conf)"

lemma prepared_log:
  assumes "prepared env s = (r, s3)"
  shows "same_services s s3" "\<exists>pre. pv_log s3 = pv_log s @ pre \<and> list_all quiet_effect pre \<and>
     (is_ok r \<longrightarrow> (\<exists>ctx content users. pv_context s = Some ctx \<and>
        pre = Wrote (ct_SambaConfigFile ctx) content # users @ [testparm (ct_SambaConfigFile ctx)]
        \<and> (users = [] \<or> (\<exists>c. users = [Wrote sambaUsersMapFile c]))))"
proof -
  obtain r1 s1 where w: "writeSambaConfig env s = (r1, s1)" by fastforce
  obtain r2 s2 where m: "writeSambaUsersMapConfig env s1 = (r2, s2)" by fastforce
  obtain q t where t: "testSambaConfig env s2 = (q, t)" by fastforce
  note wl = samba_config_log [OF w] and ml = users_map_log [OF m] and tl = test_log [OF t]
  have "same_services s s3 \<and> (\<exists>pre. pv_log s3 = pv_log s @ pre \<and> list_all quiet_effect pre \<and>
     (is_ok r \<longrightarrow> (\<exists>ctx content users. pv_context s = Some ctx \<and>
        pre = Wrote (ct_SambaConfigFile ctx) content # users @ [testparm (ct_SambaConfigFile ctx)]
        \<and> (users = [] \<or> (\<exists>c. users = [Wrote sambaUsersMapFile c])))))"
  proof (cases "is_ok r1")
    case False
    then have "r = r1" "s3 = s1" using assms w by (simp_all add: prepared_def then_run_simps)
    then show ?thesis using wl False by auto
  next
    case True
    then obtain ctx content where ctx: "pv_context s = Some ctx"
      "pv_log s1 = pv_log s @ [Wrote (ct_SambaConfigFile ctx) content]" "same_services s s1" using wl by auto
    from ml obtain users where users: "pv_log s2 = pv_log s1 @ users"
      "users = [] \<or> (\<exists>c. users = [Wrote sambaUsersMapFile c])" "same_services s1 s2" by (metis append_Nil2)
    then have uq: "list_all quiet_effect users" by (auto simp: quiet_effect_def)
    have cq: "quiet_effect (Wrote p c)" "quiet_effect (testparm d)" for p c d by (auto simp: quiet_effect_def)
    show ?thesis
    proof (cases "is_ok r2")
      case False
      then have "r = r2" "s3 = s2" using assms w m True by (simp_all add: prepared_def then_run_simps)
      moreover have "same_services s s2" by (rule same_services_trans [OF ctx(3) users(3)])
      moreover have "pv_log s2 = pv_log s @ (Wrote (ct_SambaConfigFile ctx) content # users)"
        "list_all quiet_effect (Wrote (ct_SambaConfigFile ctx) content # users)"
        using ctx(2) users(1) uq cq by simp_all
      ultimately show ?thesis using False by blast
    next
      case ok2: True
      then have r: "r = q" "s3 = t" using assms w m True t by (simp_all add: prepared_def then_run_simps)
      have c2: "pv_context s2 = Some ctx" using ctx users(3) by (simp add: same_services_def)
      have s: "same_services s t" using ctx(3) users(3) tl(1) same_services_trans by blast
      show ?thesis
      proof (cases "is_ok q")
        case True
        then have "pv_log t = pv_log s @ Wrote (ct_SambaConfigFile ctx) content # users @ [testparm (ct_SambaConfigFile ctx)]"
          using tl(2) c2 users(1) ctx(2) by (simp add: testparm_def)
        then show ?thesis using r s ctx(1) users(2) uq cq by auto
      next
        case False
        from tl(1) c2 have "pv_log t = pv_log s2 @ [] \<or> pv_log t = pv_log s2 @ [testparm (ct_SambaConfigFile ctx)]"
          by (auto simp: testparm_def)
        then obtain x where "pv_log t = pv_log s2 @ x" "list_all quiet_effect x" using cq by auto
        then have "pv_log t = pv_log s @ (Wrote (ct_SambaConfigFile ctx) content # users @ x)"
          "list_all quiet_effect (Wrote (ct_SambaConfigFile ctx) content # users @ x)"
          using users(1) ctx(2) uq cq by simp_all
        then show ?thesis using r s False by blast
      qed
    qed
  qed
  then show "same_services s s3" "\<exists>pre. pv_log s3 = pv_log s @ pre \<and> list_all quiet_effect pre \<and>
     (is_ok r \<longrightarrow> (\<exists>ctx content users. pv_context s = Some ctx \<and>
        pre = Wrote (ct_SambaConfigFile ctx) content # users @ [testparm (ct_SambaConfigFile ctx)]
        \<and> (users = [] \<or> (\<exists>c. users = [Wrote sambaUsersMapFile c]))))" by blast+
qed

lemma restart_services_log:
  assumes "restartServerServices env dirt s = (r, s1)"
  shows "\<exists>cmds. pv_log s1 = pv_log s @ map Ran cmds @ (if is_ok r then [Announced] else [])"
proof -
  obtain q t where p: "GetServerProcesses env s = (q, t)" by fastforce
  have tl: "pv_log t = pv_log s" using p by (auto simp: GetServerProcesses_def Let_def split: res.splits)
  show ?thesis
  proof (cases q)
    case (Ok process)
    obtain x u where a: "restart_all env dirt process (pv_services t) t = (x, u)" by fastforce
    obtain cmds where "pv_log u = pv_log t @ map Ran cmds"
      using restart_all_log [of env dirt process "pv_services t" t] a by auto
    then show ?thesis using assms p Ok a tl by (cases x) (auto simp: restartServerServices_def)
  qed (use assms p tl in \<open>auto simp: restartServerServices_def intro: exI [of _ "[]"]\<close>)
qed

text \<open>C5: A restart writes the configuration, then has it tested, and only when the test has passed runs
  commands of services; it announces that the tracker is clean at the very end, exactly when every
  command succeeded; when the files cannot be written or the test fails, nothing but the writing and
  the test has happened.\<close>

theorem restart_after_test:
  "case writeConfigsAndRestartServers env dirt s of (res, s1) \<Rightarrow> \<exists>pre nfs cmds. pv_log s1 =
       pv_log s @ pre @ nfs @ map Ran cmds @ (if is_ok res then [Announced] else []) \<and>
     list_all quiet_effect pre \<and> (nfs = [] \<or> (\<exists>c. nfs = [Wrote ''/etc/exports'' c])) \<and>
     (if is_ok (fst (prepared env s))
      then \<exists>ctx content users. pv_context s = Some ctx \<and>
        pre = Wrote (ct_SambaConfigFile ctx) content # users @ [testparm (ct_SambaConfigFile ctx)]
      else nfs = [] \<and> cmds = [] \<and> \<not> is_ok res)"
proof -
  obtain res s1 where out: "writeConfigsAndRestartServers env dirt s = (res, s1)" by fastforce
  obtain r s3 where p: "prepared env s = (r, s3)" by fastforce
  obtain pre where pre: "pv_log s3 = pv_log s @ pre" "list_all quiet_effect pre"
    "is_ok r \<Longrightarrow> \<exists>ctx content users. pv_context s = Some ctx \<and>
        pre = Wrote (ct_SambaConfigFile ctx) content # users @ [testparm (ct_SambaConfigFile ctx)]"
    using prepared_log(2) [OF p] by blast
  show ?thesis
  proof (cases "is_ok r")
    case False
    then have "(res, s1) = (r, s3)" using out p by (simp add: restart_as_prepared then_run_simps)
    then show ?thesis using False pre(1,2) p
      unfolding out prod.case by (intro exI [of _ pre] exI [of _ "[]"]) simp
  next
    case True
    obtain q t where n: "maybe_nfs env s3 = (q, t)" by fastforce
    obtain nfs where nfs: "pv_log t = pv_log s3 @ nfs" "nfs = [] \<or> (\<exists>c. nfs = [Wrote ''/etc/exports'' c])"
      using maybe_nfs_log [OF n] by (metis append_Nil2)
    obtain x u where x: "restartServerServices env dirt t = (x, u)" by fastforce
    obtain cmds where cmds: "pv_log u = pv_log t @ map Ran cmds @ (if is_ok x then [Announced] else [])"
      using restart_services_log [OF x] by blast
    have res: "(res, s1) = (if is_ok q then (x, u) else (q, t))"
      using out p n x True by (cases "is_ok q") (simp_all add: restart_as_prepared then_run_simps)
    show ?thesis
    proof (cases "is_ok q")
      case True
      then show ?thesis using res cmds nfs pre p \<open>is_ok r\<close> unfolding out prod.case
        by (intro exI [of _ pre] exI [of _ nfs] exI [of _ cmds]) simp
    next
      case False
      then show ?thesis using res nfs pre p \<open>is_ok r\<close> unfolding out prod.case
        by (intro exI [of _ pre] exI [of _ nfs] exI [of _ "[]"]) simp
    qed
  qed
qed

text \<open>C28: A restart of the services that succeeds runs, in whatever order the services are visited and
  with NFS switched on or off, exactly the commands that the marks and the process table call for: a
  service that is not in the table is started when its command can be found, one whose process has
  no number is restarted; of the others the Samba ones are restarted for a change of the settings and
  made to reload their configuration for a change of the users or shares, the discovery daemon is restarted
  for the settings only, and the NFS server, when it is switched on, is restarted for the settings and exports
  again for the shares.\<close>

theorem restart_runs_chosen:
  assumes "restartServerServices env dirt s = (Ok (), s1)" and "mset (pv_services s) = mset (nfs_services nfs)"
  shows "\<exists>process ws. GetServerProcesses env s = (Ok process, s\<lparr>pv_status := process\<rparr>)
     \<and> length ws = length (pv_services s) \<and> hd ws = pv_out s
     \<and> pv_log s1 = pv_log s
         @ map Ran (due_commands env nfs dirt (\<lambda>n. map_option ps_Pid (map_of process n)) (map fst (pv_services s)) ws)
         @ [Announced]"
proof -
  obtain q t where p: "GetServerProcesses env s = (q, t)" by fastforce
  with assms(1) obtain process where q: "q = Ok process" by (cases q) (auto simp: restartServerServices_def)
  with p have t: "t = s\<lparr>pv_status := process\<rparr>"
    by (auto simp: GetServerProcesses_def Let_def split: res.splits)
  obtain x u where a: "restart_all env dirt process (pv_services t) t = (x, u)" by fastforce
  with assms(1) p q have x: "x = Ok ()" "s1 = logged Announced u"
    by (cases x; simp add: restartServerServices_def)+
  have known: "set (pv_services t) \<subseteq> set (nfs_services nfs)" using mset_eq_setD [OF assms(2)] by (simp add: t)
  have "pv_services s \<noteq> []" using assms(2) by (auto simp: nfs_services_def serviceConfigMap_def)
  then show ?thesis using restart_all_due [OF known, of env dirt process t] a x p q by (auto simp: t)
qed

section \<open>The tracker\<close>

text \<open>How the announcements reach the dirty data service.\<close>

definition deliver :: "server_effect list \<Rightarrow> dirty_state \<Rightarrow> dirty_state" where
  "deliver = fold (\<lambda>e p. if e = Announced then resetDirtyStatus p else p)"

lemma deliver_quiet: "Announced \<notin> set l \<Longrightarrow> deliver l p = p"
  by (induction l arbitrary: p) (auto simp: deliver_def)

lemma deliver_append: "deliver (l @ m) p = deliver m (deliver l p)"
  by (simp add: deliver_def)

lemma quiet_not_announced: "list_all quiet_effect l \<Longrightarrow> Announced \<notin> set l"
  by (auto simp: list_all_iff quiet_effect_def testparm_def)

lemma restart_announces:
  assumes "writeConfigsAndRestartServers env dirt s = (r, s1)"
  shows "\<exists>l. pv_log s1 = pv_log s @ l @ (if is_ok r then [Announced] else []) \<and> Announced \<notin> set l"
proof -
  obtain q s3 where p: "prepared env s = (q, s3)" by fastforce
  obtain pre where pre: "pv_log s3 = pv_log s @ pre" "Announced \<notin> set pre"
    using prepared_log(2) [OF p] quiet_not_announced by blast
  show ?thesis
  proof (cases "is_ok q")
    case False
    then have "(r, s1) = (q, s3)" using assms p by (simp add: restart_as_prepared then_run_simps)
    then show ?thesis using False pre by auto
  next
    case True
    obtain y t where n: "maybe_nfs env s3 = (y, t)" by fastforce
    obtain nfs where nfs: "pv_log t = pv_log s3 @ nfs" "Announced \<notin> set nfs"
      using maybe_nfs_log [OF n] by (metis append_Nil2 empty_iff insert_iff list.set(1) list.set(2) server_effect.distinct(3))
    obtain x u where x: "restartServerServices env dirt t = (x, u)" by fastforce
    obtain cmds where cmds: "pv_log u = pv_log t @ map Ran cmds @ (if is_ok x then [Announced] else [])"
      using restart_services_log [OF x] by blast
    show ?thesis
    proof (cases "is_ok y")
      case True
      then have "(r, s1) = (x, u)" using assms p n x \<open>is_ok q\<close> by (simp add: restart_as_prepared then_run_simps)
      then show ?thesis using cmds nfs pre by (intro exI [of _ "pre @ nfs @ map Ran cmds"]) auto
    next
      case False
      then have "\<not> is_ok r" "s1 = t" using assms p n \<open>is_ok q\<close> by (auto simp: restart_as_prepared then_run_simps)
      then show ?thesis using nfs pre by (intro exI [of _ "pre @ nfs"]) auto
    qed
  qed
qed

lemma reset_clean: "IsClean (resetDirtyStatus p)"
  by (simp add: IsClean_def resetDirtyStatus_def zero_tracker_def)

text \<open>C6: When the debounced restart is due, the tracker is clean after it if it succeeds; if it fails, at
  whatever step, every mark is still there.\<close>

theorem restart_cleans_tracker:
  "case on_dirty_data env (RESTART dirt) s of (res, s') \<Rightarrow> \<exists>l. pv_log s' = pv_log s @ l \<and>
     (if is_ok res then IsClean (deliver l p) else deliver l p = p)"
proof -
  obtain q t where m: "(if dt_Settings dirt then manage_nfsd env s else (Ok (), s)) = (q, t)" by fastforce
  have tl: "pv_log t = pv_log s"
    using m by (auto simp: manage_nfsd_def split: if_splits prod.splits res.splits option.splits)
  show ?thesis
  proof (cases "is_ok q")
    case False
    then have "on_dirty_data env (RESTART dirt) s = (q, t)" using m by (simp add: on_dirty_data_def then_run_simps)
    then show ?thesis using False tl by (simp only: prod.case, intro exI [of _ "[]"]) (simp add: deliver_def)
  next
    case True
    obtain r s1 where w: "writeConfigsAndRestartServers env dirt t = (r, s1)" by fastforce
    have out: "on_dirty_data env (RESTART dirt) s = (r, s1)" using m w True by (simp add: on_dirty_data_def then_run_simps)
    obtain l where l: "pv_log s1 = pv_log t @ l @ (if is_ok r then [Announced] else [])" "Announced \<notin> set l"
      using restart_announces [OF w] by blast
    show ?thesis
      using l tl deliver_quiet [OF l(2), of p] reset_clean [of p] unfolding out prod.case
      by (intro exI [of _ "l @ (if is_ok r then [Announced] else [])"])
        (simp add: deliver_append, simp add: deliver_def)
  qed
qed

section \<open>What goes wrong\<close>

text \<open>
  A process that is gone stays in the status table with its old number, so the service is reloaded
  or left alone and never started again.
\<close>

lemma dead_process_stays:
  assumes "sp_Processes env (pv_out s) = Ok []"
  shows "GetServerProcesses env s = (Ok (pv_status s), s)"
  using assms by (simp add: GetServerProcesses_def)

lemma dead_process_never_started:
  assumes "sp_Processes env (pv_out s) = Ok []" "map_of (pv_status s) name = Some st" "ps_Pid st > 0"
    and "GetServerProcesses env s = (Ok process, s1)"
  shows "choose_action env dirt process name cfg w \<noteq> Start"
proof -
  have "process = pv_status s" using assms(4) dead_process_stays [OF assms(1)] by auto
  then show ?thesis using assms(2,3) by (simp add: choose_action_def)
qed

text \<open>Without an IPv4 address on the Docker interface the configuration cannot be written any more.\<close>

lemma docker_without_ipv4:
  assumes "ct_DisableIPv6 ctx" "\<not> (\<exists>addrs a b. ne_addrs ne (ct_DockerInterface ctx) = Ok addrs \<and>
      Some a \<in> set addrs \<and> To4 a = Some b \<and> \<not> (b ! 0 = 169 \<and> b ! 1 = 254))"
  shows "with_addresses ne ctx c = Panic"
proof -
  have "usable_of ne (ct_DockerInterface ctx) = {}" using assms(2) by (fastforce simp: usable_of_def usable_iff)
  then have "ResolveInterfaceIPv4s ne [ct_DockerInterface ctx] = []"
    using add_interfaces [of "[]" ne "[ct_DockerInterface ctx]"] by (simp add: ResolveInterfaceIPv4s_def)
  then show ?thesis using assms(1) by (simp add: with_addresses_def)
qed

text \<open>A service that is no longer managed is not stopped.\<close>

lemma unmanaged_left: "\<not> sc_Managed cfg \<Longrightarrow> choose_action env dirt process name cfg w = Leave"
  by (simp add: choose_action_def)

text \<open>
  A change takes two steps, the mark and the timer. When the restart that is running announces that
  the tracker is clean in between, the mark is gone and the restart that follows does not have it.
\<close>

lemma mark_during_restart_lost:
  "emitted (timer_callback t (startTimer (deliver [Announced] (p\<lparr>dirty := (dirty p)\<lparr>dt_Shares := True\<rparr>\<rparr>))))
     = emitted p @ [(now p, START zero_tracker), (now p, RESTART zero_tracker)]"
  by (simp add: deliver_def resetDirtyStatus_def)

text \<open>The upper bound of the minor version is not looked at when the major version is the same.\<close>

lemma versionBetween_above: "versionBetween ''4.30'' 4 22 4 25"
  by (simp add: versionBetween_def versionAtLeast_def Atoi_def digit_val_def wrap64_def)

section \<open>A small server\<close>

definition sample_output :: snapshot where
  "sample_output = \<lparr>sn_id = [], sn_command_id = [], sn_label = [], sn_command = [], sn_args = [], sn_started = 0,
     sn_finished = 0, sn_running = False, sn_exit = 0, sn_success = True, sn_error = [], sn_lines = []\<rparr>"

definition sample_server_env ::
  "((string \<times> samba_row \<times> bool) list, unit, string list) server_env" where
  "sample_server_env = \<lparr>sp_shares = sample_share_env, sp_SetDefaults = (\<lambda>c. c),
     sp_Render = (\<lambda>c v b t. Ok t), sp_net = \<lparr>ne_addrs = (\<lambda>n. Ok [])\<rparr>, sp_disks = None,
     sp_WriteFile = (\<lambda>p c w. (None, w)), sp_MkdirAll = (\<lambda>p w. (None, w)), sp_Stat = (\<lambda>p w. True),
     sp_Lstat = (\<lambda>p w. NoFile), sp_Remove = (\<lambda>p w. (None, w)), sp_Symlink = (\<lambda>t l w. (None, w)),
     sp_Execute = Some (\<lambda>i l args w. ((sample_output, None), w)), sp_CommandExists = (\<lambda>c w. True),
     sp_Processes = (\<lambda>w. Ok [OsProcess 7 (Some ''smbd'') (Some ''s6-supervise'') (Ok 5000) (Ok 0) (Ok 0)
        (Ok 3) (Ok 1) (Ok [''sleep'']) (Ok True) (Ok [])]),
     sp_Pid = 1, sp_internal = [], sp_HostInfo = None,
     sp_Unmarshal = (\<lambda>t. Err (E ErrorOther [])), sp_now = (\<lambda>w. 0)\<rparr>"

definition sample_server_state ::
  "((string \<times> samba_row \<times> bool) list, unit, string list) server_state" where
  "sample_server_state = \<lparr>pv_shares = sample_share_state, pv_context = None, pv_services = serviceConfigMap,
     pv_status = [], pv_hostname = None, pv_samba_status = None, pv_log = []\<rparr>"

lemma sample_services: "pv_services sample_server_state = serviceConfigMap"
  by (simp add: sample_server_state_def)

lemma sample_runs:
  assumes "args \<noteq> []"
  shows "snd (fst (runCommandWithRunner sample_server_env i l args s)) = None"
  using assms by (simp add: runCommandWithRunner_def sample_server_env_def)

lemma sample_restart_all:
  "\<forall>(name, cfg) \<in> set services. \<forall>a. a \<noteq> Leave \<longrightarrow> action_command cfg a \<noteq> [] \<Longrightarrow>
   is_ok (fst (restart_all sample_server_env dirt process services s))"
proof (induction services arbitrary: s)
  case (Cons p rest)
  obtain name cfg where p: "p = (name, cfg)" by fastforce
  let ?a = "choose_action sample_server_env dirt process name cfg (pv_out s)"
  obtain out e s1 where r: "runCommandWithRunner sample_server_env (action_id ?a @ name) (action_label ?a @ name)
      (action_command cfg ?a) s = ((out, e), s1)" by (metis prod.collapse)
  have "is_ok (fst (restart_all sample_server_env dirt process rest t))" for t
    using Cons by simp
  moreover have "e = None" if "?a \<noteq> Leave"
  proof -
    have "action_command cfg ?a \<noteq> []" using Cons.prems that p by simp
    from sample_runs [OF this, of "action_id ?a @ name" "action_label ?a @ name" s] show ?thesis using r by simp
  qed
  ultimately show ?case using r by (simp add: p Let_def)
qed simp

lemma restart_runs_chosen_witness:
  "\<exists>s1. restartServerServices sample_server_env (mask True False False) sample_server_state = (Ok (), s1) \<and>
     Ran [''smbcontrol'', ''smbd'', ''reload-config''] \<in> set (pv_log s1)"
proof -
  let ?st = "ProcessStatus 7 ''smbd'' 5 0 0 3 1 [''sleep''] True []"
  have p: "GetServerProcesses sample_server_env sample_server_state =
      (Ok [(''smbd'', ?st)], sample_server_state\<lparr>pv_status := [(''smbd'', ?st)]\<rparr>)"
    by (simp add: GetServerProcesses_def sample_server_env_def sample_server_state_def note_process_def
        serviceConfigMap_def ask_def map_res_def go_div_def Let_def)
  let ?t = "sample_server_state\<lparr>pv_status := [(''smbd'', ?st)]\<rparr>"
  obtain x s2 where ra0: "restart_all sample_server_env (mask True False False) [(''smbd'', ?st)] serviceConfigMap ?t = (x, s2)"
    by fastforce
  moreover have "is_ok (fst (restart_all sample_server_env (mask True False False) [(''smbd'', ?st)] serviceConfigMap ?t))"
    by (rule sample_restart_all) (simp add: serviceConfigMap_def action_command_def split: service_action.split)
  ultimately have ra: "restart_all sample_server_env (mask True False False) [(''smbd'', ?st)] serviceConfigMap ?t = (Ok (), s2)"
    by (cases x) simp_all
  have "pv_services ?t = serviceConfigMap" by (simp add: sample_server_state_def)
  then obtain s1 where s1: "restartServerServices sample_server_env (mask True False False) sample_server_state = (Ok (), s1)"
    using p ra by (simp add: restartServerServices_def)
  have "mset (pv_services sample_server_state) = mset (nfs_services False)"
    unfolding sample_services by (rule services_from_start)
  from restart_runs_chosen [OF s1 this] obtain process ws where
    "GetServerProcesses sample_server_env sample_server_state = (Ok process, sample_server_state\<lparr>pv_status := process\<rparr>)"
    and ws: "length ws = length serviceConfigMap"
    and log: "pv_log s1 = pv_log sample_server_state @
       map Ran (due_commands sample_server_env False (mask True False False) (\<lambda>n. map_option ps_Pid (map_of process n))
         (map fst serviceConfigMap) ws) @ [Announced]"
    unfolding sample_services by blast
  then have pr: "process = [(''smbd'', ?st)]" using p by simp
  obtain w rest where "ws = w # rest" using ws by (cases ws) (auto simp: serviceConfigMap_def)
  then have "[''smbcontrol'', ''smbd'', ''reload-config''] \<in>
      set (due_commands sample_server_env False (mask True False False) (\<lambda>n. map_option ps_Pid (map_of process n))
        (map fst serviceConfigMap) ws)"
    by (simp add: due_commands_def serviceConfigMap_def List.map_filter_simps due_command_def mask_def pr Let_def)
  then show ?thesis using s1 log by auto
qed

end
