(* ===== verification/Supervisor.thy ===== *)
theory Supervisor
  imports Server_Process
begin

text \<open>
  The supervisor service (\<open>service/supervisor_service.go\<close>, with
  \<open>converter/ha_supervisor_to_dto_conv_gen.go\<close>): Home Assistant mounts the shares it uses as media,
  backup or share storage, and this service makes the mounts of Home Assistant follow the shares.

  The client of the supervisor is a parameter that answers with a status code; its mounts are part of
  the outside world. An answer that is not nil and has status 200 carries its data. A share that is
  handed over comes from the share service, so its partition is the one the disk cache knows.
\<close>

section \<open>Data\<close>

record ha_mount =
  hm_Name :: "string option"
  hm_Password :: "string option"
  hm_Path :: "string option"
  hm_Port :: "int option"
  hm_ReadOnly :: "bool option"
  hm_Server :: "string option"
  hm_Share :: "string option"
  hm_State :: "string option"
  hm_Type :: "string option"
  hm_Usage :: "string option"
  hm_Username :: "string option"

definition zero_ha_mount :: ha_mount where
  "zero_ha_mount = \<lparr>hm_Name = None, hm_Password = None, hm_Path = None, hm_Port = None, hm_ReadOnly = None,
     hm_Server = None, hm_Share = None, hm_State = None, hm_Type = None, hm_Usage = None, hm_Username = None\<rparr>"

record 'v mount_client =
  mc_Get :: "'v \<Rightarrow> (int \<times> ha_mount list) res"
  mc_Create :: "ha_mount \<Rightarrow> 'v \<Rightarrow> int res \<times> 'v"
  mc_Update :: "string \<Rightarrow> ha_mount \<Rightarrow> 'v \<Rightarrow> int res \<times> 'v"
  mc_Remove :: "string \<Rightarrow> 'v \<Rightarrow> int res \<times> 'v"

record ('d, 'o, 'v) sup_env =
  su_shares :: "('d, 'o, 'v) share_env"
  su_context :: context_state
  su_client :: "'v mount_client option"
  su_disks :: DiskMap

text \<open>The state of the shares and the errors that were announced to Home Assistant.\<close>

record ('d, 'o, 'v) sup_state =
  sq_shares :: "('d, 'o, 'v) share_state"
  sq_errors :: "(string \<times> err) list"

abbreviation sq_out :: "('d, 'o, 'v) sup_state \<Rightarrow> 'v" where
  "sq_out s \<equiv> sv_out (sq_shares s)"

definition put_out :: "'v \<Rightarrow> ('d, 'o, 'v) sup_state \<Rightarrow> ('d, 'o, 'v) sup_state" where
  "put_out w s = s\<lparr>sq_shares := (sq_shares s)\<lparr>sv_out := w\<rparr>\<rparr>"

definition sup_err :: "string \<Rightarrow> 'a res" where
  "sup_err m = Err (E ErrorOther m)"

section \<open>The mounts of Home Assistant\<close>

fun own_mounts :: "string \<Rightarrow> ha_mount list \<Rightarrow> (string, ha_mount) gomap \<Rightarrow> (string, ha_mount) gomap res" where
  "own_mounts ip [] m = Ok m"
| "own_mounts ip (x # xs) m =
     (case hm_Server x of
        None \<Rightarrow> Panic
      | Some server \<Rightarrow>
          if server = ip then (case hm_Name x of None \<Rightarrow> Panic | Some n \<Rightarrow> own_mounts ip xs (AList.update n x m))
          else own_mounts ip xs m)"

definition NetworkGetAllMounted :: "('d, 'o, 'v) sup_env \<Rightarrow> 'v \<Rightarrow> (string, ha_mount) gomap res" where
  "NetworkGetAllMounted env w =
     (if \<not> ct_HACoreReady (su_context env) then sup_err ''HA Core is not ready''
      else if ct_SupervisorURL (su_context env) = ''demo'' then Ok []
      else case su_client env of
             None \<Rightarrow> Panic
           | Some c \<Rightarrow>
               (case mc_Get c w of
                  Err e \<Rightarrow> Err e
                | Panic \<Rightarrow> Panic
                | Ok (code, ms) \<Rightarrow>
                    if code \<noteq> 200 then sup_err ''Error getting mounts from ha_supervisor''
                    else own_mounts (ct_AddonIpAddress (su_context env)) ms []))"

section \<open>Mounting\<close>

definition SharedResourceToMount :: "shared_resource \<Rightarrow> ha_mount \<Rightarrow> ha_mount" where
  "SharedResourceToMount source target = target
     \<lparr>hm_Name := (if sr_Name source \<noteq> [] then Some (sr_Name source) else hm_Name target),
      hm_Share := (if sr_Name source \<noteq> [] then Some (sr_Name source) else hm_Share target),
      hm_Usage := (if sr_Usage source \<noteq> UsageOther [] then Some (usage_string (sr_Usage source))
                   else hm_Usage target)\<rparr>"

definition nfs_path :: "('d, 'o, 'v) sup_env \<Rightarrow> shared_resource \<Rightarrow> string" where
  "nfs_path env share =
     (let part = (case sr_MountPointData share of
            None \<Rightarrow> None
          | Some md \<Rightarrow> map_option fst (GetPartitionByID (su_disks env) (TrimSpace (mp_DeviceId md))));
          path = resolveActualMountPointPath (sr_MountPointData share) part
      in if path = [] then sr_Name share else path)"

definition as_nfs :: "string \<Rightarrow> ha_mount \<Rightarrow> ha_mount" where
  "as_nfs path m = m\<lparr>hm_Type := Some ''nfs'', hm_Path := Some path, hm_Username := None, hm_Password := None\<rparr>"

definition as_cifs :: "string \<Rightarrow> ha_mount \<Rightarrow> ha_mount" where
  "as_cifs password m =
     m\<lparr>hm_Type := Some ''cifs'', hm_Username := Some ''_ha_mount_user_'', hm_Password := Some password\<rparr>"

text \<open>The error text of a refused creation names the mount.\<close>

definition refused :: "ha_mount \<Rightarrow> unit res" where
  "refused m = (case hm_Name m of None \<Rightarrow> Panic | Some n \<Rightarrow> sup_err (''Error creating mount '' @ n))"

definition create_mount ::
  "'v mount_client \<Rightarrow> string \<Rightarrow> ha_mount \<Rightarrow> 'v \<Rightarrow> unit res \<times> 'v" where
  "create_mount c name m w =
     (case mc_Create c m w of
        (Err e, w1) \<Rightarrow> (Err e, w1)
      | (Panic, w1) \<Rightarrow> (Panic, w1)
      | (Ok code, w1) \<Rightarrow>
          if code = 200 then (Ok (), w1)
          else if code \<noteq> 400 then (refused m, w1)
          else (case mc_Remove c name w1 of
                  (Panic, w2) \<Rightarrow> (Panic, w2)
                | (Err e, w2) \<Rightarrow> (refused m, w2)
                | (Ok removed, w2) \<Rightarrow>
                    if removed \<noteq> 200 then (refused m, w2)
                    else (case mc_Create c m w2 of
                            (Err e, w3) \<Rightarrow> (Err e, w3)
                          | (Panic, w3) \<Rightarrow> (Panic, w3)
                          | (Ok again, w3) \<Rightarrow> if again = 200 then (Ok (), w3) else (refused m, w3))))"

text \<open>A mount that is there is brought up to date when this finds a difference; a nil field panics.\<close>

definition outdated :: "bool \<Rightarrow> shared_resource \<Rightarrow> ha_mount \<Rightarrow> bool res" where
  "outdated useNfs share m =
     (case hm_Usage m of
        None \<Rightarrow> Panic
      | Some u \<Rightarrow>
          if usage_string (sr_Usage share) \<noteq> u then Ok True
          else (case hm_State m of
                  None \<Rightarrow> Panic
                | Some st \<Rightarrow>
                    if st \<noteq> ''active'' then Ok True
                    else (case hm_Type m of
                            None \<Rightarrow> Panic
                          | Some ty \<Rightarrow> Ok ((useNfs \<and> ty = ''cifs'') \<or> (\<not> useNfs \<and> ty = ''nfs'')))))"

definition mount_settings :: "('d, 'o, 'v) sup_env \<Rightarrow> 'd \<Rightarrow> (string \<times> bool) res" where
  "mount_settings env d =
     (case Load (ue_settings (sh_users (su_shares env))) d of
        (_, Err e) \<Rightarrow> Err e
      | (_, Panic) \<Rightarrow> Panic
      | (setting, Ok _) \<Rightarrow>
          (case sg_HAUseNFS setting of
             None \<Rightarrow> sup_err ''value is nil''
           | Some b \<Rightarrow> Ok (sg_HASmbPassword setting, b)))"

fun networkMountShareWithRetry ::
  "('d, 'o, 'v) sup_env \<Rightarrow> 'd \<Rightarrow> shared_resource \<Rightarrow> nat \<Rightarrow> 'v \<Rightarrow> unit res \<times> 'v" where
  "networkMountShareWithRetry env d share0 0 w = (sup_err ''Exceeded maximum retries'', w)"
| "networkMountShareWithRetry env d share0 (Suc retries) w =
     (if \<not> ct_HACoreReady (su_context env) then (sup_err ''HA Core is not ready'', w)
      else case NetworkGetAllMounted env w of
        Err e \<Rightarrow> (Err e, w)
      | Panic \<Rightarrow> (Panic, w)
      | Ok mounts \<Rightarrow>
      (case mount_settings env d of
        Err e \<Rightarrow> (Err e, w)
      | Panic \<Rightarrow> (Panic, w)
      | Ok (password, useNfs) \<Rightarrow>
      (let share = enrichSharePartitionFromCache share0 (su_disks env);
           nfs = useNfs \<and> isShareNFSExportable share in
       case map_of mounts (sr_Name share) of
         None \<Rightarrow>
           (let m = (SharedResourceToMount share zero_ha_mount)
                      \<lparr>hm_Server := Some (ct_AddonIpAddress (su_context env))\<rparr>;
                m1 = (if nfs then as_nfs (TrimPrefix (nfs_path env share) ''/mnt/'') m else as_cifs password m)
            in case su_client env of None \<Rightarrow> (Panic, w) | Some c \<Rightarrow> create_mount c (sr_Name share) m1 w)
       | Some old \<Rightarrow>
           (case outdated useNfs share old of
              Err e \<Rightarrow> (Err e, w)
            | Panic \<Rightarrow> (Panic, w)
            | Ok False \<Rightarrow> (Ok (), w)
            | Ok True \<Rightarrow>
                (let m = SharedResourceToMount share old;
                     m1 = (if nfs then as_nfs (nfs_path env share) m else as_cifs password m)
                 in case (su_client env, hm_Name m1) of
                      (Some c, Some name) \<Rightarrow>
                        (case mc_Update c name m1 w of
                           (Err e, w1) \<Rightarrow> (Err e, w1)
                         | (Panic, w1) \<Rightarrow> (Panic, w1)
                         | (Ok code, w1) \<Rightarrow>
                             if code = 200 then (Ok (), w1)
                             else if code \<noteq> 400 then (sup_err ''Error updating mount'', w1)
                             else (case mc_Remove c (sr_Name share) w1 of
                                     (Panic, w2) \<Rightarrow> (Panic, w2)
                                   | (Err e, w2) \<Rightarrow> (sup_err ''Error updating mount'', w2)
                                   | (Ok removed, w2) \<Rightarrow>
                                       if removed = 200 then networkMountShareWithRetry env d share retries w2
                                       else (sup_err ''Error updating mount'', w2)))
                    | _ \<Rightarrow> (Panic, w))))))"

definition NetworkMountShare ::
  "('d, 'o, 'v) sup_env \<Rightarrow> 'd \<Rightarrow> shared_resource \<Rightarrow> 'v \<Rightarrow> unit res \<times> 'v" where
  "NetworkMountShare env d share w = networkMountShareWithRetry env d share 3 w"

section \<open>Unmounting\<close>

definition NetworkUnmountShare :: "('d, 'o, 'v) sup_env \<Rightarrow> string \<Rightarrow> 'v \<Rightarrow> unit res \<times> 'v" where
  "NetworkUnmountShare env shareName w =
     (if \<not> ct_HACoreReady (su_context env) then (sup_err ''HA Core is not ready'', w)
      else case NetworkGetAllMounted env w of
             Err e \<Rightarrow> (Err e, w)
           | Panic \<Rightarrow> (Panic, w)
           | Ok mounts \<Rightarrow>
               if map_of mounts shareName = None then (Ok (), w)
               else (case su_client env of
                       None \<Rightarrow> (Panic, w)
                     | Some c \<Rightarrow>
                         (case mc_Remove c shareName w of
                            (Err e, w1) \<Rightarrow> (Err e, w1)
                          | (Panic, w1) \<Rightarrow> (Panic, w1)
                          | (Ok code, w1) \<Rightarrow>
                              if code = 200 then (Ok (), w1)
                              else (sup_err (''Error unmounting share '' @ shareName), w1))))"

section \<open>All shares\<close>

definition wants_ha_mount :: "shared_resource \<Rightarrow> bool" where
  "wants_ha_mount share \<longleftrightarrow> sr_Disabled share \<noteq> Some True \<and> is_ha_usage (sr_Usage share)"

text \<open>One after the other; an error is logged and the next share follows, a panic ends it.\<close>

fun for_each :: "('a \<Rightarrow> 'v \<Rightarrow> unit res \<times> 'v) \<Rightarrow> 'a list \<Rightarrow> 'v \<Rightarrow> unit res \<times> 'v" where
  "for_each f [] w = (Ok (), w)"
| "for_each f (x # xs) w = (case f x w of (Panic, w1) \<Rightarrow> (Panic, w1) | (_, w1) \<Rightarrow> for_each f xs w1)"

definition mount_valid :: "('d, 'o, 'v) sup_env \<Rightarrow> 'd \<Rightarrow> shared_resource \<Rightarrow> 'v \<Rightarrow> unit res \<times> 'v" where
  "mount_valid env d share w =
     (if sr_Disabled share = Some True then (Ok (), w)
      else case sr_Status share of
             None \<Rightarrow> (Panic, w)
           | Some st \<Rightarrow>
               if ss_IsValid st \<and> is_ha_usage (sr_Usage share) then NetworkMountShare env d share w
               else (Ok (), w))"

definition keep_wanted :: "shared_resource list \<Rightarrow> (string, ha_mount) gomap \<Rightarrow> (string, ha_mount) gomap" where
  "keep_wanted shares mounts = fold (\<lambda>sr m. if wants_ha_mount sr then AList.delete (sr_Name sr) m else m) shares mounts"

definition networkUnmountLostShares ::
  "('d, 'o, 'v) sup_env \<Rightarrow> ('d, 'o, 'v) share_state \<Rightarrow> unit res \<times> ('d, 'o, 'v) share_state" where
  "networkUnmountLostShares env s =
     (case ListShares (su_shares env) s of
        (Err e, s1) \<Rightarrow> (Err e, s1)
      | (Panic, s1) \<Rightarrow> (Panic, s1)
      | (Ok shares, s1) \<Rightarrow>
          if \<not> ct_HACoreReady (su_context env) then (Ok (), s1)
          else (case NetworkGetAllMounted env (sv_out s1) of
                  Err e \<Rightarrow> (Err e, s1)
                | Panic \<Rightarrow> (Panic, s1)
                | Ok mounts \<Rightarrow>
                    (case for_each (NetworkUnmountShare env) (keys (keep_wanted shares mounts)) (sv_out s1) of
                       (r, w) \<Rightarrow> (r, s1\<lparr>sv_out := w\<rparr>))))"

definition NetworkMountAllShares ::
  "('d, 'o, 'v) sup_env \<Rightarrow> ('d, 'o, 'v) share_state \<Rightarrow> unit res \<times> ('d, 'o, 'v) share_state" where
  "NetworkMountAllShares env s =
     (if \<not> ct_HACoreReady (su_context env) then (Ok (), s)
      else case ListShares (su_shares env) s of
             (Err e, s1) \<Rightarrow> (Err e, s1)
           | (Panic, s1) \<Rightarrow> (Panic, s1)
           | (Ok shares, s1) \<Rightarrow>
               if ct_AddonIpAddress (su_context env) = [] then (Ok (), s1)
               else (case for_each (mount_valid env (sv_db s1)) shares (sv_out s1) of
                       (Panic, w) \<Rightarrow> (Panic, s1\<lparr>sv_out := w\<rparr>)
                     | (_, w) \<Rightarrow>
                         (case networkUnmountLostShares env (s1\<lparr>sv_out := w\<rparr>) of
                            (Panic, s2) \<Rightarrow> (Panic, s2)
                          | (_, s2) \<Rightarrow> (Ok (), s2))))"

text \<open>The error of the last share that is wanted is the answer.\<close>

fun unmount_each ::
  "('d, 'o, 'v) sup_env \<Rightarrow> shared_resource list \<Rightarrow> unit res \<Rightarrow> 'v \<Rightarrow> unit res \<times> 'v" where
  "unmount_each env [] r w = (r, w)"
| "unmount_each env (x # xs) r w =
     (if wants_ha_mount x then
        (case NetworkUnmountShare env (sr_Name x) w of
           (Panic, w1) \<Rightarrow> (Panic, w1)
         | (r1, w1) \<Rightarrow> unmount_each env xs r1 w1)
      else unmount_each env xs r w)"

definition NetworkUnmountAllShares ::
  "('d, 'o, 'v) sup_env \<Rightarrow> ('d, 'o, 'v) share_state \<Rightarrow> unit res \<times> ('d, 'o, 'v) share_state" where
  "NetworkUnmountAllShares env s =
     (case ListShares (su_shares env) s of
        (Err e, s1) \<Rightarrow> (Err e, s1)
      | (Panic, s1) \<Rightarrow> (Panic, s1)
      | (Ok shares, s1) \<Rightarrow>
          (case unmount_each env shares (Ok ()) (sv_out s1) of (r, w) \<Rightarrow> (r, s1\<lparr>sv_out := w\<rparr>)))"

section \<open>Events\<close>

definition report_share_error ::
  "string \<Rightarrow> unit res \<times> ('d, 'o, 'v) share_state \<Rightarrow> ('d, 'o, 'v) sup_state \<Rightarrow> unit res \<times> ('d, 'o, 'v) sup_state" where
  "report_share_error caption out s =
     (case out of
        (Err e, h) \<Rightarrow> (Err e, s\<lparr>sq_shares := h, sq_errors := sq_errors s @ [(caption, e)]\<rparr>)
      | (r, h) \<Rightarrow> (r, s\<lparr>sq_shares := h\<rparr>))"

definition on_server_process ::
  "('d, 'o, 'v) sup_env \<Rightarrow> bool \<Rightarrow> ('d, 'o, 'v) sup_state \<Rightarrow> unit res \<times> ('d, 'o, 'v) sup_state" where
  "on_server_process env clean s =
     (if clean then report_share_error ''Error mounting HA storage shares'' (NetworkMountAllShares env (sq_shares s)) s
      else (Ok (), s))"

definition on_home_assistant ::
  "('d, 'o, 'v) sup_env \<Rightarrow> bool \<Rightarrow> bool \<Rightarrow> ('d, 'o, 'v) sup_state \<Rightarrow> unit res \<times> ('d, 'o, 'v) sup_state" where
  "on_home_assistant env start is_clean s =
     (if start \<and> is_clean
      then report_share_error ''Error mounting HA storage shares'' (NetworkMountAllShares env (sq_shares s)) s
      else (Ok (), s))"

definition on_share ::
  "('d, 'o, 'v) sup_env \<Rightarrow> event_type \<Rightarrow> shared_resource \<Rightarrow> ('d, 'o, 'v) sup_state
   \<Rightarrow> unit res \<times> ('d, 'o, 'v) sup_state" where
  "on_share env ty share s =
     (if ty = EvRemove
         \<or> (ty = EvUpdate \<and> (sr_Disabled share = Some True \<or> sr_Usage share = UsageAsInternal
              \<or> sr_Usage share = UsageAsNone))
      then report_share_error ''Error unmounting share from ha_supervisor''
             (case NetworkUnmountShare env (sr_Name share) (sq_out s) of
                (r, w) \<Rightarrow> (r, (sq_shares s)\<lparr>sv_out := w\<rparr>)) s
      else (Ok (), s))"

definition supervisor_OnStop ::
  "('d, 'o, 'v) sup_env \<Rightarrow> ('d, 'o, 'v) share_state \<Rightarrow> unit res \<times> ('d, 'o, 'v) share_state" where
  "supervisor_OnStop env s =
     (case NetworkUnmountAllShares env s of (Panic, s1) \<Rightarrow> (Panic, s1) | (_, s1) \<Rightarrow> (Ok (), s1))"

end
