(* ===== verification/Supervisor_Laws.thy ===== *)
theory Supervisor_Laws
  imports Supervisor
begin

text \<open>
  What the supervisor service guarantees about the mounts of Home Assistant: a mount that was reported as
  done is there and right, mounts of other servers and of the shares that are wanted are left alone, and
  the reconciliation reaches the mounts that the shares ask for.
\<close>

section \<open>The supervisor\<close>

definition named :: "('v \<Rightarrow> ha_mount list) \<Rightarrow> string \<Rightarrow> 'v \<Rightarrow> ha_mount list" where
  "named view n w = filter (\<lambda>m. hm_Name m = Some n) (view w)"

definition stored_as :: "ha_mount \<Rightarrow> ha_mount \<Rightarrow> bool" where
  "stored_as m m' \<longleftrightarrow> hm_Name m' = hm_Name m \<and> hm_Server m' = hm_Server m \<and> hm_Usage m' = hm_Usage m
     \<and> hm_Type m' = hm_Type m"

text \<open>
  What the supervisor documents: the list is the list of its mounts; an operation leaves the mounts of other
  names alone; a mount that is created or updated with status 200 is in the list as it was sent, and one
  that is removed with status 200 is not.
\<close>

definition supervisor_laws :: "'v mount_client \<Rightarrow> ('v \<Rightarrow> ha_mount list) \<Rightarrow> bool" where
  "supervisor_laws c view \<longleftrightarrow>
     (\<forall>w ms. mc_Get c w = Ok (200, ms) \<longrightarrow> ms = view w)
     \<and> (\<forall>m n w. hm_Name m = Some n \<longrightarrow>
          (\<forall>k. k \<noteq> n \<longrightarrow> named view k (snd (mc_Create c m w)) = named view k w)
          \<and> (fst (mc_Create c m w) = Ok 200 \<longrightarrow> (\<exists>m'. named view n (snd (mc_Create c m w)) = [m'] \<and> stored_as m m')))
     \<and> (\<forall>m n w. hm_Name m = Some n \<longrightarrow>
          (\<forall>k. k \<noteq> n \<longrightarrow> named view k (snd (mc_Update c n m w)) = named view k w)
          \<and> (fst (mc_Update c n m w) = Ok 200 \<longrightarrow> (\<exists>m'. named view n (snd (mc_Update c n m w)) = [m'] \<and> stored_as m m')))
     \<and> (\<forall>n w. (\<forall>k. k \<noteq> n \<longrightarrow> named view k (snd (mc_Remove c n w)) = named view k w)
          \<and> (fst (mc_Remove c n w) = Ok 200 \<longrightarrow> named view n (snd (mc_Remove c n w)) = []))"

lemma supervisor_lawsD:
  assumes "supervisor_laws c view"
  shows "mc_Get c w = Ok (200, ms) \<Longrightarrow> ms = view w"
    "hm_Name m = Some n \<Longrightarrow> mc_Create c m w = (r, w') \<Longrightarrow> k \<noteq> n \<Longrightarrow> named view k w' = named view k w"
    "hm_Name m = Some n \<Longrightarrow> mc_Create c m w = (Ok 200, w') \<Longrightarrow> \<exists>m'. named view n w' = [m'] \<and> stored_as m m'"
    "hm_Name m = Some n \<Longrightarrow> mc_Update c n m w = (r, w') \<Longrightarrow> k \<noteq> n \<Longrightarrow> named view k w' = named view k w"
    "hm_Name m = Some n \<Longrightarrow> mc_Update c n m w = (Ok 200, w') \<Longrightarrow> \<exists>m'. named view n w' = [m'] \<and> stored_as m m'"
    "mc_Remove c n w = (r, w') \<Longrightarrow> k \<noteq> n \<Longrightarrow> named view k w' = named view k w"
    "mc_Remove c n w = (Ok 200, w') \<Longrightarrow> named view n w' = []"
  using assms unfolding supervisor_laws_def by (metis fst_conv snd_conv)+

section \<open>The mounts of this server\<close>

lemma own_mounts_sound:
  assumes "own_mounts ip xs acc = Ok ms" "map_of ms n = Some x"
  shows "(x \<in> set xs \<and> hm_Server x = Some ip \<and> hm_Name x = Some n) \<or> map_of acc n = Some x"
  using assms
proof (induction xs arbitrary: acc)
  case (Cons y ys)
  obtain server where s: "hm_Server y = Some server" using Cons.prems by (cases "hm_Server y") auto
  show ?case
  proof (cases "server = ip")
    case True
    obtain k where k: "hm_Name y = Some k" using Cons.prems s True by (cases "hm_Name y") auto
    then have "own_mounts ip ys (AList.update k y acc) = Ok ms" using Cons.prems s True by simp
    from Cons.IH [OF this Cons.prems(2)] s k True show ?thesis by (auto simp: update_lookup split: if_splits)
  next
    case False
    with Cons s show ?thesis by auto
  qed
qed simp

lemma own_mounts_complete:
  assumes "own_mounts ip xs acc = Ok ms"
    "(\<exists>x \<in> set xs. hm_Server x = Some ip \<and> hm_Name x = Some n) \<or> map_of acc n \<noteq> None"
  shows "map_of ms n \<noteq> None"
  using assms
proof (induction xs arbitrary: acc)
  case (Cons y ys)
  obtain server where s: "hm_Server y = Some server" using Cons.prems by (cases "hm_Server y") auto
  show ?case
  proof (cases "server = ip")
    case True
    obtain k where k: "hm_Name y = Some k" using Cons.prems s True by (cases "hm_Name y") auto
    then have "own_mounts ip ys (AList.update k y acc) = Ok ms" using Cons.prems s True by simp
    from Cons.IH [OF this] Cons.prems(2) s k True show ?thesis by (auto simp: update_lookup)
  next
    case False
    with Cons s show ?thesis by auto
  qed
qed simp

text \<open>The environment in which the service talks to a supervisor.\<close>

definition talks_to :: "('d, 'o, 'v) sup_env \<Rightarrow> 'v mount_client \<Rightarrow> ('v \<Rightarrow> ha_mount list) \<Rightarrow> bool" where
  "talks_to env c view \<longleftrightarrow> supervisor_laws c view \<and> su_client env = Some c
     \<and> ct_SupervisorURL (su_context env) \<noteq> ''demo''"

definition is_own :: "('d, 'o, 'v) sup_env \<Rightarrow> ha_mount \<Rightarrow> bool" where
  "is_own env m \<longleftrightarrow> hm_Server m = Some (ct_AddonIpAddress (su_context env))"

lemma mounted_list:
  assumes "talks_to env c view" "NetworkGetAllMounted env w = Ok ms"
  shows "own_mounts (ct_AddonIpAddress (su_context env)) (view w) [] = Ok ms"
  using assms supervisor_lawsD(1) [of c view w]
  by (auto simp: talks_to_def NetworkGetAllMounted_def sup_err_def split: if_splits res.splits)

lemma mounted_sound:
  assumes "talks_to env c view" "NetworkGetAllMounted env w = Ok ms" "map_of ms n = Some x"
  shows "x \<in> set (named view n w)" "is_own env x" "hm_Name x = Some n"
  using own_mounts_sound [OF mounted_list [OF assms(1,2)] assms(3)]
  by (simp_all add: named_def is_own_def)

lemma mounted_complete:
  assumes "talks_to env c view" "NetworkGetAllMounted env w = Ok ms" "x \<in> set (named view n w)" "is_own env x"
  shows "map_of ms n \<noteq> None"
  using own_mounts_complete [OF mounted_list [OF assms(1,2)], of n] assms(3,4)
  by (auto simp: named_def is_own_def)

section \<open>Mounting\<close>

definition other_names_kept :: "('v \<Rightarrow> ha_mount list) \<Rightarrow> string \<Rightarrow> 'v \<Rightarrow> 'v \<Rightarrow> bool" where
  "other_names_kept view n w w' \<longleftrightarrow> (\<forall>k. k \<noteq> n \<longrightarrow> named view k w' = named view k w)"

lemma other_names_kept_refl [simp]: "other_names_kept view n w w"
  by (simp add: other_names_kept_def)

lemma other_names_kept_trans:
  "other_names_kept view n w w1 \<Longrightarrow> other_names_kept view n w1 w2 \<Longrightarrow> other_names_kept view n w w2"
  by (simp add: other_names_kept_def)

lemma client_frames:
  assumes "supervisor_laws c view"
  shows "hm_Name m = Some n \<Longrightarrow> mc_Create c m w = (r, w') \<Longrightarrow> other_names_kept view n w w'"
    "hm_Name m = Some n \<Longrightarrow> mc_Update c n m w = (r, w') \<Longrightarrow> other_names_kept view n w w'"
    "mc_Remove c n w = (r, w') \<Longrightarrow> other_names_kept view n w w'"
  using supervisor_lawsD(2,4,6) [OF assms] by (auto simp: other_names_kept_def)

definition present :: "('v \<Rightarrow> ha_mount list) \<Rightarrow> ha_mount \<Rightarrow> string \<Rightarrow> 'v \<Rightarrow> bool" where
  "present view m n w \<longleftrightarrow> (\<exists>m' \<in> set (named view n w). stored_as m m')"

lemma create_mount_ok:
  assumes "supervisor_laws c view" "hm_Name m = Some n" "create_mount c n m w = (r, w')"
  shows "other_names_kept view n w w' \<and> (r = Ok () \<longrightarrow> present view m n w')"
proof -
  obtain r1 w1 where a: "mc_Create c m w = (r1, w1)" by fastforce
  obtain r2 w2 where b: "mc_Remove c n w1 = (r2, w2)" by fastforce
  obtain r3 w3 where d: "mc_Create c m w2 = (r3, w3)" by fastforce
  have f1: "other_names_kept view n w w1" by (rule client_frames(1) [OF assms(1,2) a])
  have f2: "other_names_kept view n w w2"
    using f1 client_frames(3) [OF assms(1) b] by (rule other_names_kept_trans)
  have f3: "other_names_kept view n w w3"
    using f2 client_frames(1) [OF assms(1,2) d] by (rule other_names_kept_trans)
  have p1: "r1 = Ok 200 \<Longrightarrow> present view m n w1" using supervisor_lawsD(3) [OF assms(1,2), of w w1] a
    by (auto simp: present_def)
  have p3: "r3 = Ok 200 \<Longrightarrow> present view m n w3" using supervisor_lawsD(3) [OF assms(1,2), of w2 w3] d
    by (auto simp: present_def)
  have nr: "refused m \<noteq> Ok ()" by (simp add: refused_def assms(2) sup_err_def)
  show ?thesis using assms(3) f1 f2 f3 p1 p3 nr
    by (auto simp: create_mount_def a b d sup_err_def split: res.splits if_splits)
qed

text \<open>What a mount must look like for a share.\<close>

definition mount_for :: "('d, 'o, 'v) sup_env \<Rightarrow> bool \<Rightarrow> shared_resource \<Rightarrow> ha_mount \<Rightarrow> bool" where
  "mount_for env useNfs share m \<longleftrightarrow> hm_Name m = Some (sr_Name share) \<and> is_own env m
     \<and> hm_Usage m = Some (usage_string (sr_Usage share)) \<and> (\<not> useNfs \<longrightarrow> hm_Type m \<noteq> Some ''nfs'')"

lemma mount_for_stored: "mount_for env b share m \<Longrightarrow> stored_as m m' \<Longrightarrow> mount_for env b share m'"
  by (simp add: mount_for_def stored_as_def is_own_def)

lemma as_type_simps [simp]:
  "hm_Name (as_nfs p m) = hm_Name m" "hm_Name (as_cifs q m) = hm_Name m"
  "hm_Server (as_nfs p m) = hm_Server m" "hm_Server (as_cifs q m) = hm_Server m"
  "hm_Usage (as_nfs p m) = hm_Usage m" "hm_Usage (as_cifs q m) = hm_Usage m"
  "hm_Type (as_cifs q m) = Some ''cifs''"
  by (simp_all add: as_nfs_def as_cifs_def)

lemma enrich_keeps [simp]:
  "sr_Name (enrichSharePartitionFromCache share dm) = sr_Name share"
  "sr_Usage (enrichSharePartitionFromCache share dm) = sr_Usage share"
  by (simp_all add: enrichSharePartitionFromCache_def Let_def split: option.split)

lemma new_mount_for:
  assumes "sr_Name share \<noteq> []" "is_ha_usage (sr_Usage share)"
  shows "mount_for env useNfs share
     ((if useNfs \<and> b then as_nfs p else as_cifs q) ((SharedResourceToMount share zero_ha_mount)
        \<lparr>hm_Server := Some (ct_AddonIpAddress (su_context env))\<rparr>))"
  using assms by (auto simp: mount_for_def is_own_def SharedResourceToMount_def is_ha_usage_def)

lemma old_mount_for:
  assumes "sr_Name share \<noteq> []" "is_ha_usage (sr_Usage share)" "is_own env old"
  shows "mount_for env useNfs share
     ((if useNfs \<and> b then as_nfs p else as_cifs q) (SharedResourceToMount share old))"
  using assms by (auto simp: mount_for_def is_own_def SharedResourceToMount_def is_ha_usage_def)

lemma not_outdated:
  assumes "outdated useNfs share m = Ok False" "hm_Name m = Some (sr_Name share)" "is_own env m"
  shows "mount_for env useNfs share m"
  using assms by (auto simp: outdated_def mount_for_def split: option.splits if_splits)

lemma mount_for_enrich [simp]:
  "mount_for env b (enrichSharePartitionFromCache share dm) m = mount_for env b share m"
  by (simp add: mount_for_def)

text \<open>The outcome of a mount: other names are left alone, and success means that the mount is there.\<close>

definition mount_outcome ::
  "('d, 'o, 'v) sup_env \<Rightarrow> 'd \<Rightarrow> ('v \<Rightarrow> ha_mount list) \<Rightarrow> shared_resource \<Rightarrow> 'v \<Rightarrow> unit res \<times> 'v \<Rightarrow> bool" where
  "mount_outcome env d view share w out \<longleftrightarrow>
     other_names_kept view (sr_Name share) w (snd out)
     \<and> (fst out = Ok () \<longrightarrow> (\<exists>password useNfs. mount_settings env d = Ok (password, useNfs)
          \<and> (\<exists>m \<in> set (named view (sr_Name share) (snd out)). mount_for env useNfs share m)))"

lemma outcome_fails [simp]:
  "mount_outcome env d view share w (sup_err e, w') = other_names_kept view (sr_Name share) w w'"
  "mount_outcome env d view share w (Err x, w') = other_names_kept view (sr_Name share) w w'"
  "mount_outcome env d view share w (Panic, w') = other_names_kept view (sr_Name share) w w'"
  by (simp_all add: mount_outcome_def sup_err_def)

lemma outcome_ok:
  assumes "mount_settings env d = Ok (password, useNfs)" "other_names_kept view (sr_Name share) w w'"
    "\<exists>m \<in> set (named view (sr_Name share) w'). mount_for env useNfs share m"
  shows "mount_outcome env d view share w (Ok (), w')"
  using assms by (auto simp: mount_outcome_def)

lemma outcome_enrich [simp]:
  "mount_outcome env d view (enrichSharePartitionFromCache share dm) w out = mount_outcome env d view share w out"
  by (simp add: mount_outcome_def)

lemma outcome_trans:
  assumes "mount_outcome env d view share w1 out" "other_names_kept view (sr_Name share) w w1"
  shows "mount_outcome env d view share w out"
  using assms by (auto simp: mount_outcome_def intro: other_names_kept_trans)

lemma create_outcome:
  assumes t: "talks_to env c view" and set: "mount_settings env d = Ok (password, useNfs)"
    and m: "mount_for env useNfs share m"
  shows "mount_outcome env d view share w (create_mount c (sr_Name share) m w)"
proof -
  obtain r w' where c: "create_mount c (sr_Name share) m w = (r, w')" by fastforce
  have "other_names_kept view (sr_Name share) w w' \<and> (r = Ok () \<longrightarrow> present view m (sr_Name share) w')"
    using create_mount_ok [OF _ _ c] t m by (simp add: talks_to_def mount_for_def)
  with set m show ?thesis
    by (auto simp: c mount_outcome_def present_def intro: mount_for_stored)
qed

text \<open>The update of a mount, with what follows a refusal as a parameter.\<close>

lemma update_outcome:
  assumes t: "talks_to env c view" and set: "mount_settings env d = Ok (password, useNfs)"
    and m: "mount_for env useNfs share m"
    and again: "\<And>w1. mount_outcome env d view share w1 (retry w1)"
  shows "mount_outcome env d view share w
     (case mc_Update c (sr_Name share) m w of
        (Err e, w1) \<Rightarrow> (Err e, w1)
      | (Panic, w1) \<Rightarrow> (Panic, w1)
      | (Ok code, w1) \<Rightarrow>
          if code = 200 then (Ok (), w1)
          else if code \<noteq> 400 then (sup_err ''Error updating mount'', w1)
          else (case mc_Remove c (sr_Name share) w1 of
                  (Panic, w2) \<Rightarrow> (Panic, w2)
                | (Err e, w2) \<Rightarrow> (sup_err ''Error updating mount'', w2)
                | (Ok removed, w2) \<Rightarrow>
                    if removed = 200 then retry w2 else (sup_err ''Error updating mount'', w2)))"
proof -
  have l: "supervisor_laws c view" and n: "hm_Name m = Some (sr_Name share)"
    using t m by (simp_all add: talks_to_def mount_for_def)
  obtain r1 w1 where u: "mc_Update c (sr_Name share) m w = (r1, w1)" by fastforce
  obtain r2 w2 where rm: "mc_Remove c (sr_Name share) w1 = (r2, w2)" by fastforce
  have f1: "other_names_kept view (sr_Name share) w w1" by (rule client_frames(2) [OF l n u])
  have f2: "other_names_kept view (sr_Name share) w w2"
    using f1 client_frames(3) [OF l rm] by (rule other_names_kept_trans)
  have ok: "r1 = Ok 200 \<Longrightarrow> mount_outcome env d view share w (Ok (), w1)"
    using supervisor_lawsD(5) [OF l n, of w w1] u m
    by (intro outcome_ok [OF set f1]) (auto intro: mount_for_stored)
  have "mount_outcome env d view share w (retry w2)" by (rule outcome_trans [OF again f2])
  then show ?thesis using ok f1 f2 by (cases r1; cases r2; simp add: u rm)
qed

lemma retry_outcome:
  assumes "talks_to env c view" "sr_Name share0 \<noteq> []" "is_ha_usage (sr_Usage share0)"
  shows "mount_outcome env d view share0 w (networkMountShareWithRetry env d share0 n w)"
  using assms(2,3)
proof (induction n arbitrary: share0 w)
  case (Suc n)
  let ?share = "enrichSharePartitionFromCache share0 (su_disks env)"
  have cl: "su_client env = Some c" using assms(1) by (simp add: talks_to_def)
  show ?case
  proof (cases "\<exists>ms pw b. ct_HACoreReady (su_context env) \<and> NetworkGetAllMounted env w = Ok ms
      \<and> mount_settings env d = Ok (pw, b)")
    case False
    then show ?thesis
      by (cases "NetworkGetAllMounted env w"; cases "mount_settings env d"; simp split: prod.split)
  next
    case True
    then obtain ms pw b where h: "ct_HACoreReady (su_context env)" "NetworkGetAllMounted env w = Ok ms"
      "mount_settings env d = Ok (pw, b)" by blast
    show ?thesis
    proof (cases "map_of ms (sr_Name share0)")
      case None
      have "mount_outcome env d view ?share w (create_mount c (sr_Name ?share)
          ((if b \<and> isShareNFSExportable ?share then as_nfs (TrimPrefix (nfs_path env ?share) ''/mnt/'')
            else as_cifs pw) ((SharedResourceToMount ?share zero_ha_mount)
              \<lparr>hm_Server := Some (ct_AddonIpAddress (su_context env))\<rparr>)) w)"
        by (rule create_outcome [OF assms(1) h(3)], rule new_mount_for) (simp_all add: Suc.prems)
      then show ?thesis using h None cl by (simp add: Let_def if_distribR cong: if_cong)
    next
      case (Some old)
      note own = mounted_sound [OF assms(1) h(2) Some]
      show ?thesis
      proof (cases "outdated b ?share old")
        case (Ok out)
        have upd: "mount_for env b ?share ((if b \<and> isShareNFSExportable ?share then as_nfs (nfs_path env ?share)
            else as_cifs pw) (SharedResourceToMount ?share old))"
          by (rule old_mount_for) (simp_all add: Suc.prems own)
        have nm: "hm_Name ((if b \<and> isShareNFSExportable ?share then as_nfs (nfs_path env ?share)
            else as_cifs pw) (SharedResourceToMount ?share old)) = Some (sr_Name share0)"
          using upd by (simp add: mount_for_def)
        have again: "mount_outcome env d view ?share w1 (networkMountShareWithRetry env d ?share n w1)" for w1
          by (rule Suc.IH) (simp_all add: Suc.prems)
        show ?thesis
        proof (cases out)
          case True
          from update_outcome [OF assms(1) h(3) upd again, of w] show ?thesis
            using h Some cl nm Ok True by (simp add: Let_def if_distribR cong: if_cong)
        next
          case False
          have "mount_for env b ?share old" using not_outdated [of b ?share old env] Ok False own by simp
          then have "mount_outcome env d view share0 w (Ok (), w)"
            using own(1) by (intro outcome_ok [OF h(3)]) auto
          then show ?thesis using h Some Ok False by (simp add: Let_def)
        qed
      qed (use h Some in \<open>simp_all add: Let_def\<close>)
    qed
  qed
qed simp

section \<open>Unmounting\<close>

lemma unmount_kept:
  assumes "talks_to env c view"
  shows "other_names_kept view n w (snd (NetworkUnmountShare env n w))"
    "\<forall>m \<in> set (named view n w). \<not> is_own env m \<Longrightarrow> snd (NetworkUnmountShare env n w) = w"
proof -
  have l: "supervisor_laws c view" "su_client env = Some c" using assms by (simp_all add: talks_to_def)
  obtain r w' where rm: "mc_Remove c n w = (r, w')" by fastforce
  show "other_names_kept view n w (snd (NetworkUnmountShare env n w))"
    using client_frames(3) [OF l(1) rm] by (auto simp: NetworkUnmountShare_def rm l split: res.split)
  assume none: "\<forall>m \<in> set (named view n w). \<not> is_own env m"
  show "snd (NetworkUnmountShare env n w) = w"
  proof (cases "NetworkGetAllMounted env w")
    case (Ok ms)
    have "map_of ms n = None"
    proof (rule ccontr)
      assume "map_of ms n \<noteq> None"
      then obtain x where "map_of ms n = Some x" by auto
      with mounted_sound [OF assms Ok] none show False by blast
    qed
    with Ok show ?thesis by (simp add: NetworkUnmountShare_def)
  qed (simp_all add: NetworkUnmountShare_def)
qed

lemma unmount_done:
  assumes "talks_to env c view" "fst (NetworkUnmountShare env n w) = Ok ()"
    "m \<in> set (named view n (snd (NetworkUnmountShare env n w)))"
  shows "\<not> is_own env m"
proof -
  have l: "supervisor_laws c view" "su_client env = Some c" using assms(1) by (simp_all add: talks_to_def)
  obtain ms where ms: "NetworkGetAllMounted env w = Ok ms"
    using assms(2) by (auto simp: NetworkUnmountShare_def sup_err_def split: if_splits res.splits)
  obtain r w' where rm: "mc_Remove c n w = (r, w')" by fastforce
  show ?thesis
  proof (cases "map_of ms n")
    case None
    with assms(2) ms have "snd (NetworkUnmountShare env n w) = w"
      by (simp add: NetworkUnmountShare_def)
    with mounted_complete [OF assms(1) ms] assms(3) None show ?thesis by fastforce
  next
    case (Some x)
    then have "r = Ok 200" "snd (NetworkUnmountShare env n w) = w'"
      using assms(2) ms by (auto simp: NetworkUnmountShare_def rm l sup_err_def split: if_splits res.splits)
    with supervisor_lawsD(7) [OF l(1), of n w w'] rm assms(3) show ?thesis by simp
  qed
qed

lemma unmount_each_kept:
  assumes "talks_to env c view" "k \<notin> set ns"
  shows "named view k (snd (for_each (NetworkUnmountShare env) ns w)) = named view k w"
  using assms(2)
proof (induction ns arbitrary: w)
  case (Cons n ns)
  obtain r w1 where u: "NetworkUnmountShare env n w = (r, w1)" by fastforce
  have "named view k w1 = named view k w"
    using unmount_kept(1) [OF assms(1), of n w] Cons.prems by (simp add: u other_names_kept_def)
  with Cons show ?case by (cases r) (simp_all add: u)
qed simp

section \<open>Lost shares\<close>

definition is_wanted :: "shared_resource list \<Rightarrow> string \<Rightarrow> bool" where
  "is_wanted shares n \<longleftrightarrow> (\<exists>sr \<in> set shares. wants_ha_mount sr \<and> sr_Name sr = n)"

lemma keep_wanted_lookup:
  "map_of (keep_wanted shares m) n = (if is_wanted shares n then None else map_of m n)"
proof (induction shares arbitrary: m)
  case (Cons sr shares)
  have "keep_wanted (sr # shares) m = keep_wanted shares (if wants_ha_mount sr then AList.delete (sr_Name sr) m else m)"
    by (simp add: keep_wanted_def)
  then show ?case by (auto simp: Cons.IH is_wanted_def delete_lookup)
qed (simp add: keep_wanted_def is_wanted_def)

lemma keep_wanted_keys: "n \<in> set (keys (keep_wanted shares m)) \<longleftrightarrow> \<not> is_wanted shares n \<and> map_of m n \<noteq> None"
proof -
  have "n \<in> set (keys (keep_wanted shares m)) \<longleftrightarrow> map_of (keep_wanted shares m) n \<noteq> None"
    by (simp add: map_of_eq_None_iff)
  then show ?thesis by (simp only: keep_wanted_lookup) simp
qed

lemma lost_kept:
  assumes t: "talks_to env c view"
    and kept: "(\<forall>m \<in> set (named view n (sv_out s1)). \<not> is_own env m) \<or> is_wanted shares n"
    and l: "ListShares (su_shares env) s = (Ok shares, s1)"
  shows "named view n (sv_out (snd (networkUnmountLostShares env s))) = named view n (sv_out s1)"
proof (cases "ct_HACoreReady (su_context env) \<and> is_ok (NetworkGetAllMounted env (sv_out s1))")
  case True
  then obtain ms where ms: "NetworkGetAllMounted env (sv_out s1) = Ok ms" by (auto simp: is_ok_iff)
  have "n \<notin> set (keys (keep_wanted shares ms))"
    unfolding keep_wanted_keys using kept mounted_sound [OF t ms, of n] by blast
  from unmount_each_kept [OF t this, of "sv_out s1"] show ?thesis
    using True by (simp add: networkUnmountLostShares_def l ms case_prod_beta)
next
  case False
  then show ?thesis
    by (cases "NetworkGetAllMounted env (sv_out s1)") (auto simp: networkUnmountLostShares_def l)
qed

section \<open>A supervisor that answers\<close>

definition complete_mount :: "ha_mount \<Rightarrow> bool" where
  "complete_mount m \<longleftrightarrow> hm_Name m \<noteq> None \<and> hm_Server m \<noteq> None \<and> hm_Usage m \<noteq> None \<and> hm_State m \<noteq> None
     \<and> hm_Type m \<noteq> None"

text \<open>What a request has to name for the supervisor to take it.\<close>

definition sendable :: "ha_mount \<Rightarrow> bool" where
  "sendable m \<longleftrightarrow> hm_Name m \<noteq> None \<and> hm_Server m \<noteq> None \<and> hm_Usage m \<noteq> None \<and> hm_Type m \<noteq> None"

definition answers :: "'v mount_client \<Rightarrow> ('v \<Rightarrow> ha_mount list) \<Rightarrow> bool" where
  "answers c view \<longleftrightarrow>
     (\<forall>w. mc_Get c w = Ok (200, view w) \<and> (\<forall>m \<in> set (view w). complete_mount m)
        \<and> (\<forall>m. sendable m \<longrightarrow> fst (mc_Create c m w) = Ok 200)
        \<and> (\<forall>n m. sendable m \<longrightarrow> hm_Name m = Some n \<longrightarrow> fst (mc_Update c n m w) = Ok 200)
        \<and> (\<forall>n. fst (mc_Remove c n w) = Ok 200))"

lemma mount_for_sendable: "mount_for env b share m \<Longrightarrow> hm_Type m \<noteq> None \<Longrightarrow> sendable m"
  by (auto simp: mount_for_def is_own_def sendable_def)

lemma typed [simp]: "hm_Type ((if b then as_nfs p else as_cifs q) m) \<noteq> None"
  by (simp add: as_nfs_def)

lemma own_mounts_total: "\<forall>m \<in> set xs. complete_mount m \<Longrightarrow> \<exists>ms. own_mounts ip xs acc = Ok ms"
  by (induction xs arbitrary: acc) (auto simp: complete_mount_def)

text \<open>The service is ready and its settings can be read.\<close>

definition works :: "('d, 'o, 'v) sup_env \<Rightarrow> 'd \<Rightarrow> 'v mount_client \<Rightarrow> ('v \<Rightarrow> ha_mount list) \<Rightarrow> bool" where
  "works env d c view \<longleftrightarrow> talks_to env c view \<and> answers c view \<and> ct_HACoreReady (su_context env)
     \<and> (\<exists>password useNfs. mount_settings env d = Ok (password, useNfs))"

lemma works_list:
  assumes "works env d c view"
  shows "\<exists>ms. NetworkGetAllMounted env w = Ok ms"
  using assms own_mounts_total [of "view w" "ct_AddonIpAddress (su_context env)" "[]"]
  by (auto simp: works_def talks_to_def answers_def NetworkGetAllMounted_def)

lemma works_mount:
  assumes "works env d c view" and sr: "sr_Name share \<noteq> []" "is_ha_usage (sr_Usage share)"
  shows "fst (NetworkMountShare env d share w) = Ok ()"
proof -
  obtain ms where ms: "NetworkGetAllMounted env w = Ok ms" using works_list [OF assms(1)] by blast
  have a: "answers c view" "su_client env = Some c" "ct_HACoreReady (su_context env)" and t: "talks_to env c view"
    using assms(1) by (simp_all add: works_def talks_to_def)
  obtain pw b where st: "mount_settings env d = Ok (pw, b)" using assms(1) by (auto simp: works_def)
  let ?share = "enrichSharePartitionFromCache share (su_disks env)"
  have sr': "sr_Name ?share \<noteq> []" "is_ha_usage (sr_Usage ?share)" using sr by simp_all
  have cr: "fst (create_mount c n m w) = Ok ()" if "sendable m" for n m
  proof -
    have "fst (mc_Create c m w) = Ok 200" using a(1) that by (simp add: answers_def)
    then show ?thesis by (cases "mc_Create c m w") (simp add: create_mount_def)
  qed
  show ?thesis
  proof (cases "map_of ms (sr_Name share)")
    case None
    have "fst (create_mount c (sr_Name ?share)
        ((if b \<and> isShareNFSExportable ?share then as_nfs (TrimPrefix (nfs_path env ?share) ''/mnt/'') else as_cifs pw)
          ((SharedResourceToMount ?share zero_ha_mount)\<lparr>hm_Server := Some (ct_AddonIpAddress (su_context env))\<rparr>)) w) = Ok ()"
      by (rule cr, rule mount_for_sendable [OF new_mount_for [OF sr']]) (rule typed)
    with None show ?thesis
      by (simp add: NetworkMountShare_def numeral_3_eq_3 Let_def ms st a if_distribR cong: if_cong)
  next
    case (Some old)
    note own = mounted_sound [OF t ms Some]
    have cm: "complete_mount old" using own(1) a(1) by (auto simp: named_def answers_def)
    then obtain out where out: "outdated b ?share old = Ok out"
      by (cases "outdated b ?share old") (auto simp: outdated_def complete_mount_def split: option.splits if_splits)
    let ?m = "(if b \<and> isShareNFSExportable ?share then as_nfs (nfs_path env ?share) else as_cifs pw)
        (SharedResourceToMount ?share old)"
    have mf: "mount_for env b ?share ?m" by (rule old_mount_for [OF sr' own(2)])
    have nm: "hm_Name ?m = Some (sr_Name share)" using mf by (simp add: mount_for_def)
    have up: "fst (mc_Update c (sr_Name share) ?m w) = Ok 200"
      using a(1) nm mount_for_sendable [OF mf typed] by (simp add: answers_def)
    then obtain w1 where upd: "mc_Update c (sr_Name share) ?m w = (Ok 200, w1)"
      by (cases "mc_Update c (sr_Name share) ?m w") simp
    show ?thesis
    proof (cases out)
      case True
      have eq: "(if b \<and> isShareNFSExportable ?share then as_nfs (nfs_path env ?share) (SharedResourceToMount ?share old)
          else as_cifs pw (SharedResourceToMount ?share old)) = ?m" by simp
      show ?thesis using True
        by (simp only: NetworkMountShare_def numeral_3_eq_3 networkMountShareWithRetry.simps Let_def ms st a Some out
            eq nm upd enrich_keeps res.case option.case prod.case bool.case) simp
    next
      case False
      then show ?thesis by (simp add: NetworkMountShare_def numeral_3_eq_3 Let_def ms st a Some out)
    qed
  qed
qed

lemma works_unmount:
  assumes "works env d c view"
  shows "fst (NetworkUnmountShare env n w) = Ok ()"
proof -
  obtain ms where ms: "NetworkGetAllMounted env w = Ok ms" using works_list [OF assms] by blast
  have a: "fst (mc_Remove c n w) = Ok 200" "su_client env = Some c" "ct_HACoreReady (su_context env)"
    using assms by (simp_all add: works_def talks_to_def answers_def)
  show ?thesis using a by (cases "mc_Remove c n w") (simp add: NetworkUnmountShare_def ms)
qed

end
