(* ===== verification/Supervisor_Reconcile.thy ===== *)
theory Supervisor_Reconcile
  imports Supervisor_Laws Share_Service_Laws
begin

text \<open>
  The properties of the supervisor service: what a mount that succeeds guarantees, which mounts are never
  touched, and the mounts that the reconciliation of all shares reaches.
\<close>

section \<open>Reconciliation\<close>

lemma show_share_keeps:
  assumes "show_share env row s = (r, s1)"
  shows "sv_out s1 = sv_out s" "sv_db s1 = sv_db s" "r = Ok sr \<Longrightarrow> sr_Status sr \<noteq> None"
  using assms
  by (auto simp: show_share_def ExportedShareToSharedResource_def map_res_def verified_def VerifyShare_def set_valid_def
      Let_def split: prod.splits res.splits option.splits)

lemma show_shares_keeps:
  assumes "show_shares env rows s = (r, s1)"
  shows "sv_out s1 = sv_out s \<and> sv_db s1 = sv_db s \<and> (\<forall>srs. r = Ok srs \<longrightarrow> (\<forall>sr \<in> set srs. sr_Status sr \<noteq> None))"
  using assms
proof (induction rows arbitrary: s r s1)
  case (Cons row rows)
  obtain q t where sh: "show_share env row s = (q, t)" by fastforce
  obtain rest u where rs: "show_shares env rows t = (rest, u)" by fastforce
  note k = show_share_keeps [OF sh]
  show ?case
  proof (cases q)
    case (Ok sr)
    with Cons.prems sh rs have "r = map_res (\<lambda>l. sr # l) rest" "s1 = u" by simp_all
    with Cons.IH [OF rs] k Ok show ?thesis by (cases rest) (auto simp: map_res_def)
  qed (use Cons.prems sh k in auto)
qed simp

lemma ListShares_keeps:
  assumes "ListShares env s = (r, s1)"
  shows "sv_out s1 = sv_out s \<and> sv_db s1 = sv_db s \<and> (\<forall>srs. r = Ok srs \<longrightarrow> (\<forall>sr \<in> set srs. sr_Status sr \<noteq> None))"
  using assms show_shares_keeps [of env _ s r s1] by (auto simp: ListShares_def split: res.splits)

definition asks_mount :: "shared_resource \<Rightarrow> bool" where
  "asks_mount sr \<longleftrightarrow> wants_ha_mount sr \<and> (\<exists>st. sr_Status sr = Some st \<and> ss_IsValid st)"

lemma mount_valid_step:
  assumes w: "works env d c view" and sr: "sr_Status sr \<noteq> None" "sr_Name sr \<noteq> []"
  shows "fst (mount_valid env d sr w) = Ok ()"
    "other_names_kept view (sr_Name sr) w (snd (mount_valid env d sr w))"
    "mount_settings env d = Ok (pw, b) \<Longrightarrow> asks_mount sr
      \<Longrightarrow> \<exists>m \<in> set (named view (sr_Name sr) (snd (mount_valid env d sr w))). mount_for env b sr m"
proof -
  have t: "talks_to env c view" using w by (simp add: works_def)
  have ok: "is_ha_usage (sr_Usage sr) \<Longrightarrow> fst (NetworkMountShare env d sr w) = Ok ()"
    by (rule works_mount [OF w sr(2)])
  have out: "is_ha_usage (sr_Usage sr) \<Longrightarrow> mount_outcome env d view sr w (NetworkMountShare env d sr w)"
    unfolding NetworkMountShare_def by (rule retry_outcome [OF t sr(2)])
  show "fst (mount_valid env d sr w) = Ok ()"
    using sr(1) ok by (auto simp: mount_valid_def)
  show "other_names_kept view (sr_Name sr) w (snd (mount_valid env d sr w))"
    using sr(1) out by (auto simp: mount_valid_def mount_outcome_def)
  show "mount_settings env d = Ok (pw, b) \<Longrightarrow> asks_mount sr
      \<Longrightarrow> \<exists>m \<in> set (named view (sr_Name sr) (snd (mount_valid env d sr w))). mount_for env b sr m"
    using out ok by (auto simp: mount_valid_def mount_outcome_def asks_mount_def wants_ha_mount_def)
qed

lemma mount_all_valid:
  assumes w: "works env d c view" and set: "mount_settings env d = Ok (pw, b)"
    and srs: "\<forall>sr \<in> set shares. sr_Status sr \<noteq> None \<and> sr_Name sr \<noteq> []" "distinct (map sr_Name shares)"
  shows "fst (for_each (mount_valid env d) shares w0) = Ok ()
    \<and> (\<forall>k. k \<notin> sr_Name ` set shares \<longrightarrow> named view k (snd (for_each (mount_valid env d) shares w0)) = named view k w0)
    \<and> (\<forall>sr \<in> set shares. asks_mount sr \<longrightarrow>
         (\<exists>m \<in> set (named view (sr_Name sr) (snd (for_each (mount_valid env d) shares w0))). mount_for env b sr m))"
  using srs
proof (induction shares arbitrary: w0)
  case (Cons sr shares)
  obtain r w1 where m: "mount_valid env d sr w0 = (r, w1)" by fastforce
  note step = mount_valid_step [OF w, where sr = sr and w = w0, unfolded m]
  have r: "r = Ok ()" and k: "other_names_kept view (sr_Name sr) w0 w1" using step(1,2) Cons.prems by simp_all
  have p: "asks_mount sr \<Longrightarrow> \<exists>m \<in> set (named view (sr_Name sr) w1). mount_for env b sr m"
    using step(3) [OF _ _ set] Cons.prems by simp
  let ?w = "snd (for_each (mount_valid env d) shares w1)"
  have ih: "fst (for_each (mount_valid env d) shares w1) = Ok ()"
    "\<forall>k. k \<notin> sr_Name ` set shares \<longrightarrow> named view k ?w = named view k w1"
    "\<forall>sr \<in> set shares. asks_mount sr \<longrightarrow> (\<exists>m \<in> set (named view (sr_Name sr) ?w). mount_for env b sr m)"
    using Cons.IH [of w1] Cons.prems by simp_all
  have "named view (sr_Name sr) ?w = named view (sr_Name sr) w1" using ih(2) Cons.prems(2) by simp
  with p ih k show ?case by (simp add: m r other_names_kept_def)
qed simp

definition no_own :: "('d, 'o, 'v) sup_env \<Rightarrow> ('v \<Rightarrow> ha_mount list) \<Rightarrow> string \<Rightarrow> 'v \<Rightarrow> bool" where
  "no_own env view n w \<longleftrightarrow> (\<forall>m \<in> set (named view n w). \<not> is_own env m)"

lemma unmount_names:
  assumes w: "works env d c view"
  shows "fst (for_each (NetworkUnmountShare env) ns w0) = Ok ()
    \<and> (\<forall>n. n \<in> set ns \<or> no_own env view n w0
         \<longrightarrow> no_own env view n (snd (for_each (NetworkUnmountShare env) ns w0)))"
proof (induction ns arbitrary: w0)
  case (Cons n ns)
  have t: "talks_to env c view" using w by (simp add: works_def)
  obtain r w1 where u: "NetworkUnmountShare env n w0 = (r, w1)" by fastforce
  have r: "r = Ok ()" using works_unmount [OF w, of n w0] by (simp add: u)
  have k: "other_names_kept view n w0 w1" using unmount_kept(1) [OF t, of n w0] by (simp add: u)
  have d: "no_own env view n w1" using unmount_done [OF t, of n w0] by (simp add: u r no_own_def)
  have "no_own env view k w1" if "no_own env view k w0" for k
    using that k d by (cases "k = n") (simp_all add: other_names_kept_def no_own_def)
  with Cons.IH [of w1] d show ?case by (auto simp: u r)
qed simp

lemma lost_gone:
  assumes w: "works env d c view" and l: "ListShares (su_shares env) s = (Ok shares, s1)"
  shows "fst (networkUnmountLostShares env s) = Ok ()
    \<and> (\<forall>m \<in> set (view (sv_out (snd (networkUnmountLostShares env s)))).
         is_own env m \<longrightarrow> (\<exists>n. hm_Name m = Some n \<and> is_wanted shares n))"
proof -
  have t: "talks_to env c view" and rd: "ct_HACoreReady (su_context env)" using w by (simp_all add: works_def)
  obtain ms where ms: "NetworkGetAllMounted env (sv_out s1) = Ok ms" using works_list [OF w] by blast
  let ?ns = "keys (keep_wanted shares ms)"
  let ?out = "for_each (NetworkUnmountShare env) ?ns (sv_out s1)"
  have out: "networkUnmountLostShares env s = (fst ?out, s1\<lparr>sv_out := snd ?out\<rparr>)"
    by (simp add: networkUnmountLostShares_def l rd ms case_prod_beta)
  have "\<exists>n. hm_Name m = Some n \<and> is_wanted shares n" if m: "m \<in> set (view (snd ?out))" "is_own env m" for m
  proof -
    obtain n where n: "hm_Name m = Some n"
      using m(1) w by (fastforce simp: works_def answers_def complete_mount_def)
    have mn: "m \<in> set (named view n (snd ?out))" using m n by (simp add: named_def)
    have nk: "n \<notin> set ?ns" using unmount_names [OF w, of ?ns "sv_out s1"] mn m(2) unfolding no_own_def by blast
    have "m \<in> set (named view n (sv_out s1))" using unmount_each_kept [OF t nk, of "sv_out s1"] mn by simp
    from mounted_complete [OF t ms this m(2)] nk have "is_wanted shares n"
      unfolding keep_wanted_keys by blast
    with n show ?thesis by blast
  qed
  with unmount_names [OF w, of ?ns "sv_out s1"] show ?thesis by (simp add: out)
qed

section \<open>Properties\<close>

text \<open>C21: A mount that the service reports as done is in the list of Home Assistant under the name of the
  share, with this server and the usage of the share, and never by NFS while NFS is switched off; whatever
  happens, mounts of other names are left as they are.\<close>

theorem supervisor_mount_sound:
  assumes "talks_to env c view" and "sr_Name share \<noteq> []" and "is_ha_usage (sr_Usage share)"
  shows "(case NetworkMountShare env d share w of (r, w1) \<Rightarrow>
      (\<forall>k. k \<noteq> sr_Name share \<longrightarrow> named view k w1 = named view k w)
      \<and> (r = Ok () \<longrightarrow> (\<exists>password useNfs m. mount_settings env d = Ok (password, useNfs) \<and> m \<in> set (view w1)
           \<and> hm_Name m = Some (sr_Name share) \<and> hm_Server m = Some (ct_AddonIpAddress (su_context env))
           \<and> hm_Usage m = Some (usage_string (sr_Usage share)) \<and> (\<not> useNfs \<longrightarrow> hm_Type m \<noteq> Some ''nfs''))))"
proof -
  obtain r w1 where out: "NetworkMountShare env d share w = (r, w1)" by fastforce
  have o: "other_names_kept view (sr_Name share) w w1"
    "r = Ok () \<Longrightarrow> \<exists>password useNfs. mount_settings env d = Ok (password, useNfs)
       \<and> (\<exists>m \<in> set (named view (sr_Name share) w1). mount_for env useNfs share m)"
    using retry_outcome [OF assms, of d w 3, folded NetworkMountShare_def] by (auto simp: out mount_outcome_def)
  have "\<exists>password useNfs m. mount_settings env d = Ok (password, useNfs) \<and> m \<in> set (view w1)
           \<and> hm_Name m = Some (sr_Name share) \<and> hm_Server m = Some (ct_AddonIpAddress (su_context env))
           \<and> hm_Usage m = Some (usage_string (sr_Usage share)) \<and> (\<not> useNfs \<longrightarrow> hm_Type m \<noteq> Some ''nfs'')"
    if r: "r = Ok ()"
  proof -
    from o(2) [OF r] obtain pw b m where "mount_settings env d = Ok (pw, b)"
      "m \<in> set (named view (sr_Name share) w1)" "mount_for env b share m" by blast
    then show ?thesis
      by (intro exI [of _ pw] exI [of _ b] exI [of _ m]) (simp add: named_def mount_for_def is_own_def)
  qed
  with o(1) show ?thesis by (simp add: out other_names_kept_def)
qed

text \<open>C9: Unmounting the lost shares, whatever the supervisor answers, never touches a mount of another
  server, nor one under the name of an enabled share that Home Assistant uses.\<close>

theorem lost_shares_safe:
  assumes "talks_to env c view" and "ListShares (su_shares env) s = (Ok shares, s1)"
    and "(\<forall>m \<in> set (view (sv_out s)). hm_Name m = Some n \<longrightarrow> hm_Server m \<noteq> Some (ct_AddonIpAddress (su_context env)))
      \<or> (\<exists>sr \<in> set shares. sr_Name sr = n \<and> sr_Disabled sr \<noteq> Some True \<and> is_ha_usage (sr_Usage sr))"
  shows "filter (\<lambda>m. hm_Name m = Some n) (view (sv_out (snd (networkUnmountLostShares env s))))
    = filter (\<lambda>m. hm_Name m = Some n) (view (sv_out s))"
proof -
  have "sv_out s1 = sv_out s" using ListShares_keeps [OF assms(2)] by simp
  with lost_kept [OF assms(1) _ assms(2), of n] assms(3) show ?thesis
    by (auto simp: named_def is_own_def is_wanted_def wants_ha_mount_def)
qed

text \<open>C8: With a supervisor that answers, the reconciliation of all shares ends with every valid share that
  Home Assistant uses mounted as the share asks, and with no mount of this server but those of enabled
  shares that Home Assistant uses.\<close>

theorem supervisor_reconciles:
  assumes "works env (sv_db s) c view" and "ct_AddonIpAddress (su_context env) \<noteq> []"
    and "mount_settings env (sv_db s) = Ok (pw, useNfs)"
    and "ListShares (su_shares env) s = (Ok shares, s1)"
    and "\<forall>w. fst (ListShares (su_shares env) (s1\<lparr>sv_out := w\<rparr>)) = Ok shares"
    and "distinct (map sr_Name shares)" and "\<forall>sr \<in> set shares. sr_Name sr \<noteq> []"
  shows "(case NetworkMountAllShares env s of (r, s2) \<Rightarrow> r = Ok ()
      \<and> (\<forall>sr \<in> set shares. asks_mount sr \<longrightarrow>
           (\<exists>m \<in> set (view (sv_out s2)). mount_for env useNfs sr m))
      \<and> (\<forall>m \<in> set (view (sv_out s2)). hm_Server m = Some (ct_AddonIpAddress (su_context env))
           \<longrightarrow> (\<exists>sr \<in> set shares. wants_ha_mount sr \<and> hm_Name m = Some (sr_Name sr))))"
proof -
  have t: "talks_to env c view" and rd: "ct_HACoreReady (su_context env)"
    using assms(1) by (simp_all add: works_def)
  have k: "sv_db s1 = sv_db s" "\<forall>sr \<in> set shares. sr_Status sr \<noteq> None"
    using ListShares_keeps [OF assms(4)] by simp_all
  obtain r w where m: "for_each (mount_valid env (sv_db s)) shares (sv_out s1) = (r, w)" by fastforce
  have r: "r = Ok ()" and present: "\<forall>sr \<in> set shares. asks_mount sr \<longrightarrow>
      (\<exists>m \<in> set (named view (sr_Name sr) w). mount_for env useNfs sr m)"
    using mount_all_valid [OF assms(1,3) _ assms(6), of "sv_out s1"] k(2) assms(7) by (simp_all add: m)
  obtain q s2 where l: "ListShares (su_shares env) (s1\<lparr>sv_out := w\<rparr>) = (q, s2)" by fastforce
  then have l2: "ListShares (su_shares env) (s1\<lparr>sv_out := w\<rparr>) = (Ok shares, s2)" and w2: "sv_out s2 = w"
    using spec [OF assms(5), of w] ListShares_keeps [OF l] by simp_all
  obtain u s3 where lost: "networkUnmountLostShares env (s1\<lparr>sv_out := w\<rparr>) = (u, s3)" by fastforce
  have g: "u = Ok ()" "\<forall>m \<in> set (view (sv_out s3)). is_own env m \<longrightarrow> (\<exists>n. hm_Name m = Some n \<and> is_wanted shares n)"
    using lost_gone [OF assms(1) l2] by (simp_all add: lost)
  have out: "NetworkMountAllShares env s = (Ok (), s3)"
    by (simp add: NetworkMountAllShares_def rd assms(2,4) k m r lost g)
  have kept: "named view (sr_Name sr) (sv_out s3) = named view (sr_Name sr) w"
    if "sr \<in> set shares" "asks_mount sr" for sr
    using lost_kept [OF t _ l2, of "sr_Name sr"] that by (auto simp: lost w2 is_wanted_def asks_mount_def)
  have "\<exists>m \<in> set (view (sv_out s3)). mount_for env useNfs sr m" if sr: "sr \<in> set shares" "asks_mount sr" for sr
  proof -
    obtain m where "m \<in> set (named view (sr_Name sr) w)" "mount_for env useNfs sr m" using present sr by blast
    with kept [OF sr] show ?thesis by (metis (no_types, lifting) filter_is_subset named_def subsetD)
  qed
  with g(2) show ?thesis by (fastforce simp: out is_wanted_def is_own_def)
qed

section \<open>A small supervisor\<close>

text \<open>Its world is the list of mounts; a mount is active once it is created.\<close>

definition activate :: "ha_mount \<Rightarrow> ha_mount" where
  "activate m = m\<lparr>hm_State := Some ''active''\<rparr>"

definition put_mount :: "ha_mount \<Rightarrow> ha_mount list \<Rightarrow> int res \<times> ha_mount list" where
  "put_mount m w = (if sendable m then (Ok 200, filter (\<lambda>x. hm_Name x \<noteq> hm_Name m) w @ [activate m]) else (Ok 400, w))"

definition list_client :: "ha_mount list mount_client" where
  "list_client = \<lparr>mc_Get = (\<lambda>w. Ok (200, filter complete_mount w)), mc_Create = put_mount, mc_Update = (\<lambda>n. put_mount),
     mc_Remove = (\<lambda>n w. (Ok 200, filter (\<lambda>x. hm_Name x \<noteq> Some n) w))\<rparr>"

lemma activate_simps:
  "stored_as m (activate m)" "sendable m \<Longrightarrow> complete_mount (activate m)" "hm_Name (activate m) = hm_Name m"
  by (auto simp: stored_as_def activate_def sendable_def complete_mount_def)

lemma put_mount_laws:
  assumes "hm_Name m = Some n"
  shows "k \<noteq> n \<Longrightarrow> named (filter complete_mount) k (snd (put_mount m w)) = named (filter complete_mount) k w"
    "fst (put_mount m w) = Ok 200 \<Longrightarrow> \<exists>m'. named (filter complete_mount) n (snd (put_mount m w)) = [m'] \<and> stored_as m m'"
  using assms
  by (auto simp: put_mount_def named_def activate_simps filter_empty_conv split: if_splits intro: filter_cong)

lemma list_client_laws: "supervisor_laws list_client (filter complete_mount)"
  unfolding supervisor_laws_def list_client_def
  using put_mount_laws by (auto simp: named_def filter_empty_conv intro: filter_cong)

lemma list_client_answers: "answers list_client (filter complete_mount)"
  by (simp add: answers_def list_client_def put_mount_def)

definition sup_volumes :: "ha_mount list vol_env" where
  "sup_volumes = \<lparr>ve_protected = False,
     ve_tables = \<lparr>ft_registry = NewRegistry, fsSpecificMountFlags = [], standardMountFlagsByName = [],
       allKnownMountFlagsByName = []\<rparr>,
     ve_regexp = (\<lambda>p t. Some True), ve_flagMap = [], ve_fsenv = demo_env,
     ve_mountInfos = (\<lambda>w. Ok [\<lparr>mi_MountPoint = ''/mnt/usb'', mi_Root = ''/'', mi_Source = ''/dev/sdb1'',
         mi_FSType = ''ext4'', mi_Options = [], mi_SuperOptions = []\<rparr>]),
     ve_stat = (\<lambda>w p. StatDir), ve_writable = (\<lambda>w p. True), ve_byId = (\<lambda>w. None), ve_label = (\<lambda>w p. None),
     ve_serial = (\<lambda>w p. None), ve_size = (\<lambda>w p. None),
     ve_mkdirAll = (\<lambda>p w. (None, w)), ve_remove = (\<lambda>p w. (None, w)),
     ve_tryMount = (\<lambda>src target dat flags prepare w. (Panic, w)),
     ve_doMount = (\<lambda>src target ty dat flags prepare w. (Panic, w)),
     ve_unmount = (\<lambda>p force lazy w. (None, w)),
     ve_persist = (\<lambda>row w. (None, w)), ve_rows = (\<lambda>w i. Ok []), ve_findRow = (\<lambda>w r p. None),
     ve_updateRow = (\<lambda>r p row w. (Ok 0, w)), ve_hasHardware = False, ve_hardware = (\<lambda>w. (Ok None, w)),
     ve_invalidate = (\<lambda>w. w), ve_hasHA = False, ve_notify = (\<lambda>i t m w. (None, w)),
     ve_dismiss = (\<lambda>i w. (None, w)), ve_sha1 = (\<lambda>t. t)\<rparr>"

text \<open>One share, mounted and used as media; the world holds a mount of this server that is lost and one of
  another server.\<close>

definition sup_row :: share_row where
  "sup_row = zero_share_row\<lparr>es_Name := ''disk'', es_Usage := UsageAsMedia,
     es_MountPointData := empty_row\<lparr>r_Path := ''/mnt/usb''\<rparr>\<rparr>"

definition sup_sample_env :: "((string \<times> samba_row \<times> bool) list, unit, ha_mount list) sup_env" where
  "sup_sample_env = \<lparr>su_shares = \<lparr>sh_db = (sh_db sample_share_env)\<lparr>sd_Find := (\<lambda>d. Ok [sup_row])\<rparr>,
       sh_users = sample_user_env\<lparr>ue_settings := (ue_settings sample_user_env)
         \<lparr>se_defaults_Set := (\<lambda>s. Ok (s\<lparr>sg_HAUseNFS := Some False\<rparr>))\<rparr>\<rparr>,
       sh_volumes = sup_volumes, sh_mock = False, sh_NetworkUnmountShare = (\<lambda>n w. (None, w))\<rparr>,
     su_context = \<lparr>ct_AddonIpAddress = ''10.0.0.1'', ct_ProtectedMode = False, ct_HACoreReady = True,
       ct_DisableIPv6 = False, ct_SambaConfigFile = [], ct_Template = [], ct_DockerInterface = [],
       ct_DockerNet = [], ct_SupervisorURL = ''http://supervisor/''\<rparr>,
     su_client = Some list_client, su_disks = None\<rparr>"

definition sample_mount :: "string \<Rightarrow> string \<Rightarrow> ha_mount" where
  "sample_mount ip n = zero_ha_mount\<lparr>hm_Name := Some n, hm_Server := Some ip, hm_Usage := Some ''media'',
     hm_State := Some ''active'', hm_Type := Some ''cifs''\<rparr>"

definition sup_sample_state :: "((string \<times> samba_row \<times> bool) list, unit, ha_mount list) share_state" where
  "sup_sample_state = \<lparr>sv_user = sample_user_state,
     sv_out = [sample_mount ''10.0.0.1'' ''gone'', sample_mount ''10.0.0.9'' ''nas''], sv_events = []\<rparr>"

lemma sup_sample_simps:
  "su_client sup_sample_env = Some list_client" "ct_HACoreReady (su_context sup_sample_env)"
  "ct_SupervisorURL (su_context sup_sample_env) \<noteq> ''demo''"
  "ct_AddonIpAddress (su_context sup_sample_env) = ''10.0.0.1''"
  by (simp_all add: sup_sample_env_def)

lemma sup_sample_talks: "talks_to sup_sample_env list_client (filter complete_mount)"
  by (simp add: talks_to_def sup_sample_simps list_client_laws)

lemma sup_sample_settings: "\<exists>pw. mount_settings sup_sample_env d = Ok (pw, False)"
  by (simp add: mount_settings_def sup_sample_env_def sample_user_env_def Load_def no_props_def Populate_def
      Let_def)

lemma sup_sample_list:
  "\<exists>sr. sr_Name sr = ''disk'' \<and> asks_mount sr \<and> (\<forall>s. ListShares (su_shares sup_sample_env) s = (Ok [sr], s))"
proof -
  obtain md where md: "\<And>w. mountPointPathToMountPointData sup_volumes w (es_MountPointData sup_row) = Ok md"
    and m: "mp_Path md = ''/mnt/usb''" "mp_IsMounted md" "\<not> mp_IsInvalid md" "mp_IsWriteSupported md = Some True"
    by (simp add: mountPointPathToMountPointData_def sup_volumes_def sup_row_def zero_share_row_def empty_row_def
        osutil_IsMounted_def isPathDirNotExists_def zero_mount_point_def)
  define raw where "raw = \<lparr>sr_Name = ''disk'', sr_Disabled = None, sr_Users = [],
      sr_RoUsers = [], sr_TimeMachine = Some False, sr_RecycleBin = Some False, sr_GuestOk = Some False,
      sr_TimeMachineMaxSize = Some [], sr_Usage = UsageAsMedia, sr_VetoFiles = [], sr_Status = None,
      sr_MountPointData = Some md\<rparr>"
  have row: "es_Name sup_row = ''disk''" "es_Users sup_row = []" "es_RoUsers sup_row = []" "es_Usage sup_row = UsageAsMedia"
    "es_Disabled sup_row = None" "\<not> es_TimeMachine sup_row" "\<not> es_RecycleBin sup_row" "\<not> es_GuestOk sup_row"
    "es_TimeMachineMaxSize sup_row = []" "es_VetoFiles sup_row = []"
    by (simp_all add: sup_row_def zero_share_row_def)
  have vol: "sh_volumes (su_shares sup_sample_env) = sup_volumes" by (simp add: sup_sample_env_def)
  have show1: "show_share (su_shares sup_sample_env) sup_row s = (Ok (verified raw), s)" for s
    by (simp add: show_share_def ExportedShareToSharedResource_def row vol md raw_def map_res_def)
  have "sd_Find (sh_db (su_shares sup_sample_env)) d = Ok [sup_row]" for d by (simp add: sup_sample_env_def)
  then have "ListShares (su_shares sup_sample_env) s = (Ok [verified raw], s)" for s
    by (simp add: ListShares_def show1 map_res_def)
  moreover have "sr_Name (verified raw) = ''disk'' \<and> asks_mount (verified raw)"
    by (simp add: verified_def VerifyShare_def raw_def m set_valid_def asks_mount_def wants_ha_mount_def is_ha_usage_def)
  ultimately show ?thesis by blast
qed

theorem supervisor_mount_sound_witness:
  "\<exists>share. sr_Name share = ''disk'' \<and>
     (case NetworkMountShare sup_sample_env (sv_db sup_sample_state) share (sv_out sup_sample_state) of (r, w1) \<Rightarrow>
      (\<forall>k. k \<noteq> sr_Name share \<longrightarrow> named (filter complete_mount) k w1
         = named (filter complete_mount) k (sv_out sup_sample_state))
      \<and> (r = Ok () \<longrightarrow> (\<exists>password useNfs m.
           mount_settings sup_sample_env (sv_db sup_sample_state) = Ok (password, useNfs) \<and> m \<in> set (filter complete_mount w1)
           \<and> hm_Name m = Some (sr_Name share) \<and> hm_Server m = Some (ct_AddonIpAddress (su_context sup_sample_env))
           \<and> hm_Usage m = Some (usage_string (sr_Usage share)) \<and> (\<not> useNfs \<longrightarrow> hm_Type m \<noteq> Some ''nfs''))))"
proof -
  obtain sr where "sr_Name sr = ''disk''" "asks_mount sr" using sup_sample_list by blast
  then have "sr_Name sr \<noteq> []" "is_ha_usage (sr_Usage sr)" by (simp_all add: asks_mount_def wants_ha_mount_def)
  from supervisor_mount_sound [OF sup_sample_talks this] \<open>sr_Name sr = ''disk''\<close> show ?thesis
    by (intro exI [of _ sr] conjI)
qed

theorem lost_shares_safe_witness:
  "filter (\<lambda>m. hm_Name m = Some ''nas'')
      (filter complete_mount (sv_out (snd (networkUnmountLostShares sup_sample_env sup_sample_state))))
    = filter (\<lambda>m. hm_Name m = Some ''nas'') (filter complete_mount (sv_out sup_sample_state))"
proof -
  obtain sr where "ListShares (su_shares sup_sample_env) sup_sample_state = (Ok [sr], sup_sample_state)"
    using sup_sample_list by blast
  then show ?thesis
    by (rule lost_shares_safe [OF sup_sample_talks])
      (simp add: sup_sample_state_def sample_mount_def sup_sample_simps)
qed

theorem supervisor_reconciles_witness:
  "\<exists>sr. asks_mount sr \<and>
    (case NetworkMountAllShares sup_sample_env sup_sample_state of (r, s2) \<Rightarrow> r = Ok ()
      \<and> (\<forall>sr' \<in> set [sr]. asks_mount sr' \<longrightarrow>
           (\<exists>m \<in> set (filter complete_mount (sv_out s2)). mount_for sup_sample_env False sr' m))
      \<and> (\<forall>m \<in> set (filter complete_mount (sv_out s2)). hm_Server m = Some (ct_AddonIpAddress (su_context sup_sample_env))
           \<longrightarrow> (\<exists>sr' \<in> set [sr]. wants_ha_mount sr' \<and> hm_Name m = Some (sr_Name sr'))))"
proof -
  obtain sr where sr: "sr_Name sr = ''disk''" "asks_mount sr"
    "\<And>s. ListShares (su_shares sup_sample_env) s = (Ok [sr], s)" using sup_sample_list by blast
  obtain pw where pw: "mount_settings sup_sample_env (sv_db sup_sample_state) = Ok (pw, False)"
    using sup_sample_settings by blast
  have w: "works sup_sample_env (sv_db sup_sample_state) list_client (filter complete_mount)"
    unfolding works_def using pw sup_sample_talks list_client_answers sup_sample_simps(2) by blast
  have "case NetworkMountAllShares sup_sample_env sup_sample_state of (r, s2) \<Rightarrow> r = Ok ()
      \<and> (\<forall>sr' \<in> set [sr]. asks_mount sr' \<longrightarrow>
           (\<exists>m \<in> set (filter complete_mount (sv_out s2)). mount_for sup_sample_env False sr' m))
      \<and> (\<forall>m \<in> set (filter complete_mount (sv_out s2)). hm_Server m = Some (ct_AddonIpAddress (su_context sup_sample_env))
           \<longrightarrow> (\<exists>sr' \<in> set [sr]. wants_ha_mount sr' \<and> hm_Name m = Some (sr_Name sr')))"
    by (rule supervisor_reconciles [OF w _ pw sr(3)]) (simp_all add: sup_sample_simps sr)
  with sr(2) show ?thesis by (intro exI [of _ sr] conjI)
qed

end
