(* ===== verification/Repair_Service.thy ===== *)
theory Repair_Service
  imports Problem_Store Enums
begin

text \<open>
  The repair service (\<open>service/repair_service.go\<close>, \<open>dto/repair_proxy.go\<close>, \<open>dto/managed_repair.go\<close>)
  and the messages that Home Assistant sends it over the WebSocket (\<open>api/ws.go\<close>).

  A repair is kept in memory and mirrored into the problem service. A command is broadcast, and
  queued as well while the component of Home Assistant is not connected; the queue is broadcast when
  it connects. Broadcasts are the list \<open>rp_sent\<close>; the clock and the identifiers of uuid are
  arguments, and the free-form data of a command is its serialised text.
\<close>

section \<open>Commands and events\<close>

text \<open>A severity that was not set is the zero value of the generated struct, which is none of the three: \<open>None\<close>.\<close>

record repair_command =
  rc_CommandID :: string
  rc_RepairID :: string
  rc_Action :: RepairCommandAction
  rc_TranslationKey :: string
  rc_TranslationPlaceholders :: "(string, string) gomap option"
  rc_Data :: "string option"
  rc_LearnMoreURL :: "string option"
  rc_BreaksInHAVersion :: "string option"
  rc_Severity :: "RepairIssueSeverity option"
  rc_IsFixable :: bool
  rc_IsPersistent :: bool

definition validate_command :: "repair_command \<Rightarrow> err option" where
  "validate_command msg =
     (if rc_CommandID msg = [] then Some (E ErrorOther ''command_id is required'')
      else if rc_RepairID msg = [] then Some (E ErrorOther ''repair_id is required'')
      else if rc_Action msg \<notin> {REPAIRCOMMANDACTIONUPSERT, REPAIRCOMMANDACTIONDELETE, REPAIRCOMMANDACTIONRECONCILE}
        then Some (E ErrorOther ''invalid repair action'')
      else if rc_Action msg \<noteq> REPAIRCOMMANDACTIONDELETE then
        (if rc_TranslationKey msg = [] then Some (E ErrorOther ''translation_key is required'')
         else if rc_Severity msg \<notin> Some ` {REPAIRISSUESEVERITYWARNING, REPAIRISSUESEVERITYERROR, REPAIRISSUESEVERITYCRITICAL}
           then Some (E ErrorOther ''invalid repair severity'')
         else None)
      else None)"

record repair_lifecycle =
  rl_Type :: string
  rl_CommandID :: string
  rl_RepairID :: string
  rl_Status :: RepairLifecycleStatus
  rl_Error :: "string option"
  rl_Details :: "string option"

definition validate_lifecycle :: "repair_lifecycle \<Rightarrow> err option" where
  "validate_lifecycle msg =
     (if rl_Type msg \<noteq> ''repair_lifecycle'' then Some (E ErrorOther ''invalid lifecycle type'')
      else if rl_RepairID msg = [] then Some (E ErrorOther ''repair_id is required'')
      else if rl_Status msg \<in> {REPAIRLIFECYCLESTATUSCREATED, REPAIRLIFECYCLESTATUSUPDATED,
           REPAIRLIFECYCLESTATUSIGNORED, REPAIRLIFECYCLESTATUSFIXED, REPAIRLIFECYCLESTATUSDISMISSED,
           REPAIRLIFECYCLESTATUSDELETED, REPAIRLIFECYCLESTATUSERROR} then None
      else Some (E ErrorOther ''invalid repair lifecycle status''))"

record managed_repair =
  mr_RepairID :: string
  mr_LastCommandID :: string
  mr_LastAction :: RepairCommandAction
  mr_Status :: RepairLifecycleStatus
  mr_LastError :: "string option"
  mr_UpdatedAt :: int
  mr_Command :: repair_command
  mr_Lifecycle :: "repair_lifecycle option"

text \<open>The component of Home Assistant at the other end of the WebSocket.\<close>

record ha_component =
  hc_Component :: string
  hc_Version :: string
  hc_HAVersion :: "string option"
  hc_EntryID :: "string option"
  hc_ConnectedAt :: int

section \<open>The service\<close>

text \<open>Whether a broadcaster and a problem service are wired, and the database of the latter.\<close>

record 'db repair_env =
  re_broadcaster :: bool
  re_problem :: bool
  re_db :: "'db problem_db"

record 'db repair_service =
  rp_state :: "(string, managed_repair) gomap"
  rp_queue :: "repair_command list"
  rp_queuedIDs :: "string list"
  rp_component :: "ha_component option"
  rp_problem :: "'db problem_service"
  rp_sent :: "repair_command list"

definition NewRepairService :: "'db problem_service \<Rightarrow> 'db repair_service" where
  "NewRepairService p = \<lparr>rp_state = [], rp_queue = [], rp_queuedIDs = [], rp_component = None,
     rp_problem = p, rp_sent = []\<rparr>"

definition mapRepairSeverity :: "RepairIssueSeverity option \<Rightarrow> severity" where
  "mapRepairSeverity sev =
     (case sev of
        Some REPAIRISSUESEVERITYCRITICAL \<Rightarrow> SevCritical
      | Some REPAIRISSUESEVERITYERROR \<Rightarrow> SevError
      | _ \<Rightarrow> SevWarning)"

definition mapRepairLifecycleStatus :: "RepairLifecycleStatus \<Rightarrow> lifecycle" where
  "mapRepairLifecycleStatus st =
     (case st of
        REPAIRLIFECYCLESTATUSCREATED \<Rightarrow> StCreated
      | REPAIRLIFECYCLESTATUSIGNORED \<Rightarrow> StIgnored
      | REPAIRLIFECYCLESTATUSFIXED \<Rightarrow> StFixed
      | REPAIRLIFECYCLESTATUSDISMISSED \<Rightarrow> StDismissed
      | REPAIRLIFECYCLESTATUSDELETED \<Rightarrow> StDeleted
      | REPAIRLIFECYCLESTATUSERROR \<Rightarrow> StError
      | _ \<Rightarrow> StUpdated)"

definition problem_of_command :: "repair_command \<Rightarrow> lifecycle \<Rightarrow> problem" where
  "problem_of_command c status =
     (let title = (if rc_TranslationKey c = [] then rc_RepairID c else rc_TranslationKey c)
      in \<lparr>pb_ID = 0, pb_CreatedAt = 0, pb_UpdatedAt = 0, pb_ProblemKey = rc_RepairID c, pb_Title = title,
          pb_Description = title, pb_Severity = mapRepairSeverity (rc_Severity c), pb_Status = status,
          pb_Repeating = 0, pb_Ignored = False, pb_Actions = [], pb_TranslationKey = rc_TranslationKey c,
          pb_TranslationPlaceholders = rc_TranslationPlaceholders c, pb_Data = rc_Data c, pb_DetailLink = [],
          pb_ResolutionLink = [], pb_IsFixable = rc_IsFixable c, pb_IsPersistent = rc_IsPersistent c,
          pb_LearnMoreURL = rc_LearnMoreURL c, pb_LastError = None\<rparr>)"

text \<open>The mirror in the problem service; its errors are logged.\<close>

definition syncProblemFromCommand ::
  "'db repair_env \<Rightarrow> repair_command \<Rightarrow> lifecycle \<Rightarrow> 'db repair_service \<Rightarrow> 'db repair_service" where
  "syncProblemFromCommand env c status s =
     (if \<not> re_problem env then s
      else s\<lparr>rp_problem := snd (Upsert (re_db env) (Some (problem_of_command c status)) (rp_problem s))\<rparr>)"

definition dismissProblem :: "'db repair_env \<Rightarrow> string \<Rightarrow> 'db repair_service \<Rightarrow> 'db repair_service" where
  "dismissProblem env repairID s =
     (if \<not> re_problem env then s
      else s\<lparr>rp_problem := snd (Dismiss (re_db env) repairID (rp_problem s))\<rparr>)"

definition applyProblemLifecycle ::
  "'db repair_env \<Rightarrow> repair_lifecycle \<Rightarrow> 'db repair_service \<Rightarrow> 'db repair_service" where
  "applyProblemLifecycle env event s =
     (if \<not> re_problem env then s
      else s\<lparr>rp_problem := snd (ApplyLifecycle (re_db env) (rl_RepairID event)
                                 (mapRepairLifecycleStatus (rl_Status event)) (rl_Error event) (rp_problem s))\<rparr>)"

definition broadcast_command :: "'db repair_env \<Rightarrow> repair_command \<Rightarrow> 'db repair_service \<Rightarrow> 'db repair_service" where
  "broadcast_command env c s = (if re_broadcaster env then s\<lparr>rp_sent := rp_sent s @ [c]\<rparr> else s)"

definition enqueueLocked :: "repair_command \<Rightarrow> 'db repair_service \<Rightarrow> 'db repair_service" where
  "enqueueLocked c s =
     (if rc_CommandID c \<noteq> [] then
        (if rc_CommandID c \<in> set (rp_queuedIDs s) then s
         else s\<lparr>rp_queuedIDs := rp_queuedIDs s @ [rc_CommandID c], rp_queue := rp_queue s @ [c]\<rparr>)
      else s\<lparr>rp_queue := rp_queue s @ [c]\<rparr>)"

definition announce_command :: "'db repair_env \<Rightarrow> repair_command \<Rightarrow> 'db repair_service \<Rightarrow> 'db repair_service" where
  "announce_command env c s =
     (let s1 = broadcast_command env c s
      in if rp_component s1 = None then enqueueLocked c s1 else s1)"

definition Create_repair ::
  "'db repair_env \<Rightarrow> int \<Rightarrow> repair_command \<Rightarrow> 'db repair_service \<Rightarrow> managed_repair res \<times> 'db repair_service" where
  "Create_repair env now c s =
     (case validate_command c of
        Some e \<Rightarrow> (Err e, s)
      | None \<Rightarrow>
          if map_of (rp_state s) (rc_RepairID c) \<noteq> None then (Err (E ErrorOther ''already exists''), s)
          else
            let r = \<lparr>mr_RepairID = rc_RepairID c, mr_LastCommandID = rc_CommandID c, mr_LastAction = rc_Action c,
                     mr_Status = (if rc_Action c = REPAIRCOMMANDACTIONUPSERT then REPAIRLIFECYCLESTATUSCREATED
                                  else REPAIRLIFECYCLESTATUSUPDATED),
                     mr_LastError = None, mr_UpdatedAt = now, mr_Command = c, mr_Lifecycle = None\<rparr>;
                s1 = s\<lparr>rp_state := AList.update (rc_RepairID c) r (rp_state s)\<rparr>
            in (Ok r, announce_command env c (syncProblemFromCommand env c StCreated s1)))"

definition Update_repair ::
  "'db repair_env \<Rightarrow> int \<Rightarrow> repair_command \<Rightarrow> 'db repair_service \<Rightarrow> managed_repair res \<times> 'db repair_service" where
  "Update_repair env now c s =
     (case validate_command c of
        Some e \<Rightarrow> (Err e, s)
      | None \<Rightarrow>
          (case map_of (rp_state s) (rc_RepairID c) of
             None \<Rightarrow> (Err (E ErrorOther ''not found''), s)
           | Some old \<Rightarrow>
               let r = old\<lparr>mr_LastCommandID := rc_CommandID c, mr_LastAction := rc_Action c, mr_Command := c,
                           mr_Status := REPAIRLIFECYCLESTATUSUPDATED, mr_LastError := None, mr_UpdatedAt := now\<rparr>;
                   s1 = s\<lparr>rp_state := AList.update (rc_RepairID c) r (rp_state s)\<rparr>
               in (Ok r, announce_command env c (syncProblemFromCommand env c StUpdated s1))))"

text \<open>The command that is broadcast for a deletion; it is never queued.\<close>

definition delete_command :: "string \<Rightarrow> string \<Rightarrow> repair_command" where
  "delete_command uuid repairID = \<lparr>rc_CommandID = uuid, rc_RepairID = repairID, rc_Action = REPAIRCOMMANDACTIONDELETE,
     rc_TranslationKey = [], rc_TranslationPlaceholders = None, rc_Data = None, rc_LearnMoreURL = None,
     rc_BreaksInHAVersion = None, rc_Severity = None, rc_IsFixable = False, rc_IsPersistent = False\<rparr>"

definition Delete_repair ::
  "'db repair_env \<Rightarrow> string \<Rightarrow> string \<Rightarrow> 'db repair_service \<Rightarrow> unit res \<times> 'db repair_service" where
  "Delete_repair env uuid repairID s =
     (if repairID = [] then (Err (E ErrorInvalidParameter ''repair_id is required''), s)
      else if map_of (rp_state s) repairID = None then (Err (E ErrorNotFound ''not found''), s)
      else (Ok (), broadcast_command env (delete_command uuid repairID)
                     (dismissProblem env repairID (s\<lparr>rp_state := AList.delete repairID (rp_state s)\<rparr>))))"

definition Get_repair :: "string \<Rightarrow> 'db repair_service \<Rightarrow> managed_repair option" where
  "Get_repair repairID s = map_of (rp_state s) repairID"

text \<open>The order of the list is that of the map.\<close>

definition List_repairs :: "'db repair_service \<Rightarrow> managed_repair list" where
  "List_repairs s = map snd (rp_state s)"

definition ApplyLifecycle_repair ::
  "'db repair_env \<Rightarrow> int \<Rightarrow> repair_lifecycle \<Rightarrow> 'db repair_service \<Rightarrow> managed_repair res \<times> 'db repair_service" where
  "ApplyLifecycle_repair env now event s =
     (case validate_lifecycle event of
        Some e \<Rightarrow> (Err e, s)
      | None \<Rightarrow>
          (case map_of (rp_state s) (rl_RepairID event) of
             None \<Rightarrow> (Err (E ErrorNotFound ''not found''), s)
           | Some old \<Rightarrow>
               let r = old\<lparr>mr_Status := rl_Status event, mr_LastCommandID := rl_CommandID event,
                           mr_LastError := rl_Error event, mr_UpdatedAt := now, mr_Lifecycle := Some event\<rparr>
               in (Ok r, applyProblemLifecycle env event
                           (s\<lparr>rp_state := AList.update (rl_RepairID event) r (rp_state s)\<rparr>))))"

definition EnqueueCommand :: "repair_command \<Rightarrow> 'db repair_service \<Rightarrow> unit res \<times> 'db repair_service" where
  "EnqueueCommand c s =
     (case validate_command c of Some e \<Rightarrow> (Err e, s) | None \<Rightarrow> (Ok (), enqueueLocked c s))"

definition FlushQueuedCommands :: "'db repair_service \<Rightarrow> repair_command list \<times> 'db repair_service" where
  "FlushQueuedCommands s =
     (if rp_queue s = [] then ([], s) else (rp_queue s, s\<lparr>rp_queuedIDs := [], rp_queue := []\<rparr>))"

definition QueueSize :: "'db repair_service \<Rightarrow> nat" where
  "QueueSize s = length (rp_queue s)"

section \<open>The messages of Home Assistant\<close>

record helo_message =
  he_Type :: string
  he_Component :: string
  he_Version :: string
  he_HAVersion :: "string option"
  he_EntryID :: "string option"

definition validate_helo :: "helo_message \<Rightarrow> err option" where
  "validate_helo msg =
     (if he_Type msg \<noteq> ''helo'' then Some (E ErrorOther ''invalid helo type'')
      else if he_Component msg = [] then Some (E ErrorOther ''component is required'')
      else if he_Version msg = [] then Some (E ErrorOther ''version is required'')
      else None)"

definition clearHomeAssistantComponentConnection :: "'db repair_service \<Rightarrow> 'db repair_service" where
  "clearHomeAssistantComponentConnection s = s\<lparr>rp_component := None\<rparr>"

definition setHomeAssistantComponentConnection ::
  "int \<Rightarrow> helo_message \<Rightarrow> 'db repair_service \<Rightarrow> 'db repair_service" where
  "setHomeAssistantComponentConnection now msg s =
     (let s1 = s\<lparr>rp_component := Some \<lparr>hc_Component = he_Component msg, hc_Version = he_Version msg,
                  hc_HAVersion = he_HAVersion msg, hc_EntryID = he_EntryID msg, hc_ConnectedAt = now\<rparr>\<rparr>
      in case FlushQueuedCommands s1 of (queued, s2) \<Rightarrow> s2\<lparr>rp_sent := rp_sent s2 @ queued\<rparr>)"

text \<open>
  A text frame after decoding: the type selects the message. The answer tells whether Home Assistant is
  restarted, which the handler asks for after dismissing the repair that requires a restart.
\<close>

datatype inbound = InHelo helo_message | InRepair repair_lifecycle | InProblem lifecycle_message "string option" | InIgnored

definition customComponentRestartRepairID :: string where
  "customComponentRestartRepairID = ''custom_component_restart_required''"

definition dismiss_restart :: "'db repair_env \<Rightarrow> 'db repair_service \<Rightarrow> 'db repair_service" where
  "dismiss_restart env s =
     s\<lparr>rp_problem := snd (Dismiss (re_db env) customComponentRestartRepairID (rp_problem s))\<rparr>"

definition handleInboundMessage ::
  "'db repair_env \<Rightarrow> int \<Rightarrow> inbound \<Rightarrow> 'db repair_service \<Rightarrow> bool \<times> 'db repair_service" where
  "handleInboundMessage env now m s =
     (case m of
        InIgnored \<Rightarrow> (False, s)
      | InHelo msg \<Rightarrow>
          (False, if validate_helo msg = None then setHomeAssistantComponentConnection now msg s else s)
      | InRepair msg \<Rightarrow>
          if validate_lifecycle msg \<noteq> None then (False, s)
          else
            let s1 = snd (ApplyLifecycle_repair env now msg s)
            in if rl_Status msg = REPAIRLIFECYCLESTATUSFIXED then (True, dismiss_restart env s1) else (False, s1)
      | InProblem msg e \<Rightarrow>
          (case (Validate msg, lm_Status msg) of
             (None, Some st) \<Rightarrow>
               (let s1 = (if re_problem env
                          then s\<lparr>rp_problem := snd (ApplyLifecycle (re_db env) (lm_ProblemKey msg) st e (rp_problem s))\<rparr>
                          else s)
                in if st = StFixed \<and> lm_ProblemKey msg = customComponentRestartRepairID
                   then (True, dismiss_restart env s1) else (False, s1))
           | _ \<Rightarrow> (False, s)))"

end
