(* ===== verification/Problem_HA_Bridge.thy ===== *)
theory Problem_HA_Bridge
  imports Repair_Service
begin

text \<open>
  The bridge from problems to Home Assistant (\<open>service/problem_ha_bridge.go\<close>): a change of a
  problem becomes a persistent notification, or a broadcast that the component of Home Assistant turns
  into a repair.

  The notification service of Home Assistant is a parameter: two operations on the outside world that may
  fail. Broadcast problems are the list \<open>hb_sent\<close>.
\<close>

record 'w ha_notifications =
  hn_Create :: "string \<Rightarrow> string \<Rightarrow> string \<Rightarrow> 'w \<Rightarrow> err option \<times> 'w"
  hn_Dismiss :: "string \<Rightarrow> 'w \<Rightarrow> err option \<times> 'w"

datatype notification_action = NotifyDismiss string | NotifyCreate string string string

record 'w ha_bridge =
  hb_core_ready :: bool
  hb_component :: "ha_component option"
  hb_queue :: "notification_action list"
  hb_sent :: "problem list"
  hb_out :: 'w

text \<open>The Home Assistant service and the broadcaster are optional.\<close>

record 'w bridge_env =
  be_ha :: "'w ha_notifications option"
  be_broadcaster :: bool

definition canUseHA :: "'w bridge_env \<Rightarrow> 'w ha_bridge \<Rightarrow> bool" where
  "canUseHA env b \<longleftrightarrow> be_ha env \<noteq> None \<and> hb_core_ready b"

definition isComponentConnected :: "'w ha_bridge \<Rightarrow> bool" where
  "isComponentConnected b = (case hb_component b of None \<Rightarrow> False | Some c \<Rightarrow> hc_Component c = ''srat'')"

definition isRepairSeverity :: "severity \<Rightarrow> bool" where
  "isRepairSeverity sev \<longleftrightarrow> sev = SevError \<or> sev = SevCritical"

definition isTerminalProblemStatus :: "lifecycle \<Rightarrow> bool" where
  "isTerminalProblemStatus st \<longleftrightarrow> st = StDismissed \<or> st = StDeleted \<or> st = StFixed"

definition notification_key :: "problem \<Rightarrow> string" where
  "notification_key p =
     (if TrimSpace (pb_ProblemKey p) \<noteq> [] then TrimSpace (pb_ProblemKey p)
      else if TrimSpace (pb_Title p) \<noteq> [] then TrimSpace (pb_Title p)
      else ''unknown'')"

definition toNotificationPayload :: "problem \<Rightarrow> string \<times> string \<times> string" where
  "toNotificationPayload p =
     (let i = ''srat_problem_'' @ notification_key p;
          title = (if TrimSpace (pb_Title p) = [] then ''SRAT problem'' else TrimSpace (pb_Title p));
          message = (if TrimSpace (pb_Description p) = [] then title else TrimSpace (pb_Description p))
      in (i, title, message))"

definition bridge_enqueue :: "notification_action \<Rightarrow> 'w ha_bridge \<Rightarrow> 'w ha_bridge" where
  "bridge_enqueue a b = b\<lparr>hb_queue := hb_queue b @ [a]\<rparr>"

fun do_action :: "'w ha_notifications \<Rightarrow> notification_action \<Rightarrow> 'w \<Rightarrow> err option \<times> 'w" where
  "do_action ha (NotifyDismiss i) w = hn_Dismiss ha i w"
| "do_action ha (NotifyCreate i title message) w = hn_Create ha i title message w"

text \<open>The queue is emptied first; the first failure drops the rest of it.\<close>

fun do_actions :: "'w ha_notifications \<Rightarrow> notification_action list \<Rightarrow> 'w \<Rightarrow> err option \<times> 'w" where
  "do_actions ha [] w = (None, w)"
| "do_actions ha (a # as) w =
     (case do_action ha a w of (Some e, w1) \<Rightarrow> (Some e, w1) | (None, w1) \<Rightarrow> do_actions ha as w1)"

definition flushQueue :: "'w bridge_env \<Rightarrow> 'w ha_bridge \<Rightarrow> err option \<times> 'w ha_bridge" where
  "flushQueue env b =
     (if \<not> canUseHA env b then (None, b)
      else case be_ha env of
             None \<Rightarrow> (None, b)
           | Some ha \<Rightarrow>
               (case do_actions ha (hb_queue b) (hb_out b) of (e, w) \<Rightarrow> (e, b\<lparr>hb_queue := [], hb_out := w\<rparr>)))"

text \<open>An action is queued while Home Assistant cannot be used, and done after the queue otherwise.\<close>

definition notify_now :: "'w bridge_env \<Rightarrow> notification_action \<Rightarrow> 'w ha_bridge \<Rightarrow> 'w ha_bridge" where
  "notify_now env a b =
     (if \<not> canUseHA env b then bridge_enqueue a b
      else case be_ha env of
             None \<Rightarrow> b
           | Some ha \<Rightarrow>
               (case flushQueue env b of (e, b1) \<Rightarrow> b1\<lparr>hb_out := snd (do_action ha a (hb_out b1))\<rparr>))"

definition handleProblemEvent :: "'w bridge_env \<Rightarrow> problem option \<Rightarrow> 'w ha_bridge \<Rightarrow> 'w ha_bridge" where
  "handleProblemEvent env event b =
     (case event of
        None \<Rightarrow> b
      | Some p \<Rightarrow>
          (case toNotificationPayload p of
             (i, title, message) \<Rightarrow>
               if isTerminalProblemStatus (pb_Status p) then notify_now env (NotifyDismiss i) b
               else if isComponentConnected b \<and> isRepairSeverity (pb_Severity p)
               then (if be_broadcaster env then b\<lparr>hb_sent := hb_sent b @ [p]\<rparr> else b)
               else notify_now env (NotifyCreate i title message) b))"

section \<open>The problem service as its source\<close>

text \<open>
  The events of the problem service reach the bridge in the order in which they are emitted; the type of
  an event is not looked at.
\<close>

definition bridge_events ::
  "'w bridge_env \<Rightarrow> (event_type \<times> problem) list \<Rightarrow> 'w ha_bridge \<Rightarrow> 'w ha_bridge" where
  "bridge_events env es b = foldl (\<lambda>b ev. handleProblemEvent env (Some (snd ev)) b) b es"

text \<open>An operation of the problem service with the bridge listening.\<close>

definition bridged ::
  "'w bridge_env \<Rightarrow> ('db problem_service \<Rightarrow> 'r \<times> 'db problem_service) \<Rightarrow> 'db problem_service \<times> 'w ha_bridge
   \<Rightarrow> 'r \<times> 'db problem_service \<times> 'w ha_bridge" where
  "bridged env op sb =
     (case op (fst sb) of
        (r, s1) \<Rightarrow> (r, s1, bridge_events env (drop (length (ps_events (fst sb))) (ps_events s1)) (snd sb)))"

end
