(* ===== verification/Ha_Link_Laws.thy ===== *)
theory Ha_Link_Laws
  imports Problem_HA_Bridge Problem_Laws
begin

text \<open>
  What the link to Home Assistant guarantees: the well-formedness of the repairs and their queue, delivery
  of the queued commands, the order of the notifications, and what a change of a problem does to them.
\<close>

section \<open>The repairs are well formed\<close>

definition repair_inv :: "'db repair_service \<Rightarrow> bool" where
  "repair_inv s \<longleftrightarrow>
     rp_queuedIDs s = map rc_CommandID (rp_queue s) \<and> distinct (rp_queuedIDs s)
     \<and> (\<forall>c \<in> set (rp_queue s). validate_command c = None)
     \<and> distinct (keys (rp_state s))
     \<and> (\<forall>(k, r) \<in> set (rp_state s). mr_RepairID r = k \<and> rc_RepairID (mr_Command r) = k
          \<and> validate_command (mr_Command r) = None)"

datatype repair_op =
    RCreate int repair_command | RUpdate int repair_command | RDelete string string
  | RApply int repair_lifecycle | REnqueue repair_command | RFlush
  | RInbound int inbound | RDisconnect

fun repair_step :: "'db repair_env \<Rightarrow> repair_op \<Rightarrow> 'db repair_service \<Rightarrow> 'db repair_service" where
  "repair_step env (RCreate now c) s = snd (Create_repair env now c s)"
| "repair_step env (RUpdate now c) s = snd (Update_repair env now c s)"
| "repair_step env (RDelete uuid i) s = snd (Delete_repair env uuid i s)"
| "repair_step env (RApply now e) s = snd (ApplyLifecycle_repair env now e s)"
| "repair_step env (REnqueue c) s = snd (EnqueueCommand c s)"
| "repair_step env RFlush s = snd (FlushQueuedCommands s)"
| "repair_step env (RInbound now m) s = snd (handleInboundMessage env now m s)"
| "repair_step env RDisconnect s = clearHomeAssistantComponentConnection s"

lemma validate_commandD:
  "validate_command c = None \<Longrightarrow> rc_CommandID c \<noteq> [] \<and> rc_RepairID c \<noteq> []"
  by (auto simp: validate_command_def split: if_splits)

text \<open>The part of the state that the mirror and the broadcasts leave alone.\<close>

definition same_repairs :: "'db repair_service \<Rightarrow> 'db repair_service \<Rightarrow> bool" where
  "same_repairs s s' \<longleftrightarrow> rp_state s' = rp_state s \<and> rp_queue s' = rp_queue s
     \<and> rp_queuedIDs s' = rp_queuedIDs s \<and> rp_component s' = rp_component s"

lemma repair_inv_same: "same_repairs s s' \<Longrightarrow> repair_inv s' = repair_inv s"
  by (simp add: same_repairs_def repair_inv_def)

lemma same_repairs_effects [simp]:
  "same_repairs s (syncProblemFromCommand env c st s)"
  "same_repairs s (dismissProblem env i s)"
  "same_repairs s (applyProblemLifecycle env e s)"
  "same_repairs s (broadcast_command env c s)"
  "same_repairs s (dismiss_restart env s)"
  by (simp_all add: same_repairs_def syncProblemFromCommand_def dismissProblem_def
      applyProblemLifecycle_def broadcast_command_def dismiss_restart_def)

lemmas same_inv [simp] = repair_inv_same [OF same_repairs_effects(1)] repair_inv_same [OF same_repairs_effects(2)]
  repair_inv_same [OF same_repairs_effects(3)] repair_inv_same [OF same_repairs_effects(4)]
  repair_inv_same [OF same_repairs_effects(5)]

lemma enqueue_inv:
  assumes "repair_inv s" "validate_command c = None"
  shows "repair_inv (enqueueLocked c s)"
  using assms validate_commandD [OF assms(2)] by (auto simp: repair_inv_def enqueueLocked_def)

lemma announce_inv: "repair_inv s \<Longrightarrow> validate_command c = None \<Longrightarrow> repair_inv (announce_command env c s)"
  by (simp add: announce_command_def Let_def enqueue_inv)

lemma put_repair_inv:
  assumes inv: "repair_inv s" and r: "mr_RepairID r = k" "rc_RepairID (mr_Command r) = k"
    "validate_command (mr_Command r) = None"
  shows "repair_inv (s\<lparr>rp_state := AList.update k r (rp_state s)\<rparr>)"
proof -
  have "(k', r') \<in> set (AList.update k r (rp_state s)) \<Longrightarrow> (k', r') = (k, r) \<or> (k', r') \<in> set (rp_state s)" for k' r'
    using inv by (auto simp: repair_inv_def set_update_distinct)
  then show ?thesis using inv r by (fastforce simp: repair_inv_def distinct_keys_update)
qed

lemma state_repair:
  assumes "repair_inv s" "map_of (rp_state s) k = Some r"
  shows "mr_RepairID r = k \<and> rc_RepairID (mr_Command r) = k \<and> validate_command (mr_Command r) = None"
  using assms map_of_SomeD [OF assms(2)] by (auto simp: repair_inv_def)

lemma Create_inv: "repair_inv s \<Longrightarrow> repair_inv (snd (Create_repair env now c s))"
  by (auto simp: Create_repair_def Let_def intro!: announce_inv put_repair_inv split: option.split)

lemma Update_inv:
  assumes "repair_inv s"
  shows "repair_inv (snd (Update_repair env now c s))"
  using assms state_repair [OF assms]
  by (auto simp: Update_repair_def Let_def intro!: announce_inv put_repair_inv split: option.split)

lemma Delete_inv: "repair_inv s \<Longrightarrow> repair_inv (snd (Delete_repair env uuid i s))"
proof -
  assume inv: "repair_inv s"
  then have "repair_inv (s\<lparr>rp_state := AList.delete i (rp_state s)\<rparr>)"
    by (auto simp: repair_inv_def set_delete distinct_keys_delete)
  with inv show ?thesis by (simp add: Delete_repair_def)
qed

lemma Apply_inv:
  assumes "repair_inv s"
  shows "repair_inv (snd (ApplyLifecycle_repair env now e s))"
  using assms state_repair [OF assms]
  by (auto simp: ApplyLifecycle_repair_def Let_def intro!: put_repair_inv split: option.split)

lemma Flush_inv: "repair_inv s \<Longrightarrow> repair_inv (snd (FlushQueuedCommands s))"
  by (simp add: FlushQueuedCommands_def repair_inv_def)

lemma helo_inv: "repair_inv s \<Longrightarrow> repair_inv (setHomeAssistantComponentConnection now m s)"
  by (auto simp: setHomeAssistantComponentConnection_def Let_def FlushQueuedCommands_def repair_inv_def)

lemma problem_field_inv [simp]:
  "repair_inv (s\<lparr>rp_problem := p\<rparr>) = repair_inv s" "repair_inv (s\<lparr>rp_component := h\<rparr>) = repair_inv s"
  by (simp_all add: repair_inv_def)

lemma inbound_inv: "repair_inv s \<Longrightarrow> repair_inv (snd (handleInboundMessage env now m s))"
  by (cases m)
    (auto simp: handleInboundMessage_def Let_def Apply_inv helo_inv split: option.split)

lemma repair_step_inv: "repair_inv s \<Longrightarrow> repair_inv (repair_step env op s)"
  by (cases op)
    (simp_all add: Create_inv Update_inv Delete_inv Apply_inv Flush_inv inbound_inv EnqueueCommand_def
      enqueue_inv clearHomeAssistantComponentConnection_def split: option.split)

lemma repair_steps_inv: "repair_inv s \<Longrightarrow> repair_inv (fold (repair_step env) ops s)"
  by (induction ops arbitrary: s) (simp_all add: repair_step_inv)

text \<open>C15: Whatever operations and messages the repair service handles, each repair is filed under its own
  identifier with a valid command, and the queue holds valid commands with distinct identifiers, exactly
  those the set of queued identifiers names.\<close>

theorem repair_types: "repair_inv (fold (repair_step env) ops (NewRepairService p))"
  by (rule repair_steps_inv) (simp add: NewRepairService_def repair_inv_def)

section \<open>Delivery of commands\<close>

text \<open>A caller that has a command creates the repair or updates it.\<close>

definition submit :: "'db repair_env \<Rightarrow> int \<Rightarrow> repair_command \<Rightarrow> 'db repair_service \<Rightarrow> 'db repair_service" where
  "submit env now c s =
     (if Get_repair (rc_RepairID c) s = None then snd (Create_repair env now c s)
      else snd (Update_repair env now c s))"

lemma announce_queues:
  assumes "rp_component s = None" "rc_CommandID c \<noteq> []" "rc_CommandID c \<notin> set (rp_queuedIDs s)"
  shows "rp_queue (announce_command env c s) = rp_queue s @ [c]"
    "rp_queuedIDs (announce_command env c s) = rp_queuedIDs s @ [rc_CommandID c]"
    "rp_component (announce_command env c s) = None" "rp_state (announce_command env c s) = rp_state s"
    "rp_sent (announce_command env c s) = rp_sent s @ (if re_broadcaster env then [c] else [])"
  using assms by (simp_all add: announce_command_def Let_def broadcast_command_def enqueueLocked_def)

lemma sync_simps [simp]:
  "rp_queue (syncProblemFromCommand env c st s) = rp_queue s"
  "rp_queuedIDs (syncProblemFromCommand env c st s) = rp_queuedIDs s"
  "rp_component (syncProblemFromCommand env c st s) = rp_component s"
  "rp_state (syncProblemFromCommand env c st s) = rp_state s"
  "rp_sent (syncProblemFromCommand env c st s) = rp_sent s"
  by (simp_all add: syncProblemFromCommand_def)

lemma submit_queues:
  assumes "rp_component s = None" "validate_command c = None" "rc_CommandID c \<notin> set (rp_queuedIDs s)"
  shows "rp_queue (submit env now c s) = rp_queue s @ [c]
    \<and> rp_queuedIDs (submit env now c s) = rp_queuedIDs s @ [rc_CommandID c]
    \<and> rp_component (submit env now c s) = None
    \<and> rp_sent (submit env now c s) = rp_sent s @ (if re_broadcaster env then [c] else [])"
  using assms validate_commandD [OF assms(2)]
  by (auto simp: submit_def Get_repair_def Create_repair_def Update_repair_def Let_def announce_queues
      split: option.split)

lemma submits_queue:
  assumes "rp_component s = None" "\<forall>c \<in> set cs. validate_command c = None"
    "distinct (rp_queuedIDs s @ map rc_CommandID cs)"
  shows "rp_queue (fold (submit env now) cs s) = rp_queue s @ cs
    \<and> rp_queuedIDs (fold (submit env now) cs s) = rp_queuedIDs s @ map rc_CommandID cs
    \<and> rp_component (fold (submit env now) cs s) = None
    \<and> rp_sent (fold (submit env now) cs s) = rp_sent s @ (if re_broadcaster env then cs else [])"
  using assms
proof (induction cs arbitrary: s)
  case (Cons c cs)
  have "rc_CommandID c \<notin> set (rp_queuedIDs s)" using Cons.prems(3) by auto
  with Cons.prems have q: "rp_queue (submit env now c s) = rp_queue s @ [c]"
    "rp_queuedIDs (submit env now c s) = rp_queuedIDs s @ [rc_CommandID c]"
    "rp_component (submit env now c s) = None"
    "rp_sent (submit env now c s) = rp_sent s @ (if re_broadcaster env then [c] else [])"
    using submit_queues [of s c env now] by simp_all
  with Cons.IH [of "submit env now c s"] Cons.prems show ?case by simp
qed simp

lemma helo_flushes:
  assumes "repair_inv s"
  shows "rp_queue (setHomeAssistantComponentConnection t m s) = []
    \<and> rp_queuedIDs (setHomeAssistantComponentConnection t m s) = []
    \<and> rp_component (setHomeAssistantComponentConnection t m s) \<noteq> None
    \<and> rp_state (setHomeAssistantComponentConnection t m s) = rp_state s
    \<and> rp_sent (setHomeAssistantComponentConnection t m s) = rp_sent s @ rp_queue s"
  using assms by (simp add: setHomeAssistantComponentConnection_def Let_def FlushQueuedCommands_def repair_inv_def)

lemma submits_inv: "repair_inv s \<Longrightarrow> repair_inv (fold (submit env now) cs s)"
  by (induction cs arbitrary: s) (simp_all add: submit_def Create_inv Update_inv)

text \<open>C11: Commands with identifiers of their own that are submitted while Home Assistant is not
  connected are all sent, in order and once, when its component says helo, after those that were queued
  before; nothing stays in the queue.\<close>

theorem repair_commands_delivered:
  assumes "repair_inv s" and "rp_component s = None"
    and "\<forall>c \<in> set cs. validate_command c = None"
    and "distinct (rp_queuedIDs s @ map rc_CommandID cs)"
    and "validate_helo m = None"
  shows "(case snd (handleInboundMessage env t (InHelo m) (fold (submit env now) cs s)) of
      s1 \<Rightarrow> rp_queue s1 = [] \<and> rp_queuedIDs s1 = [] \<and> rp_component s1 \<noteq> None
        \<and> rp_sent s1 = rp_sent s @ (if re_broadcaster env then cs else []) @ rp_queue s @ cs)"
proof -
  let ?s = "fold (submit env now) cs s"
  have h: "snd (handleInboundMessage env t (InHelo m) ?s) = setHomeAssistantComponentConnection t m ?s"
    by (simp add: handleInboundMessage_def assms(5))
  show ?thesis
    using submits_queue [OF assms(2,3,4), of env now] helo_flushes [OF submits_inv [OF assms(1)], of t m env now cs]
    by (simp add: h)
qed

definition demo_command :: "string \<Rightarrow> string \<Rightarrow> repair_command" where
  "demo_command cid rid = \<lparr>rc_CommandID = cid, rc_RepairID = rid, rc_Action = REPAIRCOMMANDACTIONUPSERT,
     rc_TranslationKey = ''key'', rc_TranslationPlaceholders = None, rc_Data = None, rc_LearnMoreURL = None,
     rc_BreaksInHAVersion = None, rc_Severity = Some REPAIRISSUESEVERITYERROR, rc_IsFixable = True, rc_IsPersistent = True\<rparr>"

definition demo_helo :: helo_message where
  "demo_helo = \<lparr>he_Type = ''helo'', he_Component = ''srat'', he_Version = ''1'', he_HAVersion = None, he_EntryID = None\<rparr>"

definition demo_repairs :: "problem_row list repair_service" where
  "demo_repairs = NewRepairService \<lparr>ps_db = [], ps_cache = [], ps_events = []\<rparr>"

definition demo_repair_env :: "problem_row list repair_env" where
  "demo_repair_env = \<lparr>re_broadcaster = True, re_problem = True, re_db = list_db\<rparr>"

lemmas demo_repair_defs = demo_command_def demo_helo_def demo_repairs_def demo_repair_env_def NewRepairService_def
  repair_inv_def validate_command_def validate_helo_def

theorem repair_commands_delivered_witness:
  "case snd (handleInboundMessage demo_repair_env 5 (InHelo demo_helo)
       (fold (submit demo_repair_env 3) [demo_command ''c1'' ''r'', demo_command ''c2'' ''r''] demo_repairs)) of
     s1 \<Rightarrow> rp_queue s1 = [] \<and> rp_queuedIDs s1 = [] \<and> rp_component s1 \<noteq> None
       \<and> rp_sent s1 = rp_sent demo_repairs
           @ (if re_broadcaster demo_repair_env then [demo_command ''c1'' ''r'', demo_command ''c2'' ''r''] else [])
           @ rp_queue demo_repairs @ [demo_command ''c1'' ''r'', demo_command ''c2'' ''r'']"
  by (rule repair_commands_delivered) (simp_all add: demo_repair_defs)

text \<open>A deletion is broadcast but never queued, so a repair that was created while Home Assistant was
  not connected and deleted before it connects is sent again at the connection, after its deletion,
  although the service does not know it any more.\<close>

theorem deleted_repair_still_sent:
  assumes "rp_component s = None" and "validate_command c = None" and "re_broadcaster env"
    and "rc_CommandID c \<notin> set (rp_queuedIDs s)" and "map_of (rp_state s) (rc_RepairID c) = None"
    and "repair_inv s"
  shows "(case snd (Delete_repair env uuid (rc_RepairID c) (snd (Create_repair env now c s))) of
      s1 \<Rightarrow> (case setHomeAssistantComponentConnection t m s1 of
        s2 \<Rightarrow> Get_repair (rc_RepairID c) s2 = None
          \<and> rp_sent s2 = rp_sent s @ [c, delete_command uuid (rc_RepairID c)] @ rp_queue s @ [c]))"
proof -
  let ?s1 = "snd (Create_repair env now c s)"
  let ?s2 = "snd (Delete_repair env uuid (rc_RepairID c) ?s1)"
  have c: "?s1 = submit env now c s" using assms(5) by (simp add: submit_def Get_repair_def)
  have q: "rp_queue ?s1 = rp_queue s @ [c]" "rp_sent ?s1 = rp_sent s @ [c]"
    using submit_queues [OF assms(1,2,4), of env now] assms(3) by (simp_all add: c)
  have st: "map_of (rp_state ?s1) (rc_RepairID c) \<noteq> None"
    using assms validate_commandD [OF assms(2)]
    by (simp add: Create_repair_def Let_def announce_queues update_lookup)
  have d: "rp_sent ?s2 = rp_sent ?s1 @ [delete_command uuid (rc_RepairID c)]" "rp_queue ?s2 = rp_queue ?s1"
    "map_of (rp_state ?s2) (rc_RepairID c) = None"
    using st assms(3) validate_commandD [OF assms(2)]
    by (auto simp: Delete_repair_def broadcast_command_def dismissProblem_def delete_lookup)
  show ?thesis
    using helo_flushes [OF Delete_inv [OF Create_inv [OF assms(6)]], of t m env uuid "rc_RepairID c" env now c] d q
    by (simp add: Get_repair_def)
qed

theorem deleted_repair_still_sent_witness:
  "case snd (Delete_repair demo_repair_env ''u'' (rc_RepairID (demo_command ''c'' ''r''))
       (snd (Create_repair demo_repair_env 1 (demo_command ''c'' ''r'') demo_repairs))) of
     s1 \<Rightarrow> (case setHomeAssistantComponentConnection 2 demo_helo s1 of
       s2 \<Rightarrow> Get_repair (rc_RepairID (demo_command ''c'' ''r'')) s2 = None
         \<and> rp_sent s2 = rp_sent demo_repairs
             @ [demo_command ''c'' ''r'', delete_command ''u'' (rc_RepairID (demo_command ''c'' ''r''))]
             @ rp_queue demo_repairs @ [demo_command ''c'' ''r''])"
  by (rule deleted_repair_still_sent) (simp_all add: demo_repair_defs)

end
