(* ===== verification/Ha_Bridge_Laws.thy ===== *)
theory Ha_Bridge_Laws
  imports Problem_HA_Bridge Problem_Laws
begin

text \<open>
  What the bridge to Home Assistant guarantees: the notifications happen in the order of the problems,
  whenever Home Assistant is reachable, and what an operation of the problem service does to them.
\<close>

section \<open>The order of the notifications\<close>

datatype bridge_input = BReady bool | BComponent "ha_component option" | BProblem "problem option"

fun bridge_step :: "'w bridge_env \<Rightarrow> bridge_input \<Rightarrow> 'w ha_bridge \<Rightarrow> 'w ha_bridge" where
  "bridge_step env (BReady r) b = b\<lparr>hb_core_ready := r\<rparr>"
| "bridge_step env (BComponent c) b = b\<lparr>hb_component := c\<rparr>"
| "bridge_step env (BProblem p) b = handleProblemEvent env p b"

text \<open>
  The contract: the notification that a problem asks for depends on the problem and on the component that
  is connected, never on whether Home Assistant can be reached.
\<close>

definition asked_by :: "ha_component option \<Rightarrow> problem \<Rightarrow> notification_action list" where
  "asked_by c p =
     (if pb_Status p = StDismissed \<or> pb_Status p = StDeleted \<or> pb_Status p = StFixed
      then [NotifyDismiss (fst (toNotificationPayload p))]
      else if (\<exists>h. c = Some h \<and> hc_Component h = ''srat'') \<and> pb_Severity p \<in> {SevError, SevCritical} then []
      else [NotifyCreate (fst (toNotificationPayload p)) (fst (snd (toNotificationPayload p)))
              (snd (snd (toNotificationPayload p)))])"

fun asked :: "ha_component option \<Rightarrow> bridge_input list \<Rightarrow> notification_action list" where
  "asked c [] = []"
| "asked c (BReady r # xs) = asked c xs"
| "asked c (BComponent c' # xs) = asked c' xs"
| "asked c (BProblem None # xs) = asked c xs"
| "asked c (BProblem (Some p) # xs) = asked_by c p @ asked c xs"

text \<open>A notification service that does what it is told; \<open>done_of\<close> reads what it did from the world.\<close>

definition records :: "'w ha_notifications \<Rightarrow> ('w \<Rightarrow> notification_action list) \<Rightarrow> bool" where
  "records ha done_of \<longleftrightarrow>
     (\<forall>i w. fst (hn_Dismiss ha i w) = None \<and> done_of (snd (hn_Dismiss ha i w)) = done_of w @ [NotifyDismiss i])
     \<and> (\<forall>i t m w. fst (hn_Create ha i t m w) = None \<and> done_of (snd (hn_Create ha i t m w)) = done_of w @ [NotifyCreate i t m])"

lemma do_action_records:
  "records ha done_of \<Longrightarrow> fst (do_action ha a w) = None \<and> done_of (snd (do_action ha a w)) = done_of w @ [a]"
  by (cases a) (simp_all add: records_def)

lemma do_actions_records:
  assumes "records ha done_of"
  shows "fst (do_actions ha as w) = None \<and> done_of (snd (do_actions ha as w)) = done_of w @ as"
proof (induction "as" arbitrary: w)
  case (Cons a as)
  have "fst (do_action ha a w) = None" "done_of (snd (do_action ha a w)) = done_of w @ [a]"
    using do_action_records [OF assms] by simp_all
  then show ?case using Cons by (simp add: case_prod_beta)
qed simp

lemma notify_now_log:
  assumes "be_ha env = Some ha" "records ha done_of"
  shows "done_of (hb_out (notify_now env a b)) @ hb_queue (notify_now env a b) = done_of (hb_out b) @ hb_queue b @ [a]"
    "hb_component (notify_now env a b) = hb_component b"
    "hb_core_ready b \<Longrightarrow> hb_queue (notify_now env a b) = []"
  using assms(1) do_actions_records [OF assms(2)] do_action_records [OF assms(2)]
  by (auto simp: notify_now_def canUseHA_def flushQueue_def bridge_enqueue_def case_prod_beta)

lemma handle_asked:
  "handleProblemEvent env (Some p) b =
     (case asked_by (hb_component b) p of
        [] \<Rightarrow> (if be_broadcaster env then b\<lparr>hb_sent := hb_sent b @ [p]\<rparr> else b)
      | a # as \<Rightarrow> notify_now env a b)"
  by (auto simp: handleProblemEvent_def asked_by_def isTerminalProblemStatus_def isComponentConnected_def
      isRepairSeverity_def case_prod_beta split: option.split)

lemma asked_by_one: "asked_by c p = [] \<or> (\<exists>a. asked_by c p = [a])"
  by (simp add: asked_by_def)

lemma handle_log:
  assumes "be_ha env = Some ha" "records ha done_of"
  shows "done_of (hb_out (handleProblemEvent env (Some p) b)) @ hb_queue (handleProblemEvent env (Some p) b)
      = done_of (hb_out b) @ hb_queue b @ asked_by (hb_component b) p"
    "hb_component (handleProblemEvent env (Some p) b) = hb_component b"
  using asked_by_one [of "hb_component b" p] notify_now_log [OF assms]
  by (auto simp: handle_asked)

lemma asked_step:
  assumes "be_ha env = Some ha" "records ha done_of"
  shows "done_of (hb_out (bridge_step env i b)) @ hb_queue (bridge_step env i b) @ asked (hb_component (bridge_step env i b)) is
      = done_of (hb_out b) @ hb_queue b @ asked (hb_component b) (i # is)"
proof (cases i)
  case (BProblem p)
  then show ?thesis
    using handle_log [OF assms, of _ b]
    by (cases p) (simp add: handleProblemEvent_def, metis asked.simps(5) append.assoc bridge_step.simps(3))
qed simp_all

section \<open>What the notification service is asked to do\<close>

text \<open>
  The calls of the notification service are observed by a log that is kept beside the outside world: each
  call with its answer. The service itself stays arbitrary, failures included.
\<close>

type_synonym call_log = "(notification_action \<times> err option) list"

definition logged_ha :: "'w ha_notifications \<Rightarrow> ('w \<times> call_log) ha_notifications" where
  "logged_ha ha =
     \<lparr>hn_Create = (\<lambda>i t m (w, calls). case hn_Create ha i t m w of (e, w1) \<Rightarrow> (e, w1, calls @ [(NotifyCreate i t m, e)])),
      hn_Dismiss = (\<lambda>i (w, calls). case hn_Dismiss ha i w of (e, w1) \<Rightarrow> (e, w1, calls @ [(NotifyDismiss i, e)]))\<rparr>"

definition logged_env :: "'w bridge_env \<Rightarrow> ('w \<times> call_log) bridge_env" where
  "logged_env env = \<lparr>be_ha = map_option logged_ha (be_ha env), be_broadcaster = be_broadcaster env\<rparr>"

text \<open>
  The calls \<open>calls\<close> carry out the notifications \<open>wanted\<close> in order and leave \<open>waiting\<close>; notifications are
  passed over only right behind a call that failed (\<open>failed\<close>: the call before them did).
\<close>

fun carried_out :: "bool \<Rightarrow> call_log \<Rightarrow> notification_action list \<Rightarrow> notification_action list \<Rightarrow> bool" where
  "carried_out failed [] wanted waiting \<longleftrightarrow> (\<exists>lost. wanted = lost @ waiting \<and> (lost = [] \<or> failed))"
| "carried_out failed ((a, e) # calls) wanted waiting \<longleftrightarrow>
     (\<exists>lost rest. wanted = lost @ a # rest \<and> (lost = [] \<or> failed) \<and> carried_out (e \<noteq> None) calls rest waiting)"

lemma carried_out_nothing: "carried_out False [] as as"
  by simp

lemma carried_out_behind_failure: "carried_out failed calls wanted waiting \<Longrightarrow> carried_out True calls (lost @ wanted) waiting"
proof (cases calls)
  case (Cons x calls')
  assume "carried_out failed calls wanted waiting"
  then obtain lost' rest where "wanted = lost' @ fst x # rest" "carried_out (snd x \<noteq> None) calls' rest waiting"
    by (cases x) (auto simp: Cons)
  then show ?thesis
    by (cases x) (simp add: Cons, rule exI [of _ "lost @ lost'"], rule exI [of _ rest], simp)
qed auto

lemma carried_out_append:
  "carried_out failed calls wanted waiting \<Longrightarrow> carried_out False calls' (waiting @ as) waiting'
   \<Longrightarrow> carried_out failed (calls @ calls') (wanted @ as) waiting'"
proof (induction failed calls wanted waiting rule: carried_out.induct)
  case (1 failed wanted waiting)
  then obtain lost where l: "wanted = lost @ waiting" "lost = [] \<or> failed" by auto
  show ?case
  proof (cases "lost = []")
    case False
    then show ?thesis using 1(2) l carried_out_behind_failure [of False calls' "waiting @ as" waiting' lost] by simp
  next
    case True
    then show ?thesis
      using 1(2) l carried_out_behind_failure [of False calls' "waiting @ as" waiting' "[]"] by (cases failed) simp_all
  qed
next
  case (2 failed a e calls wanted waiting)
  then obtain lost rest where "wanted = lost @ a # rest" "lost = [] \<or> failed" "carried_out (e \<noteq> None) calls rest waiting"
    by auto
  then show ?case using 2(1) [OF _ 2(3)] by auto
qed

lemma carried_out_all:
  "carried_out False calls wanted waiting \<Longrightarrow> list_all (\<lambda>c. snd c = None) calls \<Longrightarrow> wanted = map fst calls @ waiting"
proof (induction calls arbitrary: wanted)
  case (Cons c calls)
  then show ?case by (cases c) auto
qed simp

lemma do_action_logged:
  obtains e w1 where "do_action (logged_ha ha) a (w, calls) = (e, w1, calls @ [(a, e)])"
  by (cases a) (auto simp: logged_ha_def case_prod_beta)

lemma do_actions_logged:
  "\<exists>e w1 new. do_actions (logged_ha ha) as (w, calls) = (e, w1, calls @ new)
     \<and> carried_out failed (new @ [(a, e')]) (as @ [a]) []"
proof (induction "as" arbitrary: w calls failed)
  case (Cons x as)
  obtain e w1 where d: "do_action (logged_ha ha) x (w, calls) = (e, w1, calls @ [(x, e)])"
    by (rule do_action_logged)
  show ?case
  proof (cases e)
    case None
    obtain e2 w2 new where "do_actions (logged_ha ha) as (w1, calls @ [(x, e)]) = (e2, w2, (calls @ [(x, e)]) @ new)"
      "carried_out False (new @ [(a, e')]) (as @ [a]) []"
      using Cons [of w1 "calls @ [(x, e)]" False] by blast
    then show ?thesis using d None by (auto intro!: exI [of _ "(x, None) # new"])
  next
    case (Some err)
    then show ?thesis using d by (auto intro!: exI [of _ "[(x, Some err)]"])
  qed
qed auto

lemma notify_now_logged:
  assumes "hb_out b = (w, calls)"
  obtains w1 new where "hb_out (notify_now (logged_env env) a b) = (w1, calls @ new)"
    "carried_out False new (hb_queue b @ [a]) (hb_queue (notify_now (logged_env env) a b))"
proof (cases "be_ha env = None \<or> \<not> hb_core_ready b")
  case True
  then show ?thesis
    using that [of w "[]"] assms
    by (auto simp: notify_now_def canUseHA_def logged_env_def bridge_enqueue_def)
next
  case False
  then obtain ha where ha: "be_ha env = Some ha" "hb_core_ready b" by auto
  obtain e0 w0 new0 where d0: "do_actions (logged_ha ha) (hb_queue b) (w, calls) = (e0, w0, calls @ new0)"
    using do_actions_logged [of ha "hb_queue b" w calls] by blast
  obtain e w1 where d1: "do_action (logged_ha ha) a (w0, calls @ new0) = (e, w1, (calls @ new0) @ [(a, e)])"
    by (rule do_action_logged)
  have "carried_out False (new0 @ [(a, e)]) (hb_queue b @ [a]) []"
    using do_actions_logged [of ha "hb_queue b" w calls False a e] d0 by auto
  then show ?thesis
    using that [of w1 "new0 @ [(a, e)]"] ha assms d0 d1
    by (simp add: notify_now_def canUseHA_def logged_env_def flushQueue_def)
qed

lemma notify_now_component: "hb_component (notify_now env a b) = hb_component b"
  by (auto simp: notify_now_def bridge_enqueue_def flushQueue_def case_prod_beta split: option.split)

lemma notify_now_empties: "canUseHA env b \<Longrightarrow> hb_queue (notify_now env a b) = []"
  by (auto simp: notify_now_def canUseHA_def flushQueue_def case_prod_beta)

lemma handle_component: "hb_component (handleProblemEvent env e b) = hb_component b"
proof (cases e)
  case None
  then show ?thesis by (simp add: handleProblemEvent_def)
qed (auto simp: handle_asked notify_now_component split: list.split)

lemma bridge_step_logged:
  assumes "hb_out b = (w, calls)"
  obtains w1 new where "hb_out (bridge_step (logged_env env) i b) = (w1, calls @ new)"
    "carried_out False new (hb_queue b @ asked (hb_component b) [i]) (hb_queue (bridge_step (logged_env env) i b))"
proof -
  note found = that
  have idle: thesis if "bridge_step (logged_env env) i b = b\<lparr>hb_sent := x\<rparr>" "asked (hb_component b) [i] = []" for x
    using found [of w "[]"] that assms by simp
  show thesis
  proof (cases i)
    case (BProblem e)
    show thesis
    proof (cases e)
      case None
      then show thesis using idle [of "hb_sent b"] BProblem by (simp add: handleProblemEvent_def)
    next
      case (Some p)
      show thesis
      proof (cases "asked_by (hb_component b) p")
        case Nil
        then show thesis
          using idle [of "hb_sent b"] idle [of "hb_sent b @ [p]"] BProblem Some
          by (cases "be_broadcaster (logged_env env)") (simp_all add: handle_asked)
      next
        case (Cons a as)
        then have "asked_by (hb_component b) p = [a]" using asked_by_one [of "hb_component b" p] by auto
        then show thesis
          using notify_now_logged [OF assms, of env a thesis] that BProblem Some by (simp add: handle_asked)
      qed
    qed
  qed (use that [of w "[]"] assms in simp_all)
qed

lemma asked_split: "asked (hb_component b) (i # is) = asked (hb_component b) [i] @ asked (hb_component (bridge_step env i b)) is"
proof (cases i)
  case (BProblem e)
  then show ?thesis by (cases e) (simp_all add: handle_component)
qed simp_all

lemma bridge_logged:
  "hb_out b = (w, calls) \<Longrightarrow>
   \<exists>w1 new. hb_out (fold (bridge_step (logged_env env)) is b) = (w1, calls @ new)
     \<and> carried_out False new (hb_queue b @ asked (hb_component b) is) (hb_queue (fold (bridge_step (logged_env env)) is b))"
proof (induction "is" arbitrary: b w calls)
  case (Cons i "is")
  let ?b = "bridge_step (logged_env env) i b"
  obtain w1 new where 1: "hb_out ?b = (w1, calls @ new)"
    "carried_out False new (hb_queue b @ asked (hb_component b) [i]) (hb_queue ?b)"
    using Cons(2) by (rule bridge_step_logged)
  obtain w2 new2 where 2: "hb_out (fold (bridge_step (logged_env env)) is ?b) = (w2, (calls @ new) @ new2)"
    "carried_out False new2 (hb_queue ?b @ asked (hb_component ?b) is) (hb_queue (fold (bridge_step (logged_env env)) is ?b))"
    using Cons(1) [OF 1(1)] by blast
  show ?case
    using 2 carried_out_append [OF 1(2) 2(2)] asked_split [of b i "is" "logged_env env"] by auto
qed auto


definition log_ha :: "notification_action list ha_notifications" where
  "log_ha = \<lparr>hn_Create = (\<lambda>i t m w. (None, w @ [NotifyCreate i t m])), hn_Dismiss = (\<lambda>i w. (None, w @ [NotifyDismiss i]))\<rparr>"

lemma log_ha_records: "records log_ha (\<lambda>w. w)"
  by (simp add: records_def log_ha_def)

definition demo_bridge_env :: "notification_action list bridge_env" where
  "demo_bridge_env = \<lparr>be_ha = Some log_ha, be_broadcaster = True\<rparr>"

definition demo_bridge :: "notification_action list ha_bridge" where
  "demo_bridge = \<lparr>hb_core_ready = False, hb_component = None, hb_queue = [], hb_sent = [], hb_out = []\<rparr>"

text \<open>A service whose first call fails.\<close>

definition shaky_env :: "nat bridge_env" where
  "shaky_env =
     \<lparr>be_ha = Some \<lparr>hn_Create = (\<lambda>i t m n. (if n = 0 then Some (E ErrorOther ''unreachable'') else None, Suc n)),
                     hn_Dismiss = (\<lambda>i n. (None, Suc n))\<rparr>,
      be_broadcaster = True\<rparr>"

definition shaky_bridge :: "(nat \<times> call_log) ha_bridge" where
  "shaky_bridge = \<lparr>hb_core_ready = False, hb_component = None, hb_queue = [], hb_sent = [], hb_out = (0, [])\<rparr>"


text \<open>The first failure drops the rest of the queue.\<close>

lemma flush_failure_drops:
  assumes "be_ha env = Some ha" "hb_core_ready b" "hb_queue b = a # as" "do_action ha a (hb_out b) = (Some e, w)"
  shows "flushQueue env b = (Some e, b\<lparr>hb_queue := [], hb_out := w\<rparr>)"
  using assms by (simp add: flushQueue_def canUseHA_def)

section \<open>Problems and their notifications\<close>

lemma ApplyLifecycle_Ok:
  assumes "db_laws db rows" "fst (ApplyLifecycle db k st e s) = Ok p"
  shows "TrimSpace k \<noteq> [] \<and> pb_ProblemKey p = k \<and> pb_Status p = st
    \<and> ps_events (snd (ApplyLifecycle db k st e s)) = ps_events s @ [(EvUpdate, p)]"
proof -
  obtain row where f: "TrimSpace k \<noteq> []" "find_key db (ps_db s) k = Inr (Some row)"
    using assms(2) by (auto simp: ApplyLifecycle_def split: if_splits sum.splits option.splits)
  let ?row = "row\<lparr>pb_Status := st, row_LastError := str_or_empty e\<rparr>"
  obtain r d where v: "save_row db ?row (ps_db s) = Inr (r, d)"
    using assms(2) f by (auto simp: ApplyLifecycle_def split: if_splits sum.splits)
  have "pb_ProblemKey row = k" using db_lawsD(1) [OF assms(1) f(2)] by simp
  moreover obtain u where "r = ?row\<lparr>pb_UpdatedAt := u\<rparr>" using db_lawsD(5) [OF assms(1) v] by blast
  ultimately show ?thesis using f v assms(2)
    by (auto simp: ApplyLifecycle_def Let_def emit_problem_def put_cache_def)
qed

text \<open>When Home Assistant reports the end of a problem and can be reached, its notification is
  dismissed after everything that was queued before.\<close>

theorem lifecycle_end_dismisses:
  assumes "db_laws db rows" and "fst (ApplyLifecycle db k st e s) = Ok p"
    and "st = StDismissed \<or> st = StDeleted \<or> st = StFixed"
    and "be_ha env = Some ha" and "records ha done_of" and "hb_core_ready b"
  shows "(case bridged env (ApplyLifecycle db k st e) (s, b) of
      (r, s1, b1) \<Rightarrow> r = Ok p \<and> hb_queue b1 = []
        \<and> done_of (hb_out b1) = done_of (hb_out b) @ hb_queue b @ [NotifyDismiss (''srat_problem_'' @ TrimSpace k)])"
proof -
  have p: "TrimSpace k \<noteq> []" "pb_ProblemKey p = k" "pb_Status p = st"
    "ps_events (snd (ApplyLifecycle db k st e s)) = ps_events s @ [(EvUpdate, p)]"
    using ApplyLifecycle_Ok [OF assms(1,2)] by simp_all
  have a: "asked_by (hb_component b) p = [NotifyDismiss (''srat_problem_'' @ TrimSpace k)]"
    using p assms(3) by (auto simp: asked_by_def toNotificationPayload_def notification_key_def Let_def)
  have n: "hb_queue (notify_now env (NotifyDismiss (''srat_problem_'' @ TrimSpace k)) b) = []"
    by (rule notify_now_log(3) [OF assms(4,5,6)])
  show ?thesis
    using notify_now_log(1) [OF assms(4,5), of "NotifyDismiss (''srat_problem_'' @ TrimSpace k)" b] n
    by (simp add: bridged_def case_prod_beta p assms(2) bridge_events_def handle_asked a)
qed

definition demo_row :: problem_row where
  "demo_row = (ToDbom demo_problem)\<lparr>pb_ID := 1, pb_Status := StUpdated\<rparr>"

definition demo_store :: "problem_row list problem_service" where
  "demo_store = \<lparr>ps_db = [demo_row], ps_cache = [], ps_events = []\<rparr>"

lemma demo_row_simps:
  "pb_ProblemKey demo_row = ''disk''" "pb_ProblemKey demo_problem = ''disk''" "pb_Status demo_row = StUpdated"
  "TrimSpace ''disk'' \<noteq> []"
  by (simp add: demo_row_def demo_problem_def, simp add: demo_problem_def, simp add: demo_row_def, code_simp)

lemma demo_found: "List.find (\<lambda>r. pb_ProblemKey r = ''disk'') (ps_db demo_store) = Some demo_row"
  by (simp add: demo_store_def demo_row_simps)

theorem lifecycle_end_dismisses_witness:
  "\<exists>p. case bridged demo_bridge_env (ApplyLifecycle list_db (pb_ProblemKey demo_problem) StFixed None)
         (demo_store, demo_bridge\<lparr>hb_core_ready := True\<rparr>) of
     (r, s1, b1) \<Rightarrow> r = Ok p \<and> hb_queue b1 = []
       \<and> (\<lambda>w. w) (hb_out b1) = (\<lambda>w. w) (hb_out (demo_bridge\<lparr>hb_core_ready := True\<rparr>))
            @ hb_queue (demo_bridge\<lparr>hb_core_ready := True\<rparr>)
            @ [NotifyDismiss (''srat_problem_'' @ TrimSpace (pb_ProblemKey demo_problem))]"
proof -
  obtain p where "fst (ApplyLifecycle list_db (pb_ProblemKey demo_problem) StFixed None demo_store) = Ok p"
    by (simp add: ApplyLifecycle_def demo_found demo_row_simps list_db_def Let_def)
  then show ?thesis
    by (intro exI [of _ p] lifecycle_end_dismisses [OF list_db_laws, where ha = log_ha])
      (simp_all add: demo_bridge_env_def log_ha_records)
qed

text \<open>Dismissing a problem removes it from the database, but the bridge looks at the status and not at
  the kind of the event: a problem that was neither fixed nor dismissed by Home Assistant gets its
  notification created once more instead of dismissed.\<close>

theorem dismissed_problem_notified:
  assumes "fst (Dismiss db k s) = Ok ()" and "find_key db (ps_db s) k = Inr (Some row)"
    and "pb_Status row \<notin> {StDismissed, StDeleted, StFixed}" and "hb_component b = None"
    and "be_ha env = Some ha" and "records ha done_of" and "hb_core_ready b" and "hb_queue b = []"
  shows "(case bridged env (Dismiss db k) (s, b) of
      (r, s1, b1) \<Rightarrow> \<exists>t m. hb_queue b1 = []
        \<and> done_of (hb_out b1) = done_of (hb_out b) @ [NotifyCreate (''srat_problem_'' @ notification_key (ToDto row)) t m])"
proof -
  have ev: "ps_events (snd (Dismiss db k s)) = ps_events s @ [(EvRemove, ToDto row)]"
    using assms(1,2) by (auto simp: Dismiss_def Let_def emit_problem_def split: if_splits sum.splits)
  obtain t m where a: "asked_by (hb_component b) (ToDto row)
      = [NotifyCreate (''srat_problem_'' @ notification_key (ToDto row)) t m]"
    using assms(3,4) by (simp add: asked_by_def toNotificationPayload_def Let_def)
  let ?a = "NotifyCreate (''srat_problem_'' @ notification_key (ToDto row)) t m"
  have "hb_queue (notify_now env ?a b) = []" by (rule notify_now_log(3) [OF assms(5,6,7)])
  then show ?thesis
    using notify_now_log(1) [OF assms(5,6), of ?a b] assms(8)
    by (auto simp: bridged_def case_prod_beta ev bridge_events_def handle_asked a)
qed

theorem dismissed_problem_notified_witness:
  "case bridged demo_bridge_env (Dismiss list_db (pb_ProblemKey demo_problem))
         (demo_store, demo_bridge\<lparr>hb_core_ready := True\<rparr>) of
     (r, s1, b1) \<Rightarrow> \<exists>t m. hb_queue b1 = []
       \<and> (\<lambda>w. w) (hb_out b1) = (\<lambda>w. w) (hb_out (demo_bridge\<lparr>hb_core_ready := True\<rparr>))
            @ [NotifyCreate (''srat_problem_'' @ notification_key (ToDto demo_row)) t m]"
  by (rule dismissed_problem_notified [of _ _ _ _ _ _ log_ha])
    (simp_all add: demo_bridge_env_def log_ha_records Dismiss_def demo_found demo_row_simps demo_bridge_def
      list_db_def Let_def)

end
