(* ===== verification/Component_Service.thy ===== *)
theory Component_Service
  imports Repair_Service Go_Path
begin

text \<open>
  The service of the custom component (\<open>service/homeassistant_component_service.go\<close>,
  \<open>dto/homeassistant_custom_component.go\<close>): what is installed under the directory of Home Assistant's
  custom components, its installation from an archive, and the problems that tell about it.

  The file system, the decoding of archives and manifests and the comparison of semantic versions are
  parameters (\<open>component_env\<close>). The state lists the paths that were removed and written.
\<close>

section \<open>Data\<close>

datatype path_stat = PathDir | PathFile | PathMissing | PathFailed
datatype file_read = FileMissing | FileFailed | FileText string

text \<open>An entry of an archive; its text is missing when it cannot be opened or copied.\<close>

record archive_entry =
  ze_Name :: string
  ze_IsDir :: bool
  ze_Mode :: nat
  ze_Text :: "string option"

record 'w component_env =
  cs_path :: string
  cs_develop :: bool
  cs_stat :: "'w \<Rightarrow> string \<Rightarrow> path_stat"
  cs_read :: "'w \<Rightarrow> string \<Rightarrow> file_read"
  cs_mkdirAll :: "string \<Rightarrow> 'w \<Rightarrow> err option \<times> 'w"
  cs_removeAll :: "string \<Rightarrow> 'w \<Rightarrow> err option \<times> 'w"
  cs_openFile :: "string \<Rightarrow> nat \<Rightarrow> 'w \<Rightarrow> err option \<times> 'w"
  cs_copy :: "string \<Rightarrow> string \<Rightarrow> 'w \<Rightarrow> err option \<times> 'w"
  cs_unzip :: "string \<Rightarrow> archive_entry list option"
  cs_version :: "string \<Rightarrow> string option"
  cs_compare :: "string \<Rightarrow> string \<Rightarrow> int option"
  cs_embedded :: "string option"
  cs_config_Version :: string

record ('db, 'w) component_state =
  cp_out :: 'w
  cp_removed :: "string list"
  cp_dirs :: "string list"
  cp_files :: "string list"
  cp_problem :: "'db problem_service"

record component_status =
  cm_InstallPath :: string
  cm_ManifestPath :: string
  cm_Installed :: bool
  cm_InstalledVersion :: "string option"
  cm_LatestVersion :: "string option"
  cm_Connected :: bool
  cm_ConnectedVersion :: "string option"
  cm_CanInstall :: bool
  cm_CanUpgrade :: bool
  cm_CanUninstall :: bool
  cm_ConnectedAt :: "int option"
  cm_HAVersion :: "string option"
  cm_EntryID :: "string option"

definition comp_err :: "string \<Rightarrow> 'a res" where
  "comp_err m = Err (E ErrorOther m)"

definition components_root :: "'w component_env \<Rightarrow> string" where
  "components_root env = (if cs_path env \<noteq> [] then cs_path env else ''/homeassistant/custom_components/'')"

definition install_path :: "'w component_env \<Rightarrow> string" where
  "install_path env = path_Join (components_root env) ''srat''"

section \<open>Versions\<close>

definition canUpgrade :: "'w component_env \<Rightarrow> string option \<Rightarrow> string option \<Rightarrow> bool" where
  "canUpgrade env installed latest =
     (case (installed, latest) of
        (Some i, Some l) \<Rightarrow> (case cs_compare env i l of Some r \<Rightarrow> r < 0 | None \<Rightarrow> False)
      | _ \<Rightarrow> False)"

definition versionLessOrEqual :: "'w component_env \<Rightarrow> string \<Rightarrow> string \<Rightarrow> bool res" where
  "versionLessOrEqual env current candidate =
     (case cs_compare env (TrimPrefix current ''v'') (TrimPrefix candidate ''v'') of
        Some r \<Rightarrow> Ok (r \<le> 0) | None \<Rightarrow> comp_err ''invalid semantic version'')"

definition cleaned_name :: "archive_entry \<Rightarrow> string" where
  "cleaned_name f = TrimPrefix (Clean (ze_Name f)) ''/''"

definition readManifestVersionFromCustomComponentArchive :: "'w component_env \<Rightarrow> string \<Rightarrow> string res" where
  "readManifestVersionFromCustomComponentArchive env archive =
     (if archive = [] then comp_err ''custom component archive is empty''
      else case cs_unzip env archive of
             None \<Rightarrow> comp_err ''zip: not a valid zip file''
           | Some files \<Rightarrow>
               (case List.find (\<lambda>f. cleaned_name f = path_Join ''srat'' ''manifest.json'') files of
                  None \<Rightarrow> comp_err ''custom component archive missing manifest''
                | Some f \<Rightarrow>
                    (case ze_Text f of
                       None \<Rightarrow> comp_err ''cannot read manifest''
                     | Some content \<Rightarrow>
                         (case cs_version env content of
                            None \<Rightarrow> comp_err ''cannot decode manifest''
                          | Some v \<Rightarrow> if v = [] then comp_err ''manifest has empty version'' else Ok v))))"

text \<open>A missing manifest is no version, as its caller takes it.\<close>

definition readManifestVersion :: "'w component_env \<Rightarrow> 'w \<Rightarrow> string \<Rightarrow> string option res" where
  "readManifestVersion env w path =
     (case cs_read env w path of
        FileMissing \<Rightarrow> Ok None
      | FileFailed \<Rightarrow> comp_err ''cannot read manifest''
      | FileText content \<Rightarrow>
          (case cs_version env content of
             None \<Rightarrow> comp_err ''cannot decode manifest''
           | Some v \<Rightarrow> Ok (if v = [] then None else Some v)))"

section \<open>Status\<close>

definition latest_version :: "'w component_env \<Rightarrow> string" where
  "latest_version env =
     (case cs_embedded env of
        None \<Rightarrow> cs_config_Version env
      | Some archive \<Rightarrow>
          (case readManifestVersionFromCustomComponentArchive env archive of
             Ok v \<Rightarrow> v | _ \<Rightarrow> cs_config_Version env))"

definition GetStatus :: "'w component_env \<Rightarrow> ha_component option \<Rightarrow> 'w \<Rightarrow> component_status res" where
  "GetStatus env conn w =
     (let dir = install_path env;
          manifest = path_Join dir ''manifest.json'';
          st = cs_stat env w dir
      in if st = PathFailed then comp_err ''cannot stat install path''
         else
           let installed = (st = PathDir)
           in case (if installed then readManifestVersion env w manifest else Ok None) of
                Err e \<Rightarrow> Err e
              | Panic \<Rightarrow> Panic
              | Ok v \<Rightarrow>
                  let c = (case conn of
                             None \<Rightarrow> None
                           | Some h \<Rightarrow> if hc_Component h = ''srat'' then Some h else None)
                  in Ok \<lparr>cm_InstallPath = dir, cm_ManifestPath = manifest, cm_Installed = installed,
                      cm_InstalledVersion = v, cm_LatestVersion = Some (latest_version env),
                      cm_Connected = (c \<noteq> None), cm_ConnectedVersion = map_option hc_Version c,
                      cm_CanInstall = (\<not> installed), cm_CanUpgrade = canUpgrade env v (Some (latest_version env)),
                      cm_CanUninstall = installed,
                      cm_ConnectedAt = (case c of
                          None \<Rightarrow> None
                        | Some h \<Rightarrow> if hc_ConnectedAt h = 0 then None else Some (hc_ConnectedAt h)),
                      cm_HAVersion = (case c of None \<Rightarrow> None | Some h \<Rightarrow> hc_HAVersion h),
                      cm_EntryID = (case c of None \<Rightarrow> None | Some h \<Rightarrow> hc_EntryID h)\<rparr>)"

section \<open>Problems\<close>

definition component_problem :: "string \<Rightarrow> string \<Rightarrow> string \<Rightarrow> string \<Rightarrow> problem" where
  "component_problem key title description link =
     \<lparr>pb_ID = 0, pb_CreatedAt = 0, pb_UpdatedAt = 0, pb_ProblemKey = key, pb_Title = title,
      pb_Description = description, pb_Severity = SevWarning, pb_Status = StCreated, pb_Repeating = 0,
      pb_Ignored = False, pb_Actions = [], pb_TranslationKey = key, pb_TranslationPlaceholders = None,
      pb_Data = None, pb_DetailLink = [], pb_ResolutionLink = link, pb_IsFixable = True, pb_IsPersistent = True,
      pb_LearnMoreURL = None, pb_LastError = None\<rparr>"

definition upsert_component ::
  "'db problem_db \<Rightarrow> problem \<Rightarrow> ('db, 'w) component_state \<Rightarrow> unit res \<times> ('db, 'w) component_state" where
  "upsert_component db p s =
     (case Upsert db (Some p) (cp_problem s) of
        (Ok x, q) \<Rightarrow> (Ok (), s\<lparr>cp_problem := q\<rparr>)
      | (Err e, q) \<Rightarrow> (Err e, s\<lparr>cp_problem := q\<rparr>)
      | (Panic, q) \<Rightarrow> (Panic, s\<lparr>cp_problem := q\<rparr>))"

definition UpsertRestartRequiredRepair ::
  "'db problem_db \<Rightarrow> ('db, 'w) component_state \<Rightarrow> unit res \<times> ('db, 'w) component_state" where
  "UpsertRestartRequiredRepair db s =
     upsert_component db (component_problem customComponentRestartRepairID ''Home Assistant restart required''
       ''Home Assistant should be restarted to apply SRAT custom component changes.'' []) s"

definition dismissRepairIssue ::
  "'db problem_db \<Rightarrow> string \<Rightarrow> ('db, 'w) component_state \<Rightarrow> unit res \<times> ('db, 'w) component_state" where
  "dismissRepairIssue db repairID s =
     (case Dismiss db repairID (cp_problem s) of
        (Err e, q) \<Rightarrow> (if err_kind e = ErrorNotFound then Ok () else Err e, s\<lparr>cp_problem := q\<rparr>)
      | (r, q) \<Rightarrow> (r, s\<lparr>cp_problem := q\<rparr>))"

definition DismissRestartRequiredRepair ::
  "'db problem_db \<Rightarrow> ('db, 'w) component_state \<Rightarrow> unit res \<times> ('db, 'w) component_state" where
  "DismissRestartRequiredRepair db s = dismissRepairIssue db customComponentRestartRepairID s"

definition DismissAddonConfigIssue ::
  "'db problem_db \<Rightarrow> ('db, 'w) component_state \<Rightarrow> unit res \<times> ('db, 'w) component_state" where
  "DismissAddonConfigIssue db s = dismissRepairIssue db ''addon_config_changed'' s"

definition SyncIssueStatus ::
  "'db problem_db \<Rightarrow> component_status option \<Rightarrow> ('db, 'w) component_state \<Rightarrow> unit res \<times> ('db, 'w) component_state" where
  "SyncIssueStatus db status s =
     (case status of
        None \<Rightarrow> (Ok (), s)
      | Some st \<Rightarrow>
          if \<not> cm_Installed st \<and> \<not> cm_Connected st then
            upsert_component db (component_problem ''custom_component_missing''
              ''Home Assistant SRAT custom component missing and disconnected''
              ''SRAT custom component is not installed under /homeassistant/custom_components/srat and no active websocket connection from Home Assistant is present.''
              ''srat://settings/homeassistant/custom-component/install'') s
          else dismissRepairIssue db ''custom_component_missing'' s)"

section \<open>Installation\<close>

definition mkdir_all ::
  "'w component_env \<Rightarrow> string \<Rightarrow> ('db, 'w) component_state \<Rightarrow> err option \<times> ('db, 'w) component_state" where
  "mkdir_all env p s =
     (case cs_mkdirAll env p (cp_out s) of (e, w) \<Rightarrow> (e, s\<lparr>cp_out := w, cp_dirs := cp_dirs s @ [p]\<rparr>))"

definition remove_all ::
  "'w component_env \<Rightarrow> string \<Rightarrow> ('db, 'w) component_state \<Rightarrow> err option \<times> ('db, 'w) component_state" where
  "remove_all env p s =
     (case cs_removeAll env p (cp_out s) of (e, w) \<Rightarrow> (e, s\<lparr>cp_out := w, cp_removed := cp_removed s @ [p]\<rparr>))"

text \<open>One file: its source is opened before the target, and what was copied stays when copying fails.\<close>

definition extract_file ::
  "'w component_env \<Rightarrow> archive_entry \<Rightarrow> string \<Rightarrow> ('db, 'w) component_state \<Rightarrow> err option \<times> ('db, 'w) component_state" where
  "extract_file env f destination s =
     (case ze_Text f of
        None \<Rightarrow> (Some (E ErrorOther ''cannot open''), s)
      | Some content \<Rightarrow>
          (case cs_openFile env destination (if ze_Mode f = 0 then 420 else ze_Mode f) (cp_out s) of
             (Some e, w) \<Rightarrow> (Some e, s\<lparr>cp_out := w\<rparr>)
           | (None, w) \<Rightarrow>
               (case cs_copy env destination content w of
                  (e, w1) \<Rightarrow> (e, s\<lparr>cp_out := w1, cp_files := cp_files s @ [destination]\<rparr>))))"

definition extract_entry ::
  "'w component_env \<Rightarrow> archive_entry \<Rightarrow> ('db, 'w) component_state \<Rightarrow> err option \<times> ('db, 'w) component_state" where
  "extract_entry env f s =
     (if cleaned_name f = ''.'' then (None, s)
      else
        let destination = path_Join (components_root env) (cleaned_name f)
        in if \<not> HasPrefix destination (Clean (components_root env) @ ''/'')
           then (Some (E ErrorOther ''illegal file path in archive''), s)
           else if ze_IsDir f then mkdir_all env destination s
           else (case mkdir_all env (Dir destination) s of
                   (Some e, s1) \<Rightarrow> (Some e, s1)
                 | (None, s1) \<Rightarrow> extract_file env f destination s1))"

fun extract_entries ::
  "'w component_env \<Rightarrow> archive_entry list \<Rightarrow> ('db, 'w) component_state \<Rightarrow> err option \<times> ('db, 'w) component_state" where
  "extract_entries env [] s = (None, s)"
| "extract_entries env (f # fs) s =
     (case extract_entry env f s of (Some e, s1) \<Rightarrow> (Some e, s1) | (None, s1) \<Rightarrow> extract_entries env fs s1)"

text \<open>The old component is removed before the archive is looked at.\<close>

definition InstallOrUpgradeFromZip ::
  "'w component_env \<Rightarrow> 'db problem_db \<Rightarrow> string \<Rightarrow> ('db, 'w) component_state \<Rightarrow> unit res \<times> ('db, 'w) component_state" where
  "InstallOrUpgradeFromZip env db archive s =
     (if archive = [] then (comp_err ''custom component archive is empty'', s)
      else case mkdir_all env (components_root env) s of
             (Some e, s1) \<Rightarrow> (Err e, s1)
           | (None, s1) \<Rightarrow>
               (case remove_all env (install_path env) s1 of
                  (Some e, s2) \<Rightarrow> (Err e, s2)
                | (None, s2) \<Rightarrow>
                    (case cs_unzip env archive of
                       None \<Rightarrow> (comp_err ''zip: not a valid zip file'', s2)
                     | Some files \<Rightarrow>
                         (case extract_entries env files s2 of
                            (Some e, s3) \<Rightarrow> (Err e, s3)
                          | (None, s3) \<Rightarrow>
                              if cs_stat env (cp_out s3) (path_Join (install_path env) ''manifest.json'')
                                 \<in> {PathMissing, PathFailed}
                              then (comp_err ''custom component archive missing manifest'', s3)
                              else (case UpsertRestartRequiredRepair db s3 of
                                      (Panic, s4) \<Rightarrow> (Panic, s4) | (_, s4) \<Rightarrow> (Ok (), s4))))))"

definition resolveDevelopCustomComponentArchive ::
  "'w component_env \<Rightarrow> string option \<Rightarrow> 'w \<Rightarrow> string option res" where
  "resolveDevelopCustomComponentArchive env installedVersion w =
     (case cs_read env w ''/addon_configs/local_sambanas2/upgrade/srat.zip'' of
        FileMissing \<Rightarrow> Ok None
      | FileFailed \<Rightarrow> comp_err ''cannot read archive''
      | FileText archive \<Rightarrow>
          (case readManifestVersionFromCustomComponentArchive env archive of
             Err e \<Rightarrow> Err e
           | Panic \<Rightarrow> Panic
           | Ok develop \<Rightarrow>
               (case installedVersion of
                  None \<Rightarrow> Ok (Some archive)
                | Some installed \<Rightarrow>
                    if installed = [] then Ok (Some archive)
                    else (case versionLessOrEqual env installed develop of
                            Ok use \<Rightarrow> Ok (if use then Some archive else None)
                          | Err e \<Rightarrow> Err e
                          | Panic \<Rightarrow> Panic))))"

definition embedded_archive :: "'w component_env \<Rightarrow> string res" where
  "embedded_archive env = (case cs_embedded env of Some a \<Rightarrow> Ok a | None \<Rightarrow> comp_err ''no embedded archive'')"

definition resolveCustomComponentArchive ::
  "'w component_env \<Rightarrow> ha_component option \<Rightarrow> 'w \<Rightarrow> string res" where
  "resolveCustomComponentArchive env conn w =
     (if \<not> cs_develop env then embedded_archive env
      else case GetStatus env conn w of
             Err e \<Rightarrow> Err e
           | Panic \<Rightarrow> Panic
           | Ok st \<Rightarrow>
               (case resolveDevelopCustomComponentArchive env (cm_InstalledVersion st) w of
                  Err e \<Rightarrow> Err e
                | Panic \<Rightarrow> Panic
                | Ok (Some a) \<Rightarrow> Ok a
                | Ok None \<Rightarrow> embedded_archive env))"

definition InstallOrUpgrade ::
  "'w component_env \<Rightarrow> 'db problem_db \<Rightarrow> ha_component option \<Rightarrow> ('db, 'w) component_state
   \<Rightarrow> unit res \<times> ('db, 'w) component_state" where
  "InstallOrUpgrade env db conn s =
     (case resolveCustomComponentArchive env conn (cp_out s) of
        Ok a \<Rightarrow> InstallOrUpgradeFromZip env db a s
      | Err e \<Rightarrow> (Err e, s)
      | Panic \<Rightarrow> (Panic, s))"

definition Uninstall ::
  "'w component_env \<Rightarrow> 'db problem_db \<Rightarrow> ('db, 'w) component_state \<Rightarrow> unit res \<times> ('db, 'w) component_state" where
  "Uninstall env db s =
     (case cs_stat env (cp_out s) (install_path env) of
        PathMissing \<Rightarrow> (Ok (), s)
      | PathFailed \<Rightarrow> (comp_err ''cannot stat install path'', s)
      | _ \<Rightarrow>
          (case remove_all env (install_path env) s of
             (Some e, s1) \<Rightarrow> (Err e, s1)
           | (None, s1) \<Rightarrow>
               (case UpsertRestartRequiredRepair db s1 of (Panic, s2) \<Rightarrow> (Panic, s2) | (_, s2) \<Rightarrow> (Ok (), s2))))"

end
