(* ===== verification/Component_Laws.thy ===== *)
theory Component_Laws
  imports Component_Service Problem_Laws
begin

text \<open>
  What the service of the custom component guarantees: an archive cannot write outside the directory of the
  custom components, an installation that reports success has run through, and what the status tells.
\<close>

section \<open>Where an archive can write\<close>

definition under :: "string \<Rightarrow> string \<Rightarrow> bool" where
  "under dir p \<longleftrightarrow> HasPrefix p (Clean dir @ ''/'') \<and> ''..'' \<notin> set (Split p CHR ''/'')"

definition files_under :: "'w component_env \<Rightarrow> ('db, 'w) component_state \<Rightarrow> bool" where
  "files_under env s \<longleftrightarrow> list_all (under (components_root env)) (cp_files s)"

lemma mkdir_all_simps [simp]:
  "cp_files (snd (mkdir_all env p s)) = cp_files s" "cp_removed (snd (mkdir_all env p s)) = cp_removed s"
  "cp_problem (snd (mkdir_all env p s)) = cp_problem s"
  by (simp_all add: mkdir_all_def case_prod_beta)

lemma remove_all_simps [simp]:
  "cp_files (snd (remove_all env p s)) = cp_files s" "cp_removed (snd (remove_all env p s)) = cp_removed s @ [p]"
  "cp_dirs (snd (remove_all env p s)) = cp_dirs s"
  by (simp_all add: remove_all_def case_prod_beta)

lemma joined_under:
  assumes "hd (components_root env) = CHR ''/''"
    "HasPrefix (path_Join (components_root env) n) (Clean (components_root env) @ ''/'')"
  shows "under (components_root env) (path_Join (components_root env) n)"
proof -
  have ne: "components_root env \<noteq> []" by (simp add: components_root_def)
  have "path_Join (components_root env) n = Clean (components_root env @ ''/'' @ n)"
    using ne by (simp add: path_Join_def)
  moreover have "''..'' \<notin> set (Split (Clean (components_root env @ ''/'' @ n)) CHR ''/'')"
    using assms(1) ne by (intro Clean_segments) simp_all
  ultimately show ?thesis using assms(2) by (simp add: under_def)
qed

lemma extract_file_files:
  "cp_files (snd (extract_file env f p s)) = cp_files s \<or> cp_files (snd (extract_file env f p s)) = cp_files s @ [p]"
  by (auto simp: extract_file_def split: option.split prod.split)

lemma extract_entry_under:
  assumes "hd (components_root env) = CHR ''/''" "files_under env s"
  shows "files_under env (snd (extract_entry env f s))"
proof -
  let ?d = "path_Join (components_root env) (cleaned_name f)"
  obtain e s1 where m: "mkdir_all env (Dir ?d) s = (e, s1)" by fastforce
  have s1: "cp_files s1 = cp_files s" using mkdir_all_simps(1) [of env "Dir ?d" s] by (simp add: m)
  have d: "HasPrefix ?d (Clean (components_root env) @ ''/'') \<Longrightarrow> under (components_root env) ?d"
    by (rule joined_under [OF assms(1)])
  show ?thesis using assms(2) s1 d extract_file_files [of env f ?d s1]
    by (auto simp: extract_entry_def Let_def m files_under_def split: option.split)
qed

lemma extract_entries_under:
  assumes "hd (components_root env) = CHR ''/''" "files_under env s"
  shows "files_under env (snd (extract_entries env fs s))"
  using assms(2)
proof (induction fs arbitrary: s)
  case (Cons f fs)
  have "files_under env (snd (extract_entry env f s))" by (rule extract_entry_under [OF assms(1) Cons.prems])
  with Cons.IH show ?case by (auto split: prod.split option.split)
qed simp

lemma upsert_files [simp]:
  "cp_files (snd (upsert_component db p s)) = cp_files s" "cp_removed (snd (upsert_component db p s)) = cp_removed s"
  by (auto simp: upsert_component_def split: prod.split res.split)

lemma restart_files [simp]:
  "cp_files (snd (UpsertRestartRequiredRepair db s)) = cp_files s"
  "cp_removed (snd (UpsertRestartRequiredRepair db s)) = cp_removed s"
  by (simp_all add: UpsertRestartRequiredRepair_def)

text \<open>An installation as a chain of steps.\<close>

lemma install_steps:
  fixes s :: "('db, 'w) component_state"
  assumes "InstallOrUpgradeFromZip env db archive s = (r, s4)"
  shows "cp_files s4 = cp_files s \<or> (\<exists>files (s2 :: ('db, 'w) component_state). cs_unzip env archive = Some files \<and> cp_files s2 = cp_files s
    \<and> cp_files s4 = cp_files (snd (extract_entries env files s2)))"
proof -
  obtain e1 s1 where m: "mkdir_all env (components_root env) s = (e1, s1)" by fastforce
  obtain e2 s2 where rm: "remove_all env (install_path env) s1 = (e2, s2)" by fastforce
  have f: "cp_files s1 = cp_files s" "cp_files s2 = cp_files s1"
    using mkdir_all_simps(1) [of env "components_root env" s] remove_all_simps(1) [of env "install_path env" s1]
    by (simp_all add: m rm)
  show ?thesis
  proof (cases "archive = [] \<or> e1 \<noteq> None \<or> e2 \<noteq> None \<or> cs_unzip env archive = None")
    case True
    then consider "archive = []" | e where "archive \<noteq> []" "e1 = Some e"
      | e where "archive \<noteq> []" "e1 = None" "e2 = Some e"
      | "archive \<noteq> []" "e1 = None" "e2 = None" "cs_unzip env archive = None" by fastforce
    then have "cp_files s4 = cp_files s"
      using assms f by cases (auto simp: InstallOrUpgradeFromZip_def m rm comp_err_def)
    then show ?thesis by blast
  next
    case False
    then obtain files where z: "archive \<noteq> []" "e1 = None" "e2 = None" "cs_unzip env archive = Some files" by auto
    obtain e3 s3 where x: "extract_entries env files s2 = (e3, s3)" by fastforce
    obtain u s5 where up: "UpsertRestartRequiredRepair db s3 = (u, s5)" by fastforce
    have "cp_files s5 = cp_files s3" using restart_files(1) [of db s3] by (simp add: up)
    then have "cp_files s4 = cp_files s3"
      using assms z
      by (auto simp: InstallOrUpgradeFromZip_def m rm x up comp_err_def split: option.splits if_splits res.splits)
    then have "cp_files s4 = cp_files (snd (extract_entries env files s2))" by (simp add: x)
    with z(4) f show ?thesis by (intro disjI2 exI [of _ files] exI [of _ s2]) simp
  qed
qed

text \<open>C19: Whatever names the entries of the archive have, every file that an installation opens for
  writing lies under the directory of the custom components, and its path has no parent segment.\<close>

theorem archive_stays_inside:
  fixes s :: "('db, 'w) component_state"
  assumes "hd (components_root env) = CHR ''/''" and "list_all (under (components_root env)) (cp_files s)"
  shows "list_all (under (components_root env)) (cp_files (snd (InstallOrUpgradeFromZip env db archive s)))"
proof -
  obtain r s4 where i: "InstallOrUpgradeFromZip env db archive s = (r, s4)" by fastforce
  from install_steps [OF i] have "files_under env s4"
  proof
    assume "cp_files s4 = cp_files s"
    with assms(2) show ?thesis by (simp add: files_under_def)
  next
    assume "\<exists>files (s2 :: ('db, 'w) component_state). cs_unzip env archive = Some files \<and> cp_files s2 = cp_files s
      \<and> cp_files s4 = cp_files (snd (extract_entries env files s2))"
    then obtain files and s2 :: "('db, 'w) component_state"
      where x: "cp_files s2 = cp_files s" "cp_files s4 = cp_files (snd (extract_entries env files s2))"
      by blast
    have "files_under env s2" using assms(2) x(1) by (simp add: files_under_def)
    from extract_entries_under [OF assms(1) this, of files] x(2) show ?thesis by (simp add: files_under_def)
  qed
  then show ?thesis by (simp add: i files_under_def)
qed

text \<open>The world is the list of the files that exist.\<close>

definition sample_component_env :: "string list component_env" where
  "sample_component_env = \<lparr>cs_path = ''/cc'', cs_develop = False,
     cs_stat = (\<lambda>w p. if p \<in> set w then PathFile else PathMissing), cs_read = (\<lambda>w p. FileMissing),
     cs_mkdirAll = (\<lambda>p w. (None, w)), cs_removeAll = (\<lambda>p w. (None, filter (\<lambda>q. \<not> HasPrefix q p) w)),
     cs_openFile = (\<lambda>p m w. (None, p # w)), cs_copy = (\<lambda>p c w. (None, w)),
     cs_unzip = (\<lambda>a. if a = ''bad'' then None
        else Some [\<lparr>ze_Name = ''srat/manifest.json'', ze_IsDir = False, ze_Mode = 0, ze_Text = Some ''1''\<rparr>,
           \<lparr>ze_Name = ''../../etc/passwd'', ze_IsDir = False, ze_Mode = 0, ze_Text = Some ''x''\<rparr>]),
     cs_version = Some, cs_compare = (\<lambda>a b. None), cs_embedded = None, cs_config_Version = ''1''\<rparr>"

definition sample_component :: "(problem_row list, string list) component_state" where
  "sample_component = \<lparr>cp_out = [''/cc/srat/manifest.json''], cp_removed = [], cp_dirs = [], cp_files = [],
     cp_problem = \<lparr>ps_db = [], ps_cache = [], ps_events = []\<rparr>\<rparr>"

theorem archive_stays_inside_witness:
  "list_all (under (components_root sample_component_env))
     (cp_files (snd (InstallOrUpgradeFromZip sample_component_env list_db ''zip'' sample_component)))"
  by (rule archive_stays_inside) (simp_all add: components_root_def sample_component_env_def sample_component_def)

text \<open>The old component is removed before the archive is opened: an installation from an archive that
  is not a zip file fails and leaves Home Assistant without the component.\<close>

theorem bad_archive_uninstalls:
  assumes "archive \<noteq> []" and "cs_unzip env archive = None"
    and "fst (cs_mkdirAll env (components_root env) (cp_out s)) = None"
    and "fst (cs_removeAll env (install_path env) (snd (cs_mkdirAll env (components_root env) (cp_out s)))) = None"
  shows "\<not> is_ok (fst (InstallOrUpgradeFromZip env db archive s))
    \<and> cp_removed (snd (InstallOrUpgradeFromZip env db archive s)) = cp_removed s @ [install_path env]
    \<and> cp_files (snd (InstallOrUpgradeFromZip env db archive s)) = cp_files s"
  using assms
  by (cases "cs_mkdirAll env (components_root env) (cp_out s)")
    (auto simp: InstallOrUpgradeFromZip_def mkdir_all_def remove_all_def comp_err_def is_ok_def split: prod.splits)

theorem bad_archive_uninstalls_witness:
  "\<not> is_ok (fst (InstallOrUpgradeFromZip sample_component_env list_db ''bad'' sample_component))
    \<and> cp_removed (snd (InstallOrUpgradeFromZip sample_component_env list_db ''bad'' sample_component))
        = cp_removed sample_component @ [install_path sample_component_env]
    \<and> cp_files (snd (InstallOrUpgradeFromZip sample_component_env list_db ''bad'' sample_component))
        = cp_files sample_component"
  by (rule bad_archive_uninstalls) (simp_all add: sample_component_env_def)

end
