(* ===== verification/Config_Watcher.thy ===== *)
theory Config_Watcher
  imports Problem_Store
begin

unbundle bit_operations_syntax

text \<open>
  The watcher of the add-on options (\<open>service/addon_config_watcher_service.go\<close>): three goroutines notice
  a change (an event of the supervisor, fsnotify behind a debounce timer, and a ticker), read the options
  and hash them, and announce the hash when it is not the last one.

  Reading and comparing are two critical sections: a goroutine that was woken is in \<open>wt_waiting\<close> until it
  reads, and its hash is in \<open>wt_read\<close> until it takes the lock. A step is one action of one goroutine, or of
  the outside, in any order. The options, which the outside may change at any time, the file system, SHA-256 and
  the client of the supervisor are parameters.
\<close>

section \<open>Data\<close>

datatype app_info = InfoFailed | InfoStatus int "string option option"

record 'w watcher_env =
  aw_client :: bool
  aw_wsClient :: bool
  aw_bus :: bool
  aw_problemService :: bool
  aw_haService :: bool
  aw_optionsFilePath :: string
  aw_info :: "'w \<Rightarrow> app_info"
  aw_readFile :: "'w \<Rightarrow> string option"
  aw_modTime :: "'w \<Rightarrow> int option"
  aw_sha256 :: "string \<Rightarrow> string"

datatype wake_source = FromSupervisor | FromFile | FromTicker
datatype subscription = SubIdle | SubTrying | SubRetrying | SubActive | SubEnded
datatype file_watch = FileIdle | FileOpening | FileWatching | FileEnded

record ('db, 'w) watcher =
  wt_world :: 'w
  wt_lastHash :: string
  wt_cancelled :: bool
  wt_sub :: subscription
  wt_attempt :: nat
  wt_file :: file_watch
  wt_ticking :: bool
  wt_armed :: bool
  wt_lastMtime :: "int option"
  wt_waiting :: "wake_source list"
  wt_read :: "(wake_source \<times> string) list"
  wt_announced :: "(string \<times> string) list"
  wt_problem :: "'db problem_service"
  wt_notified :: "string list"

section \<open>Events of the supervisor\<close>

record supervisor_event =
  se_Event :: string
  se_EventType :: string
  se_Slug :: string
  se_Addon :: string
  sd_Event :: string
  sd_EventType :: string
  sd_Slug :: string
  sd_Addon :: string

fun firstNonEmpty :: "string list \<Rightarrow> string" where
  "firstNonEmpty [] = []"
| "firstNonEmpty (v # vs) = (if v \<noteq> [] then v else firstNonEmpty vs)"

text \<open>A payload that is not JSON is \<open>None\<close>.\<close>

definition parseSupervisorAddonConfigChanged :: "supervisor_event option \<Rightarrow> (string \<times> string \<times> bool) option" where
  "parseSupervisorAddonConfigChanged raw =
     (case raw of
        None \<Rightarrow> None
      | Some ev \<Rightarrow>
          let event = firstNonEmpty [sd_Event ev, sd_EventType ev, se_Event ev, se_EventType ev];
              slug = firstNonEmpty [sd_Slug ev, sd_Addon ev, se_Slug ev, se_Addon ev]
          in Some (event, slug, event = ''addon_config_changed''))"

definition config_changed :: "supervisor_event option \<Rightarrow> bool" where
  "config_changed raw = (case parseSupervisorAddonConfigChanged raw of Some (_, _, ok) \<Rightarrow> ok | None \<Rightarrow> False)"

section \<open>The observed options\<close>

definition observedConfigPath :: "'w watcher_env \<Rightarrow> string" where
  "observedConfigPath env = (if aw_client env then ''supervisor:addon_options'' else aw_optionsFilePath env)"

text \<open>The options are their JSON text; absent options are the empty object.\<close>

definition hashSupervisorOptions :: "'w watcher_env \<Rightarrow> 'w \<Rightarrow> string option" where
  "hashSupervisorOptions env w =
     (case aw_info env w of
        InfoFailed \<Rightarrow> None
      | InfoStatus code payload \<Rightarrow>
          if code \<noteq> 200 then None
          else (case payload of
                  None \<Rightarrow> None
                | Some options \<Rightarrow> Some (aw_sha256 env (case options of None \<Rightarrow> ''{}'' | Some t \<Rightarrow> t))))"

definition hashFile :: "'w watcher_env \<Rightarrow> 'w \<Rightarrow> string option" where
  "hashFile env w = map_option (aw_sha256 env) (aw_readFile env w)"

definition hashObservedConfig :: "'w watcher_env \<Rightarrow> 'w \<Rightarrow> string option" where
  "hashObservedConfig env w = (if aw_client env then hashSupervisorOptions env w else hashFile env w)"

section \<open>Announcing a change\<close>

definition config_problem :: problem where
  "config_problem =
     \<lparr>pb_ID = 0, pb_CreatedAt = 0, pb_UpdatedAt = 0, pb_ProblemKey = ''addon_config_changed'',
      pb_Title = ''Addon configuration changed externally'',
      pb_Description = ''The addon options file was modified outside of SRAT. Reload the configuration to apply the new settings.'',
      pb_Severity = SevWarning, pb_Status = StCreated, pb_Repeating = 0, pb_Ignored = False, pb_Actions = [],
      pb_TranslationKey = ''addon_config_changed'', pb_TranslationPlaceholders = None, pb_Data = None,
      pb_DetailLink = [], pb_ResolutionLink = [], pb_IsFixable = False, pb_IsPersistent = True,
      pb_LearnMoreURL = None, pb_LastError = None\<rparr>"

definition emitChanged ::
  "'w watcher_env \<Rightarrow> 'db problem_db \<Rightarrow> string \<Rightarrow> string \<Rightarrow> ('db, 'w) watcher \<Rightarrow> ('db, 'w) watcher" where
  "emitChanged env db path hash s =
     (let s1 = (if aw_bus env then s\<lparr>wt_announced := wt_announced s @ [(path, hash)]\<rparr> else s)
      in if aw_problemService env
         then s1\<lparr>wt_problem := snd (Upsert db (Some config_problem) (wt_problem s1))\<rparr>
         else if aw_haService env then s1\<lparr>wt_notified := wt_notified s1 @ [''addon_config_changed'']\<rparr>
         else s1)"

definition maybeNotify ::
  "'w watcher_env \<Rightarrow> 'db problem_db \<Rightarrow> string \<Rightarrow> string \<Rightarrow> ('db, 'w) watcher \<Rightarrow> ('db, 'w) watcher" where
  "maybeNotify env db path hash s =
     (if hash = wt_lastHash s then s else emitChanged env db path hash (s\<lparr>wt_lastHash := hash\<rparr>))"

section \<open>The goroutines\<close>

text \<open>The start seeds the hash and starts the goroutines; without a hash the seed is empty.\<close>

definition seed_hash :: "'w watcher_env \<Rightarrow> 'w \<Rightarrow> string" where
  "seed_hash env w = (case hashObservedConfig env w of Some h \<Rightarrow> h | None \<Rightarrow> [])"

definition start_watcher :: "'w watcher_env \<Rightarrow> 'w \<Rightarrow> 'db problem_service \<Rightarrow> ('db, 'w) watcher" where
  "start_watcher env w p =
     \<lparr>wt_world = w, wt_lastHash = seed_hash env w, wt_cancelled = False,
      wt_sub = (if aw_wsClient env then SubTrying else SubIdle), wt_attempt = 0,
      wt_file = FileOpening, wt_ticking = True, wt_armed = False, wt_lastMtime = None,
      wt_waiting = [], wt_read = [], wt_announced = [], wt_problem = p, wt_notified = []\<rparr>"

definition wake :: "wake_source \<Rightarrow> ('db, 'w) watcher \<Rightarrow> ('db, 'w) watcher" where
  "wake src s = s\<lparr>wt_waiting := wt_waiting s @ [src]\<rparr>"

text \<open>A subscription that fails is tried again after a delay; one that holds ends with the context.\<close>

definition subscribe :: "bool \<Rightarrow> ('db, 'w) watcher \<Rightarrow> ('db, 'w) watcher" where
  "subscribe ok s =
     (if wt_sub s = SubTrying
      then s\<lparr>wt_attempt := wt_attempt s + 1, wt_sub := (if ok then SubActive else SubRetrying)\<rparr> else s)"

definition retry :: "('db, 'w) watcher \<Rightarrow> ('db, 'w) watcher" where
  "retry s = (if wt_sub s = SubRetrying then s\<lparr>wt_sub := SubTrying\<rparr> else s)"

definition end_subscription :: "('db, 'w) watcher \<Rightarrow> ('db, 'w) watcher" where
  "end_subscription s =
     (if wt_cancelled s \<and> wt_sub s \<in> {SubActive, SubRetrying} then s\<lparr>wt_sub := SubEnded\<rparr> else s)"

definition on_supervisor_event :: "supervisor_event option \<Rightarrow> ('db, 'w) watcher \<Rightarrow> ('db, 'w) watcher" where
  "on_supervisor_event raw s =
     (if wt_sub s = SubActive \<and> config_changed raw then wake FromSupervisor s else s)"

definition open_watch :: "bool \<Rightarrow> ('db, 'w) watcher \<Rightarrow> ('db, 'w) watcher" where
  "open_watch ok s =
     (if wt_file s = FileOpening then s\<lparr>wt_file := (if ok then FileWatching else FileEnded)\<rparr> else s)"

text \<open>\<open>Create\<close>, \<open>Write\<close> and \<open>Rename\<close> are the bits 0, 1 and 3 of an fsnotify operation.\<close>

definition relevant_op :: "32 word \<Rightarrow> bool" where
  "relevant_op op \<longleftrightarrow> op AND (2 OR 1 OR 8) \<noteq> 0"

definition on_file_event :: "32 word \<Rightarrow> ('db, 'w) watcher \<Rightarrow> ('db, 'w) watcher" where
  "on_file_event op s =
     (if wt_file s = FileWatching \<and> relevant_op op then s\<lparr>wt_armed := True\<rparr> else s)"

definition end_file_watch :: "bool \<Rightarrow> ('db, 'w) watcher \<Rightarrow> ('db, 'w) watcher" where
  "end_file_watch closed s =
     (if wt_file s = FileWatching \<and> (closed \<or> wt_cancelled s) then s\<lparr>wt_file := FileEnded\<rparr> else s)"

text \<open>The timer of the debounce is not stopped with the watcher.\<close>

definition debounce_fires :: "('db, 'w) watcher \<Rightarrow> ('db, 'w) watcher" where
  "debounce_fires s = (if wt_armed s then wake FromFile (s\<lparr>wt_armed := False\<rparr>) else s)"

definition tick_busy :: "('db, 'w) watcher \<Rightarrow> bool" where
  "tick_busy s \<longleftrightarrow> FromTicker \<in> set (wt_waiting s) \<or> FromTicker \<in> fst ` set (wt_read s)"

definition on_tick :: "'w watcher_env \<Rightarrow> ('db, 'w) watcher \<Rightarrow> ('db, 'w) watcher" where
  "on_tick env s =
     (if \<not> wt_ticking s \<or> tick_busy s then s
      else if aw_client env then wake FromTicker s
      else case aw_modTime env (wt_world s) of
             None \<Rightarrow> wake FromTicker s
           | Some t \<Rightarrow>
               if wt_lastMtime s = Some t then s else wake FromTicker (s\<lparr>wt_lastMtime := Some t\<rparr>))"

definition end_ticker :: "('db, 'w) watcher \<Rightarrow> ('db, 'w) watcher" where
  "end_ticker s = (if wt_cancelled s \<and> \<not> tick_busy s then s\<lparr>wt_ticking := False\<rparr> else s)"

text \<open>The \<open>n\<close>-th of the woken goroutines reads the options; a failure is logged.\<close>

definition remove_nth :: "nat \<Rightarrow> 'a list \<Rightarrow> 'a list" where
  "remove_nth n xs = take n xs @ drop (Suc n) xs"

definition read_config :: "'w watcher_env \<Rightarrow> nat \<Rightarrow> ('db, 'w) watcher \<Rightarrow> ('db, 'w) watcher" where
  "read_config env n s =
     (if n < length (wt_waiting s)
      then let s1 = s\<lparr>wt_waiting := remove_nth n (wt_waiting s)\<rparr>
           in (case hashObservedConfig env (wt_world s) of
                 None \<Rightarrow> s1
               | Some h \<Rightarrow> s1\<lparr>wt_read := wt_read s @ [(wt_waiting s ! n, h)]\<rparr>)
      else s)"

definition notify_read :: "'w watcher_env \<Rightarrow> 'db problem_db \<Rightarrow> nat \<Rightarrow> ('db, 'w) watcher \<Rightarrow> ('db, 'w) watcher" where
  "notify_read env db n s =
     (if n < length (wt_read s)
      then maybeNotify env db (observedConfigPath env) (snd (wt_read s ! n))
             (s\<lparr>wt_read := remove_nth n (wt_read s)\<rparr>)
      else s)"

section \<open>Steps\<close>

datatype 'w watcher_event =
    OptionsChange 'w | Subscribe bool | RetryDelay | SubscriptionEnds | SupervisorEvent "supervisor_event option"
  | OpenWatch bool | FileEvent "32 word" | FileWatchEnds bool | DebounceFires
  | Tick | TickerEnds | ReadConfig nat | NotifyRead nat | CancelWatch

fun watcher_step ::
  "'w watcher_env \<Rightarrow> 'db problem_db \<Rightarrow> ('db, 'w) watcher \<Rightarrow> 'w watcher_event \<Rightarrow> ('db, 'w) watcher" where
  "watcher_step env db s (OptionsChange w) = s\<lparr>wt_world := w\<rparr>"
| "watcher_step env db s (Subscribe ok) = subscribe ok s"
| "watcher_step env db s RetryDelay = retry s"
| "watcher_step env db s SubscriptionEnds = end_subscription s"
| "watcher_step env db s (SupervisorEvent raw) = on_supervisor_event raw s"
| "watcher_step env db s (OpenWatch ok) = open_watch ok s"
| "watcher_step env db s (FileEvent op) = on_file_event op s"
| "watcher_step env db s (FileWatchEnds closed) = end_file_watch closed s"
| "watcher_step env db s DebounceFires = debounce_fires s"
| "watcher_step env db s Tick = on_tick env s"
| "watcher_step env db s TickerEnds = end_ticker s"
| "watcher_step env db s (ReadConfig n) = read_config env n s"
| "watcher_step env db s (NotifyRead n) = notify_read env db n s"
| "watcher_step env db s CancelWatch = s\<lparr>wt_cancelled := True\<rparr>"

end
