(* ===== verification/Config_Watcher_Laws.thy ===== *)
theory Config_Watcher_Laws
  imports Config_Watcher Problem_Laws
begin

text \<open>
  What the watcher of the add-on options guarantees: whatever the order in which its goroutines run, each
  announcement is a change with respect to the one before and names options that were there, and once the
  options rest, a goroutine that was woken brings the announced hash up to date.
\<close>

section \<open>Every announcement is a change\<close>

fun worlds_of :: "'w watcher_event list \<Rightarrow> 'w list" where
  "worlds_of [] = []"
| "worlds_of (OptionsChange w # es) = w # worlds_of es"
| "worlds_of (_ # es) = worlds_of es"

definition announced_hashes :: "('db, 'w) watcher \<Rightarrow> string list" where
  "announced_hashes s = map snd (wt_announced s)"

text \<open>The invariant, for the options that were there so far and the hash of the start.\<close>

definition watcher_inv :: "'w watcher_env \<Rightarrow> string \<Rightarrow> 'w set \<Rightarrow> ('db, 'w) watcher \<Rightarrow> bool" where
  "watcher_inv env seed ws s \<longleftrightarrow>
     wt_world s \<in> ws \<and> distinct_adj (seed # announced_hashes s)
     \<and> last (seed # announced_hashes s) = wt_lastHash s
     \<and> (\<forall>(src, h) \<in> set (wt_read s). \<exists>w \<in> ws. hashObservedConfig env w = Some h)
     \<and> (\<forall>(p, h) \<in> set (wt_announced s). p = observedConfigPath env
          \<and> (\<exists>w \<in> ws. hashObservedConfig env w = Some h))"

lemma set_remove_nth: "set (remove_nth n xs) \<subseteq> set xs"
  using set_take_subset [of n xs] set_drop_subset [of "Suc n" xs] by (auto simp: remove_nth_def)

lemma wake_simps [simp]:
  "wt_world (wake x s) = wt_world s" "wt_read (wake x s) = wt_read s" "wt_announced (wake x s) = wt_announced s"
  "wt_lastHash (wake x s) = wt_lastHash s" "wt_waiting (wake x s) = wt_waiting s @ [x]"
  "announced_hashes (wake x s) = announced_hashes s"
  by (simp_all add: wake_def announced_hashes_def)

text \<open>The steps that neither read nor announce.\<close>

lemmas goroutine_steps = subscribe_def retry_def end_subscription_def on_supervisor_event_def open_watch_def
  on_file_event_def end_file_watch_def debounce_fires_def on_tick_def end_ticker_def

definition same_knowledge :: "('db, 'w) watcher \<Rightarrow> ('db, 'w) watcher \<Rightarrow> bool" where
  "same_knowledge s t \<longleftrightarrow> wt_world t = wt_world s \<and> wt_read t = wt_read s \<and> wt_announced t = wt_announced s
     \<and> wt_lastHash t = wt_lastHash s \<and> (\<exists>xs. wt_waiting t = wt_waiting s @ xs)"

definition quiet_event :: "'w watcher_event \<Rightarrow> bool" where
  "quiet_event e = (case e of OptionsChange w \<Rightarrow> False | ReadConfig n \<Rightarrow> False | NotifyRead n \<Rightarrow> False | _ \<Rightarrow> True)"

lemma quiet_step: "quiet_event e \<Longrightarrow> same_knowledge s (watcher_step env db s e)"
  by (cases e) (auto simp: quiet_event_def same_knowledge_def goroutine_steps split: option.split)

lemma same_knowledge_inv: "same_knowledge s t \<Longrightarrow> watcher_inv env seed ws s \<Longrightarrow> watcher_inv env seed ws t"
  by (simp add: same_knowledge_def watcher_inv_def announced_hashes_def)

lemma read_config_inv:
  assumes "watcher_inv env seed ws s" shows "watcher_inv env seed ws (read_config env n s)"
  using assms by (auto simp: read_config_def watcher_inv_def announced_hashes_def Let_def split: option.split)

lemma emitChanged_simps:
  assumes "aw_bus env"
  shows "wt_announced (emitChanged env db p h s) = wt_announced s @ [(p, h)]"
    "wt_lastHash (emitChanged env db p h s) = wt_lastHash s" "wt_read (emitChanged env db p h s) = wt_read s"
    "wt_world (emitChanged env db p h s) = wt_world s" "wt_waiting (emitChanged env db p h s) = wt_waiting s"
  using assms by (simp_all add: emitChanged_def Let_def)

lemma distinct_adj_snoc: "distinct_adj (x # xs) \<Longrightarrow> last (x # xs) \<noteq> y \<Longrightarrow> distinct_adj (x # xs @ [y])"
  by (induction xs arbitrary: x) (auto split: if_splits)

lemma notify_read_inv:
  assumes "aw_bus env" "watcher_inv env seed ws s" shows "watcher_inv env seed ws (notify_read env db n s)"
proof (cases "n < length (wt_read s)")
  case True
  then have m: "wt_read s ! n \<in> set (wt_read s)" by simp
  then obtain w where w: "w \<in> ws" "hashObservedConfig env w = Some (snd (wt_read s ! n))"
    using assms(2) by (fastforce simp: watcher_inv_def)
  have sub: "set (remove_nth n (wt_read s)) \<subseteq> set (wt_read s)" by (rule set_remove_nth)
  from assms(2) w sub show ?thesis
    by (auto simp: watcher_inv_def notify_read_def True maybeNotify_def announced_hashes_def
        emitChanged_simps [OF assms(1)] intro!: distinct_adj_snoc)
qed (simp add: notify_read_def assms(2))

lemma watcher_step_inv:
  assumes "aw_bus env" "watcher_inv env seed ws s" "set (worlds_of [e]) \<subseteq> ws"
  shows "watcher_inv env seed ws (watcher_step env db s e)"
proof (cases "quiet_event e")
  case True
  then show ?thesis using quiet_step same_knowledge_inv assms(2) by blast
next
  case False
  then show ?thesis using assms read_config_inv [OF assms(2)] notify_read_inv [OF assms(1,2)]
    by (cases e) (auto simp: quiet_event_def watcher_inv_def announced_hashes_def)
qed

interpretation config_watcher:
  invariant_steps "watcher_step env db" "\<lambda>e. aw_bus env \<and> set (worlds_of [e]) \<subseteq> ws" "watcher_inv env seed ws"
  for env :: "'w watcher_env" and db :: "'db problem_db" and ws seed
  by unfold_locales (simp add: watcher_step_inv)

lemma worlds_of_Cons: "set (worlds_of (e # es)) = set (worlds_of [e]) \<union> set (worlds_of es)"
  by (cases e) simp_all

lemma worlds_of_valid:
  "b \<Longrightarrow> set (worlds_of es) \<subseteq> ws \<Longrightarrow> list_all (\<lambda>e. b \<and> set (worlds_of [e]) \<subseteq> ws) es"
proof (induction es)
  case (Cons e es)
  then show ?case using worlds_of_Cons [of e es] by auto
qed simp

text \<open>C20: Whatever order the goroutines run in and however the options change, two announcements in a row
  never carry the same hash, the first one differs from the hash of the start, the last one is the one the
  watcher remembers, and each names options that were there.\<close>

theorem config_announcements:
  fixes db :: "'db problem_db"
  assumes "aw_bus env"
  shows "case foldl (watcher_step env db) (start_watcher env w p) es of s \<Rightarrow>
     distinct_adj (seed_hash env w # map snd (wt_announced s))
     \<and> last (seed_hash env w # map snd (wt_announced s)) = wt_lastHash s
     \<and> (\<forall>(path, h) \<in> set (wt_announced s). path = observedConfigPath env
          \<and> (\<exists>v \<in> set (w # worlds_of es). hashObservedConfig env v = Some h))"
proof -
  let ?ws = "set (w # worlds_of es)"
  have "watcher_inv env (seed_hash env w) ?ws (start_watcher env w p :: ('db, _) watcher)"
    by (simp add: watcher_inv_def start_watcher_def announced_hashes_def)
  moreover have "list_all (\<lambda>e. aw_bus env \<and> set (worlds_of [e]) \<subseteq> ?ws) es"
    by (rule worlds_of_valid [OF assms]) auto
  ultimately have "watcher_inv env (seed_hash env w) ?ws (foldl (watcher_step env db) (start_watcher env w p) es)"
    by (rule config_watcher.inv_run)
  then show ?thesis by (simp add: watcher_inv_def announced_hashes_def)
qed

section \<open>A change is announced\<close>

text \<open>
  From the state \<open>s0\<close> on, with the options at rest: hashes on their way are the one of the options or were
  read before, and the hash of the options was announced or remembered, or will be looked at.
\<close>

definition settling :: "'w watcher_env \<Rightarrow> string \<Rightarrow> ('db, 'w) watcher \<Rightarrow> ('db, 'w) watcher \<Rightarrow> bool" where
  "settling env h s0 s \<longleftrightarrow>
     hashObservedConfig env (wt_world s) = Some h
     \<and> snd ` set (wt_read s) \<subseteq> insert h (snd ` set (wt_read s0))
     \<and> (\<exists>new. wt_announced s = wt_announced s0 @ new \<and> wt_lastHash s = last (wt_lastHash s0 # map snd new)
          \<and> (h \<in> set (wt_lastHash s0 # map snd new) \<or> wt_waiting s \<noteq> [] \<or> h \<in> snd ` set (wt_read s)))
     \<and> (wt_lastHash s \<in> insert h (snd ` set (wt_read s0)) \<or> wt_waiting s \<noteq> [] \<or> wt_read s \<noteq> [])"

lemma settling_start:
  "wt_waiting s \<noteq> [] \<Longrightarrow> hashObservedConfig env (wt_world s) = Some h \<Longrightarrow> settling env h s s"
  by (auto simp: settling_def)

lemma settled:
  assumes "settling env h s0 t" "wt_waiting t = []" "wt_read t = []"
  shows "\<exists>new. wt_announced t = wt_announced s0 @ new \<and> (h = wt_lastHash s0 \<or> h \<in> set (map snd new))
    \<and> wt_lastHash t = last (wt_lastHash s0 # map snd new) \<and> (wt_lastHash t = h \<or> wt_lastHash t \<in> set (map snd (wt_read s0)))"
proof -
  obtain new where "wt_announced t = wt_announced s0 @ new" "wt_lastHash t = last (wt_lastHash s0 # map snd new)"
    "h \<in> set (wt_lastHash s0 # map snd new)"
    using assms unfolding settling_def by auto
  moreover have "wt_lastHash t = h \<or> wt_lastHash t \<in> set (map snd (wt_read s0))"
    using assms unfolding settling_def set_map by blast
  ultimately show ?thesis by (intro exI [of _ new]) simp
qed

lemma remove_nth_others: "n < length xs \<Longrightarrow> x \<in> set xs \<Longrightarrow> x = xs ! n \<or> x \<in> set (remove_nth n xs)"
  by (metis Un_iff append_take_drop_id Cons_nth_drop_Suc remove_nth_def set_ConsD set_append)

lemma notify_read_settling:
  assumes bus: "aw_bus env" and st: "settling env h s0 s" shows "settling env h s0 (notify_read env db n s)"
proof (cases "n < length (wt_read s)")
  case False
  then show ?thesis by (simp add: notify_read_def st)
next
  case True
  let ?g = "snd (wt_read s ! n)" and ?t = "notify_read env db n s"
  have g: "?g \<in> insert h (snd ` set (wt_read s0))" using st True by (auto simp: settling_def dest: nth_mem)
  have t: "wt_world ?t = wt_world s" "wt_waiting ?t = wt_waiting s" "wt_read ?t = remove_nth n (wt_read s)"
    "wt_lastHash ?t = ?g"
    "wt_announced ?t = wt_announced s @ (if ?g = wt_lastHash s then [] else [(observedConfigPath env, ?g)])"
    using True by (simp_all add: notify_read_def maybeNotify_def emitChanged_simps [OF bus])
  have h: "h = ?g \<or> h \<in> snd ` set (wt_read ?t)" if m: "h \<in> snd ` set (wt_read s)"
  proof -
    obtain x where x: "h = snd x" "x \<in> set (wt_read s)" using m by blast
    then show ?thesis using remove_nth_others [OF True x(2)] x(1) by (auto simp: t(3))
  qed
  obtain new where n: "wt_announced s = wt_announced s0 @ new" "wt_lastHash s = last (wt_lastHash s0 # map snd new)"
    "h \<in> set (wt_lastHash s0 # map snd new) \<or> wt_waiting s \<noteq> [] \<or> h \<in> snd ` set (wt_read s)"
    using st by (auto simp: settling_def)
  let ?new = "new @ (if ?g = wt_lastHash s then [] else [(observedConfigPath env, ?g)])"
  have "wt_announced ?t = wt_announced s0 @ ?new" using n(1) t(5) by simp
  moreover have "wt_lastHash ?t = last (wt_lastHash s0 # map snd ?new)" using n(2) t(4) by simp
  moreover have gm: "?g \<in> set (wt_lastHash s0 # map snd ?new)"
    using n(2) last_in_set [of "wt_lastHash s0 # map snd new"] by auto
  have "h \<in> set (wt_lastHash s0 # map snd ?new) \<or> wt_waiting ?t \<noteq> [] \<or> h \<in> snd ` set (wt_read ?t)"
  proof -
    have "set (wt_lastHash s0 # map snd new) \<subseteq> set (wt_lastHash s0 # map snd ?new)" by auto
    then have "h \<in> set (wt_lastHash s0 # map snd ?new)" if "h \<in> set (wt_lastHash s0 # map snd new)"
      using that by (rule subsetD)
    moreover have "h \<in> set (wt_lastHash s0 # map snd ?new)" if "h = ?g" unfolding that by (rule gm)
    ultimately show ?thesis using n(3) h unfolding t(2) by argo
  qed
  ultimately have "\<exists>new. wt_announced ?t = wt_announced s0 @ new \<and> wt_lastHash ?t = last (wt_lastHash s0 # map snd new)
      \<and> (h \<in> set (wt_lastHash s0 # map snd new) \<or> wt_waiting ?t \<noteq> [] \<or> h \<in> snd ` set (wt_read ?t))"
    by blast
  moreover have "snd ` set (wt_read ?t) \<subseteq> insert h (snd ` set (wt_read s0))"
  proof -
    have "snd ` set (wt_read s) \<subseteq> insert h (snd ` set (wt_read s0))" using st by (simp add: settling_def)
    then show ?thesis using set_remove_nth [of n "wt_read s"] unfolding t(3) by (meson image_mono subset_trans)
  qed
  moreover have "hashObservedConfig env (wt_world ?t) = Some h" using st unfolding settling_def t(1) by (rule conjunct1)
  moreover have "wt_lastHash ?t \<in> insert h (snd ` set (wt_read s0)) \<or> wt_waiting ?t \<noteq> [] \<or> wt_read ?t \<noteq> []"
    unfolding t(4) using g by (rule disjI1)
  ultimately show ?thesis unfolding settling_def by (intro conjI)
qed

lemma read_config_settling:
  assumes "settling env h s0 s" shows "settling env h s0 (read_config env n s)"
proof (cases "n < length (wt_waiting s)")
  case True
  let ?t = "read_config env n s"
  have h: "hashObservedConfig env (wt_world s) = Some h" using assms by (simp add: settling_def)
  then have t: "wt_world ?t = wt_world s" "wt_read ?t = wt_read s @ [(wt_waiting s ! n, h)]"
    "wt_announced ?t = wt_announced s" "wt_lastHash ?t = wt_lastHash s"
    using True by (simp_all add: read_config_def Let_def)
  then have "h \<in> snd ` set (wt_read ?t)" "wt_read ?t \<noteq> []" by simp_all
  moreover have "snd ` set (wt_read ?t) \<subseteq> insert h (snd ` set (wt_read s0))"
    using assms by (auto simp: settling_def t(2))
  ultimately show ?thesis using assms h unfolding settling_def t(1,3,4) by (elim conjE exE) (intro conjI exI; simp)
qed (simp add: read_config_def assms)

lemma quiet_settling:
  assumes "settling env h s0 s" "same_knowledge s t" shows "settling env h s0 t"
proof -
  have t: "wt_world t = wt_world s" "wt_read t = wt_read s" "wt_announced t = wt_announced s"
    "wt_lastHash t = wt_lastHash s" and w: "wt_waiting s \<noteq> [] \<Longrightarrow> wt_waiting t \<noteq> []"
    using assms(2) by (auto simp: same_knowledge_def)
  show ?thesis using assms(1) w unfolding settling_def t by blast
qed

lemma settling_step:
  assumes "aw_bus env" "settling env h s0 s" "worlds_of [e] = []" shows "settling env h s0 (watcher_step env db s e)"
proof (cases "quiet_event e")
  case True
  then show ?thesis using quiet_step quiet_settling assms(2) by blast
next
  case False
  then show ?thesis
    using assms read_config_settling [OF assms(2)] notify_read_settling [OF assms(1,2)]
    by (cases e) (auto simp: quiet_event_def)
qed

interpretation config_settling:
  invariant_steps "watcher_step env db" "\<lambda>e. aw_bus env \<and> worlds_of [e] = []" "settling env h s0"
  for env :: "'w watcher_env" and db :: "'db problem_db" and h and s0
  by unfold_locales (simp add: settling_step)

lemma worlds_of_none: "b \<Longrightarrow> worlds_of es = [] \<Longrightarrow> list_all (\<lambda>e. b \<and> worlds_of [e] = []) es"
proof (induction es)
  case (Cons e es)
  then show ?case by (cases e) simp_all
qed simp

text \<open>The goroutines can always be finished: each reads, and each that read announces.\<close>

lemma notify_read_drains: "wt_read s \<noteq> [] \<Longrightarrow> length (wt_read (notify_read env db 0 s)) < length (wt_read s)"
  "wt_waiting (notify_read env db n s) = wt_waiting s"
  "wt_read (notify_read env db n s) = remove_nth n (wt_read s)"
  by (auto simp: notify_read_def maybeNotify_def emitChanged_def remove_nth_def Let_def)

lemma watcher_drains:
  "\<exists>es. worlds_of es = [] \<and> wt_waiting (foldl (watcher_step env db) s es) = [] \<and> wt_read (foldl (watcher_step env db) s es) = []"
proof -
  have notify: "\<exists>es. worlds_of es = [] \<and> wt_waiting (foldl (watcher_step env db) s es) = wt_waiting s
      \<and> wt_read (foldl (watcher_step env db) s es) = []" for s
  proof (induction "length (wt_read s)" arbitrary: s rule: less_induct)
    case less
    show ?case
    proof (cases "wt_read s = []")
      case True
      then show ?thesis by (intro exI [of _ "[]"]) simp
    next
      case False
      then obtain es where "worlds_of es = []" "wt_waiting (foldl (watcher_step env db) (notify_read env db 0 s) es) = wt_waiting s"
        "wt_read (foldl (watcher_step env db) (notify_read env db 0 s) es) = []"
        using less [OF notify_read_drains(1) [OF False]] notify_read_drains(2) by metis
      then show ?thesis by (intro exI [of _ "NotifyRead 0 # es"]) simp
    qed
  qed
  show ?thesis
  proof (induction "length (wt_waiting s)" arbitrary: s)
    case 0
    then show ?case using notify [of s] by simp
  next
    case (Suc n)
    then have "n = length (wt_waiting (read_config env 0 s))"
      by (auto simp: read_config_def remove_nth_def Let_def split: option.split)
    then obtain es where "worlds_of es = []" "wt_waiting (foldl (watcher_step env db) (read_config env 0 s) es) = []"
      "wt_read (foldl (watcher_step env db) (read_config env 0 s) es) = []"
      using Suc(1) by blast
    then show ?case by (intro exI [of _ "ReadConfig 0 # es"]) simp
  qed
qed


section \<open>Sample runs\<close>

text \<open>The options of the supervisor are the world itself; the hash is their text.\<close>

definition sample_watcher_env :: "string watcher_env" where
  "sample_watcher_env = \<lparr>aw_client = True, aw_wsClient = True, aw_bus = True, aw_problemService = True,
     aw_haService = True, aw_optionsFilePath = ''/data/options.json'',
     aw_info = (\<lambda>w. InfoStatus 200 (Some (Some w))), aw_readFile = (\<lambda>w. None), aw_modTime = (\<lambda>w. None),
     aw_sha256 = (\<lambda>t. t)\<rparr>"

definition sample_problems :: "problem_row list problem_service" where
  "sample_problems = \<lparr>ps_db = [], ps_cache = [], ps_events = []\<rparr>"

definition config_event :: "supervisor_event option" where
  "config_event = Some \<lparr>se_Event = [], se_EventType = ''supervisor_event'', se_Slug = [], se_Addon = [],
     sd_Event = ''addon_config_changed'', sd_EventType = [], sd_Slug = ''local_srat'', sd_Addon = []\<rparr>"

definition watcher_run :: "string watcher_event list \<Rightarrow> (problem_row list, string) watcher" where
  "watcher_run es = foldl (watcher_step sample_watcher_env list_db)
     (start_watcher sample_watcher_env ''A'' sample_problems) es"

lemmas watcher_samples = watcher_run_def start_watcher_def sample_watcher_env_def sample_problems_def
  config_event_def goroutine_steps wake_def read_config_def notify_read_def maybeNotify_def emitChanged_def
  remove_nth_def seed_hash_def hashObservedConfig_def hashSupervisorOptions_def observedConfigPath_def
  config_changed_def parseSupervisorAddonConfigChanged_def tick_busy_def

theorem config_announcements_witness:
  "case foldl (watcher_step sample_watcher_env list_db) (start_watcher sample_watcher_env ''A'' sample_problems)
       [Subscribe True, OptionsChange ''B'', SupervisorEvent config_event, ReadConfig 0, NotifyRead 0] of s \<Rightarrow>
     distinct_adj (seed_hash sample_watcher_env ''A'' # map snd (wt_announced s))
     \<and> last (seed_hash sample_watcher_env ''A'' # map snd (wt_announced s)) = wt_lastHash s"
proof -
  have "aw_bus sample_watcher_env" by (simp add: sample_watcher_env_def)
  from config_announcements [OF this, where db = list_db and w = "''A''" and p = sample_problems and
      es = "[Subscribe True, OptionsChange ''B'', SupervisorEvent config_event, ReadConfig 0, NotifyRead 0]"]
  show ?thesis by blast
qed

text \<open>The options have changed; the event of the supervisor has woken a goroutine.\<close>

definition changed_options :: "(problem_row list, string) watcher" where
  "changed_options = (start_watcher sample_watcher_env ''A'' sample_problems)
     \<lparr>wt_world := ''C'', wt_waiting := [FromSupervisor], wt_read := [(FromTicker, ''B'')]\<rparr>"

lemma changed_options_simps:
  "wt_waiting changed_options = [FromSupervisor]" "wt_read changed_options = [(FromTicker, ''B'')]"
  "hashObservedConfig sample_watcher_env (wt_world changed_options) = Some ''C''" "aw_bus sample_watcher_env"
  by (simp_all add: changed_options_def sample_watcher_env_def hashObservedConfig_def hashSupervisorOptions_def)


section \<open>What the watcher does not promise\<close>

text \<open>The service says that a change is announced at most once per hash; a hash that comes back is
  announced again, because only the last one is remembered.\<close>

lemma hash_announced_twice:
  "map snd (wt_announced (watcher_run
     [OptionsChange ''B'', Tick, ReadConfig 0, NotifyRead 0, OptionsChange ''A'', Tick, ReadConfig 0, NotifyRead 0,
      OptionsChange ''B'', Tick, ReadConfig 0, NotifyRead 0])) = [''B'', ''A'', ''B'']"
  by (simp add: watcher_samples Upsert_def Let_def)

text \<open>The options are read outside the lock: a goroutine that read them before a change can announce the
  old hash after the new one, and the next tick announces the new one again.\<close>

lemma stale_hash_announced:
  "map snd (wt_announced (watcher_run
     [Subscribe True, OptionsChange ''B'', SupervisorEvent config_event, ReadConfig 0,
      OptionsChange ''C'', Tick, ReadConfig 0, NotifyRead 1, NotifyRead 0,
      Tick, ReadConfig 0, NotifyRead 0])) = [''C'', ''B'', ''C'']"
  by (simp add: watcher_samples Upsert_def Let_def)

text \<open>The ticker remembers the modification time before it reads the file: a change whose first reading
  fails is never noticed by the ticker.\<close>

lemma unread_change_missed:
  assumes "\<not> aw_client env" "aw_modTime env (wt_world s) = Some t" "wt_lastMtime s = Some t"
  shows "foldl (watcher_step env db) s (replicate n Tick) = s"
  using assms by (induction n) (simp_all add: on_tick_def)

end
