(* ===== verification/Smart_Service.thy ===== *)
theory Smart_Service
  imports Srat_Types Enums
begin

text \<open>
  The S.M.A.R.T. service (\<open>service/smart_service.go\<close>, \<open>converter/smartmontools_to_dto_conv_gen.go\<close>,
  \<open>dto/smart.go\<close>): what a disk says about itself, its health, its self-tests, and switching S.M.A.R.T. on
  and off.

  The client of smartmontools is a parameter whose calls may change the world; a failed call answers with the
  text of its error. A self-test goes on after the call that starts it has returned: \<open>sm_tests\<close> are the
  tests whose progress reports may still come.
\<close>

section \<open>Data of the client\<close>

record smartctl_status =
  sc_Running :: bool
  sc_Passed :: bool
  sc_Damaged :: bool
  sc_Critical :: bool

record smart_support =
  sp_Available :: bool
  sp_Enabled :: bool

record smart_attribute =
  at_ID :: int
  at_Name :: string
  at_Value :: int
  at_Worst :: int
  at_Thresh :: int
  at_Raw :: int

text \<open>The text of the status of the last self-test, when the disk has one.\<close>

record ata_data =
  ad_SelfTest :: "string option option"
  ad_Table :: "smart_attribute list option"

record nvme_health =
  nv_CriticalWarning :: int
  nv_Temperature :: int
  nv_AvailableSpare :: int
  nv_AvailableSpareThresh :: int
  nv_PercentageUsed :: int
  nv_PowerCycles :: int
  nv_PowerOnHours :: int
  nv_WarningTempTime :: int

record smartctl_info =
  mi_ModelFamily :: string
  mi_ModelName :: string
  mi_SerialNumber :: string
  mi_Firmware :: string
  mi_RotationRate :: "int option"
  mi_DiskType :: string
  mi_InStandby :: bool
  mi_SmartStatus :: "smartctl_status option"
  mi_SmartSupport :: "smart_support option"
  mi_AtaSmartData :: "ata_data option"
  mi_NvmeSmartHealth :: "nvme_health option"
  mi_NvmeControllerCapabilities :: bool
  mi_Temperature :: "int option"
  mi_PowerOnTime :: "int option"
  mi_PowerCycleCount :: int

section \<open>Data of the service\<close>

record range_value =
  rv_Code :: int
  rv_Value :: int
  rv_Min :: int
  rv_Worst :: int
  rv_Thresholds :: int

record temp_value =
  tv_Value :: int
  tv_Min :: int
  tv_Max :: int
  tv_OvertempCounter :: int

record smart_status =
  sx_Enabled :: bool
  sx_InStandby :: bool
  sx_Temperature :: temp_value
  sx_PowerOnHours :: range_value
  sx_PowerCycleCount :: range_value
  sx_Additional :: "(string, range_value) gomap option"
  sx_IsTestRunning :: bool
  sx_IsTestPassed :: bool
  sx_IsInWarning :: bool
  sx_IsInDanger :: bool

record test_status =
  tt_DiskId :: string
  tt_Running :: bool
  tt_Status :: string
  tt_TestType :: string
  tt_PercentComplete :: int

record health_status =
  hs_Passed :: bool
  hs_FailingAttributes :: "string list"
  hs_OverallStatus :: string

datatype device_error = DeviceMissing | DeviceFailed string
datatype smart_event = SmartInfoUpdate smart_info | SmartTestUpdate test_status

record 'w smart_client =
  sl_Info :: "string \<Rightarrow> 'w \<Rightarrow> (string + smartctl_info) \<times> 'w"
  sl_CheckHealth :: "string \<Rightarrow> 'w \<Rightarrow> (string + bool) \<times> 'w"
  sl_Supported :: "string \<Rightarrow> 'w \<Rightarrow> (string + smart_support) \<times> 'w"
  sl_RunSelfTest :: "string \<Rightarrow> string \<Rightarrow> 'w \<Rightarrow> string option \<times> 'w"
  sl_AbortSelfTest :: "string \<Rightarrow> 'w \<Rightarrow> string option \<times> 'w"
  sl_Enable :: "string \<Rightarrow> 'w \<Rightarrow> string option \<times> 'w"
  sl_Disable :: "string \<Rightarrow> 'w \<Rightarrow> string option \<times> 'w"

record 'w smart_env =
  sm_client :: "'w smart_client option"
  sm_device :: "string \<Rightarrow> device_error + string"

record 'w smart_service =
  sm_world :: 'w
  sm_events :: "smart_event list"
  sm_tests :: "(string \<times> SmartTestType) list"

section \<open>Conversions\<close>

definition no_range :: range_value where
  "no_range = \<lparr>rv_Code = 0, rv_Value = 0, rv_Min = 0, rv_Worst = 0, rv_Thresholds = 0\<rparr>"

definition intToSmartRangeValue :: "int \<Rightarrow> range_value" where
  "intToSmartRangeValue v = no_range\<lparr>rv_Value := v\<rparr>"

definition smartMonToolsPowerOnTimeToSmartRangeValue :: "int option \<Rightarrow> range_value" where
  "smartMonToolsPowerOnTimeToSmartRangeValue h = (case h of None \<Rightarrow> no_range | Some v \<Rightarrow> no_range\<lparr>rv_Value := v\<rparr>)"

definition smartMonToolsTemperatureToSmartTempValue :: "int option \<Rightarrow> temp_value" where
  "smartMonToolsTemperatureToSmartTempValue t =
     \<lparr>tv_Value = (case t of None \<Rightarrow> 0 | Some v \<Rightarrow> v), tv_Min = 0, tv_Max = 0, tv_OvertempCounter = 0\<rparr>"

definition SmartMonToolsSmartInfoToSmartInfo :: "smartctl_info \<Rightarrow> smart_info" where
  "SmartMonToolsSmartInfoToSmartInfo i =
     \<lparr>si_DiskId = [], si_Supported = (case mi_SmartSupport i of None \<Rightarrow> False | Some s \<Rightarrow> sp_Available s),
      si_Enabled = (case mi_SmartSupport i of None \<Rightarrow> False | Some s \<Rightarrow> sp_Enabled s),
      si_DiskType = mi_DiskType i, si_ModelFamily = mi_ModelFamily i, si_ModelName = mi_ModelName i,
      si_SerialNumber = mi_SerialNumber i, si_Firmware = mi_Firmware i,
      si_RotationRate = (case mi_RotationRate i of None \<Rightarrow> 0 | Some r \<Rightarrow> r)\<rparr>"

definition SmartMonToolsSmartInfoToSmartStatus :: "smartctl_info \<Rightarrow> smart_status" where
  "SmartMonToolsSmartInfoToSmartStatus i =
     (let flag = (\<lambda>f. case mi_SmartStatus i of None \<Rightarrow> False | Some s \<Rightarrow> f s)
      in \<lparr>sx_Enabled = (case mi_SmartSupport i of None \<Rightarrow> False | Some s \<Rightarrow> sp_Enabled s),
          sx_InStandby = mi_InStandby i,
          sx_Temperature = smartMonToolsTemperatureToSmartTempValue (mi_Temperature i),
          sx_PowerOnHours = smartMonToolsPowerOnTimeToSmartRangeValue (mi_PowerOnTime i),
          sx_PowerCycleCount = intToSmartRangeValue (mi_PowerCycleCount i),
          sx_Additional = None,
          sx_IsTestRunning = flag sc_Running, sx_IsTestPassed = flag sc_Passed,
          sx_IsInWarning = flag sc_Damaged, sx_IsInDanger = flag sc_Critical\<rparr>)"

section \<open>Information and status\<close>

definition smart_err :: "sentinel \<Rightarrow> string \<Rightarrow> 'a res" where
  "smart_err k m = Err (E k m)"

definition smartInfoFromSMARTInfo :: "string \<Rightarrow> smartctl_info \<Rightarrow> smart_info" where
  "smartInfoFromSMARTInfo devicePath i =
     (let r = (SmartMonToolsSmartInfoToSmartInfo i)\<lparr>si_DiskId := devicePath\<rparr>
      in if si_DiskType r \<noteq> [] then r
         else if mi_AtaSmartData i \<noteq> None then r\<lparr>si_DiskType := ''SATA''\<rparr>
         else if mi_NvmeSmartHealth i \<noteq> None \<or> mi_NvmeControllerCapabilities i then r\<lparr>si_DiskType := ''NVMe''\<rparr>
         else r)"

definition unsupported_message :: "string \<Rightarrow> bool" where
  "unsupported_message m \<longleftrightarrow> Contains m ''not found'' \<or> Contains m ''No such device'' \<or> Contains m ''SMART Not Supported''"

definition info_error :: "string \<Rightarrow> 'a res" where
  "info_error m = smart_err (if unsupported_message m then ErrorSMARTNotSupported else ErrorOther) m"

definition GetSmartInfo ::
  "'w smart_env \<Rightarrow> string \<Rightarrow> 'w smart_service \<Rightarrow> smart_info res \<times> 'w smart_service" where
  "GetSmartInfo env deviceId s =
     (case sm_device env deviceId of
        Inl DeviceMissing \<Rightarrow> (smart_err ErrorNotFound deviceId, s)
      | Inl (DeviceFailed m) \<Rightarrow> (smart_err ErrorOther m, s)
      | Inr path \<Rightarrow>
          (case sm_client env of
             None \<Rightarrow> (smart_err ErrorSMARTNotSupported ''smartctl not available'', s)
           | Some c \<Rightarrow>
               (case sl_Info c path (sm_world s) of
                  (Inl m, w) \<Rightarrow> (info_error m, s\<lparr>sm_world := w\<rparr>)
                | (Inr i, w) \<Rightarrow> (Ok ((smartInfoFromSMARTInfo path i)\<lparr>si_DiskId := deviceId\<rparr>), s\<lparr>sm_world := w\<rparr>))))"

definition attr_range :: "smart_attribute \<Rightarrow> range_value" where
  "attr_range a = \<lparr>rv_Code = at_ID a, rv_Value = at_Value a, rv_Min = 0, rv_Worst = at_Worst a,
     rv_Thresholds = at_Thresh a\<rparr>"

text \<open>The raw value replaces the normalised one when it is positive; \<open>Min\<close> stays what it was.\<close>

definition counter_range :: "smart_attribute \<Rightarrow> range_value \<Rightarrow> range_value" where
  "counter_range a r = r\<lparr>rv_Code := at_ID a, rv_Value := (if at_Raw a > 0 then at_Raw a else at_Value a),
     rv_Worst := at_Worst a, rv_Thresholds := at_Thresh a\<rparr>"

text \<open>194, 12 and 9 are the codes of the temperature, the power cycles and the power-on hours.\<close>

definition add_attribute ::
  "smart_attribute \<Rightarrow> smart_status \<times> (string, range_value) gomap \<Rightarrow> smart_status \<times> (string, range_value) gomap" where
  "add_attribute a p =
     (case p of (r, others) \<Rightarrow>
        if at_ID a = 194 then
          (r\<lparr>sx_Temperature := (sx_Temperature r)\<lparr>tv_Value := (if at_Raw a > 0 then at_Raw a else at_Value a)\<rparr>\<rparr>, others)
        else if at_ID a = 12 then (r\<lparr>sx_PowerCycleCount := counter_range a (sx_PowerCycleCount r)\<rparr>, others)
        else if at_ID a = 9 then (r\<lparr>sx_PowerOnHours := counter_range a (sx_PowerOnHours r)\<rparr>, others)
        else if at_Name a \<noteq> [] then (r, AList.update (at_Name a) (attr_range a) others)
        else (r, others))"

definition ata_status :: "smart_attribute list \<Rightarrow> smart_status \<Rightarrow> smart_status" where
  "ata_status table r =
     (case fold add_attribute table (r, []) of (r1, others) \<Rightarrow>
        if others \<noteq> [] then r1\<lparr>sx_Additional := Some others\<rparr> else r1)"

definition nvme_status :: "nvme_health \<Rightarrow> smart_status \<Rightarrow> smart_status" where
  "nvme_status n r =
     (let t = sx_Temperature r;
          t1 = (if nv_Temperature n > 0 then t\<lparr>tv_Value := nv_Temperature n\<rparr> else t);
          t2 = (if nv_WarningTempTime n > 0 then t1\<lparr>tv_OvertempCounter := nv_WarningTempTime n\<rparr> else t1);
          h = sx_PowerOnHours r;
          h1 = (if nv_PowerOnHours n > 0 then h\<lparr>rv_Value := nv_PowerOnHours n\<rparr> else h);
          p = sx_PowerCycleCount r;
          p1 = (if nv_PowerCycles n > 0 then p\<lparr>rv_Value := nv_PowerCycles n\<rparr> else p)
      in r\<lparr>sx_Temperature := t2, sx_PowerOnHours := h1, sx_PowerCycleCount := p1,
           sx_Additional := Some
             [(''AvailableSpare'', no_range\<lparr>rv_Value := nv_AvailableSpare n, rv_Thresholds := nv_AvailableSpareThresh n\<rparr>),
              (''PercentageUsed'', no_range\<lparr>rv_Value := nv_PercentageUsed n\<rparr>),
              (''CriticalWarning'', no_range\<lparr>rv_Value := nv_CriticalWarning n\<rparr>)]\<rparr>)"

definition status_of_info :: "smartctl_info \<Rightarrow> smart_status" where
  "status_of_info i =
     (let r = SmartMonToolsSmartInfoToSmartStatus i
      in case mi_AtaSmartData i of
           Some d \<Rightarrow> (case ad_Table d of Some table \<Rightarrow> ata_status table r | None \<Rightarrow> r)
         | None \<Rightarrow> (case mi_NvmeSmartHealth i of Some n \<Rightarrow> nvme_status n r | None \<Rightarrow> r))"

definition device_failure :: "device_error \<Rightarrow> 'a res" where
  "device_failure e = smart_err ErrorOther (case e of DeviceMissing \<Rightarrow> ''no such device'' | DeviceFailed m \<Rightarrow> m)"

definition GetSmartStatus ::
  "'w smart_env \<Rightarrow> string \<Rightarrow> 'w smart_service \<Rightarrow> smart_status res \<times> 'w smart_service" where
  "GetSmartStatus env deviceId s =
     (case sm_device env deviceId of
        Inl e \<Rightarrow> (device_failure e, s)
      | Inr path \<Rightarrow>
          (case sm_client env of
             None \<Rightarrow> (smart_err ErrorSMARTNotSupported ''smartctl not available'', s)
           | Some c \<Rightarrow>
               (case sl_Info c path (sm_world s) of
                  (Inl m, w) \<Rightarrow> (info_error m, s\<lparr>sm_world := w\<rparr>)
                | (Inr i, w) \<Rightarrow>
                    ((case mi_SmartSupport i of
                        Some support \<Rightarrow> if \<not> sp_Available support then smart_err ErrorSMARTNotSupported path
                                  else Ok (status_of_info i)
                      | None \<Rightarrow> Ok (status_of_info i)), s\<lparr>sm_world := w\<rparr>))))"

section \<open>Health\<close>

definition below :: "range_value \<Rightarrow> bool" where
  "below v \<longleftrightarrow> rv_Thresholds v > 0 \<and> rv_Value v < rv_Thresholds v"

definition failing_attributes :: "smart_status \<Rightarrow> string list" where
  "failing_attributes st =
     map fst (filter (\<lambda>(code, v). below v) (case sx_Additional st of None \<Rightarrow> [] | Some m \<Rightarrow> m))
     @ (if below (sx_PowerCycleCount st) then [''PowerCycleCount''] else [])
     @ (if below (sx_PowerOnHours st) then [''PowerOnHours''] else [])"

definition checkSMARTHealth :: "smart_status \<Rightarrow> health_status" where
  "checkSMARTHealth st =
     (let failing = failing_attributes st
      in \<lparr>hs_Passed = (failing = []), hs_FailingAttributes = failing,
          hs_OverallStatus = (if failing = [] then ''healthy'' else ''failing'')\<rparr>)"

text \<open>The verdict of the client, when there is one, replaces the verdict on the attributes.\<close>

definition apply_verdict :: "bool option \<Rightarrow> health_status \<Rightarrow> health_status" where
  "apply_verdict verdict h =
     (case verdict of
        None \<Rightarrow> h
      | Some healthy \<Rightarrow> h\<lparr>hs_Passed := healthy,
          hs_OverallStatus := (if healthy then ''healthy''
            else if hs_OverallStatus h = ''healthy'' then ''failing'' else hs_OverallStatus h)\<rparr>)"

definition GetHealthStatus ::
  "'w smart_env \<Rightarrow> string \<Rightarrow> 'w smart_service \<Rightarrow> health_status res \<times> 'w smart_service" where
  "GetHealthStatus env deviceId s =
     (case sm_client env of
        None \<Rightarrow> (smart_err ErrorSMARTNotSupported ''smartctl not available'', s)
      | Some c \<Rightarrow>
          (case sm_device env deviceId of
             Inl e \<Rightarrow> (device_failure e, s)
           | Inr path \<Rightarrow>
               (case GetSmartStatus env deviceId s of
                  (Panic, s1) \<Rightarrow> (Panic, s1)
                | (Err e, s1) \<Rightarrow>
                    (if err_kind e = ErrorSMARTNotSupported
                     then Ok \<lparr>hs_Passed = False, hs_FailingAttributes = [], hs_OverallStatus = ''unknown''\<rparr>
                     else Err e, s1)
                | (Ok st, s1) \<Rightarrow>
                    if \<not> sx_Enabled st
                    then (Ok \<lparr>hs_Passed = False, hs_FailingAttributes = [''SMART_not_enabled''],
                              hs_OverallStatus = ''warning''\<rparr>, s1)
                    else (case sl_CheckHealth c path (sm_world s1) of
                            (verdict, w) \<Rightarrow>
                              (Ok (apply_verdict (case verdict of Inl m \<Rightarrow> None | Inr b \<Rightarrow> Some b)
                                     (checkSMARTHealth st)), s1\<lparr>sm_world := w\<rparr>)))))"

section \<open>Self-tests\<close>

definition emit_smart :: "smart_event \<Rightarrow> 'w smart_service \<Rightarrow> 'w smart_service" where
  "emit_smart e s = s\<lparr>sm_events := sm_events s @ [e]\<rparr>"

definition test_name :: "SmartTestType \<Rightarrow> string" where
  "test_name t = enum_String SmartTestType_enum t"

text \<open>The progress callback, which the client calls from a goroutine of its own.\<close>

definition test_progress :: "string \<Rightarrow> SmartTestType \<Rightarrow> int \<Rightarrow> string \<Rightarrow> 'w smart_service \<Rightarrow> 'w smart_service" where
  "test_progress deviceId t progress status s =
     (if (deviceId, t) \<in> set (sm_tests s)
      then emit_smart (SmartTestUpdate \<lparr>tt_DiskId = deviceId, tt_Running = True, tt_Status = status,
             tt_TestType = test_name t, tt_PercentComplete = progress\<rparr>) s
      else s)"

definition test_gone :: "string \<Rightarrow> SmartTestType \<Rightarrow> 'w smart_service \<Rightarrow> 'w smart_service" where
  "test_gone deviceId t s = s\<lparr>sm_tests := remove1 (deviceId, t) (sm_tests s)\<rparr>"

definition StartSelfTest ::
  "'w smart_env \<Rightarrow> string \<Rightarrow> SmartTestType \<Rightarrow> 'w smart_service \<Rightarrow> unit res \<times> 'w smart_service" where
  "StartSelfTest env deviceId t s =
     (if \<not> enum_IsValid SmartTestType_enum t then (smart_err ErrorInvalidParameter ''test_type'', s)
      else case sm_client env of
             None \<Rightarrow> (smart_err ErrorSMARTNotSupported ''smartctl not available'', s)
           | Some c \<Rightarrow>
               (case sm_device env deviceId of
                  Inl e \<Rightarrow> (device_failure e, s)
                | Inr path \<Rightarrow>
                    (case sl_RunSelfTest c path (test_name t) (sm_world s) of
                       (Some m, w) \<Rightarrow>
                         (smart_err (if Contains m ''not supported'' then ErrorSMARTNotSupported else ErrorOther) m,
                          s\<lparr>sm_world := w\<rparr>)
                     | (None, w) \<Rightarrow>
                         (Ok (), emit_smart (SmartTestUpdate \<lparr>tt_DiskId = deviceId, tt_Running = False,
                             tt_Status = ''completed without error'', tt_TestType = test_name t,
                             tt_PercentComplete = 100\<rparr>)
                           (s\<lparr>sm_world := w, sm_tests := sm_tests s @ [(deviceId, t)]\<rparr>)))))"

definition AbortSelfTest ::
  "'w smart_env \<Rightarrow> string \<Rightarrow> 'w smart_service \<Rightarrow> unit res \<times> 'w smart_service" where
  "AbortSelfTest env deviceId s =
     (case sm_client env of
        None \<Rightarrow> (smart_err ErrorSMARTNotSupported ''smartctl not available'', s)
      | Some c \<Rightarrow>
          (case sm_device env deviceId of
             Inl e \<Rightarrow> (device_failure e, s)
           | Inr path \<Rightarrow>
               (case sl_AbortSelfTest c path (sm_world s) of
                  (Some m, w) \<Rightarrow>
                    (smart_err (if Contains m ''not supported'' then ErrorSMARTNotSupported else ErrorOther) m,
                     s\<lparr>sm_world := w\<rparr>)
                | (None, w) \<Rightarrow> (Ok (), s\<lparr>sm_world := w\<rparr>))))"

text \<open>The digits that end before the first percent sign, as \<open>Sscanf\<close> reads them.\<close>

definition remaining_percent :: "string \<Rightarrow> int option" where
  "remaining_percent ls =
     (case Index ls ''%'' of
        None \<Rightarrow> None
      | Some 0 \<Rightarrow> None
      | Some idx \<Rightarrow>
          (case rev (take idx ls) of
             [] \<Rightarrow> None
           | c # before \<Rightarrow>
               let text0 = rev (takeWhile (\<lambda>d. digit_val d \<noteq> None) before) @ [c]
               in Atoi (takeWhile (\<lambda>d. digit_val d \<noteq> None) text0)))"

definition parse_test :: "string \<Rightarrow> string \<Rightarrow> test_status" where
  "parse_test deviceId text0 =
     (let ls = ToLower text0;
          running = Contains ls ''in progress''
      in \<lparr>tt_DiskId = deviceId, tt_Running = running, tt_Status = text0,
          tt_TestType = (if Contains ls ''short'' then ''short''
            else if Contains ls ''long'' \<or> Contains ls ''extended'' then ''long''
            else if Contains ls ''conveyance'' then ''conveyance'' else ''unknown''),
          tt_PercentComplete = (if running
            then (case remaining_percent ls of Some pct \<Rightarrow> 100 - pct | None \<Rightarrow> 0) else 0)\<rparr>)"

definition GetTestStatus ::
  "'w smart_env \<Rightarrow> string \<Rightarrow> 'w smart_service \<Rightarrow> test_status res \<times> 'w smart_service" where
  "GetTestStatus env deviceId s =
     (case sm_client env of
        None \<Rightarrow> (smart_err ErrorSMARTNotSupported ''smartctl not available'', s)
      | Some c \<Rightarrow>
          (case sm_device env deviceId of
             Inl e \<Rightarrow> (device_failure e, s)
           | Inr path \<Rightarrow>
               (case sl_Info c path (sm_world s) of
                  (Inl m, w) \<Rightarrow> (smart_err ErrorOther m, s\<lparr>sm_world := w\<rparr>)
                | (Inr i, w) \<Rightarrow>
                    (Ok (case mi_AtaSmartData i of
                           None \<Rightarrow> \<lparr>tt_DiskId = [], tt_Running = False, tt_Status = ''idle'', tt_TestType = ''none'',
                                    tt_PercentComplete = 0\<rparr>
                         | Some d \<Rightarrow>
                             (case ad_SelfTest d of
                                None \<Rightarrow> \<lparr>tt_DiskId = [], tt_Running = False, tt_Status = ''idle'', tt_TestType = ''none'',
                                         tt_PercentComplete = 0\<rparr>
                              | Some None \<Rightarrow> \<lparr>tt_DiskId = deviceId, tt_Running = False, tt_Status = ''unknown'',
                                              tt_TestType = ''unknown'', tt_PercentComplete = 0\<rparr>
                              | Some (Some text0) \<Rightarrow> parse_test deviceId text0)), s\<lparr>sm_world := w\<rparr>))))"

section \<open>Switching on and off\<close>

definition announce_info ::
  "'w smart_client \<Rightarrow> string \<Rightarrow> string \<Rightarrow> 'w smart_service \<Rightarrow> unit res \<times> 'w smart_service" where
  "announce_info c path deviceId s =
     (case sl_Info c path (sm_world s) of
        (Inl m, w) \<Rightarrow> (smart_err ErrorOther m, s\<lparr>sm_world := w\<rparr>)
      | (Inr i, w) \<Rightarrow>
          (Ok (), emit_smart (SmartInfoUpdate ((smartInfoFromSMARTInfo path i)\<lparr>si_DiskId := deviceId\<rparr>))
             (s\<lparr>sm_world := w\<rparr>)))"

definition EnableSMART :: "'w smart_env \<Rightarrow> string \<Rightarrow> 'w smart_service \<Rightarrow> unit res \<times> 'w smart_service" where
  "EnableSMART env deviceId s =
     (case sm_client env of
        None \<Rightarrow> (smart_err ErrorSMARTNotSupported ''smartctl not available'', s)
      | Some c \<Rightarrow>
          (case sm_device env deviceId of
             Inl e \<Rightarrow> (device_failure e, s)
           | Inr path \<Rightarrow>
               (case sl_Enable c path (sm_world s) of
                  (Some m, w) \<Rightarrow> (smart_err ErrorOther m, s\<lparr>sm_world := w\<rparr>)
                | (None, w) \<Rightarrow>
                    (case sl_Supported c path w of
                       (Inl m, w1) \<Rightarrow> (smart_err ErrorOther m, s\<lparr>sm_world := w1\<rparr>)
                     | (Inr support, w1) \<Rightarrow>
                         if \<not> sp_Enabled support then (smart_err ErrorSMARTOperationFailed path, s\<lparr>sm_world := w1\<rparr>)
                         else announce_info c path deviceId (s\<lparr>sm_world := w1\<rparr>)))))"

text \<open>Whether it is off afterwards is only logged.\<close>

definition DisableSMART :: "'w smart_env \<Rightarrow> string \<Rightarrow> 'w smart_service \<Rightarrow> unit res \<times> 'w smart_service" where
  "DisableSMART env deviceId s =
     (case sm_client env of
        None \<Rightarrow> (smart_err ErrorSMARTNotSupported ''smartctl not available'', s)
      | Some c \<Rightarrow>
          (case sm_device env deviceId of
             Inl e \<Rightarrow> (device_failure e, s)
           | Inr path \<Rightarrow>
               (case sl_Disable c path (sm_world s) of
                  (Some m, w) \<Rightarrow> (smart_err ErrorOther m, s\<lparr>sm_world := w\<rparr>)
                | (None, w) \<Rightarrow> announce_info c path deviceId (s\<lparr>sm_world := snd (sl_Supported c path w)\<rparr>))))"

section \<open>Inputs\<close>

datatype smart_input =
    SmGetInfo string | SmGetStatus string | SmGetHealth string | SmStartTest string SmartTestType
  | SmAbortTest string | SmGetTest string | SmEnable string | SmDisable string
  | SmProgress string SmartTestType int string | SmTestGone string SmartTestType

fun smart_step :: "'w smart_env \<Rightarrow> 'w smart_service \<Rightarrow> smart_input \<Rightarrow> 'w smart_service" where
  "smart_step env s (SmGetInfo d) = snd (GetSmartInfo env d s)"
| "smart_step env s (SmGetStatus d) = snd (GetSmartStatus env d s)"
| "smart_step env s (SmGetHealth d) = snd (GetHealthStatus env d s)"
| "smart_step env s (SmStartTest d t) = snd (StartSelfTest env d t s)"
| "smart_step env s (SmAbortTest d) = snd (AbortSelfTest env d s)"
| "smart_step env s (SmGetTest d) = snd (GetTestStatus env d s)"
| "smart_step env s (SmEnable d) = snd (EnableSMART env d s)"
| "smart_step env s (SmDisable d) = snd (DisableSMART env d s)"
| "smart_step env s (SmProgress d t p m) = test_progress d t p m s"
| "smart_step env s (SmTestGone d t) = test_gone d t s"

end
