(* ===== verification/Disk_Stats.thy ===== *)
theory Disk_Stats
  imports Smart_Service Fs_Base Hd_Idle
begin

text \<open>
  The disk statistics (\<open>service/disk_stats_service.go\<close>, \<open>dto/disk_stats.go\<close>): every ten seconds the counters of
  the disks are read, every sixth time with what is known about their health and their partitions.

  The rates and latencies are floating point; an entry keeps the two readings they are computed from, and the
  global sums are left out. The counters, \<open>statfs\<close>, the file system service and the spin-down service are
  parameters; the calls of the S.M.A.R.T. service are logged in \<open>dk_asked\<close>, because each of them may wake the disk.
  The expiry of the cache is an input.
\<close>

section \<open>Data\<close>

record io_stats =
  io_ReadIOs :: "64 word"
  io_ReadTicks :: "64 word"
  io_WriteIOs :: "64 word"
  io_WriteTicks :: "64 word"

datatype io_answer = IoStats io_stats | IoMissing | IoFailed string

record disk_io =
  di_DeviceName :: string
  di_DeviceDescription :: string
  di_Before :: io_stats
  di_Now :: io_stats
  di_SmartData :: "smart_status option"

record partition_info =
  pt_Name :: string
  pt_MountPoint :: string
  pt_Device :: string
  pt_FSType :: string
  pt_FreeSpace :: "64 word"
  pt_TotalSpace :: "64 word"
  pt_FilesystemState :: "fs_state option"

record disk_info =
  dn_DeviceId :: string
  dn_DevicePath :: string
  dn_SmartInfo :: "smart_info option"
  dn_SmartHealth :: "health_status option"
  dn_HDIdleStatus :: "disk_status option"

record disk_health =
  dh_PerDiskIO :: "disk_io list"
  dh_PerPartitionInfo :: "(string, partition_info list) gomap"
  dh_PerDiskInfo :: "(string, disk_info) gomap"
  dh_HDIdleRunning :: bool

record stat_fs =
  sf_Bsize :: int
  sf_Bfree :: "64 word"
  sf_Blocks :: "64 word"

record 'w disk_stats_env =
  ke_smart :: "'w smart_env"
  ke_hdidle :: "(bool \<times> (string \<Rightarrow> disk_status option)) option"
  ke_fsInfo :: "(string \<Rightarrow> fs_info option) option"
  ke_fsState :: "string \<Rightarrow> string \<Rightarrow> fs_state option"
  ke_ioStats :: "string \<Rightarrow> io_answer"
  ke_statfs :: "string \<Rightarrow> stat_fs option"

record 'w disk_stats =
  dk_lastUpdateTime :: int
  dk_lastStats :: "(string, io_stats) gomap"
  dk_health :: "disk_health option"
  dk_smart :: "'w smart_service"
  dk_asked :: "string list"
  dk_enabled :: "(string, bool) gomap"
  dk_disabled :: bool

section \<open>Asking the S.M.A.R.T. service\<close>

definition ask_smart :: "('w smart_service \<Rightarrow> 'a res \<times> 'w smart_service) \<Rightarrow> string \<Rightarrow> 'w disk_stats \<Rightarrow> 'a res \<times> 'w disk_stats" where
  "ask_smart call diskId s =
     (case call (dk_smart s) of (r, m) \<Rightarrow> (r, s\<lparr>dk_smart := m, dk_asked := dk_asked s @ [diskId]\<rparr>))"

definition set_enabled :: "string \<Rightarrow> bool \<Rightarrow> 'w disk_stats \<Rightarrow> 'w disk_stats" where
  "set_enabled diskId b s = s\<lparr>dk_enabled := AList.update diskId b (dk_enabled s)\<rparr>"

definition isSmartEnabled :: "'w disk_stats_env \<Rightarrow> string \<Rightarrow> 'w disk_stats \<Rightarrow> bool \<times> 'w disk_stats" where
  "isSmartEnabled env diskId s =
     (if dk_disabled s then (False, s)
      else case map_of (dk_enabled s) diskId of
             Some b \<Rightarrow> (b, s)
           | None \<Rightarrow>
               (case ask_smart (GetSmartInfo (ke_smart env) diskId) diskId s of
                  (Ok i, s1) \<Rightarrow>
                    (if \<not> si_Supported i then (False, set_enabled diskId False s1)
                     else (si_Enabled i, set_enabled diskId (si_Enabled i) s1))
                | (_, s1) \<Rightarrow> (False, set_enabled diskId False s1)))"

section \<open>One disk\<close>

definition on_health :: "(disk_health \<Rightarrow> disk_health) \<Rightarrow> 'w disk_stats \<Rightarrow> 'w disk_stats" where
  "on_health f s = s\<lparr>dk_health := map_option f (dk_health s)\<rparr>"

text \<open>What the last tick knew; a heavy tick forgets it. Only the first entry of a disk counts.\<close>

definition previous_smart :: "bool \<Rightarrow> disk_health option \<Rightarrow> string \<Rightarrow> smart_status option" where
  "previous_smart heavy last_health i =
     (case last_health of
        Some h \<Rightarrow> if heavy then None
          else (case List.find (\<lambda>e. di_DeviceDescription e = i) (dh_PerDiskIO h) of
                  Some e \<Rightarrow> di_SmartData e | None \<Rightarrow> None)
      | None \<Rightarrow> None)"

definition current_smart ::
  "'w disk_stats_env \<Rightarrow> string \<Rightarrow> 'w disk_stats \<Rightarrow> smart_status option \<times> 'w disk_stats" where
  "current_smart env i s =
     (if dk_disabled s then (None, s)
      else case isSmartEnabled env i s of
             (False, s1) \<Rightarrow> (None, s1)
           | (True, s1) \<Rightarrow>
               (case ask_smart (GetSmartStatus (ke_smart env) i) i s1 of
                  (Ok st, s2) \<Rightarrow> (Some st, set_enabled i (sx_Enabled st) s2)
                | (_, s2) \<Rightarrow> (None, s2)))"

definition collect_io ::
  "'w disk_stats_env \<Rightarrow> bool \<Rightarrow> disk_health option \<Rightarrow> string \<Rightarrow> string \<Rightarrow> io_stats \<Rightarrow> 'w disk_stats \<Rightarrow> 'w disk_stats" where
  "collect_io env heavy last_health i name stats s =
     (let s1 = s\<lparr>dk_lastStats := AList.update i stats (dk_lastStats s)\<rparr>
      in case map_of (dk_lastStats s) i of
           None \<Rightarrow> s1
         | Some before \<Rightarrow>
             (case (case previous_smart heavy last_health i of
                      Some st \<Rightarrow> (Some st, s1) | None \<Rightarrow> current_smart env i s1) of
                (smart, s2) \<Rightarrow>
                  on_health (\<lambda>h. h\<lparr>dh_PerDiskIO := dh_PerDiskIO h @
                     [\<lparr>di_DeviceName = name, di_DeviceDescription = i, di_Before = before, di_Now = stats,
                       di_SmartData = smart\<rparr>]\<rparr>) s2))"

definition resolvePartitionDevicePath :: "partition \<Rightarrow> string" where
  "resolvePartitionDevicePath p =
     (case p_LegacyDevicePath p of
        Some (c # q) \<Rightarrow> c # q
      | _ \<Rightarrow> (case p_DevicePath p of
                Some (c # q) \<Rightarrow> c # q
              | _ \<Rightarrow> (case p_LegacyDeviceName p of Some (c # q) \<Rightarrow> ''/dev/'' @ c # q | _ \<Rightarrow> [])))"

definition getFilesystemState :: "'w disk_stats_env \<Rightarrow> partition \<Rightarrow> string \<Rightarrow> fs_state option" where
  "getFilesystemState env p fsType =
     (case ke_fsInfo env of
        None \<Rightarrow> None
      | Some info \<Rightarrow>
          if fsType = [] then None
          else (case info fsType of
                  None \<Rightarrow> None
                | Some i \<Rightarrow>
                    (case fi_Support i of
                       None \<Rightarrow> None
                     | Some support \<Rightarrow>
                         if \<not> fs_CanCheck support \<or> resolvePartitionDevicePath p = [] \<or> \<not> fs_CanGetState support
                         then None else ke_fsState env (resolvePartitionDevicePath p) fsType)))"

text \<open>Free and total space: of the first mount point when \<open>statfs\<close> answers, else the size of the partition.\<close>

definition partition_space :: "'w disk_stats_env \<Rightarrow> partition \<Rightarrow> string \<times> 64 word \<times> 64 word" where
  "partition_space env p =
     (let totalSpace = (case p_Size p of Some n \<Rightarrow> if n > 0 then word_of_int n else 0 | None \<Rightarrow> 0)
      in case p_MountPointData p of
           Some ((k, mp) # rest) \<Rightarrow>
             (if mp_Path mp = [] then ([], 0, totalSpace)
              else case ke_statfs env (mp_Path mp) of
                     Some st \<Rightarrow> (mp_Path mp,
                        if sf_Bsize st > 0 then (sf_Bfree st * word_of_int (sf_Bsize st), sf_Blocks st * word_of_int (sf_Bsize st))
                        else (0, totalSpace))
                   | None \<Rightarrow> (mp_Path mp, 0, totalSpace))
         | _ \<Rightarrow> ([], 0, totalSpace))"

definition describe_partition :: "'w disk_stats_env \<Rightarrow> partition \<Rightarrow> partition_info res" where
  "describe_partition env p =
     (case p_Id p of
        None \<Rightarrow> Panic
      | Some i \<Rightarrow>
          (case partition_space env p of
             (mount, free, totalSpace) \<Rightarrow>
               Ok \<lparr>pt_Name = (case p_Name p of Some n \<Rightarrow> n
                     | None \<Rightarrow> (case p_LegacyDeviceName p of Some n \<Rightarrow> n | None \<Rightarrow> i)),
                   pt_MountPoint = mount, pt_Device = i,
                   pt_FSType = (case p_FsType p of Some t \<Rightarrow> t | None \<Rightarrow> []),
                   pt_FreeSpace = free, pt_TotalSpace = totalSpace,
                   pt_FilesystemState = getFilesystemState env p (case p_FsType p of Some t \<Rightarrow> t | None \<Rightarrow> [])\<rparr>))"

fun describe_partitions :: "'w disk_stats_env \<Rightarrow> partition list \<Rightarrow> partition_info list res" where
  "describe_partitions env [] = Ok []"
| "describe_partitions env (p # ps) =
     (case describe_partition env p of
        Ok x \<Rightarrow> (case describe_partitions env ps of Ok xs \<Rightarrow> Ok (x # xs) | Err e \<Rightarrow> Err e | Panic \<Rightarrow> Panic)
      | Err e \<Rightarrow> Err e
      | Panic \<Rightarrow> Panic)"

definition collect_partitions ::
  "'w disk_stats_env \<Rightarrow> bool \<Rightarrow> disk_health option \<Rightarrow> string \<Rightarrow> part_map \<Rightarrow> 'w disk_stats \<Rightarrow> unit res \<times> 'w disk_stats" where
  "collect_partitions env heavy last_health i parts s =
     (let put = (\<lambda>xs. on_health (\<lambda>h. h\<lparr>dh_PerPartitionInfo := AList.update i xs (dh_PerPartitionInfo h)\<rparr>) s)
      in case (case last_health of Some h \<Rightarrow> if heavy then None else map_of (dh_PerPartitionInfo h) i | None \<Rightarrow> None) of
           Some cached \<Rightarrow> (Ok (), put cached)
         | None \<Rightarrow>
             (case describe_partitions env (map snd parts) of
                Ok [] \<Rightarrow> (Ok (), s)
              | Ok xs \<Rightarrow>
                  (Ok (), on_health (\<lambda>h. h\<lparr>dh_PerPartitionInfo := AList.update i
                     ((case map_of (dh_PerPartitionInfo h) i of Some ys \<Rightarrow> ys | None \<Rightarrow> []) @ xs)
                     (dh_PerPartitionInfo h)\<rparr>) s)
              | Err e \<Rightarrow> (Err e, s)
              | Panic \<Rightarrow> (Panic, s)))"

definition getHDIdleDeviceStatus :: "'w disk_stats_env \<Rightarrow> string \<Rightarrow> disk_status option" where
  "getHDIdleDeviceStatus env path =
     (case ke_hdidle env of None \<Rightarrow> None | Some (running, status) \<Rightarrow> if running then status path else None)"

definition ask_health :: "'w disk_stats_env \<Rightarrow> string \<Rightarrow> 'w disk_stats \<Rightarrow> health_status option \<times> 'w disk_stats" where
  "ask_health env i s =
     (case ask_smart (GetHealthStatus (ke_smart env) i) i s of
        (Ok h, s1) \<Rightarrow> (Some h, s1) | (_, s1) \<Rightarrow> (None, s1))"

definition smart_details ::
  "'w disk_stats_env \<Rightarrow> string \<Rightarrow> 'w disk_stats \<Rightarrow> (smart_info option \<times> health_status option) \<times> 'w disk_stats" where
  "smart_details env i s =
     (if dk_disabled s then ((None, None), s)
      else case isSmartEnabled env i s of
             (False, s1) \<Rightarrow> ((None, None), s1)
           | (True, s1) \<Rightarrow>
               (case ask_smart (GetSmartInfo (ke_smart env) i) i s1 of
                  (Ok info, s2) \<Rightarrow>
                    (if si_Supported info
                     then (case ask_health env i s2 of (h, s3) \<Rightarrow> ((Some info, h), s3))
                     else ((Some info, None), s2))
                | (_, s2) \<Rightarrow> ((None, None), s2)))"

definition populatePerDiskInfo :: "'w disk_stats_env \<Rightarrow> string \<Rightarrow> string option \<Rightarrow> 'w disk_stats \<Rightarrow> 'w disk_stats" where
  "populatePerDiskInfo env i path s =
     (let put = (\<lambda>x. on_health (\<lambda>h. h\<lparr>dh_PerDiskInfo := AList.update i x (dh_PerDiskInfo h)\<rparr>))
      in case path of
           None \<Rightarrow> put \<lparr>dn_DeviceId = i, dn_DevicePath = [], dn_SmartInfo = None, dn_SmartHealth = None,
                        dn_HDIdleStatus = None\<rparr> s
         | Some p \<Rightarrow>
             (case smart_details env i s of
                ((info, health), s1) \<Rightarrow>
                  put \<lparr>dn_DeviceId = i, dn_DevicePath = p, dn_SmartInfo = info, dn_SmartHealth = health,
                       dn_HDIdleStatus = getHDIdleDeviceStatus env p\<rparr> s1))"

definition collect_info ::
  "'w disk_stats_env \<Rightarrow> bool \<Rightarrow> disk_health option \<Rightarrow> string \<Rightarrow> string option \<Rightarrow> 'w disk_stats \<Rightarrow> 'w disk_stats" where
  "collect_info env heavy last_health i path s =
     (case (case last_health of Some h \<Rightarrow> if heavy then None else map_of (dh_PerDiskInfo h) i | None \<Rightarrow> None) of
        Some x \<Rightarrow> on_health (\<lambda>h. h\<lparr>dh_PerDiskInfo := AList.update i x (dh_PerDiskInfo h)\<rparr>) s
      | None \<Rightarrow> populatePerDiskInfo env i path s)"

text \<open>A disk without a device path is skipped; its identifier is read for the log all the same.\<close>

definition collect_disk ::
  "'w disk_stats_env \<Rightarrow> bool \<Rightarrow> disk_health option \<Rightarrow> disk \<Rightarrow> 'w disk_stats \<Rightarrow> unit res \<times> 'w disk_stats" where
  "collect_disk env heavy last_health d s =
     (case (d_DevicePath d, d_Id d, d_LegacyDeviceName d) of
        (None, None, _) \<Rightarrow> (Panic, s)
      | (None, Some i, _) \<Rightarrow> (Ok (), s)
      | (Some path, _, None) \<Rightarrow> (Panic, s)
      | (Some path, di, Some name) \<Rightarrow>
          (case ke_ioStats env name of
             IoMissing \<Rightarrow> (Ok (), s)
           | IoFailed m \<Rightarrow> (Err (E ErrorOther m), s)
           | IoStats stats \<Rightarrow>
               (case di of
                  None \<Rightarrow> (Panic, s)
                | Some i \<Rightarrow>
                    let s1 = collect_io env heavy last_health i name stats s
                    in (case (case d_Partitions d of
                                None \<Rightarrow> (Ok (), s1)
                              | Some parts \<Rightarrow> collect_partitions env heavy last_health i parts s1) of
                          (Ok u, s2) \<Rightarrow> (Ok (), collect_info env heavy last_health i (Some path) s2)
                        | (r, s2) \<Rightarrow> (r, s2)))))"

section \<open>One tick\<close>

fun collect_disks ::
  "'w disk_stats_env \<Rightarrow> bool \<Rightarrow> disk_health option \<Rightarrow> disk list \<Rightarrow> 'w disk_stats \<Rightarrow> unit res \<times> 'w disk_stats" where
  "collect_disks env heavy last_health [] s = (Ok (), s)"
| "collect_disks env heavy last_health (d # ds) s =
     (case collect_disk env heavy last_health d s of
        (Ok u, s1) \<Rightarrow> collect_disks env heavy last_health ds s1
      | (r, s1) \<Rightarrow> (r, s1))"

definition empty_health :: "'w disk_stats_env \<Rightarrow> disk_health" where
  "empty_health env = \<lparr>dh_PerDiskIO = [], dh_PerPartitionInfo = [], dh_PerDiskInfo = [],
     dh_HDIdleRunning = (case ke_hdidle env of Some (r, _) \<Rightarrow> r | None \<Rightarrow> False)\<rparr>"

definition updateDiskStats ::
  "'w disk_stats_env \<Rightarrow> bool \<Rightarrow> int \<Rightarrow> disk list \<Rightarrow> 'w disk_stats \<Rightarrow> unit res \<times> 'w disk_stats" where
  "updateDiskStats env heavy now disks s =
     (case collect_disks env heavy (dk_health s) disks (s\<lparr>dk_health := Some (empty_health env)\<rparr>) of
        (Ok u, s1) \<Rightarrow> (Ok (), s1\<lparr>dk_lastUpdateTime := now\<rparr>)
      | (r, s1) \<Rightarrow> (r, s1))"

definition GetDiskStats :: "'w disk_stats \<Rightarrow> disk_health res" where
  "GetDiskStats s =
     (case dk_health s of None \<Rightarrow> Err (E ErrorOther ''disk stats not initialized'') | Some h \<Rightarrow> Ok h)"

definition InvalidateSmartCache :: "string \<Rightarrow> 'w disk_stats \<Rightarrow> 'w disk_stats" where
  "InvalidateSmartCache diskId s =
     s\<lparr>dk_enabled := (if diskId = [] then [] else AList.delete diskId (dk_enabled s))\<rparr>"

section \<open>Events\<close>

definition stats_on_smart :: "smart_info \<Rightarrow> 'w disk_stats \<Rightarrow> 'w disk_stats" where
  "stats_on_smart info s =
     (if dk_disabled s then s
      else if si_DiskId info \<noteq> [] then set_enabled (si_DiskId info) (si_Enabled info) s else s)"

definition stats_on_setting :: "SmartMode option \<Rightarrow> 'w disk_stats \<Rightarrow> 'w disk_stats" where
  "stats_on_setting mode s =
     (let disabled = (mode = Some SMARTMODENONE)
      in if disabled \<noteq> dk_disabled s then s\<lparr>dk_disabled := disabled, dk_enabled := []\<rparr> else s)"

section \<open>The loop\<close>

text \<open>The commands travel through a channel with one place; a send to a full one waits.\<close>

datatype loop_command = CmdSuspend | CmdResume

record 'w stats_loop =
  lp_stats :: "'w disk_stats"
  lp_chan :: "loop_command list"
  lp_suspended :: bool
  lp_ticks :: nat
  lp_ended :: bool

datatype loop_event =
    ServerProcessEvent bool | LoopReceive | LoopTick int "disk list" | LoopEnds
  | LoopSmart smart_info | LoopSetting "SmartMode option" | LoopInvalidate string

definition send_command :: "loop_command \<Rightarrow> 'w stats_loop \<Rightarrow> 'w stats_loop" where
  "send_command c l = (if lp_chan l = [] then l\<lparr>lp_chan := [c]\<rparr> else l)"

text \<open>A suspended loop reads the next command and logs it; no command ends the inner loop.\<close>

definition receive_command :: "'w stats_loop \<Rightarrow> 'w stats_loop" where
  "receive_command l =
     (case lp_chan l of
        [] \<Rightarrow> l
      | c # cs \<Rightarrow>
          if lp_ended l then l
          else if lp_suspended l then l\<lparr>lp_chan := cs\<rparr>
          else l\<lparr>lp_chan := cs, lp_suspended := (c = CmdSuspend)\<rparr>)"

definition loop_tick :: "'w disk_stats_env \<Rightarrow> int \<Rightarrow> disk list \<Rightarrow> 'w stats_loop \<Rightarrow> 'w stats_loop" where
  "loop_tick env now disks l =
     (if lp_suspended l \<or> lp_ended l then l
      else l\<lparr>lp_stats := snd (updateDiskStats env (lp_ticks l = 0) now disks (lp_stats l)),
             lp_ticks := (lp_ticks l + 1) mod 6\<rparr>)"

fun loop_step :: "'w disk_stats_env \<Rightarrow> 'w stats_loop \<Rightarrow> loop_event \<Rightarrow> 'w stats_loop" where
  "loop_step env l (ServerProcessEvent clean) = send_command (if clean then CmdResume else CmdSuspend) l"
| "loop_step env l LoopReceive = receive_command l"
| "loop_step env l (LoopTick now disks) = loop_tick env now disks l"
| "loop_step env l LoopEnds = l\<lparr>lp_ended := True\<rparr>"
| "loop_step env l (LoopSmart info) = l\<lparr>lp_stats := stats_on_smart info (lp_stats l)\<rparr>"
| "loop_step env l (LoopSetting mode) = l\<lparr>lp_stats := stats_on_setting mode (lp_stats l)\<rparr>"
| "loop_step env l (LoopInvalidate i) = l\<lparr>lp_stats := InvalidateSmartCache i (lp_stats l)\<rparr>"

end
