(* ===== verification/Disk_Stats_Laws.thy ===== *)
theory Disk_Stats_Laws
  imports Disk_Stats
begin

text \<open>
  What the disk statistics guarantee: a disk is asked about its S.M.A.R.T. state only when that is not known
  to be off, and what a tick reports.
\<close>

section \<open>Which disks are asked\<close>

text \<open>The contract of everything that may ask: only disks that are not known to be off, and none at all
  when the integration is switched off; what is known to be off stays known.\<close>

definition off :: "'w disk_stats \<Rightarrow> string \<Rightarrow> bool" where
  "off s i \<longleftrightarrow> dk_disabled s \<or> map_of (dk_enabled s) i = Some False"

definition asks_well :: "'w disk_stats \<Rightarrow> 'w disk_stats \<Rightarrow> bool" where
  "asks_well s t \<longleftrightarrow> dk_disabled t = dk_disabled s
     \<and> (\<exists>new. dk_asked t = dk_asked s @ new \<and> (\<forall>i \<in> set new. \<not> off s i))
     \<and> (\<forall>i. off s i \<longrightarrow> off t i)"

lemma asks_well_refl [simp]: "asks_well s s"
  by (simp add: asks_well_def)

lemma asks_well_trans:
  assumes "asks_well s t" "asks_well t u" shows "asks_well s u"
proof -
  from assms obtain xs ys where a: "dk_asked t = dk_asked s @ xs" "dk_asked u = dk_asked t @ ys"
    "\<forall>i \<in> set xs. \<not> off s i" "\<forall>i \<in> set ys. \<not> off t i" by (auto simp: asks_well_def)
  moreover have "\<forall>i. off s i \<longrightarrow> off t i" "\<forall>i. off t i \<longrightarrow> off u i" using assms by (simp_all add: asks_well_def)
  ultimately have "dk_asked u = dk_asked s @ (xs @ ys)" "\<forall>i \<in> set (xs @ ys). \<not> off s i" "\<forall>i. off s i \<longrightarrow> off u i"
    by auto
  then show ?thesis using assms unfolding asks_well_def by metis
qed

text \<open>What does not ask and does not touch the knowledge.\<close>

lemma asks_well_same:
  "dk_asked t = dk_asked s \<Longrightarrow> dk_disabled t = dk_disabled s \<Longrightarrow> dk_enabled t = dk_enabled s \<Longrightarrow> asks_well s t"
  by (simp add: asks_well_def off_def)

lemma asks_well_on_health [simp]: "asks_well s (on_health f t) \<longleftrightarrow> asks_well s t"
  by (simp add: asks_well_def on_health_def off_def)

lemma asks_well_frame:
  "asks_well (s\<lparr>dk_lastStats := x\<rparr>) t \<longleftrightarrow> asks_well s t" "asks_well (s\<lparr>dk_health := y\<rparr>) t \<longleftrightarrow> asks_well s t"
  "asks_well s (t\<lparr>dk_lastStats := x\<rparr>) \<longleftrightarrow> asks_well s t" "asks_well s (t\<lparr>dk_lastUpdateTime := n\<rparr>) \<longleftrightarrow> asks_well s t"
  by (simp_all add: asks_well_def off_def)

lemma ask_well: "\<not> off s i \<Longrightarrow> asks_well s (snd (ask_smart call i s))"
  by (auto simp: ask_smart_def asks_well_def off_def split: prod.split)

lemma set_enabled_well: "\<not> off s i \<Longrightarrow> asks_well s (set_enabled i b s)"
  by (auto simp: set_enabled_def asks_well_def off_def update_conv')

lemma off_after_ask: "off (snd (ask_smart call i s)) j = off s j"
  by (simp add: ask_smart_def off_def split: prod.split)

lemma ask_set_well: "\<not> off s i \<Longrightarrow> asks_well s (set_enabled i b (snd (ask_smart call i s)))"
  by (rule asks_well_trans [OF ask_well set_enabled_well]) (simp_all add: off_after_ask)

lemma isSmartEnabled_well: "asks_well s (snd (isSmartEnabled env i s))"
proof (cases "dk_disabled s \<or> map_of (dk_enabled s) i \<noteq> None")
  case True
  then show ?thesis by (auto simp: isSmartEnabled_def split: option.split)
next
  case False
  then have n: "\<not> off s i" by (simp add: off_def)
  obtain r s1 where a: "ask_smart (GetSmartInfo (ke_smart env) i) i s = (r, s1)" by fastforce
  have "asks_well s (set_enabled i b s1)" for b
    using ask_set_well [OF n, of b "GetSmartInfo (ke_smart env) i"] by (simp add: a)
  then show ?thesis using False by (auto simp: isSmartEnabled_def a split: res.split)
qed

text \<open>A disk that is found to be on is not known to be off.\<close>

lemma isSmartEnabled_on: "fst (isSmartEnabled env i s) \<Longrightarrow> \<not> off (snd (isSmartEnabled env i s)) i"
  by (auto simp: isSmartEnabled_def off_def set_enabled_def ask_smart_def update_conv' split: option.splits res.splits prod.splits if_splits)

lemma current_smart_well: "asks_well s (snd (current_smart env i s))"
proof -
  obtain b s1 where e: "isSmartEnabled env i s = (b, s1)" by fastforce
  have s1: "asks_well s s1" using isSmartEnabled_well [of s env i] by (simp add: e)
  obtain r s2 where a: "ask_smart (GetSmartStatus (ke_smart env) i) i s1 = (r, s2)" by fastforce
  have on: "\<not> off s1 i" if b using isSmartEnabled_on [of env i s] that by (simp add: e)
  have "asks_well s (set_enabled i x s2)" "asks_well s s2" if b for x
    using ask_set_well [OF on [OF that], of x "GetSmartStatus (ke_smart env) i"]
      ask_well [OF on [OF that], of "GetSmartStatus (ke_smart env) i"] asks_well_trans [OF s1]
    by (simp_all add: a)
  then show ?thesis using s1 by (auto simp: current_smart_def e a split: bool.split res.split)
qed

lemma smart_details_well: "asks_well s (snd (smart_details env i s))"
proof -
  obtain b s1 where e: "isSmartEnabled env i s = (b, s1)" by fastforce
  have s1: "asks_well s s1" using isSmartEnabled_well [of s env i] by (simp add: e)
  obtain r s2 where a: "ask_smart (GetSmartInfo (ke_smart env) i) i s1 = (r, s2)" by fastforce
  obtain q s3 where h: "ask_smart (GetHealthStatus (ke_smart env) i) i s2 = (q, s3)" by fastforce
  have on: "\<not> off s1 i" if b using isSmartEnabled_on [of env i s] that by (simp add: e)
  have on2: "off s2 i = off s1 i" using off_after_ask [of "GetSmartInfo (ke_smart env) i" i s1 i] by (simp add: a)
  have s2: "asks_well s s2" if b
    using ask_well [OF on [OF that], of "GetSmartInfo (ke_smart env) i"] asks_well_trans [OF s1] by (simp add: a)
  have s3: "asks_well s s3" if b
    using ask_well [of s2 i "GetHealthStatus (ke_smart env) i"] on [OF that] on2 asks_well_trans [OF s2 [OF that]]
    by (simp add: h)
  show ?thesis using s1 s2 s3
    by (auto simp: smart_details_def e a ask_health_def h split: bool.split res.split)
qed

lemma collect_io_well: "asks_well s (collect_io env heavy lh i name stats s)"
  using current_smart_well [of "s\<lparr>dk_lastStats := AList.update i stats (dk_lastStats s)\<rparr>" env i]
  by (auto simp: collect_io_def Let_def asks_well_frame split: option.split prod.split)

lemma collect_partitions_well: "asks_well s (snd (collect_partitions env heavy lh i parts s))"
  by (auto simp: collect_partitions_def Let_def split: option.split res.split list.split)

lemma collect_info_well: "asks_well s (collect_info env heavy lh i path s)"
  using smart_details_well [of s env i]
  by (auto simp: collect_info_def populatePerDiskInfo_def Let_def split: option.split prod.split)

lemma then_info_well:
  "asks_well s (snd x) \<Longrightarrow>
     asks_well s (snd (case x of (Ok u, t) \<Rightarrow> (Ok (), collect_info env heavy lh i p t) | (r, t) \<Rightarrow> (r, t)))"
  using asks_well_trans [OF _ collect_info_well] by (cases x; cases "fst x") auto

lemma then_partitions_well:
  "asks_well s t \<Longrightarrow>
     asks_well s (snd (case ps of None \<Rightarrow> (Ok (), t) | Some parts \<Rightarrow> collect_partitions env heavy lh i parts t))"
  using asks_well_trans [OF _ collect_partitions_well] by (cases ps) auto

lemma collect_disk_well: "asks_well s (snd (collect_disk env heavy lh d s))"
proof -
  have "asks_well s (snd (case (case d_Partitions d of None \<Rightarrow> (Ok (), collect_io env heavy lh i name stats s)
        | Some parts \<Rightarrow> collect_partitions env heavy lh i parts (collect_io env heavy lh i name stats s)) of
      (Ok u, t) \<Rightarrow> (Ok (), collect_info env heavy lh i p t) | (r, t) \<Rightarrow> (r, t)))" for i name stats p
    by (intro then_info_well then_partitions_well collect_io_well)
  then show ?thesis
    by (simp add: collect_disk_def Let_def split: option.split io_answer.split)
qed

lemma collect_disks_well: "asks_well s (snd (collect_disks env heavy lh ds s))"
proof (induction ds arbitrary: s)
  case (Cons d ds)
  obtain r s1 where c: "collect_disk env heavy lh d s = (r, s1)" by fastforce
  have "asks_well s s1" using collect_disk_well [of s env heavy lh d] by (simp add: c)
  then show ?case using Cons [of s1] asks_well_trans by (cases r) (auto simp: c)
qed simp

text \<open>C24: A tick asks the S.M.A.R.T. service only about disks that are not known to be off, and about none
  while the integration is switched off, whatever the disks, the services and the counters answer; and it
  never forgets that a disk is off.\<close>

theorem tick_leaves_off_disks_alone:
  "case updateDiskStats env heavy now disks s of (r, s1) \<Rightarrow>
     \<exists>new. dk_asked s1 = dk_asked s @ new
      \<and> list_all (\<lambda>i. \<not> dk_disabled s \<and> map_of (dk_enabled s) i \<noteq> Some False) new
      \<and> {i. map_of (dk_enabled s) i = Some False} \<subseteq> {i. dk_disabled s1 \<or> map_of (dk_enabled s1) i = Some False}"
proof -
  obtain r s1 where c: "collect_disks env heavy (dk_health s) disks (s\<lparr>dk_health := Some (empty_health env)\<rparr>) = (r, s1)"
    by fastforce
  have "asks_well s s1"
    using collect_disks_well [of "s\<lparr>dk_health := Some (empty_health env)\<rparr>" env heavy "dk_health s" disks]
    by (simp add: c asks_well_frame)
  then obtain new where "dk_asked s1 = dk_asked s @ new" "\<forall>i \<in> set new. \<not> off s i" "\<forall>i. off s i \<longrightarrow> off s1 i"
    by (auto simp: asks_well_def)
  then show ?thesis
    by (cases r) (auto simp: updateDiskStats_def c off_def list_all_iff intro!: exI [of _ new])
qed

section \<open>The loop never resumes\<close>

lemma suspended_step:
  assumes "lp_suspended l"
  shows "lp_suspended (loop_step env l e) \<and> (\<forall>now disks. e = LoopTick now disks \<longrightarrow> loop_step env l e = l)"
  using assms by (cases e) (auto simp: send_command_def receive_command_def loop_tick_def split: list.split)

text \<open>Nothing ends the inner loop of a suspended service but the end of the program: once a command to
  suspend was read no tick collects anything any more, whatever commands follow.\<close>

lemma suspended_forever:
  assumes "lp_suspended l"
  shows "loop_step env (foldl (loop_step env) l es) (LoopTick now disks) = foldl (loop_step env) l es"
proof -
  have "lp_suspended (foldl (loop_step env) l es)"
    using assms by (induction es arbitrary: l) (simp_all add: suspended_step)
  then show ?thesis using suspended_step by blast
qed

text \<open>One event of the server process other than \<open>CLEAN\<close> is enough.\<close>

lemma restart_stops_statistics:
  assumes "lp_chan l = []" "\<not> lp_ended l" "\<not> lp_suspended l"
  shows "lp_suspended (foldl (loop_step env) l
    [ServerProcessEvent False, LoopReceive, ServerProcessEvent True, LoopReceive])"
  using assms by (simp add: send_command_def receive_command_def)

end
