(* ===== verification/Smart_Laws.thy ===== *)
theory Smart_Laws
  imports Smart_Service
begin

text \<open>
  What the S.M.A.R.T. service guarantees: its verdict on the health of a disk, which attributes it blames,
  and what it announces when S.M.A.R.T. is switched.
\<close>

section \<open>The attributes of an ATA disk\<close>

definition extra :: "smart_attribute \<Rightarrow> bool" where
  "extra a \<longleftrightarrow> at_ID a \<notin> {194, 12, 9} \<and> at_Name a \<noteq> []"

lemma add_attribute_others:
  "snd (add_attribute a p) = (if extra a then AList.update (at_Name a) (attr_range a) (snd p) else snd p)"
  by (cases p) (simp add: add_attribute_def extra_def)

lemma fold_others:
  "snd (fold add_attribute table p)
     = fold (\<lambda>a m. if extra a then AList.update (at_Name a) (attr_range a) m else m) table (snd p)"
  by (induction table arbitrary: p) (simp_all add: add_attribute_others)

lemma others_map:
  "map_of (fold (\<lambda>a m. if extra a then AList.update (at_Name a) (attr_range a) m else m) table m)
     = map_of m ++ map_of (map (\<lambda>a. (at_Name a, attr_range a)) (rev (filter extra table)))"
  by (induction table arbitrary: m) (auto simp: update_conv' map_add_def fun_eq_iff split: option.split)

lemma others_distinct:
  "distinct (map fst m) \<Longrightarrow>
     distinct (map fst (fold (\<lambda>a m. if extra a then AList.update (at_Name a) (attr_range a) m else m) table m))"
  by (induction table arbitrary: m) (simp_all add: distinct_update)

text \<open>A counter is what its last attribute says.\<close>

lemma fold_cycles:
  "sx_PowerCycleCount (fst (fold add_attribute table p))
     = fold (\<lambda>a r. if at_ID a = 12 then counter_range a r else r) table (sx_PowerCycleCount (fst p))"
  by (induction table arbitrary: p) (simp_all add: add_attribute_def split: prod.split)

lemma fold_hours:
  "sx_PowerOnHours (fst (fold add_attribute table p))
     = fold (\<lambda>a r. if at_ID a = 9 then counter_range a r else r) table (sx_PowerOnHours (fst p))"
  by (induction table arbitrary: p) (simp_all add: add_attribute_def split: prod.split)

definition counter_below :: "smart_attribute \<Rightarrow> bool" where
  "counter_below a \<longleftrightarrow> at_Thresh a > 0 \<and> (if at_Raw a > 0 then at_Raw a else at_Value a) < at_Thresh a"

lemma below_counter: "below (counter_range a r) = counter_below a"
  by (simp add: below_def counter_range_def counter_below_def)

lemma below_fold_counter:
  "below (fold (\<lambda>a r. if at_ID a = i then counter_range a r else r) table r)
     \<longleftrightarrow> (case List.find (\<lambda>a. at_ID a = i) (rev table) of None \<Rightarrow> below r | Some a \<Rightarrow> counter_below a)"
proof (induction table rule: rev_induct)
  case (snoc a table)
  show ?case
  proof (cases "at_ID a = i")
    case True
    then show ?thesis by (simp add: below_counter)
  qed (simp add: snoc)
qed simp

lemma fresh_counters:
  "\<not> below (sx_PowerCycleCount (SmartMonToolsSmartInfoToSmartStatus i))"
  "\<not> below (sx_PowerOnHours (SmartMonToolsSmartInfoToSmartStatus i))"
  "sx_Additional (SmartMonToolsSmartInfoToSmartStatus i) = None"
  by (simp_all add: SmartMonToolsSmartInfoToSmartStatus_def below_def intToSmartRangeValue_def no_range_def
      smartMonToolsPowerOnTimeToSmartRangeValue_def Let_def split: option.split)

lemma counters_blamed:
  assumes "mi_AtaSmartData i = Some d" "ad_Table d = Some table"
  shows "below (sx_PowerCycleCount (status_of_info i)) \<longleftrightarrow>
      (case List.find (\<lambda>a. at_ID a = 12) (rev table) of None \<Rightarrow> False | Some a \<Rightarrow> counter_below a)"
    "below (sx_PowerOnHours (status_of_info i)) \<longleftrightarrow>
      (case List.find (\<lambda>a. at_ID a = 9) (rev table) of None \<Rightarrow> False | Some a \<Rightarrow> counter_below a)"
  using fresh_counters [of i]
  by (simp_all add: status_of_info_def ata_status_def assms case_prod_beta Let_def fold_cycles fold_hours
      below_fold_counter split: option.split)

lemma fold_additional: "sx_Additional (fst (fold add_attribute table p)) = sx_Additional (fst p)"
  by (induction table arbitrary: p) (simp_all add: add_attribute_def split: prod.split)

lemma additional_blamed:
  assumes "mi_AtaSmartData i = Some d" "ad_Table d = Some table"
  shows "(case sx_Additional (status_of_info i) of None \<Rightarrow> [] | Some m \<Rightarrow> m)
     = fold (\<lambda>a m. if extra a then AList.update (at_Name a) (attr_range a) m else m) table []"
proof -
  obtain r1 others where f: "fold add_attribute table (SmartMonToolsSmartInfoToSmartStatus i, []) = (r1, others)"
    by fastforce
  have o: "others = fold (\<lambda>a m. if extra a then AList.update (at_Name a) (attr_range a) m else m) table []"
    using fold_others [of table "(SmartMonToolsSmartInfoToSmartStatus i, [])"] f by simp
  have r: "sx_Additional r1 = None"
    using fold_additional [of table "(SmartMonToolsSmartInfoToSmartStatus i, [])"] f fresh_counters(3) [of i] by simp
  show ?thesis by (simp add: status_of_info_def ata_status_def assms f Let_def r o)
qed

section \<open>Health\<close>

text \<open>
  The attributes that are blamed, read off the table of the disk: of several entries under one name or
  number the last one counts; an attribute is compared with its own value; the two counters are compared
  with their raw count when there is one; a temperature and an attribute without a name are never blamed.
\<close>

definition last_attribute :: "(smart_attribute \<Rightarrow> bool) \<Rightarrow> smart_attribute list \<Rightarrow> smart_attribute option" where
  "last_attribute p table = List.find p (rev table)"

definition blamed :: "smart_attribute list \<Rightarrow> string \<Rightarrow> bool" where
  "blamed table name \<longleftrightarrow>
     (case last_attribute (\<lambda>a. extra a \<and> at_Name a = name) table of
        Some a \<Rightarrow> 0 < at_Thresh a \<and> at_Value a < at_Thresh a | None \<Rightarrow> False)
     \<or> name = ''PowerCycleCount''
       \<and> (case last_attribute (\<lambda>a. at_ID a = 12) table of Some a \<Rightarrow> counter_below a | None \<Rightarrow> False)
     \<or> name = ''PowerOnHours''
       \<and> (case last_attribute (\<lambda>a. at_ID a = 9) table of Some a \<Rightarrow> counter_below a | None \<Rightarrow> False)"

lemma map_of_attributes:
  "map_of (map (\<lambda>a. (at_Name a, attr_range a)) (filter p table)) name
     = map_option attr_range (List.find (\<lambda>a. p a \<and> at_Name a = name) table)"
  by (induction table) simp_all

lemma others_blamed:
  assumes "mi_AtaSmartData i = Some d" "ad_Table d = Some table"
  shows "name \<in> fst ` {(c, v) \<in> set (case sx_Additional (status_of_info i) of None \<Rightarrow> [] | Some m \<Rightarrow> m). below v}
     \<longleftrightarrow> (case last_attribute (\<lambda>a. extra a \<and> at_Name a = name) table of
          Some a \<Rightarrow> 0 < at_Thresh a \<and> at_Value a < at_Thresh a | None \<Rightarrow> False)"
proof -
  let ?m = "fold (\<lambda>a m. if extra a then AList.update (at_Name a) (attr_range a) m else m) table []"
  have "name \<in> fst ` {(c, v) \<in> set ?m. below v} \<longleftrightarrow> (\<exists>v. (name, v) \<in> set ?m \<and> below v)" by (auto simp: image_iff)
  also have "\<dots> \<longleftrightarrow> (\<exists>v. map_of ?m name = Some v \<and> below v)"
    using others_distinct [of "[]" table] by (simp add: map_of_eq_Some_iff)
  also have "\<dots> \<longleftrightarrow> (\<exists>v. map_option attr_range (last_attribute (\<lambda>a. extra a \<and> at_Name a = name) table) = Some v \<and> below v)"
    using others_map [of table "[]"] by (simp add: rev_filter map_of_attributes last_attribute_def)
  finally show ?thesis
    using additional_blamed [OF assms] by (auto simp: below_def attr_range_def split: option.split)
qed

lemma failing_blamed:
  assumes "mi_AtaSmartData i = Some d" "ad_Table d = Some table"
  shows "name \<in> set (failing_attributes (status_of_info i)) \<longleftrightarrow> blamed table name"
proof -
  have "name \<in> set (failing_attributes (status_of_info i)) \<longleftrightarrow>
      name \<in> fst ` {(c, v) \<in> set (case sx_Additional (status_of_info i) of None \<Rightarrow> [] | Some m \<Rightarrow> m). below v}
      \<or> name = ''PowerCycleCount'' \<and> below (sx_PowerCycleCount (status_of_info i))
      \<or> name = ''PowerOnHours'' \<and> below (sx_PowerOnHours (status_of_info i))"
    by (auto simp: failing_attributes_def image_iff)
  then show ?thesis
    unfolding others_blamed [OF assms] counters_blamed [OF assms] blamed_def last_attribute_def
    by (auto split: option.splits)
qed


section \<open>Announcements\<close>

lemma announce_info_events:
  "case announce_info c path d s of (r, s1) \<Rightarrow>
     (\<exists>e. r = Err e) \<and> sm_events s1 = sm_events s
     \<or> (\<exists>i. r = Ok () \<and> fst (sl_Info c path (sm_world s)) = Inr i
          \<and> sm_events s1 = sm_events s @ [SmartInfoUpdate ((smartInfoFromSMARTInfo path i)\<lparr>si_DiskId := d\<rparr>)])"
  by (auto simp: announce_info_def emit_smart_def smart_err_def split: prod.split sum.split)

text \<open>Switching S.M.A.R.T. on announces the disk exactly once, under its own identifier and with what
  the client read after the switch, when the client has confirmed that it is on; in every other case the
  call fails and announces nothing.\<close>

theorem enable_announces:
  "case EnableSMART env deviceId s of (r, s1) \<Rightarrow>
     (\<exists>e. r = Err e) \<and> sm_events s1 = sm_events s
     \<or> r = Ok () \<and> (\<exists>c path w w1 support i. sm_client env = Some c \<and> sm_device env deviceId = Inr path
         \<and> sl_Enable c path (sm_world s) = (None, w) \<and> sl_Supported c path w = (Inr support, w1) \<and> sp_Enabled support
         \<and> fst (sl_Info c path w1) = Inr i
         \<and> sm_events s1 = sm_events s @ [SmartInfoUpdate ((smartInfoFromSMARTInfo path i)\<lparr>si_DiskId := deviceId\<rparr>)])"
proof (cases "sm_client env")
  case (Some c)
  show ?thesis
  proof (cases "sm_device env deviceId")
    case (Inr path)
    obtain a w where en: "sl_Enable c path (sm_world s) = (a, w)" by fastforce
    obtain b w1 where sup: "sl_Supported c path w = (b, w1)" by fastforce
    have ann: "sm_world (s\<lparr>sm_world := w1\<rparr>) = w1" "sm_events (s\<lparr>sm_world := w1\<rparr>) = sm_events s" by simp_all
    show ?thesis using announce_info_events [where c = c and path = path and d = deviceId and s = "s\<lparr>sm_world := w1\<rparr>"]
      by (cases a; cases b) (auto simp: EnableSMART_def Some Inr en sup smart_err_def)
  qed (simp add: EnableSMART_def Some device_failure_def smart_err_def)
qed (simp add: EnableSMART_def smart_err_def)

section \<open>What the service does not promise\<close>

text \<open>The client returns from a self-test as soon as the disk has taken it, so the test is announced as
  completed without error when it has just started, and the reports of its progress come after that.\<close>

lemma test_completed_before_it_ran:
  assumes "StartSelfTest env d t s = (Ok (), s1)"
  shows "\<exists>e1 e2. sm_events (test_progress d t 0 ''Test started'' s1) = sm_events s @ [SmartTestUpdate e1, SmartTestUpdate e2]
     \<and> tt_PercentComplete e1 = 100 \<and> \<not> tt_Running e1 \<and> tt_Running e2 \<and> tt_PercentComplete e2 = 0"
  using assms
  by (auto simp: StartSelfTest_def test_progress_def emit_smart_def smart_err_def device_failure_def
      split: if_splits option.splits sum.splits prod.splits)

text \<open>The threshold of an attribute is for its normalised value; the counters are compared with their raw
  value, so a disk with less hours than the threshold of the attribute is called failing.\<close>

lemma young_disk_fails:
  assumes "mi_AtaSmartData i = Some d" "ad_Table d = Some table" "List.find (\<lambda>a. at_ID a = 9) (rev table) = Some a"
    and "0 < at_Raw a" "at_Raw a < at_Thresh a"
  shows "''PowerOnHours'' \<in> set (failing_attributes (status_of_info i))"
  using counters_blamed(2) [OF assms(1,2)] assms(3-5)
  by (simp add: failing_attributes_def counter_below_def)

section \<open>Sample disk\<close>

definition sample_attribute :: smart_attribute where
  "sample_attribute = \<lparr>at_ID = 5, at_Name = ''Reallocated_Sector_Ct'', at_Value = 20, at_Worst = 20, at_Thresh = 36,
     at_Raw = 900\<rparr>"

definition sample_support :: smart_support where
  "sample_support = \<lparr>sp_Available = True, sp_Enabled = True\<rparr>"

definition sample_ata :: ata_data where
  "sample_ata = \<lparr>ad_SelfTest = None, ad_Table = Some [sample_attribute]\<rparr>"

definition sample_info :: smartctl_info where
  "sample_info = \<lparr>mi_ModelFamily = [], mi_ModelName = ''WD'', mi_SerialNumber = ''1'', mi_Firmware = [],
     mi_RotationRate = Some 5400, mi_DiskType = [], mi_InStandby = False,
     mi_SmartStatus = None, mi_SmartSupport = Some sample_support, mi_AtaSmartData = Some sample_ata,
     mi_NvmeSmartHealth = None, mi_NvmeControllerCapabilities = False, mi_Temperature = None,
     mi_PowerOnTime = None, mi_PowerCycleCount = 7\<rparr>"

definition sample_client :: "unit smart_client" where
  "sample_client = \<lparr>sl_Info = (\<lambda>p w. (Inr sample_info, w)), sl_CheckHealth = (\<lambda>p w. (Inl ''timeout'', w)),
     sl_Supported = (\<lambda>p w. (Inr sample_support, w)),
     sl_RunSelfTest = (\<lambda>p t w. (None, w)), sl_AbortSelfTest = (\<lambda>p w. (None, w)),
     sl_Enable = (\<lambda>p w. (None, w)), sl_Disable = (\<lambda>p w. (None, w))\<rparr>"

definition sample_smart_env :: "unit smart_env" where
  "sample_smart_env = \<lparr>sm_client = Some sample_client, sm_device = (\<lambda>d. Inr (''/dev/disk/by-id/'' @ d))\<rparr>"

definition sample_smart :: "unit smart_service" where
  "sample_smart = \<lparr>sm_world = (), sm_events = [], sm_tests = []\<rparr>"


end
