(* ===== verification/Broadcaster.thy ===== *)
theory Broadcaster
  imports Repair_Service Smart_Service Dirty_Data
begin

text \<open>
  The broadcaster (\<open>service/broadcaster_service.go\<close>, \<open>dto/webevent_map.go\<close>, \<open>dto/webevent_snapshot.go\<close>, the
  sender of \<open>api/ws.go\<close>): what the services announce becomes messages for the WebSocket clients and for Home
  Assistant.

  A relay (\<open>vendor/github.com/teivah/broadcast/broadcast.go\<close>) offers an event to the buffered channel of every
  listener, in any order, and drops it where the channel is full. It does so under a shared lock, so that several
  broadcasts run at the same time and reach the listeners interleaved; listeners come and go under the exclusive
  lock, when no broadcast runs. A step is one action of one goroutine: a service that broadcasts, or a client. A
  message whose content does not matter here is its Go type and its JSON text. What was offered and dropped, and
  the order in which the broadcasts of a relay began, with those that were still running, are kept for the
  statements.
\<close>

section \<open>Messages\<close>

datatype message =
    MsgNil | MsgNilPointer string
  | MsgDisks "disk list" | MsgShares "shared_resource list"
  | MsgShare bool shared_resource | MsgMount bool mount_point
  | MsgTracker tracker | MsgTest test_status | MsgRepair repair_command | MsgProblem problem
  | MsgData string string

text \<open>\<open>reflect.TypeOf\<close>; the flag of a share and of a mount point says that it is a pointer.\<close>

fun go_type :: "message \<Rightarrow> string" where
  "go_type MsgNil = ''nil''"
| "go_type (MsgNilPointer t) = t"
| "go_type (MsgDisks ds) = ''[]*dto.Disk''"
| "go_type (MsgShares ss) = ''[]dto.SharedResource''"
| "go_type (MsgShare ptr sh) = (if ptr then ''*dto.SharedResource'' else ''dto.SharedResource'')"
| "go_type (MsgMount ptr mp) = (if ptr then ''*dto.MountPointData'' else ''dto.MountPointData'')"
| "go_type (MsgTracker t) = ''dto.DataDirtyTracker''"
| "go_type (MsgTest t) = ''dto.SmartTestStatus''"
| "go_type (MsgRepair c) = ''dto.RepairCommandMessage''"
| "go_type (MsgProblem p) = ''dto.Problem''"
| "go_type (MsgData t j) = t"

definition WebEventMap :: "(string \<times> string) list" where
  "WebEventMap =
     [(''hello'', ''dto.Welcome''), (''updating'', ''dto.UpdateProgress''), (''volumes'', ''[]*dto.Disk''),
      (''heartbeat'', ''dto.HealthPing''), (''shares'', ''[]dto.SharedResource''),
      (''dirty_data_tracker'', ''dto.DataDirtyTracker''), (''smart_test_status'', ''dto.SmartTestStatus''),
      (''error'', ''*dto.ErrorDataModel''), (''filesystem_task'', ''dto.FilesystemTask''),
      (''repair_command'', ''dto.RepairCommandMessage''), (''problem'', ''dto.Problem''),
      (''app_config_changed'', ''dto.AppConfigChangedNotification''),
      (''mdns_register'', ''dto.MdnsRegisterNotification''),
      (''command_started'', ''dto.CommandStartedNotification''),
      (''command_output'', ''dto.CommandOutputNotification''),
      (''command_terminated'', ''dto.CommandTerminatedNotification'')]"

definition IsValidEvent :: "message \<Rightarrow> bool" where
  "IsValidEvent m = list_ex (\<lambda>(name, t). t = go_type m) WebEventMap"

definition reverseMap :: "(string \<times> string) list \<Rightarrow> (string \<times> string) list" where
  "reverseMap m = map (\<lambda>(k, v). (v, k)) m"

section \<open>Snapshots\<close>

definition snapshotMountPointData :: "bool \<Rightarrow> mount_point \<Rightarrow> mount_point" where
  "snapshotMountPointData includeShare src =
     src\<lparr>mp_Partition := None, mp_Share := (if includeShare then mp_Share src else None)\<rparr>"

definition snapshotSharedResource :: "bool \<Rightarrow> shared_resource \<Rightarrow> shared_resource" where
  "snapshotSharedResource includeMountPoint src =
     src\<lparr>sr_MountPointData :=
       (if includeMountPoint then map_option (snapshotMountPointData False) (sr_MountPointData src) else None)\<rparr>"

definition snapshotPartition :: "partition \<Rightarrow> partition" where
  "snapshotPartition src =
     src\<lparr>p_MountPointData := map_option (map (\<lambda>(k, m). (k, snapshotMountPointData True m))) (p_MountPointData src),
         p_HostMountPointData :=
           map_option (map (\<lambda>(k, m). (k, snapshotMountPointData True m))) (p_HostMountPointData src)\<rparr>"

definition snapshotDisk :: "disk \<Rightarrow> disk" where
  "snapshotDisk src = src\<lparr>d_Partitions := map_option (map (\<lambda>(k, p). (k, snapshotPartition p))) (d_Partitions src)\<rparr>"

fun SanitizeWebEventData :: "message \<Rightarrow> message" where
  "SanitizeWebEventData (MsgDisks ds) = MsgDisks (map snapshotDisk ds)"
| "SanitizeWebEventData (MsgShares ss) = MsgShares (map (snapshotSharedResource True) ss)"
| "SanitizeWebEventData (MsgShare ptr sh) = MsgShare ptr (snapshotSharedResource True sh)"
| "SanitizeWebEventData (MsgMount ptr mp) = MsgMount ptr (snapshotMountPointData True mp)"
| "SanitizeWebEventData m = m"

section \<open>State\<close>

text \<open>The serial number of an event says when its broadcast began; the program has no such field.\<close>

record ws_event =
  we_ID :: "64 word"
  we_Message :: message
  we_Serial :: nat

datatype relay_kind = PlainRelay | GuaranteedRelay

datatype frame_origin = WelcomeFrame | FrameOf relay_kind

text \<open>The channel of a listener: what waits in it, what was taken out, what was offered and how often it was
  full. \<open>ch_Since\<close> counts the broadcasts before the listener came.\<close>

record ws_channel =
  ch_Open :: bool
  ch_Queue :: "ws_event list"
  ch_Taken :: "ws_event list"
  ch_Offered :: "ws_event list"
  ch_Dropped :: nat
  ch_Since :: nat

datatype client_stage =
  WantsRelay | WantsGuaranteed | WantsWelcome | Serving | LeavesGuaranteed | LeavesRelay | Leaves | Gone

record ws_client =
  cl_Stage :: client_stage
  cl_Channel :: "relay_kind \<Rightarrow> ws_channel"
  cl_Frames :: "(frame_origin \<times> ws_event) list"

text \<open>A relay with its counter: calls that have read the counter and wait for the lock, broadcasts that hold it
  with the clients they have not come to yet, calls that have to count, and all broadcasts that began.\<close>

record ws_relay =
  rl_Counter :: "64 word"
  rl_Prepared :: "(64 word \<times> message) list"
  rl_Sending :: "(ws_event \<times> nat list) list"
  rl_ToAdd :: nat
  rl_Trace :: "(ws_event \<times> nat list) list"

record broadcaster_env =
  be_haService :: bool
  be_hash :: "tracker \<Rightarrow> string"
  be_welcome :: message
  be_marshal :: "message \<Rightarrow> string option"

record broadcaster =
  bc_Relay :: "relay_kind \<Rightarrow> ws_relay"
  bc_ConnectedClients :: int
  bc_Clients :: "ws_client list"
  bc_lastDirtyHash :: "string option"
  bc_HACoreReady :: bool
  bc_haWaiting :: "message list"
  bc_haCalls :: "(string \<times> message) list"
  bc_cancelled :: bool

definition new_relay :: ws_relay where
  "new_relay = \<lparr>rl_Counter = 0, rl_Prepared = [], rl_Sending = [], rl_ToAdd = 0, rl_Trace = []\<rparr>"

definition new_broadcaster :: broadcaster where
  "new_broadcaster =
     \<lparr>bc_Relay = (\<lambda>k. new_relay), bc_ConnectedClients = 0, bc_Clients = [], bc_lastDirtyHash = None,
      bc_HACoreReady = False, bc_haWaiting = [], bc_haCalls = [], bc_cancelled = False\<rparr>"

definition on_relay :: "relay_kind \<Rightarrow> (ws_relay \<Rightarrow> ws_relay) \<Rightarrow> broadcaster \<Rightarrow> broadcaster" where
  "on_relay k f s = s\<lparr>bc_Relay := (bc_Relay s)(k := f (bc_Relay s k))\<rparr>"

definition on_client :: "nat \<Rightarrow> (ws_client \<Rightarrow> ws_client) \<Rightarrow> broadcaster \<Rightarrow> broadcaster" where
  "on_client n f s =
     (if n < length (bc_Clients s) then s\<lparr>bc_Clients := (bc_Clients s)[n := f (bc_Clients s ! n)]\<rparr> else s)"

definition on_channel :: "relay_kind \<Rightarrow> (ws_channel \<Rightarrow> ws_channel) \<Rightarrow> ws_client \<Rightarrow> ws_client" where
  "on_channel k f c = c\<lparr>cl_Channel := (cl_Channel c)(k := f (cl_Channel c k))\<rparr>"

section \<open>Broadcasting\<close>

fun relay_buffer :: "relay_kind \<Rightarrow> nat" where
  "relay_buffer PlainRelay = 5"
| "relay_buffer GuaranteedRelay = 100"

text \<open>The identifier is read before the lock is taken, and counted by a deferred call at the end.\<close>

definition prepare :: "relay_kind \<Rightarrow> message \<Rightarrow> broadcaster \<Rightarrow> broadcaster" where
  "prepare k msg = on_relay k (\<lambda>r. r\<lparr>rl_Prepared := rl_Prepared r @ [(rl_Counter r, SanitizeWebEventData msg)]\<rparr>)"

definition BroadcastMessage :: "message \<Rightarrow> broadcaster \<Rightarrow> broadcaster" where
  "BroadcastMessage msg s =
     (case msg of MsgNil \<Rightarrow> s | MsgNilPointer t \<Rightarrow> s | _ \<Rightarrow> prepare PlainRelay msg s)"

definition BroadcastGuaranteedMessage :: "message \<Rightarrow> broadcaster \<Rightarrow> broadcaster" where
  "BroadcastGuaranteedMessage msg s =
     (case msg of MsgNil \<Rightarrow> s | MsgNilPointer t \<Rightarrow> s | _ \<Rightarrow> prepare GuaranteedRelay msg s)"

definition remove_at :: "nat \<Rightarrow> 'a list \<Rightarrow> 'a list" where
  "remove_at n xs = take n xs @ drop (Suc n) xs"

definition listeners :: "relay_kind \<Rightarrow> broadcaster \<Rightarrow> nat list" where
  "listeners k s = filter (\<lambda>n. ch_Open (cl_Channel (bc_Clients s ! n) k)) [0..<length (bc_Clients s)]"

text \<open>\<open>Broadcast\<close> takes the shared lock, offers the event to each listener, in any order, and gives the lock
  back; then the call for Home Assistant is started.\<close>

definition begin_broadcast :: "relay_kind \<Rightarrow> nat \<Rightarrow> broadcaster \<Rightarrow> broadcaster" where
  "begin_broadcast k i s =
     (if i < length (rl_Prepared (bc_Relay s k))
      then on_relay k (\<lambda>r.
        let e = \<lparr>we_ID = fst (rl_Prepared r ! i), we_Message = snd (rl_Prepared r ! i), we_Serial = length (rl_Trace r)\<rparr>
        in r\<lparr>rl_Prepared := remove_at i (rl_Prepared r), rl_Sending := rl_Sending r @ [(e, listeners k s)],
             rl_Trace := rl_Trace r @ [(e, map (we_Serial \<circ> fst) (rl_Sending r))]\<rparr>) s
      else s)"

definition offer :: "nat \<Rightarrow> ws_event \<Rightarrow> ws_channel \<Rightarrow> ws_channel" where
  "offer capacity e ch =
     (if length (ch_Queue ch) < capacity
      then ch\<lparr>ch_Queue := ch_Queue ch @ [e], ch_Offered := ch_Offered ch @ [e]\<rparr>
      else ch\<lparr>ch_Dropped := Suc (ch_Dropped ch), ch_Offered := ch_Offered ch @ [e]\<rparr>)"

definition offer_to :: "relay_kind \<Rightarrow> nat \<Rightarrow> nat \<Rightarrow> broadcaster \<Rightarrow> broadcaster" where
  "offer_to k j n s =
     (if j < length (rl_Sending (bc_Relay s k)) \<and> n \<in> set (snd (rl_Sending (bc_Relay s k) ! j))
      then case rl_Sending (bc_Relay s k) ! j of
             (e, rest) \<Rightarrow>
               on_relay k (\<lambda>r. r\<lparr>rl_Sending := (rl_Sending r)[j := (e, remove1 n rest)]\<rparr>)
                 (on_client n (on_channel k (offer (relay_buffer k) e)) s)
      else s)"

definition end_broadcast :: "relay_kind \<Rightarrow> nat \<Rightarrow> broadcaster \<Rightarrow> broadcaster" where
  "end_broadcast k j s =
     (if j < length (rl_Sending (bc_Relay s k)) \<and> snd (rl_Sending (bc_Relay s k) ! j) = []
      then on_relay k (\<lambda>r. r\<lparr>rl_Sending := remove_at j (rl_Sending r), rl_ToAdd := Suc (rl_ToAdd r)\<rparr>)
             (if k = PlainRelay
              then s\<lparr>bc_haWaiting := bc_haWaiting s @ [we_Message (fst (rl_Sending (bc_Relay s k) ! j))]\<rparr> else s)
      else s)"

definition count_sent :: "relay_kind \<Rightarrow> broadcaster \<Rightarrow> broadcaster" where
  "count_sent k =
     on_relay k (\<lambda>r. case rl_ToAdd r of 0 \<Rightarrow> r | Suc n \<Rightarrow> r\<lparr>rl_ToAdd := n, rl_Counter := rl_Counter r + 1\<rparr>)"

text \<open>The calls that a message makes to Home Assistant; their failures are logged.\<close>

definition entity_calls :: "message \<Rightarrow> string list" where
  "entity_calls m =
     (let t = go_type m
      in if t \<in> {''*[]*dto.Disk'', ''[]*dto.Disk''} then [''SendDiskEntities'', ''SendVolumeStatusEntity'']
         else if t \<in> {''*dto.DiskHealth'', ''dto.DiskHealth''} then [''SendDiskHealthEntities'']
         else if t \<in> {''*dto.SambaStatus'', ''dto.SambaStatus''} then [''SendSambaStatusEntity'']
         else if t \<in> {''*dto.ServerProcessStatus'', ''dto.ServerProcessStatus''} then [''SendSambaProcessStatusEntity'']
         else [])"

definition sendToHomeAssistant :: "broadcaster_env \<Rightarrow> nat \<Rightarrow> broadcaster \<Rightarrow> broadcaster" where
  "sendToHomeAssistant env n s =
     (if n < length (bc_haWaiting s)
      then let m = bc_haWaiting s ! n;
               s1 = s\<lparr>bc_haWaiting := remove_at n (bc_haWaiting s)\<rparr>
           in if \<not> be_haService env \<or> \<not> bc_HACoreReady s then s1
              else s1\<lparr>bc_haCalls := bc_haCalls s1 @ map (\<lambda>f. (f, m)) (entity_calls m)\<rparr>
      else s)"

section \<open>Reactions to events\<close>

datatype bus_event =
    BusDisk "disk list" | BusShare "shared_resource list res" | BusMountPoint "disk list"
  | BusDirty tracker | BusSmart test_status | BusHomeAssistant bool message | BusAppConfig string
  | BusCommand message | BusTask "string option" | BusProblem "problem option"

text \<open>The event of a disk or a mount point carries the disks of the cache at that moment, the event of a
  share what the share service lists.\<close>

fun on_bus :: "broadcaster_env \<Rightarrow> bus_event \<Rightarrow> broadcaster \<Rightarrow> broadcaster" where
  "on_bus env (BusDisk ds) s = BroadcastMessage (MsgDisks ds) s"
| "on_bus env (BusShare r) s = (case r of Ok ss \<Rightarrow> BroadcastMessage (MsgShares ss) s | _ \<Rightarrow> s)"
| "on_bus env (BusMountPoint ds) s = BroadcastMessage (MsgDisks ds) s"
| "on_bus env (BusDirty t) s =
     (if bc_lastDirtyHash s = Some (be_hash env t) then s
      else BroadcastMessage (MsgTracker t) (s\<lparr>bc_lastDirtyHash := Some (be_hash env t)\<rparr>))"
| "on_bus env (BusSmart t) s = (if tt_DiskId t \<noteq> [] then BroadcastMessage (MsgTest t) s else s)"
| "on_bus env (BusHomeAssistant isError m) s = (if isError then BroadcastMessage m s else s)"
| "on_bus env (BusAppConfig j) s = BroadcastMessage (MsgData ''dto.AppConfigChangedNotification'' j) s"
| "on_bus env (BusCommand m) s = BroadcastMessage m s"
| "on_bus env (BusTask t) s =
     (case t of None \<Rightarrow> s | Some j \<Rightarrow> BroadcastMessage (MsgData ''dto.FilesystemTask'' j) s)"
| "on_bus env (BusProblem p) s = (case p of None \<Rightarrow> s | Some x \<Rightarrow> BroadcastMessage (MsgProblem x) s)"

section \<open>Clients\<close>

definition new_channel :: "bool \<Rightarrow> nat \<Rightarrow> ws_channel" where
  "new_channel joined n =
     \<lparr>ch_Open = joined, ch_Queue = [], ch_Taken = [], ch_Offered = [], ch_Dropped = 0, ch_Since = n\<rparr>"

definition connect_client :: "broadcaster \<Rightarrow> broadcaster" where
  "connect_client s =
     s\<lparr>bc_ConnectedClients := bc_ConnectedClients s + 1,
       bc_Clients := bc_Clients s @
         [\<lparr>cl_Stage = WantsRelay, cl_Channel = (\<lambda>k. new_channel False 0), cl_Frames = []\<rparr>]\<rparr>"

text \<open>A listener joins and leaves under the exclusive lock, so while no broadcast of the relay is running.\<close>

fun listening_stages :: "relay_kind \<Rightarrow> client_stage \<times> client_stage" where
  "listening_stages PlainRelay = (WantsRelay, WantsGuaranteed)"
| "listening_stages GuaranteedRelay = (WantsGuaranteed, WantsWelcome)"

fun closing_stages :: "relay_kind \<Rightarrow> client_stage \<times> client_stage" where
  "closing_stages GuaranteedRelay = (LeavesGuaranteed, LeavesRelay)"
| "closing_stages PlainRelay = (LeavesRelay, Leaves)"

definition listen :: "relay_kind \<Rightarrow> nat \<Rightarrow> broadcaster \<Rightarrow> broadcaster" where
  "listen k n s =
     (if rl_Sending (bc_Relay s k) = []
      then on_client n (\<lambda>c. if cl_Stage c = fst (listening_stages k)
             then (on_channel k (\<lambda>_. new_channel True (length (rl_Trace (bc_Relay s k)))) c)\<lparr>cl_Stage := snd (listening_stages k)\<rparr>
             else c) s
      else s)"

definition close_listener :: "relay_kind \<Rightarrow> nat \<Rightarrow> broadcaster \<Rightarrow> broadcaster" where
  "close_listener k n s =
     (if rl_Sending (bc_Relay s k) = []
      then on_client n (\<lambda>c. if cl_Stage c = fst (closing_stages k)
             then (on_channel k (\<lambda>ch. ch\<lparr>ch_Open := False\<rparr>) c)\<lparr>cl_Stage := snd (closing_stages k)\<rparr>
             else c) s
      else s)"

text \<open>What one call of the sender writes: nothing when the message cannot be encoded, has no event name or
  cannot be written.\<close>

definition SendFunc :: "broadcaster_env \<Rightarrow> bool \<Rightarrow> message \<Rightarrow> bool" where
  "SendFunc env writable m =
     (be_marshal env (SanitizeWebEventData m) \<noteq> None \<and> map_of (reverseMap WebEventMap) (go_type m) \<noteq> None \<and> writable)"

definition send_frame :: "broadcaster_env \<Rightarrow> bool \<Rightarrow> frame_origin \<Rightarrow> ws_event \<Rightarrow> ws_client \<Rightarrow> ws_client" where
  "send_frame env writable from_where e c =
     (if SendFunc env writable (we_Message e) then c\<lparr>cl_Frames := cl_Frames c @ [(from_where, e)]\<rparr> else c)"

definition dispatchEvent :: "broadcaster_env \<Rightarrow> bool \<Rightarrow> frame_origin \<Rightarrow> ws_event \<Rightarrow> ws_client \<Rightarrow> ws_client" where
  "dispatchEvent env writable from_where e c =
     (if IsValidEvent (we_Message e) then send_frame env writable from_where e c else c)"

definition welcome_client :: "broadcaster_env \<Rightarrow> bool \<Rightarrow> ws_client \<Rightarrow> ws_client" where
  "welcome_client env writable c =
     (if cl_Stage c = WantsWelcome
      then (send_frame env writable WelcomeFrame \<lparr>we_ID = 0, we_Message = be_welcome env, we_Serial = 0\<rparr> c)
             \<lparr>cl_Stage := Serving\<rparr>
      else c)"

definition take_event :: "ws_channel \<Rightarrow> ws_channel" where
  "take_event ch = ch\<lparr>ch_Queue := tl (ch_Queue ch), ch_Taken := ch_Taken ch @ [hd (ch_Queue ch)]\<rparr>"

definition receive_event :: "broadcaster_env \<Rightarrow> relay_kind \<Rightarrow> bool \<Rightarrow> ws_client \<Rightarrow> ws_client" where
  "receive_event env k writable c =
     (if cl_Stage c = Serving \<and> ch_Queue (cl_Channel c k) \<noteq> []
      then dispatchEvent env writable (FrameOf k) (hd (ch_Queue (cl_Channel c k))) (on_channel k take_event c)
      else c)"

text \<open>Only the end of the program ends the goroutine of a client; its deferred calls close the listeners.\<close>

definition stop_serving :: "nat \<Rightarrow> broadcaster \<Rightarrow> broadcaster" where
  "stop_serving n s =
     (if bc_cancelled s
      then on_client n (\<lambda>c. if cl_Stage c = Serving then c\<lparr>cl_Stage := LeavesGuaranteed\<rparr> else c) s else s)"

definition leave :: "nat \<Rightarrow> broadcaster \<Rightarrow> broadcaster" where
  "leave n s =
     (if n < length (bc_Clients s) \<and> cl_Stage (bc_Clients s ! n) = Leaves
      then on_client n (\<lambda>c. c\<lparr>cl_Stage := Gone\<rparr>) (s\<lparr>bc_ConnectedClients := bc_ConnectedClients s - 1\<rparr>) else s)"

section \<open>Steps\<close>

datatype cast_step =
    CastBus bus_event | CastMessage message | CastGuaranteed message
  | BeginBroadcast relay_kind nat | OfferTo relay_kind nat nat | EndBroadcast relay_kind nat | CountSent relay_kind
  | CoreReady bool | ToHomeAssistant nat
  | Connect | Listen relay_kind nat | WelcomeTo nat bool | Receive relay_kind nat bool
  | CancelAll | StopServing nat | CloseListener relay_kind nat | Leave nat

fun cast :: "broadcaster_env \<Rightarrow> broadcaster \<Rightarrow> cast_step \<Rightarrow> broadcaster" where
  "cast env s (CastBus b) = on_bus env b s"
| "cast env s (CastMessage m) = BroadcastMessage m s"
| "cast env s (CastGuaranteed m) = BroadcastGuaranteedMessage m s"
| "cast env s (BeginBroadcast k i) = begin_broadcast k i s"
| "cast env s (OfferTo k j n) = offer_to k j n s"
| "cast env s (EndBroadcast k j) = end_broadcast k j s"
| "cast env s (CountSent k) = count_sent k s"
| "cast env s (CoreReady b) = s\<lparr>bc_HACoreReady := b\<rparr>"
| "cast env s (ToHomeAssistant n) = sendToHomeAssistant env n s"
| "cast env s Connect = connect_client s"
| "cast env s (Listen k n) = listen k n s"
| "cast env s (WelcomeTo n w) = on_client n (welcome_client env w) s"
| "cast env s (Receive k n w) = on_client n (receive_event env k w) s"
| "cast env s CancelAll = s\<lparr>bc_cancelled := True\<rparr>"
| "cast env s (StopServing n) = stop_serving n s"
| "cast env s (CloseListener k n) = close_listener k n s"
| "cast env s (Leave n) = leave n s"

end
