(* ===== verification/Broadcaster_Laws.thy ===== *)
theory Broadcaster_Laws
  imports Broadcaster "HOL-Library.Sublist" "HOL-Library.Multiset"
begin

text \<open>
  What the broadcaster guarantees its clients, with several broadcasts under way at the same time: each listener
  is offered every event once, two events in the order in which their broadcasts began unless they overlapped;
  it loses events only while its channel is full, and is sent no frame that is not the welcome or a valid
  event; and what a message contains when it leaves.
\<close>

section \<open>Channels\<close>

definition channel_ok :: "nat \<Rightarrow> ws_channel \<Rightarrow> bool" where
  "channel_ok capacity ch \<longleftrightarrow> subseq (ch_Taken ch @ ch_Queue ch) (ch_Offered ch) \<and> length (ch_Queue ch) \<le> capacity
     \<and> length (ch_Taken ch @ ch_Queue ch) + ch_Dropped ch = length (ch_Offered ch)"

lemma channel_ok_new [simp]: "channel_ok n (new_channel b k)"
  by (simp add: channel_ok_def new_channel_def)

lemma channel_ok_all:
  assumes "channel_ok n ch" "ch_Dropped ch = 0"
  shows "ch_Taken ch @ ch_Queue ch = ch_Offered ch"
  using assms subseq_same_length [of "ch_Taken ch @ ch_Queue ch" "ch_Offered ch"] by (simp add: channel_ok_def)

lemma subseq_snoc: "subseq xs ys \<Longrightarrow> subseq (xs @ [e]) (ys @ [e])"
  by (rule list_emb_append_mono) simp_all

lemma subseq_skip: "subseq xs ys \<Longrightarrow> subseq xs (ys @ [e])"
  using list_emb_append_mono [of "(=)" xs ys "[]" "[e]"] by simp

lemma channel_ok_offer: "channel_ok n ch \<Longrightarrow> channel_ok n (offer n e ch)"
  using subseq_snoc [of "ch_Taken ch @ ch_Queue ch" "ch_Offered ch" e]
    subseq_skip [of "ch_Taken ch @ ch_Queue ch" "ch_Offered ch" e]
  by (auto simp: channel_ok_def offer_def)

lemma channel_ok_take: "channel_ok n ch \<Longrightarrow> ch_Queue ch \<noteq> [] \<Longrightarrow> channel_ok n (take_event ch)"
  by (cases "ch_Queue ch") (auto simp: channel_ok_def take_event_def)

lemma channel_ok_cong:
  "channel_ok n ch \<Longrightarrow> channel_ok n (ch\<lparr>ch_Open := b\<rparr>)"
  by (simp add: channel_ok_def)

lemma offer_simps [simp]:
  "ch_Offered (offer n e ch) = ch_Offered ch @ [e]" "ch_Taken (offer n e ch) = ch_Taken ch"
  "ch_Since (offer n e ch) = ch_Since ch" "ch_Open (offer n e ch) = ch_Open ch"
  by (simp_all add: offer_def)

lemma take_simps [simp]:
  "ch_Offered (take_event ch) = ch_Offered ch" "ch_Since (take_event ch) = ch_Since ch"
  "ch_Taken (take_event ch) = ch_Taken ch @ [hd (ch_Queue ch)]" "ch_Open (take_event ch) = ch_Open ch"
  by (simp_all add: take_event_def)

section \<open>The order of the broadcasts of a relay\<close>

type_synonym cast_trace = "(ws_event \<times> nat list) list"

text \<open>\<open>a\<close> may reach a listener before \<open>b\<close>: it began first, or \<open>b\<close> was still running when it began.\<close>

definition may_precede :: "cast_trace \<Rightarrow> ws_event \<Rightarrow> ws_event \<Rightarrow> bool" where
  "may_precede tr a b \<longleftrightarrow> we_Serial a < we_Serial b \<or> we_Serial b \<in> set (snd (tr ! we_Serial a))"

definition pending :: "ws_relay \<Rightarrow> nat \<Rightarrow> ws_event list" where
  "pending r n = map fst (filter (\<lambda>(e, rest). n \<in> set rest) (rl_Sending r))"

definition relay_ok :: "ws_relay \<Rightarrow> bool" where
  "relay_ok r \<longleftrightarrow> map (we_Serial \<circ> fst) (rl_Trace r) = [0..<length (rl_Trace r)]
     \<and> distinct (map fst (rl_Sending r)) \<and> fst ` set (rl_Sending r) \<subseteq> fst ` set (rl_Trace r)
     \<and> list_all (\<lambda>(e, rest). distinct rest
          \<and> list_all (\<lambda>(a, running). we_Serial e < we_Serial a \<longrightarrow> we_Serial e \<in> set running) (rl_Trace r)) (rl_Sending r)"

definition listener_ok :: "ws_relay \<Rightarrow> nat \<Rightarrow> ws_channel \<Rightarrow> bool" where
  "listener_ok r n ch \<longleftrightarrow> set (ch_Offered ch) \<subseteq> fst ` set (rl_Trace r)
     \<and> sorted_wrt (may_precede (rl_Trace r)) (ch_Offered ch)
     \<and> ch_Since ch \<le> length (rl_Trace r)
     \<and> (if ch_Open ch
        then mset (ch_Offered ch) + mset (pending r n) = mset (map fst (drop (ch_Since ch) (rl_Trace r)))
        else pending r n = [])"

lemma trace_serial:
  assumes "relay_ok r" "a \<in> fst ` set (rl_Trace r)"
  shows "we_Serial a < length (rl_Trace r)" "fst (rl_Trace r ! we_Serial a) = a"
proof -
  obtain i where i: "i < length (rl_Trace r)" "a = fst (rl_Trace r ! i)" using assms(2) by (auto simp: in_set_conv_nth)
  have "map (we_Serial \<circ> fst) (rl_Trace r) = [0..<length (rl_Trace r)]" using assms(1) unfolding relay_ok_def by (rule conjunct1)
  then have "map (we_Serial \<circ> fst) (rl_Trace r) ! i = [0..<length (rl_Trace r)] ! i" by (rule arg_cong)
  moreover have "map (we_Serial \<circ> fst) (rl_Trace r) ! i = we_Serial a"
    by (simp only: nth_map [OF i(1)] comp_apply i(2))
  moreover have "[0..<length (rl_Trace r)] ! i = i" using i(1) by simp
  ultimately have s: "we_Serial a = i" by (rule box_equals)
  show "we_Serial a < length (rl_Trace r)" unfolding s by (rule i(1))
  show "fst (rl_Trace r ! we_Serial a) = a" unfolding s by (rule i(2) [symmetric])
qed

lemma serial_inj:
  assumes "relay_ok r" "a \<in> fst ` set (rl_Trace r)" "b \<in> fst ` set (rl_Trace r)" "we_Serial a = we_Serial b"
  shows "a = b"
  using trace_serial(2) [OF assms(1,2)] trace_serial(2) [OF assms(1,3)] unfolding assms(4) by (rule trans [OF sym])

lemma trace_distinct: "relay_ok r \<Longrightarrow> distinct (map fst (rl_Trace r))"
proof -
  assume "relay_ok r"
  then have "distinct (map (we_Serial \<circ> fst) (rl_Trace r))" by (simp add: relay_ok_def)
  then have "distinct (map we_Serial (map fst (rl_Trace r)))" by simp
  then show ?thesis unfolding distinct_map [of we_Serial] by (rule conjunct1)
qed

lemma pending_sub: "set (pending r n) \<subseteq> fst ` set (rl_Sending r)"
  by (auto simp: pending_def)

text \<open>What is still to be offered to a listener may follow what it was offered already.\<close>

lemma offered_before_pending:
  assumes ok: "relay_ok r" and ch: "listener_ok r n ch" "ch_Open ch"
    and a: "a \<in> set (ch_Offered ch)" and e: "e \<in> set (pending r n)"
  shows "may_precede (rl_Trace r) a e"
proof -
  have tr: "a \<in> fst ` set (rl_Trace r)" "e \<in> fst ` set (rl_Trace r)"
    using ch a e pending_sub [of r n] ok by (auto simp: listener_ok_def relay_ok_def)
  have "distinct (map fst (drop (ch_Since ch) (rl_Trace r)))"
    using trace_distinct [OF ok] by (simp add: distinct_drop drop_map [symmetric])
  then have "distinct (ch_Offered ch @ pending r n)"
    using ch by (metis listener_ok_def mset_append mset_eq_imp_distinct_iff)
  then have "a \<noteq> e" using a e by auto
  then have "we_Serial a \<noteq> we_Serial e" using serial_inj [OF ok tr] by blast
  moreover have "we_Serial e \<in> set (snd (rl_Trace r ! we_Serial a))" if "we_Serial e < we_Serial a"
  proof -
    have "rl_Trace r ! we_Serial a = (a, snd (rl_Trace r ! we_Serial a))" "we_Serial a < length (rl_Trace r)"
      using trace_serial [OF ok tr(1)] by (metis prod.collapse, simp)
    then have "(a, snd (rl_Trace r ! we_Serial a)) \<in> set (rl_Trace r)" by (metis nth_mem)
    moreover obtain rest where "(e, rest) \<in> set (rl_Sending r)" using e by (auto simp: pending_def)
    ultimately show ?thesis using ok that by (fastforce simp: relay_ok_def list_all_iff)
  qed
  ultimately show ?thesis unfolding may_precede_def using linorder_neqE_nat by blast
qed

section \<open>Steps of a relay\<close>

lemma may_precede_grows: "we_Serial a < length tr \<Longrightarrow> may_precede (tr @ tr') a b = may_precede tr a b"
  by (simp add: may_precede_def nth_append)

lemma relay_ok_begin:
  assumes "relay_ok r" "distinct ns" "we_Serial e = length (rl_Trace r)"
  shows "relay_ok (r\<lparr>rl_Prepared := p, rl_Sending := rl_Sending r @ [(e, ns)],
    rl_Trace := rl_Trace r @ [(e, map (we_Serial \<circ> fst) (rl_Sending r))]\<rparr>)"
proof -
  have new: "e \<notin> fst ` set (rl_Trace r)" using trace_serial(1) [OF assms(1), of e] assms(3) by auto
  have old: "we_Serial x < length (rl_Trace r)" if "x \<in> fst ` set (rl_Trace r)" for x
    using trace_serial(1) [OF assms(1) that] .
  have "list_all (\<lambda>(a, running). we_Serial e < we_Serial a \<longrightarrow> we_Serial e \<in> set running) (rl_Trace r)"
    using old assms(3) by (fastforce simp: list_all_iff)
  moreover have "list_all (\<lambda>(x, rest). we_Serial x < we_Serial e
      \<longrightarrow> we_Serial x \<in> set (map (we_Serial \<circ> fst) (rl_Sending r))) (rl_Sending r)"
    by (force simp: list_all_iff)
  moreover have "\<not> we_Serial e < we_Serial e" by simp
  moreover have "e \<notin> fst ` set (rl_Sending r)" using new assms(1) by (auto simp: relay_ok_def)
  ultimately show ?thesis using assms unfolding relay_ok_def
    by (simp add: list_all_iff case_prod_beta) blast
qed

lemma listener_ok_begin:
  assumes "relay_ok r" "listener_ok r n ch" "we_Serial e = length (rl_Trace r)" "n \<in> set ns \<longleftrightarrow> ch_Open ch"
  shows "listener_ok (r\<lparr>rl_Prepared := p, rl_Sending := rl_Sending r @ [(e, ns)],
    rl_Trace := rl_Trace r @ [(e, map (we_Serial \<circ> fst) (rl_Sending r))]\<rparr>) n ch"
proof -
  have "sorted_wrt (may_precede (rl_Trace r @ t)) (ch_Offered ch)" for t
  proof (rule sorted_wrt_mono_rel)
    show "sorted_wrt (may_precede (rl_Trace r)) (ch_Offered ch)" using assms(2) by (simp add: listener_ok_def)
    show "may_precede (rl_Trace r @ t) a b" if "a \<in> set (ch_Offered ch)" "may_precede (rl_Trace r) a b" for a b
    proof -
      have "a \<in> fst ` set (rl_Trace r)" using that(1) assms(2) unfolding listener_ok_def by blast
      from may_precede_grows [OF trace_serial(1) [OF assms(1) this]] show ?thesis using that(2) by metis
    qed
  qed
  then show ?thesis using assms(2,4) by (auto simp: listener_ok_def pending_def)
qed

lemma pending_offer:
  assumes ok: "relay_ok r" and j: "j < length (rl_Sending r)" "rl_Sending r ! j = (e, rest)" "n \<in> set rest"
  shows "mset (pending r n) = add_mset e (mset (pending (r\<lparr>rl_Sending := (rl_Sending r)[j := (e, remove1 n rest)]\<rparr>) n))"
    "m \<noteq> n \<Longrightarrow> pending (r\<lparr>rl_Sending := (rl_Sending r)[j := (e, remove1 n rest)]\<rparr>) m = pending r m"
proof -
  have d: "distinct rest" using ok j nth_mem [OF j(1)] by (auto simp: relay_ok_def list_all_iff)
  have split: "rl_Sending r = take j (rl_Sending r) @ (e, rest) # drop (Suc j) (rl_Sending r)"
    using id_take_nth_drop [OF j(1)] j(2) by simp
  have new: "(rl_Sending r)[j := x] = take j (rl_Sending r) @ x # drop (Suc j) (rl_Sending r)" for x
    using j(1) by (simp add: upd_conv_take_nth_drop)
  show "mset (pending r n) = add_mset e (mset (pending (r\<lparr>rl_Sending := (rl_Sending r)[j := (e, remove1 n rest)]\<rparr>) n))"
    unfolding pending_def ws_relay.simps new by (subst split) (use j(3) d in simp)
  show "m \<noteq> n \<Longrightarrow> pending (r\<lparr>rl_Sending := (rl_Sending r)[j := (e, remove1 n rest)]\<rparr>) m = pending r m"
    unfolding pending_def ws_relay.simps new by (subst (3) split) (use d in simp)
qed

lemma relay_ok_offer:
  assumes "relay_ok r" "j < length (rl_Sending r)" "rl_Sending r ! j = (e, rest)"
  shows "relay_ok (r\<lparr>rl_Sending := (rl_Sending r)[j := (e, remove1 n rest)]\<rparr>)"
proof -
  have m: "(e, rest) \<in> set (rl_Sending r)" using assms(2,3) nth_mem by metis
  have "map fst ((rl_Sending r)[j := (e, remove1 n rest)]) = map fst (rl_Sending r)"
    using assms(2,3) by (metis fst_conv list_update_id map_update)
  moreover from this have "fst ` set ((rl_Sending r)[j := (e, remove1 n rest)]) = fst ` set (rl_Sending r)"
    by (metis list.set_map)
  moreover have "list_all P ((rl_Sending r)[j := x])" if "list_all P (rl_Sending r)" "P x" for P x
    using that set_update_subset_insert [of "rl_Sending r" j x] by (auto simp: list_all_iff)
  moreover have "distinct (remove1 n rest)" "list_all (\<lambda>(a, running). we_Serial e < we_Serial a \<longrightarrow> we_Serial e \<in> set running) (rl_Trace r)"
    using assms(1) m unfolding relay_ok_def by (auto simp: list_all_iff)
  ultimately show ?thesis using assms(1) unfolding relay_ok_def ws_relay.simps by simp
qed

lemma listener_ok_offered:
  assumes ok: "relay_ok r" and ch: "listener_ok r n ch"
    and j: "j < length (rl_Sending r)" "rl_Sending r ! j = (e, rest)" "n \<in> set rest"
  shows "listener_ok (r\<lparr>rl_Sending := (rl_Sending r)[j := (e, remove1 n rest)]\<rparr>) n (offer capacity e ch)"
proof -
  have e: "e \<in> set (pending r n)" using j nth_mem [OF j(1)] by (force simp: pending_def)
  then have op: "ch_Open ch" using ch by (auto simp: listener_ok_def split: if_splits)
  have "e \<in> fst ` set (rl_Trace r)" using e pending_sub [of r n] ok by (auto simp: relay_ok_def)
  moreover have "\<forall>a \<in> set (ch_Offered ch). may_precede (rl_Trace r) a e"
    using offered_before_pending [OF ok ch op _ e] by blast
  moreover have "mset (ch_Offered ch) + mset (pending r n) = mset (map fst (drop (ch_Since ch) (rl_Trace r)))"
    using ch op by (simp add: listener_ok_def)
  ultimately show ?thesis
    using ch op pending_offer(1) [OF ok j] by (auto simp: listener_ok_def sorted_wrt_append)
qed

lemma listener_ok_other:
  assumes "relay_ok r" "listener_ok r m ch" "m \<noteq> n"
    and "j < length (rl_Sending r)" "rl_Sending r ! j = (e, rest)" "n \<in> set rest"
  shows "listener_ok (r\<lparr>rl_Sending := (rl_Sending r)[j := (e, remove1 n rest)]\<rparr>) m ch"
  using assms(2,3) pending_offer(2) [OF assms(1,4,5,6)] by (simp add: listener_ok_def)

lemma set_remove_at: "set (remove_at n xs) \<subseteq> set xs"
  using set_take_subset [of n xs] set_drop_subset [of "Suc n" xs] by (auto simp: remove_at_def)

lemma end_ok:
  assumes "j < length (rl_Sending r)" "snd (rl_Sending r ! j) = []"
  shows "relay_ok r \<Longrightarrow> relay_ok (r\<lparr>rl_Sending := remove_at j (rl_Sending r), rl_ToAdd := k\<rparr>)"
    "pending (r\<lparr>rl_Sending := remove_at j (rl_Sending r), rl_ToAdd := k\<rparr>) n = pending r n"
proof -
  have split: "rl_Sending r = take j (rl_Sending r) @ rl_Sending r ! j # drop (Suc j) (rl_Sending r)"
    by (rule id_take_nth_drop [OF assms(1)])
  have "distinct (map fst (remove_at j (rl_Sending r)))" if "distinct (map fst (rl_Sending r))"
    using that by (subst (asm) split) (auto simp: remove_at_def)
  then show "relay_ok r \<Longrightarrow> relay_ok (r\<lparr>rl_Sending := remove_at j (rl_Sending r), rl_ToAdd := k\<rparr>)"
    using set_remove_at [of j "rl_Sending r"] unfolding relay_ok_def ws_relay.simps list_all_iff
    by (intro conjI) (simp_all, blast+)
  show "pending (r\<lparr>rl_Sending := remove_at j (rl_Sending r), rl_ToAdd := k\<rparr>) n = pending r n"
    unfolding pending_def ws_relay.simps remove_at_def
    by (subst (3) split) (use assms(2) in \<open>simp add: case_prod_beta\<close>)
qed

section \<open>Clients\<close>

definition frames_of :: "frame_origin \<Rightarrow> ws_client \<Rightarrow> ws_event list" where
  "frames_of from_where c = map snd (filter (\<lambda>f. fst f = from_where) (cl_Frames c))"

definition early :: "client_stage \<Rightarrow> bool" where
  "early st \<longleftrightarrow> st \<in> {WantsRelay, WantsGuaranteed, WantsWelcome}"

definition client_ok :: "ws_client \<Rightarrow> bool" where
  "client_ok c \<longleftrightarrow>
     (\<forall>k. channel_ok (relay_buffer k) (cl_Channel c k)
        \<and> subseq (frames_of (FrameOf k) c) (filter (\<lambda>e. IsValidEvent (we_Message e)) (ch_Taken (cl_Channel c k))))
     \<and> (early (cl_Stage c) \<longrightarrow> cl_Frames c = []) \<and> list_all (\<lambda>f. fst f \<noteq> WelcomeFrame) (tl (cl_Frames c))"

lemma frames_of_simps [simp]:
  "frames_of w (on_channel k f c) = frames_of w c" "frames_of w (c\<lparr>cl_Stage := st\<rparr>) = frames_of w c"
  "cl_Channel (on_channel k f c) = (cl_Channel c)(k := f (cl_Channel c k))" "cl_Frames (on_channel k f c) = cl_Frames c"
  "cl_Stage (on_channel k f c) = cl_Stage c"
  by (simp_all add: frames_of_def on_channel_def)

lemma client_ok_stage: "client_ok c \<Longrightarrow> (early st \<Longrightarrow> early (cl_Stage c)) \<Longrightarrow> client_ok (c\<lparr>cl_Stage := st\<rparr>)"
  by (auto simp: client_ok_def)

lemma client_ok_offer: "client_ok c \<Longrightarrow> client_ok (on_channel k (offer (relay_buffer k) e) c)"
  by (auto simp: client_ok_def channel_ok_offer)

lemma client_ok_listen:
  "client_ok c \<Longrightarrow> early (cl_Stage c) \<Longrightarrow> client_ok (on_channel k (\<lambda>_. new_channel b n) c)"
  by (auto simp: client_ok_def frames_of_def)

lemma client_ok_close: "client_ok c \<Longrightarrow> client_ok (on_channel k (\<lambda>ch. ch\<lparr>ch_Open := False\<rparr>) c)"
  by (auto simp: client_ok_def channel_ok_cong)

lemma client_ok_welcome: "client_ok c \<Longrightarrow> client_ok (welcome_client env w c)"
  by (auto simp: welcome_client_def send_frame_def client_ok_def frames_of_def early_def)

lemma tl_snoc_all: "list_all P (tl xs) \<Longrightarrow> P x \<Longrightarrow> list_all P (tl (xs @ [x]))"
  by (cases xs) simp_all

lemma client_ok_receive: "client_ok c \<Longrightarrow> client_ok (receive_event env k w c)"
proof (cases "cl_Stage c = Serving \<and> ch_Queue (cl_Channel c k) \<noteq> []")
  case True
  let ?e = "hd (ch_Queue (cl_Channel c k))"
  assume c: "client_ok c"
  then have t: "channel_ok (relay_buffer k) (take_event (cl_Channel c k))" "\<not> early (cl_Stage c)"
    using True by (auto simp: client_ok_def early_def intro: channel_ok_take)
  have "subseq (frames_of (FrameOf k) c) (filter (\<lambda>e. IsValidEvent (we_Message e)) (ch_Taken (cl_Channel c k)))"
    using c by (simp add: client_ok_def)
  from subseq_snoc [OF this, of ?e] subseq_skip [OF this, of ?e] show ?thesis
    using True c t by (auto simp: receive_event_def dispatchEvent_def send_frame_def client_ok_def frames_of_def
        on_channel_def intro: tl_snoc_all)
qed (auto simp: receive_event_def)

section \<open>The broadcaster\<close>

definition cast_ok :: "(relay_kind \<Rightarrow> ws_relay) \<Rightarrow> ws_client list \<Rightarrow> bool" where
  "cast_ok relays clients \<longleftrightarrow>
     (\<forall>k. relay_ok (relays k) \<and> (\<forall>x \<in> set (rl_Sending (relays k)). \<forall>n \<in> set (snd x). n < length clients))
     \<and> (\<forall>n < length clients. client_ok (clients ! n) \<and> (\<forall>k. listener_ok (relays k) n (cl_Channel (clients ! n) k)))"

abbreviation cast_inv :: "broadcaster \<Rightarrow> bool" where
  "cast_inv s \<equiv> cast_ok (bc_Relay s) (bc_Clients s)"

lemma cast_okD:
  assumes "cast_ok R C"
  shows "relay_ok (R k)" "n < length C \<Longrightarrow> client_ok (C ! n)" "n < length C \<Longrightarrow> listener_ok (R k) n (cl_Channel (C ! n) k)"
    "(e, rest) \<in> set (rl_Sending (R k)) \<Longrightarrow> n \<in> set rest \<Longrightarrow> n < length C"
  using assms unfolding cast_ok_def by auto

lemma cast_ok_client:
  assumes "cast_ok R C" "n < length C \<Longrightarrow> client_ok c" "\<And>k. n < length C \<Longrightarrow> listener_ok (R k) n (cl_Channel c k)"
  shows "cast_ok R (C[n := c])"
  using assms unfolding cast_ok_def by (cases "n < length C") (auto simp: nth_list_update)

lemma on_client_inv:
  assumes "cast_inv s" "\<And>c. client_ok c \<Longrightarrow> client_ok (f c)"
    and "\<And>c k. n < length (bc_Clients s) \<Longrightarrow> c = bc_Clients s ! n \<Longrightarrow> listener_ok (bc_Relay s k) n (cl_Channel c k)
           \<Longrightarrow> listener_ok (bc_Relay s k) n (cl_Channel (f c) k)"
  shows "cast_inv (on_client n f s)"
  using cast_ok_client [OF assms(1), of n "f (bc_Clients s ! n)"] assms cast_okD [OF assms(1)]
  by (simp add: on_client_def)

lemma listener_ok_cong:
  "listener_ok r n ch \<Longrightarrow> ch_Offered ch' = ch_Offered ch \<Longrightarrow> ch_Since ch' = ch_Since ch \<Longrightarrow> ch_Open ch' = ch_Open ch
     \<Longrightarrow> listener_ok r n ch'"
  by (simp add: listener_ok_def)

lemma channels_kept:
  "cl_Channel (welcome_client env w c) = cl_Channel c"
  "cl_Channel (receive_event env k w c) =
     (if cl_Stage c = Serving \<and> ch_Queue (cl_Channel c k) \<noteq> []
      then (cl_Channel c)(k := take_event (cl_Channel c k)) else cl_Channel c)"
  by (simp_all add: welcome_client_def receive_event_def dispatchEvent_def send_frame_def)

text \<open>A relay whose running broadcasts and trace stay the same.\<close>

lemma relay_frame:
  assumes "rl_Sending r' = rl_Sending r" "rl_Trace r' = rl_Trace r"
  shows "relay_ok r' = relay_ok r" "listener_ok r' n ch = listener_ok r n ch"
  using assms by (simp_all add: relay_ok_def listener_ok_def pending_def)

lemma on_relay_inv:
  assumes "cast_inv s" "\<And>r. rl_Sending (f r) = rl_Sending r" "\<And>r. rl_Trace (f r) = rl_Trace r"
  shows "cast_inv (on_relay k f s)"
  using assms(1) relay_frame [OF assms(2,3)] unfolding cast_ok_def by (simp add: on_relay_def assms(2))

lemma prepare_inv: "cast_inv s \<Longrightarrow> cast_inv (prepare k m s)"
  unfolding prepare_def by (rule on_relay_inv) simp_all

lemma BroadcastMessage_inv:
  "cast_inv s \<Longrightarrow> cast_inv (BroadcastMessage m s)" "cast_inv s \<Longrightarrow> cast_inv (BroadcastGuaranteedMessage m s)"
  by (auto simp: BroadcastMessage_def BroadcastGuaranteedMessage_def prepare_inv split: message.split)

lemma on_bus_inv: "cast_inv s \<Longrightarrow> cast_inv (on_bus env b s)"
  by (cases b) (auto intro!: BroadcastMessage_inv split: res.split option.split)

lemma begin_inv:
  assumes "cast_inv s" shows "cast_inv (begin_broadcast k i s)"
proof (cases "i < length (rl_Prepared (bc_Relay s k))")
  case True
  let ?ns = "listeners k s" and ?r = "bc_Relay s k"
  let ?e = "\<lparr>we_ID = fst (rl_Prepared ?r ! i), we_Message = snd (rl_Prepared ?r ! i), we_Serial = length (rl_Trace ?r)\<rparr>"
  have ns: "distinct ?ns" "n \<in> set ?ns \<longleftrightarrow> n < length (bc_Clients s) \<and> ch_Open (cl_Channel (bc_Clients s ! n) k)" for n
    by (auto simp: listeners_def)
  note starts = relay_ok_begin [OF cast_okD(1) [OF assms] ns(1), of ?e k] listener_ok_begin [OF cast_okD(1,3) [OF assms, where k = k]]
  show ?thesis
    using assms True starts(1) starts(2) [of _ ?e ?ns] ns(2)
    unfolding cast_ok_def begin_broadcast_def on_relay_def Let_def
    by (auto simp: comp_def)
qed (simp add: begin_broadcast_def assms)

lemma offer_to_inv:
  assumes "cast_inv s" shows "cast_inv (offer_to k j n s)"
proof (cases "j < length (rl_Sending (bc_Relay s k)) \<and> n \<in> set (snd (rl_Sending (bc_Relay s k) ! j))")
  case True
  let ?r = "bc_Relay s k" and ?C = "bc_Clients s"
  obtain e rest where e: "rl_Sending ?r ! j = (e, rest)" by fastforce
  have j: "j < length (rl_Sending ?r)" "n \<in> set rest" using True e by auto
  have m: "(e, rest) \<in> set (rl_Sending ?r)" using j(1) e nth_mem by metis
  have n: "n < length ?C" using cast_okD(4) [OF assms m j(2)] .
  let ?r' = "?r\<lparr>rl_Sending := (rl_Sending ?r)[j := (e, remove1 n rest)]\<rparr>"
  let ?c' = "on_channel k (offer (relay_buffer k) e) (?C ! n)"
  have s': "offer_to k j n s = s\<lparr>bc_Relay := (bc_Relay s)(k := ?r'), bc_Clients := ?C[n := ?c']\<rparr>"
    using True e n by (simp add: offer_to_def on_relay_def on_client_def)
  have ok: "relay_ok ?r'" by (rule relay_ok_offer [OF cast_okD(1) [OF assms] j(1) e])
  have ns: "\<forall>x \<in> set (rl_Sending ?r'). \<forall>i \<in> set (snd x). i < length ?C"
  proof (intro ballI)
    fix x i assume x: "x \<in> set (rl_Sending ?r')" "i \<in> set (snd x)"
    have "x = (e, remove1 n rest) \<or> x \<in> set (rl_Sending ?r)"
      using x(1) set_update_subset_insert [of "rl_Sending ?r" j "(e, remove1 n rest)"] by auto
    then show "i < length ?C"
      using x(2) cast_okD(4) [OF assms, of "fst x" "snd x" k i] cast_okD(4) [OF assms m, of i] set_remove1_subset [of n rest]
      by auto
  qed
  have mine: "listener_ok ?r' n (offer (relay_buffer k) e (cl_Channel (?C ! n) k))"
    by (rule listener_ok_offered [OF cast_okD(1) [OF assms] cast_okD(3) [OF assms n] j(1) e j(2)])
  have others: "listener_ok ?r' i (cl_Channel (?C ! i) k)" if "i < length ?C" "i \<noteq> n" for i
    by (rule listener_ok_other [OF cast_okD(1) [OF assms] cast_okD(3) [OF assms that(1)] that(2) j(1) e j(2)])
  have "client_ok ?c'" by (rule client_ok_offer [OF cast_okD(2) [OF assms n]])
  then show ?thesis
    unfolding s' cast_ok_def using assms ok ns mine others n
    by (auto simp: nth_list_update cast_ok_def)
next
  case False
  then show ?thesis by (auto simp: offer_to_def assms)
qed

lemma end_inv:
  assumes "cast_inv s" shows "cast_inv (end_broadcast k j s)"
proof (cases "j < length (rl_Sending (bc_Relay s k)) \<and> snd (rl_Sending (bc_Relay s k) ! j) = []")
  case True
  let ?r = "bc_Relay s k"
  let ?r' = "?r\<lparr>rl_Sending := remove_at j (rl_Sending ?r), rl_ToAdd := Suc (rl_ToAdd ?r)\<rparr>"
  note e = end_ok [OF conjunct1 [OF True] conjunct2 [OF True], of "Suc (rl_ToAdd ?r)"]
  have l: "listener_ok ?r' n ch = listener_ok ?r n ch" for n ch using e(2) [of n] by (simp add: listener_ok_def)
  have "cast_ok ((bc_Relay s)(k := ?r')) (bc_Clients s)"
    using assms e(1) l set_remove_at [of j "rl_Sending ?r"] unfolding cast_ok_def by auto
  then show ?thesis using True by (cases k) (simp_all add: end_broadcast_def on_relay_def)
qed (auto simp: end_broadcast_def assms)

lemma listen_inv:
  assumes "cast_inv s" shows "cast_inv (listen k n s)"
proof (cases "rl_Sending (bc_Relay s k) = []")
  case True
  have "fst (listening_stages k) \<in> {WantsRelay, WantsGuaranteed}" by (cases k) simp_all
  then have "client_ok c \<Longrightarrow> cl_Stage c = fst (listening_stages k)
      \<Longrightarrow> client_ok ((on_channel k (\<lambda>_. new_channel True m) c)\<lparr>cl_Stage := snd (listening_stages k)\<rparr>)" for c m
    by (intro client_ok_stage client_ok_listen) (auto simp: early_def)
  moreover have "listener_ok (bc_Relay s k) n (new_channel True (length (rl_Trace (bc_Relay s k))))"
    using True by (simp add: listener_ok_def new_channel_def pending_def)
  ultimately show ?thesis unfolding listen_def if_P [OF True]
    by (intro on_client_inv [OF assms]) auto
qed (simp add: listen_def assms)

lemma close_inv:
  assumes "cast_inv s" shows "cast_inv (close_listener k n s)"
proof (cases "rl_Sending (bc_Relay s k) = []")
  case True
  have "\<not> early (snd (closing_stages k))" by (cases k) (simp_all add: early_def)
  then have "client_ok c \<Longrightarrow> client_ok ((on_channel k (\<lambda>ch. ch\<lparr>ch_Open := False\<rparr>) c)\<lparr>cl_Stage := snd (closing_stages k)\<rparr>)" for c
    by (intro client_ok_stage client_ok_close) auto
  moreover have "listener_ok (bc_Relay s k) n ch \<Longrightarrow> listener_ok (bc_Relay s k) n (ch\<lparr>ch_Open := False\<rparr>)" for ch
    using True by (simp add: listener_ok_def pending_def)
  ultimately show ?thesis unfolding close_listener_def if_P [OF True]
    by (intro on_client_inv [OF assms]) auto
qed (simp add: close_listener_def assms)

lemma connect_inv: "cast_inv s \<Longrightarrow> cast_inv (connect_client s)"
proof -
  assume i: "cast_inv s"
  let ?n = "length (bc_Clients s)"
  have "pending (bc_Relay s k) ?n = []" for k
    using cast_okD(4) [OF i, of _ _ k ?n] by (force simp: pending_def filter_empty_conv)
  then have "listener_ok (bc_Relay s k) ?n (new_channel False 0)" for k
    by (simp add: listener_ok_def new_channel_def)
  moreover have "client_ok \<lparr>cl_Stage = WantsRelay, cl_Channel = (\<lambda>k. new_channel False 0), cl_Frames = []\<rparr>"
    by (simp add: client_ok_def frames_of_def)
  ultimately show ?thesis using i unfolding cast_ok_def connect_client_def
    by (fastforce simp: nth_append less_Suc_eq)
qed

lemma leave_inv:
  assumes "cast_inv s" shows "cast_inv (stop_serving n s)" "cast_inv (leave n s)"
proof -
  have "cast_inv (on_client n (\<lambda>c. if cl_Stage c = Serving then c\<lparr>cl_Stage := LeavesGuaranteed\<rparr> else c) s)"
    by (rule on_client_inv [OF assms]) (auto intro!: client_ok_stage simp: early_def)
  then show "cast_inv (stop_serving n s)" using assms by (simp add: stop_serving_def)
  have "cast_inv (on_client n (\<lambda>c. c\<lparr>cl_Stage := Gone\<rparr>) (s\<lparr>bc_ConnectedClients := x\<rparr>))" for x
    by (rule on_client_inv) (use assms in \<open>auto intro!: client_ok_stage simp: early_def\<close>)
  then show "cast_inv (leave n s)" using assms by (simp add: leave_def)
qed

lemma cast_step_inv:
  assumes "cast_inv s" shows "cast_inv (cast env s e)"
proof (cases e)
  case (CountSent k)
  then show ?thesis using on_relay_inv [OF assms] by (auto simp: count_sent_def split: nat.split)
next
  case (WelcomeTo n w)
  then show ?thesis
    using on_client_inv [OF assms, of "welcome_client env w" n] client_ok_welcome by (simp add: channels_kept)
next
  case (Receive k n w)
  have "listener_ok (bc_Relay s k') n (cl_Channel (receive_event env k w c) k')"
    if "listener_ok (bc_Relay s k') n (cl_Channel c k')" for k' c
    using that by (auto simp: channels_kept intro: listener_ok_cong)
  then show ?thesis
    using Receive on_client_inv [OF assms, of "receive_event env k w" n] client_ok_receive by simp
qed (use assms in \<open>auto simp: sendToHomeAssistant_def Let_def
      intro: on_bus_inv BroadcastMessage_inv begin_inv offer_to_inv end_inv connect_inv listen_inv close_inv leave_inv\<close>)

interpretation broadcasting: invariant_steps "cast env" "\<lambda>_. True" cast_inv for env
  by unfold_locales (rule cast_step_inv)

lemma cast_reachable: "cast_inv (foldl (cast env) new_broadcaster es)"
proof (rule broadcasting.inv_run)
  show "cast_inv new_broadcaster" by (simp add: cast_ok_def new_broadcaster_def new_relay_def relay_ok_def)
qed (simp add: list_all_iff)

text \<open>
  What a client may rely on: each broadcast that began since it joined was offered to it once, apart from those
  that have not come to it yet; what it took and what waits is what it was offered, less what found its
  channel full; and it is sent valid events of the relay in the order in which it took them.
\<close>

definition stream_ok :: "broadcaster \<Rightarrow> nat \<Rightarrow> relay_kind \<Rightarrow> bool" where
  "stream_ok s n k \<longleftrightarrow>
     (case (bc_Relay s k, bc_Clients s ! n, cl_Channel (bc_Clients s ! n) k) of (r, c, ch) \<Rightarrow>
         (if ch_Open ch
          then mset (ch_Offered ch) + mset (pending r n) = mset (map fst (drop (ch_Since ch) (rl_Trace r))) else True)
       \<and> sorted_wrt (may_precede (rl_Trace r)) (ch_Offered ch)
       \<and> subseq (ch_Taken ch @ ch_Queue ch) (ch_Offered ch)
       \<and> length (ch_Taken ch @ ch_Queue ch) + ch_Dropped ch = length (ch_Offered ch)
       \<and> length (ch_Queue ch) \<le> (if k = PlainRelay then 5 else 100)
       \<and> subseq (frames_of (FrameOf k) c) (filter (\<lambda>e. IsValidEvent (we_Message e)) (ch_Taken ch))
       \<and> list_all (\<lambda>f. fst f \<noteq> WelcomeFrame) (tl (cl_Frames c)))"

lemma stream_ok_inv:
  assumes "cast_inv s" "n < length (bc_Clients s)" shows "stream_ok s n k"
proof -
  have "relay_buffer k = (if k = PlainRelay then 5 else 100)" by (cases k) simp_all
  moreover have "client_ok (bc_Clients s ! n)" by (rule cast_okD(2) [OF assms])
  moreover have "listener_ok (bc_Relay s k) n (cl_Channel (bc_Clients s ! n) k)" by (rule cast_okD(3) [OF assms])
  moreover from calculation(2) have "channel_ok (relay_buffer k) (cl_Channel (bc_Clients s ! n) k)"
    by (simp add: client_ok_def)
  ultimately show ?thesis unfolding stream_ok_def prod.case client_ok_def listener_ok_def channel_ok_def
    by (intro conjI; (elim conjE)?; (assumption | simp))
qed

text \<open>C33: In every run, with any number of broadcasts under way at the same time: a client that listens to a relay has been
  offered each broadcast that began since it joined once, apart from those still to be offered to it, and two
  of them in the order in which they began unless they overlapped; what it has taken and what waits for it is a
  subsequence, in order, of what it was offered, less as many as found its channel full, and at most five (of
  the guaranteed relay: a hundred) events wait; the frames it is sent are the welcome at most at the very
  beginning, and of each relay valid events in the order in which it took them.\<close>

theorem client_streams:
  "case foldl (cast env) new_broadcaster es of s \<Rightarrow>
     list_all (\<lambda>n. stream_ok s n PlainRelay \<and> stream_ok s n GuaranteedRelay) [0..<length (bc_Clients s)]"
  using stream_ok_inv [OF cast_reachable] by (simp add: list_all_iff)

text \<open>The serial numbers of a relay say in which order its broadcasts began; a listener that was offered everything
  and whose events never overlapped has them in that order, without a gap.\<close>

lemma quiet_stream:
  assumes "cast_inv s" "n < length (bc_Clients s)" "ch_Open (cl_Channel (bc_Clients s ! n) k)"
    and "pending (bc_Relay s k) n = []" "list_all (\<lambda>(e, running). running = []) (rl_Trace (bc_Relay s k))"
  shows "ch_Offered (cl_Channel (bc_Clients s ! n) k)
    = map fst (drop (ch_Since (cl_Channel (bc_Clients s ! n) k)) (rl_Trace (bc_Relay s k)))"
proof -
  let ?r = "bc_Relay s k" and ?ch = "cl_Channel (bc_Clients s ! n) k"
  let ?T = "map fst (drop (ch_Since ?ch) (rl_Trace ?r))"
  have ok: "relay_ok ?r" and l: "listener_ok ?r n ?ch" using cast_okD [OF assms(1)] assms(2) by auto
  have m: "mset (ch_Offered ?ch) = mset ?T" using l assms(3,4) by (simp add: listener_ok_def)
  have q: "a \<in> set (ch_Offered ?ch) \<Longrightarrow> may_precede (rl_Trace ?r) a b \<Longrightarrow> we_Serial a < we_Serial b" for a b
  proof -
    assume "a \<in> set (ch_Offered ?ch)" and p: "may_precede (rl_Trace ?r) a b"
    then have "a \<in> fst ` set (rl_Trace ?r)" using l unfolding listener_ok_def by blast
    from nth_mem [OF trace_serial(1) [OF ok this]] have "snd (rl_Trace ?r ! we_Serial a) = []"
      using assms(5) by (auto simp: list_all_iff case_prod_beta)
    then show "we_Serial a < we_Serial b" using p by (simp add: may_precede_def)
  qed
  have "sorted_wrt (\<lambda>a b. we_Serial a < we_Serial b) (ch_Offered ?ch)"
    using sorted_wrt_mono_rel [of "ch_Offered ?ch" "may_precede (rl_Trace ?r)" "\<lambda>a b. we_Serial a < we_Serial b"] q l
    unfolding listener_ok_def by blast
  then have 1: "sorted_wrt (<) (map we_Serial (ch_Offered ?ch))" by (simp add: sorted_wrt_map)
  have "map we_Serial ?T = drop (ch_Since ?ch) (map (we_Serial \<circ> fst) (rl_Trace ?r))" by (simp add: drop_map)
  also have "\<dots> = [ch_Since ?ch..<length (rl_Trace ?r)]" using ok by (simp add: relay_ok_def)
  finally have 2: "map we_Serial ?T = [ch_Since ?ch..<length (rl_Trace ?r)]" .
  have "map we_Serial (ch_Offered ?ch) = map we_Serial ?T"
  proof (rule sorted_distinct_set_unique)
    show "sorted (map we_Serial (ch_Offered ?ch))" "distinct (map we_Serial (ch_Offered ?ch))"
      using 1 by (simp_all add: strict_sorted_iff)
    show "sorted (map we_Serial ?T)" "distinct (map we_Serial ?T)" unfolding 2 by simp_all
    show "set (map we_Serial (ch_Offered ?ch)) = set (map we_Serial ?T)"
      using mset_eq_setD [OF m] by (metis list.set_map)
  qed
  moreover have "inj_on we_Serial (set (ch_Offered ?ch) \<union> set ?T)"
  proof (rule inj_onI)
    have "x \<in> fst ` set (rl_Trace ?r)" if "x \<in> set (ch_Offered ?ch) \<union> set ?T" for x
      using that l set_drop_subset [of "ch_Since ?ch" "rl_Trace ?r"] unfolding listener_ok_def by auto
    then show "x = y" if "x \<in> set (ch_Offered ?ch) \<union> set ?T" "y \<in> set (ch_Offered ?ch) \<union> set ?T"
      "we_Serial x = we_Serial y" for x y
      using that serial_inj [OF ok] by blast
  qed
  ultimately show ?thesis using inj_on_map_eq_map [of we_Serial "ch_Offered ?ch" ?T] by blast
qed

section \<open>What the broadcaster does not promise\<close>

text \<open>The identifier is read before it is counted: two services that broadcast at the same time give their
  events the same one.\<close>

lemma shared_identifier:
  "map (we_ID \<circ> fst) (rl_Trace (bc_Relay (foldl (cast env) new_broadcaster
     [CastMessage (MsgData t j), CastMessage (MsgData t k), BeginBroadcast PlainRelay 0, BeginBroadcast PlainRelay 0])
     PlainRelay)) = [0, 0]"
  by (simp add: new_broadcaster_def new_relay_def BroadcastMessage_def prepare_def on_relay_def begin_broadcast_def
      remove_at_def Let_def)

text \<open>Two services that broadcast at the same time may reach two clients in opposite orders.\<close>

definition joined_clients :: broadcaster where
  "joined_clients = foldl (cast \<lparr>be_haService = False, be_hash = (\<lambda>t. []), be_welcome = MsgNil, be_marshal = (\<lambda>m. None)\<rparr>)
     new_broadcaster [Connect, Connect, Listen PlainRelay 0, Listen PlainRelay 1]"

lemma opposite_orders:
  "map (\<lambda>c. map we_Serial (ch_Queue (cl_Channel c PlainRelay))) (bc_Clients (foldl (cast env) joined_clients
     [CastMessage (MsgData t j), CastMessage (MsgData t k), BeginBroadcast PlainRelay 0, BeginBroadcast PlainRelay 0,
      OfferTo PlainRelay 0 0, OfferTo PlainRelay 1 0, OfferTo PlainRelay 1 1, OfferTo PlainRelay 0 1])) = [[0, 1], [1, 0]]"
  by (simp add: joined_clients_def new_broadcaster_def new_relay_def BroadcastMessage_def prepare_def on_relay_def
      begin_broadcast_def offer_to_def offer_def on_client_def on_channel_def listeners_def connect_client_def listen_def
      new_channel_def remove_at_def Let_def upt_rec)

text \<open>A client whose connection is gone is never left: its goroutine goes on and it stays counted.\<close>

lemma client_never_leaves:
  assumes "list_all (\<lambda>e. \<exists>k w. e = Receive k n w) es"
  shows "bc_ConnectedClients (foldl (cast env) s es) = bc_ConnectedClients s"
  using assms by (induction es arbitrary: s) (auto simp: on_client_def)

text \<open>What leaves the broadcaster holds no partition inside a mount point, and a snapshot of it changes nothing.\<close>

lemma snapshot_idem: "snapshotMountPointData b (snapshotMountPointData b m) = snapshotMountPointData b m"
  by (simp add: snapshotMountPointData_def)

lemma share_idem: "snapshotSharedResource b (snapshotSharedResource b sh) = snapshotSharedResource b sh"
  by (cases "sr_MountPointData sh") (simp_all add: snapshotSharedResource_def snapshot_idem)

lemma snapshot_map_idem:
  "map (\<lambda>(k, m). (k, snapshotMountPointData b m)) (map (\<lambda>(k, m). (k, snapshotMountPointData b m)) xs)
     = map (\<lambda>(k, m). (k, snapshotMountPointData b m)) xs"
  by (induction xs) (auto simp: snapshot_idem)

lemma partition_idem: "snapshotPartition (snapshotPartition x) = snapshotPartition x"
  by (cases "p_MountPointData x"; cases "p_HostMountPointData x")
    (simp_all add: snapshotPartition_def snapshot_map_idem del: map_map)

lemma disk_idem: "snapshotDisk (snapshotDisk x) = snapshotDisk x"
proof -
  have "map (\<lambda>(k, p). (k, snapshotPartition p)) (map (\<lambda>(k, p). (k, snapshotPartition p)) ps)
      = map (\<lambda>(k, p). (k, snapshotPartition p)) ps" for ps :: "(string \<times> partition) list"
    by (induction ps) (auto simp: partition_idem)
  then show ?thesis by (cases "d_Partitions x") (simp_all add: snapshotDisk_def del: map_map)
qed

lemma sanitize_idem: "SanitizeWebEventData (SanitizeWebEventData m) = SanitizeWebEventData m"
  by (cases m) (simp_all add: snapshot_idem share_idem disk_idem)

end
