(* ===== verification/Event_Bus.thy ===== *)
theory Event_Bus
  imports Srat_Prelude "HOL-Library.Multiset"
begin

text \<open>
  The event bus (\<open>events/event_bus.go\<close>) over the synchronous signals of \<open>maniartech/signals\<close>: one signal per
  event type, whose listeners are called one after the other in the goroutine of the emitter.

  A handler acts on the state of the program and answers; the state also tells whether the context of the bus
  is cancelled. An emission works on the listeners there were when it began. Logging is left out.
\<close>

section \<open>Signals\<close>

datatype answer = HandlerOk | HandlerErr err | HandlerPanic

type_synonym ('e, 's) handler = "'e \<Rightarrow> 's \<Rightarrow> answer \<times> 's"

text \<open>The counter of the keys is shared by all signals.\<close>

record ('e, 's) bus =
  eb_keyCounter :: nat
  eb_listeners :: "(nat \<times> ('e, 's) handler) list"

definition generateKey :: "('e, 's) bus \<Rightarrow> nat \<times> ('e, 's) bus" where
  "generateKey b = (eb_keyCounter b + 1, b\<lparr>eb_keyCounter := eb_keyCounter b + 1\<rparr>)"

text \<open>A key that is there already is refused.\<close>

definition AddListenerWithErr :: "nat \<Rightarrow> ('e, 's) handler \<Rightarrow> ('e, 's) bus \<Rightarrow> ('e, 's) bus" where
  "AddListenerWithErr key h b =
     (if key \<in> fst ` set (eb_listeners b) then b else b\<lparr>eb_listeners := eb_listeners b @ [(key, h)]\<rparr>)"

text \<open>The last listener takes the place of the one that is removed.\<close>

fun swap_remove :: "nat \<Rightarrow> (nat \<times> 'h) list \<Rightarrow> (nat \<times> 'h) list" where
  "swap_remove key [] = []"
| "swap_remove key (x # xs) =
     (if fst x = key then (if xs = [] then [] else last xs # butlast xs) else x # swap_remove key xs)"

definition RemoveListener :: "nat \<Rightarrow> ('e, 's) bus \<Rightarrow> ('e, 's) bus" where
  "RemoveListener key b = b\<lparr>eb_listeners := swap_remove key (eb_listeners b)\<rparr>"

section \<open>Handlers and emissions\<close>

text \<open>A panic of a handler is recovered inside its listener, which then answers without an error.\<close>

definition guarded :: "('e, 's) handler \<Rightarrow> 'e \<Rightarrow> 's \<Rightarrow> err option \<times> 's" where
  "guarded h e s = (case h e s of (HandlerErr x, s1) \<Rightarrow> (Some x, s1) | (_, s1) \<Rightarrow> (None, s1))"

definition onEvent :: "('e, 's) handler \<Rightarrow> ('e, 's) bus \<Rightarrow> nat \<times> ('e, 's) bus" where
  "onEvent h b = (case generateKey b of (key, b1) \<Rightarrow> (key, AddListenerWithErr key h b1))"

definition cancelled_err :: err where
  "cancelled_err = E ErrorOther ''context canceled''"

fun TryEmit :: "('s \<Rightarrow> bool) \<Rightarrow> (nat \<times> ('e, 's) handler) list \<Rightarrow> 'e \<Rightarrow> 's \<Rightarrow> err option \<times> 's" where
  "TryEmit cancelled [] e s = (if cancelled s then Some cancelled_err else None, s)"
| "TryEmit cancelled ((k, h) # hs) e s =
     (if cancelled s then (Some cancelled_err, s)
      else case guarded h e s of
             (Some x, s1) \<Rightarrow> (Some x, s1)
           | (None, s1) \<Rightarrow> TryEmit cancelled hs e s1)"

definition emitEvent :: "('s \<Rightarrow> bool) \<Rightarrow> ('e, 's) bus \<Rightarrow> 'e \<Rightarrow> 's \<Rightarrow> err option \<times> 's" where
  "emitEvent cancelled b e s = TryEmit cancelled (eb_listeners b) e s"

text \<open>Most event types emit without looking at the answer.\<close>

definition emit_ignored :: "('s \<Rightarrow> bool) \<Rightarrow> ('e, 's) bus \<Rightarrow> 'e \<Rightarrow> 's \<Rightarrow> 's" where
  "emit_ignored cancelled b e s = snd (emitEvent cancelled b e s)"

end
