(* ===== verification/Event_Bus_Laws.thy ===== *)
theory Event_Bus_Laws
  imports Event_Bus
begin

text \<open>
  What the event bus guarantees: which handlers an emission reaches and in which order, and that a
  subscription is ended for its handler only.
\<close>

section \<open>Emissions\<close>

text \<open>The reference: the handlers one after the other, whatever they answer.\<close>

definition run_handlers :: "(nat \<times> ('e, 's) handler) list \<Rightarrow> 'e \<Rightarrow> 's \<Rightarrow> 's" where
  "run_handlers hs e s = fold (\<lambda>(k, h) s. snd (h e s)) hs s"

lemma guarded_simps: "snd (guarded h e s) = snd (h e s)"
  "fst (guarded h e s) = (case fst (h e s) of HandlerErr x \<Rightarrow> Some x | _ \<Rightarrow> None)"
  by (simp_all add: guarded_def split: prod.split answer.split)


section \<open>Subscriptions\<close>

definition bus_wf :: "('e, 's) bus \<Rightarrow> bool" where
  "bus_wf b \<longleftrightarrow> distinct (map fst (eb_listeners b)) \<and> (\<forall>k \<in> fst ` set (eb_listeners b). k \<le> eb_keyCounter b)"

lemma swap_remove_mset:
  "distinct (map fst xs) \<Longrightarrow> mset (swap_remove key xs) = filter_mset (\<lambda>x. fst x \<noteq> key) (mset xs)"
proof (induction xs)
  case (Cons x xs)
  have *: "mset (last xs # butlast xs) = mset xs" if "xs \<noteq> []"
    using that by (metis append_butlast_last_id mset.simps(2) mset_append add.commute union_mset_add_mset_right
        mset_single_iff_right add_mset_add_single)
  have "fst x = key \<Longrightarrow> filter_mset (\<lambda>y. fst y \<noteq> key) (mset xs) = mset xs"
    using Cons.prems by (auto simp: filter_mset_eq_conv image_iff)
  then show ?case using Cons * by (cases "xs = []") auto
qed simp

text \<open>A subscription adds its handler at the end under a key of its own, and ending it takes away that
  handler and no other.\<close>

theorem subscribe_unsubscribe:
  assumes "bus_wf b" and "onEvent h b = (key, b1)"
  shows "eb_listeners b1 = eb_listeners b @ [(key, h)] \<and> bus_wf b1 \<and> key \<notin> fst ` set (eb_listeners b)
    \<and> mset (eb_listeners (RemoveListener key b1)) = mset (eb_listeners b)"
proof -
  have fresh: "key \<notin> fst ` set (eb_listeners b)" and b1: "eb_listeners b1 = eb_listeners b @ [(key, h)]"
    and k: "eb_keyCounter b1 = key" "eb_keyCounter b \<le> key"
    using assms by (auto simp: bus_wf_def onEvent_def generateKey_def AddListenerWithErr_def split: if_splits)
  have wf: "bus_wf b1" using assms(1) fresh b1 k by (auto simp: bus_wf_def image_iff intro: order_trans)
  have "mset (swap_remove key (eb_listeners b1)) = filter_mset (\<lambda>x. fst x \<noteq> key) (mset (eb_listeners b1))"
    using wf by (intro swap_remove_mset) (simp add: bus_wf_def)
  also have "\<dots> = mset (eb_listeners b)"
    using fresh by (auto simp: b1 filter_mset_eq_conv image_iff)
  finally show ?thesis using fresh b1 wf by (simp add: RemoveListener_def)
qed

section \<open>What the bus does not promise\<close>

text \<open>A handler that answers with an error hides the event from the handlers that were registered after
  it, in whatever services they are.\<close>

lemma error_hides_event:
  assumes "h e s = (HandlerErr x, s1)" "\<not> cancelled s"
  shows "TryEmit cancelled ((k, h) # hs) e s = (Some x, s1)"
  using assms by (simp add: guarded_def)

text \<open>Ending a subscription changes the order of the others.\<close>

lemma removal_reorders: "swap_remove 1 [(1, f), (2, g), (3, h)] = [(3, h), (2, g)]"
  by simp

end
