(* ===== verification/Spec2Isabelle.thy ===== *)
theory Spec2Isabelle
  imports Disk_Cache Dirty_Data Hd_Idle_Laws Problem_Laws Upgrade_Laws Command_Progress
    Mount_Laws Fs_Service_Laws Volume_Laws Volume_Hardware User_Table_Laws Settings_Laws Server_Process_Laws
    Supervisor_Reconcile Ha_Link_Laws Ha_Bridge_Laws Hardware_Laws Component_Laws
    Config_Watcher_Laws Disk_Stats_Laws Smart_Laws Broadcaster_Laws Event_Bus_Laws
begin

text \<open>
  The services of the SRAT backend, the Go program under \<open>backend/src\<close> that manages disks, Samba
  shares and users for Home Assistant. File names below are relative to that directory.

  \<^bold>\<open>The program.\<close> The backend is a set of services (\<open>service/\<close>) that call each other and react to
  events on a bus. The hardware service turns what the supervisor of Home Assistant reports into disks;
  the volume service keeps them in the disk cache (\<open>dto.DiskMap\<close>), mounts and unmounts their partitions
  through the filesystem adapters and synchronises the cache with the mount table of the kernel. The share
  service exports mount points as shares, the user service keeps their users in step with the accounts
  of the system and of Samba, and the setting service holds the configuration. A change of a share, a user
  or a setting marks the dirty data tracker; five seconds after the last change the server process service
  writes the configuration of Samba and NFS, has it tested and restarts what the marks call for. When
  that has succeeded the supervisor service makes the mounts of Home Assistant follow the shares. Problems
  are kept in a database with a cache, mirrored to Home Assistant as notifications or repairs, and answered
  over a WebSocket. Beside these run the spin-down of idle disks, the update of the program itself and the
  installation of the custom component of Home Assistant.

  \<^bold>\<open>How code is rendered.\<close> A Go function that may fail answers \<open>Ok\<close>, \<open>Err\<close> or \<open>Panic\<close> (type \<open>res\<close>); a
  nil dereference is a \<open>Panic\<close>. A struct is a record, an enumeration a datatype, a pointer an option, a
  bit mask or counter of fixed width a word. A Go map is an association list, whose order is the order of
  one \<open>range\<close> loop, so a theorem about every list holds for every order the runtime picks. State is passed
  explicitly. What is not in this repository (kernel, file system, database queries, the supervisor, HTTP,
  archive, semver, signature and template libraries) is a field of an environment record; what a theorem
  needs of such a field is a named hypothesis (\<open>db_laws\<close>, \<open>supervisor_laws\<close>, ...) that a witness discharges on
  a concrete instance. The hypotheses about the table of users are discharged by the model of its queries
  (\<open>User_Table\<close>), and those about the hardware service by the model of that service (\<open>Volume_Hardware\<close>).
  Log output is left out; what a service announces, broadcasts or asks of the outside is a list in its state.

  \<^bold>\<open>Shared theories.\<close> \<open>Srat_Prelude\<close>: outcomes, Go maps, \<open>strings\<close>, and the two locales for a component that
  is driven by inputs, \<open>invariant_steps\<close> and \<open>monotone_steps\<close>, which are interpreted on the disk cache, the
  executor, the command cache, the filesystem operations, the spin-down service, the volume service, the
  accounts and the users. \<open>Srat_Types\<close>: disks, partitions, mount points, shares. \<open>Go_Path\<close> and
  \<open>Go_Strings\<close>: \<open>path/filepath\<close> and the rest of \<open>strings\<close>. \<open>Go_Enum\<close> and \<open>Enums\<close>: the generated operations on
  enumerations, written once for a table, and the nineteen tables (\<open>dto/*_enums.go\<close>,
  \<open>events/eventtypes_enums.go\<close>), with the round trips of their texts; a text of the database that
  names no value is stored as it is.

  \<^bold>\<open>Disk cache.\<close> \<open>Disk_Map\<close> has every method of \<open>dto/disk_map.go\<close>. \<open>Disk_Views\<close> has the invariant of its keys
  (\<open>dm_wf\<close>), the view of a cache as a map from positions to mount points and the locale \<open>mount_cache\<close> for a
  store of mount points; \<open>Disk_Cache\<close> has the preservation of the invariant and the refinement: the keys of the
  disks hold for any arguments, those of partitions and mount points for arguments that are keyed themselves
  (\<open>op_ok\<close>), because the code stores the maps it is given unchecked.

  \<^bold>\<open>Commands.\<close> \<open>Command_Exec\<close>: \<open>internal/commandexec/runner.go\<close> as a step relation over the goroutines of each
  command, in any order of the scheduler, with the progress reader of the filesystem adapters on top.
  \<open>Command_Exec_Laws\<close> and \<open>Command_Progress\<close>: the protocol of the notifications, the stored output.

  \<^bold>\<open>Filesystems.\<close> \<open>Fs_Base\<close> (\<open>service/filesystem/base_adapter.go\<close>, \<open>detection.go\<close>), \<open>Fs_Adapters\<close> (the twelve
  adapters and \<open>registry.go\<close>), \<open>Mount_Flags\<close> (their tables and the conversions of
  \<open>service/filesystem_service.go\<close> and \<open>dbom/mount_data_flag.go\<close>), \<open>Fs_Service\<close> (formatting, checking and
  aborting in the background, as steps of calls and goroutines). \<open>Fs_Cache\<close>, \<open>Fs_Laws\<close>, \<open>Fs_Results\<close>,
  \<open>Mount_Laws\<close> and \<open>Fs_Service_Laws\<close>: what is cached, what an adapter reports about the command that ran,
  the round trips of flags, one operation per device and the end of every operation. The verdict of a check is
  compared with tables of the exit codes and words of each checker, written apart from the adapters.

  \<^bold>\<open>Volumes and hardware.\<close> \<open>Volume_Mount\<close> (mount and unmount of the adapters, \<open>volume_mount_manager.go\<close>),
  \<open>Volume\<close> (\<open>volume_service.go\<close>, \<open>mount_intelligence.go\<close>, \<open>volume_service_udev_linux.go\<close>), \<open>Volume_Laws\<close>,
  \<open>Volume_Hardware\<close> (both services together);
  \<open>Hardware_Service\<close> and \<open>Hardware_Laws\<close> (\<open>hardware_service.go\<close>, \<open>converter/ha_hardware_to_dto.go\<close>);
  \<open>Hd_Idle\<close> and \<open>Hd_Idle_Laws\<close> (\<open>hdidle_service.go\<close>: which disk is stopped, and when); \<open>Smart_Service\<close> and
  \<open>Smart_Laws\<close> (\<open>smart_service.go\<close>: status, health and self-tests); \<open>Disk_Stats\<close> and \<open>Disk_Stats_Laws\<close>
  (\<open>disk_stats_service.go\<close>: what a tick collects, and which disks it may wake for it).

  \<^bold>\<open>Sharing.\<close> \<open>Settings\<close>, \<open>Settings_Laws\<close> (\<open>setting_service.go\<close>, properties); \<open>Nt_Hash\<close>
  (\<open>internal/osutil/nthash.go\<close>, proved equal to MD4 of RFC 1320 on UTF-16); \<open>Unix_Samba\<close>, \<open>Unix_Samba_Laws\<close>
  (\<open>unixsamba/unixsamba.go\<close>); \<open>User_Service\<close>, \<open>User_Service_Laws\<close>, \<open>User_Table\<close>,
  \<open>User_Table_Laws\<close> (\<open>user_service.go\<close> and the queries of \<open>dbom/query/samba_user_query.go\<close>);
  \<open>Share_Service\<close>, \<open>Share_Service_Laws\<close>;
  \<open>Dirty_Data\<close> (the tracker and its timer); \<open>Samba_Config\<close>, \<open>Samba_Config_Laws\<close> (the record from which the
  configuration is rendered); \<open>Server_Process\<close>, \<open>Server_Process_Laws\<close> (\<open>server_process_service.go\<close>;
  the services are visited in any order, NFS on or off, and the outside may answer differently each time).

  \<^bold>\<open>Home Assistant.\<close> \<open>Supervisor\<close>, \<open>Supervisor_Laws\<close>, \<open>Supervisor_Reconcile\<close> (\<open>supervisor_service.go\<close>);
  \<open>Problem_Store\<close>, \<open>Problem_Laws\<close> (\<open>problem_service.go\<close>); \<open>Repair_Service\<close>, \<open>Ha_Link_Laws\<close> (\<open>repair_service.go\<close>
  and the inbound messages of \<open>api/ws.go\<close>); \<open>Problem_HA_Bridge\<close>, \<open>Ha_Bridge_Laws\<close> (\<open>problem_ha_bridge.go\<close>,
  with a notification service that may fail);
  \<open>Component_Service\<close>, \<open>Component_Laws\<close> (\<open>homeassistant_component_service.go\<close>); \<open>Config_Watcher\<close>,
  \<open>Config_Watcher_Laws\<close> (\<open>addon_config_watcher_service.go\<close>, its three goroutines in any order, a read of the
  file that is overtaken by a change included).

  \<^bold>\<open>Events.\<close> \<open>Event_Bus\<close>, \<open>Event_Bus_Laws\<close> (\<open>events/event_bus.go\<close> over the signals of \<open>maniartech/signals\<close>): one
  event type, its listeners and an emission. \<open>Broadcaster\<close>, \<open>Broadcaster_Laws\<close> (\<open>broadcaster_service.go\<close>,
  \<open>dto/webevent_snapshot.go\<close> and the sender of \<open>api/ws.go\<close>): which messages reach the clients, with one goroutine
  per client and the relays of \<open>teivah/broadcast\<close> with their locks: any number of broadcasts may be under way
  at once, each of them offering to one client after the other.

  \<^bold>\<open>Update.\<close> \<open>Upgrade\<close>, \<open>Upgrade_Laws\<close> (\<open>upgrade_service.go\<close>): which release is offered, and that nothing is
  installed that is unsigned, lies outside its directory, or is older than the program it was compared with,
  as far as both versions can be read. For the variants \<open>srat-server-*\<close> that program is the one behind the
  link, not the file that is replaced (\<open>newer_variant_replaced\<close>).

  \<^bold>\<open>Bounds.\<close> A mount point event runs its handlers at once and a handler may mount, which emits the next
  event: the nesting is bounded by \<open>event_depth\<close> = 3 with the mark \<open>VeStuck\<close> beyond, and \<open>mount_events_end\<close>
  shows that no deeper nesting changes anything and that the mark is never set. The reading of UTF-8 in
  \<open>Go_Strings\<close> has the length of its input as fuel, and each step takes a byte. A mount that is
  asked of the supervisor is tried again at most three times, as in the code. The loops of MD4 over padding
  and blocks end by a measure. Goroutines have no fuel: they are steps, and the properties hold after every
  sequence of steps; that a filesystem operation ends is the theorem \<open>operation_frees_device\<close>.

  \<^bold>\<open>Not modelled.\<close> The HTTP handlers (\<open>api/\<close>, but for the inbound messages of \<open>ws.go\<close>), the router and the
  wiring of \<open>cmd/\<close> and \<open>server/\<close>: glue around the services. A service whose handler runs inside an emission is called by the
  model of the emitter, and does not go through \<open>Event_Bus\<close>. The rates of the
  disk and network statistics, which are floating point. The clients of Home Assistant, the
  add-on service, mDNS, telemetry and issue reports: they pass on what an outside library answers, and
  the services that use them take those answers as parameters. A method of the problem service is one step,
  although the code locks the cache only, and so is the comparison of a dirty data event with the last hash
  in the broadcaster. What is cached about S.M.A.R.T. does not expire within a tick of the disk statistics,
  and a panic of such a call counts as its error. The database schema, its migrations,
  the generated clients and the queries but for those on users.
\<close>

end
